(* ===== verification/Prelude.thy ===== *)
theory Prelude
  imports Complex_Main
    "HOL-Library.Char_ord" "HOL-Library.List_Lexorder" "HOL-Library.Product_Lexorder"
begin

text \<open>
  The shared base of the development: what the components use of Python and of SQL.
  \<^item> Errors are values: an operation that may raise returns \<open>pyerr + 'a\<close>, with \<open>Inl\<close> for
    the exception; \<open>rbind\<close> sequences two such operations.
  \<^item> A Python \<open>str\<close> is a \<open>string\<close> whose characters are the code points 0 to 255 (Latin-1);
    \<open>strip\<close>, \<open>lower\<close>, \<open>split\<close>, \<open>int()\<close> and \<open>str()\<close> follow Python on that range.
  \<^item> A Python \<open>float\<close> is an exact rational (rounding is not modelled).
  \<^item> A table is a list of row records in insertion order; \<open>update_where\<close>, \<open>find_row\<close> and
    \<open>count_where\<close> are the SQL statements the storage layer issues.
\<close>

section \<open>Collections of simplification rules\<close>

named_theorems text_simps \<open>equations of the Python text functions\<close>
named_theorems table_simps \<open>equations of the table operations\<close>
named_theorems res_simps \<open>equations and inversions of the result monad\<close>

section \<open>Exceptions and results\<close>

datatype pyerr =
    ValueError string
  | KeyError string
  | TypeError string
  | OverflowError string
  | AttributeError string
  | RuntimeError string
  | ValidationError string string
  | BudgetExceeded string int "int option" "int option"
  | QuotaExceeded string int "int option" "int option"
  | DatabaseError string
  | NotFound string string
  | Conflict string string
  | ExecutorLeaseLost string
  | ExecutorBusy string
  | PolicyVersionConflict string
  | ProviderRequestStopped string
  | ProviderResponseTooLarge int int "int option" string
  | ProviderResponseEncodingError string int string
  | ProviderResponseDeadlineExceeded rat int "int option" string
  | OSError string
  | EvidencePreparationRequired string
  | NormalizationStopped string
  | NetworkError string
  | ArchiveJobStopped string

type_synonym 'a result = "pyerr + 'a"

definition rbind :: "'a result \<Rightarrow> ('a \<Rightarrow> 'b result) \<Rightarrow> 'b result" where
  "rbind m f = (case m of Inl e \<Rightarrow> Inl e | Inr x \<Rightarrow> f x)"

definition rguard :: "bool \<Rightarrow> pyerr \<Rightarrow> unit result" where
  "rguard ok e = (if ok then Inr () else Inl e)"

fun rmap :: "('a \<Rightarrow> 'b result) \<Rightarrow> 'a list \<Rightarrow> 'b list result" where
  "rmap f [] = Inr []"
| "rmap f (x # xs) = rbind (f x) (\<lambda>y. rbind (rmap f xs) (\<lambda>ys. Inr (y # ys)))"

lemma rbind_simps [simp]:
  "rbind (Inl e) f = Inl e"
  "rbind (Inr x) f = f x"
  by (simp_all add: rbind_def)

lemma rbind_eq_Inr [res_simps]: "rbind m f = Inr y \<longleftrightarrow> (\<exists>x. m = Inr x \<and> f x = Inr y)"
  by (cases m) auto

lemma rbind_eq_Inl [res_simps]:
  "rbind m f = Inl e \<longleftrightarrow> m = Inl e \<or> (\<exists>x. m = Inr x \<and> f x = Inl e)"
  by (cases m) auto

lemma rguard_eq_Inr [res_simps, simp]: "rguard b e = Inr u \<longleftrightarrow> b"
  by (simp add: rguard_def)

lemma rguard_eq_Inl [res_simps, simp]: "rguard b e = Inl e' \<longleftrightarrow> \<not> b \<and> e = e'"
  by (simp add: rguard_def)

lemma rguard_simps [simp]: "rguard True e = Inr ()" "rguard False e = Inl e"
  by (simp_all add: rguard_def)

lemma rmap_length: "rmap f xs = Inr ys \<Longrightarrow> length ys = length xs"
  by (induction xs arbitrary: ys) (auto simp: res_simps)

lemma rmap_nth: "rmap f xs = Inr ys \<Longrightarrow> i < length xs \<Longrightarrow> f (xs ! i) = Inr (ys ! i)"
proof (induction xs arbitrary: ys i)
  case (Cons x xs)
  then show ?case by (cases i) (auto simp: res_simps)
qed simp

section \<open>Python text\<close>

definition is_space :: "char \<Rightarrow> bool" where
  "is_space c \<longleftrightarrow> (of_char c :: nat) \<in> {9, 10, 11, 12, 13, 28, 29, 30, 31, 32, 133, 160}"

definition lower_char :: "char \<Rightarrow> char" where
  "lower_char c = (let n = (of_char c :: nat) in
     if (65 \<le> n \<and> n \<le> 90) \<or> (192 \<le> n \<and> n \<le> 222 \<and> n \<noteq> 215) then char_of (n + 32) else c)"

definition lower :: "string \<Rightarrow> string" where
  "lower s = map lower_char s"

definition strip :: "string \<Rightarrow> string" where
  "strip s = rev (dropWhile is_space (rev (dropWhile is_space s)))"

definition is_digit :: "char \<Rightarrow> bool" where
  "is_digit c \<longleftrightarrow> 48 \<le> (of_char c :: nat) \<and> (of_char c :: nat) \<le> 57"

definition is_ascii_alnum :: "char \<Rightarrow> bool" where
  "is_ascii_alnum c \<longleftrightarrow> is_digit c
     \<or> (65 \<le> (of_char c :: nat) \<and> (of_char c :: nat) \<le> 90)
     \<or> (97 \<le> (of_char c :: nat) \<and> (of_char c :: nat) \<le> 122)"

definition starts_with :: "string \<Rightarrow> string \<Rightarrow> bool" where
  "starts_with p s \<longleftrightarrow> take (length p) s = p"

definition ends_with :: "string \<Rightarrow> string \<Rightarrow> bool" where
  "ends_with p s \<longleftrightarrow> length p \<le> length s \<and> drop (length s - length p) s = p"

text \<open>\<open>s.split(c, 1)\<close> as a pair: the text before the first separator, and what follows it.\<close>

fun split1 :: "char \<Rightarrow> string \<Rightarrow> string \<times> string option" where
  "split1 c [] = ([], None)"
| "split1 c (x # xs) = (if x = c then ([], Some xs)
     else (let (a, b) = split1 c xs in (x # a, b)))"

text \<open>\<open>s.split(c)\<close>: all fields.\<close>

fun split_on :: "char \<Rightarrow> string \<Rightarrow> string list" where
  "split_on c [] = [[]]"
| "split_on c (x # xs) = (if x = c then [] # split_on c xs
     else (case split_on c xs of [] \<Rightarrow> [[x]] | f # fs \<Rightarrow> (x # f) # fs))"

text \<open>\<open>s.split()\<close>: the maximal runs of non-space characters.\<close>

fun words_acc :: "string \<Rightarrow> string \<Rightarrow> string list" where
  "words_acc cur [] = (if cur = [] then [] else [rev cur])"
| "words_acc cur (x # xs) = (if is_space x
     then (if cur = [] then words_acc [] xs else rev cur # words_acc [] xs)
     else words_acc (x # cur) xs)"

definition split_words :: "string \<Rightarrow> string list" where
  "split_words s = words_acc [] s"

fun join :: "string \<Rightarrow> string list \<Rightarrow> string" where
  "join sep [] = []"
| "join sep [x] = x"
| "join sep (x # y # ys) = x @ sep @ join sep (y # ys)"

subsection \<open>Decimal integers\<close>

definition digit_char :: "nat \<Rightarrow> char" where
  "digit_char d = char_of (48 + d)"

definition digit_val :: "char \<Rightarrow> nat" where
  "digit_val c = of_char c - 48"

fun str_nat :: "nat \<Rightarrow> string" where
  "str_nat n = (if n < 10 then [digit_char n] else str_nat (n div 10) @ [digit_char (n mod 10)])"

declare str_nat.simps [simp del]

definition str_int :: "int \<Rightarrow> string" where
  "str_int i = (if i < 0 then CHR ''-'' # str_nat (nat (- i)) else str_nat (nat i))"

text \<open>The digits of a Python integer literal: single underscores may separate digits.\<close>

fun digits_val :: "nat \<Rightarrow> string \<Rightarrow> nat option" where
  "digits_val acc [] = Some acc"
| "digits_val acc (c # cs) =
     (if is_digit c then digits_val (10 * acc + digit_val c) cs
      else if c = CHR ''_'' then
        (case cs of [] \<Rightarrow> None
         | d # ds \<Rightarrow> if is_digit d then digits_val (10 * acc + digit_val d) ds else None)
      else None)"

definition nat_literal :: "string \<Rightarrow> nat option" where
  "nat_literal s = (case s of [] \<Rightarrow> None
     | c # cs \<Rightarrow> if is_digit c then digits_val (digit_val c) cs else None)"

text \<open>\<open>int(s)\<close> of a string, \<open>None\<close> where Python raises \<open>ValueError\<close>.\<close>

definition parse_int :: "string \<Rightarrow> int option" where
  "parse_int s = (case strip s of
       [] \<Rightarrow> None
     | c # cs \<Rightarrow>
         if c = CHR ''-'' then map_option (\<lambda>n. - int n) (nat_literal cs)
         else if c = CHR ''+'' then map_option int (nat_literal cs)
         else map_option int (nat_literal (c # cs)))"

text \<open>\<open>int(x)\<close> of a finite float truncates towards zero.\<close>

definition trunc_rat :: "rat \<Rightarrow> int" where
  "trunc_rat r = (if 0 \<le> r then \<lfloor>r\<rfloor> else \<lceil>r\<rceil>)"

subsection \<open>Laws of the text functions\<close>

lemma lower_char_idem [simp]: "lower_char (lower_char c) = lower_char c"
proof -
  have n: "(of_char c :: nat) < 256" by simp
  show ?thesis
    using n by (auto simp: lower_char_def Let_def of_char_of)
qed

lemma is_space_lower_char [simp]: "is_space (lower_char c) = is_space c"
proof -
  have n: "(of_char c :: nat) < 256" by simp
  show ?thesis
    using n by (auto simp: lower_char_def is_space_def Let_def of_char_of)
qed

lemma lower_idem [simp, text_simps]: "lower (lower s) = lower s"
  by (simp add: lower_def)

lemma length_lower [simp]: "length (lower s) = length s"
  by (simp add: lower_def)

lemma lower_Nil_iff [simp]: "lower s = [] \<longleftrightarrow> s = []"
  by (simp add: lower_def)

lemma dropWhile_space_lower: "dropWhile is_space (lower s) = lower (dropWhile is_space s)"
  by (induction s) (auto simp: lower_def)

lemma strip_lower [text_simps]: "strip (lower s) = lower (strip s)"
proof -
  have rev_lower: "rev (lower t) = lower (rev t)" for t
    by (simp add: lower_def rev_map)
  show ?thesis
    by (simp add: strip_def dropWhile_space_lower rev_lower)
qed

lemma dropWhile_hd: "dropWhile P xs \<noteq> [] \<Longrightarrow> \<not> P (hd (dropWhile P xs))"
  by (rule hd_dropWhile)

lemma strip_edges:
  assumes "strip s \<noteq> []"
  shows "\<not> is_space (hd (strip s))" "\<not> is_space (last (strip s))"
proof -
  let ?a = "dropWhile is_space s"
  let ?b = "dropWhile is_space (rev ?a)"
  have b: "?b \<noteq> []" using assms by (simp add: strip_def)
  have "last (strip s) = hd ?b" using b by (simp add: strip_def last_rev)
  then show "\<not> is_space (last (strip s))" using dropWhile_hd [OF b] by simp
  have a: "?a \<noteq> []" using b by (metis dropWhile.simps(1) rev.simps(1))
  have suf: "rev ?a = takeWhile is_space (rev ?a) @ ?b" by simp
  then have "?a = rev ?b @ rev (takeWhile is_space (rev ?a))"
    by (metis rev_append rev_rev_ident)
  then have "hd ?a = hd (rev ?b)" using b by (metis hd_append2 rev_is_Nil_conv)
  then show "\<not> is_space (hd (strip s))" using dropWhile_hd [OF a] by (simp add: strip_def)
qed

lemma strip_unchanged:
  assumes "s \<noteq> [] \<Longrightarrow> \<not> is_space (hd s)" and "s \<noteq> [] \<Longrightarrow> \<not> is_space (last s)"
  shows "strip s = s"
proof (cases "s = []")
  case False
  have "dropWhile is_space s = s"
    using assms(1) False by (cases s) auto
  moreover have "dropWhile is_space (rev s) = rev s"
    using assms(2) False by (cases "rev s") (auto simp: last_conv_nth hd_rev [symmetric])
  ultimately show ?thesis by (simp add: strip_def)
qed (simp add: strip_def)

lemma strip_idem [simp, text_simps]: "strip (strip s) = strip s"
  by (rule strip_unchanged) (auto dest: strip_edges)

lemma strip_Nil [simp]: "strip [] = []"
  by (simp add: strip_def)

lemma set_strip: "set (strip s) \<subseteq> set s"
proof -
  have "set (strip s) \<subseteq> set (dropWhile is_space s)"
    by (simp add: strip_def) (metis set_dropWhileD set_rev subsetI)
  then show ?thesis by (meson set_dropWhileD subset_iff)
qed

lemma strip_no_space: "(\<And>c. c \<in> set s \<Longrightarrow> \<not> is_space c) \<Longrightarrow> strip s = s"
  by (rule strip_unchanged) auto

lemma digit_char_props:
  assumes "d < 10"
  shows "is_digit (digit_char d)" "digit_val (digit_char d) = d" "\<not> is_space (digit_char d)"
    "digit_char d \<noteq> CHR ''-''" "digit_char d \<noteq> CHR ''+''"
proof -
  have c: "(of_char (digit_char d) :: nat) = 48 + d"
    using assms by (simp add: digit_char_def of_char_of)
  show "is_digit (digit_char d)" using assms c by (simp add: is_digit_def)
  show "digit_val (digit_char d) = d" using c by (simp add: digit_val_def)
  show "\<not> is_space (digit_char d)" using assms c by (auto simp: is_space_def)
  show "digit_char d \<noteq> CHR ''-''" "digit_char d \<noteq> CHR ''+''"
    using c by auto
qed

lemma str_nat_digits: "c \<in> set (str_nat n) \<Longrightarrow> is_digit c"
proof (induction n rule: str_nat.induct)
  case (1 n)
  show ?case
  proof (cases "n < 10")
    case True
    then show ?thesis using 1 by (simp add: str_nat.simps [of n] digit_char_props)
  next
    case False
    then have "c \<in> set (str_nat (n div 10)) \<or> c = digit_char (n mod 10)"
      using 1(2) by (subst (asm) str_nat.simps) auto
    then show ?thesis using 1(1) [OF False] digit_char_props(1) [of "n mod 10"] by auto
  qed
qed

lemma str_nat_not_Nil [simp]: "str_nat n \<noteq> []"
  by (subst str_nat.simps) simp

lemma digits_val_append:
  "(\<And>c. c \<in> set xs \<Longrightarrow> is_digit c) \<Longrightarrow>
   digits_val acc (xs @ ys) = digits_val (foldl (\<lambda>a c. 10 * a + digit_val c) acc xs) ys"
  by (induction xs arbitrary: acc) auto

definition digits_fold :: "string \<Rightarrow> nat" where
  "digits_fold xs = foldl (\<lambda>a c. 10 * a + digit_val c) 0 xs"

lemma digits_fold_str_nat [simp]: "digits_fold (str_nat n) = n"
proof (induction n rule: str_nat.induct)
  case (1 n)
  show ?case
  proof (cases "n < 10")
    case True
    then show ?thesis by (simp add: str_nat.simps [of n] digits_fold_def digit_char_props)
  next
    case False
    then show ?thesis
      using 1 [OF False] by (subst str_nat.simps) (simp add: digits_fold_def digit_char_props)
  qed
qed

lemma nat_literal_digits:
  assumes "xs \<noteq> []" "\<And>c. c \<in> set xs \<Longrightarrow> is_digit c"
  shows "nat_literal xs = Some (digits_fold xs)"
proof -
  obtain c cs where xs: "xs = c # cs" using assms(1) by (cases xs) auto
  have "digits_val (digit_val c) (cs @ []) = Some (foldl (\<lambda>a c. 10 * a + digit_val c) (digit_val c) cs)"
    using assms(2) xs by (subst digits_val_append) auto
  then show ?thesis using assms(2) xs by (simp add: nat_literal_def digits_fold_def)
qed

lemma nat_literal_str_nat [simp]: "nat_literal (str_nat n) = Some n"
  using nat_literal_digits [of "str_nat n"] str_nat_digits by simp

lemma is_digit_not_space: "is_digit c \<Longrightarrow> \<not> is_space c"
  by (auto simp: is_digit_def is_space_def)

lemma str_nat_hd: "is_digit (hd (str_nat n))"
  using str_nat_digits [of "hd (str_nat n)" n] by simp

text \<open>Printing an integer and reading it back is the identity.\<close>

lemma parse_int_str_int [simp, text_simps]: "parse_int (str_int i) = Some i"
proof -
  have minus: "\<not> is_space CHR ''-''" by (simp add: is_space_def)
  have st: "strip (str_int i) = str_int i"
    by (rule strip_no_space)
       (auto simp: str_int_def minus split: if_splits dest: str_nat_digits is_digit_not_space)
  show ?thesis
  proof (cases "i < 0")
    case True
    then show ?thesis by (simp add: parse_int_def st) (simp add: str_int_def)
  next
    case False
    obtain c cs where cs: "str_nat (nat i) = c # cs" by (cases "str_nat (nat i)") auto
    have d: "is_digit c" using str_nat_hd [of "nat i"] cs by simp
    have "c \<noteq> CHR ''-''" "c \<noteq> CHR ''+''" using d by (auto simp: is_digit_def)
    then show ?thesis
      using False cs nat_literal_str_nat [of "nat i"]
      by (simp add: parse_int_def st) (simp add: str_int_def)
  qed
qed

lemma str_int_inj: "str_int i = str_int j \<Longrightarrow> i = j"
  by (metis option.inject parse_int_str_int)

section \<open>Tables\<close>

text \<open>
  A table is a list of rows. \<open>update_where p f\<close> is \<open>UPDATE .. WHERE p\<close>, \<open>find_row p\<close> the first
  row of a \<open>SELECT .. WHERE p\<close> in table order, \<open>count_where\<close> a \<open>COUNT(*)\<close>.
\<close>

definition update_where :: "('r \<Rightarrow> bool) \<Rightarrow> ('r \<Rightarrow> 'r) \<Rightarrow> 'r list \<Rightarrow> 'r list" where
  "update_where p f rows = map (\<lambda>r. if p r then f r else r) rows"

definition find_row :: "('r \<Rightarrow> bool) \<Rightarrow> 'r list \<Rightarrow> 'r option" where
  "find_row p rows = List.find p rows"

definition count_where :: "('r \<Rightarrow> bool) \<Rightarrow> 'r list \<Rightarrow> int" where
  "count_where p rows = int (length (filter p rows))"

text \<open>SQL's three-valued comparison of a nullable column with a value.\<close>

definition eq_opt :: "'a option \<Rightarrow> 'a \<Rightarrow> bool" where
  "eq_opt x y \<longleftrightarrow> x = Some y"

text \<open>The filter \<open>(%s IS NULL OR column=%s)\<close>.\<close>

definition opt_filter :: "'a option \<Rightarrow> 'a option \<Rightarrow> bool" where
  "opt_filter param col \<longleftrightarrow> (case param of None \<Rightarrow> True | Some v \<Rightarrow> col = Some v)"

text \<open>\<open>COALESCE\<close>.\<close>

definition coalesce :: "'a option \<Rightarrow> 'a \<Rightarrow> 'a" where
  "coalesce x y = (case x of None \<Rightarrow> y | Some v \<Rightarrow> v)"

lemma coalesce_simps [simp]: "coalesce None y = y" "coalesce (Some v) y = v"
  by (simp_all add: coalesce_def)

lemma opt_filter_simps [simp]: "opt_filter None c" "opt_filter (Some v) c \<longleftrightarrow> c = Some v"
  by (simp_all add: opt_filter_def)

lemma length_update_where [simp, table_simps]: "length (update_where p f rows) = length rows"
  by (simp add: update_where_def)

lemma update_where_Nil [simp]: "update_where p f [] = []"
  by (simp add: update_where_def)

lemma update_where_Cons [simp]:
  "update_where p f (r # rows) = (if p r then f r else r) # update_where p f rows"
  by (simp add: update_where_def)

lemma update_where_append [simp]:
  "update_where p f (xs @ ys) = update_where p f xs @ update_where p f ys"
  by (simp add: update_where_def)

lemma set_update_where [table_simps]:
  "set (update_where p f rows) = (\<lambda>r. if p r then f r else r) ` set rows"
  by (simp add: update_where_def)

lemma update_where_unchanged: "(\<And>r. r \<in> set rows \<Longrightarrow> \<not> p r) \<Longrightarrow> update_where p f rows = rows"
  by (induction rows) (auto)

lemma map_update_where:
  "(\<And>r. k (f r) = k r) \<Longrightarrow> map k (update_where p f rows) = map k rows"
  by (simp add: update_where_def)

lemma find_row_Some: "find_row p rows = Some r \<Longrightarrow> r \<in> set rows \<and> p r"
  unfolding find_row_def by (metis find_Some_iff nth_mem)

lemma find_row_None: "find_row p rows = None \<longleftrightarrow> (\<forall>r \<in> set rows. \<not> p r)"
  by (auto simp: find_row_def find_None_iff)

lemma find_row_Nil [simp]: "find_row p [] = None"
  by (simp add: find_row_def)

lemma find_row_Cons [simp]: "find_row p (r # rows) = (if p r then Some r else find_row p rows)"
  by (simp add: find_row_def)

lemma find_row_append:
  "find_row p (xs @ ys) = (case find_row p xs of None \<Rightarrow> find_row p ys | Some r \<Rightarrow> Some r)"
  by (induction xs) auto

lemma find_row_update_where:
  "(\<And>r. p (f r) = p r) \<Longrightarrow> find_row p (update_where p f rows) = map_option f (find_row p rows)"
  by (induction rows) auto

lemma find_row_cong: "(\<And>r. r \<in> set rows \<Longrightarrow> p r = q r) \<Longrightarrow> find_row p rows = find_row q rows"
  by (induction rows) auto

lemma count_where_Nil [simp]: "count_where p [] = 0"
  by (simp add: count_where_def)

lemma count_where_Cons [simp]:
  "count_where p (r # rows) = (if p r then 1 else 0) + count_where p rows"
  by (simp add: count_where_def)

lemma count_where_append [simp]: "count_where p (xs @ ys) = count_where p xs + count_where p ys"
  by (simp add: count_where_def)

lemma count_where_nonneg [simp]: "0 \<le> count_where p rows"
  by (simp add: count_where_def)

lemma count_where_le_length: "count_where p rows \<le> int (length rows)"
  by (simp add: count_where_def)

lemma count_where_mono:
  "(\<And>r. r \<in> set rows \<Longrightarrow> p r \<Longrightarrow> q r) \<Longrightarrow> count_where p rows \<le> count_where q rows"
  by (induction rows) auto

lemma count_where_zero: "count_where p rows = 0 \<longleftrightarrow> (\<forall>r \<in> set rows. \<not> p r)"
  by (auto simp: count_where_def filter_empty_conv)

lemma count_where_filter: "count_where q (filter p rows) = count_where (\<lambda>r. p r \<and> q r) rows"
  by (simp add: count_where_def conj_commute)

lemma count_where_update_cong:
  "(\<And>r. r \<in> set rows \<Longrightarrow> q (if p r then f r else r) = q r) \<Longrightarrow>
   count_where q (update_where p f rows) = count_where q rows"
  by (induction rows) auto

subsection \<open>Ordered queries\<close>

text \<open>Facts on \<open>ORDER BY\<close> with \<open>LIMIT\<close>: sorting by a key that an update keeps, and what a limit leaves out.\<close>

lemma length_filter_mono:
  "(\<And>x. x \<in> set xs \<Longrightarrow> P x \<Longrightarrow> Q x) \<Longrightarrow> length (filter P xs) \<le> length (filter Q xs)"
  by (induction xs) auto

lemma insort_key_map: "(\<And>x. k (g x) = k x) \<Longrightarrow> insort_key k (g x) (map g xs) = map g (insort_key k x xs)"
  by (induction xs) auto

lemma sort_key_map: "(\<And>x. k (g x) = k x) \<Longrightarrow> sort_key k (map g xs) = map g (sort_key k xs)"
  by (induction xs) (auto simp: insort_key_map)

lemma sort_key_update_where:
  "(\<And>r. k (f r) = k r) \<Longrightarrow> sort_key k (update_where p f rows) = update_where p f (sort_key k rows)"
  unfolding update_where_def by (rule sort_key_map) simp

lemma find_Some: "List.find P xs = Some x \<Longrightarrow> x \<in> set xs \<and> P x"
  by (auto simp: find_Some_iff)

lemma sorted_take_rest:
  assumes "x \<in> set xs" "x \<notin> set (take n (sort_key f xs))" "take n (sort_key f xs) \<noteq> []"
  shows "f (last (take n (sort_key f xs))) \<le> f x"
proof -
  let ?s = "sort_key f xs"
  have "x \<in> set (drop n ?s)"
    using assms(1,2) by (metis Un_iff append_take_drop_id set_append set_sort)
  moreover have "sorted (map f (take n ?s) @ map f (drop n ?s))"
    unfolding map_append [symmetric] append_take_drop_id by simp
  ultimately show ?thesis using last_in_set [OF assms(3)] unfolding sorted_append by (metis image_eqI set_map)
qed

subsection \<open>Tables with a primary key\<close>

text \<open>
  The contract between a table and its clients: rows carry a key, and an update statement
  never changes it. Every table of the model interprets this locale with its key column and
  its update functions, and the client lemmas below are used through those interpretations.
\<close>

locale keyed_table =
  fixes key :: "'r \<Rightarrow> 'k"
begin

definition unique_keys :: "'r list \<Rightarrow> bool" where
  "unique_keys rows \<longleftrightarrow> distinct (map key rows)"

definition lookup :: "'k \<Rightarrow> 'r list \<Rightarrow> 'r option" where
  "lookup k rows = find_row (\<lambda>r. key r = k) rows"

lemma lookup_Some: "lookup k rows = Some r \<Longrightarrow> r \<in> set rows \<and> key r = k"
  unfolding lookup_def by (drule find_row_Some) simp

lemma lookup_unique: "unique_keys rows \<Longrightarrow> r \<in> set rows \<Longrightarrow> lookup (key r) rows = Some r"
  unfolding lookup_def unique_keys_def
  by (induction rows) (auto simp: image_iff)

lemma lookup_None: "lookup k rows = None \<longleftrightarrow> k \<notin> key ` set rows"
  unfolding lookup_def by (auto simp: find_row_None)

lemma unique_keys_snoc:
  "unique_keys rows \<Longrightarrow> key r \<notin> key ` set rows \<Longrightarrow> unique_keys (rows @ [r])"
  by (auto simp: unique_keys_def)

lemma unique_keys_update:
  "unique_keys rows \<Longrightarrow> (\<And>r. key (f r) = key r) \<Longrightarrow> unique_keys (update_where p f rows)"
  by (simp add: unique_keys_def map_update_where)

lemma lookup_update:
  assumes "\<And>r. key (f r) = key r"
  shows "lookup k (update_where p f rows) =
    map_option (\<lambda>r. if p r then f r else r) (lookup k rows)"
  unfolding lookup_def by (induction rows) (auto simp: assms)

lemma lookup_update_key:
  assumes "\<And>r. key (f r) = key r"
  shows "lookup k (update_where (\<lambda>r. key r = k') f rows) =
    (if k = k' then map_option f (lookup k rows) else lookup k rows)"
proof (cases "lookup k rows")
  case None
  then show ?thesis by (auto simp: lookup_update [OF assms])
next
  case (Some r)
  then have "key r = k" by (auto dest: lookup_Some)
  with Some show ?thesis by (auto simp: lookup_update [OF assms])
qed

lemma unique_key_eq:
  "unique_keys rows \<Longrightarrow> r \<in> set rows \<Longrightarrow> s \<in> set rows \<Longrightarrow> key r = key s \<Longrightarrow> r = s"
  unfolding unique_keys_def by (metis distinct_map inj_onD)

lemma count_key:
  assumes "unique_keys rows"
  shows "count_where (\<lambda>r. key r = k) rows = (if k \<in> key ` set rows then 1 else 0)"
  using assms unfolding unique_keys_def by (induction rows) auto

lemma count_at_key:
  assumes "unique_keys rows" "r \<in> set rows"
  shows "count_where (\<lambda>x. key x = key r \<and> Q x) rows = (if Q r then 1 else 0)"
  using assms
proof (induction rows)
  case (Cons a rows)
  have "x \<in> set rows \<Longrightarrow> key x \<noteq> key a" for x
    using Cons.prems(1) by (auto simp: unique_keys_def image_iff)
  then have "count_where (\<lambda>x. key x = key a \<and> Q x) rows = 0"
    by (auto simp: count_where_zero)
  then show ?case using Cons by (cases "r = a") (auto simp: unique_keys_def)
qed simp

end

end
