(* ===== verification/Json.thy ===== *)
theory Json
  imports Prelude
begin

text \<open>
  JSON values as \<open>json.loads\<close> returns them, the Python operations the parsers apply to them
  (\<open>get\<close>, truthiness, \<open>isinstance\<close>, \<open>str\<close>, \<open>int\<close>), and \<open>json.dumps\<close> with sorted keys and compact
  separators, the canonical text behind every hash of the program. A float is the text of its
  shortest representation; an object keeps its keys in insertion order. The theory shows that
  the canonical text determines the value up to the order of object keys.
\<close>

section \<open>Values\<close>

datatype pyfloat = Finite string | Infinity bool | NaN

datatype json =
    JNull
  | JBool bool
  | JInt int
  | JFloat pyfloat
  | JStr string
  | JList "json list"
  | JObj "(string \<times> json) list"

text \<open>The value of a finite float's text: sign, digits, optional fraction, optional exponent.\<close>

fun span_digits :: "string \<Rightarrow> string \<times> string" where
  "span_digits [] = ([], [])"
| "span_digits (c # cs) = (if is_digit c then (let (a, b) = span_digits cs in (c # a, b))
     else ([], c # cs))"

definition decimal_exponent :: "string \<Rightarrow> int" where
  "decimal_exponent s = (case s of
       [] \<Rightarrow> 0
     | e # cs \<Rightarrow> (case cs of
           [] \<Rightarrow> 0
         | sg # ds \<Rightarrow> if sg = CHR ''-'' then - int (digits_fold (fst (span_digits ds)))
                     else if sg = CHR ''+'' then int (digits_fold (fst (span_digits ds)))
                     else int (digits_fold (fst (span_digits cs)))))"

definition unsigned_decimal :: "string \<Rightarrow> rat" where
  "unsigned_decimal s =
     (let (whole, rest) = span_digits s;
          (frac, expo) = (case rest of
              [] \<Rightarrow> ([], [])
            | c # cs \<Rightarrow> if c = CHR ''.'' then span_digits cs else ([], rest));
          mantissa = of_nat (digits_fold (whole @ frac)) / 10 ^ length frac;
          x = decimal_exponent expo
      in if 0 \<le> x then mantissa * 10 ^ nat x else mantissa / 10 ^ nat (- x))"

definition float_value :: "string \<Rightarrow> rat" where
  "float_value s = (case s of [] \<Rightarrow> 0
     | c # cs \<Rightarrow> if c = CHR ''-'' then - unsigned_decimal cs else unsigned_decimal s)"

section \<open>Python's view of a value\<close>

definition truthy :: "json \<Rightarrow> bool" where
  "truthy v = (case v of
       JNull \<Rightarrow> False
     | JBool b \<Rightarrow> b
     | JInt i \<Rightarrow> i \<noteq> 0
     | JFloat f \<Rightarrow> (case f of Finite s \<Rightarrow> float_value s \<noteq> 0 | _ \<Rightarrow> True)
     | JStr s \<Rightarrow> s \<noteq> []
     | JList xs \<Rightarrow> xs \<noteq> []
     | JObj kvs \<Rightarrow> kvs \<noteq> [])"

text \<open>The expression \<open>a or b\<close>.\<close>

definition py_or :: "json \<Rightarrow> json \<Rightarrow> json" where
  "py_or a b = (if truthy a then a else b)"

text \<open>\<open>d.get(k, default)\<close> on a dict; anything else has no such attribute.\<close>

definition get_default :: "json \<Rightarrow> string \<Rightarrow> json \<Rightarrow> json result" where
  "get_default v k d = (case v of
       JObj kvs \<Rightarrow> Inr (coalesce (map_of kvs k) d)
     | _ \<Rightarrow> Inl (AttributeError ''get''))"

definition get :: "json \<Rightarrow> string \<Rightarrow> json result" where
  "get v k = get_default v k JNull"

definition obj_get :: "(string \<times> json) list \<Rightarrow> string \<Rightarrow> json" where
  "obj_get kvs k = coalesce (map_of kvs k) JNull"

lemma get_JObj [simp]: "get (JObj kvs) k = Inr (obj_get kvs k)"
  by (simp add: get_def get_default_def obj_get_def)

lemma get_default_JObj [simp]: "get_default (JObj kvs) k d = Inr (coalesce (map_of kvs k) d)"
  by (simp add: get_default_def)

definition has_key :: "(string \<times> json) list \<Rightarrow> string \<Rightarrow> bool" where
  "has_key kvs k \<longleftrightarrow> map_of kvs k \<noteq> None"

definition as_dict :: "json \<Rightarrow> (string \<times> json) list option" where
  "as_dict v = (case v of JObj kvs \<Rightarrow> Some kvs | _ \<Rightarrow> None)"

definition as_list :: "json \<Rightarrow> json list option" where
  "as_list v = (case v of JList xs \<Rightarrow> Some xs | _ \<Rightarrow> None)"

definition as_str :: "json \<Rightarrow> string option" where
  "as_str v = (case v of JStr s \<Rightarrow> Some s | _ \<Rightarrow> None)"

definition as_bool :: "json \<Rightarrow> bool option" where
  "as_bool v = (case v of JBool b \<Rightarrow> Some b | _ \<Rightarrow> None)"

text \<open>\<open>type(value) is int\<close>: booleans are excluded.\<close>

definition strict_int :: "json \<Rightarrow> int option" where
  "strict_int v = (case v of JInt i \<Rightarrow> Some i | _ \<Rightarrow> None)"

subsection \<open>\<open>str()\<close> and \<open>repr()\<close>\<close>

definition hex_digit :: "nat \<Rightarrow> char" where
  "hex_digit d = (if d < 10 then char_of (48 + d) else char_of (87 + d))"

definition hex2 :: "char \<Rightarrow> string" where
  "hex2 c = (let n = (of_char c :: nat) in [hex_digit (n div 16), hex_digit (n mod 16)])"

definition quote_char :: char where "quote_char = CHR 0x22"

definition repr_char :: "char \<Rightarrow> char \<Rightarrow> string" where
  "repr_char q c = (let n = (of_char c :: nat) in
     if c = q \<or> c = CHR 0x5C then [CHR 0x5C, c]
     else if n = 9 then [CHR 0x5C, CHR ''t'']
     else if n = 10 then [CHR 0x5C, CHR ''n'']
     else if n = 13 then [CHR 0x5C, CHR ''r'']
     else if n < 32 \<or> (127 \<le> n \<and> n \<le> 160) \<or> n = 173 then [CHR 0x5C, CHR ''x''] @ hex2 c
     else [c])"

definition repr_str :: "string \<Rightarrow> string" where
  "repr_str s =
     (let q = (if CHR 0x27 \<in> set s \<and> quote_char \<notin> set s then quote_char else CHR 0x27)
      in [q] @ concat (map (repr_char q) s) @ [q])"

definition str_float :: "pyfloat \<Rightarrow> string" where
  "str_float f = (case f of Finite s \<Rightarrow> s | Infinity neg \<Rightarrow> if neg then ''-inf'' else ''inf''
     | NaN \<Rightarrow> ''nan'')"

fun py_repr :: "json \<Rightarrow> string"
  and py_repr_list :: "json list \<Rightarrow> string list"
  and py_repr_items :: "(string \<times> json) list \<Rightarrow> string list" where
  "py_repr JNull = ''None''"
| "py_repr (JBool b) = (if b then ''True'' else ''False'')"
| "py_repr (JInt i) = str_int i"
| "py_repr (JFloat f) = str_float f"
| "py_repr (JStr s) = repr_str s"
| "py_repr (JList xs) = ''['' @ join '', '' (py_repr_list xs) @ '']''"
| "py_repr (JObj kvs) = ''{'' @ join '', '' (py_repr_items kvs) @ ''}''"
| "py_repr_list [] = []"
| "py_repr_list (x # xs) = py_repr x # py_repr_list xs"
| "py_repr_items [] = []"
| "py_repr_items ((k, v) # kvs) = (repr_str k @ '': '' @ py_repr v) # py_repr_items kvs"

definition py_str :: "json \<Rightarrow> string" where
  "py_str v = (case v of JStr s \<Rightarrow> s | _ \<Rightarrow> py_repr v)"

lemma py_str_JStr [simp]: "py_str (JStr s) = s"
  by (simp add: py_str_def)

subsection \<open>\<open>int(x)\<close> of a float\<close>

definition int_of_float :: "pyfloat \<Rightarrow> int result" where
  "int_of_float f = (case f of
       Finite s \<Rightarrow> Inr (trunc_rat (float_value s))
     | Infinity _ \<Rightarrow> Inl (OverflowError ''cannot convert float infinity to integer'')
     | NaN \<Rightarrow> Inl (ValueError ''cannot convert float NaN to integer''))"

section \<open>\<open>json.dumps\<close>\<close>

definition unicode_escape :: "char \<Rightarrow> string" where
  "unicode_escape c = [CHR 0x5C, CHR ''u'', CHR ''0'', CHR ''0''] @ hex2 c"

definition esc_char :: "bool \<Rightarrow> char \<Rightarrow> string" where
  "esc_char ensure_ascii c = (let n = (of_char c :: nat) in
     if c = quote_char \<or> c = CHR 0x5C then [CHR 0x5C, c]
     else if n = 8 then [CHR 0x5C, CHR ''b'']
     else if n = 9 then [CHR 0x5C, CHR ''t'']
     else if n = 10 then [CHR 0x5C, CHR ''n'']
     else if n = 12 then [CHR 0x5C, CHR ''f'']
     else if n = 13 then [CHR 0x5C, CHR ''r'']
     else if n < 32 \<or> (ensure_ascii \<and> 127 \<le> n) then unicode_escape c
     else [c])"

definition dump_str :: "bool \<Rightarrow> string \<Rightarrow> string" where
  "dump_str ea s = [quote_char] @ concat (map (esc_char ea) s) @ [quote_char]"

definition dump_float :: "pyfloat \<Rightarrow> string" where
  "dump_float f = (case f of Finite s \<Rightarrow> s
     | Infinity neg \<Rightarrow> if neg then ''-Infinity'' else ''Infinity'' | NaN \<Rightarrow> ''NaN'')"

fun render :: "bool \<Rightarrow> json \<Rightarrow> string"
  and render_list :: "bool \<Rightarrow> json list \<Rightarrow> string"
  and render_items :: "bool \<Rightarrow> (string \<times> json) list \<Rightarrow> string" where
  "render ea JNull = ''null''"
| "render ea (JBool b) = (if b then ''true'' else ''false'')"
| "render ea (JInt i) = str_int i"
| "render ea (JFloat f) = dump_float f"
| "render ea (JStr s) = dump_str ea s"
| "render ea (JList xs) = (case xs of [] \<Rightarrow> ''[]''
     | _ \<Rightarrow> CHR ''['' # render_list ea xs @ '']'')"
| "render ea (JObj kvs) = (case kvs of [] \<Rightarrow> ''{}''
     | _ \<Rightarrow> CHR ''{'' # render_items ea kvs @ ''}'')"
| "render_list ea [] = []"
| "render_list ea (x # xs) = render ea x @ (case xs of [] \<Rightarrow> [] | _ \<Rightarrow> CHR '','' # render_list ea xs)"
| "render_items ea [] = []"
| "render_items ea ((k, v) # kvs) = dump_str ea k @ CHR '':'' # render ea v @
     (case kvs of [] \<Rightarrow> [] | _ \<Rightarrow> CHR '','' # render_items ea kvs)"

text \<open>Sorting the keys of every object, at every depth.\<close>

fun sort_keys :: "json \<Rightarrow> json"
  and sort_keys_list :: "json list \<Rightarrow> json list"
  and sort_keys_items :: "(string \<times> json) list \<Rightarrow> (string \<times> json) list" where
  "sort_keys (JList xs) = JList (sort_keys_list xs)"
| "sort_keys (JObj kvs) = JObj (sort_key fst (sort_keys_items kvs))"
| "sort_keys JNull = JNull"
| "sort_keys (JBool b) = JBool b"
| "sort_keys (JInt i) = JInt i"
| "sort_keys (JFloat f) = JFloat f"
| "sort_keys (JStr s) = JStr s"
| "sort_keys_list [] = []"
| "sort_keys_list (x # xs) = sort_keys x # sort_keys_list xs"
| "sort_keys_items [] = []"
| "sort_keys_items ((k, v) # kvs) = (k, sort_keys v) # sort_keys_items kvs"

definition dumps :: "bool \<Rightarrow> json \<Rightarrow> string" where
  "dumps ensure_ascii v = render ensure_ascii (sort_keys v)"

section \<open>The canonical text determines the value\<close>

text \<open>The shape of a finite float's text: never that of an integer or of a keyword.\<close>

definition wf_float :: "pyfloat \<Rightarrow> bool" where
  "wf_float f = (case f of
       Finite s \<Rightarrow> s \<noteq> [] \<and> (is_digit (hd s) \<or> hd s = CHR ''-'')
         \<and> (\<forall>c \<in> set s. is_digit c \<or> c \<in> {CHR ''.'', CHR ''e'', CHR ''-'', CHR ''+''})
         \<and> (\<exists>c \<in> set s. c \<in> {CHR ''.'', CHR ''e''})
     | _ \<Rightarrow> True)"

fun wf_json :: "json \<Rightarrow> bool"
  and wf_list :: "json list \<Rightarrow> bool"
  and wf_items :: "(string \<times> json) list \<Rightarrow> bool" where
  "wf_json (JFloat f) = wf_float f"
| "wf_json (JList xs) = wf_list xs"
| "wf_json (JObj kvs) = wf_items kvs"
| "wf_json _ = True"
| "wf_list [] = True"
| "wf_list (x # xs) = (wf_json x \<and> wf_list xs)"
| "wf_items [] = True"
| "wf_items ((k, v) # kvs) = (wf_json v \<and> wf_items kvs)"

definition is_delim :: "char \<Rightarrow> bool" where
  "is_delim c \<longleftrightarrow> c = CHR '','' \<or> c = CHR '']'' \<or> c = CHR ''}''"

definition delimited :: "string \<Rightarrow> bool" where
  "delimited r \<longleftrightarrow> r = [] \<or> is_delim (hd r)"

lemma delimited_simps [simp]: "delimited []" "delimited (c # r) = is_delim c"
  by (simp_all add: delimited_def)

lemma undelimited_split:
  assumes "a @ r = b @ s" "delimited r" "delimited s"
    "\<And>c. c \<in> set a \<Longrightarrow> \<not> is_delim c" "\<And>c. c \<in> set b \<Longrightarrow> \<not> is_delim c"
  shows "a = b \<and> r = s"
proof -
  have tw: "takeWhile (\<lambda>c. \<not> is_delim c) (x @ t) = x"
    if "\<And>c. c \<in> set x \<Longrightarrow> \<not> is_delim c" "delimited t" for x t
    using that by (cases t) (auto simp: takeWhile_append2)
  have "a = b" using tw [of a r] tw [of b s] assms by simp
  then show ?thesis using assms(1) by simp
qed

subsection \<open>Strings\<close>

definition hex_val :: "char \<Rightarrow> nat" where
  "hex_val c = (let n = (of_char c :: nat) in if n < 58 then n - 48 else n - 87)"

lemma hex_val_digit: "d < 16 \<Longrightarrow> hex_val (hex_digit d) = d"
  by (simp add: hex_val_def hex_digit_def Let_def of_char_of)

fun unesc :: "string \<Rightarrow> (char \<times> string) option" where
  "unesc [] = None"
| "unesc (c # cs) = (if c \<noteq> CHR 0x5C then Some (c, cs) else (case cs of
     [] \<Rightarrow> None
   | e # es \<Rightarrow>
       if e = CHR ''u'' then (case es of
           z1 # z2 # h # l # r \<Rightarrow> Some (char_of (16 * hex_val h + hex_val l), r)
         | _ \<Rightarrow> None)
       else if e = CHR ''b'' then Some (CHR 0x08, es)
       else if e = CHR ''t'' then Some (CHR 0x09, es)
       else if e = CHR ''n'' then Some (CHR 0x0A, es)
       else if e = CHR ''f'' then Some (CHR 0x0C, es)
       else if e = CHR ''r'' then Some (CHR 0x0D, es)
       else Some (e, es)))"

lemma char_code_eq: "(of_char c :: nat) = of_char d \<longleftrightarrow> c = d"
  by simp

lemma unesc_unicode: "unesc (unicode_escape c @ r) = Some (c, r)"
proof -
  have n: "(of_char c :: nat) < 256" by simp
  then have "hex_val (hex_digit (of_char c div 16)) = (of_char c :: nat) div 16"
    by (intro hex_val_digit) (simp add: less_mult_imp_div_less)
  moreover have "hex_val (hex_digit (of_char c mod 16)) = (of_char c :: nat) mod 16"
    by (intro hex_val_digit) simp
  ultimately show ?thesis
    by (simp add: unicode_escape_def hex2_def Let_def)
qed

lemma unesc_esc_char: "unesc (esc_char ea c @ r) = Some (c, r)"
proof -
  have "c = CHR 0x08" if "(of_char c :: nat) = 8" using that char_code_eq [of c "CHR 0x08"] by simp
  moreover have "c = CHR 0x09" if "(of_char c :: nat) = 9" using that char_code_eq [of c "CHR 0x09"] by simp
  moreover have "c = CHR 0x0A" if "(of_char c :: nat) = 10" using that char_code_eq [of c "CHR 0x0A"] by simp
  moreover have "c = CHR 0x0C" if "(of_char c :: nat) = 12" using that char_code_eq [of c "CHR 0x0C"] by simp
  moreover have "c = CHR 0x0D" if "(of_char c :: nat) = 13" using that char_code_eq [of c "CHR 0x0D"] by simp
  ultimately show ?thesis
    by (auto simp: esc_char_def Let_def quote_char_def unesc_unicode)
qed

lemma esc_char_not_quote: "esc_char ea c \<noteq> [] \<and> hd (esc_char ea c) \<noteq> quote_char"
  by (auto simp: esc_char_def Let_def quote_char_def unicode_escape_def)

lemma esc_string_unique:
  "concat (map (esc_char ea) s) @ quote_char # r = concat (map (esc_char ea) t) @ quote_char # q \<Longrightarrow>
   s = t \<and> r = q"
proof (induction s arbitrary: t)
  case Nil
  show ?case
  proof (cases t)
    case Nil
    then show ?thesis using Nil.prems by simp
  next
    case (Cons d t')
    then show ?thesis
      using Nil.prems esc_char_not_quote [of ea d] by (cases "esc_char ea d") auto
  qed
next
  case (Cons c s)
  show ?case
  proof (cases t)
    case Nil
    then show ?thesis
      using Cons.prems esc_char_not_quote [of ea c] by (cases "esc_char ea c") auto
  next
    case t: (Cons d t')
    let ?r = "concat (map (esc_char ea) s) @ quote_char # r"
    let ?q = "concat (map (esc_char ea) t') @ quote_char # q"
    have "esc_char ea c @ ?r = esc_char ea d @ ?q"
      using Cons.prems t by simp
    then have "Some (c, ?r) = Some (d, ?q)"
      by (metis unesc_esc_char)
    then have "c = d \<and> ?r = ?q" by simp
    then show ?thesis using Cons.IH [of t'] t by simp
  qed
qed

lemma dump_str_unique: "dump_str ea s @ r = dump_str ea t @ q \<Longrightarrow> s = t \<and> r = q"
  using esc_string_unique [of ea s r t q] by (simp add: dump_str_def)

subsection \<open>Atoms\<close>

definition is_atom :: "json \<Rightarrow> bool" where
  "is_atom v = (case v of JStr _ \<Rightarrow> False | JList _ \<Rightarrow> False | JObj _ \<Rightarrow> False | _ \<Rightarrow> True)"

lemma is_digit_not_delim: "is_digit c \<Longrightarrow> \<not> is_delim c"
  by (auto simp: is_digit_def is_delim_def)

lemma str_int_chars: "c \<in> set (str_int i) \<Longrightarrow> is_digit c \<or> c = CHR ''-''"
  by (auto simp: str_int_def split: if_splits dest: str_nat_digits)

lemma str_int_hd: "is_digit (hd (str_int i)) \<or> hd (str_int i) = CHR ''-''"
  by (simp add: str_int_def str_nat_hd)

lemma str_int_not_Nil [simp]: "str_int i \<noteq> []"
  by (simp add: str_int_def)

lemma atom_chars: "is_atom v \<Longrightarrow> wf_json v \<Longrightarrow> c \<in> set (render ea v) \<Longrightarrow> \<not> is_delim c"
  by (cases v)
     (auto simp: is_atom_def is_delim_def wf_float_def dump_float_def is_digit_def
       split: if_splits pyfloat.splits dest: str_int_chars)

lemma atom_not_Nil: "is_atom v \<Longrightarrow> wf_json v \<Longrightarrow> render ea v \<noteq> []"
  by (cases v) (auto simp: is_atom_def wf_float_def dump_float_def split: pyfloat.splits)

lemma atom_hd: "is_atom v \<Longrightarrow> wf_json v \<Longrightarrow>
  hd (render ea v) \<noteq> quote_char \<and> hd (render ea v) \<noteq> CHR ''['' \<and> hd (render ea v) \<noteq> CHR ''{''"
proof (cases v)
  case (JInt i)
  then show ?thesis using str_int_hd [of i] by (auto simp: is_digit_def quote_char_def)
next
  case (JFloat f)
  assume "wf_json v"
  with JFloat show ?thesis
    by (cases f) (auto simp: wf_float_def dump_float_def is_digit_def quote_char_def)
qed (auto simp: is_atom_def quote_char_def)

lemma int_text_not_word: "c \<in> set w \<Longrightarrow> \<not> is_digit c \<Longrightarrow> c \<noteq> CHR ''-'' \<Longrightarrow> str_int i \<noteq> w"
  using str_int_chars by blast

lemma float_not_int: "wf_float f \<Longrightarrow> dump_float f \<noteq> str_int i"
proof (cases f)
  case (Finite s)
  assume "wf_float f"
  with Finite obtain c where "c \<in> set s" "c \<in> {CHR ''.'', CHR ''e''}" by (auto simp: wf_float_def)
  then have "str_int i \<noteq> s" by (intro int_text_not_word [of c]) (auto simp: is_digit_def)
  with Finite show ?thesis by (auto simp: dump_float_def)
next
  case (Infinity b)
  have "str_int i \<noteq> dump_float f"
    by (rule int_text_not_word [of "CHR ''I''"]) (use Infinity in \<open>auto simp: dump_float_def is_digit_def\<close>)
  then show ?thesis by simp
next
  case NaN
  have "str_int i \<noteq> dump_float f"
    by (rule int_text_not_word [of "CHR ''N''"]) (use NaN in \<open>auto simp: dump_float_def is_digit_def\<close>)
  then show ?thesis by simp
qed

lemma dump_float_inj: "wf_float f \<Longrightarrow> wf_float g \<Longrightarrow> dump_float f = dump_float g \<Longrightarrow> f = g"
  by (cases f; cases g) (auto simp: dump_float_def wf_float_def is_digit_def split: if_splits)

lemma keyword_not_number:
  "str_int i \<noteq> ''null''" "str_int i \<noteq> ''true''" "str_int i \<noteq> ''false''"
  "wf_float f \<Longrightarrow> dump_float f \<noteq> ''null''" "wf_float f \<Longrightarrow> dump_float f \<noteq> ''true''"
  "wf_float f \<Longrightarrow> dump_float f \<noteq> ''false''"
  using str_int_hd [of i]
  by (auto simp: wf_float_def dump_float_def is_digit_def split: pyfloat.splits if_splits)

lemma atom_inj:
  assumes "is_atom v" "is_atom w" "wf_json v" "wf_json w" "render ea v = render ea w"
  shows "v = w"
  using assms keyword_not_number float_not_int
  by (cases v; cases w)
     (auto simp: is_atom_def dest: str_int_inj dump_float_inj split: if_splits, metis+)

subsection \<open>Unique reading\<close>

lemma render_list_not_Nil: "xs \<noteq> [] \<Longrightarrow> render ea (JList xs) = CHR ''['' # render_list ea xs @ '']''"
  by (cases xs) auto

lemma render_obj_not_Nil: "kvs \<noteq> [] \<Longrightarrow> render ea (JObj kvs) = CHR ''{'' # render_items ea kvs @ ''}''"
  by (cases kvs) auto

lemma render_hd_JStr: "hd (render ea (JStr s) @ r) = quote_char"
  by (simp add: dump_str_def)

lemma atom_unique:
  assumes "is_atom v" "wf_json v" "wf_json w" "delimited r" "delimited s"
    "render ea v @ r = render ea w @ s"
  shows "v = w \<and> r = s"
proof -
  have hd: "hd (render ea w @ s) = hd (render ea v)"
    using assms(6) atom_not_Nil [OF assms(1,2)] by (metis hd_append2)
  have w: "is_atom w"
    using hd atom_hd [OF assms(1,2), of ea]
    by (cases w) (auto simp: is_atom_def dump_str_def split: list.splits)
  have "render ea v = render ea w \<and> r = s"
    by (rule undelimited_split [OF assms(6,4,5)]) (use assms w atom_chars in blast)+
  then show ?thesis using atom_inj [OF assms(1) w assms(2,3), of ea] by blast
qed

lemma render_first:
  "hd (render ea (JStr x) @ r) = quote_char"
  "hd (render ea (JList xs) @ r) = CHR ''[''"
  "hd (render ea (JObj kvs) @ r) = CHR ''{''"
  by (auto simp: dump_str_def split: list.splits)

lemma compound_kinds:
  assumes "\<not> is_atom v" "wf_json w" "render ea v @ r = render ea w @ s"
  shows "\<not> is_atom w"
proof
  assume w: "is_atom w"
  have "hd (render ea w) = hd (render ea v @ r)"
    using assms(3) atom_not_Nil [OF w assms(2)] by simp
  then show False
    using atom_hd [OF w assms(2), of ea] assms(1)
    by (cases v) (auto simp: is_atom_def dump_str_def split: list.splits)
qed

lemma render_start: "wf_json v \<Longrightarrow> render ea v \<noteq> [] \<and> \<not> is_delim (hd (render ea v))"
proof (cases "is_atom v")
  case True
  assume "wf_json v"
  with True show ?thesis using atom_not_Nil [of v ea] atom_chars [of v "hd (render ea v)" ea] by simp
next
  case False
  then show ?thesis
    by (cases v) (auto simp: is_atom_def dump_str_def quote_char_def is_delim_def split: list.splits)
qed

lemma render_list_start:
  assumes "wf_list xs" "xs \<noteq> []"
  shows "\<exists>c cs. render_list ea xs = c # cs \<and> \<not> is_delim c"
proof -
  obtain x xs' where xs: "xs = x # xs'" using assms(2) by (cases xs) auto
  obtain c cs where "render ea x = c # cs" "\<not> is_delim c"
    using render_start [of x ea] assms(1) xs by (cases "render ea x") auto
  then show ?thesis using xs by (simp add: xs)
qed

lemma render_items_start: "kvs \<noteq> [] \<Longrightarrow> \<exists>cs. render_items ea kvs = quote_char # cs"
  by (cases kvs) (auto simp: dump_str_def)

lemma render_list_Cons_tail:
  "render_list ea (x # xs) @ CHR '']'' # r =
   render ea x @ (if xs = [] then CHR '']'' # r else CHR '','' # render_list ea xs @ CHR '']'' # r)"
  by (cases xs) auto

lemma render_items_Cons_tail:
  "render_items ea ((k, v) # kvs) @ CHR ''}'' # r =
   dump_str ea k @ CHR '':'' # render ea v @
     (if kvs = [] then CHR ''}'' # r else CHR '','' # render_items ea kvs @ CHR ''}'' # r)"
  by (cases kvs) auto

lemma list_bracket_unique:
  assumes IH: "xs \<noteq> [] \<Longrightarrow> ys \<noteq> [] \<Longrightarrow>
      render_list ea xs @ CHR '']'' # r = render_list ea ys @ CHR '']'' # s \<Longrightarrow> xs = ys \<and> r = s"
    and wf: "wf_list xs" "wf_list ys"
    and eq: "render ea (JList xs) @ r = render ea (JList ys) @ s"
  shows "xs = ys \<and> r = s"
proof (cases "xs = []"; cases "ys = []")
  assume "xs = []" "ys = []"
  then show ?thesis using eq by simp
next
  assume x: "xs = []" and y: "ys \<noteq> []"
  obtain c cs where "render_list ea ys = c # cs" "\<not> is_delim c"
    using render_list_start [OF wf(2) y, of ea] by blast
  then show ?thesis
    using eq x by (simp only: render_list_not_Nil [OF y]) (simp add: is_delim_def)
next
  assume x: "xs \<noteq> []" and y: "ys = []"
  obtain c cs where "render_list ea xs = c # cs" "\<not> is_delim c"
    using render_list_start [OF wf(1) x, of ea] by blast
  then show ?thesis
    using eq y by (simp only: render_list_not_Nil [OF x]) (simp add: is_delim_def)
next
  assume "xs \<noteq> []" "ys \<noteq> []"
  then show ?thesis using eq IH by (simp add: render_list_not_Nil del: render.simps)
qed

lemma obj_bracket_unique:
  assumes IH: "xs \<noteq> [] \<Longrightarrow> ys \<noteq> [] \<Longrightarrow>
      render_items ea xs @ CHR ''}'' # r = render_items ea ys @ CHR ''}'' # s \<Longrightarrow> xs = ys \<and> r = s"
    and eq: "render ea (JObj xs) @ r = render ea (JObj ys) @ s"
  shows "xs = ys \<and> r = s"
proof (cases "xs = []"; cases "ys = []")
  assume "xs = []" "ys = []"
  then show ?thesis using eq by simp
next
  assume x: "xs = []" and y: "ys \<noteq> []"
  obtain cs where "render_items ea ys = quote_char # cs"
    using render_items_start [OF y, of ea] by blast
  then show ?thesis
    using eq x by (simp only: render_obj_not_Nil [OF y]) (simp add: quote_char_def)
next
  assume x: "xs \<noteq> []" and y: "ys = []"
  obtain cs where "render_items ea xs = quote_char # cs"
    using render_items_start [OF x, of ea] by blast
  then show ?thesis
    using eq y by (simp only: render_obj_not_Nil [OF x]) (simp add: quote_char_def)
next
  assume "xs \<noteq> []" "ys \<noteq> []"
  then show ?thesis using eq IH by (simp add: render_obj_not_Nil del: render.simps)
qed

lemma render_unique_all:
  fixes v :: json and xs :: "json list" and kvs :: "(string \<times> json) list"
  shows "\<And>w r s. wf_json v \<Longrightarrow> wf_json w \<Longrightarrow> delimited r \<Longrightarrow> delimited s \<Longrightarrow>
      render ea v @ r = render ea w @ s \<Longrightarrow> v = w \<and> r = s"
    and "\<And>ys r s. wf_list xs \<Longrightarrow> wf_list ys \<Longrightarrow> xs \<noteq> [] \<Longrightarrow> ys \<noteq> [] \<Longrightarrow>
      render_list ea xs @ CHR '']'' # r = render_list ea ys @ CHR '']'' # s \<Longrightarrow> xs = ys \<and> r = s"
    and "\<And>ys r s. wf_items kvs \<Longrightarrow> wf_items ys \<Longrightarrow> kvs \<noteq> [] \<Longrightarrow> ys \<noteq> [] \<Longrightarrow>
      render_items ea kvs @ CHR ''}'' # r = render_items ea ys @ CHR ''}'' # s \<Longrightarrow> kvs = ys \<and> r = s"
proof (induction ea v and ea xs and ea kvs rule: render_render_list_render_items.induct)
  case (1 ea)
  then show ?case using atom_unique [of JNull w r s ea] by (simp add: is_atom_def)
next
  case (2 ea b)
  then show ?case using atom_unique [of "JBool b" w r s ea] by (simp add: is_atom_def)
next
  case (3 ea i)
  then show ?case using atom_unique [of "JInt i" w r s ea] by (simp add: is_atom_def)
next
  case (4 ea f)
  then show ?case using atom_unique [of "JFloat f" w r s ea] by (simp add: is_atom_def)
next
  case (5 ea x)
  have c: "\<not> is_atom w" using 5 compound_kinds [of "JStr x" w ea r s] by (simp add: is_atom_def)
  have h: "hd (render ea w @ s) = quote_char" using 5(5) render_first(1) [of ea x r] by simp
  obtain y where w: "w = JStr y"
    using c h render_first(2,3) by (cases w) (auto simp: is_atom_def quote_char_def)
  then show ?case using 5(5) dump_str_unique [of ea x r y s] by simp
next
  case (6 ea xs)
  have c: "\<not> is_atom w" using 6 compound_kinds [of "JList xs" w ea r s] by (simp add: is_atom_def)
  have h: "hd (render ea w @ s) = CHR ''[''" using 6(6) render_first(2) [of ea xs r] by simp
  obtain ys where w: "w = JList ys"
    using c h render_first(1,3) by (cases w) (auto simp: is_atom_def quote_char_def)
  have IH: "xs \<noteq> [] \<Longrightarrow> ys \<noteq> [] \<Longrightarrow>
      render_list ea xs @ CHR '']'' # r = render_list ea ys @ CHR '']'' # s \<Longrightarrow> xs = ys \<and> r = s"
    using 6(1) [of _ _ ys r s] 6(2,3) w by (cases xs) (simp_all del: render_list.simps)
  have "xs = ys \<and> r = s"
    by (rule list_bracket_unique [OF IH _ _ 6(6) [unfolded w]]) (use 6(2,3) w in auto)
  then show ?case using w by simp
next
  case (7 ea kvs)
  have c: "\<not> is_atom w" using 7 compound_kinds [of "JObj kvs" w ea r s] by (simp add: is_atom_def)
  have h: "hd (render ea w @ s) = CHR ''{''" using 7(6) render_first(3) [of ea kvs r] by simp
  obtain ys where w: "w = JObj ys"
    using c h render_first(1,2) by (cases w) (auto simp: is_atom_def quote_char_def)
  have IH: "kvs \<noteq> [] \<Longrightarrow> ys \<noteq> [] \<Longrightarrow>
      render_items ea kvs @ CHR ''}'' # r = render_items ea ys @ CHR ''}'' # s \<Longrightarrow> kvs = ys \<and> r = s"
    using 7(1) [of _ _ ys r s] 7(2,3) w by (cases kvs) (simp_all del: render_items.simps)
  have "kvs = ys \<and> r = s"
    by (rule obj_bracket_unique [OF IH 7(6) [unfolded w]]) (use w in auto)
  then show ?case using w by simp
next
  case (8 ea)
  then show ?case by simp
next
  case (9 ea x xs)
  obtain y ys' where ys: "ys = y # ys'" using 9(6) by (cases ys) auto
  let ?t = "\<lambda>zs q. if zs = [] then CHR '']'' # q else CHR '','' # render_list ea zs @ CHR '']'' # q"
  have "render ea x @ ?t xs r = render ea y @ ?t ys' s"
    using 9(7) unfolding ys render_list_Cons_tail .
  then have xy: "x = y" and t: "?t xs r = ?t ys' s"
    using 9(1) [of y "?t xs r" "?t ys' s"] 9(3,4) ys by (auto simp: is_delim_def)
  have "xs \<noteq> [] \<Longrightarrow> ys' \<noteq> [] \<Longrightarrow>
      render_list ea xs @ CHR '']'' # r = render_list ea ys' @ CHR '']'' # s \<Longrightarrow> xs = ys' \<and> r = s"
    using 9(2) [of _ _ ys' r s] 9(3,4) ys by (cases xs) (simp_all del: render_list.simps)
  then have IH: "xs \<noteq> [] \<Longrightarrow> ys' \<noteq> [] \<Longrightarrow> ?t xs r = ?t ys' s \<Longrightarrow> xs = ys' \<and> r = s"
    by (metis list.inject)
  have "xs = ys' \<and> r = s"
  proof (cases "xs = []"; cases "ys' = []")
    assume "xs = []" "ys' = []"
    with t show ?thesis by simp
  next
    assume "xs = []" "ys' \<noteq> []"
    with t show ?thesis by simp
  next
    assume "xs \<noteq> []" "ys' = []"
    with t show ?thesis by simp
  next
    assume "xs \<noteq> []" "ys' \<noteq> []"
    with t IH show ?thesis by blast
  qed
  then show ?case using ys xy by simp
next
  case (10 ea)
  then show ?case by simp
next
  case (11 ea k v kvs)
  obtain k' v' ys' where ys: "ys = (k', v') # ys'" using 11(6) by (cases ys) auto
  let ?t = "\<lambda>zs q. if zs = [] then CHR ''}'' # q else CHR '','' # render_items ea zs @ CHR ''}'' # q"
  have "dump_str ea k @ CHR '':'' # render ea v @ ?t kvs r
      = dump_str ea k' @ CHR '':'' # render ea v' @ ?t ys' s"
    using 11(7) unfolding ys render_items_Cons_tail .
  then have k: "k = k'" and e: "render ea v @ ?t kvs r = render ea v' @ ?t ys' s"
    by (auto dest: dump_str_unique)
  have v: "v = v'" and t: "?t kvs r = ?t ys' s"
    using 11(1) [of v' "?t kvs r" "?t ys' s"] e 11(3,4) ys by (auto simp: is_delim_def)
  have "kvs \<noteq> [] \<Longrightarrow> ys' \<noteq> [] \<Longrightarrow>
      render_items ea kvs @ CHR ''}'' # r = render_items ea ys' @ CHR ''}'' # s \<Longrightarrow> kvs = ys' \<and> r = s"
    using 11(2) [of _ _ ys' r s] 11(3,4) ys by (cases kvs) (simp_all del: render_items.simps)
  then have IH: "kvs \<noteq> [] \<Longrightarrow> ys' \<noteq> [] \<Longrightarrow> ?t kvs r = ?t ys' s \<Longrightarrow> kvs = ys' \<and> r = s"
    by (metis list.inject)
  have "kvs = ys' \<and> r = s"
  proof (cases "kvs = []"; cases "ys' = []")
    assume "kvs = []" "ys' = []"
    with t show ?thesis by simp
  next
    assume "kvs = []" "ys' \<noteq> []"
    with t show ?thesis by simp
  next
    assume "kvs \<noteq> []" "ys' = []"
    with t show ?thesis by simp
  next
    assume "kvs \<noteq> []" "ys' \<noteq> []"
    with t IH show ?thesis by blast
  qed
  then show ?case using ys k v by simp
qed

lemma render_inj: "wf_json v \<Longrightarrow> wf_json w \<Longrightarrow> render ea v = render ea w \<Longrightarrow> v = w"
  using render_unique_all(1) [of v w "[]" "[]" ea] by simp

lemma wf_items_iff: "wf_items kvs \<longleftrightarrow> (\<forall>(k, v) \<in> set kvs. wf_json v)"
  by (induction kvs) auto

lemma wf_sort_keys_all:
  "wf_json v \<Longrightarrow> wf_json (sort_keys v)"
  "wf_list xs \<Longrightarrow> wf_list (sort_keys_list xs)"
  "wf_items kvs \<Longrightarrow> wf_items (sort_keys_items kvs)"
  by (induction v and xs and kvs rule: sort_keys_sort_keys_list_sort_keys_items.induct)
     (auto simp: wf_items_iff)

lemma sort_keys_items_keys: "map fst (sort_keys_items kvs) = map fst kvs"
  by (induction kvs) auto

text \<open>Two values with the same canonical text are equal up to the order of their keys.\<close>

lemma dumps_inj:
  "wf_json v \<Longrightarrow> wf_json w \<Longrightarrow> dumps ea v = dumps ea w \<Longrightarrow> sort_keys v = sort_keys w"
  unfolding dumps_def by (rule render_inj) (simp_all add: wf_sort_keys_all)

end
