(* ===== verification/Schema.thy ===== *)
theory Schema
  imports Json
begin

text \<open>
  The database the program keeps its state in: one record per table row (columns in the order of
  the migrations), the whole database as the record \<open>db\<close>, and what one session carries
  (\<open>conn\<close>, the \<open>Connection\<close> object of storage/db.py with the session settings). The migrations
  attach triggers to the tables; a statement of the storage layer is a function that applies
  its triggers: \<open>insert_job\<close>, \<open>update_jobs\<close>, \<open>insert_run\<close> and \<open>update_runs\<close> set revisions, record
  the event and the dispatch hint of every new revision, and inherit ownership and budget.

  A JSON text column that only ever holds canonical text (\<open>params_json\<close>, \<open>counters\<close>) keeps the
  value with its keys sorted: by \<open>dumps_inj\<close> it and the text determine each other. Row locks that
  other transactions hold, which \<open>FOR UPDATE SKIP LOCKED\<close> passes over, are lists of row ids in
  the session record; a statement sees a clock value of the session. Constraint failures are
  \<open>DatabaseError\<close> results.
\<close>

section \<open>Rows\<close>

datatype job_state = Pending | In_progress | Done | Error | Skipped | Blocked

datatype run_status = Running | Paused | Finished | Failed | Cancelled

datatype worker_status = W_running | W_stopping | W_stopped | W_failed

record job =
  j_id :: int
  j_crawl_run_id :: "int option"
  j_parent_job_id :: "int option"
  j_provider :: "string option"
  j_kind :: string
  j_target :: string
  j_params_json :: json
  j_state :: job_state
  j_priority :: int
  j_depth :: int
  j_attempts :: int
  j_dedup_key :: string
  j_enqueued_at :: int
  j_started_at :: "int option"
  j_done_at :: "int option"
  j_reason :: "string option"
  j_retry_count :: int
  j_next_attempt_at :: "rat option"
  j_revision :: int
  j_owner_worker_id :: "string option"
  j_owner_backend_pid :: "int option"
  j_ownership_token :: "string option"
  j_ownership_generation :: int
  j_workspace_id :: string
  j_work_budget_id :: "int option"

record run =
  r_id :: int
  r_seed_spec :: string
  r_provider :: "string option"
  r_params_json :: json
  r_status :: run_status
  r_counters :: "json option"
  r_started_at :: int
  r_updated_at :: int
  r_finished_at :: "int option"
  r_revision :: int
  r_workspace_id :: string
  r_work_budget_id :: "int option"

record cooldown =
  c_provider :: string
  c_not_before :: rat
  c_reason :: "string option"
  c_updated_at :: rat

record heartbeat =
  h_worker_id :: string
  h_started_at :: rat
  h_heartbeat_at :: rat
  h_heartbeat_expires_at :: rat
  h_stopped_at :: "rat option"
  h_current_job_id :: "int option"
  h_status :: worker_status

text \<open>The payload object of an event, with the \<open>workspace_id\<close> that \<open>scope_event\<close> adds.\<close>

datatype payload =
    Job_payload int "int option" job_state "string option" string int int "rat option" string
  | Run_payload int run_status "string option" json string

datatype event_type = Job_updated | Run_updated

record event_row =
  e_id :: int
  e_event_type :: event_type
  e_resource_id :: int
  e_revision :: int
  e_occurred_at :: int
  e_payload :: payload
  e_attempts :: int
  e_next_attempt_at :: rat
  e_delivered_at :: "rat option"
  e_last_error :: "string option"

record dispatch_row =
  d_id :: int
  d_job_id :: int
  d_job_revision :: int
  d_attempts :: int
  d_available_at :: rat
  d_delivered_at :: "rat option"
  d_superseded_at :: "rat option"
  d_last_error :: "string option"

text \<open>\<open>BudgetPolicy\<close> of jobs/budget.py; the policy columns hold it.\<close>

record budget_policy =
  job_max_games :: int
  job_max_normalization_units :: int
  job_max_remote_bytes :: int
  job_max_remote_requests :: int
  max_response_bytes :: int
  workspace_max_games :: int
  workspace_max_normalization_units :: int
  workspace_max_remote_bytes :: int
  workspace_max_remote_requests :: int
  workspace_max_active_jobs :: int
  workspace_max_queued_jobs :: int

record budget =
  b_id :: int
  b_workspace_id :: string
  b_crawl_run_id :: "int option"
  b_standalone_job_id :: "int option"
  b_policy :: budget_policy
  b_remote_requests :: int
  b_remote_bytes :: int
  b_games :: int
  b_normalization_units :: int
  b_exhausted_dimension :: "string option"
  b_exhausted_at :: "int option"
  b_created_at :: int
  b_updated_at :: int
  b_workspace_policy_version :: "int option"

record period =
  p_workspace_id :: string
  p_period_start :: int
  p_period_end :: int
  p_remote_requests :: int
  p_remote_bytes :: int
  p_games :: int
  p_normalization_units :: int

record workspace_policy =
  wp_workspace_id :: string
  wp_policy :: budget_policy
  wp_updated_at :: int
  wp_managed :: bool
  wp_version :: int

record policy_history =
  ph_workspace_id :: string
  ph_version :: int
  ph_policy :: budget_policy
  ph_managed :: bool
  ph_changed_at :: int

record reservation =
  rs_id :: int
  rs_budget_id :: int
  rs_workspace_id :: string
  rs_period_start :: int
  rs_reserved_bytes :: int
  rs_consumed_bytes :: "int option"
  rs_created_at :: int

record claim_turn =
  t_workspace_id :: string
  t_stage :: string
  t_turn :: int

record edge_row =
  ed_id :: int
  ed_crawl_run_id :: "int option"
  ed_provider :: string
  ed_from_user_id :: int
  ed_to_user_id :: int
  ed_via_game_id :: "int option"
  ed_game_count :: int
  ed_depth :: int
  ed_first_seen_at :: int

text \<open>One granted advisory lock: its key, the backend that holds it, and its mode.\<close>

record advisory_lock =
  l_key :: int
  l_pid :: int
  l_shared :: bool

record db =
  db_workspaces :: "string list"
  db_jobs :: "job list"
  db_runs :: "run list"
  db_cooldowns :: "cooldown list"
  db_heartbeats :: "heartbeat list"
  db_events :: "event_row list"
  db_dispatch :: "dispatch_row list"
  db_budgets :: "budget list"
  db_periods :: "period list"
  db_policies :: "workspace_policy list"
  db_policy_history :: "policy_history list"
  db_reservations :: "reservation list"
  db_game_items :: "(int \<times> string) list"
  db_turns :: "claim_turn list"
  db_edges :: "edge_row list"
  db_run_edges :: "(int \<times> int) list"
  db_run_games :: "(int \<times> int) list"
  db_raw_bytes :: "(int \<times> int) list"
  db_locks :: "advisory_lock list"
  db_next_job :: int
  db_next_run :: int
  db_next_event :: int
  db_next_dispatch :: int
  db_next_budget :: int
  db_next_reservation :: int
  db_next_edge :: int
  db_next_turn :: int

text \<open>
  A session: its backend pid, the ownership attributes of \<open>Connection\<close>, the session settings,
  the clock its statements read, and the rows other transactions hold locked.
\<close>

record conn =
  cn_pid :: int
  cn_closed :: bool
  cn_ownership_purposes :: "string list"
  cn_ownership_keys :: "int list"
  cn_job_fence :: "(int \<times> string) option"
  cn_defer_normalization :: bool
  cn_work_budget_id :: "int option"
  cn_work_payload_read_credits :: nat
  cn_events_enabled :: bool
  cn_workspace_setting :: string
  cn_clock :: rat
  cn_locked_jobs :: "int list"
  cn_locked_dispatch :: "int list"
  cn_locked_workers :: "string list"

text \<open>\<open>int(time.time()) if now is None else now\<close>, and the same without the truncation.\<close>

definition int_now :: "conn \<Rightarrow> int option \<Rightarrow> int" where
  "int_now c now = (case now of None \<Rightarrow> trunc_rat (cn_clock c) | Some t \<Rightarrow> t)"

definition float_now :: "conn \<Rightarrow> rat option \<Rightarrow> rat" where
  "float_now c now = (case now of None \<Rightarrow> cn_clock c | Some t \<Rightarrow> t)"

text \<open>\<open>require_row\<close>: a missing row is a failure.\<close>

definition require_row :: "'a option \<Rightarrow> 'a result" where
  "require_row r = (case r of None \<Rightarrow> Inl (RuntimeError ''A required database result was missing'')
     | Some x \<Rightarrow> Inr x)"

lemma require_row_eq [res_simps, simp]:
  "require_row r = Inr x \<longleftrightarrow> r = Some x" "require_row (Some x) = Inr x"
  by (auto simp: require_row_def split: option.splits)

end
