(* ===== verification/Tables.thy ===== *)
theory Tables
  imports Schema
begin

text \<open>
  The statements of the storage layer on \<open>discovery_jobs\<close> and \<open>crawl_runs\<close>, with the triggers of
  the migrations: revisions and events (0004, 0019), dispatch hints (0009, 0015), ownership
  (0010), inherited budgets (0012) and the live-deduplication index (schema.sql). The frame
  lemmas say which tables such a statement can touch; the section on the outboxes shows that
  every revision of a job or run is announced exactly once.
\<close>

section \<open>Trigger functions\<close>

type_synonym job_watched = "job_state \<times> json \<times> int \<times> int \<times> rat option \<times> string option
  \<times> int option \<times> int option"

definition job_watched :: "job \<Rightarrow> job_watched" where
  "job_watched j = (j_state j, j_params_json j, j_attempts j, j_retry_count j,
     j_next_attempt_at j, j_reason j, j_started_at j, j_done_at j)"

definition set_job_revision :: "job \<Rightarrow> job \<Rightarrow> job" where
  "set_job_revision old new =
     (if job_watched new \<noteq> job_watched old then new\<lparr>j_revision := j_revision old + 1\<rparr>
      else new\<lparr>j_revision := j_revision old\<rparr>)"

definition set_run_revision :: "run \<Rightarrow> run \<Rightarrow> run" where
  "set_run_revision old new =
     (if (r_status new, r_counters new, r_finished_at new)
         \<noteq> (r_status old, r_counters old, r_finished_at old)
      then new\<lparr>r_revision := r_revision old + 1\<rparr> else new\<lparr>r_revision := r_revision old\<rparr>)"

text \<open>\<open>guard_event_delivery\<close> drops the row when the session disabled events.\<close>

definition insert_event :: "conn \<Rightarrow> event_type \<Rightarrow> int \<Rightarrow> int \<Rightarrow> payload \<Rightarrow> db \<Rightarrow> db" where
  "insert_event c ty rid rn pl d =
     (if \<not> cn_events_enabled c then d
      else d\<lparr>db_events := db_events d @ [\<lparr>e_id = db_next_event d, e_event_type = ty,
               e_resource_id = rid, e_revision = rn, e_occurred_at = \<lfloor>cn_clock c\<rfloor>,
               e_payload = pl, e_attempts = 0, e_next_attempt_at = 0,
               e_delivered_at = None, e_last_error = None\<rparr>],
             db_next_event := db_next_event d + 1\<rparr>)"

definition record_job_event :: "conn \<Rightarrow> job \<Rightarrow> db \<Rightarrow> db" where
  "record_job_event c j d = insert_event c Job_updated (j_id j) (j_revision j)
     (Job_payload (j_id j) (j_crawl_run_id j) (j_state j) (j_provider j) (j_kind j)
        (j_attempts j) (j_retry_count j) (j_next_attempt_at j) (j_workspace_id j)) d"

definition record_run_event :: "conn \<Rightarrow> run \<Rightarrow> db \<Rightarrow> db" where
  "record_run_event c r d = insert_event c Run_updated (r_id r) (r_revision r)
     (Run_payload (r_id r) (r_status r) (r_provider r) (coalesce (r_counters r) (JObj []))
        (r_workspace_id r)) d"

definition dispatchable :: "job \<Rightarrow> bool" where
  "dispatchable j \<longleftrightarrow> j_state j = Pending \<or> (j_state j = Blocked \<and> j_next_attempt_at j \<noteq> None)"

definition insert_dispatch :: "job \<Rightarrow> db \<Rightarrow> db" where
  "insert_dispatch j d =
     (if \<not> dispatchable j
         \<or> (\<exists>r \<in> set (db_dispatch d). d_job_id r = j_id j \<and> d_job_revision r = j_revision j)
      then d
      else d\<lparr>db_dispatch := db_dispatch d @ [\<lparr>d_id = db_next_dispatch d, d_job_id = j_id j,
               d_job_revision = j_revision j, d_attempts = 0,
               d_available_at = coalesce (j_next_attempt_at j) 0, d_delivered_at = None,
               d_superseded_at = None, d_last_error = None\<rparr>],
             db_next_dispatch := db_next_dispatch d + 1\<rparr>)"

definition supersede_dispatch :: "conn \<Rightarrow> int \<Rightarrow> int \<Rightarrow> db \<Rightarrow> db" where
  "supersede_dispatch c jid rn d = d\<lparr>db_dispatch :=
     update_where (\<lambda>r. d_job_id r = jid \<and> d_job_revision r = rn \<and> d_delivered_at r = None
                       \<and> d_superseded_at r = None \<and> d_id r \<notin> set (cn_locked_dispatch c))
       (\<lambda>r. r\<lparr>d_superseded_at := Some (cn_clock c)\<rparr>) (db_dispatch d)\<rparr>"

text \<open>The AFTER triggers of one row, in name order: \<open>jobs_dispatch\<close>, then \<open>jobs_event_update\<close>.\<close>

definition after_job_insert :: "conn \<Rightarrow> job \<Rightarrow> db \<Rightarrow> db" where
  "after_job_insert c j d = record_job_event c j (insert_dispatch j d)"

definition after_job_update :: "conn \<Rightarrow> job \<Rightarrow> job \<Rightarrow> db \<Rightarrow> db" where
  "after_job_update c old new d =
     (if j_revision new = j_revision old then d
      else record_job_event c new
             (insert_dispatch new (supersede_dispatch c (j_id new) (j_revision old) d)))"

definition after_run_update :: "conn \<Rightarrow> run \<Rightarrow> run \<Rightarrow> db \<Rightarrow> db" where
  "after_run_update c old new d =
     (if r_revision new = r_revision old then d else record_run_event c new d)"

text \<open>\<open>own_run\<close> and the last branch of \<open>own_job\<close>: the transaction's workspace, else the default.\<close>

definition session_workspace :: "conn \<Rightarrow> string" where
  "session_workspace c = (if cn_workspace_setting c = [] then ''local'' else cn_workspace_setting c)"

definition own_job :: "conn \<Rightarrow> db \<Rightarrow> job \<Rightarrow> job result" where
  "own_job c d j = (case j_crawl_run_id j of
       Some rid \<Rightarrow> (case find_row (\<lambda>r. r_id r = rid) (db_runs d) of
           Some r \<Rightarrow> Inr (j\<lparr>j_workspace_id := r_workspace_id r\<rparr>)
         | None \<Rightarrow> Inl (DatabaseError ''discovery_jobs.workspace_id is null''))
     | None \<Rightarrow> (case j_parent_job_id j of
           Some pid \<Rightarrow> (case find_row (\<lambda>p. j_id p = pid) (db_jobs d) of
               Some p \<Rightarrow> Inr (j\<lparr>j_workspace_id := j_workspace_id p\<rparr>)
             | None \<Rightarrow> Inl (DatabaseError ''discovery_jobs.workspace_id is null''))
         | None \<Rightarrow> Inr (j\<lparr>j_workspace_id := session_workspace c\<rparr>)))"

definition inherit_work_budget :: "db \<Rightarrow> job \<Rightarrow> job" where
  "inherit_work_budget d j = (case j_crawl_run_id j of
       Some rid \<Rightarrow> j\<lparr>j_work_budget_id :=
           Option.bind (find_row (\<lambda>r. r_id r = rid) (db_runs d)) r_work_budget_id\<rparr>
     | None \<Rightarrow> (case j_parent_job_id j of
           Some pid \<Rightarrow> j\<lparr>j_work_budget_id :=
               Option.bind (find_row (\<lambda>p. j_id p = pid) (db_jobs d)) j_work_budget_id\<rparr>
         | None \<Rightarrow> j))"

section \<open>Constraints\<close>

definition live_state :: "job_state \<Rightarrow> bool" where
  "live_state s \<longleftrightarrow> s = Pending \<or> s = In_progress \<or> s = Blocked"

definition terminal_state :: "job_state \<Rightarrow> bool" where
  "terminal_state s \<longleftrightarrow> s = Done \<or> s = Error \<or> s = Skipped"

text \<open>The partial unique index \<open>ux_jobs_dedup_live\<close>.\<close>

definition ux_jobs_dedup_live :: "job list \<Rightarrow> bool" where
  "ux_jobs_dedup_live js \<longleftrightarrow>
     distinct (map j_dedup_key (filter (\<lambda>j. j_state j = Pending \<or> j_state j = In_progress) js))"

definition archive_kind :: "string \<Rightarrow> bool" where
  "archive_kind k \<longleftrightarrow> k \<in> {''build_working_set'', ''prepare_export''}"

definition service_job_provider :: "job \<Rightarrow> bool" where
  "service_job_provider j \<longleftrightarrow> archive_kind (j_kind j) = (j_provider j = None)"

section \<open>Statements\<close>

text \<open>\<open>INSERT INTO discovery_jobs\<close>: the identity column and every trigger.\<close>

definition insert_job :: "conn \<Rightarrow> job \<Rightarrow> db \<Rightarrow> (db \<times> int) result" where
  "insert_job c row d =
     rbind (own_job c d (row\<lparr>j_id := db_next_job d\<rparr>)) (\<lambda>j0.
       let j = (inherit_work_budget d j0)\<lparr>j_revision := 1\<rparr>;
           d1 = d\<lparr>db_jobs := db_jobs d @ [j], db_next_job := db_next_job d + 1\<rparr>
       in if \<not> service_job_provider j then Inl (DatabaseError ''service_job_provider'')
          else if \<not> ux_jobs_dedup_live (db_jobs d1) then Inl (DatabaseError ''ux_jobs_dedup_live'')
          else Inr (after_job_insert c j d1, j_id j))"

text \<open>\<open>UPDATE discovery_jobs\<close> with at least one watched column in its \<open>SET\<close> list.\<close>

definition update_jobs :: "conn \<Rightarrow> (job \<Rightarrow> bool) \<Rightarrow> (job \<Rightarrow> job) \<Rightarrow> db \<Rightarrow> db result" where
  "update_jobs c p f d =
     (let new = (\<lambda>j. set_job_revision j (f j));
          d1 = d\<lparr>db_jobs := update_where p new (db_jobs d)\<rparr>
      in if \<not> ux_jobs_dedup_live (db_jobs d1) then Inl (DatabaseError ''ux_jobs_dedup_live'')
         else Inr (fold (\<lambda>j. after_job_update c j (new j)) (filter p (db_jobs d)) d1))"

text \<open>\<open>UPDATE discovery_jobs\<close> of columns no trigger watches.\<close>

definition touch_jobs :: "(job \<Rightarrow> bool) \<Rightarrow> (job \<Rightarrow> job) \<Rightarrow> db \<Rightarrow> db" where
  "touch_jobs p f d = d\<lparr>db_jobs := update_where p f (db_jobs d)\<rparr>"

definition insert_run :: "conn \<Rightarrow> run \<Rightarrow> db \<Rightarrow> db \<times> int" where
  "insert_run c row d =
     (let r = row\<lparr>r_id := db_next_run d, r_revision := 1, r_workspace_id := session_workspace c\<rparr>
      in (record_run_event c r
            (d\<lparr>db_runs := db_runs d @ [r], db_next_run := db_next_run d + 1\<rparr>), r_id r))"

definition update_runs :: "conn \<Rightarrow> (run \<Rightarrow> bool) \<Rightarrow> (run \<Rightarrow> run) \<Rightarrow> db \<Rightarrow> db" where
  "update_runs c p f d =
     (let new = (\<lambda>r. set_run_revision r (f r))
      in fold (\<lambda>r. after_run_update c r (new r)) (filter p (db_runs d))
           (d\<lparr>db_runs := update_where p new (db_runs d)\<rparr>))"

section \<open>Frames\<close>

text \<open>
  Triggers write only to the two outboxes. \<open>outbox_only d d'\<close> says that \<open>d'\<close> differs from \<open>d\<close> in
  the outboxes and their identity columns at most.
\<close>

definition clear_outbox :: "db \<Rightarrow> db" where
  "clear_outbox d = d\<lparr>db_events := [], db_dispatch := [], db_next_event := 0, db_next_dispatch := 0\<rparr>"

definition outbox_only :: "db \<Rightarrow> db \<Rightarrow> bool" where
  "outbox_only d d' \<longleftrightarrow> clear_outbox d' = clear_outbox d"

lemma outbox_only_refl [simp]: "outbox_only d d"
  by (simp add: outbox_only_def)

lemma outbox_only_trans: "outbox_only d1 d2 \<Longrightarrow> outbox_only d2 d3 \<Longrightarrow> outbox_only d1 d3"
  by (simp add: outbox_only_def)

lemma outbox_only_fields:
  assumes "outbox_only d d'"
  shows "db_workspaces d' = db_workspaces d"
    "db_jobs d' = db_jobs d"
    "db_runs d' = db_runs d"
    "db_cooldowns d' = db_cooldowns d"
    "db_heartbeats d' = db_heartbeats d"
    "db_budgets d' = db_budgets d"
    "db_periods d' = db_periods d"
    "db_policies d' = db_policies d"
    "db_policy_history d' = db_policy_history d"
    "db_reservations d' = db_reservations d"
    "db_game_items d' = db_game_items d"
    "db_turns d' = db_turns d"
    "db_edges d' = db_edges d"
    "db_run_edges d' = db_run_edges d"
    "db_run_games d' = db_run_games d"
    "db_raw_bytes d' = db_raw_bytes d"
    "db_locks d' = db_locks d"
    "db_next_job d' = db_next_job d"
    "db_next_run d' = db_next_run d"
    "db_next_budget d' = db_next_budget d"
    "db_next_reservation d' = db_next_reservation d"
    "db_next_edge d' = db_next_edge d"
    "db_next_turn d' = db_next_turn d"
  using assms by (cases d; cases d'; simp add: outbox_only_def clear_outbox_def)+

lemma clear_outbox_statements [simp]:
  "clear_outbox (insert_event c ty rid rn pl d) = clear_outbox d"
  "clear_outbox (insert_dispatch j d) = clear_outbox d"
  "clear_outbox (supersede_dispatch c jid rn d) = clear_outbox d"
  by (simp_all add: clear_outbox_def insert_event_def insert_dispatch_def supersede_dispatch_def)

lemma outbox_only_triggers:
  "outbox_only d (after_job_insert c j d)"
  "outbox_only d (after_job_update c old new d)"
  "outbox_only d (record_run_event c r d)"
  "outbox_only d (after_run_update c rold rnew d)"
  by (simp_all add: outbox_only_def after_job_insert_def after_job_update_def after_run_update_def
      record_job_event_def record_run_event_def)

lemma outbox_only_fold:
  "(\<And>x d. outbox_only d (g x d)) \<Longrightarrow> outbox_only d (fold g xs d)"
proof (induction xs arbitrary: d)
  case (Cons x xs)
  then show ?case by (metis comp_apply fold_simps(2) outbox_only_trans)
qed simp

lemma update_jobs_frame:
  assumes "update_jobs c p f d = Inr d'"
  shows "outbox_only (d\<lparr>db_jobs := update_where p (\<lambda>j. set_job_revision j (f j)) (db_jobs d)\<rparr>) d'"
  using assms outbox_only_fold [OF outbox_only_triggers(2)]
  by (auto simp: update_jobs_def Let_def split: if_splits)

lemma update_runs_frame:
  "outbox_only (d\<lparr>db_runs := update_where p (\<lambda>r. set_run_revision r (f r)) (db_runs d)\<rparr>)
     (update_runs c p f d)"
  unfolding update_runs_def Let_def by (rule outbox_only_fold) (rule outbox_only_triggers)

lemma insert_run_frame:
  "outbox_only (d\<lparr>db_runs := db_runs d @ [row\<lparr>r_id := db_next_run d, r_revision := 1,
       r_workspace_id := session_workspace c\<rparr>], db_next_run := db_next_run d + 1\<rparr>)
     (fst (insert_run c row d))"
  by (simp add: insert_run_def Let_def outbox_only_triggers)

lemma insert_job_frame:
  assumes "insert_job c row d = Inr (d', i)"
  shows "\<exists>j0. own_job c d (row\<lparr>j_id := db_next_job d\<rparr>) = Inr j0 \<and> i = db_next_job d \<and>
    outbox_only (d\<lparr>db_jobs := db_jobs d @ [(inherit_work_budget d j0)\<lparr>j_revision := 1\<rparr>],
       db_next_job := db_next_job d + 1\<rparr>) d'"
proof -
  have id: "own_job c d r = Inr j0 \<Longrightarrow> j_id (inherit_work_budget d j0) = j_id r" for r j0
    by (auto simp: own_job_def inherit_work_budget_def split: option.splits)
  show ?thesis
    using assms id
    by (fastforce simp: insert_job_def Let_def res_simps outbox_only_triggers split: if_splits)
qed

section \<open>Rows by id\<close>

interpretation job_tab: keyed_table j_id .
interpretation run_tab: keyed_table r_id .

definition get_row :: "db \<Rightarrow> int \<Rightarrow> job option" where
  "get_row d i = find_row (\<lambda>j. j_id j = i) (db_jobs d)"

definition run_row :: "db \<Rightarrow> int \<Rightarrow> run option" where
  "run_row d i = find_row (\<lambda>r. r_id r = i) (db_runs d)"

lemma get_row_lookup: "get_row d i = job_tab.lookup i (db_jobs d)"
  by (simp add: get_row_def job_tab.lookup_def)

lemma run_row_lookup: "run_row d i = run_tab.lookup i (db_runs d)"
  by (simp add: run_row_def run_tab.lookup_def)

lemma set_job_revision_fields [simp]:
  "j_id (set_job_revision o1 n) = j_id n" "j_state (set_job_revision o1 n) = j_state n"
  "j_crawl_run_id (set_job_revision o1 n) = j_crawl_run_id n"
  "j_parent_job_id (set_job_revision o1 n) = j_parent_job_id n"
  "j_provider (set_job_revision o1 n) = j_provider n" "j_kind (set_job_revision o1 n) = j_kind n"
  "j_target (set_job_revision o1 n) = j_target n" "j_params_json (set_job_revision o1 n) = j_params_json n"
  "j_priority (set_job_revision o1 n) = j_priority n" "j_depth (set_job_revision o1 n) = j_depth n"
  "j_attempts (set_job_revision o1 n) = j_attempts n" "j_dedup_key (set_job_revision o1 n) = j_dedup_key n"
  "j_enqueued_at (set_job_revision o1 n) = j_enqueued_at n" "j_started_at (set_job_revision o1 n) = j_started_at n"
  "j_done_at (set_job_revision o1 n) = j_done_at n" "j_reason (set_job_revision o1 n) = j_reason n"
  "j_retry_count (set_job_revision o1 n) = j_retry_count n"
  "j_next_attempt_at (set_job_revision o1 n) = j_next_attempt_at n"
  "j_owner_worker_id (set_job_revision o1 n) = j_owner_worker_id n"
  "j_owner_backend_pid (set_job_revision o1 n) = j_owner_backend_pid n"
  "j_ownership_token (set_job_revision o1 n) = j_ownership_token n"
  "j_ownership_generation (set_job_revision o1 n) = j_ownership_generation n"
  "j_workspace_id (set_job_revision o1 n) = j_workspace_id n"
  "j_work_budget_id (set_job_revision o1 n) = j_work_budget_id n"
  "job_watched (set_job_revision o1 n) = job_watched n"
  by (simp_all add: set_job_revision_def job_watched_def)

lemma job_revision_step:
  "j_revision (set_job_revision o1 n) = j_revision o1 + (if job_watched n \<noteq> job_watched o1 then 1 else 0)"
  by (simp add: set_job_revision_def)

lemma dispatchable_set_job_revision [simp]: "dispatchable (set_job_revision o1 n) = dispatchable n"
  by (simp add: dispatchable_def)

lemma set_run_revision_fields [simp]:
  "r_id (set_run_revision o1 n) = r_id n" "r_status (set_run_revision o1 n) = r_status n"
  "r_provider (set_run_revision o1 n) = r_provider n" "r_workspace_id (set_run_revision o1 n) = r_workspace_id n"
  "r_counters (set_run_revision o1 n) = r_counters n" "r_finished_at (set_run_revision o1 n) = r_finished_at n"
  "r_work_budget_id (set_run_revision o1 n) = r_work_budget_id n"
  "r_params_json (set_run_revision o1 n) = r_params_json n"
  by (simp_all add: set_run_revision_def)

lemma update_jobs_rows:
  "update_jobs c p f d = Inr d' \<Longrightarrow>
   db_jobs d' = update_where p (\<lambda>j. set_job_revision j (f j)) (db_jobs d)"
  by (drule update_jobs_frame, drule outbox_only_fields(2)) simp

lemma update_jobs_get_row:
  assumes "update_jobs c p f d = Inr d'" "\<And>j. j_id (f j) = j_id j"
  shows "get_row d' i = map_option (\<lambda>j. if p j then set_job_revision j (f j) else j) (get_row d i)"
  unfolding get_row_lookup update_jobs_rows [OF assms(1)]
  by (rule job_tab.lookup_update) (simp add: assms(2))

section \<open>The outboxes\<close>

definition job_event :: "int \<Rightarrow> int \<Rightarrow> event_row \<Rightarrow> bool" where
  "job_event i n e \<longleftrightarrow> e_event_type e = Job_updated \<and> e_resource_id e = i \<and> e_revision e = n"

definition job_payload :: "job \<Rightarrow> payload" where
  "job_payload j = Job_payload (j_id j) (j_crawl_run_id j) (j_state j) (j_provider j) (j_kind j)
     (j_attempts j) (j_retry_count j) (j_next_attempt_at j) (j_workspace_id j)"

text \<open>
  Rows have their own ids below the identity column's next value; each revision \<open>1 .. revision\<close>
  of a job has exactly one event, the newest of which describes the row; and a job that may be
  dispatched has a dispatch hint for its current revision.
\<close>

definition jobs_wf :: "db \<Rightarrow> bool" where
  "jobs_wf d \<longleftrightarrow> job_tab.unique_keys (db_jobs d)
     \<and> (\<forall>j \<in> set (db_jobs d). j_id j < db_next_job d \<and> 1 \<le> j_revision j)"

definition announced :: "db \<Rightarrow> bool" where
  "announced d \<longleftrightarrow>
     (\<forall>j \<in> set (db_jobs d). \<forall>n. count_where (job_event (j_id j) n) (db_events d)
        = (if 1 \<le> n \<and> n \<le> j_revision j then 1 else 0))
     \<and> (\<forall>j \<in> set (db_jobs d). \<forall>e \<in> set (db_events d).
          job_event (j_id j) (j_revision j) e \<longrightarrow> e_payload e = job_payload j)
     \<and> (\<forall>e \<in> set (db_events d). e_event_type e = Job_updated \<longrightarrow> e_resource_id e < db_next_job d)"

definition hinted :: "db \<Rightarrow> bool" where
  "hinted d \<longleftrightarrow> (\<forall>j \<in> set (db_jobs d). dispatchable j \<longrightarrow>
     (\<exists>r \<in> set (db_dispatch d). d_job_id r = j_id j \<and> d_job_revision r = j_revision j))"

lemma insert_dispatch_events [simp]:
  "db_events (insert_dispatch j d) = db_events d"
  "db_events (supersede_dispatch c i n d) = db_events d"
  "db_dispatch (insert_event c ty i n pl d) = db_dispatch d"
  by (simp_all add: insert_dispatch_def supersede_dispatch_def insert_event_def)

lemma after_job_update_events:
  assumes "cn_events_enabled c"
  shows "\<exists>es. db_events (after_job_update c o1 n d) = db_events d @ es
    \<and> (\<forall>e \<in> set es. e_event_type e = Job_updated \<and> e_resource_id e = j_id n
         \<and> e_revision e = j_revision n \<and> e_payload e = job_payload n)
    \<and> length es = (if j_revision n = j_revision o1 then 0 else 1)"
  using assms
  by (auto simp: after_job_update_def record_job_event_def insert_event_def job_payload_def)

lemma after_job_update_count:
  assumes "cn_events_enabled c"
  shows "count_where (job_event i k) (db_events (after_job_update c o1 n d)) =
    count_where (job_event i k) (db_events d)
    + (if j_revision n \<noteq> j_revision o1 \<and> j_id n = i \<and> j_revision n = k then 1 else 0)"
  using assms by (auto simp: after_job_update_def record_job_event_def insert_event_def job_event_def)

lemma fold_update_count:
  assumes "cn_events_enabled c"
  shows "count_where (job_event i k) (db_events (fold (\<lambda>j. after_job_update c j (new j)) js d)) =
    count_where (job_event i k) (db_events d)
    + count_where (\<lambda>j. j_revision (new j) \<noteq> j_revision j \<and> j_id (new j) = i \<and> j_revision (new j) = k) js"
  by (induction js arbitrary: d) (simp_all add: after_job_update_count [OF assms])

lemma fold_update_events:
  assumes "e \<in> set (db_events (fold (\<lambda>j. after_job_update c j (new j)) js d))"
  shows "e \<in> set (db_events d) \<or> (\<exists>j \<in> set js. j_revision (new j) \<noteq> j_revision j
    \<and> e_event_type e = Job_updated \<and> e_resource_id e = j_id (new j)
    \<and> e_revision e = j_revision (new j) \<and> e_payload e = job_payload (new j))"
  using assms
proof (induction js arbitrary: d)
  case (Cons j js)
  have "e \<in> set (db_events (after_job_update c j (new j) d)) \<Longrightarrow> e \<in> set (db_events d) \<or>
    (j_revision (new j) \<noteq> j_revision j \<and> e_event_type e = Job_updated
      \<and> e_resource_id e = j_id (new j) \<and> e_revision e = j_revision (new j)
      \<and> e_payload e = job_payload (new j))"
    by (auto simp: after_job_update_def record_job_event_def insert_event_def job_payload_def
        split: if_splits)
  then show ?case using Cons by fastforce
qed simp

text \<open>An update statement keeps its rows' identity: the columns no statement of the program sets.\<close>

definition keeps_identity :: "(job \<Rightarrow> job) \<Rightarrow> bool" where
  "keeps_identity f \<longleftrightarrow> (\<forall>j. j_id (f j) = j_id j \<and> j_crawl_run_id (f j) = j_crawl_run_id j
     \<and> j_provider (f j) = j_provider j \<and> j_kind (f j) = j_kind j
     \<and> j_workspace_id (f j) = j_workspace_id j \<and> j_dedup_key (f j) = j_dedup_key j)"

lemma keeps_identityD:
  assumes "keeps_identity f"
  shows "j_id (f j) = j_id j" "j_crawl_run_id (f j) = j_crawl_run_id j"
    "j_provider (f j) = j_provider j" "j_kind (f j) = j_kind j"
    "j_workspace_id (f j) = j_workspace_id j" "j_dedup_key (f j) = j_dedup_key j"
  using assms by (simp_all add: keeps_identity_def)

lemma update_jobs_wf:
  assumes "jobs_wf d" "update_jobs c p f d = Inr d'" "keeps_identity f"
  shows "jobs_wf d'"
proof -
  note rows = update_jobs_rows [OF assms(2)]
  have n: "db_next_job d' = db_next_job d"
    using outbox_only_fields [OF update_jobs_frame [OF assms(2)]] by simp
  have "job_tab.unique_keys (db_jobs d')"
    unfolding rows using assms(1) by (intro job_tab.unique_keys_update)
      (auto simp: jobs_wf_def keeps_identityD [OF assms(3)])
  moreover have "j_id j < db_next_job d \<and> 1 \<le> j_revision j" if "j \<in> set (db_jobs d')" for j
    using that assms(1)
    by (auto simp: rows set_update_where jobs_wf_def job_revision_step keeps_identityD [OF assms(3)])
  ultimately show ?thesis by (simp add: jobs_wf_def n)
qed

lemma unchanged_payload:
  assumes "keeps_identity f" "job_watched (f j) = job_watched j"
  shows "job_payload (set_job_revision j (f j)) = job_payload j"
  using assms(2) keeps_identityD [OF assms(1), of j] by (simp add: job_payload_def job_watched_def)

lemma update_jobs_events:
  assumes "update_jobs c p f d = Inr d'"
  shows "db_events d' = db_events (fold (\<lambda>j. after_job_update c j (set_job_revision j (f j)))
    (filter p (db_jobs d)) (d\<lparr>db_jobs := update_where p (\<lambda>j. set_job_revision j (f j)) (db_jobs d)\<rparr>))"
  using assms by (auto simp: update_jobs_def Let_def split: if_splits)

text \<open>A row the statement changes gets one event more, for its next revision.\<close>

lemma update_event_count:
  assumes wf: "jobs_wf d" and ann: "announced d" and ev: "cn_events_enabled c"
    and upd: "update_jobs c p f d = Inr d'" and keep: "keeps_identity f" and j: "j \<in> set (db_jobs d)"
  shows "count_where (job_event (j_id j) k) (db_events d') =
    (if 1 \<le> k \<and> k \<le> j_revision j then 1 else 0)
    + (if p j \<and> job_watched (f j) \<noteq> job_watched j \<and> k = j_revision j + 1 then 1 else 0)"
proof -
  let ?new = "\<lambda>j. set_job_revision j (f j)"
  have "count_where (\<lambda>x. j_revision (?new x) \<noteq> j_revision x \<and> j_id (?new x) = j_id j
      \<and> j_revision (?new x) = k) (filter p (db_jobs d))
    = count_where (\<lambda>x. j_id x = j_id j \<and> (p x \<and> job_watched (f x) \<noteq> job_watched x
        \<and> k = j_revision x + 1)) (db_jobs d)"
    unfolding count_where_filter by (rule arg_cong2 [where f = count_where])
      (auto simp: fun_eq_iff keeps_identityD [OF keep] job_revision_step)
  also have "\<dots> = (if p j \<and> job_watched (f j) \<noteq> job_watched j \<and> k = j_revision j + 1 then 1 else 0)"
    using wf j by (intro job_tab.count_at_key) (simp_all add: jobs_wf_def)
  finally show ?thesis
    using ann j unfolding update_jobs_events [OF upd] fold_update_count [OF ev]
    by (simp add: announced_def)
qed

lemma update_event_origin:
  assumes "update_jobs c p f d = Inr d'" "keeps_identity f" "e \<in> set (db_events d')"
  shows "e \<in> set (db_events d) \<or> (\<exists>j \<in> set (db_jobs d). p j \<and> job_watched (f j) \<noteq> job_watched j
    \<and> e_resource_id e = j_id j \<and> e_revision e = j_revision j + 1
    \<and> e_payload e = job_payload (set_job_revision j (f j)))"
  using fold_update_events [OF assms(3) [unfolded update_jobs_events [OF assms(1)]]]
  by (auto simp: keeps_identityD [OF assms(2)] job_revision_step split: if_splits)

lemma announced_revision_le:
  assumes "announced d" "e \<in> set (db_events d)" "j \<in> set (db_jobs d)"
    "e_event_type e = Job_updated" "e_resource_id e = j_id j"
  shows "e_revision e \<le> j_revision j"
proof (rule ccontr)
  assume "\<not> e_revision e \<le> j_revision j"
  then have "count_where (job_event (j_id j) (e_revision e)) (db_events d) = 0"
    using assms by (simp add: announced_def)
  then show False using assms by (auto simp: count_where_zero job_event_def)
qed

text \<open>The newest event of every row describes the row, changed or not.\<close>

lemma update_newest_payload:
  assumes wf: "jobs_wf d" and ann: "announced d" and upd: "update_jobs c p f d = Inr d'"
    and keep: "keeps_identity f" and j: "j \<in> set (db_jobs d)" and e: "e \<in> set (db_events d')"
    and je: "job_event (j_id j) (j_revision (if p j then set_job_revision j (f j) else j)) e"
  shows "e_payload e = job_payload (if p j then set_job_revision j (f j) else j)"
proof -
  let ?ch = "p j \<and> job_watched (f j) \<noteq> job_watched j"
  have uk: "job_tab.unique_keys (db_jobs d)" using wf by (simp add: jobs_wf_def)
  have same: "i = j" if "i \<in> set (db_jobs d)" "e_resource_id e = j_id i" for i
    using job_tab.unique_key_eq [OF uk that(1) j] that(2) je by (simp add: job_event_def)
  have rev: "e_revision e = j_revision j + (if ?ch then 1 else 0)"
    using je by (auto simp: job_event_def job_revision_step)
  show ?thesis
  proof (cases ?ch)
    case True
    then have "e \<notin> set (db_events d)"
      using announced_revision_le [OF ann _ j] je rev by (force simp: job_event_def)
    then show ?thesis
      using update_event_origin [OF upd keep e] same True by auto
  next
    case False
    then have "e \<in> set (db_events d)" using update_event_origin [OF upd keep e] same rev by auto
    then have "e_payload e = job_payload j"
      using ann j je rev False by (auto simp: announced_def job_event_def)
    then show ?thesis using False unchanged_payload [OF keep, of j] by auto
  qed
qed

lemma update_jobs_announced:
  assumes wf: "jobs_wf d" and ann: "announced d" and ev: "cn_events_enabled c"
    and upd: "update_jobs c p f d = Inr d'" and keep: "keeps_identity f"
  shows "announced d'"
proof -
  define row where "row j = (if p j then set_job_revision j (f j) else j)" for j
  have rows: "set (db_jobs d') = row ` set (db_jobs d)"
    using update_jobs_rows [OF upd] by (auto simp: set_update_where row_def)
  have n: "db_next_job d' = db_next_job d"
    using outbox_only_fields [OF update_jobs_frame [OF upd]] by simp
  have id: "j_id (row j) = j_id j" for j by (simp add: row_def keeps_identityD [OF keep])
  have rev: "j_revision (row j) = j_revision j + (if p j \<and> job_watched (f j) \<noteq> job_watched j then 1 else 0)" for j
    by (simp add: row_def job_revision_step)
  have "count_where (job_event (j_id j) k) (db_events d') = (if 1 \<le> k \<and> k \<le> j_revision (row j) then 1 else 0)"
    if "j \<in> set (db_jobs d)" for j k
  proof -
    have "1 \<le> j_revision j" using wf that by (simp add: jobs_wf_def)
    then show ?thesis
      unfolding update_event_count [OF wf ann ev upd keep that] rev by auto
  qed
  moreover have "e_resource_id e < db_next_job d"
    if "e \<in> set (db_events d')" "e_event_type e = Job_updated" for e
    using update_event_origin [OF upd keep that(1)] that(2) ann wf
    by (auto simp: announced_def jobs_wf_def)
  ultimately show ?thesis
    unfolding announced_def rows n
    using update_newest_payload [OF wf ann upd keep, folded row_def] by (simp add: id)
qed

lemma own_job_fields: "own_job c d r = Inr j \<Longrightarrow> \<exists>w. j = r\<lparr>j_workspace_id := w\<rparr>"
  by (auto simp: own_job_def split: option.splits)

lemma inherit_work_budget_fields: "\<exists>b. inherit_work_budget d j = j\<lparr>j_work_budget_id := b\<rparr>"
  by (rule exI [of _ "j_work_budget_id (inherit_work_budget d j)"])
    (simp add: inherit_work_budget_def split: option.split)

text \<open>The row an insert adds: the given columns, a fresh id, revision 1, and its owner.\<close>

lemma insert_job_row:
  assumes "insert_job c row d = Inr (d', i)"
  obtains j w b where "j = row\<lparr>j_id := i, j_revision := 1, j_workspace_id := w, j_work_budget_id := b\<rparr>"
    "i = db_next_job d" "db_jobs d' = db_jobs d @ [j]" "db_next_job d' = db_next_job d + 1"
    "d' = after_job_insert c j (d\<lparr>db_jobs := db_jobs d @ [j], db_next_job := db_next_job d + 1\<rparr>)"
proof -
  obtain j0 where j0: "own_job c d (row\<lparr>j_id := db_next_job d\<rparr>) = Inr j0"
    using assms by (auto simp: insert_job_def res_simps)
  obtain w where w: "j0 = row\<lparr>j_id := db_next_job d, j_workspace_id := w\<rparr>"
    using own_job_fields [OF j0] by auto
  obtain b where b: "inherit_work_budget d j0 = j0\<lparr>j_work_budget_id := b\<rparr>"
    using inherit_work_budget_fields by blast
  define j where "j = row\<lparr>j_id := db_next_job d, j_revision := 1, j_workspace_id := w, j_work_budget_id := b\<rparr>"
  have j: "(inherit_work_budget d j0)\<lparr>j_revision := 1\<rparr> = j" unfolding b by (simp add: w j_def)
  have d': "d' = after_job_insert c j (d\<lparr>db_jobs := db_jobs d @ [j], db_next_job := db_next_job d + 1\<rparr>)"
    and i: "i = db_next_job d"
    using assms j0 by (auto simp: insert_job_def j Let_def j_def split: if_splits)
  have "db_jobs d' = db_jobs d @ [j]" "db_next_job d' = db_next_job d + 1"
    unfolding d' using outbox_only_fields [OF outbox_only_triggers(1) [of _ c j]] by simp_all
  then show ?thesis using that d' i j_def by blast
qed

lemma insert_job_wf: "jobs_wf d \<Longrightarrow> insert_job c row d = Inr (d', i) \<Longrightarrow> jobs_wf d'"
  by (erule insert_job_row) (force simp: jobs_wf_def intro: job_tab.unique_keys_snoc)

lemma insert_job_announced:
  assumes wf: "jobs_wf d" and ann: "announced d" and ev: "cn_events_enabled c"
    and ins: "insert_job c row d = Inr (d', i)"
  shows "announced d'"
  using ins
proof (rule insert_job_row)
  fix j w b
  assume j: "j = row\<lparr>j_id := i, j_revision := 1, j_workspace_id := w, j_work_budget_id := b\<rparr>"
    and i: "i = db_next_job d" and rows: "db_jobs d' = db_jobs d @ [j]" "db_next_job d' = db_next_job d + 1"
    and d': "d' = after_job_insert c j (d\<lparr>db_jobs := db_jobs d @ [j], db_next_job := db_next_job d + 1\<rparr>)"
  have jid: "j_id j = i" "j_revision j = 1" by (simp_all add: j)
  obtain e where e: "db_events d' = db_events d @ [e]" "e_event_type e = Job_updated"
    "e_resource_id e = i" "e_revision e = 1" "e_payload e = job_payload j"
    using ev jid by (simp add: d' after_job_insert_def record_job_event_def insert_event_def job_payload_def)
  have old: "j_id x < i" if "x \<in> set (db_jobs d)" for x using wf that i by (simp add: jobs_wf_def)
  have no_event: "\<not> job_event i k x" if "x \<in> set (db_events d)" for x k
    using ann that i by (auto simp: announced_def job_event_def)
  have new_e: "job_event a k e \<longleftrightarrow> a = i \<and> k = 1" for a k using e by (auto simp: job_event_def)
  have none: "count_where (job_event i k) (db_events d) = 0" for k
    using no_event by (simp add: count_where_zero)
  have "count_where (job_event (j_id x) n) (db_events d') = (if 1 \<le> n \<and> n \<le> j_revision x then 1 else 0)"
    if "x \<in> set (db_jobs d')" for x n
  proof (cases "x = j")
    case False
    then have x: "x \<in> set (db_jobs d)" using that rows by simp
    then have "j_id x \<noteq> i" using old by blast
    then show ?thesis using ann x by (simp add: e(1) new_e announced_def)
  qed (auto simp: e(1) new_e jid none)
  moreover have "e_payload y = job_payload x"
    if x: "x \<in> set (db_jobs d')" and y: "y \<in> set (db_events d')" "job_event (j_id x) (j_revision x) y" for x y
  proof (cases "x = j")
    case True
    then show ?thesis using y no_event [of y 1] by (auto simp: e(1,5) jid)
  next
    case False
    then have x: "x \<in> set (db_jobs d)" using x rows by simp
    then have "y \<in> set (db_events d)" using old [OF x] y new_e by (auto simp: e(1))
    then show ?thesis using ann x y by (simp add: announced_def)
  qed
  moreover have "e_resource_id y < i + 1" if "y \<in> set (db_events d')" "e_event_type y = Job_updated" for y
    using that ann i by (fastforce simp: e(1,3) announced_def)
  ultimately show ?thesis by (auto simp: announced_def rows(2) i)
qed

subsection \<open>Dispatch hints\<close>

definition hint_keys :: "db \<Rightarrow> (int \<times> int) set" where
  "hint_keys d = (\<lambda>r. (d_job_id r, d_job_revision r)) ` set (db_dispatch d)"

lemma hinted_iff:
  "hinted d \<longleftrightarrow> (\<forall>j \<in> set (db_jobs d). dispatchable j \<longrightarrow> (j_id j, j_revision j) \<in> hint_keys d)"
  by (auto simp: hinted_def hint_keys_def image_iff eq_commute)

lemma hint_keys_statements [simp]:
  "hint_keys (insert_event c ty i n pl d) = hint_keys d"
  "hint_keys (supersede_dispatch c i n d) = hint_keys d"
  "hint_keys (insert_dispatch j d) =
     hint_keys d \<union> (if dispatchable j then {(j_id j, j_revision j)} else {})"
proof -
  show "hint_keys (insert_event c ty i n pl d) = hint_keys d"
    by (simp add: hint_keys_def insert_event_def)
  show "hint_keys (supersede_dispatch c i n d) = hint_keys d"
    unfolding hint_keys_def supersede_dispatch_def set_map [symmetric]
    by (simp add: map_update_where del: set_map)
  show "hint_keys (insert_dispatch j d) =
     hint_keys d \<union> (if dispatchable j then {(j_id j, j_revision j)} else {})"
    by (force simp: hint_keys_def insert_dispatch_def)
qed

lemma hint_keys_after_update:
  "hint_keys (after_job_update c o1 n d) = hint_keys d \<union>
     (if j_revision n \<noteq> j_revision o1 \<and> dispatchable n then {(j_id n, j_revision n)} else {})"
  by (simp add: after_job_update_def record_job_event_def)

lemma hint_keys_fold:
  "hint_keys (fold (\<lambda>j. after_job_update c j (new j)) js d) = hint_keys d \<union>
     (\<lambda>j. (j_id (new j), j_revision (new j))) `
       {j \<in> set js. j_revision (new j) \<noteq> j_revision j \<and> dispatchable (new j)}"
  by (induction js arbitrary: d) (auto simp: hint_keys_after_update)

lemma hint_keys_update_jobs:
  assumes "update_jobs c p f d = Inr d'"
  shows "hint_keys d' = hint_keys d \<union> (\<lambda>j. (j_id (f j), j_revision (set_job_revision j (f j)))) `
    {j \<in> set (db_jobs d). p j \<and> job_watched (f j) \<noteq> job_watched j \<and> dispatchable (f j)}"
proof -
  have jobs: "hint_keys (d\<lparr>db_jobs := js\<rparr>) = hint_keys d" for js by (simp add: hint_keys_def)
  have "{j \<in> set (filter p (db_jobs d)). j_revision (set_job_revision j (f j)) \<noteq> j_revision j
      \<and> dispatchable (set_job_revision j (f j))}
    = {j \<in> set (db_jobs d). p j \<and> job_watched (f j) \<noteq> job_watched j \<and> dispatchable (f j)}"
    by (auto simp: job_revision_step)
  then show ?thesis
    using assms by (auto simp: update_jobs_def Let_def hint_keys_fold jobs split: if_splits)
qed

lemma update_jobs_hinted:
  assumes hin: "hinted d" and upd: "update_jobs c p f d = Inr d'" and keep: "keeps_identity f"
  shows "hinted d'"
  unfolding hinted_iff
proof (intro ballI impI)
  fix j' assume "j' \<in> set (db_jobs d')" and disp: "dispatchable j'"
  then obtain j where j: "j \<in> set (db_jobs d)" "j' = (if p j then set_job_revision j (f j) else j)"
    by (auto simp: update_jobs_rows [OF upd] set_update_where)
  note keys = hint_keys_update_jobs [OF upd]
  show "(j_id j', j_revision j') \<in> hint_keys d'"
  proof (cases "p j \<and> job_watched (f j) \<noteq> job_watched j")
    case True
    then show ?thesis using j disp by (auto simp: keys)
  next
    case False
    then have "dispatchable j" "j_revision j' = j_revision j" "j_id j' = j_id j"
      using j disp by (auto simp: job_revision_step dispatchable_def job_watched_def
          keeps_identityD [OF keep] split: if_splits)
    then show ?thesis using hin j(1) by (simp add: keys hinted_iff)
  qed
qed

lemma insert_job_hinted:
  assumes hin: "hinted d" and ins: "insert_job c row d = Inr (d', i)"
  shows "hinted d'"
  using ins
proof (rule insert_job_row)
  fix j
  assume rows: "db_jobs d' = db_jobs d @ [j]"
    and d': "d' = after_job_insert c j (d\<lparr>db_jobs := db_jobs d @ [j], db_next_job := db_next_job d + 1\<rparr>)"
  have "hint_keys d' = hint_keys d \<union> (if dispatchable j then {(j_id j, j_revision j)} else {})"
    unfolding d' by (simp add: after_job_insert_def record_job_event_def) (simp add: hint_keys_def)
  then show ?thesis using hin by (auto simp: hinted_iff rows)
qed

end
