(* ===== verification/Workspaces.thy ===== *)
theory Workspaces
  imports Tables
begin

text \<open>
  Trusted service ownership, storage/workspaces.py: workspace identifiers, the submission context
  that makes a session's inserts belong to a workspace, and the ownership checks of runs and
  jobs. The theory shows that an accepted identifier is safe text of bounded length and that work
  submitted in a context belongs to that workspace, children included.
\<close>

definition workspace_char :: "char \<Rightarrow> bool" where
  "workspace_char c \<longleftrightarrow> is_ascii_alnum c \<or> c = CHR ''_'' \<or> c = CHR ''-''"

definition validate_workspace :: "string \<Rightarrow> string result" where
  "validate_workspace ws =
     (if \<not> (1 \<le> length ws \<and> length ws \<le> 100 \<and> list_all workspace_char ws) \<or> ws = ''public''
      then Inl (ValidationError ''Invalid trusted workspace identifier'' ''invalid_workspace'')
      else Inr ws)"

definition submission_context :: "conn \<Rightarrow> string \<Rightarrow> db \<Rightarrow> (db \<times> conn) result" where
  "submission_context c ws d = rbind (validate_workspace ws) (\<lambda>_.
     Inr (if ws \<in> set (db_workspaces d) then d else d\<lparr>db_workspaces := db_workspaces d @ [ws]\<rparr>,
          c\<lparr>cn_workspace_setting := ws\<rparr>))"

definition require_run :: "db \<Rightarrow> int \<Rightarrow> string \<Rightarrow> unit result" where
  "require_run d rid ws = rguard (find_row (\<lambda>r. r_id r = rid \<and> r_workspace_id r = ws) (db_runs d) \<noteq> None)
     (NotFound ''Crawl run not found'' ''run_not_found'')"

definition require_job :: "db \<Rightarrow> int \<Rightarrow> string \<Rightarrow> unit result" where
  "require_job d i ws = rguard (find_row (\<lambda>j. j_id j = i \<and> j_workspace_id j = ws) (db_jobs d) \<noteq> None)
     (NotFound ''Job not found'' ''job_not_found'')"

lemma validate_workspace_ok:
  assumes "validate_workspace ws = Inr w"
  shows "w = ws" "ws \<noteq> []" "length ws \<le> 100" "ws \<noteq> ''public''" "list_all workspace_char ws"
  using assms by (auto simp: validate_workspace_def split: if_splits)

lemma submission_context_workspace:
  assumes "submission_context c ws d = Inr (d', c')"
  shows "session_workspace c' = ws"
  using assms
  by (auto simp: submission_context_def session_workspace_def res_simps dest: validate_workspace_ok)

text \<open>A job inserted with a run or a parent has that owner's workspace, whatever the session says.\<close>

lemma insert_job_workspace:
  assumes "insert_job c row d = Inr (d', i)" "get_row d' i = Some j" "jobs_wf d"
  shows "case j_crawl_run_id row of
      Some r \<Rightarrow> (\<exists>x. run_row d r = Some x \<and> j_workspace_id j = r_workspace_id x)
    | None \<Rightarrow> (case j_parent_job_id row of
          Some p \<Rightarrow> (\<exists>x. get_row d p = Some x \<and> j_workspace_id j = j_workspace_id x)
        | None \<Rightarrow> j_workspace_id j = session_workspace c)"
proof -
  obtain j0 where j0: "own_job c d (row\<lparr>j_id := db_next_job d\<rparr>) = Inr j0" "i = db_next_job d"
    and fr: "outbox_only (d\<lparr>db_jobs := db_jobs d @ [(inherit_work_budget d j0)\<lparr>j_revision := 1\<rparr>],
       db_next_job := db_next_job d + 1\<rparr>) d'"
    using insert_job_frame [OF assms(1)] by auto
  obtain b where b: "inherit_work_budget d j0 = j0\<lparr>j_work_budget_id := b\<rparr>"
    using inherit_work_budget_fields by blast
  have id: "j_id j0 = i" using own_job_fields [OF j0(1)] j0(2) by auto
  have fresh: "find_row (\<lambda>x. j_id x = i) (db_jobs d) = None"
    using assms(3) j0(2) by (auto simp: jobs_wf_def find_row_None)
  have "j = j0\<lparr>j_work_budget_id := b, j_revision := 1\<rparr>"
    using assms(2) outbox_only_fields(2) [OF fr]
    by (simp add: get_row_def find_row_append fresh b id)
  then have "j_workspace_id j = j_workspace_id j0" by simp
  then show ?thesis
    using j0(1) by (auto simp: own_job_def run_row_def get_row_def split: option.splits)
qed

end
