(* ===== verification/Calendar.thy ===== *)
theory Calendar
  imports Prelude
begin

text \<open>
  The proleptic Gregorian calendar behind \<open>datetime.fromtimestamp(t, UTC)\<close> and
  \<open>datetime(y, m, d, tzinfo=UTC).timestamp()\<close>, with Python's year range 1 to 9999. The theory
  shows that the year and month of a timestamp bracket it, which the monthly quota periods and
  the monthly acquisition units rest on.
\<close>

definition is_leap :: "int \<Rightarrow> bool" where
  "is_leap y \<longleftrightarrow> y mod 4 = 0 \<and> (y mod 100 \<noteq> 0 \<or> y mod 400 = 0)"

definition days_in_month :: "int \<Rightarrow> int \<Rightarrow> int" where
  "days_in_month y m =
     (if m = 2 then (if is_leap y then 29 else 28)
      else if m = 4 \<or> m = 6 \<or> m = 9 \<or> m = 11 then 30 else 31)"

definition days_before_year :: "int \<Rightarrow> int" where
  "days_before_year y = (let z = y - 1 in z * 365 + z div 4 - z div 100 + z div 400)"

fun days_before_month_nat :: "int \<Rightarrow> nat \<Rightarrow> int" where
  "days_before_month_nat y 0 = 0"
| "days_before_month_nat y (Suc k) = days_before_month_nat y k + days_in_month y (int k + 1)"

definition days_before_month :: "int \<Rightarrow> int \<Rightarrow> int" where
  "days_before_month y m = days_before_month_nat y (nat (m - 1))"

definition ymd2ord :: "int \<Rightarrow> int \<Rightarrow> int \<Rightarrow> int" where
  "ymd2ord y m d = days_before_year y + days_before_month y m + d"

definition year_of_ord :: "int \<Rightarrow> int" where
  "year_of_ord n =
     (let q = n - 1; a = q div 146097; r = q mod 146097;
          b = min 3 (r div 36524); r2 = r - b * 36524;
          c = r2 div 1461; r3 = r2 mod 1461; d = min 3 (r3 div 365)
      in 400 * a + 100 * b + 4 * c + d + 1)"

function month_search :: "int \<Rightarrow> int \<Rightarrow> int \<Rightarrow> int \<times> int" where
  "month_search y m k =
     (if m < 12 \<and> days_in_month y m \<le> k then month_search y (m + 1) (k - days_in_month y m)
      else (m, k + 1))"
  by pat_completeness auto
termination
  by (relation "measure (\<lambda>(y, m, k). nat (12 - m))") auto

declare month_search.simps [simp del]

definition ord2ymd :: "int \<Rightarrow> int \<times> int \<times> int" where
  "ord2ymd n = (let y = year_of_ord n in (y, month_search y 1 (n - 1 - days_before_year y)))"

definition epoch_ordinal :: int where "epoch_ordinal = 719163"

text \<open>\<open>datetime.fromtimestamp(t, tz=UTC)\<close>, its date part.\<close>

definition fromtimestamp :: "int \<Rightarrow> (int \<times> int \<times> int) result" where
  "fromtimestamp t = (let (y, m, d) = ord2ymd (t div 86400 + epoch_ordinal) in
     if 1 \<le> y \<and> y \<le> 9999 then Inr (y, m, d) else Inl (ValueError ''year is out of range''))"

text \<open>\<open>int(datetime(y, m, d, tzinfo=UTC).timestamp())\<close>.\<close>

definition timestamp :: "int \<Rightarrow> int \<Rightarrow> int \<Rightarrow> int result" where
  "timestamp y m d =
     (if \<not> (1 \<le> y \<and> y \<le> 9999) then Inl (ValueError ''year must be in 1..9999'')
      else if \<not> (1 \<le> m \<and> m \<le> 12) then Inl (ValueError ''month must be in 1..12'')
      else if \<not> (1 \<le> d \<and> d \<le> days_in_month y m) then Inl (ValueError ''day is out of range for month'')
      else Inr ((ymd2ord y m d - epoch_ordinal) * 86400))"

text \<open>The first second of a month, without the range checks.\<close>

definition month_start :: "int \<Rightarrow> int \<Rightarrow> int" where
  "month_start y m = (ymd2ord y m 1 - epoch_ordinal) * 86400"

definition next_month :: "int \<times> int \<Rightarrow> int \<times> int" where
  "next_month ym = (if snd ym = 12 then (fst ym + 1, 1) else (fst ym, snd ym + 1))"

section \<open>Years\<close>

lemma div_of_parts:
  fixes a b c d :: int
  assumes "0 \<le> b" "b \<le> 3" "0 \<le> c" "c \<le> 24" "0 \<le> d" "d \<le> 3"
  shows "(400 * a + 100 * b + 4 * c + d) div 4 = 100 * a + 25 * b + c"
    "(400 * a + 100 * b + 4 * c + d) div 100 = 4 * a + b"
    "(400 * a + 100 * b + 4 * c + d) div 400 = a"
  using assms by (auto intro!: int_div_pos_eq)

lemma days_before_year_parts:
  fixes a b c d :: int
  assumes "0 \<le> b" "b \<le> 3" "0 \<le> c" "c \<le> 24" "0 \<le> d" "d \<le> 3"
  shows "days_before_year (400 * a + 100 * b + 4 * c + d + 1) = 146097 * a + 36524 * b + 1461 * c + 365 * d"
  using div_of_parts [OF assms, of a] by (simp add: days_before_year_def)

lemma leap_of_parts:
  fixes a b c d :: int
  assumes "0 \<le> b" "b \<le> 3" "0 \<le> c" "c \<le> 24" "0 \<le> d" "d \<le> 3"
  shows "is_leap (400 * a + 100 * b + 4 * c + d + 1) \<longleftrightarrow> d = 3 \<and> (c = 24 \<longrightarrow> b = 3)"
proof -
  let ?y = "400 * a + 100 * b + 4 * c + d + 1"
  have y4: "?y mod 4 = (if d = 3 then 0 else d + 1)"
    using assms by (auto intro!: int_mod_pos_eq [where q = "100 * a + 25 * b + c + (if d = 3 then 1 else 0)"])
  have y100: "?y mod 100 = (if d = 3 \<and> c = 24 then 0 else 4 * c + d + 1)"
    using assms
    by (auto intro!: int_mod_pos_eq [where q = "4 * a + b + (if d = 3 \<and> c = 24 then 1 else 0)"])
  have y400: "?y mod 400 = (if d = 3 \<and> c = 24 \<and> b = 3 then 0 else 100 * b + 4 * c + d + 1)"
    using assms
    by (auto intro!: int_mod_pos_eq [where q = "a + (if d = 3 \<and> c = 24 \<and> b = 3 then 1 else 0)"])
  show ?thesis
    unfolding is_leap_def y4 y100 y400 using assms by auto
qed

lemma div_pred:
  fixes y k :: int
  assumes "1 < k"
  shows "y div k = (y - 1) div k + (if y mod k = 0 then 1 else 0)"
proof -
  let ?q = "y div k"
  have y: "y = k * ?q + y mod k" "0 \<le> y mod k" "y mod k < k" using assms by simp_all
  have "(y - 1) div k = (if y mod k = 0 then ?q - 1 else ?q)"
  proof (cases "y mod k = 0")
    case True
    then have "y - 1 = k * (?q - 1) + (k - 1)" using y by (simp add: algebra_simps)
    then show ?thesis using True assms by (intro int_div_pos_eq [where r = "k - 1"]) auto
  next
    case False
    then have "y - 1 = k * ?q + (y mod k - 1)" using y by simp
    moreover have "0 \<le> y mod k - 1" "y mod k - 1 < k" using False y(2,3) by linarith+
    ultimately have "(y - 1) div k = ?q" by (rule int_div_pos_eq)
    then show ?thesis using False by simp
  qed
  then show ?thesis by simp
qed

lemma leap_count:
  fixes y a b c :: int
  assumes "p400 \<Longrightarrow> p100" "p100 \<Longrightarrow> p4"
  shows "y * 365 + (a + (if p4 then 1 else 0)) - (b + (if p100 then 1 else 0))
      + (c + (if p400 then 1 else 0))
    = (y - 1) * 365 + a - b + c + (if p4 \<and> (\<not> p100 \<or> p400) then 366 else 365)"
  using assms by auto

lemma days_before_year_Suc: "days_before_year (y + 1) = days_before_year y + (if is_leap y then 366 else 365)"
proof -
  have d: "y div 4 = (y - 1) div 4 + (if y mod 4 = 0 then 1 else 0)"
    "y div 100 = (y - 1) div 100 + (if y mod 100 = 0 then 1 else 0)"
    "y div 400 = (y - 1) div 400 + (if y mod 400 = 0 then 1 else 0)"
    by (rule div_pred; simp)+
  have m: "y mod 400 = 0 \<Longrightarrow> y mod 100 = 0" "y mod 100 = 0 \<Longrightarrow> y mod 4 = 0"
    using dvd_trans [of 100 400 y] dvd_trans [of 4 100 y] by (simp_all add: mod_eq_0_iff_dvd)
  have "days_before_year (y + 1) = y * 365 + y div 4 - y div 100 + y div 400"
    by (simp only: days_before_year_def Let_def add_diff_cancel_right')
  then show ?thesis
    unfolding d days_before_year_def is_leap_def Let_def by (simp only: leap_count [OF m])
qed

lemma year_of_ord_bounds:
  "days_before_year (year_of_ord n) < n \<and> n \<le> days_before_year (year_of_ord n + 1)"
proof -
  define q where "q = n - 1"
  define a where "a = q div 146097"
  define r where "r = q mod 146097"
  define b where "b = min 3 (r div 36524)"
  define r2 where "r2 = r - b * 36524"
  define c where "c = r2 div 1461"
  define r3 where "r3 = r2 mod 1461"
  define d where "d = min 3 (r3 div 365)"
  have y: "year_of_ord n = 400 * a + 100 * b + 4 * c + d + 1"
    by (simp add: year_of_ord_def Let_def q_def a_def r_def b_def r2_def c_def r3_def d_def)
  have r: "0 \<le> r" "r \<le> 146096" by (simp_all add: r_def)
  have b: "0 \<le> b" "b \<le> 3" and r2: "0 \<le> r2" "r2 \<le> 36524" "b < 3 \<Longrightarrow> r2 \<le> 36523"
    using r by (auto simp: b_def r2_def min_def)
  have c: "0 \<le> c" "c \<le> 24" using r2 by (auto simp: c_def)
  have r3: "0 \<le> r3" "r3 \<le> 1460" and c_r3: "r2 = 1461 * c + r3"
    by (simp_all add: r3_def c_def)
  have d: "0 \<le> d" "d \<le> 3" using r3 by (auto simp: d_def)
  have r4: "0 \<le> r3 - 365 * d" "r3 - 365 * d \<le> (if d = 3 then 365 else 364)"
    using r3 by (auto simp: d_def min_def)
  have q: "q = 146097 * a + 36524 * b + 1461 * c + r3"
    using c_r3 mult_div_mod_eq [of 146097 q] unfolding a_def r_def r2_def by linarith
  have dby: "days_before_year (year_of_ord n) = 146097 * a + 36524 * b + 1461 * c + 365 * d"
    unfolding y by (rule days_before_year_parts [OF b c d])
  have leap: "is_leap (year_of_ord n) \<longleftrightarrow> d = 3 \<and> (c = 24 \<longrightarrow> b = 3)"
    unfolding y by (rule leap_of_parts [OF b c d])
  have last: "r3 - 365 * d \<le> 364" if "\<not> is_leap (year_of_ord n)"
    using that leap r4 r2 c_r3 b by (cases "d = 3") auto
  show ?thesis
    using q r4 dby last q_def
    by (auto simp: days_before_year_Suc split: if_splits)
qed

section \<open>Months\<close>

lemma days_in_month_pos: "28 \<le> days_in_month y m"
  by (simp add: days_in_month_def)

lemma days_before_month_Suc:
  "1 \<le> m \<Longrightarrow> days_before_month y (m + 1) = days_before_month y m + days_in_month y m"
proof -
  assume "1 \<le> m"
  then have "nat (m + 1 - 1) = Suc (nat (m - 1))" "int (nat (m - 1)) + 1 = m" by linarith+
  then show ?thesis by (simp add: days_before_month_def)
qed

lemma days_before_month_1 [simp]: "days_before_month y 1 = 0"
  by (simp add: days_before_month_def)

lemma days_in_year:
  "days_before_month y 12 + days_in_month y 12 = (if is_leap y then 366 else 365)"
proof -
  have "nat (12 - 1) = Suc (Suc (Suc (Suc (Suc (Suc (Suc (Suc (Suc (Suc (Suc 0))))))))))" by simp
  then show ?thesis
    by (simp add: days_before_month_def days_in_month_def del: nat_1 nat_numeral)
qed

lemma month_search_correct:
  assumes "1 \<le> m" "m \<le> 12" "0 \<le> k" "days_before_month y m + k < days_before_month y 12 + days_in_month y 12"
    and "month_search y m k = (m', d)"
  shows "m \<le> m' \<and> m' \<le> 12 \<and> 1 \<le> d \<and> d \<le> days_in_month y m'
    \<and> days_before_month y m' + d = days_before_month y m + k + 1"
  using assms
proof (induction y m k rule: month_search.induct)
  case (1 y m k)
  show ?case
  proof (cases "m < 12 \<and> days_in_month y m \<le> k")
    case True
    have "month_search y (m + 1) (k - days_in_month y m) = (m', d)"
      using "1.prems"(5) True by (subst (asm) month_search.simps) simp
    then show ?thesis
      using "1.IH" [OF True] "1.prems" True days_before_month_Suc [of m y] by simp
  next
    case False
    have "(m', d) = (m, k + 1)"
      using "1.prems"(5) False by (subst (asm) month_search.simps) auto
    then show ?thesis using "1.prems" False by (cases "m < 12") auto
  qed
qed

lemma ord2ymd_correct:
  assumes "ord2ymd n = (y, m, d)"
  shows "1 \<le> m" "m \<le> 12" "1 \<le> d" "d \<le> days_in_month y m" "ymd2ord y m d = n"
proof -
  let ?k = "n - 1 - days_before_year y"
  have y: "y = year_of_ord n" and s: "month_search y 1 ?k = (m, d)"
    using assms by (auto simp: ord2ymd_def Let_def)
  have "0 \<le> ?k" "?k < days_before_month y 12 + days_in_month y 12"
    using year_of_ord_bounds [of n] y by (auto simp: days_before_year_Suc days_in_year)
  from month_search_correct [OF _ _ this(1) _ s] this
  show "1 \<le> m" "m \<le> 12" "1 \<le> d" "d \<le> days_in_month y m" "ymd2ord y m d = n"
    by (auto simp: ymd2ord_def)
qed

lemma ymd2ord_next_month:
  assumes "1 \<le> m" "m \<le> 12"
  shows "ymd2ord (fst (next_month (y, m))) (snd (next_month (y, m))) 1 = ymd2ord y m 1 + days_in_month y m"
proof (cases "m = 12")
  case True
  then show ?thesis
    using days_in_year [of y] by (simp add: next_month_def ymd2ord_def days_before_year_Suc)
next
  case False
  then show ?thesis using assms by (simp add: next_month_def ymd2ord_def days_before_month_Suc)
qed

text \<open>A timestamp lies in its own month: not before its first second, before the next month's.\<close>

lemma ord2ymd_bracket:
  assumes "ord2ymd (t div 86400 + epoch_ordinal) = (y, m, d)"
  shows "month_start y m \<le> t" "t < month_start (fst (next_month (y, m))) (snd (next_month (y, m)))"
    "1 \<le> m" "m \<le> 12"
proof -
  note c = ord2ymd_correct [OF assms]
  have day: "ymd2ord y m 1 = t div 86400 + epoch_ordinal - (d - 1)"
    using c(5) by (simp add: ymd2ord_def)
  have t: "t = 86400 * (t div 86400) + t mod 86400" "0 \<le> t mod 86400" "t mod 86400 < 86400" by simp_all
  show "month_start y m \<le> t" using day c(3) t by (simp add: month_start_def)
  show "t < month_start (fst (next_month (y, m))) (snd (next_month (y, m)))"
    using day c(4) t ymd2ord_next_month [OF c(1,2), of y] by (simp add: month_start_def)
  show "1 \<le> m" "m \<le> 12" using c by auto
qed

lemma fromtimestamp_bracket:
  assumes "fromtimestamp t = Inr (y, m, d)"
  shows "month_start y m \<le> t" "t < month_start (fst (next_month (y, m))) (snd (next_month (y, m)))"
    "1 \<le> m" "m \<le> 12" "1 \<le> y" "y \<le> 9999"
proof -
  have o: "ord2ymd (t div 86400 + epoch_ordinal) = (y, m, d)"
    and yr: "1 \<le> y" "y \<le> 9999"
    using assms by (auto simp: fromtimestamp_def split: prod.splits if_splits)
  then show "month_start y m \<le> t" "t < month_start (fst (next_month (y, m))) (snd (next_month (y, m)))"
    "1 \<le> m" "m \<le> 12" "1 \<le> y" "y \<le> 9999" using ord2ymd_bracket [OF o] by auto
qed

lemma month_start_next:
  "1 \<le> m \<Longrightarrow> m \<le> 12 \<Longrightarrow>
   month_start y m < month_start (fst (next_month (y, m))) (snd (next_month (y, m)))"
  using ymd2ord_next_month [of m y] days_in_month_pos [of y m] by (simp add: month_start_def)

lemma timestamp_month:
  "timestamp y m 1 = Inr s \<Longrightarrow> s = month_start y m"
  by (auto simp: timestamp_def month_start_def split: if_splits)

lemma timestamp_ok: "1 \<le> y \<Longrightarrow> y \<le> 9999 \<Longrightarrow> 1 \<le> m \<Longrightarrow> m \<le> 12 \<Longrightarrow> timestamp y m 1 = Inr (month_start y m)"
  using days_in_month_pos [of y m] by (simp add: timestamp_def month_start_def)

text \<open>Months are ordered as their first seconds are.\<close>

lemma month_start_mono:
  assumes "1 \<le> m" "m \<le> 12" "1 \<le> m'" "m' \<le> 12" "12 * y + m \<le> 12 * y' + m'"
  shows "month_start y m \<le> month_start y' m'"
proof -
  have "month_start y m \<le> month_start y' m'"
    if "nat (12 * y' + m' - (12 * y + m)) = k" "1 \<le> m" "m \<le> 12" "12 * y + m \<le> 12 * y' + m'" for k y m
    using that
  proof (induction k arbitrary: y m)
    case 0
    then have "12 * y + m = 12 * y' + m'" by simp
    then have "y = y'" "m = m'" using 0 assms(3,4) by presburger+
    then show ?case by simp
  next
    case (Suc k)
    let ?n = "next_month (y, m)"
    have idx: "12 * fst ?n + snd ?n = 12 * y + m + 1" "1 \<le> snd ?n" "snd ?n \<le> 12"
      using Suc.prems by (auto simp: next_month_def)
    have "month_start (fst ?n) (snd ?n) \<le> month_start y' m'"
      by (rule Suc.IH) (use idx Suc.prems in auto)
    then show ?case using month_start_next [of m y] Suc.prems by simp
  qed
  then show ?thesis using assms by blast
qed

lemma month_of_bracketed:
  assumes "ord2ymd (t div 86400 + epoch_ordinal) = (y', m', d')" "1 \<le> m" "m \<le> 12"
    "month_start y m \<le> t" "t < month_start (fst (next_month (y, m))) (snd (next_month (y, m)))"
  shows "y' = y \<and> m' = m"
proof -
  note b = ord2ymd_bracket [OF assms(1)]
  have idx: "12 * fst (next_month (a, k)) + snd (next_month (a, k)) = 12 * a + k + 1"
    "1 \<le> snd (next_month (a, k))" "snd (next_month (a, k)) \<le> 12" if "1 \<le> k" "k \<le> 12" for a k
    using that by (auto simp: next_month_def)
  have "\<not> 12 * y + m < 12 * y' + m'"
  proof
    assume "12 * y + m < 12 * y' + m'"
    then have "month_start (fst (next_month (y, m))) (snd (next_month (y, m))) \<le> month_start y' m'"
      using idx [OF assms(2,3), of y] b(3,4) by (intro month_start_mono) auto
    then show False using b(1) assms(5) by simp
  qed
  moreover have "\<not> 12 * y' + m' < 12 * y + m"
  proof
    assume "12 * y' + m' < 12 * y + m"
    then have "month_start (fst (next_month (y', m'))) (snd (next_month (y', m'))) \<le> month_start y m"
      using idx [OF b(3,4), of y'] assms(2,3) by (intro month_start_mono) auto
    then show False using b(2) assms(4) by simp
  qed
  ultimately have "12 * y + m = 12 * y' + m'" by simp
  then show ?thesis using assms(2,3) b(3,4) by presburger
qed

end
