(* ===== verification/Locks.thy ===== *)
theory Locks
  imports Schema
begin

text \<open>
  PostgreSQL's session-level advisory locks as storage/db.py and jobs/locking.py use them, the
  ownership checks that open every write transaction, and the executor leases. The locale
  \<open>lock_service\<close> states what its clients rely on: a key held by one owner is refused to every
  other, and releasing touches the caller's own grants only. The advisory locks of the model
  are an interpretation of it; scheduling uses the resulting mutual exclusion.
\<close>

section \<open>The contract of a lock service\<close>

locale lock_service =
  fixes acquire :: "'p \<Rightarrow> 'k \<Rightarrow> 's \<Rightarrow> 's option"
    and release :: "'p \<Rightarrow> 'k \<Rightarrow> 's \<Rightarrow> 's"
    and holds :: "'s \<Rightarrow> 'p \<Rightarrow> 'k \<Rightarrow> bool"
    and valid :: "'s \<Rightarrow> bool"
  assumes acquire_valid: "valid s \<Longrightarrow> acquire p k s = Some s' \<Longrightarrow> valid s'"
    and acquire_holds: "acquire p k s = Some s' \<Longrightarrow> holds s' q j \<longleftrightarrow> holds s q j \<or> (q = p \<and> j = k)"
    and acquire_other: "acquire p k s = Some s' \<Longrightarrow> holds s q k \<Longrightarrow> q = p"
    and release_valid: "valid s \<Longrightarrow> valid (release p k s)"
    and release_holds: "holds (release p k s) q j \<Longrightarrow> holds s q j"
    and release_frame: "q \<noteq> p \<or> j \<noteq> k \<Longrightarrow> holds (release p k s) q j = holds s q j"
    and holds_exclusive: "valid s \<Longrightarrow> holds s p k \<Longrightarrow> holds s q k \<Longrightarrow> p = q"
begin

lemma acquire_held_by_other: "holds s q k \<Longrightarrow> q \<noteq> p \<Longrightarrow> acquire p k s = None"
  using acquire_other by (cases "acquire p k s") auto

fun release_all :: "'p \<Rightarrow> 'k list \<Rightarrow> 's \<Rightarrow> 's" where
  "release_all p [] s = s"
| "release_all p (k # ks) s = release_all p ks (release p k s)"

lemma release_all_valid: "valid s \<Longrightarrow> valid (release_all p ks s)"
  by (induction ks arbitrary: s) (auto intro: release_valid)

lemma release_all_other: "q \<noteq> p \<Longrightarrow> holds (release_all p ks s) q j = holds s q j"
  by (induction ks arbitrary: s) (simp_all add: release_frame)

lemma release_all_keeps: "j \<notin> set ks \<Longrightarrow> holds (release_all p ks s) p j = holds s p j"
  by (induction ks arbitrary: s) (simp_all add: release_frame)

text \<open>
  A set of claims is safe when every claim is covered by a held key: then no two owners claim
  resources that share a key.
\<close>

lemma covered_claims_exclusive:
  assumes "valid s" "\<And>p r. claims p r \<Longrightarrow> holds s p (key_of r)" "claims p r" "claims q r'"
    "key_of r = key_of r'"
  shows "p = q"
  using holds_exclusive [OF assms(1)] assms(2) [OF assms(3)] assms(2) [OF assms(4)] assms(5) by metis

end

section \<open>Advisory locks\<close>

text \<open>
  \<open>pg_try_advisory_lock\<close>: granted unless another backend holds a conflicting mode; a backend may
  take a key several times and has to release it as often.
\<close>

definition lock_conflict :: "int \<Rightarrow> int \<Rightarrow> bool \<Rightarrow> advisory_lock \<Rightarrow> bool" where
  "lock_conflict pid key shared l \<longleftrightarrow> l_key l = key \<and> l_pid l \<noteq> pid \<and> \<not> (shared \<and> l_shared l)"

definition acquire_lock_key :: "bool \<Rightarrow> int \<Rightarrow> int \<Rightarrow> advisory_lock list \<Rightarrow> advisory_lock list option" where
  "acquire_lock_key shared pid key ls =
     (if \<exists>l \<in> set ls. lock_conflict pid key shared l then None
      else Some (\<lparr>l_key = key, l_pid = pid, l_shared = shared\<rparr> # ls))"

definition release_lock_key :: "bool \<Rightarrow> int \<Rightarrow> int \<Rightarrow> advisory_lock list \<Rightarrow> advisory_lock list" where
  "release_lock_key shared pid key ls = remove1 \<lparr>l_key = key, l_pid = pid, l_shared = shared\<rparr> ls"

definition owns_lock_key :: "int \<Rightarrow> int \<Rightarrow> advisory_lock list \<Rightarrow> bool" where
  "owns_lock_key pid key ls \<longleftrightarrow> (\<exists>l \<in> set ls. l_key l = key \<and> l_pid l = pid)"

text \<open>PostgreSQL drops the grants of a backend that ends.\<close>

definition end_session :: "int \<Rightarrow> advisory_lock list \<Rightarrow> advisory_lock list" where
  "end_session pid ls = filter (\<lambda>l. l_pid l \<noteq> pid) ls"

text \<open>
  \<open>lock_key\<close>: the first eight bytes of SHA-256, signed big-endian, of namespace, a NUL and the
  identity's text. The digest is the parameter \<open>digest8\<close>.
\<close>

definition lock_key :: "(string \<Rightarrow> int) \<Rightarrow> string \<Rightarrow> string \<Rightarrow> int" where
  "lock_key digest8 namespace identity = digest8 (namespace @ [CHR 0x00] @ identity)"

section \<open>Mutual exclusion\<close>

text \<open>Two grants of one key to different backends are both shared.\<close>

definition locks_valid :: "advisory_lock list \<Rightarrow> bool" where
  "locks_valid ls \<longleftrightarrow> (\<forall>l \<in> set ls. \<forall>m \<in> set ls. l_key l = l_key m \<and> l_pid l \<noteq> l_pid m
     \<longrightarrow> l_shared l \<and> l_shared m)"

definition holds_lock :: "advisory_lock list \<Rightarrow> int \<Rightarrow> int \<Rightarrow> bool" where
  "holds_lock ls pid key \<longleftrightarrow> \<lparr>l_key = key, l_pid = pid, l_shared = False\<rparr> \<in> set ls"

lemma holds_lock_owns: "holds_lock ls pid key \<Longrightarrow> owns_lock_key pid key ls"
  unfolding holds_lock_def owns_lock_key_def by (metis advisory_lock.select_convs(1,2))

lemma set_release_lock_key: "set (release_lock_key s p k ls) \<subseteq> set ls"
  by (simp add: release_lock_key_def set_remove1_subset)

interpretation adv: lock_service "acquire_lock_key False" "release_lock_key False" holds_lock locks_valid
proof
  fix ls ls' p k
  assume "locks_valid ls" "acquire_lock_key False p k ls = Some ls'"
  then show "locks_valid ls'"
    by (auto simp: locks_valid_def acquire_lock_key_def lock_conflict_def split: if_splits)
next
  fix ls ls' p k q j
  assume "acquire_lock_key False p k ls = Some ls'"
  then show "holds_lock ls' q j \<longleftrightarrow> holds_lock ls q j \<or> (q = p \<and> j = k)"
    by (auto simp: holds_lock_def acquire_lock_key_def split: if_splits)
next
  fix ls ls' p k q
  assume "acquire_lock_key False p k ls = Some ls'" "holds_lock ls q k"
  then show "q = p"
    by (force simp: holds_lock_def acquire_lock_key_def lock_conflict_def split: if_splits)
next
  fix ls p k
  assume "locks_valid ls"
  then show "locks_valid (release_lock_key False p k ls)"
    using set_release_lock_key unfolding locks_valid_def by blast
next
  fix ls p k q j
  assume "holds_lock (release_lock_key False p k ls) q j"
  then show "holds_lock ls q j" using set_release_lock_key by (fastforce simp: holds_lock_def)
next
  fix ls p k q j
  assume "(q :: int) \<noteq> p \<or> (j :: int) \<noteq> k"
  then show "holds_lock (release_lock_key False p k ls) q j = holds_lock ls q j"
    by (auto simp: holds_lock_def release_lock_key_def)
next
  fix ls p k q
  assume "locks_valid ls" "holds_lock ls p k" "holds_lock ls q k"
  then show "p = q" unfolding locks_valid_def holds_lock_def by (metis advisory_lock.select_convs)
qed

lemma end_session_valid: "locks_valid ls \<Longrightarrow> locks_valid (end_session pid ls)"
  by (auto simp: locks_valid_def end_session_def)

lemma end_session_holds: "holds_lock (end_session pid ls) q k \<longleftrightarrow> q \<noteq> pid \<and> holds_lock ls q k"
  by (auto simp: holds_lock_def end_session_def)

lemma acquire_shared_valid:
  "locks_valid ls \<Longrightarrow> acquire_lock_key True p k ls = Some ls' \<Longrightarrow> locks_valid ls'"
  by (force simp: locks_valid_def acquire_lock_key_def lock_conflict_def split: if_splits)

lemma release_shared_valid: "locks_valid ls \<Longrightarrow> locks_valid (release_lock_key True p k ls)"
  using set_release_lock_key unfolding locks_valid_def by blast

lemma acquire_release [simp]:
  "acquire_lock_key s p k ls = Some ls' \<Longrightarrow> release_lock_key s p k ls' = ls"
  by (auto simp: acquire_lock_key_def release_lock_key_def split: if_splits)

section \<open>Session locks and leases\<close>

text \<open>\<open>_SESSION_LOCKS\<close>; the purposes are constants of the callers.\<close>

definition session_key :: "string \<Rightarrow> int result" where
  "session_key purpose =
     (if purpose = ''worker'' then Inr 0x43435241574C1001
      else if purpose = ''events'' then Inr 0x43435241574C1002
      else Inl (ValueError ''Unknown database ownership purpose''))"

definition acquire_session_lock :: "bool \<Rightarrow> conn \<Rightarrow> string \<Rightarrow> db \<Rightarrow> db option result" where
  "acquire_session_lock shared c purpose d = rbind (session_key purpose) (\<lambda>k.
     Inr (map_option (\<lambda>ls. d\<lparr>db_locks := ls\<rparr>) (acquire_lock_key shared (cn_pid c) k (db_locks d))))"

definition owns_session_lock :: "conn \<Rightarrow> string \<Rightarrow> db \<Rightarrow> bool result" where
  "owns_session_lock c purpose d = rbind (session_key purpose) (\<lambda>k.
     Inr (owns_lock_key (cn_pid c) k (db_locks d)))"

definition release_session_lock :: "bool \<Rightarrow> conn \<Rightarrow> string \<Rightarrow> db \<Rightarrow> db result" where
  "release_session_lock shared c purpose d = rbind (session_key purpose) (\<lambda>k.
     Inr (d\<lparr>db_locks := release_lock_key shared (cn_pid c) k (db_locks d)\<rparr>))"

record lease =
  ls_pid :: int
  ls_purpose :: string
  ls_active :: bool

text \<open>\<open>ExecutorLease.require\<close>: the updated lease, or the updated lease with the error.\<close>

definition lease_require :: "lease \<Rightarrow> conn \<Rightarrow> string \<Rightarrow> db \<Rightarrow> lease \<times> unit result" where
  "lease_require l c purpose d =
     (if \<not> ls_active l \<or> ls_purpose l \<noteq> purpose \<or> ls_pid l \<noteq> cn_pid c \<or> cn_closed c
      then (l, Inl (ExecutorLeaseLost ''An active executor lease for this database is required''))
      else (case owns_session_lock c purpose d of
          Inl e \<Rightarrow> (l, Inl e)
        | Inr held \<Rightarrow> if held then (l, Inr ())
            else (l\<lparr>ls_active := False\<rparr>, Inl (ExecutorLeaseLost ''Database executor ownership was lost''))))"

text \<open>
  Entering \<open>executor_lock\<close> (exclusive) or \<open>parallel_executor_lock\<close> (shared) without a lease, and
  leaving it: the session records the purpose it owns while the lease is active.
\<close>

definition enter_executor :: "bool \<Rightarrow> conn \<Rightarrow> string \<Rightarrow> db \<Rightarrow> (db \<times> conn \<times> lease) result" where
  "enter_executor shared c purpose d = rbind (acquire_session_lock shared c purpose d) (\<lambda>r.
     case r of
       None \<Rightarrow> Inl (ExecutorBusy (if shared
           then ''An exclusive archive maintenance process owns this database''
           else ''An active '' @ purpose @ '' process already owns this database''))
     | Some d' \<Rightarrow> Inr (d', c\<lparr>cn_ownership_purposes := cn_ownership_purposes c @ [purpose]\<rparr>,
           \<lparr>ls_pid = cn_pid c, ls_purpose = purpose, ls_active = True\<rparr>))"

definition leave_executor :: "bool \<Rightarrow> conn \<Rightarrow> string list \<Rightarrow> lease \<Rightarrow> db \<Rightarrow> (db \<times> conn \<times> lease) result" where
  "leave_executor shared c previous l d =
     (let c' = c\<lparr>cn_ownership_purposes := previous\<rparr>; l' = l\<lparr>ls_active := False\<rparr>
      in if cn_closed c then Inr (d, c', l')
         else rbind (release_session_lock shared c (ls_purpose l) d) (\<lambda>d'. Inr (d', c', l')))"

section \<open>Write transactions\<close>

text \<open>
  The checks \<open>transaction(conn, write=True)\<close> makes before its body runs: every owned purpose and
  key is still held by this backend and, in an outermost transaction, the fenced job is still
  this backend's. \<open>atomic\<close> is the decorator: a failing check or body changes nothing.
\<close>

definition fence_ok :: "conn \<Rightarrow> db \<Rightarrow> bool" where
  "fence_ok c d \<longleftrightarrow> (case cn_job_fence c of
       None \<Rightarrow> True
     | Some (i, token) \<Rightarrow> (\<exists>j \<in> set (db_jobs d). j_id j = i \<and> j_state j = In_progress
           \<and> j_ownership_token j = Some token \<and> j_owner_backend_pid j = Some (cn_pid c)))"

fun purposes_owned :: "conn \<Rightarrow> db \<Rightarrow> string list \<Rightarrow> unit result" where
  "purposes_owned c d [] = Inr ()"
| "purposes_owned c d (p # ps) = rbind (owns_session_lock c p d) (\<lambda>held.
     if held then purposes_owned c d ps
     else Inl (ExecutorLeaseLost ''Database executor ownership was lost''))"

definition begin_write :: "conn \<Rightarrow> bool \<Rightarrow> db \<Rightarrow> unit result" where
  "begin_write c nested d = rbind (purposes_owned c d (cn_ownership_purposes c)) (\<lambda>_.
     if \<not> (\<forall>k \<in> set (cn_ownership_keys c). owns_lock_key (cn_pid c) k (db_locks d))
     then Inl (ExecutorLeaseLost ''Database job ownership was lost'')
     else if \<not> nested \<and> \<not> fence_ok c d
     then Inl (ExecutorLeaseLost ''Database job fencing token was lost'')
     else Inr ())"

definition atomic :: "conn \<Rightarrow> db \<Rightarrow> (db \<Rightarrow> 'a result) \<Rightarrow> 'a result" where
  "atomic c d body = rbind (begin_write c False d) (\<lambda>_. body d)"

lemma atomic_Inr:
  assumes "atomic c d body = Inr x"
  shows "body d = Inr x" "fence_ok c d" "\<forall>k \<in> set (cn_ownership_keys c). owns_lock_key (cn_pid c) k (db_locks d)"
  using assms by (auto simp: atomic_def begin_write_def res_simps split: if_splits)

end
