(* ===== verification/Jobs.thy ===== *)
theory Jobs
  imports Budgets Locks
begin

text \<open>
  Durable jobs and crawl runs, jobs/models.py, jobs/settings.py and jobs/state.py without the
  claim loop (theory \<open>Claim\<close>): deduplicated submission, state transitions, retries with back-off,
  orphan recovery, run status derivation, provider cooldowns and worker heartbeats. Every
  operation is the body of its \<open>@atomic\<close> function: it reads and returns the database, and a raised
  error is an \<open>Inl\<close>, which leaves the database as it was. The hexadecimal SHA-256 digest of a text
  is the parameter \<open>sha\<close>.
\<close>

section \<open>Kinds and parameters\<close>

definition job_kinds :: "string list" where
  "job_kinds = [''fetch_user_profile'', ''fetch_user_stats'', ''fetch_user_games'',
     ''fetch_game_by_id'', ''crawl_opponents'', ''fetch_user_resource'', ''normalize_payload'',
     ''reprocess_archive'', ''expand_opponents'', ''build_working_set'', ''prepare_export'']"

definition processing_kind :: "string \<Rightarrow> bool" where
  "processing_kind k \<longleftrightarrow>
     k \<in> {''normalize_payload'', ''reprocess_archive'', ''expand_opponents''} \<or> archive_kind k"

definition source_provider :: "job \<Rightarrow> string result" where
  "source_provider j = (case j_provider j of
       None \<Rightarrow> Inl (ValueError ''Source processing requires a provider'')
     | Some p \<Rightarrow> Inr p)"

type_synonym params = "(string \<times> json) list option"

definition params_or_empty :: "params \<Rightarrow> json" where
  "params_or_empty p = (case p of None \<Rightarrow> JObj [] | Some kvs \<Rightarrow> JObj kvs)"

text \<open>The column keeps the value behind the canonical text \<open>dumps True v\<close>, keys sorted.\<close>

definition canonical_params :: "params \<Rightarrow> json" where
  "canonical_params p = sort_keys (params_or_empty p)"

definition load_params :: "json \<Rightarrow> (string \<times> json) list result" where
  "load_params text = (case text of JObj kvs \<Rightarrow> Inr kvs
     | _ \<Rightarrow> Inl (ValueError ''job params_json must decode to an object''))"

definition opt_str :: "string option \<Rightarrow> json" where
  "opt_str s = (case s of None \<Rightarrow> JNull | Some t \<Rightarrow> JStr t)"

definition opt_int :: "int option \<Rightarrow> json" where
  "opt_int i = (case i of None \<Rightarrow> JNull | Some n \<Rightarrow> JInt n)"

definition normalize_target :: "string \<Rightarrow> string \<Rightarrow> string" where
  "normalize_target kind target =
     (if kind \<in> {''fetch_user_profile'', ''fetch_user_stats'', ''fetch_user_games'', ''crawl_opponents''}
      then lower (strip target) else strip target)"

definition dedup_payload ::
  "string option \<Rightarrow> string \<Rightarrow> string \<Rightarrow> params \<Rightarrow> int option \<Rightarrow> json" where
  "dedup_payload provider kind target params run = JObj
     [(''provider'', opt_str provider), (''kind'', JStr kind),
      (''target'', JStr (normalize_target kind target)), (''params'', params_or_empty params),
      (''crawl_run_id'', opt_int run)]"

definition make_dedup_key ::
  "(string \<Rightarrow> string) \<Rightarrow> string option \<Rightarrow> string \<Rightarrow> string \<Rightarrow> params \<Rightarrow> int option \<Rightarrow> string" where
  "make_dedup_key sha provider kind target params run =
     ''sha256:'' @ sha (dumps True (dedup_payload provider kind target params run))"

section \<open>Settings\<close>

record worker_settings =
  poll_interval :: rat
  heartbeat_interval :: rat
  heartbeat_max_age :: rat
  job_max_retries :: int
  job_retry_base_s :: rat
  job_retry_max_s :: rat

definition default_worker_settings :: worker_settings where
  "default_worker_settings = \<lparr>poll_interval = 1, heartbeat_interval = 5, heartbeat_max_age = 20,
     job_max_retries = 3, job_retry_base_s = 30, job_retry_max_s = 3600\<rparr>"

definition make_worker_settings :: "worker_settings \<Rightarrow> worker_settings result" where
  "make_worker_settings s =
     (case find_row (\<lambda>(n, v). v \<le> 0) [(''poll_interval'', poll_interval s),
          (''heartbeat_interval'', heartbeat_interval s), (''heartbeat_max_age'', heartbeat_max_age s),
          (''job_retry_base_s'', job_retry_base_s s), (''job_retry_max_s'', job_retry_max_s s)] of
        Some (n, _) \<Rightarrow> Inl (ValueError (n @ '' must be finite and greater than zero''))
      | None \<Rightarrow>
          if job_max_retries s < 0 then Inl (ValueError ''job_max_retries must be a nonnegative integer'')
          else if job_retry_max_s s < job_retry_base_s s
          then Inl (ValueError ''job_retry_max_s must be at least job_retry_base_s'')
          else if heartbeat_max_age s < 2 * heartbeat_interval s
          then Inl (ValueError ''heartbeat_max_age must be at least twice heartbeat_interval'')
          else Inr s)"

section \<open>Queries\<close>

text \<open>\<open>ORDER BY id LIMIT 1\<close>.\<close>

definition first_by_id :: "(job \<Rightarrow> bool) \<Rightarrow> job list \<Rightarrow> job option" where
  "first_by_id p js = (case sort_key j_id (filter p js) of [] \<Rightarrow> None | j # _ \<Rightarrow> Some j)"

definition get_job :: "db \<Rightarrow> int \<Rightarrow> job option" where
  "get_job d i = get_row d i"

definition get_run :: "db \<Rightarrow> int \<Rightarrow> run option" where
  "get_run d i = run_row d i"

definition job_ids_for_run :: "db \<Rightarrow> int \<Rightarrow> int list" where
  "job_ids_for_run d run = sort (map j_id (filter (\<lambda>j. j_crawl_run_id j = Some run) (db_jobs d)))"

definition list_jobs :: "db \<Rightarrow> nat \<Rightarrow> job list" where
  "list_jobs d limit = take limit (sort_key j_id (db_jobs d))"

definition crawl_runs :: "db \<Rightarrow> run list" where
  "crawl_runs d = sort_key r_id (db_runs d)"

text \<open>The states in the order of their names (\<open>COLLATE "C"\<close>); a state without jobs has no row.\<close>

definition states_by_name :: "job_state list" where
  "states_by_name = [Blocked, Done, Error, In_progress, Pending, Skipped]"

definition count_state :: "db \<Rightarrow> int option \<Rightarrow> job_state \<Rightarrow> int" where
  "count_state d run s = count_where (\<lambda>j. opt_filter run (j_crawl_run_id j) \<and> j_state j = s) (db_jobs d)"

definition job_state_counts :: "db \<Rightarrow> int option \<Rightarrow> (job_state \<times> int) list" where
  "job_state_counts d run =
     filter (\<lambda>(s, n). n \<noteq> 0) (map (\<lambda>s. (s, count_state d run s)) states_by_name)"

definition total_jobs_for_run :: "db \<Rightarrow> int \<Rightarrow> int" where
  "total_jobs_for_run d run = count_where (\<lambda>j. j_crawl_run_id j = Some run) (db_jobs d)"

definition crawl_user_count :: "db \<Rightarrow> int \<Rightarrow> int" where
  "crawl_user_count d run = int (length (remdups (map (\<lambda>j. lower (j_target j))
     (filter (\<lambda>j. j_crawl_run_id j = Some run \<and> j_kind j = ''crawl_opponents'') (db_jobs d)))))"

definition acquisition_job_count :: "db \<Rightarrow> int \<Rightarrow> int" where
  "acquisition_job_count d run =
     count_where (\<lambda>j. j_crawl_run_id j = Some run \<and> \<not> processing_kind (j_kind j)) (db_jobs d)"

definition discovery_edge_count :: "db \<Rightarrow> int \<Rightarrow> int" where
  "discovery_edge_count d run = count_where (\<lambda>e. fst e = run) (db_run_edges d)"

text \<open>SQL's \<open>MIN\<close>: NULL of no rows.\<close>

definition sql_min :: "'a::linorder list \<Rightarrow> 'a option" where
  "sql_min xs = (case xs of [] \<Rightarrow> None | _ \<Rightarrow> Some (Min (set xs)))"

definition crawl_parent :: "int \<Rightarrow> string \<Rightarrow> string \<Rightarrow> job \<Rightarrow> bool" where
  "crawl_parent run provider username j \<longleftrightarrow> j_crawl_run_id j = Some run
     \<and> j_provider j = Some provider \<and> j_kind j = ''crawl_opponents''
     \<and> lower (j_target j) = lower username"

definition expansion_depths :: "db \<Rightarrow> int \<Rightarrow> int list" where
  "expansion_depths d parent = map j_depth (filter (\<lambda>x. j_parent_job_id x = Some parent
     \<and> j_kind x = ''expand_opponents'') (db_jobs d))"

definition known_crawl_depth :: "db \<Rightarrow> int \<Rightarrow> string \<Rightarrow> string \<Rightarrow> int option" where
  "known_crawl_depth d run provider username =
     sql_min (map (\<lambda>p. min (j_depth p) (coalesce (sql_min (expansion_depths d (j_id p))) (j_depth p)))
       (filter (crawl_parent run provider username) (db_jobs d)))"

text \<open>\<open>str(x)\<close> of an optional column inside an f-string.\<close>

definition show_opt :: "string option \<Rightarrow> string" where
  "show_opt s = coalesce s ''None''"

definition processing_failure :: "db \<Rightarrow> int \<Rightarrow> string option" where
  "processing_failure d parent = map_option
     (\<lambda>j. ''Processing job #'' @ str_int (j_id j) @ '' failed: '' @ show_opt (j_reason j))
     (first_by_id (\<lambda>j. j_parent_job_id j = Some parent \<and> j_kind j = ''normalize_payload''
        \<and> (j_state j = Error \<or> j_state j = Skipped)) (db_jobs d))"

section \<open>Admission predicates of storage/job\_admission.py\<close>

text \<open>\<open>RUN_ALLOWS_WORK_SQL\<close>.\<close>

definition run_allows_work :: "db \<Rightarrow> job \<Rightarrow> bool" where
  "run_allows_work d j \<longleftrightarrow>
     \<not> (\<exists>r \<in> set (db_runs d). Some (r_id r) = j_crawl_run_id j \<and> r_status r = Cancelled)"

text \<open>\<open>COALESCE(params_json::jsonb->>'collection_mode','bounded')='bounded'\<close>.\<close>

definition bounded_collection :: "json \<Rightarrow> bool" where
  "bounded_collection p = (case p of
       JObj kvs \<Rightarrow> (case obj_get kvs ''collection_mode'' of
           JNull \<Rightarrow> True | JStr s \<Rightarrow> s = ''bounded'' | _ \<Rightarrow> False)
     | _ \<Rightarrow> True)"

text \<open>\<open>PROCESSING_READY_SQL\<close>.\<close>

definition processing_ready :: "db \<Rightarrow> job \<Rightarrow> bool" where
  "processing_ready d j \<longleftrightarrow>
     \<not> (j_kind j \<in> {''fetch_user_games'', ''crawl_opponents''} \<and> bounded_collection (j_params_json j)
        \<and> (\<exists>x \<in> set (db_jobs d). j_parent_job_id x = Some (j_id j)
             \<and> j_kind x = ''normalize_payload'' \<and> live_state (j_state x)))
     \<and> (j_kind j \<noteq> ''expand_opponents''
        \<or> (\<exists>x \<in> set (db_jobs d). Some (j_id x) = j_parent_job_id j \<and> terminal_state (j_state x)))"

section \<open>Submission\<close>

text \<open>The keyword arguments of \<open>enqueue_job\<close>.\<close>

record job_spec =
  q_provider :: "string option"
  q_kind :: string
  q_target :: string
  q_params :: params
  q_crawl_run_id :: "int option"
  q_parent_job_id :: "int option"
  q_depth :: int
  q_priority :: int
  q_now :: "int option"
  q_dedup_key :: "string option"
  q_reuse_terminal :: bool

definition spec :: "string option \<Rightarrow> string \<Rightarrow> string \<Rightarrow> job_spec" where
  "spec provider kind target = \<lparr>q_provider = provider, q_kind = kind, q_target = target,
     q_params = None, q_crawl_run_id = None, q_parent_job_id = None, q_depth = 0,
     q_priority = 100, q_now = None, q_dedup_key = None, q_reuse_terminal = False\<rparr>"

text \<open>\<open>_validate_schedulable_job\<close>.\<close>

definition validate_schedulable_job :: "string option \<Rightarrow> string \<Rightarrow> unit result" where
  "validate_schedulable_job provider kind =
     (if kind \<notin> set job_kinds then Inl (ValueError (''unsupported job kind: '' @ kind))
      else if archive_kind kind \<noteq> (provider = None)
      then Inl (ValueError ''Only internal archive jobs have no provider'')
      else if kind = ''fetch_user_stats'' \<and> provider \<noteq> Some ''chess.com''
      then Inl (ValueError ''fetch_user_stats jobs are supported only for chess.com'')
      else if kind = ''fetch_game_by_id'' \<and> provider \<noteq> Some ''lichess''
      then Inl (ValueError ''fetch_game_by_id jobs are supported only for lichess'')
      else Inr ())"

definition spec_dedup :: "(string \<Rightarrow> string) \<Rightarrow> job_spec \<Rightarrow> string" where
  "spec_dedup sha q = (if coalesce (q_dedup_key q) [] \<noteq> [] then coalesce (q_dedup_key q) []
     else make_dedup_key sha (q_provider q) (q_kind q) (q_target q) (q_params q) (q_crawl_run_id q))"

definition same_work :: "string \<Rightarrow> bool \<Rightarrow> job \<Rightarrow> bool" where
  "same_work dedup reuse_terminal j \<longleftrightarrow> j_dedup_key j = dedup \<and> (reuse_terminal \<or> live_state (j_state j))"

definition inherited_budget :: "conn \<Rightarrow> db \<Rightarrow> job_spec \<Rightarrow> int option" where
  "inherited_budget c d q = (case q_crawl_run_id q of
       Some rid \<Rightarrow> Option.bind (run_row d rid) r_work_budget_id
     | None \<Rightarrow> (case q_parent_job_id q of
           Some pid \<Rightarrow> Option.bind (get_row d pid) j_work_budget_id
         | None \<Rightarrow> cn_work_budget_id c))"

definition pending_row :: "job_spec \<Rightarrow> string \<Rightarrow> int \<Rightarrow> job" where
  "pending_row q dedup now = \<lparr>j_id = 0, j_crawl_run_id = q_crawl_run_id q,
     j_parent_job_id = q_parent_job_id q, j_provider = q_provider q, j_kind = q_kind q,
     j_target = strip (q_target q), j_params_json = canonical_params (q_params q),
     j_state = Pending, j_priority = q_priority q, j_depth = q_depth q, j_attempts = 0,
     j_dedup_key = dedup, j_enqueued_at = now, j_started_at = None, j_done_at = None,
     j_reason = None, j_retry_count = 0, j_next_attempt_at = None, j_revision = 0,
     j_owner_worker_id = None, j_owner_backend_pid = None, j_ownership_token = None,
     j_ownership_generation = 0, j_workspace_id = ''local'', j_work_budget_id = None\<rparr>"

text \<open>\<open>enqueue_job\<close> returns the job's id and whether it inserted a row.\<close>

definition enqueue_job :: "(string \<Rightarrow> string) \<Rightarrow> conn \<Rightarrow> job_spec \<Rightarrow> db \<Rightarrow> (db \<times> int \<times> bool) result" where
  "enqueue_job sha c q d =
     rbind (validate_schedulable_job (q_provider q) (q_kind q)) (\<lambda>_.
     let dedup = spec_dedup sha q
     in case first_by_id (same_work dedup (q_reuse_terminal q)) (db_jobs d) of
          Some j \<Rightarrow> Inr (d, j_id j, False)
        | None \<Rightarrow>
            rbind (case inherited_budget c d q of None \<Rightarrow> Inr d
                   | Some b \<Rightarrow> require_backlog_room c b d) (\<lambda>d1.
            rbind (insert_job c (pending_row q dedup (int_now c (q_now q))) d1) (\<lambda>(d2, i).
            Inr (d2, i, True))))"

definition enqueue_payload_normalization ::
  "(string \<Rightarrow> string) \<Rightarrow> conn \<Rightarrow> string \<Rightarrow> int \<Rightarrow> int option \<Rightarrow> int option \<Rightarrow> int option \<Rightarrow> int option
   \<Rightarrow> string \<Rightarrow> db \<Rightarrow> (db \<times> int \<times> bool) result" where
  "enqueue_payload_normalization sha c provider raw_payload_id fetch_log_id max_games parent_job_id
       crawl_run_id parser_version d =
     enqueue_job sha c ((spec (Some provider) ''normalize_payload'' (str_int raw_payload_id))\<lparr>
        q_params := Some [(''raw_payload_id'', JInt raw_payload_id), (''fetch_log_id'', opt_int fetch_log_id),
          (''max_games'', opt_int max_games), (''parser_version'', JStr parser_version)],
        q_parent_job_id := parent_job_id, q_crawl_run_id := crawl_run_id, q_priority := 20,
        q_dedup_key := Some (make_dedup_key sha (Some provider) ''normalize_payload'' (str_int raw_payload_id)
          (Some [(''fetch_log_id'', opt_int fetch_log_id), (''parent_job_id'', opt_int parent_job_id),
                 (''parser_version'', JStr parser_version)]) crawl_run_id),
        q_reuse_terminal := True\<rparr>) d"

definition enqueue_opponent_expansion ::
  "(string \<Rightarrow> string) \<Rightarrow> conn \<Rightarrow> job \<Rightarrow> int option \<Rightarrow> db \<Rightarrow> (db \<times> int \<times> bool) result" where
  "enqueue_opponent_expansion sha c parent depth d =
     (case j_crawl_run_id parent of
        None \<Rightarrow> Inl (ValueError ''Opponent expansion requires a persisted acquisition parent'')
      | Some run \<Rightarrow>
          if j_kind parent \<noteq> ''crawl_opponents''
          then Inl (ValueError ''Opponent expansion requires a persisted acquisition parent'')
          else rbind (source_provider parent) (\<lambda>provider.
            let depth' = min (coalesce depth (j_depth parent))
                  (coalesce (known_crawl_depth d run provider (j_target parent)) (j_depth parent))
            in enqueue_job sha c ((spec (Some provider) ''expand_opponents'' (str_int (j_id parent)))\<lparr>
                 q_params := Some [(''discovery_depth'', JInt depth')], q_crawl_run_id := Some run,
                 q_parent_job_id := Some (j_id parent), q_depth := depth', q_priority := 20,
                 q_reuse_terminal := True\<rparr>) d))"

fun expand_parents ::
  "(string \<Rightarrow> string) \<Rightarrow> conn \<Rightarrow> int \<Rightarrow> job list \<Rightarrow> db \<Rightarrow> db result" where
  "expand_parents sha c depth [] d = Inr d"
| "expand_parents sha c depth (j # js) d =
     (if j_state j = Error \<or> j_state j = Skipped then expand_parents sha c depth js d
      else rbind (enqueue_opponent_expansion sha c j (Some depth) d) (\<lambda>(d', _).
           expand_parents sha c depth js d'))"

definition promote_crawl_depth ::
  "(string \<Rightarrow> string) \<Rightarrow> conn \<Rightarrow> int \<Rightarrow> string \<Rightarrow> string \<Rightarrow> int \<Rightarrow> db \<Rightarrow> db result" where
  "promote_crawl_depth sha c run provider username depth d =
     (let parents = sort_key j_id (filter (crawl_parent run provider username) (db_jobs d));
          d1 = touch_jobs (\<lambda>j. crawl_parent run provider username j \<and> j_state j \<noteq> In_progress \<and> j_depth j > depth)
            (\<lambda>j. j\<lparr>j_depth := min (j_depth j) depth, j_priority := min (j_priority j) (10 + depth)\<rparr>) d
      in expand_parents sha c depth parents d1)"

section \<open>State transitions\<close>

text \<open>\<open>mark_job\<close>: \<open>GREATEST\<close> keeps the enqueue time from moving back.\<close>

definition marked :: "job_state \<Rightarrow> string option \<Rightarrow> int \<Rightarrow> job \<Rightarrow> job" where
  "marked s reason t j = j\<lparr>j_state := s, j_done_at := (if terminal_state s then Some t else None),
     j_next_attempt_at := None, j_reason := reason,
     j_enqueued_at := (if s = Pending then max (j_enqueued_at j) t else j_enqueued_at j)\<rparr>"

definition mark_job :: "conn \<Rightarrow> int \<Rightarrow> job_state \<Rightarrow> string option \<Rightarrow> int option \<Rightarrow> db \<Rightarrow> db result" where
  "mark_job c i s reason now d = update_jobs c (\<lambda>j. j_id j = i) (marked s reason (int_now c now)) d"

definition mark_done :: "conn \<Rightarrow> int \<Rightarrow> string option \<Rightarrow> db \<Rightarrow> db result" where
  "mark_done c i reason d = mark_job c i Done reason None d"

definition mark_error :: "conn \<Rightarrow> int \<Rightarrow> string \<Rightarrow> db \<Rightarrow> db result" where
  "mark_error c i reason d = mark_job c i Error (Some reason) None d"

definition mark_skipped :: "conn \<Rightarrow> int \<Rightarrow> string \<Rightarrow> db \<Rightarrow> db result" where
  "mark_skipped c i reason d = mark_job c i Skipped (Some reason) None d"

definition mark_blocked :: "conn \<Rightarrow> int \<Rightarrow> string \<Rightarrow> db \<Rightarrow> db result" where
  "mark_blocked c i reason d = mark_job c i Blocked (Some reason) None d"

definition update_job_params :: "conn \<Rightarrow> int \<Rightarrow> (string \<times> json) list \<Rightarrow> db \<Rightarrow> db result" where
  "update_job_params c i params d = update_jobs c (\<lambda>j. j_id j = i)
     (\<lambda>j. j\<lparr>j_params_json := canonical_params (Some params)\<rparr>) d"

definition dict_set :: "(string \<times> json) list \<Rightarrow> string \<Rightarrow> json \<Rightarrow> (string \<times> json) list" where
  "dict_set kvs k v = (if has_key kvs k then map (\<lambda>(k', v'). (k', if k' = k then v else v')) kvs
     else kvs @ [(k, v)])"

definition checkpoint_job ::
  "conn \<Rightarrow> int \<Rightarrow> (string \<times> json) list \<Rightarrow> int \<Rightarrow> int \<Rightarrow> db \<Rightarrow> (db \<times> bool) result" where
  "checkpoint_job c i params cursor_index status_code d =
     (if status_code \<noteq> 200 \<and> status_code \<noteq> 304 then Inr (d, False)
      else rbind (update_job_params c i (dict_set params ''cursor_index'' (JInt cursor_index)) d)
             (\<lambda>d'. Inr (d', True)))"

section \<open>Recovery\<close>

definition stale_row :: "conn \<Rightarrow> int option \<Rightarrow> int \<Rightarrow> int \<Rightarrow> db \<Rightarrow> job \<Rightarrow> bool" where
  "stale_row c run stale_seconds cutoff d j \<longleftrightarrow> j_state j = In_progress
     \<and> opt_filter run (j_crawl_run_id j) \<and> run_allows_work d j
     \<and> (stale_seconds = 0 \<or> (case j_started_at j of None \<Rightarrow> True | Some t \<Rightarrow> t \<le> cutoff))
     \<and> j_id j \<notin> set (cn_locked_jobs c)"

definition executor_key :: "(string \<Rightarrow> int) \<Rightarrow> int \<Rightarrow> int" where
  "executor_key digest8 i = lock_key digest8 ''executor-job'' (str_int i)"

definition own_fence :: "conn \<Rightarrow> job \<Rightarrow> bool" where
  "own_fence c j = (case j_ownership_token j of None \<Rightarrow> False
     | Some t \<Rightarrow> cn_job_fence c = Some (j_id j, t))"

definition resumed :: "job \<Rightarrow> job" where
  "resumed j = j\<lparr>j_state := Pending, j_started_at := None, j_done_at := None, j_ownership_token := None,
     j_owner_worker_id := None, j_owner_backend_pid := None,
     j_reason := Some (coalesce (j_reason j) ''resumed orphaned job'')\<rparr>"

text \<open>
  The loop over the selected rows. A job whose lock another backend holds is skipped, and so is
  the session's own running job; the lock taken for an orphan is released after its update.
\<close>

fun resume_rows :: "(string \<Rightarrow> int) \<Rightarrow> conn \<Rightarrow> job list \<Rightarrow> db \<Rightarrow> int \<Rightarrow> (db \<times> int) result" where
  "resume_rows digest8 c [] d n = Inr (d, n)"
| "resume_rows digest8 c (j # js) d n =
     (let key = executor_key digest8 (j_id j) in
      if own_fence c j \<and> owns_lock_key (cn_pid c) key (db_locks d)
      then resume_rows digest8 c js d n
      else case acquire_lock_key False (cn_pid c) key (db_locks d) of
          None \<Rightarrow> resume_rows digest8 c js d n
        | Some ls \<Rightarrow>
            rbind (update_jobs c (\<lambda>x. j_id x = j_id j) resumed (d\<lparr>db_locks := ls\<rparr>)) (\<lambda>d1.
            resume_rows digest8 c js
              (d1\<lparr>db_locks := release_lock_key False (cn_pid c) key (db_locks d1)\<rparr>) (n + 1)))"

text \<open>\<open>_resume_stale_in_progress\<close>.\<close>

definition resume_stale_rows ::
  "(string \<Rightarrow> int) \<Rightarrow> conn \<Rightarrow> int option \<Rightarrow> int \<Rightarrow> int option \<Rightarrow> db \<Rightarrow> (db \<times> int) result" where
  "resume_stale_rows digest8 c run stale_seconds now d =
     resume_rows digest8 c
       (sort_key j_id (filter (stale_row c run stale_seconds (int_now c now - stale_seconds) d) (db_jobs d))) d 0"

definition resume_stale_in_progress ::
  "(string \<Rightarrow> int) \<Rightarrow> conn \<Rightarrow> int option \<Rightarrow> int \<Rightarrow> int option \<Rightarrow> lease option \<Rightarrow> db \<Rightarrow> (db \<times> int) result" where
  "resume_stale_in_progress digest8 c run stale_seconds now lease d =
     (case lease of
        Some l \<Rightarrow> rbind (snd (lease_require l c ''worker'' d)) (\<lambda>_.
            atomic c d (resume_stale_rows digest8 c run stale_seconds now))
      | None \<Rightarrow>
          rbind (enter_executor True c ''worker'' d) (\<lambda>(d1, c1, l).
          rbind (atomic c1 d1 (resume_stale_rows digest8 c1 run stale_seconds now)) (\<lambda>(d2, n).
          rbind (leave_executor True c1 (cn_ownership_purposes c) l d2) (\<lambda>(d3, _, _).
          Inr (d3, n)))))"

definition unblockable :: "rat \<Rightarrow> int option \<Rightarrow> db \<Rightarrow> job \<Rightarrow> bool" where
  "unblockable t run d j \<longleftrightarrow> j_state j = Blocked
     \<and> (case j_next_attempt_at j of None \<Rightarrow> True | Some n \<Rightarrow> n \<le> t)
     \<and> opt_filter run (j_crawl_run_id j) \<and> run_allows_work d j"

definition unblock_jobs :: "conn \<Rightarrow> int option \<Rightarrow> rat option \<Rightarrow> db \<Rightarrow> (db \<times> int) result" where
  "unblock_jobs c run now d =
     (let p = unblockable (float_now c now) run d in
      rbind (update_jobs c p (\<lambda>j. j\<lparr>j_state := Pending, j_started_at := None, j_done_at := None,
          j_reason := Some (coalesce (j_reason j) ''unblocked by jobs resume'')\<rparr>) d) (\<lambda>d'.
      Inr (d', count_where p (db_jobs d))))"

section \<open>Crawl runs\<close>

definition create_crawl_run ::
  "conn \<Rightarrow> string option \<Rightarrow> string \<Rightarrow> (string \<times> json) list \<Rightarrow> int option \<Rightarrow> db \<Rightarrow> (db \<times> int) result" where
  "create_crawl_run c provider seed_spec params now d =
     (if provider = None \<and> \<not> (case obj_get params ''strategy'' of JStr s \<Rightarrow> archive_kind s | _ \<Rightarrow> False)
      then Inl (ValueError ''Only internal archive runs have no provider'')
      else let t = int_now c now in
        Inr (insert_run c \<lparr>r_id = 0, r_seed_spec = seed_spec, r_provider = provider,
               r_params_json = canonical_params (Some params), r_status = Running,
               r_counters = Some (JObj []), r_started_at = t, r_updated_at = t, r_finished_at = None,
               r_revision = 0, r_workspace_id = ''local'', r_work_budget_id = None\<rparr> d))"

definition run_updated ::
  "run_status option \<Rightarrow> (string \<times> json) list option \<Rightarrow> bool \<Rightarrow> int \<Rightarrow> run \<Rightarrow> run" where
  "run_updated status counters finished t r = r\<lparr>r_status := coalesce status (r_status r),
     r_counters := (case counters of None \<Rightarrow> r_counters r | Some kvs \<Rightarrow> Some (canonical_params (Some kvs))),
     r_updated_at := t,
     r_finished_at := (if finished then Some (coalesce (r_finished_at r) t)
       else if status = Some Running \<or> status = Some Paused then None else r_finished_at r)\<rparr>"

definition update_crawl_run ::
  "conn \<Rightarrow> int \<Rightarrow> run_status option \<Rightarrow> (string \<times> json) list option \<Rightarrow> bool \<Rightarrow> int option \<Rightarrow> db \<Rightarrow> db" where
  "update_crawl_run c run status counters finished now d =
     update_runs c (\<lambda>r. r_id r = run) (run_updated status counters finished (int_now c now)) d"

definition create_crawl_run_with_root_job ::
  "(string \<Rightarrow> string) \<Rightarrow> conn \<Rightarrow> string \<Rightarrow> string \<Rightarrow> (string \<times> json) list \<Rightarrow> string \<Rightarrow> string \<Rightarrow> int \<Rightarrow> db
   \<Rightarrow> (db \<times> int \<times> int) result" where
  "create_crawl_run_with_root_job sha c provider seed_spec params root_kind root_target priority d =
     rbind (create_crawl_run c (Some provider) seed_spec params None d) (\<lambda>(d1, run).
     rbind (enqueue_job sha c ((spec (Some provider) root_kind root_target)\<lparr>q_params := Some params,
        q_crawl_run_id := Some run, q_priority := priority\<rparr>) d1) (\<lambda>(d2, job, _).
     Inr (d2, run, job)))"

definition state_name :: "job_state \<Rightarrow> string" where
  "state_name s = (case s of Pending \<Rightarrow> ''pending'' | In_progress \<Rightarrow> ''in_progress'' | Done \<Rightarrow> ''done''
     | Error \<Rightarrow> ''error'' | Skipped \<Rightarrow> ''skipped'' | Blocked \<Rightarrow> ''blocked'')"

definition run_counters :: "db \<Rightarrow> int \<Rightarrow> (string \<times> json) list" where
  "run_counters d run =
     [(''jobs_total'', JInt (total_jobs_for_run d run)), (''users_seen'', JInt (crawl_user_count d run)),
      (''edges'', JInt (discovery_edge_count d run))]
     @ map (\<lambda>(s, n). (''jobs_'' @ state_name s, JInt n)) (job_state_counts d (Some run))"

definition run_status_of :: "db \<Rightarrow> int \<Rightarrow> run_status" where
  "run_status_of d run =
     (let count = (\<lambda>s. coalesce (map_of (job_state_counts d (Some run)) s) 0);
          pending_ready = (count Pending \<noteq> 0 \<and> (\<exists>j \<in> set (db_jobs d). j_crawl_run_id j = Some run
             \<and> j_state j = Pending \<and> processing_ready d j))
      in if pending_ready \<or> count In_progress \<noteq> 0 then Running
         else if count Blocked \<noteq> 0 then Paused
         else if count Error \<noteq> 0 then Failed
         else Finished)"

definition refresh_run_status :: "conn \<Rightarrow> int \<Rightarrow> db \<Rightarrow> db" where
  "refresh_run_status c run d = (case run_row d run of
       None \<Rightarrow> d
     | Some r \<Rightarrow>
         if r_status r = Cancelled then d
         else let s = run_status_of d run in
           update_crawl_run c run (Some s) (Some (run_counters d run)) (s = Failed \<or> s = Finished) None d)"

definition refresh_crawl_runs :: "conn \<Rightarrow> int option \<Rightarrow> db \<Rightarrow> db" where
  "refresh_crawl_runs c run d = (case run of
       Some i \<Rightarrow> refresh_run_status c i d
     | None \<Rightarrow> fold (\<lambda>r. refresh_run_status c (r_id r)) (crawl_runs d) d)"

section \<open>Provider cooldowns and the end of an attempt\<close>

definition cooldown_row :: "db \<Rightarrow> string \<Rightarrow> cooldown option" where
  "cooldown_row d p = find_row (\<lambda>x. c_provider x = p) (db_cooldowns d)"

definition provider_ready_at :: "db \<Rightarrow> string \<Rightarrow> rat option" where
  "provider_ready_at d p = map_option c_not_before (cooldown_row d p)"

definition next_pacing_deadline :: "db \<Rightarrow> int option \<Rightarrow> rat \<Rightarrow> rat option" where
  "next_pacing_deadline d run now = sql_min (map c_not_before (filter (\<lambda>p.
     c_reason p = Some ''provider request pacing'' \<and> c_not_before p > now
     \<and> (\<exists>j \<in> set (db_jobs d). j_provider j = Some (c_provider p) \<and> j_state j = Pending
          \<and> opt_filter run (j_crawl_run_id j))) (db_cooldowns d)))"

definition defer_provider :: "conn \<Rightarrow> string \<Rightarrow> rat \<Rightarrow> string \<Rightarrow> rat option \<Rightarrow> db \<Rightarrow> db" where
  "defer_provider c p not_before reason now d =
     (let t = float_now c now in
      d\<lparr>db_cooldowns := (if cooldown_row d p \<noteq> None
          then update_where (\<lambda>x. c_provider x = p)
                 (\<lambda>x. x\<lparr>c_not_before := max (c_not_before x) not_before, c_reason := Some reason,
                        c_updated_at := t\<rparr>) (db_cooldowns d)
          else db_cooldowns d @ [\<lparr>c_provider = p, c_not_before = not_before, c_reason = Some reason,
                                  c_updated_at = t\<rparr>])\<rparr>)"

definition retry_delay_s :: "worker_settings \<Rightarrow> int \<Rightarrow> rat \<Rightarrow> rat option \<Rightarrow> rat" where
  "retry_delay_s policy retries minimum_delay retry_after =
     max (max (min (job_retry_max_s policy) (job_retry_base_s policy * power_int 2 (min retries 30)))
       minimum_delay) (coalesce retry_after 0)"

definition blocked_until :: "string \<Rightarrow> rat \<Rightarrow> job \<Rightarrow> job" where
  "blocked_until reason t j = j\<lparr>j_state := Blocked, j_done_at := None, j_reason := Some reason,
     j_retry_count := j_retry_count j + 1, j_next_attempt_at := Some t\<rparr>"

text \<open>The last steps of \<open>finish_attempt\<close>: promote a crawl to its known depth, refresh its run.\<close>

definition settle_depth :: "job \<Rightarrow> db \<Rightarrow> db result" where
  "settle_depth row d =
     (case j_crawl_run_id row of
        None \<Rightarrow> Inr d
      | Some run \<Rightarrow>
          if j_kind row \<noteq> ''crawl_opponents'' then Inr d
          else (case get_job d (j_id row) of
              None \<Rightarrow> Inr d
            | Some parent \<Rightarrow> rbind (source_provider parent) (\<lambda>provider.
                case known_crawl_depth d run provider (j_target parent) of
                  None \<Rightarrow> Inr d
                | Some depth \<Rightarrow> Inr (touch_jobs (\<lambda>j. j_id j = j_id row)
                    (\<lambda>j. j\<lparr>j_depth := min (j_depth j) depth, j_priority := min (j_priority j) (10 + depth)\<rparr>) d))))"

text \<open>The transition itself: back-off of the provider and the job, or the final state.\<close>

definition provider_backoff :: "conn \<Rightarrow> job \<Rightarrow> rat \<Rightarrow> string \<Rightarrow> rat \<Rightarrow> db \<Rightarrow> db" where
  "provider_backoff c row not_before reason t d = (case j_provider row of
       Some p \<Rightarrow> if \<not> processing_kind (j_kind row)
         then defer_provider c p not_before reason (Some t) d else d
     | None \<Rightarrow> d)"

definition conclude_attempt ::
  "conn \<Rightarrow> job \<Rightarrow> job_state \<Rightarrow> string \<Rightarrow> bool \<Rightarrow> rat \<Rightarrow> worker_settings \<Rightarrow> rat \<Rightarrow> db
   \<Rightarrow> (db \<times> job_state) result" where
  "conclude_attempt c row outcome reason transient delay policy t d =
     (if transient then
        let d1 = provider_backoff c row (t + delay) reason t d in
        if j_retry_count row < job_max_retries policy
        then rbind (update_jobs c (\<lambda>j. j_id j = j_id row) (blocked_until reason (t + delay)) d1)
               (\<lambda>d2. Inr (d2, Blocked))
        else rbind (mark_job c (j_id row) Error (Some (''Retry limit reached: '' @ reason)) (Some (trunc_rat t)) d1)
               (\<lambda>d2. Inr (d2, Error))
      else rbind (mark_job c (j_id row) outcome (Some reason) (Some (trunc_rat t)) d)
             (\<lambda>d2. Inr (d2, outcome)))"

definition finish_attempt ::
  "conn \<Rightarrow> int \<Rightarrow> job_state \<Rightarrow> string \<Rightarrow> bool \<Rightarrow> rat option \<Rightarrow> rat \<Rightarrow> worker_settings option
   \<Rightarrow> rat option \<Rightarrow> db \<Rightarrow> (db \<times> job_state) result" where
  "finish_attempt c i outcome reason transient retry_after minimum_delay settings now d =
     (let policy = coalesce settings default_worker_settings; t = float_now c now in
      case get_row d i of
        None \<Rightarrow> Inl (KeyError (''Job not found: '' @ str_int i))
      | Some row \<Rightarrow>
          rbind (conclude_attempt c row outcome reason transient
                   (retry_delay_s policy (j_retry_count row) minimum_delay retry_after) policy t d) (\<lambda>(d2, result).
          rbind (settle_depth row d2) (\<lambda>d3.
          Inr (case j_crawl_run_id row of None \<Rightarrow> d3 | Some run \<Rightarrow> refresh_run_status c run d3, result))))"

end
