(* ===== verification/Claim.thy ===== *)
theory Claim
  imports Jobs
begin

text \<open>
  Scheduling: the durable admission of storage/job\_admission.py and \<open>claim_next_job\<close> of
  jobs/state.py. A claim filters the admissible jobs, orders them by workspace turn, priority,
  depth, age and id, and takes the first whose session locks it gets: the executor lock of the
  job and, for acquisition, the lock of the provider. Providers whose lock is busy are excluded
  and the query runs again, so the loop ends when no new provider was excluded.
\<close>

section \<open>Durable admission\<close>

definition schedulable_state :: "job \<Rightarrow> bool" where
  "schedulable_state j \<longleftrightarrow> j_state j = Pending \<or> (j_state j = Blocked \<and> j_next_attempt_at j \<noteq> None)"

definition retry_due :: "rat \<Rightarrow> job \<Rightarrow> bool" where
  "retry_due now j \<longleftrightarrow> (case j_next_attempt_at j of None \<Rightarrow> True | Some t \<Rightarrow> t \<le> now)"

definition provider_available :: "rat \<Rightarrow> db \<Rightarrow> job \<Rightarrow> bool" where
  "provider_available now d j \<longleftrightarrow> processing_kind (j_kind j)
     \<or> \<not> (\<exists>p \<in> set (db_cooldowns d). Some (c_provider p) = j_provider j \<and> c_not_before p > now)"

definition active_in :: "string \<Rightarrow> job \<Rightarrow> bool" where
  "active_in ws j \<longleftrightarrow> j_workspace_id j = ws \<and> j_state j = In_progress"

definition active_cap :: "int \<Rightarrow> db \<Rightarrow> string \<Rightarrow> int" where
  "active_cap default_cap d ws =
     coalesce (map_option (\<lambda>w. workspace_max_active_jobs (wp_policy w)) (policy_row d ws)) default_cap"

definition below_cap :: "int \<Rightarrow> db \<Rightarrow> job \<Rightarrow> bool" where
  "below_cap default_cap d j \<longleftrightarrow>
     count_where (active_in (j_workspace_id j)) (db_jobs d) < active_cap default_cap d (j_workspace_id j)"

text \<open>\<open>admission_conditions\<close>: each obstacle with its label, in the order of attribution.\<close>

definition admission_conditions :: "rat \<Rightarrow> int \<Rightarrow> db \<Rightarrow> (string \<times> (job \<Rightarrow> bool)) list" where
  "admission_conditions now cap d =
     [(''cancelled'', run_allows_work d), (''paused'', schedulable_state), (''retry'', retry_due now),
      (''processing_dependency'', processing_ready d), (''provider_cooldown'', provider_available now d),
      (''workspace_active_cap'', below_cap cap d)]"

definition claim_admission :: "rat \<Rightarrow> int \<Rightarrow> db \<Rightarrow> job \<Rightarrow> bool" where
  "claim_admission now cap d j \<longleftrightarrow> list_all (\<lambda>(_, p). p j) (admission_conditions now cap d)"

definition waiting_reason :: "rat \<Rightarrow> int \<Rightarrow> db \<Rightarrow> job \<Rightarrow> string" where
  "waiting_reason now cap d j =
     (case find_row (\<lambda>(_, p). \<not> p j) (admission_conditions now cap d) of
        Some (label, _) \<Rightarrow> label | None \<Rightarrow> ''eligible'')"

section \<open>Candidates\<close>

text \<open>The keyword arguments of \<open>claim_next_job\<close>; \<open>w_token\<close> is the UUID of a claim by a worker.\<close>

record claim_args =
  w_crawl_run_id :: "int option"
  w_now :: "rat option"
  w_worker_id :: "string option"
  w_job_id :: "int option"
  w_stage :: string
  w_policy :: budget_policy
  w_respect_fairness :: bool
  w_token :: string

definition stage_allows :: "string \<Rightarrow> job \<Rightarrow> bool" where
  "stage_allows stage j \<longleftrightarrow> stage = ''all'' \<or> (stage = ''processing'' \<and> processing_kind (j_kind j))
     \<or> (stage = ''acquisition'' \<and> \<not> processing_kind (j_kind j))"

text \<open>\<open>NOT provider=ANY(excluded)\<close>: unknown, hence not true, for a NULL provider and a nonempty list.\<close>

definition not_excluded :: "string option list \<Rightarrow> job \<Rightarrow> bool" where
  "not_excluded excluded j \<longleftrightarrow> processing_kind (j_kind j) \<or> excluded = []
     \<or> (j_provider j \<noteq> None \<and> j_provider j \<notin> set excluded)"

definition turn_of :: "db \<Rightarrow> string \<Rightarrow> string \<Rightarrow> int" where
  "turn_of d stage ws = coalesce (map_option t_turn
     (find_row (\<lambda>t. t_workspace_id t = ws \<and> t_stage t = stage) (db_turns d))) 0"

type_synonym claim_order = "int \<times> int \<times> int \<times> int \<times> int"

definition claim_order :: "db \<Rightarrow> string \<Rightarrow> job \<Rightarrow> claim_order" where
  "claim_order d stage j = (turn_of d stage (j_workspace_id j), j_priority j, j_depth j, j_enqueued_at j, j_id j)"

definition eligible :: "claim_args \<Rightarrow> conn \<Rightarrow> db \<Rightarrow> string option list \<Rightarrow> job \<Rightarrow> bool" where
  "eligible a c d excluded j \<longleftrightarrow>
     claim_admission (float_now c (w_now a)) (workspace_max_active_jobs (w_policy a)) d j
     \<and> opt_filter (w_crawl_run_id a) (j_crawl_run_id j)
     \<and> opt_filter (if w_respect_fairness a then None else w_job_id a) (Some (j_id j))
     \<and> stage_allows (w_stage a) j \<and> not_excluded excluded j
     \<and> j_id j \<notin> set (cn_locked_jobs c)"

definition candidates :: "claim_args \<Rightarrow> conn \<Rightarrow> db \<Rightarrow> string option list \<Rightarrow> job list" where
  "candidates a c d excluded =
     take 100 (sort_key (claim_order d (w_stage a)) (filter (eligible a c d excluded) (db_jobs d)))"

section \<open>The scan of one candidate list\<close>

datatype scan =
    Take job "int list" "advisory_lock list"
  | Stop "advisory_lock list"
  | Next "string option list" "advisory_lock list"

definition provider_key :: "(string \<Rightarrow> int) \<Rightarrow> job \<Rightarrow> int" where
  "provider_key digest8 j = lock_key digest8 ''acquisition-provider'' (show_opt (j_provider j))"

text \<open>
  The session locks one candidate needs: \<open>Inl (True, ls)\<close> when its provider's lock is busy and
  \<open>Inl (False, ls)\<close> when it is passed over for another reason. A provider lock taken before the
  executor lock is refused is released again.
\<close>

definition take_locks :: "(string \<Rightarrow> int) \<Rightarrow> claim_args \<Rightarrow> conn \<Rightarrow> string option list \<Rightarrow> job
  \<Rightarrow> advisory_lock list \<Rightarrow> (bool \<times> advisory_lock list) + (int list \<times> advisory_lock list)" where
  "take_locks digest8 a c excluded j ls =
     (if w_worker_id a = None then Inr ([], ls)
      else
        let job_key = executor_key digest8 (j_id j) in
        if processing_kind (j_kind j)
        then (case acquire_lock_key False (cn_pid c) job_key ls of
                None \<Rightarrow> Inl (False, ls) | Some ls' \<Rightarrow> Inr ([job_key], ls'))
        else if j_provider j \<in> set excluded then Inl (False, ls)
        else (case acquire_lock_key False (cn_pid c) (provider_key digest8 j) ls of
                None \<Rightarrow> Inl (True, ls)
              | Some ls1 \<Rightarrow> (case acquire_lock_key False (cn_pid c) job_key ls1 of
                    None \<Rightarrow> Inl (False, release_lock_key False (cn_pid c) (provider_key digest8 j) ls1)
                  | Some ls2 \<Rightarrow> Inr ([provider_key digest8 j, job_key], ls2))))"

definition release_keys :: "conn \<Rightarrow> int list \<Rightarrow> advisory_lock list \<Rightarrow> advisory_lock list" where
  "release_keys c keys ls = fold (release_lock_key False (cn_pid c)) keys ls"

fun claim_scan :: "(string \<Rightarrow> int) \<Rightarrow> claim_args \<Rightarrow> conn \<Rightarrow> string option list \<Rightarrow> job list
  \<Rightarrow> advisory_lock list \<Rightarrow> scan" where
  "claim_scan digest8 a c excluded [] ls = Next excluded ls"
| "claim_scan digest8 a c excluded (j # js) ls =
     (case take_locks digest8 a c excluded j ls of
        Inl (busy, ls') \<Rightarrow>
          claim_scan digest8 a c (if busy then excluded @ [j_provider j] else excluded) js ls'
      | Inr (keys, ls') \<Rightarrow>
          if w_respect_fairness a \<and> w_job_id a \<noteq> None \<and> w_job_id a \<noteq> Some (j_id j)
          then Stop (release_keys c (rev keys) ls')
          else Take j keys ls')"

text \<open>A candidate that is passed over leaves the lock table as it was.\<close>

lemma take_locks_Inl:
  assumes "take_locks digest8 a c excluded j ls = Inl (busy, ls')"
  shows "ls' = ls" "busy \<Longrightarrow> j_provider j \<notin> set excluded"
  using assms by (auto simp: take_locks_def Let_def split: if_splits option.splits)

lemma claim_scan_Next:
  assumes "claim_scan digest8 a c excluded js ls = Next excluded' ls'"
  shows "\<exists>new. excluded' = excluded @ new \<and> set new \<subseteq> j_provider ` set js \<and> set new \<inter> set excluded = {}
    \<and> ls' = ls"
  using assms
proof (induction js arbitrary: excluded)
  case (Cons j js)
  show ?case
  proof (cases "take_locks digest8 a c excluded j ls")
    case (Inl r)
    obtain busy where r: "r = (busy, ls)" and fresh: "busy \<Longrightarrow> j_provider j \<notin> set excluded"
      using Inl take_locks_Inl by (cases r) metis
    obtain new where "excluded' = (if busy then excluded @ [j_provider j] else excluded) @ new"
      "set new \<subseteq> j_provider ` set js"
      "set new \<inter> set (if busy then excluded @ [j_provider j] else excluded) = {}" "ls' = ls"
      using Cons.IH Cons.prems Inl r by fastforce
    then show ?thesis
      using fresh
      by (cases busy) (auto intro!: exI [of _ "if busy then j_provider j # new else new"])
  next
    case (Inr r)
    then show ?thesis using Cons.prems by (auto split: prod.splits if_splits)
  qed
qed simp

lemma candidates_subset: "set (candidates a c d excluded) \<subseteq> set (db_jobs d)"
  unfolding candidates_def by (auto dest!: in_set_takeD)

section \<open>The claim\<close>

text \<open>The \<open>while True\<close> loop: the chosen job with its keys, and the lock table.\<close>

function claim_loop :: "(string \<Rightarrow> int) \<Rightarrow> claim_args \<Rightarrow> conn \<Rightarrow> db \<Rightarrow> string option list \<Rightarrow> advisory_lock list
  \<Rightarrow> (job \<times> int list) option \<times> advisory_lock list" where
  "claim_loop digest8 a c d excluded ls =
     (case candidates a c d excluded of
        [] \<Rightarrow> (None, ls)
      | j # js \<Rightarrow> (case claim_scan digest8 a c excluded (j # js) ls of
            Take j' keys ls' \<Rightarrow> (Some (j', keys), ls')
          | Stop ls' \<Rightarrow> (None, ls')
          | Next excluded' ls' \<Rightarrow>
              if length excluded' = length excluded then (None, ls')
              else claim_loop digest8 a c d excluded' ls'))"
  by pat_completeness auto
termination
proof (relation "measure (\<lambda>(digest8, a, c, d, excluded, ls). card (j_provider ` set (db_jobs d) - set excluded))")
  fix digest8 a c d excluded ls j js excluded' ls'
  assume cs: "candidates a c d excluded = j # js"
    and sc: "claim_scan digest8 a c excluded (j # js) ls = Next excluded' ls'"
    and len: "length excluded' \<noteq> length excluded"
  obtain new where new: "excluded' = excluded @ new" "set new \<subseteq> j_provider ` set (j # js)" "set new \<inter> set excluded = {}"
    using claim_scan_Next [OF sc] by blast
  have "set (j # js) \<subseteq> set (db_jobs d)" using candidates_subset [of a c d excluded] cs by simp
  then have "set new \<subseteq> j_provider ` set (db_jobs d)" using new(2) by blast
  moreover have "new \<noteq> []" using len new(1) by auto
  then obtain p where "p \<in> set new" by (cases new) auto
  ultimately have "p \<in> j_provider ` set (db_jobs d) - set excluded" "p \<in> set excluded'" using new(1,3) by auto
  then have "j_provider ` set (db_jobs d) - set excluded' \<subset> j_provider ` set (db_jobs d) - set excluded"
    using new(1) by auto
  then show "((digest8, a, c, d, excluded', ls'), (digest8, a, c, d, excluded, ls))
    \<in> measure (\<lambda>(digest8, a, c, d, excluded, ls). card (j_provider ` set (db_jobs d) - set excluded))"
    by (simp add: psubset_card_mono)
qed simp

declare claim_loop.simps [simp del]

definition claimed :: "claim_args \<Rightarrow> conn \<Rightarrow> job \<Rightarrow> job" where
  "claimed a c j = j\<lparr>j_state := In_progress, j_started_at := Some (trunc_rat (float_now c (w_now a))),
     j_attempts := j_attempts j + 1, j_reason := None, j_done_at := None, j_next_attempt_at := None,
     j_owner_worker_id := w_worker_id a,
     j_owner_backend_pid := (case w_worker_id a of None \<Rightarrow> None | Some _ \<Rightarrow> Some (cn_pid c)),
     j_ownership_token := (case w_worker_id a of None \<Rightarrow> None | Some _ \<Rightarrow> Some (w_token a)),
     j_ownership_generation := j_ownership_generation j + 1\<rparr>"

text \<open>\<open>INSERT INTO workspace_claim_turns .. ON CONFLICT DO UPDATE\<close> with the next turn number.\<close>

definition take_turn :: "string \<Rightarrow> string \<Rightarrow> db \<Rightarrow> db" where
  "take_turn ws stage d =
     (let p = (\<lambda>t. t_workspace_id t = ws \<and> t_stage t = stage); n = db_next_turn d in
      d\<lparr>db_next_turn := n + 1,
        db_turns := (if find_row p (db_turns d) \<noteq> None
          then update_where p (\<lambda>t. t\<lparr>t_turn := n\<rparr>) (db_turns d)
          else db_turns d @ [\<lparr>t_workspace_id = ws, t_stage = stage, t_turn = n\<rparr>])\<rparr>)"

definition claim_next_job ::
  "(string \<Rightarrow> int) \<Rightarrow> claim_args \<Rightarrow> conn \<Rightarrow> db \<Rightarrow> (db \<times> conn \<times> job option) result" where
  "claim_next_job digest8 a c d =
     (if w_stage a \<notin> {''all'', ''acquisition'', ''processing''}
      then Inl (ValueError ''stage must be all, acquisition, or processing'')
      else case claim_loop digest8 a c d [] (db_locks d) of
          (None, ls) \<Rightarrow> Inr (d\<lparr>db_locks := ls\<rparr>, c, None)
        | (Some (j, keys), ls) \<Rightarrow>
            rbind (update_jobs c (\<lambda>x. j_id x = j_id j) (claimed a c) (d\<lparr>db_locks := ls\<rparr>)) (\<lambda>d1.
            let d2 = take_turn (j_workspace_id j) (w_stage a) d1;
                c' = (if w_worker_id a = None then c
                      else c\<lparr>cn_ownership_keys := keys, cn_job_fence := Some (j_id j, w_token a)\<rparr>)
            in Inr (d2, c', get_job d1 (j_id j))))"

definition release_job_ownership :: "conn \<Rightarrow> db \<Rightarrow> db \<times> conn" where
  "release_job_ownership c d =
     (d\<lparr>db_locks := (if cn_closed c then db_locks d
           else release_keys c (rev (cn_ownership_keys c)) (db_locks d))\<rparr>,
      c\<lparr>cn_job_fence := None, cn_ownership_keys := []\<rparr>)"

end
