(* ===== verification/Claim_Laws.thy ===== *)
theory Claim_Laws
  imports Claim
begin

text \<open>
  The laws of scheduling: a claim takes an admissible job, holds its locks, respects the active
  cap and the order, and a claim that finds nothing changes nothing.
\<close>

section \<open>What the loop returns\<close>

lemma take_locks_release:
  assumes "take_locks digest8 a c excluded j ls = Inr (keys, ls')"
  shows "release_keys c (rev keys) ls' = ls"
  using assms by (auto simp: take_locks_def Let_def release_keys_def split: if_splits option.splits)

lemma claim_scan_Take:
  assumes "claim_scan digest8 a c excluded js ls = Take j keys ls'"
  shows "\<exists>pre post excluded'. js = pre @ j # post \<and> set excluded \<subseteq> set excluded'
    \<and> take_locks digest8 a c excluded' j ls = Inr (keys, ls')
    \<and> (w_respect_fairness a \<and> w_job_id a \<noteq> None \<longrightarrow> w_job_id a = Some (j_id j))"
  using assms
proof (induction js arbitrary: excluded)
  case (Cons x js)
  show ?case
  proof (cases "take_locks digest8 a c excluded x ls")
    case (Inl r)
    then obtain busy where r: "r = (busy, ls)" using take_locks_Inl(1) by (cases r) metis
    let ?e = "if busy then excluded @ [j_provider x] else excluded"
    obtain pre post e where *: "js = pre @ j # post" "set ?e \<subseteq> set e"
      "take_locks digest8 a c e j ls = Inr (keys, ls')"
      "w_respect_fairness a \<and> w_job_id a \<noteq> None \<longrightarrow> w_job_id a = Some (j_id j)"
      using Cons.IH [of ?e] Cons.prems Inl r by auto
    then have "x # js = (x # pre) @ j # post" "set excluded \<subseteq> set e" by (auto split: if_splits)
    then show ?thesis using *(3,4) by blast
  next
    case (Inr r)
    then have "x = j" "take_locks digest8 a c excluded x ls = Inr (keys, ls')"
      "w_respect_fairness a \<and> w_job_id a \<noteq> None \<longrightarrow> w_job_id a = Some (j_id j)"
      using Cons.prems by (auto split: prod.splits if_splits)
    then have "x # js = [] @ j # js \<and> set excluded \<subseteq> set excluded
      \<and> take_locks digest8 a c excluded j ls = Inr (keys, ls')
      \<and> (w_respect_fairness a \<and> w_job_id a \<noteq> None \<longrightarrow> w_job_id a = Some (j_id j))" by auto
    then show ?thesis by blast
  qed
qed simp

lemma claim_scan_Stop:
  "claim_scan digest8 a c excluded js ls = Stop ls' \<Longrightarrow> ls' = ls"
proof (induction js arbitrary: excluded)
  case (Cons x js)
  show ?case
  proof (cases "take_locks digest8 a c excluded x ls")
    case (Inl r)
    then show ?thesis using Cons take_locks_Inl(1) by (cases r) fastforce
  next
    case (Inr r)
    then show ?thesis using Cons.prems take_locks_release by (auto split: prod.splits if_splits)
  qed
qed simp

lemma claim_loop_Some:
  assumes "claim_loop digest8 a c d excluded ls = (Some (j, keys), ls')"
  shows "\<exists>e e'. set excluded \<subseteq> set e \<and> set e \<subseteq> set e' \<and> j \<in> set (candidates a c d e)
    \<and> take_locks digest8 a c e' j ls = Inr (keys, ls')
    \<and> (w_respect_fairness a \<and> w_job_id a \<noteq> None \<longrightarrow> w_job_id a = Some (j_id j))"
  using assms
proof (induction digest8 a c d excluded ls rule: claim_loop.induct)
  case (1 digest8 a c d excluded ls)
  obtain x xs where cs: "candidates a c d excluded = x # xs"
    using "1.prems" by (cases "candidates a c d excluded") (auto simp: claim_loop.simps [of _ a])
  show ?case
  proof (cases "claim_scan digest8 a c excluded (x # xs) ls")
    case (Take j' k l)
    then have "j' = j" "k = keys" "l = ls'" using "1.prems" cs by (auto simp: claim_loop.simps [of _ a])
    then obtain pre post e' where *: "x # xs = pre @ j # post" "set excluded \<subseteq> set e'"
      "take_locks digest8 a c e' j ls = Inr (keys, ls')"
      "w_respect_fairness a \<and> w_job_id a \<noteq> None \<longrightarrow> w_job_id a = Some (j_id j)"
      using claim_scan_Take [OF Take] by blast
    have "j \<in> set (candidates a c d excluded)" unfolding cs *(1) by simp
    with * show ?thesis by blast
  next
    case (Stop l)
    then show ?thesis using "1.prems" cs by (auto simp: claim_loop.simps [of _ a])
  next
    case (Next e l)
    have ls: "l = ls" "set excluded \<subseteq> set e" using claim_scan_Next [OF Next] by auto
    have len: "length e \<noteq> length excluded" and rec: "claim_loop digest8 a c d e l = (Some (j, keys), ls')"
      using "1.prems" cs Next by (auto simp: claim_loop.simps [of _ a _ _ excluded] split: if_splits)
    from "1.IH" [OF cs Next len rec] ls show ?thesis by (metis subset_trans)
  qed
qed

lemma claim_loop_None:
  "claim_loop digest8 a c d excluded ls = (None, ls') \<Longrightarrow> ls' = ls"
proof (induction digest8 a c d excluded ls rule: claim_loop.induct)
  case (1 digest8 a c d excluded ls)
  show ?case
  proof (cases "candidates a c d excluded")
    case Nil
    then show ?thesis using "1.prems" by (simp add: claim_loop.simps [of _ a])
  next
    case (Cons x xs)
    show ?thesis
    proof (cases "claim_scan digest8 a c excluded (x # xs) ls")
      case (Next e l)
      then have "l = ls" using claim_scan_Next by blast
      then show ?thesis
        using "1.IH" [OF Cons Next] "1.prems" Cons Next
        by (auto simp: claim_loop.simps [of _ a _ _ excluded] split: if_splits)
    next
      case (Stop l)
      then have "l = ls" by (rule claim_scan_Stop)
      then show ?thesis using "1.prems" Cons Stop by (simp add: claim_loop.simps [of _ a] del: claim_scan.simps)
    qed (use "1.prems" Cons in \<open>simp add: claim_loop.simps [of _ a] del: claim_scan.simps\<close>)
  qed
qed

lemma in_candidates: "j \<in> set (candidates a c d e) \<Longrightarrow> j \<in> set (db_jobs d) \<and> eligible a c d e j"
  unfolding candidates_def by (auto dest!: in_set_takeD)

section \<open>The effect of a claim\<close>

lemma take_turn_fields [simp]:
  "db_jobs (take_turn ws st d) = db_jobs d" "db_locks (take_turn ws st d) = db_locks d"
  "db_events (take_turn ws st d) = db_events d" "db_dispatch (take_turn ws st d) = db_dispatch d"
  "db_next_job (take_turn ws st d) = db_next_job d" "db_policies (take_turn ws st d) = db_policies d"
  "db_runs (take_turn ws st d) = db_runs d"
  by (simp_all add: take_turn_def Let_def)

lemma claimed_identity: "keeps_identity (claimed a c)"
  by (simp add: keeps_identity_def claimed_def)

lemma claimE:
  assumes wf: "jobs_wf d" and cl: "claim_next_job digest8 a c d = Inr (d', c', Some j')"
  obtains j e e' keys where "j \<in> set (db_jobs d)" "eligible a c d e j" "set e \<subseteq> set e'"
    "take_locks digest8 a c e' j (db_locks d) = Inr (keys, db_locks d')"
    "j' = set_job_revision j (claimed a c j)"
    "db_jobs d' = update_where (\<lambda>x. j_id x = j_id j) (\<lambda>x. set_job_revision x (claimed a c x)) (db_jobs d)"
    "c' = (if w_worker_id a = None then c
       else c\<lparr>cn_ownership_keys := keys, cn_job_fence := Some (j_id j, w_token a)\<rparr>)"
    "\<exists>d1. update_jobs c (\<lambda>x. j_id x = j_id j) (claimed a c) (d\<lparr>db_locks := db_locks d'\<rparr>) = Inr d1
       \<and> d' = take_turn (j_workspace_id j) (w_stage a) d1"
    "w_respect_fairness a \<and> w_job_id a \<noteq> None \<longrightarrow> w_job_id a = Some (j_id j)"
proof -
  obtain j keys ls d1 where loop: "claim_loop digest8 a c d [] (db_locks d) = (Some (j, keys), ls)"
    and up: "update_jobs c (\<lambda>x. j_id x = j_id j) (claimed a c) (d\<lparr>db_locks := ls\<rparr>) = Inr d1"
    and d': "d' = take_turn (j_workspace_id j) (w_stage a) d1"
    and c': "c' = (if w_worker_id a = None then c
       else c\<lparr>cn_ownership_keys := keys, cn_job_fence := Some (j_id j, w_token a)\<rparr>)"
    and j': "get_job d1 (j_id j) = Some j'"
    using cl by (auto simp: claim_next_job_def Let_def res_simps split: if_splits prod.splits option.splits)
  obtain e e' where j: "j \<in> set (candidates a c d e)" "set e \<subseteq> set e'"
    and tl: "take_locks digest8 a c e' j (db_locks d) = Inr (keys, ls)"
    and fair: "w_respect_fairness a \<and> w_job_id a \<noteq> None \<longrightarrow> w_job_id a = Some (j_id j)"
    using claim_loop_Some [OF loop] by blast
  have mem: "j \<in> set (db_jobs d)" "eligible a c d e j" using in_candidates [OF j(1)] by auto
  have ls: "db_locks d' = ls" using outbox_only_fields [OF update_jobs_frame [OF up]] by (simp add: d')
  have "get_row d (j_id j) = Some j"
    using job_tab.lookup_unique [of "db_jobs d" j] wf mem(1) by (simp add: get_row_lookup jobs_wf_def)
  moreover have "get_row (d\<lparr>db_locks := ls\<rparr>) i = get_row d i" for i by (simp add: get_row_def)
  ultimately have "j' = set_job_revision j (claimed a c j)"
    using update_jobs_get_row [OF up, of "j_id j"] j' keeps_identityD(1) [OF claimed_identity]
    by (simp add: get_job_def)
  moreover have "db_jobs d' = update_where (\<lambda>x. j_id x = j_id j) (\<lambda>x. set_job_revision x (claimed a c x)) (db_jobs d)"
    using update_jobs_rows [OF up] by (simp add: d')
  moreover have "\<exists>d1. update_jobs c (\<lambda>x. j_id x = j_id j) (claimed a c) (d\<lparr>db_locks := db_locks d'\<rparr>) = Inr d1
       \<and> d' = take_turn (j_workspace_id j) (w_stage a) d1"
    using up d' ls by auto
  ultimately show ?thesis using that [OF mem j(2)] tl ls c' fair by simp
qed

lemma claim_None:
  assumes "claim_next_job digest8 a c d = Inr (d', c', None)" "jobs_wf d"
  shows "d' = d" "c' = c"
proof -
  consider ls where "claim_loop digest8 a c d [] (db_locks d) = (None, ls)" "d' = d\<lparr>db_locks := ls\<rparr>" "c' = c"
    | j keys ls d1 where "claim_loop digest8 a c d [] (db_locks d) = (Some (j, keys), ls)"
      "update_jobs c (\<lambda>x. j_id x = j_id j) (claimed a c) (d\<lparr>db_locks := ls\<rparr>) = Inr d1" "get_job d1 (j_id j) = None"
    using assms(1) by (auto simp: claim_next_job_def Let_def res_simps split: if_splits prod.splits option.splits)
  then have "d' = d \<and> c' = c"
  proof cases
    case 1
    then show ?thesis using claim_loop_None by fastforce
  next
    case 2
    have "j \<in> set (db_jobs d)" using claim_loop_Some [OF 2(1)] in_candidates by blast
    moreover have "get_row d (j_id j) = None"
      using 2(3) update_jobs_get_row [OF 2(2), of "j_id j"] keeps_identityD(1) [OF claimed_identity]
      by (simp add: get_job_def get_row_def)
    ultimately show ?thesis by (auto simp: get_row_def find_row_None)
  qed
  then show "d' = d" "c' = c" by auto
qed

section \<open>Locks\<close>

lemma take_locks_holds:
  assumes "take_locks digest8 a c e j ls = Inr (keys, ls')" "w_worker_id a \<noteq> None"
  shows "holds_lock ls' (cn_pid c) (executor_key digest8 (j_id j))"
    "\<not> processing_kind (j_kind j) \<Longrightarrow> holds_lock ls' (cn_pid c) (provider_key digest8 j)"
    "k \<in> set keys \<Longrightarrow> holds_lock ls' (cn_pid c) k"
  using assms by (auto simp: take_locks_def Let_def adv.acquire_holds split: if_splits option.splits)

lemma take_locks_others:
  assumes "take_locks digest8 a c e j ls = Inr (keys, ls')"
  shows "q \<noteq> cn_pid c \<Longrightarrow> holds_lock ls' q k = holds_lock ls q k" "holds_lock ls q k \<Longrightarrow> holds_lock ls' q k"
    "locks_valid ls \<Longrightarrow> locks_valid ls'"
  using assms
  by (auto simp: take_locks_def Let_def adv.acquire_holds split: if_splits option.splits
      intro: adv.acquire_valid)

text \<open>A key another backend holds is never taken.\<close>

lemma take_locks_free:
  assumes "take_locks digest8 a c e j ls = Inr (keys, ls')" "w_worker_id a \<noteq> None"
    "holds_lock ls q (executor_key digest8 (j_id j))"
  shows "q = cn_pid c"
  using assms adv.acquire_other
  by (auto simp: take_locks_def Let_def adv.acquire_holds split: if_splits option.splits)

section \<open>The active cap\<close>

lemma claim_admissionD:
  assumes "claim_admission now cap d j"
  shows "run_allows_work d j" "schedulable_state j" "retry_due now j" "processing_ready d j"
    "provider_available now d j" "below_cap cap d j"
  using assms by (auto simp: claim_admission_def admission_conditions_def)

lemma waiting_reason_eligible: "waiting_reason now cap d j = ''eligible'' \<longleftrightarrow> claim_admission now cap d j"
  by (auto simp: waiting_reason_def claim_admission_def admission_conditions_def)

lemma count_where_update_key:
  assumes "job_tab.unique_keys js" "j \<in> set js" "\<not> p j" "p (f j)"
  shows "count_where p (update_where (\<lambda>x. j_id x = j_id j) f js) = count_where p js + 1"
  using assms(1,2)
proof (induction js)
  case (Cons x js)
  have uk: "job_tab.unique_keys js" using Cons.prems(1) by (simp add: job_tab.unique_keys_def)
  show ?case
  proof (cases "x = j")
    case True
    then have "update_where (\<lambda>y. j_id y = j_id j) f js = js"
      using Cons.prems(1) by (intro update_where_unchanged) (auto simp: job_tab.unique_keys_def image_iff)
    then show ?thesis using True assms(3,4) by simp
  next
    case False
    then have "j \<in> set js" "j_id x \<noteq> j_id j"
      using Cons.prems by (auto simp: job_tab.unique_keys_def image_iff)
    then show ?thesis using Cons.IH [OF uk] by simp
  qed
qed simp

lemma claim_active_count:
  assumes wf: "jobs_wf d" and cl: "claim_next_job digest8 a c d = Inr (d', c', Some j')"
  shows "count_where (active_in (j_workspace_id j')) (db_jobs d')
      = count_where (active_in (j_workspace_id j')) (db_jobs d) + 1"
    "count_where (active_in (j_workspace_id j')) (db_jobs d')
      \<le> active_cap (workspace_max_active_jobs (w_policy a)) d (j_workspace_id j')"
proof -
  obtain j e where j: "j \<in> set (db_jobs d)" "eligible a c d e j"
    and j': "j' = set_job_revision j (claimed a c j)"
    and rows: "db_jobs d' = update_where (\<lambda>x. j_id x = j_id j) (\<lambda>x. set_job_revision x (claimed a c x)) (db_jobs d)"
    using wf cl by (rule claimE)
  have adm: "claim_admission (float_now c (w_now a)) (workspace_max_active_jobs (w_policy a)) d j"
    using j(2) by (simp add: eligible_def)
  have ws: "j_workspace_id j' = j_workspace_id j" by (simp add: j' claimed_def)
  have "j_state j \<noteq> In_progress" using claim_admissionD(2) [OF adm] by (auto simp: schedulable_state_def)
  then show cnt: "count_where (active_in (j_workspace_id j')) (db_jobs d')
      = count_where (active_in (j_workspace_id j')) (db_jobs d) + 1"
    unfolding rows ws using wf j(1)
    by (intro count_where_update_key) (auto simp: jobs_wf_def active_in_def claimed_def)
  show "count_where (active_in (j_workspace_id j')) (db_jobs d')
      \<le> active_cap (workspace_max_active_jobs (w_policy a)) d (j_workspace_id j')"
    using claim_admissionD(6) [OF adm] cnt unfolding below_cap_def ws by simp
qed

section \<open>The order\<close>

definition lock_busy :: "conn \<Rightarrow> int \<Rightarrow> advisory_lock list \<Rightarrow> bool" where
  "lock_busy c key ls \<longleftrightarrow> (\<exists>l \<in> set ls. lock_conflict (cn_pid c) key False l)"

definition job_locks_busy :: "(string \<Rightarrow> int) \<Rightarrow> conn \<Rightarrow> advisory_lock list \<Rightarrow> job \<Rightarrow> bool" where
  "job_locks_busy digest8 c ls j \<longleftrightarrow> lock_busy c (executor_key digest8 (j_id j)) ls
     \<or> (\<not> processing_kind (j_kind j) \<and> lock_busy c (provider_key digest8 j) ls)"

definition excluded_busy :: "(string \<Rightarrow> int) \<Rightarrow> conn \<Rightarrow> advisory_lock list \<Rightarrow> string option list \<Rightarrow> bool" where
  "excluded_busy digest8 c ls e \<longleftrightarrow>
     (\<forall>p \<in> set e. lock_busy c (lock_key digest8 ''acquisition-provider'' (show_opt p)) ls)"

lemma acquire_refused: "acquire_lock_key False (cn_pid c) k ls = None \<longleftrightarrow> lock_busy c k ls"
  by (auto simp: acquire_lock_key_def lock_busy_def)

lemma lock_busy_acquired:
  "acquire_lock_key False (cn_pid c) k ls = Some ls' \<Longrightarrow> lock_busy c k' ls' = lock_busy c k' ls"
  by (auto simp: acquire_lock_key_def lock_busy_def lock_conflict_def split: if_splits)

lemma take_locks_passed:
  assumes "take_locks digest8 a c e j ls = Inl (busy, ls')" "excluded_busy digest8 c ls e"
  shows "w_worker_id a \<noteq> None" "job_locks_busy digest8 c ls j"
    "busy \<Longrightarrow> excluded_busy digest8 c ls (e @ [j_provider j])"
  using assms
  by (auto simp: take_locks_def Let_def job_locks_busy_def excluded_busy_def acquire_refused
      provider_key_def lock_busy_acquired split: if_splits option.splits)

lemma claim_scan_order:
  assumes "excluded_busy digest8 c ls e"
  shows "claim_scan digest8 a c e js ls = Take j keys ls' \<Longrightarrow> \<exists>pre post. js = pre @ j # post
      \<and> (\<forall>x \<in> set pre. w_worker_id a \<noteq> None \<and> job_locks_busy digest8 c ls x)"
    "claim_scan digest8 a c e js ls = Next e' ls' \<Longrightarrow> excluded_busy digest8 c ls e'"
  using assms
proof (induction js arbitrary: e)
  case (Cons x js)
  {
    case 1
    show ?case
    proof (cases "take_locks digest8 a c e x ls")
      case (Inl r)
      obtain busy where r: "r = (busy, ls)" using Inl take_locks_Inl(1) by (cases r) metis
      have ex: "excluded_busy digest8 c ls (if busy then e @ [j_provider x] else e)"
        using take_locks_passed(3) [OF Inl [unfolded r] 1(2)] 1(2) by simp
      obtain pre post where "js = pre @ j # post"
        "\<forall>x \<in> set pre. w_worker_id a \<noteq> None \<and> job_locks_busy digest8 c ls x"
        using Cons.IH(1) [OF _ ex] 1(1) Inl r by auto
      then have "x # js = (x # pre) @ j # post
          \<and> (\<forall>y \<in> set (x # pre). w_worker_id a \<noteq> None \<and> job_locks_busy digest8 c ls y)"
        using take_locks_passed(1,2) [OF Inl [unfolded r] 1(2)] by simp
      then show ?thesis by blast
    next
      case (Inr r)
      then have "x = j" using 1(1) by (auto split: prod.splits if_splits)
      then show ?thesis by (intro exI [of _ "[]"] exI [of _ js]) auto
    qed
  next
    case 2
    show ?case
    proof (cases "take_locks digest8 a c e x ls")
      case (Inl r)
      obtain busy where r: "r = (busy, ls)" using Inl take_locks_Inl(1) by (cases r) metis
      have ex: "excluded_busy digest8 c ls (if busy then e @ [j_provider x] else e)"
        using take_locks_passed(3) [OF Inl [unfolded r] 2(2)] 2(2) by simp
      then show ?thesis using Cons.IH(2) [OF _ ex] 2(1) Inl r by auto
    next
      case (Inr r)
      then show ?thesis using 2(1) by (auto split: prod.splits if_splits)
    qed
  }
qed auto

lemma sorted_before:
  fixes f :: "'a \<Rightarrow> 'b::linorder"
  assumes "take n (sort_key f xs) = pre @ j # post" "k \<in> set xs" "f k < f j"
  shows "k \<in> set pre"
proof -
  have L: "sort_key f xs = pre @ j # (post @ drop n (sort_key f xs))"
    using assms(1) append_take_drop_id [of n "sort_key f xs"] by (metis append.assoc append_Cons)
  have "sorted (map f (pre @ j # (post @ drop n (sort_key f xs))))"
    using L sorted_sort_key by metis
  then have "\<forall>x \<in> set (post @ drop n (sort_key f xs)). f j \<le> f x" by (auto simp: sorted_append)
  moreover have "k \<in> set (pre @ j # (post @ drop n (sort_key f xs)))" using assms(2) L by (metis set_sort)
  ultimately show ?thesis using assms(3) by (auto simp: not_le [symmetric])
qed

lemma eligible_excluded:
  assumes "eligible a c d [] k" "\<not> eligible a c d e k" "service_job_provider k"
    "excluded_busy digest8 c ls e"
  shows "job_locks_busy digest8 c ls k" "e \<noteq> []"
proof -
  have "\<not> not_excluded e k" using assms(1,2) by (auto simp: eligible_def)
  then show "job_locks_busy digest8 c ls k" "e \<noteq> []"
    using assms(3,4)
    by (auto simp: not_excluded_def service_job_provider_def processing_kind_def job_locks_busy_def
        excluded_busy_def provider_key_def)
qed

text \<open>
  When the loop settles on \<open>j\<close>, every job it ranks before \<open>j\<close> needs a lock that another backend
  holds; a claim without a worker takes no locks and hence the first job.
\<close>

lemma claim_loop_order:
  assumes "claim_loop digest8 a c d e ls = (Some (j, keys), ls')" "excluded_busy digest8 c ls e"
    "e \<noteq> [] \<Longrightarrow> w_worker_id a \<noteq> None" "k \<in> set (db_jobs d)" "eligible a c d [] k" "service_job_provider k"
    "claim_order d (w_stage a) k < claim_order d (w_stage a) j"
  shows "w_worker_id a \<noteq> None \<and> job_locks_busy digest8 c ls k"
  using assms
proof (induction digest8 a c d e ls rule: claim_loop.induct)
  case (1 digest8 a c d e ls)
  note prems = "1.prems"
  obtain x xs where cs: "candidates a c d e = x # xs"
    using prems(1) by (cases "candidates a c d e") (auto simp: claim_loop.simps [of _ a])
  show ?case
  proof (cases "eligible a c d e k")
    case False
    then show ?thesis using eligible_excluded [OF prems(5) False prems(6,2)] prems(3) by blast
  next
    case el: True
    show ?thesis
    proof (cases "claim_scan digest8 a c e (x # xs) ls")
      case (Take j' ks l)
      then have "j' = j" using prems(1) cs by (simp add: claim_loop.simps [of _ a] del: claim_scan.simps)
      then obtain pre post where pp: "candidates a c d e = pre @ j # post"
        "\<forall>y \<in> set pre. w_worker_id a \<noteq> None \<and> job_locks_busy digest8 c ls y"
        using claim_scan_order(1) [OF prems(2) Take] cs by metis
      have "k \<in> set pre"
        by (rule sorted_before [OF pp(1) [unfolded candidates_def] _ prems(7)]) (simp add: prems(4) el)
      then show ?thesis using pp(2) by blast
    next
      case (Stop l)
      then show ?thesis using prems(1) cs by (simp add: claim_loop.simps [of _ a] del: claim_scan.simps)
    next
      case (Next e' l)
      obtain new where new: "e' = e @ new" "l = ls" using claim_scan_Next [OF Next] by blast
      have len: "length e' \<noteq> length e" and rec: "claim_loop digest8 a c d e' ls = (Some (j, keys), ls')"
      proof -
        have "claim_loop digest8 a c d e ls =
            (if length e' = length e then (None, ls) else claim_loop digest8 a c d e' ls)"
          by (subst claim_loop.simps) (simp only: cs Next new(2) list.case scan.case)
        then show "length e' \<noteq> length e" "claim_loop digest8 a c d e' ls = (Some (j, keys), ls')"
          using prems(1) by (auto split: if_splits)
      qed
      have wk: "w_worker_id a \<noteq> None"
      proof
        assume "w_worker_id a = None"
        then have "claim_scan digest8 a c e (x # xs) ls \<noteq> Next e' l" by (simp add: take_locks_def)
        then show False using Next by blast
      qed
      show ?thesis
        using "1.IH" [OF cs Next len, unfolded new(2)] rec claim_scan_order(2) [OF prems(2) Next] wk prems(4-7)
        by blast
    qed
  qed
qed

end
