(* ===== verification/Budget_Laws.thy ===== *)
theory Budget_Laws
  imports Budgets
begin

text \<open>
  The laws of work budgets: calendar periods, ceilings, the ledger of reservations, refunds, and
  versioned policies.
\<close>

section \<open>Periods\<close>

lemma next_month_eq:
  "next_month (y, m) = (y + (if m = 12 then 1 else 0), if m = 12 then 1 else m + 1)"
  by (simp add: next_month_def)

lemma monthly_periodE:
  assumes "monthly_period now = Inr (s, e)"
  obtains y m where "1 \<le> m" "m \<le> 12" "s = month_start y m"
    "e = month_start (fst (next_month (y, m))) (snd (next_month (y, m)))" "s \<le> now" "now < e"
    "1 \<le> y" "fst (next_month (y, m)) \<le> 9999"
proof -
  obtain y m x where o: "fromtimestamp now = Inr (y, m, x)" "timestamp y m 1 = Inr s"
    "timestamp (fst (next_month (y, m))) (snd (next_month (y, m))) 1 = Inr e"
    using assms by (auto simp: monthly_period_def res_simps next_month_eq split: prod.splits)
  have "fst (next_month (y, m)) \<le> 9999" using o(3) by (auto simp: timestamp_def split: if_splits)
  then show ?thesis
    using that [of m y] fromtimestamp_bracket [OF o(1)] timestamp_month [OF o(2)] timestamp_month [OF o(3)]
    by simp
qed

lemma monthly_period_same:
  assumes "monthly_period now = Inr (s, e)" "s \<le> t" "t < e"
  shows "monthly_period t = Inr (s, e)"
proof (rule monthly_periodE [OF assms(1)])
  fix y m
  assume m: "1 \<le> m" "m \<le> 12" and s: "s = month_start y m"
    and e: "e = month_start (fst (next_month (y, m))) (snd (next_month (y, m)))"
    and y: "1 \<le> y" "fst (next_month (y, m)) \<le> 9999"
  obtain y' m' d' where o: "ord2ymd (t div 86400 + epoch_ordinal) = (y', m', d')"
    by (metis prod_cases3)
  have ym: "y' = y" "m' = m" using month_of_bracketed [OF o m] assms(2,3) s e by auto
  have yr: "y \<le> 9999" "1 \<le> fst (next_month (y, m))" "1 \<le> snd (next_month (y, m))" "snd (next_month (y, m)) \<le> 12"
    using y m by (auto simp: next_month_def split: if_splits)
  have f: "fromtimestamp t = Inr (y, m, d')" using o ym y yr by (simp add: fromtimestamp_def)
  have "timestamp y m 1 = Inr s"
    "timestamp (y + (if m = 12 then 1 else 0)) (if m = 12 then 1 else m + 1) 1 = Inr e"
    using timestamp_ok [of y m] timestamp_ok [of "fst (next_month (y, m))" "snd (next_month (y, m))"] y yr m s e
    by (auto simp: next_month_eq)
  then show ?thesis by (simp add: monthly_period_def f)
qed

lemma monthly_period_length:
  assumes "monthly_period now = Inr (s, e)"
  shows "28 * 86400 \<le> e - s" "e - s \<le> 31 * 86400"
proof -
  obtain y m where m: "1 \<le> m" "m \<le> 12" and s: "s = month_start y m"
    and e: "e = month_start (fst (next_month (y, m))) (snd (next_month (y, m)))"
    using assms by (rule monthly_periodE)
  have "e - s = 86400 * days_in_month y m"
    using ymd2ord_next_month [OF m, of y] s e by (simp add: month_start_def algebra_simps)
  moreover have "28 \<le> days_in_month y m" "days_in_month y m \<le> 31" by (simp_all add: days_in_month_def)
  ultimately show "28 * 86400 \<le> e - s" "e - s \<le> 31 * 86400" by simp_all
qed

section \<open>What reading a budget may change\<close>

text \<open>
  Policy lookups touch the policy tables only, and the current period's row is created with zero
  counters at most.
\<close>

definition clear_policies :: "db \<Rightarrow> db" where
  "clear_policies d = d\<lparr>db_policies := [], db_policy_history := []\<rparr>"

definition budget_frame :: "db \<Rightarrow> db" where
  "budget_frame d = (clear_policies d)\<lparr>db_periods := []\<rparr>"

lemma clear_policies_periods: "clear_policies d' = clear_policies d \<Longrightarrow> db_periods d' = db_periods d"
  by (cases d; cases d'; simp add: clear_policies_def)

lemma budget_frame_fields:
  assumes "budget_frame d' = budget_frame d"
  shows "db_workspaces d' = db_workspaces d"
    "db_jobs d' = db_jobs d"
    "db_runs d' = db_runs d"
    "db_cooldowns d' = db_cooldowns d"
    "db_heartbeats d' = db_heartbeats d"
    "db_events d' = db_events d"
    "db_dispatch d' = db_dispatch d"
    "db_budgets d' = db_budgets d"
    "db_reservations d' = db_reservations d"
    "db_game_items d' = db_game_items d"
    "db_turns d' = db_turns d"
    "db_edges d' = db_edges d"
    "db_run_edges d' = db_run_edges d"
    "db_run_games d' = db_run_games d"
    "db_raw_bytes d' = db_raw_bytes d"
    "db_locks d' = db_locks d"
    "db_next_job d' = db_next_job d"
    "db_next_run d' = db_next_run d"
    "db_next_event d' = db_next_event d"
    "db_next_dispatch d' = db_next_dispatch d"
    "db_next_budget d' = db_next_budget d"
    "db_next_reservation d' = db_next_reservation d"
    "db_next_edge d' = db_next_edge d"
    "db_next_turn d' = db_next_turn d"
  using assms by (cases d; cases d'; simp add: budget_frame_def clear_policies_def)+

lemma replace_workspace_policy_frame:
  assumes "replace_workspace_policy ws p now m d = Inr (d', v)"
  shows "clear_policies d' = clear_policies d"
  using assms by (auto simp: replace_workspace_policy_def Let_def res_simps clear_policies_def split: if_splits)

lemma clear_policies_updates [simp]:
  "clear_policies (d\<lparr>db_policies := x\<rparr>) = clear_policies d"
  "clear_policies (d\<lparr>db_policy_history := y\<rparr>) = clear_policies d"
  by (simp_all add: clear_policies_def)

lemma stored_policy_frame:
  "stored_policy ws p now m d = Inr (d', row) \<Longrightarrow> clear_policies d' = clear_policies d"
  by (auto simp: stored_policy_def Let_def res_simps split: if_splits)

lemma workspace_policy_for_frame:
  assumes "workspace_policy_for ws p now t m d = Inr (d', q)"
  shows "clear_policies d' = clear_policies d"
proof -
  obtain d2 row where d2: "stored_policy ws p now m d = Inr (d2, row)"
    and "d' = d2 \<or> (\<exists>e v. replace_workspace_policy ws e now False d2 = Inr (d', v))"
    using assms by (auto simp: workspace_policy_for_def Let_def res_simps split: if_splits)
  then show ?thesis using stored_policy_frame [OF d2] replace_workspace_policy_frame by metis
qed

lemma make_policy_Inr [simp]: "make_policy p = Inr q \<longleftrightarrow> q = p \<and> (\<forall>(n, v) \<in> set (policy_fields p). bigint_ok v)"
proof -
  have "find_row (\<lambda>(n, v). \<not> bigint_ok v) (policy_fields p) = None
      \<longleftrightarrow> (\<forall>(n, v) \<in> set (policy_fields p). bigint_ok v)"
    by (auto simp: find_row_None)
  then show ?thesis by (auto simp: make_policy_def split: option.splits)
qed

definition policy_ok :: "budget_policy \<Rightarrow> bool" where
  "policy_ok p \<longleftrightarrow> (\<forall>(n, v) \<in> set (policy_fields p). bigint_ok v)"

definition zero_period :: "period \<Rightarrow> bool" where
  "zero_period p \<longleftrightarrow> p_remote_requests p = 0 \<and> p_remote_bytes p = 0 \<and> p_games p = 0
     \<and> p_normalization_units p = 0"

lemma period_forE:
  assumes "period_for ws now d = Inr (d', p)"
  obtains s e ps where "monthly_period now = Inr (s, e)" "d' = d\<lparr>db_periods := db_periods d @ ps\<rparr>"
    "period_row d' ws s = Some p" "at_period ws s p"
    "ps = [] \<or> (ps = [p] \<and> zero_period p \<and> period_row d ws s = None)"
proof -
  obtain s e where m: "monthly_period now = Inr (s, e)" using assms by (auto simp: period_for_def res_simps)
  let ?new = "\<lparr>p_workspace_id = ws, p_period_start = s, p_period_end = e, p_remote_requests = 0,
    p_remote_bytes = 0, p_games = 0, p_normalization_units = 0\<rparr>"
  show ?thesis
  proof (cases "period_row d ws s")
    case None
    then have "find_row (at_period ws s) (db_periods d @ [?new]) = Some ?new"
      by (simp add: period_row_def find_row_append at_period_def)
    then have d': "d' = d\<lparr>db_periods := db_periods d @ [?new]\<rparr>" "p = ?new"
      using assms m None by (auto simp: period_for_def res_simps period_row_def)
    show ?thesis
      by (rule that [OF m d'(1)])
         (use d' None in \<open>auto simp: period_row_def find_row_append at_period_def zero_period_def\<close>)
  next
    case (Some q)
    then have d': "d' = d" "p = q" using assms m by (auto simp: period_for_def res_simps)
    have "at_period ws s q" using Some by (auto simp: period_row_def dest: find_row_Some)
    then show ?thesis using that [OF m, of "[]"] d' Some by simp
  qed
qed

lemma locked_budgetE:
  assumes "locked_budget bid now d = Inr (d', b, policy, usage, wp)"
  obtains s e ps where "budget_row d bid = Some b" "policy = b_policy b" "policy_ok policy"
    "monthly_period now = Inr (s, e)" "db_periods d' = db_periods d @ ps"
    "period_row d' (b_workspace_id b) s = Some usage" "at_period (b_workspace_id b) s usage"
    "ps = [] \<or> (ps = [usage] \<and> zero_period usage \<and> period_row d (b_workspace_id b) s = None)"
    "budget_frame d' = budget_frame d"
    "\<exists>d1. workspace_policy_for (b_workspace_id b) policy now False False d = Inr (d1, wp)
        \<and> db_policies d' = db_policies d1 \<and> db_policy_history d' = db_policy_history d1"
proof -
  obtain d1 where b: "budget_row d bid = Some b" "policy = b_policy b" "policy_ok policy"
    and d1: "workspace_policy_for (b_workspace_id b) policy now False False d = Inr (d1, wp)"
    and p: "period_for (b_workspace_id b) now d1 = Inr (d', usage)"
    using assms by (auto simp: locked_budget_def res_simps policy_ok_def split: prod.splits)
  note fr = workspace_policy_for_frame [OF d1]
  have cl: "budget_frame d' = budget_frame d"
    if "d' = d1\<lparr>db_periods := db_periods d1 @ ps\<rparr>" for ps
    using arg_cong [OF fr, of "\<lambda>x. x\<lparr>db_periods := []\<rparr>"] that by (simp add: budget_frame_def clear_policies_def)
  show ?thesis
  proof (rule period_forE [OF p])
    fix s e ps
    assume *: "monthly_period now = Inr (s, e)" "d' = d1\<lparr>db_periods := db_periods d1 @ ps\<rparr>"
      "period_row d' (b_workspace_id b) s = Some usage" "at_period (b_workspace_id b) s usage"
      "ps = [] \<or> (ps = [usage] \<and> zero_period usage \<and> period_row d1 (b_workspace_id b) s = None)"
    have "db_periods d1 = db_periods d" using clear_policies_periods [OF fr] by simp
    then show ?thesis
      using that [OF b *(1) _ *(3,4)] * cl [OF *(2)] d1 by (simp add: period_row_def)
  qed
qed

section \<open>Ceilings\<close>

lemma remaining_Inr [res_simps]:
  "remaining b policy usage wp x r = Inr n \<longleftrightarrow>
     r \<le> job_max policy x - budget_used b x \<and> r \<le> workspace_max wp x - period_used usage x
     \<and> n = min (job_max policy x - budget_used b x) (workspace_max wp x - period_used usage x)"
  by (auto simp: remaining_def Let_def)

lemma response_limit_bounds:
  assumes "2 \<le> available" "1 \<le> max_response_bytes policy"
  shows "1 \<le> response_limit policy available" "response_limit policy available \<le> max_response_bytes policy"
    "read_allowance (response_limit policy available) \<le> available"
proof -
  have half: "1 \<le> available div 2" "2 * (available div 2) \<le> available" using assms(1) by simp_all
  show "1 \<le> response_limit policy available" "response_limit policy available \<le> max_response_bytes policy"
    using assms half by (auto simp: response_limit_def min_def)
  show "read_allowance (response_limit policy available) \<le> available"
    using assms half by (auto simp: response_limit_def read_allowance_def min_def)
qed

lemma policy_ok_positive:
  assumes "policy_ok p"
  shows "1 \<le> max_response_bytes p" "1 \<le> job_max p x" "1 \<le> workspace_max p x"
    "1 \<le> workspace_max_active_jobs p" "1 \<le> workspace_max_queued_jobs p"
  using assms by (auto simp: policy_ok_def policy_fields_def bigint_ok_def job_max_def workspace_max_def
      split: dimension.split)

interpretation budget_tab: keyed_table b_id .
interpretation reservation_tab: keyed_table rs_id .
interpretation period_tab: keyed_table "\<lambda>p. (p_workspace_id p, p_period_start p)" .

lemma budget_row_lookup: "budget_row d i = budget_tab.lookup i (db_budgets d)"
  by (simp add: budget_row_def budget_tab.lookup_def)

lemma at_period_key: "at_period ws s = (\<lambda>p. (p_workspace_id p, p_period_start p) = (ws, s))"
  by (auto simp: at_period_def fun_eq_iff)

lemma period_row_lookup: "period_row d ws s = period_tab.lookup (ws, s) (db_periods d)"
  unfolding period_row_def at_period_key period_tab.lookup_def ..

lemma reservation_row_lookup: "reservation_row d i = reservation_tab.lookup i (db_reservations d)"
  by (simp add: reservation_row_def reservation_tab.lookup_def)

lemma charge_rows:
  assumes "\<And>b. b_id (fb b) = b_id b"
    "\<And>p. p_workspace_id (fp p) = p_workspace_id p \<and> p_period_start (fp p) = p_period_start p"
  shows "budget_row (charge bid ws s fb fp d) i =
      (if i = bid then map_option fb (budget_row d i) else budget_row d i)"
    "period_row (charge bid ws s fb fp d) w t =
      (if (w, t) = (ws, s) then map_option fp (period_row d w t) else period_row d w t)"
  unfolding budget_row_lookup period_row_lookup charge_def at_period_key
  using budget_tab.lookup_update_key [of fb i bid] period_tab.lookup_update_key [of fp "(w, t)" "(ws, s)"] assms
  by simp_all

lemma charge_fields [simp]:
  "db_reservations (charge bid ws s fb fp d) = db_reservations d"
  "db_next_reservation (charge bid ws s fb fp d) = db_next_reservation d"
  "db_game_items (charge bid ws s fb fp d) = db_game_items d"
  "db_jobs (charge bid ws s fb fp d) = db_jobs d" "db_policies (charge bid ws s fb fp d) = db_policies d"
  "db_budgets (charge bid ws s fb fp d) = update_where (\<lambda>b. b_id b = bid) fb (db_budgets d)"
  "db_periods (charge bid ws s fb fp d) = update_where (at_period ws s) fp (db_periods d)"
  by (simp_all add: charge_def)

text \<open>The shape of a successful reservation.\<close>

lemma charged_fields [simp]:
  "b_id (charged_budget n x) = b_id x" "b_policy (charged_budget n x) = b_policy x"
  "b_workspace_id (charged_budget n x) = b_workspace_id x" "b_games (charged_budget n x) = b_games x"
  "b_remote_bytes (charged_budget n x) = b_remote_bytes x + n"
  "b_remote_requests (charged_budget n x) = b_remote_requests x + 1"
  "b_normalization_units (charged_budget n x) = b_normalization_units x + 1"
  "p_workspace_id (charged_period n p) = p_workspace_id p" "p_period_start (charged_period n p) = p_period_start p"
  "p_period_end (charged_period n p) = p_period_end p" "p_games (charged_period n p) = p_games p"
  "p_remote_bytes (charged_period n p) = p_remote_bytes p + n"
  "p_remote_requests (charged_period n p) = p_remote_requests p + 1"
  "p_normalization_units (charged_period n p) = p_normalization_units p + 1"
  by (simp_all add: charged_budget_def charged_period_def)

lemma reserve_requestE:
  assumes "reserve_request c bid now d = Inr (d', rid, limit)"
  obtains d1 b policy usage wp available rs where
    "locked_budget bid (int_now c now) d = Inr (d1, b, policy, usage, wp)"
    "\<And>x. 1 \<le> job_max policy x - budget_used b x \<and> 1 \<le> workspace_max wp x - period_used usage x"
    "available = min (job_max policy Remote_bytes - budget_used b Remote_bytes)
       (workspace_max wp Remote_bytes - period_used usage Remote_bytes)" "2 \<le> available"
    "limit = response_limit policy available" "rid = db_next_reservation d1"
    "rs = \<lparr>rs_id = rid, rs_budget_id = bid, rs_workspace_id = b_workspace_id b,
       rs_period_start = p_period_start usage, rs_reserved_bytes = read_allowance limit,
       rs_consumed_bytes = None, rs_created_at = int_now c now\<rparr>"
    "d' = (charge bid (b_workspace_id b) (p_period_start usage) (charged_budget (read_allowance limit))
       (charged_period (read_allowance limit)) d1)\<lparr>db_reservations := db_reservations d1 @ [rs],
       db_next_reservation := rid + 1\<rparr>"
proof -
  obtain d1 b policy usage wp where l: "locked_budget bid (int_now c now) d = Inr (d1, b, policy, usage, wp)"
    using assms by (auto simp: reserve_request_def Let_def res_simps)
  have dims: "1 \<le> job_max policy x - budget_used b x \<and> 1 \<le> workspace_max wp x - period_used usage x" for x
    using assms l by (cases x) (auto simp: reserve_request_def Let_def res_simps)
  define available where "available = min (job_max policy Remote_bytes - budget_used b Remote_bytes)
       (workspace_max wp Remote_bytes - period_used usage Remote_bytes)"
  have "2 \<le> available" "limit = response_limit policy available" "rid = db_next_reservation d1"
    "d' = (charge bid (b_workspace_id b) (p_period_start usage) (charged_budget (read_allowance limit))
       (charged_period (read_allowance limit)) d1)\<lparr>db_reservations := db_reservations d1 @
         [\<lparr>rs_id = rid, rs_budget_id = bid, rs_workspace_id = b_workspace_id b,
       rs_period_start = p_period_start usage, rs_reserved_bytes = read_allowance limit,
       rs_consumed_bytes = None, rs_created_at = int_now c now\<rparr>], db_next_reservation := rid + 1\<rparr>"
    using assms l
    by (auto simp: reserve_request_def Let_def res_simps available_def split: if_splits)
  then show ?thesis using that [OF l dims available_def] by simp
qed

lemma reserve_request_rows:
  assumes "reserve_request c bid now d = Inr (d', rid, limit)"
  obtains b usage wp where "budget_row d bid = Some b" "policy_ok (b_policy b)"
    "budget_row d' bid = Some (charged_budget (read_allowance limit) b)"
    "period_row d' (b_workspace_id b) (p_period_start usage) = Some (charged_period (read_allowance limit) usage)"
    "1 \<le> limit" "limit \<le> max_response_bytes (b_policy b)"
    "read_allowance limit \<le> job_max_remote_bytes (b_policy b) - b_remote_bytes b"
    "read_allowance limit \<le> workspace_max_remote_bytes wp - p_remote_bytes usage"
    "\<And>x. 1 \<le> job_max (b_policy b) x - budget_used b x \<and> 1 \<le> workspace_max wp x - period_used usage x"
    "\<exists>d1. locked_budget bid (int_now c now) d = Inr (d1, b, b_policy b, usage, wp)"
  using assms
proof (rule reserve_requestE)
  fix d1 b policy usage wp available rs
  assume l: "locked_budget bid (int_now c now) d = Inr (d1, b, policy, usage, wp)"
    and dims: "\<And>x. 1 \<le> job_max policy x - budget_used b x \<and> 1 \<le> workspace_max wp x - period_used usage x"
    and av: "available = min (job_max policy Remote_bytes - budget_used b Remote_bytes)
       (workspace_max wp Remote_bytes - period_used usage Remote_bytes)" "2 \<le> available"
    and lim: "limit = response_limit policy available"
    and d': "d' = (charge bid (b_workspace_id b) (p_period_start usage) (charged_budget (read_allowance limit))
       (charged_period (read_allowance limit)) d1)\<lparr>db_reservations := db_reservations d1 @ [rs],
       db_next_reservation := rid + 1\<rparr>"
  obtain s where b: "budget_row d bid = Some b" "policy = b_policy b" "policy_ok policy"
    and p: "period_row d1 (b_workspace_id b) s = Some usage" "at_period (b_workspace_id b) s usage"
    and fr: "budget_frame d1 = budget_frame d"
    using l by (rule locked_budgetE)
  note bounds = response_limit_bounds [OF av(2) policy_ok_positive(1) [OF b(3)]]
  have "budget_row d1 bid = Some b" using b(1) budget_frame_fields [OF fr] by (simp add: budget_row_def)
  moreover have "p_period_start usage = s" using p(2) by (simp add: at_period_def)
  ultimately have "budget_row d' bid = Some (charged_budget (read_allowance limit) b)"
    "period_row d' (b_workspace_id b) (p_period_start usage) = Some (charged_period (read_allowance limit) usage)"
    using p(1) charge_rows [of "charged_budget (read_allowance limit)" "charged_period (read_allowance limit)"
        bid "b_workspace_id b" "p_period_start usage" d1]
    by (simp_all add: d' budget_row_def period_row_def)
  moreover have "read_allowance limit \<le> job_max_remote_bytes (b_policy b) - b_remote_bytes b"
    "read_allowance limit \<le> workspace_max_remote_bytes wp - p_remote_bytes usage"
    using bounds(3) av(1) b(2) lim
    by (simp_all add: job_max_def workspace_max_def budget_used_def period_used_def)
  ultimately show thesis
    using that [of b usage wp] b bounds(1,2) lim dims l by auto
qed

section \<open>The ledger\<close>

text \<open>
  What a reservation still charges: its whole allowance until it is settled, then the bytes that
  were read. The ledger is in balance when every counter of a budget or period is the sum over
  its reservations (and, for games, its distinct game items).
\<close>

definition rs_charge :: "reservation \<Rightarrow> int" where
  "rs_charge r = coalesce (rs_consumed_bytes r) (rs_reserved_bytes r)"

definition rs_sum :: "(reservation \<Rightarrow> bool) \<Rightarrow> reservation list \<Rightarrow> int" where
  "rs_sum p rs = sum_list (map rs_charge (filter p rs))"

definition of_budget :: "int \<Rightarrow> reservation \<Rightarrow> bool" where
  "of_budget i r \<longleftrightarrow> rs_budget_id r = i"

definition of_period :: "string \<times> int \<Rightarrow> reservation \<Rightarrow> bool" where
  "of_period k r \<longleftrightarrow> (rs_workspace_id r, rs_period_start r) = k"

definition period_key :: "period \<Rightarrow> string \<times> int" where
  "period_key p = (p_workspace_id p, p_period_start p)"

definition reservation_ok :: "db \<Rightarrow> reservation \<Rightarrow> bool" where
  "reservation_ok d r \<longleftrightarrow> 0 < rs_reserved_bytes r \<and> rs_id r < db_next_reservation d
     \<and> 0 \<le> rs_charge r \<and> rs_charge r \<le> rs_reserved_bytes r
     \<and> (rs_workspace_id r, rs_period_start r) \<in> period_key ` set (db_periods d)"

definition keys_ok :: "db \<Rightarrow> bool" where
  "keys_ok d \<longleftrightarrow> budget_tab.unique_keys (db_budgets d) \<and> period_tab.unique_keys (db_periods d)
     \<and> reservation_tab.unique_keys (db_reservations d) \<and> distinct (db_game_items d)"

definition ledger_ok :: "db \<Rightarrow> bool" where
  "ledger_ok d \<longleftrightarrow> keys_ok d \<and> (\<forall>r \<in> set (db_reservations d). reservation_ok d r)
     \<and> (\<forall>b \<in> set (db_budgets d).
          b_remote_bytes b = rs_sum (of_budget (b_id b)) (db_reservations d)
        \<and> b_remote_requests b = count_where (of_budget (b_id b)) (db_reservations d)
        \<and> b_games b = count_where (\<lambda>g. fst g = b_id b) (db_game_items d))
     \<and> (\<forall>p \<in> set (db_periods d).
          p_remote_bytes p = rs_sum (of_period (period_key p)) (db_reservations d)
        \<and> p_remote_requests p = count_where (of_period (period_key p)) (db_reservations d))"

lemma rs_sum_simps [simp]:
  "rs_sum p [] = 0" "rs_sum p (r # rs) = (if p r then rs_charge r else 0) + rs_sum p rs"
  "rs_sum p (xs @ ys) = rs_sum p xs + rs_sum p ys"
  by (simp_all add: rs_sum_def)

lemma rs_sum_nonneg: "(\<And>r. r \<in> set rs \<Longrightarrow> 0 \<le> rs_charge r) \<Longrightarrow> 0 \<le> rs_sum p rs"
  by (induction rs) auto

lemma ledger_reservation: "ledger_ok d \<Longrightarrow> r \<in> set (db_reservations d) \<Longrightarrow> reservation_ok d r"
  by (simp add: ledger_ok_def)

lemma ledger_nonneg:
  assumes "ledger_ok d"
  shows "b \<in> set (db_budgets d) \<Longrightarrow> 0 \<le> b_remote_bytes b \<and> 0 \<le> b_remote_requests b \<and> 0 \<le> b_games b"
    "p \<in> set (db_periods d) \<Longrightarrow> 0 \<le> p_remote_bytes p \<and> 0 \<le> p_remote_requests p"
proof -
  have "0 \<le> rs_charge r" if "r \<in> set (db_reservations d)" for r
    using assms that by (simp add: ledger_ok_def reservation_ok_def)
  then have "0 \<le> rs_sum q (db_reservations d)" for q by (rule rs_sum_nonneg)
  then show "b \<in> set (db_budgets d) \<Longrightarrow> 0 \<le> b_remote_bytes b \<and> 0 \<le> b_remote_requests b \<and> 0 \<le> b_games b"
    "p \<in> set (db_periods d) \<Longrightarrow> 0 \<le> p_remote_bytes p \<and> 0 \<le> p_remote_requests p"
    using assms by (auto simp: ledger_ok_def)
qed

text \<open>Opening a period with zero counters keeps the balance: no reservation refers to it yet.\<close>

lemma ledger_ok_locked:
  assumes "ledger_ok d" "locked_budget bid now d = Inr (d1, b, policy, usage, wp)"
  shows "ledger_ok d1" "usage \<in> set (db_periods d1)" "b \<in> set (db_budgets d1)" "b_id b = bid"
    "period_key usage = (b_workspace_id b, p_period_start usage)"
proof -
  obtain s ps where b: "budget_row d bid = Some b" and ps: "db_periods d1 = db_periods d @ ps"
    and row: "period_row d1 (b_workspace_id b) s = Some usage" and at: "at_period (b_workspace_id b) s usage"
    and new: "ps = [] \<or> (ps = [usage] \<and> zero_period usage \<and> period_row d (b_workspace_id b) s = None)"
    and fr: "budget_frame d1 = budget_frame d"
    using assms(2) by (rule locked_budgetE)
  note f = budget_frame_fields [OF fr]
  show "usage \<in> set (db_periods d1)" using row unfolding period_row_def by (blast dest: find_row_Some)
  show "b \<in> set (db_budgets d1)" "b_id b = bid" using b f by (auto simp: budget_row_def dest: find_row_Some)
  show key: "period_key usage = (b_workspace_id b, p_period_start usage)"
    using at by (simp add: period_key_def at_period_def)
  show "ledger_ok d1"
  proof (cases "ps = []")
    case True
    then show ?thesis
      using assms(1) ps by (simp add: ledger_ok_def keys_ok_def reservation_ok_def f)
  next
    case False
    then have u: "ps = [usage]" "zero_period usage" and none: "period_row d (b_workspace_id b) s = None"
      using new by auto
    have fresh: "period_key usage \<notin> period_key ` set (db_periods d)"
      using none at by (auto simp: period_row_def find_row_None at_period_def period_key_def)
    then have "\<not> of_period (period_key usage) r" if "r \<in> set (db_reservations d)" for r
      using ledger_reservation [OF assms(1) that] by (auto simp: reservation_ok_def of_period_def)
    then have "rs_sum (of_period (period_key usage)) (db_reservations d) = 0"
      "count_where (of_period (period_key usage)) (db_reservations d) = 0"
      by (simp_all add: rs_sum_def count_where_def filter_False cong: filter_cong)
    moreover have "period_tab.unique_keys (db_periods d @ [usage])"
      using assms(1) fresh
      by (intro period_tab.unique_keys_snoc) (auto simp: ledger_ok_def keys_ok_def period_key_def)
    ultimately show ?thesis
      using assms(1) u ps by (auto simp: ledger_ok_def keys_ok_def reservation_ok_def f zero_period_def)
  qed
qed

lemma reserve_request_ledger:
  assumes ok: "ledger_ok d" and res: "reserve_request c bid now d = Inr (d', rid, limit)"
  shows "ledger_ok d'"
  using res
proof (rule reserve_requestE)
  fix d1 b policy usage wp available rs
  assume l: "locked_budget bid (int_now c now) d = Inr (d1, b, policy, usage, wp)"
    and av: "2 \<le> available" and lim: "limit = response_limit policy available"
    and rid: "rid = db_next_reservation d1"
    and rs: "rs = \<lparr>rs_id = rid, rs_budget_id = bid, rs_workspace_id = b_workspace_id b,
       rs_period_start = p_period_start usage, rs_reserved_bytes = read_allowance limit,
       rs_consumed_bytes = None, rs_created_at = int_now c now\<rparr>"
    and d': "d' = (charge bid (b_workspace_id b) (p_period_start usage) (charged_budget (read_allowance limit))
       (charged_period (read_allowance limit)) d1)\<lparr>db_reservations := db_reservations d1 @ [rs],
       db_next_reservation := rid + 1\<rparr>"
  note L = ledger_ok_locked [OF ok l]
  have "policy_ok policy" using l by (rule locked_budgetE)
  then have pos: "0 < read_allowance limit"
    using response_limit_bounds(1) [OF av, of policy] policy_ok_positive(1) lim by (simp add: read_allowance_def)
  have at: "at_period (b_workspace_id b) (p_period_start usage) p \<longleftrightarrow> period_key p = period_key usage" for p
    using L(5) by (auto simp: at_period_def period_key_def)
  have chg: "rs_charge rs = read_allowance limit" "of_budget i rs \<longleftrightarrow> i = bid" "of_period k rs \<longleftrightarrow> k = period_key usage" for i k
    using L(5) by (auto simp: rs rs_charge_def of_budget_def of_period_def)
  have pk: "period_key (charged_period n p) = period_key p" for n p by (simp add: period_key_def)
  have "rid \<notin> rs_id ` set (db_reservations d1)"
    using L(1) rid by (force simp: ledger_ok_def reservation_ok_def)
  then have "keys_ok d'"
    using L(1) unfolding keys_ok_def d' charge_def
    by (simp add: ledger_ok_def keys_ok_def budget_tab.unique_keys_update period_tab.unique_keys_update
        reservation_tab.unique_keys_snoc rs)
  moreover have "reservation_ok d' r" if r: "r \<in> set (db_reservations d')" for r
  proof -
    have pks: "period_key ` set (db_periods d') = period_key ` set (db_periods d1)"
      unfolding d' set_map [symmetric] by (simp add: map_update_where pk del: set_map)
    consider "r \<in> set (db_reservations d1)" | "r = rs" using r by (auto simp: d')
    then show ?thesis
    proof cases
      case 1
      from ledger_reservation [OF L(1) this] show ?thesis
        unfolding reservation_ok_def pks by (simp add: d' rid)
    next
      case 2
      then show ?thesis unfolding reservation_ok_def pks
        using imageI [OF L(2), of period_key] L(5) pos by (simp add: d' rs rs_charge_def)
    qed
  qed
  ultimately show ?thesis
    using L(1) unfolding ledger_ok_def d'
    by (auto simp: set_update_where at pk chg)
qed

text \<open>Settling: the shape, the balance, and the exact refund.\<close>

lemma refunded_fields [simp]:
  "b_id (refunded_budget n x) = b_id x" "b_remote_bytes (refunded_budget n x) = b_remote_bytes x - n"
  "b_remote_requests (refunded_budget n x) = b_remote_requests x" "b_games (refunded_budget n x) = b_games x"
  "b_policy (refunded_budget n x) = b_policy x"
  "period_key (refunded_period n p) = period_key p" "p_remote_bytes (refunded_period n p) = p_remote_bytes p - n"
  "p_workspace_id (refunded_period n p) = p_workspace_id p" "p_period_start (refunded_period n p) = p_period_start p"
  "p_remote_requests (refunded_period n p) = p_remote_requests p"
  by (simp_all add: refunded_budget_def refunded_period_def period_key_def)

lemma settle_requestE:
  assumes "settle_request rid consumed d = Inr d'"
  obtains row where "reservation_row d rid = Some row" "rs_consumed_bytes row \<noteq> None" "d' = d"
  | row where "reservation_row d rid = Some row" "rs_consumed_bytes row = None"
    "0 \<le> consumed" "consumed \<le> rs_reserved_bytes row"
    "d' = (charge (rs_budget_id row) (rs_workspace_id row) (rs_period_start row)
       (refunded_budget (rs_reserved_bytes row - consumed)) (refunded_period (rs_reserved_bytes row - consumed)) d)
       \<lparr>db_reservations := update_where (\<lambda>r. rs_id r = rid)
          (\<lambda>r. r\<lparr>rs_consumed_bytes := Some consumed\<rparr>) (db_reservations d)\<rparr>"
proof -
  obtain row where row: "reservation_row d rid = Some row"
    using assms by (auto simp: settle_request_def res_simps)
  show ?thesis
  proof (cases "rs_consumed_bytes row")
    case None
    then have "0 \<le> consumed \<and> consumed \<le> rs_reserved_bytes row"
      using assms row by (simp add: settle_request_def split: if_splits)
    then show ?thesis using that(2) [OF row None] assms row None by (simp add: settle_request_def Let_def)
  next
    case (Some n)
    then have "d' = d" using assms row by (simp add: settle_request_def)
    then show ?thesis using that(1) [OF row] Some by simp
  qed
qed

text \<open>Setting the one reservation with id \<open>rid\<close> moves every sum it is part of by the refund.\<close>

lemma rs_sum_settle:
  assumes "reservation_tab.unique_keys rs" "row \<in> set rs" "rs_consumed_bytes row = None"
    "\<And>r c. p (r\<lparr>rs_consumed_bytes := c\<rparr>) = p r"
  shows "rs_sum p (update_where (\<lambda>r. rs_id r = rs_id row) (\<lambda>r. r\<lparr>rs_consumed_bytes := Some n\<rparr>) rs)
    = rs_sum p rs - (if p row then rs_reserved_bytes row - n else 0)"
  using assms(1,2)
proof (induction rs)
  case (Cons a rs)
  have uk: "reservation_tab.unique_keys rs" using Cons.prems(1) by (simp add: reservation_tab.unique_keys_def)
  show ?case
  proof (cases "a = row")
    case True
    then have "update_where (\<lambda>r. rs_id r = rs_id row) (\<lambda>r. r\<lparr>rs_consumed_bytes := Some n\<rparr>) rs = rs"
      using Cons.prems(1) by (intro update_where_unchanged)
        (auto simp: reservation_tab.unique_keys_def image_iff)
    then show ?thesis using True assms(3) by (simp add: rs_charge_def assms(4))
  next
    case False
    then have "row \<in> set rs" "rs_id a \<noteq> rs_id row"
      using Cons.prems by (auto simp: reservation_tab.unique_keys_def image_iff)
    then show ?thesis using Cons.IH [OF uk] by simp
  qed
qed simp

lemma settle_request_ledger:
  assumes ok: "ledger_ok d" and set: "settle_request rid consumed d = Inr d'"
  shows "ledger_ok d'"
  using set
proof (cases rule: settle_requestE)
  case (2 row)
  let ?R = "db_reservations d'"
  have row: "row \<in> set (db_reservations d)" "rs_id row = rid"
    using 2(1) by (auto simp: reservation_row_def dest: find_row_Some)
  have uk: "reservation_tab.unique_keys (db_reservations d)" using ok by (simp add: ledger_ok_def keys_ok_def)
  note sum = rs_sum_settle [OF uk row(1) 2(2), of _ consumed, unfolded row(2)]
  have R: "?R = update_where (\<lambda>r. rs_id r = rid) (\<lambda>r. r\<lparr>rs_consumed_bytes := Some consumed\<rparr>) (db_reservations d)"
    by (simp add: 2(5))
  have sums: "rs_sum (of_budget i) ?R = rs_sum (of_budget i) (db_reservations d)
       - (if i = rs_budget_id row then rs_reserved_bytes row - consumed else 0)"
    "rs_sum (of_period k) ?R = rs_sum (of_period k) (db_reservations d)
       - (if k = (rs_workspace_id row, rs_period_start row) then rs_reserved_bytes row - consumed else 0)" for i k
    unfolding R by (subst sum; auto simp: of_budget_def of_period_def)+
  have counts: "count_where (of_budget i) ?R = count_where (of_budget i) (db_reservations d)"
    "count_where (of_period k) ?R = count_where (of_period k) (db_reservations d)" for i k
    unfolding R by (rule count_where_update_cong; simp add: of_budget_def of_period_def)+
  have at: "at_period (rs_workspace_id row) (rs_period_start row) p
      \<longleftrightarrow> period_key p = (rs_workspace_id row, rs_period_start row)" for p
    by (auto simp: at_period_def period_key_def)
  have pks: "period_key ` set (db_periods d') = period_key ` set (db_periods d)"
    unfolding 2(5) set_map [symmetric] by (simp add: map_update_where del: set_map)
  have "reservation_ok d' r" if r: "r \<in> set ?R" for r
  proof -
    obtain q where q: "q \<in> set (db_reservations d)"
      "r = (if rs_id q = rid then q\<lparr>rs_consumed_bytes := Some consumed\<rparr> else q)"
      using r unfolding R set_update_where by blast
    have "rs_id q = rid \<Longrightarrow> q = row" using reservation_tab.unique_key_eq [OF uk q(1) row(1)] row(2) by simp
    then show ?thesis
      using ledger_reservation [OF ok q(1)] q(2) 2(3,4) unfolding reservation_ok_def pks
      by (auto simp: 2(5) rs_charge_def charge_def)
  qed
  moreover have "keys_ok d'"
    using ok unfolding 2(5) keys_ok_def ledger_ok_def charge_def
    by (simp add: budget_tab.unique_keys_update period_tab.unique_keys_update reservation_tab.unique_keys_update)
  moreover have "db_budgets d' = update_where (\<lambda>b. b_id b = rs_budget_id row) (refunded_budget (rs_reserved_bytes row - consumed)) (db_budgets d)"
    "db_periods d' = update_where (at_period (rs_workspace_id row) (rs_period_start row)) (refunded_period (rs_reserved_bytes row - consumed)) (db_periods d)"
    "db_game_items d' = db_game_items d"
    by (simp_all add: 2(5))
  ultimately show ?thesis
    using ok unfolding ledger_ok_def by (auto simp: set_update_where at sums counts)
qed (use ok in simp)

section \<open>Processing work\<close>

lemma worked_fields [simp]:
  "b_id (worked_budget u g t x) = b_id x" "b_policy (worked_budget u g t x) = b_policy x"
  "b_remote_bytes (worked_budget u g t x) = b_remote_bytes x"
  "b_remote_requests (worked_budget u g t x) = b_remote_requests x"
  "b_games (worked_budget u g t x) = b_games x + g"
  "b_normalization_units (worked_budget u g t x) = b_normalization_units x + u"
  "period_key (worked_period u g p) = period_key p" "p_remote_bytes (worked_period u g p) = p_remote_bytes p"
  "p_workspace_id (worked_period u g p) = p_workspace_id p" "p_period_start (worked_period u g p) = p_period_start p"
  "p_remote_requests (worked_period u g p) = p_remote_requests p"
  "p_games (worked_period u g p) = p_games p + g"
  "p_normalization_units (worked_period u g p) = p_normalization_units p + u"
  by (simp_all add: worked_budget_def worked_period_def period_key_def)

text \<open>
  The shape of a successful processing reservation: \<open>games\<close> is one exactly when the game is new to
  the budget, and each dimension had room for what is charged.
\<close>

lemma reserve_processing_workE:
  assumes "reserve_processing_work c bid game_key units now d = Inr (d', fresh)"
  obtains d1 b policy usage wp items games where
    "locked_budget bid (int_now c now) d = Inr (d1, b, policy, usage, wp)"
    "units \<noteq> 0 \<Longrightarrow> units \<le> job_max policy Normalization_units - budget_used b Normalization_units
       \<and> units \<le> workspace_max wp Normalization_units - period_used usage Normalization_units"
    "games = 1 \<Longrightarrow> 1 \<le> job_max policy Games - budget_used b Games
       \<and> 1 \<le> workspace_max wp Games - period_used usage Games"
    "games = int (length items)" "fresh = (games = 1)"
    "case game_key of None \<Rightarrow> items = []
     | Some g \<Rightarrow> items = (if (bid, g) \<in> set (db_game_items d1) then [] else [(bid, g)])"
    "d' = (if units = 0 \<and> games = 0 then d1
       else charge bid (b_workspace_id b) (p_period_start usage) (worked_budget units games (int_now c now))
          (worked_period units games) (d1\<lparr>db_game_items := db_game_items d1 @ items\<rparr>))"
proof -
  obtain d1 b policy usage wp where l: "locked_budget bid (int_now c now) d = Inr (d1, b, policy, usage, wp)"
    using assms by (auto simp: reserve_processing_work_def Let_def res_simps)
  define items where "items = (case game_key of None \<Rightarrow> []
     | Some g \<Rightarrow> if (bid, g) \<in> set (db_game_items d1) then [] else [(bid, g)])"
  define games where "games = int (length items)"
  have u: "units \<noteq> 0 \<Longrightarrow> units \<le> job_max policy Normalization_units - budget_used b Normalization_units
       \<and> units \<le> workspace_max wp Normalization_units - period_used usage Normalization_units"
    using assms l by (auto simp: reserve_processing_work_def Let_def res_simps)
  have g: "games = 1 \<Longrightarrow> 1 \<le> job_max policy Games - budget_used b Games
       \<and> 1 \<le> workspace_max wp Games - period_used usage Games"
    using assms l by (auto simp: reserve_processing_work_def Let_def res_simps games_def items_def
        split: option.splits if_splits)
  have "fresh = (games = 1) \<and> d' = (if units = 0 \<and> games = 0 then d1
       else charge bid (b_workspace_id b) (p_period_start usage) (worked_budget units games (int_now c now))
          (worked_period units games) (d1\<lparr>db_game_items := db_game_items d1 @ items\<rparr>))"
    using assms l by (auto simp: reserve_processing_work_def Let_def res_simps games_def items_def
        split: option.splits if_splits)
  then show ?thesis using that [OF l u g games_def] by (simp add: items_def split: option.split)
qed

lemma reserve_processing_ledger:
  assumes ok: "ledger_ok d" and res: "reserve_processing_work c bid game_key units now d = Inr (d', fresh)"
  shows "ledger_ok d'"
  using res
proof (rule reserve_processing_workE)
  fix d1 b policy usage wp items games
  assume l: "locked_budget bid (int_now c now) d = Inr (d1, b, policy, usage, wp)"
    and games: "games = int (length items)"
    and items: "case game_key of None \<Rightarrow> items = []
     | Some g \<Rightarrow> items = (if (bid, g) \<in> set (db_game_items d1) then [] else [(bid, g)])"
    and d': "d' = (if units = 0 \<and> games = 0 then d1
       else charge bid (b_workspace_id b) (p_period_start usage) (worked_budget units games (int_now c now))
          (worked_period units games) (d1\<lparr>db_game_items := db_game_items d1 @ items\<rparr>))"
  note L = ledger_ok_locked [OF ok l]
  have dist: "distinct (db_game_items d1 @ items)" and own: "\<And>g. g \<in> set items \<Longrightarrow> fst g = bid"
    using L(1) items by (auto simp: ledger_ok_def keys_ok_def split: option.splits if_splits)
  have cnt: "count_where (\<lambda>g. fst g = i) items = (if i = bid then games else 0)" for i
    using own by (simp add: count_where_def games filter_False filter_True cong: filter_cong) 
  show ?thesis
  proof (cases "units = 0 \<and> games = 0")
    case False
    have pks: "period_key ` set (db_periods d') = period_key ` set (db_periods d1)"
      using False unfolding set_map [symmetric] by (simp add: d' map_update_where del: set_map)
    have "keys_ok d'"
      using L(1) False dist unfolding keys_ok_def d' charge_def
      by (simp add: ledger_ok_def keys_ok_def budget_tab.unique_keys_update period_tab.unique_keys_update)
    moreover have "reservation_ok d' r" if "r \<in> set (db_reservations d')" for r
    proof -
      have "r \<in> set (db_reservations d1)" using that False by (simp add: d')
      from ledger_reservation [OF L(1) this] show ?thesis
        unfolding reservation_ok_def pks using False by (simp add: d' charge_def)
    qed
    ultimately show ?thesis
      using L(1) False unfolding ledger_ok_def by (auto simp: d' set_update_where cnt)
  qed (use L(1) d' in simp)
qed

section \<open>Versioned workspace policies\<close>

text \<open>
  The history of a workspace's policy holds every version from 1 to the current one exactly once,
  and the entry of the current version is the current policy.
\<close>

definition history_ok :: "db \<Rightarrow> bool" where
  "history_ok d \<longleftrightarrow> distinct (map wp_workspace_id (db_policies d))
     \<and> (\<forall>w \<in> set (db_policies d). 1 \<le> wp_version w \<and> history_of w \<in> set (db_policy_history d)
          \<and> (\<forall>v. count_where (at_version (wp_workspace_id w) v) (db_policy_history d)
                = (if 1 \<le> v \<and> v \<le> wp_version w then 1 else 0)))
     \<and> (\<forall>h \<in> set (db_policy_history d). \<exists>w \<in> set (db_policies d). wp_workspace_id w = ph_workspace_id h)"

definition current_version :: "db \<Rightarrow> string \<Rightarrow> int" where
  "current_version d ws = (case policy_row d ws of None \<Rightarrow> 0 | Some w \<Rightarrow> wp_version w)"

interpretation policy_tab: keyed_table wp_workspace_id .

lemma policy_row_lookup: "policy_row d ws = policy_tab.lookup ws (db_policies d)"
  by (simp add: policy_row_def policy_tab.lookup_def)

definition revised :: "budget_policy \<Rightarrow> int \<Rightarrow> bool \<Rightarrow> workspace_policy \<Rightarrow> workspace_policy" where
  "revised p now m w = w\<lparr>wp_policy := p, wp_updated_at := now, wp_managed := m, wp_version := wp_version w + 1\<rparr>"

lemma revised_fields [simp]:
  "wp_workspace_id (revised p now m w) = wp_workspace_id w" "wp_version (revised p now m w) = wp_version w + 1"
  "wp_policy (revised p now m w) = p" "wp_managed (revised p now m w) = m"
  by (simp_all add: revised_def)

lemma at_version_history_of [simp]:
  "at_version ws v (history_of w) \<longleftrightarrow> wp_workspace_id w = ws \<and> wp_version w = v"
  by (auto simp: at_version_def history_of_def)

lemma has_history_count: "has_history d ws v \<longleftrightarrow> count_where (at_version ws v) (db_policy_history d) \<noteq> 0"
  by (auto simp: has_history_def count_where_zero)

lemma replace_workspace_policy_eq:
  assumes ok: "history_ok d" and w: "policy_row d ws = Some w"
  shows "replace_workspace_policy ws p now m d =
    Inr (d\<lparr>db_policies := update_where (\<lambda>w. wp_workspace_id w = ws) (revised p now m) (db_policies d),
           db_policy_history := db_policy_history d @ [history_of (revised p now m w)]\<rparr>, wp_version w + 1)"
proof -
  have mem: "w \<in> set (db_policies d)" "wp_workspace_id w = ws"
    using w by (auto simp: policy_row_def dest: find_row_Some)
  let ?d1 = "d\<lparr>db_policies := update_where (\<lambda>w. wp_workspace_id w = ws) (revised p now m) (db_policies d)\<rparr>"
  have row: "policy_row ?d1 ws = Some (revised p now m w)"
    using policy_tab.lookup_update_key [of "revised p now m" ws ws] w by (simp add: policy_row_lookup)
  have "\<not> has_history ?d1 ws (wp_version w + 1)"
    using ok mem by (auto simp: has_history_count history_ok_def)
  then show ?thesis
    using row mem(2) unfolding replace_workspace_policy_def revised_def
    by (simp add: history_of_def)
qed

lemma history_ok_revise:
  assumes ok: "history_ok d" and w: "policy_row d ws = Some w"
  shows "history_ok (d\<lparr>db_policies := update_where (\<lambda>w. wp_workspace_id w = ws) (revised p now m) (db_policies d),
           db_policy_history := db_policy_history d @ [history_of (revised p now m w)]\<rparr>)"
proof -
  have mem: "w \<in> set (db_policies d)" "wp_workspace_id w = ws"
    using w by (auto simp: policy_row_def dest: find_row_Some)
  have uk: "policy_tab.unique_keys (db_policies d)" using ok by (simp add: history_ok_def policy_tab.unique_keys_def)
  have only: "x = w" if "x \<in> set (db_policies d)" "wp_workspace_id x = ws" for x
    using policy_tab.unique_key_eq [OF uk that(1) mem(1)] that(2) mem(2) by simp
  have ver: "1 \<le> wp_version w" using ok mem by (simp add: history_ok_def)
  let ?P = "update_where (\<lambda>w. wp_workspace_id w = ws) (revised p now m) (db_policies d)"
  let ?H = "db_policy_history d @ [history_of (revised p now m w)]"
  have "distinct (map wp_workspace_id ?P)"
    using policy_tab.unique_keys_update [OF uk, of "revised p now m"] by (simp add: policy_tab.unique_keys_def)
  moreover have "1 \<le> wp_version x \<and> history_of x \<in> set ?H
      \<and> (\<forall>v. count_where (at_version (wp_workspace_id x) v) ?H = (if 1 \<le> v \<and> v \<le> wp_version x then 1 else 0))"
    if x: "x \<in> set ?P" for x
  proof -
    obtain y where y: "y \<in> set (db_policies d)" "x = (if wp_workspace_id y = ws then revised p now m y else y)"
      using x unfolding set_update_where by blast
    show ?thesis
    proof (cases "wp_workspace_id y = ws")
      case True
      then have "x = revised p now m w" using only y by simp
      then show ?thesis using ok mem ver by (auto simp: history_ok_def)
    next
      case False
      then show ?thesis using y ok mem by (auto simp: history_ok_def)
    qed
  qed
  moreover have "\<exists>x \<in> set ?P. wp_workspace_id x = ph_workspace_id h" if "h \<in> set ?H" for h
  proof -
    have "ph_workspace_id h \<in> wp_workspace_id ` set (db_policies d)"
      using that ok mem by (auto simp: history_ok_def history_of_def image_iff Bex_def eq_commute) 
    also have "\<dots> = wp_workspace_id ` set ?P"
      unfolding set_map [symmetric] by (simp add: map_update_where del: set_map)
    finally show ?thesis by auto
  qed
  ultimately show ?thesis by (simp add: history_ok_def)
qed

lemma stored_policy_spec:
  assumes ok: "history_ok d"
  shows "\<exists>d' row. stored_policy ws p now m d = Inr (d', row) \<and> history_ok d' \<and> policy_row d' ws = Some row
    \<and> (case policy_row d ws of Some w \<Rightarrow> row = w \<and> d' = d
        | None \<Rightarrow> wp_policy row = p \<and> wp_managed row = m \<and> wp_version row = 1)"
proof (cases "policy_row d ws")
  case (Some w)
  then have "w \<in> set (db_policies d)" "wp_workspace_id w = ws"
    by (auto simp: policy_row_def dest: find_row_Some)
  then have "has_history d ws (wp_version w)" using ok by (auto simp: has_history_count history_ok_def)
  then show ?thesis using Some ok by (simp add: stored_policy_def)
next
  case None
  let ?w = "\<lparr>wp_workspace_id = ws, wp_policy = p, wp_updated_at = now, wp_managed = m, wp_version = 1\<rparr>"
  let ?d1 = "d\<lparr>db_policies := db_policies d @ [?w]\<rparr>"
  let ?d2 = "?d1\<lparr>db_policy_history := db_policy_history d @ [history_of ?w]\<rparr>"
  have absent: "\<forall>x \<in> set (db_policies d). wp_workspace_id x \<noteq> ws"
    using None by (simp add: policy_row_def find_row_None)
  then have no: "\<not> at_version ws v h" if "h \<in> set (db_policy_history d)" for h v
    using ok that by (fastforce simp: history_ok_def at_version_def)
  then have zero: "count_where (at_version ws v) (db_policy_history d) = 0" for v
    by (simp add: count_where_zero)
  have row: "policy_row ?d1 ws = Some ?w"
    using None by (simp add: policy_row_def find_row_append)
  have "history_ok ?d2"
    using ok absent zero unfolding history_ok_def by (auto simp: history_of_def [of ?w])
      (auto simp: at_version_def)
  moreover have "stored_policy ws p now m d = Inr (?d2, ?w)"
    using None row zero [of 1] by (simp add: stored_policy_def Let_def has_history_count)
  ultimately show ?thesis using row None by (auto simp: policy_row_def)
qed

lemma set_workspace_policy_spec:
  assumes ok: "history_ok d" and set: "set_workspace_policy c ws policy expected now d = Inr (d', version)"
  shows "current_version d ws = expected" "version = expected + 1" "history_ok d'"
    "\<exists>w. policy_row d' ws = Some w \<and> wp_policy w = policy \<and> wp_managed w \<and> wp_version w = version"
proof -
  have "current_version d ws = expected \<and> version = expected + 1 \<and> history_ok d'
    \<and> (\<exists>w. policy_row d' ws = Some w \<and> wp_policy w = policy \<and> wp_managed w \<and> wp_version w = version)"
  proof (cases "policy_row d ws")
    case None
    then have e: "expected = 0" "version = 1"
      and w: "\<exists>q. workspace_policy_for ws policy (int_now c now) False True d = Inr (d', q)"
      using set by (auto simp: set_workspace_policy_def res_simps split: if_splits)
    then show ?thesis
      using stored_policy_spec [OF ok, of ws policy "int_now c now" True] None
      by (auto simp: workspace_policy_for_def res_simps current_version_def)
  next
    case (Some w)
    then have e: "wp_version w = expected" "replace_workspace_policy ws policy (int_now c now) True d = Inr (d', version)"
      using set by (auto simp: set_workspace_policy_def res_simps split: if_splits)
    have d': "d' = d\<lparr>db_policies := update_where (\<lambda>w. wp_workspace_id w = ws)
          (revised policy (int_now c now) True) (db_policies d),
        db_policy_history := db_policy_history d @ [history_of (revised policy (int_now c now) True w)]\<rparr>"
      and v: "version = wp_version w + 1"
      using e(2) unfolding replace_workspace_policy_eq [OF ok Some] by auto
    have "policy_row d' ws = Some (revised policy (int_now c now) True w)"
      using policy_tab.lookup_update_key [of "revised policy (int_now c now) True" ws ws] Some
      by (simp add: policy_row_lookup d')
    then show ?thesis
      using e(1) v history_ok_revise [OF ok Some, of policy "int_now c now" True] Some
      by (simp add: d' current_version_def)
  qed
  then show "current_version d ws = expected" "version = expected + 1" "history_ok d'"
    "\<exists>w. policy_row d' ws = Some w \<and> wp_policy w = policy \<and> wp_managed w \<and> wp_version w = version"
    by auto
qed

section \<open>Resuming an exhausted budget\<close>

lemma resume_run_budget_row:
  assumes "resume_run_budget c run_id ws policy d = Inr d'" "ledger_ok d"
  obtains row where "b_crawl_run_id row = Some run_id" "b_workspace_id row = ws" "budget_row d (b_id row) = Some row"
    "budget_row d' (b_id row) = Some (row\<lparr>b_policy := extend_policy (b_policy row) policy,
       b_exhausted_dimension := None, b_exhausted_at := None\<rparr>)"
    "\<exists>d3. db_jobs d3 = db_jobs d \<and> update_jobs c (budget_blocked (b_id row))
       (\<lambda>j. j\<lparr>j_state := Pending, j_reason := None, j_next_attempt_at := None\<rparr>) d3 = Inr d'"
proof -
  obtain row d2 wp d3 where row: "find_row (\<lambda>b. b_crawl_run_id b = Some run_id \<and> b_workspace_id b = ws) (db_budgets d) = Some row"
    and d2: "workspace_policy_for ws (b_policy row) (int_now c None) False False
       (d\<lparr>db_budgets := update_where (\<lambda>b. b_id b = b_id row)
          (\<lambda>b. b\<lparr>b_policy := extend_policy (b_policy row) policy, b_exhausted_dimension := None,
             b_exhausted_at := None\<rparr>) (db_budgets d)\<rparr>) = Inr (d2, wp)"
    and d3: "extend_workspace_policy c ws wp policy d2 = Inr d3"
    and up: "update_jobs c (budget_blocked (b_id row))
       (\<lambda>j. j\<lparr>j_state := Pending, j_reason := None, j_next_attempt_at := None\<rparr>) d3 = Inr d'"
    using assms(1) by (auto simp: resume_run_budget_def Let_def res_simps split: option.splits)
  have fr: "clear_policies d3 = clear_policies d2"
    using d3 by (auto simp: extend_workspace_policy_def Let_def res_simps split: if_splits
        dest: replace_workspace_policy_frame)
  have bf: "budget_frame d3 = budget_frame (d\<lparr>db_budgets := update_where (\<lambda>b. b_id b = b_id row)
          (\<lambda>b. b\<lparr>b_policy := extend_policy (b_policy row) policy, b_exhausted_dimension := None,
             b_exhausted_at := None\<rparr>) (db_budgets d)\<rparr>)"
    using fr workspace_policy_for_frame [OF d2] by (simp add: budget_frame_def)
  have mem: "row \<in> set (db_budgets d)" "b_crawl_run_id row = Some run_id" "b_workspace_id row = ws"
    using find_row_Some [OF row] by auto
  have uk: "budget_tab.unique_keys (db_budgets d)" using assms(2) by (simp add: ledger_ok_def keys_ok_def)
  have b: "budget_row d (b_id row) = Some row"
    unfolding budget_row_lookup by (rule budget_tab.lookup_unique [OF uk mem(1)])
  have "db_budgets d' = db_budgets d3" using outbox_only_fields [OF update_jobs_frame [OF up]] by simp
  then have "budget_row d' (b_id row) = Some (row\<lparr>b_policy := extend_policy (b_policy row) policy,
       b_exhausted_dimension := None, b_exhausted_at := None\<rparr>)"
    using budget_frame_fields(8) [OF bf] b
      budget_tab.lookup_update_key [of "\<lambda>b. b\<lparr>b_policy := extend_policy (b_policy row) policy,
         b_exhausted_dimension := None, b_exhausted_at := None\<rparr>" "b_id row" "b_id row" "db_budgets d"]
    by (simp add: budget_row_lookup)
  then show ?thesis using that [of row] mem b up budget_frame_fields(2) [OF bf] by auto
qed

lemma extend_policy_ge:
  "job_max p x \<le> job_max (extend_policy p q) x" "workspace_max p x \<le> workspace_max (extend_policy p q) x"
  "job_max q x \<le> job_max (extend_policy p q) x" "max_response_bytes p \<le> max_response_bytes (extend_policy p q)"
  by (simp_all add: extend_policy_def combine_workspace_def job_max_def workspace_max_def split: dimension.split)

end
