(* ===== verification/Job_Laws.thy ===== *)
theory Job_Laws
  imports Jobs Budget_Laws
begin

text \<open>
  The laws of durable jobs: deduplicated and idempotent submission, the identity a deduplication
  key stands for, bounded retries with back-off, recovery that never takes a held job, run status
  derivation, and monotone provider cooldowns.
\<close>

section \<open>Submission\<close>

lemma first_by_id_None: "first_by_id p js = None \<longleftrightarrow> (\<forall>j \<in> set js. \<not> p j)"
proof -
  have "sort_key j_id (filter p js) = [] \<longleftrightarrow> filter p js = []"
    by (metis length_0_conv length_sort)
  then show ?thesis by (auto simp: first_by_id_def filter_empty_conv split: list.splits)
qed

lemma first_by_id_Some:
  assumes "first_by_id p js = Some j"
  shows "j \<in> set js" "p j" "k \<in> set js \<Longrightarrow> p k \<Longrightarrow> j_id j \<le> j_id k"
proof -
  obtain ks where ks: "sort_key j_id (filter p js) = j # ks"
    using assms by (auto simp: first_by_id_def split: list.splits)
  have set: "set (j # ks) = set (filter p js)" using ks by (metis set_sort)
  then have "j \<in> set (filter p js)" by auto
  then show "j \<in> set js" "p j" by auto
  have "sorted (map j_id (j # ks))" using ks by (metis sorted_sort_key)
  then show "k \<in> set js \<Longrightarrow> p k \<Longrightarrow> j_id j \<le> j_id k" using set by auto
qed

definition live_dedup_ok :: "db \<Rightarrow> bool" where
  "live_dedup_ok d \<longleftrightarrow> distinct (map j_dedup_key (filter (\<lambda>j. live_state (j_state j)) (db_jobs d)))"

lemma require_backlog_room_frame:
  assumes "require_backlog_room c b d = Inr d'"
  shows "budget_frame d' = budget_frame d"
proof -
  obtain bu policy usage wp where "locked_budget b (int_now c None) d = Inr (d', bu, policy, usage, wp)"
    using assms by (auto simp: require_backlog_room_def res_simps split: prod.splits if_splits)
  then show ?thesis by (rule locked_budgetE)
qed

lemma enqueue_jobE:
  assumes "enqueue_job sha c q d = Inr (d', i, inserted)"
  obtains (reused) j where "first_by_id (same_work (spec_dedup sha q) (q_reuse_terminal q)) (db_jobs d) = Some j"
      "i = j_id j" "d' = d" "\<not> inserted"
  | (fresh) d1 where "first_by_id (same_work (spec_dedup sha q) (q_reuse_terminal q)) (db_jobs d) = None"
      "budget_frame d1 = budget_frame d" inserted
      "insert_job c (pending_row q (spec_dedup sha q) (int_now c (q_now q))) d1 = Inr (d', i)"
proof (cases "first_by_id (same_work (spec_dedup sha q) (q_reuse_terminal q)) (db_jobs d)")
  case (Some j)
  then have "i = j_id j" "d' = d" "\<not> inserted"
    using assms by (auto simp: enqueue_job_def rbind_eq_Inr Let_def)
  then show ?thesis using Some reused by blast
next
  case None
  then obtain d1 where room: "(case inherited_budget c d q of None \<Rightarrow> Inr d
        | Some b \<Rightarrow> require_backlog_room c b d) = Inr d1"
      and ins: inserted "insert_job c (pending_row q (spec_dedup sha q) (int_now c (q_now q))) d1 = Inr (d', i)"
    using assms by (auto simp: enqueue_job_def rbind_eq_Inr Let_def)
  have "budget_frame d1 = budget_frame d"
    using room require_backlog_room_frame by (cases "inherited_budget c d q") auto
  then show ?thesis using None fresh ins by blast
qed

lemma enqueue_row:
  assumes "enqueue_job sha c q d = Inr (d', i, True)"
  obtains j w b where "j = (pending_row q (spec_dedup sha q) (int_now c (q_now q)))\<lparr>j_id := i,
      j_revision := 1, j_workspace_id := w, j_work_budget_id := b\<rparr>"
    "i = db_next_job d" "db_jobs d' = db_jobs d @ [j]" "db_next_job d' = db_next_job d + 1"
    "\<forall>k \<in> set (db_jobs d). \<not> same_work (spec_dedup sha q) (q_reuse_terminal q) k"
  using assms
proof (cases rule: enqueue_jobE)
  case (fresh d1)
  note f = budget_frame_fields [OF fresh(2)]
  show ?thesis
    using fresh(4)
  proof (rule insert_job_row)
    fix j w b
    assume "j = (pending_row q (spec_dedup sha q) (int_now c (q_now q)))\<lparr>j_id := i,
      j_revision := 1, j_workspace_id := w, j_work_budget_id := b\<rparr>"
      "i = db_next_job d1" "db_jobs d' = db_jobs d1 @ [j]" "db_next_job d' = db_next_job d1 + 1"
    then show ?thesis using that [where j = j and w = w and b = b] fresh(1) f by (simp add: first_by_id_None)
  qed
qed simp

lemma enqueue_live_dedup:
  assumes ok: "live_dedup_ok d" and enq: "enqueue_job sha c q d = Inr (d', i, inserted)"
  shows "live_dedup_ok d'"
proof (cases inserted)
  case True
  with enq have "enqueue_job sha c q d = Inr (d', i, True)" by simp
  then show ?thesis
  proof (rule enqueue_row)
    fix j w b
    assume j: "j = (pending_row q (spec_dedup sha q) (int_now c (q_now q)))\<lparr>j_id := i,
        j_revision := 1, j_workspace_id := w, j_work_budget_id := b\<rparr>"
      and rows: "db_jobs d' = db_jobs d @ [j]"
      and none: "\<forall>k \<in> set (db_jobs d). \<not> same_work (spec_dedup sha q) (q_reuse_terminal q) k"
    have "j_dedup_key j = spec_dedup sha q" "live_state (j_state j)"
      by (simp_all add: j pending_row_def live_state_def)
    then show ?thesis using ok none by (auto simp: live_dedup_ok_def rows same_work_def)
  qed
next
  case False
  with enq show ?thesis using ok by (cases rule: enqueue_jobE) simp_all
qed

text \<open>The same submission again finds the row it inserted and changes nothing.\<close>

lemma enqueue_again:
  assumes enq: "enqueue_job sha c q d = Inr (d', i, inserted)"
  shows "enqueue_job sha c q d' = Inr (d', i, False)"
proof -
  have val: "validate_schedulable_job (q_provider q) (q_kind q) = Inr ()"
    using enq by (auto simp: enqueue_job_def res_simps)
  have "\<exists>j. first_by_id (same_work (spec_dedup sha q) (q_reuse_terminal q)) (db_jobs d') = Some j \<and> j_id j = i"
  proof (cases inserted)
    case True
    with enq have "enqueue_job sha c q d = Inr (d', i, True)" by simp
    then show ?thesis
    proof (rule enqueue_row)
      fix j w b
      assume j: "j = (pending_row q (spec_dedup sha q) (int_now c (q_now q)))\<lparr>j_id := i,
          j_revision := 1, j_workspace_id := w, j_work_budget_id := b\<rparr>"
        and rows: "db_jobs d' = db_jobs d @ [j]"
        and none: "\<forall>k \<in> set (db_jobs d). \<not> same_work (spec_dedup sha q) (q_reuse_terminal q) k"
      have "same_work (spec_dedup sha q) (q_reuse_terminal q) j" "j_id j = i"
        by (simp_all add: j pending_row_def live_state_def same_work_def)
      then have "filter (same_work (spec_dedup sha q) (q_reuse_terminal q)) (db_jobs d') = [j]"
        using none by (simp add: rows filter_empty_conv)
      then show ?thesis using \<open>j_id j = i\<close> by (simp add: first_by_id_def)
    qed
  next
    case False
    with enq show ?thesis by (cases rule: enqueue_jobE) auto
  qed
  then show ?thesis using val by (auto simp: enqueue_job_def)
qed

section \<open>What a deduplication key identifies\<close>

lemma map_of_sort_key:
  assumes "distinct (map fst xs)"
  shows "map_of (sort_key f xs) k = map_of xs k"
proof -
  have "distinct (map fst (sort_key f xs))"
    using assms by (metis distinct_map distinct_sort set_sort)
  then show ?thesis
    using assms by (metis map_of_SomeD map_of_is_SomeI not_Some_eq set_sort)
qed

lemma sort_keys_obj_get:
  assumes "sort_keys (JObj xs) = sort_keys (JObj ys)" "distinct (map fst xs)" "distinct (map fst ys)"
  shows "map_of (sort_keys_items xs) k = map_of (sort_keys_items ys) k"
proof -
  have "sort_key fst (sort_keys_items xs) = sort_key fst (sort_keys_items ys)" using assms(1) by simp
  then show ?thesis
    using map_of_sort_key [of "sort_keys_items xs" fst k] map_of_sort_key [of "sort_keys_items ys" fst k] assms(2,3)
    by (simp add: sort_keys_items_keys)
qed

lemma opt_str_inj [simp]: "sort_keys (opt_str x) = sort_keys (opt_str y) \<longleftrightarrow> x = y"
  by (auto simp: opt_str_def split: option.splits)

lemma opt_int_inj [simp]: "sort_keys (opt_int x) = sort_keys (opt_int y) \<longleftrightarrow> x = y"
  by (auto simp: opt_int_def split: option.splits)

lemma dedup_key_identity:
  assumes inj: "inj sha" and wf: "wf_json (params_or_empty ps)" "wf_json (params_or_empty ps')"
    and eq: "make_dedup_key sha p k t ps r = make_dedup_key sha p' k' t' ps' r'"
  shows "p = p'" "k = k'" "normalize_target k t = normalize_target k' t'"
    "canonical_params ps = canonical_params ps'" "r = r'"
proof -
  let ?xs = "[(''provider'', opt_str p), (''kind'', JStr k), (''target'', JStr (normalize_target k t)),
    (''params'', params_or_empty ps), (''crawl_run_id'', opt_int r)]"
  let ?ys = "[(''provider'', opt_str p'), (''kind'', JStr k'), (''target'', JStr (normalize_target k' t')),
    (''params'', params_or_empty ps'), (''crawl_run_id'', opt_int r')]"
  have w: "wf_json (opt_str x)" "wf_json (opt_int y)" for x y
    by (auto simp: opt_str_def opt_int_def split: option.splits)
  have "dumps True (JObj ?xs) = dumps True (JObj ?ys)"
    using eq injD [OF inj] by (auto simp: make_dedup_key_def dedup_payload_def)
  then have s: "sort_keys (JObj ?xs) = sort_keys (JObj ?ys)"
    using dumps_inj [of "JObj ?xs" "JObj ?ys"] wf w by simp
  note get = sort_keys_obj_get [OF s]
  show "p = p'" using get [of "''provider''"] by simp
  show "k = k'" using get [of "''kind''"] by simp
  show "normalize_target k t = normalize_target k' t'" using get [of "''target''"] by simp
  show "canonical_params ps = canonical_params ps'" using get [of "''params''"] by (simp add: canonical_params_def)
  show "r = r'" using get [of "''crawl_run_id''"] by simp
qed

lemma normalize_target_idem: "normalize_target k (normalize_target k t) = normalize_target k t"
  by (simp add: normalize_target_def strip_lower)

section \<open>The end of an attempt\<close>

lemma update_runs_jobs [simp]: "db_jobs (update_runs c p f d) = db_jobs d"
  using outbox_only_fields(2) [OF update_runs_frame] by simp

lemma refresh_run_status_jobs [simp]: "db_jobs (refresh_run_status c r d) = db_jobs d"
  by (simp add: refresh_run_status_def update_crawl_run_def Let_def split: option.split)

definition promoted :: "int \<Rightarrow> job \<Rightarrow> job" where
  "promoted depth j = j\<lparr>j_depth := min (j_depth j) depth, j_priority := min (j_priority j) (10 + depth)\<rparr>"

lemma settle_depthE:
  assumes "settle_depth row d = Inr d'"
  obtains "d' = d" | depth where "d' = touch_jobs (\<lambda>j. j_id j = j_id row) (promoted depth) d"
proof -
  have p: "promoted depth = (\<lambda>j. j\<lparr>j_depth := min (j_depth j) depth, j_priority := min (j_priority j) (10 + depth)\<rparr>)" for depth
    by (auto simp: promoted_def)
  have "d' = d \<or> (\<exists>depth. d' = touch_jobs (\<lambda>j. j_id j = j_id row) (promoted depth) d)"
    using assms unfolding p
    by (auto simp: settle_depth_def rbind_eq_Inr split: option.splits if_splits)
  then show ?thesis using that by blast
qed

text \<open>The columns an attempt's end decides; promotion and the run's refresh leave them alone.\<close>

definition verdict :: "job \<Rightarrow> job_state \<times> int \<times> rat option \<times> string option \<times> int option" where
  "verdict j = (j_state j, j_retry_count j, j_next_attempt_at j, j_reason j, j_done_at j)"

lemma settle_depth_verdict:
  assumes "settle_depth row d = Inr d'"
  shows "map_option verdict (get_row d' i) = map_option verdict (get_row d i)"
  using assms
proof (cases rule: settle_depthE)
  case (2 depth)
  have "get_row d' i = map_option (\<lambda>j. if j_id j = j_id row then promoted depth j else j) (get_row d i)"
    unfolding get_row_lookup 2 touch_jobs_def
    using job_tab.lookup_update [of "promoted depth" i "\<lambda>j. j_id j = j_id row" "db_jobs d"]
    by (simp add: promoted_def)
  then show ?thesis by (cases "get_row d i") (auto simp: verdict_def promoted_def)
qed simp

lemma get_row_cong: "db_jobs d' = db_jobs d \<Longrightarrow> get_row d' i = get_row d i"
  by (simp add: get_row_def)

lemma mark_job_row:
  assumes "mark_job c i s reason now d = Inr d'" "get_row d i = Some j"
  shows "get_row d' i = Some (set_job_revision j (marked s reason (int_now c now) j))"
proof -
  have "j_id j = i" using assms(2) by (auto simp: get_row_def dest: find_row_Some)
  then show ?thesis
    using assms update_jobs_get_row [OF assms(1) [unfolded mark_job_def], of i] by (simp add: marked_def)
qed

lemma defer_provider_jobs [simp]: "db_jobs (defer_provider c p nb r now d) = db_jobs d"
  by (simp add: defer_provider_def Let_def)

lemma finish_attempt_verdict:
  assumes fin: "finish_attempt c i outcome reason transient retry_after minimum_delay settings now d = Inr (d', s)"
    and row: "get_row d i = Some j"
  defines "policy \<equiv> coalesce settings default_worker_settings" and "t \<equiv> float_now c now"
  defines "delay \<equiv> retry_delay_s policy (j_retry_count j) minimum_delay retry_after"
  shows "map_option verdict (get_row d' i) = Some
    (if transient \<and> j_retry_count j < job_max_retries policy
     then (Blocked, j_retry_count j + 1, Some (t + delay), Some reason, None)
     else if transient
     then (Error, j_retry_count j, None, Some (''Retry limit reached: '' @ reason), Some (trunc_rat t))
     else (outcome, j_retry_count j, None, Some reason,
           if terminal_state outcome then Some (trunc_rat t) else None))"
    "s = (if transient then if j_retry_count j < job_max_retries policy then Blocked else Error else outcome)"
proof -
  have ji: "j_id j = i" using row by (auto simp: get_row_def dest: find_row_Some)
  obtain d2 d3 where core: "conclude_attempt c j outcome reason transient delay policy t d = Inr (d2, s)"
    and d3: "settle_depth j d2 = Inr d3" and d': "db_jobs d' = db_jobs d3"
    using fin row unfolding finish_attempt_def Let_def policy_def t_def delay_def
    by (auto simp: rbind_eq_Inr split: option.splits)
  define d1 where "d1 = provider_backoff c j (t + delay) reason t d"
  have r1: "get_row d1 i = Some j"
    using row by (auto simp: d1_def provider_backoff_def get_row_def split: option.split)
  have bu: "get_row d2 i = Some (set_job_revision j (blocked_until reason (t + delay) j))"
    if "update_jobs c (\<lambda>j. j_id j = i) (blocked_until reason (t + delay)) d1 = Inr d2"
    using update_jobs_get_row [OF that, of i] r1 ji by (simp add: blocked_until_def)
  have "map_option verdict (get_row d' i) = map_option verdict (get_row d2 i)"
    using settle_depth_verdict [OF d3, of i] get_row_cong [OF d'] by simp
  also have "\<dots> = Some
    (if transient \<and> j_retry_count j < job_max_retries policy
     then (Blocked, j_retry_count j + 1, Some (t + delay), Some reason, None)
     else if transient
     then (Error, j_retry_count j, None, Some (''Retry limit reached: '' @ reason), Some (trunc_rat t))
     else (outcome, j_retry_count j, None, Some reason,
           if terminal_state outcome then Some (trunc_rat t) else None))"
    using core bu mark_job_row [OF _ r1] mark_job_row [OF _ row]
    unfolding conclude_attempt_def Let_def ji d1_def [symmetric]
    by (auto simp: rbind_eq_Inr verdict_def blocked_until_def marked_def int_now_def terminal_state_def split: if_splits)
  finally show "map_option verdict (get_row d' i) = Some
    (if transient \<and> j_retry_count j < job_max_retries policy
     then (Blocked, j_retry_count j + 1, Some (t + delay), Some reason, None)
     else if transient
     then (Error, j_retry_count j, None, Some (''Retry limit reached: '' @ reason), Some (trunc_rat t))
     else (outcome, j_retry_count j, None, Some reason,
           if terminal_state outcome then Some (trunc_rat t) else None))" .
  show "s = (if transient then if j_retry_count j < job_max_retries policy then Blocked else Error else outcome)"
    using core by (auto simp: conclude_attempt_def Let_def rbind_eq_Inr split: if_splits)
qed

section \<open>Back-off\<close>

lemma make_worker_settings_ok:
  assumes "make_worker_settings s = Inr s'"
  shows "s' = s" "0 < job_retry_base_s s" "job_retry_base_s s \<le> job_retry_max_s s" "0 \<le> job_max_retries s"
    "2 * heartbeat_interval s \<le> heartbeat_max_age s" "0 < heartbeat_interval s" "0 < poll_interval s"
  using assms by (auto simp: make_worker_settings_def split: if_splits option.splits)

lemma retry_delay_bounds:
  assumes "make_worker_settings policy = Inr policy" "0 \<le> retries"
  shows "job_retry_base_s policy \<le> retry_delay_s policy retries minimum_delay retry_after"
    "minimum_delay \<le> retry_delay_s policy retries minimum_delay retry_after"
    "coalesce retry_after 0 \<le> retry_delay_s policy retries minimum_delay retry_after"
    "retry_delay_s policy retries minimum_delay retry_after
       \<le> max (max (job_retry_max_s policy) minimum_delay) (coalesce retry_after 0)"
proof -
  note ok = make_worker_settings_ok [OF assms(1)]
  have "1 \<le> power_int (2 :: rat) (min retries 30)"
    using assms(2) one_le_power_int [of "2 :: rat" "min retries 30"] by simp
  then have "job_retry_base_s policy \<le> job_retry_base_s policy * power_int 2 (min retries 30)"
    using ok(2) mult_left_mono [of 1 "power_int (2 :: rat) (min retries 30)" "job_retry_base_s policy"] by simp
  then show "job_retry_base_s policy \<le> retry_delay_s policy retries minimum_delay retry_after"
    using ok(3) by (auto simp: retry_delay_s_def)
  show "minimum_delay \<le> retry_delay_s policy retries minimum_delay retry_after"
    "coalesce retry_after 0 \<le> retry_delay_s policy retries minimum_delay retry_after"
    by (simp_all add: retry_delay_s_def)
  show "retry_delay_s policy retries minimum_delay retry_after
       \<le> max (max (job_retry_max_s policy) minimum_delay) (coalesce retry_after 0)"
    unfolding retry_delay_s_def by (intro max.mono) auto
qed

section \<open>Cooldowns\<close>

interpretation cooldown_tab: keyed_table c_provider .

lemma cooldown_row_lookup: "cooldown_row d p = cooldown_tab.lookup p (db_cooldowns d)"
  by (simp add: cooldown_row_def cooldown_tab.lookup_def)

lemma defer_provider_ready:
  "provider_ready_at (defer_provider c p not_before reason now d) q =
     (if q = p then Some (case provider_ready_at d p of None \<Rightarrow> not_before | Some t \<Rightarrow> max t not_before)
      else provider_ready_at d q)"
proof (cases "cooldown_row d p")
  case None
  then show ?thesis
    by (auto simp: provider_ready_at_def defer_provider_def cooldown_row_def find_row_append split: option.split)
next
  case (Some x)
  let ?f = "\<lambda>x. x\<lparr>c_not_before := max (c_not_before x) not_before, c_reason := Some reason, c_updated_at := float_now c now\<rparr>"
  have "cooldown_row (defer_provider c p not_before reason now d) q =
      (if q = p then map_option ?f (cooldown_row d q) else cooldown_row d q)"
    using Some cooldown_tab.lookup_update_key [of ?f q p "db_cooldowns d"]
    by (simp add: cooldown_row_lookup defer_provider_def Let_def)
  then show ?thesis using Some by (simp add: provider_ready_at_def)
qed

section \<open>Recovery\<close>

text \<open>A row is left alone, or its lock was free to take and the row is back in the queue.\<close>

definition recovered :: "(string \<Rightarrow> int) \<Rightarrow> conn \<Rightarrow> int set \<Rightarrow> db \<Rightarrow> db \<Rightarrow> int \<Rightarrow> bool" where
  "recovered digest8 c ids d d' i \<longleftrightarrow> get_row d' i = get_row d i \<or> (i \<in> ids
     \<and> acquire_lock_key False (cn_pid c) (executor_key digest8 i) (db_locks d) \<noteq> None
     \<and> get_row d' i = map_option (\<lambda>j. set_job_revision j (resumed j)) (get_row d i))"

lemma resume_one:
  assumes acq: "acquire_lock_key False (cn_pid c) key (db_locks d) = Some ls"
    and up: "update_jobs c (\<lambda>x. j_id x = j) resumed (d\<lparr>db_locks := ls\<rparr>) = Inr d1"
  defines "d2 \<equiv> d1\<lparr>db_locks := release_lock_key False (cn_pid c) key (db_locks d1)\<rparr>"
  shows "db_locks d2 = db_locks d"
    "get_row d2 i = (if i = j then map_option (\<lambda>j. set_job_revision j (resumed j)) (get_row d i) else get_row d i)"
proof -
  show "db_locks d2 = db_locks d"
    using outbox_only_fields [OF update_jobs_frame [OF up]] acquire_release [OF acq] by (simp add: d2_def)
  have "get_row d2 i = get_row d1 i" "get_row (d\<lparr>db_locks := ls\<rparr>) i = get_row d i"
    by (simp_all add: get_row_def d2_def)
  moreover have "get_row d i = Some x \<Longrightarrow> j_id x = i" for x by (auto simp: get_row_def dest: find_row_Some)
  ultimately show "get_row d2 i = (if i = j then map_option (\<lambda>j. set_job_revision j (resumed j)) (get_row d i) else get_row d i)"
    using update_jobs_get_row [OF up, of i] by (cases "get_row d i") (auto simp: resumed_def)
qed

lemma resume_rows_effect:
  assumes "resume_rows digest8 c js d n = Inr (d', m)" "distinct (map j_id js)"
  shows "db_locks d' = db_locks d \<and> (\<forall>i. recovered digest8 c (j_id ` set js) d d' i)"
  using assms
proof (induction js arbitrary: d n)
  case (Cons j js)
  let ?key = "executor_key digest8 (j_id j)"
  have dist: "distinct (map j_id js)" "j_id j \<notin> j_id ` set js" using Cons.prems(2) by auto
  consider (skip) "resume_rows digest8 c js d n = Inr (d', m)"
    | (taken) ls d1 where "acquire_lock_key False (cn_pid c) ?key (db_locks d) = Some ls"
      "update_jobs c (\<lambda>x. j_id x = j_id j) resumed (d\<lparr>db_locks := ls\<rparr>) = Inr d1"
      "resume_rows digest8 c js (d1\<lparr>db_locks := release_lock_key False (cn_pid c) ?key (db_locks d1)\<rparr>) (n + 1)
          = Inr (d', m)"
    using Cons.prems(1) by (auto simp: Let_def rbind_eq_Inr split: if_splits option.splits)
  then show ?case
  proof cases
    case skip
    from Cons.IH [OF this dist(1)] show ?thesis by (auto simp: recovered_def)
  next
    case taken
    note one = resume_one [OF taken(1,2)]
    from Cons.IH [OF taken(3) dist(1)] show ?thesis
      using one taken(1) dist(2) unfolding recovered_def by (simp split: if_splits) metis
  qed
qed (auto simp: recovered_def)

section \<open>Run status\<close>

lemma state_count: "coalesce (map_of (job_state_counts d run) s) 0 = count_state d run s"
  by (cases s) (auto simp: job_state_counts_def states_by_name_def)

definition run_job :: "int \<Rightarrow> job_state \<Rightarrow> job \<Rightarrow> bool" where
  "run_job run s j \<longleftrightarrow> j_crawl_run_id j = Some run \<and> j_state j = s"

lemma count_state_zero: "count_state d (Some run) s = 0 \<longleftrightarrow> \<not> (\<exists>j \<in> set (db_jobs d). run_job run s j)"
  by (auto simp: count_state_def count_where_zero run_job_def)

lemma run_status_of_spec:
  "run_status_of d run =
     (if (\<exists>j \<in> set (db_jobs d). run_job run Pending j \<and> processing_ready d j)
         \<or> (\<exists>j \<in> set (db_jobs d). run_job run In_progress j) then Running
      else if \<exists>j \<in> set (db_jobs d). run_job run Blocked j then Paused
      else if \<exists>j \<in> set (db_jobs d). run_job run Error j then Failed
      else Finished)"
  unfolding run_status_of_def Let_def state_count using count_state_zero [of d run]
  by (auto simp: run_job_def)

lemma update_crawl_run_row:
  "run_row (update_crawl_run c run st cs fin now d) i =
     (if i = run then map_option (\<lambda>r. set_run_revision r (run_updated st cs fin (int_now c now) r)) (run_row d i)
      else run_row d i)"
proof -
  let ?f = "\<lambda>r. set_run_revision r (run_updated st cs fin (int_now c now) r)"
  have "db_runs (update_crawl_run c run st cs fin now d) = update_where (\<lambda>r. r_id r = run) ?f (db_runs d)"
    using outbox_only_fields(3) [OF update_runs_frame] by (simp add: update_crawl_run_def)
  then show ?thesis
    using run_tab.lookup_update_key [of ?f i run "db_runs d"] by (simp add: run_row_lookup run_updated_def)
qed

lemma refresh_run_status_row:
  assumes "run_row d run = Some r"
  shows "\<exists>r'. run_row (refresh_run_status c run d) run = Some r'
    \<and> (if r_status r = Cancelled then r' = r
       else r_status r' = run_status_of d run
         \<and> r_counters r' = Some (canonical_params (Some (run_counters d run)))
         \<and> (r_finished_at r' \<noteq> None \<longleftrightarrow> r_status r' \<in> {Failed, Finished}))"
proof (cases "r_status r = Cancelled")
  case False
  then show ?thesis
    using assms
    by (auto simp: refresh_run_status_def Let_def update_crawl_run_row run_updated_def)
      (auto simp: run_status_of_spec split: if_splits)
qed (use assms in \<open>simp add: refresh_run_status_def\<close>)

lemma refresh_run_status_other: "i \<noteq> run \<Longrightarrow> run_row (refresh_run_status c run d) i = run_row d i"
  by (simp add: refresh_run_status_def Let_def update_crawl_run_row split: option.split)

end
