(* ===== verification/Ownership.thy ===== *)
theory Ownership
  imports Claim_Laws Job_Laws
begin

text \<open>
  Many workers on one database. The state is the database and one session per backend; a step is
  one committed transaction of one session (claim, finish, submit, checkpoint, unblock, recover),
  the release of its ownership, its death, which frees its locks, a reconnection, or the passing
  of time. The invariant is that an open session's fence is covered by the locks it holds; with
  the exclusion law of \<open>lock_service\<close> no two open sessions ever own the same job, and no two
  acquire from the same provider.
\<close>

section \<open>Transactions that leave locks and identities alone\<close>

definition same_identity :: "job \<Rightarrow> job \<Rightarrow> bool" where
  "same_identity j j' \<longleftrightarrow> j_id j' = j_id j \<and> j_kind j' = j_kind j \<and> j_provider j' = j_provider j"

definition quiet :: "db \<Rightarrow> db \<Rightarrow> bool" where
  "quiet d d' \<longleftrightarrow> db_locks d' = db_locks d \<and> (jobs_wf d \<longrightarrow> jobs_wf d') \<and> db_next_job d \<le> db_next_job d'
     \<and> (\<forall>j' \<in> set (db_jobs d'). (\<exists>j \<in> set (db_jobs d). same_identity j j') \<or> db_next_job d \<le> j_id j')"

lemma quiet_refl [simp]: "quiet d d"
  by (auto simp: quiet_def same_identity_def)

lemma quiet_trans: "quiet d1 d2 \<Longrightarrow> quiet d2 d3 \<Longrightarrow> quiet d1 d3"
  unfolding quiet_def same_identity_def by fastforce

lemma quiet_same_jobs:
  "db_jobs d' = db_jobs d \<Longrightarrow> db_locks d' = db_locks d \<Longrightarrow> db_next_job d' = db_next_job d \<Longrightarrow> quiet d d'"
  by (auto simp: quiet_def jobs_wf_def same_identity_def)

lemma quiet_update_jobs:
  assumes "update_jobs c p f d = Inr d'" "keeps_identity f"
  shows "quiet d d'"
proof -
  note f = outbox_only_fields [OF update_jobs_frame [OF assms(1)]]
  have "\<exists>j \<in> set (db_jobs d). same_identity j j'" if "j' \<in> set (db_jobs d')" for j'
    using that update_jobs_rows [OF assms(1)]
    by (auto simp: set_update_where same_identity_def keeps_identityD [OF assms(2)])
  then show ?thesis using f update_jobs_wf [OF _ assms] by (auto simp: quiet_def)
qed

lemma quiet_touch_jobs:
  assumes "\<And>j. same_identity j (f j)" "\<And>j. j_revision (f j) = j_revision j"
  shows "quiet d (touch_jobs p f d)"
proof -
  have id: "j_id (f j) = j_id j" for j using assms(1) by (simp add: same_identity_def)
  have "jobs_wf (touch_jobs p f d)" if "jobs_wf d"
    using that job_tab.unique_keys_update [of "db_jobs d" f p] id assms(2)
    by (auto simp: jobs_wf_def touch_jobs_def set_update_where)
  then show ?thesis
    using assms(1) by (auto simp: quiet_def touch_jobs_def set_update_where same_identity_def)
qed

lemma quiet_insert_job:
  assumes "insert_job c row d = Inr (d', i)"
  shows "quiet d d'"
  using assms
proof (rule insert_job_row)
  fix j w b
  assume j: "j = row\<lparr>j_id := i, j_revision := 1, j_workspace_id := w, j_work_budget_id := b\<rparr>" "i = db_next_job d"
    and rows: "db_jobs d' = db_jobs d @ [j]" "db_next_job d' = db_next_job d + 1"
    and d': "d' = after_job_insert c j (d\<lparr>db_jobs := db_jobs d @ [j], db_next_job := db_next_job d + 1\<rparr>)"
  have "db_locks d' = db_locks d" unfolding d' using outbox_only_fields [OF outbox_only_triggers(1)] by simp
  then show ?thesis
    using rows j insert_job_wf [OF _ assms] by (auto simp: quiet_def same_identity_def)
qed

lemma quiet_refresh_run_status: "quiet d (refresh_run_status c run d)"
proof -
  have "db_locks (update_runs c p f d) = db_locks d" "db_next_job (update_runs c p f d) = db_next_job d" for p f
    using outbox_only_fields [OF update_runs_frame] by simp_all
  then show ?thesis
    by (intro quiet_same_jobs)
      (simp_all add: refresh_run_status_def update_crawl_run_def Let_def split: option.split)
qed

lemma quiet_settle_depth: "settle_depth row d = Inr d' \<Longrightarrow> quiet d d'"
  by (erule settle_depthE) (auto intro: quiet_touch_jobs simp: promoted_def same_identity_def)

lemma keeps_identity_updates:
  "keeps_identity (marked s r t)" "keeps_identity (blocked_until m u)" "keeps_identity resumed"
  "keeps_identity (\<lambda>j. j\<lparr>j_params_json := v\<rparr>)"
  "keeps_identity (\<lambda>j. j\<lparr>j_state := Pending, j_started_at := None, j_done_at := None, j_reason := h j\<rparr>)"
  by (simp_all add: keeps_identity_def marked_def blocked_until_def resumed_def)

lemma quiet_conclude_attempt:
  assumes "conclude_attempt c row outcome reason transient delay policy t d = Inr (d', s)"
  shows "quiet d d'"
proof -
  have bo: "quiet d (provider_backoff c row nb reason t d)" for nb
    by (intro quiet_same_jobs) (simp_all add: provider_backoff_def defer_provider_def Let_def split: option.split)
  have blocked: "quiet d1 d'" if "update_jobs c p (blocked_until m u) d1 = Inr d'" for p m u d1
    by (rule quiet_update_jobs [OF that keeps_identity_updates(2)])
  have mark: "quiet d1 d'" if "mark_job c k st r x d1 = Inr d'" for k st r x d1
    by (rule quiet_update_jobs [OF that [unfolded mark_job_def] keeps_identity_updates(1)])
  show ?thesis
  proof (cases transient)
    case True
    let ?d1 = "provider_backoff c row (t + delay) reason t d"
    have "quiet ?d1 d'"
      using assms True blocked mark
      by (cases "j_retry_count row < job_max_retries policy") (auto simp: conclude_attempt_def Let_def rbind_eq_Inr)
    then show ?thesis by (rule quiet_trans [OF bo])
  next
    case False
    then show ?thesis using assms mark by (auto simp: conclude_attempt_def rbind_eq_Inr)
  qed
qed

lemma quiet_finish_attempt:
  assumes "finish_attempt c i outcome reason transient ra md settings now d = Inr (d', s)"
  shows "quiet d d'"
proof -
  obtain row d2 d3 where "conclude_attempt c row outcome reason transient
      (retry_delay_s (coalesce settings default_worker_settings) (j_retry_count row) md ra)
      (coalesce settings default_worker_settings) (float_now c now) d = Inr (d2, s)"
    and "settle_depth row d2 = Inr d3"
    and "d' = (case j_crawl_run_id row of None \<Rightarrow> d3 | Some run \<Rightarrow> refresh_run_status c run d3)"
    using assms by (auto simp: finish_attempt_def Let_def rbind_eq_Inr split: option.splits)
  then have "quiet d d2" "quiet d2 d3" "quiet d3 d'"
    using quiet_conclude_attempt quiet_settle_depth quiet_refresh_run_status
    by (auto split: option.split)
  then show ?thesis using quiet_trans by blast
qed

lemma quiet_enqueue_job:
  assumes "enqueue_job sha c q d = Inr (d', i, ins)"
  shows "quiet d d'"
  using assms
proof (cases rule: enqueue_jobE)
  case (fresh d1)
  have "quiet d d1" using budget_frame_fields [OF fresh(2)] by (intro quiet_same_jobs) simp_all
  then show ?thesis using quiet_insert_job [OF fresh(4)] by (rule quiet_trans)
qed simp

lemma quiet_checkpoint_job: "checkpoint_job c i params k code d = Inr (d', b) \<Longrightarrow> quiet d d'"
  by (auto simp: checkpoint_job_def update_job_params_def rbind_eq_Inr split: if_splits
      intro: quiet_update_jobs keeps_identity_updates)

lemma quiet_unblock_jobs: "unblock_jobs c run now d = Inr (d', n) \<Longrightarrow> quiet d d'"
  by (auto simp: unblock_jobs_def Let_def rbind_eq_Inr intro: quiet_update_jobs keeps_identity_updates)

lemma quiet_resume_rows: "resume_rows digest8 c js d n = Inr (d', m) \<Longrightarrow> quiet d d'"
proof (induction js arbitrary: d n)
  case (Cons j js)
  let ?key = "executor_key digest8 (j_id j)"
  consider (skip) "resume_rows digest8 c js d n = Inr (d', m)"
    | (taken) ls d1 where "acquire_lock_key False (cn_pid c) ?key (db_locks d) = Some ls"
      "update_jobs c (\<lambda>x. j_id x = j_id j) resumed (d\<lparr>db_locks := ls\<rparr>) = Inr d1"
      "resume_rows digest8 c js (d1\<lparr>db_locks := release_lock_key False (cn_pid c) ?key (db_locks d1)\<rparr>) (n + 1)
          = Inr (d', m)"
    using Cons.prems by (auto simp: Let_def rbind_eq_Inr split: if_splits option.splits)
  then show ?case
  proof cases
    case taken
    let ?d2 = "d1\<lparr>db_locks := release_lock_key False (cn_pid c) ?key (db_locks d1)\<rparr>"
    have "quiet (d\<lparr>db_locks := ls\<rparr>) d1" by (rule quiet_update_jobs [OF taken(2) keeps_identity_updates(3)])
    then have "quiet d ?d2"
      using resume_one(1) [OF taken(1,2)] by (auto simp: quiet_def jobs_wf_def)
    then show ?thesis using Cons.IH [OF taken(3)] by (rule quiet_trans)
  qed (rule Cons.IH)
qed simp

section \<open>The system\<close>

type_synonym sys = "db \<times> (int \<Rightarrow> conn)"

definition fresh_conn :: "int \<Rightarrow> conn" where
  "fresh_conn pid = \<lparr>cn_pid = pid, cn_closed = False, cn_ownership_purposes = [], cn_ownership_keys = [],
     cn_job_fence = None, cn_defer_normalization = False, cn_work_budget_id = None,
     cn_work_payload_read_credits = 0, cn_events_enabled = True, cn_workspace_setting = [], cn_clock = 0,
     cn_locked_jobs = [], cn_locked_dispatch = [], cn_locked_workers = []\<rparr>"

inductive sys_step :: "(string \<Rightarrow> int) \<Rightarrow> (string \<Rightarrow> string) \<Rightarrow> sys \<Rightarrow> sys \<Rightarrow> bool" for digest8 sha where
  claim: "\<lbrakk>\<not> cn_closed (S p); atomic (S p) d (claim_next_job digest8 a (S p)) = Inr (d', c', r)\<rbrakk>
    \<Longrightarrow> sys_step digest8 sha (d, S) (d', S(p := c'))"
| finish: "\<lbrakk>\<not> cn_closed (S p);
      atomic (S p) d (finish_attempt (S p) i outcome reason transient ra md settings now) = Inr (d', s)\<rbrakk>
    \<Longrightarrow> sys_step digest8 sha (d, S) (d', S)"
| enqueue: "\<lbrakk>\<not> cn_closed (S p); atomic (S p) d (enqueue_job sha (S p) q) = Inr (d', i, ins)\<rbrakk>
    \<Longrightarrow> sys_step digest8 sha (d, S) (d', S)"
| checkpoint: "\<lbrakk>\<not> cn_closed (S p); atomic (S p) d (checkpoint_job (S p) i params k code) = Inr (d', b)\<rbrakk>
    \<Longrightarrow> sys_step digest8 sha (d, S) (d', S)"
| unblock: "\<lbrakk>\<not> cn_closed (S p); atomic (S p) d (unblock_jobs (S p) run now) = Inr (d', n)\<rbrakk>
    \<Longrightarrow> sys_step digest8 sha (d, S) (d', S)"
| resume: "\<lbrakk>\<not> cn_closed (S p); atomic (S p) d (resume_stale_rows digest8 (S p) run stale now) = Inr (d', n)\<rbrakk>
    \<Longrightarrow> sys_step digest8 sha (d, S) (d', S)"
| release: "\<lbrakk>\<not> cn_closed (S p); release_job_ownership (S p) d = (d', c')\<rbrakk>
    \<Longrightarrow> sys_step digest8 sha (d, S) (d', S(p := c'))"
| die: "sys_step digest8 sha (d, S)
    (d\<lparr>db_locks := end_session p (db_locks d)\<rparr>, S(p := (S p)\<lparr>cn_closed := True\<rparr>))"
| connect: "cn_closed (S p) \<Longrightarrow> sys_step digest8 sha (d, S) (d, S(p := fresh_conn p))"
| observe: "sys_step digest8 sha (d, S) (d, S(p := (S p)\<lparr>cn_clock := t, cn_locked_jobs := js,
    cn_locked_dispatch := ds, cn_locked_workers := ws, cn_workspace_setting := w\<rparr>))"

inductive_cases sys_stepE: "sys_step digest8 sha (d, S) (d', S')"

definition initial :: "sys \<Rightarrow> bool" where
  "initial = (\<lambda>(d, S). jobs_wf d \<and> db_locks d = []
     \<and> (\<forall>p. cn_pid (S p) = p \<and> cn_job_fence (S p) = None \<and> cn_ownership_keys (S p) = []))"

inductive reachable :: "(string \<Rightarrow> int) \<Rightarrow> (string \<Rightarrow> string) \<Rightarrow> sys \<Rightarrow> bool" for digest8 sha where
  start: "initial s \<Longrightarrow> reachable digest8 sha s"
| step: "reachable digest8 sha s \<Longrightarrow> sys_step digest8 sha s s' \<Longrightarrow> reachable digest8 sha s'"

section \<open>The ownership invariant\<close>

definition covered :: "(string \<Rightarrow> int) \<Rightarrow> db \<Rightarrow> conn \<Rightarrow> bool" where
  "covered digest8 d c \<longleftrightarrow> cn_closed c \<or> (case cn_job_fence c of
       None \<Rightarrow> True
     | Some (i, _) \<Rightarrow> i < db_next_job d \<and> holds_lock (db_locks d) (cn_pid c) (executor_key digest8 i)
         \<and> (\<forall>j \<in> set (db_jobs d). j_id j = i \<and> \<not> processing_kind (j_kind j)
              \<longrightarrow> holds_lock (db_locks d) (cn_pid c) (provider_key digest8 j)))"

definition ownership_inv :: "(string \<Rightarrow> int) \<Rightarrow> sys \<Rightarrow> bool" where
  "ownership_inv digest8 = (\<lambda>(d, S). jobs_wf d \<and> locks_valid (db_locks d)
     \<and> (\<forall>p. cn_pid (S p) = p \<and> covered digest8 d (S p)))"

lemma covered_quiet:
  assumes "quiet d d'" "covered digest8 d c"
  shows "covered digest8 d' c"
proof (cases "cn_closed c \<or> cn_job_fence c = None")
  case False
  then obtain i t where f: "cn_job_fence c = Some (i, t)" "\<not> cn_closed c" by auto
  have i: "i < db_next_job d" using assms(2) f by (simp add: covered_def)
  have "holds_lock (db_locks d') (cn_pid c) (provider_key digest8 j')"
    if j': "j' \<in> set (db_jobs d')" "j_id j' = i" "\<not> processing_kind (j_kind j')" for j'
  proof -
    obtain j where "j \<in> set (db_jobs d)" "same_identity j j'"
      using assms(1) j' i by (auto simp: quiet_def)
    then have "holds_lock (db_locks d) (cn_pid c) (provider_key digest8 j)" "provider_key digest8 j = provider_key digest8 j'"
      using assms(2) f j' by (auto simp: covered_def same_identity_def provider_key_def)
    then show ?thesis using assms(1) by (simp add: quiet_def)
  qed
  then show ?thesis using assms f i by (auto simp: covered_def quiet_def)
qed (auto simp: covered_def)

lemma inv_quiet: "ownership_inv digest8 (d, S) \<Longrightarrow> quiet d d' \<Longrightarrow> ownership_inv digest8 (d', S)"
  using covered_quiet by (auto simp: ownership_inv_def quiet_def)

lemma covered_locks:
  assumes "covered digest8 d c" "\<And>k. holds_lock (db_locks d) (cn_pid c) k \<Longrightarrow> holds_lock ls (cn_pid c) k"
  shows "covered digest8 (d\<lparr>db_locks := ls\<rparr>) c"
  using assms by (auto simp: covered_def split: option.splits)

lemma inv_claim:
  assumes inv: "ownership_inv digest8 (d, S)" and cl: "claim_next_job digest8 a (S p) d = Inr (d', c', r)"
  shows "ownership_inv digest8 (d', S(p := c'))"
proof (cases r)
  case None
  then have "d' = d" "c' = S p" using claim_None cl inv by (auto simp: ownership_inv_def)
  then show ?thesis using inv by simp
next
  case (Some j')
  have wf: "jobs_wf d" and pid: "cn_pid (S p) = p" using inv by (simp_all add: ownership_inv_def)
  note cl' = cl [unfolded Some]
  obtain j e e' keys where j: "j \<in> set (db_jobs d)"
    and tl: "take_locks digest8 a (S p) e' j (db_locks d) = Inr (keys, db_locks d')"
    and c': "c' = (if w_worker_id a = None then S p
       else (S p)\<lparr>cn_ownership_keys := keys, cn_job_fence := Some (j_id j, w_token a)\<rparr>)"
    and up: "\<exists>d1. update_jobs (S p) (\<lambda>x. j_id x = j_id j) (claimed a (S p)) (d\<lparr>db_locks := db_locks d'\<rparr>) = Inr d1
       \<and> d' = take_turn (j_workspace_id j) (w_stage a) d1"
    using wf cl' by (rule claimE)
  let ?d = "d\<lparr>db_locks := db_locks d'\<rparr>"
  obtain d1 where d1: "update_jobs (S p) (\<lambda>x. j_id x = j_id j) (claimed a (S p)) ?d = Inr d1"
    "d' = take_turn (j_workspace_id j) (w_stage a) d1" using up by blast
  have "quiet d1 d'" by (rule quiet_same_jobs) (simp_all add: d1(2))
  then have q: "quiet ?d d'" using quiet_trans quiet_update_jobs [OF d1(1) claimed_identity] by blast
  have keep: "holds_lock (db_locks d) x k \<Longrightarrow> holds_lock (db_locks d') x k" for x k
    using take_locks_others(2) [OF tl] .
  have valid: "locks_valid (db_locks ?d)" using take_locks_others(3) [OF tl] inv by (simp add: ownership_inv_def)
  have cov: "covered digest8 ?d (S x)" for x
    by (rule covered_locks) (use inv keep in \<open>auto simp: ownership_inv_def\<close>)
  have cov': "covered digest8 ?d c'"
  proof (cases "w_worker_id a = None")
    case True
    then show ?thesis using cov c' by simp
  next
    case False
    have uniq: "x = j" if "x \<in> set (db_jobs d)" "j_id x = j_id j" for x
      using job_tab.unique_key_eq [OF _ that(1) j that(2)] wf by (simp add: jobs_wf_def)
    have "j_id j < db_next_job d" using wf j by (simp add: jobs_wf_def)
    then show ?thesis
      using take_locks_holds(1,2) [OF tl False] uniq False c' by (auto simp: covered_def)
  qed
  have "cn_pid c' = p" using c' pid by simp
  then have "ownership_inv digest8 (?d, S(p := c'))"
    using inv valid cov cov' by (auto simp: ownership_inv_def jobs_wf_def)
  then show ?thesis using q by (rule inv_quiet)
qed

lemma release_keys_other:
  assumes "q \<noteq> cn_pid c"
  shows "holds_lock (release_keys c ks ls) q k = holds_lock ls q k"
  unfolding release_keys_def by (induction ks arbitrary: ls) (simp_all add: adv.release_frame assms)

lemma release_keys_valid: "locks_valid ls \<Longrightarrow> locks_valid (release_keys c ks ls)"
  unfolding release_keys_def by (induction ks arbitrary: ls) (simp_all add: adv.release_valid)

lemma inv_others:
  assumes inv: "ownership_inv digest8 (d, S)" and valid: "locks_valid ls"
    and others: "\<And>q k. q \<noteq> p \<Longrightarrow> holds_lock (db_locks d) q k \<Longrightarrow> holds_lock ls q k"
    and c': "cn_pid c' = p" "cn_closed c' \<or> cn_job_fence c' = None"
  shows "ownership_inv digest8 (d\<lparr>db_locks := ls\<rparr>, S(p := c'))"
proof -
  have "covered digest8 (d\<lparr>db_locks := ls\<rparr>) (S q)" if "q \<noteq> p" for q
    by (rule covered_locks) (use inv others [OF that] in \<open>auto simp: ownership_inv_def\<close>)
  moreover have "covered digest8 (d\<lparr>db_locks := ls\<rparr>) c'" using c'(2) by (auto simp: covered_def)
  ultimately show ?thesis using inv valid c'(1) by (auto simp: ownership_inv_def jobs_wf_def)
qed

lemma covered_cong:
  assumes "cn_pid c' = cn_pid c" "cn_closed c' = cn_closed c" "cn_job_fence c' = cn_job_fence c"
  shows "covered digest8 d c' = covered digest8 d c"
  unfolding covered_def assms by simp

lemma covered_observe [simp]:
  "covered digest8 d (c\<lparr>cn_clock := t, cn_locked_jobs := js, cn_locked_dispatch := ds,
     cn_locked_workers := ws, cn_workspace_setting := w\<rparr>) = covered digest8 d c"
  by (rule covered_cong) simp_all

lemma inv_step:
  assumes "sys_step digest8 sha s s'" "ownership_inv digest8 s"
  shows "ownership_inv digest8 s'"
  using assms
proof (induction rule: sys_step.induct)
  case (claim S p d a d' c' r)
  from inv_claim [OF claim.prems atomic_Inr(1) [OF claim.hyps(2)]] show ?case .
next
  case (release S p d d' c')
  then have d': "d' = d\<lparr>db_locks := release_keys (S p) (rev (cn_ownership_keys (S p))) (db_locks d)\<rparr>"
    "c' = (S p)\<lparr>cn_job_fence := None, cn_ownership_keys := []\<rparr>"
    by (auto simp: release_job_ownership_def)
  have pid: "cn_pid (S p) = p" "locks_valid (db_locks d)" using release.prems by (simp_all add: ownership_inv_def)
  show ?case unfolding d'
    by (rule inv_others [OF release.prems]) (simp_all add: pid release_keys_valid release_keys_other)
next
  case (die d S p)
  then have "locks_valid (db_locks d)" "cn_pid (S p) = p" by (simp_all add: ownership_inv_def)
  then show ?case
    by (intro inv_others [OF die]) (simp_all add: end_session_valid end_session_holds)
next
  case (connect S p d)
  then have "ownership_inv digest8 (d\<lparr>db_locks := db_locks d\<rparr>, S(p := fresh_conn p))"
    by (intro inv_others) (simp_all add: ownership_inv_def fresh_conn_def)
  then show ?case by simp
next
  case observe
  then show ?case by (simp add: ownership_inv_def)
next
  case finish
  from inv_quiet [OF finish.prems quiet_finish_attempt [OF atomic_Inr(1) [OF finish.hyps(2)]]] show ?case .
next
  case enqueue
  from inv_quiet [OF enqueue.prems quiet_enqueue_job [OF atomic_Inr(1) [OF enqueue.hyps(2)]]] show ?case .
next
  case checkpoint
  from inv_quiet [OF checkpoint.prems quiet_checkpoint_job [OF atomic_Inr(1) [OF checkpoint.hyps(2)]]] show ?case .
next
  case unblock
  from inv_quiet [OF unblock.prems quiet_unblock_jobs [OF atomic_Inr(1) [OF unblock.hyps(2)]]] show ?case .
next
  case resume
  from inv_quiet [OF resume.prems quiet_resume_rows [OF atomic_Inr(1) [OF resume.hyps(2), unfolded resume_stale_rows_def]]]
  show ?case .
qed

lemma reachable_inv: "reachable digest8 sha s \<Longrightarrow> ownership_inv digest8 s"
proof (induction rule: reachable.induct)
  case (start s)
  then show ?case by (auto simp: initial_def ownership_inv_def covered_def locks_valid_def)
next
  case (step s s')
  then show ?case using inv_step by blast
qed

section \<open>Exclusion\<close>

definition owns :: "sys \<Rightarrow> int \<Rightarrow> int \<Rightarrow> bool" where
  "owns s p i \<longleftrightarrow> \<not> cn_closed (snd s p) \<and> (\<exists>t. cn_job_fence (snd s p) = Some (i, t))"

definition acquires_from :: "sys \<Rightarrow> int \<Rightarrow> string \<Rightarrow> bool" where
  "acquires_from s p prov \<longleftrightarrow> (\<exists>j \<in> set (db_jobs (fst s)). owns s p (j_id j)
     \<and> \<not> processing_kind (j_kind j) \<and> j_provider j = Some prov)"

lemma owns_holds:
  assumes "reachable digest8 sha s" "owns s p i"
  shows "holds_lock (db_locks (fst s)) p (executor_key digest8 i)"
  using reachable_inv [OF assms(1)] assms(2)
  by (cases s) (auto simp: ownership_inv_def covered_def owns_def split: option.splits)

lemma acquires_holds:
  assumes "reachable digest8 sha s" "acquires_from s p prov"
  shows "holds_lock (db_locks (fst s)) p (lock_key digest8 ''acquisition-provider'' prov)"
proof -
  obtain j t where j: "j \<in> set (db_jobs (fst s))" "\<not> processing_kind (j_kind j)" "j_provider j = Some prov"
    "\<not> cn_closed (snd s p)" "cn_job_fence (snd s p) = Some (j_id j, t)"
    using assms(2) by (auto simp: acquires_from_def owns_def)
  have "provider_key digest8 j = lock_key digest8 ''acquisition-provider'' prov"
    using j(3) by (simp add: provider_key_def show_opt_def)
  moreover have "covered digest8 (fst s) (snd s p)" "cn_pid (snd s p) = p"
    using reachable_inv [OF assms(1)] by (auto simp: ownership_inv_def split: prod.splits)
  ultimately show ?thesis using j by (auto simp: covered_def)
qed

lemma reachable_locks_valid: "reachable digest8 sha s \<Longrightarrow> locks_valid (db_locks (fst s))"
  using reachable_inv by (fastforce simp: ownership_inv_def split: prod.splits)

end
