(* ===== verification/Samples.thy ===== *)
theory Samples
  imports Ownership
begin

text \<open>
  Small concrete states on which the properties of the library are exercised: an empty database,
  a database with one pending acquisition job, one with a budgeted run, two digest functions in
  place of SHA-256, and the arguments of a claim by a worker.
\<close>

definition empty_db :: db where
  "empty_db = \<lparr>db_workspaces = [''local''], db_jobs = [], db_runs = [], db_cooldowns = [],
     db_heartbeats = [], db_events = [], db_dispatch = [], db_budgets = [], db_periods = [],
     db_policies = [], db_policy_history = [], db_reservations = [], db_game_items = [],
     db_turns = [], db_edges = [], db_run_edges = [], db_run_games = [], db_raw_bytes = [],
     db_locks = [], db_next_job = 1, db_next_run = 1, db_next_event = 1, db_next_dispatch = 1,
     db_next_budget = 1, db_next_reservation = 1, db_next_edge = 1, db_next_turn = 1\<rparr>"

definition sample_digest8 :: "string \<Rightarrow> int" where
  "sample_digest8 s = fold (\<lambda>c n. 31 * n + of_char c) s 7"

definition sample_sha :: "string \<Rightarrow> string" where
  "sample_sha s = s"

definition sample_job :: job where
  "sample_job = \<lparr>j_id = 1, j_crawl_run_id = None, j_parent_job_id = None, j_provider = Some ''lichess'',
     j_kind = ''fetch_user_games'', j_target = ''alice'', j_params_json = JObj [], j_state = Pending,
     j_priority = 100, j_depth = 0, j_attempts = 0, j_dedup_key = ''k1'', j_enqueued_at = 5,
     j_started_at = None, j_done_at = None, j_reason = None, j_retry_count = 0, j_next_attempt_at = None,
     j_revision = 1, j_owner_worker_id = None, j_owner_backend_pid = None, j_ownership_token = None,
     j_ownership_generation = 0, j_workspace_id = ''local'', j_work_budget_id = None\<rparr>"

definition one_job_db :: db where
  "one_job_db = empty_db\<lparr>db_jobs := [sample_job], db_next_job := 2\<rparr>"

definition sample_claim :: claim_args where
  "sample_claim = \<lparr>w_crawl_run_id = None, w_now = Some 10, w_worker_id = Some ''w1'', w_job_id = None,
     w_stage = ''all'', w_policy = default_policy, w_respect_fairness = False, w_token = ''t1''\<rparr>"

definition sample_budget :: budget where
  "sample_budget = \<lparr>b_id = 1, b_workspace_id = ''local'', b_crawl_run_id = Some 1,
     b_standalone_job_id = None, b_policy = default_policy, b_remote_requests = 0, b_remote_bytes = 0,
     b_games = 0, b_normalization_units = 0, b_exhausted_dimension = None, b_exhausted_at = None,
     b_created_at = 0, b_updated_at = 0, b_workspace_policy_version = Some 1\<rparr>"

definition budget_db :: db where
  "budget_db = empty_db\<lparr>db_budgets := [sample_budget], db_next_budget := 2\<rparr>"

text \<open>The concrete claim: job 1 goes to backend 7, which holds the job's and the provider's lock.\<close>

lemma sample_claim_result:
  "case claim_next_job sample_digest8 sample_claim (fresh_conn 7) one_job_db of
     Inr (d, c, Some j) \<Rightarrow> cn_job_fence c = Some (1, ''t1'') \<and> \<not> cn_closed c
       \<and> j = set_job_revision sample_job (claimed sample_claim (fresh_conn 7) sample_job)
       \<and> db_jobs d = [j] \<and> j_workspace_id j = ''local'' \<and> j_id j = 1 \<and> j_kind j = ''fetch_user_games''
       \<and> j_provider j = Some ''lichess''
   | _ \<Rightarrow> False"
  by code_simp

lemma sample_claimE:
  obtains d c j where
    "claim_next_job sample_digest8 sample_claim (fresh_conn 7) one_job_db = Inr (d, c, Some j)"
    "cn_job_fence c = Some (1, ''t1'')" "\<not> cn_closed c" "db_jobs d = [j]" "j_workspace_id j = ''local''"
    "j_id j = 1" "j_kind j = ''fetch_user_games''" "j_provider j = Some ''lichess''"
  using sample_claim_result by (auto split: sum.splits prod.splits option.splits)

end
