(* ===== verification/Job_Properties.thy ===== *)
theory Job_Properties
  imports Samples
begin

text \<open>
  What the job engine guarantees, over the definitions of \<open>Jobs\<close>, \<open>Claim\<close>, \<open>Locks\<close> and the system
  of \<open>Ownership\<close>: exclusive ownership, admission and order of claims, recovery, submission,
  retries, run status and announcements. Each property is followed by an instance.
\<close>

section \<open>Exclusive ownership\<close>

text \<open>C1. In every reachable state at most one open session owns a job.\<close>

theorem job_owner_unique:
  assumes "reachable digest8 sha s" "owns s p i" "owns s q i"
  shows "p = q"
  using adv.holds_exclusive [OF reachable_locks_valid [OF assms(1)] owns_holds [OF assms(1,2)] owns_holds [OF assms(1,3)]] .

lemma sample_reachable:
  obtains s where "reachable sample_digest8 sample_sha s" "owns s 7 1" "acquires_from s 7 ''lichess''"
proof -
  have wf: "jobs_wf one_job_db"
    by (simp add: jobs_wf_def job_tab.unique_keys_def one_job_db_def empty_db_def sample_job_def)
  have start: "reachable sample_digest8 sample_sha (one_job_db, fresh_conn)"
    by (rule reachable.start) (use wf in \<open>simp add: initial_def fresh_conn_def one_job_db_def empty_db_def\<close>)
  show ?thesis
  proof (rule sample_claimE)
    fix d c j
    assume cl: "claim_next_job sample_digest8 sample_claim (fresh_conn 7) one_job_db = Inr (d, c, Some j)"
      and f: "cn_job_fence c = Some (1, ''t1'')" "\<not> cn_closed c"
      and j: "db_jobs d = [j]" "j_id j = 1" "j_kind j = ''fetch_user_games''" "j_provider j = Some ''lichess''"
    have at: "atomic (fresh_conn 7) one_job_db (claim_next_job sample_digest8 sample_claim (fresh_conn 7)) = Inr (d, c, Some j)"
      using cl by (simp add: atomic_def begin_write_def fence_ok_def fresh_conn_def)
    have "sys_step sample_digest8 sample_sha (one_job_db, fresh_conn) (d, fresh_conn(7 := c))"
      by (rule sys_step.claim [where S = fresh_conn and p = 7, OF _ at]) (simp add: fresh_conn_def)
    then have "reachable sample_digest8 sample_sha (d, fresh_conn(7 := c))"
      by (rule reachable.step [OF start])
    then show ?thesis
      using f j by (intro that) (auto simp: owns_def acquires_from_def processing_kind_def archive_kind_def)
  qed
qed

theorem job_owner_unique_witness:
  "\<exists>s. reachable sample_digest8 sample_sha s \<and> owns s 7 1 \<and> {q. owns s q 1} = {7}"
proof -
  obtain s where s: "reachable sample_digest8 sample_sha s" "owns s 7 1" by (rule sample_reachable)
  have "q = 7" if "owns s q 1" for q by (rule job_owner_unique [OF s(1) that s(2)])
  then have "{q. owns s q 1} = {7}" using s(2) by blast
  then show ?thesis using s by blast
qed

text \<open>In every reachable state at most one open session acquires from a provider.\<close>

lemma provider_acquired_once:
  assumes "reachable digest8 sha s" "acquires_from s p prov" "acquires_from s q prov"
  shows "p = q"
  using adv.holds_exclusive [OF reachable_locks_valid [OF assms(1)] acquires_holds [OF assms(1,2)]
      acquires_holds [OF assms(1,3)]] .

section \<open>Claims\<close>

lemma one_job_wf: "jobs_wf one_job_db"
  by (simp add: jobs_wf_def job_tab.unique_keys_def one_job_db_def empty_db_def sample_job_def)

text \<open>
  Claims follow the order of workspace turn, priority, depth, age and id: a job that ranks before
  the claimed one and was eligible needs a session lock that another backend holds. In particular a
  claim without a worker, which takes no locks, always takes the first eligible job.
\<close>

lemma claim_follows_order:
  assumes "jobs_wf d" "claim_next_job digest8 a c d = Inr (d', c', Some j')" "k \<in> set (db_jobs d)"
    "eligible a c d [] k" "service_job_provider k" "get_row d (j_id j') = Some j"
    "claim_order d (w_stage a) k < claim_order d (w_stage a) j"
  shows "w_worker_id a \<noteq> None \<and> job_locks_busy digest8 c (db_locks d) k"
proof -
  obtain x keys ls d1 where loop: "claim_loop digest8 a c d [] (db_locks d) = (Some (x, keys), ls)"
    and up: "update_jobs c (\<lambda>y. j_id y = j_id x) (claimed a c) (d\<lparr>db_locks := ls\<rparr>) = Inr d1"
    and j': "get_job d1 (j_id x) = Some j'"
    using assms(2) by (auto simp: claim_next_job_def Let_def res_simps split: if_splits prod.splits option.splits)
  have x: "x \<in> set (db_jobs d)" using claim_loop_Some [OF loop] in_candidates by blast
  have "get_row d1 (j_id x) = Some j'" using j' by (simp add: get_job_def)
  then have "j_id j' = j_id x" by (auto simp: get_row_def dest: find_row_Some)
  moreover have "get_row d (j_id x) = Some x"
    using job_tab.lookup_unique [of "db_jobs d" x] assms(1) x by (simp add: get_row_lookup jobs_wf_def)
  ultimately have "x = j" using assms(6) by simp
  then show ?thesis
    using claim_loop_order [OF loop _ _ assms(3,4,5)] assms(7) by (simp add: excluded_busy_def)
qed

text \<open>
  C3. A successful claim by a worker takes a stored job that every admission condition allows, starts
  a new attempt of it under the worker's token, gives it the next revision, and leaves the session
  fenced to it and holding the job's executor lock; every other job is untouched. The job ranks first in the order of workspace
  turn, priority, depth, age and id: an eligible job that ranks before it needs a session lock that another backend holds.
\<close>

theorem claim_takes_admissible_job:
  assumes "jobs_wf d" "claim_next_job digest8 a c d = Inr (d', c', Some j')" "w_worker_id a = Some w"
  shows "\<exists>j \<in> set (db_jobs d).
    claim_admission (float_now c (w_now a)) (workspace_max_active_jobs (w_policy a)) d j
    \<and> stage_allows (w_stage a) j \<and> get_row d' (j_id j) = Some j'
    \<and> j' = (claimed a c j)\<lparr>j_revision := j_revision j + 1\<rparr>
    \<and> cn_job_fence c' = Some (j_id j, w_token a)
    \<and> holds_lock (db_locks d') (cn_pid c) (executor_key digest8 (j_id j))
    \<and> (\<forall>i. i \<noteq> j_id j \<longrightarrow> get_row d' i = get_row d i)
    \<and> (\<forall>k \<in> set (db_jobs d). eligible a c d [] k \<and> service_job_provider k \<and> claim_order d (w_stage a) k < claim_order d (w_stage a) j
        \<longrightarrow> job_locks_busy digest8 c (db_locks d) k)"
proof -
  obtain j e e' keys where j: "j \<in> set (db_jobs d)" "eligible a c d e j"
    and tl: "take_locks digest8 a c e' j (db_locks d) = Inr (keys, db_locks d')"
    and j': "j' = set_job_revision j (claimed a c j)"
    and rows: "db_jobs d' = update_where (\<lambda>x. j_id x = j_id j) (\<lambda>x. set_job_revision x (claimed a c x)) (db_jobs d)"
    and c': "c' = (if w_worker_id a = None then c
       else c\<lparr>cn_ownership_keys := keys, cn_job_fence := Some (j_id j, w_token a)\<rparr>)"
    using assms(1,2) by (rule claimE)
  have look: "get_row d' i = (if i = j_id j then map_option (\<lambda>x. set_job_revision x (claimed a c x)) (get_row d i) else get_row d i)" for i
    unfolding get_row_lookup rows by (rule job_tab.lookup_update_key) (simp add: claimed_def)
  have row: "get_row d (j_id j) = Some j"
    using job_tab.lookup_unique [of "db_jobs d" j] assms(1) j(1) by (simp add: get_row_lookup jobs_wf_def)
  have adm: "claim_admission (float_now c (w_now a)) (workspace_max_active_jobs (w_policy a)) d j"
    and st: "stage_allows (w_stage a) j" using j(2) by (simp_all add: eligible_def)
  have "job_watched (claimed a c j) \<noteq> job_watched j"
    using claim_admissionD(2) [OF adm] by (auto simp: job_watched_def claimed_def schedulable_state_def)
  then have "j' = (claimed a c j)\<lparr>j_revision := j_revision j + 1\<rparr>" by (simp add: j' set_job_revision_def)
  moreover have "j_id j' = j_id j" by (simp add: j' claimed_def)
  then have "\<forall>k \<in> set (db_jobs d). eligible a c d [] k \<and> service_job_provider k \<and> claim_order d (w_stage a) k < claim_order d (w_stage a) j
      \<longrightarrow> job_locks_busy digest8 c (db_locks d) k"
    using claim_follows_order [OF assms(1,2), of _ j] row by simp
  ultimately show ?thesis
    using j(1) adm st look row j' c' assms(3) take_locks_holds(1) [OF tl] by auto
qed

theorem claim_takes_admissible_job_witness:
  "\<exists>d c j. claim_next_job sample_digest8 sample_claim (fresh_conn 7) one_job_db = Inr (d, c, Some j)
     \<and> get_row d 1 = Some j \<and> holds_lock (db_locks d) 7 (executor_key sample_digest8 1)"
proof (rule sample_claimE)
  fix d c j
  assume cl: "claim_next_job sample_digest8 sample_claim (fresh_conn 7) one_job_db = Inr (d, c, Some j)"
  have "w_worker_id sample_claim = Some ''w1''" by (simp add: sample_claim_def)
  from claim_takes_admissible_job [OF one_job_wf cl this] cl show ?thesis
    by (auto simp: one_job_db_def sample_job_def fresh_conn_def)
qed

text \<open>
  C4. A claim never takes a workspace over its cap of active jobs: afterwards the workspace has one
  active job more than before, and at most as many as its policy (or the default) allows.
\<close>

theorem claim_respects_active_cap:
  assumes "jobs_wf d" "claim_next_job digest8 a c d = Inr (d', c', Some j)"
  shows "count_where (active_in (j_workspace_id j)) (db_jobs d')
      = count_where (active_in (j_workspace_id j)) (db_jobs d) + 1
    \<and> count_where (active_in (j_workspace_id j)) (db_jobs d')
      \<le> active_cap (workspace_max_active_jobs (w_policy a)) d (j_workspace_id j)"
  using claim_active_count [OF assms] by blast

theorem claim_respects_active_cap_witness:
  "\<exists>d c j. claim_next_job sample_digest8 sample_claim (fresh_conn 7) one_job_db = Inr (d, c, Some j)
     \<and> count_where (active_in ''local'') (db_jobs d) = count_where (active_in ''local'') (db_jobs one_job_db) + 1"
proof (rule sample_claimE)
  fix d c j
  assume cl: "claim_next_job sample_digest8 sample_claim (fresh_conn 7) one_job_db = Inr (d, c, Some j)"
    and ws: "j_workspace_id j = ''local''"
  from claim_respects_active_cap [OF one_job_wf cl] cl ws show ?thesis by auto
qed

text \<open>A claim that finds no job leaves the database and the session exactly as they were.\<close>

lemma claim_without_job_changes_nothing:
  assumes "jobs_wf d" "claim_next_job digest8 a c d = Inr (d', c', None)"
  shows "d' = d \<and> c' = c"
  using claim_None [OF assms(2,1)] by blast

section \<open>Recovery\<close>

text \<open>
  Recovery of orphaned jobs keeps the lock table, leaves every job whose executor lock another
  backend holds untouched, and changes a job in no way but putting it back into the queue without
  an owner.
\<close>

lemma recovery_spares_held_jobs:
  assumes "jobs_wf d" "resume_stale_rows digest8 c run stale now d = Inr (d', n)"
  shows "db_locks d' = db_locks d
    \<and> (get_row d' i = get_row d i \<or> get_row d' i = map_option (\<lambda>j. set_job_revision j (resumed j)) (get_row d i))
    \<and> (holds_lock (db_locks d) q (executor_key digest8 i) \<and> q \<noteq> cn_pid c \<longrightarrow> get_row d' i = get_row d i)"
proof -
  let ?rows = "sort_key j_id (filter (stale_row c run stale (int_now c now - stale) d) (db_jobs d))"
  have "distinct (map j_id (filter (stale_row c run stale (int_now c now - stale) d) (db_jobs d)))"
    using assms(1) by (simp add: jobs_wf_def job_tab.unique_keys_def distinct_map_filter)
  then have "distinct (map j_id ?rows)" by (metis distinct_map distinct_sort set_sort)
  from resume_rows_effect [OF assms(2) [unfolded resume_stale_rows_def] this]
  have eff: "db_locks d' = db_locks d" "recovered digest8 c (j_id ` set ?rows) d d' i" by auto
  moreover have "acquire_lock_key False (cn_pid c) (executor_key digest8 i) (db_locks d) = None"
    if "holds_lock (db_locks d) q (executor_key digest8 i)" "q \<noteq> cn_pid c"
    using adv.acquire_held_by_other [OF that] .
  ultimately show ?thesis by (auto simp: recovered_def)
qed

section \<open>Submission\<close>

text \<open>
  What a submission does: when the same work is already there (a live job of its key, or any job of
  its key when a finished one may be reused) nothing changes and the first of those jobs is the
  answer; otherwise one pending row of the requested work is appended.
\<close>

lemma enqueue_outcome:
  assumes "enqueue_job sha c q d = Inr (d', i, inserted)"
  shows "if list_ex (same_work (spec_dedup sha q) (q_reuse_terminal q)) (db_jobs d)
    then \<not> inserted \<and> d' = d \<and> (\<exists>j \<in> set (db_jobs d). j_id j = i \<and> same_work (spec_dedup sha q) (q_reuse_terminal q) j
      \<and> (\<forall>k \<in> set (db_jobs d). same_work (spec_dedup sha q) (q_reuse_terminal q) k \<longrightarrow> i \<le> j_id k))
    else inserted \<and> i = db_next_job d \<and> (\<exists>w b. db_jobs d' = db_jobs d @ [(pending_row q (spec_dedup sha q) (int_now c (q_now q)))\<lparr>j_id := i,
      j_revision := 1, j_workspace_id := w, j_work_budget_id := b\<rparr>])"
  using assms
proof (cases rule: enqueue_jobE)
  case (reused j)
  note j = first_by_id_Some [OF reused(1)]
  show ?thesis using j reused(2-4) by (auto simp: list_ex_iff)
next
  case (fresh d1)
  have "enqueue_job sha c q d = Inr (d', i, True)" using assms fresh(3) by simp
  then show ?thesis
  proof (rule enqueue_row)
    fix j w b
    assume "j = (pending_row q (spec_dedup sha q) (int_now c (q_now q)))\<lparr>j_id := i,
        j_revision := 1, j_workspace_id := w, j_work_budget_id := b\<rparr>"
      "i = db_next_job d" "db_jobs d' = db_jobs d @ [j]"
      "\<forall>k \<in> set (db_jobs d). \<not> same_work (spec_dedup sha q) (q_reuse_terminal q) k"
    then show ?thesis using fresh(3) by (auto simp: list_ex_iff)
  qed
qed

text \<open>
  C5. Submitted work is deduplicated. When a job with the same deduplication key is already there and is live (or in any state, where the submission may reuse finished
  work), nothing changes and the answer is the first such job by id. Otherwise exactly one pending job of the requested work is appended under a new id.
  The rule that no two live jobs share a key is kept, and submitting the same work again returns the same job and changes nothing.
\<close>

theorem submission_deduplicated:
  assumes "live_dedup_ok d" "enqueue_job sha c q d = Inr (d', i, inserted)"
  shows "(if \<exists>j \<in> set (db_jobs d). j_dedup_key j = spec_dedup sha q \<and> (q_reuse_terminal q \<or> live_state (j_state j))
      then \<not> inserted \<and> d' = d
        \<and> (\<exists>j \<in> set (db_jobs d). j_id j = i \<and> j_dedup_key j = spec_dedup sha q \<and> (q_reuse_terminal q \<or> live_state (j_state j)))
        \<and> (\<forall>k \<in> set (db_jobs d). j_dedup_key k = spec_dedup sha q \<and> (q_reuse_terminal q \<or> live_state (j_state k)) \<longrightarrow> i \<le> j_id k)
      else inserted \<and> i = db_next_job d
        \<and> (\<exists>j. db_jobs d' = db_jobs d @ [j] \<and> j_id j = i \<and> j_state j = Pending \<and> j_dedup_key j = spec_dedup sha q
          \<and> j_provider j = q_provider q \<and> j_kind j = q_kind q \<and> j_target j = strip (q_target q) \<and> j_params_json j = canonical_params (q_params q)
          \<and> j_crawl_run_id j = q_crawl_run_id q \<and> j_parent_job_id j = q_parent_job_id q \<and> j_priority j = q_priority q \<and> j_depth j = q_depth q))
    \<and> live_dedup_ok d' \<and> enqueue_job sha c q d' = Inr (d', i, False)"
proof -
  have "\<exists>j. db_jobs d' = db_jobs d @ [j] \<and> j_id j = i \<and> j_state j = Pending \<and> j_dedup_key j = spec_dedup sha q
          \<and> j_provider j = q_provider q \<and> j_kind j = q_kind q \<and> j_target j = strip (q_target q) \<and> j_params_json j = canonical_params (q_params q)
          \<and> j_crawl_run_id j = q_crawl_run_id q \<and> j_parent_job_id j = q_parent_job_id q \<and> j_priority j = q_priority q \<and> j_depth j = q_depth q"
    if "db_jobs d' = db_jobs d @ [(pending_row q (spec_dedup sha q) (int_now c (q_now q)))\<lparr>j_id := i, j_revision := 1, j_workspace_id := w, j_work_budget_id := b\<rparr>]"
    for w b using that by (simp add: pending_row_def)
  note row = this
  show ?thesis
  proof (cases "\<exists>j \<in> set (db_jobs d). same_work (spec_dedup sha q) (q_reuse_terminal q) j")
    case True
    then show ?thesis
      using enqueue_outcome [OF assms(2)] enqueue_live_dedup [OF assms] enqueue_again [OF assms(2)]
      unfolding list_ex_iff same_work_def if_P [OF True [unfolded same_work_def]] by blast
  next
    case False
    then show ?thesis
      using enqueue_outcome [OF assms(2)] enqueue_live_dedup [OF assms] enqueue_again [OF assms(2)] row
      unfolding list_ex_iff same_work_def if_not_P [OF False [unfolded same_work_def]] by blast
  qed
qed

definition sample_spec :: job_spec where
  "sample_spec = (spec (Some ''lichess'') ''fetch_user_games'' '' Alice '')\<lparr>q_now := Some 5\<rparr>"

theorem submission_deduplicated_witness:
  "case enqueue_job sample_sha (fresh_conn 7) sample_spec empty_db of
     Inr (d, i, inserted) \<Rightarrow> i = 1 \<and> inserted \<and> map j_target (db_jobs d) = [''Alice'']
       \<and> enqueue_job sample_sha (fresh_conn 7) sample_spec d = Inr (d, 1, False)
   | Inl _ \<Rightarrow> False"
proof -
  have run: "case enqueue_job sample_sha (fresh_conn 7) sample_spec empty_db of
     Inr (d, i, inserted) \<Rightarrow> i = 1 \<and> inserted \<and> map j_target (db_jobs d) = [''Alice''] | Inl _ \<Rightarrow> False"
    by code_simp
  then obtain d i b where e: "enqueue_job sample_sha (fresh_conn 7) sample_spec empty_db = Inr (d, i, b)"
    by (auto split: sum.splits prod.splits)
  have "live_dedup_ok empty_db" by (simp add: live_dedup_ok_def empty_db_def)
  from submission_deduplicated [OF this e] run e show ?thesis by simp
qed

text \<open>
  A deduplication key identifies the work: for an injective digest, equal keys mean the same
  provider, kind, run, target up to the normalization of its kind, and parameters up to key order.
\<close>

lemma dedup_key_identifies_work:
  assumes "inj sha" "wf_json (params_or_empty ps)" "wf_json (params_or_empty ps')"
    "make_dedup_key sha p k t ps r = make_dedup_key sha p' k' t' ps' r'"
  shows "p = p' \<and> k = k' \<and> normalize_target k t = normalize_target k' t'
    \<and> canonical_params ps = canonical_params ps' \<and> r = r'"
  using dedup_key_identity [OF assms] by blast

section \<open>Attempts\<close>

text \<open>
  The end of an attempt: a transient failure blocks the job until a delay has passed and counts
  one retry, as long as retries are left; the last one fails the job for good; any other outcome is
  stored as it is. The delay is at least the base delay and what the provider asked for, and at most
  the largest of the configured maximum, the caller's minimum and the provider's request.
\<close>

lemma attempt_ends_as_decided:
  assumes "finish_attempt c i outcome reason transient retry_after minimum_delay (Some policy) now d = Inr (d', s)"
    "get_row d i = Some j" "make_worker_settings policy = Inr policy" "0 \<le> j_retry_count j"
  shows "let delay = retry_delay_s policy (j_retry_count j) minimum_delay retry_after in
    map_option verdict (get_row d' i) = Some
      (if transient \<and> j_retry_count j < job_max_retries policy
       then (Blocked, j_retry_count j + 1, Some (float_now c now + delay), Some reason, None)
       else if transient
       then (Error, j_retry_count j, None, Some (''Retry limit reached: '' @ reason), Some (trunc_rat (float_now c now)))
       else (outcome, j_retry_count j, None, Some reason,
             if terminal_state outcome then Some (trunc_rat (float_now c now)) else None))
    \<and> job_retry_base_s policy \<le> delay \<and> coalesce retry_after 0 \<le> delay
    \<and> delay \<le> max (max (job_retry_max_s policy) minimum_delay) (coalesce retry_after 0)"
  unfolding Let_def
  by (intro conjI finish_attempt_verdict(1) [OF assms(1,2), unfolded coalesce_simps]
      retry_delay_bounds(1,3,4) [OF assms(3,4)])

section \<open>Runs and announcements\<close>

text \<open>
  A run's status is derived from its jobs: running while a job runs or is ready to run, paused
  while one is blocked, failed when one failed, done otherwise; it is finished exactly in the last
  two cases. An explicit cancellation is never reopened, and other runs are untouched.
\<close>

lemma run_status_derived:
  assumes "run_row d run = Some r"
  shows "(if r_status r = Cancelled then run_row (refresh_run_status c run d) run = Some r
     else \<exists>r'. run_row (refresh_run_status c run d) run = Some r'
       \<and> r_status r' =
         (if (\<exists>j \<in> set (db_jobs d). run_job run Pending j \<and> processing_ready d j)
             \<or> (\<exists>j \<in> set (db_jobs d). run_job run In_progress j) then Running
          else if \<exists>j \<in> set (db_jobs d). run_job run Blocked j then Paused
          else if \<exists>j \<in> set (db_jobs d). run_job run Error j then Failed
          else Finished)
       \<and> (r_finished_at r' \<noteq> None \<longleftrightarrow> r_status r' \<in> {Failed, Finished}))
    \<and> (i \<noteq> run \<longrightarrow> run_row (refresh_run_status c run d) i = run_row d i)"
  using refresh_run_status_row [OF assms, of c] refresh_run_status_other [of i run c d]
  unfolding run_status_of_spec [symmetric] by (cases "r_status r = Cancelled") auto

definition run_db :: db where
  "run_db = empty_db\<lparr>
     db_runs := [\<lparr>r_id = 1, r_seed_spec = ''alice'', r_provider = Some ''lichess'', r_params_json = JObj [],
        r_status = Running, r_counters = None, r_started_at = 1, r_updated_at = 1, r_finished_at = None,
        r_revision = 1, r_workspace_id = ''local'', r_work_budget_id = None\<rparr>],
     db_next_run := 2,
     db_jobs := [sample_job\<lparr>j_crawl_run_id := Some 1, j_state := Error\<rparr>,
       sample_job\<lparr>j_id := 2, j_crawl_run_id := Some 1, j_state := Done\<rparr>], db_next_job := 3\<rparr>"

text \<open>
  C6. Every write of jobs is announced: in a session with events enabled, each revision of each job
  has exactly one event, the newest one describes the row, and every job that may be dispatched has
  a hint for its current revision; updating jobs and submitting one both keep this.
\<close>

theorem job_writes_announced:
  assumes "jobs_wf d" "announced d" "hinted d" "cn_events_enabled c"
    "(\<exists>p f. keeps_identity f \<and> update_jobs c p f d = Inr d') \<or> (\<exists>row i. insert_job c row d = Inr (d', i))"
  shows "jobs_wf d' \<and> announced d' \<and> hinted d'"
  using assms(5)
proof (elim disjE exE conjE)
  fix p f
  assume u: "keeps_identity f" "update_jobs c p f d = Inr d'"
  show ?thesis
    using update_jobs_wf [OF assms(1) u(2,1)] update_jobs_announced [OF assms(1,2,4) u(2,1)]
      update_jobs_hinted [OF assms(3) u(2,1)] by blast
next
  fix row i
  assume i: "insert_job c row d = Inr (d', i)"
  show ?thesis
    using insert_job_wf [OF assms(1) i] insert_job_announced [OF assms(1,2,4) i] insert_job_hinted [OF assms(3) i] by blast
qed

lemma empty_announced: "jobs_wf empty_db" "announced empty_db" "hinted empty_db"
  by (simp_all add: jobs_wf_def job_tab.unique_keys_def announced_def hinted_def empty_db_def)

theorem job_writes_announced_witness:
  "\<exists>d d'. insert_job (fresh_conn 7) sample_job empty_db = Inr (d, 1)
     \<and> update_jobs (fresh_conn 7) (\<lambda>j. j_id j = 1) (marked Done None 5) d = Inr d' \<and> announced d'"
proof -
  have "case insert_job (fresh_conn 7) sample_job empty_db of
      Inr (d, i) \<Rightarrow> i = 1 \<and> \<not> isl (update_jobs (fresh_conn 7) (\<lambda>j. j_id j = 1) (marked Done None 5) d)
    | Inl _ \<Rightarrow> False" by code_simp
  then obtain d d' where i: "insert_job (fresh_conn 7) sample_job empty_db = Inr (d, 1)"
    and u: "update_jobs (fresh_conn 7) (\<lambda>j. j_id j = 1) (marked Done None 5) d = Inr d'"
    by (auto split: sum.splits prod.splits simp: isl_def) (metis sum.exhaust)
  have ev: "cn_events_enabled (fresh_conn 7)" by (simp add: fresh_conn_def)
  have d: "jobs_wf d" "announced d" "hinted d"
    using insert_job_wf [OF empty_announced(1) i] insert_job_announced [OF empty_announced(1,2) ev i]
      insert_job_hinted [OF empty_announced(3) i] by blast+
  have "\<exists>p f. keeps_identity f \<and> update_jobs (fresh_conn 7) p f d = Inr d'" using keeps_identity_updates(1) u by blast
  from job_writes_announced [OF d ev disjI1 [OF this]] i u show ?thesis
    by (intro exI [of _ d] exI [of _ d'] conjI) simp_all
qed

end
