(* ===== verification/Budget_Properties.thy ===== *)
theory Budget_Properties
  imports Samples
begin

text \<open>
  What work budgets guarantee, over the definitions of \<open>Budgets\<close>: calendar periods, ceilings of
  jobs and workspaces, the ledger, refunds, distinct games, and versioned policies.
\<close>

section \<open>Periods\<close>

text \<open>
  The monthly period of a moment contains it, every moment of the period has the same period, and
  it is 28 to 31 days long: the periods tile the time line.
\<close>

lemma monthly_periods_tile:
  assumes "monthly_period now = Inr (s, e)"
  shows "s \<le> now \<and> now < e \<and> (\<forall>t. s \<le> t \<and> t < e \<longrightarrow> monthly_period t = Inr (s, e))
    \<and> 28 * 86400 \<le> e - s \<and> e - s \<le> 31 * 86400"
proof (rule monthly_periodE [OF assms])
  assume "s \<le> now" "now < e"
  then show ?thesis using monthly_period_same [OF assms] monthly_period_length [OF assms] by blast
qed

section \<open>Ceilings and the ledger\<close>

text \<open>
  C7. A request reservation passes no ceiling: afterwards the budget is within its job limits of
  requests, bytes and normalization units, the workspace's period is within the workspace limits,
  and the granted response limit is positive and within the policy's maximum.
\<close>

theorem reservation_within_ceilings:
  assumes "reserve_request c bid now d = Inr (d', rid, limit)"
  shows "\<exists>d1 b0 usage0 wp b usage. locked_budget bid (int_now c now) d = Inr (d1, b0, b_policy b0, usage0, wp)
    \<and> budget_row d' bid = Some b \<and> b_policy b = b_policy b0
    \<and> period_row d' (b_workspace_id b) (p_period_start usage0) = Some usage
    \<and> 1 \<le> limit \<and> limit \<le> max_response_bytes (b_policy b)
    \<and> b_remote_requests b \<le> job_max_remote_requests (b_policy b)
    \<and> b_remote_bytes b \<le> job_max_remote_bytes (b_policy b)
    \<and> b_normalization_units b \<le> job_max_normalization_units (b_policy b)
    \<and> p_remote_requests usage \<le> workspace_max_remote_requests wp
    \<and> p_remote_bytes usage \<le> workspace_max_remote_bytes wp
    \<and> p_normalization_units usage \<le> workspace_max_normalization_units wp"
  using assms
proof (rule reserve_request_rows)
  fix b usage wp
  assume rows: "budget_row d' bid = Some (charged_budget (read_allowance limit) b)"
      "period_row d' (b_workspace_id b) (p_period_start usage) = Some (charged_period (read_allowance limit) usage)"
    and lim: "1 \<le> limit" "limit \<le> max_response_bytes (b_policy b)"
    and bytes: "read_allowance limit \<le> job_max_remote_bytes (b_policy b) - b_remote_bytes b"
      "read_allowance limit \<le> workspace_max_remote_bytes wp - p_remote_bytes usage"
    and dims: "\<And>x. 1 \<le> job_max (b_policy b) x - budget_used b x \<and> 1 \<le> workspace_max wp x - period_used usage x"
    and l: "\<exists>d1. locked_budget bid (int_now c now) d = Inr (d1, b, b_policy b, usage, wp)"
  then obtain d1 where l: "locked_budget bid (int_now c now) d = Inr (d1, b, b_policy b, usage, wp)" by blast
  show ?thesis
    using rows lim bytes dims [of Remote_requests] dims [of Normalization_units] l
    by (intro exI [of _ d1] exI [of _ b] exI [of _ usage] exI [of _ wp]
        exI [of _ "charged_budget (read_allowance limit) b"] exI [of _ "charged_period (read_allowance limit) usage"])
      (auto simp: job_max_def workspace_max_def budget_used_def period_used_def)
qed

lemma sample_reserve:
  "case reserve_request (fresh_conn 7) 1 (Some 1709164800) budget_db of
     Inr (d, rid, limit) \<Rightarrow> rid = 1 \<and> limit = 16777216
       \<and> map b_remote_bytes (db_budgets d) = [16842752] \<and> map b_remote_requests (db_budgets d) = [1]
   | Inl _ \<Rightarrow> False"
  by code_simp

lemma sample_reserveE:
  obtains d where "reserve_request (fresh_conn 7) 1 (Some 1709164800) budget_db = Inr (d, 1, 16777216)"
    "map b_remote_bytes (db_budgets d) = [16842752]"
  using sample_reserve by (auto split: sum.splits prod.splits)

theorem reservation_within_ceilings_witness:
  "\<exists>d b. reserve_request (fresh_conn 7) 1 (Some 1709164800) budget_db = Inr (d, 1, 16777216)
     \<and> budget_row d 1 = Some b \<and> b_remote_bytes b \<le> job_max_remote_bytes (b_policy b)"
proof (rule sample_reserveE)
  fix d
  assume r: "reserve_request (fresh_conn 7) 1 (Some 1709164800) budget_db = Inr (d, 1, 16777216)"
  from reservation_within_ceilings [OF r] r show ?thesis by blast
qed

text \<open>
  The operations that move the counters, as runs of one ledger. A run carries the journal of the work it charged: for every request one
  normalization unit, for processing its units, and one game when the game is new to the budget; each entry names the budget and
  the workspace's month it is charged to.
\<close>

record journal_entry =
  je_budget :: int
  je_period :: "string \<times> int"
  je_units :: int
  je_games :: int

definition journal :: "conn \<Rightarrow> int \<Rightarrow> int option \<Rightarrow> int \<Rightarrow> bool \<Rightarrow> db \<Rightarrow> journal_entry list" where
  "journal c bid now units fresh d = (case (budget_row d bid, monthly_period (int_now c now)) of
       (Some b, Inr (s, _)) \<Rightarrow> [\<lparr>je_budget = bid, je_period = (b_workspace_id b, s), je_units = units, je_games = (if fresh then 1 else 0)\<rparr>]
     | _ \<Rightarrow> [])"

inductive ledger_run :: "db \<Rightarrow> journal_entry list \<Rightarrow> db \<Rightarrow> bool" where
  start: "ledger_run d [] d"
| reserve: "ledger_run d js d1 \<Longrightarrow> reserve_request c bid now d1 = Inr (d', rid, limit) \<Longrightarrow> ledger_run d (js @ journal c bid now 1 False d1) d'"
| settle: "ledger_run d js d1 \<Longrightarrow> settle_request rid consumed d1 = Inr d' \<Longrightarrow> ledger_run d js d'"
| normalize: "ledger_run d js d1 \<Longrightarrow> reserve_normalization c bid game now units d1 = Inr (d', fresh)
    \<Longrightarrow> ledger_run d (js @ journal c bid now units fresh d1) d'"
| game: "ledger_run d js d1 \<Longrightarrow> reserve_game c bid key now d1 = Inr (d', fresh) \<Longrightarrow> ledger_run d (js @ journal c bid now 0 fresh d1) d'"

text \<open>A counter of a budget or of a period, zero where there is no row, and the sum of a journal's entries.\<close>

definition budget_count :: "(budget \<Rightarrow> int) \<Rightarrow> db \<Rightarrow> int \<Rightarrow> int" where
  "budget_count f d i = (case budget_row d i of None \<Rightarrow> 0 | Some b \<Rightarrow> f b)"

definition period_count :: "(period \<Rightarrow> int) \<Rightarrow> db \<Rightarrow> string \<times> int \<Rightarrow> int" where
  "period_count f d k = (case period_row d (fst k) (snd k) of None \<Rightarrow> 0 | Some p \<Rightarrow> f p)"

definition work :: "(journal_entry \<Rightarrow> int) \<Rightarrow> (journal_entry \<Rightarrow> bool) \<Rightarrow> journal_entry list \<Rightarrow> int" where
  "work f q js = sum_list (map f (filter q js))"

definition adds :: "db \<Rightarrow> journal_entry list \<Rightarrow> db \<Rightarrow> bool" where
  "adds d js d' \<longleftrightarrow>
     (\<forall>i. budget_count b_normalization_units d' i = budget_count b_normalization_units d i + work je_units (\<lambda>x. je_budget x = i) js
        \<and> budget_count b_games d' i = budget_count b_games d i + work je_games (\<lambda>x. je_budget x = i) js)
   \<and> (\<forall>k. period_count p_normalization_units d' k = period_count p_normalization_units d k + work je_units (\<lambda>x. je_period x = k) js
        \<and> period_count p_games d' k = period_count p_games d k + work je_games (\<lambda>x. je_period x = k) js)
   \<and> (\<forall>x \<in> set js. 0 \<le> je_units x \<and> 0 \<le> je_games x)"

lemma work_simps [simp]: "work f q [] = 0" "work f q (x # xs) = (if q x then f x else 0) + work f q xs" "work f q (xs @ ys) = work f q xs + work f q ys"
  by (simp_all add: work_def)

lemma adds_refl: "adds d [] d"
  by (simp add: adds_def)

lemma adds_trans: "adds d js d1 \<Longrightarrow> adds d1 ks d2 \<Longrightarrow> adds d (js @ ks) d2"
  unfolding adds_def by auto

text \<open>Charging the budget and the month that \<open>locked_budget\<close> found.\<close>

lemma charge_adds:
  assumes lock: "locked_budget bid (int_now c now) d = Inr (d1, b, policy, usage, wp)"
    and d': "db_budgets d' = update_where (\<lambda>b. b_id b = bid) fb (db_budgets d1)"
      "db_periods d' = update_where (at_period (b_workspace_id b) (p_period_start usage)) fp (db_periods d1)"
    and keys: "\<And>b. b_id (fb b) = b_id b" "\<And>p. p_workspace_id (fp p) = p_workspace_id p \<and> p_period_start (fp p) = p_period_start p"
    and units: "\<And>b. b_normalization_units (fb b) = b_normalization_units b + units" "\<And>p. p_normalization_units (fp p) = p_normalization_units p + units"
    and games: "\<And>b. b_games (fb b) = b_games b + (if fresh then 1 else 0)" "\<And>p. p_games (fp p) = p_games p + (if fresh then 1 else 0)"
    and pos: "0 \<le> units"
  shows "adds d (journal c bid now units fresh d) d'"
proof -
  obtain s e ps where b: "budget_row d bid = Some b" and m: "monthly_period (int_now c now) = Inr (s, e)" and ps: "db_periods d1 = db_periods d @ ps"
    and row: "period_row d1 (b_workspace_id b) s = Some usage" and at: "at_period (b_workspace_id b) s usage"
    and new: "ps = [] \<or> (ps = [usage] \<and> zero_period usage \<and> period_row d (b_workspace_id b) s = None)"
    and fr: "budget_frame d1 = budget_frame d"
    using lock by (rule locked_budgetE)
  have start: "p_period_start usage = s" "at_period (b_workspace_id b) s usage" using at by (simp_all add: at_period_def)
  have budgets: "budget_row d1 i = budget_row d i" for i using budget_frame_fields [OF fr] by (simp add: budget_row_def)
  have opened: "period_count f d1 k = period_count f d k" if "\<And>p. zero_period p \<Longrightarrow> f p = 0" for f k
  proof (cases "ps = []")
    case False
    then have u: "ps = [usage]" "zero_period usage" "period_row d (b_workspace_id b) s = None" using new by auto
    have "period_row d1 (fst k) (snd k) = (case period_row d (fst k) (snd k) of None \<Rightarrow> if k = (b_workspace_id b, s) then Some usage else None | Some p \<Rightarrow> Some p)"
      using at ps u(1) by (auto simp: period_row_def find_row_append at_period_def prod_eq_iff split: option.splits)
    then show ?thesis using u that by (auto simp: period_count_def split: option.splits)
  qed (simp add: period_count_def period_row_def ps)
  have charged: "d1\<lparr>db_budgets := db_budgets d', db_periods := db_periods d'\<rparr> = charge bid (b_workspace_id b) s fb fp d1"
    by (simp add: charge_def d' start(1))
  have rows: "budget_row d' i = budget_row (charge bid (b_workspace_id b) s fb fp d1) i"
      "period_row d' w t = period_row (charge bid (b_workspace_id b) s fb fp d1) w t" for i w t
    unfolding charged [symmetric] by (simp_all add: budget_row_def period_row_def)
  note after = rows [unfolded charge_rows [of fb fp, OF keys]]
  have bc: "budget_count f d' i = budget_count f d i + (if bid = i then n else 0)" if "\<And>b. f (fb b) = f b + n" for f n i
    using that b by (auto simp: budget_count_def after(1) budgets split: option.splits)
  have pc: "period_count f d' k = period_count f d k + (if (b_workspace_id b, s) = k then n else 0)"
    if "\<And>p. f (fp p) = f p + n" "\<And>p. zero_period p \<Longrightarrow> f p = 0" for f n k
  proof -
    have "period_count f d' k = period_count f d1 k + (if (b_workspace_id b, s) = k then n else 0)"
      using that(1) row by (auto simp: period_count_def after(2) prod_eq_iff split: option.splits)
    then show ?thesis using opened [of f k, OF that(2)] by simp
  qed
  have zero: "zero_period p \<Longrightarrow> p_normalization_units p = 0" "zero_period p \<Longrightarrow> p_games p = 0" for p by (simp_all add: zero_period_def)
  show ?thesis
    unfolding adds_def journal_def
    using b m pos bc [of b_normalization_units, OF units(1)] bc [of b_games, OF games(1)]
      pc [of p_normalization_units, OF units(2) zero(1)] pc [of p_games, OF games(2) zero(2)]
    by simp
qed

lemma reserve_request_adds:
  assumes "reserve_request c bid now d = Inr (d', rid, limit)"
  shows "adds d (journal c bid now 1 False d) d'"
  using assms by (rule reserve_requestE)
    (rule charge_adds [where fb = "charged_budget (read_allowance limit)" and fp = "charged_period (read_allowance limit)"], simp_all)

lemma settle_request_adds:
  assumes "settle_request rid consumed d = Inr d'"
  shows "adds d [] d'"
  using assms
proof (cases rule: settle_requestE)
  case (2 row)
  let ?n = "rs_reserved_bytes row - consumed"
  have "b_normalization_units (refunded_budget n b) = b_normalization_units b" "b_games (refunded_budget n b) = b_games b"
    "p_normalization_units (refunded_period n p) = p_normalization_units p" "p_games (refunded_period n p) = p_games p" for n b p
    by (simp_all add: refunded_budget_def refunded_period_def)
  moreover have "budget_row d' i = (if i = rs_budget_id row then map_option (refunded_budget ?n) (budget_row d i) else budget_row d i)"
    "period_row d' w t = (if (w, t) = (rs_workspace_id row, rs_period_start row) then map_option (refunded_period ?n) (period_row d w t)
       else period_row d w t)" for i w t
    using charge_rows [of "refunded_budget ?n" "refunded_period ?n" "rs_budget_id row" "rs_workspace_id row" "rs_period_start row" d]
    by (simp_all add: 2(5) budget_row_def period_row_def)
  ultimately show ?thesis by (auto simp: adds_def budget_count_def period_count_def split: option.splits)
qed (simp add: adds_refl)

lemma update_where_same: "update_where p (\<lambda>x. x) xs = xs"
  by (induction xs) simp_all

lemma reserve_processing_adds:
  assumes "reserve_processing_work c bid game_key units now d = Inr (d', fresh)" "0 \<le> units"
  shows "adds d (journal c bid now units fresh d) d'"
  using assms(1)
proof (rule reserve_processing_workE)
  fix d1 b policy usage wp items games
  assume l: "locked_budget bid (int_now c now) d = Inr (d1, b, policy, usage, wp)"
    and n: "games = int (length items)" "fresh = (games = 1)"
    and items: "case game_key of None \<Rightarrow> items = [] | Some g \<Rightarrow> items = (if (bid, g) \<in> set (db_game_items d1) then [] else [(bid, g)])"
    and d': "d' = (if units = 0 \<and> games = 0 then d1
       else charge bid (b_workspace_id b) (p_period_start usage) (worked_budget units games (int_now c now))
          (worked_period units games) (d1\<lparr>db_game_items := db_game_items d1 @ items\<rparr>))"
  have g: "games = (if fresh then 1 else 0)" using n items by (auto split: option.splits if_splits)
  show ?thesis
  proof (cases "units = 0 \<and> games = 0")
    case True
    then show ?thesis
      using d' g by (intro charge_adds [OF l, where fb = "\<lambda>b. b" and fp = "\<lambda>p. p"]) (simp_all add: update_where_same)
  next
    case False
    have "d' = charge bid (b_workspace_id b) (p_period_start usage) (worked_budget units games (int_now c now))
          (worked_period units games) (d1\<lparr>db_game_items := db_game_items d1 @ items\<rparr>)"
      unfolding d' using False by (rule if_not_P)
    then show ?thesis
      using g assms(2)
      by (intro charge_adds [OF l, where fb = "worked_budget units games (int_now c now)" and fp = "worked_period units games"]) simp_all
  qed
qed

lemma ledger_run_ok: "ledger_run d js d' \<Longrightarrow> ledger_ok d \<Longrightarrow> ledger_ok d'"
  by (induction rule: ledger_run.induct)
    (auto simp: reserve_normalization_def reserve_game_def split: if_splits
      dest: reserve_request_ledger settle_request_ledger reserve_processing_ledger)

lemma ledger_run_adds: "ledger_run d js d' \<Longrightarrow> adds d js d'"
proof (induction rule: ledger_run.induct)
  case (settle d js d1 rid consumed d')
  then show ?case using adds_trans [OF settle(3) settle_request_adds [OF settle(2)]] by simp
next
  case (normalize d js d1 c bid game now units d' fresh)
  then show ?case
    by (intro adds_trans [OF normalize(3)] reserve_processing_adds) (auto simp: reserve_normalization_def split: if_splits)
next
  case (game d js d1 c bid key now d' fresh)
  then show ?case by (intro adds_trans [OF game(3)] reserve_processing_adds) (auto simp: reserve_game_def)
qed (auto intro: adds_refl adds_trans reserve_request_adds)

text \<open>No counter of a budget or period is negative.\<close>

definition no_debt :: "db \<Rightarrow> bool" where
  "no_debt d \<longleftrightarrow> list_all (\<lambda>b. 0 \<le> b_remote_requests b \<and> 0 \<le> b_remote_bytes b \<and> 0 \<le> b_games b \<and> 0 \<le> b_normalization_units b) (db_budgets d)
     \<and> list_all (\<lambda>p. 0 \<le> p_remote_requests p \<and> 0 \<le> p_remote_bytes p \<and> 0 \<le> p_games p \<and> 0 \<le> p_normalization_units p) (db_periods d)"

lemma work_nonneg: "(\<And>x. x \<in> set js \<Longrightarrow> 0 \<le> f x) \<Longrightarrow> 0 \<le> work f q js"
  by (induction js) auto

lemma no_debt_rows:
  assumes "no_debt d"
  shows "0 \<le> budget_count b_normalization_units d i" "0 \<le> budget_count b_games d i" "0 \<le> period_count p_normalization_units d k" "0 \<le> period_count p_games d k"
  using assms by (auto simp: no_debt_def list_all_iff budget_count_def period_count_def budget_row_def period_row_def split: option.splits dest!: find_row_Some)

lemma row_counts:
  assumes "ledger_ok d"
  shows "b \<in> set (db_budgets d) \<Longrightarrow> budget_count f d (b_id b) = f b" "p \<in> set (db_periods d) \<Longrightarrow> period_count h d (period_key p) = h p"
  using assms budget_tab.lookup_unique [of "db_budgets d" b] period_tab.lookup_unique [of "db_periods d" p]
  by (simp_all add: ledger_ok_def keys_ok_def budget_count_def period_count_def budget_row_lookup period_row_lookup period_key_def)

text \<open>
  C8. After any sequence of reservations, settlements and processing work the ledger is in balance. The bytes and requests of each
  budget and each period are the sums over their reservations (the whole allowance until one is settled, then the bytes read) and each budget's
  games are its distinct game items. The normalization units and the games of each budget and of each workspace's month have grown by exactly what
  the work charged to them: one unit for every request, the units of processing, and one game whenever a game was new to its budget.
  No counter is negative.
\<close>

theorem ledger_balanced:
  assumes "ledger_run d js d'" "ledger_ok d" "no_debt d"
  shows "ledger_ok d' \<and> no_debt d'
    \<and> list_all (\<lambda>b. b_normalization_units b = budget_count b_normalization_units d (b_id b) + work je_units (\<lambda>x. je_budget x = b_id b) js
         \<and> b_games b = budget_count b_games d (b_id b) + work je_games (\<lambda>x. je_budget x = b_id b) js) (db_budgets d')
    \<and> list_all (\<lambda>p. p_normalization_units p = period_count p_normalization_units d (period_key p) + work je_units (\<lambda>x. je_period x = period_key p) js
         \<and> p_games p = period_count p_games d (period_key p) + work je_games (\<lambda>x. je_period x = period_key p) js) (db_periods d')"
proof -
  have ok: "ledger_ok d'" using ledger_run_ok assms(1,2) by blast
  have sums: "adds d js d'" using ledger_run_adds assms(1) by blast
  have pos: "0 \<le> work je_units q js" "0 \<le> work je_games q js" for q
    using sums by (auto simp: adds_def intro: work_nonneg)
  have b: "b_normalization_units b = budget_count b_normalization_units d (b_id b) + work je_units (\<lambda>x. je_budget x = b_id b) js
       \<and> b_games b = budget_count b_games d (b_id b) + work je_games (\<lambda>x. je_budget x = b_id b) js" if "b \<in> set (db_budgets d')" for b
    using sums row_counts(1) [OF ok that] unfolding adds_def by metis
  have p: "p_normalization_units p = period_count p_normalization_units d (period_key p) + work je_units (\<lambda>x. je_period x = period_key p) js
       \<and> p_games p = period_count p_games d (period_key p) + work je_games (\<lambda>x. je_period x = period_key p) js" if "p \<in> set (db_periods d')" for p
    using sums row_counts(2) [OF ok that] unfolding adds_def by metis
  have "no_debt d'"
    unfolding no_debt_def list_all_iff using ledger_nonneg [OF ok] b p pos no_debt_rows [OF assms(3)] by simp
  then show ?thesis using ok b p by (simp add: list_all_iff)
qed

lemma budget_db_ok: "ledger_ok budget_db"
  by (simp add: ledger_ok_def keys_ok_def budget_tab.unique_keys_def period_tab.unique_keys_def
      reservation_tab.unique_keys_def budget_db_def empty_db_def sample_budget_def)

lemma sample_work:
  "case reserve_request (fresh_conn 7) 1 (Some 1709164800) budget_db of
     Inr (d1, rid, limit) \<Rightarrow> (case reserve_normalization (fresh_conn 7) 1 (Some ''g'') (Some 1709164800) 3 d1 of
         Inr (d2, fresh) \<Rightarrow> fresh \<and> map p_normalization_units (db_periods d2) = [4] \<and> map p_games (db_periods d2) = [1]
           \<and> map je_units (journal (fresh_conn 7) 1 (Some 1709164800) 3 fresh d1) = [3]
       | Inl _ \<Rightarrow> False)
   | Inl _ \<Rightarrow> False"
  by code_simp

theorem ledger_balanced_witness:
  "\<exists>d js. ledger_run budget_db js d \<and> map je_units js = [1, 3] \<and> ledger_ok d \<and> no_debt d \<and> map p_normalization_units (db_periods d) = [4]"
proof -
  obtain d1 rid limit d2 where r: "reserve_request (fresh_conn 7) 1 (Some 1709164800) budget_db = Inr (d1, rid, limit)"
      and n: "reserve_normalization (fresh_conn 7) 1 (Some ''g'') (Some 1709164800) 3 d1 = Inr (d2, True)"
      and u: "map p_normalization_units (db_periods d2) = [4]" "map je_units (journal (fresh_conn 7) 1 (Some 1709164800) 3 True d1) = [3]"
    using sample_work by (auto split: sum.splits prod.splits)
  have one: "map je_units (journal (fresh_conn 7) 1 (Some 1709164800) 1 False budget_db) = [1]" by code_simp
  note run = ledger_run.normalize [OF ledger_run.reserve [OF ledger_run.start r] n]
  have debt: "no_debt budget_db" by code_simp
  from ledger_balanced [OF run budget_db_ok debt] run one u show ?thesis
    by (intro exI [of _ d2] exI [of _ "([] @ journal (fresh_conn 7) 1 (Some 1709164800) 1 False budget_db) @ journal (fresh_conn 7) 1 (Some 1709164800) 3 True d1"]) simp
qed

end
