(* ===== verification/Workers.thy ===== *)
theory Workers
  imports Jobs
begin

text \<open>
  Worker liveness: the heartbeat operations of jobs/state.py, the worker view of
  storage/workspaces.py and the process binding of jobs/worker\_identity.py. A heartbeat row says
  that a worker reported in; it never grants execution rights (theory \<open>Claim\<close> does, by locks).
  Texts compare by code points, as under the collation \<open>C\<close>.
\<close>

section \<open>Heartbeats\<close>

definition WORKER_HISTORY_SECONDS :: rat where
  "WORKER_HISTORY_SECONDS = 86400"

definition WORKER_SNAPSHOT_LIMIT :: nat where
  "WORKER_SNAPSHOT_LIMIT = 128"

definition WORKER_PRUNE_LIMIT :: nat where
  "WORKER_PRUNE_LIMIT = 256"

definition reporting :: "worker_status \<Rightarrow> bool" where
  "reporting s \<longleftrightarrow> s = W_running \<or> s = W_stopping"

definition worker_row :: "db \<Rightarrow> string \<Rightarrow> heartbeat option" where
  "worker_row d w = find_row (\<lambda>h. h_worker_id h = w) (db_heartbeats d)"

definition prunable :: "rat \<Rightarrow> heartbeat \<Rightarrow> bool" where
  "prunable t h \<longleftrightarrow> (h_status h = W_stopped \<or> h_status h = W_failed)
     \<and> h_heartbeat_at h < t - WORKER_HISTORY_SECONDS \<and> h_heartbeat_expires_at h \<le> t"

definition expired_workers :: "conn \<Rightarrow> rat \<Rightarrow> db \<Rightarrow> string list" where
  "expired_workers c t d = map h_worker_id (take WORKER_PRUNE_LIMIT
     (sort_key (\<lambda>h. (h_heartbeat_at h, h_worker_id h))
       (filter (\<lambda>h. prunable t h \<and> h_worker_id h \<notin> set (cn_locked_workers c)) (db_heartbeats d))))"

text \<open>\<open>_prune_worker_heartbeats\<close>: the database and the number of deleted rows.\<close>

definition prune_expired :: "conn \<Rightarrow> rat \<Rightarrow> db \<Rightarrow> db \<times> int" where
  "prune_expired c t d = (let gone = expired_workers c t d in
     (d\<lparr>db_heartbeats := filter (\<lambda>h. h_worker_id h \<notin> set gone) (db_heartbeats d)\<rparr>, int (length gone)))"

definition prune_worker_heartbeats :: "conn \<Rightarrow> rat option \<Rightarrow> db \<Rightarrow> db \<times> int" where
  "prune_worker_heartbeats c now d = prune_expired c (float_now c now) d"

definition started :: "rat \<Rightarrow> rat \<Rightarrow> heartbeat \<Rightarrow> heartbeat" where
  "started t max_age h = h\<lparr>h_started_at := t, h_heartbeat_at := t, h_heartbeat_expires_at := t + max_age,
     h_stopped_at := None, h_status := W_running\<rparr>"

definition upsert_worker :: "string \<Rightarrow> rat \<Rightarrow> rat \<Rightarrow> db \<Rightarrow> db" where
  "upsert_worker w t max_age d =
     d\<lparr>db_heartbeats := (if worker_row d w \<noteq> None
         then update_where (\<lambda>h. h_worker_id h = w) (started t max_age) (db_heartbeats d)
         else db_heartbeats d @ [\<lparr>h_worker_id = w, h_started_at = t, h_heartbeat_at = t,
           h_heartbeat_expires_at = t + max_age, h_stopped_at = None, h_current_job_id = None,
           h_status = W_running\<rparr>])\<rparr>"

definition start_worker ::
  "conn \<Rightarrow> string \<Rightarrow> lease \<Rightarrow> rat \<Rightarrow> rat option \<Rightarrow> db \<Rightarrow> db result" where
  "start_worker c w lease max_age now d =
     rbind (snd (lease_require lease c ''worker'' d)) (\<lambda>_.
     let t = float_now c now in Inr (fst (prune_expired c t (upsert_worker w t max_age d))))"

definition beat :: "rat \<Rightarrow> rat \<Rightarrow> int option \<Rightarrow> bool \<Rightarrow> heartbeat \<Rightarrow> heartbeat" where
  "beat t max_age job stopping h = h\<lparr>h_heartbeat_at := t, h_heartbeat_expires_at := t + max_age,
     h_current_job_id := job, h_status := (if stopping then W_stopping else W_running)\<rparr>"

text \<open>Returns whether exactly one reporting row of the worker was there to update.\<close>

definition heartbeat_worker ::
  "conn \<Rightarrow> string \<Rightarrow> rat \<Rightarrow> int option \<Rightarrow> bool \<Rightarrow> rat option \<Rightarrow> db \<Rightarrow> db \<times> bool" where
  "heartbeat_worker c w max_age job stopping now d =
     (let t = float_now c now; p = (\<lambda>h. h_worker_id h = w \<and> reporting (h_status h)) in
      (fst (prune_expired c t (d\<lparr>db_heartbeats := update_where p (beat t max_age job stopping) (db_heartbeats d)\<rparr>)),
       count_where p (db_heartbeats d) = 1))"

definition stopped :: "rat \<Rightarrow> bool \<Rightarrow> heartbeat \<Rightarrow> heartbeat" where
  "stopped t failed h = h\<lparr>h_status := (if failed then W_failed else W_stopped), h_heartbeat_at := t,
     h_heartbeat_expires_at := t, h_stopped_at := Some t, h_current_job_id := None\<rparr>"

definition stop_worker :: "conn \<Rightarrow> string \<Rightarrow> bool \<Rightarrow> rat option \<Rightarrow> db \<Rightarrow> db" where
  "stop_worker c w failed now d = (let t = float_now c now in
     fst (prune_expired c t
       (d\<lparr>db_heartbeats := update_where (\<lambda>h. h_worker_id h = w) (stopped t failed) (db_heartbeats d)\<rparr>)))"

definition alive_at :: "rat \<Rightarrow> heartbeat \<Rightarrow> bool" where
  "alive_at t h \<longleftrightarrow> reporting (h_status h) \<and> h_heartbeat_expires_at h > t"

definition worker_alive :: "conn \<Rightarrow> string \<Rightarrow> rat option \<Rightarrow> db \<Rightarrow> bool" where
  "worker_alive c w now d \<longleftrightarrow> (\<exists>h \<in> set (db_heartbeats d). h_worker_id h = w \<and> alive_at (float_now c now) h)"

section \<open>The worker view\<close>

record worker_view =
  v_alive :: bool
  v_row :: heartbeat
  v_age_seconds :: rat

text \<open>
  The answer of \<open>worker_status\<close>: the first worker's columns (none when absent), the metadata, and
  the listed workers.
\<close>

record worker_snapshot =
  s_first :: "worker_view option"
  s_active_workers :: int
  s_worker_limit :: nat
  s_workers_truncated :: bool
  s_workers :: "worker_view list"

definition active_worker :: "rat \<Rightarrow> rat option \<Rightarrow> heartbeat \<Rightarrow> bool" where
  "active_worker t max_age h \<longleftrightarrow> alive_at t h
     \<and> (case max_age of None \<Rightarrow> True | Some m \<Rightarrow> h_heartbeat_at h > t - m)"

definition recent_first :: "heartbeat list \<Rightarrow> heartbeat list" where
  "recent_first hs = sort_key (\<lambda>h. (- h_heartbeat_at h, h_worker_id h)) hs"

definition snapshot_candidates :: "rat \<Rightarrow> rat option \<Rightarrow> heartbeat list \<Rightarrow> (bool \<times> heartbeat) list" where
  "snapshot_candidates t max_age hs =
     map (Pair True) (take (WORKER_SNAPSHOT_LIMIT + 1) (recent_first (filter (active_worker t max_age) hs)))
     @ map (Pair False) (take (WORKER_SNAPSHOT_LIMIT + 1) (recent_first
         (filter (\<lambda>h. h_heartbeat_at h \<ge> t - WORKER_HISTORY_SECONDS \<and> \<not> active_worker t max_age h) hs)))"

definition snapshot_rows :: "rat \<Rightarrow> rat option \<Rightarrow> heartbeat list \<Rightarrow> (bool \<times> heartbeat) list" where
  "snapshot_rows t max_age hs = take (WORKER_SNAPSHOT_LIMIT + 1)
     (sort_key (\<lambda>(a, h). (\<not> a, - h_heartbeat_at h, h_worker_id h)) (snapshot_candidates t max_age hs))"

definition view_of :: "rat \<Rightarrow> bool \<times> heartbeat \<Rightarrow> worker_view" where
  "view_of t r = \<lparr>v_alive = fst r, v_row = snd r, v_age_seconds = max 0 (t - h_heartbeat_at (snd r))\<rparr>"

definition worker_status :: "conn \<Rightarrow> rat option \<Rightarrow> rat option \<Rightarrow> db \<Rightarrow> worker_snapshot" where
  "worker_status c now max_age d =
     (let t = float_now c now;
          rows = snapshot_rows t max_age (db_heartbeats d);
          workers = map (view_of t) (take WORKER_SNAPSHOT_LIMIT rows)
      in \<lparr>s_first = (case workers of [] \<Rightarrow> None | v # _ \<Rightarrow> Some v),
          s_active_workers = count_where (active_worker t max_age) (db_heartbeats d),
          s_worker_limit = WORKER_SNAPSHOT_LIMIT,
          s_workers_truncated = (length rows > WORKER_SNAPSHOT_LIMIT),
          s_workers = workers\<rparr>)"

text \<open>\<open>worker_snapshot\<close> of storage/workspaces.py: another workspace's current job is hidden.\<close>

definition snapshot_jobs :: "worker_snapshot \<Rightarrow> int list" where
  "snapshot_jobs s = List.map_filter (\<lambda>v. h_current_job_id (v_row v))
     ((case s_first s of None \<Rightarrow> [] | Some v \<Rightarrow> [v]) @ s_workers s)"

definition allowed_jobs :: "worker_snapshot \<Rightarrow> string \<Rightarrow> db \<Rightarrow> int list" where
  "allowed_jobs s ws d = map j_id (filter (\<lambda>j. j_workspace_id j = ws \<and> j_id j \<in> set (snapshot_jobs s)) (db_jobs d))"

definition visible_view :: "int list \<Rightarrow> worker_view \<Rightarrow> worker_view" where
  "visible_view allowed v = (case h_current_job_id (v_row v) of
       None \<Rightarrow> v
     | Some i \<Rightarrow> if i \<in> set allowed then v else v\<lparr>v_row := (v_row v)\<lparr>h_current_job_id := None\<rparr>\<rparr>)"

definition workspace_snapshot :: "worker_snapshot \<Rightarrow> string \<Rightarrow> db \<Rightarrow> worker_snapshot" where
  "workspace_snapshot s ws d = (let allowed = allowed_jobs s ws d in
     s\<lparr>s_first := map_option (visible_view allowed) (s_first s),
       s_workers := map (visible_view allowed) (s_workers s)\<rparr>)"

section \<open>Laws\<close>

interpretation worker_tab: keyed_table h_worker_id .

definition workers_wf :: "db \<Rightarrow> bool" where
  "workers_wf d \<longleftrightarrow> worker_tab.unique_keys (db_heartbeats d)"

lemma worker_alive_lookup:
  assumes "workers_wf d"
  shows "worker_alive c w (Some u) d \<longleftrightarrow> (\<exists>h. worker_row d w = Some h \<and> alive_at u h)"
proof -
  have row: "worker_row d w = worker_tab.lookup w (db_heartbeats d)"
    by (simp add: worker_row_def worker_tab.lookup_def)
  have uk: "worker_tab.unique_keys (db_heartbeats d)" using assms by (simp add: workers_wf_def)
  have "worker_row d w = Some h \<longleftrightarrow> h \<in> set (db_heartbeats d) \<and> h_worker_id h = w" for h
    unfolding row using worker_tab.lookup_Some [of w "db_heartbeats d" h] worker_tab.lookup_unique [OF uk, of h] by blast
  then show ?thesis by (auto simp: worker_alive_def float_now_def)
qed

lemma expired_workers_prunable:
  assumes "w \<in> set (expired_workers c t d)"
  shows "\<exists>h \<in> set (db_heartbeats d). h_worker_id h = w \<and> prunable t h"
  using assms unfolding expired_workers_def by (auto dest!: in_set_takeD)

lemma prunable_not_alive: "prunable t h \<Longrightarrow> \<not> alive_at u h"
  by (auto simp: prunable_def alive_at_def reporting_def)

lemma prune_alive:
  assumes "workers_wf d"
  shows "worker_alive c x now (fst (prune_expired c' t d)) \<longleftrightarrow> worker_alive c x now d"
proof -
  have "h_worker_id h \<notin> set (expired_workers c' t d)"
    if h: "h \<in> set (db_heartbeats d)" "alive_at u h" for h u
  proof
    assume "h_worker_id h \<in> set (expired_workers c' t d)"
    then obtain g where g: "g \<in> set (db_heartbeats d)" "h_worker_id g = h_worker_id h" "prunable t g"
      using expired_workers_prunable by blast
    then have "g = h" using worker_tab.unique_key_eq assms h(1) by (simp add: workers_wf_def)
    then show False using g(3) h(2) prunable_not_alive by blast
  qed
  then show ?thesis by (auto simp: worker_alive_def prune_expired_def Let_def)
qed

lemma prune_wf: "workers_wf d \<Longrightarrow> workers_wf (fst (prune_expired c t d))"
  by (simp add: workers_wf_def worker_tab.unique_keys_def prune_expired_def Let_def distinct_map_filter)

lemma worker_row_update:
  assumes "\<And>h. h_worker_id (f h) = h_worker_id h"
  shows "worker_row (d\<lparr>db_heartbeats := update_where p f (db_heartbeats d)\<rparr>) w =
    map_option (\<lambda>h. if p h then f h else h) (worker_row d w)"
  using worker_tab.lookup_update [of f, OF assms] by (simp add: worker_row_def worker_tab.lookup_def)

lemma worker_row_update_key:
  assumes "\<And>h. h_worker_id (f h) = h_worker_id h"
  shows "worker_row (d\<lparr>db_heartbeats := update_where (\<lambda>h. h_worker_id h = w) f (db_heartbeats d)\<rparr>) x =
    (if x = w then map_option f (worker_row d x) else worker_row d x)"
  using worker_tab.lookup_update_key [of f, OF assms] by (simp add: worker_row_def worker_tab.lookup_def)

lemma worker_row_id: "worker_row d w = Some h \<Longrightarrow> h_worker_id h = w"
  by (auto simp: worker_row_def dest: find_row_Some)

lemma updated_wf:
  assumes "workers_wf d" "\<And>h. h_worker_id (f h) = h_worker_id h"
  shows "workers_wf (d\<lparr>db_heartbeats := update_where p f (db_heartbeats d)\<rparr>)"
  using worker_tab.unique_keys_update [OF _ assms(2)] assms(1) by (simp add: workers_wf_def)

lemma upsert_wf:
  assumes "workers_wf d"
  shows "workers_wf (upsert_worker w t m d)"
proof (cases "worker_row d w")
  case None
  then have "w \<notin> h_worker_id ` set (db_heartbeats d)" by (auto simp: worker_row_def find_row_None)
  then show ?thesis using assms None
    by (auto simp: upsert_worker_def workers_wf_def worker_tab.unique_keys_def)
next
  case (Some h)
  then show ?thesis using updated_wf [OF assms, of "started t m"] by (simp add: upsert_worker_def started_def)
qed

lemma upsert_row:
  "worker_row (upsert_worker w t m d) x =
    (if x = w then Some (coalesce (map_option (started t m) (worker_row d w)) \<lparr>h_worker_id = w, h_started_at = t,
       h_heartbeat_at = t, h_heartbeat_expires_at = t + m, h_stopped_at = None, h_current_job_id = None, h_status = W_running\<rparr>)
     else worker_row d x)"
proof (cases "worker_row d w")
  case None
  then show ?thesis
    by (auto simp: upsert_worker_def) (auto simp: worker_row_def find_row_append split: option.splits)
next
  case (Some h)
  then show ?thesis
    using worker_row_update_key [where f = "started t m" and d = d and w = w and x = x]
    by (simp add: upsert_worker_def started_def)
qed

lemma upsert_alive:
  assumes "workers_wf d"
  shows "worker_alive c x (Some u) (upsert_worker w t m d) \<longleftrightarrow>
    (if x = w then u < t + m else worker_alive c x (Some u) d)"
  by (auto simp: worker_alive_lookup [OF upsert_wf [OF assms]] worker_alive_lookup [OF assms] upsert_row
      started_def alive_at_def reporting_def coalesce_def split: option.splits)

lemma start_worker_alive:
  assumes "workers_wf d" "start_worker c w l m (Some t) d = Inr d'"
  shows "worker_alive c x (Some u) d' \<longleftrightarrow> (if x = w then u < t + m else worker_alive c x (Some u) d)"
    and "workers_wf d'"
proof -
  have d': "d' = fst (prune_expired c t (upsert_worker w t m d))"
    using assms(2) by (auto simp: start_worker_def rbind_eq_Inr Let_def float_now_def)
  show "worker_alive c x (Some u) d' \<longleftrightarrow> (if x = w then u < t + m else worker_alive c x (Some u) d)"
    unfolding d' prune_alive [OF upsert_wf [OF assms(1)]] by (rule upsert_alive [OF assms(1)])
  show "workers_wf d'" unfolding d' by (intro prune_wf upsert_wf assms(1))
qed

lemma reporting_count:
  assumes "workers_wf d"
  shows "count_where (\<lambda>h. h_worker_id h = w \<and> reporting (h_status h)) (db_heartbeats d) = 1 \<longleftrightarrow>
    (\<exists>h. worker_row d w = Some h \<and> reporting (h_status h))"
proof (cases "worker_row d w")
  case None
  then have "count_where (\<lambda>h. h_worker_id h = w \<and> reporting (h_status h)) (db_heartbeats d) = 0"
    by (auto simp: worker_row_def find_row_None count_where_zero)
  then show ?thesis using None by simp
next
  case (Some h)
  then have "h \<in> set (db_heartbeats d)" "h_worker_id h = w" by (auto simp: worker_row_def dest: find_row_Some)
  then show ?thesis
    using worker_tab.count_at_key [of "db_heartbeats d" h "\<lambda>h. reporting (h_status h)"] assms Some
    by (auto simp: workers_wf_def)
qed

lemma heartbeat_worker_alive:
  assumes "workers_wf d" "heartbeat_worker c w m job stopping (Some t) d = (d', owned)"
  shows "worker_alive c x (Some u) d' \<longleftrightarrow> (if x = w \<and> owned then u < t + m else worker_alive c x (Some u) d)"
    and "workers_wf d'"
proof -
  let ?p = "\<lambda>h. h_worker_id h = w \<and> reporting (h_status h)"
  let ?d = "d\<lparr>db_heartbeats := update_where ?p (beat t m job stopping) (db_heartbeats d)\<rparr>"
  have d': "d' = fst (prune_expired c t ?d)" and o: "owned \<longleftrightarrow> (\<exists>h. worker_row d w = Some h \<and> reporting (h_status h))"
    using assms(2) reporting_count [OF assms(1)] by (auto simp: heartbeat_worker_def Let_def float_now_def)
  have wf: "workers_wf ?d" by (rule updated_wf [OF assms(1)]) (simp add: beat_def)
  have row: "worker_row ?d x = map_option (\<lambda>h. if ?p h then beat t m job stopping h else h) (worker_row d x)"
    by (rule worker_row_update) (simp add: beat_def)
  show "worker_alive c x (Some u) d' \<longleftrightarrow> (if x = w \<and> owned then u < t + m else worker_alive c x (Some u) d)"
  proof (cases "worker_row d x")
    case None
    then show ?thesis
      unfolding d' prune_alive [OF wf] worker_alive_lookup [OF wf] worker_alive_lookup [OF assms(1)] row o by auto
  next
    case (Some h)
    then show ?thesis
      unfolding d' prune_alive [OF wf] worker_alive_lookup [OF wf] worker_alive_lookup [OF assms(1)] row o
      using worker_row_id [OF Some] by (cases "x = w") (auto simp: alive_at_def beat_def reporting_def)
  qed
  show "workers_wf d'" unfolding d' by (rule prune_wf [OF wf])
qed

lemma stop_worker_alive:
  assumes "workers_wf d"
  shows "worker_alive c x (Some u) (stop_worker c w failed (Some t) d) \<longleftrightarrow> x \<noteq> w \<and> worker_alive c x (Some u) d"
    and "workers_wf (stop_worker c w failed (Some t) d)"
proof -
  let ?d = "d\<lparr>db_heartbeats := update_where (\<lambda>h. h_worker_id h = w) (stopped t failed) (db_heartbeats d)\<rparr>"
  have wf: "workers_wf ?d" by (rule updated_wf [OF assms]) (simp add: stopped_def)
  have row: "worker_row ?d x = (if x = w then map_option (stopped t failed) (worker_row d x) else worker_row d x)"
    by (rule worker_row_update_key) (simp add: stopped_def)
  have st: "stop_worker c w failed (Some t) d = fst (prune_expired c t ?d)"
    by (simp add: stop_worker_def Let_def float_now_def)
  show "worker_alive c x (Some u) (stop_worker c w failed (Some t) d) \<longleftrightarrow> x \<noteq> w \<and> worker_alive c x (Some u) d"
    unfolding st prune_alive [OF wf] worker_alive_lookup [OF wf] worker_alive_lookup [OF assms] row
    by (auto simp: alive_at_def stopped_def reporting_def dest: worker_row_id)
  show "workers_wf (stop_worker c w failed (Some t) d)" unfolding st by (rule prune_wf [OF wf])
qed

text \<open>The view lists live workers first; the candidates are already in that order.\<close>

definition view_order :: "bool \<times> heartbeat \<Rightarrow> bool \<times> rat \<times> string" where
  "view_order r = (\<not> fst r, - h_heartbeat_at (snd r), h_worker_id (snd r))"

lemma recent_first_sorted: "sorted (map (\<lambda>h. (- h_heartbeat_at h, h_worker_id h)) (take n (recent_first hs)))"
  unfolding recent_first_def take_map [symmetric] by (rule sorted_wrt_take) simp

lemma set_recent_first [simp]: "set (recent_first hs) = set hs" "length (recent_first hs) = length hs"
  by (simp_all add: recent_first_def)

lemma view_order_flag:
  "sorted (map (\<lambda>h. (- h_heartbeat_at h, h_worker_id h)) hs) \<Longrightarrow> sorted (map view_order (map (Pair a) hs))"
  by (induction hs) (auto simp: view_order_def less_eq_prod_def)

lemma snapshot_candidates_sorted: "sorted (map view_order (snapshot_candidates t m hs))"
  unfolding snapshot_candidates_def map_append sorted_append
  by (intro conjI view_order_flag recent_first_sorted) (auto simp: view_order_def less_eq_prod_def)

lemma snapshot_rows_eq: "snapshot_rows t m hs = take (WORKER_SNAPSHOT_LIMIT + 1) (snapshot_candidates t m hs)"
proof -
  have "(\<lambda>(a, h). (\<not> a, - h_heartbeat_at h, h_worker_id h)) = view_order"
    by (auto simp: view_order_def fun_eq_iff)
  then show ?thesis
    using sort_key_id_if_sorted [OF snapshot_candidates_sorted] by (simp add: snapshot_rows_def)
qed

lemma snapshot_candidates_flag:
  "(a, h) \<in> set (snapshot_candidates t m hs) \<Longrightarrow> h \<in> set hs \<and> (a \<longleftrightarrow> active_worker t m h)"
  by (auto simp: snapshot_candidates_def dest!: in_set_takeD)

lemma worker_status_workers:
  "s_workers (worker_status c (Some t) m d) =
     map (view_of t) (take WORKER_SNAPSHOT_LIMIT (snapshot_candidates t m (db_heartbeats d)))"
  by (simp add: worker_status_def Let_def float_now_def snapshot_rows_eq min_absorb1)

lemma all_active_listed:
  assumes "count_where (active_worker t m) hs \<le> int WORKER_SNAPSHOT_LIMIT" "h \<in> set hs" "active_worker t m h"
  shows "(True, h) \<in> set (take WORKER_SNAPSHOT_LIMIT (snapshot_candidates t m hs))"
proof -
  let ?A = "recent_first (filter (active_worker t m) hs)"
  have l: "length ?A \<le> WORKER_SNAPSHOT_LIMIT" using assms(1) by (simp add: count_where_def)
  then have "take WORKER_SNAPSHOT_LIMIT (snapshot_candidates t m hs)
    = map (Pair True) ?A @ take (WORKER_SNAPSHOT_LIMIT - length ?A) (map (Pair False) (take (WORKER_SNAPSHOT_LIMIT + 1)
        (recent_first (filter (\<lambda>h. h_heartbeat_at h \<ge> t - WORKER_HISTORY_SECONDS \<and> \<not> active_worker t m h) hs))))"
    by (simp add: snapshot_candidates_def)
  then show ?thesis using assms(2,3) by simp
qed

lemma visible_view_job:
  "h_current_job_id (v_row (visible_view allowed v)) = Some i \<Longrightarrow> i \<in> set allowed"
  by (auto simp: visible_view_def split: option.splits if_splits)

lemma allowed_jobs_own: "i \<in> set (allowed_jobs s ws d) \<Longrightarrow> \<exists>j \<in> set (db_jobs d). j_id j = i \<and> j_workspace_id j = ws"
  by (auto simp: allowed_jobs_def)

end
