(* ===== verification/Worker_Properties.thy ===== *)
theory Worker_Properties
  imports Workers Samples
begin

text \<open>What worker heartbeats and the worker view guarantee, over the definitions of \<open>Workers\<close>.\<close>

text \<open>
  A worker's reports alone decide its liveness: after it starts or reports at time t it is alive
  exactly until t plus the maximal age, a report of a worker that is not registered as running
  changes nothing, after it stops it is not alive, and no operation (nor the pruning each one
  does) changes the liveness of another worker.
\<close>

lemma worker_liveness_exact:
  assumes "workers_wf d"
  shows "(\<forall>l d1. start_worker c w l m (Some t) d = Inr d1 \<longrightarrow>
        worker_alive c x (Some u) d1 = (if x = w then u < t + m else worker_alive c x (Some u) d))
    \<and> (\<forall>job stopping d2 owned. heartbeat_worker c w m job stopping (Some t) d = (d2, owned) \<longrightarrow>
        worker_alive c x (Some u) d2 = (if x = w \<and> owned then u < t + m else worker_alive c x (Some u) d))
    \<and> (\<forall>failed. worker_alive c x (Some u) (stop_worker c w failed (Some t) d)
        \<longleftrightarrow> x \<noteq> w \<and> worker_alive c x (Some u) d)"
  by (intro conjI allI impI start_worker_alive(1) [OF assms] heartbeat_worker_alive(1) [OF assms]
      stop_worker_alive(1) [OF assms])

definition sample_beat :: "string \<Rightarrow> rat \<Rightarrow> heartbeat" where
  "sample_beat w t = \<lparr>h_worker_id = w, h_started_at = 0, h_heartbeat_at = t, h_heartbeat_expires_at = t + 20,
     h_stopped_at = None, h_current_job_id = Some 1, h_status = W_running\<rparr>"

definition workers_db :: db where
  "workers_db = one_job_db\<lparr>db_heartbeats := [sample_beat ''w1'' 5, sample_beat ''w2'' 7]\<rparr>"

text \<open>
  The worker view is finite and true: it lists at most the limit of recorded workers, each marked alive
  exactly when it is, live and recent ones first, and while the live workers fit the limit all of
  them are listed; the count of live workers is exact.
\<close>

lemma worker_view_faithful:
  "length (s_workers (worker_status c (Some t) m d)) \<le> WORKER_SNAPSHOT_LIMIT
   \<and> sorted (map (\<lambda>v. view_order (v_alive v, v_row v)) (s_workers (worker_status c (Some t) m d)))
   \<and> list_all (\<lambda>v. v_row v \<in> set (db_heartbeats d) \<and> v_alive v = active_worker t m (v_row v) \<and> 0 \<le> v_age_seconds v)
       (s_workers (worker_status c (Some t) m d))
   \<and> s_active_workers (worker_status c (Some t) m d) = count_where (active_worker t m) (db_heartbeats d)
   \<and> (s_active_workers (worker_status c (Some t) m d) \<le> int WORKER_SNAPSHOT_LIMIT \<longrightarrow>
       v_row ` {v \<in> set (s_workers (worker_status c (Some t) m d)). v_alive v}
         = {h \<in> set (db_heartbeats d). active_worker t m h})"
proof -
  let ?L = "take WORKER_SNAPSHOT_LIMIT (snapshot_candidates t m (db_heartbeats d))"
  have flags: "h \<in> set (db_heartbeats d) \<and> (a \<longleftrightarrow> active_worker t m h)" if "(a, h) \<in> set ?L" for a h
    using that snapshot_candidates_flag by (blast dest: in_set_takeD)
  have count: "s_active_workers (worker_status c (Some t) m d) = count_where (active_worker t m) (db_heartbeats d)"
    by (simp add: worker_status_def Let_def float_now_def)
  have srt: "sorted (map view_order ?L)"
    unfolding take_map [symmetric] by (rule sorted_wrt_take) (rule snapshot_candidates_sorted)
  have all: "v_row ` {v \<in> view_of t ` set ?L. v_alive v} = {h \<in> set (db_heartbeats d). active_worker t m h}"
    if "count_where (active_worker t m) (db_heartbeats d) \<le> int WORKER_SNAPSHOT_LIMIT"
  proof
    show "v_row ` {v \<in> view_of t ` set ?L. v_alive v} \<subseteq> {h \<in> set (db_heartbeats d). active_worker t m h}"
      by (auto simp: view_of_def dest: flags)
    show "{h \<in> set (db_heartbeats d). active_worker t m h} \<subseteq> v_row ` {v \<in> view_of t ` set ?L. v_alive v}"
    proof
      fix h assume "h \<in> {h \<in> set (db_heartbeats d). active_worker t m h}"
      then have "(True, h) \<in> set ?L" using all_active_listed [OF that, of h] by simp
      then show "h \<in> v_row ` {v \<in> view_of t ` set ?L. v_alive v}"
        by (intro image_eqI [of _ _ "view_of t (True, h)"] CollectI conjI imageI) (simp_all add: view_of_def)
    qed
  qed
  show ?thesis
    unfolding count worker_status_workers set_map
    using srt all flags by (auto simp: view_of_def comp_def list_all_iff)
qed

text \<open>
  A workspace's view of the workers names no job of another workspace.
\<close>

lemma worker_view_private:
  "list_all (\<lambda>v. case h_current_job_id (v_row v) of
       None \<Rightarrow> True
     | Some i \<Rightarrow> list_ex (\<lambda>j. j_id j = i \<and> j_workspace_id j = ws) (db_jobs d))
     (s_workers (workspace_snapshot s ws d) @ (case s_first (workspace_snapshot s ws d) of None \<Rightarrow> [] | Some v \<Rightarrow> [v]))"
proof -
  have own: "list_ex (\<lambda>j. j_id j = i \<and> j_workspace_id j = ws) (db_jobs d)"
    if "h_current_job_id (v_row (visible_view (allowed_jobs s ws d) v)) = Some i" for v i
    using allowed_jobs_own [OF visible_view_job [OF that]] by (auto simp: list_ex_iff)
  show ?thesis by (auto simp: workspace_snapshot_def Let_def list_all_iff own split: option.splits)
qed

end
