(* ===== verification/Dispatch.thy ===== *)
theory Dispatch
  imports Jobs
begin

text \<open>
  Delivery hints for runnable jobs: the outbox operations of storage/execution.py and the
  dispatcher, consumer and housekeeping of jobs/dispatch.py. The queue service is a parameter:
  sending a message either succeeds or raises an exception, of which only the class name is used.
  Hints are advisory (theory \<open>Claim\<close> owns execution); what matters here is that no current hint
  is lost and that a scan with a moving cursor finds every deliverable one.
\<close>

section \<open>The outbox\<close>

type_synonym dispatch_cursor = "rat \<times> int"

definition hint_key :: "dispatch_row \<Rightarrow> dispatch_cursor" where
  "hint_key r = (d_available_at r, d_id r)"

definition open_hint :: "dispatch_row \<Rightarrow> bool" where
  "open_hint r \<longleftrightarrow> d_delivered_at r = None \<and> d_superseded_at r = None"

definition due_hint :: "rat \<Rightarrow> dispatch_row \<Rightarrow> bool" where
  "due_hint now r \<longleftrightarrow> open_hint r \<and> d_available_at r \<le> now"

text \<open>\<open>(available_at,id)>(%s,%s)\<close>; without a cursor the bound is minus infinity.\<close>

definition after_cursor :: "dispatch_cursor option \<Rightarrow> dispatch_row \<Rightarrow> bool" where
  "after_cursor after r = (case after of None \<Rightarrow> True | Some k \<Rightarrow> k < hint_key r)"

definition due_window :: "rat \<Rightarrow> nat \<Rightarrow> dispatch_cursor option \<Rightarrow> db \<Rightarrow> dispatch_row list" where
  "due_window now limit after d = take limit
     (sort_key hint_key (filter (\<lambda>r. due_hint now r \<and> after_cursor after r) (db_dispatch d)))"

text \<open>The inner join of hints with their jobs.\<close>

definition join_jobs :: "db \<Rightarrow> dispatch_row list \<Rightarrow> (dispatch_row \<times> job) list" where
  "join_jobs d rows = List.map_filter (\<lambda>r. map_option (Pair r) (get_row d (d_job_id r))) rows"

text \<open>\<open>_current_dispatch\<close>.\<close>

definition current_dispatch :: "dispatch_row \<times> job \<Rightarrow> bool" where
  "current_dispatch rj \<longleftrightarrow> d_job_revision (fst rj) = j_revision (snd rj) \<and> dispatchable (snd rj)"

text \<open>\<open>_retire_obsolete_dispatch\<close>.\<close>

definition retire_obsolete_dispatch :: "(dispatch_row \<times> job) list \<Rightarrow> rat \<Rightarrow> db \<Rightarrow> db" where
  "retire_obsolete_dispatch rows now d =
     (let obsolete = map (\<lambda>rj. d_id (fst rj)) (filter (\<lambda>rj. \<not> current_dispatch rj) rows) in
      d\<lparr>db_dispatch := update_where (\<lambda>r. d_id r \<in> set obsolete) (\<lambda>r. r\<lparr>d_superseded_at := Some now\<rparr>) (db_dispatch d)\<rparr>)"

definition window_rows :: "conn \<Rightarrow> rat \<Rightarrow> dispatch_row list \<Rightarrow> db \<Rightarrow> (dispatch_row \<times> job) list" where
  "window_rows c now window d = join_jobs d (sort_key hint_key (filter (\<lambda>r. d_id r \<in> set (map d_id window)
     \<and> due_hint now r \<and> d_id r \<notin> set (cn_locked_dispatch c)) (db_dispatch d)))"

definition deliverable :: "rat \<Rightarrow> dispatch_row \<times> job \<Rightarrow> bool" where
  "deliverable now rj \<longleftrightarrow> current_dispatch rj
     \<and> (case j_next_attempt_at (snd rj) of None \<Rightarrow> True | Some t \<Rightarrow> t \<le> now)"

definition pending_dispatch ::
  "conn \<Rightarrow> rat \<Rightarrow> nat \<Rightarrow> dispatch_cursor option \<Rightarrow> db
   \<Rightarrow> db \<times> (dispatch_row \<times> job) option \<times> dispatch_cursor option" where
  "pending_dispatch c now limit after d =
     (let window = due_window now limit after d in
      if window = [] then (d, None, None)
      else let rows = window_rows c now window d in
        (retire_obsolete_dispatch rows now d, List.find (deliverable now) rows, Some (hint_key (last window))))"

definition delivered_dispatch :: "int \<Rightarrow> rat \<Rightarrow> db \<Rightarrow> db" where
  "delivered_dispatch i now d = d\<lparr>db_dispatch := update_where (\<lambda>r. d_id r = i)
     (\<lambda>r. r\<lparr>d_delivered_at := Some now, d_attempts := d_attempts r + 1, d_last_error := None\<rparr>) (db_dispatch d)\<rparr>"

definition failed_dispatch :: "int \<Rightarrow> rat \<Rightarrow> string \<Rightarrow> db \<Rightarrow> db" where
  "failed_dispatch i now error d = d\<lparr>db_dispatch := update_where (\<lambda>r. d_id r = i)
     (\<lambda>r. r\<lparr>d_attempts := d_attempts r + 1, d_available_at := now + 30, d_last_error := Some error\<rparr>) (db_dispatch d)\<rparr>"

definition job_dispatch_state :: "int \<Rightarrow> db \<Rightarrow> (job_state \<times> int) option" where
  "job_dispatch_state i d = map_option (\<lambda>j. (j_state j, j_revision j)) (get_row d i)"

definition closed_at :: "dispatch_row \<Rightarrow> rat option" where
  "closed_at r = (case d_delivered_at r of Some t \<Rightarrow> Some t | None \<Rightarrow> d_superseded_at r)"

definition past_retention :: "rat \<Rightarrow> dispatch_row \<Rightarrow> bool" where
  "past_retention cutoff r = (case closed_at r of None \<Rightarrow> False | Some t \<Rightarrow> t < cutoff)"

definition prune_dispatch :: "conn \<Rightarrow> rat \<Rightarrow> nat \<Rightarrow> db \<Rightarrow> db" where
  "prune_dispatch c cutoff limit d =
     (let gone = map d_id (take limit (sort_key (\<lambda>r. (coalesce (closed_at r) 0, d_id r))
            (filter (\<lambda>r. past_retention cutoff r \<and> d_id r \<notin> set (cn_locked_dispatch c)) (db_dispatch d)))) in
      d\<lparr>db_dispatch := filter (\<lambda>r. d_id r \<notin> set gone) (db_dispatch d)\<rparr>)"

text \<open>\<open>FOR UPDATE SKIP LOCKED\<close> inside the limited subquery: locked rows are passed over before the limit.\<close>

definition maintenance_rows :: "conn \<Rightarrow> nat \<Rightarrow> int \<Rightarrow> db \<Rightarrow> (dispatch_row \<times> job) list" where
  "maintenance_rows c limit after_id d = join_jobs d (take limit (sort_key d_id
     (filter (\<lambda>r. open_hint r \<and> d_id r > after_id \<and> d_id r \<notin> set (cn_locked_dispatch c)) (db_dispatch d))))"

definition maintain_dispatch :: "conn \<Rightarrow> rat \<Rightarrow> rat \<Rightarrow> nat \<Rightarrow> int \<Rightarrow> db \<Rightarrow> db \<times> int" where
  "maintain_dispatch c now retention_seconds limit after_id d =
     (let rows = maintenance_rows c limit after_id d in
      (prune_dispatch c (now - retention_seconds) limit (retire_obsolete_dispatch rows now d),
       if rows = [] then 0 else d_id (fst (last rows))))"

section \<open>Housekeeping and delivery\<close>

text \<open>\<open>_next_cleanup\<close> starts at minus infinity, here \<open>None\<close>.\<close>

record maintenance =
  m_retention_seconds :: rat
  m_interval_seconds :: rat
  m_batch_size :: nat
  m_next_cleanup :: "rat option"
  m_after_id :: int

definition make_maintenance :: "rat \<Rightarrow> rat \<Rightarrow> int \<Rightarrow> maintenance result" where
  "make_maintenance retention_seconds interval_seconds batch_size =
     (if retention_seconds \<le> 0 \<or> interval_seconds \<le> 0
      then Inl (ValueError ''Dispatch retention and cleanup interval must be finite and positive'')
      else if \<not> (1 \<le> batch_size \<and> batch_size \<le> 10000)
      then Inl (ValueError ''Dispatch cleanup batch size must be between 1 and 10000'')
      else Inr \<lparr>m_retention_seconds = retention_seconds, m_interval_seconds = interval_seconds,
        m_batch_size = nat batch_size, m_next_cleanup = None, m_after_id = 0\<rparr>)"

definition run_due :: "conn \<Rightarrow> rat \<Rightarrow> maintenance \<Rightarrow> db \<Rightarrow> (db \<times> maintenance) result" where
  "run_due c now m d =
     (if (case m_next_cleanup m of None \<Rightarrow> True | Some t \<Rightarrow> t \<le> now)
      then rbind (atomic c d (\<lambda>d. Inr (maintain_dispatch c now (m_retention_seconds m) (m_batch_size m) (m_after_id m) d)))
        (\<lambda>(d', after_id). Inr (d', m\<lparr>m_after_id := after_id, m_next_cleanup := Some (now + m_interval_seconds m)\<rparr>))
      else Inr (d, m))"

record dispatcher =
  dp_queue_url :: string
  dp_acquisition_queue_url :: "string option"
  dp_processing_queue_url :: "string option"
  dp_maintenance :: maintenance
  dp_dispatch_after :: "dispatch_cursor option"
  dp_has_more :: bool

definition non_empty :: "string option \<Rightarrow> bool" where
  "non_empty s \<longleftrightarrow> coalesce s [] \<noteq> []"

definition make_dispatcher ::
  "string \<Rightarrow> string option \<Rightarrow> string option \<Rightarrow> maintenance \<Rightarrow> dispatcher result" where
  "make_dispatcher queue_url acquisition processing m =
     (if non_empty acquisition \<noteq> non_empty processing
      then Inl (ValueError ''Configure both acquisition and processing queues for stage routing'')
      else Inr \<lparr>dp_queue_url = queue_url, dp_acquisition_queue_url = acquisition,
        dp_processing_queue_url = processing, dp_maintenance = m, dp_dispatch_after = None, dp_has_more = False\<rparr>)"

definition route :: "dispatcher \<Rightarrow> string \<Rightarrow> string" where
  "route p kind = (let stage = (if processing_kind kind then dp_processing_queue_url p else dp_acquisition_queue_url p) in
     if non_empty stage then coalesce stage [] else dp_queue_url p)"

text \<open>\<open>json.dumps({"job_id": n})\<close>.\<close>

definition message_body :: "int \<Rightarrow> string" where
  "message_body i = CHR ''{'' # CHR 0x22 # ''job_id'' @ CHR 0x22 # '': '' @ str_int i @ ''}''"

text \<open>
  \<open>publish_one\<close> with the readings of its clock before, in and after the transaction; \<open>send\<close> is the
  client: \<open>None\<close> when the message was accepted, else the exception's class name.
\<close>

definition publish_one ::
  "(string \<Rightarrow> string \<Rightarrow> string option) \<Rightarrow> conn \<Rightarrow> rat \<Rightarrow> rat \<Rightarrow> rat \<Rightarrow> dispatcher \<Rightarrow> db
   \<Rightarrow> (db \<times> dispatcher \<times> bool) result" where
  "publish_one send c t0 t1 t2 p d =
     rbind (run_due c t0 (dp_maintenance p) d) (\<lambda>(d1, m).
     atomic c d1 (\<lambda>d1. case pending_dispatch c t1 (m_batch_size m) (dp_dispatch_after p) d1 of
         (d2, None, cursor) \<Rightarrow>
           Inr (d2, p\<lparr>dp_maintenance := m, dp_dispatch_after := cursor, dp_has_more := (cursor \<noteq> None)\<rparr>, False)
       | (d2, Some (r, j), cursor) \<Rightarrow>
           let p' = p\<lparr>dp_maintenance := m, dp_dispatch_after := None, dp_has_more := False\<rparr> in
           (case send (route p (j_kind j)) (message_body (d_job_id r)) of
              Some error \<Rightarrow> Inr (failed_dispatch (d_id r) t2 error d2, p', False)
            | None \<Rightarrow> Inr (delivered_dispatch (d_id r) t2 d2, p', True))))"

text \<open>
  \<open>SqsConsumer.run_once\<close>: the received message is its parsed body (\<open>None\<close> where \<open>json.loads\<close>
  raises) and its receipt. Returns what was claimed and the receipt that was deleted.
\<close>

definition message_job :: "json option \<Rightarrow> int option" where
  "message_job body = (case body of
       Some (JObj kvs) \<Rightarrow> (case map_of kvs ''job_id'' of
           Some (JInt i) \<Rightarrow> if 0 < i \<and> i < 2 ^ 63 then Some i else None
         | _ \<Rightarrow> None)
     | _ \<Rightarrow> None)"

definition settled_for_queue :: "(job_state \<times> int) option \<Rightarrow> bool" where
  "settled_for_queue s = (case s of None \<Rightarrow> True
     | Some (st, _) \<Rightarrow> st = Done \<or> st = Error \<or> st = Skipped \<or> st = In_progress)"

definition consume_once ::
  "int \<Rightarrow> int option \<Rightarrow> (json option \<times> string) option \<Rightarrow> (int \<Rightarrow> db \<Rightarrow> (db \<times> int) result) \<Rightarrow> db
   \<Rightarrow> (db \<times> int \<times> string option) result" where
  "consume_once default_wait wait_seconds message execute d =
     (if \<not> (0 \<le> coalesce wait_seconds default_wait \<and> coalesce wait_seconds default_wait \<le> 20)
      then Inl (ValueError ''SQS wait_seconds must be between zero and twenty'')
      else case message of
        None \<Rightarrow> Inr (d, 0, None)
      | Some (body, receipt) \<Rightarrow> (case message_job body of
          None \<Rightarrow> Inr (d, 0, None)
        | Some i \<Rightarrow> rbind (execute i d) (\<lambda>(d', claimed).
            Inr (d', claimed, if claimed \<noteq> 0 \<or> settled_for_queue (job_dispatch_state i d') then Some receipt else None))))"

section \<open>Scanning\<close>

text \<open>
  The loop of \<open>main\<close> with \<open>--once\<close>, reduced to its queries: continue from the returned cursor until
  a hint is selected or a window is empty. An empty limit never occurs (\<open>make_maintenance\<close>).
\<close>

lemma due_window_cong: "db_dispatch d' = db_dispatch d \<Longrightarrow> due_window now limit after d' = due_window now limit after d"
  by (simp add: due_window_def)

lemma retire_keys:
  "filter (\<lambda>r. due_hint now r \<and> P (hint_key r)) (db_dispatch (retire_obsolete_dispatch rows t d))
   = filter (\<lambda>r. d_id r \<notin> set (map (\<lambda>rj. d_id (fst rj)) (filter (\<lambda>rj. \<not> current_dispatch rj) rows))
       \<and> due_hint now r \<and> P (hint_key r)) (db_dispatch d)"
proof -
  have "filter (\<lambda>r. due_hint now r \<and> P (hint_key r)) (update_where (\<lambda>r. d_id r \<in> S) (\<lambda>r. r\<lparr>d_superseded_at := Some t\<rparr>) rs)
    = filter (\<lambda>r. d_id r \<notin> S \<and> due_hint now r \<and> P (hint_key r)) rs" for S rs
    by (induction rs) (auto simp: due_hint_def open_hint_def)
  then show ?thesis by (simp add: retire_obsolete_dispatch_def Let_def)
qed

definition scan_left :: "rat \<Rightarrow> dispatch_cursor option \<Rightarrow> db \<Rightarrow> nat" where
  "scan_left now after d = length (filter (\<lambda>r. due_hint now r \<and> after_cursor after r) (db_dispatch d))"

lemma last_in_window:
  assumes "due_window now limit after d \<noteq> []"
  shows "due_hint now (last (due_window now limit after d))" "after_cursor after (last (due_window now limit after d))"
    "last (due_window now limit after d) \<in> set (db_dispatch d)"
  using last_in_set [OF assms] by (auto simp: due_window_def dest!: in_set_takeD)

lemma scan_decreases:
  assumes "pending_dispatch c now limit after d = (d', r, Some k)"
  shows "scan_left now (Some k) d' < scan_left now after d"
proof -
  let ?w = "due_window now limit after d" and ?l = "last (due_window now limit after d)"
  have w: "?w \<noteq> []" and k: "k = hint_key ?l"
    and d': "d' = retire_obsolete_dispatch (window_rows c now ?w d) now d"
    using assms by (auto simp: pending_dispatch_def Let_def split: if_splits)
  note l = last_in_window [OF w]
  have mono: "after_cursor after r" if "k < hint_key r" for r
    using l(2) that k by (auto simp: after_cursor_def split: option.splits)
  have some: "after_cursor (Some k) = (\<lambda>r. k < hint_key r)" by (simp add: after_cursor_def fun_eq_iff)
  have "scan_left now (Some k) d' \<le> length (filter (\<lambda>r. due_hint now r \<and> after_cursor after r \<and> k < hint_key r) (db_dispatch d))"
    unfolding scan_left_def d' some
    by (subst retire_keys [of now "\<lambda>x. k < x"]) (rule length_filter_mono, auto intro: mono)
  also have "\<dots> < scan_left now after d"
  proof -
    have "?l \<in> set (filter (\<lambda>r. due_hint now r \<and> after_cursor after r) (db_dispatch d))" using l by simp
    moreover have "filter (\<lambda>r. due_hint now r \<and> after_cursor after r \<and> k < hint_key r) (db_dispatch d)
        = filter (\<lambda>r. k < hint_key r) (filter (\<lambda>r. due_hint now r \<and> after_cursor after r) (db_dispatch d))"
      by (simp add: conj_ac)
    ultimately show ?thesis unfolding scan_left_def using k by (metis length_filter_less less_irrefl)
  qed
  finally show ?thesis .
qed

function scan ::
  "conn \<Rightarrow> rat \<Rightarrow> nat \<Rightarrow> dispatch_cursor option \<Rightarrow> db \<Rightarrow> db \<times> (dispatch_row \<times> job) option" where
  "scan c now limit after d = (case pending_dispatch c now limit after d of
       (d', Some rj, _) \<Rightarrow> (d', Some rj)
     | (d', None, None) \<Rightarrow> (d', None)
     | (d', None, Some k) \<Rightarrow> scan c now limit (Some k) d')"
  by pat_completeness auto
termination
  by (relation "measure (\<lambda>(c, now, limit, after, d). scan_left now after d)") (auto dest: scan_decreases [OF sym])

declare scan.simps [simp del]

text \<open>A hint another publisher has not locked, due, with its job still runnable at that revision.\<close>

definition offers :: "conn \<Rightarrow> rat \<Rightarrow> db \<Rightarrow> dispatch_row \<Rightarrow> bool" where
  "offers c now d r \<longleftrightarrow> r \<in> set (db_dispatch d) \<and> due_hint now r \<and> d_id r \<notin> set (cn_locked_dispatch c)
     \<and> (\<exists>j. get_row d (d_job_id r) = Some j \<and> deliverable now (r, j))"

interpretation dispatch_tab: keyed_table d_id .

definition dispatch_wf :: "db \<Rightarrow> bool" where
  "dispatch_wf d \<longleftrightarrow> dispatch_tab.unique_keys (db_dispatch d)"

lemma join_jobs_set: "(r, j) \<in> set (join_jobs d rows) \<longleftrightarrow> r \<in> set rows \<and> get_row d (d_job_id r) = Some j"
  by (force simp: join_jobs_def map_filter_def)

lemma window_rows_set:
  "(r, j) \<in> set (window_rows c now w d) \<longleftrightarrow> r \<in> set (db_dispatch d) \<and> d_id r \<in> d_id ` set w \<and> due_hint now r
     \<and> d_id r \<notin> set (cn_locked_dispatch c) \<and> get_row d (d_job_id r) = Some j"
  by (auto simp: window_rows_def join_jobs_set)

lemma pending_selected:
  assumes "pending_dispatch c now limit after d = (d', Some (r, j), k)"
  shows "offers c now d r \<and> get_row d (d_job_id r) = Some j \<and> deliverable now (r, j)"
  using assms
  by (auto simp: pending_dispatch_def Let_def offers_def window_rows_set dest!: find_Some split: if_splits)

text \<open>Retiring supersedes no current hint, so it keeps every hint that can still be delivered.\<close>

lemma retire_frame [simp]:
  "db_jobs (retire_obsolete_dispatch rows t d) = db_jobs d"
  "get_row (retire_obsolete_dispatch rows t d) i = get_row d i"
  by (simp_all add: retire_obsolete_dispatch_def Let_def get_row_def)

lemma retire_wf: "dispatch_wf d \<Longrightarrow> dispatch_wf (retire_obsolete_dispatch rows t d)"
  unfolding dispatch_wf_def retire_obsolete_dispatch_def Let_def
  by (simp add: dispatch_tab.unique_keys_def map_update_where)

lemma retire_open:
  "r \<in> set (db_dispatch (retire_obsolete_dispatch rows t d)) \<Longrightarrow> open_hint r \<Longrightarrow> r \<in> set (db_dispatch d)"
  by (auto simp: retire_obsolete_dispatch_def Let_def set_update_where open_hint_def split: if_splits)

lemma retire_keeps_current:
  assumes wf: "dispatch_wf d" and r: "r \<in> set (db_dispatch d)"
    and j: "get_row d (d_job_id r) = Some j" "current_dispatch (r, j)"
    and rows: "\<And>x y. (x, y) \<in> set rows \<Longrightarrow> x \<in> set (db_dispatch d) \<and> get_row d (d_job_id x) = Some y"
  shows "r \<in> set (db_dispatch (retire_obsolete_dispatch rows t d))"
proof -
  have "d_id r \<notin> set (map (\<lambda>rj. d_id (fst rj)) (filter (\<lambda>rj. \<not> current_dispatch rj) rows))"
  proof
    assume "d_id r \<in> set (map (\<lambda>rj. d_id (fst rj)) (filter (\<lambda>rj. \<not> current_dispatch rj) rows))"
    then obtain x y where x: "(x, y) \<in> set rows" "\<not> current_dispatch (x, y)" "d_id x = d_id r" by auto
    then have "x = r" using dispatch_tab.unique_key_eq [OF wf [unfolded dispatch_wf_def] _ r] rows [OF x(1)] by simp
    then show False using x rows j by auto
  qed
  then show ?thesis using r by (force simp: retire_obsolete_dispatch_def Let_def set_update_where)
qed

lemma pending_keeps_offers:
  assumes wf: "dispatch_wf d" and p: "pending_dispatch c now limit after d = (d', x, k)"
    and r: "offers c now d r"
  shows "offers c now d' r" and "dispatch_wf d'"
proof -
  consider "d' = d" | w where "d' = retire_obsolete_dispatch (window_rows c now w d) now d"
    using p by (auto simp: pending_dispatch_def Let_def split: if_splits)
  then show "offers c now d' r"
  proof cases
    case 2
    obtain j where j: "r \<in> set (db_dispatch d)" "get_row d (d_job_id r) = Some j" "deliverable now (r, j)"
      using r by (auto simp: offers_def)
    have "r \<in> set (db_dispatch d')"
      unfolding 2 by (rule retire_keeps_current [OF wf j(1,2)]) (use j(3) in \<open>auto simp: deliverable_def window_rows_set\<close>)
    then show ?thesis using r by (simp add: offers_def 2)
  qed (use r in simp)
  show "dispatch_wf d'" using p wf retire_wf by (auto simp: pending_dispatch_def Let_def split: if_splits)
qed

lemma pending_none:
  assumes wf: "dispatch_wf d" and p: "pending_dispatch c now limit after d = (d', None, k)" and limit: "0 < limit"
    and r: "offers c now d r" "after_cursor after r"
  shows "\<exists>k'. k = Some k' \<and> after_cursor (Some k') r"
proof -
  let ?F = "filter (\<lambda>r. due_hint now r \<and> after_cursor after r) (db_dispatch d)"
  let ?w = "due_window now limit after d"
  have rF: "r \<in> set ?F" using r by (simp add: offers_def)
  then have "?F \<noteq> []" by force
  then have w: "?w \<noteq> []" using limit unfolding due_window_def by (simp add: take_eq_Nil) (metis length_0_conv length_sort)
  have k: "k = Some (hint_key (last ?w))" and none: "List.find (deliverable now) (window_rows c now ?w d) = None"
    using p w by (auto simp: pending_dispatch_def Let_def)
  have out: "d_id r \<notin> d_id ` set ?w"
    using none r(1) by (auto simp: find_None_iff offers_def window_rows_set)
  then have "r \<notin> set ?w" by blast
  then have le: "hint_key (last ?w) \<le> hint_key r"
    using sorted_take_rest [OF rF, of limit hint_key] w by (simp add: due_window_def)
  moreover have "hint_key (last ?w) \<noteq> hint_key r"
    using out last_in_set [OF w] by (force simp: hint_key_def image_iff)
  ultimately show ?thesis using k by (simp add: after_cursor_def)
qed

lemma scan_finds:
  assumes "dispatch_wf d" "0 < limit" "scan c now limit after d = (d', None)"
  shows "\<not> (offers c now d r \<and> after_cursor after r)"
  using assms
proof (induction c now limit after d arbitrary: d' rule: scan.induct)
  case (1 c now limit after d)
  show ?case
  proof
    assume r: "offers c now d r \<and> after_cursor after r"
    obtain d1 x k where p: "pending_dispatch c now limit after d = (d1, x, k)" by (cases "pending_dispatch c now limit after d")
    have x: "x = None" using 1(4) p by (auto simp: scan.simps split: option.splits)
    obtain k' where k: "k = Some k'" "after_cursor (Some k') r"
      using pending_none [OF 1(2) p [unfolded x] 1(3)] r by blast
    have keep: "offers c now d1 r" "dispatch_wf d1" using pending_keeps_offers [OF 1(2) p] r by blast+
    have "scan c now limit (Some k') d1 = (d', None)" using 1(4) p x k by (simp add: scan.simps)
    then show False using 1(1) [OF p [symmetric] refl, of k' d'] x k keep 1(3) p by auto
  qed
qed

lemma scan_selects:
  assumes "scan c now limit after d = (d', Some (r, j))" "dispatch_wf d"
  shows "offers c now d r \<and> get_row d (d_job_id r) = Some j \<and> deliverable now (r, j)"
  using assms
proof (induction c now limit after d arbitrary: d' rule: scan.induct)
  case (1 c now limit after d)
  obtain d1 x k where p: "pending_dispatch c now limit after d = (d1, x, k)" by (cases "pending_dispatch c now limit after d")
  show ?case
  proof (cases x)
    case (Some rj)
    then have "x = Some (r, j)" using 1(2) p by (simp add: scan.simps)
    then show ?thesis using pending_selected p by blast
  next
    case None
    then obtain k' where k: "k = Some k'" "scan c now limit (Some k') d1 = (d', Some (r, j))"
      using 1(2) p by (cases k) (auto simp: scan.simps)
    have wf: "dispatch_wf d1" using p 1(3) retire_wf by (auto simp: pending_dispatch_def Let_def split: if_splits)
    have "get_row d1 i = get_row d i" for i
      using p by (auto simp: pending_dispatch_def Let_def split: if_splits)
    moreover have "r \<in> set (db_dispatch d1) \<Longrightarrow> open_hint r \<Longrightarrow> r \<in> set (db_dispatch d)"
      using p retire_open by (auto simp: pending_dispatch_def Let_def split: if_splits)
    ultimately show ?thesis
      using 1(1) [OF p [symmetric] refl, of k' d'] None k wf p by (auto simp: offers_def due_hint_def)
  qed
qed

text \<open>Housekeeping drops closed hints only.\<close>

lemma prune_keeps_open:
  assumes "dispatch_wf d" "r \<in> set (db_dispatch d)" "open_hint r"
  shows "r \<in> set (db_dispatch (prune_dispatch c cutoff limit d))"
proof -
  let ?gone = "take limit (sort_key (\<lambda>r. (coalesce (closed_at r) 0, d_id r))
     (filter (\<lambda>r. past_retention cutoff r \<and> d_id r \<notin> set (cn_locked_dispatch c)) (db_dispatch d)))"
  have "d_id r \<notin> set (map d_id ?gone)"
  proof
    assume "d_id r \<in> set (map d_id ?gone)"
    then obtain x where x: "x \<in> set (db_dispatch d)" "past_retention cutoff x" "d_id x = d_id r"
      by (auto dest!: in_set_takeD)
    then have "x = r" using dispatch_tab.unique_key_eq assms(1,2) by (simp add: dispatch_wf_def)
    then show False using x(2) assms(3) by (simp add: past_retention_def closed_at_def open_hint_def)
  qed
  then show ?thesis using assms(2) by (simp add: prune_dispatch_def Let_def)
qed

lemma prune_dispatch_wf: "dispatch_wf d \<Longrightarrow> dispatch_wf (prune_dispatch c cutoff limit d)"
  by (simp add: dispatch_wf_def dispatch_tab.unique_keys_def prune_dispatch_def Let_def distinct_map_filter)

lemma maintenance_rows_origin:
  "(x, y) \<in> set (maintenance_rows c limit after_id d) \<Longrightarrow> x \<in> set (db_dispatch d) \<and> get_row d (d_job_id x) = Some y"
  by (auto simp: maintenance_rows_def join_jobs_set dest!: in_set_takeD)

lemma maintain_keeps_current:
  assumes "dispatch_wf d" "r \<in> set (db_dispatch d)" "open_hint r" "get_row d (d_job_id r) = Some j" "current_dispatch (r, j)"
  shows "r \<in> set (db_dispatch (fst (maintain_dispatch c now retention limit after_id d)))"
    and "dispatch_wf (fst (maintain_dispatch c now retention limit after_id d))"
    and "get_row (fst (maintain_dispatch c now retention limit after_id d)) = get_row d"
  using prune_keeps_open [OF retire_wf [OF assms(1)] retire_keeps_current [OF assms(1,2,4,5) maintenance_rows_origin] assms(3)]
    prune_dispatch_wf [OF retire_wf [OF assms(1)]]
  by (simp_all add: maintain_dispatch_def Let_def prune_dispatch_def get_row_def retire_obsolete_dispatch_def fun_eq_iff)

lemma run_due_keeps_current:
  assumes "dispatch_wf d" "r \<in> set (db_dispatch d)" "open_hint r" "get_row d (d_job_id r) = Some j" "current_dispatch (r, j)"
    "run_due c now m d = Inr (d', m')"
  shows "r \<in> set (db_dispatch d')" "dispatch_wf d'" "get_row d' = get_row d"
proof -
  consider "d' = d" | ret lim aft where "d' = fst (maintain_dispatch c now ret lim aft d)"
    using assms(6) by (auto simp: run_due_def rbind_eq_Inr dest!: atomic_Inr(1) split: if_splits) (metis fst_conv)
  then have "r \<in> set (db_dispatch d') \<and> dispatch_wf d' \<and> get_row d' = get_row d"
    using maintain_keeps_current [OF assms(1-5)] assms(1,2) by cases auto
  then show "r \<in> set (db_dispatch d')" "dispatch_wf d'" "get_row d' = get_row d" by auto
qed

lemma pending_keeps_current:
  assumes "dispatch_wf d" "r \<in> set (db_dispatch d)" "get_row d (d_job_id r) = Some j" "current_dispatch (r, j)"
    "pending_dispatch c now limit after d = (d', x, k)"
  shows "r \<in> set (db_dispatch d')" "dispatch_wf d'"
proof -
  consider "d' = d" | w where "d' = retire_obsolete_dispatch (window_rows c now w d) now d"
    using assms(5) by (auto simp: pending_dispatch_def Let_def split: if_splits)
  then have "r \<in> set (db_dispatch d') \<and> dispatch_wf d'"
  proof cases
    case 2
    have "r \<in> set (db_dispatch d')"
      unfolding 2 by (rule retire_keeps_current [OF assms(1-4)]) (simp add: window_rows_set)
    then show ?thesis using 2 retire_wf [OF assms(1)] by simp
  qed (use assms(1,2) in simp)
  then show "r \<in> set (db_dispatch d')" "dispatch_wf d'" by auto
qed

text \<open>The hint's identity and standing after one delivery attempt of some hint.\<close>

definition same_hint :: "dispatch_row \<Rightarrow> dispatch_row \<Rightarrow> bool" where
  "same_hint r r' \<longleftrightarrow> d_id r' = d_id r \<and> d_job_id r' = d_job_id r \<and> d_job_revision r' = d_job_revision r
     \<and> d_superseded_at r' = d_superseded_at r"

lemma delivered_hint:
  assumes "r \<in> set (db_dispatch d)"
  obtains r' where "r' \<in> set (db_dispatch (delivered_dispatch i t d))" "same_hint r r'"
    "d_delivered_at r' = (if d_id r = i then Some t else d_delivered_at r)"
proof -
  let ?f = "\<lambda>r. if d_id r = i then r\<lparr>d_delivered_at := Some t, d_attempts := d_attempts r + 1, d_last_error := None\<rparr> else r"
  have "?f r \<in> set (db_dispatch (delivered_dispatch i t d))"
    using assms by (simp add: delivered_dispatch_def set_update_where)
  then show ?thesis by (rule that) (simp_all add: same_hint_def)
qed

lemma failed_hint:
  assumes "r \<in> set (db_dispatch d)"
  obtains r' where "r' \<in> set (db_dispatch (failed_dispatch i t e d))" "same_hint r r'" "d_delivered_at r' = d_delivered_at r"
proof -
  let ?f = "\<lambda>r. if d_id r = i then r\<lparr>d_attempts := d_attempts r + 1, d_available_at := t + 30, d_last_error := Some e\<rparr> else r"
  have "?f r \<in> set (db_dispatch (failed_dispatch i t e d))"
    using assms by (simp add: failed_dispatch_def set_update_where)
  then show ?thesis by (rule that) (simp_all add: same_hint_def)
qed

lemma publish_oneE:
  assumes "publish_one send c t0 t1 t2 p d = Inr (d', p', sent)"
  obtains d1 m d2 k where "run_due c t0 (dp_maintenance p) d = Inr (d1, m)"
    "pending_dispatch c t1 (m_batch_size m) (dp_dispatch_after p) d1 = (d2, None, k)" "d' = d2" "\<not> sent"
  | d1 m d2 x j k where "run_due c t0 (dp_maintenance p) d = Inr (d1, m)"
    "pending_dispatch c t1 (m_batch_size m) (dp_dispatch_after p) d1 = (d2, Some (x, j), k)"
    "send (route p (j_kind j)) (message_body (d_job_id x)) = None" "d' = delivered_dispatch (d_id x) t2 d2" "sent"
  | d1 m d2 x j k e where "run_due c t0 (dp_maintenance p) d = Inr (d1, m)"
    "pending_dispatch c t1 (m_batch_size m) (dp_dispatch_after p) d1 = (d2, Some (x, j), k)"
    "send (route p (j_kind j)) (message_body (d_job_id x)) = Some e" "d' = failed_dispatch (d_id x) t2 e d2" "\<not> sent"
proof -
  obtain d1 m where rd: "run_due c t0 (dp_maintenance p) d = Inr (d1, m)"
    using assms by (auto simp: publish_one_def rbind_eq_Inr)
  obtain d2 sel k where pd: "pending_dispatch c t1 (m_batch_size m) (dp_dispatch_after p) d1 = (d2, sel, k)"
    by (cases "pending_dispatch c t1 (m_batch_size m) (dp_dispatch_after p) d1")
  show ?thesis
  proof (cases sel)
    case None
    then show ?thesis using assms rd pd that(1) [OF rd]
      by (auto simp: publish_one_def dest!: atomic_Inr(1))
  next
    case (Some xj)
    obtain x j where xj: "xj = (x, j)" by force
    show ?thesis
    proof (cases "send (route p (j_kind j)) (message_body (d_job_id x))")
      case None
      then show ?thesis using assms rd pd Some xj that(2) [OF rd]
        by (auto simp: publish_one_def Let_def dest!: atomic_Inr(1))
    next
      case (Some e)
      then show ?thesis using assms rd pd \<open>sel = Some xj\<close> xj that(3) [OF rd]
        by (auto simp: publish_one_def Let_def dest!: atomic_Inr(1))
    qed
  qed
qed

end
