(* ===== verification/Dispatch_Properties.thy ===== *)
theory Dispatch_Properties
  imports Dispatch Samples
begin

text \<open>What the delivery of hints guarantees, over the definitions of \<open>Dispatch\<close>.\<close>

text \<open>
  C9. The hint of a runnable job's current revision is lost by nothing but its delivery: after the
  dispatcher's housekeeping and one publication the hint is still there, not superseded, and it is
  undelivered unless the queue accepted a message for exactly this job.
\<close>

theorem hint_closed_only_by_delivery:
  assumes "dispatch_wf d" "r \<in> set (db_dispatch d)" "open_hint r" "get_row d (d_job_id r) = Some j"
    "current_dispatch (r, j)" "publish_one send c t0 t1 t2 p d = Inr (d', p', sent)"
  shows "\<exists>r' \<in> set (db_dispatch d'). same_hint r r' \<and>
    (d_delivered_at r' = None \<or>
     (d_delivered_at r' = Some t2 \<and> sent \<and> send (route p (j_kind j)) (message_body (d_job_id r)) = None))"
proof -
  have o: "d_delivered_at r = None" using assms(3) by (simp add: open_hint_def)
  have kept: "r \<in> set (db_dispatch d2)" "dispatch_wf d1" "r \<in> set (db_dispatch d1)" "get_row d1 = get_row d"
    if "run_due c t0 (dp_maintenance p) d = Inr (d1, m)"
      "pending_dispatch c t1 (m_batch_size m) (dp_dispatch_after p) d1 = (d2, x, k)" for d1 m d2 x k
    using run_due_keeps_current [OF assms(1-5) that(1)] assms(4,5)
      pending_keeps_current [OF _ _ _ _ that(2), of r j] by auto
  show ?thesis
    using assms(6)
  proof (cases rule: publish_oneE)
    case (1 d1 m d2 k)
    then show ?thesis using kept [OF 1(1,2)] o by (auto simp: same_hint_def)
  next
    case (2 d1 m d2 x i k)
    have x: "x \<in> set (db_dispatch d1)" "get_row d1 (d_job_id x) = Some i"
      using pending_selected [OF 2(2)] by (auto simp: offers_def)
    have "d_id r = d_id x \<Longrightarrow> r = x"
      using dispatch_tab.unique_key_eq kept(2,3) [OF 2(1,2)] x(1) by (simp add: dispatch_wf_def)
    then have "d_id r = d_id x \<Longrightarrow> j = i \<and> r = x" using x(2) assms(4) kept(4) [OF 2(1,2)] by auto
    then show ?thesis
      using delivered_hint [OF kept(1) [OF 2(1,2)], of "d_id x" t2] 2(3-5) o by metis
  next
    case (3 d1 m d2 x i k e)
    then show ?thesis using failed_hint [OF kept(1) [OF 3(1,2)], of "d_id x" t2 e] o by metis
  qed
qed

text \<open>
  C10. A scan with a moving cursor ends, and it comes back empty handed exactly when no hint can be
  delivered; what it selects is the due, unlocked hint of a job that is runnable at that revision.
\<close>

theorem scan_complete:
  assumes "dispatch_wf d" "0 < limit"
  shows "(snd (scan c now limit None d) = None) = (\<not> (\<exists>r. offers c now d r))
    \<and> (\<forall>r j. snd (scan c now limit None d) = Some (r, j) \<longrightarrow>
         offers c now d r \<and> get_row d (d_job_id r) = Some j \<and> deliverable now (r, j))"
proof -
  obtain d' x where s: "scan c now limit None d = (d', x)" by force
  have none: "x = None \<Longrightarrow> \<not> offers c now d r" for r
    using scan_finds [OF assms, of c now None d' r] s by (simp add: after_cursor_def)
  have some: "offers c now d r \<and> get_row d (d_job_id r) = Some j \<and> deliverable now (r, j)" if "x = Some (r, j)" for r j
    using scan_selects [OF _ assms(1)] s that by blast
  show ?thesis using none some s by (cases x) auto
qed

definition sample_hint :: "int \<Rightarrow> int \<Rightarrow> dispatch_row" where
  "sample_hint i revision = \<lparr>d_id = i, d_job_id = 1, d_job_revision = revision, d_attempts = 0, d_available_at = 0,
     d_delivered_at = None, d_superseded_at = None, d_last_error = None\<rparr>"

definition hint_db :: db where
  "hint_db = one_job_db\<lparr>db_dispatch := [sample_hint 1 0, sample_hint 2 1], db_next_dispatch := 3\<rparr>"

lemma hint_db_wf: "dispatch_wf hint_db"
  by (simp add: dispatch_wf_def dispatch_tab.unique_keys_def hint_db_def sample_hint_def)

theorem scan_complete_witness:
  "dispatch_wf hint_db \<and> 0 < (1 :: nat) \<and> map_option (\<lambda>rj. d_id (fst rj)) (snd (scan (fresh_conn 7) 9 1 None hint_db)) = Some 2
   \<and> (\<exists>r. offers (fresh_conn 7) 9 hint_db r \<and> d_id r = 2)"
proof -
  have s: "map_option (\<lambda>rj. d_id (fst rj)) (snd (scan (fresh_conn 7) 9 1 None hint_db)) = Some 2" by code_simp
  then obtain r j where "snd (scan (fresh_conn 7) 9 1 None hint_db) = Some (r, j)" "d_id r = 2" by auto
  then show ?thesis using scan_complete [OF hint_db_wf, of 1 "fresh_conn 7" 9] hint_db_wf s by auto
qed

definition sample_dispatcher :: dispatcher where
  "sample_dispatcher = \<lparr>dp_queue_url = ''q'', dp_acquisition_queue_url = None, dp_processing_queue_url = None,
     dp_maintenance = \<lparr>m_retention_seconds = 10, m_interval_seconds = 60, m_batch_size = 1, m_next_cleanup = None, m_after_id = 0\<rparr>,
     dp_dispatch_after = None, dp_has_more = False\<rparr>"

lemma sample_publish:
  "case publish_one (\<lambda>url body. None) (fresh_conn 7) 9 9 9 sample_dispatcher hint_db of
     Inr (d, p, sent) \<Rightarrow> sent \<and> map d_delivered_at (db_dispatch d) = [None, Some 9] | Inl _ \<Rightarrow> False"
  by code_simp

theorem hint_closed_only_by_delivery_witness:
  "\<exists>d p. publish_one (\<lambda>url body. None) (fresh_conn 7) 9 9 9 sample_dispatcher hint_db = Inr (d, p, True)
     \<and> (\<exists>r \<in> set (db_dispatch d). same_hint (sample_hint 2 1) r)"
proof -
  obtain d p where p: "publish_one (\<lambda>url body. None) (fresh_conn 7) 9 9 9 sample_dispatcher hint_db = Inr (d, p, True)"
    using sample_publish by (auto split: sum.splits prod.splits)
  have "sample_hint 2 1 \<in> set (db_dispatch hint_db)" "open_hint (sample_hint 2 1)"
    "get_row hint_db (d_job_id (sample_hint 2 1)) = Some sample_job" "current_dispatch (sample_hint 2 1, sample_job)"
    by (simp_all add: hint_db_def open_hint_def sample_hint_def get_row_def one_job_db_def sample_job_def
        current_dispatch_def dispatchable_def)
  from hint_closed_only_by_delivery [OF hint_db_wf this p] p show ?thesis by blast
qed

end
