(* ===== verification/Numbers.thy ===== *)
theory Numbers
  imports Json
begin

text \<open>
  Python's \<open>float(text)\<close>: white space around the number, a sign, the names of infinity and NaN in
  any case, and decimal literals with single underscores between digits and an exponent. The
  value of a finite literal is exact; a magnitude that rounds to no finite double is infinite.
  Settings and the \<open>Retry-After\<close> header use it.
\<close>

text \<open>Digits with single underscores between them: the digits and what follows the last one.\<close>

fun digit_run :: "string \<Rightarrow> string \<times> string" where
  "digit_run [] = ([], [])"
| "digit_run [c] = (if is_digit c then ([c], []) else ([], [c]))"
| "digit_run (c # x # xs) =
     (if \<not> is_digit c then ([], c # x # xs)
      else if x = CHR ''_'' \<and> xs \<noteq> [] \<and> is_digit (hd xs)
      then (let (ds, rest) = digit_run xs in (c # ds, rest))
      else (let (ds, rest) = digit_run (x # xs) in (c # ds, rest)))"

definition exponent_part :: "string \<Rightarrow> int option" where
  "exponent_part s = (case s of
       [] \<Rightarrow> Some 0
     | e # cs \<Rightarrow>
         if e \<noteq> CHR ''e'' \<and> e \<noteq> CHR ''E'' then None
         else let neg = (cs \<noteq> [] \<and> hd cs = CHR ''-'');
                  body = (if cs \<noteq> [] \<and> (hd cs = CHR ''-'' \<or> hd cs = CHR ''+'') then tl cs else cs);
                  (ds, rest) = digit_run body
              in if ds = [] \<or> rest \<noteq> [] then None
                 else Some (if neg then - int (digits_fold ds) else int (digits_fold ds)))"

definition scaled :: "nat \<Rightarrow> nat \<Rightarrow> int \<Rightarrow> rat" where
  "scaled digits places x = (let m = of_nat digits / 10 ^ places in
     if 0 \<le> x then m * 10 ^ nat x else m / 10 ^ nat (- x))"

definition unsigned_literal :: "string \<Rightarrow> rat option" where
  "unsigned_literal s =
     (let (whole, rest) = digit_run s;
          (frac, expo) = (case rest of
              [] \<Rightarrow> ([], [])
            | c # cs \<Rightarrow> if c = CHR ''.'' then digit_run cs else ([], rest))
      in if whole = [] \<and> frac = [] then None
         else map_option (scaled (digits_fold (whole @ frac)) (length frac)) (exponent_part expo))"

text \<open>The least magnitude that rounds to infinity.\<close>

definition float_overflow :: rat where
  "float_overflow = 2 ^ 1024 - 2 ^ 970"

datatype number = Number rat | Inf bool | Not_a_number

definition signed_number :: "bool \<Rightarrow> string \<Rightarrow> number option" where
  "signed_number neg s =
     (if lower s \<in> {''inf'', ''infinity''} then Some (Inf neg)
      else if lower s = ''nan'' then Some Not_a_number
      else map_option (\<lambda>v. if float_overflow \<le> v then Inf neg else Number (if neg then - v else v)) (unsigned_literal s))"

text \<open>\<open>float(text)\<close>, \<open>None\<close> where it raises \<open>ValueError\<close>.\<close>

definition parse_float :: "string \<Rightarrow> number option" where
  "parse_float s = (case strip s of
       [] \<Rightarrow> None
     | c # cs \<Rightarrow> if c = CHR ''-'' then signed_number True cs
                 else if c = CHR ''+'' then signed_number False cs
                 else signed_number False (c # cs))"

end
