(* ===== verification/Events.thy ===== *)
theory Events
  imports Locks Numbers Budgets
begin

text \<open>
  Ordered, at-least-once notification of committed changes: the outbox operations of
  storage/events.py, the publishing loop of events/publisher.py, and the delivery adapter of
  events/mercure.py. The hub is a parameter: a request is answered with a status code and an
  optional \<open>Retry-After\<close> text, or fails in transport. The text of an HTTP date is parsed by the
  standard library; its reading is the parameter \<open>http_date\<close> (seconds of the epoch).
\<close>

section \<open>The outbox\<close>

record pending_event =
  pe_outbox_id :: int
  pe_event_id :: string
  pe_event_type :: event_type
  pe_resource_id :: int
  pe_payload :: payload
  pe_archive_id :: string
  pe_revision :: int
  pe_occurred_at :: int
  pe_attempts :: int
  pe_next_attempt_at :: rat

definition payload_workspace :: "payload \<Rightarrow> string" where
  "payload_workspace p = (case p of
       Job_payload _ _ _ _ _ _ _ _ ws \<Rightarrow> ws | Run_payload _ _ _ _ ws \<Rightarrow> ws)"

definition resource_path :: "pending_event \<Rightarrow> string" where
  "resource_path e = ''/workspaces/'' @ payload_workspace (pe_payload e) @ ''/''
     @ (case pe_event_type e of Job_updated \<Rightarrow> ''jobs'' | Run_updated \<Rightarrow> ''runs'') @ ''/'' @ str_int (pe_resource_id e)"

definition undelivered :: "event_row \<Rightarrow> bool" where
  "undelivered e \<longleftrightarrow> e_delivered_at e = None"

definition pending_events :: "db \<Rightarrow> event_row list" where
  "pending_events d = sort_key e_id (filter undelivered (db_events d))"

text \<open>\<open>archive_id\<close>: the identity row of the archive, given as an optional text.\<close>

definition archive_id :: "string option \<Rightarrow> string result" where
  "archive_id identity = (case identity of None \<Rightarrow> Inl (RuntimeError ''The archive event identity is missing'')
     | Some i \<Rightarrow> Inr i)"

definition event_of :: "string \<Rightarrow> event_row \<Rightarrow> pending_event" where
  "event_of identity e = \<lparr>pe_outbox_id = e_id e,
     pe_event_id = ''urn:chess-crawl:'' @ identity @ '':'' @ str_int (e_id e),
     pe_event_type = e_event_type e, pe_resource_id = e_resource_id e, pe_payload = e_payload e,
     pe_archive_id = identity, pe_revision = e_revision e, pe_occurred_at = e_occurred_at e,
     pe_attempts = e_attempts e, pe_next_attempt_at = e_next_attempt_at e\<rparr>"

definition next_pending_event :: "string option \<Rightarrow> db \<Rightarrow> pending_event option result" where
  "next_pending_event identity d = (case pending_events d of
       [] \<Rightarrow> Inr None
     | e # _ \<Rightarrow> rbind (archive_id identity) (\<lambda>i. Inr (Some (event_of i e))))"

definition acknowledge_event :: "int \<Rightarrow> rat \<Rightarrow> db \<Rightarrow> db" where
  "acknowledge_event i now d = d\<lparr>db_events := update_where (\<lambda>e. e_id e = i \<and> undelivered e)
     (\<lambda>e. e\<lparr>e_delivered_at := Some now, e_attempts := e_attempts e + 1, e_last_error := None\<rparr>) (db_events d)\<rparr>"

definition defer_event :: "int \<Rightarrow> rat \<Rightarrow> string \<Rightarrow> db \<Rightarrow> db" where
  "defer_event i next_attempt_at error d = d\<lparr>db_events := update_where (\<lambda>e. e_id e = i \<and> undelivered e)
     (\<lambda>e. e\<lparr>e_attempts := e_attempts e + 1, e_next_attempt_at := next_attempt_at, e_last_error := Some error\<rparr>) (db_events d)\<rparr>"

text \<open>Pending count, oldest occurrence and highest attempt count; the aggregates of no rows are NULL.\<close>

definition delivery_health :: "db \<Rightarrow> int \<times> int option \<times> int option" where
  "delivery_health d = (let es = filter undelivered (db_events d) in
     (int (length es), if es = [] then None else Some (Min (set (map e_occurred_at es))),
      if es = [] then None else Some (Max (set (map e_attempts es)))))"

text \<open>
  \<open>prune_events\<close>; \<open>locked\<close> are the rows other transactions hold. The cutoffs are finite here: the
  code rejects the others with the same errors as negative ones.
\<close>

definition delivered_before_cutoff :: "rat \<Rightarrow> event_row \<Rightarrow> bool" where
  "delivered_before_cutoff cutoff e = (case e_delivered_at e of None \<Rightarrow> False | Some t \<Rightarrow> t < cutoff)"

definition prune_delivered :: "int list \<Rightarrow> rat \<Rightarrow> nat \<Rightarrow> event_row list \<Rightarrow> int list" where
  "prune_delivered locked cutoff limit es = map e_id (take limit (sort_key (\<lambda>e. (coalesce (e_delivered_at e) 0, e_id e))
     (filter (\<lambda>e. delivered_before_cutoff cutoff e \<and> e_id e \<notin> set locked) es)))"

definition prune_pending :: "int list \<Rightarrow> rat \<Rightarrow> nat \<Rightarrow> event_row list \<Rightarrow> int list" where
  "prune_pending locked cutoff limit es = map e_id (take limit (sort_key (\<lambda>e. (e_occurred_at e, e_id e))
     (filter (\<lambda>e. undelivered e \<and> of_int (e_occurred_at e) < cutoff \<and> e_id e \<notin> set locked) es)))"

definition without :: "int list \<Rightarrow> event_row list \<Rightarrow> event_row list" where
  "without gone es = filter (\<lambda>e. e_id e \<notin> set gone) es"

definition prune_events ::
  "conn \<Rightarrow> int list \<Rightarrow> rat \<Rightarrow> rat option \<Rightarrow> int \<Rightarrow> db \<Rightarrow> (db \<times> nat \<times> nat) result" where
  "prune_events c locked delivered_before discard_pending_before limit d =
     (if delivered_before < 0 then Inl (ValueError ''Delivered-event cutoff must be finite and nonnegative'')
      else if (case discard_pending_before of None \<Rightarrow> False | Some t \<Rightarrow> t < 0)
      then Inl (ValueError ''Pending-event cutoff must be finite and nonnegative'')
      else if \<not> (1 \<le> limit \<and> limit \<le> 10000)
      then Inl (ValueError ''Event cleanup batch size must be between 1 and 10000'')
      else rbind (owns_session_lock c ''events'' d) (\<lambda>owned.
        if \<not> owned then Inl (RuntimeError ''Event cleanup requires exclusive event publisher ownership'')
        else let removed = prune_delivered locked delivered_before (nat limit) (db_events d);
                 d1 = d\<lparr>db_events := without removed (db_events d)\<rparr>;
                 pending = (case discard_pending_before of None \<Rightarrow> []
                   | Some t \<Rightarrow> prune_pending locked t (nat limit - length removed) (db_events d1))
             in Inr (d1\<lparr>db_events := without pending (db_events d1)\<rparr>, length removed, length pending)))"

section \<open>Delivery\<close>

record mercure_settings =
  ms_timeout_s :: rat
  ms_retry_base_s :: rat
  ms_retry_max_s :: rat

text \<open>The numeric checks of \<open>MercureSettings\<close>; its URL and token checks are not modelled.\<close>

definition mercure_intervals_ok :: "mercure_settings \<Rightarrow> bool" where
  "mercure_intervals_ok s \<longleftrightarrow> 0 < ms_timeout_s s \<and> 0 < ms_retry_base_s s \<and> 0 < ms_retry_max_s s
     \<and> ms_retry_base_s s \<le> ms_retry_max_s s"

record delivery_result =
  dr_succeeded :: bool
  dr_error :: "string option"
  dr_retry_after_s :: "rat option"

datatype hub_answer = Hub_status int "string option" | Hub_transport_error

definition retry_after_seconds :: "(string \<Rightarrow> rat option) \<Rightarrow> string option \<Rightarrow> rat \<Rightarrow> rat option" where
  "retry_after_seconds http_date value now = (case value of
       None \<Rightarrow> None
     | Some text \<Rightarrow> (case parse_float text of
           Some (Number s) \<Rightarrow> Some (max 0 s)
         | Some _ \<Rightarrow> None
         | None \<Rightarrow> map_option (\<lambda>t. max 0 (t - now)) (http_date text)))"

definition publish :: "(string \<Rightarrow> rat option) \<Rightarrow> (pending_event \<Rightarrow> hub_answer) \<Rightarrow> pending_event \<Rightarrow> rat \<Rightarrow> delivery_result" where
  "publish http_date hub e now = (case hub e of
       Hub_transport_error \<Rightarrow> \<lparr>dr_succeeded = False, dr_error = Some ''transport_error'', dr_retry_after_s = None\<rparr>
     | Hub_status status header \<Rightarrow>
         if 200 \<le> status \<and> status < 300 then \<lparr>dr_succeeded = True, dr_error = None, dr_retry_after_s = None\<rparr>
         else \<lparr>dr_succeeded = False, dr_error = Some (''http_'' @ str_int status),
               dr_retry_after_s = retry_after_seconds http_date header now\<rparr>)"

definition retry_delay :: "mercure_settings \<Rightarrow> int \<Rightarrow> rat option \<Rightarrow> rat" where
  "retry_delay s attempts retry_after_s =
     max (min (ms_retry_max_s s) (ms_retry_base_s s * power_int 2 (min attempts 30))) (coalesce retry_after_s 0)"

text \<open>
  The hub as the publishing loop sees it: an answer per request, and the readings of the clock
  before and after each request. \<open>n\<close> counts the requests of the batch.
\<close>

record publisher_env =
  en_send :: "nat \<Rightarrow> pending_event \<Rightarrow> delivery_result"
  en_before :: "nat \<Rightarrow> rat"
  en_after :: "nat \<Rightarrow> rat"

definition require_events_lease :: "lease option \<Rightarrow> conn \<Rightarrow> db \<Rightarrow> unit result" where
  "require_events_lease lease c d = (case lease of None \<Rightarrow> Inr ()
     | Some l \<Rightarrow> snd (lease_require l c ''events'' d))"

text \<open>
  The \<open>for\<close> loop of \<open>publish_pending\<close> with \<open>fuel\<close> rounds left and \<open>n\<close> delivered: the database, the
  number delivered, and the ids of the events sent, in order.
\<close>

fun publish_rounds ::
  "mercure_settings \<Rightarrow> publisher_env \<Rightarrow> string option \<Rightarrow> lease option \<Rightarrow> conn \<Rightarrow> nat \<Rightarrow> nat \<Rightarrow> db
   \<Rightarrow> (db \<times> nat \<times> int list) result" where
  "publish_rounds s env identity lease c 0 n d = Inr (d, n, [])"
| "publish_rounds s env identity lease c (Suc rounds) n d =
     rbind (require_events_lease lease c d) (\<lambda>_.
     rbind (next_pending_event identity d) (\<lambda>event.
     case event of
       None \<Rightarrow> Inr (d, n, [])
     | Some e \<Rightarrow>
         if pe_next_attempt_at e > en_before env n then Inr (d, n, [])
         else let result = en_send env n e in
           rbind (require_events_lease lease c d) (\<lambda>_.
           if dr_succeeded result
           then rbind (publish_rounds s env identity lease c rounds (n + 1)
                  (acknowledge_event (pe_outbox_id e) (en_after env n) d)) (\<lambda>(d', m, sent).
                Inr (d', m, pe_outbox_id e # sent))
           else Inr (defer_event (pe_outbox_id e)
                  (en_after env n + retry_delay s (pe_attempts e) (dr_retry_after_s result))
                  (if coalesce (dr_error result) [] = [] then ''delivery_error'' else coalesce (dr_error result) []) d,
                n, [pe_outbox_id e]))))"

definition publish_pending ::
  "mercure_settings \<Rightarrow> publisher_env \<Rightarrow> string option \<Rightarrow> lease option \<Rightarrow> conn \<Rightarrow> int \<Rightarrow> db
   \<Rightarrow> (db \<times> nat \<times> int list) result" where
  "publish_pending s env identity lease c limit d =
     (if limit < 1 then Inl (ValueError ''Event batch limit must be positive'')
      else publish_rounds s env identity lease c (nat limit) 0 d)"

section \<open>Laws\<close>

interpretation event_tab: keyed_table e_id .

definition events_wf :: "db \<Rightarrow> bool" where
  "events_wf d \<longleftrightarrow> event_tab.unique_keys (db_events d)"

text \<open>
  The outbox as a queue: what is waiting, in order. The interface the publishing loop relies on:
  acknowledging the head takes it out, deferring it keeps it there.
\<close>

definition waiting :: "db \<Rightarrow> int list" where
  "waiting d = map e_id (pending_events d)"

locale delivery_queue =
  fixes queued :: "'s \<Rightarrow> 'k list" and ack :: "'k \<Rightarrow> 's \<Rightarrow> 's" and defer_head :: "'k \<Rightarrow> 's \<Rightarrow> 's" and ok :: "'s \<Rightarrow> bool"
  assumes ack_head: "ok s \<Longrightarrow> queued s = k # ks \<Longrightarrow> queued (ack k s) = ks"
    and defer_keeps: "ok s \<Longrightarrow> queued (defer_head k s) = queued s"
    and ack_ok: "ok s \<Longrightarrow> ok (ack k s)"
begin

lemma ack_prefix: "ok s \<Longrightarrow> queued s = ks @ rest \<Longrightarrow> queued (fold ack ks s) = rest \<and> ok (fold ack ks s)"
proof (induction ks arbitrary: s)
  case (Cons k ks)
  then show ?case using ack_head [of s k "ks @ rest"] ack_ok by simp
qed simp

lemma ack_then_defer:
  "ok s \<Longrightarrow> queued s = ks @ rest \<Longrightarrow> queued (defer_head k (fold ack ks s)) = rest"
  using ack_prefix [of s ks rest] defer_keeps by simp

end

lemma pending_filter: "pending_events d = filter undelivered (sort_key e_id (db_events d))"
  by (simp add: pending_events_def filter_sort)

lemma pending_acknowledge:
  "pending_events (acknowledge_event i t d) = filter (\<lambda>e. e_id e \<noteq> i) (pending_events d)"
proof -
  let ?f = "\<lambda>e. e\<lparr>e_delivered_at := Some t, e_attempts := e_attempts e + 1, e_last_error := None\<rparr>"
  have "filter undelivered (update_where (\<lambda>e. e_id e = i \<and> undelivered e) ?f es)
    = filter (\<lambda>e. e_id e \<noteq> i) (filter undelivered es)" for es
    by (induction es) (auto simp: undelivered_def)
  then show ?thesis by (simp add: pending_filter acknowledge_event_def sort_key_update_where)
qed

lemma waiting_defer: "waiting (defer_event i t e d) = waiting d"
proof -
  let ?f = "\<lambda>x. x\<lparr>e_attempts := e_attempts x + 1, e_next_attempt_at := t, e_last_error := Some e\<rparr>"
  have "map e_id (filter undelivered (update_where (\<lambda>x. e_id x = i \<and> undelivered x) ?f es)) = map e_id (filter undelivered es)" for es
    by (induction es) (auto simp: undelivered_def)
  then show ?thesis by (simp add: waiting_def pending_filter defer_event_def sort_key_update_where)
qed

lemma waiting_distinct: "events_wf d \<Longrightarrow> distinct (waiting d)"
  unfolding events_wf_def event_tab.unique_keys_def waiting_def pending_events_def
  by (metis distinct_map distinct_map_filter distinct_sort set_sort)

lemma acknowledge_wf: "events_wf d \<Longrightarrow> events_wf (acknowledge_event i t d)"
  by (simp add: events_wf_def event_tab.unique_keys_def acknowledge_event_def map_update_where)

lemma defer_wf: "events_wf d \<Longrightarrow> events_wf (defer_event i t e d)"
  by (simp add: events_wf_def event_tab.unique_keys_def defer_event_def map_update_where)

lemma waiting_acknowledge:
  assumes "events_wf d" "waiting d = i # is"
  shows "waiting (acknowledge_event i t d) = is"
proof -
  obtain e es where e: "pending_events d = e # es" "e_id e = i" "map e_id es = is"
    using assms(2) by (auto simp: waiting_def)
  then have "\<forall>x \<in> set es. e_id x \<noteq> i" using waiting_distinct [OF assms(1)] unfolding waiting_def by (auto dest: rev_image_eqI [OF _ sym])
  then show ?thesis using e by (simp add: waiting_def pending_acknowledge)
qed

interpretation outbox: delivery_queue waiting "\<lambda>i. acknowledge_event i t" "\<lambda>i. defer_event i u err" events_wf for t u err
  by unfold_locales (simp_all add: waiting_acknowledge waiting_defer acknowledge_wf)

text \<open>
  The loop delivers from the front of the queue: what it sent is a prefix, all of it acknowledged
  except possibly the last, which stays at the head of what remains.
\<close>

lemma publish_rounds_prefix:
  assumes "publish_rounds s env identity lease c rounds n d = Inr (d', m, sent)" "events_wf d"
  shows "n \<le> m \<and> m - n \<le> rounds \<and> waiting d' = drop (m - n) (waiting d) \<and> events_wf d'
    \<and> sent = take (length sent) (waiting d) \<and> (length sent = m - n \<or> length sent = Suc (m - n))"
  using assms
proof (induction rounds arbitrary: n d d' m sent)
  case (Suc rounds)
  show ?case
  proof (cases "pending_events d")
    case Nil
    then show ?thesis using Suc.prems by (auto simp: next_pending_event_def rbind_eq_Inr)
  next
    case (Cons x xs)
    obtain i where i: "identity = Some i"
      using Suc.prems Cons by (cases identity) (auto simp: next_pending_event_def rbind_eq_Inr archive_id_def)
    let ?e = "event_of i x"
    have id: "pe_outbox_id ?e = e_id x" "pe_next_attempt_at ?e = e_next_attempt_at x" by (simp_all add: event_of_def)
    have w: "waiting d = e_id x # map e_id xs" by (simp add: waiting_def Cons)
    consider (late) "d' = d" "m = n" "sent = []"
      | (sent) ms sent' where "publish_rounds s env identity lease c rounds (n + 1) (acknowledge_event (e_id x) (en_after env n) d)
            = Inr (d', ms, sent')" "m = ms" "sent = e_id x # sent'"
      | (failed) u err where "d' = defer_event (e_id x) u err d" "m = n" "sent = [e_id x]"
      using Suc.prems(1) Cons i id
      by (auto simp: next_pending_event_def rbind_eq_Inr archive_id_def Let_def split: if_splits)
    then show ?thesis
    proof cases
      case late
      then show ?thesis using Suc.prems(2) by simp
    next
      case sent
      note ih = Suc.IH [OF sent(1) acknowledge_wf [OF Suc.prems(2)]]
      have "waiting (acknowledge_event (e_id x) (en_after env n) d) = map e_id xs"
        by (rule waiting_acknowledge [OF Suc.prems(2) w])
      then show ?thesis using ih sent(2,3) w by (auto simp: Suc_diff_le drop_Cons' take_Cons' split: nat.splits)
    next
      case failed
      then show ?thesis using Suc.prems(2) w defer_wf by (simp add: waiting_defer)
    qed
  qed
qed simp

lemma prune_only_delivered:
  assumes "events_wf d"
  shows "filter undelivered (without (prune_delivered locked t n (db_events d)) (db_events d)) = filter undelivered (db_events d)"
proof -
  have "e_id e \<notin> set (prune_delivered locked t n (db_events d))" if e: "e \<in> set (db_events d)" "undelivered e" for e
  proof
    assume "e_id e \<in> set (prune_delivered locked t n (db_events d))"
    then obtain x where x: "x \<in> set (db_events d)" "delivered_before_cutoff t x" "e_id x = e_id e"
      by (auto simp: prune_delivered_def dest!: in_set_takeD)
    then have "x = e" using event_tab.unique_key_eq assms e(1) by (simp add: events_wf_def)
    then show False using x(2) e(2) by (simp add: delivered_before_cutoff_def undelivered_def)
  qed
  then show ?thesis by (auto simp: without_def intro: filter_cong)
qed

end
