(* ===== verification/Event_Properties.thy ===== *)
theory Event_Properties
  imports Events Samples
begin

text \<open>What event delivery guarantees, over the definitions of \<open>Events\<close>.\<close>

text \<open>
  C11. Events leave the outbox in order and none is skipped: a batch sends a prefix of the waiting
  events, acknowledges it except for a last one that failed, and exactly the unacknowledged rest
  stays waiting, in the same order; the batch is no longer than its limit.
\<close>

theorem events_delivered_in_order:
  assumes "publish_pending s env identity lease c limit d = Inr (d', delivered, sent)" "events_wf d"
  shows "int delivered \<le> limit \<and> waiting d' = drop delivered (waiting d) \<and> sent = take (length sent) (waiting d)
    \<and> (length sent = delivered \<or> length sent = Suc delivered) \<and> events_wf d'"
proof -
  have "publish_rounds s env identity lease c (nat limit) 0 d = Inr (d', delivered, sent)" "1 \<le> limit"
    using assms(1) by (auto simp: publish_pending_def split: if_splits)
  from publish_rounds_prefix [OF this(1) assms(2)] this(2) show ?thesis by auto
qed

definition sample_event :: "int \<Rightarrow> event_row" where
  "sample_event i = \<lparr>e_id = i, e_event_type = Job_updated, e_resource_id = 1, e_revision = i, e_occurred_at = 5,
     e_payload = Job_payload 1 None Pending (Some ''lichess'') ''fetch_user_games'' 0 0 None ''local'',
     e_attempts = 0, e_next_attempt_at = 0, e_delivered_at = None, e_last_error = None\<rparr>"

definition event_db :: db where
  "event_db = empty_db\<lparr>db_events := [sample_event 1, sample_event 2, sample_event 3], db_next_event := 4\<rparr>"

definition sample_mercure :: mercure_settings where
  "sample_mercure = \<lparr>ms_timeout_s = 15, ms_retry_base_s = 1, ms_retry_max_s = 300\<rparr>"

text \<open>The hub accepts the first event and answers the second with status 500.\<close>

definition sample_env :: publisher_env where
  "sample_env = \<lparr>en_send = (\<lambda>n e. publish (\<lambda>_. None) (\<lambda>e. Hub_status (if pe_outbox_id e = 1 then 200 else 500) None) e 9),
     en_before = (\<lambda>_. 9), en_after = (\<lambda>_. 10)\<rparr>"

lemma sample_batch:
  "case publish_pending sample_mercure sample_env (Some ''a'') None (fresh_conn 7) 100 event_db of
     Inr (d, n, sent) \<Rightarrow> n = 1 \<and> sent = [1, 2] | Inl _ \<Rightarrow> False"
  by code_simp

theorem events_delivered_in_order_witness:
  "\<exists>d. publish_pending sample_mercure sample_env (Some ''a'') None (fresh_conn 7) 100 event_db = Inr (d, 1, [1, 2])
     \<and> waiting d = [2, 3]"
proof -
  obtain d where p: "publish_pending sample_mercure sample_env (Some ''a'') None (fresh_conn 7) 100 event_db = Inr (d, 1, [1, 2])"
    using sample_batch by (auto split: sum.splits prod.splits)
  have wf: "events_wf event_db" by (simp add: events_wf_def event_tab.unique_keys_def event_db_def sample_event_def)
  have "waiting event_db = [1, 2, 3]" by code_simp
  with events_delivered_in_order [OF p wf] p show ?thesis by simp
qed

text \<open>
  Retention never drops a waiting event by itself: without an explicit cutoff for pending events
  the waiting events stay as they are, and in every case at most the batch size is deleted.
\<close>

lemma retention_keeps_waiting:
  assumes "prune_events c locked t discard limit d = Inr (d', removed, discarded)" "events_wf d"
  shows "int (removed + discarded) \<le> limit \<and> (discard = None \<longrightarrow> pending_events d' = pending_events d \<and> discarded = 0)"
proof -
  let ?r = "prune_delivered locked t (nat limit) (db_events d)"
  let ?d = "d\<lparr>db_events := without ?r (db_events d)\<rparr>"
  let ?p = "case discard of None \<Rightarrow> [] | Some u \<Rightarrow> prune_pending locked u (nat limit - length ?r) (db_events ?d)"
  have l: "1 \<le> limit" and d': "d' = ?d\<lparr>db_events := without ?p (db_events ?d)\<rparr>" "removed = length ?r" "discarded = length ?p"
    using assms(1) by (auto simp: prune_events_def Let_def rbind_eq_Inr split: if_splits)
  have "length ?r \<le> nat limit" "length ?p \<le> nat limit - length ?r"
    by (auto simp: prune_delivered_def prune_pending_def split: option.splits)
  then have "int (removed + discarded) \<le> limit" using l unfolding d'(2,3) by linarith
  moreover have "pending_events d' = pending_events d" if "discard = None"
    using prune_only_delivered [OF assms(2), of locked t "nat limit"] that
    by (simp add: d' pending_events_def without_def)
  moreover have "discard = None \<Longrightarrow> discarded = 0" by (simp add: d'(3))
  ultimately show ?thesis by blast
qed

definition retention_conn :: conn where
  "retention_conn = fresh_conn 7"

definition retention_db :: db where
  "retention_db = event_db\<lparr>db_events := [(sample_event 1)\<lparr>e_delivered_at := Some 2\<rparr>, sample_event 2],
     db_locks := [\<lparr>l_key = 0x43435241574C1002, l_pid = 7, l_shared = False\<rparr>]\<rparr>"

end
