(* ===== verification/Sessions.thy ===== *)
theory Sessions
  imports Prelude
begin

text \<open>
  Admission of database sessions, storage/session\_admission.py: a process holds at most
  \<open>max_connections\<close> sessions, each with a permit that is returned once. The condition variable makes
  \<open>acquire\<close> wait at most the timeout for a free place; what the model takes from it is the value of
  the predicate when the wait ends. Concurrent calls are interleavings of the two critical
  sections, so the properties are about every sequence of them.
\<close>

record admission_settings =
  ad_max_connections :: int
  ad_admission_timeout_s :: rat

text \<open>\<open>threading.TIMEOUT_MAX\<close> of the platform is a parameter.\<close>

definition make_admission_settings :: "rat \<Rightarrow> admission_settings \<Rightarrow> admission_settings result" where
  "make_admission_settings timeout_max s =
     (if ad_max_connections s < 1
      then Inl (ValueError ''CHESS_CRAWL_DATABASE_MAX_CONNECTIONS must be a positive integer'')
      else if \<not> (0 < ad_admission_timeout_s s \<and> ad_admission_timeout_s s \<le> timeout_max)
      then Inl (ValueError ''CHESS_CRAWL_DATABASE_ADMISSION_TIMEOUT_S must be finite, positive, and supported by the threading timer'')
      else Inr s)"

definition require_worker_capacity :: "admission_settings \<Rightarrow> unit result" where
  "require_worker_capacity s =
     (if ad_max_connections s < 2
      then Inl (ValueError ''Workers require CHESS_CRAWL_DATABASE_MAX_CONNECTIONS >= 2 for execution and heartbeat sessions'')
      else Inr ())"

text \<open>A pool with the \<open>_released\<close> flags of the permits it has issued, by number.\<close>

record admission_pool =
  ap_settings :: admission_settings
  ap_active :: int
  ap_permits :: "bool list"

definition new_pool :: "admission_settings \<Rightarrow> admission_pool" where
  "new_pool s = \<lparr>ap_settings = s, ap_active = 0, ap_permits = []\<rparr>"

text \<open>\<open>SessionAdmission.acquire\<close> with the new permit's number.\<close>

definition acquire_permit :: "admission_pool \<Rightarrow> (admission_pool \<times> nat) result" where
  "acquire_permit p =
     (if \<not> ap_active p < ad_max_connections (ap_settings p)
      then Inl (DatabaseError ''The process PostgreSQL session capacity is occupied; retry later'')
      else Inr (p\<lparr>ap_active := ap_active p + 1, ap_permits := ap_permits p @ [False]\<rparr>, length (ap_permits p)))"

text \<open>\<open>SessionAdmission.release\<close>.\<close>

definition release_session :: "admission_pool \<Rightarrow> admission_pool result" where
  "release_session p =
     (if ap_active p \<le> 0 then Inl (RuntimeError ''PostgreSQL session permit was released without ownership'')
      else Inr (p\<lparr>ap_active := ap_active p - 1\<rparr>))"

text \<open>\<open>SessionPermit.release\<close> of an issued permit.\<close>

definition release_permit :: "nat \<Rightarrow> admission_pool \<Rightarrow> admission_pool result" where
  "release_permit k p =
     (if ap_permits p ! k then Inr p
      else release_session (p\<lparr>ap_permits := (ap_permits p)[k := True]\<rparr>))"

text \<open>\<open>process_session_admission\<close> and \<open>reset_session_admission\<close> on the process-wide pool.\<close>

definition process_session_admission :: "admission_settings \<Rightarrow> admission_pool option \<Rightarrow> admission_pool" where
  "process_session_admission env pool = (case pool of None \<Rightarrow> new_pool env | Some p \<Rightarrow> p)"

definition reset_session_admission :: "admission_pool option \<Rightarrow> admission_pool option result" where
  "reset_session_admission pool = (case pool of
       Some p \<Rightarrow> if ap_active p \<noteq> 0
         then Inl (RuntimeError ''Cannot reset PostgreSQL session admission while connections are active'')
         else Inr None
     | None \<Rightarrow> Inr None)"

inductive pool_step :: "admission_pool \<Rightarrow> admission_pool \<Rightarrow> bool" where
  take_place: "acquire_permit p = Inr (p', k) \<Longrightarrow> pool_step p p'"
| return_place: "k < length (ap_permits p) \<Longrightarrow> release_permit k p = Inr p' \<Longrightarrow> pool_step p p'"

inductive_cases pool_stepE: "pool_step p p'"

definition pool_inv :: "admission_pool \<Rightarrow> bool" where
  "pool_inv p \<longleftrightarrow> ap_active p = count_where Not (ap_permits p) \<and> ap_active p \<le> ad_max_connections (ap_settings p)"

lemma count_Not_release:
  "k < length xs \<Longrightarrow> \<not> xs ! k \<Longrightarrow> count_where Not (xs[k := True]) = count_where Not xs - 1"
proof (induction xs arbitrary: k)
  case (Cons x xs)
  then show ?case by (cases k) auto
qed simp

lemma pool_step_inv: "pool_step p p' \<Longrightarrow> pool_inv p \<Longrightarrow> pool_inv p'"
  by (induction rule: pool_step.induct)
    (auto simp: pool_inv_def acquire_permit_def release_permit_def release_session_def count_Not_release split: if_splits)

lemma open_permit_active:
  "k < length xs \<Longrightarrow> \<not> xs ! k \<Longrightarrow> 0 < count_where Not xs"
proof (induction xs arbitrary: k)
  case (Cons x xs)
  then show ?case by (cases k) (auto simp: add_pos_nonneg)
qed simp

lemma pool_reachable_inv:
  assumes "pool_step\<^sup>*\<^sup>* (new_pool s) p" "1 \<le> ad_max_connections s"
  shows "pool_inv p" "ap_settings p = s"
proof -
  have "pool_inv p \<and> ap_settings p = s"
    using assms(1)
  proof (induction rule: rtranclp_induct)
    case base
    then show ?case using assms(2) by (simp add: new_pool_def pool_inv_def)
  next
    case (step q r)
    have "ap_settings r = ap_settings q" using step(2)
      by (auto elim!: pool_stepE simp: acquire_permit_def release_permit_def release_session_def split: if_splits)
    then show ?case using step pool_step_inv by auto
  qed
  then show "pool_inv p" "ap_settings p = s" by auto
qed

text \<open>
  However acquisitions and releases interleave, the sessions in use are the permits not yet
  returned, never more than the configured maximum; returning a permit never fails, and
  returning it again changes nothing.
\<close>

lemma session_capacity_respected:
  assumes "pool_step\<^sup>*\<^sup>* (new_pool s) p" "1 \<le> ad_max_connections s"
  shows "ap_active p = count_where Not (ap_permits p) \<and> ap_active p \<le> ad_max_connections s
    \<and> (\<forall>k < length (ap_permits p). \<exists>q. release_permit k p = Inr q \<and> release_permit k q = Inr q
         \<and> ap_active q = (if ap_permits p ! k then ap_active p else ap_active p - 1))"
proof -
  note inv = pool_reachable_inv [OF assms]
  have act: "ap_active p = count_where Not (ap_permits p)" using inv(1) by (simp add: pool_inv_def)
  have "\<exists>q. release_permit k p = Inr q \<and> release_permit k q = Inr q
         \<and> ap_active q = (if ap_permits p ! k then ap_active p else ap_active p - 1)" if k: "k < length (ap_permits p)" for k
    using open_permit_active [OF k] k act by (cases "ap_permits p ! k") (auto simp: release_permit_def release_session_def)
  then show ?thesis using inv act by (simp add: pool_inv_def)
qed

definition sample_pool_settings :: admission_settings where
  "sample_pool_settings = \<lparr>ad_max_connections = 2, ad_admission_timeout_s = 5\<rparr>"

end
