(* ===== verification/Archive.thy ===== *)
theory Archive
  imports Budgets
begin

text \<open>
  Preserved source bytes: the immutable object adapters of storage/object\_store.py, the
  references and relocation of storage/archives.py, and the payload table of storage/raw.py.
  Bytes are strings of code points 0 to 255. SHA-256 and gzip are the record \<open>codec\<close>; what the
  proofs use of them is \<open>codec_ok\<close> (a hexadecimal digest of 64 places, and that decompression
  inverts compression). The objects of all stores are one partial map from backend, location
  and key; symbolic links, directory creation and file synchronisation are not modelled.
\<close>

record codec =
  cd_sha :: "string \<Rightarrow> string"
  cd_gzip :: "int \<Rightarrow> string \<Rightarrow> string"
  cd_gunzip :: "string \<Rightarrow> string option"

definition is_hex :: "char \<Rightarrow> bool" where
  "is_hex c \<longleftrightarrow> is_digit c \<or> (97 \<le> (of_char c :: nat) \<and> (of_char c :: nat) \<le> 102)"

definition codec_ok :: "codec \<Rightarrow> bool" where
  "codec_ok cd \<longleftrightarrow> (\<forall>b. length (cd_sha cd b) = 64 \<and> list_all is_hex (cd_sha cd b))
     \<and> (\<forall>t b. cd_gunzip cd (cd_gzip cd t b) = Some b)"

section \<open>Object stores\<close>

type_synonym objects = "string \<times> string \<times> string \<Rightarrow> string option"

record store =
  st_backend :: string
  st_location :: string

definition digest :: "codec \<Rightarrow> string \<Rightarrow> string" where
  "digest cd b = ''sha256:'' @ cd_sha cd b"

definition object_key :: "string \<Rightarrow> string result" where
  "object_key h =
     (if starts_with ''sha256:'' h \<and> length h = 71 \<and> list_all is_hex (drop 7 h)
      then Inr (''sha256/'' @ take 2 (drop 7 h) @ ''/'' @ drop 7 h @ ''.gz'')
      else Inl (ValueError ''Invalid archive body hash''))"

definition key_segment :: "string \<Rightarrow> bool" where
  "key_segment s \<longleftrightarrow> s \<noteq> [] \<and> list_all (\<lambda>c. is_ascii_alnum c \<or> c = CHR ''_'' \<or> c = CHR ''-'') s"

definition blob_name :: "string \<Rightarrow> bool" where
  "blob_name s \<longleftrightarrow> length s = 67 \<and> list_all is_hex (take 64 s) \<and> drop 64 s = ''.gz''"

text \<open>\<open>_validate_key\<close>: any namespace, then the directory \<open>sha256\<close>, two places and the file name.\<close>

definition validate_key :: "string \<Rightarrow> unit result" where
  "validate_key key =
     (let segs = split_on (CHR ''/'') key; n = length segs in
      if 3 \<le> n \<and> list_all key_segment (take (n - 3) segs) \<and> segs ! (n - 3) = ''sha256''
         \<and> length (segs ! (n - 2)) = 2 \<and> list_all is_hex (segs ! (n - 2)) \<and> blob_name (segs ! (n - 1))
      then Inr () else Inl (ValueError ''Invalid archive object key''))"

definition obj_at :: "store \<Rightarrow> string \<Rightarrow> string \<times> string \<times> string" where
  "obj_at s key = (st_backend s, st_location s, key)"

text \<open>The bounded read: one byte more than expected is enough to see a longer object.\<close>

definition read_object :: "store \<Rightarrow> string \<Rightarrow> nat \<Rightarrow> objects \<Rightarrow> string result" where
  "read_object s key expected_size os = rbind (validate_key key) (\<lambda>_.
     case os (obj_at s key) of
       None \<Rightarrow> Inl (OSError key)
     | Some b \<Rightarrow> let body = take (expected_size + 1) b in
         if length body \<noteq> expected_size then Inl (ValueError ''Archive object size mismatch'') else Inr body)"

definition put_object :: "store \<Rightarrow> string \<Rightarrow> string \<Rightarrow> objects \<Rightarrow> objects result" where
  "put_object s key body os = rbind (validate_key key) (\<lambda>_.
     case os (obj_at s key) of
       None \<Rightarrow> Inr (os(obj_at s key \<mapsto> body))
     | Some _ \<Rightarrow> rbind (read_object s key (length body) os) (\<lambda>old.
         if old \<noteq> body then Inl (ValueError ''Existing archive object differs from supplied bytes'') else Inr os))"

definition delete_object :: "store \<Rightarrow> string \<Rightarrow> objects \<Rightarrow> objects result" where
  "delete_object s key os = rbind (validate_key key) (\<lambda>_. Inr (os(obj_at s key := None)))"

definition store_for_reference :: "string \<Rightarrow> string \<Rightarrow> store result" where
  "store_for_reference backend location =
     (if backend = ''local'' \<or> backend = ''s3'' then Inr \<lparr>st_backend = backend, st_location = location\<rparr>
      else Inl (ValueError ''Unsupported archive object backend''))"

section \<open>Tables\<close>

record archive_object =
  ao_id :: int
  ao_backend :: string
  ao_location :: string
  ao_object_key :: string
  ao_body_hash :: string
  ao_stored_hash :: string
  ao_body_bytes :: nat
  ao_stored_bytes :: nat
  ao_created_at :: int

record raw_row =
  rw_id :: int
  rw_provider :: string
  rw_endpoint_type :: string
  rw_provider_url :: string
  rw_canonical_source_key :: string
  rw_request_params :: json
  rw_response_status :: int
  rw_response_headers :: json
  rw_content_type :: string
  rw_fetched_at :: int
  rw_body_hash :: string
  rw_body_compression :: string
  rw_raw_body :: "string option"
  rw_body_bytes :: nat
  rw_parser_version :: "string option"
  rw_normalization_status :: string
  rw_normalized_at :: "int option"
  rw_error_ref :: "int option"
  rw_archive_object_id :: "int option"
  rw_owner_scope :: string

record fetch_log =
  fl_id :: int
  fl_provider :: string
  fl_job_id :: "int option"
  fl_crawl_run_id :: "int option"
  fl_url :: string
  fl_endpoint_type :: string
  fl_method :: string
  fl_status_code :: "int option"
  fl_from_cache :: bool
  fl_etag :: "string option"
  fl_last_modified :: "string option"
  fl_retry_after :: "int option"
  fl_bytes :: "int option"
  fl_duration_ms :: "int option"
  fl_attempt :: int
  fl_attempted_at :: int
  fl_raw_payload_id :: "int option"
  fl_error_ref :: "int option"
  fl_provider_user_id :: "int option"

record source_record =
  sr_id :: int
  sr_entity_type :: string
  sr_entity_id :: int
  sr_provider :: string
  sr_endpoint_type :: string
  sr_source_key :: "string option"
  sr_json_pointer :: "string option"
  sr_raw_payload_id :: int
  sr_first_seen_at :: int

record import_row =
  im_id :: int
  im_archive_object_id :: int
  im_workspace_id :: string
  im_source_name :: string
  im_media_type :: string
  im_captured_at :: int

record arch =
  ar_objects :: "archive_object list"
  ar_raw :: "raw_row list"
  ar_logs :: "fetch_log list"
  ar_sources :: "source_record list"
  ar_imports :: "import_row list"
  ar_next_object :: int
  ar_next_raw :: int
  ar_next_log :: int
  ar_next_source :: int
  ar_next_import :: int

section \<open>Archive objects\<close>

record prepared =
  pr_backend :: string
  pr_location :: string
  pr_object_key :: string
  pr_body_hash :: string
  pr_stored_hash :: string
  pr_body_bytes :: nat
  pr_stored_bytes :: nat

definition namespace_ok :: "string \<Rightarrow> bool" where
  "namespace_ok p \<longleftrightarrow> ends_with ''/'' p \<and> list_all key_segment (split_on (CHR ''/'') (butlast p))"

text \<open>
  \<open>prepare_archive_object\<close> publishes and verifies by reading back, outside every transaction; an
  object written before a failing check would stay as an unreferenced orphan.
\<close>

definition prepare_archive_object :: "codec \<Rightarrow> string \<Rightarrow> store \<Rightarrow> string \<Rightarrow> objects \<Rightarrow> (objects \<times> prepared) result" where
  "prepare_archive_object cd body s key_prefix os =
     (let encoded = cd_gzip cd 0 body; stored_hash = digest cd encoded in
      if key_prefix \<noteq> [] \<and> \<not> namespace_ok key_prefix then Inl (ValueError ''Invalid archive object namespace'')
      else rbind (object_key stored_hash) (\<lambda>k. let key = key_prefix @ k in
        rbind (put_object s key encoded os) (\<lambda>os'.
        rbind (read_object s key (length encoded) os') (\<lambda>back.
        if digest cd back \<noteq> stored_hash then Inl (ValueError ''Published archive object checksum mismatch'')
        else Inr (os', \<lparr>pr_backend = st_backend s, pr_location = st_location s, pr_object_key = key,
          pr_body_hash = digest cd body, pr_stored_hash = stored_hash, pr_body_bytes = length body,
          pr_stored_bytes = length encoded\<rparr>)))))"

text \<open>\<open>prepare_or_reuse_archive_object\<close>; \<open>in_transaction\<close> is the connection's state.\<close>

definition prepare_or_reuse_archive_object ::
  "codec \<Rightarrow> bool \<Rightarrow> string \<Rightarrow> store \<Rightarrow> objects \<Rightarrow> (objects \<times> prepared) result" where
  "prepare_or_reuse_archive_object cd in_transaction body s os =
     (if in_transaction then Inl (ValueError ''External archive writes in a transaction require a prepared object'')
      else prepare_archive_object cd body s [] os)"

definition object_at :: "string \<Rightarrow> string \<Rightarrow> string \<Rightarrow> arch \<Rightarrow> archive_object option" where
  "object_at backend location key a = find_row (\<lambda>o'. ao_backend o' = backend \<and> ao_location o' = location
     \<and> ao_object_key o' = key) (ar_objects a)"

definition register_archive_object :: "prepared \<Rightarrow> int \<Rightarrow> arch \<Rightarrow> (arch \<times> int) result" where
  "register_archive_object p now a = (case object_at (pr_backend p) (pr_location p) (pr_object_key p) a of
       None \<Rightarrow> Inr (a\<lparr>ar_objects := ar_objects a @ [\<lparr>ao_id = ar_next_object a, ao_backend = pr_backend p,
            ao_location = pr_location p, ao_object_key = pr_object_key p, ao_body_hash = pr_body_hash p,
            ao_stored_hash = pr_stored_hash p, ao_body_bytes = pr_body_bytes p, ao_stored_bytes = pr_stored_bytes p,
            ao_created_at = now\<rparr>], ar_next_object := ar_next_object a + 1\<rparr>, ar_next_object a)
     | Some e \<Rightarrow>
         if (ao_body_hash e, ao_stored_hash e, ao_body_bytes e, ao_stored_bytes e)
            \<noteq> (pr_body_hash p, pr_stored_hash p, pr_body_bytes p, pr_stored_bytes p)
         then Inl (ValueError ''Archive object reference conflicts with published bytes'')
         else Inr (a, ao_id e))"

definition store_archive_object ::
  "codec \<Rightarrow> bool \<Rightarrow> string \<Rightarrow> store \<Rightarrow> prepared option \<Rightarrow> int \<Rightarrow> objects \<Rightarrow> arch \<Rightarrow> (objects \<times> arch \<times> int) result" where
  "store_archive_object cd in_transaction body s prep now os a =
     rbind (case prep of Some p \<Rightarrow> Inr (os, p)
            | None \<Rightarrow> prepare_or_reuse_archive_object cd in_transaction body s os) (\<lambda>(os', p).
     if pr_body_hash p \<noteq> digest cd body \<or> pr_body_bytes p \<noteq> length body
     then Inl (ValueError ''Prepared archive object does not match supplied source bytes'')
     else if (pr_backend p, pr_location p) \<noteq> (st_backend s, st_location s)
     then Inl (ValueError ''Prepared archive object does not match the selected store'')
     else rbind (register_archive_object p now a) (\<lambda>(a', i). Inr (os', a', i)))"

text \<open>\<open>_read_archive_body\<close>: the stored digest, bounded decompression, then the size and digest of the body.\<close>

definition read_archive_body :: "codec \<Rightarrow> archive_object \<Rightarrow> store \<Rightarrow> objects \<Rightarrow> string result" where
  "read_archive_body cd row s os =
     rbind (read_object s (ao_object_key row) (ao_stored_bytes row) os) (\<lambda>encoded.
     if digest cd encoded \<noteq> ao_stored_hash row then Inl (ValueError ''Archive object checksum mismatch'')
     else case cd_gunzip cd encoded of
       None \<Rightarrow> Inl (OSError ''Not a gzipped file'')
     | Some full \<Rightarrow> let body = take (ao_body_bytes row + 1) full in
         if length body \<noteq> ao_body_bytes row \<or> digest cd body \<noteq> ao_body_hash row
         then Inl (ValueError ''Archive body checksum or size mismatch'') else Inr body)"

definition read_archive_reference :: "codec \<Rightarrow> archive_object \<Rightarrow> store option \<Rightarrow> objects \<Rightarrow> string result" where
  "read_archive_reference cd row s os =
     rbind (case s of Some x \<Rightarrow> Inr x | None \<Rightarrow> store_for_reference (ao_backend row) (ao_location row)) (\<lambda>selected.
     if st_backend selected \<noteq> ao_backend row \<or> st_location selected \<noteq> ao_location row
     then Inl (ValueError ''Archive adapter does not match the stored reference'')
     else read_archive_body cd row selected os)"

definition object_row :: "arch \<Rightarrow> int \<Rightarrow> archive_object option" where
  "object_row a i = find_row (\<lambda>o'. ao_id o' = i) (ar_objects a)"

definition read_archive_object :: "codec \<Rightarrow> int \<Rightarrow> store option \<Rightarrow> objects \<Rightarrow> arch \<Rightarrow> string result" where
  "read_archive_object cd i s os a = (case object_row a i of
       None \<Rightarrow> Inl (KeyError (''Archive object not found: '' @ str_int i))
     | Some row \<Rightarrow> read_archive_reference cd row s os)"

section \<open>Imports\<close>

definition validate_import_workspace :: "string \<Rightarrow> unit result" where
  "validate_import_workspace ws =
     rguard (strip ws \<noteq> []) (ValueError ''An explicit nonempty archive import workspace is required'')"

definition register_import :: "prepared \<Rightarrow> string \<Rightarrow> string \<Rightarrow> string \<Rightarrow> int option \<Rightarrow> int \<Rightarrow> arch \<Rightarrow> (arch \<times> int) result" where
  "register_import p ws source_name media_type captured_at now a =
     rbind (register_archive_object p now a) (\<lambda>(a', i).
     Inr (a'\<lparr>ar_imports := ar_imports a' @ [\<lparr>im_id = ar_next_import a', im_archive_object_id = i, im_workspace_id = ws,
            im_source_name = source_name, im_media_type = media_type, im_captured_at = coalesce captured_at now\<rparr>],
          ar_next_import := ar_next_import a' + 1\<rparr>, ar_next_import a'))"

definition store_import_backup ::
  "codec \<Rightarrow> bool \<Rightarrow> string \<Rightarrow> string \<Rightarrow> string \<Rightarrow> store \<Rightarrow> string \<Rightarrow> int option \<Rightarrow> prepared option \<Rightarrow> int
   \<Rightarrow> objects \<Rightarrow> arch \<Rightarrow> (objects \<times> arch \<times> int) result" where
  "store_import_backup cd in_transaction body ws source_name s media_type captured_at prep now os a =
     rbind (validate_import_workspace ws) (\<lambda>_.
     if source_name = [] \<or> media_type = [] then Inl (ValueError ''Import source name and media type are required'')
     else rbind (case prep of Some p \<Rightarrow> Inr (os, p)
            | None \<Rightarrow> prepare_or_reuse_archive_object cd in_transaction body s os) (\<lambda>(os', p).
     if pr_body_hash p \<noteq> digest cd body \<or> pr_body_bytes p \<noteq> length body
     then Inl (ValueError ''Prepared archive object does not match supplied source bytes'')
     else if (pr_backend p, pr_location p) \<noteq> (st_backend s, st_location s)
     then Inl (ValueError ''Prepared archive object does not match the selected store'')
     else rbind (register_import p ws source_name media_type captured_at now a) (\<lambda>(a', i). Inr (os', a', i))))"

definition read_import_backup :: "codec \<Rightarrow> int \<Rightarrow> string \<Rightarrow> objects \<Rightarrow> arch \<Rightarrow> (import_row \<times> string) result" where
  "read_import_backup cd i ws os a =
     rbind (validate_import_workspace ws) (\<lambda>_.
     case find_row (\<lambda>r. im_id r = i \<and> im_workspace_id r = ws) (ar_imports a) of
       None \<Rightarrow> Inl (KeyError ''Archive import not found in this workspace'')
     | Some r \<Rightarrow> rbind (read_archive_object cd (im_archive_object_id r) None os a) (\<lambda>body. Inr (r, body)))"

end
