(* ===== verification/Raw_Store.thy ===== *)
theory Raw_Store
  imports Archive
begin

text \<open>
  The table of captured provider bodies, storage/raw.py, and the relocation of inline bodies to
  object storage from storage/archives.py. A body is stored once per source and digest, inline
  (compressed from 4096 bytes on) or by reference to a published object, and every read verifies
  digest and size.
\<close>

section \<open>Records\<close>

text \<open>\<open>RawRecord\<close> of providers/base.py, with the fields the storage layer reads.\<close>

record raw_record =
  rr_provider :: string
  rr_endpoint_type :: string
  rr_request_url :: string
  rr_canonical_source_key :: string
  rr_request_params :: "(string \<times> json) list"
  rr_http_status :: int
  rr_fetched_at :: int
  rr_body :: "string option"
  rr_media_type :: string
  rr_etag :: "string option"
  rr_last_modified :: "string option"
  rr_body_hash :: "string option"
  rr_response_headers :: "(string \<times> json) list"
  rr_owner_scope :: string

record prepared_payload =
  pp_record :: raw_record
  pp_body_hash :: string
  pp_archive_object :: "prepared option"
  pp_external_expected :: bool

definition COMPRESSION_THRESHOLD_BYTES :: nat where
  "COMPRESSION_THRESHOLD_BYTES = 4096"

section \<open>Storing\<close>

definition body_hash_of :: "codec \<Rightarrow> raw_record \<Rightarrow> string result" where
  "body_hash_of cd r = (case rr_body r of
       None \<Rightarrow> Inl (ValueError ''raw payload storage requires body bytes'')
     | Some b \<Rightarrow>
         if rr_body_hash r \<noteq> None \<and> rr_body_hash r \<noteq> Some (digest cd b)
         then Inl (ValueError ''Supplied raw payload body hash does not match its bytes'')
         else Inr (digest cd b))"

definition same_payload :: "raw_record \<Rightarrow> string \<Rightarrow> raw_row \<Rightarrow> bool" where
  "same_payload r h w \<longleftrightarrow> rw_provider w = rr_provider r \<and> rw_endpoint_type w = rr_endpoint_type r
     \<and> rw_canonical_source_key w = rr_canonical_source_key r \<and> rw_body_hash w = h \<and> rw_owner_scope w = rr_owner_scope r"

definition existing_payload :: "raw_record \<Rightarrow> string \<Rightarrow> arch \<Rightarrow> int option" where
  "existing_payload r h a = (case sort_key rw_id (filter (same_payload r h) (ar_raw a)) of
       [] \<Rightarrow> None | w # _ \<Rightarrow> Some (rw_id w))"

text \<open>\<open>prepare_raw_payload\<close>; \<open>archive_backend\<close> is the configured store, \<open>None\<close> for the database.\<close>

definition prepare_raw_payload ::
  "codec \<Rightarrow> bool \<Rightarrow> store option \<Rightarrow> raw_record \<Rightarrow> store option \<Rightarrow> objects \<Rightarrow> arch \<Rightarrow> (objects \<times> prepared_payload) result" where
  "prepare_raw_payload cd in_transaction archive_backend r s os a =
     rbind (body_hash_of cd r) (\<lambda>h.
     let external = (s \<noteq> None \<or> archive_backend \<noteq> None);
         plain = (\<lambda>ext. \<lparr>pp_record = r, pp_body_hash = h, pp_archive_object = None, pp_external_expected = ext\<rparr>) in
     if \<not> external then Inr (os, plain False)
     else if existing_payload r h a \<noteq> None then Inr (os, plain True)
     else if in_transaction then Inl (ValueError ''External archive writes in a transaction require a prepared object'')
     else case (if s \<noteq> None then s else archive_backend) of
         None \<Rightarrow> Inr (os, plain False)
       | Some selected \<Rightarrow> (case rr_body r of
             None \<Rightarrow> Inl (ValueError ''raw payload storage requires body bytes'')
           | Some b \<Rightarrow> rbind (prepare_or_reuse_archive_object cd in_transaction b selected os) (\<lambda>(os', p).
               Inr (os', \<lparr>pp_record = r, pp_body_hash = h, pp_archive_object = Some p, pp_external_expected = True\<rparr>))))"

definition encode_body :: "codec \<Rightarrow> int \<Rightarrow> string \<Rightarrow> string \<times> string" where
  "encode_body cd now body = (if length body < COMPRESSION_THRESHOLD_BYTES then (''none'', body)
     else (''gzip'', cd_gzip cd now body))"

definition decode_body :: "codec \<Rightarrow> string \<Rightarrow> string \<Rightarrow> string result" where
  "decode_body cd stored compression =
     (if compression = ''none'' then Inr stored
      else if compression = ''gzip'' then (case cd_gunzip cd stored of
          None \<Rightarrow> Inl (OSError ''Not a gzipped file'') | Some b \<Rightarrow> Inr b)
      else Inl (ValueError (''unsupported raw body compression: '' @ compression)))"

definition set_default :: "string \<Rightarrow> string option \<Rightarrow> (string \<times> json) list \<Rightarrow> (string \<times> json) list" where
  "set_default k v kvs = (case v of None \<Rightarrow> kvs
     | Some s \<Rightarrow> if has_key kvs k then kvs else kvs @ [(k, JStr s)])"

definition stored_headers :: "raw_record \<Rightarrow> json" where
  "stored_headers r = sort_keys (JObj (set_default ''last_modified'' (rr_last_modified r)
     (set_default ''etag'' (rr_etag r) (rr_response_headers r))))"

definition raw_row_of ::
  "raw_record \<Rightarrow> string \<Rightarrow> string \<Rightarrow> string \<Rightarrow> string option \<Rightarrow> string option \<Rightarrow> string \<Rightarrow> int option \<Rightarrow> int \<Rightarrow> int \<Rightarrow> raw_row" where
  "raw_row_of r h body compression stored parser_version status archive_id now i =
     \<lparr>rw_id = i, rw_provider = rr_provider r, rw_endpoint_type = rr_endpoint_type r, rw_provider_url = rr_request_url r,
      rw_canonical_source_key = rr_canonical_source_key r, rw_request_params = sort_keys (JObj (rr_request_params r)),
      rw_response_status = rr_http_status r, rw_response_headers = stored_headers r, rw_content_type = rr_media_type r,
      rw_fetched_at = (if rr_fetched_at r \<noteq> 0 then rr_fetched_at r else now), rw_body_hash = h,
      rw_body_compression = compression, rw_raw_body = stored, rw_body_bytes = length body,
      rw_parser_version = parser_version, rw_normalization_status = status, rw_normalized_at = None,
      rw_error_ref = None, rw_archive_object_id = archive_id, rw_owner_scope = rr_owner_scope r\<rparr>"

definition add_raw :: "raw_row \<Rightarrow> arch \<Rightarrow> arch \<times> int" where
  "add_raw w a = (a\<lparr>ar_raw := ar_raw a @ [w], ar_next_raw := ar_next_raw a + 1\<rparr>, rw_id w)"

text \<open>\<open>_store_raw_payload\<close>.\<close>

definition store_prepared ::
  "codec \<Rightarrow> raw_record \<Rightarrow> string option \<Rightarrow> string \<Rightarrow> prepared_payload \<Rightarrow> int \<Rightarrow> arch \<Rightarrow> (arch \<times> int) result" where
  "store_prepared cd r parser_version status pp now a =
     (let h = pp_body_hash pp in
      case existing_payload r h a of
        Some i \<Rightarrow> Inr (a, i)
      | None \<Rightarrow> (case rr_body r of
          None \<Rightarrow> Inl (ValueError ''raw payload storage requires body bytes'')
        | Some body \<Rightarrow> (case pp_archive_object pp of
            None \<Rightarrow>
              if pp_external_expected pp
              then Inl (ValueError ''External archive writes in a transaction require a prepared object'')
              else Inr (add_raw (raw_row_of r h body (fst (encode_body cd now body)) (Some (snd (encode_body cd now body)))
                     parser_version status None now (ar_next_raw a)) a)
          | Some p \<Rightarrow>
              if pr_body_hash p \<noteq> h \<or> pr_body_bytes p \<noteq> length body
              then Inl (ValueError ''Prepared archive object does not match supplied source bytes'')
              else rbind (register_archive_object p now a) (\<lambda>(a', archive_id).
                Inr (add_raw (raw_row_of r h body ''gzip'' None parser_version status (Some archive_id) now (ar_next_raw a')) a')))))"

definition store_raw_payload ::
  "codec \<Rightarrow> bool \<Rightarrow> store option \<Rightarrow> raw_record \<Rightarrow> string option \<Rightarrow> string \<Rightarrow> store option \<Rightarrow> prepared option
   \<Rightarrow> prepared_payload option \<Rightarrow> int \<Rightarrow> objects \<Rightarrow> arch \<Rightarrow> (objects \<times> arch \<times> int) result" where
  "store_raw_payload cd in_transaction archive_backend r parser_version status s prep payload now os a =
     rbind (case payload of
         Some pp \<Rightarrow> if prep \<noteq> None \<or> pp_record pp \<noteq> r
           then Inl (ValueError ''Prepared raw payload does not match the supplied record'') else Inr (os, pp)
       | None \<Rightarrow> (case prep of
           Some p \<Rightarrow> rbind (body_hash_of cd r) (\<lambda>h.
             Inr (os, \<lparr>pp_record = r, pp_body_hash = h, pp_archive_object = Some p, pp_external_expected = True\<rparr>))
         | None \<Rightarrow> prepare_raw_payload cd in_transaction archive_backend r s os a)) (\<lambda>(os', pp).
     if s \<noteq> None \<and> \<not> pp_external_expected pp
     then Inl (ValueError ''Prepared raw payload does not match the selected store'')
     else if (case (pp_archive_object pp, s) of
           (Some p, Some x) \<Rightarrow> (pr_backend p, pr_location p) \<noteq> (st_backend x, st_location x) | _ \<Rightarrow> False)
     then Inl (ValueError ''Prepared archive object does not match the selected store'')
     else rbind (store_prepared cd r parser_version status pp now a) (\<lambda>(a', i). Inr (os', a', i)))"

section \<open>Reading\<close>

definition raw_by_id :: "arch \<Rightarrow> int \<Rightarrow> raw_row option" where
  "raw_by_id a i = find_row (\<lambda>w. rw_id w = i) (ar_raw a)"

definition raw_missing :: "int \<Rightarrow> pyerr" where
  "raw_missing i = KeyError (''raw payload not found: '' @ str_int i)"

text \<open>\<open>read_raw_payload\<close> after its budget charge: the row and its verified body.\<close>

definition raw_body_of :: "codec \<Rightarrow> objects \<Rightarrow> arch \<Rightarrow> raw_row \<Rightarrow> string result" where
  "raw_body_of cd os a w = (case rw_archive_object_id w of
       Some k \<Rightarrow> read_archive_object cd k None os a
     | None \<Rightarrow> decode_body cd (coalesce (rw_raw_body w) []) (rw_body_compression w))"

definition load_raw_payload :: "codec \<Rightarrow> objects \<Rightarrow> arch \<Rightarrow> int \<Rightarrow> (raw_row \<times> string) result" where
  "load_raw_payload cd os a i = (case raw_by_id a i of
       None \<Rightarrow> Inl (raw_missing i)
     | Some w \<Rightarrow> rbind (raw_body_of cd os a w) (\<lambda>body.
         if digest cd body \<noteq> rw_body_hash w then Inl (ValueError (''raw payload hash mismatch for id '' @ str_int i))
         else if length body \<noteq> rw_body_bytes w then Inl (ValueError (''raw payload size mismatch for id '' @ str_int i))
         else Inr (w, body)))"

text \<open>The whole \<open>read_raw_payload\<close>: a budgeted session pays for the read first.\<close>

definition read_raw_payload ::
  "codec \<Rightarrow> objects \<Rightarrow> conn \<Rightarrow> db \<Rightarrow> arch \<Rightarrow> int \<Rightarrow> (db \<times> conn \<times> raw_row \<times> string) result" where
  "read_raw_payload cd os c d a i =
     rbind (case cn_work_budget_id c of None \<Rightarrow> Inr (d, c) | Some b \<Rightarrow> reserve_payload_read c b i d) (\<lambda>(d', c').
     rbind (load_raw_payload cd os a i) (\<lambda>(w, body). Inr (d', c', w, body)))"

definition raw_payload_metadata :: "arch \<Rightarrow> int \<Rightarrow> (string \<times> string \<times> string \<times> string option) result" where
  "raw_payload_metadata a i = (case raw_by_id a i of None \<Rightarrow> Inl (raw_missing i)
     | Some w \<Rightarrow> Inr (rw_provider w, rw_endpoint_type w, rw_normalization_status w, rw_parser_version w))"

section \<open>Evidence of captures\<close>

definition or_now :: "int option \<Rightarrow> int \<Rightarrow> int" where
  "or_now t now = (case t of Some x \<Rightarrow> if x \<noteq> 0 then x else now | None \<Rightarrow> now)"

definition insert_source_record ::
  "string \<Rightarrow> int \<Rightarrow> string \<Rightarrow> string \<Rightarrow> int \<Rightarrow> string option \<Rightarrow> string option \<Rightarrow> int option \<Rightarrow> int \<Rightarrow> arch
   \<Rightarrow> arch \<times> int" where
  "insert_source_record entity_type entity_id provider endpoint_type raw source_key pointer first_seen now a =
     (case find_row (\<lambda>s. sr_entity_type s = entity_type \<and> sr_entity_id s = entity_id \<and> sr_raw_payload_id s = raw) (ar_sources a) of
        Some s \<Rightarrow> (a, sr_id s)
      | None \<Rightarrow> (a\<lparr>ar_sources := ar_sources a @ [\<lparr>sr_id = ar_next_source a, sr_entity_type = entity_type,
            sr_entity_id = entity_id, sr_provider = provider, sr_endpoint_type = endpoint_type, sr_source_key = source_key,
            sr_json_pointer = pointer, sr_raw_payload_id = raw, sr_first_seen_at = or_now first_seen now\<rparr>],
          ar_next_source := ar_next_source a + 1\<rparr>, ar_next_source a))"

text \<open>\<open>insert_fetch_log\<close> of a row whose id the table assigns.\<close>

definition insert_fetch_log :: "fetch_log \<Rightarrow> arch \<Rightarrow> arch \<times> int" where
  "insert_fetch_log f a = (a\<lparr>ar_logs := ar_logs a @ [f\<lparr>fl_id := ar_next_log a\<rparr>], ar_next_log := ar_next_log a + 1\<rparr>, ar_next_log a)"

definition update_raw_payload_status ::
  "int \<Rightarrow> string \<Rightarrow> string option \<Rightarrow> int option \<Rightarrow> int option \<Rightarrow> int \<Rightarrow> arch \<Rightarrow> arch" where
  "update_raw_payload_status i status parser_version normalized_at error_ref now a =
     a\<lparr>ar_raw := update_where (\<lambda>w. rw_id w = i) (\<lambda>w. w\<lparr>rw_normalization_status := status,
        rw_parser_version := (if parser_version \<noteq> None then parser_version else rw_parser_version w),
        rw_normalized_at := Some (or_now normalized_at now),
        rw_error_ref := (if error_ref \<noteq> None then error_ref else rw_error_ref w)\<rparr>) (ar_raw a)\<rparr>"

text \<open>A left join of payloads with their fetch logs.\<close>

definition with_logs :: "(fetch_log \<Rightarrow> bool) \<Rightarrow> fetch_log list \<Rightarrow> raw_row \<Rightarrow> (raw_row \<times> fetch_log option) list" where
  "with_logs p logs w = (case filter (\<lambda>f. fl_raw_payload_id f = Some (rw_id w) \<and> p f) logs of
       [] \<Rightarrow> [(w, None)] | fs \<Rightarrow> map (\<lambda>f. (w, Some f)) fs)"

text \<open>\<open>ORDER BY COALESCE(f.attempted_at, r.fetched_at) DESC, f.id DESC NULLS LAST, r.id DESC\<close>: the greatest.\<close>

definition observation_order :: "raw_row \<times> fetch_log option \<Rightarrow> int \<times> bool \<times> int \<times> int" where
  "observation_order rf = (case snd rf of
       None \<Rightarrow> (rw_fetched_at (fst rf), False, 0, rw_id (fst rf))
     | Some f \<Rightarrow> (fl_attempted_at f, True, fl_id f, rw_id (fst rf)))"

definition last_by :: "('a \<Rightarrow> 'k::linorder) \<Rightarrow> 'a list \<Rightarrow> 'a option" where
  "last_by k xs = (if xs = [] then None else Some (last (sort_key k xs)))"

definition latest_raw_payload_id :: "arch \<Rightarrow> string \<Rightarrow> int option" where
  "latest_raw_payload_id a key = map_option (\<lambda>rf. rw_id (fst rf)) (last_by observation_order
     (concat (map (with_logs (\<lambda>_. True) (ar_logs a)) (filter (\<lambda>w. rw_canonical_source_key w = key) (ar_raw a)))))"

definition success :: "fetch_log \<Rightarrow> bool" where
  "success f \<longleftrightarrow> fl_status_code f = Some 200 \<or> fl_status_code f = Some 304"

definition payload_observed_at :: "arch \<Rightarrow> int \<Rightarrow> int result" where
  "payload_observed_at a i = (case raw_by_id a i of
       None \<Rightarrow> Inl (raw_missing i)
     | Some w \<Rightarrow> Inr (fold max (map fl_attempted_at
         (filter (\<lambda>f. fl_raw_payload_id f = Some i \<and> success f) (ar_logs a))) (rw_fetched_at w)))"

definition newest_value :: "(fetch_log \<Rightarrow> string option) \<Rightarrow> int \<Rightarrow> fetch_log list \<Rightarrow> string option" where
  "newest_value g i logs = Option.bind (last_by (\<lambda>f. (fl_attempted_at f, fl_id f))
     (filter (\<lambda>f. fl_raw_payload_id f = Some i \<and> g f \<noteq> None) logs)) g"

definition str_json :: "string option \<Rightarrow> json" where
  "str_json s = (case s of None \<Rightarrow> JNull | Some t \<Rightarrow> JStr t)"

definition latest_validators :: "arch \<Rightarrow> string \<Rightarrow> (json \<times> json) result" where
  "latest_validators a key = (case latest_raw_payload_id a key of
       None \<Rightarrow> Inr (JNull, JNull)
     | Some i \<Rightarrow> (case raw_by_id a i of
         None \<Rightarrow> Inl (raw_missing i)
       | Some w \<Rightarrow> let h = (case rw_response_headers w of JObj kvs \<Rightarrow> kvs | _ \<Rightarrow> []) in
           Inr (py_or (str_json (newest_value fl_etag i (ar_logs a))) (obj_get h ''etag''),
                py_or (py_or (str_json (newest_value fl_last_modified i (ar_logs a))) (obj_get h ''last-modified''))
                  (obj_get h ''last_modified''))))"

text \<open>\<open>latest_job_payload\<close> joins logs, payloads and the job (by its row).\<close>

definition latest_job_payload :: "arch \<Rightarrow> db \<Rightarrow> int \<Rightarrow> string \<Rightarrow> string option \<Rightarrow> (int \<times> int) option" where
  "latest_job_payload a d job endpoint_type source_key = (case get_row d job of
       None \<Rightarrow> None
     | Some j \<Rightarrow> map_option (\<lambda>f. (coalesce (fl_raw_payload_id f) 0, fl_id f))
         (last_by (\<lambda>f. (fl_attempted_at f, fl_id f)) (filter (\<lambda>f. fl_job_id f = Some job \<and> success f
            \<and> (case Option.bind (fl_raw_payload_id f) (raw_by_id a) of
                 None \<Rightarrow> False
               | Some w \<Rightarrow> rw_endpoint_type w = endpoint_type \<and> Some (rw_provider w) = j_provider j
                   \<and> (rw_owner_scope w = ''public'' \<or> rw_owner_scope w = j_workspace_id j)
                   \<and> (case source_key of None \<Rightarrow> True | Some k \<Rightarrow> rw_canonical_source_key w = k))) (ar_logs a))))"

section \<open>Relocation\<close>

text \<open>\<open>_register_relocated_payload\<close>.\<close>

definition register_relocated_payload :: "int \<Rightarrow> prepared \<Rightarrow> int \<Rightarrow> arch \<Rightarrow> (arch \<times> nat) result" where
  "register_relocated_payload i p now a =
     rbind (require_row (raw_by_id a i)) (\<lambda>w.
     if rw_archive_object_id w \<noteq> None then Inr (a, 0)
     else if rw_body_hash w \<noteq> pr_body_hash p \<or> rw_body_bytes w \<noteq> pr_body_bytes p
     then Inl (ValueError ''Raw source changed during archive relocation'')
     else rbind (register_archive_object p now a) (\<lambda>(a', archive_id).
       Inr (a'\<lparr>ar_raw := update_where (\<lambda>w. rw_id w = i) (\<lambda>w. w\<lparr>rw_raw_body := None,
              rw_archive_object_id := Some archive_id, rw_body_compression := ''gzip''\<rparr>) (ar_raw a')\<rparr>, 1)))"

text \<open>\<open>_relocate_payload\<close> for a session without a work budget.\<close>

definition relocate_payload :: "codec \<Rightarrow> store \<Rightarrow> int \<Rightarrow> int \<Rightarrow> objects \<Rightarrow> arch \<Rightarrow> (objects \<times> arch \<times> nat) result" where
  "relocate_payload cd s i now os a =
     rbind (require_row (raw_by_id a i)) (\<lambda>w.
     if rw_archive_object_id w \<noteq> None then Inr (os, a, 0)
     else rbind (load_raw_payload cd os a i) (\<lambda>(w, body).
       rbind (prepare_or_reuse_archive_object cd False body s os) (\<lambda>(os', p).
       rbind (register_relocated_payload i p now a) (\<lambda>(a', n). Inr (os', a', n)))))"

text \<open>Each payload is its own transaction: an error stops the batch, and the payloads moved before it stay moved.\<close>

fun relocate_each :: "codec \<Rightarrow> store \<Rightarrow> int \<Rightarrow> int list \<Rightarrow> objects \<Rightarrow> arch \<Rightarrow> (objects \<times> arch \<times> nat) result" where
  "relocate_each cd s now [] os a = Inr (os, a, 0)"
| "relocate_each cd s now (i # is) os a =
     rbind (relocate_payload cd s i now os a) (\<lambda>(os1, a1, n).
     rbind (relocate_each cd s now is os1 a1) (\<lambda>(os2, a2, m). Inr (os2, a2, n + m)))"

definition inline_rows :: "arch \<Rightarrow> raw_row list" where
  "inline_rows a = sort_key rw_id (filter (\<lambda>w. rw_archive_object_id w = None) (ar_raw a))"

record relocation_result =
  rl_moved :: nat
  rl_remaining :: "nat option"
  rl_has_more :: bool

definition relocate_raw_payloads ::
  "codec \<Rightarrow> bool \<Rightarrow> store \<Rightarrow> int \<Rightarrow> bool \<Rightarrow> int \<Rightarrow> objects \<Rightarrow> arch \<Rightarrow> (objects \<times> arch \<times> relocation_result) result" where
  "relocate_raw_payloads cd in_transaction s batch_size count_remaining now os a =
     (if \<not> (1 \<le> batch_size \<and> batch_size \<le> 10000)
      then Inl (ValueError ''Archive relocation batch size must be between 1 and 10000'')
      else if in_transaction then Inl (ValueError ''Archive relocation requires its own per-payload transactions'')
      else rbind (relocate_each cd s now (map rw_id (take (nat batch_size) (inline_rows a))) os a) (\<lambda>(os', a', moved).
        let n = length (inline_rows a') in
        Inr (os', a', \<lparr>rl_moved = moved,
          rl_remaining = (if count_remaining then Some n else if n \<noteq> 0 then None else Some 0), rl_has_more = (n \<noteq> 0)\<rparr>)))"

end
