(* ===== verification/Archive_Laws.thy ===== *)
theory Archive_Laws
  imports Raw_Store
begin

text \<open>
  Laws of the preserved bytes: publishing never changes an existing object, a prepared object reads
  back, registering keeps every reference, and so every stored payload keeps its body under
  storing, relocation and the bookkeeping updates. \<open>arch_step\<close> is the step relation of these writes.
\<close>

section \<open>Objects\<close>

lemma validate_key_unit: "validate_key k = Inr u \<longleftrightarrow> validate_key k = Inr ()"
  by simp

lemma read_object_Inr:
  "read_object s key n os = Inr b \<longleftrightarrow>
     validate_key key = Inr () \<and> os (obj_at s key) = Some b \<and> length b = n"
  by (auto simp: read_object_def rbind_eq_Inr Let_def split: option.splits if_splits)

lemma put_object_Inr:
  assumes "put_object s key b os = Inr os'"
  shows "validate_key key = Inr ()" "os \<subseteq>\<^sub>m os'" "os' (obj_at s key) = Some b"
  using assms by (auto simp: put_object_def rbind_eq_Inr read_object_Inr map_le_def split: option.splits if_splits)

lemma read_object_mono: "read_object s key n os = Inr b \<Longrightarrow> os \<subseteq>\<^sub>m os' \<Longrightarrow> read_object s key n os' = Inr b"
  unfolding read_object_Inr by (metis domI map_le_def)

lemma read_archive_body_mono:
  "read_archive_body cd row s os = Inr b \<Longrightarrow> os \<subseteq>\<^sub>m os' \<Longrightarrow> read_archive_body cd row s os' = Inr b"
  unfolding read_archive_body_def rbind_eq_Inr using read_object_mono by blast

lemma read_archive_reference_mono:
  "read_archive_reference cd row s os = Inr b \<Longrightarrow> os \<subseteq>\<^sub>m os' \<Longrightarrow> read_archive_reference cd row s os' = Inr b"
  unfolding read_archive_reference_def rbind_eq_Inr
  by (auto split: if_splits intro: read_archive_body_mono)

definition known_backend :: "store \<Rightarrow> bool" where
  "known_backend s \<longleftrightarrow> st_backend s = ''local'' \<or> st_backend s = ''s3''"

lemma prepare_archive_object_Inr:
  assumes "prepare_archive_object cd body s pre os = Inr (os', p)"
  shows "os \<subseteq>\<^sub>m os'"
    and "read_object s (pr_object_key p) (length (cd_gzip cd 0 body)) os' = Inr (cd_gzip cd 0 body)"
    and "pr_backend p = st_backend s" "pr_location p = st_location s"
    and "pr_body_hash p = digest cd body" "pr_body_bytes p = length body"
    and "pr_stored_hash p = digest cd (cd_gzip cd 0 body)" "pr_stored_bytes p = length (cd_gzip cd 0 body)"
proof -
  obtain k where k: "put_object s (pre @ k) (cd_gzip cd 0 body) os = Inr os'"
    and p: "p = \<lparr>pr_backend = st_backend s, pr_location = st_location s, pr_object_key = pre @ k,
          pr_body_hash = digest cd body, pr_stored_hash = digest cd (cd_gzip cd 0 body), pr_body_bytes = length body,
          pr_stored_bytes = length (cd_gzip cd 0 body)\<rparr>"
    using assms by (auto simp: prepare_archive_object_def Let_def rbind_eq_Inr split: if_splits)
  show "os \<subseteq>\<^sub>m os'" and "read_object s (pr_object_key p) (length (cd_gzip cd 0 body)) os' = Inr (cd_gzip cd 0 body)"
    using put_object_Inr [OF k] p by (simp_all add: read_object_Inr)
qed (use assms in \<open>auto simp: prepare_archive_object_def Let_def rbind_eq_Inr split: if_splits\<close>)

section \<open>References\<close>

definition arch_wf :: "arch \<Rightarrow> bool" where
  "arch_wf a \<longleftrightarrow> distinct (map ao_id (ar_objects a)) \<and> (\<forall>o' \<in> set (ar_objects a). ao_id o' < ar_next_object a)
     \<and> distinct (map rw_id (ar_raw a)) \<and> (\<forall>w \<in> set (ar_raw a). rw_id w < ar_next_raw a)"

interpretation object_tab: keyed_table ao_id .
interpretation raw_tab: keyed_table rw_id .

lemma object_row_unique: "arch_wf a \<Longrightarrow> o' \<in> set (ar_objects a) \<Longrightarrow> object_row a (ao_id o') = Some o'"
  using object_tab.lookup_unique [of "ar_objects a" o']
  by (simp add: object_row_def arch_wf_def object_tab.unique_keys_def object_tab.lookup_def)

lemma raw_by_id_unique: "arch_wf a \<Longrightarrow> w \<in> set (ar_raw a) \<Longrightarrow> raw_by_id a (rw_id w) = Some w"
  using raw_tab.lookup_unique [of "ar_raw a" w]
  by (simp add: raw_by_id_def arch_wf_def raw_tab.unique_keys_def raw_tab.lookup_def)

text \<open>An archive extends another when its references and objects do; what was readable stays so.\<close>

definition refs_extend :: "arch \<Rightarrow> arch \<Rightarrow> bool" where
  "refs_extend a a' \<longleftrightarrow> (\<forall>k row. object_row a k = Some row \<longrightarrow> object_row a' k = Some row)"

lemma refs_extend_refl [simp]: "refs_extend a a"
  by (simp add: refs_extend_def)

lemma refs_extend_raw [simp]: "refs_extend a (ar_raw_update f a')  = refs_extend a a'"
  "refs_extend a (ar_next_raw_update g a')  = refs_extend a a'"
  by (simp_all add: refs_extend_def object_row_def)

lemma read_archive_object_mono:
  assumes "read_archive_object cd k s os a = Inr b" "os \<subseteq>\<^sub>m os'" "refs_extend a a'"
  shows "read_archive_object cd k s os' a' = Inr b"
proof -
  obtain row where row: "object_row a k = Some row" "read_archive_reference cd row s os = Inr b"
    using assms(1) by (auto simp: read_archive_object_def split: option.splits)
  have "object_row a' k = Some row" using row(1) assms(3) by (simp add: refs_extend_def)
  with read_archive_reference_mono [OF row(2) assms(2)] show ?thesis
    by (simp add: read_archive_object_def)
qed

lemma register_archive_object_Inr:
  assumes "register_archive_object p now a = Inr (a', i)" "arch_wf a"
  obtains e where "object_row a' i = Some e" "ao_backend e = pr_backend p" "ao_location e = pr_location p"
    "ao_object_key e = pr_object_key p" "ao_body_hash e = pr_body_hash p" "ao_stored_hash e = pr_stored_hash p"
    "ao_body_bytes e = pr_body_bytes p" "ao_stored_bytes e = pr_stored_bytes p"
    "arch_wf a'" "refs_extend a a'" "ar_raw a' = ar_raw a" "ar_next_raw a' = ar_next_raw a"
proof (cases "object_at (pr_backend p) (pr_location p) (pr_object_key p) a")
  case None
  let ?n = "\<lparr>ao_id = ar_next_object a, ao_backend = pr_backend p,
            ao_location = pr_location p, ao_object_key = pr_object_key p, ao_body_hash = pr_body_hash p,
            ao_stored_hash = pr_stored_hash p, ao_body_bytes = pr_body_bytes p, ao_stored_bytes = pr_stored_bytes p,
            ao_created_at = now\<rparr>"
  have a': "a' = a\<lparr>ar_objects := ar_objects a @ [?n], ar_next_object := ar_next_object a + 1\<rparr>" and i: "i = ar_next_object a"
    using assms(1) None by (auto simp: register_archive_object_def)
  have new: "\<not> (\<exists>o' \<in> set (ar_objects a). ao_id o' = ar_next_object a)"
    using assms(2) by (auto simp: arch_wf_def)
  have wf: "arch_wf a'" using assms(2) new by (force simp: arch_wf_def a')
  have ext: "refs_extend a a'"
    using new by (auto simp: refs_extend_def object_row_def a' find_row_append dest: find_row_Some)
  have "object_row a' i = Some ?n"
    using object_row_unique [OF wf, of ?n] by (simp add: a' i)
  from that [OF this] wf ext show ?thesis by (simp add: a')
next
  case (Some e)
  have e: "e \<in> set (ar_objects a)" "ao_backend e = pr_backend p" "ao_location e = pr_location p"
    "ao_object_key e = pr_object_key p" using find_row_Some [OF Some [unfolded object_at_def]] by auto
  have "a' = a" "i = ao_id e" "ao_body_hash e = pr_body_hash p" "ao_stored_hash e = pr_stored_hash p"
    "ao_body_bytes e = pr_body_bytes p" "ao_stored_bytes e = pr_stored_bytes p"
    using assms(1) Some by (auto simp: register_archive_object_def split: if_splits)
  then show ?thesis using that [of e] object_row_unique [OF assms(2) e(1)] e assms(2) by simp
qed

text \<open>A published object: its compressed bytes are where the description says.\<close>

definition published :: "codec \<Rightarrow> objects \<Rightarrow> prepared \<Rightarrow> string \<Rightarrow> bool" where
  "published cd os p body \<longleftrightarrow> (\<exists>s. known_backend s \<and> pr_backend p = st_backend s \<and> pr_location p = st_location s
     \<and> read_object s (pr_object_key p) (length (cd_gzip cd 0 body)) os = Inr (cd_gzip cd 0 body)
     \<and> pr_body_hash p = digest cd body \<and> pr_body_bytes p = length body
     \<and> pr_stored_hash p = digest cd (cd_gzip cd 0 body) \<and> pr_stored_bytes p = length (cd_gzip cd 0 body))"

lemma prepare_publishes:
  assumes "known_backend s" "prepare_or_reuse_archive_object cd tx body s os = Inr (os', p)"
  shows "published cd os' p body" "os \<subseteq>\<^sub>m os'"
  using assms prepare_archive_object_Inr [of cd body s "[]" os os' p]
  unfolding prepare_or_reuse_archive_object_def published_def by (auto split: if_splits)

lemma published_mono: "published cd os p body \<Longrightarrow> os \<subseteq>\<^sub>m os' \<Longrightarrow> published cd os' p body"
  unfolding published_def using read_object_mono by blast

text \<open>A published and registered object reads back as the body it was made from.\<close>

lemma registered_object_reads:
  assumes "codec_ok cd" "published cd os p body" "register_archive_object p now a = Inr (a', i)" "arch_wf a"
  shows "read_archive_object cd i None os a' = Inr body"
proof -
  obtain s where p: "known_backend s" "pr_backend p = st_backend s" "pr_location p = st_location s"
     "read_object s (pr_object_key p) (length (cd_gzip cd 0 body)) os = Inr (cd_gzip cd 0 body)"
     "pr_body_hash p = digest cd body" "pr_body_bytes p = length body"
     "pr_stored_hash p = digest cd (cd_gzip cd 0 body)" "pr_stored_bytes p = length (cd_gzip cd 0 body)"
    using assms(2) unfolding published_def by metis
  obtain e where e: "object_row a' i = Some e" "ao_backend e = pr_backend p" "ao_location e = pr_location p"
    "ao_object_key e = pr_object_key p" "ao_body_hash e = pr_body_hash p" "ao_stored_hash e = pr_stored_hash p"
    "ao_body_bytes e = pr_body_bytes p" "ao_stored_bytes e = pr_stored_bytes p"
    using register_archive_object_Inr [OF assms(3,4)] by metis
  have st: "store_for_reference (ao_backend e) (ao_location e) = Inr s"
    using p(1-3) e(2,3) by (auto simp: store_for_reference_def known_backend_def)
  have gz: "cd_gunzip cd (cd_gzip cd 0 body) = Some body" using assms(1) by (simp add: codec_ok_def)
  have "read_archive_body cd e s os = Inr body"
    using p gz e by (simp add: read_archive_body_def Let_def)
  then show ?thesis
    using e(1) st e(2,3) p(2,3) by (simp add: read_archive_object_def read_archive_reference_def)
qed

section \<open>Payloads\<close>

definition payload_reads :: "codec \<Rightarrow> objects \<Rightarrow> arch \<Rightarrow> raw_row \<Rightarrow> string \<Rightarrow> bool" where
  "payload_reads cd os a w b \<longleftrightarrow>
     raw_body_of cd os a w = Inr b \<and> digest cd b = rw_body_hash w \<and> length b = rw_body_bytes w"

lemma load_raw_payload_Inr:
  "load_raw_payload cd os a i = Inr (w, b) \<longleftrightarrow> raw_by_id a i = Some w \<and> payload_reads cd os a w b"
  by (auto simp: load_raw_payload_def payload_reads_def rbind_eq_Inr split: option.splits if_splits)

lemma payload_reads_mono:
  "payload_reads cd os a w b \<Longrightarrow> os \<subseteq>\<^sub>m os' \<Longrightarrow> refs_extend a a' \<Longrightarrow> payload_reads cd os' a' w b"
  unfolding payload_reads_def raw_body_of_def by (auto split: option.splits intro: read_archive_object_mono)

lemma payload_reads_bookkeeping:
  assumes "rw_archive_object_id w' = rw_archive_object_id w" "rw_raw_body w' = rw_raw_body w"
    "rw_body_compression w' = rw_body_compression w" "rw_body_hash w' = rw_body_hash w" "rw_body_bytes w' = rw_body_bytes w"
  shows "payload_reads cd os a w' b = payload_reads cd os a w b"
  using assms by (simp add: payload_reads_def raw_body_of_def split: option.splits)

lemma decode_encode_body:
  "codec_ok cd \<Longrightarrow> decode_body cd (snd (encode_body cd t b)) (fst (encode_body cd t b)) = Inr b"
  by (simp add: decode_body_def encode_body_def codec_ok_def)

text \<open>The state of the archive: well formed, and every payload row readable.\<close>

definition arch_ok :: "codec \<Rightarrow> objects \<Rightarrow> arch \<Rightarrow> bool" where
  "arch_ok cd os a \<longleftrightarrow> arch_wf a \<and> (\<forall>w \<in> set (ar_raw a). \<exists>b. payload_reads cd os a w b)"

lemma add_raw_wf:
  assumes "arch_wf a" "rw_id w = ar_next_raw a" "add_raw w a = (a', i)"
  shows "arch_wf a'" "raw_by_id a' i = Some w" "refs_extend a a'"
    "\<And>j v. raw_by_id a j = Some v \<Longrightarrow> raw_by_id a' j = Some v" "set (ar_raw a') = insert w (set (ar_raw a))"
proof -
  have a': "a' = a\<lparr>ar_raw := ar_raw a @ [w], ar_next_raw := ar_next_raw a + 1\<rparr>" and i: "i = rw_id w"
    using assms(3) by (auto simp: add_raw_def)
  have new: "\<not> (\<exists>v \<in> set (ar_raw a). rw_id v = ar_next_raw a)" using assms(1) by (auto simp: arch_wf_def)
  show wf: "arch_wf a'" using assms(1,2) new by (force simp: arch_wf_def a')
  show "raw_by_id a' i = Some w" using raw_by_id_unique [OF wf, of w] by (simp add: a' i)
  show "refs_extend a a'" by (simp add: a')
  show "\<And>j v. raw_by_id a j = Some v \<Longrightarrow> raw_by_id a' j = Some v"
    by (auto simp: raw_by_id_def a' find_row_append)
  show "set (ar_raw a') = insert w (set (ar_raw a))" by (auto simp: a')
qed

section \<open>Storing\<close>

text \<open>What a write keeps: objects and every readable payload, with its source and its body.\<close>

definition same_source :: "raw_row \<Rightarrow> raw_row \<Rightarrow> bool" where
  "same_source w w' \<longleftrightarrow> rw_provider w' = rw_provider w \<and> rw_endpoint_type w' = rw_endpoint_type w
     \<and> rw_canonical_source_key w' = rw_canonical_source_key w \<and> rw_body_hash w' = rw_body_hash w
     \<and> rw_owner_scope w' = rw_owner_scope w"

definition keeps :: "codec \<Rightarrow> objects \<times> arch \<Rightarrow> objects \<times> arch \<Rightarrow> bool" where
  "keeps cd x y \<longleftrightarrow> fst x \<subseteq>\<^sub>m fst y \<and> (\<forall>i w b. load_raw_payload cd (fst x) (snd x) i = Inr (w, b) \<longrightarrow>
     (\<exists>w'. load_raw_payload cd (fst y) (snd y) i = Inr (w', b) \<and> same_source w w'))"

lemma same_source_refl [simp]: "same_source w w"
  by (simp add: same_source_def)

lemma same_source_trans: "same_source u v \<Longrightarrow> same_source v w \<Longrightarrow> same_source u w"
  by (simp add: same_source_def)

lemma keeps_refl [simp]: "keeps cd x x"
  by (auto simp: keeps_def)

lemma keeps_trans: "keeps cd x y \<Longrightarrow> keeps cd y z \<Longrightarrow> keeps cd x z"
  unfolding keeps_def
proof (intro conjI allI impI)
  fix i w b
  assume xy: "fst x \<subseteq>\<^sub>m fst y \<and> (\<forall>i w b. load_raw_payload cd (fst x) (snd x) i = Inr (w, b) \<longrightarrow>
     (\<exists>w'. load_raw_payload cd (fst y) (snd y) i = Inr (w', b) \<and> same_source w w'))"
    and yz: "fst y \<subseteq>\<^sub>m fst z \<and> (\<forall>i w b. load_raw_payload cd (fst y) (snd y) i = Inr (w, b) \<longrightarrow>
     (\<exists>w'. load_raw_payload cd (fst z) (snd z) i = Inr (w', b) \<and> same_source w w'))"
    and l: "load_raw_payload cd (fst x) (snd x) i = Inr (w, b)"
  obtain v where v: "load_raw_payload cd (fst y) (snd y) i = Inr (v, b)" "same_source w v" using xy l by blast
  then obtain u where "load_raw_payload cd (fst z) (snd z) i = Inr (u, b)" "same_source v u" using yz by blast
  with v(2) show "\<exists>w'. load_raw_payload cd (fst z) (snd z) i = Inr (w', b) \<and> same_source w w'"
    using same_source_trans by blast
qed (use map_le_trans in blast)

lemma keeps_rows:
  assumes "os \<subseteq>\<^sub>m os'" "refs_extend a a'" "\<And>j v. raw_by_id a j = Some v \<Longrightarrow> raw_by_id a' j = Some v"
  shows "keeps cd (os, a) (os', a')"
  using assms(1,3) payload_reads_mono [OF _ assms(1,2)] by (auto simp: keeps_def load_raw_payload_Inr)

definition payload_ok :: "codec \<Rightarrow> objects \<Rightarrow> raw_record \<Rightarrow> string \<Rightarrow> prepared_payload \<Rightarrow> bool" where
  "payload_ok cd os r b pp \<longleftrightarrow> pp_record pp = r \<and> rr_body r = Some b \<and> pp_body_hash pp = digest cd b
     \<and> (\<forall>p. pp_archive_object pp = Some p \<longrightarrow> published cd os p b)"

lemma payload_ok_mono: "payload_ok cd os r b pp \<Longrightarrow> os \<subseteq>\<^sub>m os' \<Longrightarrow> payload_ok cd os' r b pp"
  unfolding payload_ok_def using published_mono by blast

lemma body_hash_of_Inr: "body_hash_of cd r = Inr h \<Longrightarrow> \<exists>b. rr_body r = Some b \<and> h = digest cd b"
  by (auto simp: body_hash_of_def split: option.splits if_splits)

lemma prepare_raw_payload_Inr:
  assumes "prepare_raw_payload cd tx bk r s os a = Inr (os', pp)" "pred_option known_backend s" "pred_option known_backend bk"
  shows "os \<subseteq>\<^sub>m os' \<and> (\<exists>b. payload_ok cd os' r b pp)"
proof -
  obtain h where h: "body_hash_of cd r = Inr h" using assms(1) by (auto simp: prepare_raw_payload_def rbind_eq_Inr)
  obtain b where b: "rr_body r = Some b" "h = digest cd b" using body_hash_of_Inr [OF h] by blast
  show ?thesis
  proof (cases "pp_archive_object pp")
    case None
    then have "os' = os \<and> pp_record pp = r \<and> pp_body_hash pp = h"
      using assms(1) h b by (auto simp: prepare_raw_payload_def Let_def rbind_eq_Inr split: if_splits option.splits)
    with None b show ?thesis by (auto simp: payload_ok_def)
  next
    case (Some p)
    obtain x where x: "known_backend x" "prepare_or_reuse_archive_object cd tx b x os = Inr (os', p)"
      "pp_record pp = r" "pp_body_hash pp = h"
      using assms h b Some
      by (auto simp: prepare_raw_payload_def Let_def rbind_eq_Inr split: if_splits option.splits)
    then show ?thesis using prepare_publishes [OF x(1,2)] b Some by (auto simp: payload_ok_def)
  qed
qed

lemma existing_payload_Some:
  assumes "existing_payload r h a = Some i"
  shows "\<exists>w \<in> set (ar_raw a). same_payload r h w \<and> rw_id w = i"
proof -
  obtain w ws where w: "sort_key rw_id (filter (same_payload r h) (ar_raw a)) = w # ws" "rw_id w = i"
    using assms by (auto simp: existing_payload_def split: list.splits)
  then have "w \<in> set (sort_key rw_id (filter (same_payload r h) (ar_raw a)))" by simp
  with w(2) show ?thesis by auto
qed

lemma stored_row_reads:
  assumes "codec_ok cd" "payload_ok cd os r b pp" "arch_wf a" "existing_payload r (digest cd b) a = None"
    and "store_prepared cd r pv st pp now a = Inr (a', i)"
  obtains a0 w where "refs_extend a a0" "ar_raw a0 = ar_raw a" "arch_wf a0" "rw_id w = ar_next_raw a0"
    "add_raw w a0 = (a', i)" "payload_reads cd os a' w b" "same_payload r (digest cd b) w"
proof (cases "pp_archive_object pp")
  case None
  let ?w = "raw_row_of r (digest cd b) b (fst (encode_body cd now b)) (Some (snd (encode_body cd now b))) pv st None now (ar_next_raw a)"
  have add: "add_raw ?w a = (a', i)"
    using assms None by (auto simp: store_prepared_def payload_ok_def Let_def split: if_splits)
  have "payload_reads cd os a' ?w b"
    using decode_encode_body [OF assms(1)] by (simp add: payload_reads_def raw_body_of_def raw_row_of_def)
  then show ?thesis using that [of a ?w] add assms(3) by (simp add: raw_row_of_def same_payload_def)
next
  case (Some p)
  obtain a1 k where reg: "register_archive_object p now a = Inr (a1, k)"
    and add: "add_raw (raw_row_of r (digest cd b) b ''gzip'' None pv st (Some k) now (ar_next_raw a1)) a1 = (a', i)"
    using assms Some by (auto simp: store_prepared_def payload_ok_def Let_def rbind_eq_Inr split: if_splits)
  let ?w = "raw_row_of r (digest cd b) b ''gzip'' None pv st (Some k) now (ar_next_raw a1)"
  have pub: "published cd os p b" using assms(2) Some by (simp add: payload_ok_def)
  have a1: "arch_wf a1" "refs_extend a a1" "ar_raw a1 = ar_raw a"
    using register_archive_object_Inr [OF reg assms(3)] by metis+
  have "read_archive_object cd k None os a' = Inr b"
    using read_archive_object_mono [OF registered_object_reads [OF assms(1) pub reg assms(3)] map_le_refl, of a']
      add_raw_wf(3) [OF a1(1) _ add] by (simp add: raw_row_of_def)
  then have "payload_reads cd os a' ?w b" by (simp add: payload_reads_def raw_body_of_def raw_row_of_def)
  then show ?thesis using that [of a1 ?w] a1 add by (simp add: raw_row_of_def same_payload_def)
qed

lemma stored_exists:
  assumes "existing_payload r h a0 = None" "same_payload r h w" "add_raw w a0 = (a', i)"
  shows "existing_payload r h a' = Some i"
proof -
  have "sort_key rw_id (filter (same_payload r h) (ar_raw a0)) = []"
    using assms(1) by (simp add: existing_payload_def split: list.splits)
  then have "length (filter (same_payload r h) (ar_raw a0)) = 0" by (metis length_sort list.size(3))
  then have "filter (same_payload r h) (ar_raw a') = [w]" "i = rw_id w" using assms(2,3) by (auto simp: add_raw_def)
  then show ?thesis by (simp add: existing_payload_def)
qed

lemma arch_okI:
  assumes "arch_wf a'" "os \<subseteq>\<^sub>m os'" "refs_extend a a'" "arch_ok cd os a"
    and "\<And>w. w \<in> set (ar_raw a') \<Longrightarrow> w \<in> set (ar_raw a) \<or> (\<exists>b. payload_reads cd os' a' w b)"
  shows "arch_ok cd os' a'"
  using assms payload_reads_mono [OF _ assms(2,3)] unfolding arch_ok_def by blast

lemma store_prepared_ok:
  assumes "codec_ok cd" "payload_ok cd os r b pp" "arch_ok cd os a" "store_prepared cd r pv st pp now a = Inr (a', i)"
  shows "arch_ok cd os a'" "keeps cd (os, a) (os, a')"
    "\<exists>w b'. load_raw_payload cd os a' i = Inr (w, b') \<and> same_payload r (digest cd b) w
       \<and> (existing_payload r (digest cd b) a = None \<longrightarrow> b' = b)"
    "existing_payload r (digest cd b) a' = Some i"
proof -
  have wf: "arch_wf a" using assms(3) by (simp add: arch_ok_def)
  have h: "pp_body_hash pp = digest cd b" using assms(2) by (simp add: payload_ok_def)
  have "arch_ok cd os a' \<and> keeps cd (os, a) (os, a') \<and> (\<exists>w b'. load_raw_payload cd os a' i = Inr (w, b')
    \<and> same_payload r (digest cd b) w \<and> (existing_payload r (digest cd b) a = None \<longrightarrow> b' = b))
    \<and> existing_payload r (digest cd b) a' = Some i"
  proof (cases "existing_payload r (digest cd b) a")
    case (Some j)
    have e: "a' = a" "i = j" using assms(4) Some h by (auto simp: store_prepared_def)
    obtain w where w: "w \<in> set (ar_raw a)" "same_payload r (digest cd b) w" "rw_id w = j"
      using existing_payload_Some [OF Some] by blast
    obtain b' where "payload_reads cd os a w b'" using w(1) assms(3) by (auto simp: arch_ok_def)
    then have "load_raw_payload cd os a j = Inr (w, b')"
      using raw_by_id_unique [OF wf w(1)] w(3) by (simp add: load_raw_payload_Inr)
    with w(2) assms(3) Some show ?thesis by (auto simp: e)
  next
    case None
    obtain a0 w where a0: "refs_extend a a0" "ar_raw a0 = ar_raw a" "arch_wf a0" "rw_id w = ar_next_raw a0"
      "add_raw w a0 = (a', i)" "payload_reads cd os a' w b" "same_payload r (digest cd b) w"
      using stored_row_reads [OF assms(1,2) wf None assms(4)] by metis
    note r = add_raw_wf [OF a0(3,4,5)]
    have ext: "refs_extend a a'" using a0(1) r(3) by (simp add: refs_extend_def)
    have old: "\<And>j v. raw_by_id a j = Some v \<Longrightarrow> raw_by_id a' j = Some v"
      using r(4) a0(2) by (simp add: raw_by_id_def)
    have "arch_ok cd os a'" using arch_okI [OF r(1) map_le_refl ext assms(3)] r(5) a0(2,6) by auto
    moreover have "load_raw_payload cd os a' i = Inr (w, b)" using r(2) a0(6) by (simp add: load_raw_payload_Inr)
    moreover have "existing_payload r (digest cd b) a0 = None" using None a0(2) by (simp add: existing_payload_def)
    ultimately show ?thesis using keeps_rows [OF map_le_refl ext old] a0(7) stored_exists [OF _ a0(7,5)] by blast
  qed
  then show "arch_ok cd os a'" "keeps cd (os, a) (os, a')"
    "\<exists>w b'. load_raw_payload cd os a' i = Inr (w, b') \<and> same_payload r (digest cd b) w
       \<and> (existing_payload r (digest cd b) a = None \<longrightarrow> b' = b)"
    "existing_payload r (digest cd b) a' = Some i" by auto
qed

lemma arch_ok_mono: "arch_ok cd os a \<Longrightarrow> os \<subseteq>\<^sub>m os' \<Longrightarrow> arch_ok cd os' a"
  using arch_okI [of a os os' a cd] by (auto simp: arch_ok_def)

text \<open>\<open>store_raw_payload\<close>, preparing for itself or with a payload prepared before.\<close>

lemma store_raw_payload_ok:
  assumes "codec_ok cd" "arch_ok cd os a" "pred_option known_backend s" "pred_option known_backend bk"
    and "\<And>pp. payload = Some pp \<Longrightarrow> \<exists>b. payload_ok cd os r b pp"
    and "store_raw_payload cd tx bk r pv st s None payload now os a = Inr (os', a', i)"
  obtains b where "rr_body r = Some b" "arch_ok cd os' a'" "keeps cd (os, a) (os', a')"
    "\<exists>w b'. load_raw_payload cd os' a' i = Inr (w, b') \<and> same_payload r (digest cd b) w
       \<and> (existing_payload r (digest cd b) a = None \<longrightarrow> b' = b)"
    "existing_payload r (digest cd b) a' = Some i"
proof -
  obtain pp where pp: "store_prepared cd r pv st pp now a = Inr (a', i)"
    and src: "payload = Some pp \<and> os' = os \<or> payload = None \<and> prepare_raw_payload cd tx bk r s os a = Inr (os', pp)"
    using assms(6) by (auto simp: store_raw_payload_def rbind_eq_Inr split: option.splits if_splits)
  obtain b where b: "payload_ok cd os' r b pp" and le: "os \<subseteq>\<^sub>m os'"
    using src assms(5) prepare_raw_payload_Inr [OF _ assms(3,4)] by (metis map_le_refl)
  have ok: "arch_ok cd os' a" by (rule arch_ok_mono [OF assms(2) le])
  note st = store_prepared_ok [OF assms(1) b ok pp]
  have "keeps cd (os, a) (os', a)" using keeps_rows [OF le] by simp
  then have "keeps cd (os, a) (os', a')" using st(2) keeps_trans by blast
  then show ?thesis using that [of b] b st by (simp add: payload_ok_def)
qed

lemma store_again:
  assumes "body_hash_of cd r = Inr h" "existing_payload r h a = Some i"
  shows "store_raw_payload cd tx bk r pv st s None None now os a = Inr (os, a, i)"
  using assms by (auto simp: store_raw_payload_def prepare_raw_payload_def store_prepared_def Let_def)

section \<open>Relocation and bookkeeping\<close>

definition relocated :: "int \<Rightarrow> raw_row \<Rightarrow> raw_row" where
  "relocated k w = w\<lparr>rw_raw_body := None, rw_archive_object_id := Some k, rw_body_compression := ''gzip''\<rparr>"

text \<open>Rewriting one row by id: the other rows stay, and the archive stays readable when the new row is.\<close>

lemma rewrite_row_ok:
  assumes "arch_ok cd os a" "raw_by_id a i = Some w" "rw_id (f w) = i" "same_source w (f w)"
    and "refs_extend a a1" "arch_wf a1" "ar_raw a1 = ar_raw a" "os \<subseteq>\<^sub>m os'"
    and "\<And>b. payload_reads cd os a w b \<Longrightarrow> payload_reads cd os' a1 (f w) b"
    and "a' = a1\<lparr>ar_raw := update_where (\<lambda>w. rw_id w = i) f (ar_raw a1)\<rparr>"
    and "\<And>v. rw_id (f v) = rw_id v"
  shows "arch_ok cd os' a'" "keeps cd (os, a) (os', a')"
proof -
  have w: "w \<in> set (ar_raw a)" "rw_id w = i" using find_row_Some [OF assms(2) [unfolded raw_by_id_def]] by auto
  have wfa: "arch_wf a" using assms(1) by (simp add: arch_ok_def)
  have only: "v = w" if "v \<in> set (ar_raw a)" "rw_id v = i" for v
    using raw_by_id_unique [OF wfa that(1)] that(2) assms(2) by simp
  have ids: "map rw_id (ar_raw a') = map rw_id (ar_raw a1)"
    using assms(10,11) by (auto simp: update_where_def)
  have bound: "\<forall>v \<in> set (ar_raw a'). rw_id v < ar_next_raw a1"
    using assms(6,11) by (auto simp: assms(10) update_where_def arch_wf_def)
  have wf: "arch_wf a'" using assms(6) ids bound unfolding arch_wf_def by (simp add: assms(10))
  have ext: "refs_extend a a'" using assms(5) by (simp add: assms(10))
  have reads1: "payload_reads cd os' a' v b" if "payload_reads cd os' a1 v b" for v b
    using payload_reads_mono [OF that map_le_refl, of a'] by (simp add: assms(10))
  have row: "raw_by_id a' j = (if j = i then Some (f w) else raw_by_id a j)" for j
    using raw_tab.lookup_update_key [of f j i "ar_raw a1", OF assms(11)] assms(2,7)
    by (simp add: raw_by_id_def assms(10) raw_tab.lookup_def)
  show "arch_ok cd os' a'"
  proof (rule arch_okI [OF wf assms(8) ext assms(1)])
    fix v assume v: "v \<in> set (ar_raw a')"
    show "v \<in> set (ar_raw a) \<or> (\<exists>b. payload_reads cd os' a' v b)"
    proof (cases "v \<in> set (ar_raw a)")
      case False
      then have "v = f w" using v only by (auto simp: assms(7,10) update_where_def split: if_splits)
      moreover obtain b where "payload_reads cd os a w b" using w(1) assms(1) by (auto simp: arch_ok_def)
      ultimately show ?thesis using assms(9) reads1 by blast
    qed simp
  qed
  show "keeps cd (os, a) (os', a')"
    unfolding keeps_def fst_conv snd_conv load_raw_payload_Inr
    using row assms(2,4,8,9) reads1 payload_reads_mono [OF _ assms(8) ext] by auto
qed

lemma relocate_payload_ok:
  assumes "codec_ok cd" "known_backend s" "arch_ok cd os a" "relocate_payload cd s i now os a = Inr (os', a', n)"
  shows "arch_ok cd os' a'" "keeps cd (os, a) (os', a')"
proof -
  obtain w where w: "raw_by_id a i = Some w"
    using assms(4) by (auto simp: relocate_payload_def rbind_eq_Inr require_row_eq)
  have "arch_ok cd os' a' \<and> keeps cd (os, a) (os', a')"
  proof (cases "rw_archive_object_id w")
    case (Some k)
    then have "os' = os \<and> a' = a" using assms(4) w by (simp add: relocate_payload_def require_row_def)
    then show ?thesis using assms(3) by simp
  next
    case None
    obtain b os1 p where b: "payload_reads cd os a w b" "prepare_or_reuse_archive_object cd False b s os = Inr (os', p)"
      "register_relocated_payload i p now a = Inr (a', n)"
      using assms(4) w None
      by (auto simp: relocate_payload_def rbind_eq_Inr require_row_def load_raw_payload_Inr)
    note pub = prepare_publishes [OF assms(2) b(2)]
    have wf: "arch_wf a" using assms(3) by (simp add: arch_ok_def)
    obtain a1 k where reg: "register_archive_object p now a = Inr (a1, k)"
      and a': "a' = a1\<lparr>ar_raw := update_where (\<lambda>w. rw_id w = i) (relocated k) (ar_raw a1)\<rparr>"
      using b(3) w None
      by (auto simp: register_relocated_payload_def rbind_eq_Inr require_row_def relocated_def [abs_def] split: if_splits)
    have a1: "arch_wf a1" "refs_extend a a1" "ar_raw a1 = ar_raw a"
      using register_archive_object_Inr [OF reg wf] by metis+
    have rd: "read_archive_object cd k None os' a1 = Inr b"
      by (rule registered_object_reads [OF assms(1) pub(1) reg wf])
    have "payload_reads cd os' a1 (relocated k w) b'" if "payload_reads cd os a w b'" for b'
      using that b(1) rd by (simp add: payload_reads_def raw_body_of_def relocated_def)
    moreover have "rw_id w = i" using find_row_Some [OF w [unfolded raw_by_id_def]] by simp
    ultimately show ?thesis
      using rewrite_row_ok [OF assms(3) w, of "relocated k" a1 os' a'] a1 pub(2) a'
      by (simp add: relocated_def same_source_def)
  qed
  then show "arch_ok cd os' a'" "keeps cd (os, a) (os', a')" by auto
qed

lemma update_raw_payload_status_ok:
  assumes "arch_ok cd os a"
  shows "arch_ok cd os (update_raw_payload_status i st pv t e now a) \<and> keeps cd (os, a) (os, update_raw_payload_status i st pv t e now a)"
proof (cases "raw_by_id a i")
  case None
  then have "update_raw_payload_status i st pv t e now a = a"
    by (simp add: update_raw_payload_status_def raw_by_id_def find_row_None update_where_unchanged)
  then show ?thesis using assms by simp
next
  case (Some w)
  let ?f = "\<lambda>w. w\<lparr>rw_normalization_status := st,
        rw_parser_version := (if pv \<noteq> None then pv else rw_parser_version w),
        rw_normalized_at := Some (or_now t now),
        rw_error_ref := (if e \<noteq> None then e else rw_error_ref w)\<rparr>"
  have "rw_id w = i" using find_row_Some [OF Some [unfolded raw_by_id_def]] by simp
  moreover have "payload_reads cd os a (?f w) b = payload_reads cd os a w b" for b
    by (rule payload_reads_bookkeeping) simp_all
  ultimately show ?thesis
    using rewrite_row_ok [OF assms Some, of ?f a os "update_raw_payload_status i st pv t e now a"] assms
    by (simp add: same_source_def arch_ok_def update_raw_payload_status_def)
qed

text \<open>The writes of the archive as steps of one state: the objects and the tables.\<close>

inductive arch_step :: "codec \<Rightarrow> objects \<times> arch \<Rightarrow> objects \<times> arch \<Rightarrow> bool" for cd where
  store_step: "pred_option known_backend s \<Longrightarrow> pred_option known_backend bk \<Longrightarrow>
     store_raw_payload cd tx bk r pv st s None None now os a = Inr (os', a', i) \<Longrightarrow> arch_step cd (os, a) (os', a')"
| prepared_step: "pred_option known_backend s \<Longrightarrow> pred_option known_backend bk \<Longrightarrow>
     prepare_raw_payload cd tx bk r s os0 a0 = Inr (os1, pp) \<Longrightarrow> os1 \<subseteq>\<^sub>m os \<Longrightarrow>
     store_raw_payload cd tx' bk r pv st s None (Some pp) now os a = Inr (os', a', i) \<Longrightarrow> arch_step cd (os, a) (os', a')"
| relocate_step: "known_backend s \<Longrightarrow> relocate_payload cd s i now os a = Inr (os', a', n) \<Longrightarrow> arch_step cd (os, a) (os', a')"
| import_step: "known_backend s \<Longrightarrow>
     store_import_backup cd tx body ws name s media captured None now os a = Inr (os', a', i) \<Longrightarrow> arch_step cd (os, a) (os', a')"
| status_step: "arch_step cd (os, a) (os, update_raw_payload_status i st pv t e now a)"
| source_step: "arch_step cd (os, a) (os, fst (insert_source_record et ei prov ept raw key ptr seen now a))"
| log_step: "arch_step cd (os, a) (os, fst (insert_fetch_log f a))"

lemma store_import_backup_ok:
  assumes "known_backend s" "arch_ok cd os a"
    and "store_import_backup cd tx body ws name s media captured None now os a = Inr (os', a', i)"
  shows "arch_ok cd os' a' \<and> keeps cd (os, a) (os', a')"
proof -
  obtain p a1 k where p: "prepare_or_reuse_archive_object cd tx body s os = Inr (os', p)"
    "register_archive_object p now a = Inr (a1, k)" and a': "\<exists>f g. a' = ar_next_import_update f (ar_imports_update g a1)"
    using assms(3) by (force simp: store_import_backup_def register_import_def rbind_eq_Inr split: if_splits)
  have wf: "arch_wf a" using assms(2) by (simp add: arch_ok_def)
  have a1: "arch_wf a1" "refs_extend a a1" "ar_raw a1 = ar_raw a"
    using register_archive_object_Inr [OF p(2) wf] by metis+
  have e: "arch_wf a'" "refs_extend a a'" "ar_raw a' = ar_raw a"
    using a1 a' by (auto simp: arch_wf_def refs_extend_def object_row_def)
  note le = prepare_publishes(2) [OF assms(1) p(1)]
  show ?thesis using arch_okI [OF e(1) le e(2) assms(2)] keeps_rows [OF le e(2)] e(3)
    by (simp add: raw_by_id_def)
qed

lemma evidence_ok:
  assumes "arch_ok cd os a" "ar_raw a' = ar_raw a" "ar_objects a' = ar_objects a"
    "ar_next_raw a' = ar_next_raw a" "ar_next_object a' = ar_next_object a"
  shows "arch_ok cd os a' \<and> keeps cd (os, a) (os, a')"
proof -
  have e: "arch_wf a'" "refs_extend a a'"
    using assms by (simp_all add: arch_wf_def arch_ok_def refs_extend_def object_row_def)
  show ?thesis using arch_okI [OF e(1) map_le_refl e(2) assms(1)] keeps_rows [OF map_le_refl e(2)] assms(2)
    by (simp add: raw_by_id_def)
qed

lemma arch_step_ok:
  assumes "arch_step cd x y" "codec_ok cd" "arch_ok cd (fst x) (snd x)"
  shows "arch_ok cd (fst y) (snd y) \<and> keeps cd x y"
  using assms
proof cases
  case (store_step s bk tx r pv st now os a os' a' i)
  show ?thesis
    using store_raw_payload_ok [OF assms(2) _ store_step(3,4) _ store_step(5)] assms(3) store_step(1,2) by auto
next
  case (prepared_step s bk tx r os0 a0 os1 pp os tx' pv st now a os' a' i)
  obtain b where "payload_ok cd os1 r b pp" using prepare_raw_payload_Inr [OF prepared_step(5,3,4)] by blast
  then have "payload_ok cd os r b pp" using payload_ok_mono prepared_step(6) by blast
  then show ?thesis
    using store_raw_payload_ok [OF assms(2) _ prepared_step(3,4) _ prepared_step(7)] assms(3) prepared_step(1,2) by auto
next
  case (relocate_step s i now os a os' a' n)
  then show ?thesis using relocate_payload_ok [OF assms(2) relocate_step(3) _ relocate_step(4)] assms(3) by simp
next
  case (import_step s tx body ws name media captured now os a os' a' i)
  then show ?thesis using store_import_backup_ok [OF import_step(3) _ import_step(4)] assms(3) by simp
next
  case (status_step os a i st pv t e now)
  then show ?thesis using update_raw_payload_status_ok assms(3) by simp
next
  case (source_step os a et ei prov ept raw key ptr seen now)
  then show ?thesis using evidence_ok [of cd os a "snd y"] assms(3)
    by (auto simp: insert_source_record_def split: option.splits)
next
  case (log_step os a f)
  then show ?thesis using evidence_ok [of cd os a "snd y"] assms(3) by (auto simp: insert_fetch_log_def)
qed

lemma arch_steps_ok:
  assumes "(arch_step cd)\<^sup>*\<^sup>* x y" "codec_ok cd" "arch_ok cd (fst x) (snd x)"
  shows "arch_ok cd (fst y) (snd y) \<and> keeps cd x y"
  using assms(1)
proof (induction rule: rtranclp_induct)
  case (step y z)
  then show ?case using arch_step_ok [OF step(2) assms(2)] keeps_trans by blast
qed (use assms(3) in simp)

section \<open>Relocation makes progress\<close>

definition inline_ids :: "arch \<Rightarrow> int set" where
  "inline_ids a = {rw_id w | w. w \<in> set (ar_raw a) \<and> rw_archive_object_id w = None}"

lemma inline_rows_count: "arch_wf a \<Longrightarrow> length (inline_rows a) = card (inline_ids a)"
proof -
  assume wf: "arch_wf a"
  have "inline_ids a = rw_id ` set (filter (\<lambda>w. rw_archive_object_id w = None) (ar_raw a))"
    by (auto simp: inline_ids_def)
  moreover have "distinct (map rw_id (filter (\<lambda>w. rw_archive_object_id w = None) (ar_raw a)))"
    using wf by (simp add: arch_wf_def distinct_map_filter)
  ultimately show ?thesis
    by (metis distinct_card inline_rows_def length_map length_sort list.set_map)
qed

lemma finite_inline [simp]: "finite (inline_ids a)"
  by (simp add: inline_ids_def)

lemma inline_ids_update:
  "{rw_id w | w. w \<in> set (update_where (\<lambda>w. rw_id w = i) (relocated k) rows) \<and> rw_archive_object_id w = None}
   = {rw_id w | w. w \<in> set rows \<and> rw_archive_object_id w = None} - {i}"
proof (induction rows)
  case (Cons w rows)
  have e: "{rw_id x | x. x \<in> set (v # vs) \<and> rw_archive_object_id x = None}
     = (if rw_archive_object_id v = None then {rw_id v} else {}) \<union> {rw_id x | x. x \<in> set vs \<and> rw_archive_object_id x = None}"
    for v vs by auto
  show ?case unfolding update_where_Cons e Cons by (auto simp: relocated_def)
qed simp

lemma relocate_payload_inline:
  assumes "arch_wf a" "relocate_payload cd s i now os a = Inr (os', a', n)"
  shows "inline_ids a' = inline_ids a - {i}" "n = (if i \<in> inline_ids a then 1 else 0)"
proof -
  obtain w where w: "raw_by_id a i = Some w"
    using assms(2) by (auto simp: relocate_payload_def rbind_eq_Inr require_row_eq)
  have m: "w \<in> set (ar_raw a)" "rw_id w = i" using find_row_Some [OF w [unfolded raw_by_id_def]] by auto
  have only: "v = w" if "v \<in> set (ar_raw a)" "rw_id v = i" for v
    using raw_by_id_unique [OF assms(1) that(1)] that(2) w by simp
  have "inline_ids a' = inline_ids a - {i} \<and> n = (if i \<in> inline_ids a then 1 else 0)"
  proof (cases "rw_archive_object_id w")
    case (Some k)
    then have "a' = a \<and> n = 0" using assms(2) w by (simp add: relocate_payload_def require_row_def)
    moreover have "i \<notin> inline_ids a" using only Some by (auto simp: inline_ids_def)
    ultimately show ?thesis by simp
  next
    case None
    obtain b p where b: "register_relocated_payload i p now a = Inr (a', n)"
      using assms(2) w None by (auto simp: relocate_payload_def rbind_eq_Inr require_row_def)
    obtain a1 k where reg: "register_archive_object p now a = Inr (a1, k)"
      and a': "a' = a1\<lparr>ar_raw := update_where (\<lambda>w. rw_id w = i) (relocated k) (ar_raw a1)\<rparr>" and n: "n = 1"
      using b w None
      by (auto simp: register_relocated_payload_def rbind_eq_Inr require_row_def relocated_def [abs_def] split: if_splits)
    have a1: "ar_raw a1 = ar_raw a" using register_archive_object_Inr [OF reg assms(1)] by metis
    have "i \<in> inline_ids a" using m None by (auto simp: inline_ids_def)
    moreover have "inline_ids a' = inline_ids a - {i}" using inline_ids_update [of i k "ar_raw a"]
      by (simp add: a' a1 inline_ids_def)
    ultimately show ?thesis using n by simp
  qed
  then show "inline_ids a' = inline_ids a - {i}" "n = (if i \<in> inline_ids a then 1 else 0)" by auto
qed

lemma relocate_each_ok:
  "relocate_each cd s now is os a = Inr (os', a', n) \<Longrightarrow> codec_ok cd \<Longrightarrow> known_backend s \<Longrightarrow> arch_ok cd os a \<Longrightarrow>
   distinct is \<Longrightarrow> set is \<subseteq> inline_ids a \<Longrightarrow>
   arch_ok cd os' a' \<and> keeps cd (os, a) (os', a') \<and> n = length is \<and> inline_ids a' = inline_ids a - set is"
proof (induction "is" arbitrary: os a os' a' n)
  case (Cons i "is")
  obtain os1 a1 n1 m where r: "relocate_payload cd s i now os a = Inr (os1, a1, n1)"
    "relocate_each cd s now is os1 a1 = Inr (os', a', m)" "n = n1 + m"
    using Cons.prems(1) by (auto simp: rbind_eq_Inr)
  have wf: "arch_wf a" using Cons.prems(4) by (simp add: arch_ok_def)
  note p = relocate_payload_inline [OF wf r(1)] and k = relocate_payload_ok [OF Cons.prems(2,3,4) r(1)]
  have "arch_ok cd os' a' \<and> keeps cd (os1, a1) (os', a') \<and> m = length is \<and> inline_ids a' = inline_ids a1 - set is"
    using Cons.IH [OF r(2) Cons.prems(2,3) k(1)] Cons.prems(5,6) p(1) by auto
  then show ?case using k(2) p Cons.prems(6) r(3) keeps_trans by auto
qed auto

end
