(* ===== verification/Archive_Properties.thy ===== *)
theory Archive_Properties
  imports Archive_Laws
begin

text \<open>
  Properties of the preserved bytes. The witnesses use a codec that stores bodies unchanged and
  whose digest is 64 zeros, so that the hypotheses on the codec are seen to be satisfiable.
\<close>

definition plain_codec :: codec where
  "plain_codec = \<lparr>cd_sha = (\<lambda>_. replicate 64 (CHR ''0'')), cd_gzip = (\<lambda>_ b. b), cd_gunzip = Some\<rparr>"

definition no_arch :: arch where
  "no_arch = \<lparr>ar_objects = [], ar_raw = [], ar_logs = [], ar_sources = [], ar_imports = [], ar_next_object = 1,
     ar_next_raw = 1, ar_next_log = 1, ar_next_source = 1, ar_next_import = 1\<rparr>"

definition sample_record :: raw_record where
  "sample_record = \<lparr>rr_provider = ''lichess'', rr_endpoint_type = ''user'', rr_request_url = ''https://lichess.org/api/user/ann'',
     rr_canonical_source_key = ''lichess:user:ann'', rr_request_params = [], rr_http_status = 200, rr_fetched_at = 100,
     rr_body = Some ''{}'', rr_media_type = ''application/json'', rr_etag = None, rr_last_modified = None,
     rr_body_hash = None, rr_response_headers = [], rr_owner_scope = ''public''\<rparr>"

definition disk :: store where
  "disk = \<lparr>st_backend = ''local'', st_location = ''/data''\<rparr>"

lemma plain_codec_ok: "codec_ok plain_codec"
  by (simp add: codec_ok_def plain_codec_def is_hex_def is_digit_def list_all_iff)

lemma no_arch_ok: "arch_ok cd Map.empty no_arch"
  by (simp add: arch_ok_def arch_wf_def no_arch_def)

text \<open>
  C12. A captured body can be read back. When storing a response succeeds, in the database or
  through an object store, the identifier it returns loads a payload of the same source whose
  digest is the digest of the captured body; a body seen for the first time is returned exactly.
  Storing the same response once more returns the same identifier and changes neither tables nor objects.
\<close>

theorem stored_payload_loads:
  assumes "codec_ok cd" "arch_ok cd os a" "pred_option known_backend s" "pred_option known_backend bk"
    and "store_raw_payload cd tx bk r pv st s None None now os a = Inr (os', a', i)"
  shows "\<exists>b w b'. rr_body r = Some b \<and> load_raw_payload cd os' a' i = Inr (w, b') \<and> same_payload r (digest cd b) w
      \<and> digest cd b' = digest cd b \<and> (existing_payload r (digest cd b) a = None \<longrightarrow> b' = b)
      \<and> store_raw_payload cd tx2 bk r pv2 st2 s None None now2 os' a' = Inr (os', a', i)"
proof -
  obtain b w b' where b: "rr_body r = Some b" "load_raw_payload cd os' a' i = Inr (w, b')"
    "same_payload r (digest cd b) w" "existing_payload r (digest cd b) a = None \<longrightarrow> b' = b"
    and e: "existing_payload r (digest cd b) a' = Some i"
    using store_raw_payload_ok [OF assms(1-4) _ assms(5)] by (metis option.distinct(1))
  have "body_hash_of cd r = Inr (digest cd b)"
    using assms(5) b(1) by (auto simp: store_raw_payload_def prepare_raw_payload_def rbind_eq_Inr body_hash_of_def split: if_splits)
  with b e show ?thesis
    by (auto simp: load_raw_payload_Inr payload_reads_def same_payload_def store_again)
qed

lemma sample_store:
  "case store_raw_payload plain_codec False None sample_record None ''pending'' (Some disk) None None 100 Map.empty no_arch of
     Inr (os, a, i) \<Rightarrow> i = 1 \<and> length (ar_raw a) = 1 \<and> map rw_raw_body (ar_raw a) = [None] | Inl _ \<Rightarrow> False"
  by code_simp

lemma sample_storeE:
  obtains os a where "store_raw_payload plain_codec False None sample_record None ''pending'' (Some disk) None None 100 Map.empty no_arch
    = Inr (os, a, 1)"
  using sample_store by (auto split: sum.splits prod.splits)

lemma disk_known: "known_backend disk"
  by (simp add: known_backend_def disk_def)

theorem stored_payload_loads_witness:
  "\<exists>os a w. store_raw_payload plain_codec False None sample_record None ''pending'' (Some disk) None None 100 Map.empty no_arch
      = Inr (os, a, 1) \<and> load_raw_payload plain_codec os a 1 = Inr (w, ''{}'')"
proof -
  obtain os a where s: "store_raw_payload plain_codec False None sample_record None ''pending'' (Some disk) None None 100 Map.empty no_arch
    = Inr (os, a, 1)" by (rule sample_storeE)
  have new: "existing_payload sample_record h no_arch = None" for h by (simp add: existing_payload_def no_arch_def)
  have b: "rr_body sample_record = Some ''{}''" by (simp add: sample_record_def)
  have "\<exists>w. load_raw_payload plain_codec os a 1 = Inr (w, ''{}'')"
    using stored_payload_loads [OF plain_codec_ok no_arch_ok _ _ s, of False None "''pending''" 100] disk_known b new by auto
  with s show ?thesis by blast
qed

text \<open>
  C13. Captured bytes are immutable. Over any sequence of writes to the archive (storing responses,
  with or without a payload prepared outside the transaction, relocating inline bodies to object
  storage, importing backups, recording normalization results, evidence and fetch attempts) every
  object keeps its bytes, and every payload that could be read still reads as the same bytes of the
  same source; and no write leaves an unreadable payload behind.
\<close>

theorem captured_bytes_immutable:
  assumes "codec_ok cd" "arch_ok cd os a" "(arch_step cd)\<^sup>*\<^sup>* (os, a) (os', a')"
  shows "(\<forall>k b. os k = Some b \<longrightarrow> os' k = Some b)
    \<and> (\<forall>i w b. load_raw_payload cd os a i = Inr (w, b) \<longrightarrow>
         (\<exists>w'. load_raw_payload cd os' a' i = Inr (w', b) \<and> same_source w w'))
    \<and> (\<forall>w' \<in> set (ar_raw a'). \<exists>b. load_raw_payload cd os' a' (rw_id w') = Inr (w', b))"
proof -
  have ok: "arch_ok cd os' a'" and k: "keeps cd (os, a) (os', a')"
    using arch_steps_ok [OF assms(3,1)] assms(2) by auto
  have "\<exists>b. load_raw_payload cd os' a' (rw_id w) = Inr (w, b)" if "w \<in> set (ar_raw a')" for w
    using ok that raw_by_id_unique [of a' w] by (auto simp: arch_ok_def load_raw_payload_Inr)
  with k show ?thesis by (auto simp: keeps_def map_le_def dom_def)
qed

theorem captured_bytes_immutable_witness:
  "\<exists>os a. (arch_step plain_codec)\<^sup>*\<^sup>* (Map.empty, no_arch) (os, a) \<and> ar_raw a \<noteq> []
     \<and> (\<forall>w' \<in> set (ar_raw a). \<exists>b. load_raw_payload plain_codec os a (rw_id w') = Inr (w', b))"
proof -
  obtain os a where s: "store_raw_payload plain_codec False None sample_record None ''pending'' (Some disk) None None 100 Map.empty no_arch
    = Inr (os, a, 1)" by (rule sample_storeE)
  have st: "(arch_step plain_codec)\<^sup>*\<^sup>* (Map.empty, no_arch) (os, a)"
    by (rule r_into_rtranclp, rule arch_step.store_step [OF _ _ s]) (simp_all add: disk_known)
  have "ar_raw a \<noteq> []" using sample_store s by auto
  then show ?thesis using captured_bytes_immutable [OF plain_codec_ok no_arch_ok st] st by blast
qed

text \<open>
  Relocation moves what it says. A batch that succeeds moves exactly as many payloads as its
  size or all that are left, leaves the others inline, reports the exact number remaining and
  whether there are more, and changes no body; so repeated batches empty the table of inline bodies.
\<close>

lemma relocation_progress:
  assumes "codec_ok cd" "arch_ok cd os a" "known_backend s"
    and "relocate_raw_payloads cd tx s batch True now os a = Inr (os', a', res)"
  shows "rl_moved res = min (nat batch) (length (inline_rows a))
    \<and> rl_remaining res = Some (length (inline_rows a'))
    \<and> length (inline_rows a') + rl_moved res = length (inline_rows a)
    \<and> (rl_has_more res \<longleftrightarrow> nat batch < length (inline_rows a))
    \<and> (\<forall>i w b. load_raw_payload cd os a i = Inr (w, b) \<longrightarrow>
         (\<exists>w'. load_raw_payload cd os' a' i = Inr (w', b) \<and> same_source w w'))"
proof -
  let ?is = "map rw_id (take (nat batch) (inline_rows a))"
  have wf: "arch_wf a" using assms(2) by (simp add: arch_ok_def)
  have r: "relocate_each cd s now ?is os a = Inr (os', a', rl_moved res)"
    and res: "rl_remaining res = Some (length (inline_rows a'))" "rl_has_more res = (length (inline_rows a') \<noteq> 0)"
    using assms(4) by (auto simp: relocate_raw_payloads_def rbind_eq_Inr Let_def split: if_splits)
  have d: "distinct (map rw_id (inline_rows a))"
    using wf by (simp add: inline_rows_def arch_wf_def distinct_map inj_on_def)
  have "set ?is \<subseteq> inline_ids a"
    by (auto simp: inline_ids_def inline_rows_def dest!: in_set_takeD)
  moreover have "distinct ?is" using d by (simp add: take_map [symmetric])
  ultimately have m: "arch_ok cd os' a'" "keeps cd (os, a) (os', a')" "rl_moved res = length ?is" "inline_ids a' = inline_ids a - set ?is"
    and sub: "set ?is \<subseteq> inline_ids a" "distinct ?is"
    using relocate_each_ok [OF r assms(1,3,2)] by auto
  have "length (inline_rows a') = card (inline_ids a - set ?is)"
    using inline_rows_count m(1,4) by (simp add: arch_ok_def)
  also have "\<dots> = length (inline_rows a) - length ?is"
    using sub by (metis List.finite_set card_Diff_subset distinct_card inline_rows_count wf)
  finally show ?thesis using m res by (auto simp: keeps_def)
qed

lemma sample_inline:
  "case store_raw_payload plain_codec False None sample_record None ''pending'' None None None 100 Map.empty no_arch of
     Inr (os, a, i) \<Rightarrow> (case relocate_raw_payloads plain_codec False disk 10 True 200 os a of
         Inr (os', a', res) \<Rightarrow> length (inline_rows a) = 1 | Inl _ \<Rightarrow> False) | Inl _ \<Rightarrow> False"
  by code_simp

end
