(* ===== verification/Http.thy ===== *)
theory Http
  imports Archive Numbers
begin

text \<open>
  The HTTP helper of the provider clients, providers/http.py, with the fetch policy of
  providers/base.py: retries, pacing, the budgeted bounded read and the recorded attempts.

  The world around a client is a clock, a stop flag and a log of what the client did. Every
  interaction lets some time pass (\<open>en_elapse\<close>, read as nonnegative) and uses the next number, so
  that the environment may answer every call differently. Waiting lasts at least as long as asked
  unless a stop request wakes the sleeper, as \<open>Event.wait\<close> does, and a stop request stays. Callbacks
  may raise; \<open>None\<close> is a callback that is not configured.
\<close>

section \<open>Policies\<close>

record fetch_policy =
  fp_min_delay_s :: rat
  fp_supports_conditional :: bool
  fp_honor_retry_after :: bool
  fp_fixed_429_backoff_s :: "rat option"
  fp_max_retries :: int

definition next_delay :: "fetch_policy \<Rightarrow> int \<Rightarrow> rat option \<Rightarrow> rat" where
  "next_delay p status retry_after =
     (if status = 429 \<and> fp_fixed_429_backoff_s p \<noteq> None
      then max (coalesce (fp_fixed_429_backoff_s p) 0) (coalesce retry_after 0)
      else if status = 429 \<and> fp_honor_retry_after p \<and> retry_after \<noteq> None
      then max (fp_min_delay_s p) (coalesce retry_after 0)
      else fp_min_delay_s p)"

section \<open>Records\<close>

type_synonym headers = "(string \<times> string) list"

record fetch_attempt =
  fa_provider :: string
  fa_endpoint_type :: string
  fa_url :: string
  fa_method :: string
  fa_status_code :: "int option"
  fa_attempted_at :: int
  fa_attempt :: nat
  fa_request_headers :: headers
  fa_response_headers :: headers
  fa_retry_after :: "int option"
  fa_bytes_count :: "int option"
  fa_duration_ms :: "int option"
  fa_from_cache :: bool
  fa_error_kind :: "string option"

record http_result =
  ht_status_code :: int
  ht_url :: string
  ht_headers :: headers
  ht_content_type :: "string option"
  ht_body :: "string option"
  ht_body_hash :: "string option"
  ht_fetched_at :: int
  ht_attempts :: "fetch_attempt list"

definition ht_etag :: "http_result \<Rightarrow> string option" where
  "ht_etag r = map_of (ht_headers r) ''etag''"

definition ht_last_modified :: "http_result \<Rightarrow> string option" where
  "ht_last_modified r = map_of (ht_headers r) ''last-modified''"

text \<open>
  What the transport answers: headers with lower-case names as httpx lists them, the content an
  unbudgeted request sees after decoding, and the raw chunks a stream yields, ending normally or
  with a request error (a time-out or another network error).
\<close>

record response =
  rp_status_code :: int
  rp_url :: string
  rp_headers :: headers
  rp_content :: string
  rp_chunks :: "string list"
  rp_broken :: "bool option"

datatype reply = Refused bool | Reply response

section \<open>The world\<close>

datatype io =
    Reserved int
  | Sent rat
  | Settled int
  | Slept rat
  | Persisted rat string

record world =
  wd_now :: rat
  wd_tick :: nat
  wd_stopped :: bool
  wd_log :: "io list"

record env =
  en_elapse :: "nat \<Rightarrow> rat"
  en_stop :: "nat \<Rightarrow> bool"
  en_wake :: "nat \<Rightarrow> rat option"
  en_reply :: "nat \<Rightarrow> reply"
  en_resolve_policy :: "(nat \<Rightarrow> fetch_policy result) option"
  en_before_request :: "(nat \<Rightarrow> unit result) option"
  en_persist_deadline :: "(nat \<Rightarrow> unit result) option"
  en_reserve_request :: "(nat \<Rightarrow> int result) option"
  en_finish_request :: "(nat \<Rightarrow> unit result) option"
  en_date :: "string \<Rightarrow> rat option"
  en_sha :: "string \<Rightarrow> string"

definition tick :: "env \<Rightarrow> world \<Rightarrow> world" where
  "tick e w = w\<lparr>wd_now := wd_now w + max 0 (en_elapse e (wd_tick w)), wd_tick := wd_tick w + 1\<rparr>"

definition logged :: "io \<Rightarrow> world \<Rightarrow> world" where
  "logged a w = w\<lparr>wd_log := wd_log w @ [a]\<rparr>"

definition clock :: "env \<Rightarrow> world \<Rightarrow> rat \<times> world" where
  "clock e w = (let w' = tick e w in (wd_now w', w'))"

definition stop_requested :: "env \<Rightarrow> world \<Rightarrow> bool \<times> world" where
  "stop_requested e w = (let w' = (tick e w)\<lparr>wd_stopped := wd_stopped w \<or> en_stop e (wd_tick w)\<rparr> in (wd_stopped w', w'))"

definition sleeper :: "env \<Rightarrow> rat \<Rightarrow> world \<Rightarrow> world" where
  "sleeper e d w = logged (Slept d) (let w' = tick e w in
     case en_wake e (wd_tick w) of
       None \<Rightarrow> w'\<lparr>wd_now := wd_now w' + max 0 d\<rparr>
     | Some s \<Rightarrow> w'\<lparr>wd_now := wd_now w' + max 0 s, wd_stopped := True\<rparr>)"

definition before_request :: "env \<Rightarrow> world \<Rightarrow> unit result \<times> world" where
  "before_request e w = (case en_before_request e of None \<Rightarrow> (Inr (), w) | Some f \<Rightarrow> (f (wd_tick w), tick e w))"

definition persist_deadline :: "env \<Rightarrow> rat \<Rightarrow> string \<Rightarrow> world \<Rightarrow> unit result \<times> world" where
  "persist_deadline e t reason w = (case en_persist_deadline e of None \<Rightarrow> (Inr (), w)
     | Some f \<Rightarrow> (f (wd_tick w), (case f (wd_tick w) of Inr _ \<Rightarrow> logged (Persisted t reason) | Inl _ \<Rightarrow> id) (tick e w)))"

definition reserve_request :: "env \<Rightarrow> world \<Rightarrow> int option result \<times> world" where
  "reserve_request e w = (case en_reserve_request e of None \<Rightarrow> (Inr None, w)
     | Some f \<Rightarrow> (case f (wd_tick w) of
         Inl x \<Rightarrow> (Inl x, tick e w)
       | Inr l \<Rightarrow> (Inr (Some l), logged (Reserved l) (tick e w))))"

definition finish_request :: "env \<Rightarrow> int \<Rightarrow> world \<Rightarrow> unit result \<times> world" where
  "finish_request e n w = (case en_finish_request e of None \<Rightarrow> (Inr (), w)
     | Some f \<Rightarrow> (f (wd_tick w), logged (Settled n) (tick e w)))"

section \<open>Clients\<close>

record http_client =
  hc_provider :: string
  hc_user_agent :: string
  hc_policy :: fetch_policy
  hc_timeout_s :: rat
  hc_last_request_at :: "rat option"
  hc_not_before :: rat

definition SENSITIVE_REQUEST_HEADERS :: "string list" where
  "SENSITIVE_REQUEST_HEADERS = [''authorization'', ''cookie'', ''x-api-key'']"

text \<open>\<open>dict.update\<close> on ordered headers: an existing name keeps its place.\<close>

definition header_set :: "headers \<Rightarrow> string \<times> string \<Rightarrow> headers" where
  "header_set hs kv = (if fst kv \<in> fst ` set hs then map (\<lambda>x. if fst x = fst kv then kv else x) hs else hs @ [kv])"

definition outbound_request_headers :: "http_client \<Rightarrow> headers \<Rightarrow> headers" where
  "outbound_request_headers c hs =
     filter (\<lambda>(k, v). lower k \<notin> set SENSITIVE_REQUEST_HEADERS \<or> lower k = ''authorization'')
       (foldl header_set [(''User-Agent'', hc_user_agent c)] hs)"

definition request_headers :: "headers \<Rightarrow> headers" where
  "request_headers hs = filter (\<lambda>(k, v). lower k \<notin> set SENSITIVE_REQUEST_HEADERS) hs"

definition cache_relevant_headers :: "headers \<Rightarrow> headers" where
  "cache_relevant_headers hs = filter (\<lambda>(k, v). k \<in> {''etag'', ''last-modified'', ''content-type'', ''content-length'', ''retry-after''})
     (map (\<lambda>(k, v). (lower k, v)) hs)"

function slices :: "nat \<Rightarrow> string \<Rightarrow> string list" where
  "slices n xs = (if xs = [] \<or> n = 0 then [] else take n xs # slices n (drop n xs))"
  by pat_completeness auto
termination by (relation "measure (\<lambda>(n, xs). length xs)") auto

declare slices.simps [simp del]

definition bounded_response_chunks :: "response \<Rightarrow> nat \<Rightarrow> string list" where
  "bounded_response_chunks r read_size = concat (map (slices read_size) (rp_chunks r))"

definition parse_retry_after :: "(string \<Rightarrow> rat option) \<Rightarrow> string option \<Rightarrow> rat \<Rightarrow> int option" where
  "parse_retry_after date v now = (case v of None \<Rightarrow> None
     | Some s \<Rightarrow> (case parse_int s of
         Some i \<Rightarrow> Some (max 0 i)
       | None \<Rightarrow> map_option (\<lambda>t. max 0 \<lceil>t - now\<rceil>) (date s)))"

definition retry_delay :: "fetch_policy \<Rightarrow> int \<Rightarrow> int option \<Rightarrow> nat \<Rightarrow> rat" where
  "retry_delay p status retry_after attempt_number =
     (if status = 429 then next_delay p 429 (map_option of_int retry_after)
      else let delay = max (fp_min_delay_s p) 1 * 2 ^ (attempt_number - 1) in
        case retry_after of None \<Rightarrow> delay | Some r \<Rightarrow> max delay (of_int r))"

definition respect_serial_delay :: "env \<Rightarrow> http_client \<Rightarrow> world \<Rightarrow> http_client \<times> world" where
  "respect_serial_delay e c w =
     (let nb = (case hc_last_request_at c of None \<Rightarrow> hc_not_before c
                | Some l \<Rightarrow> max (hc_not_before c) (l + fp_min_delay_s (hc_policy c)));
          (t, w1) = clock e w;
          w2 = (if 0 < nb - t then sleeper e (nb - t) w1 else w1);
          (st, w3) = stop_requested e w2
      in if st then (c, w3)
         else let (t', w4) = clock e w3 in (c\<lparr>hc_not_before := 0, hc_last_request_at := Some t'\<rparr>, w4))"

text \<open>\<open>_check_response_deadline\<close>.\<close>

definition response_deadline :: "env \<Rightarrow> rat \<Rightarrow> rat \<Rightarrow> int \<Rightarrow> response \<Rightarrow> world \<Rightarrow> pyerr option \<times> world" where
  "response_deadline e timeout started received r w = (let (t, w') = clock e w in
     (if timeout \<le> t - started
      then Some (ProviderResponseDeadlineExceeded timeout received (Some (rp_status_code r)) (rp_url r)) else None, w'))"

text \<open>The read loop of a budgeted response: what it ended with, the bytes received and the world.\<close>

datatype read_end = Read_done string | Read_raised pyerr | Read_broken bool

fun read_chunks ::
  "env \<Rightarrow> rat \<Rightarrow> rat \<Rightarrow> int \<Rightarrow> response \<Rightarrow> string list \<Rightarrow> int \<Rightarrow> string \<Rightarrow> world \<Rightarrow> read_end \<times> int \<times> world" where
  "read_chunks e timeout started limit r [] received body w =
     (case response_deadline e timeout started received r w of
        (Some x, w1) \<Rightarrow> (Read_raised x, received, w1)
      | (None, w1) \<Rightarrow> (case rp_broken r of
          Some t \<Rightarrow> (Read_broken t, received, w1)
        | None \<Rightarrow> (case response_deadline e timeout started received r w1 of
            (Some x, w2) \<Rightarrow> (Read_raised x, received, w2)
          | (None, w2) \<Rightarrow> (Read_done body, received, w2))))"
| "read_chunks e timeout started limit r (s # ss) received body w =
     (case response_deadline e timeout started received r w of
        (Some x, w1) \<Rightarrow> (Read_raised x, received, w1)
      | (None, w1) \<Rightarrow> let received' = received + int (length s) in
          if limit < received'
          then (Read_raised (ProviderResponseTooLarge limit received' (Some (rp_status_code r)) (rp_url r)), received', w1)
          else (case response_deadline e timeout started received' r w1 of
              (Some x, w2) \<Rightarrow> (Read_raised x, received', w2)
            | (None, w2) \<Rightarrow> read_chunks e timeout started limit r ss received'
                (if rp_status_code r = 200 then body @ s else body) w2))"

section \<open>Requests\<close>

record http_request =
  rq_method :: string
  rq_url :: string
  rq_endpoint_type :: string
  rq_headers :: headers

text \<open>How one attempt ends inside its \<open>try\<close>: a response, the earlier result, an exception or a request error.\<close>

datatype tried =
    Got response "string option" int
  | Stopped_early
  | Raised pyerr int
  | Request_error bool int "response option"

definition identity_encoding :: "response \<Rightarrow> string" where
  "identity_encoding r = lower (strip (coalesce (map_of (rp_headers r) ''content-encoding'') ''identity''))"

text \<open>The exchange: unbudgeted, or the bounded stream.\<close>

definition exchange :: "env \<Rightarrow> http_client \<Rightarrow> string \<Rightarrow> int option \<Rightarrow> rat \<Rightarrow> world \<Rightarrow> tried \<times> world" where
  "exchange e c url limit started w =
     (case limit of
        None \<Rightarrow> let w' = logged (Sent started) (tick e w) in
          (case en_reply e (wd_tick w) of
             Refused t \<Rightarrow> (Request_error t 0 None, w')
           | Reply r \<Rightarrow> (case rp_broken r of
               Some t \<Rightarrow> (Request_error t 0 None, w')
             | None \<Rightarrow> (Got r (if rp_status_code r = 200 then Some (rp_content r) else None) 0, w')))
      | Some l \<Rightarrow>
          if l < 0 then (Raised (ValueError ''Request budget reservation must return a nonnegative integer'') 0, w)
          else if l = 0 then (Raised (ProviderResponseTooLarge 0 0 None url) 0, w)
          else let w' = logged (Sent started) (tick e w) in
            (case en_reply e (wd_tick w) of
               Refused t \<Rightarrow> (Request_error t 0 None, w')
             | Reply r \<Rightarrow>
                 if identity_encoding r \<noteq> ''identity''
                 then (Raised (ProviderResponseEncodingError (identity_encoding r) (rp_status_code r) (rp_url r)) 0, w')
                 else (case read_chunks e (hc_timeout_s c) started l r
                         (bounded_response_chunks r (nat (min 65536 l))) 0 [] w' of
                     (Read_done body, n, w2) \<Rightarrow> (Got r (if rp_status_code r = 200 then Some body else None) n, w2)
                   | (Read_raised x, n, w2) \<Rightarrow> (Raised x n, w2)
                   | (Read_broken t, n, w2) \<Rightarrow> (Request_error t n (Some r), w2))))"

text \<open>The body of the \<open>try\<close> up to the response: the callback, the stop check and the exchange.\<close>

definition try_exchange ::
  "env \<Rightarrow> http_client \<Rightarrow> string \<Rightarrow> int option \<Rightarrow> rat \<Rightarrow> int \<Rightarrow> world \<Rightarrow> tried \<times> rat \<times> int \<times> http_client \<times> world" where
  "try_exchange e c url limit started attempted_at w =
     (case before_request e w of
        (Inl x, w1) \<Rightarrow> (Raised x 0, started, attempted_at, c, w1)
      | (Inr _, w1) \<Rightarrow> (let (st, w2) = stop_requested e w1 in
          if st then (Stopped_early, started, attempted_at, c, w2)
          else let (t1, w3) = clock e w2; (t2, w4) = clock e w3; (r, w5) = exchange e c url limit t2 w4
               in (r, t2, trunc_rat t1, c\<lparr>hc_last_request_at := Some t2\<rparr>, w5)))"

definition elapsed_ms :: "rat \<Rightarrow> rat \<Rightarrow> int" where
  "elapsed_ms t started = trunc_rat (max 0 (t - started) * 1000)"

text \<open>The attempt recorded for a response and for a request error.\<close>

definition response_attempt ::
  "http_client \<Rightarrow> http_request \<Rightarrow> headers \<Rightarrow> bool \<Rightarrow> response \<Rightarrow> string option \<Rightarrow> int \<Rightarrow> int option \<Rightarrow> nat \<Rightarrow> int \<Rightarrow> int \<Rightarrow> fetch_attempt" where
  "response_attempt c q recorded budgeted r body received retry_after n attempted_at duration_ms =
     \<lparr>fa_provider = hc_provider c, fa_endpoint_type = rq_endpoint_type q, fa_url = rp_url r, fa_method = rq_method q,
      fa_status_code = Some (rp_status_code r), fa_attempted_at = attempted_at, fa_attempt = n,
      fa_request_headers = recorded, fa_response_headers = cache_relevant_headers (rp_headers r),
      fa_retry_after = retry_after,
      fa_bytes_count = (if budgeted then Some received else map_option (\<lambda>b. int (length b)) body),
      fa_duration_ms = Some duration_ms, fa_from_cache = (rp_status_code r = 304), fa_error_kind = None\<rparr>"

definition error_attempt ::
  "http_client \<Rightarrow> http_request \<Rightarrow> headers \<Rightarrow> bool \<Rightarrow> bool \<Rightarrow> int \<Rightarrow> nat \<Rightarrow> int \<Rightarrow> int \<Rightarrow> fetch_attempt" where
  "error_attempt c q recorded budgeted timed_out received n attempted_at duration_ms =
     \<lparr>fa_provider = hc_provider c, fa_endpoint_type = rq_endpoint_type q, fa_url = rq_url q, fa_method = rq_method q,
      fa_status_code = None, fa_attempted_at = attempted_at, fa_attempt = n,
      fa_request_headers = recorded, fa_response_headers = [], fa_retry_after = None,
      fa_bytes_count = (if budgeted then Some received else None), fa_duration_ms = Some duration_ms,
      fa_from_cache = False, fa_error_kind = Some (if timed_out then ''timeout'' else ''network_error'')\<rparr>"

text \<open>The outcome of the \<open>try\<close> with its handlers: a new last result with its retry hint, a return, or an exception.\<close>

datatype handled =
    New_result http_result "int option" int
  | Return_last int
  | Propagate pyerr int

definition handle ::
  "env \<Rightarrow> http_client \<Rightarrow> http_request \<Rightarrow> headers \<Rightarrow> bool \<Rightarrow> nat \<Rightarrow> fetch_attempt list \<Rightarrow> http_result option
   \<Rightarrow> tried \<Rightarrow> rat \<Rightarrow> int \<Rightarrow> world \<Rightarrow> handled \<times> world" where
  "handle e c q recorded budgeted n attempts prev t started attempted_at w = (case t of
       Got r body received \<Rightarrow>
         (let (t1, w1) = clock e w; (t2, w2) = clock e w1;
              ra = parse_retry_after (en_date e) (map_of (rp_headers r) ''retry-after'') t2;
              a = response_attempt c q recorded budgeted r body received ra n attempted_at (elapsed_ms t1 started)
          in (New_result \<lparr>ht_status_code = rp_status_code r, ht_url = rp_url r,
                ht_headers = cache_relevant_headers (rp_headers r), ht_content_type = map_of (rp_headers r) ''content-type'',
                ht_body = body, ht_body_hash = map_option (\<lambda>b. ''sha256:'' @ en_sha e b) body,
                ht_fetched_at = attempted_at, ht_attempts = attempts @ [a]\<rparr> ra received, w2))
     | Stopped_early \<Rightarrow> (Return_last 0, w)
     | Raised x received \<Rightarrow> (case (x, prev) of
           (ProviderRequestStopped _, Some _) \<Rightarrow> (Return_last received, w) | _ \<Rightarrow> (Propagate x received, w))
     | Request_error timed_out received resp \<Rightarrow>
         (let (t0, w0) = (if budgeted then clock e w else (started, w)) in
          if budgeted \<and> hc_timeout_s c \<le> t0 - started
          then (Propagate (ProviderResponseDeadlineExceeded (hc_timeout_s c) received (map_option rp_status_code resp)
                  (case resp of None \<Rightarrow> rq_url q | Some r \<Rightarrow> rp_url r)) received, w0)
          else let (t1, w1) = clock e w0;
              a = error_attempt c q recorded budgeted timed_out received n attempted_at (elapsed_ms t1 started)
            in (New_result \<lparr>ht_status_code = 0, ht_url = rq_url q, ht_headers = [], ht_content_type = None, ht_body = None,
                  ht_body_hash = None, ht_fetched_at = attempted_at, ht_attempts = attempts @ [a]\<rparr> None received, w1)))"

definition stopped_before :: "http_result option \<Rightarrow> http_result result" where
  "stopped_before prev = (case prev of Some r \<Rightarrow> Inr r
     | None \<Rightarrow> Inl (ProviderRequestStopped ''Provider request stopped before network acquisition''))"

definition retryable :: "int \<Rightarrow> bool" where
  "retryable status \<longleftrightarrow> status = 0 \<or> status = 429 \<or> 500 \<le> status \<and> status \<le> 599"

text \<open>A round of the loop either ends the request or goes on with a new last result.\<close>

datatype round = Finish "http_result result" http_client world | Retry http_result http_client world

text \<open>After a recorded response: pacing on success; backoff, and a wait while attempts are left.\<close>

definition after_response :: "env \<Rightarrow> nat \<Rightarrow> nat \<Rightarrow> http_result \<Rightarrow> int option \<Rightarrow> http_client \<Rightarrow> world \<Rightarrow> round" where
  "after_response e left n r retry_after c w =
     (if \<not> retryable (ht_status_code r)
      then (if en_persist_deadline e = None then Finish (Inr r) c w
            else let (t, w1) = clock e w in
              (case persist_deadline e (t + fp_min_delay_s (hc_policy c)) ''provider request pacing'' w1 of
                 (Inl y, w2) \<Rightarrow> Finish (Inl y) c w2 | (Inr _, w2) \<Rightarrow> Finish (Inr r) c w2))
      else (let delay = retry_delay (hc_policy c) (ht_status_code r) retry_after n;
                (t, w1) = clock e w; c' = c\<lparr>hc_not_before := t + delay\<rparr> in
            case persist_deadline e (t + delay) (''HTTP '' @ str_int (ht_status_code r) @ '' backoff'') w1 of
              (Inl y, w2) \<Rightarrow> Finish (Inl y) c' w2
            | (Inr _, w2) \<Rightarrow>
                if left = 0 then Finish (Inr r) c' w2
                else let (st, w3) = stop_requested e w2 in
                  if st then Finish (Inr r) c' w3
                  else let (st', w4) = stop_requested e (sleeper e delay w3) in
                    if st' then Finish (Inr r) c' w4 else Retry r (c'\<lparr>hc_not_before := 0\<rparr>) w4))"

text \<open>The \<open>finally\<close>: settlement, whose own error wins, and then what the handlers decided.\<close>

definition conclude_round :: "env \<Rightarrow> nat \<Rightarrow> nat \<Rightarrow> http_result option \<Rightarrow> http_client \<Rightarrow> handled \<Rightarrow> world \<Rightarrow> round" where
  "conclude_round e left n prev c h w = (case h of
       Propagate x received \<Rightarrow> (case finish_request e received w of
           (Inl y, w') \<Rightarrow> Finish (Inl y) c w' | (Inr _, w') \<Rightarrow> Finish (Inl x) c w')
     | Return_last received \<Rightarrow> (case finish_request e received w of
           (Inl y, w') \<Rightarrow> Finish (Inl y) c w' | (Inr _, w') \<Rightarrow> Finish (stopped_before prev) c w')
     | New_result r retry_after received \<Rightarrow> (case finish_request e received w of
           (Inl y, w') \<Rightarrow> Finish (Inl y) c w' | (Inr _, w') \<Rightarrow> after_response e left n r retry_after c w'))"

text \<open>One round, number \<open>n\<close>, with \<open>left\<close> attempts after it.\<close>

definition attempt_round ::
  "env \<Rightarrow> http_request \<Rightarrow> headers \<Rightarrow> bool \<Rightarrow> nat \<Rightarrow> nat \<Rightarrow> http_result option \<Rightarrow> http_client \<Rightarrow> world \<Rightarrow> round" where
  "attempt_round e q recorded budgeted left n prev c w =
     (let (st0, w0) = stop_requested e w;
          (c1, w1) = (if st0 then (c, w0) else respect_serial_delay e c w0);
          (st1, w2) = stop_requested e w1 in
      if st1 then Finish (stopped_before prev) c1 w2
      else let (t1, w3) = clock e w2; (t2, w4) = clock e w3 in
        (case reserve_request e w4 of
           (Inl x, w5) \<Rightarrow> Finish (Inl x) c1 w5
         | (Inr limit, w5) \<Rightarrow>
            (let (t, started, attempted_at, c2, w6) = try_exchange e c1 (rq_url q) limit t2 (trunc_rat t1) w5;
                 attempts = (case prev of None \<Rightarrow> [] | Some r \<Rightarrow> ht_attempts r);
                 (h, w7) = handle e c2 q recorded budgeted n attempts prev t started attempted_at w6
             in conclude_round e left n prev c2 h w7)))"

fun request_loop ::
  "env \<Rightarrow> http_request \<Rightarrow> headers \<Rightarrow> bool \<Rightarrow> nat \<Rightarrow> nat \<Rightarrow> http_result option \<Rightarrow> http_client \<Rightarrow> world
   \<Rightarrow> http_result result \<times> http_client \<times> world" where
  "request_loop e q recorded budgeted 0 n prev c w = (Inl (RuntimeError ''unreachable HTTP retry state''), c, w)"
| "request_loop e q recorded budgeted (Suc left) n prev c w =
     (case attempt_round e q recorded budgeted left n prev c w of
        Finish res c' w' \<Rightarrow> (res, c', w')
      | Retry r c' w' \<Rightarrow> request_loop e q recorded budgeted left (n + 1) (Some r) c' w')"

definition upper_char :: "char \<Rightarrow> char" where
  "upper_char ch = (let n = (of_char ch :: nat) in if 97 \<le> n \<and> n \<le> 122 then char_of (n - 32) else ch)"

definition request :: "env \<Rightarrow> http_client \<Rightarrow> http_request \<Rightarrow> world \<Rightarrow> http_result result \<times> http_client \<times> world" where
  "request e c q w =
     (case (case en_resolve_policy e of None \<Rightarrow> (Inr (hc_policy c), w) | Some f \<Rightarrow> (f (wd_tick w), tick e w)) of
        (Inl x, w1) \<Rightarrow> (Inl x, c, w1)
      | (Inr p, w1) \<Rightarrow>
          (let c1 = c\<lparr>hc_policy := p\<rparr>; budgeted = (en_reserve_request e \<noteq> None);
               hs = outbound_request_headers c1 (rq_headers q) in
           if (en_reserve_request e = None) \<noteq> (en_finish_request e = None)
           then (Inl (ValueError ''Request budget reservation and settlement must be configured together''), c1, w1)
           else let hs' = (if budgeted then filter (\<lambda>(k, v). lower k \<noteq> ''accept-encoding'') hs @ [(''Accept-Encoding'', ''identity'')] else hs)
             in request_loop e (q\<lparr>rq_method := map upper_char (rq_method q), rq_headers := hs'\<rparr>) (request_headers hs') budgeted
                  (nat (fp_max_retries p + 1)) 1 None c1 w1))"

end
