(* ===== verification/Http_Laws.thy ===== *)
theory Http_Laws
  imports Http
begin

text \<open>
  Laws of the HTTP helper. The primitives only let time pass and append to the log; one round of
  the request loop appends a wait, a reservation, at most one request and its settlement, and at
  most one deadline. The three properties of a request follow from that shape by induction on the
  attempts left.
\<close>

section \<open>Time and log\<close>

definition quiet_world :: "world \<Rightarrow> world \<Rightarrow> bool" where
  "quiet_world w w' \<longleftrightarrow> wd_now w \<le> wd_now w' \<and> (wd_stopped w \<longrightarrow> wd_stopped w') \<and> wd_log w' = wd_log w"

lemma quiet_world_refl [simp]: "quiet_world w w"
  by (simp add: quiet_world_def)

lemma quiet_world_trans: "quiet_world u v \<Longrightarrow> quiet_world v w \<Longrightarrow> quiet_world u w"
  by (auto simp: quiet_world_def)

lemma tick_quiet [simp]: "quiet_world w (tick e w)"
  by (simp add: quiet_world_def tick_def)

lemma tick_fields [simp]: "wd_log (tick e w) = wd_log w" "wd_stopped (tick e w) = wd_stopped w"
  by (simp_all add: tick_def)

lemma tick_now: "wd_now w \<le> wd_now (tick e w)"
  by (simp add: tick_def)

lemma logged_fields [simp]:
  "wd_log (logged a w) = wd_log w @ [a]" "wd_now (logged a w) = wd_now w" "wd_stopped (logged a w) = wd_stopped w"
  by (simp_all add: logged_def)

lemma clock_quiet: "clock e w = (t, w') \<Longrightarrow> quiet_world w w' \<and> t = wd_now w'"
  by (auto simp: clock_def Let_def)

lemma stop_requested_quiet: "stop_requested e w = (st, w') \<Longrightarrow> quiet_world w w' \<and> st = wd_stopped w'"
  by (auto simp: stop_requested_def Let_def quiet_world_def tick_now)

lemma sleeper_law:
  "wd_log (sleeper e d w) = wd_log w @ [Slept d]" "wd_now w \<le> wd_now (sleeper e d w)"
  "wd_stopped w \<Longrightarrow> wd_stopped (sleeper e d w)"
  "\<not> wd_stopped (sleeper e d w) \<Longrightarrow> wd_now w + d \<le> wd_now (sleeper e d w)"
  using tick_now [of w e] by (auto simp: sleeper_def Let_def split: option.splits)

lemma before_request_quiet: "before_request e w = (r, w') \<Longrightarrow> quiet_world w w'"
  by (auto simp: before_request_def split: option.splits)

lemma persist_deadline_law:
  "persist_deadline e t reason w = (r, w') \<Longrightarrow> wd_now w \<le> wd_now w' \<and> (wd_stopped w \<longrightarrow> wd_stopped w')
     \<and> (wd_log w' = wd_log w \<or> wd_log w' = wd_log w @ [Persisted t reason])"
  using tick_now [of w e] by (auto simp: persist_deadline_def split: option.splits sum.splits)

lemma reserve_request_law:
  assumes "reserve_request e w = (Inr limit, w')"
  shows "wd_now w \<le> wd_now w'" "wd_stopped w \<longrightarrow> wd_stopped w'"
    "wd_log w' = wd_log w @ (case limit of None \<Rightarrow> [] | Some l \<Rightarrow> [Reserved l])"
    "limit = None \<longleftrightarrow> en_reserve_request e = None"
  using assms tick_now [of w e] by (auto simp: reserve_request_def split: option.splits sum.splits)

lemma reserve_request_Inl: "reserve_request e w = (Inl x, w') \<Longrightarrow> quiet_world w w'"
  by (auto simp: reserve_request_def split: option.splits sum.splits)

lemma finish_request_law:
  assumes "finish_request e n w = (r, w')"
  shows "wd_now w \<le> wd_now w'" "wd_stopped w \<longrightarrow> wd_stopped w'"
    "wd_log w' = wd_log w @ (if en_finish_request e = None then [] else [Settled n])"
  using assms tick_now [of w e] by (auto simp: finish_request_def split: option.splits)

lemma response_deadline_quiet: "response_deadline e timeout s n r w = (x, w') \<Longrightarrow> quiet_world w w'"
  by (auto simp: response_deadline_def Let_def clock_def)

lemma respect_serial_delay_law:
  assumes "respect_serial_delay e c w = (c', w')"
  shows "\<exists>ds. wd_log w' = wd_log w @ map Slept ds" "wd_now w \<le> wd_now w'"
    "hc_policy c' = hc_policy c" "hc_timeout_s c' = hc_timeout_s c"
    "wd_stopped w' \<or> (hc_not_before c \<le> wd_now w' \<and>
       (\<forall>l. hc_last_request_at c = Some l \<longrightarrow> l + fp_min_delay_s (hc_policy c) \<le> wd_now w'))"
proof -
  define nb where "nb = (case hc_last_request_at c of None \<Rightarrow> hc_not_before c
                | Some l \<Rightarrow> max (hc_not_before c) (l + fp_min_delay_s (hc_policy c)))"
  obtain t w1 where t: "clock e w = (t, w1)" by fastforce
  define w2 where "w2 = (if 0 < nb - t then sleeper e (nb - t) w1 else w1)"
  obtain st w3 where s: "stop_requested e w2 = (st, w3)" by fastforce
  obtain t' w4 where t': "clock e w3 = (t', w4)" by fastforce
  have res: "c' = (if st then c else c\<lparr>hc_not_before := 0, hc_last_request_at := Some t'\<rparr>)" "w' = (if st then w3 else w4)"
    using assms unfolding respect_serial_delay_def Let_def nb_def [symmetric] t prod.case w2_def [symmetric] s t'
    by (auto split: if_splits)
  note q = clock_quiet [OF t] stop_requested_quiet [OF s] clock_quiet [OF t']
  have w2: "\<exists>ds. wd_log w2 = wd_log w1 @ map Slept ds" "wd_now w1 \<le> wd_now w2" "wd_stopped w2 \<or> nb \<le> wd_now w2"
    using sleeper_law [where e = e and d = "nb - t" and w = w1] q(1) by (auto simp: w2_def intro: exI [of _ "[]"] exI [of _ "[nb - t]"])
  show "\<exists>ds. wd_log w' = wd_log w @ map Slept ds" using w2(1) q by (auto simp: res quiet_world_def)
  show "wd_now w \<le> wd_now w'" using w2(2) q by (auto simp: res quiet_world_def)
  show "hc_policy c' = hc_policy c" "hc_timeout_s c' = hc_timeout_s c" by (simp_all add: res)
  have "wd_stopped w' \<or> nb \<le> wd_now w'" using w2(3) q by (auto simp: res quiet_world_def)
  then show "wd_stopped w' \<or> (hc_not_before c \<le> wd_now w' \<and>
       (\<forall>l. hc_last_request_at c = Some l \<longrightarrow> l + fp_min_delay_s (hc_policy c) \<le> wd_now w'))"
    by (auto simp: nb_def split: option.splits)
qed

section \<open>One exchange\<close>

lemma slices_bound: "s \<in> set (slices n xs) \<Longrightarrow> length s \<le> n"
proof (induction n xs rule: slices.induct)
  case (1 n xs)
  then show ?case by (subst (asm) (2) slices.simps) (auto split: if_splits)
qed

lemma bounded_chunks_bound: "s \<in> set (bounded_response_chunks r n) \<Longrightarrow> length s \<le> n"
  by (auto simp: bounded_response_chunks_def dest: slices_bound)

lemma read_chunks_law:
  "read_chunks e timeout started limit r ss received body w = (res, n, w') \<Longrightarrow>
   0 \<le> received \<Longrightarrow> received \<le> limit \<Longrightarrow> int (length body) \<le> received \<Longrightarrow> \<forall>s \<in> set ss. int (length s) \<le> room \<Longrightarrow> 0 \<le> room \<Longrightarrow>
   quiet_world w w' \<and> 0 \<le> n \<and> n \<le> limit + room \<and> (\<forall>b. res = Read_done b \<longrightarrow> int (length b) \<le> n \<and> n \<le> limit)"
proof (induction e timeout started limit r ss received body w arbitrary: res n w' rule: read_chunks.induct)
  case (1 e timeout started limit r received body w)
  then show ?case
    by (auto split: prod.splits option.splits dest!: response_deadline_quiet intro: quiet_world_trans)
next
  case (2 e timeout started limit r s ss received body w)
  obtain x w1 where d1: "response_deadline e timeout started received r w = (x, w1)" by fastforce
  obtain y w2 where d2: "response_deadline e timeout started (received + int (length s)) r w1 = (y, w2)" by fastforce
  have q: "quiet_world w w1" "quiet_world w1 w2" using d1 d2 response_deadline_quiet by blast+
  have sz: "int (length s) \<le> room" using "2.prems"(5) by simp
  show ?case
  proof (cases x)
    case (Some e1)
    then show ?thesis using "2.prems" d1 q(1) by auto
  next
    case None
    show ?thesis
    proof (cases "limit < received + int (length s)")
      case True
      then show ?thesis using "2.prems" d1 None q(1) sz by (auto simp: Let_def)
    next
      case False
      show ?thesis
      proof (cases y)
        case (Some e2)
        then show ?thesis using "2.prems" d1 d2 None False q quiet_world_trans [OF q] by (auto simp: Let_def)
      next
        case yN: None
        have "read_chunks e timeout started limit r ss (received + int (length s))
           (if rp_status_code r = 200 then body @ s else body) w2 = (res, n, w')"
          using "2.prems"(1) d1 d2 None yN False by (simp add: Let_def)
        moreover have "quiet_world w w2" by (rule quiet_world_trans [OF q])
        ultimately show ?thesis
          using "2.IH" [OF d1 [symmetric] None refl _ d2 [symmetric] yN, of res n w'] False "2.prems" quiet_world_trans
          by (auto split: if_splits)
      qed
    qed
  qed
qed

fun tried_received :: "tried \<Rightarrow> int" where
  "tried_received (Got r b n) = n"
| "tried_received Stopped_early = 0"
| "tried_received (Raised x n) = n"
| "tried_received (Request_error t n r) = n"

definition bill_ok :: "int option \<Rightarrow> int \<Rightarrow> bool" where
  "bill_ok limit n \<longleftrightarrow> 0 \<le> n \<and> (case limit of None \<Rightarrow> True | Some l \<Rightarrow> n \<le> max 0 l + min 65536 (max 0 l))"

lemma bill_ok_0 [simp]: "bill_ok limit 0"
  by (auto simp: bill_ok_def split: option.splits)

definition body_ok :: "int option \<Rightarrow> tried \<Rightarrow> bool" where
  "body_ok limit t \<longleftrightarrow> (\<forall>l r b n. limit = Some l \<longrightarrow> t = Got r (Some b) n \<longrightarrow> int (length b) \<le> l)"

lemma exchange_law:
  assumes "exchange e c url limit s w = (t, w')"
  shows "wd_now w \<le> wd_now w'" "wd_stopped w \<longrightarrow> wd_stopped w'"
    "wd_log w' = wd_log w \<or> wd_log w' = wd_log w @ [Sent s]" "bill_ok limit (tried_received t)" "body_ok limit t"
    "t \<noteq> Stopped_early" "\<And>r b n. t = Got r b n \<Longrightarrow> wd_log w' = wd_log w @ [Sent s]"
    "\<And>to n rp. t = Request_error to n rp \<Longrightarrow> wd_log w' = wd_log w @ [Sent s]"
proof -
  have "wd_now w \<le> wd_now w' \<and> (wd_stopped w \<longrightarrow> wd_stopped w') \<and> (wd_log w' = wd_log w \<or> wd_log w' = wd_log w @ [Sent s])
     \<and> bill_ok limit (tried_received t) \<and> body_ok limit t \<and> t \<noteq> Stopped_early
     \<and> (\<forall>r b n. t = Got r b n \<longrightarrow> wd_log w' = wd_log w @ [Sent s])
     \<and> (\<forall>to n rp. t = Request_error to n rp \<longrightarrow> wd_log w' = wd_log w @ [Sent s])"
  proof (cases limit)
    case None
    then show ?thesis using assms tick_now [of w e]
      by (auto simp: exchange_def Let_def body_ok_def split: reply.splits option.splits)
  next
    case (Some l)
    let ?w = "logged (Sent s) (tick e w)"
    consider "l \<le> 0" | (refused) to where "0 < l" "en_reply e (wd_tick w) = Refused to"
      | (encoded) r where "0 < l" "en_reply e (wd_tick w) = Reply r" "identity_encoding r \<noteq> ''identity''"
      | (stream) r where "0 < l" "en_reply e (wd_tick w) = Reply r" "identity_encoding r = ''identity''"
      by (meson not_le reply.exhaust)
    then show ?thesis
    proof cases
      case stream
      obtain res n w2 where rc: "read_chunks e (hc_timeout_s c) s l r (bounded_response_chunks r (nat (min 65536 l))) 0 [] ?w = (res, n, w2)"
        by (metis prod_cases3)
      have sz: "\<forall>x \<in> set (bounded_response_chunks r (nat (min 65536 l))). int (length x) \<le> min 65536 l"
        using bounded_chunks_bound [of _ r "nat (min 65536 l)"] stream(1) by fastforce
      note law = read_chunks_law [OF rc _ _ _ sz]
      have "(t, w') = (case (res, n, w2) of
                     (Read_done body, n, w2) \<Rightarrow> (Got r (if rp_status_code r = 200 then Some body else None) n, w2)
                   | (Read_raised x, n, w2) \<Rightarrow> (Raised x n, w2)
                   | (Read_broken t, n, w2) \<Rightarrow> (Request_error t n (Some r), w2))"
        using assms Some stream rc by (simp add: exchange_def Let_def)
      then show ?thesis using law stream(1) Some tick_now [of w e]
        by (cases res) (auto simp: quiet_world_def bill_ok_def body_ok_def)
    qed (use assms Some tick_now [of w e] in \<open>auto simp: exchange_def Let_def body_ok_def split: if_splits\<close>)
  qed
  then show "wd_now w \<le> wd_now w'" "wd_stopped w \<longrightarrow> wd_stopped w'"
    "wd_log w' = wd_log w \<or> wd_log w' = wd_log w @ [Sent s]" "bill_ok limit (tried_received t)" "body_ok limit t"
    "t \<noteq> Stopped_early" "\<And>r b n. t = Got r b n \<Longrightarrow> wd_log w' = wd_log w @ [Sent s]"
    "\<And>to n rp. t = Request_error to n rp \<Longrightarrow> wd_log w' = wd_log w @ [Sent s]" by blast+
qed

section \<open>One round\<close>

definition ready :: "http_client \<Rightarrow> rat \<Rightarrow> bool" where
  "ready c s \<longleftrightarrow> hc_not_before c \<le> s \<and> (\<forall>l. hc_last_request_at c = Some l \<longrightarrow> l + fp_min_delay_s (hc_policy c) \<le> s)"

lemma try_exchange_law:
  assumes "try_exchange e c url limit started tm w = (t, s, tm', c', w')"
  shows "wd_now w \<le> wd_now w'" "wd_stopped w \<longrightarrow> wd_stopped w'"
    "wd_log w' = wd_log w \<or> (wd_log w' = wd_log w @ [Sent s] \<and> wd_now w \<le> s \<and> s \<le> wd_now w')"
    "bill_ok limit (tried_received t)" "body_ok limit t"
    "hc_policy c' = hc_policy c" "hc_timeout_s c' = hc_timeout_s c"
    "(\<exists>r b n. t = Got r b n) \<or> (\<exists>to n rp. t = Request_error to n rp) \<Longrightarrow>
       wd_log w' = wd_log w @ [Sent s] \<and> hc_last_request_at c' = Some s"
proof -
  obtain b w1 where b: "before_request e w = (b, w1)" by fastforce
  obtain st w2 where st: "stop_requested e w1 = (st, w2)" by fastforce
  obtain t1 w3 where t1: "clock e w2 = (t1, w3)" by fastforce
  obtain t2 w4 where t2: "clock e w3 = (t2, w4)" by fastforce
  obtain r w5 where r: "exchange e c url limit t2 w4 = (r, w5)" by fastforce
  note q = before_request_quiet [OF b] stop_requested_quiet [OF st] clock_quiet [OF t1] clock_quiet [OF t2]
  note x = exchange_law [OF r]
  have d: "(\<exists>y. b = Inl y \<and> (t, s, tm', c', w') = (Raised y 0, started, tm, c, w1)) \<or>
    st \<and> (t, s, tm', c', w') = (Stopped_early, started, tm, c, w2) \<or>
    (t, s, tm', c', w') = (r, t2, trunc_rat t1, c\<lparr>hc_last_request_at := Some t2\<rparr>, w5)"
    using assms b st t1 t2 r by (cases b) (auto simp: try_exchange_def split: if_splits)
  have "wd_now w \<le> wd_now w' \<and> (wd_stopped w \<longrightarrow> wd_stopped w')
    \<and> (wd_log w' = wd_log w \<or> (wd_log w' = wd_log w @ [Sent s] \<and> wd_now w \<le> s \<and> s \<le> wd_now w'))
    \<and> bill_ok limit (tried_received t) \<and> body_ok limit t \<and> hc_policy c' = hc_policy c \<and> hc_timeout_s c' = hc_timeout_s c
    \<and> ((\<exists>r b n. t = Got r b n) \<or> (\<exists>to n rp. t = Request_error to n rp) \<longrightarrow>
       wd_log w' = wd_log w @ [Sent s] \<and> hc_last_request_at c' = Some s)"
    using d
  proof (elim disjE exE conjE)
    assume e: "(t, s, tm', c', w') = (r, t2, trunc_rat t1, c\<lparr>hc_last_request_at := Some t2\<rparr>, w5)"
    have "wd_now w \<le> wd_now w4" "wd_stopped w \<longrightarrow> wd_stopped w4" "wd_log w4 = wd_log w" "t2 = wd_now w4"
      using q by (auto simp: quiet_world_def)
    with x e show ?thesis by auto
  qed (use q in \<open>auto simp: quiet_world_def body_ok_def\<close>)
  then show "wd_now w \<le> wd_now w'" "wd_stopped w \<longrightarrow> wd_stopped w'"
    "wd_log w' = wd_log w \<or> (wd_log w' = wd_log w @ [Sent s] \<and> wd_now w \<le> s \<and> s \<le> wd_now w')"
    "bill_ok limit (tried_received t)" "body_ok limit t"
    "hc_policy c' = hc_policy c" "hc_timeout_s c' = hc_timeout_s c"
    "(\<exists>r b n. t = Got r b n) \<or> (\<exists>to n rp. t = Request_error to n rp) \<Longrightarrow>
       wd_log w' = wd_log w @ [Sent s] \<and> hc_last_request_at c' = Some s" by blast+
qed

fun handled_received :: "handled \<Rightarrow> int" where
  "handled_received (New_result r ra n) = n"
| "handled_received (Return_last n) = n"
| "handled_received (Propagate x n) = n"

definition earlier :: "http_result option \<Rightarrow> fetch_attempt list" where
  "earlier prev = (case prev of None \<Rightarrow> [] | Some r \<Rightarrow> ht_attempts r)"

text \<open>A new result: the earlier attempts and one more, numbered \<open>n\<close>, and a body within the limit.\<close>

definition new_result :: "http_result option \<Rightarrow> nat \<Rightarrow> int option \<Rightarrow> http_result \<Rightarrow> bool" where
  "new_result prev n limit r \<longleftrightarrow> (\<exists>a. ht_attempts r = earlier prev @ [a] \<and> fa_attempt a = n
     \<and> coalesce (fa_status_code a) 0 = ht_status_code r)
     \<and> (\<forall>l b. limit = Some l \<longrightarrow> ht_body r = Some b \<longrightarrow> int (length b) \<le> l)"

lemma handle_law:
  assumes "handle e c q recorded budgeted n (earlier prev) prev t s tm w = (h, w')" "body_ok limit t"
  shows "quiet_world w w'" "handled_received h = tried_received t"
    "\<And>r ra m. h = New_result r ra m \<Longrightarrow> new_result prev n limit r
       \<and> ((\<exists>r b n. t = Got r b n) \<or> (\<exists>to n rp. t = Request_error to n rp))"
    "\<And>m. h = Return_last m \<Longrightarrow> t = Stopped_early \<or> prev \<noteq> None"
proof -
  have "quiet_world w w' \<and> handled_received h = tried_received t \<and> (\<forall>r ra m. h = New_result r ra m \<longrightarrow> new_result prev n limit r
       \<and> ((\<exists>r b n. t = Got r b n) \<or> (\<exists>to n rp. t = Request_error to n rp)))
     \<and> (\<forall>m. h = Return_last m \<longrightarrow> t = Stopped_early \<or> prev \<noteq> None)"
  proof (cases t)
    case (Got r body m)
    obtain t1 w1 where t1: "clock e w = (t1, w1)" by fastforce
    obtain t2 w2 where t2: "clock e w1 = (t2, w2)" by fastforce
    have "quiet_world w w2" using clock_quiet [OF t1] clock_quiet [OF t2] quiet_world_trans by blast
    then show ?thesis using assms Got t1 t2
      by (auto simp: handle_def Let_def new_result_def body_ok_def response_attempt_def)
  next
    case Stopped_early
    then show ?thesis using assms by (auto simp: handle_def)
  next
    case (Raised x m)
    then show ?thesis using assms by (auto simp: handle_def split: pyerr.splits option.splits)
  next
    case (Request_error to m rp)
    obtain t0 w0 where t0: "(if budgeted then clock e w else (s, w)) = (t0, w0)" by fastforce
    obtain t1 w1 where t1: "clock e w0 = (t1, w1)" by fastforce
    have q: "quiet_world w w0" "quiet_world w0 w1" using t0 clock_quiet clock_quiet [OF t1] by (auto split: if_splits)
    have "quiet_world w w1" by (rule quiet_world_trans [OF q])
    with q show ?thesis using assms Request_error t0 t1
      by (auto simp: handle_def Let_def new_result_def error_attempt_def split: if_splits)
  qed
  then show "quiet_world w w'" "handled_received h = tried_received t"
    "\<And>r ra m. h = New_result r ra m \<Longrightarrow> new_result prev n limit r
       \<and> ((\<exists>r b n. t = Got r b n) \<or> (\<exists>to n rp. t = Request_error to n rp))"
    "\<And>m. h = Return_last m \<Longrightarrow> t = Stopped_early \<or> prev \<noteq> None" by blast+
qed

definition reserved :: "int option \<Rightarrow> io list" where
  "reserved limit = (case limit of None \<Rightarrow> [] | Some l \<Rightarrow> [Reserved l])"

definition settled :: "int option \<Rightarrow> int \<Rightarrow> io list" where
  "settled limit n = (case limit of None \<Rightarrow> [] | Some l \<Rightarrow> [Settled n])"

text \<open>From the reservation to the settlement.\<close>

lemma attempt_law:
  assumes "reserve_request e w = (Inr limit, w1)" "try_exchange e c url limit started tm w1 = (t, s, tm', c', w2)"
    and "handle e c' q recorded budgeted n (earlier prev) prev t s tm' w2 = (h, w3)"
    and "finish_request e (handled_received h) w3 = (f, w4)" "(en_reserve_request e = None) = (en_finish_request e = None)"
  obtains sent where "wd_log w4 = wd_log w @ reserved limit @ sent @ settled limit (handled_received h)"
    "sent = [] \<or> sent = [Sent s] \<and> wd_now w \<le> s \<and> s \<le> wd_now w4" "bill_ok limit (handled_received h)" "wd_now w \<le> wd_now w4"
    "hc_policy c' = hc_policy c"
    "\<And>r ra m. h = New_result r ra m \<Longrightarrow> sent = [Sent s] \<and> new_result prev n limit r \<and> hc_last_request_at c' = Some s"
proof -
  note r = reserve_request_law [OF assms(1)]
  note x = try_exchange_law [OF assms(2)]
  note h = handle_law [OF assms(3) x(5)]
  note f = finish_request_law [OF assms(4)]
  have lim: "(limit = None) = (en_finish_request e = None)" using r(4) assms(5) by simp
  define sent where "sent = (if wd_log w2 = wd_log w1 then [] else [Sent s])"
  have l2: "wd_log w2 = wd_log w1 @ sent" using x(3) by (auto simp: sent_def)
  have "wd_log w4 = wd_log w @ reserved limit @ sent @ settled limit (handled_received h)"
    using f(3) h(1) l2 r(3) lim by (auto simp: quiet_world_def reserved_def settled_def split: option.splits)
  moreover have "wd_now w \<le> wd_now w4" using r(1) x(1) h(1) f(1) by (simp add: quiet_world_def)
  moreover have "sent = [] \<or> sent = [Sent s] \<and> wd_now w \<le> s \<and> s \<le> wd_now w4"
    using x(3) r(1) h(1) f(1) by (auto simp: sent_def quiet_world_def)
  moreover have "bill_ok limit (handled_received h)" using x(4) h(2) by simp
  moreover have "sent = [Sent s] \<and> new_result prev n limit r \<and> hc_last_request_at c' = Some s" if "h = New_result r ra m" for r ra m
    using h(3) [OF that] x(8) by (auto simp: sent_def)
  ultimately show ?thesis using that x(6) by blast
qed

text \<open>How a round ends: nothing reserved, an attempt that decides the request, or another round.\<close>

definition decided :: "http_result option \<Rightarrow> nat \<Rightarrow> int option \<Rightarrow> io list \<Rightarrow> http_result result \<Rightarrow> bool" where
  "decided prev n limit sent res \<longleftrightarrow> res = stopped_before prev \<or> (\<exists>x. res = Inl x)
     \<or> (\<exists>r. res = Inr r \<and> new_result prev n limit r \<and> sent \<noteq> [])"

lemma after_response_law:
  obtains (stop) tail ws res c' w' where "after_response e left n r ra c w = Finish res c' w'"
      "wd_log w' = wd_log w @ tail @ map Slept ws" "tail = [] \<or> (\<exists>t msg. tail = [Persisted t msg])"
      "res = Inr r \<or> (\<exists>y. res = Inl y)"
  | (go) tail d c' w' where "after_response e left n r ra c w = Retry r c' w'" "left \<noteq> 0" "retryable (ht_status_code r)"
      "wd_log w' = wd_log w @ tail @ [Slept d]" "tail = [] \<or> (\<exists>t msg. tail = [Persisted t msg] \<and> t \<le> wd_now w')"
      "wd_now w \<le> wd_now w'" "hc_policy c' = hc_policy c" "hc_last_request_at c' = hc_last_request_at c"
proof -
  obtain t w1 where e1: "clock e w = (t, w1)" by fastforce
  note q1 = clock_quiet [OF e1]
  show thesis
  proof (cases "retryable (ht_status_code r)")
    case False
    obtain p w2 where e2: "persist_deadline e (t + fp_min_delay_s (hc_policy c)) ''provider request pacing'' w1 = (p, w2)"
      by fastforce
    note law = persist_deadline_law [OF e2]
    show thesis
    proof (cases "en_persist_deadline e = None")
      case True
      then show thesis using stop [where tail = "[]" and ws = "[]"] False by (simp add: after_response_def)
    next
      case configured: False
      have "\<exists>res. after_response e left n r ra c w = Finish res c w2 \<and> (res = Inr r \<or> (\<exists>y. res = Inl y))"
        using False configured e1 e2 by (cases p) (auto simp: after_response_def)
      then show thesis using stop [where ws = "[]" and w' = w2] law q1 by (fastforce simp: quiet_world_def)
    qed
  next
    case True
    let ?d = "retry_delay (hc_policy c) (ht_status_code r) ra n" and ?msg = "''HTTP '' @ str_int (ht_status_code r) @ '' backoff''"
    obtain p w2 where e2: "persist_deadline e (t + ?d) ?msg w1 = (p, w2)" by fastforce
    obtain st w3 where e3: "stop_requested e w2 = (st, w3)" by fastforce
    obtain st' w4 where e4: "stop_requested e (sleeper e ?d w3) = (st', w4)" by fastforce
    note q3 = stop_requested_quiet [OF e3] and q4 = stop_requested_quiet [OF e4] and law = persist_deadline_law [OF e2]
    note sl = sleeper_law [where e = e and d = ?d and w = w3]
    obtain tail where tail: "wd_log w2 = wd_log w @ tail" "tail = [] \<or> tail = [Persisted (t + ?d) ?msg]"
      using law q1 by (auto simp: quiet_world_def)
    have now: "t \<le> wd_now w3" "wd_now w \<le> wd_now w3" using q1 q3 law by (auto simp: quiet_world_def)
    have log4: "wd_log w4 = wd_log w @ tail @ [Slept ?d]" using sl(1) q3 q4 tail(1) by (simp add: quiet_world_def)
    let ?c = "c\<lparr>hc_not_before := t + ?d\<rparr>"
    have eq: "after_response e left n r ra c w = (case p of Inl y \<Rightarrow> Finish (Inl y) ?c w2
       | Inr _ \<Rightarrow> if left = 0 then Finish (Inr r) ?c w2 else if st then Finish (Inr r) ?c w3
           else if st' then Finish (Inr r) ?c w4 else Retry r (?c\<lparr>hc_not_before := 0\<rparr>) w4)"
      using True e1 e2 e3 e4 by (cases p) (simp_all add: after_response_def Let_def)
    have t': "tail = [] \<or> (\<exists>t msg. tail = [Persisted t msg])" using tail(2) by blast
    show thesis
    proof (cases "p \<noteq> Inr () \<or> left = 0 \<or> st \<or> st'")
      case True
      have "\<exists>ws w' res. after_response e left n r ra c w = Finish res ?c w' \<and> (res = Inr r \<or> (\<exists>y. res = Inl y))
        \<and> wd_log w' = wd_log w @ tail @ map Slept ws"
        using True eq tail(1) q3 log4 by (cases p) (auto simp: quiet_world_def intro: exI [of _ "[]"] exI [of _ "[?d]"])
      then show thesis using stop [OF _ _ t'] by blast
    next
      case False
      have "\<not> wd_stopped (sleeper e ?d w3)" using False q4 by (auto simp: quiet_world_def)
      then have n4: "wd_now w3 + ?d \<le> wd_now w4" using sl(4) q4 by (simp add: quiet_world_def)
      have "wd_now w \<le> wd_now w4" using now(2) sl(2) q4 by (simp add: quiet_world_def)
      moreover have "tail = [] \<or> (\<exists>t msg. tail = [Persisted t msg] \<and> t \<le> wd_now w4)" using tail(2) n4 now(1) by auto
      ultimately show thesis
        using go [of "?c\<lparr>hc_not_before := 0\<rparr>" w4 tail ?d] eq False log4 \<open>retryable (ht_status_code r)\<close> by simp
    qed
  qed
qed

lemma round_law:
  assumes "(en_reserve_request e = None) = (en_finish_request e = None)"
  obtains (idle) ds res c' w' where "attempt_round e q recorded budgeted left n prev c w = Finish res c' w'"
      "wd_log w' = wd_log w @ map Slept ds" "res = stopped_before prev \<or> (\<exists>x. res = Inl x)"
  | (ended) ds limit sent s m tail ws res c' w' where "attempt_round e q recorded budgeted left n prev c w = Finish res c' w'"
      "wd_log w' = wd_log w @ map Slept ds @ reserved limit @ sent @ settled limit m @ tail @ map Slept ws"
      "sent = [] \<or> sent = [Sent s] \<and> ready c s \<and> wd_now w \<le> s" "bill_ok limit m"
      "tail = [] \<or> (\<exists>t msg. tail = [Persisted t msg])" "decided prev n limit sent res"
      "(limit = None) = (en_reserve_request e = None)"
  | (again) ds limit s m tail d r c' w' where
      "attempt_round e q recorded budgeted left n prev c w = Retry r c' w'" "left \<noteq> 0"
      "wd_log w' = wd_log w @ map Slept ds @ reserved limit @ [Sent s] @ settled limit m @ tail @ [Slept d]"
      "ready c s" "wd_now w \<le> s" "s \<le> wd_now w'" "bill_ok limit m"
      "tail = [] \<or> (\<exists>t msg. tail = [Persisted t msg] \<and> t \<le> wd_now w')"
      "new_result prev n limit r" "retryable (ht_status_code r)" "hc_policy c' = hc_policy c" "hc_last_request_at c' = Some s"
      "(limit = None) = (en_reserve_request e = None)"
proof -
  obtain st0 w0 where e0: "stop_requested e w = (st0, w0)" by fastforce
  obtain c1 w1 where e1: "(if st0 then (c, w0) else respect_serial_delay e c w0) = (c1, w1)" by fastforce
  obtain st1 w2 where e2: "stop_requested e w1 = (st1, w2)" by fastforce
  obtain t1 w3 where e3: "clock e w2 = (t1, w3)" by fastforce
  obtain t2 w4 where e4: "clock e w3 = (t2, w4)" by fastforce
  obtain l w5 where e5: "reserve_request e w4 = (l, w5)" by fastforce
  note q = stop_requested_quiet [OF e0] stop_requested_quiet [OF e2] clock_quiet [OF e3] clock_quiet [OF e4]
  have w1: "\<exists>ds. wd_log w1 = wd_log w0 @ map Slept ds" "wd_now w0 \<le> wd_now w1" "hc_policy c1 = hc_policy c"
    "wd_stopped w1 \<or> ready c (wd_now w1)"
    using e1 q(1) respect_serial_delay_law [of e c w0 c1 w1] by (auto simp: ready_def split: if_splits intro: exI [of _ "[]"])
  obtain ds where ds: "wd_log w4 = wd_log w @ map Slept ds" "wd_log w2 = wd_log w @ map Slept ds"
    using w1(1) q by (auto simp: quiet_world_def)
  have n4: "wd_now w \<le> wd_now w4" "wd_now w1 \<le> wd_now w4" using w1(2) q by (auto simp: quiet_world_def)
  have eq: "attempt_round e q recorded budgeted left n prev c w =
    (if st1 then Finish (stopped_before prev) c1 w2 else case l of Inl x \<Rightarrow> Finish (Inl x) c1 w5
     | Inr limit \<Rightarrow> (let (t, started, attempted_at, c2, w6) = try_exchange e c1 (rq_url q) limit t2 (trunc_rat t1) w5;
                 (h, w7) = handle e c2 q recorded budgeted n (earlier prev) prev t started attempted_at w6
             in conclude_round e left n prev c2 h w7))"
    unfolding attempt_round_def Let_def e0 prod.case e1 e2 e3 e4 e5 earlier_def by (cases l) simp_all
  show thesis
  proof (cases "st1 \<or> (\<exists>x. l = Inl x)")
    case True
    show thesis
    proof (cases st1)
      case True
      then show thesis using idle [of "stopped_before prev" c1 w2 ds] eq ds(2) by simp
    next
      case False
      then obtain x where "l = Inl x" using True by blast
      then show thesis using idle [of "Inl x" c1 w5 ds] eq False ds(1) reserve_request_Inl [of e w4 x w5] e5
        by (simp add: quiet_world_def)
    qed
  next
    case False
    then obtain limit where limit: "l = Inr limit" by (cases l) auto
    have lim: "(limit = None) = (en_reserve_request e = None)" using reserve_request_law(4) e5 limit by blast
    have rdy: "ready c s" if "wd_now w4 \<le> s" for s
      using w1(4) False q n4(2) that by (auto simp: ready_def quiet_world_def)
    obtain t s tm' c2 w6 where e6: "try_exchange e c1 (rq_url q) limit t2 (trunc_rat t1) w5 = (t, s, tm', c2, w6)"
      by (metis prod_cases5)
    obtain h w7 where e7: "handle e c2 q recorded budgeted n (earlier prev) prev t s tm' w6 = (h, w7)" by fastforce
    obtain f w8 where e8: "finish_request e (handled_received h) w7 = (f, w8)" by fastforce
    have eq2: "attempt_round e q recorded budgeted left n prev c w = conclude_round e left n prev c2 h w7"
      using eq False limit e6 e7 by simp
    obtain sent where a: "wd_log w8 = wd_log w4 @ reserved limit @ sent @ settled limit (handled_received h)"
      "sent = [] \<or> sent = [Sent s] \<and> wd_now w4 \<le> s \<and> s \<le> wd_now w8" "bill_ok limit (handled_received h)" "wd_now w4 \<le> wd_now w8"
      "hc_policy c2 = hc_policy c1"
      "\<And>r ra m. h = New_result r ra m \<Longrightarrow> sent = [Sent s] \<and> new_result prev n limit r \<and> hc_last_request_at c2 = Some s"
      by (rule attempt_law [OF e5 [unfolded limit] e6 e7 e8 assms]) blast
    have sent: "sent = [] \<or> sent = [Sent s] \<and> ready c s \<and> wd_now w \<le> s" using a(2) rdy n4(1) by auto
    have fin: thesis if "attempt_round e q recorded budgeted left n prev c w = Finish res c' w'"
        "wd_log w' = wd_log w8 @ tail @ map Slept ws" "decided prev n limit sent res"
        "tail = [] \<or> (\<exists>t msg. tail = [Persisted t msg])" for tail ws res c' w'
      using ended [where ds = ds and limit = limit and sent = sent and s = s and m = "handled_received h" and tail = tail and ws = ws]
        that a(1) ds(1) sent a(3) lim by simp
    show thesis
    proof (cases "\<exists>r ra m. h = New_result r ra m \<and> f = Inr ()")
      case False
      have "\<exists>res. conclude_round e left n prev c2 h w7 = Finish res c2 w8 \<and> decided prev n limit sent res"
        using e8 False by (cases h; cases f) (auto simp: conclude_round_def decided_def)
      then show thesis using fin [where tail = "[]" and ws = "[]"] eq2 by auto
    next
      case True
      then obtain r ra m where h: "h = New_result r ra m" and f: "f = Inr ()" by blast
      note new = a(6) [OF h]
      have eq3: "attempt_round e q recorded budgeted left n prev c w = after_response e left n r ra c2 w8"
        using eq2 e8 h f by (simp add: conclude_round_def)
      show thesis
      proof (cases rule: after_response_law [of e left n r ra c2 w8])
        case (stop tail ws res c' w')
        then show thesis using fin [of res c' w' tail ws] eq3 new by (auto simp: decided_def)
      next
        case (go tail d c' w')
        have "s \<le> wd_now w'" using a(2) new go(6) by auto
        then show thesis
          using again [where ds = ds and limit = limit and s = s and m = "handled_received h" and tail = tail and d = d]
            go eq3 a(1,3,5) ds(1) new sent w1(3) lim by auto
      qed
    qed
  qed
qed

end
