(* ===== verification/Http_Properties.thy ===== *)
theory Http_Properties
  imports Http_Laws
begin

text \<open>
  Properties of a provider request: what it reserves is settled, it is paced, and its evidence is
  complete. Logs are those the request appended, whatever the environment answered.
\<close>

section \<open>Specifications over logs\<close>

text \<open>Billing as an automaton: no reservation, a reservation, a reservation with its request sent.\<close>

datatype bill = Idle | Held int | Used int

definition within_bill :: "int \<Rightarrow> int \<Rightarrow> bool" where
  "within_bill l n \<longleftrightarrow> 0 \<le> n \<and> n \<le> max 0 l + min 65536 (max 0 l)"

fun billed :: "bill \<Rightarrow> io list \<Rightarrow> bool" where
  "billed b [] \<longleftrightarrow> b = Idle"
| "billed b (Slept d # xs) \<longleftrightarrow> b = Idle \<and> billed b xs"
| "billed b (Persisted t m # xs) \<longleftrightarrow> b = Idle \<and> billed b xs"
| "billed b (Reserved l # xs) \<longleftrightarrow> b = Idle \<and> billed (Held l) xs"
| "billed b (Sent t # xs) \<longleftrightarrow> (case b of Held l \<Rightarrow> billed (Used l) xs | _ \<Rightarrow> False)"
| "billed b (Settled n # xs) \<longleftrightarrow> (case b of Idle \<Rightarrow> False | Held l \<Rightarrow> within_bill l n \<and> billed Idle xs
      | Used l \<Rightarrow> within_bill l n \<and> billed Idle xs)"

text \<open>Pacing: every request starts at or after the floor, which requests and deadlines raise.\<close>

fun paced :: "rat \<Rightarrow> rat \<Rightarrow> io list \<Rightarrow> bool" where
  "paced d f [] \<longleftrightarrow> True"
| "paced d f (Sent t # xs) \<longleftrightarrow> f \<le> t \<and> paced d (max f (t + d)) xs"
| "paced d f (Persisted t m # xs) \<longleftrightarrow> paced d (max f t) xs"
| "paced d f (x # xs) \<longleftrightarrow> paced d f xs"

fun is_sent :: "io \<Rightarrow> bool" where
  "is_sent (Sent t) \<longleftrightarrow> True"
| "is_sent x \<longleftrightarrow> False"

definition sends :: "io list \<Rightarrow> nat" where
  "sends xs = length (filter is_sent xs)"

lemma billed_slept [simp]: "billed Idle (map Slept ds @ xs) = billed Idle xs"
  by (induction ds) auto

lemma paced_slept [simp]: "paced d f (map Slept ds @ xs) = paced d f xs"
  by (induction ds) auto

lemma sends_simps [simp]:
  "sends [] = 0" "sends (Sent t # xs) = Suc (sends xs)" "sends (Slept d # xs) = sends xs" "sends (Reserved l # xs) = sends xs"
  "sends (Settled n # xs) = sends xs" "sends (Persisted t m # xs) = sends xs" "sends (map Slept ds) = 0"
  "sends (xs @ ys) = sends xs + sends ys"
  by (simp_all add: sends_def comp_def)

lemma sends_parts [simp]: "sends (reserved limit) = 0" "sends (settled limit m) = 0"
  by (auto simp: reserved_def settled_def split: option.splits)

lemma paced_parts [simp]:
  "paced d f (reserved limit @ xs) = paced d f xs" "paced d f (settled limit m @ xs) = paced d f xs"
  by (auto simp: reserved_def settled_def split: option.splits)

lemma billed_slept_end [simp]: "billed Idle (map Slept ds)"
  using billed_slept [of ds "[]"] by simp

lemma paced_slept_end [simp]: "paced d f (map Slept ds)"
  using paced_slept [of d f ds "[]"] by simp

text \<open>The loop as a relation between the log it starts from and the log it leaves.\<close>

lemma loop_induct [consumes 2, case_names none idle ended again]:
  assumes "request_loop e q recorded budgeted left n prev c w = (res, c', w')"
    and "(en_reserve_request e = None) = (en_finish_request e = None)"
    and none: "\<And>n prev c w x. P 0 n prev c w (Inl x) []"
    and idle: "\<And>left n prev c w ds res. res = stopped_before prev \<or> (\<exists>x. res = Inl x) \<Longrightarrow> P (Suc left) n prev c w res (map Slept ds)"
    and ended: "\<And>left n prev c w ds limit sent s m tail ws res.
      sent = [] \<or> sent = [Sent s] \<and> ready c s \<and> wd_now w \<le> s \<Longrightarrow> bill_ok limit m \<Longrightarrow>
      (limit = None) = (en_reserve_request e = None) \<Longrightarrow>
      tail = [] \<or> (\<exists>t msg. tail = [Persisted t msg]) \<Longrightarrow> decided prev n limit sent res \<Longrightarrow>
      P (Suc left) n prev c w res (map Slept ds @ reserved limit @ sent @ settled limit m @ tail @ map Slept ws)"
    and again: "\<And>left n prev c w ds limit s m tail d r c2 w2 res xs.
      left \<noteq> 0 \<Longrightarrow> ready c s \<Longrightarrow> wd_now w \<le> s \<Longrightarrow> s \<le> wd_now w2 \<Longrightarrow> bill_ok limit m \<Longrightarrow>
      (limit = None) = (en_reserve_request e = None) \<Longrightarrow>
      tail = [] \<or> (\<exists>t msg. tail = [Persisted t msg] \<and> t \<le> wd_now w2) \<Longrightarrow> new_result prev n limit r \<Longrightarrow>
      retryable (ht_status_code r) \<Longrightarrow> hc_policy c2 = hc_policy c \<Longrightarrow> hc_last_request_at c2 = Some s \<Longrightarrow>
      P left (n + 1) (Some r) c2 w2 res xs \<Longrightarrow>
      P (Suc left) n prev c w res (map Slept ds @ reserved limit @ [Sent s] @ settled limit m @ tail @ [Slept d] @ xs)"
  shows "\<exists>xs. wd_log w' = wd_log w @ xs \<and> P left n prev c w res xs"
  using assms(1)
proof (induction left arbitrary: n prev c w)
  case 0
  then show ?case using none by auto
next
  case (Suc left)
  show ?case
  proof (cases rule: round_law [OF assms(2), of q recorded budgeted left n prev c w])
    case (1 ds res1 c1 w1)
    then show ?thesis using Suc.prems assms(4) by auto
  next
    case (2 ds limit sent s m tail ws res1 c1 w1)
    then show ?thesis using Suc.prems assms(5) by auto
  next
    case (3 ds limit s m tail d r c1 w1)
    have "request_loop e q recorded budgeted left (n + 1) (Some r) c1 w1 = (res, c', w')"
      using Suc.prems 3(1) by simp
    from Suc.IH [OF this] obtain xs where xs: "wd_log w' = wd_log w1 @ xs" "P left (n + 1) (Some r) c1 w1 res xs" by blast
    show ?thesis using assms(6) 3 xs by auto
  qed
qed

section \<open>The request as its loop\<close>

lemma request_loopE:
  assumes "request e c q w = (res, c', w')"
  obtains (early) x where "res = Inl x" "wd_log w' = wd_log w"
  | (loop) p q' recorded budgeted w1 where "quiet_world w w1" "(en_reserve_request e = None) = (en_finish_request e = None)"
      "request_loop e q' recorded budgeted (nat (fp_max_retries p + 1)) 1 None (c\<lparr>hc_policy := p\<rparr>) w1 = (res, c', w')"
      "en_resolve_policy e = None \<longrightarrow> p = hc_policy c"
proof -
  define pw where "pw = (case en_resolve_policy e of None \<Rightarrow> (Inr (hc_policy c), w) | Some f \<Rightarrow> (f (wd_tick w), tick e w))"
  have q: "quiet_world w (snd pw)" by (auto simp: pw_def split: option.splits)
  show thesis
  proof (cases "fst pw")
    case (Inl x)
    then show thesis using assms early q by (cases pw) (auto simp: request_def pw_def [symmetric] quiet_world_def)
  next
    case (Inr p)
    have p: "en_resolve_policy e = None \<longrightarrow> p = hc_policy c" using Inr by (auto simp: pw_def)
    have pw: "pw = (Inr p, snd pw)" using Inr by (metis prod.collapse)
    show thesis
    proof (cases "(en_reserve_request e = None) = (en_finish_request e = None)")
      case True
      then show thesis using assms loop [OF q True _ p]
        unfolding request_def pw_def [symmetric] by (subst (asm) pw) (auto simp: Let_def)
    next
      case False
      then show thesis using assms early q
        unfolding request_def pw_def [symmetric] by (subst (asm) pw) (auto simp: Let_def quiet_world_def)
    qed
  qed
qed

section \<open>Properties\<close>

definition within_limit :: "http_result result \<Rightarrow> io list \<Rightarrow> bool" where
  "within_limit res xs \<longleftrightarrow> (\<forall>r b. res = Inr r \<longrightarrow> ht_body r = Some b \<longrightarrow> (\<exists>l. Reserved l \<in> set xs \<and> int (length b) \<le> l))"



definition evidence :: "http_result \<Rightarrow> bool" where
  "evidence r \<longleftrightarrow> (\<exists>as a. ht_attempts r = as @ [a] \<and> map fa_attempt (as @ [a]) = [1..<length as + 2]
     \<and> (\<forall>b \<in> set as. retryable (coalesce (fa_status_code b) 0)) \<and> coalesce (fa_status_code a) 0 = ht_status_code r)"

lemma evidence_step:
  assumes "length (earlier prev) + 1 = n" "\<And>r'. prev = Some r' \<Longrightarrow> evidence r' \<and> retryable (ht_status_code r')"
    and "new_result prev n limit r"
  shows "evidence r" "length (ht_attempts r) = n"
proof -
  obtain a where a: "ht_attempts r = earlier prev @ [a]" "fa_attempt a = n" "coalesce (fa_status_code a) 0 = ht_status_code r"
    using assms(3) by (auto simp: new_result_def)
  have prev: "map fa_attempt (earlier prev) = [1..<length (earlier prev) + 1]
    \<and> (\<forall>b \<in> set (earlier prev). retryable (coalesce (fa_status_code b) 0))"
  proof (cases prev)
    case (Some r')
    then show ?thesis using assms(2) [OF Some] by (auto simp: earlier_def evidence_def)
  qed (simp add: earlier_def)
  have "[1..<length (earlier prev) + 2] = [1..<length (earlier prev) + 1] @ [length (earlier prev) + 1]"
    by (simp del: upt_Suc add: upt_Suc_append)
  then have "map fa_attempt (earlier prev @ [a]) = [1..<length (earlier prev) + 2]"
    using prev a(2) assms(1) by (simp del: upt_Suc)
  then show "evidence r" unfolding evidence_def
    using a prev by (intro exI [of _ "earlier prev"] exI [of _ a]) simp
  show "length (ht_attempts r) = n" using a(1) assms(1) by simp
qed


section \<open>Witnesses\<close>

text \<open>A provider that first answers 503 and then sends three bytes, for a client that asked one second ago.\<close>

definition answer :: "int \<Rightarrow> string list \<Rightarrow> reply" where
  "answer status chunks = Reply \<lparr>rp_status_code = status, rp_url = ''https://lichess.org/api/user/ann'',
     rp_headers = [(''content-type'', ''application/json'')], rp_content = concat chunks, rp_chunks = chunks, rp_broken = None\<rparr>"

definition demo_env :: env where
  "demo_env = \<lparr>en_elapse = (\<lambda>_. 0), en_stop = (\<lambda>_. False), en_wake = (\<lambda>_. None),
     en_reply = (\<lambda>k. if k < 15 then answer 503 [] else answer 200 [''{'', ''}!'']), en_resolve_policy = None,
     en_before_request = None, en_persist_deadline = Some (\<lambda>_. Inr ()), en_reserve_request = Some (\<lambda>_. Inr 10),
     en_finish_request = Some (\<lambda>_. Inr ()), en_date = (\<lambda>_. None), en_sha = (\<lambda>b. b)\<rparr>"

definition demo_policy :: fetch_policy where
  "demo_policy = \<lparr>fp_min_delay_s = 3 / 2, fp_supports_conditional = False, fp_honor_retry_after = False,
     fp_fixed_429_backoff_s = Some 60, fp_max_retries = 3\<rparr>"

definition demo_client :: http_client where
  "demo_client = \<lparr>hc_provider = ''lichess'', hc_user_agent = ''chess-crawl'', hc_policy = demo_policy, hc_timeout_s = 60,
     hc_last_request_at = Some 99, hc_not_before = 0\<rparr>"

definition demo_query :: http_request where
  "demo_query = \<lparr>rq_method = ''get'', rq_url = ''https://lichess.org/api/user/ann'', rq_endpoint_type = ''user_profile'', rq_headers = []\<rparr>"

definition demo_world :: world where
  "demo_world = \<lparr>wd_now = 100, wd_tick = 0, wd_stopped = False, wd_log = []\<rparr>"

lemma demo_request:
  "case request demo_env demo_client demo_query demo_world of
     (Inr r, c, w) \<Rightarrow> ht_body r = Some ''{}!'' \<and> length (ht_attempts r) = 2 \<and> sends (wd_log w) = 2 | _ \<Rightarrow> False"
  by code_simp

lemma demo_requestE:
  obtains r c w where "request demo_env demo_client demo_query demo_world = (Inr r, c, w)"
    "ht_body r = Some ''{}!''" "length (ht_attempts r) = 2" "sends (wd_log w) = 2"
proof -
  obtain res c w where e: "request demo_env demo_client demo_query demo_world = (res, c, w)" by (metis prod_cases3)
  show thesis using demo_request that by (cases res) (auto simp: e)
qed




end
