(* ===== verification/Providers.thy ===== *)
theory Providers
  imports Http Raw_Store
begin

text \<open>
  The provider clients: settings of config.py, the registry of providers/registry.py, the resource
  catalog of providers/resources.py, the URL builders and the clients of providers/chesscom and
  providers/lichess. A client's call is a function of the HTTP client and the world of \<open>Http\<close>; its
  result is the raw record the storage layer keeps, with the target and the recorded attempts.
\<close>

section \<open>URLs\<close>

definition utf8_bytes :: "char \<Rightarrow> nat list" where
  "utf8_bytes ch = (let n = (of_char ch :: nat) in if n < 128 then [n] else [192 + n div 64, 128 + n mod 64])"

definition hex_upper :: "nat \<Rightarrow> char" where
  "hex_upper d = (if d < 10 then char_of (48 + d) else char_of (55 + d))"

definition percent :: "nat \<Rightarrow> string" where
  "percent n = [CHR ''%'', hex_upper (n div 16), hex_upper (n mod 16)]"

definition unreserved :: "char \<Rightarrow> bool" where
  "unreserved ch \<longleftrightarrow> is_ascii_alnum ch \<or> ch \<in> set ''_.-~''"

definition url_quote :: "string \<Rightarrow> string" where
  "url_quote s = concat (map (\<lambda>ch. if unreserved ch then [ch] else concat (map percent (utf8_bytes ch))) s)"

definition url_quote_plus :: "string \<Rightarrow> string" where
  "url_quote_plus s = concat (map (\<lambda>ch. if ch = CHR '' '' then ''+'' else url_quote [ch]) s)"

definition urlencode :: "(string \<times> string) list \<Rightarrow> string" where
  "urlencode ps = join ''&'' (map (\<lambda>(k, v). url_quote_plus k @ ''='' @ url_quote_plus v) ps)"

text \<open>\<open>str.strip().lower()\<close> of a username.\<close>

definition norm_user :: "string \<Rightarrow> string" where
  "norm_user u = lower (strip u)"

definition pad0 :: "nat \<Rightarrow> int \<Rightarrow> string" where
  "pad0 k i = (let s = str_int (abs i); s' = (if i < 0 then ''-'' else []) in
     s' @ replicate (k - length s - length s') (CHR ''0'') @ s)"

subsection \<open>Chess.com\<close>

definition player_profile :: "string \<Rightarrow> string" where
  "player_profile u = ''https://api.chess.com/pub/player/'' @ url_quote (norm_user u)"

definition player_stats :: "string \<Rightarrow> string" where
  "player_stats u = player_profile u @ ''/stats''"

definition archives_index :: "string \<Rightarrow> string" where
  "archives_index u = player_profile u @ ''/games/archives''"

definition month_unit :: "int \<Rightarrow> int \<Rightarrow> string" where
  "month_unit year month = pad0 4 year @ ''/'' @ pad0 2 month"

definition monthly_archive :: "string \<Rightarrow> int \<Rightarrow> int \<Rightarrow> string result" where
  "monthly_archive u year month =
     (if month < 1 \<or> month > 12 then Inl (ValueError ''month must be between 1 and 12'')
      else Inr (player_profile u @ ''/games/'' @ month_unit year month))"

subsection \<open>Lichess\<close>

definition with_query :: "string \<Rightarrow> (string \<times> string option) list \<Rightarrow> string" where
  "with_query base ps = (let query = urlencode (List.map_filter (\<lambda>(k, v). map_option (Pair k) v) ps) in
     if query \<noteq> [] then base @ ''?'' @ query else base)"

definition lichess_user_profile :: "string \<Rightarrow> (string \<times> string option) list \<Rightarrow> string" where
  "lichess_user_profile u ps = with_query (''https://lichess.org/api/user/'' @ url_quote (norm_user u)) ps"

definition lichess_user_games :: "string \<Rightarrow> (string \<times> string option) list \<Rightarrow> string" where
  "lichess_user_games u ps = with_query (''https://lichess.org/api/games/user/'' @ url_quote (norm_user u)) ps"

definition lichess_game :: "string \<Rightarrow> (string \<times> string option) list \<Rightarrow> string" where
  "lichess_game g ps = with_query (''https://lichess.org/game/export/'' @ url_quote (strip g)) ps"

section \<open>Settings\<close>

record provider_settings =
  ps_key :: string
  ps_min_delay_s :: rat
  ps_user_agent :: string
  ps_oauth_token :: "string option"
  ps_max_retries :: int
  ps_include_clocks :: bool
  ps_include_evals :: bool
  ps_include_accuracy :: bool
  ps_oauth_owner_scope :: string

text \<open>\<open>__post_init__\<close>; infinite and non-numeric delays are outside the types.\<close>

definition make_provider_settings :: "provider_settings \<Rightarrow> provider_settings result" where
  "make_provider_settings s =
     rbind (rguard (0 \<le> ps_min_delay_s s) (ValueError ''min_delay_s must be finite and nonnegative'')) (\<lambda>_.
     rbind (rguard (0 \<le> ps_max_retries s) (ValueError ''max_retries must be a nonnegative integer'')) (\<lambda>_. Inr s))"

record config =
  cf_contact :: string
  cf_user_agent :: "string option"
  cf_lichess_token :: "string option"
  cf_chesscom_delay_s :: rat
  cf_lichess_delay_s :: rat
  cf_max_retries :: int
  cf_lichess_clocks :: bool
  cf_lichess_evals :: bool
  cf_lichess_accuracy :: bool
  cf_lichess_token_owner_scope :: string

definition default_config :: config where
  "default_config = \<lparr>cf_contact = ''set-me@example.invalid'', cf_user_agent = None, cf_lichess_token = None,
     cf_chesscom_delay_s = 1, cf_lichess_delay_s = 3 / 2, cf_max_retries = 3, cf_lichess_clocks = True,
     cf_lichess_evals = True, cf_lichess_accuracy = True, cf_lichess_token_owner_scope = ''local''\<rparr>"

definition make_config :: "config \<Rightarrow> config result" where
  "make_config c =
     rbind (rguard (0 \<le> cf_chesscom_delay_s c) (ValueError ''chesscom_delay_s must be finite and nonnegative'')) (\<lambda>_.
     rbind (rguard (0 \<le> cf_lichess_delay_s c) (ValueError ''lichess_delay_s must be finite and nonnegative'')) (\<lambda>_.
     rbind (rguard (0 \<le> cf_max_retries c) (ValueError ''max_retries must be a nonnegative integer'')) (\<lambda>_. Inr c)))"

text \<open>The package version is \<open>__version__\<close>.\<close>

definition build_user_agent :: "string \<Rightarrow> string \<Rightarrow> string" where
  "build_user_agent version contact = ''chess-crawl/'' @ version @ '' (+contact: '' @ contact @ '')''"

definition provider_of_config :: "string \<Rightarrow> config \<Rightarrow> string \<Rightarrow> provider_settings result" where
  "provider_of_config version c key =
     rbind (if key = ''chess.com'' then Inr (cf_chesscom_delay_s c, None)
            else if key = ''lichess'' then Inr (cf_lichess_delay_s c, cf_lichess_token c)
            else Inl (KeyError (''Unknown provider: '' @ key))) (\<lambda>(delay, token).
     make_provider_settings \<lparr>ps_key = key, ps_min_delay_s = delay,
       ps_user_agent = (case cf_user_agent c of Some (x # xs) \<Rightarrow> x # xs | _ \<Rightarrow> build_user_agent version (cf_contact c)),
       ps_oauth_token = token, ps_max_retries = cf_max_retries c, ps_include_clocks = cf_lichess_clocks c,
       ps_include_evals = cf_lichess_evals c, ps_include_accuracy = cf_lichess_accuracy c,
       ps_oauth_owner_scope = cf_lichess_token_owner_scope c\<rparr>)"

section \<open>Registry\<close>

definition chesscom_policy :: "rat \<Rightarrow> int \<Rightarrow> fetch_policy" where
  "chesscom_policy delay retries = \<lparr>fp_min_delay_s = delay, fp_supports_conditional = True, fp_honor_retry_after = True,
     fp_fixed_429_backoff_s = None, fp_max_retries = retries\<rparr>"

definition lichess_policy :: "rat \<Rightarrow> int \<Rightarrow> fetch_policy" where
  "lichess_policy delay retries = \<lparr>fp_min_delay_s = delay, fp_supports_conditional = False, fp_honor_retry_after = False,
     fp_fixed_429_backoff_s = Some 60, fp_max_retries = retries\<rparr>"

text \<open>\<open>get_provider_info(key).policy\<close>.\<close>

definition registered_policy :: "string \<Rightarrow> fetch_policy result" where
  "registered_policy key =
     (if key = ''chess.com'' then Inr (chesscom_policy 1 3)
      else if key = ''lichess'' then Inr (lichess_policy (3 / 2) 3)
      else Inl (KeyError key))"

definition known_keys :: "string list" where
  "known_keys = [''chess.com'', ''lichess'']"

text \<open>The HTTP client a provider client owns.\<close>

definition new_http_client :: "string \<Rightarrow> provider_settings \<Rightarrow> http_client result" where
  "new_http_client key s =
     (if key = ''chess.com'' then Inr \<lparr>hc_provider = key, hc_user_agent = ps_user_agent s,
          hc_policy = chesscom_policy (ps_min_delay_s s) (ps_max_retries s), hc_timeout_s = 30,
          hc_last_request_at = None, hc_not_before = 0\<rparr>
      else if key = ''lichess'' then Inr \<lparr>hc_provider = key, hc_user_agent = ps_user_agent s,
          hc_policy = lichess_policy (ps_min_delay_s s) (ps_max_retries s), hc_timeout_s = 60,
          hc_last_request_at = None, hc_not_before = 0\<rparr>
      else Inl (KeyError key))"

section \<open>Resources\<close>

datatype authentication = Auth_none | Auth_optional | Auth_required

record resource =
  re_provider :: string
  re_key :: string
  re_template :: "string \<Rightarrow> (string \<times> string) list \<Rightarrow> string"
  re_authentication :: authentication
  re_parameter :: "string option"
  re_allowed_values :: "string list"
  re_workspace_access :: bool

definition PERFS :: "string list" where
  "PERFS = [''ultraBullet'', ''bullet'', ''blitz'', ''rapid'', ''classical'', ''correspondence'', ''chess960'', ''crazyhouse'',
     ''antichess'', ''atomic'', ''horde'', ''kingOfTheHill'', ''racingKings'', ''threeCheck'']"

definition chesscom_resource :: "string \<Rightarrow> string \<Rightarrow> resource" where
  "chesscom_resource key suffix = \<lparr>re_provider = ''chess.com'', re_key = key,
     re_template = (\<lambda>u _. ''https://api.chess.com/pub/player/'' @ u @ ''/'' @ suffix), re_authentication = Auth_none,
     re_parameter = None, re_allowed_values = [], re_workspace_access = False\<rparr>"

definition lichess_resource :: "string \<Rightarrow> (string \<Rightarrow> string) \<Rightarrow> authentication \<Rightarrow> resource" where
  "lichess_resource key path auth = \<lparr>re_provider = ''lichess'', re_key = key,
     re_template = (\<lambda>u _. ''https://lichess.org/api/'' @ path u), re_authentication = auth,
     re_parameter = None, re_allowed_values = [], re_workspace_access = (key = ''teams'')\<rparr>"

definition RESOURCES :: "resource list" where
  "RESOURCES = [chesscom_resource ''clubs'' ''clubs'', chesscom_resource ''matches'' ''matches'',
     chesscom_resource ''tournaments'' ''tournaments'', chesscom_resource ''online'' ''is-online'',
     lichess_resource ''rating-history'' (\<lambda>u. ''user/'' @ u @ ''/rating-history'') Auth_optional,
     lichess_resource ''activity'' (\<lambda>u. ''user/'' @ u @ ''/activity'') Auth_none,
     lichess_resource ''teams'' (\<lambda>u. ''team/of/'' @ u) Auth_required,
     \<lparr>re_provider = ''lichess'', re_key = ''performance'',
      re_template = (\<lambda>u vs. ''https://lichess.org/api/user/'' @ u @ ''/perf/'' @ coalesce (map_of vs ''perf'') []),
      re_authentication = Auth_none, re_parameter = Some ''perf'', re_allowed_values = PERFS, re_workspace_access = False\<rparr>]"

definition get_resource :: "string \<Rightarrow> string \<Rightarrow> resource result" where
  "get_resource provider key = (case find_row (\<lambda>r. re_provider r = provider \<and> re_key r = key) RESOURCES of
       Some r \<Rightarrow> Inr r | None \<Rightarrow> Inl (ValueError (''unsupported player resource: '' @ provider @ ''/'' @ key)))"

text \<open>\<open>PlayerResource.parameters\<close> of a JSON mapping with distinct keys.\<close>

definition resource_parameters :: "resource \<Rightarrow> (string \<times> json) list \<Rightarrow> (string \<times> string) list result" where
  "resource_parameters r values = (case re_parameter r of
       None \<Rightarrow> if values \<noteq> [] then Inl (ValueError (''resource '' @ re_key r @ '' does not accept parameters'')) else Inr []
     | Some p \<Rightarrow>
         if fst ` set values \<noteq> {p} then Inl (ValueError (''resource '' @ re_key r @ '' requires only '' @ p))
         else (case obj_get values p of
             JStr v \<Rightarrow> if v \<in> set (re_allowed_values r) then Inr [(p, v)]
               else Inl (ValueError (''unsupported '' @ p @ '' for resource '' @ re_key r))
           | _ \<Rightarrow> Inl (ValueError (''unsupported '' @ p @ '' for resource '' @ re_key r))))"

definition resource_url :: "resource \<Rightarrow> string \<Rightarrow> (string \<times> json) list \<Rightarrow> string result" where
  "resource_url r username values =
     (if norm_user username = [] then Inl (ValueError ''resource username cannot be empty'')
      else rbind (resource_parameters r values) (\<lambda>vs. Inr (re_template r (url_quote (norm_user username)) vs)))"

definition resource_owner_scope :: "resource \<Rightarrow> string \<Rightarrow> string result" where
  "resource_owner_scope r scope =
     (if scope = [] \<or> length scope > 200 then Inl (ValueError ''resource owner scope must contain 1..200 characters'')
      else if re_workspace_access r \<and> scope = ''public''
      then Inl (ValueError (''resource '' @ re_key r @ '' requires a workspace owner scope''))
      else Inr (if re_workspace_access r then scope else ''public''))"

text \<open>\<open>canonical_hash\<close> of the parameters is the hash of their sorted compact JSON.\<close>

definition resource_source_key ::
  "(json \<Rightarrow> string) \<Rightarrow> string \<Rightarrow> string \<Rightarrow> string \<Rightarrow> (string \<times> json) list \<Rightarrow> string \<Rightarrow> bool \<Rightarrow> string result" where
  "resource_source_key canonical_hash provider username key parameters owner_scope authenticated =
     rbind (get_resource provider key) (\<lambda>r.
     rbind (resource_parameters r parameters) (\<lambda>values.
     rbind (resource_owner_scope r owner_scope) (\<lambda>scope.
     if norm_user username = [] then Inl (ValueError ''resource username cannot be empty'')
     else Inr (provider @ ''/player/'' @ url_quote (norm_user username) @ ''/resources/'' @ key
       @ (if values = [] then [] else ''/'' @ canonical_hash (JObj (map (\<lambda>(k, v). (k, JStr v)) values)))
       @ (if scope = ''public'' then [] else ''/scope/'' @ url_quote scope)
       @ (if re_authentication r = Auth_optional \<and> authenticated then ''/authenticated'' else [])))))"

section \<open>Captures\<close>

record capture =
  cp_record :: raw_record
  cp_target_username :: "string option"
  cp_target_game_id :: "string option"
  cp_archive_unit :: "string option"
  cp_attempts :: "fetch_attempt list"

definition or_default :: "string option \<Rightarrow> string \<Rightarrow> string" where
  "or_default s d = (case s of Some (x # xs) \<Rightarrow> x # xs | _ \<Rightarrow> d)"

definition json_headers :: "headers \<Rightarrow> (string \<times> json) list" where
  "json_headers hs = map (\<lambda>(k, v). (k, JStr v)) hs"

text \<open>\<open>_raw_record\<close> of both clients: \<open>media\<close> is what an absent content type means.\<close>

definition capture_of ::
  "string \<Rightarrow> http_result \<Rightarrow> string \<Rightarrow> string \<Rightarrow> string \<Rightarrow> (string \<times> json) list \<Rightarrow> string
   \<Rightarrow> string option \<Rightarrow> string option \<Rightarrow> string option \<Rightarrow> capture" where
  "capture_of provider r endpoint key media params scope user game unit =
     \<lparr>cp_record = \<lparr>rr_provider = provider, rr_endpoint_type = endpoint, rr_request_url = ht_url r,
        rr_canonical_source_key = key, rr_request_params = params, rr_http_status = ht_status_code r,
        rr_fetched_at = ht_fetched_at r, rr_body = ht_body r, rr_media_type = or_default (ht_content_type r) media,
        rr_etag = ht_etag r, rr_last_modified = ht_last_modified r, rr_body_hash = ht_body_hash r,
        rr_response_headers = json_headers (ht_headers r), rr_owner_scope = scope\<rparr>,
      cp_target_username = user, cp_target_game_id = game, cp_archive_unit = unit, cp_attempts = ht_attempts r\<rparr>"

type_synonym fetch = "http_client \<Rightarrow> world \<Rightarrow> capture result \<times> http_client \<times> world"

definition fetching :: "env \<Rightarrow> http_request \<Rightarrow> (http_result \<Rightarrow> capture) \<Rightarrow> fetch" where
  "fetching e q f c w = (case request e c q w of (r, c', w') \<Rightarrow> (rbind r (\<lambda>x. Inr (f x)), c', w'))"

definition get_query :: "string \<Rightarrow> string \<Rightarrow> headers \<Rightarrow> http_request" where
  "get_query url endpoint hs = \<lparr>rq_method = ''GET'', rq_url = url, rq_endpoint_type = endpoint, rq_headers = hs\<rparr>"

section \<open>Chess.com\<close>

definition conditional_headers :: "string option \<Rightarrow> string option \<Rightarrow> headers" where
  "conditional_headers etag last_modified = [(''Accept'', ''application/json'')]
     @ (case etag of Some (x # xs) \<Rightarrow> [(''If-None-Match'', x # xs)] | _ \<Rightarrow> [])
     @ (case last_modified of Some (x # xs) \<Rightarrow> [(''If-Modified-Since'', x # xs)] | _ \<Rightarrow> [])"

definition chesscom_get ::
  "env \<Rightarrow> string \<Rightarrow> string \<Rightarrow> string \<Rightarrow> string option \<Rightarrow> string option \<Rightarrow> string option \<Rightarrow> string option \<Rightarrow> fetch" where
  "chesscom_get e endpoint url key user unit etag last_modified =
     fetching e (get_query url endpoint (conditional_headers etag last_modified))
       (\<lambda>r. capture_of ''chess.com'' r endpoint key ''application/json'' [] ''public'' user None unit)"

definition chesscom_profile_key :: "string \<Rightarrow> string" where
  "chesscom_profile_key u = ''chess.com/player/'' @ norm_user u @ ''/profile''"

definition chesscom_user_profile :: "env \<Rightarrow> string \<Rightarrow> string option \<Rightarrow> string option \<Rightarrow> fetch" where
  "chesscom_user_profile e u etag last_modified =
     chesscom_get e ''user_profile'' (player_profile u) (chesscom_profile_key u) (Some (norm_user u)) None etag last_modified"

definition chesscom_stats_key :: "string \<Rightarrow> string" where
  "chesscom_stats_key u = ''chess.com/player/'' @ norm_user u @ ''/stats''"

definition chesscom_user_stats :: "env \<Rightarrow> string \<Rightarrow> string option \<Rightarrow> string option \<Rightarrow> fetch" where
  "chesscom_user_stats e u etag last_modified =
     chesscom_get e ''user_stats'' (player_stats u) (chesscom_stats_key u) (Some (norm_user u)) None etag last_modified"

definition archives_key :: "string \<Rightarrow> string" where
  "archives_key u = ''chess.com/player/'' @ norm_user u @ ''/games/archives''"

definition chesscom_archives_index :: "env \<Rightarrow> string \<Rightarrow> string option \<Rightarrow> string option \<Rightarrow> fetch" where
  "chesscom_archives_index e u etag last_modified =
     chesscom_get e ''archives_index'' (archives_index u) (archives_key u) (Some (norm_user u)) None etag last_modified"

definition month_key :: "string \<Rightarrow> int \<Rightarrow> int \<Rightarrow> string" where
  "month_key u year month = ''chess.com/player/'' @ norm_user u @ ''/games/'' @ month_unit year month"

definition chesscom_monthly_archive :: "env \<Rightarrow> string \<Rightarrow> int \<Rightarrow> int \<Rightarrow> string option \<Rightarrow> string option \<Rightarrow> fetch" where
  "chesscom_monthly_archive e u year month etag last_modified c w = (case monthly_archive u year month of
       Inl x \<Rightarrow> (Inl x, c, w)
     | Inr url \<Rightarrow> chesscom_get e ''monthly_archive'' url (month_key u year month) (Some (norm_user u))
         (Some (month_unit year month)) etag last_modified c w)"

definition resource_params :: "string \<Rightarrow> (string \<times> string) list \<Rightarrow> string \<Rightarrow> bool \<Rightarrow> (string \<times> json) list" where
  "resource_params key values scope authenticated =
     [(''resource_key'', JStr key), (''parameters'', JObj (map (\<lambda>(k, v). (k, JStr v)) values)),
      (''owner_scope'', JStr scope), (''authenticated'', JBool authenticated)]"

definition chesscom_user_resource ::
  "(json \<Rightarrow> string) \<Rightarrow> env \<Rightarrow> string \<Rightarrow> string \<Rightarrow> (string \<times> json) list \<Rightarrow> string \<Rightarrow> string option \<Rightarrow> string option \<Rightarrow> fetch" where
  "chesscom_user_resource ch e u key parameters owner_scope etag last_modified c w =
     (case rbind (get_resource ''chess.com'' key) (\<lambda>r. rbind (resource_parameters r parameters) (\<lambda>vs.
             rbind (resource_url r u (map (\<lambda>(k, v). (k, JStr v)) vs)) (\<lambda>url. Inr (vs, url)))) of
        Inl x \<Rightarrow> (Inl x, c, w)
      | Inr (vs, url) \<Rightarrow>
         (case request e c (get_query url ''user_resource'' (conditional_headers etag last_modified)) w of
            (r, c', w') \<Rightarrow> (rbind r (\<lambda>x.
               rbind (resource_source_key ch ''chess.com'' u key (map (\<lambda>(k, v). (k, JStr v)) vs) owner_scope False) (\<lambda>sk.
               Inr (capture_of ''chess.com'' x ''user_resource'' sk ''application/json'' (resource_params key vs ''public'' False)
                 ''public'' (Some (norm_user u)) None None))), c', w')))"

section \<open>Lichess\<close>

definition bool_text :: "bool \<Rightarrow> string" where
  "bool_text b = (if b then ''true'' else ''false'')"

definition evidence_params :: "provider_settings \<Rightarrow> (string \<times> string option) list" where
  "evidence_params s = [(''clocks'', Some (bool_text (ps_include_clocks s))), (''evals'', Some (bool_text (ps_include_evals s))),
     (''accuracy'', Some (bool_text (ps_include_accuracy s)))]"

text \<open>Request parameters as stored: numbers stay numbers. \<open>nums\<close> are the numeric ones.\<close>

definition stored_params :: "(string \<times> int option) list \<Rightarrow> (string \<times> string option) list \<Rightarrow> (string \<times> json) list" where
  "stored_params nums texts =
     List.map_filter (\<lambda>(k, v). map_option (\<lambda>i. (k, JInt i)) v) nums @ List.map_filter (\<lambda>(k, v). map_option (\<lambda>t. (k, JStr t)) v) texts"

definition query_params :: "(string \<times> int option) list \<Rightarrow> (string \<times> string option) list \<Rightarrow> (string \<times> string option) list" where
  "query_params nums texts = map (\<lambda>(k, v). (k, map_option str_int v)) nums @ texts"

definition lichess_media :: "string \<Rightarrow> string" where
  "lichess_media endpoint = (if endpoint = ''user_games_stream'' then ''application/x-ndjson'' else ''application/json'')"

definition lichess_record ::
  "http_result \<Rightarrow> string \<Rightarrow> string \<Rightarrow> (string \<times> json) list \<Rightarrow> string \<Rightarrow> string option \<Rightarrow> string option \<Rightarrow> string option \<Rightarrow> capture" where
  "lichess_record r endpoint key params scope user game unit =
     capture_of ''lichess'' r endpoint key (lichess_media endpoint) params scope user game unit"

definition lichess_profile :: "env \<Rightarrow> string \<Rightarrow> fetch" where
  "lichess_profile e u =
     (let ps = [(''trophies'', Some ''true''), (''profile'', Some ''true''), (''rank'', Some ''true''), (''fideId'', Some ''true'')] in
      fetching e (get_query (lichess_user_profile u ps) ''user_profile'' [(''Accept'', ''application/json'')])
        (\<lambda>r. lichess_record r ''user_profile'' (''lichess/user/'' @ norm_user u @ ''/profile'') (stored_params [] ps) ''public''
           (Some (norm_user u)) None None))"

definition range_unit_id :: "int option \<Rightarrow> int option \<Rightarrow> int \<Rightarrow> string result" where
  "range_unit_id since until limit =
     (let fmt = (\<lambda>v. case v of None \<Rightarrow> ''open'' | Some i \<Rightarrow> str_int i) in
      if limit \<le> 0 then Inl (ValueError ''Game limit must be a positive integer'')
      else Inr (''seconds-'' @ fmt since @ ''..'' @ fmt until @ ''-limit-'' @ str_int limit))"

definition lichess_games :: "env \<Rightarrow> provider_settings \<Rightarrow> string \<Rightarrow> int option \<Rightarrow> int option \<Rightarrow> int \<Rightarrow> fetch" where
  "lichess_games e s u since until limit c w = (case range_unit_id since until limit of
       Inl x \<Rightarrow> (Inl x, c, w)
     | Inr unit \<Rightarrow>
         let nums = [(''since'', map_option (\<lambda>t. t * 1000) since), (''until'', map_option (\<lambda>t. t * 1000) until), (''max'', Some limit)];
             texts = [(''pgnInJson'', Some ''true''), (''opening'', Some ''true'')] @ evidence_params s in
         fetching e (get_query (lichess_user_games u (query_params nums texts)) ''user_games_stream'' [(''Accept'', ''application/x-ndjson'')])
           (\<lambda>r. lichess_record r ''user_games_stream'' (''lichess/games/user/'' @ norm_user u @ ''/'' @ unit) (stored_params nums texts)
              ''public'' (Some (norm_user u)) None (Some unit)) c w)"

definition game_key :: "string \<Rightarrow> string" where
  "game_key g = ''lichess/game/'' @ strip g"

definition lichess_get_game :: "env \<Rightarrow> provider_settings \<Rightarrow> string \<Rightarrow> fetch" where
  "lichess_get_game e s g =
     fetching e (get_query (lichess_game (strip g) (evidence_params s)) ''game'' [(''Accept'', ''application/json'')])
       (\<lambda>r. lichess_record r ''game'' (game_key g) (stored_params [] (evidence_params s)) ''public'' None (Some (strip g)) None)"

definition millis_unit :: "int option \<Rightarrow> int \<Rightarrow> int \<Rightarrow> string" where
  "millis_unit since until limit = ''millis-'' @ (case since of None \<Rightarrow> ''open'' | Some i \<Rightarrow> str_int i) @ ''..'' @ str_int until
     @ ''-limit-'' @ str_int limit"

definition page_key :: "string \<Rightarrow> int option \<Rightarrow> int \<Rightarrow> int \<Rightarrow> string" where
  "page_key u since until limit = ''lichess/games/user/'' @ norm_user u @ ''/'' @ millis_unit since until limit"

definition lichess_games_page :: "env \<Rightarrow> provider_settings \<Rightarrow> string \<Rightarrow> int option \<Rightarrow> int \<Rightarrow> int \<Rightarrow> fetch" where
  "lichess_games_page e s u since until limit c w =
     (if (case since of Some i \<Rightarrow> i < 0 | None \<Rightarrow> False) then (Inl (ValueError ''since_ms must be a nonnegative integer''), c, w)
      else if until < 0 then (Inl (ValueError ''until_ms must be a nonnegative integer''), c, w)
      else if (case since of Some i \<Rightarrow> until < i | None \<Rightarrow> False) then (Inl (ValueError ''since_ms must not be greater than until_ms''), c, w)
      else if limit \<le> 0 then (Inl (ValueError ''limit must be a positive integer''), c, w)
      else let nums = [(''since'', since), (''until'', Some until), (''max'', Some limit)];
               texts = [(''sort'', Some ''dateDesc''), (''ongoing'', Some ''true''), (''finished'', Some ''true''), (''pgnInJson'', Some ''true''),
                 (''opening'', Some ''true''), (''division'', Some ''true'')] @ evidence_params s in
         fetching e (get_query (lichess_user_games u (query_params nums texts)) ''user_games_stream'' [(''Accept'', ''application/x-ndjson'')])
           (\<lambda>r. lichess_record r ''user_games_stream'' (page_key u since until limit) (stored_params nums texts)
              ''public'' (Some (norm_user u)) None (Some (millis_unit since until limit))) c w)"

definition authenticated_headers :: "provider_settings \<Rightarrow> string \<Rightarrow> headers" where
  "authenticated_headers s accept = [(''Accept'', accept)]
     @ (case ps_oauth_token s of Some (x # xs) \<Rightarrow> [(''Authorization'', ''Bearer '' @ x # xs)] | _ \<Rightarrow> [])"

definition has_token :: "provider_settings \<Rightarrow> bool" where
  "has_token s \<longleftrightarrow> (case ps_oauth_token s of Some (x # xs) \<Rightarrow> True | _ \<Rightarrow> False)"

text \<open>The checks of \<open>get_user_resource\<close> before the request: the resource, its values, its scope and its URL.\<close>

definition lichess_resource_plan ::
  "provider_settings \<Rightarrow> string \<Rightarrow> string \<Rightarrow> (string \<times> json) list \<Rightarrow> string \<Rightarrow> ((string \<times> string) list \<times> string \<times> bool \<times> string) result" where
  "lichess_resource_plan s u key parameters owner_scope =
     rbind (get_resource ''lichess'' key) (\<lambda>r.
     rbind (resource_parameters r parameters) (\<lambda>vs.
     rbind (resource_owner_scope r owner_scope) (\<lambda>scope.
     if re_authentication r = Auth_required \<and> \<not> has_token s then Inl (ValueError (''resource '' @ key @ '' requires an OAuth token''))
     else if re_workspace_access r \<and> scope \<noteq> ps_oauth_owner_scope s
     then Inl (ValueError ''provider OAuth credentials belong to a different workspace'')
     else rbind (resource_url r u (map (\<lambda>(k, v). (k, JStr v)) vs)) (\<lambda>url.
       Inr (vs, scope, re_authentication r \<noteq> Auth_none \<and> has_token s, url)))))"

definition lichess_user_resource ::
  "(json \<Rightarrow> string) \<Rightarrow> env \<Rightarrow> provider_settings \<Rightarrow> string \<Rightarrow> string \<Rightarrow> (string \<times> json) list \<Rightarrow> string \<Rightarrow> fetch" where
  "lichess_user_resource ch e s u key parameters owner_scope c w =
     (case lichess_resource_plan s u key parameters owner_scope of
        Inl x \<Rightarrow> (Inl x, c, w)
      | Inr (vs, scope, authenticated, url) \<Rightarrow>
         (case request e c (get_query url ''user_resource'' (if authenticated then authenticated_headers s ''application/json''
                 else [(''Accept'', ''application/json'')])) w of
            (r, c', w') \<Rightarrow> (rbind r (\<lambda>x.
               rbind (resource_source_key ch ''lichess'' u key (map (\<lambda>(k, v). (k, JStr v)) vs) scope authenticated) (\<lambda>sk.
               Inr (lichess_record x ''user_resource'' sk (resource_params key vs scope authenticated) scope (Some (norm_user u)) None None))),
             c', w')))"

end
