(* ===== verification/Collection_Store.thy ===== *)
theory Collection_Store
  imports Raw_Store
begin

text \<open>
  The durable progress of collections, storage/collection.py: checkpoints, coverage of source units,
  the millisecond ranges proven complete, and unfinished games. PostgreSQL's \<open>int8range\<close> is a span with
  an optional lower bound; every span of the queries has an upper bound. The multirange operators
  are written out: aggregation as the union of the spans, subtraction piece by piece.
\<close>

section \<open>Tables\<close>

record coverage_row =
  cv_provider :: string
  cv_username :: string
  cv_unit_key :: string
  cv_state :: string
  cv_raw_payload_id :: "int option"
  cv_parser_version :: "string option"
  cv_fetched_at :: int
  cv_error :: "string option"
  cv_since_ms :: "int option"
  cv_until_ms :: "int option"
  cv_sealed :: bool

record source_range =
  sg_username :: string
  sg_raw_payload_id :: int
  sg_since_ms :: "int option"
  sg_until_ms :: int

record followup =
  fu_username :: string
  fu_game_ref :: string
  fu_created_ms :: int
  fu_updated_at :: int

record checkpoint_row =
  ck_job_id :: int
  ck_cursor :: "(string \<times> json) list"
  ck_updated_at :: int

text \<open>Source ranges and follow-ups are Lichess rows only.\<close>

record coll =
  co_checkpoints :: "checkpoint_row list"
  co_coverage :: "coverage_row list"
  co_ranges :: "source_range list"
  co_followups :: "followup list"

section \<open>Checkpoints\<close>

definition checkpoint :: "coll \<Rightarrow> int \<Rightarrow> (string \<times> json) list option" where
  "checkpoint co job = map_option ck_cursor (find_row (\<lambda>r. ck_job_id r = job) (co_checkpoints co))"

definition save_checkpoint :: "int \<Rightarrow> (string \<times> json) list \<Rightarrow> int \<Rightarrow> coll \<Rightarrow> coll" where
  "save_checkpoint job cursor now co = co\<lparr>co_checkpoints :=
     (if find_row (\<lambda>r. ck_job_id r = job) (co_checkpoints co) \<noteq> None
      then update_where (\<lambda>r. ck_job_id r = job) (\<lambda>r. r\<lparr>ck_cursor := cursor, ck_updated_at := now\<rparr>) (co_checkpoints co)
      else co_checkpoints co @ [\<lparr>ck_job_id = job, ck_cursor = cursor, ck_updated_at = now\<rparr>])\<rparr>"

section \<open>Coverage\<close>

definition coverage_key :: "string \<Rightarrow> string \<Rightarrow> string \<Rightarrow> coverage_row \<Rightarrow> bool" where
  "coverage_key provider username unit r \<longleftrightarrow> cv_provider r = provider \<and> cv_username r = lower username \<and> cv_unit_key r = unit"

definition coverage :: "coll \<Rightarrow> string \<Rightarrow> string \<Rightarrow> string \<Rightarrow> coverage_row option" where
  "coverage co provider username unit = find_row (coverage_key provider username unit) (co_coverage co)"

definition coverage_rows :: "coll \<Rightarrow> string \<Rightarrow> string \<Rightarrow> coverage_row list" where
  "coverage_rows co provider username = sort_key cv_unit_key
     (filter (\<lambda>r. cv_provider r = provider \<and> cv_username r = lower username) (co_coverage co))"

text \<open>The \<open>WHERE\<close> of the upsert: the history row only grows; other rows are not replaced by older observations.\<close>

definition replaces :: "coverage_row \<Rightarrow> coverage_row \<Rightarrow> bool" where
  "replaces new old \<longleftrightarrow>
     (if cv_unit_key new = ''history''
      then cv_state new = ''complete'' \<and> cv_since_ms new = None \<and> cv_until_ms new \<noteq> None
        \<and> (cv_state old \<noteq> ''complete'' \<or> cv_since_ms old \<noteq> None \<or> cv_until_ms old = None
           \<or> the (cv_until_ms old) < the (cv_until_ms new)
           \<or> cv_until_ms new = cv_until_ms old \<and> cv_fetched_at old \<le> cv_fetched_at new)
      else cv_fetched_at old \<le> cv_fetched_at new)"

definition record_coverage :: "coverage_row \<Rightarrow> coll \<Rightarrow> coll" where
  "record_coverage new co = (let row = new\<lparr>cv_username := lower (cv_username new)\<rparr>;
       same = coverage_key (cv_provider row) (cv_username row) (cv_unit_key row) in
     co\<lparr>co_coverage := (if find_row same (co_coverage co) \<noteq> None
       then update_where same (\<lambda>old. if replaces row old
              then row\<lparr>cv_raw_payload_id := (if cv_raw_payload_id row \<noteq> None then cv_raw_payload_id row else cv_raw_payload_id old)\<rparr>
              else old) (co_coverage co)
       else co_coverage co @ [row])\<rparr>)"

section \<open>Ranges\<close>

type_synonym span = "int option \<times> int"

definition in_span :: "int \<Rightarrow> span \<Rightarrow> bool" where
  "in_span t s \<longleftrightarrow> (case fst s of None \<Rightarrow> True | Some l \<Rightarrow> l \<le> t) \<and> t < snd s"

definition nonempty :: "span \<Rightarrow> bool" where
  "nonempty s \<longleftrightarrow> (case fst s of None \<Rightarrow> True | Some l \<Rightarrow> l < snd s)"

definition history_complete :: "string \<Rightarrow> coverage_row \<Rightarrow> bool" where
  "history_complete username r \<longleftrightarrow> cv_provider r = ''lichess'' \<and> cv_username r = lower username \<and> cv_unit_key r = ''history''
     \<and> cv_state r = ''complete'' \<and> cv_since_ms r = None \<and> cv_until_ms r \<noteq> None"

text \<open>The \<open>covered\<close> common table, without the empty spans, which aggregation ignores.\<close>

definition covered_spans :: "coll \<Rightarrow> string \<Rightarrow> span list" where
  "covered_spans co username = filter nonempty
     (map (\<lambda>g. (sg_since_ms g, sg_until_ms g)) (filter (\<lambda>g. sg_username g = lower username) (co_ranges co))
      @ map (\<lambda>r. (None, the (cv_until_ms r))) (filter (history_complete username) (co_coverage co)))"

definition left_piece :: "span \<Rightarrow> span \<Rightarrow> span list" where
  "left_piece s c = (case fst c of None \<Rightarrow> [] | Some a \<Rightarrow> filter nonempty [(fst s, min (snd s) a)])"

definition right_piece :: "span \<Rightarrow> span \<Rightarrow> span list" where
  "right_piece s c = filter nonempty [(Some (case fst s of None \<Rightarrow> snd c | Some l \<Rightarrow> max l (snd c)), snd s)]"

definition minus_span :: "span \<Rightarrow> span \<Rightarrow> span list" where
  "minus_span s c = left_piece s c @ right_piece s c"

definition minus_spans :: "span list \<Rightarrow> span list \<Rightarrow> span list" where
  "minus_spans windows covered = foldl (\<lambda>ws c. concat (map (\<lambda>s. minus_span s c) ws)) windows covered"

text \<open>\<open>missing_windows\<close>: an inverted request makes \<open>int8range\<close> raise.\<close>

definition missing_windows :: "coll \<Rightarrow> string \<Rightarrow> int option \<Rightarrow> int \<Rightarrow> span list result" where
  "missing_windows co username since until =
     (if (case since of None \<Rightarrow> False | Some l \<Rightarrow> until < l)
      then Inl (DatabaseError ''range lower bound must be less than or equal to range upper bound'')
      else Inr (List.rev (sort_key snd (minus_spans (filter nonempty [(since, until)]) (covered_spans co username)))))"

text \<open>The union's fragment with no lower bound: extended by every span that starts at or below its end.\<close>

definition high_water_step :: "int option \<Rightarrow> span \<Rightarrow> int option" where
  "high_water_step h s = (case (h, fst s) of
       (None, None) \<Rightarrow> Some (snd s)
     | (None, Some _) \<Rightarrow> None
     | (Some x, None) \<Rightarrow> Some (max x (snd s))
     | (Some x, Some l) \<Rightarrow> Some (if l \<le> x then max x (snd s) else x))"

definition span_order :: "span \<Rightarrow> bool \<times> int" where
  "span_order s = (case fst s of None \<Rightarrow> (False, 0) | Some l \<Rightarrow> (True, l))"

definition history_high_water :: "coll \<Rightarrow> string \<Rightarrow> int option" where
  "history_high_water co username = foldl high_water_step None (sort_key span_order (covered_spans co username))"

definition record_source_range :: "string \<Rightarrow> int \<Rightarrow> int option \<Rightarrow> int \<Rightarrow> coll \<Rightarrow> coll" where
  "record_source_range username raw since until co =
     (if find_row (\<lambda>g. sg_username g = lower username \<and> sg_raw_payload_id g = raw) (co_ranges co) \<noteq> None then co
      else co\<lparr>co_ranges := co_ranges co @ [\<lparr>sg_username = lower username, sg_raw_payload_id = raw, sg_since_ms = since, sg_until_ms = until\<rparr>]\<rparr>)"

text \<open>The preserved sources under a completed baseline.\<close>

definition covering_source :: "coll \<Rightarrow> arch \<Rightarrow> string \<Rightarrow> int \<Rightarrow> int option \<Rightarrow> raw_row list" where
  "covering_source co a username until since = filter (\<lambda>w. rw_response_status w = 200 \<and> rw_owner_scope w = ''public'')
     (List.map_filter (\<lambda>g. if sg_username g = lower username
         \<and> (case sg_since_ms g of None \<Rightarrow> True | Some l \<Rightarrow> l < until)
         \<and> (case since of None \<Rightarrow> True | Some l \<Rightarrow> l < sg_until_ms g) then raw_by_id a (sg_raw_payload_id g) else None) (co_ranges co))"

definition covered_source_high_water :: "coll \<Rightarrow> arch \<Rightarrow> string \<Rightarrow> int \<Rightarrow> int option \<Rightarrow> int" where
  "covered_source_high_water co a username until since = (case map rw_id (covering_source co a username until since) of
       [] \<Rightarrow> 0 | i # is \<Rightarrow> fold max is i)"

definition covered_sources :: "coll \<Rightarrow> arch \<Rightarrow> string \<Rightarrow> int \<Rightarrow> int \<Rightarrow> int \<Rightarrow> nat \<Rightarrow> int option \<Rightarrow> int list" where
  "covered_sources co a username until after high_water limit since =
     take limit (sort (filter (\<lambda>i. after < i \<and> i \<le> high_water) (map rw_id (covering_source co a username until since))))"

section \<open>Unfinished games\<close>

definition track_followup :: "string \<Rightarrow> string \<Rightarrow> int \<Rightarrow> bool \<Rightarrow> int \<Rightarrow> coll \<Rightarrow> coll" where
  "track_followup username ref created finished now co =
     (let same = (\<lambda>f. fu_username f = lower username \<and> fu_game_ref f = ref) in
      if finished then co\<lparr>co_followups := filter (\<lambda>f. \<not> same f) (co_followups co)\<rparr>
      else co\<lparr>co_followups := (if find_row same (co_followups co) \<noteq> None
             then update_where same (\<lambda>f. f\<lparr>fu_updated_at := now\<rparr>) (co_followups co)
             else co_followups co @ [\<lparr>fu_username = lower username, fu_game_ref = ref, fu_created_ms = created, fu_updated_at = now\<rparr>])\<rparr>)"

definition followups :: "coll \<Rightarrow> string \<Rightarrow> string \<Rightarrow> nat \<Rightarrow> (string \<times> int) list" where
  "followups co username after limit = map (\<lambda>f. (fu_game_ref f, fu_created_ms f))
     (take limit (sort_key fu_game_ref (filter (\<lambda>f. fu_username f = lower username \<and> after < fu_game_ref f) (co_followups co))))"

section \<open>Sources\<close>

definition latest_successful_source :: "arch \<Rightarrow> string \<Rightarrow> int option" where
  "latest_successful_source a key = map_option (\<lambda>rf. rw_id (fst rf)) (last_by observation_order
     (concat (map (with_logs success (ar_logs a))
        (filter (\<lambda>w. rw_canonical_source_key w = key \<and> rw_response_status w = 200) (ar_raw a)))))"

section \<open>The windows are the difference\<close>

lemma in_left_piece: "p \<in> set (left_piece s c) \<longleftrightarrow> (\<exists>a. fst c = Some a \<and> p = (fst s, min (snd s) a) \<and> nonempty p)"
  by (cases "fst c") (auto simp: left_piece_def)

lemma in_right_piece:
  "p \<in> set (right_piece s c) \<longleftrightarrow> p = (Some (case fst s of None \<Rightarrow> snd c | Some l \<Rightarrow> max l (snd c)), snd s) \<and> nonempty p"
  by (auto simp: right_piece_def)

lemma in_minus_span: "p \<in> set (minus_span s c) \<longleftrightarrow> p \<in> set (left_piece s c) \<or> p \<in> set (right_piece s c)"
  by (simp add: minus_span_def)

lemma in_span_nonempty: "in_span t p \<Longrightarrow> nonempty p"
  by (auto simp: in_span_def nonempty_def split: option.splits)

lemma minus_span_points:
  assumes "nonempty c"
  shows "(\<exists>p \<in> set (minus_span s c). in_span t p) \<longleftrightarrow> in_span t s \<and> \<not> in_span t c"
proof -
  have l: "(\<exists>p \<in> set (left_piece s c). in_span t p) \<longleftrightarrow> (\<exists>a. fst c = Some a \<and> in_span t (fst s, min (snd s) a))"
    using in_span_nonempty by (auto simp: in_left_piece)
  have r: "(\<exists>p \<in> set (right_piece s c). in_span t p) \<longleftrightarrow>
     in_span t (Some (case fst s of None \<Rightarrow> snd c | Some l \<Rightarrow> max l (snd c)), snd s)"
    using in_span_nonempty by (auto simp: in_right_piece)
  have "(\<exists>p \<in> set (minus_span s c). in_span t p) \<longleftrightarrow>
     (\<exists>a. fst c = Some a \<and> in_span t (fst s, min (snd s) a)) \<or> in_span t (Some (case fst s of None \<Rightarrow> snd c | Some l \<Rightarrow> max l (snd c)), snd s)"
    using l r by (auto simp: in_minus_span)
  then show ?thesis using assms by (cases "fst s"; cases "fst c") (auto simp: in_span_def nonempty_def)
qed

lemma minus_spans_points:
  "\<forall>c \<in> set cs. nonempty c \<Longrightarrow>
   (\<exists>p \<in> set (minus_spans ws cs). in_span t p) \<longleftrightarrow> (\<exists>s \<in> set ws. in_span t s) \<and> \<not> (\<exists>c \<in> set cs. in_span t c)"
proof (induction cs arbitrary: ws)
  case (Cons c cs)
  have "(\<exists>p \<in> set (concat (map (\<lambda>s. minus_span s c) ws)). in_span t p) \<longleftrightarrow> (\<exists>s \<in> set ws. in_span t s) \<and> \<not> in_span t c"
    using minus_span_points [of c] Cons.prems by auto
  then show ?case using Cons by (auto simp: minus_spans_def)
qed (simp add: minus_spans_def)

text \<open>Two spans apart: some point between them belongs to neither, so they do not even touch.\<close>

definition apart :: "span \<Rightarrow> span \<Rightarrow> bool" where
  "apart p q \<longleftrightarrow> (case fst q of Some l \<Rightarrow> snd p < l | None \<Rightarrow> False) \<or> (case fst p of Some l \<Rightarrow> snd q < l | None \<Rightarrow> False)"

definition spread :: "span list \<Rightarrow> bool" where
  "spread ws \<longleftrightarrow> (\<forall>w \<in> set ws. nonempty w) \<and> sorted_wrt apart ws"

lemma minus_span_nonempty: "p \<in> set (minus_span s c) \<Longrightarrow> nonempty p"
  by (auto simp: in_minus_span in_left_piece in_right_piece)

lemma minus_span_inside:
  assumes "p \<in> set (minus_span s c)"
  shows "snd p \<le> snd s" "\<And>l. fst s = Some l \<Longrightarrow> \<exists>l'. fst p = Some l' \<and> l \<le> l'"
  using assms by (auto simp: in_minus_span in_left_piece in_right_piece split: option.splits)

lemma minus_span_within:
  assumes "p \<in> set (minus_span s c)"
  shows "apart s q \<Longrightarrow> apart p q" "apart q s \<Longrightarrow> apart q p"
  using minus_span_inside [OF assms] by (cases "fst s"; cases "fst q"; force simp: apart_def)+

lemma minus_span_spread: "nonempty c \<Longrightarrow> sorted_wrt apart (minus_span s c)"
  by (cases "fst s"; cases "fst c") (auto simp: minus_span_def left_piece_def right_piece_def apart_def nonempty_def)

lemma minus_spans_spread: "\<forall>c \<in> set cs. nonempty c \<Longrightarrow> spread ws \<Longrightarrow> spread (minus_spans ws cs)"
proof (induction cs arbitrary: ws)
  case (Cons c cs)
  have c: "nonempty c" using Cons.prems by simp
  have "sorted_wrt apart (concat (map (\<lambda>s. minus_span s c) ws))" using Cons.prems(2) unfolding spread_def
  proof (induction ws)
    case (Cons w ws)
    then show ?case
      using minus_span_spread [OF c] minus_span_within by (auto simp: sorted_wrt_append)
  qed simp
  then have "spread (concat (map (\<lambda>s. minus_span s c) ws))" by (auto simp: spread_def dest: minus_span_nonempty)
  then show ?case using Cons by (simp add: minus_spans_def)
qed (simp add: minus_spans_def)

section \<open>The high water mark\<close>

definition reaches :: "span \<Rightarrow> int \<Rightarrow> bool" where
  "reaches s x \<longleftrightarrow> (case fst s of None \<Rightarrow> True | Some l \<Rightarrow> l \<le> x)"

lemma high_water_step_Some: "high_water_step (Some x) s = Some (if reaches s x then max x (snd s) else x)"
  by (auto simp: high_water_step_def reaches_def split: option.splits)

lemma high_water_step_None: "high_water_step None s = (if fst s = None then Some (snd s) else None)"
  by (auto simp: high_water_step_def split: option.splits)

lemma high_water_stuck: "\<forall>s \<in> set ss. \<not> reaches s x \<Longrightarrow> foldl high_water_step (Some x) ss = Some x"
  by (induction ss) (auto simp: high_water_step_Some)

lemma high_water_from:
  "sorted (map span_order ss) \<Longrightarrow> \<exists>y. foldl high_water_step (Some x) ss = Some y \<and> x \<le> y
     \<and> (\<forall>t. x \<le> t \<longrightarrow> t < y \<longrightarrow> (\<exists>s \<in> set ss. in_span t s)) \<and> (\<forall>s \<in> set ss. \<not> in_span y s)"
proof (induction ss arbitrary: x)
  case (Cons s ss)
  show ?case
  proof (cases "reaches s x")
    case True
    obtain y where y: "foldl high_water_step (Some (max x (snd s))) ss = Some y" "max x (snd s) \<le> y"
      "\<forall>t. max x (snd s) \<le> t \<longrightarrow> t < y \<longrightarrow> (\<exists>s \<in> set ss. in_span t s)" "\<forall>s \<in> set ss. \<not> in_span y s"
      using Cons.IH [of "max x (snd s)"] Cons.prems by auto
    have "\<exists>s' \<in> set (s # ss). in_span t s'" if "x \<le> t" "t < y" for t
    proof (cases "t < snd s")
      case True
      then have "in_span t s" using \<open>reaches s x\<close> that(1) by (auto simp: reaches_def in_span_def split: option.splits)
      then show ?thesis by simp
    next
      case False
      then show ?thesis using y(3) that by auto
    qed
    moreover have "\<not> in_span y s" using y(2) by (simp add: in_span_def)
    ultimately show ?thesis using True y by (auto simp: high_water_step_Some)
  next
    case False
    have "\<not> reaches s' x" if "s' \<in> set (s # ss)" for s'
      using that False Cons.prems by (auto simp: reaches_def span_order_def less_eq_prod_def split: option.splits)
    then have "foldl high_water_step (Some x) (s # ss) = Some x" "\<forall>s' \<in> set (s # ss). \<not> in_span x s'"
      using high_water_stuck [of "s # ss" x] by (auto simp: reaches_def in_span_def split: option.splits)
    then show ?thesis by auto
  qed
qed simp

lemma high_water_None: "foldl high_water_step None ss = None \<longleftrightarrow> (\<forall>s \<in> set ss. fst s \<noteq> None)"
proof (induction ss)
  case (Cons s ss)
  have "foldl high_water_step (Some x) ss' \<noteq> None" for x ss'
    by (induction ss' arbitrary: x) (auto simp: high_water_step_Some)
  with Cons show ?case by (auto simp: high_water_step_None)
qed simp

lemma high_water_spec:
  assumes "sorted (map span_order ss)"
  shows "case foldl high_water_step None ss of
      None \<Rightarrow> \<forall>s \<in> set ss. fst s \<noteq> None
    | Some h \<Rightarrow> (\<forall>t < h. \<exists>s \<in> set ss. in_span t s) \<and> \<not> (\<exists>s \<in> set ss. in_span h s)"
proof (cases ss)
  case (Cons s rest)
  show ?thesis
  proof (cases "fst s")
    case None
    obtain y where y: "foldl high_water_step (Some (snd s)) rest = Some y" "snd s \<le> y"
      "\<forall>t. snd s \<le> t \<longrightarrow> t < y \<longrightarrow> (\<exists>s \<in> set rest. in_span t s)" "\<forall>s \<in> set rest. \<not> in_span y s"
      using high_water_from [of rest "snd s"] assms Cons by auto
    have "\<exists>s' \<in> set ss. in_span t s'" if "t < y" for t
      using that y(3) None Cons by (cases "t < snd s") (auto simp: in_span_def)
    then show ?thesis using y None Cons by (auto simp: high_water_step_None in_span_def)
  next
    case (Some l)
    have "\<forall>s \<in> set ss. fst s \<noteq> None"
      using Some assms Cons by (auto simp: span_order_def less_eq_prod_def split: option.splits)
    then show ?thesis using high_water_None [of ss] by simp
  qed
qed simp

end
