(* ===== verification/Codes.thy ===== *)
theory Codes
  imports Json
begin

text \<open>
  The code maps shared by the parsers (\<open>normalize/codes.py\<close>): usernames, variants, time classes,
  outcomes and the canonical hash of a JSON value. A dictionary is an association list; the digest is
  an argument (\<open>sha\<close>), applied to the canonical text.
\<close>

section \<open>Maps\<close>

definition CHESSCOM_VARIANTS :: "(string \<times> string) list" where
  "CHESSCOM_VARIANTS = [(''chess'', ''standard''), (''chess960'', ''chess960''), (''crazyhouse'', ''crazyhouse''),
     (''kingofthehill'', ''kingofthehill''), (''threecheck'', ''threecheck''), (''bughouse'', ''bughouse'')]"

definition LICHESS_VARIANTS :: "(string \<times> string) list" where
  "LICHESS_VARIANTS = [(''standard'', ''standard''), (''chess960'', ''chess960''), (''crazyhouse'', ''crazyhouse''),
     (''antichess'', ''antichess''), (''atomic'', ''atomic''), (''horde'', ''horde''), (''kingOfTheHill'', ''kingofthehill''),
     (''racingKings'', ''racingkings''), (''threeCheck'', ''threecheck''), (''fromPosition'', ''fromposition'')]"

definition VARIANTS :: "string list" where
  "VARIANTS = [''standard'', ''chess960'', ''crazyhouse'', ''antichess'', ''atomic'', ''horde'', ''kingofthehill'',
     ''racingkings'', ''threecheck'', ''bughouse'', ''fromposition'']"

definition OUTCOMES :: "string list" where
  "OUTCOMES = [''white_win'', ''black_win'', ''draw'']"

definition CHESSCOM_DRAW_RESULTS :: "string list" where
  "CHESSCOM_DRAW_RESULTS = [''agreed'', ''repetition'', ''stalemate'', ''insufficient'', ''50move'', ''timevsinsufficient'',
     ''timeoutvsinsufficient'', ''threecheck'']"

definition LICHESS_DRAW_STATUSES :: "string list" where
  "LICHESS_DRAW_STATUSES = [''draw'', ''stalemate'', ''outoftime'', ''mate'', ''resign'', ''timeout'', ''variantEnd'']"

definition LICHESS_NULL_OUTCOME_STATUSES :: "string list" where
  "LICHESS_NULL_OUTCOME_STATUSES = [''aborted'', ''unknownfinish'', ''noStart'', ''created'', ''started'']"

definition LIVE_STATUSES :: "string list" where
  "LIVE_STATUSES = [''created'', ''started'']"

section \<open>Codes\<close>

definition normalize_username :: "string option \<Rightarrow> string option" where
  "normalize_username u = (case u of None \<Rightarrow> None | Some s \<Rightarrow> if strip s = [] then None else Some (lower (strip s)))"

definition canonical_hash :: "(string \<Rightarrow> string) \<Rightarrow> json \<Rightarrow> string" where
  "canonical_hash sha v = ''sha256:'' @ sha (dumps False v)"

definition normalize_time_class :: "string \<Rightarrow> string" where
  "normalize_time_class v = (let t = lower (strip v) in
     if t \<in> {''daily'', ''correspondence''} then ''correspondence''
     else if t \<in> {''ultrabullet'', ''bullet''} then ''bullet'' else t)"

definition map_variant :: "string \<Rightarrow> string \<Rightarrow> string \<times> bool" where
  "map_variant provider native =
     (if native = [] then (''standard'', False)
      else case (if provider = ''chess.com'' then map_of CHESSCOM_VARIANTS native
                 else if provider = ''lichess'' then map_of LICHESS_VARIANTS native else None) of
        None \<Rightarrow> (lower (strip native), False) | Some v \<Rightarrow> (v, True))"

definition chesscom_outcome :: "string option \<Rightarrow> string option \<Rightarrow> string option \<times> bool" where
  "chesscom_outcome white_result black_result =
     (let white = lower (strip (coalesce white_result [])); black = lower (strip (coalesce black_result [])) in
      if white = ''win'' then (Some ''white_win'', False)
      else if black = ''win'' then (Some ''black_win'', False)
      else if white \<in> set CHESSCOM_DRAW_RESULTS \<or> black \<in> set CHESSCOM_DRAW_RESULTS then (Some ''draw'', False)
      else (None, False))"

definition lichess_outcome :: "string option \<Rightarrow> string option \<Rightarrow> string option \<times> bool" where
  "lichess_outcome winner status =
     (let value = coalesce status [] in
      if winner = Some ''white'' then (Some ''white_win'', False)
      else if winner = Some ''black'' then (Some ''black_win'', False)
      else if value \<in> set LICHESS_DRAW_STATUSES then (Some ''draw'', False)
      else if value \<in> set LICHESS_NULL_OUTCOME_STATUSES then (None, value \<in> set LIVE_STATUSES)
      else (None, False))"

section \<open>Laws\<close>

lemma normalize_username_idem: "normalize_username (normalize_username u) = normalize_username u"
  by (auto simp: normalize_username_def strip_lower split: option.splits)

lemma normalize_username_not_Nil: "normalize_username u \<noteq> Some []"
  by (auto simp: normalize_username_def split: option.splits)

lemma normalize_time_class_idem: "normalize_time_class (normalize_time_class v) = normalize_time_class v"
proof -
  have "strip (lower (strip v)) = lower (strip v)" by (simp add: strip_lower)
  moreover have "lower (strip ''correspondence'') = ''correspondence''" "lower (strip ''bullet'') = ''bullet''" by code_simp+
  ultimately show ?thesis by (auto simp: normalize_time_class_def Let_def)
qed

lemma map_variant_mapped: "map_variant p n = (v, True) \<Longrightarrow> v \<in> set VARIANTS"
  by (auto simp: map_variant_def CHESSCOM_VARIANTS_def LICHESS_VARIANTS_def VARIANTS_def split: if_splits option.splits)

lemma chesscom_outcome_codes:
  "chesscom_outcome w b = (r, live) \<Longrightarrow> \<not> live \<and> (case r of None \<Rightarrow> True | Some x \<Rightarrow> x \<in> set OUTCOMES)"
  by (auto simp: chesscom_outcome_def OUTCOMES_def Let_def split: if_splits)

text \<open>A live game has no outcome.\<close>

lemma lichess_outcome_codes:
  "lichess_outcome w s = (r, live) \<Longrightarrow> (live \<longrightarrow> r = None) \<and> (case r of None \<Rightarrow> True | Some x \<Rightarrow> x \<in> set OUTCOMES)"
  by (auto simp: lichess_outcome_def OUTCOMES_def Let_def split: if_splits)

text \<open>A collision-free digest identifies the hashed value up to the order of its keys.\<close>

lemma canonical_hash_inj:
  assumes "inj sha" "wf_json v" "wf_json w" "canonical_hash sha v = canonical_hash sha w"
  shows "sort_keys v = sort_keys w"
proof -
  have "dumps False v = dumps False w" using assms(1,4) by (auto simp: canonical_hash_def dest: injD)
  then show ?thesis using dumps_inj [OF assms(2,3)] by blast
qed

end
