(* ===== verification/Parsers.thy ===== *)
theory Parsers
  imports Codes
begin

text \<open>
  The records of \<open>providers/base.py\<close> that normalization passes around, and the parsers of both
  providers (\<open>providers/chesscom/parser.py\<close>, \<open>providers/lichess/parser.py\<close>) over JSON values. A field
  the parser hands on unconverted keeps its JSON value. \<open>json.loads\<close> of a body is an argument of the
  functions that start from bytes. A \<open>get\<close> on a value that is no object raises \<open>AttributeError\<close>.
\<close>

section \<open>Records\<close>

type_synonym fields = "(string \<times> json) list"

record norm_user =
  nu_provider :: string
  nu_provider_user_id :: "string option"
  nu_username_normalized :: string
  nu_display_username :: string
  nu_title :: json
  nu_account_status_raw :: json
  nu_created_at :: "int option"
  nu_last_seen_at :: "int option"
  nu_country :: json
  nu_is_verified :: "bool option"

record participant =
  np_color :: string
  np_provider_user_id :: "string option"
  np_username_normalized :: "string option"
  np_display_username :: "string option"
  np_rating :: "int option"
  np_rating_diff :: "int option"
  np_rd :: "int option"
  np_result_raw :: "string option"
  np_is_ai :: bool

record norm_game =
  ng_provider :: string
  ng_provider_game_id :: "string option"
  ng_canonical_url :: "string option"
  ng_content_hash :: string
  ng_rated :: bool
  ng_variant_key :: string
  ng_variant_raw :: string
  ng_time_class :: string
  ng_time_control_raw :: "string option"
  ng_outcome :: "string option"
  ng_is_live :: bool
  ng_status_raw :: "string option"
  ng_end_time :: "int option"
  ng_start_time :: "int option"
  ng_white :: participant
  ng_black :: participant
  ng_eco :: json
  ng_opening_name :: json
  ng_opening_ply :: "int option"
  ng_pgn :: "string option"
  ng_source_data :: fields

section \<open>Conversions\<close>

definition fields_of :: "json \<Rightarrow> fields result" where
  "fields_of v = (case v of JObj kvs \<Rightarrow> Inr kvs | _ \<Rightarrow> Inl (AttributeError ''get''))"

text \<open>\<open>v or {}\<close>, then read as an object.\<close>

definition sub_object :: "json \<Rightarrow> fields result" where
  "sub_object v = fields_of (py_or v (JObj []))"

text \<open>\<open>_int_or_none\<close>: the conversion of a float is outside the \<open>try\<close>.\<close>

definition number_or_none :: "json \<Rightarrow> int option result" where
  "number_or_none v = (case v of
       JBool b \<Rightarrow> Inr (Some (if b then 1 else 0))
     | JInt i \<Rightarrow> Inr (Some i)
     | JFloat f \<Rightarrow> rbind (int_of_float f) (\<lambda>i. Inr (Some i))
     | JStr s \<Rightarrow> Inr (parse_int s)
     | _ \<Rightarrow> Inr None)"

definition bool_or_none :: "json \<Rightarrow> bool option" where
  "bool_or_none v = (if v = JNull then None else Some (truthy v))"

definition str_or_none :: "json \<Rightarrow> string option" where
  "str_or_none v = (if v = JNull \<or> py_str v = [] then None else Some (py_str v))"

definition json_text :: "string option \<Rightarrow> json" where
  "json_text s = (case s of None \<Rightarrow> JNull | Some t \<Rightarrow> JStr t)"

definition ms_to_s :: "json \<Rightarrow> int option result" where
  "ms_to_s v = rbind (number_or_none v) (\<lambda>n. Inr (map_option (\<lambda>i. i div 1000) n))"

section \<open>Chess.com\<close>

definition chesscom_status :: "fields \<Rightarrow> json" where
  "chesscom_status data = (let status = obj_get data ''status''; closed = obj_get data ''closed'' in
     if truthy closed \<and> closed \<noteq> JStr ''false''
     then (if truthy status then JStr (''closed:'' @ py_str status) else JStr ''closed'') else status)"

definition chesscom_user :: "json \<Rightarrow> norm_user result" where
  "chesscom_user v = rbind (fields_of v) (\<lambda>data.
     let username = py_str (py_or (obj_get data ''username'') (JStr [])) in
     rbind (number_or_none (obj_get data ''joined'')) (\<lambda>joined.
     rbind (number_or_none (obj_get data ''last_online'')) (\<lambda>seen.
     Inr \<lparr>nu_provider = ''chess.com'',
       nu_provider_user_id = (if obj_get data ''player_id'' \<noteq> JNull then Some (py_str (obj_get data ''player_id'')) else None),
       nu_username_normalized = coalesce (normalize_username (Some username)) [], nu_display_username = username,
       nu_title = obj_get data ''title'', nu_account_status_raw = chesscom_status data, nu_created_at = joined,
       nu_last_seen_at = seen, nu_country = obj_get data ''country'',
       nu_is_verified = bool_or_none (coalesce (map_of data ''verified'') (obj_get data ''is_verified''))\<rparr>)))"

definition chesscom_participant :: "string \<Rightarrow> fields \<Rightarrow> participant result" where
  "chesscom_participant color data =
     (let username = str_or_none (obj_get data ''username'') in
      rbind (number_or_none (obj_get data ''rating'')) (\<lambda>rating.
      Inr \<lparr>np_color = color, np_provider_user_id = None, np_username_normalized = normalize_username username,
        np_display_username = username, np_rating = rating, np_rating_diff = None, np_rd = None,
        np_result_raw = str_or_none (obj_get data ''result''), np_is_ai = False\<rparr>))"

definition chesscom_hash_participant :: "fields \<Rightarrow> json" where
  "chesscom_hash_participant data = JObj (map (\<lambda>k. (k, obj_get data k)) [''username'', ''rating'', ''result''])"

definition chesscom_hashed :: "fields \<Rightarrow> fields \<Rightarrow> fields \<Rightarrow> json" where
  "chesscom_hashed game white black = JObj ((''provider'', JStr ''chess.com'') #
     map (\<lambda>k. (k, obj_get game k)) [''uuid'', ''url'', ''end_time'', ''rated'', ''rules'', ''time_control'']
     @ [(''white'', chesscom_hash_participant white), (''black'', chesscom_hash_participant black), (''pgn'', obj_get game ''pgn'')])"

definition chesscom_game :: "(string \<Rightarrow> string) \<Rightarrow> json \<Rightarrow> norm_game result" where
  "chesscom_game sha v = rbind (fields_of v) (\<lambda>game.
     rbind (sub_object (obj_get game ''white'')) (\<lambda>white_data.
     rbind (sub_object (obj_get game ''black'')) (\<lambda>black_data.
     let white_result = str_or_none (obj_get white_data ''result'');
         black_result = str_or_none (obj_get black_data ''result'');
         (outcome, is_live) = chesscom_outcome white_result black_result;
         variant_raw = py_str (py_or (obj_get game ''rules'') (JStr ''chess''));
         time_class = normalize_time_class (py_str (py_or (obj_get game ''time_class'') (JStr ''rapid''))) in
     rbind (number_or_none (obj_get game ''end_time'')) (\<lambda>end_time.
     rbind (number_or_none (obj_get game ''start_time'')) (\<lambda>start_time.
     rbind (chesscom_participant ''white'' white_data) (\<lambda>white.
     rbind (chesscom_participant ''black'' black_data) (\<lambda>black.
     Inr \<lparr>ng_provider = ''chess.com'', ng_provider_game_id = str_or_none (obj_get game ''uuid''),
       ng_canonical_url = str_or_none (obj_get game ''url''),
       ng_content_hash = canonical_hash sha (chesscom_hashed game white_data black_data),
       ng_rated = truthy (coalesce (map_of game ''rated'') (JBool False)),
       ng_variant_key = fst (map_variant ''chess.com'' variant_raw), ng_variant_raw = variant_raw, ng_time_class = time_class,
       ng_time_control_raw = Some (coalesce (str_or_none (obj_get game ''time_control'')) time_class),
       ng_outcome = outcome, ng_is_live = is_live,
       ng_status_raw = Some (''white:'' @ coalesce white_result [] @ '';black:'' @ coalesce black_result []),
       ng_end_time = end_time, ng_start_time = start_time, ng_white = white, ng_black = black,
       ng_eco = json_text (str_or_none (obj_get game ''eco'')), ng_opening_name = JNull, ng_opening_ply = None,
       ng_pgn = str_or_none (obj_get game ''pgn''), ng_source_data = game\<rparr>)))))))"

text \<open>Iterating over a listing: the elements of an array, the characters of a text, the keys of an object.\<close>

definition iterate :: "json \<Rightarrow> json list result" where
  "iterate v = (case v of
       JList xs \<Rightarrow> Inr xs
     | JStr s \<Rightarrow> Inr (map (\<lambda>c. JStr [c]) s)
     | JObj kvs \<Rightarrow> Inr (map (\<lambda>kv. JStr (fst kv)) kvs)
     | _ \<Rightarrow> Inl (TypeError ''object is not iterable''))"

definition parse_archives_index :: "(string \<Rightarrow> json result) \<Rightarrow> string \<Rightarrow> string list result" where
  "parse_archives_index loads body = rbind (loads body) (\<lambda>v. rbind (get_default v ''archives'' (JList [])) (\<lambda>urls.
     rbind (iterate urls) (\<lambda>us. Inr (map py_str us))))"

definition parse_monthly_games :: "(string \<Rightarrow> json result) \<Rightarrow> (string \<Rightarrow> string) \<Rightarrow> string \<Rightarrow> norm_game list result" where
  "parse_monthly_games loads sha body = rbind (loads body) (\<lambda>v. rbind (get_default v ''games'' (JList [])) (\<lambda>games.
     rbind (iterate games) (rmap (chesscom_game sha))))"

section \<open>Lichess\<close>

definition lichess_user :: "json \<Rightarrow> norm_user result" where
  "lichess_user v = rbind (fields_of v) (\<lambda>data.
     let username = py_str (py_or (py_or (obj_get data ''username'') (obj_get data ''id'')) (JStr [])) in
     rbind (sub_object (obj_get data ''profile'')) (\<lambda>profile.
     rbind (ms_to_s (obj_get data ''createdAt'')) (\<lambda>created.
     rbind (ms_to_s (obj_get data ''seenAt'')) (\<lambda>seen.
     Inr \<lparr>nu_provider = ''lichess'',
       nu_provider_user_id = Some (py_str (py_or (obj_get data ''id'') (JStr (coalesce (normalize_username (Some username)) [])))),
       nu_username_normalized = coalesce (normalize_username (Some username)) [], nu_display_username = username,
       nu_title = obj_get data ''title'',
       nu_account_status_raw = (if truthy (obj_get data ''tosViolation'') then JStr ''tosViolation'' else JNull),
       nu_created_at = created, nu_last_seen_at = seen, nu_country = obj_get profile ''country'',
       nu_is_verified = as_bool (obj_get data ''verified'')\<rparr>))))"

text \<open>\<open>normalize_username(user.get("id") or username)\<close>: a truthy id that is no text has no \<open>strip\<close>.\<close>

definition lichess_username :: "json \<Rightarrow> string option \<Rightarrow> string option result" where
  "lichess_username i username =
     (if truthy i then (case i of JStr s \<Rightarrow> Inr (normalize_username (Some s)) | _ \<Rightarrow> Inl (AttributeError ''strip''))
      else Inr (normalize_username username))"

definition lichess_participant :: "string \<Rightarrow> json \<Rightarrow> string option \<Rightarrow> participant result" where
  "lichess_participant color v winner = rbind (sub_object v) (\<lambda>data.
     rbind (sub_object (obj_get data ''user'')) (\<lambda>user.
     let username = str_or_none (py_or (obj_get user ''name'') (obj_get user ''id'')) in
     rbind (lichess_username (obj_get user ''id'') username) (\<lambda>normalized.
     rbind (number_or_none (obj_get data ''rating'')) (\<lambda>rating.
     rbind (number_or_none (obj_get data ''ratingDiff'')) (\<lambda>rating_diff.
     Inr \<lparr>np_color = color, np_provider_user_id = str_or_none (obj_get user ''id''), np_username_normalized = normalized,
       np_display_username = username, np_rating = rating, np_rating_diff = rating_diff, np_rd = None,
       np_result_raw = (if winner = Some color then Some ''win''
         else if winner = Some ''white'' \<or> winner = Some ''black'' then Some ''loss'' else None),
       np_is_ai = (obj_get data ''aiLevel'' \<noteq> JNull)\<rparr>)))))"

definition lichess_url :: "fields \<Rightarrow> string option" where
  "lichess_url game =
     (if truthy (obj_get game ''url'') then Some (py_str (obj_get game ''url''))
      else if truthy (obj_get game ''id'') then Some (''https://lichess.org/'' @ py_str (obj_get game ''id'')) else None)"

definition clock_label :: "fields \<Rightarrow> string \<Rightarrow> string result" where
  "clock_label clock speed =
     rbind (number_or_none (obj_get clock ''initial'')) (\<lambda>initial.
     rbind (number_or_none (obj_get clock ''increment'')) (\<lambda>increment.
     Inr (case (initial, increment) of (Some i, Some n) \<Rightarrow> str_int i @ ''+'' @ str_int n | _ \<Rightarrow> speed)))"

definition lichess_hash_player :: "json \<Rightarrow> json result" where
  "lichess_hash_player v = rbind (sub_object v) (\<lambda>player. rbind (sub_object (obj_get player ''user'')) (\<lambda>user.
     Inr (JObj [(''id'', obj_get user ''id''), (''name'', obj_get user ''name''), (''rating'', obj_get player ''rating''),
       (''ratingDiff'', obj_get player ''ratingDiff'')])))"

definition lichess_hashed :: "fields \<Rightarrow> json \<Rightarrow> json \<Rightarrow> json" where
  "lichess_hashed game white black = JObj ((''provider'', JStr ''lichess'') #
     map (\<lambda>k. (k, obj_get game k)) [''id'', ''rated'', ''variant'', ''speed'', ''createdAt'', ''lastMoveAt'', ''status'', ''winner'']
     @ [(''players'', JObj [(''white'', white), (''black'', black)]), (''pgn'', obj_get game ''pgn'')])"

definition lichess_hash :: "(string \<Rightarrow> string) \<Rightarrow> fields \<Rightarrow> fields \<Rightarrow> string result" where
  "lichess_hash sha game players =
     rbind (lichess_hash_player (obj_get players ''white'')) (\<lambda>white.
     rbind (lichess_hash_player (obj_get players ''black'')) (\<lambda>black.
     Inr (canonical_hash sha (lichess_hashed game white black))))"

definition lichess_game :: "(string \<Rightarrow> string) \<Rightarrow> json \<Rightarrow> norm_game result" where
  "lichess_game sha v = rbind (fields_of v) (\<lambda>game.
     let winner = str_or_none (obj_get game ''winner''); status = str_or_none (obj_get game ''status'');
         (outcome, is_live) = lichess_outcome winner status;
         variant_raw = py_str (py_or (obj_get game ''variant'') (JStr ''standard''));
         speed = py_str (py_or (py_or (obj_get game ''speed'') (obj_get game ''perf'')) (JStr ''rapid'')) in
     rbind (fields_of (py_or (obj_get game ''players'') (JObj []))) (\<lambda>players.
     rbind (lichess_hash sha game players) (\<lambda>content.
     rbind (sub_object (obj_get game ''clock'')) (\<lambda>clock.
     rbind (clock_label clock speed) (\<lambda>label.
     rbind (ms_to_s (obj_get game ''lastMoveAt'')) (\<lambda>end_time.
     rbind (ms_to_s (obj_get game ''createdAt'')) (\<lambda>start_time.
     rbind (lichess_participant ''white'' (obj_get players ''white'') winner) (\<lambda>white.
     rbind (lichess_participant ''black'' (obj_get players ''black'') winner) (\<lambda>black.
     rbind (sub_object (obj_get game ''opening'')) (\<lambda>opening.
     rbind (number_or_none (obj_get opening ''ply'')) (\<lambda>ply.
     Inr \<lparr>ng_provider = ''lichess'', ng_provider_game_id = str_or_none (obj_get game ''id''), ng_canonical_url = lichess_url game,
       ng_content_hash = content, ng_rated = truthy (coalesce (map_of game ''rated'') (JBool False)),
       ng_variant_key = fst (map_variant ''lichess'' variant_raw), ng_variant_raw = variant_raw,
       ng_time_class = normalize_time_class speed, ng_time_control_raw = Some label, ng_outcome = outcome, ng_is_live = is_live,
       ng_status_raw = status, ng_end_time = end_time, ng_start_time = start_time, ng_white = white, ng_black = black,
       ng_eco = obj_get opening ''eco'', ng_opening_name = obj_get opening ''name'', ng_opening_ply = ply,
       ng_pgn = str_or_none (obj_get game ''pgn''), ng_source_data = game\<rparr>)))))))))))"

text \<open>\<open>bytes.splitlines\<close> and \<open>bytes.strip\<close>.\<close>

fun byte_lines :: "string \<Rightarrow> string \<Rightarrow> string list" where
  "byte_lines cur [] = (if cur = [] then [] else [List.rev cur])"
| "byte_lines cur [x] = (if x = CHR 0x0A \<or> x = CHR 0x0D then [List.rev cur] else [List.rev (x # cur)])"
| "byte_lines cur (x # y # rest) =
     (if x = CHR 0x0D \<and> y = CHR 0x0A then List.rev cur # byte_lines [] rest
      else if x = CHR 0x0A \<or> x = CHR 0x0D then List.rev cur # byte_lines [] (y # rest)
      else byte_lines (x # cur) (y # rest))"

definition blank_line :: "string \<Rightarrow> bool" where
  "blank_line l \<longleftrightarrow> list_all (\<lambda>ch. (of_char ch :: nat) \<in> {9, 10, 11, 12, 13, 32}) l"

definition parse_games_ndjson :: "(string \<Rightarrow> json result) \<Rightarrow> (string \<Rightarrow> string) \<Rightarrow> string \<Rightarrow> norm_game list result" where
  "parse_games_ndjson loads sha body =
     rmap (\<lambda>l. rbind (loads l) (lichess_game sha)) (filter (\<lambda>l. \<not> blank_line l) (byte_lines [] body))"

end
