(* ===== verification/Evidence.thy ===== *)
theory Evidence
  imports Parsers
begin

text \<open>
  Move and clock evidence of a game (\<open>normalize/game_evidence.py\<close>): the lexical tokens of its notation, the tree
  of moves with comments and annotations, and clock observations. The \<open>pgn-read\<close> library is an
  argument: its token grammar, its validator (a state of type \<open>'v\<close>) and its board printer. Decimal
  seconds are exact rationals, as the source asks its decimal context for enough digits.
\<close>

section \<open>The notation library\<close>

datatype ifg =
    IFG_PIECE_MOVE | IFG_PIECE_DESTINATION | IFG_PAWN_TO_RANK | IFG_PAWN_PROMOTE_TO_RANK | IFG_PAWN_PROMOTE_PIECE
  | IFG_CASTLES | IFG_PASS | IFG_END_TAG | IFG_GAME_TERMINATION | IFG_MOVE_NUMBER | IFG_DOTS | IFG_COMMENT
  | IFG_COMMENT_TO_EOL | IFG_START_RAV | IFG_END_RAV | IFG_NUMERIC_ANNOTATION_GLYPH | IFG_TRADITIONAL_ANNOTATION
  | IFG_CHECK_INDICATOR | IFG_ESCAPE | IFG_RESERVED | IFG_END_OF_FILE_MARKER | IFG_OTHER

record pgn_match =
  pm_group :: ifg
  pm_start :: nat
  pm_end :: nat
  pm_tag_name :: string
  pm_tag_value :: string

text \<open>What a library call raised: one of the exceptions the source catches, or another one.\<close>

datatype raised = Caught string | Uncaught pyerr

record 'v pgn_library =
  gr_bom :: char
  gr_finditer :: "string \<Rightarrow> nat \<Rightarrow> pgn_match list"
  gr_game :: 'v
  gr_update_tags :: "(string \<times> string) list \<Rightarrow> 'v \<Rightarrow> 'v"
  gr_set_initial_position :: "'v \<Rightarrow> (raised + bool) \<times> 'v"
  gr_set_game_error :: "'v \<Rightarrow> 'v"
  gr_add_token :: "string \<Rightarrow> nat \<Rightarrow> 'v \<Rightarrow> raised option \<times> 'v"
  gr_state_none :: "'v \<Rightarrow> bool"
  gr_game_ok :: "'v \<Rightarrow> bool"
  gr_fen :: "'v \<Rightarrow> string"
  gr_last_delta :: "'v \<Rightarrow> ((string \<times> string) list \<times> (string \<times> string) list) result"

definition MOVES :: "ifg list" where
  "MOVES = [IFG_PIECE_MOVE, IFG_PIECE_DESTINATION, IFG_PAWN_TO_RANK, IFG_PAWN_PROMOTE_TO_RANK, IFG_PAWN_PROMOTE_PIECE,
     IFG_CASTLES, IFG_PASS]"

definition KINDS :: "(ifg \<times> string) list" where
  "KINDS = [(IFG_END_TAG, ''header''), (IFG_GAME_TERMINATION, ''result''), (IFG_MOVE_NUMBER, ''move_number''),
     (IFG_DOTS, ''dots''), (IFG_COMMENT, ''comment''), (IFG_COMMENT_TO_EOL, ''comment_eol''),
     (IFG_START_RAV, ''variation_start''), (IFG_END_RAV, ''variation_end''),
     (IFG_NUMERIC_ANNOTATION_GLYPH, ''nag''), (IFG_TRADITIONAL_ANNOTATION, ''symbolic_nag''),
     (IFG_CHECK_INDICATOR, ''check''), (IFG_ESCAPE, ''escape''), (IFG_RESERVED, ''reserved''),
     (IFG_END_OF_FILE_MARKER, ''eof_marker'')]"

definition token_kind :: "ifg \<Rightarrow> string" where
  "token_kind g = (if g \<in> set MOVES then ''move'' else coalesce (map_of KINDS g) ''unknown'')"

definition EVIDENCE_VERSION :: string where
  "EVIDENCE_VERSION = ''game-evidence-v2''"

definition INITIAL_FEN :: string where
  "INITIAL_FEN = ''rnbqkbnr/pppppppp/8/8/8/8/PPPPPPPP/RNBQKBNR w KQkq - 0 1''"

section \<open>Evidence\<close>

record move_node =
  mn_node_index :: nat
  mn_parent_index :: "nat option"
  mn_variation_index :: nat
  mn_ply :: nat
  mn_is_mainline :: bool
  mn_mover :: "string option"
  mn_move_uci :: "string option"
  mn_move_san :: "string option"
  mn_fen_before :: "string option"
  mn_fen_after :: "string option"
  mn_position_key_before :: "string option"
  mn_position_key_after :: "string option"
  mn_comments :: "string list"
  mn_starting_comments :: "string list"
  mn_nags :: "json list"
  mn_annotations :: "json list"

record clock_observation =
  ck_node_index :: "nat option"
  ck_kind :: string
  ck_source :: string
  ck_source_pointer :: string
  ck_raw_text :: string
  ck_seconds :: "rat option"
  ck_unit :: string
  ck_precision_seconds :: "rat option"
  ck_status :: string
  ck_reference :: string

record pgn_token =
  tk_token_index :: nat
  tk_kind :: string
  tk_token_text :: string
  tk_start_offset :: nat
  tk_end_offset :: nat
  tk_interpretation_status :: string

record game_evidence =
  ev_headers :: "(string \<times> string) list"
  ev_header_items :: "(string \<times> string) list"
  ev_source_metadata :: fields
  ev_move_text_origin :: string
  ev_starting_fen :: string
  ev_variant :: string
  ev_parse_status :: string
  ev_parse_issues :: "fields list"
  ev_time_control_rules :: json
  ev_nodes :: "move_node list"
  ev_tokens :: "pgn_token list"
  ev_clocks :: "clock_observation list"

definition played_ply_count :: "game_evidence \<Rightarrow> nat" where
  "played_ply_count e = length (filter (\<lambda>n. mn_is_mainline n \<and> 0 < mn_node_index n) (ev_nodes e))"

definition move_node_at :: "nat \<Rightarrow> nat option \<Rightarrow> nat \<Rightarrow> nat \<Rightarrow> bool \<Rightarrow> move_node" where
  "move_node_at i parent variation ply mainline = \<lparr>mn_node_index = i, mn_parent_index = parent,
     mn_variation_index = variation, mn_ply = ply, mn_is_mainline = mainline, mn_mover = None, mn_move_uci = None,
     mn_move_san = None, mn_fen_before = None, mn_fen_after = None, mn_position_key_before = None,
     mn_position_key_after = None, mn_comments = [], mn_starting_comments = [], mn_nags = [], mn_annotations = []\<rparr>"

section \<open>Text\<close>

definition all_digits :: "string \<Rightarrow> bool" where
  "all_digits s \<longleftrightarrow> s \<noteq> [] \<and> list_all is_digit s"

definition is_decimal :: "string \<Rightarrow> bool" where
  "is_decimal s = (case split1 (CHR ''.'') s of (a, None) \<Rightarrow> all_digits a | (a, Some b) \<Rightarrow> all_digits a \<and> all_digits b)"

text \<open>\<open>_parse_clock\<close>: hours, minutes and seconds with an optional fraction; the value and its resolution.\<close>

definition clock_parts :: "string \<Rightarrow> (string \<times> string \<times> string \<times> string) option" where
  "clock_parts v = (case split_on (CHR '':'') v of
       [h, m, r] \<Rightarrow> (case split1 (CHR ''.'') r of
           (s, fr) \<Rightarrow> if all_digits h \<and> all_digits m \<and> length m = 2 \<and> all_digits s \<and> length s = 2
             \<and> (case fr of None \<Rightarrow> True | Some f \<Rightarrow> all_digits f) then Some (h, m, s, coalesce fr []) else None)
     | _ \<Rightarrow> None)"

definition parse_clock :: "string \<Rightarrow> (rat \<times> rat) option" where
  "parse_clock v = (case clock_parts v of
       None \<Rightarrow> None
     | Some (h, m, s, f) \<Rightarrow>
         if 60 \<le> digits_fold m \<or> 60 \<le> digits_fold s \<or> 16383 < length f then None
         else let whole = digits_fold h * 3600 + digits_fold m * 60 + digits_fold s in
           if 131072 < length (str_nat whole) then None
           else Some (of_nat whole + of_nat (digits_fold f) / 10 ^ length f, 1 / 10 ^ length f))"

text \<open>One period of a time control: moves, base and increment.\<close>

definition clock_period :: "string \<Rightarrow> json option" where
  "clock_period raw =
     (let (moves, base) = (case split1 (CHR ''/'') raw of (a, None) \<Rightarrow> (None, a) | (a, Some b) \<Rightarrow> (Some a, b));
          (seconds, inc) = split1 (CHR ''+'') base in
      if (case moves of None \<Rightarrow> True | Some a \<Rightarrow> all_digits a) \<and> is_decimal seconds
        \<and> (case inc of None \<Rightarrow> True | Some i \<Rightarrow> is_decimal i)
      then Some (JObj [(''moves'', case moves of None \<Rightarrow> JNull | Some a \<Rightarrow> JInt (int (digits_fold a))), (''seconds'', JStr seconds),
        (''increment_seconds'', json_text inc), (''raw_text'', JStr raw)])
      else None)"

fun clock_periods :: "string list \<Rightarrow> json list \<times> bool" where
  "clock_periods [] = ([], True)"
| "clock_periods (raw # rs) = (case clock_period raw of
     None \<Rightarrow> ([], False) | Some p \<Rightarrow> let (ps, ok) = clock_periods rs in (p # ps, ok))"

definition parse_clock_rules :: "string option \<Rightarrow> fields \<Rightarrow> json" where
  "parse_clock_rules label native =
     (let (periods, status) = (case label of
          None \<Rightarrow> ([], ''unavailable'')
        | Some l \<Rightarrow> if l \<in> {[], ''?'', ''-''} then ([], ''unavailable'')
            else let (ps, ok) = clock_periods (split_on (CHR '':'') l) in (ps, if ok then ''parsed'' else ''preserved'')) in
      JObj [(''raw_label'', json_text label), (''interpretation_status'', JStr status), (''periods'', JList periods),
        (''provider_clock'', obj_get native ''clock''), (''provider_time_control'', obj_get native ''time_control'')])"

text \<open>The annotations \<open>[%command value]\<close> of a comment, from left to right: command, value and the whole match.\<close>

definition annotation_char :: "char \<Rightarrow> bool" where
  "annotation_char c \<longleftrightarrow> is_ascii_alnum c \<or> c = CHR ''_''"

definition annotation_at :: "string \<Rightarrow> (string \<times> string \<times> string \<times> string) option" where
  "annotation_at s =
     (if take 2 s \<noteq> ''[%'' then None
      else let name = takeWhile annotation_char (drop 2 s); rest = drop (2 + length name) s;
             value = takeWhile (\<lambda>c. c \<noteq> CHR '']'') rest; after = drop (length value) rest in
        if name = [] \<or> after = [] then None
        else Some (name, strip value, ''[%'' @ name @ value @ '']'', tl after))"

function find_annotations :: "string \<Rightarrow> (string \<times> string \<times> string) list" where
  "find_annotations s = (case s of [] \<Rightarrow> [] | c # cs \<Rightarrow> (case annotation_at s of
       None \<Rightarrow> find_annotations cs
     | Some (name, value, raw, rest) \<Rightarrow> (name, value, raw) # find_annotations rest))"
  by pat_completeness auto

lemma annotation_at_shrinks: "annotation_at s = Some (n, v, r, rest) \<Longrightarrow> length rest < length s"
proof (cases "take 2 s = ''[%''")
  case True
  assume "annotation_at s = Some (n, v, r, rest)"
  then obtain d where "d = drop (2 + length (takeWhile annotation_char (drop 2 s))) s" "rest = tl (drop (length (takeWhile (\<lambda>c. c \<noteq> CHR '']'') d)) d)"
    using True by (auto simp: annotation_at_def Let_def split: if_splits)
  moreover have "s \<noteq> []" using True by auto
  ultimately show ?thesis by (auto simp: length_tl)
qed (simp add: annotation_at_def)

termination find_annotations
  by (relation "measure length") (auto dest: annotation_at_shrinks)

declare find_annotations.simps [simp del]

section \<open>Positions\<close>

definition initial_fen :: "(string \<times> string) list \<Rightarrow> fields \<Rightarrow> string" where
  "initial_fen headers native =
     py_str (py_or (py_or (py_or (json_text (map_of headers ''FEN'')) (obj_get native ''initialFen'')) (obj_get native ''initial_setup''))
       (JStr INITIAL_FEN))"

definition is_lower_char :: "char \<Rightarrow> bool" where
  "is_lower_char c \<longleftrightarrow> (let n = (of_char c :: nat) in 97 \<le> n \<and> n \<le> 122 \<or> 223 \<le> n \<and> n \<noteq> 247 \<or> n \<in> {170, 181, 186})"

definition is_upper :: "string \<Rightarrow> bool" where
  "is_upper s \<longleftrightarrow> list_ex (\<lambda>c. lower_char c \<noteq> c) s \<and> \<not> list_ex is_lower_char s"

definition uci_from_delta :: "(string \<times> string) list \<times> (string \<times> string) list \<Rightarrow> string \<Rightarrow> string option" where
  "uci_from_delta delta mover =
     (let (removed, placed) = delta;
          own = filter (\<lambda>sp. is_upper (snd sp) = (mover = ''white''));
          king = filter (\<lambda>sp. lower (snd sp) = ''k'');
          castling = 1 < length (own removed);
          origins = (if castling then king (own removed) else own removed);
          destinations = (if castling then king (own placed) else own placed) in
      case (origins, destinations) of
        ([(origin, before)], [(destination, after)]) \<Rightarrow>
          Some (origin @ destination @ (if lower before = ''p'' \<and> lower after \<noteq> ''p'' then lower after else []))
      | _ \<Rightarrow> None)"

definition mover_from_fen :: "string \<Rightarrow> string result" where
  "mover_from_fen fen = (case split_words fen of
       _ # w # _ \<Rightarrow> Inr (if w = ''w'' then ''white'' else ''black'')
     | _ \<Rightarrow> Inl (RuntimeError ''list index out of range''))"

definition mover_for_ply :: "string \<Rightarrow> nat \<Rightarrow> string" where
  "mover_for_ply fen ply =
     (let white = (fen = [] \<or> (case split_words fen of _ # w # _ \<Rightarrow> w = ''w'' | _ \<Rightarrow> True)) in
      if white \<noteq> (ply mod 2 = 1) then ''white'' else ''black'')"

definition position_key :: "(string \<Rightarrow> string) \<Rightarrow> string option \<Rightarrow> string \<Rightarrow> string option" where
  "position_key sha fen variant = (case fen of
       Some (c # cs) \<Rightarrow> Some (''fen-state-v1:sha256:'' @ sha (variant @ [CHR 0x0A] @ join '' '' (take 4 (split_words (c # cs)))))
     | _ \<Rightarrow> None)"

section \<open>The token loop\<close>

record 'v pgn_state =
  ps_validator :: 'v
  ps_issues :: "fields list"
  ps_nodes :: "move_node list"
  ps_tokens :: "pgn_token list"
  ps_clocks :: "clock_observation list"
  ps_current :: nat
  ps_rav :: "nat list"
  ps_children :: "nat \<Rightarrow> nat"
  ps_pending_comments :: "string list"
  ps_at_variation_start :: bool
  ps_terminated :: bool
  ps_previous_end :: nat

record pgn_context =
  pc_sha :: "string \<Rightarrow> string"
  pc_text :: string
  pc_supported :: bool
  pc_start_fen :: string
  pc_variant_key :: string

definition issue :: "string \<Rightarrow> (string \<times> json) list \<Rightarrow> 'v pgn_state \<Rightarrow> 'v pgn_state" where
  "issue kind details s = s\<lparr>ps_issues := ps_issues s @ [(''kind'', JStr kind) # details]\<rparr>"

definition slice :: "string \<Rightarrow> nat \<Rightarrow> nat \<Rightarrow> string" where
  "slice text a b = take (b - a) (drop a text)"

definition lexical_token :: "string \<Rightarrow> string \<Rightarrow> nat \<Rightarrow> nat \<Rightarrow> string \<Rightarrow> 'v pgn_state \<Rightarrow> 'v pgn_state" where
  "lexical_token text kind a b status s = s\<lparr>ps_tokens := ps_tokens s @ [\<lparr>tk_token_index = length (ps_tokens s), tk_kind = kind,
     tk_token_text = slice text a b, tk_start_offset = a, tk_end_offset = b, tk_interpretation_status = status\<rparr>]\<rparr>"

definition last_status :: "string \<Rightarrow> 'v pgn_state \<Rightarrow> 'v pgn_state" where
  "last_status status s = s\<lparr>ps_tokens := butlast (ps_tokens s) @ [(last (ps_tokens s))\<lparr>tk_interpretation_status := status\<rparr>]\<rparr>"

definition change_node :: "nat \<Rightarrow> (move_node \<Rightarrow> move_node) \<Rightarrow> 'v pgn_state \<Rightarrow> 'v pgn_state" where
  "change_node i f s = s\<lparr>ps_nodes := (ps_nodes s)[i := f (ps_nodes s ! i)]\<rparr>"

text \<open>Text between two tokens that is not blank is kept as a token of its own.\<close>

definition keep_gap :: "pgn_context \<Rightarrow> nat \<Rightarrow> 'v pgn_state \<Rightarrow> 'v pgn_state" where
  "keep_gap c stop_at s = (let a = ps_previous_end s in
     if strip (slice (pc_text c) a stop_at) \<noteq> []
     then lexical_token (pc_text c) ''unknown_gap'' a stop_at ''preserved''
       (issue ''unrecognized_gap'' [(''start'', JInt (int a)), (''end'', JInt (int stop_at))] s)
     else s)"

definition validate_token :: "'v pgn_library \<Rightarrow> pgn_context \<Rightarrow> pgn_match \<Rightarrow> nat \<Rightarrow> 'v pgn_state \<Rightarrow> 'v pgn_state result" where
  "validate_token g c m index s =
     (if \<not> pc_supported c then Inr s
      else case gr_add_token g (pc_text c) (pm_start m) (ps_validator s) of
        (None, v) \<Rightarrow> Inr (s\<lparr>ps_validator := v\<rparr>)
      | (Some (Caught detail), v) \<Rightarrow> Inr (issue ''parser_error'' [(''token'', JInt (int index)), (''detail'', JStr detail)]
          (s\<lparr>ps_validator := gr_set_game_error g v\<rparr>))
      | (Some (Uncaught e), v) \<Rightarrow> Inl e)"

definition start_variation :: "nat \<Rightarrow> 'v pgn_state \<Rightarrow> 'v pgn_state" where
  "start_variation index s =
     (let parent = mn_parent_index (ps_nodes s ! ps_current s);
          s1 = s\<lparr>ps_rav := ps_current s # ps_rav s\<rparr>;
          s2 = (if parent = None then issue ''variation_without_move'' [(''token'', JInt (int index))] s1 else s1) in
      s2\<lparr>ps_current := coalesce parent 0, ps_at_variation_start := True\<rparr>)"

definition end_variation :: "nat \<Rightarrow> 'v pgn_state \<Rightarrow> 'v pgn_state" where
  "end_variation index s = (case ps_rav s of
       outer # rest \<Rightarrow> s\<lparr>ps_current := outer, ps_rav := rest, ps_at_variation_start := False\<rparr>
     | [] \<Rightarrow> (issue ''unmatched_variation_end'' [(''token'', JInt (int index))] s)\<lparr>ps_at_variation_start := False\<rparr>)"

definition mover_of :: "pgn_context \<Rightarrow> move_node \<Rightarrow> string result" where
  "mover_of c parent = (case mn_fen_after parent of
       Some (x # xs) \<Rightarrow> mover_from_fen (x # xs) | _ \<Rightarrow> Inr (mover_for_ply (pc_start_fen c) (mn_ply parent)))"

definition board_facts :: "'v pgn_library \<Rightarrow> pgn_context \<Rightarrow> string \<Rightarrow> 'v \<Rightarrow> move_node \<Rightarrow> move_node result" where
  "board_facts g c mover v node =
     (let fen = gr_fen g v in
      rbind (gr_last_delta g v) (\<lambda>delta.
      Inr (node\<lparr>mn_fen_after := Some fen, mn_move_uci := uci_from_delta delta mover,
        mn_position_key_before := position_key (pc_sha c) (mn_fen_before node) (pc_variant_key c),
        mn_position_key_after := position_key (pc_sha c) (Some fen) (pc_variant_key c)\<rparr>)))"

definition push_node :: "move_node \<Rightarrow> 'v pgn_state \<Rightarrow> 'v pgn_state" where
  "push_node node s = s\<lparr>ps_nodes := ps_nodes s @ [node], ps_children := (ps_children s)(ps_current s := mn_variation_index node + 1),
     ps_pending_comments := [], ps_current := mn_node_index node, ps_at_variation_start := False\<rparr>"

definition new_node :: "pgn_context \<Rightarrow> pgn_match \<Rightarrow> string \<Rightarrow> 'v pgn_state \<Rightarrow> move_node" where
  "new_node c m mover s =
     (let parent = ps_nodes s ! ps_current s in
      (move_node_at (length (ps_nodes s)) (Some (ps_current s)) (ps_children s (ps_current s)) (mn_ply parent + 1) (ps_rav s = []))
        \<lparr>mn_mover := Some mover, mn_move_san := Some (strip (slice (pc_text c) (pm_start m) (pm_end m))),
         mn_fen_before := mn_fen_after parent, mn_starting_comments := ps_pending_comments s\<rparr>)"

definition invalid_move :: "pgn_context \<Rightarrow> pgn_match \<Rightarrow> nat \<Rightarrow> 'v pgn_state \<Rightarrow> 'v pgn_state" where
  "invalid_move c m index s = (if pc_supported c
     then issue ''invalid_move'' [(''token'', JInt (int index)), (''san'', JStr (slice (pc_text c) (pm_start m) (pm_end m)))]
       (last_status ''invalid'' s) else s)"

definition play_move :: "'v pgn_library \<Rightarrow> pgn_context \<Rightarrow> pgn_match \<Rightarrow> nat \<Rightarrow> 'v pgn_state \<Rightarrow> 'v pgn_state result" where
  "play_move g c m index s =
     rbind (mover_of c (ps_nodes s ! ps_current s)) (\<lambda>mover.
     if pc_supported c \<and> gr_state_none g (ps_validator s) \<and> pm_group m \<noteq> IFG_PASS
     then rbind (board_facts g c mover (ps_validator s) (new_node c m mover s)) (\<lambda>n. Inr (push_node n s))
     else Inr (push_node (new_node c m mover s) (invalid_move c m index s)))"

definition annotation_json :: "nat \<Rightarrow> nat \<Rightarrow> string \<times> string \<times> string \<Rightarrow> json" where
  "annotation_json token index a = (case a of (command, value, raw) \<Rightarrow> JObj [(''command'', JStr command), (''value'', JStr value),
     (''raw_text'', JStr raw), (''source'', JStr ''pgn''),
     (''source_pointer'', JStr (''/tokens/'' @ str_nat token @ ''/annotations/'' @ str_nat index))])"

text \<open>The clock command of an annotation: remaining or elapsed time, mapped when a played move carries it.\<close>

definition annotated_clock :: "nat option \<Rightarrow> nat \<Rightarrow> nat \<Rightarrow> string \<times> string \<times> string \<Rightarrow> clock_observation list" where
  "annotated_clock node token index a = (case a of (command, value, raw) \<Rightarrow>
     let played = (case node of None \<Rightarrow> False | Some n \<Rightarrow> n \<noteq> 0); clk = (lower command = ''clk''); reading = parse_clock value in
     if lower command \<notin> {''clk'', ''emt''} then []
     else [\<lparr>ck_node_index = node, ck_kind = (if clk then ''remaining'' else ''elapsed''), ck_source = ''pgn'',
       ck_source_pointer = ''/tokens/'' @ str_nat token @ ''/annotations/'' @ str_nat index, ck_raw_text = raw,
       ck_seconds = map_option fst reading, ck_unit = ''seconds'', ck_precision_seconds = map_option snd reading,
       ck_status = (if reading = None then ''invalid'' else if played then ''parsed'' else ''unmapped''),
       ck_reference = (if clk \<and> played then ''after_move'' else if played then ''elapsed_move'' else ''unknown'')\<rparr>])"

definition comment_observations :: "nat option \<Rightarrow> string \<Rightarrow> nat \<Rightarrow> 'v pgn_state \<Rightarrow> 'v pgn_state" where
  "comment_observations node comment token s =
     (let found = enumerate 0 (find_annotations comment) in
      (change_node (coalesce node 0) (\<lambda>n. n\<lparr>mn_annotations := mn_annotations n @ map (\<lambda>(i, a). annotation_json token i a) found\<rparr>) s)
        \<lparr>ps_clocks := ps_clocks s @ concat (map (\<lambda>(i, a). annotated_clock node token i a) found)\<rparr>)"

definition take_comment :: "pgn_context \<Rightarrow> pgn_match \<Rightarrow> nat \<Rightarrow> 'v pgn_state \<Rightarrow> 'v pgn_state" where
  "take_comment c m index s =
     (let token = slice (pc_text c) (pm_start m) (pm_end m);
          comment = (if pm_group m = IFG_COMMENT then butlast (tl token) else tl token) in
      if ps_at_variation_start s
      then comment_observations None comment index (s\<lparr>ps_pending_comments := ps_pending_comments s @ [comment]\<rparr>)
      else comment_observations (Some (ps_current s)) comment index
        (change_node (ps_current s) (\<lambda>n. n\<lparr>mn_comments := mn_comments n @ [comment]\<rparr>) s))"

definition take_nag :: "pgn_context \<Rightarrow> pgn_match \<Rightarrow> 'v pgn_state \<Rightarrow> 'v pgn_state result" where
  "take_nag c m s =
     (let token = slice (pc_text c) (pm_start m) (pm_end m); add = (\<lambda>v. change_node (ps_current s) (\<lambda>n. n\<lparr>mn_nags := mn_nags n @ [v]\<rparr>) s) in
      if pm_group m = IFG_NUMERIC_ANNOTATION_GLYPH
      then (case parse_int (tl token) of None \<Rightarrow> Inl (ValueError ''invalid literal for int() with base 10'') | Some i \<Rightarrow> Inr (add (JInt i)))
      else Inr (add (JStr token)))"

definition take_result :: "nat \<Rightarrow> 'v pgn_state \<Rightarrow> 'v pgn_state" where
  "take_result index s = (let s1 = (if ps_terminated s then issue ''multiple_games'' [(''token'', JInt (int index))] s else s) in
     if ps_rav s = [] then s1\<lparr>ps_terminated := True\<rparr> else s1)"

definition interpret_token :: "'v pgn_library \<Rightarrow> pgn_context \<Rightarrow> pgn_match \<Rightarrow> nat \<Rightarrow> 'v pgn_state \<Rightarrow> 'v pgn_state result" where
  "interpret_token g c m index s =
     (let kind = token_kind (pm_group m); token = slice (pc_text c) (pm_start m) (pm_end m) in
      if kind = ''variation_start'' then Inr (start_variation index s)
      else if kind = ''variation_end'' then Inr (end_variation index s)
      else if kind = ''move'' then play_move g c m index s
      else if kind \<in> {''comment'', ''comment_eol''} then Inr (take_comment c m index s)
      else if kind \<in> {''nag'', ''symbolic_nag''} then take_nag c m s
      else if kind = ''check'' \<and> ps_current s \<noteq> 0
      then Inr (change_node (ps_current s) (\<lambda>n. n\<lparr>mn_move_san := Some (coalesce (mn_move_san n) [] @ token)\<rparr>) s)
      else if kind = ''result'' then Inr (take_result index s)
      else if kind = ''unknown''
      then Inr (issue ''uninterpreted_token'' [(''token'', JInt (int index)), (''text'', JStr token)] (last_status ''preserved'' s))
      else Inr s)"

definition token_step :: "'v pgn_library \<Rightarrow> pgn_context \<Rightarrow> pgn_match \<Rightarrow> 'v pgn_state \<Rightarrow> 'v pgn_state result" where
  "token_step g c m s =
     (let s1 = (keep_gap c (pm_start m) s)\<lparr>ps_previous_end := pm_end m\<rparr>; index = length (ps_tokens s1);
          s2 = lexical_token (pc_text c) (token_kind (pm_group m)) (pm_start m) (pm_end m)
            (if pc_supported c then ''parsed'' else ''preserved'') s1 in
      rbind (validate_token g c m index s2) (interpret_token g c m index))"

fun token_steps :: "'v pgn_library \<Rightarrow> pgn_context \<Rightarrow> pgn_match list \<Rightarrow> 'v pgn_state \<Rightarrow> 'v pgn_state result" where
  "token_steps g c [] s = Inr s"
| "token_steps g c (m # ms) s = rbind (token_step g c m s) (token_steps g c ms)"

section \<open>The whole notation\<close>

definition keep_tail :: "pgn_context \<Rightarrow> 'v pgn_state \<Rightarrow> 'v pgn_state" where
  "keep_tail c s = (let a = ps_previous_end s in
     if strip (drop a (pc_text c)) \<noteq> []
     then lexical_token (pc_text c) ''unknown_tail'' a (length (pc_text c)) ''preserved''
       (issue ''unrecognized_tail'' [(''start'', JInt (int a))] s)
     else s)"

definition finish_tokens :: "pgn_context \<Rightarrow> 'v pgn_state \<Rightarrow> 'v pgn_state" where
  "finish_tokens c s0 =
     (let s = keep_tail c s0;
          s1 = (if ps_rav s \<noteq> [] then issue ''unclosed_variation'' [(''depth'', JInt (int (length (ps_rav s))))] s else s);
          s2 = (if \<not> ps_terminated s1 then issue ''missing_result'' [] s1 else s1) in
      if ps_pending_comments s2 \<noteq> []
      then change_node 0 (\<lambda>n. n\<lparr>mn_starting_comments := mn_starting_comments n @ ps_pending_comments s2\<rparr>) s2 else s2)"

definition put_key :: "string \<Rightarrow> string \<Rightarrow> (string \<times> string) list \<Rightarrow> (string \<times> string) list" where
  "put_key k v kvs = (if k \<in> fst ` set kvs then map (\<lambda>(a, b). if a = k then (a, v) else (a, b)) kvs else kvs @ [(k, v)])"

definition tag_items :: "pgn_match list \<Rightarrow> (string \<times> string) list" where
  "tag_items ms = map (\<lambda>m. (pm_tag_name m, pm_tag_value m)) (filter (\<lambda>m. pm_group m = IFG_END_TAG) ms)"

definition headers_of :: "(string \<times> string) list \<Rightarrow> (string \<times> string) list" where
  "headers_of items = foldl (\<lambda>kvs (k, v). put_key k v kvs) [] items"

text \<open>The starting position, checked on a validator of its own: the root's board, or an issue.\<close>

definition start_tags :: "(string \<times> string) list \<Rightarrow> string \<Rightarrow> (string \<times> string) list" where
  "start_tags headers fen = (if map_of headers ''FEN'' = None \<and> fen \<noteq> INITIAL_FEN then [(''FEN'', fen), (''SetUp'', ''1'')] else [])"

definition update_tags :: "'v pgn_library \<Rightarrow> (string \<times> string) list \<Rightarrow> 'v \<Rightarrow> 'v" where
  "update_tags g tags v = (if tags = [] then v else gr_update_tags g tags v)"

definition check_start :: "'v pgn_library \<Rightarrow> pgn_context \<Rightarrow> (string \<times> string) list \<Rightarrow> 'v pgn_state \<Rightarrow> 'v pgn_state result" where
  "check_start g c headers s =
     (let bad = issue ''invalid_starting_position'' []
            ((change_node 0 (\<lambda>n. n\<lparr>mn_fen_after := None\<rparr>) s)\<lparr>ps_validator := gr_set_game_error g (ps_validator s)\<rparr>) in
      if \<not> pc_supported c then Inr s
      else case gr_set_initial_position g (update_tags g (start_tags headers (pc_start_fen c)) (gr_update_tags g headers (gr_game g))) of
        (Inr True, v) \<Rightarrow> Inr (change_node 0 (\<lambda>n. n\<lparr>mn_fen_after := Some (gr_fen g v)\<rparr>) s)
      | (Inr False, v) \<Rightarrow> Inr bad
      | (Inl (Caught _), v) \<Rightarrow> Inr bad
      | (Inl (Uncaught e), v) \<Rightarrow> Inl e)"

definition start_state :: "'v pgn_library \<Rightarrow> pgn_context \<Rightarrow> (string \<times> string) list \<Rightarrow> string \<Rightarrow> 'v pgn_state" where
  "start_state g c headers variant =
     (let s = \<lparr>ps_validator = update_tags g (start_tags headers (pc_start_fen c)) (gr_game g), ps_issues = [],
        ps_nodes = [(move_node_at 0 None 0 0 True)\<lparr>mn_fen_after := (if pc_supported c then Some (pc_start_fen c) else None)\<rparr>],
        ps_tokens = [], ps_clocks = [], ps_current = 0, ps_rav = [], ps_children = (\<lambda>_. 0), ps_pending_comments = [],
        ps_at_variation_start = False, ps_terminated = False, ps_previous_end = 0\<rparr> in
      if pc_supported c then s else issue ''variant_rules_unavailable'' [(''variant'', JStr variant)] s)"

definition keep_bom :: "'v pgn_library \<Rightarrow> pgn_context \<Rightarrow> 'v pgn_state \<Rightarrow> 'v pgn_state" where
  "keep_bom g c s = (if starts_with [gr_bom g] (pc_text c)
     then (lexical_token (pc_text c) ''byte_order_mark'' 0 1 ''parsed'' s)\<lparr>ps_previous_end := 1\<rparr> else s)"

definition read_notation ::
  "'v pgn_library \<Rightarrow> pgn_context \<Rightarrow> (string \<times> string) list \<Rightarrow> string \<Rightarrow> pgn_match list \<Rightarrow> 'v pgn_state result" where
  "read_notation g c headers variant ms =
     rbind (check_start g c headers (start_state g c headers variant)) (\<lambda>s.
     rbind (token_steps g c ms (keep_bom g c s)) (\<lambda>s'. Inr (finish_tokens c s')))"

section \<open>Observations of the provider\<close>

definition provider_clock :: "move_node list \<Rightarrow> nat \<Rightarrow> json \<Rightarrow> clock_observation" where
  "provider_clock played i v =
     (let seconds = (case v of JInt n \<Rightarrow> if 0 \<le> n then Some (of_int n / 100) else None | _ \<Rightarrow> None);
          node = (if i < length played then Some (mn_node_index (played ! i)) else None) in
      \<lparr>ck_node_index = node, ck_kind = ''remaining'', ck_source = ''provider'', ck_source_pointer = ''/clocks/'' @ str_nat i,
       ck_raw_text = render True v, ck_seconds = seconds, ck_unit = ''centiseconds'', ck_precision_seconds = Some (1 / 100),
       ck_status = (if seconds = None then ''invalid'' else if node \<noteq> None then ''parsed'' else ''unmapped''),
       ck_reference = (if node \<noteq> None then ''after_move'' else ''unknown'')\<rparr>)"

definition provider_annotation :: "nat \<Rightarrow> json \<Rightarrow> json" where
  "provider_annotation i v = JObj [(''source'', JStr ''provider''), (''source_pointer'', JStr (''/analysis/'' @ str_nat i)), (''payload'', v)]"

fun annotate_played :: "nat list \<Rightarrow> (nat \<times> json) list \<Rightarrow> move_node list \<Rightarrow> move_node list" where
  "annotate_played played [] nodes = nodes"
| "annotate_played played ((i, v) # vs) nodes =
     (let k = (if i < length played then played ! i else 0) in
      annotate_played played vs (nodes[k := (nodes ! k)\<lparr>mn_annotations := mn_annotations (nodes ! k) @ [provider_annotation i v]\<rparr>]))"

definition provider_observations :: "fields \<Rightarrow> game_evidence \<Rightarrow> game_evidence" where
  "provider_observations native e =
     (let played = filter (\<lambda>n. 0 < mn_node_index n \<and> mn_is_mainline n) (ev_nodes e);
          clocks = (case obj_get native ''clocks'' of JList vs \<Rightarrow> map (\<lambda>(i, v). provider_clock played i v) (enumerate 0 vs) | _ \<Rightarrow> []);
          nodes = (case obj_get native ''analysis'' of
              JList vs \<Rightarrow> annotate_played (map mn_node_index played) (enumerate 0 vs) (ev_nodes e) | _ \<Rightarrow> ev_nodes e) in
      e\<lparr>ev_clocks := ev_clocks e @ clocks, ev_nodes := nodes\<rparr>)"

section \<open>\<open>parse_game_evidence\<close>\<close>

definition moves_only :: "norm_game \<Rightarrow> bool" where
  "moves_only game \<longleftrightarrow> coalesce (ng_pgn game) [] = [] \<and> as_str (obj_get (ng_source_data game) ''moves'') \<noteq> None"

definition notation_text :: "norm_game \<Rightarrow> string" where
  "notation_text game = (if moves_only game then coalesce (as_str (obj_get (ng_source_data game) ''moves'')) [] @ '' *''
     else coalesce (ng_pgn game) [])"

definition source_metadata :: "norm_game \<Rightarrow> fields" where
  "source_metadata game = filter (\<lambda>kv. fst kv \<noteq> ''pgn'' \<and> \<not> (moves_only game \<and> fst kv = ''moves'')) (ng_source_data game)"

definition no_blanks :: "string \<Rightarrow> string" where
  "no_blanks s = filter (\<lambda>c. c \<noteq> CHR '' '') s"

definition supported_rules :: "norm_game \<Rightarrow> string \<Rightarrow> bool" where
  "supported_rules game variant \<longleftrightarrow> variant \<in> {''standard'', ''chess'', ''fromposition''} \<and> ng_variant_key game \<in> {''standard'', ''fromposition''}"

definition unavailable_evidence :: "norm_game \<Rightarrow> game_evidence" where
  "unavailable_evidence game = (let native = ng_source_data game in
     provider_observations native \<lparr>ev_headers = [], ev_header_items = [], ev_source_metadata = source_metadata game,
       ev_move_text_origin = ''unavailable'', ev_starting_fen = initial_fen [] native, ev_variant = ng_variant_key game,
       ev_parse_status = ''unavailable'', ev_parse_issues = [[(''kind'', JStr ''moves_unavailable'')]],
       ev_time_control_rules = parse_clock_rules (ng_time_control_raw game) native, ev_nodes = [move_node_at 0 None 0 0 True],
       ev_tokens = [], ev_clocks = []\<rparr>)"

definition parse_game_evidence :: "'v pgn_library \<Rightarrow> (string \<Rightarrow> string) \<Rightarrow> norm_game \<Rightarrow> game_evidence result" where
  "parse_game_evidence g sha game =
     (let native = ng_source_data game; text = notation_text game in
      if text = [] then Inr (unavailable_evidence game)
      else
        let ms = gr_finditer g text (if starts_with [gr_bom g] text then 1 else 0);
            items = tag_items ms; headers = headers_of items;
            variant = no_blanks (lower (coalesce (map_of headers ''Variant'') (ng_variant_key game)));
            c = \<lparr>pc_sha = sha, pc_text = text, pc_supported = supported_rules game variant,
                 pc_start_fen = initial_fen headers native, pc_variant_key = ng_variant_key game\<rparr> in
        rbind (read_notation g c headers variant ms) (\<lambda>s.
        Inr (provider_observations native \<lparr>ev_headers = headers, ev_header_items = items, ev_source_metadata = source_metadata game,
          ev_move_text_origin = (if moves_only game then ''provider.moves'' else ''pgn''), ev_starting_fen = pc_start_fen c,
          ev_variant = ng_variant_key game,
          ev_parse_status = (if \<not> pc_supported c then ''unsupported''
            else if ps_issues s \<noteq> [] \<or> \<not> gr_game_ok g (ps_validator s) then ''partial'' else ''complete''),
          ev_parse_issues = ps_issues s,
          ev_time_control_rules = parse_clock_rules
            (case map_of headers ''TimeControl'' of Some l \<Rightarrow> Some l | None \<Rightarrow> ng_time_control_raw game) native,
          ev_nodes = ps_nodes s, ev_tokens = ps_tokens s, ev_clocks = ps_clocks s\<rparr>)))"

end
