(* ===== verification/Catalog.thy ===== *)
theory Catalog
  imports Evidence
begin

text \<open>
  The tables of the normalized archive: players with their aliases, snapshots, ratings and resources,
  and games with their participants, ratings, revisions and normalization checkpoints (storage/schema.sql,
  0006_game_evidence.sql, 0008_player_resources.sql, 0009_scalable_execution.sql). A revision holds
  its evidence as the record the parser built, in place of the rows of nodes, tokens and clocks. The
  driver's conversion of an unconverted JSON value to a text column is an argument (\<open>adapter\<close>).
\<close>

section \<open>Players\<close>

record player =
  pl_id :: int
  pl_provider :: string
  pl_provider_user_id :: "string option"
  pl_username_normalized :: string
  pl_display_username :: string
  pl_account_status :: "string option"
  pl_title :: "string option"
  pl_first_seen_at :: "int option"
  pl_updated_at :: "int option"

record alias_row =
  al_provider_user_id :: int
  al_username_normalized :: string
  al_display_username :: string
  al_first_seen_at :: int
  al_last_seen_at :: int
  al_raw_payload_id :: "int option"

record profile_facts =
  pf_native_data :: json
  pf_created_at :: "int option"
  pf_last_seen_at :: "int option"
  pf_real_name :: "string option"
  pf_location :: "string option"
  pf_avatar_url :: "string option"
  pf_profile_url :: "string option"
  pf_is_verified :: "bool option"
  pf_is_streamer :: "bool option"
  pf_fide_rating :: "int option"

record snapshot_values =
  sv_captured_at :: int
  sv_observed_username :: string
  sv_status :: "string option"
  sv_title :: "string option"
  sv_country :: "string option"
  sv_followers :: "int option"
  sv_patron :: "bool option"
  sv_count_all :: "int option"
  sv_count_rated :: "int option"
  sv_count_win :: "int option"
  sv_count_loss :: "int option"
  sv_count_draw :: "int option"
  sv_perfs_or_stats :: "string option"
  sv_raw_payload_id :: int

record user_snapshot =
  us_id :: int
  us_provider_user_id :: int
  us_content_hash :: string
  us_values :: snapshot_values
  us_facts :: "profile_facts option"

record rating_record =
  ur_snapshot_id :: int
  ur_performance :: string
  ur_rating :: "int option"
  ur_best_rating :: "int option"
  ur_best_at :: "int option"
  ur_lowest_rating :: "int option"
  ur_lowest_at :: "int option"
  ur_rating_deviation :: json
  ur_provisional :: "bool option"
  ur_games :: "int option"
  ur_wins :: "int option"
  ur_losses :: "int option"
  ur_draws :: "int option"
  ur_progress :: "int option"
  ur_native_data :: json

record user_observation =
  uo_id :: int
  uo_provider_user_id :: int
  uo_snapshot_id :: int
  uo_raw_payload_id :: int
  uo_fetch_log_id :: "int option"
  uo_observation_key :: string
  uo_captured_at :: int
  uo_endpoint_type :: string

record resource_snapshot =
  rn_id :: int
  rn_provider_user_id :: int
  rn_owner_scope :: string
  rn_resource_key :: string
  rn_parameters :: json
  rn_parameters_hash :: string
  rn_content_hash :: string
  rn_native_data :: json
  rn_coverage_status :: string
  rn_coverage_note :: "string option"
  rn_parser_version :: string

record resource_observation =
  ro_id :: int
  ro_snapshot_id :: int
  ro_raw_payload_id :: int
  ro_fetch_log_id :: "int option"
  ro_observation_key :: string
  ro_captured_at :: int

record resource_attempt =
  at_provider_user_id :: int
  at_provider :: string
  at_username_normalized :: string
  at_owner_scope :: string
  at_resource_key :: string
  at_parameters :: json
  at_parameters_hash :: string
  at_source_key :: string
  at_attempted_at :: int
  at_status_code :: int
  at_raw_payload_id :: "int option"

record history_point =
  hp_perf_index :: nat
  hp_point_index :: nat
  hp_performance :: string
  hp_rating_date :: "int \<times> int \<times> int"
  hp_rating :: int
  hp_source_pointer :: string

section \<open>Games\<close>

record variant_row =
  vr_id :: int
  vr_canonical_name :: string
  vr_provider :: string
  vr_provider_native_name :: string
  vr_mapped :: bool

record time_control_args =
  ta_kind :: string
  ta_initial_seconds :: "int option"
  ta_increment_seconds :: "int option"
  ta_days :: "int option"
  ta_time_class :: string
  ta_raw_label :: string

record time_control_row =
  tc_id :: int
  tc_args :: time_control_args

record game_rec =
  gm_id :: int
  gm_provider :: string
  gm_provider_game_id :: "string option"
  gm_canonical_url :: "string option"
  gm_content_hash :: string
  gm_variant_id :: int
  gm_time_control_id :: int
  gm_rated :: bool
  gm_outcome :: "string option"
  gm_is_live :: bool
  gm_status_raw :: "string option"
  gm_created_at :: "int option"
  gm_ended_at :: "int option"
  gm_ply_count :: "int option"
  gm_eco :: "string option"
  gm_opening_name :: "string option"
  gm_opening_ply :: "int option"
  gm_tournament_ref :: "string option"
  gm_first_seen_at :: int
  gm_current_version_id :: "int option"

record seat =
  se_id :: int
  se_game_id :: int
  se_color :: string
  se_provider_user_id :: "int option"
  se_username_normalized :: "string option"
  se_result_raw :: "string option"
  se_is_winner :: "bool option"
  se_is_ai :: bool

record game_rating =
  rg_game_id :: int
  rg_color :: string
  rg_rating :: "int option"
  rg_rating_diff :: "int option"
  rg_rd :: "int option"

record game_version =
  gv_id :: int
  gv_game_id :: int
  gv_content_hash :: string
  gv_parser_version :: string
  gv_first_seen_at :: int
  gv_evidence :: game_evidence

record version_source =
  vs_version_id :: int
  vs_raw_payload_id :: int
  vs_json_pointer :: string
  vs_first_seen_at :: int

record normalization_run =
  nr_raw_payload_id :: int
  nr_parser_version :: string
  nr_observation_id :: int
  nr_state :: string

record normalization_item =
  ni_raw_payload_id :: int
  ni_parser_version :: string
  ni_json_pointer :: string
  ni_observation_id :: int
  ni_game_id :: int

record catalog =
  ct_players :: "player list"
  ct_aliases :: "alias_row list"
  ct_snapshots :: "user_snapshot list"
  ct_ratings :: "rating_record list"
  ct_observations :: "user_observation list"
  ct_resources :: "resource_snapshot list"
  ct_resource_observations :: "resource_observation list"
  ct_attempts :: "resource_attempt list"
  ct_history_points :: "(int \<times> history_point) list"
  ct_variants :: "variant_row list"
  ct_time_controls :: "time_control_row list"
  ct_games :: "game_rec list"
  ct_seats :: "seat list"
  ct_game_ratings :: "game_rating list"
  ct_versions :: "game_version list"
  ct_version_sources :: "version_source list"
  ct_normalization_runs :: "normalization_run list"
  ct_normalization_items :: "normalization_item list"
  ct_next_player :: int
  ct_next_snapshot :: int
  ct_next_observation :: int
  ct_next_resource :: int
  ct_next_resource_observation :: int
  ct_next_variant :: int
  ct_next_time_control :: int
  ct_next_game :: int
  ct_next_seat :: int
  ct_next_version :: int

definition empty_catalog :: catalog where
  "empty_catalog = \<lparr>ct_players = [], ct_aliases = [], ct_snapshots = [], ct_ratings = [], ct_observations = [], ct_resources = [],
     ct_resource_observations = [], ct_attempts = [], ct_history_points = [], ct_variants = [], ct_time_controls = [], ct_games = [],
     ct_seats = [], ct_game_ratings = [], ct_versions = [], ct_version_sources = [], ct_normalization_runs = [],
     ct_normalization_items = [], ct_next_player = 1, ct_next_snapshot = 1, ct_next_observation = 1, ct_next_resource = 1,
     ct_next_resource_observation = 1, ct_next_variant = 1, ct_next_time_control = 1, ct_next_game = 1, ct_next_seat = 1,
     ct_next_version = 1\<rparr>"

section \<open>The driver\<close>

type_synonym adapter = "json \<Rightarrow> string option result"

definition adapter_ok :: "adapter \<Rightarrow> bool" where
  "adapter_ok f \<longleftrightarrow> f JNull = Inr None \<and> (\<forall>s. f (JStr s) = Inr (Some s))"

end
