(* ===== verification/Ingest.thy ===== *)
theory Ingest
  imports Providers Jobs Collection_Store Catalog
begin

text \<open>
  Fetch and store: ingest.py. A \<open>site\<close> is the database with its session, the archive, the
  objects, the progress of collections and the number of stop polls so far.
  The provider's call is an argument \<open>ask\<close> of each fetch, one of the calls of \<open>Providers\<close> together with
  the callbacks of the session that owns the client, which charge budgets and persist deadlines in
  the same tables. The normalizer is an argument as it is in the source, and so is the account
  resolution of user resources and statistics (\<open>accounts\<close>). An action returns its value or exception with the site it
  leaves: a transaction that fails leaves the tables as they were, and what was committed before an
  exception stays.
\<close>

section \<open>State\<close>

record error_row =
  er_id :: int
  er_provider :: "string option"
  er_url :: "string option"
  er_endpoint_type :: "string option"
  er_error_kind :: string
  er_status_code :: "int option"
  er_message :: string
  er_occurred_at :: int
  er_retry_count :: int
  er_is_dead :: bool

record site =
  si_db :: db
  si_conn :: conn
  si_arch :: arch
  si_objects :: objects
  si_errors :: "error_row list"
  si_next_error :: int
  si_coll :: coll
  si_catalog :: catalog
  si_polls :: nat

record ingest_env =
  ie_codec :: codec
  ie_store :: "store option"

record ingest_result =
  ir_provider :: string
  ir_endpoint_type :: string
  ir_status_code :: int
  ir_raw_payload_id :: "int option"
  ir_normalized_ids :: "int list"
  ir_message :: string
  ir_retry_after :: "rat option"

record accounts =
  ac_record_resource_attempt :: "capture \<Rightarrow> int option \<Rightarrow> site \<Rightarrow> (site \<times> int) result"
  ac_resolve_capture_account :: "string \<Rightarrow> string \<Rightarrow> int \<Rightarrow> site \<Rightarrow> (site \<times> int) result"

definition now_of :: "site \<Rightarrow> int" where
  "now_of s = trunc_rat (cn_clock (si_conn s))"

definition ok_status :: "int \<Rightarrow> bool" where
  "ok_status n \<longleftrightarrow> n = 200 \<or> n = 304"

text \<open>Actions, their sequence, and a transaction: its error leaves the site unchanged.\<close>

type_synonym 'a act = "site \<Rightarrow> 'a result \<times> site"

definition ret :: "'a \<Rightarrow> 'a act" where
  "ret x s = (Inr x, s)"

definition raise :: "pyerr \<Rightarrow> 'a act" where
  "raise e s = (Inl e, s)"

definition andthen :: "'a act \<Rightarrow> ('a \<Rightarrow> 'b act) \<Rightarrow> 'b act" where
  "andthen m f s = (case m s of (Inl e, s') \<Rightarrow> (Inl e, s') | (Inr x, s') \<Rightarrow> f x s')"

definition tx :: "(site \<Rightarrow> (site \<times> 'a) result) \<Rightarrow> 'a act" where
  "tx m s = (case m s of Inl e \<Rightarrow> (Inl e, s) | Inr (s', x) \<Rightarrow> (Inr x, s'))"

text \<open>A read of the site that may raise.\<close>

definition ask_site :: "(site \<Rightarrow> 'a result) \<Rightarrow> 'a act" where
  "ask_site f s = (f s, s)"

section \<open>Parser versions\<close>

definition USERS_PARSER_VERSION :: string where
  "USERS_PARSER_VERSION = ''users-normalizer-v7''"

definition RESOURCES_PARSER_VERSION :: string where
  "RESOURCES_PARSER_VERSION = ''player-resources-normalizer-v2''"

definition GAMES_PARSER_VERSION :: string where
  "GAMES_PARSER_VERSION = ''games-normalizer-v5/game-evidence-v2''"

definition ARCHIVES_PARSER_VERSION :: string where
  "ARCHIVES_PARSER_VERSION = ''chesscom-archives-index-v1''"

definition parser_version_of :: "string \<Rightarrow> string" where
  "parser_version_of endpoint =
     (if endpoint \<in> {''user_profile'', ''user_stats''} then USERS_PARSER_VERSION
      else if endpoint = ''user_resource'' then RESOURCES_PARSER_VERSION
      else if endpoint = ''archives_index'' then ARCHIVES_PARSER_VERSION
      else GAMES_PARSER_VERSION)"

definition installed_parser_target :: "string \<Rightarrow> string result" where
  "installed_parser_target requested =
     (let manifest = join ''|'' [ARCHIVES_PARSER_VERSION, GAMES_PARSER_VERSION, RESOURCES_PARSER_VERSION, USERS_PARSER_VERSION] in
      if requested = ''current'' \<or> requested = manifest then Inr manifest
      else Inl (ValueError ''Requested parser target is unavailable; use current or the installed parser manifest''))"

definition requires_normalization :: "site \<Rightarrow> int \<Rightarrow> bool result" where
  "requires_normalization s i = rbind (raw_payload_metadata (si_arch s) i) (\<lambda>(_, endpoint, status, version).
     Inr (status \<notin> {''parsed'', ''skipped''} \<or> version \<noteq> Some (parser_version_of endpoint)))"

section \<open>Evidence\<close>

definition insert_error :: "error_row \<Rightarrow> site \<Rightarrow> site \<times> int" where
  "insert_error r s = (s\<lparr>si_errors := si_errors s @ [r\<lparr>er_id := si_next_error s\<rparr>], si_next_error := si_next_error s + 1\<rparr>, si_next_error s)"

definition attempt_error_kind :: "fetch_attempt \<Rightarrow> string" where
  "attempt_error_kind a = (case fa_status_code a of
       Some n \<Rightarrow> if n \<in> {404, 410, 429} then ''http_'' @ str_int n
         else if fa_error_kind a = Some ''timeout'' then ''timeout'' else ''other''
     | None \<Rightarrow> if fa_error_kind a = Some ''timeout'' then ''timeout'' else ''other'')"

definition insert_error_for_attempt :: "fetch_attempt \<Rightarrow> site \<Rightarrow> site \<times> int option" where
  "insert_error_for_attempt a s =
     (if (case fa_status_code a of Some n \<Rightarrow> ok_status n | None \<Rightarrow> False) then (s, None)
      else let (s', i) = insert_error \<lparr>er_id = 0, er_provider = Some (fa_provider a), er_url = Some (fa_url a),
             er_endpoint_type = Some (fa_endpoint_type a), er_error_kind = attempt_error_kind a,
             er_status_code = fa_status_code a,
             er_message = (case fa_status_code a of Some n \<Rightarrow> if n \<noteq> 0 then ''HTTP '' @ str_int n else ''provider request failed''
               | None \<Rightarrow> ''provider request failed''),
             er_occurred_at = fa_attempted_at a, er_retry_count = int (fa_attempt a) - 1,
             er_is_dead = (fa_status_code a = Some 404 \<or> fa_status_code a = Some 410)\<rparr> s in (s', Some i))"

definition single_log :: "capture \<Rightarrow> int option \<Rightarrow> int option \<Rightarrow> int option \<Rightarrow> int option \<Rightarrow> int \<Rightarrow> fetch_log" where
  "single_log cp raw user job run now = (let r = cp_record cp in
     \<lparr>fl_id = 0, fl_provider = rr_provider r, fl_job_id = job, fl_crawl_run_id = run, fl_url = rr_request_url r,
      fl_endpoint_type = rr_endpoint_type r, fl_method = ''GET'', fl_status_code = Some (rr_http_status r),
      fl_from_cache = (rr_http_status r = 304), fl_etag = rr_etag r, fl_last_modified = rr_last_modified r,
      fl_retry_after = None, fl_bytes = (case rr_body r of Some (x # xs) \<Rightarrow> Some (int (length (x # xs))) | _ \<Rightarrow> None),
      fl_duration_ms = None, fl_attempt = 1, fl_attempted_at = (if rr_fetched_at r \<noteq> 0 then rr_fetched_at r else now),
      fl_raw_payload_id = raw, fl_error_ref = None, fl_provider_user_id = user\<rparr>)"

definition attempt_log :: "fetch_attempt \<Rightarrow> int option \<Rightarrow> int option \<Rightarrow> int option \<Rightarrow> int option \<Rightarrow> int option \<Rightarrow> fetch_log" where
  "attempt_log a raw user job run error =
     (let ok = (case fa_status_code a of Some n \<Rightarrow> ok_status n | None \<Rightarrow> False) in
      \<lparr>fl_id = 0, fl_provider = fa_provider a, fl_job_id = job, fl_crawl_run_id = run, fl_url = fa_url a,
       fl_endpoint_type = fa_endpoint_type a, fl_method = fa_method a, fl_status_code = fa_status_code a,
       fl_from_cache = fa_from_cache a, fl_etag = map_of (fa_response_headers a) ''etag'',
       fl_last_modified = map_of (fa_response_headers a) ''last-modified'', fl_retry_after = fa_retry_after a,
       fl_bytes = fa_bytes_count a, fl_duration_ms = fa_duration_ms a, fl_attempt = int (fa_attempt a),
       fl_attempted_at = fa_attempted_at a, fl_raw_payload_id = (if ok then raw else None), fl_error_ref = error,
       fl_provider_user_id = (if ok then user else None)\<rparr>)"

fun log_each ::
  "fetch_attempt list \<Rightarrow> int option \<Rightarrow> int option \<Rightarrow> int option \<Rightarrow> int option \<Rightarrow> int option \<Rightarrow> site \<Rightarrow> site \<times> int option" where
  "log_each [] raw user job run found s = (s, found)"
| "log_each (a # as) raw user job run found s =
     (let (s1, error) = insert_error_for_attempt a s;
          (ar, i) = insert_fetch_log (attempt_log a raw user job run error) (si_arch s1)
      in log_each as raw user job run
           (if (case fa_status_code a of Some n \<Rightarrow> ok_status n | None \<Rightarrow> False) then Some i else found) (s1\<lparr>si_arch := ar\<rparr>))"

definition log_attempts ::
  "capture \<Rightarrow> int option \<Rightarrow> int option \<Rightarrow> int option \<Rightarrow> int option \<Rightarrow> site \<Rightarrow> site \<times> int option" where
  "log_attempts cp raw user job run s =
     (if cp_attempts cp = []
      then let (ar, i) = insert_fetch_log (single_log cp raw user job run (now_of s)) (si_arch s) in (s\<lparr>si_arch := ar\<rparr>, Some i)
      else log_each (cp_attempts cp) raw user job run None s)"

text \<open>\<open>_retry_after\<close>.\<close>

definition retry_after_of :: "capture \<Rightarrow> rat option result" where
  "retry_after_of cp =
     (let v = (if cp_attempts cp = [] then None else fa_retry_after (last (cp_attempts cp))) in
      if rr_http_status (cp_record cp) = 429
      then rbind (registered_policy (rr_provider (cp_record cp))) (\<lambda>p. Inr (Some (next_delay p 429 (map_option of_int v))))
      else Inr (map_option of_int v))"

section \<open>Storing a response\<close>

text \<open>The raw table of the budget ledger follows the archive's.\<close>

definition with_arch :: "objects \<Rightarrow> arch \<Rightarrow> site \<Rightarrow> site" where
  "with_arch os a s = s\<lparr>si_objects := os, si_arch := a,
     si_db := (si_db s)\<lparr>db_raw_bytes := map (\<lambda>w. (rw_id w, int (rw_body_bytes w))) (ar_raw a)\<rparr>\<rparr>"

definition store_raw_if_present :: "ingest_env \<Rightarrow> raw_record \<Rightarrow> prepared_payload option \<Rightarrow> site \<Rightarrow> (site \<times> int option) result" where
  "store_raw_if_present e r pp s =
     (if rr_body r = None \<or> rr_http_status r \<noteq> 200 then Inr (s, None)
      else rbind (store_raw_payload (ie_codec e) True (ie_store e) r None ''pending'' None None pp (now_of s) (si_objects s) (si_arch s))
             (\<lambda>(os, a, i). Inr (with_arch os a s, Some i)))"

definition response_at :: "capture \<Rightarrow> rat" where
  "response_at cp = (if cp_attempts cp = [] then of_int (rr_fetched_at (cp_record cp))
     else let a = last (cp_attempts cp) in of_int (fa_attempted_at a) + of_int (coalesce (fa_duration_ms a) 0) / 1000)"

definition defer_limited :: "capture \<Rightarrow> site \<Rightarrow> site result" where
  "defer_limited cp s = rbind (retry_after_of cp) (\<lambda>ra.
     let n = rr_http_status (cp_record cp) in
     case ra of
       Some r \<Rightarrow> if n \<in> {429, 503}
         then Inr (s\<lparr>si_db := defer_provider (si_conn s) (rr_provider (cp_record cp)) (response_at cp + r)
                (''HTTP '' @ str_int n) (Some (response_at cp)) (si_db s)\<rparr>) else Inr s
     | None \<Rightarrow> Inr s)"

definition account_of :: "accounts \<Rightarrow> capture \<Rightarrow> int option \<Rightarrow> site \<Rightarrow> (site \<times> int option) result" where
  "account_of ac cp raw s = (let r = cp_record cp in
     if rr_endpoint_type r = ''user_resource''
     then rbind (ac_record_resource_attempt ac cp raw s) (\<lambda>(s', i). Inr (s', Some i))
     else if rr_endpoint_type r = ''user_stats'' \<and> ok_status (rr_http_status r) \<and> raw \<noteq> None
     then (case cp_target_username cp of
         Some (x # xs) \<Rightarrow> rbind (ac_resolve_capture_account ac (rr_provider r) (x # xs) (rr_fetched_at r) s) (\<lambda>(s', i). Inr (s', Some i))
       | _ \<Rightarrow> Inr (s, None))
     else Inr (s, None))"

text \<open>The transaction of \<open>_persist_response\<close>: the response, its attempts and errors, and the provider's deadline.\<close>

definition persist_transaction ::
  "ingest_env \<Rightarrow> accounts \<Rightarrow> capture \<Rightarrow> prepared_payload option \<Rightarrow> int option \<Rightarrow> int option \<Rightarrow> site
   \<Rightarrow> (site \<times> int option \<times> int option) result" where
  "persist_transaction e ac cp pp job run s =
     (let r = cp_record cp in
      rbind (store_raw_if_present e r pp s) (\<lambda>(s1, raw0).
      let raw = (if rr_http_status r = 304 then latest_raw_payload_id (si_arch s1) (rr_canonical_source_key r) else raw0) in
      rbind (account_of ac cp raw s1) (\<lambda>(s2, user).
      let (s3, log_id) = log_attempts cp raw user job run s2 in
      rbind (defer_limited cp s3) (\<lambda>s4. Inr (s4, raw, log_id)))))"

definition prepare_response :: "ingest_env \<Rightarrow> raw_record \<Rightarrow> prepared_payload option act" where
  "prepare_response e r = (if rr_body r \<noteq> None \<and> rr_http_status r = 200
     then tx (\<lambda>s. rbind (prepare_raw_payload (ie_codec e) False (ie_store e) r None (si_objects s) (si_arch s))
            (\<lambda>(os, pp). Inr (s\<lparr>si_objects := os\<rparr>, Some pp)))
     else ret None)"

definition persist_response :: "ingest_env \<Rightarrow> accounts \<Rightarrow> capture \<Rightarrow> int option \<Rightarrow> int option \<Rightarrow> (int option \<times> int option) act" where
  "persist_response e ac cp job run =
     andthen (prepare_response e (cp_record cp)) (\<lambda>pp.
     andthen (tx (persist_transaction e ac cp pp job run)) (\<lambda>(raw, log_id).
     if rr_http_status (cp_record cp) = 304 \<and> raw = None
     then raise (ValueError ''provider returned HTTP 304 without a stored raw payload'')
     else ret (raw, log_id)))"

definition non_body_result :: "capture \<Rightarrow> ingest_result result" where
  "non_body_result cp = (let r = cp_record cp; n = rr_http_status r in
     rbind (retry_after_of cp) (\<lambda>ra.
     Inr \<lparr>ir_provider = rr_provider r, ir_endpoint_type = rr_endpoint_type r, ir_status_code = n, ir_raw_payload_id = None,
       ir_normalized_ids = [], ir_message =
         (if n = 304 then ''not modified; no new raw payload stored''
          else if n \<in> {404, 410} then ''provider returned HTTP '' @ str_int n @ ''; no raw payload stored''
          else if n = 429 then ''rate limited after retry policy; no raw payload stored''
          else ''HTTP '' @ str_int n @ ''; no raw payload stored''), ir_retry_after = ra\<rparr>))"

text \<open>A normalizer takes the payload, the fetch log of a fresh user observation, the crawl run and the allowance of games.\<close>

type_synonym normalizer = "int \<Rightarrow> int option \<Rightarrow> int option \<Rightarrow> int option \<Rightarrow> int list act"

definition enqueue_normalization ::
  "ingest_env \<Rightarrow> string \<Rightarrow> int \<Rightarrow> int option \<Rightarrow> int option \<Rightarrow> int option \<Rightarrow> int option \<Rightarrow> string \<Rightarrow> unit act" where
  "enqueue_normalization e provider raw log_id max_games run job version =
     tx (\<lambda>s. rbind (enqueue_payload_normalization (cd_sha (ie_codec e)) (si_conn s) provider raw log_id max_games job run version (si_db s))
       (\<lambda>(d, _, _). Inr (s\<lparr>si_db := d\<rparr>, ())))"

definition stored_result :: "raw_record \<Rightarrow> int \<Rightarrow> int list \<Rightarrow> string \<Rightarrow> rat option \<Rightarrow> ingest_result" where
  "stored_result r i ids message ra = \<lparr>ir_provider = rr_provider r, ir_endpoint_type = rr_endpoint_type r,
     ir_status_code = rr_http_status r, ir_raw_payload_id = Some i, ir_normalized_ids = ids, ir_message = message, ir_retry_after = ra\<rparr>"

definition run_normalizer :: "normalizer \<Rightarrow> string \<Rightarrow> int \<Rightarrow> int option \<Rightarrow> int option \<Rightarrow> int option \<Rightarrow> int list act" where
  "run_normalizer nz endpoint i log_id run max_games =
     (if endpoint \<in> {''monthly_archive'', ''user_games_stream'', ''game''} then nz i None run max_games
      else if endpoint \<in> {''user_profile'', ''user_stats'', ''user_resource''} then nz i log_id None None
      else nz i None None None)"

text \<open>\<open>_store_and_normalize\<close>.\<close>

definition store_and_normalize ::
  "ingest_env \<Rightarrow> accounts \<Rightarrow> normalizer \<Rightarrow> capture \<Rightarrow> int option \<Rightarrow> int option \<Rightarrow> int option \<Rightarrow> ingest_result act" where
  "store_and_normalize e ac nz cp max_games job run =
     (let r = cp_record cp in
      andthen (persist_response e ac cp job run) (\<lambda>(raw, log_id). case raw of
        None \<Rightarrow> ask_site (\<lambda>_. non_body_result cp)
      | Some i \<Rightarrow>
          andthen (ask_site (\<lambda>s. if rr_http_status r = 304 then rbind (requires_normalization s i) (\<lambda>b. Inr (\<not> b)) else Inr False)) (\<lambda>current.
          andthen (\<lambda>s. (Inr (cn_defer_normalization (si_conn s)), s)) (\<lambda>deferred.
          if deferred
          then andthen (enqueue_normalization e (rr_provider r) i log_id max_games run job (parser_version_of (rr_endpoint_type r))) (\<lambda>_.
            ask_site (\<lambda>_. rbind (retry_after_of cp) (\<lambda>ra.
              Inr (stored_result r i [] (''stored raw #'' @ str_int i @ ''; normalization queued'') ra))))
          else andthen (run_normalizer nz (rr_endpoint_type r) i log_id run max_games) (\<lambda>ids.
            if current then ask_site (\<lambda>_. non_body_result cp)
            else ask_site (\<lambda>_. rbind (retry_after_of cp) (\<lambda>ra.
              Inr (stored_result r i ids ((if rr_http_status r = 304 then ''replayed'' else ''stored'') @ '' raw #'' @ str_int i
                @ ''; normalized '' @ str_nat (length ids) @ '' row(s)'') ra))))))))"

definition mark_archives_skipped :: "int \<Rightarrow> unit act" where
  "mark_archives_skipped i s = (Inr (), s\<lparr>si_arch := update_raw_payload_status i ''skipped'' (Some ARCHIVES_PARSER_VERSION)
     (Some (now_of s)) None (now_of s) (si_arch s)\<rparr>)"

definition store_and_mark_skipped :: "ingest_env \<Rightarrow> accounts \<Rightarrow> capture \<Rightarrow> int option \<Rightarrow> int option \<Rightarrow> ingest_result act" where
  "store_and_mark_skipped e ac cp job run =
     andthen (persist_response e ac cp job run) (\<lambda>(raw, _). case raw of
       None \<Rightarrow> ask_site (\<lambda>_. non_body_result cp)
     | Some i \<Rightarrow> andthen (mark_archives_skipped i) (\<lambda>_. ask_site (\<lambda>_. rbind (retry_after_of cp) (\<lambda>ra.
         Inr (stored_result (cp_record cp) i [] (''stored raw #'' @ str_int i @ ''; archives index has no normalized table'') ra)))))"

section \<open>Fetches\<close>

definition reused_result :: "string \<Rightarrow> string \<Rightarrow> int \<Rightarrow> int list \<Rightarrow> ingest_result" where
  "reused_result provider endpoint raw ids = \<lparr>ir_provider = provider, ir_endpoint_type = endpoint, ir_status_code = 200,
     ir_raw_payload_id = Some raw, ir_normalized_ids = ids, ir_message = ''reused original acquisition'', ir_retry_after = None\<rparr>"

definition job_payload :: "site \<Rightarrow> int option \<Rightarrow> string \<Rightarrow> string option \<Rightarrow> (int \<times> int) option" where
  "job_payload s job endpoint key = (case (job, cn_work_budget_id (si_conn s)) of
       (Some j, Some _) \<Rightarrow> latest_job_payload (si_arch s) (si_db s) j endpoint key | _ \<Rightarrow> None)"

definition reuse_game_acquisition ::
  "ingest_env \<Rightarrow> normalizer \<Rightarrow> string \<Rightarrow> string \<Rightarrow> string option \<Rightarrow> int option \<Rightarrow> int option \<Rightarrow> int option \<Rightarrow> ingest_result option act" where
  "reuse_game_acquisition e nz provider endpoint key max_games job run s = (case job_payload s job endpoint key of
       None \<Rightarrow> (Inr None, s)
     | Some (raw, log_id) \<Rightarrow>
         if cn_defer_normalization (si_conn s)
         then andthen (enqueue_normalization e provider raw (Some log_id) max_games run job GAMES_PARSER_VERSION) (\<lambda>_.
           ret (Some (reused_result provider endpoint raw []))) s
         else andthen (nz raw None run max_games) (\<lambda>ids. ret (Some (reused_result provider endpoint raw ids))) s)"

text \<open>A fetch of games: reuse what the job captured, or ask the provider, store and normalize.\<close>

definition fetch_games ::
  "ingest_env \<Rightarrow> accounts \<Rightarrow> normalizer \<Rightarrow> capture act \<Rightarrow> string \<Rightarrow> string \<Rightarrow> string option \<Rightarrow> int option \<Rightarrow> int option \<Rightarrow> int option
   \<Rightarrow> ingest_result act" where
  "fetch_games e ac nz ask provider endpoint key max_games job run =
     andthen (reuse_game_acquisition e nz provider endpoint key max_games job run) (\<lambda>reused. case reused of
       Some res \<Rightarrow> ret res
     | None \<Rightarrow> andthen ask (\<lambda>cp. store_and_normalize e ac nz cp max_games job run))"

type_synonym conditional_ask = "string option \<Rightarrow> string option \<Rightarrow> capture act"

text \<open>A conditional request carries the validators of the newest stored response of its source.\<close>

definition validated :: "string \<Rightarrow> conditional_ask \<Rightarrow> capture act" where
  "validated key ask = andthen (ask_site (\<lambda>s. latest_validators (si_arch s) key)) (\<lambda>(etag, lm). ask (as_str etag) (as_str lm))"

definition fetch_chesscom_month ::
  "ingest_env \<Rightarrow> accounts \<Rightarrow> normalizer \<Rightarrow> conditional_ask \<Rightarrow> string \<Rightarrow> int \<Rightarrow> int \<Rightarrow> int option \<Rightarrow> int option \<Rightarrow> int option \<Rightarrow> ingest_result act" where
  "fetch_chesscom_month e ac nz ask username year month max_games job run =
     (let key = month_key username year month in
      fetch_games e ac nz (validated key ask) ''chess.com'' ''monthly_archive'' (Some key) max_games job run)"

definition fetch_chesscom_archives ::
  "ingest_env \<Rightarrow> accounts \<Rightarrow> conditional_ask \<Rightarrow> string \<Rightarrow> int option \<Rightarrow> int option \<Rightarrow> ingest_result act" where
  "fetch_chesscom_archives e ac ask username job run s =
     (case job_payload s job ''archives_index'' (Some (archives_key username)) of
        Some (raw, _) \<Rightarrow> (Inr (reused_result ''chess.com'' ''archives_index'' raw []), s)
      | None \<Rightarrow> andthen (validated (archives_key username) ask) (\<lambda>cp. store_and_mark_skipped e ac cp job run) s)"

definition fetch_lichess_games ::
  "ingest_env \<Rightarrow> accounts \<Rightarrow> normalizer \<Rightarrow> capture act \<Rightarrow> int \<Rightarrow> int option \<Rightarrow> int option \<Rightarrow> ingest_result act" where
  "fetch_lichess_games e ac nz ask limit job run =
     fetch_games e ac nz ask ''lichess'' ''user_games_stream'' None (Some limit) job run"

definition fetch_lichess_game ::
  "ingest_env \<Rightarrow> accounts \<Rightarrow> normalizer \<Rightarrow> capture act \<Rightarrow> string \<Rightarrow> int option \<Rightarrow> int option \<Rightarrow> ingest_result act" where
  "fetch_lichess_game e ac nz ask game_id job run =
     fetch_games e ac nz ask ''lichess'' ''game'' (Some (game_key game_id)) (Some 1) job run"

definition fetch_lichess_games_page ::
  "ingest_env \<Rightarrow> accounts \<Rightarrow> normalizer \<Rightarrow> capture act \<Rightarrow> string \<Rightarrow> int option \<Rightarrow> int \<Rightarrow> int \<Rightarrow> int option \<Rightarrow> int option \<Rightarrow> ingest_result act" where
  "fetch_lichess_games_page e ac nz ask username since until limit job run =
     fetch_games e ac nz ask ''lichess'' ''user_games_stream'' (Some (page_key username since until limit)) None job run"

text \<open>The fetches of users: a profile, statistics and a resource.\<close>

definition fetch_user_profile ::
  "ingest_env \<Rightarrow> accounts \<Rightarrow> normalizer \<Rightarrow> conditional_ask \<Rightarrow> string \<Rightarrow> string \<Rightarrow> int option \<Rightarrow> int option \<Rightarrow> ingest_result act" where
  "fetch_user_profile e ac nz ask provider username job run =
     andthen (if provider = ''chess.com'' then validated (chesscom_profile_key username) ask else ask None None)
       (\<lambda>cp. store_and_normalize e ac nz cp None job run)"

definition fetch_chesscom_stats ::
  "ingest_env \<Rightarrow> accounts \<Rightarrow> normalizer \<Rightarrow> conditional_ask \<Rightarrow> string \<Rightarrow> int option \<Rightarrow> int option \<Rightarrow> ingest_result act" where
  "fetch_chesscom_stats e ac nz ask username job run =
     andthen (validated (chesscom_stats_key username) ask) (\<lambda>cp. store_and_normalize e ac nz cp None job run)"

definition fetch_user_resource ::
  "ingest_env \<Rightarrow> (json \<Rightarrow> string) \<Rightarrow> accounts \<Rightarrow> normalizer \<Rightarrow> conditional_ask \<Rightarrow> string \<Rightarrow> string \<Rightarrow> string
   \<Rightarrow> (string \<times> json) list \<Rightarrow> string \<Rightarrow> int option \<Rightarrow> int option \<Rightarrow> ingest_result act" where
  "fetch_user_resource e ch ac nz ask provider username key parameters owner_scope job run =
     andthen (ask_site (\<lambda>_. resource_source_key ch provider username key parameters owner_scope False)) (\<lambda>sk.
     andthen (if provider = ''chess.com'' then validated sk ask else ask None None)
       (\<lambda>cp. store_and_normalize e ac nz cp None job run))"

section \<open>Replay\<close>

text \<open>\<open>replay_raw_payload\<close>: \<open>users\<close>, \<open>resources\<close> and \<open>games\<close> are the normalizers of the endpoint kinds.\<close>

definition charge_replay :: "unit act" where
  "charge_replay s = (case cn_work_budget_id (si_conn s) of
       None \<Rightarrow> (Inr (), s)
     | Some b \<Rightarrow> tx (\<lambda>s. rbind (reserve_normalization (si_conn s) b None None 1 (si_db s)) (\<lambda>(d, _).
         Inr (s\<lparr>si_db := d, si_conn := (si_conn s)\<lparr>cn_work_payload_read_credits := cn_work_payload_read_credits (si_conn s) + 1\<rparr>\<rparr>, ()))) s)"

definition replay_raw_payload ::
  "normalizer \<Rightarrow> normalizer \<Rightarrow> normalizer \<Rightarrow> int \<Rightarrow> int option \<Rightarrow> int option \<Rightarrow> int option \<Rightarrow> string option \<Rightarrow> ingest_result act" where
  "replay_raw_payload users resources games i run max_games log_id version =
     andthen (ask_site (\<lambda>s. raw_payload_metadata (si_arch s) i)) (\<lambda>(provider, endpoint, _, _).
     if version \<noteq> None \<and> version \<noteq> Some (parser_version_of endpoint)
     then raise (ValueError ''Requested parser target is unavailable for this source payload'')
     else andthen charge_replay (\<lambda>_.
       andthen (if endpoint \<in> {''user_profile'', ''user_stats''} then users i log_id None None
            else if endpoint = ''user_resource'' then resources i log_id None None
            else if endpoint \<in> {''monthly_archive'', ''user_games_stream'', ''game''} then games i None run max_games
            else if endpoint = ''archives_index'' then andthen (mark_archives_skipped i) (\<lambda>_. ret [])
            else raise (ValueError (''unsupported raw endpoint: '' @ endpoint))) (\<lambda>ids.
       ret \<lparr>ir_provider = provider, ir_endpoint_type = endpoint, ir_status_code = 200, ir_raw_payload_id = Some i,
         ir_normalized_ids = ids, ir_message = ''replayed raw #'' @ str_int i @ ''; normalized '' @ str_nat (length ids) @ '' row(s)'',
         ir_retry_after = None\<rparr>)))"

end
