(* ===== verification/Games.thy ===== *)
theory Games
  imports Ingest
begin

text \<open>
  The games of the catalog: variants, time controls, games, participants and ratings
  (storage/repository.py), and the immutable revisions of a game's evidence with the export of its
  notation (storage/game_evidence.py). The unique indexes and the CHECK constraints that an
  operation can meet raise \<open>DatabaseError\<close>; foreign keys are not modelled.
\<close>

section \<open>Variants and time controls\<close>

definition same_variant :: "string \<Rightarrow> string \<Rightarrow> variant_row \<Rightarrow> bool" where
  "same_variant provider native v \<longleftrightarrow> vr_provider v = provider \<and> vr_provider_native_name v = native"

definition get_or_create_variant :: "string \<Rightarrow> string \<Rightarrow> string \<Rightarrow> bool \<Rightarrow> catalog \<Rightarrow> catalog \<times> int" where
  "get_or_create_variant provider native canonical mapped ct = (case find_row (same_variant provider native) (ct_variants ct) of
       Some v \<Rightarrow> (ct, vr_id v)
     | None \<Rightarrow> (ct\<lparr>ct_variants := ct_variants ct @ [\<lparr>vr_id = ct_next_variant ct, vr_canonical_name = canonical, vr_provider = provider,
         vr_provider_native_name = native, vr_mapped = mapped\<rparr>], ct_next_variant := ct_next_variant ct + 1\<rparr>, ct_next_variant ct))"

definition TIME_CLASSES :: "string list" where
  "TIME_CLASSES = [''bullet'', ''blitz'', ''rapid'', ''classical'', ''correspondence'']"

text \<open>The unique index \<open>ux_tc_tuple\<close> stores an absent number as -1.\<close>

definition tc_tuple :: "time_control_args \<Rightarrow> string \<times> int \<times> int \<times> int \<times> string \<times> string" where
  "tc_tuple t = (ta_kind t, coalesce (ta_initial_seconds t) (- 1), coalesce (ta_increment_seconds t) (- 1), coalesce (ta_days t) (- 1),
     ta_time_class t, ta_raw_label t)"

definition get_or_create_time_control :: "time_control_args \<Rightarrow> catalog \<Rightarrow> (catalog \<times> int) result" where
  "get_or_create_time_control t ct =
     (if ta_kind t \<notin> {''clock'', ''correspondence''} then Inl (DatabaseError ''time_controls_kind_check'')
      else if ta_time_class t \<notin> set TIME_CLASSES then Inl (DatabaseError ''time_controls_time_class_check'')
      else case find_row (\<lambda>r. tc_tuple (tc_args r) = tc_tuple t) (ct_time_controls ct) of
        Some r \<Rightarrow> Inr (ct, tc_id r)
      | None \<Rightarrow> Inr (ct\<lparr>ct_time_controls := ct_time_controls ct @ [\<lparr>tc_id = ct_next_time_control ct, tc_args = t\<rparr>],
          ct_next_time_control := ct_next_time_control ct + 1\<rparr>, ct_next_time_control ct))"

section \<open>Games\<close>

definition find_existing_game :: "catalog \<Rightarrow> string \<Rightarrow> string option \<Rightarrow> string option \<Rightarrow> string \<Rightarrow> game_rec option" where
  "find_existing_game ct provider gid url content =
     (case (case gid of None \<Rightarrow> None
        | Some _ \<Rightarrow> find_row (\<lambda>g. gm_provider g = provider \<and> gm_provider_game_id g = gid) (ct_games ct)) of
        Some g \<Rightarrow> Some g
      | None \<Rightarrow> (case (case url of None \<Rightarrow> None | Some _ \<Rightarrow> find_row (\<lambda>g. gm_canonical_url g = url) (ct_games ct)) of
          Some g \<Rightarrow> Some g
        | None \<Rightarrow> find_row (\<lambda>g. gm_content_hash g = content) (ct_games ct)))"

text \<open>The arguments of \<open>upsert_game\<close>; the fields in \<open>gf_replace\<close> are supplied facts and replace older ones even by null.\<close>

record game_facts =
  gf_provider :: string
  gf_provider_game_id :: "string option"
  gf_canonical_url :: "string option"
  gf_content_hash :: string
  gf_variant_id :: int
  gf_time_control_id :: int
  gf_rated :: bool
  gf_outcome :: "string option"
  gf_is_live :: bool
  gf_status_raw :: "string option"
  gf_created_at :: "int option"
  gf_ended_at :: "int option"
  gf_eco :: json
  gf_opening_name :: json
  gf_opening_ply :: "int option"
  gf_replace :: "string list"

definition merged :: "bool \<Rightarrow> 'a option \<Rightarrow> 'a option \<Rightarrow> 'a option" where
  "merged replace new old = (if replace then new else case new of None \<Rightarrow> old | Some x \<Rightarrow> Some x)"

definition game_keys_unique :: "game_rec list \<Rightarrow> bool" where
  "game_keys_unique gs \<longleftrightarrow> distinct (map gm_content_hash gs) \<and> distinct (List.map_filter gm_canonical_url gs)
     \<and> distinct (List.map_filter (\<lambda>g. map_option (Pair (gm_provider g)) (gm_provider_game_id g)) gs)"

definition merge_game :: "game_facts \<Rightarrow> string option \<Rightarrow> string option \<Rightarrow> game_rec \<Rightarrow> game_rec" where
  "merge_game f eco opening g = (let r = (\<lambda>k. k \<in> set (gf_replace f)) in
     g\<lparr>gm_provider_game_id := merged False (gf_provider_game_id f) (gm_provider_game_id g),
       gm_canonical_url := merged False (gf_canonical_url f) (gm_canonical_url g), gm_content_hash := gf_content_hash f,
       gm_variant_id := gf_variant_id f, gm_time_control_id := gf_time_control_id f, gm_rated := gf_rated f,
       gm_outcome := gf_outcome f, gm_is_live := gf_is_live f, gm_status_raw := gf_status_raw f,
       gm_created_at := merged (r ''created_at'') (gf_created_at f) (gm_created_at g),
       gm_ended_at := merged (r ''ended_at'') (gf_ended_at f) (gm_ended_at g),
       gm_eco := merged (r ''eco'') eco (gm_eco g),
       gm_opening_name := merged (r ''opening_name'') opening (gm_opening_name g),
       gm_opening_ply := merged (r ''opening_ply'') (gf_opening_ply f) (gm_opening_ply g)\<rparr>)"

definition new_game :: "game_facts \<Rightarrow> string option \<Rightarrow> string option \<Rightarrow> int \<Rightarrow> int \<Rightarrow> game_rec" where
  "new_game f eco opening i first_at = \<lparr>gm_id = i, gm_provider = gf_provider f, gm_provider_game_id = gf_provider_game_id f,
     gm_canonical_url = gf_canonical_url f, gm_content_hash = gf_content_hash f, gm_variant_id = gf_variant_id f,
     gm_time_control_id = gf_time_control_id f, gm_rated = gf_rated f, gm_outcome = gf_outcome f, gm_is_live = gf_is_live f,
     gm_status_raw = gf_status_raw f, gm_created_at = gf_created_at f, gm_ended_at = gf_ended_at f, gm_ply_count = None, gm_eco = eco,
     gm_opening_name = opening, gm_opening_ply = gf_opening_ply f, gm_tournament_ref = None, gm_first_seen_at = first_at,
     gm_current_version_id = None\<rparr>"

definition outcome_check :: "string option \<Rightarrow> bool" where
  "outcome_check r \<longleftrightarrow> (case r of None \<Rightarrow> True | Some x \<Rightarrow> x \<in> set OUTCOMES)"

definition upsert_game :: "adapter \<Rightarrow> game_facts \<Rightarrow> int \<Rightarrow> int \<Rightarrow> catalog \<Rightarrow> (catalog \<times> int) result" where
  "upsert_game ad f now current ct =
     rbind (ad (gf_eco f)) (\<lambda>eco. rbind (ad (gf_opening_name f)) (\<lambda>opening.
     if \<not> outcome_check (gf_outcome f) then Inl (DatabaseError ''games_outcome_check'')
     else case find_existing_game ct (gf_provider f) (gf_provider_game_id f) (gf_canonical_url f) (gf_content_hash f) of
       None \<Rightarrow> let i = ct_next_game ct in
         Inr (ct\<lparr>ct_games := ct_games ct @ [new_game f eco opening i (if now \<noteq> 0 then now else current)], ct_next_game := i + 1\<rparr>, i)
     | Some g \<Rightarrow> let gs = update_where (\<lambda>x. gm_id x = gm_id g) (merge_game f eco opening) (ct_games ct) in
         if game_keys_unique gs then Inr (ct\<lparr>ct_games := gs\<rparr>, gm_id g) else Inl (DatabaseError ''ux_games'')))"

section \<open>Participants and ratings\<close>

record seat_facts =
  sf_provider_user_id :: "int option"
  sf_username_normalized :: "string option"
  sf_result_raw :: "string option"
  sf_is_winner :: "bool option"
  sf_is_ai :: bool
  sf_replace_result_raw :: bool

definition at_seat :: "int \<Rightarrow> string \<Rightarrow> seat \<Rightarrow> bool" where
  "at_seat game color p \<longleftrightarrow> se_game_id p = game \<and> se_color p = color"

definition merge_seat :: "seat_facts \<Rightarrow> seat \<Rightarrow> seat" where
  "merge_seat f p = p\<lparr>se_provider_user_id := merged False (sf_provider_user_id f) (se_provider_user_id p),
     se_username_normalized := merged False (sf_username_normalized f) (se_username_normalized p),
     se_result_raw := merged (sf_replace_result_raw f) (sf_result_raw f) (se_result_raw p),
     se_is_winner := sf_is_winner f, se_is_ai := sf_is_ai f\<rparr>"

definition upsert_game_participant :: "int \<Rightarrow> string \<Rightarrow> seat_facts \<Rightarrow> catalog \<Rightarrow> catalog \<times> int" where
  "upsert_game_participant game color f ct = (case find_row (at_seat game color) (ct_seats ct) of
       Some p \<Rightarrow> (ct\<lparr>ct_seats := update_where (at_seat game color) (merge_seat f) (ct_seats ct)\<rparr>, se_id p)
     | None \<Rightarrow> (ct\<lparr>ct_seats := ct_seats ct @ [\<lparr>se_id = ct_next_seat ct, se_game_id = game, se_color = color,
         se_provider_user_id = sf_provider_user_id f, se_username_normalized = sf_username_normalized f,
         se_result_raw = sf_result_raw f, se_is_winner = sf_is_winner f, se_is_ai = sf_is_ai f\<rparr>],
         ct_next_seat := ct_next_seat ct + 1\<rparr>, ct_next_seat ct))"

definition upsert_rating_at_game :: "game_rating \<Rightarrow> catalog \<Rightarrow> catalog" where
  "upsert_rating_at_game r ct = (let same = (\<lambda>x. rg_game_id x = rg_game_id r \<and> rg_color x = rg_color r) in
     if find_row same (ct_game_ratings ct) \<noteq> None then ct\<lparr>ct_game_ratings := update_where same (\<lambda>_. r) (ct_game_ratings ct)\<rparr>
     else ct\<lparr>ct_game_ratings := ct_game_ratings ct @ [r]\<rparr>)"

section \<open>Revisions\<close>

definition revision_hash :: "(string \<Rightarrow> string) \<Rightarrow> norm_game \<Rightarrow> string" where
  "revision_hash sha game = canonical_hash sha (JObj [(''source'', JObj (ng_source_data game)), (''pgn'', json_text (ng_pgn game)),
     (''game_hash'', JStr (ng_content_hash game))])"

definition reusable_game_sources :: "(string \<Rightarrow> string) \<Rightarrow> catalog \<Rightarrow> int \<Rightarrow> (string \<times> norm_game) list \<Rightarrow> string list" where
  "reusable_game_sources sha ct raw games = map fst (filter (\<lambda>(pointer, game).
     list_ex (\<lambda>s. vs_raw_payload_id s = raw \<and> vs_json_pointer s = pointer
       \<and> list_ex (\<lambda>v. gv_id v = vs_version_id s \<and> gv_parser_version v = EVIDENCE_VERSION \<and> gv_content_hash v = revision_hash sha game)
           (ct_versions ct)) (ct_version_sources ct)) games)"

text \<open>The observations of a game's revisions: a source's payload with each successful fetch of it.\<close>

definition version_observations :: "arch \<Rightarrow> catalog \<Rightarrow> int \<Rightarrow> ((raw_row \<times> fetch_log option) \<times> int) list" where
  "version_observations a ct game = concat (map (\<lambda>v. concat (map (\<lambda>s.
      concat (map (\<lambda>w. map (\<lambda>rf. (rf, gv_id v)) (with_logs success (ar_logs a) w)) (filter (\<lambda>w. rw_id w = vs_raw_payload_id s) (ar_raw a))))
      (filter (\<lambda>s. vs_version_id s = gv_id v) (ct_version_sources ct)))) (filter (\<lambda>v. gv_game_id v = game) (ct_versions ct)))"

definition newest_version :: "arch \<Rightarrow> catalog \<Rightarrow> int \<Rightarrow> int option" where
  "newest_version a ct game = map_option snd (last_by (\<lambda>(rf, v). (observation_order rf, v)) (version_observations a ct game))"

definition version_by_id :: "catalog \<Rightarrow> int \<Rightarrow> game_version option" where
  "version_by_id ct i = find_row (\<lambda>v. gv_id v = i) (ct_versions ct)"

definition same_revision :: "int \<Rightarrow> string \<Rightarrow> game_version \<Rightarrow> bool" where
  "same_revision game hash v \<longleftrightarrow> gv_game_id v = game \<and> gv_content_hash v = hash \<and> gv_parser_version v = EVIDENCE_VERSION"

definition add_revision :: "int \<Rightarrow> string \<Rightarrow> int \<Rightarrow> game_evidence \<Rightarrow> catalog \<Rightarrow> catalog \<times> int" where
  "add_revision game hash fetched_at e ct = (ct\<lparr>ct_versions := ct_versions ct @ [\<lparr>gv_id = ct_next_version ct, gv_game_id = game,
     gv_content_hash = hash, gv_parser_version = EVIDENCE_VERSION, gv_first_seen_at = fetched_at, gv_evidence = e\<rparr>],
     ct_next_version := ct_next_version ct + 1\<rparr>, ct_next_version ct)"

definition add_version_source :: "version_source \<Rightarrow> catalog \<Rightarrow> catalog" where
  "add_version_source s ct = (if list_ex (\<lambda>x. vs_version_id x = vs_version_id s \<and> vs_raw_payload_id x = vs_raw_payload_id s
       \<and> vs_json_pointer x = vs_json_pointer s) (ct_version_sources ct) then ct
     else ct\<lparr>ct_version_sources := ct_version_sources ct @ [s]\<rparr>)"

definition set_current_version :: "arch \<Rightarrow> int \<Rightarrow> catalog \<Rightarrow> catalog" where
  "set_current_version a game ct =
     (let cur = newest_version a ct game;
          ply = (case Option.bind cur (version_by_id ct) of
              Some v \<Rightarrow> if ev_parse_status (gv_evidence v) = ''complete'' then Some (int (played_ply_count (gv_evidence v))) else None
            | None \<Rightarrow> None) in
      ct\<lparr>ct_games := update_where (\<lambda>g. gm_id g = game)
        (\<lambda>g. g\<lparr>gm_current_version_id := cur, gm_ply_count := merged False ply (gm_ply_count g)\<rparr>) (ct_games ct)\<rparr>)"

definition store_game_evidence ::
  "(string \<Rightarrow> string) \<Rightarrow> arch \<Rightarrow> int \<Rightarrow> norm_game \<Rightarrow> int \<Rightarrow> string \<Rightarrow> int \<Rightarrow> game_evidence option \<Rightarrow> catalog \<Rightarrow> (catalog \<times> int) result" where
  "store_game_evidence sha a game_id game raw pointer fetched_at evidence ct =
     (let hash = revision_hash sha game in
      rbind (case find_row (same_revision game_id hash) (ct_versions ct) of
          Some v \<Rightarrow> Inr (ct, gv_id v)
        | None \<Rightarrow> (case evidence of
            None \<Rightarrow> Inl (EvidencePreparationRequired ''Game evidence must be prepared before persistence'')
          | Some e \<Rightarrow> Inr (add_revision game_id hash fetched_at e ct))) (\<lambda>(ct1, version).
      Inr (set_current_version a game_id (add_version_source \<lparr>vs_version_id = version, vs_raw_payload_id = raw,
        vs_json_pointer = pointer, vs_first_seen_at = fetched_at\<rparr> ct1), version)))"

text \<open>
  The newest observation among a payload and the sources of an entity: \<open>is_latest_game_source\<close> with
  the records of a game, and the recency of a full profile with those of a user's profiles.
\<close>

definition latest_among :: "arch \<Rightarrow> (source_record \<Rightarrow> bool) \<Rightarrow> int \<Rightarrow> int option" where
  "latest_among a p raw = map_option (\<lambda>rf. rw_id (fst rf)) (last_by observation_order (concat (map (with_logs success (ar_logs a))
     (filter (\<lambda>w. rw_id w = raw \<or> list_ex (\<lambda>s. p s \<and> sr_raw_payload_id s = rw_id w) (ar_sources a)) (ar_raw a)))))"

definition is_latest_game_source :: "arch \<Rightarrow> int \<Rightarrow> int \<Rightarrow> bool" where
  "is_latest_game_source a game raw \<longleftrightarrow> latest_among a (\<lambda>s. sr_entity_type s = ''game'' \<and> sr_entity_id s = game) raw = Some raw"

definition game_source_needs_refresh :: "arch \<Rightarrow> catalog \<Rightarrow> int \<Rightarrow> int \<Rightarrow> bool" where
  "game_source_needs_refresh a ct game raw \<longleftrightarrow>
     \<not> list_ex (\<lambda>g. gm_id g = game \<and> list_ex (\<lambda>s. Some (vs_version_id s) = gm_current_version_id g \<and> vs_raw_payload_id s = raw)
        (ct_version_sources ct)) (ct_games ct)
     \<and> is_latest_game_source a game raw"

section \<open>Export\<close>

definition newline :: string where
  "newline = [CHR 0x0A]"

fun export_tokens :: "bool \<Rightarrow> pgn_token list \<Rightarrow> string" where
  "export_tokens in_headers [] = []"
| "export_tokens in_headers (t # ts) =
     (let kind = tk_kind t; txt = tk_token_text t in
      if kind = ''byte_order_mark'' then txt @ export_tokens in_headers ts
      else if kind = ''header'' then txt @ newline @ export_tokens in_headers ts
      else (if in_headers then newline else [])
        @ (if kind = ''escape'' then newline @ txt @ newline
           else if kind = ''comment_eol'' then txt @ newline else txt @ '' '') @ export_tokens False ts)"

definition selected_version :: "catalog \<Rightarrow> int \<Rightarrow> int option \<Rightarrow> game_version option" where
  "selected_version ct game version = (case find_row (\<lambda>g. gm_id g = game) (ct_games ct) of
       None \<Rightarrow> None
     | Some g \<Rightarrow> (case (if version \<noteq> None then version else gm_current_version_id g) of
         None \<Rightarrow> None | Some i \<Rightarrow> find_row (\<lambda>v. gv_id v = i \<and> gv_game_id v = game) (ct_versions ct)))"

definition export_game_version_pgn :: "catalog \<Rightarrow> int \<Rightarrow> int option \<Rightarrow> bool \<Rightarrow> string result" where
  "export_game_version_pgn ct game version allow_partial = (case selected_version ct game version of
       None \<Rightarrow> Inl (ValueError ''Game evidence version does not exist'')
     | Some v \<Rightarrow>
         if ev_parse_status (gv_evidence v) \<noteq> ''complete'' \<and> \<not> allow_partial
         then Inl (ValueError ''Game evidence is not completely interpreted; explicit partial export is required'')
         else if ev_tokens (gv_evidence v) = [] then Inl (ValueError ''Game move evidence is unavailable'')
         else Inr (strip (export_tokens True (ev_tokens (gv_evidence v))) @ newline))"

end
