(* ===== verification/Identities.thy ===== *)
theory Identities
  imports Games
begin

text \<open>
  Player identities (storage/repository.py) and the evidence that follows them
  (storage/player_profiles.py): observations of a name and a stable provider id are merged into one row
  per account; a placeholder known by name only is absorbed by the account that proves to own the
  name, with its games, snapshots, observations, aliases, attempts and discovery edges. The advisory
  gate of a provider is a mode the caller holds; row and name locks serialize and are not modelled.
\<close>

section \<open>Optional times\<close>

text \<open>\<open>LEAST\<close> and \<open>GREATEST\<close> ignore nulls.\<close>

definition least_time :: "int option \<Rightarrow> int option \<Rightarrow> int option" where
  "least_time a b = (case (a, b) of (Some x, Some y) \<Rightarrow> Some (min x y) | (None, y) \<Rightarrow> y | (x, None) \<Rightarrow> x)"

definition greatest_time :: "int option \<Rightarrow> int option \<Rightarrow> int option" where
  "greatest_time a b = (case (a, b) of (Some x, Some y) \<Rightarrow> Some (max x y) | (None, y) \<Rightarrow> y | (x, None) \<Rightarrow> x)"

definition on_catalog :: "(catalog \<Rightarrow> catalog) \<Rightarrow> site \<Rightarrow> site" where
  "on_catalog f s = s\<lparr>si_catalog := f (si_catalog s)\<rparr>"

definition on_arch :: "(arch \<Rightarrow> arch) \<Rightarrow> site \<Rightarrow> site" where
  "on_arch f s = s\<lparr>si_arch := f (si_arch s)\<rparr>"

section \<open>Aliases\<close>

definition same_alias :: "int \<Rightarrow> string \<Rightarrow> alias_row \<Rightarrow> bool" where
  "same_alias user name a \<longleftrightarrow> al_provider_user_id a = user \<and> al_username_normalized a = name"

definition merge_alias :: "alias_row \<Rightarrow> alias_row \<Rightarrow> alias_row" where
  "merge_alias new old = old\<lparr>
     al_display_username := (if al_last_seen_at old \<le> al_last_seen_at new then al_display_username new else al_display_username old),
     al_first_seen_at := min (al_first_seen_at old) (al_first_seen_at new),
     al_last_seen_at := max (al_last_seen_at old) (al_last_seen_at new),
     al_raw_payload_id := (if al_last_seen_at old \<le> al_last_seen_at new then al_raw_payload_id new else al_raw_payload_id old)\<rparr>"

definition seen_between :: "int \<Rightarrow> int option \<Rightarrow> int option \<Rightarrow> catalog \<Rightarrow> catalog" where
  "seen_between user first_at last_at ct = ct\<lparr>ct_players := update_where (\<lambda>p. pl_id p = user)
     (\<lambda>p. p\<lparr>pl_first_seen_at := least_time (pl_first_seen_at p) first_at, pl_updated_at := greatest_time (pl_updated_at p) last_at\<rparr>)
     (ct_players ct)\<rparr>"

definition record_alias :: "int \<Rightarrow> string \<Rightarrow> int \<Rightarrow> int option \<Rightarrow> int option \<Rightarrow> catalog \<Rightarrow> catalog" where
  "record_alias user username observed_at raw first_observed_at ct =
     (let first_at = (case first_observed_at of None \<Rightarrow> observed_at | Some f \<Rightarrow> min f observed_at);
          new = \<lparr>al_provider_user_id = user, al_username_normalized = lower (strip username), al_display_username = username,
            al_first_seen_at = first_at, al_last_seen_at = observed_at, al_raw_payload_id = raw\<rparr>;
          same = same_alias user (lower (strip username)) in
      seen_between user (Some first_at) (Some observed_at)
        (if find_row same (ct_aliases ct) \<noteq> None then ct\<lparr>ct_aliases := update_where same (merge_alias new) (ct_aliases ct)\<rparr>
         else ct\<lparr>ct_aliases := ct_aliases ct @ [new]\<rparr>))"

section \<open>Merging evidence\<close>

definition merge_source :: "source_record \<Rightarrow> source_record \<Rightarrow> source_record" where
  "merge_source new old = old\<lparr>sr_first_seen_at := min (sr_first_seen_at old) (sr_first_seen_at new),
     sr_source_key := merged False (sr_source_key old) (sr_source_key new),
     sr_json_pointer := merged False (sr_json_pointer old) (sr_json_pointer new)\<rparr>"

definition adopt_source :: "source_record \<Rightarrow> arch \<Rightarrow> arch" where
  "adopt_source new a =
     (let same = (\<lambda>s. sr_entity_type s = sr_entity_type new \<and> sr_entity_id s = sr_entity_id new \<and> sr_raw_payload_id s = sr_raw_payload_id new) in
      if find_row same (ar_sources a) \<noteq> None then a\<lparr>ar_sources := update_where same (merge_source new) (ar_sources a)\<rparr>
      else a\<lparr>ar_sources := ar_sources a @ [new\<lparr>sr_id := ar_next_source a\<rparr>], ar_next_source := ar_next_source a + 1\<rparr>)"

definition merge_source_records :: "string \<Rightarrow> int \<Rightarrow> int \<Rightarrow> arch \<Rightarrow> arch" where
  "merge_source_records entity survivor replaced a =
     (let mine = (\<lambda>s. sr_entity_type s = entity \<and> sr_entity_id s = replaced);
          a' = foldl (\<lambda>a s. adopt_source (s\<lparr>sr_entity_id := survivor\<rparr>) a) a (filter mine (ar_sources a)) in
      a'\<lparr>ar_sources := filter (\<lambda>s. \<not> mine s) (ar_sources a')\<rparr>)"

definition attempt_key :: "resource_attempt \<Rightarrow> int \<times> string \<times> string \<times> string" where
  "attempt_key t = (at_provider_user_id t, at_owner_scope t, at_resource_key t, at_parameters_hash t)"

text \<open>An attempt replaces an older one of the same resource; the parameters stay.\<close>

definition upsert_attempt :: "resource_attempt \<Rightarrow> resource_attempt list \<Rightarrow> resource_attempt list" where
  "upsert_attempt new ts = (case find_row (\<lambda>t. attempt_key t = attempt_key new) ts of
       None \<Rightarrow> ts @ [new]
     | Some old \<Rightarrow> if at_attempted_at old \<le> at_attempted_at new
         then update_where (\<lambda>t. attempt_key t = attempt_key new) (\<lambda>t. new\<lparr>at_parameters := at_parameters t\<rparr>) ts else ts)"

definition merge_aliases :: "int \<Rightarrow> int \<Rightarrow> catalog \<Rightarrow> catalog" where
  "merge_aliases survivor replaced ct =
     (let ct' = foldl (\<lambda>ct a. record_alias survivor (al_display_username a) (al_last_seen_at a) (al_raw_payload_id a) None
            (record_alias survivor (al_display_username a) (al_first_seen_at a) (al_raw_payload_id a) None ct)) ct
            (filter (\<lambda>a. al_provider_user_id a = replaced) (ct_aliases ct)) in
      ct'\<lparr>ct_aliases := filter (\<lambda>a. al_provider_user_id a \<noteq> replaced) (ct_aliases ct')\<rparr>)"

definition merge_attempts :: "int \<Rightarrow> int \<Rightarrow> catalog \<Rightarrow> catalog" where
  "merge_attempts survivor replaced ct =
     (let moved = map (\<lambda>t. t\<lparr>at_provider_user_id := survivor\<rparr>) (filter (\<lambda>t. at_provider_user_id t = replaced) (ct_attempts ct)) in
      ct\<lparr>ct_attempts := filter (\<lambda>t. at_provider_user_id t \<noteq> replaced) (foldl (\<lambda>ts t. upsert_attempt t ts) (ct_attempts ct) moved)\<rparr>)"

definition resource_identity :: "resource_snapshot \<Rightarrow> string \<times> string \<times> string \<times> string" where
  "resource_identity r = (rn_owner_scope r, rn_resource_key r, rn_parameters_hash r, rn_content_hash r)"

definition merge_resource :: "int \<Rightarrow> resource_snapshot \<Rightarrow> site \<Rightarrow> site" where
  "merge_resource survivor r s =
     (case find_row (\<lambda>x. rn_provider_user_id x = survivor \<and> resource_identity x = resource_identity r) (ct_resources (si_catalog s)) of
        None \<Rightarrow> on_catalog (\<lambda>ct. ct\<lparr>ct_resources := update_where (\<lambda>x. rn_id x = rn_id r) (\<lambda>x. x\<lparr>rn_provider_user_id := survivor\<rparr>)
          (ct_resources ct)\<rparr>) s
      | Some keep \<Rightarrow> on_catalog (\<lambda>ct. ct\<lparr>
            ct_resource_observations := update_where (\<lambda>o'. ro_snapshot_id o' = rn_id r) (\<lambda>o'. o'\<lparr>ro_snapshot_id := rn_id keep\<rparr>)
              (ct_resource_observations ct),
            ct_history_points := filter (\<lambda>h. fst h \<noteq> rn_id r) (ct_history_points ct),
            ct_resources := filter (\<lambda>x. rn_id x \<noteq> rn_id r) (ct_resources ct)\<rparr>)
          (on_arch (merge_source_records ''user_resource'' (rn_id keep) (rn_id r)) s))"

definition merge_player_evidence :: "int \<Rightarrow> int \<Rightarrow> site \<Rightarrow> site" where
  "merge_player_evidence survivor replaced s =
     (let s1 = on_arch (\<lambda>a. a\<lparr>ar_logs := update_where (\<lambda>f. fl_provider_user_id f = Some replaced)
            (\<lambda>f. f\<lparr>fl_provider_user_id := Some survivor\<rparr>) (ar_logs a)\<rparr>) s;
          s2 = on_catalog (merge_aliases survivor replaced) s1;
          s3 = on_catalog (\<lambda>ct. ct\<lparr>ct_observations := update_where (\<lambda>o'. uo_provider_user_id o' = replaced)
            (\<lambda>o'. o'\<lparr>uo_provider_user_id := survivor\<rparr>) (ct_observations ct)\<rparr>) s2;
          s4 = on_catalog (merge_attempts survivor replaced) s3 in
      foldl (\<lambda>s r. merge_resource survivor r s) s4 (filter (\<lambda>r. rn_provider_user_id r = replaced) (ct_resources (si_catalog s4))))"

section \<open>Merging a placeholder\<close>

definition merge_snapshot :: "int \<Rightarrow> user_snapshot \<Rightarrow> site \<Rightarrow> site" where
  "merge_snapshot survivor n s =
     (case find_row (\<lambda>x. us_provider_user_id x = survivor \<and> us_content_hash x = us_content_hash n) (ct_snapshots (si_catalog s)) of
        None \<Rightarrow> on_catalog (\<lambda>ct. ct\<lparr>ct_snapshots := update_where (\<lambda>x. us_id x = us_id n) (\<lambda>x. x\<lparr>us_provider_user_id := survivor\<rparr>)
          (ct_snapshots ct)\<rparr>) s
      | Some keep \<Rightarrow>
          let newer = (sv_captured_at (us_values keep) \<le> sv_captured_at (us_values n));
              s1 = (if newer then on_catalog (\<lambda>ct. ct\<lparr>ct_snapshots := update_where (\<lambda>x. us_id x = us_id keep)
                  (\<lambda>x. x\<lparr>us_values := us_values n, us_facts := us_facts n\<rparr>) (ct_snapshots ct)\<rparr>) s else s);
              s2 = on_arch (merge_source_records ''user_snapshot'' (us_id keep) (us_id n)) s1 in
          on_catalog (\<lambda>ct. let have = map ur_performance (filter (\<lambda>r. ur_snapshot_id r = us_id keep) (ct_ratings ct)) in ct\<lparr>
            ct_observations := update_where (\<lambda>o'. uo_snapshot_id o' = us_id n) (\<lambda>o'. o'\<lparr>uo_snapshot_id := us_id keep\<rparr>) (ct_observations ct),
            ct_ratings := filter (\<lambda>r. ur_snapshot_id r \<noteq> us_id n) (ct_ratings ct)
              @ map (\<lambda>r. r\<lparr>ur_snapshot_id := us_id keep\<rparr>)
                  (filter (\<lambda>r. ur_snapshot_id r = us_id n \<and> ur_performance r \<notin> set have) (ct_ratings ct)),
            ct_snapshots := filter (\<lambda>x. us_id x \<noteq> us_id n) (ct_snapshots ct)\<rparr>) s2)"

text \<open>The games two accounts played against each other.\<close>

definition known_games :: "catalog \<Rightarrow> string \<Rightarrow> int \<Rightarrow> int \<Rightarrow> int" where
  "known_games ct provider source target = int (length (filter (\<lambda>g. gm_provider g = provider
     \<and> list_ex (\<lambda>a. se_game_id a = gm_id g \<and> se_provider_user_id a = Some source
         \<and> list_ex (\<lambda>b. se_game_id b = gm_id g \<and> se_provider_user_id b = Some target \<and> se_color b \<noteq> se_color a) (ct_seats ct)) (ct_seats ct))
     (ct_games ct)))"

definition merge_edge_pair :: "edge_row \<Rightarrow> edge_row \<Rightarrow> int \<Rightarrow> edge_row \<Rightarrow> edge_row" where
  "merge_edge_pair e m known x =
     (let first = (ed_first_seen_at e < ed_first_seen_at m \<or> ed_first_seen_at e = ed_first_seen_at m \<and> ed_id e \<le> ed_id m);
          earlier = (if first then e else m); later = (if first then m else e) in
      x\<lparr>ed_game_count := max (ed_game_count x) (max (ed_game_count e) known), ed_depth := min (ed_depth x) (ed_depth e),
        ed_first_seen_at := min (ed_first_seen_at x) (ed_first_seen_at e),
        ed_crawl_run_id := merged False (ed_crawl_run_id earlier) (ed_crawl_run_id later),
        ed_via_game_id := merged False (ed_via_game_id earlier) (ed_via_game_id later)\<rparr>)"

definition merge_edge :: "int \<Rightarrow> int \<Rightarrow> edge_row \<Rightarrow> site \<times> int list \<Rightarrow> site \<times> int list" where
  "merge_edge survivor replaced e sr = (case sr of (s, runs) \<Rightarrow>
     let d = si_db s; source = (if ed_from_user_id e = replaced then survivor else ed_from_user_id e);
         target = (if ed_to_user_id e = replaced then survivor else ed_to_user_id e) in
     case find_row (\<lambda>x. ed_provider x = ed_provider e \<and> ed_from_user_id x = source \<and> ed_to_user_id x = target \<and> ed_id x \<noteq> ed_id e) (db_edges d) of
       None \<Rightarrow> (s\<lparr>si_db := d\<lparr>db_edges := update_where (\<lambda>x. ed_id x = ed_id e)
           (\<lambda>x. x\<lparr>ed_from_user_id := source, ed_to_user_id := target\<rparr>) (db_edges d)\<rparr>\<rparr>, runs)
     | Some m \<Rightarrow>
         let affected = map fst (filter (\<lambda>re. snd re = ed_id e \<or> snd re = ed_id m) (db_run_edges d));
             known = known_games (si_catalog s) (ed_provider e) source target;
             edges = filter (\<lambda>x. ed_id x \<noteq> ed_id e) (update_where (\<lambda>x. ed_id x = ed_id m) (merge_edge_pair e m known) (db_edges d));
             rest = filter (\<lambda>re. snd re \<noteq> ed_id e) (db_run_edges d);
             gained = filter (\<lambda>re. re \<notin> set rest) (remdups (map (\<lambda>re. (fst re, ed_id m)) (filter (\<lambda>re. snd re = ed_id e) (db_run_edges d)))) in
         (s\<lparr>si_db := d\<lparr>db_edges := edges, db_run_edges := rest @ gained\<rparr>\<rparr>, runs @ affected))"

definition merge_user_edges :: "int \<Rightarrow> int \<Rightarrow> site \<Rightarrow> site \<times> int list" where
  "merge_user_edges survivor replaced s =
     foldl (\<lambda>sr e. merge_edge survivor replaced e sr) (s, [])
       (sort_key ed_id (filter (\<lambda>e. ed_from_user_id e = replaced \<or> ed_to_user_id e = replaced) (db_edges (si_db s))))"

definition player_by_id :: "catalog \<Rightarrow> int \<Rightarrow> player option" where
  "player_by_id ct i = find_row (\<lambda>p. pl_id p = i) (ct_players ct)"

definition recount_runs :: "int list \<Rightarrow> site \<Rightarrow> site" where
  "recount_runs runs s = foldl (\<lambda>s r. s\<lparr>si_db := update_crawl_run (si_conn s) r None (Some (run_counters (si_db s) r)) False None (si_db s)\<rparr>)
     s (sort (remdups runs))"

definition drop_player :: "int \<Rightarrow> int \<Rightarrow> catalog \<Rightarrow> catalog" where
  "drop_player survivor replaced ct =
     (let old = player_by_id ct replaced;
          ct' = seen_between survivor (Option.bind old pl_first_seen_at) (Option.bind old pl_updated_at) ct in
      ct'\<lparr>ct_players := filter (\<lambda>p. pl_id p \<noteq> replaced) (ct_players ct')\<rparr>)"

definition merge_user_placeholder :: "int \<Rightarrow> int \<Rightarrow> site \<Rightarrow> site" where
  "merge_user_placeholder survivor replaced s =
     (let s1 = on_catalog (\<lambda>ct. ct\<lparr>ct_seats := update_where (\<lambda>p. se_provider_user_id p = Some replaced)
            (\<lambda>p. p\<lparr>se_provider_user_id := Some survivor\<rparr>) (ct_seats ct)\<rparr>) s;
          s2 = merge_player_evidence survivor replaced s1;
          s3 = foldl (\<lambda>s n. merge_snapshot survivor n s) s2 (filter (\<lambda>n. us_provider_user_id n = replaced) (ct_snapshots (si_catalog s2)));
          (s4, runs) = merge_user_edges survivor replaced (on_arch (merge_source_records ''user'' survivor replaced) s3) in
      recount_runs runs (on_catalog (drop_player survivor replaced) s4))"

section \<open>The provider's gate\<close>

datatype gate = Open | Shared | Exclusive

definition player_named :: "catalog \<Rightarrow> string \<Rightarrow> string \<Rightarrow> player option" where
  "player_named ct provider name = find_row (\<lambda>p. pl_provider p = provider \<and> pl_username_normalized p = name) (ct_players ct)"

definition player_identified :: "catalog \<Rightarrow> string \<Rightarrow> string option \<Rightarrow> player option" where
  "player_identified ct provider stable_id = (case stable_id of
       None \<Rightarrow> None | Some _ \<Rightarrow> find_row (\<lambda>p. pl_provider p = provider \<and> pl_provider_user_id p = stable_id) (ct_players ct))"

definition identity_needs_reconciliation :: "catalog \<Rightarrow> string \<Rightarrow> string \<times> string option \<Rightarrow> bool" where
  "identity_needs_reconciliation ct provider account = (case player_identified ct provider (snd account) of
       None \<Rightarrow> False | Some p \<Rightarrow> pl_username_normalized p \<noteq> lower (strip (fst account)))"

text \<open>
  \<open>_reconciliation_transaction\<close>: the gate its body runs under. A shared gate is enough unless an account is
  renamed; then the transaction starts again with the exclusive gate, unless the session already
  holds the shared one.
\<close>

definition reconciliation_gate :: "gate \<Rightarrow> catalog \<Rightarrow> string \<Rightarrow> (string \<times> string option) list \<Rightarrow> gate result" where
  "reconciliation_gate held ct provider accounts =
     (if held = Exclusive then Inr Exclusive
      else if list_ex (identity_needs_reconciliation ct provider) accounts
      then (if held = Shared then Inl (ValueError ''Rename reconciliation requires the identity transaction before other provider locks'')
            else Inr Exclusive)
      else Inr Shared)"

section \<open>Upserts\<close>

record identity_facts =
  if_provider :: string
  if_username :: string
  if_provider_user_id :: "string option"
  if_display_username :: "string option"
  if_account_status :: json
  if_title :: json
  if_now :: int
  if_profile_raw_payload_id :: "int option"

definition is_latest_profile :: "arch \<Rightarrow> int \<Rightarrow> int \<Rightarrow> bool" where
  "is_latest_profile a user raw \<longleftrightarrow> latest_among a
     (\<lambda>s. sr_entity_type s = ''user'' \<and> sr_entity_id s = user \<and> sr_endpoint_type s = ''user_profile'') raw = Some raw"

definition conflicting_ids :: "string \<Rightarrow> string \<Rightarrow> pyerr" where
  "conflicting_ids provider name = ValueError (''Cannot reconcile '' @ provider @ ''/'' @ name @ '': conflicting provider user IDs'')"

definition player_keys_unique :: "player list \<Rightarrow> bool" where
  "player_keys_unique ps \<longleftrightarrow> distinct (map (\<lambda>p. (pl_provider p, pl_username_normalized p)) ps)
     \<and> distinct (List.map_filter (\<lambda>p. map_option (Pair (pl_provider p)) (pl_provider_user_id p)) ps)"

definition display_of :: "identity_facts \<Rightarrow> string" where
  "display_of f = (case if_display_username f of Some (c # cs) \<Rightarrow> c # cs | _ \<Rightarrow> if_username f)"

definition updated_player :: "identity_facts \<Rightarrow> string option \<Rightarrow> string option \<Rightarrow> player \<Rightarrow> player" where
  "updated_player f status title p = (let full = (if_profile_raw_payload_id f \<noteq> None) in
     p\<lparr>pl_provider_user_id := merged False (if_provider_user_id f) (pl_provider_user_id p),
       pl_username_normalized := lower (strip (if_username f)), pl_display_username := display_of f,
       pl_account_status := merged full status (pl_account_status p), pl_title := merged full title (pl_title p),
       pl_first_seen_at := least_time (pl_first_seen_at p) (Some (if_now f)),
       pl_updated_at := greatest_time (pl_updated_at p) (Some (if_now f))\<rparr>)"

definition update_player :: "adapter \<Rightarrow> identity_facts \<Rightarrow> int \<Rightarrow> site \<Rightarrow> (site \<times> int) result" where
  "update_player ad f user s =
     rbind (ad (if_account_status f)) (\<lambda>status. rbind (ad (if_title f)) (\<lambda>title.
     let ps = update_where (\<lambda>p. pl_id p = user) (updated_player f status title) (ct_players (si_catalog s)) in
     if player_keys_unique ps then Inr (on_catalog (\<lambda>ct. ct\<lparr>ct_players := ps\<rparr>) s, user) else Inl (DatabaseError ''ux_pu_provider'')))"

definition insert_player :: "player \<Rightarrow> site \<Rightarrow> (site \<times> int) result" where
  "insert_player p s = (let i = ct_next_player (si_catalog s); ps = ct_players (si_catalog s) @ [p\<lparr>pl_id := i\<rparr>] in
     if player_keys_unique ps then Inr (on_catalog (\<lambda>ct. ct\<lparr>ct_players := ps, ct_next_player := i + 1\<rparr>) s, i)
     else Inl (DatabaseError ''ux_pu_provider''))"

definition new_player :: "identity_facts \<Rightarrow> string option \<Rightarrow> string option \<Rightarrow> player" where
  "new_player f status title = \<lparr>pl_id = 0, pl_provider = if_provider f, pl_provider_user_id = if_provider_user_id f,
     pl_username_normalized = lower (strip (if_username f)), pl_display_username = display_of f, pl_account_status = status,
     pl_title = title, pl_first_seen_at = Some (if_now f), pl_updated_at = Some (if_now f)\<rparr>"

text \<open>What an observation of an existing account does: nothing when it is stale, or an update after absorbing a placeholder.\<close>

definition stale_profile :: "arch \<Rightarrow> identity_facts \<Rightarrow> int \<Rightarrow> bool" where
  "stale_profile a f user \<longleftrightarrow> (case if_profile_raw_payload_id f of None \<Rightarrow> False | Some raw \<Rightarrow> \<not> is_latest_profile a user raw)"

definition stale_observation :: "identity_facts \<Rightarrow> player \<Rightarrow> bool" where
  "stale_observation f p \<longleftrightarrow> if_profile_raw_payload_id f = None
     \<and> (case pl_updated_at p of None \<Rightarrow> False | Some t \<Rightarrow> if_now f < t)"

definition absorb_named :: "adapter \<Rightarrow> identity_facts \<Rightarrow> player \<Rightarrow> player \<Rightarrow> site \<Rightarrow> (site \<times> int) result" where
  "absorb_named ad f p n s =
     (if pl_provider_user_id n \<noteq> None then Inl (conflicting_ids (if_provider f) (lower (strip (if_username f))))
      else if stale_profile (si_arch s) f (pl_id n) then Inr (s, pl_id p)
      else update_player ad f (pl_id p) (merge_user_placeholder (pl_id p) (pl_id n) s))"

definition upsert_provider_user_locked :: "adapter \<Rightarrow> identity_facts \<Rightarrow> site \<Rightarrow> (site \<times> int) result" where
  "upsert_provider_user_locked ad f s =
     (let ct = si_catalog s; name = lower (strip (if_username f)); named = player_named ct (if_provider f) name;
          identified = player_identified ct (if_provider f) (if_provider_user_id f) in
      case identified of
        Some p \<Rightarrow>
          if stale_profile (si_arch s) f (pl_id p) \<or> stale_observation f p then Inr (s, pl_id p)
          else (case named of
            Some n \<Rightarrow> if pl_id n \<noteq> pl_id p then absorb_named ad f p n s else update_player ad f (pl_id p) s
          | None \<Rightarrow> update_player ad f (pl_id p) s)
      | None \<Rightarrow> (case named of
          Some n \<Rightarrow>
            if if_provider_user_id f \<noteq> None \<and> pl_provider_user_id n \<noteq> None \<and> pl_provider_user_id n \<noteq> if_provider_user_id f
            then Inl (conflicting_ids (if_provider f) name)
            else if stale_profile (si_arch s) f (pl_id n) then Inr (s, pl_id n)
            else update_player ad f (pl_id n) s
        | None \<Rightarrow> rbind (ad (if_account_status f)) (\<lambda>status. rbind (ad (if_title f)) (\<lambda>title. insert_player (new_player f status title) s))))"

definition upsert_provider_user :: "adapter \<Rightarrow> gate \<Rightarrow> identity_facts \<Rightarrow> site \<Rightarrow> (site \<times> int) result" where
  "upsert_provider_user ad held f s =
     rbind (reconciliation_gate held (si_catalog s) (if_provider f) [(if_username f, if_provider_user_id f)]) (\<lambda>_.
     upsert_provider_user_locked ad f s)"

section \<open>Capture accounts\<close>

definition bare_facts :: "string \<Rightarrow> string \<Rightarrow> int \<Rightarrow> identity_facts" where
  "bare_facts provider username now = \<lparr>if_provider = provider, if_username = username, if_provider_user_id = None,
     if_display_username = None, if_account_status = JNull, if_title = JNull, if_now = now, if_profile_raw_payload_id = None\<rparr>"

definition resolve_capture_account :: "adapter \<Rightarrow> gate \<Rightarrow> string \<Rightarrow> string \<Rightarrow> int \<Rightarrow> string \<Rightarrow> site \<Rightarrow> (site \<times> int) result" where
  "resolve_capture_account ad held provider username observed_at scope s =
     rbind (reconciliation_gate held (si_catalog s) provider [(username, None)]) (\<lambda>g.
     case player_named (si_catalog s) provider (lower (strip username)) of
       Some p \<Rightarrow> Inr (s, pl_id p)
     | None \<Rightarrow>
         if scope = ''public'' then upsert_provider_user ad g (bare_facts provider username observed_at) s
         else insert_player \<lparr>pl_id = 0, pl_provider = provider, pl_provider_user_id = None,
           pl_username_normalized = lower (strip username), pl_display_username = username, pl_account_status = None, pl_title = None,
           pl_first_seen_at = None, pl_updated_at = None\<rparr> s)"

definition record_resource_attempt :: "adapter \<Rightarrow> (string \<Rightarrow> string) \<Rightarrow> capture \<Rightarrow> int option \<Rightarrow> site \<Rightarrow> (site \<times> int) result" where
  "record_resource_attempt ad sha cp raw s =
     (let r = cp_record cp; values = py_or (obj_get (rr_request_params r) ''parameters'') (JObj []) in
      case cp_target_username cp of
        Some (x # xs) \<Rightarrow>
          rbind (resolve_capture_account ad Open (rr_provider r) (x # xs) (rr_fetched_at r) (rr_owner_scope r) s) (\<lambda>(s', user).
          case map_of (rr_request_params r) ''resource_key'' of
            None \<Rightarrow> Inl (KeyError ''resource_key'')
          | Some key \<Rightarrow> rbind (ad key) (\<lambda>column. case column of None \<Rightarrow> Inl (DatabaseError ''resource_key'')
            | Some resource \<Rightarrow> Inr (on_catalog (\<lambda>ct. ct\<lparr>ct_attempts := upsert_attempt \<lparr>at_provider_user_id = user, at_provider = rr_provider r,
                at_username_normalized = x # xs, at_owner_scope = rr_owner_scope r, at_resource_key = resource, at_parameters = values,
                at_parameters_hash = canonical_hash sha values, at_source_key = rr_canonical_source_key r,
                at_attempted_at = rr_fetched_at r, at_status_code = rr_http_status r, at_raw_payload_id = raw\<rparr> (ct_attempts ct)\<rparr>) s', user)))
      | _ \<Rightarrow> Inl (ValueError ''player resource attempt is missing its target username''))"

text \<open>The account functions ingestion is given.\<close>

definition catalog_accounts :: "adapter \<Rightarrow> (string \<Rightarrow> string) \<Rightarrow> accounts" where
  "catalog_accounts ad sha = \<lparr>ac_record_resource_attempt = record_resource_attempt ad sha,
     ac_resolve_capture_account = (\<lambda>provider username observed_at. resolve_capture_account ad Open provider username observed_at ''public'')\<rparr>"

end
