(* ===== verification/Collection.thy ===== *)
theory Collection
  imports Ingest Parsers
begin

text \<open>
  Full, incremental and backfill collections: jobs/collection.py. One call performs at most a batch
  of monthly archives of Chess.com or one page of a Lichess stream, and advances a durable
  checkpoint. The provider calls, the games normalizer and the stop flag (by the number of polls)
  are arguments, and so is \<open>json.loads\<close>. Cursors are kept as the JSON objects the table stores.
\<close>

section \<open>Environment\<close>

record coll_env =
  ce_ingest :: ingest_env
  ce_accounts :: accounts
  ce_games :: normalizer
  ce_loads :: "string \<Rightarrow> json result"
  ce_stop :: "nat \<Rightarrow> bool"
  ce_ask_archives :: conditional_ask
  ce_ask_month :: "int \<Rightarrow> int \<Rightarrow> conditional_ask"
  ce_ask_game :: "string \<Rightarrow> capture act"
  ce_ask_page :: "int option \<Rightarrow> int \<Rightarrow> int \<Rightarrow> capture act"

record collection_result =
  cr_done :: bool
  cr_processed_units :: nat
  cr_normalized_ids :: "int list"
  cr_message :: string
  cr_status_code :: int
  cr_retry_after :: "rat option"

definition collected :: "bool \<Rightarrow> nat \<Rightarrow> int list \<Rightarrow> string \<Rightarrow> collection_result" where
  "collected dn processed ids message = \<lparr>cr_done = dn, cr_processed_units = processed, cr_normalized_ids = ids,
     cr_message = message, cr_status_code = 200, cr_retry_after = None\<rparr>"

definition stopped :: "coll_env \<Rightarrow> bool act" where
  "stopped e s = (Inr (ce_stop e (si_polls s)), s\<lparr>si_polls := si_polls s + 1\<rparr>)"

definition upd_coll :: "(coll \<Rightarrow> coll) \<Rightarrow> unit act" where
  "upd_coll f s = (Inr (), s\<lparr>si_coll := f (si_coll s)\<rparr>)"

definition see :: "(site \<Rightarrow> 'a) \<Rightarrow> 'a act" where
  "see f s = (Inr (f s), s)"

text \<open>\<open>read_raw_payload\<close>: the charge of a budgeted session is committed before the read.\<close>

definition charge_read :: "int \<Rightarrow> unit act" where
  "charge_read i s = (case cn_work_budget_id (si_conn s) of
       None \<Rightarrow> (Inr (), s)
     | Some b \<Rightarrow> tx (\<lambda>s. rbind (reserve_payload_read (si_conn s) b i (si_db s)) (\<lambda>(d, c). Inr (s\<lparr>si_db := d, si_conn := c\<rparr>, ()))) s)"

definition read_payload :: "coll_env \<Rightarrow> int \<Rightarrow> (raw_row \<times> string) act" where
  "read_payload e i = andthen (charge_read i) (\<lambda>_.
     ask_site (\<lambda>s. load_raw_payload (ie_codec (ce_ingest e)) (si_objects s) (si_arch s) i))"

definition load_json :: "coll_env \<Rightarrow> string \<Rightarrow> json act" where
  "load_json e body = ask_site (\<lambda>_. ce_loads e body)"

section \<open>Parameters\<close>

type_synonym pars = "(string \<times> json) list"

definition positive :: "pars \<Rightarrow> string \<Rightarrow> json \<Rightarrow> int \<Rightarrow> int result" where
  "positive params key dflt maximum = (case strict_int (coalesce (map_of params key) dflt) of
       Some v \<Rightarrow> if 1 \<le> v \<and> v \<le> maximum then Inr v
         else Inl (ValueError (key @ '' must be an integer between 1 and '' @ str_int maximum))
     | None \<Rightarrow> Inl (ValueError (key @ '' must be an integer between 1 and '' @ str_int maximum)))"

text \<open>\<open>_milliseconds\<close> of \<open>since_ms\<close> and \<open>until_ms\<close>: the key without its suffix holds seconds.\<close>

definition milliseconds :: "pars \<Rightarrow> string \<Rightarrow> int option result" where
  "milliseconds params name =
     rbind (case obj_get params (name @ ''_ms'') of
         JNull \<Rightarrow> (case obj_get params name of
             JNull \<Rightarrow> Inr JNull
           | JInt n \<Rightarrow> if n < 0 then Inl (ValueError (name @ '' must be a nonnegative integer'')) else Inr (JInt (n * 1000))
           | _ \<Rightarrow> Inl (ValueError (name @ '' must be a nonnegative integer'')))
       | v \<Rightarrow> Inr v) (\<lambda>v. case v of
         JNull \<Rightarrow> Inr None
       | JInt n \<Rightarrow> if 0 \<le> n \<and> n < 2 ^ 63 then Inr (Some n)
           else Inl (ValueError (name @ ''_ms must be a nonnegative PostgreSQL bigint''))
       | _ \<Rightarrow> Inl (ValueError (name @ ''_ms must be a nonnegative PostgreSQL bigint'')))"

text \<open>\<open>_month_bounds\<close>: year, month and the first second after the month.\<close>

definition month_bounds :: "string \<Rightarrow> (int \<times> int \<times> int) result" where
  "month_bounds unit =
     (if length unit = 7 \<and> unit ! 4 = CHR ''/'' \<and> list_all is_digit (take 4 unit @ drop 5 unit)
      then let y = int (digits_fold (take 4 unit)); m = int (digits_fold (drop 5 unit)); nm = next_month (y, m) in
        rbind (timestamp y m 1) (\<lambda>_. rbind (timestamp (fst nm) (snd nm) 1) (\<lambda>fin. Inr (y, m, fin)))
      else Inl (ValueError ''monthly units must use YYYY/MM''))"

definition month_overlaps :: "string \<Rightarrow> int option \<Rightarrow> int option \<Rightarrow> bool result" where
  "month_overlaps unit since until =
     rbind (month_bounds unit) (\<lambda>(y, m, fin). rbind (timestamp y m 1) (\<lambda>start.
     Inr ((case since of None \<Rightarrow> True | Some t \<Rightarrow> t < fin * 1000) \<and> (case until of None \<Rightarrow> True | Some t \<Rightarrow> start * 1000 < t))))"

subsection \<open>Archive URLs\<close>

text \<open>
  \<open>urlsplit\<close>: the scheme, the authority, the path and whether a query or fragment follows; leading
  control characters and spaces and all tabs and line breaks are removed first.
\<close>

definition url_clean :: "string \<Rightarrow> string" where
  "url_clean url = filter (\<lambda>ch. (of_char ch :: nat) \<notin> {9, 10, 13}) (dropWhile (\<lambda>ch. (of_char ch :: nat) \<le> 32) url)"

definition url_scheme :: "string \<Rightarrow> string \<times> string" where
  "url_scheme url = (case split1 (CHR '':'') url of
       (s, Some rest) \<Rightarrow> if s \<noteq> [] \<and> is_ascii_alnum (hd s) \<and> \<not> is_digit (hd s)
           \<and> list_all (\<lambda>ch. is_ascii_alnum ch \<or> ch \<in> set ''+-.'') s then (lower s, rest) else ([], url)
     | (_, None) \<Rightarrow> ([], url))"

definition urlsplit :: "string \<Rightarrow> string \<times> string \<times> string \<times> string \<times> string" where
  "urlsplit url =
     (let (scheme, rest) = url_scheme (url_clean url);
          (netloc, tail) = (if starts_with ''//'' rest
             then (takeWhile (\<lambda>ch. ch \<notin> set ''/?#'') (drop 2 rest), dropWhile (\<lambda>ch. ch \<notin> set ''/?#'') (drop 2 rest)) else ([], rest));
          (before, fragment) = split1 (CHR ''#'') tail;
          (path, query) = split1 (CHR ''?'') before
      in (scheme, netloc, path, coalesce query [], coalesce fragment []))"

definition hex_value :: "char \<Rightarrow> nat option" where
  "hex_value ch = (let n = (of_char ch :: nat) in
     if is_digit ch then Some (n - 48) else if 97 \<le> n \<and> n \<le> 102 then Some (n - 87)
     else if 65 \<le> n \<and> n \<le> 70 then Some (n - 55) else None)"

text \<open>
  \<open>unquote\<close> for the characters of the model: an escape below 128 is its character, a two-byte UTF-8
  sequence its Latin-1 character, and every other escaped byte a replacement character.
\<close>

definition escaped_byte :: "string \<Rightarrow> (nat \<times> string) option" where
  "escaped_byte s = (case s of
       p # a # b # rest \<Rightarrow> if p = CHR ''%'' then (case (hex_value a, hex_value b) of
           (Some x, Some y) \<Rightarrow> Some (16 * x + y, rest) | _ \<Rightarrow> None) else None
     | _ \<Rightarrow> None)"

fun unquote_n :: "nat \<Rightarrow> string \<Rightarrow> string" where
  "unquote_n 0 s = []"
| "unquote_n (Suc n) s = (case s of [] \<Rightarrow> [] | ch # cs \<Rightarrow> (case escaped_byte s of
       None \<Rightarrow> ch # unquote_n n cs
     | Some (b, rest) \<Rightarrow>
         if b < 128 then char_of b # unquote_n n rest
         else (case escaped_byte rest of
             Some (b2, rest2) \<Rightarrow> if (b = 194 \<or> b = 195) \<and> 128 \<le> b2 \<and> b2 < 192
               then char_of ((b - 192) * 64 + (b2 - 128)) # unquote_n n rest2 else CHR 0x1A # unquote_n n rest
           | None \<Rightarrow> CHR 0x1A # unquote_n n rest)))"

definition unquote :: "string \<Rightarrow> string" where
  "unquote s = unquote_n (length s) s"

definition archive_unit :: "string \<Rightarrow> string \<Rightarrow> string result" where
  "archive_unit url username =
     (let (scheme, netloc, path0, query, fragment) = urlsplit url;
          prefix = ''/pub/player/'' @ username @ ''/games/''; path = lower (unquote path0) in
      if scheme \<noteq> ''https'' \<or> netloc \<noteq> ''api.chess.com'' \<or> query \<noteq> [] \<or> fragment \<noteq> [] \<or> \<not> starts_with prefix path
      then Inl (ValueError ''archives index contains an unexpected source URL'')
      else let unit = drop (length prefix) path in rbind (month_bounds unit) (\<lambda>_. Inr unit))"

section \<open>Outcomes of a fetch\<close>

definition successful :: "ingest_result \<Rightarrow> bool" where
  "successful r \<longleftrightarrow> ok_status (ir_status_code r) \<and> ir_raw_payload_id r \<noteq> None"

definition resolve_cached_response :: "string \<Rightarrow> ingest_result \<Rightarrow> ingest_result act" where
  "resolve_cached_response key r = see (\<lambda>s.
     if ir_status_code r = 304 \<and> ir_raw_payload_id r = None
     then (case latest_successful_source (si_arch s) key of Some i \<Rightarrow> r\<lparr>ir_raw_payload_id := Some i\<rparr> | None \<Rightarrow> r) else r)"

definition raw_id :: "ingest_result \<Rightarrow> int act" where
  "raw_id r = ask_site (\<lambda>_. case ir_raw_payload_id r of Some i \<Rightarrow> Inr i
     | None \<Rightarrow> Inl (ValueError ''successful acquisition is missing source evidence''))"

definition covering :: "string \<Rightarrow> string \<Rightarrow> string \<Rightarrow> string \<Rightarrow> int option \<Rightarrow> string option \<Rightarrow> string option \<Rightarrow> int option \<Rightarrow> int option \<Rightarrow> bool \<Rightarrow> int
   \<Rightarrow> unit act" where
  "covering provider username unit state raw version error since until sealed now = upd_coll (record_coverage
     \<lparr>cv_provider = provider, cv_username = username, cv_unit_key = unit, cv_state = state, cv_raw_payload_id = raw,
      cv_parser_version = version, cv_fetched_at = now, cv_error = error, cv_since_ms = since, cv_until_ms = until, cv_sealed = sealed\<rparr>)"

definition failure :: "string \<Rightarrow> string \<Rightarrow> string \<Rightarrow> ingest_result \<Rightarrow> int \<Rightarrow> nat \<Rightarrow> int list \<Rightarrow> collection_result act" where
  "failure provider username unit r now processed ids =
     andthen (covering provider username unit (if ir_status_code r \<in> {404, 410} then ''missing'' else ''error'')
       (ir_raw_payload_id r) None (Some (ir_message r)) None None False now) (\<lambda>_.
     ret \<lparr>cr_done = False, cr_processed_units = processed, cr_normalized_ids = ids, cr_message = ir_message r,
       cr_status_code = ir_status_code r, cr_retry_after = ir_retry_after r\<rparr>)"

definition TERMINAL :: "string list" where
  "TERMINAL = [''aborted'', ''mate'', ''resign'', ''stalemate'', ''timeout'', ''draw'', ''outoftime'', ''cheat'', ''noStart'',
     ''unknownFinish'', ''variantEnd'']"

text \<open>\<open>_track_game\<close>: the row an NDJSON game leaves among the unfinished games.\<close>

definition track_game :: "string \<Rightarrow> pars \<Rightarrow> int \<Rightarrow> coll \<Rightarrow> coll result" where
  "track_game username game now co = (case (obj_get game ''id'', obj_get game ''createdAt'') of
       (JStr (x # xs), JInt created) \<Rightarrow>
         if created < 0 then Inl (ValueError ''game identity/creation timestamp is missing'')
         else (case obj_get game ''status'' of
             JStr status \<Rightarrow> Inr (track_followup username (x # xs) created (status \<in> set TERMINAL) now co)
           | _ \<Rightarrow> Inl (ValueError ''game status is missing''))
     | _ \<Rightarrow> Inl (ValueError ''game identity/creation timestamp is missing''))"

fun track_games :: "string \<Rightarrow> pars list \<Rightarrow> int \<Rightarrow> coll \<Rightarrow> coll result" where
  "track_games username [] now co = Inr co"
| "track_games username (g # gs) now co = rbind (track_game username g now co) (track_games username gs now)"

definition observation_id :: "arch \<Rightarrow> int \<Rightarrow> int" where
  "observation_id a i = fold max (map fl_id (filter (\<lambda>f. fl_raw_payload_id f = Some i \<and> success f) (ar_logs a))) 0"

definition payload_game_ids :: "arch \<Rightarrow> int \<Rightarrow> int list" where
  "payload_game_ids a i = remdups (map sr_entity_id (filter (\<lambda>r. sr_entity_type r = ''game'' \<and> sr_raw_payload_id r = i) (ar_sources a)))"

text \<open>\<open>_use_local_payload\<close>.\<close>

definition use_local_payload :: "coll_env \<Rightarrow> job \<Rightarrow> int \<Rightarrow> int list act" where
  "use_local_payload e j i = andthen (read_payload e i) (\<lambda>(w, _).
     andthen (see (\<lambda>s. cn_defer_normalization (si_conn s))) (\<lambda>deferred.
     let needs_parser = (rw_parser_version w \<noteq> Some GAMES_PARSER_VERSION \<or> rw_normalization_status w \<notin> {''parsed'', ''skipped''}) in
     if deferred \<and> (needs_parser \<or> j_crawl_run_id j \<noteq> None)
     then andthen (see (\<lambda>s. case latest_job_payload (si_arch s) (si_db s) (j_id j) (rw_endpoint_type w) (Some (rw_canonical_source_key w)) of
             Some (_, f) \<Rightarrow> f | None \<Rightarrow> observation_id (si_arch s) (rw_id w))) (\<lambda>log_id.
       andthen (ask_site (\<lambda>_. source_provider j)) (\<lambda>provider.
       andthen (enqueue_normalization (ce_ingest e) provider (rw_id w) (Some log_id) None (j_crawl_run_id j) (Some (j_id j)) GAMES_PARSER_VERSION)
         (\<lambda>_. ret [])))
     else if needs_parser \<or> j_crawl_run_id j \<noteq> None
     then andthen (replay_raw_payload (ce_games e) (ce_games e) (ce_games e) (rw_id w) (j_crawl_run_id j) None None None)
            (\<lambda>r. ret (ir_normalized_ids r))
     else see (\<lambda>s. sort (payload_game_ids (si_arch s) (rw_id w)))))"

section \<open>Checkpoints\<close>

text \<open>
  The cursors of the two providers as records, and the JSON objects the table keeps. The key
  \<open>done\<close> is written only when the collection is complete; a checkpoint without the requested lower
  bound has the window's.
\<close>

record month_cursor =
  mc_request_fingerprint :: string
  mc_units :: "string list"
  mc_unit_index :: nat
  mc_done :: bool

record page_cursor =
  pc_request_fingerprint :: string
  pc_since_ms :: "int option"
  pc_upper_ms :: int
  pc_requested_since_ms :: "int option"
  pc_until_ms :: int
  pc_limit :: int
  pc_followup_after :: string
  pc_phase :: string
  pc_local_after :: int
  pc_local_high_water :: int
  pc_done :: bool

definition done_key :: "bool \<Rightarrow> pars" where
  "done_key b = (if b then [(''done'', JBool True)] else [])"

definition month_cursor_json :: "month_cursor \<Rightarrow> pars" where
  "month_cursor_json c = [(''request_fingerprint'', JStr (mc_request_fingerprint c)), (''units'', JList (map JStr (mc_units c))),
     (''unit_index'', JInt (int (mc_unit_index c)))] @ done_key (mc_done c)"

definition page_cursor_json :: "page_cursor \<Rightarrow> pars" where
  "page_cursor_json c = [(''request_fingerprint'', JStr (pc_request_fingerprint c)), (''since_ms'', opt_int (pc_since_ms c)),
     (''upper_ms'', JInt (pc_upper_ms c)), (''requested_since_ms'', opt_int (pc_requested_since_ms c)),
     (''until_ms'', JInt (pc_until_ms c)), (''limit'', JInt (pc_limit c)), (''followup_after'', JStr (pc_followup_after c)),
     (''phase'', JStr (pc_phase c)), (''local_after'', JInt (pc_local_after c)),
     (''local_high_water'', JInt (pc_local_high_water c))] @ done_key (pc_done c)"

definition str_field :: "pars \<Rightarrow> string \<Rightarrow> string result" where
  "str_field c k = (case map_of c k of Some (JStr v) \<Rightarrow> Inr v | _ \<Rightarrow> Inl (KeyError k))"

definition int_field :: "pars \<Rightarrow> string \<Rightarrow> int result" where
  "int_field c k = (case map_of c k of Some (JInt v) \<Rightarrow> Inr v | _ \<Rightarrow> Inl (KeyError k))"

definition opt_int_field :: "pars \<Rightarrow> string \<Rightarrow> int option result" where
  "opt_int_field c k = (case map_of c k of Some (JInt v) \<Rightarrow> Inr (Some v) | Some JNull \<Rightarrow> Inr None | _ \<Rightarrow> Inl (KeyError k))"

definition month_cursor_of :: "pars \<Rightarrow> month_cursor result" where
  "month_cursor_of c =
     rbind (str_field c ''request_fingerprint'') (\<lambda>fp. rbind (int_field c ''unit_index'') (\<lambda>i.
     case obj_get c ''units'' of
       JList us \<Rightarrow> rbind (rmap (\<lambda>u. case u of JStr t \<Rightarrow> Inr t | _ \<Rightarrow> Inl (KeyError ''units'')) us) (\<lambda>units.
         Inr \<lparr>mc_request_fingerprint = fp, mc_units = units, mc_unit_index = nat i, mc_done = truthy (obj_get c ''done'')\<rparr>)
     | _ \<Rightarrow> Inl (KeyError ''units'')))"

definition page_cursor_of :: "pars \<Rightarrow> page_cursor result" where
  "page_cursor_of c =
     rbind (str_field c ''request_fingerprint'') (\<lambda>fp. rbind (opt_int_field c ''since_ms'') (\<lambda>since.
     rbind (int_field c ''upper_ms'') (\<lambda>upper.
     rbind (if has_key c ''requested_since_ms'' then opt_int_field c ''requested_since_ms'' else Inr since) (\<lambda>requested.
     rbind (int_field c ''until_ms'') (\<lambda>until. rbind (int_field c ''limit'') (\<lambda>limit.
     rbind (str_field c ''followup_after'') (\<lambda>after. rbind (str_field c ''phase'') (\<lambda>phase.
     rbind (int_field c ''local_after'') (\<lambda>local_after. rbind (int_field c ''local_high_water'') (\<lambda>high.
     Inr \<lparr>pc_request_fingerprint = fp, pc_since_ms = since, pc_upper_ms = upper, pc_requested_since_ms = requested,
       pc_until_ms = until, pc_limit = limit, pc_followup_after = after, pc_phase = phase, pc_local_after = local_after,
       pc_local_high_water = high, pc_done = truthy (obj_get c ''done'')\<rparr>))))))))))"

definition save_months :: "job \<Rightarrow> month_cursor \<Rightarrow> int \<Rightarrow> coll \<Rightarrow> coll" where
  "save_months j c now = save_checkpoint (j_id j) (month_cursor_json c) now"

definition save_pages :: "job \<Rightarrow> page_cursor \<Rightarrow> int \<Rightarrow> coll \<Rightarrow> coll" where
  "save_pages j c now = save_checkpoint (j_id j) (page_cursor_json c) now"

section \<open>Chess.com\<close>

text \<open>A phase either returns the collection's result (\<open>Inl\<close>) or hands its progress on (\<open>Inr\<close>).\<close>

type_synonym 'a phase = "(collection_result + 'a) act"

definition games_object :: "json \<Rightarrow> string \<Rightarrow> unit result" where
  "games_object body message = (case body of
       JObj kvs \<Rightarrow> (case obj_get kvs ''games'' of JList _ \<Rightarrow> Inr () | _ \<Rightarrow> Inl (ValueError message))
     | _ \<Rightarrow> Inl (ValueError message))"

definition index_units :: "string \<Rightarrow> int option \<Rightarrow> int option \<Rightarrow> json \<Rightarrow> string list result" where
  "index_units username since until data = (case data of
       JObj kvs \<Rightarrow> (case obj_get kvs ''archives'' of
           JList urls \<Rightarrow>
             rbind (rmap (\<lambda>u. archive_unit (py_str u) username) urls) (\<lambda>found.
             let listed = sort (remdups found) in
             rbind (rmap (\<lambda>u. month_overlaps u since until) listed) (\<lambda>inside.
             Inr (map fst (filter snd (zip listed inside)))))
         | _ \<Rightarrow> Inl (ValueError ''invalid Chess.com archives index''))
     | _ \<Rightarrow> Inl (ValueError ''invalid Chess.com archives index''))"

definition requested_months :: "pars \<Rightarrow> string list option result" where
  "requested_months params = (case obj_get params ''months'' of
       JNull \<Rightarrow> Inr None
     | JList us \<Rightarrow> (case those (map as_str us) of
           Some units \<Rightarrow> rbind (rmap month_bounds units) (\<lambda>_. Inr (Some units))
         | None \<Rightarrow> Inl (ValueError ''months must be a list of YYYY/MM strings''))
     | _ \<Rightarrow> Inl (ValueError ''months must be a list of YYYY/MM strings''))"

definition covered_row :: "string \<Rightarrow> string \<Rightarrow> string \<Rightarrow> string \<Rightarrow> int \<Rightarrow> coverage_row" where
  "covered_row provider username unit state now =
     \<lparr>cv_provider = provider, cv_username = username, cv_unit_key = unit, cv_state = state, cv_raw_payload_id = None,
      cv_parser_version = None, cv_fetched_at = now, cv_error = None, cv_since_ms = None, cv_until_ms = None, cv_sealed = False\<rparr>"

definition note_unlisted :: "string \<Rightarrow> string \<Rightarrow> int \<Rightarrow> string list \<Rightarrow> coll \<Rightarrow> coll" where
  "note_unlisted provider username now units co = foldl (\<lambda>co u. record_coverage
     ((covered_row provider username u ''missing'' now)\<lparr>cv_error := Some ''not listed by provider''\<rparr>) co) co units"

definition note_pending :: "string \<Rightarrow> string \<Rightarrow> int \<Rightarrow> string list \<Rightarrow> coll \<Rightarrow> coll" where
  "note_pending provider username now units co = foldl (\<lambda>co u. if coverage co provider username u = None
     then record_coverage (covered_row provider username u ''pending'' now) co else co) co units"

text \<open>The first call: the archives index decides the units.\<close>

definition start_months ::
  "coll_env \<Rightarrow> job \<Rightarrow> string \<Rightarrow> pars \<Rightarrow> string \<Rightarrow> int option \<Rightarrow> int option \<Rightarrow> string \<Rightarrow> int \<Rightarrow> month_cursor phase" where
  "start_months e j provider params username since until fingerprint now =
     andthen (fetch_chesscom_archives (ce_ingest e) (ce_accounts e) (ce_ask_archives e) username (Some (j_id j)) (j_crawl_run_id j)) (\<lambda>r.
     if \<not> successful r then andthen (failure provider username ''archives_index'' r now 0 []) (\<lambda>f. ret (Inl f))
     else andthen (raw_id r) (\<lambda>i. andthen (read_payload e i) (\<lambda>(_, body). andthen (load_json e body) (\<lambda>data.
       andthen (ask_site (\<lambda>_. index_units username since until data)) (\<lambda>listed.
       andthen (ask_site (\<lambda>_. requested_months params)) (\<lambda>requested.
       let units = (case requested of None \<Rightarrow> listed | Some ms \<Rightarrow> filter (\<lambda>u. u \<in> set ms) listed);
           unlisted = (case requested of None \<Rightarrow> [] | Some ms \<Rightarrow> filter (\<lambda>u. u \<notin> set units) (remdups ms));
           c = \<lparr>mc_request_fingerprint = fingerprint, mc_units = units, mc_unit_index = 0, mc_done = False\<rparr> in
       andthen (upd_coll (note_unlisted provider username now unlisted)) (\<lambda>_.
       andthen (upd_coll (\<lambda>co. save_months j c now (note_pending provider username now units co))) (\<lambda>_. ret (Inr c)))))))))"

text \<open>The evidence for a month: the newest stored observation, and whether it was made after the month ended.\<close>

definition month_source :: "string \<Rightarrow> string \<Rightarrow> string \<Rightarrow> int \<Rightarrow> (int \<times> bool) option act" where
  "month_source provider username unit fin = ask_site (\<lambda>s.
     case (case latest_successful_source (si_arch s) (''chess.com/player/'' @ username @ ''/games/'' @ unit) of
         Some i \<Rightarrow> Some i
       | None \<Rightarrow> Option.bind (coverage (si_coll s) provider username unit) cv_raw_payload_id) of
       None \<Rightarrow> Inr None
     | Some i \<Rightarrow> rbind (payload_observed_at (si_arch s) i) (\<lambda>t. Inr (Some (i, fin \<le> t))))"

text \<open>The end of a unit: its shape is checked, then coverage and checkpoint advance together.\<close>

definition seal_month ::
  "coll_env \<Rightarrow> job \<Rightarrow> string \<Rightarrow> string \<Rightarrow> string \<Rightarrow> int \<Rightarrow> month_cursor \<Rightarrow> nat \<Rightarrow> int list \<Rightarrow> bool \<Rightarrow> ingest_result
   \<Rightarrow> (month_cursor \<times> nat \<times> int list) phase" where
  "seal_month e j provider username unit now c processed ids sealed r =
     andthen (raw_id r) (\<lambda>i. andthen (read_payload e i) (\<lambda>(w, body). andthen (load_json e body) (\<lambda>v.
     andthen (ask_site (\<lambda>_. games_object v ''monthly response is not a complete games collection'')) (\<lambda>_.
     let c' = c\<lparr>mc_unit_index := mc_unit_index c + 1\<rparr> in
     andthen (upd_coll (\<lambda>co. save_months j c' now (record_coverage
         ((covered_row provider username unit ''complete'' now)\<lparr>cv_raw_payload_id := Some (rw_id w),
            cv_parser_version := rw_parser_version w, cv_sealed := sealed\<rparr>) co))) (\<lambda>_.
     ret (Inr (c', processed + 1, ids)))))))"

definition reuse_month ::
  "coll_env \<Rightarrow> job \<Rightarrow> string \<Rightarrow> string \<Rightarrow> string \<Rightarrow> int \<Rightarrow> month_cursor \<Rightarrow> nat \<Rightarrow> int list \<Rightarrow> int
   \<Rightarrow> (month_cursor \<times> nat \<times> int list) phase" where
  "reuse_month e j provider username unit now c processed ids i =
     andthen (read_payload e i) (\<lambda>(w, body). andthen (load_json e body) (\<lambda>v.
     andthen (ask_site (\<lambda>_. games_object v ''stored monthly source is not a complete games collection'')) (\<lambda>_.
     andthen (use_local_payload e j (rw_id w)) (\<lambda>more.
     seal_month e j provider username unit now c processed (ids @ more) True
       \<lparr>ir_provider = provider, ir_endpoint_type = ''monthly_archive'', ir_status_code = 200, ir_raw_payload_id = Some (rw_id w),
        ir_normalized_ids = [], ir_message = ''reused stored archive'', ir_retry_after = None\<rparr>))))"

definition fetch_month ::
  "coll_env \<Rightarrow> job \<Rightarrow> string \<Rightarrow> string \<Rightarrow> string \<Rightarrow> int \<Rightarrow> month_cursor \<Rightarrow> nat \<Rightarrow> int list \<Rightarrow> int \<Rightarrow> int \<Rightarrow> int
   \<Rightarrow> (month_cursor \<times> nat \<times> int list) phase" where
  "fetch_month e j provider username unit now c processed ids year month fin =
     andthen (fetch_chesscom_month (ce_ingest e) (ce_accounts e) (ce_games e) (ce_ask_month e year month) username year month None
         (Some (j_id j)) (j_crawl_run_id j)) (\<lambda>r0.
     andthen (resolve_cached_response (''chess.com/player/'' @ username @ ''/games/'' @ unit) r0) (\<lambda>r.
     if successful r then seal_month e j provider username unit now c processed (ids @ ir_normalized_ids r) (fin \<le> now) r
     else if ir_status_code r \<in> {404, 410}
     then let c' = c\<lparr>mc_unit_index := mc_unit_index c + 1\<rparr> in
       andthen (failure provider username unit r now 0 []) (\<lambda>_. andthen (upd_coll (save_months j c' now)) (\<lambda>_.
         ret (Inr (c', processed + 1, ids))))
     else andthen (failure provider username unit r now processed ids) (\<lambda>f. ret (Inl f))))"

definition month_step ::
  "coll_env \<Rightarrow> job \<Rightarrow> string \<Rightarrow> string \<Rightarrow> string \<Rightarrow> int \<Rightarrow> month_cursor \<times> nat \<times> int list
   \<Rightarrow> (month_cursor \<times> nat \<times> int list) phase" where
  "month_step e j provider mode username now = (\<lambda>(c, processed, ids).
     let unit = mc_units c ! mc_unit_index c in
     andthen (ask_site (\<lambda>_. month_bounds unit)) (\<lambda>(year, month, fin).
     andthen (month_source provider username unit fin) (\<lambda>src. case src of
       Some (i, True) \<Rightarrow> if mode \<noteq> ''backfill'' then reuse_month e j provider username unit now c processed ids i
         else fetch_month e j provider username unit now c processed ids year month fin
     | _ \<Rightarrow> fetch_month e j provider username unit now c processed ids year month fin)))"

text \<open>The loop over units, by the batch allowance that is left.\<close>

fun month_loop ::
  "coll_env \<Rightarrow> job \<Rightarrow> string \<Rightarrow> string \<Rightarrow> string \<Rightarrow> int \<Rightarrow> nat \<Rightarrow> month_cursor \<times> nat \<times> int list
   \<Rightarrow> (month_cursor \<times> nat \<times> int list) phase" where
  "month_loop e j provider mode username now 0 p = ret (Inr p)"
| "month_loop e j provider mode username now (Suc n) p =
     (if length (mc_units (fst p)) \<le> mc_unit_index (fst p) then ret (Inr p)
      else andthen (stopped e) (\<lambda>halt. if halt then ret (Inr p)
        else andthen (month_step e j provider mode username now p) (\<lambda>r. case r of
            Inl f \<Rightarrow> ret (Inl f)
          | Inr q \<Rightarrow> month_loop e j provider mode username now n q)))"

definition finish_months :: "job \<Rightarrow> int \<Rightarrow> month_cursor \<times> nat \<times> int list \<Rightarrow> collection_result act" where
  "finish_months j now = (\<lambda>(c, processed, ids).
     let total = length (mc_units c); dn = (mc_unit_index c = total);
         message = ''monthly collection '' @ str_nat (mc_unit_index c) @ ''/'' @ str_nat total @ '' units'' in
     andthen (if dn then upd_coll (save_months j (c\<lparr>mc_done := True\<rparr>) now) else ret ()) (\<lambda>_.
     ret (collected dn processed ids message)))"

definition window_of :: "pars \<Rightarrow> (int option \<times> int option) result" where
  "window_of params = rbind (milliseconds params ''since'') (\<lambda>since. rbind (milliseconds params ''until'') (\<lambda>until. Inr (since, until)))"

definition chesscom ::
  "coll_env \<Rightarrow> job \<Rightarrow> pars \<Rightarrow> pars option \<Rightarrow> string \<Rightarrow> string \<Rightarrow> string \<Rightarrow> nat \<Rightarrow> string \<Rightarrow> int \<Rightarrow> collection_result act" where
  "chesscom e j params cursor provider username mode batch_size fingerprint now =
     andthen (ask_site (\<lambda>_. window_of params)) (\<lambda>(since, until).
     if (case (since, until) of (Some a, Some b) \<Rightarrow> b < a | _ \<Rightarrow> False) then raise (ValueError ''since must not exceed until'')
     else andthen (case cursor of
         None \<Rightarrow> start_months e j provider params username since until fingerprint now
       | Some c \<Rightarrow> andthen (ask_site (\<lambda>_. month_cursor_of c)) (\<lambda>c. ret (Inr c))) (\<lambda>started. case started of
         Inl f \<Rightarrow> ret f
       | Inr c \<Rightarrow> andthen (month_loop e j provider mode username now batch_size (c, 0, [])) (\<lambda>r. case r of
           Inl f \<Rightarrow> ret f
         | Inr p \<Rightarrow> finish_months j now p)))"

section \<open>Lichess\<close>

definition page_sizes :: "pars \<Rightarrow> (int \<times> int) result" where
  "page_sizes params =
     rbind (positive params ''page_size'' (if obj_get params ''max_games'' = JNull then JInt 1000 else obj_get params ''max_games'') 10000) (\<lambda>size.
     rbind (positive params ''max_page_size'' (JInt (max 10000 size)) 100000) (\<lambda>max_size.
     if max_size < size then Inl (ValueError ''max_page_size must be at least page_size'') else Inr (size, max_size)))"

text \<open>The newest missing window, or an empty one at the upper bound.\<close>

definition first_window :: "coll \<Rightarrow> string \<Rightarrow> int option \<Rightarrow> int \<Rightarrow> span result" where
  "first_window co username since upper = rbind (missing_windows co username since upper) (\<lambda>ws.
     Inr (case ws of [] \<Rightarrow> (Some upper, upper) | w # _ \<Rightarrow> w))"

definition start_pages :: "job \<Rightarrow> pars \<Rightarrow> string \<Rightarrow> string \<Rightarrow> string \<Rightarrow> int \<Rightarrow> int \<Rightarrow> page_cursor act" where
  "start_pages j params username mode fingerprint page_size now_ms =
     andthen (ask_site (\<lambda>_. window_of params)) (\<lambda>(since, wanted).
     let upper = coalesce wanted now_ms in
     if (case since of None \<Rightarrow> False | Some l \<Rightarrow> upper < l) then raise (ValueError ''since_ms must not exceed until_ms'')
     else andthen (ask_site (\<lambda>s. if mode \<noteq> ''backfill'' then first_window (si_coll s) username since upper else Inr (since, upper))) (\<lambda>first.
       andthen (see (\<lambda>s. if mode = ''full'' then covered_source_high_water (si_coll s) (si_arch s) username upper since else 0)) (\<lambda>high.
       let c = \<lparr>pc_request_fingerprint = fingerprint, pc_since_ms = fst first, pc_upper_ms = upper, pc_requested_since_ms = since,
           pc_until_ms = snd first, pc_limit = page_size, pc_followup_after = [],
           pc_phase = (if high \<noteq> 0 then ''stored'' else ''followups''), pc_local_after = 0, pc_local_high_water = high, pc_done = False\<rparr> in
       andthen (upd_coll (save_pages j c (now_ms div 1000))) (\<lambda>_. ret c))))"

subsection \<open>Stored sources\<close>

fun replay_stored :: "coll_env \<Rightarrow> job \<Rightarrow> int \<Rightarrow> int list \<Rightarrow> page_cursor \<times> nat \<times> int list \<Rightarrow> (page_cursor \<times> nat \<times> int list) phase" where
  "replay_stored e j now [] p = ret (Inr p)"
| "replay_stored e j now (i # is) p = (case p of (c, processed, ids) \<Rightarrow>
     andthen (stopped e) (\<lambda>halt. if halt then ret (Inl (collected False processed ids ''stored history replay paused''))
       else andthen (use_local_payload e j i) (\<lambda>more.
         let c' = c\<lparr>pc_local_after := i\<rparr> in
         andthen (upd_coll (save_pages j c' now)) (\<lambda>_. replay_stored e j now is (c', processed + 1, ids @ more)))))"

definition stored_phase :: "coll_env \<Rightarrow> job \<Rightarrow> string \<Rightarrow> nat \<Rightarrow> int \<Rightarrow> page_cursor \<Rightarrow> page_cursor phase" where
  "stored_phase e j username batch_size now c =
     (if pc_phase c \<noteq> ''stored'' then ret (Inr c)
      else andthen (see (\<lambda>s. covered_sources (si_coll s) (si_arch s) username (pc_upper_ms c) (pc_local_after c)
              (pc_local_high_water c) batch_size (pc_requested_since_ms c))) (\<lambda>sources.
        andthen (replay_stored e j now sources (c, 0, [])) (\<lambda>r. case r of
            Inl f \<Rightarrow> ret (Inl f)
          | Inr (c1, processed, ids) \<Rightarrow>
              let c2 = (if length sources < batch_size then c1\<lparr>pc_phase := ''followups''\<rparr> else c1) in
              andthen (if length sources < batch_size then upd_coll (save_pages j c2 now) else ret ()) (\<lambda>_.
              if processed \<noteq> 0 then ret (Inl (collected False processed ids ''stored history reused locally'')) else ret (Inr c2)))))"

subsection \<open>Unfinished games\<close>

definition followup_game :: "json \<Rightarrow> string \<Rightarrow> pars result" where
  "followup_game v ref = (case v of
       JObj kvs \<Rightarrow> if obj_get kvs ''id'' = JStr ref then Inr kvs
         else Inl (ValueError ''follow-up response has an unexpected game identity'')
     | _ \<Rightarrow> Inl (ValueError ''follow-up response has an unexpected game identity''))"

definition followup_step ::
  "coll_env \<Rightarrow> job \<Rightarrow> string \<Rightarrow> string \<Rightarrow> int \<Rightarrow> string \<Rightarrow> page_cursor \<times> nat \<times> int list \<Rightarrow> (page_cursor \<times> nat \<times> int list) phase" where
  "followup_step e j provider username now ref = (\<lambda>(c, processed, ids).
     let c' = c\<lparr>pc_followup_after := ref\<rparr> in
     andthen (fetch_lichess_game (ce_ingest e) (ce_accounts e) (ce_games e) (ce_ask_game e ref) ref (Some (j_id j)) (j_crawl_run_id j)) (\<lambda>r.
     if successful r
     then andthen (raw_id r) (\<lambda>i. andthen (read_payload e i) (\<lambda>(_, body). andthen (load_json e body) (\<lambda>v.
       andthen (ask_site (\<lambda>_. followup_game v ref)) (\<lambda>game.
       andthen (tx (\<lambda>s. rbind (track_game username game now (si_coll s)) (\<lambda>co.
           Inr (s\<lparr>si_coll := save_pages j c' now co\<rparr>, ())))) (\<lambda>_.
       ret (Inr (c', processed + 1, ids @ ir_normalized_ids r)))))))
     else if ir_status_code r \<in> {404, 410}
     then andthen (failure provider username (''followup/'' @ ref) r now 0 []) (\<lambda>_. andthen (upd_coll (save_pages j c' now)) (\<lambda>_.
       ret (Inr (c', processed + 1, ids))))
     else andthen (failure provider username (''followup/'' @ ref) r now processed ids) (\<lambda>f. ret (Inl f))))"

fun followup_loop ::
  "coll_env \<Rightarrow> job \<Rightarrow> string \<Rightarrow> string \<Rightarrow> int \<Rightarrow> string list \<Rightarrow> page_cursor \<times> nat \<times> int list \<Rightarrow> (page_cursor \<times> nat \<times> int list) phase" where
  "followup_loop e j provider username now [] p = ret (Inr p)"
| "followup_loop e j provider username now (ref # refs) p =
     andthen (stopped e) (\<lambda>halt. if halt then ret (Inl (collected False (fst (snd p)) (snd (snd p)) ''collection paused during follow-ups''))
       else andthen (followup_step e j provider username now ref p) (\<lambda>r. case r of
           Inl f \<Rightarrow> ret (Inl f)
         | Inr q \<Rightarrow> followup_loop e j provider username now refs q))"

definition followup_phase :: "coll_env \<Rightarrow> job \<Rightarrow> string \<Rightarrow> string \<Rightarrow> nat \<Rightarrow> int \<Rightarrow> page_cursor \<Rightarrow> page_cursor phase" where
  "followup_phase e j provider username batch_size now c =
     (if pc_phase c \<noteq> ''followups'' then ret (Inr c)
      else andthen (see (\<lambda>s. map fst (followups (si_coll s) username (pc_followup_after c) batch_size))) (\<lambda>refs.
        andthen (followup_loop e j provider username now refs (c, 0, [])) (\<lambda>r. case r of
            Inl f \<Rightarrow> ret (Inl f)
          | Inr (c1, processed, ids) \<Rightarrow>
              if length refs = batch_size then ret (Inl (collected False processed ids ''unfinished-game follow-ups checkpointed''))
              else let c2 = c1\<lparr>pc_phase := ''pages''\<rparr> in
                andthen (upd_coll (save_pages j c2 now)) (\<lambda>_.
                if processed \<noteq> 0 then ret (Inl (collected False processed ids ''unfinished-game follow-ups complete''))
                else ret (Inr c2)))))"

subsection \<open>Pages\<close>

definition show_since :: "int option \<Rightarrow> string" where
  "show_since since = (case since of None \<Rightarrow> ''open'' | Some l \<Rightarrow> str_int l)"

definition window_unit :: "int option \<Rightarrow> int \<Rightarrow> string" where
  "window_unit since until = ''window/'' @ show_since since @ ''..'' @ str_int until"

definition page_unit :: "int option \<Rightarrow> int \<Rightarrow> int \<Rightarrow> string" where
  "page_unit since until limit = ''millis/'' @ show_since since @ ''..'' @ str_int until @ ''/limit/'' @ str_int limit"

definition page_values :: "coll_env \<Rightarrow> string \<Rightarrow> json list result" where
  "page_values e body = rmap (ce_loads e) (filter (\<lambda>l. \<not> blank_line l) (byte_lines [] body))"

definition page_game :: "int option \<Rightarrow> int \<Rightarrow> json \<Rightarrow> (pars \<times> int) result" where
  "page_game since until v = (case v of
       JObj kvs \<Rightarrow> (case obj_get kvs ''createdAt'' of
           JInt created \<Rightarrow> if until \<le> created \<or> (case since of None \<Rightarrow> False | Some l \<Rightarrow> created < l)
             then Inl (ValueError ''game timestamp is outside the requested millisecond window'') else Inr (kvs, created)
         | _ \<Rightarrow> Inl (ValueError ''game timestamp is outside the requested millisecond window''))
     | _ \<Rightarrow> Inl (ValueError ''NDJSON game must be an object''))"

text \<open>The validated page: at most the limit, inside the window, newest first.\<close>

definition page_games :: "int option \<Rightarrow> int \<Rightarrow> int \<Rightarrow> json list \<Rightarrow> (pars \<times> int) list result" where
  "page_games since until limit vs =
     (if limit < int (length vs) then Inl (ValueError ''provider returned more games than the bounded page limit'')
      else rbind (rmap (page_game since until) vs) (\<lambda>games.
        if map snd games \<noteq> List.rev (sort (map snd games))
        then Inl (ValueError ''provider page is not ordered by descending creation time'') else Inr games))"

definition covered_since :: "int option \<Rightarrow> int \<Rightarrow> (pars \<times> int) list \<Rightarrow> int option" where
  "covered_since since limit games = (if int (length games) < limit then since else Some (snd (last games) + 1))"

text \<open>The limit after a saturated page: it grows past the boundary ties, and doubles when the window did not shrink.\<close>

definition next_limit :: "int \<Rightarrow> int \<Rightarrow> int \<Rightarrow> (pars \<times> int) list \<Rightarrow> int" where
  "next_limit page_size until limit games =
     (let oldest = snd (last games); grown = page_size + int (count_list (map snd games) oldest) in
      if until \<le> oldest + 1 then max grown (limit * 2) else grown)"

definition note_history :: "string \<Rightarrow> int option \<Rightarrow> int \<Rightarrow> coll \<Rightarrow> coll" where
  "note_history username raw now co = (case history_high_water co username of
       None \<Rightarrow> co
     | Some h \<Rightarrow> record_coverage ((covered_row ''lichess'' username ''history'' ''complete'' now)
         \<lparr>cv_raw_payload_id := raw, cv_until_ms := Some h\<rparr>) co)"

definition note_window :: "string \<Rightarrow> int option \<Rightarrow> int option \<Rightarrow> int \<Rightarrow> int \<Rightarrow> coll \<Rightarrow> coll" where
  "note_window username raw since until now co = record_coverage ((covered_row ''lichess'' username (window_unit since until) ''complete'' now)
     \<lparr>cv_raw_payload_id := raw, cv_since_ms := since, cv_until_ms := Some until\<rparr>) co"

text \<open>The last transaction of a page.\<close>

definition commit_page ::
  "job \<Rightarrow> string \<Rightarrow> int \<Rightarrow> raw_row \<Rightarrow> bool \<Rightarrow> bool \<Rightarrow> page_cursor \<Rightarrow> page_cursor \<Rightarrow> coll \<Rightarrow> coll" where
  "commit_page j username now w range_done dn c c' co =
     (let since = pc_since_ms c; until = pc_until_ms c; raw = Some (rw_id w);
          co1 = record_coverage ((covered_row ''lichess'' username (page_unit since until (pc_limit c)) ''complete'' now)
            \<lparr>cv_raw_payload_id := raw, cv_parser_version := rw_parser_version w, cv_since_ms := since, cv_until_ms := Some until\<rparr>) co;
          co2 = (if range_done then note_window username raw since until now co1 else co1);
          co3 = note_history username raw now co2;
          co4 = (if dn then note_window username raw (pc_requested_since_ms c) (pc_upper_ms c) now co3 else co3)
      in save_pages j c' now co4)"

definition over_budget :: "string \<Rightarrow> int \<Rightarrow> raw_row \<Rightarrow> page_cursor \<Rightarrow> collection_result act" where
  "over_budget username now w c = andthen (upd_coll (record_coverage
       ((covered_row ''lichess'' username (page_unit (pc_since_ms c) (pc_until_ms c) (pc_limit c)) ''error'' now)
          \<lparr>cv_raw_payload_id := Some (rw_id w), cv_error := Some ''timestamp boundary exceeds configured page budget''\<rparr>)))
     (\<lambda>_. raise (ValueError ''timestamp boundary exceeds max_page_size; increase the budget and resume''))"

text \<open>A captured page: its range and games, then the checkpoint.\<close>

definition keep_range :: "string \<Rightarrow> int \<Rightarrow> raw_row \<Rightarrow> page_cursor \<Rightarrow> (pars \<times> int) list \<Rightarrow> unit act" where
  "keep_range username now w c games = tx (\<lambda>s.
     rbind (track_games username (map fst games) now
         (record_source_range username (rw_id w) (covered_since (pc_since_ms c) (pc_limit c) games) (pc_until_ms c) (si_coll s)))
       (\<lambda>co. Inr (s\<lparr>si_coll := co\<rparr>, ())))"

definition absorb_page ::
  "job \<Rightarrow> string \<Rightarrow> string \<Rightarrow> int \<Rightarrow> int \<Rightarrow> int \<Rightarrow> raw_row \<Rightarrow> page_cursor \<Rightarrow> (pars \<times> int) list \<Rightarrow> int list \<Rightarrow> collection_result act" where
  "absorb_page j username mode page_size max_page_size now w c games ids =
     (let range_done = (int (length games) < pc_limit c);
          bound = next_limit page_size (pc_until_ms c) (pc_limit c) games in
      andthen (keep_range username now w c games) (\<lambda>_.
      andthen (ask_site (\<lambda>s. if mode = ''backfill'' then Inr range_done
          else rbind (missing_windows (si_coll s) username (pc_requested_since_ms c) (pc_upper_ms c)) (\<lambda>ws. Inr (ws = [])))) (\<lambda>dn.
      if \<not> range_done \<and> max_page_size < bound then over_budget username now w c
      else let c1 = (if range_done then c else c\<lparr>pc_until_ms := snd (last games) + 1, pc_limit := bound\<rparr>);
               c2 = (if dn then c1\<lparr>pc_done := True\<rparr> else c1) in
        andthen (upd_coll (commit_page j username now w range_done dn c c2)) (\<lambda>_.
        ret (collected dn 1 ids (''stream page captured '' @ str_nat (length games) @ '' game(s); ''
          @ (if dn then ''complete'' else ''checkpointed''))))))) "

definition fetch_page ::
  "coll_env \<Rightarrow> job \<Rightarrow> string \<Rightarrow> string \<Rightarrow> string \<Rightarrow> int \<Rightarrow> int \<Rightarrow> int \<Rightarrow> page_cursor \<Rightarrow> collection_result act" where
  "fetch_page e j provider username mode page_size max_page_size now c =
     (let since = pc_since_ms c; until = pc_until_ms c; limit = pc_limit c in
      andthen (fetch_lichess_games_page (ce_ingest e) (ce_accounts e) (ce_games e) (ce_ask_page e since until limit) username since until limit
          (Some (j_id j)) (j_crawl_run_id j)) (\<lambda>r.
      if \<not> successful r then failure provider username (page_unit since until limit) r now 0 []
      else andthen (raw_id r) (\<lambda>i. andthen (read_payload e i) (\<lambda>(w, body).
        andthen (ask_site (\<lambda>_. rbind (page_values e body) (page_games since until limit))) (\<lambda>games.
        absorb_page j username mode page_size max_page_size now w c games (ir_normalized_ids r))))))"

definition already_covered :: "job \<Rightarrow> string \<Rightarrow> int \<Rightarrow> page_cursor \<Rightarrow> collection_result act" where
  "already_covered j username now c = andthen (upd_coll (\<lambda>co. save_pages j (c\<lparr>pc_done := True\<rparr>) now (note_history username None now
       (note_window username None (pc_requested_since_ms c) (pc_upper_ms c) now co))))
     (\<lambda>_. ret (collected True 0 [] ''requested history already covered''))"

text \<open>Before each page the window is the newest one still missing; a moved window starts over with the configured size.\<close>

definition move_window :: "string \<Rightarrow> string \<Rightarrow> int \<Rightarrow> page_cursor \<Rightarrow> page_cursor act" where
  "move_window username mode page_size c =
     (if mode = ''backfill'' then ret c
      else andthen (ask_site (\<lambda>s. first_window (si_coll s) username (pc_requested_since_ms c) (pc_upper_ms c))) (\<lambda>w.
        ret (c\<lparr>pc_limit := (if w \<noteq> (pc_since_ms c, pc_until_ms c) then page_size else pc_limit c),
             pc_since_ms := fst w, pc_until_ms := snd w\<rparr>)))"

definition page_phase ::
  "coll_env \<Rightarrow> job \<Rightarrow> string \<Rightarrow> string \<Rightarrow> string \<Rightarrow> int \<Rightarrow> int \<Rightarrow> int \<Rightarrow> page_cursor \<Rightarrow> collection_result act" where
  "page_phase e j provider username mode page_size max_page_size now c0 =
     andthen (stopped e) (\<lambda>halt. if halt then ret (collected False 0 [] ''collection paused before stream page'')
       else andthen (move_window username mode page_size c0) (\<lambda>c.
         if pc_since_ms c = Some (pc_until_ms c) then already_covered j username now c
         else fetch_page e j provider username mode page_size max_page_size now c))"

definition lichess ::
  "coll_env \<Rightarrow> job \<Rightarrow> pars \<Rightarrow> pars option \<Rightarrow> string \<Rightarrow> string \<Rightarrow> string \<Rightarrow> nat \<Rightarrow> string \<Rightarrow> int \<Rightarrow> collection_result act" where
  "lichess e j params cursor provider username mode batch_size fingerprint now_ms =
     (let now = now_ms div 1000 in
      andthen (ask_site (\<lambda>_. page_sizes params)) (\<lambda>(page_size, max_page_size).
      andthen (case cursor of
          None \<Rightarrow> start_pages j params username mode fingerprint page_size now_ms
        | Some c \<Rightarrow> ask_site (\<lambda>_. page_cursor_of c)) (\<lambda>c0.
      andthen (stored_phase e j username batch_size now c0) (\<lambda>r1. case r1 of Inl f \<Rightarrow> ret f | Inr c1 \<Rightarrow>
      andthen (followup_phase e j provider username batch_size now c1) (\<lambda>r2. case r2 of Inl f \<Rightarrow> ret f | Inr c2 \<Rightarrow>
      page_phase e j provider username mode page_size max_page_size now c2)))))"

section \<open>A collection\<close>

definition volatile_keys :: "string list" where
  "volatile_keys = [''batch_size'', ''page_size'', ''max_page_size'', ''max_games'']"

definition request_fingerprint :: "coll_env \<Rightarrow> string \<Rightarrow> string \<Rightarrow> pars \<Rightarrow> string" where
  "request_fingerprint e provider username params = cd_sha (ie_codec (ce_ingest e))
     (dumps True (JList [JStr provider, JStr username, JObj (filter (\<lambda>kv. fst kv \<notin> set volatile_keys) params)]))"

definition collection_mode :: "pars \<Rightarrow> string result" where
  "collection_mode params = (case coalesce (map_of params ''collection_mode'') (JStr ''incremental'') of
       JStr m \<Rightarrow> if m \<in> {''full'', ''incremental'', ''backfill''} then Inr m
         else Inl (ValueError ''collection_mode must be full, incremental, or backfill'')
     | JList _ \<Rightarrow> Inl (TypeError ''unhashable type'')
     | JObj _ \<Rightarrow> Inl (TypeError ''unhashable type'')
     | _ \<Rightarrow> Inl (ValueError ''collection_mode must be full, incremental, or backfill''))"

text \<open>\<open>execute_collection\<close>: the two clock readings \<open>now\<close> and \<open>now_ms\<close> are arguments.\<close>

definition execute_collection :: "coll_env \<Rightarrow> job \<Rightarrow> pars \<Rightarrow> int \<Rightarrow> int \<Rightarrow> collection_result act" where
  "execute_collection e j params now now_ms =
     andthen (ask_site (\<lambda>_. collection_mode params)) (\<lambda>mode.
     andthen (ask_site (\<lambda>_. positive params ''batch_size'' (JInt 4) 100)) (\<lambda>batch.
     let username = lower (strip (j_target j)) in
     if username = [] then raise (ValueError ''collection requires a username'')
     else andthen (ask_site (\<lambda>_. source_provider j)) (\<lambda>provider.
       let fingerprint = request_fingerprint e provider username params in
       andthen (see (\<lambda>s. checkpoint (si_coll s) (j_id j))) (\<lambda>cursor.
       if (case cursor of None \<Rightarrow> False | Some c \<Rightarrow> obj_get c ''request_fingerprint'' \<noteq> JStr fingerprint)
       then raise (ValueError ''collection parameters changed after its checkpoint was created'')
       else if (case cursor of None \<Rightarrow> False | Some c \<Rightarrow> truthy (obj_get c ''done''))
       then ret (collected True 0 [] ''collection already complete'')
       else andthen (stopped e) (\<lambda>halt. if halt then ret (collected False 0 [] ''collection paused before acquisition'')
         else if provider = ''chess.com''
         then chesscom e j params cursor provider username mode (nat batch) fingerprint now
         else if provider = ''lichess''
         then lichess e j params cursor provider username mode (nat batch) fingerprint now_ms
         else raise (ValueError (''unsupported collection provider: '' @ provider)))))))"

end
