(* ===== verification/Acquisition.thy ===== *)
theory Acquisition
  imports Collection
begin

text \<open>
  Bounded acquisition: storage/acquisition.py (which games a run may own), jobs/acquisition.py (one month
  or one stream per call) and the game allowance of jobs/discovery.py. The tables of normalized games and
  players are rows of their own; a game's metadata is that of its current version.
\<close>

section \<open>Games\<close>

record game_row =
  ga_id :: int
  ga_provider :: string
  ga_ended_at :: "int option"
  ga_source_metadata :: json

text \<open>\<open>int(value)\<close> of a JSON value.\<close>

definition py_int :: "json \<Rightarrow> int result" where
  "py_int v = (case v of
       JInt i \<Rightarrow> Inr i
     | JBool b \<Rightarrow> Inr (if b then 1 else 0)
     | JFloat f \<Rightarrow> int_of_float f
     | JStr s \<Rightarrow> (case parse_int s of Some i \<Rightarrow> Inr i | None \<Rightarrow> Inl (ValueError ''invalid literal for int() with base 10''))
     | _ \<Rightarrow> Inl (TypeError ''int() argument must be a string or a real number''))"

definition int_or_none :: "json \<Rightarrow> int option result" where
  "int_or_none v = (case v of
       JNull \<Rightarrow> Inr None
     | JList _ \<Rightarrow> Inr None
     | JObj _ \<Rightarrow> Inr None
     | _ \<Rightarrow> rbind (py_int v) (\<lambda>i. Inr (Some i)))"

text \<open>\<open>int(params[k]) if params.get(k) is not None else None\<close>.\<close>

definition int_unless_none :: "json \<Rightarrow> int option result" where
  "int_unless_none v = (if v = JNull then Inr None else rbind (py_int v) (\<lambda>i. Inr (Some i)))"

section \<open>Attribution\<close>

definition run_game_ids :: "db \<Rightarrow> int \<Rightarrow> int set" where
  "run_game_ids d run = set (map snd (filter (\<lambda>g. fst g = run) (db_run_games d)))"

definition run_has_game :: "db \<Rightarrow> int \<Rightarrow> int \<Rightarrow> bool" where
  "run_has_game d run game \<longleftrightarrow> (run, game) \<in> set (db_run_games d)"

definition work_budget_game_count :: "db \<Rightarrow> int \<Rightarrow> int result" where
  "work_budget_game_count d b = (case find_row (\<lambda>r. b_id r = b) (db_budgets d) of
       Some r \<Rightarrow> Inr (b_games r)
     | None \<Rightarrow> Inl (ValueError (''Work budget not found: '' @ str_int b)))"

definition work_budget_has_game :: "db \<Rightarrow> int \<Rightarrow> string \<Rightarrow> bool" where
  "work_budget_has_game d b key \<longleftrightarrow> (b, key) \<in> set (db_game_items d)"

definition game_count_for_run :: "db \<Rightarrow> int \<Rightarrow> int" where
  "game_count_for_run d run = count_where (\<lambda>g. fst g = run) (db_run_games d)"

record run_game_bounds =
  gb_remaining :: "int option"
  gb_since :: "int option"
  gb_until :: "int option"
  gb_created_since_ms :: "int option"
  gb_created_until_ms :: "int option"

definition in_window :: "int option \<Rightarrow> int option \<Rightarrow> int \<Rightarrow> bool" where
  "in_window since until t \<longleftrightarrow> (case since of None \<Rightarrow> True | Some a \<Rightarrow> a \<le> t) \<and> (case until of None \<Rightarrow> True | Some b \<Rightarrow> t < b)"

definition bounds_include :: "run_game_bounds \<Rightarrow> int option \<Rightarrow> json \<Rightarrow> bool" where
  "bounds_include b ended_at created =
     (if (gb_created_since_ms b \<noteq> None \<or> gb_created_until_ms b \<noteq> None)
        \<and> (case created of JInt t \<Rightarrow> \<not> in_window (gb_created_since_ms b) (gb_created_until_ms b) t | _ \<Rightarrow> True) then False
      else if gb_since b = None \<and> gb_until b = None then True
      else (case ended_at of None \<Rightarrow> False | Some t \<Rightarrow> in_window (gb_since b) (gb_until b) t))"

definition is_collection :: "(string \<times> json) list \<Rightarrow> bool" where
  "is_collection params \<longleftrightarrow> coalesce (map_of params ''collection_mode'') (JStr ''bounded'') \<noteq> JStr ''bounded''"

definition configured_limit :: "(string \<times> json) list \<Rightarrow> int option result" where
  "configured_limit params = (if is_collection params then Inr None else int_unless_none (obj_get params ''max_games''))"

text \<open>The creation window in milliseconds: the key itself, or the seconds without the suffix.\<close>

definition created_bound :: "(string \<times> json) list \<Rightarrow> string \<Rightarrow> int option result" where
  "created_bound params name =
     (if obj_get params (name @ ''_ms'') \<noteq> JNull then int_unless_none (obj_get params (name @ ''_ms''))
      else rbind (int_unless_none (obj_get params name)) (\<lambda>s. Inr (map_option (\<lambda>n. n * 1000) s)))"

definition game_bounds :: "db \<Rightarrow> int \<Rightarrow> string \<Rightarrow> int option \<Rightarrow> run_game_bounds result" where
  "game_bounds d run provider requested = (case run_row d run of
       None \<Rightarrow> Inl (ValueError (''Crawl run not found: '' @ str_int run))
     | Some r \<Rightarrow>
         if r_provider r \<noteq> Some provider
         then Inl (ValueError ''A crawl run cannot acquire games from a different provider'')
         else (case r_params_json r of
             JObj params \<Rightarrow>
               rbind (configured_limit params) (\<lambda>configured.
               let available = map_option (\<lambda>n. max 0 (n - game_count_for_run d run)) configured;
                   left_over = (case (available, requested) of
                       (None, q) \<Rightarrow> q | (Some a, None) \<Rightarrow> Some a | (Some a, Some q) \<Rightarrow> Some (min q a));
                   collection = is_collection params; created = (collection \<and> provider = ''lichess'') in
               rbind (if collection then Inr None else int_unless_none (obj_get params ''since'')) (\<lambda>since.
               rbind (if collection then Inr None else int_unless_none (obj_get params ''until'')) (\<lambda>until.
               rbind (if created then created_bound params ''since'' else Inr None) (\<lambda>created_since.
               rbind (if created then created_bound params ''until'' else Inr None) (\<lambda>created_until.
               Inr \<lparr>gb_remaining = left_over, gb_since = since, gb_until = until,
                 gb_created_since_ms = created_since, gb_created_until_ms = created_until\<rparr>)))))
           | _ \<Rightarrow> Inl (AttributeError ''get'')))"

text \<open>\<open>associate_run_game\<close>: under the run's lock the tables do not change between the read and the write.\<close>

definition created_at :: "game_row \<Rightarrow> json" where
  "created_at g = (case ga_source_metadata g of JObj kvs \<Rightarrow> obj_get kvs ''createdAt'' | _ \<Rightarrow> JNull)"

definition associate_run_game :: "game_row list \<Rightarrow> int \<Rightarrow> int \<Rightarrow> db \<Rightarrow> (db \<times> bool) result" where
  "associate_run_game games run game d = (case find_row (\<lambda>g. ga_id g = game) games of
       None \<Rightarrow> Inl (ValueError (''Game not found: '' @ str_int game))
     | Some g \<Rightarrow>
         if run_has_game d run game then Inr (d, False)
         else rbind (game_bounds d run (ga_provider g) None) (\<lambda>b.
           if \<not> bounds_include b (ga_ended_at g) (created_at g)
           then Inl (ValueError ''The game does not have an end time within the crawl run's date window'')
           else if gb_remaining b = Some 0 then Inl (ValueError ''The crawl run's game limit has been reached'')
           else Inr (d\<lparr>db_run_games := db_run_games d @ [(run, game)]\<rparr>, True)))"

definition remaining_game_budget :: "conn \<Rightarrow> db \<Rightarrow> int option \<Rightarrow> (string \<times> json) list \<Rightarrow> int option result" where
  "remaining_game_budget c d run params = rbind (int_or_none (obj_get params ''max_games'')) (\<lambda>limit. case limit of
       None \<Rightarrow> Inr None
     | Some n \<Rightarrow> (case run of
         None \<Rightarrow> rbind (case cn_work_budget_id c of None \<Rightarrow> Inr 0 | Some b \<Rightarrow> work_budget_game_count d b) (\<lambda>acquired.
           Inr (Some (max 0 (n - acquired))))
       | Some r \<Rightarrow> rbind (int_or_none (obj_get params ''since'')) (\<lambda>_. rbind (int_or_none (obj_get params ''until'')) (\<lambda>_.
           Inr (Some (max 0 (n - game_count_for_run d r)))))))"

section \<open>Months of a window\<close>

text \<open>The loop of \<open>_months_between\<close>, with the distance of the months as fuel.\<close>

definition month_le :: "int \<times> int \<Rightarrow> int \<times> int \<Rightarrow> bool" where
  "month_le a b \<longleftrightarrow> fst a < fst b \<or> fst a = fst b \<and> snd a \<le> snd b"

fun months_upto :: "nat \<Rightarrow> int \<times> int \<Rightarrow> int \<times> int \<Rightarrow> (int \<times> int) list" where
  "months_upto 0 ym fin = []"
| "months_upto (Suc n) ym fin = (if month_le ym fin then ym # months_upto n (next_month ym) fin else [])"

definition month_index :: "int \<times> int \<Rightarrow> int" where
  "month_index ym = 12 * fst ym + snd ym"

definition months_between :: "int \<Rightarrow> int \<Rightarrow> (int \<times> int) list result" where
  "months_between since until =
     (if until \<le> since then Inl (ValueError ''since must be earlier than until'')
      else rbind (fromtimestamp since) (\<lambda>(y, m, _). rbind (fromtimestamp (until - 1)) (\<lambda>(y', m', _).
        Inr (months_upto (nat (month_index (y', m') - month_index (y, m) + 1)) (y, m) (y', m')))))"

section \<open>One unit of bounded acquisition\<close>

record bounded_env =
  be_ingest :: ingest_env
  be_accounts :: accounts
  be_games :: normalizer
  be_ask_month :: "int \<Rightarrow> int \<Rightarrow> conditional_ask"
  be_ask_games :: "json \<Rightarrow> json \<Rightarrow> int \<Rightarrow> capture act"

definition in_db :: "(conn \<Rightarrow> db \<Rightarrow> db result) \<Rightarrow> unit act" where
  "in_db f = tx (\<lambda>s. rbind (f (si_conn s) (si_db s)) (\<lambda>d. Inr (s\<lparr>si_db := d\<rparr>, ())))"

definition unit_outcome :: "ingest_result \<Rightarrow> collection_result" where
  "unit_outcome r = \<lparr>cr_done = False, cr_processed_units = (if ok_status (ir_status_code r) then 1 else 0),
     cr_normalized_ids = ir_normalized_ids r, cr_message = ir_message r, cr_status_code = ir_status_code r,
     cr_retry_after = ir_retry_after r\<rparr>"

definition acquire_month :: "bounded_env \<Rightarrow> job \<Rightarrow> pars \<Rightarrow> int option \<Rightarrow> collection_result act" where
  "acquire_month e j params left_over = (case (obj_get params ''since'', obj_get params ''until'') of
       (JInt since, JInt until) \<Rightarrow>
         andthen (ask_site (\<lambda>_. months_between since until)) (\<lambda>months.
         andthen (ask_site (\<lambda>_. py_int (py_or (obj_get params ''cursor_index'') (JInt 0)))) (\<lambda>index.
         if int (length months) \<le> index then ret (collected True 0 [] ''monthly selection complete'')
         else andthen (ask_site (\<lambda>_. if index < - int (length months) then Inl (RuntimeError ''list index out of range'')
             else Inr (months ! nat (if index < 0 then int (length months) + index else index)))) (\<lambda>(year, month).
           andthen (fetch_chesscom_month (be_ingest e) (be_accounts e) (be_games e) (be_ask_month e year month) (j_target j) year month
               left_over (Some (j_id j)) (j_crawl_run_id j)) (\<lambda>r.
           andthen (in_db (\<lambda>c d. rbind (checkpoint_job c (j_id j) params (index + 1) (ir_status_code r) d) (\<lambda>(d', _). Inr d'))) (\<lambda>_.
           ret (unit_outcome r))))))
     | _ \<Rightarrow> raise (ValueError ''Chess.com jobs require since/until''))"

text \<open>\<open>params.get("limit") or remaining or params.get("max_games") or 0\<close>.\<close>

definition stream_limit :: "pars \<Rightarrow> int option \<Rightarrow> int result" where
  "stream_limit params left_over = rbind (py_int (py_or (py_or (py_or (obj_get params ''limit'') (opt_int left_over))
     (obj_get params ''max_games'')) (JInt 0))) (\<lambda>limit.
     if limit \<le> 0 then Inl (ValueError ''Lichess jobs require a positive limit'')
     else Inr (case left_over of None \<Rightarrow> limit | Some n \<Rightarrow> min limit n))"

definition acquire_stream :: "bounded_env \<Rightarrow> job \<Rightarrow> pars \<Rightarrow> int option \<Rightarrow> collection_result act" where
  "acquire_stream e j params left_over =
     andthen (ask_site (\<lambda>_. stream_limit params left_over)) (\<lambda>limit.
     andthen (fetch_lichess_games (be_ingest e) (be_accounts e) (be_games e) (be_ask_games e (obj_get params ''since'') (obj_get params ''until'') limit)
         limit (Some (j_id j)) (j_crawl_run_id j)) (\<lambda>r.
     andthen (if ok_status (ir_status_code r)
         then in_db (\<lambda>c d. update_job_params c (j_id j) (dict_set params ''bounded_capture_complete'' (JBool True)) d) else ret ()) (\<lambda>_.
     ret (unit_outcome r))))"

definition execute_bounded_acquisition :: "bounded_env \<Rightarrow> job \<Rightarrow> pars \<Rightarrow> bool \<Rightarrow> collection_result act" where
  "execute_bounded_acquisition e j params halt =
     (if halt then ret (collected False 0 [] ''Acquisition stopped; checkpoint retained'')
      else andthen (ask_site (\<lambda>_. source_provider j)) (\<lambda>provider.
        andthen (ask_site (\<lambda>s. remaining_game_budget (si_conn s) (si_db s) (j_crawl_run_id j) params)) (\<lambda>left_over.
        if left_over = Some 0 \<or> truthy (obj_get params ''bounded_capture_complete'')
        then ret (collected True 0 [] ''bounded selection complete'')
        else if provider = ''chess.com'' then acquire_month e j params left_over
        else if provider = ''lichess'' then acquire_stream e j params left_over
        else raise (ValueError (''unsupported collection provider: '' @ provider)))))"

end
