(* ===== verification/Normalization.thy ===== *)
theory Normalization
  imports Identities Acquisition
begin

text \<open>
  Normalization of stored game payloads: the checkpoints of a payload (storage/normalization.py) and the
  games normalizer (normalize/games.py), which interprets each game of a payload within the bounds of
  its run and the work budget, writes it in one transaction and certifies the payload when every
  game of the current observation is done. \<open>json.loads\<close>, the notation library, the driver's
  conversion and the stop flag (by the number of polls) are fields of the environment.
\<close>

section \<open>Checkpoints\<close>

definition same_run :: "int \<Rightarrow> string \<Rightarrow> normalization_run \<Rightarrow> bool" where
  "same_run raw version r \<longleftrightarrow> nr_raw_payload_id r = raw \<and> nr_parser_version r = version"

definition begin_normalization :: "int \<Rightarrow> string \<Rightarrow> site \<Rightarrow> (site \<times> int) result" where
  "begin_normalization raw version s =
     rbind (require_row (raw_by_id (si_arch s) raw)) (\<lambda>w.
     let ct = si_catalog s; observed = observation_id (si_arch s) raw;
         progress = find_row (same_run raw version) (ct_normalization_runs ct);
         reset = (case progress of None \<Rightarrow> True
           | Some p \<Rightarrow> nr_observation_id p \<noteq> observed \<or> nr_state p = ''complete'' \<and> rw_parser_version w \<noteq> Some version);
         fresh = \<lparr>nr_raw_payload_id = raw, nr_parser_version = version, nr_observation_id = observed, nr_state = ''pending''\<rparr> in
     Inr (if \<not> reset then s
       else on_arch (\<lambda>a. a\<lparr>ar_raw := update_where (\<lambda>x. rw_id x = raw) (\<lambda>x. x\<lparr>rw_normalization_status := ''pending''\<rparr>) (ar_raw a)\<rparr>)
         (on_catalog (\<lambda>ct. ct\<lparr>
           ct_normalization_items := filter (\<lambda>i. \<not> (ni_raw_payload_id i = raw \<and> ni_parser_version i = version)) (ct_normalization_items ct),
           ct_normalization_runs := (if progress = None then ct_normalization_runs ct @ [fresh]
             else update_where (same_run raw version) (\<lambda>_. fresh) (ct_normalization_runs ct))\<rparr>) s), observed))"

definition processed_items :: "catalog \<Rightarrow> int \<Rightarrow> string \<Rightarrow> int \<Rightarrow> (string \<times> int) list" where
  "processed_items ct raw version observed = map (\<lambda>i. (ni_json_pointer i, ni_game_id i))
     (filter (\<lambda>i. ni_raw_payload_id i = raw \<and> ni_parser_version i = version \<and> ni_observation_id i = observed) (ct_normalization_items ct))"

definition same_item :: "int \<Rightarrow> string \<Rightarrow> string \<Rightarrow> normalization_item \<Rightarrow> bool" where
  "same_item raw version pointer i \<longleftrightarrow> ni_raw_payload_id i = raw \<and> ni_parser_version i = version \<and> ni_json_pointer i = pointer"

definition mark_item :: "int \<Rightarrow> string \<Rightarrow> string \<Rightarrow> int \<Rightarrow> int \<Rightarrow> catalog \<Rightarrow> catalog" where
  "mark_item raw version pointer observed game ct = (case find_row (same_item raw version pointer) (ct_normalization_items ct) of
       None \<Rightarrow> ct\<lparr>ct_normalization_items := ct_normalization_items ct @ [\<lparr>ni_raw_payload_id = raw, ni_parser_version = version,
         ni_json_pointer = pointer, ni_observation_id = observed, ni_game_id = game\<rparr>]\<rparr>
     | Some i \<Rightarrow> if ni_observation_id i \<le> observed
         then ct\<lparr>ct_normalization_items := update_where (same_item raw version pointer)
           (\<lambda>i. i\<lparr>ni_observation_id := observed, ni_game_id := game\<rparr>) (ct_normalization_items ct)\<rparr> else ct)"

definition finish_normalization :: "int \<Rightarrow> string \<Rightarrow> int \<Rightarrow> string list \<Rightarrow> site \<Rightarrow> site \<times> bool" where
  "finish_normalization raw version observed pointers s =
     (let completed = map fst (processed_items (si_catalog s) raw version observed);
          complete = (observation_id (si_arch s) raw = observed \<and> set pointers \<subseteq> set completed) in
      (if complete then on_catalog (\<lambda>ct. ct\<lparr>ct_normalization_runs := update_where
           (\<lambda>r. same_run raw version r \<and> nr_observation_id r = observed) (\<lambda>r. r\<lparr>nr_state := ''complete''\<rparr>) (ct_normalization_runs ct)\<rparr>) s
       else s, complete))"

section \<open>Facts of a game\<close>

definition is_winner :: "string \<Rightarrow> string option \<Rightarrow> bool option" where
  "is_winner color outcome = (case outcome of None \<Rightarrow> None
     | Some r \<Rightarrow> if r = ''draw'' then None else Some (r = color @ ''_win''))"

definition clock_args :: "int option \<Rightarrow> int option \<Rightarrow> string \<Rightarrow> string \<Rightarrow> time_control_args" where
  "clock_args initial increment time_class label = \<lparr>ta_kind = ''clock'', ta_initial_seconds = initial, ta_increment_seconds = increment,
     ta_days = None, ta_time_class = time_class, ta_raw_label = label\<rparr>"

definition correspondence_args :: "int option \<Rightarrow> string \<Rightarrow> time_control_args" where
  "correspondence_args days label = \<lparr>ta_kind = ''correspondence'', ta_initial_seconds = None, ta_increment_seconds = None,
     ta_days = days, ta_time_class = ''correspondence'', ta_raw_label = label\<rparr>"

definition parse_time_control :: "string option \<Rightarrow> string \<Rightarrow> time_control_args" where
  "parse_time_control raw_label time_class =
     (let label = (case raw_label of Some (c # cs) \<Rightarrow> c # cs | _ \<Rightarrow> time_class) in
      if time_class = ''correspondence'' then
        (case split1 (CHR ''/'') label of
           (_, Some seconds) \<Rightarrow> correspondence_args (Some (case parse_int seconds of
               Some n \<Rightarrow> max 1 (trunc_rat (of_int n / 86400)) | None \<Rightarrow> 1)) label
         | (_, None) \<Rightarrow> correspondence_args None label)
      else
        let head = fst (split1 (CHR '':'') label);
            period = (case split1 (CHR ''/'') head of (a, None) \<Rightarrow> a | (_, Some b) \<Rightarrow> b) in
        case split1 (CHR ''+'') period of
          (base, Some inc) \<Rightarrow> (case (parse_int base, parse_int inc) of
              (Some b, Some i) \<Rightarrow> clock_args (Some b) (Some i) time_class label
            | _ \<Rightarrow> clock_args None None time_class label)
        | (base, None) \<Rightarrow> (case parse_int base of
              Some b \<Rightarrow> clock_args (Some b) (Some 0) time_class label
            | None \<Rightarrow> clock_args None None time_class label))"

text \<open>\<open>_supplied_nullable_facts\<close>: a native null is a supplied fact, an omission is not.\<close>

definition null_at :: "fields \<Rightarrow> string \<Rightarrow> bool" where
  "null_at kvs k \<longleftrightarrow> map_of kvs k = Some JNull"

definition supplied_nullable_facts :: "norm_game \<Rightarrow> string list" where
  "supplied_nullable_facts game =
     (let source = ng_source_data game; lichess = (ng_provider game = ''lichess'');
          times = (if lichess then [(''created_at'', ''createdAt''), (''ended_at'', ''lastMoveAt'')]
            else [(''created_at'', ''start_time''), (''ended_at'', ''end_time'')]);
          opening = [(''eco'', ''eco''), (''opening_name'', ''name''), (''opening_ply'', ''ply'')] in
      map fst (filter (\<lambda>(_, native). null_at source native) times)
      @ (if ng_is_live game then [''ended_at''] else [])
      @ (if lichess then (case map_of source ''opening'' of
            None \<Rightarrow> []
          | Some JNull \<Rightarrow> map fst opening
          | Some (JObj kvs) \<Rightarrow> map fst (filter (\<lambda>(_, native). null_at kvs native) opening)
          | Some _ \<Rightarrow> [])
         else if ng_provider game = ''chess.com'' \<and> null_at source ''eco'' then [''eco''] else []))"

definition supplied_participant_result :: "norm_game \<Rightarrow> participant \<Rightarrow> bool" where
  "supplied_participant_result game p =
     (if ng_provider game = ''lichess'' then ng_is_live game \<or> ng_outcome game = Some ''draw'' \<or> has_key (ng_source_data game) ''winner''
      else case obj_get (ng_source_data game) (np_color p) of JObj kvs \<Rightarrow> has_key kvs ''result'' | _ \<Rightarrow> False)"

definition facts_of :: "norm_game \<Rightarrow> int \<Rightarrow> int \<Rightarrow> game_facts" where
  "facts_of game variant control = \<lparr>gf_provider = ng_provider game, gf_provider_game_id = ng_provider_game_id game,
     gf_canonical_url = ng_canonical_url game, gf_content_hash = ng_content_hash game, gf_variant_id = variant,
     gf_time_control_id = control, gf_rated = ng_rated game, gf_outcome = ng_outcome game, gf_is_live = ng_is_live game,
     gf_status_raw = ng_status_raw game, gf_created_at = ng_start_time game, gf_ended_at = ng_end_time game, gf_eco = ng_eco game,
     gf_opening_name = ng_opening_name game, gf_opening_ply = ng_opening_ply game, gf_replace = supplied_nullable_facts game\<rparr>"

section \<open>Writing a game\<close>

record 'v norm_env =
  ne_codec :: codec
  ne_loads :: "string \<Rightarrow> json result"
  ne_library :: "'v pgn_library"
  ne_adapter :: adapter
  ne_stop :: "(nat \<Rightarrow> bool) option"

definition ne_sha :: "'v norm_env \<Rightarrow> string \<Rightarrow> string" where
  "ne_sha e = cd_sha (ne_codec e)"

text \<open>Where a document lies: its payload and the pointer into it.\<close>

record origin =
  og_raw :: raw_row
  og_pointer :: string

definition source_of :: "string \<Rightarrow> int \<Rightarrow> string \<Rightarrow> raw_row \<Rightarrow> string option \<Rightarrow> site \<Rightarrow> site" where
  "source_of entity i provider w pointer s = on_arch (\<lambda>a. fst (insert_source_record entity i provider (rw_endpoint_type w) (rw_id w)
     (Some (rw_canonical_source_key w)) pointer (Some (rw_fetched_at w)) (now_of s) a)) s"

definition participant_identity :: "string \<Rightarrow> participant \<Rightarrow> string \<Rightarrow> int \<Rightarrow> identity_facts" where
  "participant_identity provider p name now =
     (let shown = (case np_display_username p of Some (c # cs) \<Rightarrow> c # cs | _ \<Rightarrow> name) in
      \<lparr>if_provider = provider, if_username = shown, if_provider_user_id = np_provider_user_id p, if_display_username = Some shown,
       if_account_status = JNull, if_title = JNull, if_now = now, if_profile_raw_payload_id = None\<rparr>)"

definition normalize_participant ::
  "'v norm_env \<Rightarrow> gate \<Rightarrow> int \<Rightarrow> norm_game \<Rightarrow> participant \<Rightarrow> raw_row \<Rightarrow> site \<Rightarrow> site result" where
  "normalize_participant e g game_id game p w s =
     rbind (case np_username_normalized p of
         Some (c # cs) \<Rightarrow> rbind (upsert_provider_user (ne_adapter e) g (participant_identity (ng_provider game) p (c # cs) (rw_fetched_at w)) s)
           (\<lambda>(s1, user). Inr (s1, Some user))
       | _ \<Rightarrow> Inr (s, None)) (\<lambda>(s1, user).
     let (ct, seat_id) = upsert_game_participant game_id (np_color p) \<lparr>sf_provider_user_id = user,
           sf_username_normalized = np_username_normalized p, sf_result_raw = np_result_raw p,
           sf_is_winner = is_winner (np_color p) (ng_outcome game), sf_is_ai = np_is_ai p,
           sf_replace_result_raw = supplied_participant_result game p\<rparr> (si_catalog s1);
         s2 = source_of ''game_participant'' seat_id (ng_provider game) w None (s1\<lparr>si_catalog := ct\<rparr>) in
     Inr (on_catalog (upsert_rating_at_game \<lparr>rg_game_id = game_id, rg_color = np_color p, rg_rating = np_rating p,
       rg_rating_diff = np_rating_diff p, rg_rd = np_rd p\<rparr>) s2))"

definition normalize_participants :: "'v norm_env \<Rightarrow> gate \<Rightarrow> int \<Rightarrow> norm_game \<Rightarrow> raw_row \<Rightarrow> site \<Rightarrow> site result" where
  "normalize_participants e g game_id game w s =
     rbind (normalize_participant e g game_id game (ng_white game) w s) (normalize_participant e g game_id game (ng_black game) w)"

definition write_facts :: "'v norm_env \<Rightarrow> norm_game \<Rightarrow> raw_row \<Rightarrow> site \<Rightarrow> (site \<times> int \<times> bool) result" where
  "write_facts e game w s =
     (let (canonical, mapped) = map_variant (ng_provider game) (ng_variant_raw game);
          (ct1, variant) = get_or_create_variant (ng_provider game) (ng_variant_raw game) canonical mapped (si_catalog s) in
      rbind (get_or_create_time_control (parse_time_control (ng_time_control_raw game) (ng_time_class game)) ct1) (\<lambda>(ct2, control).
      let existing = find_existing_game ct2 (ng_provider game) (ng_provider_game_id game) (ng_canonical_url game) (ng_content_hash game);
          upsert = rbind (upsert_game (ne_adapter e) (facts_of game variant control) (rw_fetched_at w) (now_of s) ct2) (\<lambda>(ct3, i).
            Inr (s\<lparr>si_catalog := ct3\<rparr>, i, True)) in
      case existing of
        None \<Rightarrow> upsert
      | Some x \<Rightarrow> if is_latest_game_source (si_arch s) (gm_id x) (rw_id w) then upsert else Inr (s\<lparr>si_catalog := ct2\<rparr>, gm_id x, False)))"

definition normalize_game ::
  "'v norm_env \<Rightarrow> gate \<Rightarrow> norm_game \<Rightarrow> origin \<Rightarrow> game_evidence option \<Rightarrow> site \<Rightarrow> (site \<times> int) result" where
  "normalize_game e g game og evidence s =
     (let w = og_raw og in
      rbind (write_facts e game w s) (\<lambda>(s1, game_id, update_current).
      let s2 = source_of ''game'' game_id (ng_provider game) w (Some (og_pointer og)) s1 in
      rbind (store_game_evidence (ne_sha e) (si_arch s2) game_id game (rw_id w) (og_pointer og) (rw_fetched_at w) evidence (si_catalog s2))
        (\<lambda>(ct, _). let s3 = s2\<lparr>si_catalog := ct\<rparr> in
      if update_current then rbind (normalize_participants e g game_id game w s3) (\<lambda>s4. Inr (s4, game_id)) else Inr (s3, game_id))))"

section \<open>One game within its bounds\<close>

definition game_row_of :: "catalog \<Rightarrow> game_rec \<Rightarrow> game_row" where
  "game_row_of ct g = \<lparr>ga_id = gm_id g, ga_provider = gm_provider g, ga_ended_at = gm_ended_at g,
     ga_source_metadata = (case Option.bind (gm_current_version_id g) (version_by_id ct) of
         Some v \<Rightarrow> JObj (ev_source_metadata (gv_evidence v)) | None \<Rightarrow> JNull)\<rparr>"

definition game_rows :: "catalog \<Rightarrow> game_row list" where
  "game_rows ct = map (game_row_of ct) (ct_games ct)"

definition unique_game_key :: "norm_game \<Rightarrow> string" where
  "unique_game_key game = ng_provider game @ ''/'' @ (case ng_provider_game_id game of
       Some (c # cs) \<Rightarrow> c # cs
     | _ \<Rightarrow> (case ng_canonical_url game of Some (c # cs) \<Rightarrow> c # cs | _ \<Rightarrow> ng_content_hash game))"

definition existing_game :: "norm_game \<Rightarrow> catalog \<Rightarrow> game_rec option" where
  "existing_game game ct = find_existing_game ct (ng_provider game) (ng_provider_game_id game) (ng_canonical_url game) (ng_content_hash game)"

definition already_acquired :: "int option \<Rightarrow> norm_game \<Rightarrow> site \<Rightarrow> bool" where
  "already_acquired run game s = (case run of
       Some r \<Rightarrow> (case existing_game game (si_catalog s) of None \<Rightarrow> False | Some x \<Rightarrow> run_has_game (si_db s) r (gm_id x))
     | None \<Rightarrow> (case cn_work_budget_id (si_conn s) of None \<Rightarrow> False | Some b \<Rightarrow> work_budget_has_game (si_db s) b (unique_game_key game)))"

definition bounds_for :: "int option \<Rightarrow> string \<Rightarrow> int option \<Rightarrow> site \<Rightarrow> run_game_bounds option result" where
  "bounds_for run provider requested s = (case run of
       None \<Rightarrow> Inr None | Some r \<Rightarrow> rbind (game_bounds (si_db s) r provider requested) (\<lambda>b. Inr (Some b)))"

definition outside :: "run_game_bounds option \<Rightarrow> norm_game \<Rightarrow> bool" where
  "outside b game = (case b of None \<Rightarrow> False | Some x \<Rightarrow> \<not> bounds_include x (ng_end_time game) (obj_get (ng_source_data game) ''createdAt''))"

definition allowance :: "run_game_bounds option \<Rightarrow> int option \<Rightarrow> int option" where
  "allowance b requested = (case b of None \<Rightarrow> requested | Some x \<Rightarrow> gb_remaining x)"

text \<open>The accounts and the gate of the transaction that writes a game.\<close>

definition game_accounts :: "norm_game \<Rightarrow> (string \<times> string option) list" where
  "game_accounts game = concat (map (\<lambda>p. case np_username_normalized p of
     Some (c # cs) \<Rightarrow> [(c # cs, np_provider_user_id p)] | _ \<Rightarrow> []) [ng_white game, ng_black game])"

definition charge_game :: "int option \<Rightarrow> norm_game \<Rightarrow> bool \<Rightarrow> site \<Rightarrow> (site \<times> bool) result" where
  "charge_game run game acquired s = (case cn_work_budget_id (si_conn s) of
       None \<Rightarrow> Inr (s, acquired)
     | Some b \<Rightarrow> rbind (reserve_game (si_conn s) b (unique_game_key game) None (si_db s)) (\<lambda>(d, new).
         Inr (s\<lparr>si_db := d\<rparr>, if run = None then \<not> new else acquired)))"

text \<open>
  The transaction of one game: \<open>None\<close> when its bounds leave it out, otherwise the game's id and
  whether it counts as a new acquisition.
\<close>

definition write_game ::
  "'v norm_env \<Rightarrow> int option \<Rightarrow> norm_game \<Rightarrow> origin \<Rightarrow> int \<Rightarrow> int option \<Rightarrow> (string \<times> int) list \<Rightarrow> bool \<Rightarrow> game_evidence option \<Rightarrow> site
   \<Rightarrow> (site \<times> (int \<times> bool) option) result" where
  "write_game e run game og observed requested checkpoints reusable prepared s =
     (let w = og_raw og; raw = rw_id w in
      rbind (reconciliation_gate Open (si_catalog s) (rw_provider w) (game_accounts game)) (\<lambda>g.
      rbind (bounds_for run (rw_provider w) requested s) (\<lambda>b.
      let acquired = already_acquired run game s in
      if outside b game \<or> \<not> acquired \<and> allowance b requested = Some 0 then Inr (s, None)
      else rbind (charge_game run game acquired s) (\<lambda>(s1, acquired1).
        let refresh = (reusable \<and> (case existing_game game (si_catalog s1) of
              None \<Rightarrow> False | Some x \<Rightarrow> game_source_needs_refresh (si_arch s1) (si_catalog s1) (gm_id x) raw)) in
        rbind (if reusable \<and> \<not> refresh then Inr (s1, coalesce (map_of checkpoints (og_pointer og)) 0)
               else normalize_game e g game og prepared s1) (\<lambda>(s2, game_id).
        let s3 = on_catalog (mark_item raw GAMES_PARSER_VERSION (og_pointer og) observed game_id) s2 in
        case run of
          Some r \<Rightarrow> if acquired1 then Inr (s3, Some (game_id, False))
            else rbind (associate_run_game (game_rows (si_catalog s3)) r game_id (si_db s3)) (\<lambda>(d, _). Inr (s3\<lparr>si_db := d\<rparr>, Some (game_id, True)))
        | None \<Rightarrow> Inr (s3, Some (game_id, \<not> acquired1)))))))"

text \<open>A revision that vanished since the first look is parsed and the transaction runs again, now with its evidence at hand.\<close>

definition write_prepared ::
  "'v norm_env \<Rightarrow> int option \<Rightarrow> norm_game \<Rightarrow> origin \<Rightarrow> int \<Rightarrow> int option \<Rightarrow> (string \<times> int) list \<Rightarrow> bool \<Rightarrow> game_evidence option
   \<Rightarrow> (int \<times> bool) option act" where
  "write_prepared e run game og observed requested checkpoints reusable prepared s =
     (case write_game e run game og observed requested checkpoints reusable prepared s of
        Inl (EvidencePreparationRequired _) \<Rightarrow>
          andthen (ask_site (\<lambda>_. parse_game_evidence (ne_library e) (ne_sha e) game)) (\<lambda>ev.
            tx (write_game e run game og observed requested checkpoints reusable (Some ev))) s
      | _ \<Rightarrow> tx (write_game e run game og observed requested checkpoints reusable prepared) s)"

record progress =
  pg_game_ids :: "int list"
  pg_requested :: "int option"
  pg_checkpoints :: "(string \<times> int) list"

definition poll_stop :: "'v norm_env \<Rightarrow> unit act" where
  "poll_stop e s = (case ne_stop e of
       None \<Rightarrow> (Inr (), s)
     | Some stop \<Rightarrow> if stop (si_polls s) then (Inl (NormalizationStopped ''Processing stopped; game checkpoint retained''), s\<lparr>si_polls := si_polls s + 1\<rparr>)
         else (Inr (), s\<lparr>si_polls := si_polls s + 1\<rparr>))"

definition charge_unit :: "unit act" where
  "charge_unit s = (case cn_work_budget_id (si_conn s) of
       None \<Rightarrow> (Inr (), s)
     | Some b \<Rightarrow> tx (\<lambda>s. rbind (reserve_normalization (si_conn s) b None None 1 (si_db s)) (\<lambda>(d, _). Inr (s\<lparr>si_db := d\<rparr>, ()))) s)"

definition record_progress :: "string \<Rightarrow> (int \<times> bool) option \<Rightarrow> progress \<Rightarrow> progress" where
  "record_progress pointer outcome pg = (case outcome of
       None \<Rightarrow> pg
     | Some (game_id, counted) \<Rightarrow> pg\<lparr>pg_checkpoints := (pointer, game_id) # pg_checkpoints pg,
         pg_game_ids := (if counted then pg_game_ids pg @ [game_id] else pg_game_ids pg),
         pg_requested := (if counted then map_option (\<lambda>n. n - 1) (pg_requested pg) else pg_requested pg)\<rparr>)"

definition normalize_one ::
  "'v norm_env \<Rightarrow> int option \<Rightarrow> raw_row \<Rightarrow> int \<Rightarrow> string list \<Rightarrow> string \<times> norm_game \<Rightarrow> progress \<Rightarrow> progress act" where
  "normalize_one e run w observed retained pgame pg = (case pgame of (pointer, game) \<Rightarrow>
     andthen (poll_stop e) (\<lambda>_.
     andthen (ask_site (bounds_for run (rw_provider w) (pg_requested pg))) (\<lambda>b.
     andthen (see (already_acquired run game)) (\<lambda>acquired.
     if outside b game \<or> allowance b (pg_requested pg) = Some 0 \<and> \<not> acquired then ret pg
     else
       andthen (see (\<lambda>s. map_of (pg_checkpoints pg) pointer \<noteq> None \<and> (run \<noteq> None \<or> cn_job_fence (si_conn s) \<noteq> None))) (\<lambda>reusable.
       andthen charge_unit (\<lambda>_.
       andthen (if reusable \<or> pointer \<in> set retained then ret None
          else andthen (ask_site (\<lambda>_. parse_game_evidence (ne_library e) (ne_sha e) game)) (\<lambda>ev. ret (Some ev))) (\<lambda>prepared.
       andthen (write_prepared e run game \<lparr>og_raw = w, og_pointer = pointer\<rparr> observed (pg_requested pg) (pg_checkpoints pg) reusable prepared) (\<lambda>outcome.
       ret (record_progress pointer outcome pg)))))))))"

fun normalize_each ::
  "'v norm_env \<Rightarrow> int option \<Rightarrow> raw_row \<Rightarrow> int \<Rightarrow> string list \<Rightarrow> (string \<times> norm_game) list \<Rightarrow> progress \<Rightarrow> progress act" where
  "normalize_each e run w observed retained [] pg = ret pg"
| "normalize_each e run w observed retained (x # xs) pg =
     andthen (normalize_one e run w observed retained x pg) (normalize_each e run w observed retained xs)"

section \<open>A payload\<close>

definition payload_games :: "'v norm_env \<Rightarrow> raw_row \<Rightarrow> string \<Rightarrow> norm_game list option result" where
  "payload_games e w body =
     (if rw_provider w = ''chess.com'' \<and> rw_endpoint_type w = ''monthly_archive''
      then rbind (parse_monthly_games (ne_loads e) (ne_sha e) body) (\<lambda>gs. Inr (Some gs))
      else if rw_provider w = ''lichess'' \<and> rw_endpoint_type w = ''user_games_stream''
      then rbind (parse_games_ndjson (ne_loads e) (ne_sha e) body) (\<lambda>gs. Inr (Some gs))
      else if rw_provider w = ''lichess'' \<and> rw_endpoint_type w = ''game''
      then rbind (rbind (ne_loads e body) (lichess_game (ne_sha e))) (\<lambda>g. Inr (Some [g]))
      else Inr None)"

definition pointer_of :: "string \<Rightarrow> nat \<Rightarrow> string" where
  "pointer_of endpoint i = (if endpoint = ''monthly_archive'' then ''/games/'' @ str_nat i
     else if endpoint = ''game'' then [] else ''/'' @ str_nat i)"

definition with_pointers :: "string \<Rightarrow> norm_game list \<Rightarrow> (string \<times> norm_game) list" where
  "with_pointers endpoint games = map (\<lambda>(i, g). (pointer_of endpoint i, g)) (enumerate 0 games)"

definition certify :: "int \<Rightarrow> int \<Rightarrow> string list \<Rightarrow> bool \<Rightarrow> unit act" where
  "certify raw observed pointers any_games s =
     (let (s', complete) = finish_normalization raw GAMES_PARSER_VERSION observed pointers s in
      (Inr (), if complete then on_arch (update_raw_payload_status raw (if any_games then ''parsed'' else ''skipped'')
          (Some GAMES_PARSER_VERSION) (Some (now_of s')) None (now_of s')) s' else s'))"

definition read_stored :: "'v norm_env \<Rightarrow> int \<Rightarrow> (raw_row \<times> string) act" where
  "read_stored e i = andthen (charge_read i) (\<lambda>_. ask_site (\<lambda>s. load_raw_payload (ne_codec e) (si_objects s) (si_arch s) i))"

definition normalize_games_payload :: "'v norm_env \<Rightarrow> int \<Rightarrow> int option \<Rightarrow> int option \<Rightarrow> int list act" where
  "normalize_games_payload e raw run max_games =
     (if (case max_games of None \<Rightarrow> False | Some n \<Rightarrow> n < 0) then raise (ValueError ''max_games must be nonnegative'')
      else andthen (read_stored e raw) (\<lambda>(w, body).
        andthen (ask_site (\<lambda>_. payload_games e w body)) (\<lambda>found. case found of
          None \<Rightarrow> ret []
        | Some games \<Rightarrow>
            let items = with_pointers (rw_endpoint_type w) games in
            andthen (tx (begin_normalization raw GAMES_PARSER_VERSION)) (\<lambda>observed.
            andthen (see (\<lambda>s. (processed_items (si_catalog s) raw GAMES_PARSER_VERSION observed,
               reusable_game_sources (ne_sha e) (si_catalog s) raw items))) (\<lambda>(checkpoints, retained).
            andthen (normalize_each e run w observed retained items
                \<lparr>pg_game_ids = [], pg_requested = max_games, pg_checkpoints = checkpoints\<rparr>) (\<lambda>pg.
            andthen (certify raw observed (map fst items) (games \<noteq> [])) (\<lambda>_. ret (pg_game_ids pg))))))))"

text \<open>The normalizer ingestion is given.\<close>

definition games_normalizer :: "'v norm_env \<Rightarrow> normalizer" where
  "games_normalizer e raw log_id run max_games = normalize_games_payload e raw run max_games"

end
