(* ===== verification/Profiles.thy ===== *)
theory Profiles
  imports Normalization
begin

text \<open>
  Profile and resource evidence of accounts, storage/player\_profiles.py and the snapshots of storage/repository.py: snapshots with
  their facts and ratings, observations keyed by the fetch that made them, rating history, the account an acquired
  payload belongs to, and the public view of a player. The locks of accounts serialize and are not modelled.
\<close>

section \<open>Ownership of payloads\<close>

definition move_scope :: "int \<Rightarrow> (raw_row \<Rightarrow> bool) \<Rightarrow> string \<Rightarrow> arch \<Rightarrow> arch" where
  "move_scope i p scope a = a\<lparr>ar_raw := update_where (\<lambda>w. rw_id w = i \<and> p w) (\<lambda>w. w\<lparr>rw_owner_scope := scope\<rparr>) (ar_raw a)\<rparr>"

definition quarantine_unowned_profile :: "int \<Rightarrow> arch \<Rightarrow> arch" where
  "quarantine_unowned_profile i = move_scope i (\<lambda>w. rw_owner_scope w = ''public'') ''unassigned:legacy-profile''"

definition publish_verified_legacy_profile :: "int \<Rightarrow> arch \<Rightarrow> arch" where
  "publish_verified_legacy_profile i = move_scope i (\<lambda>w. rw_provider w = ''lichess'' \<and> rw_endpoint_type w = ''user_profile''
     \<and> rw_owner_scope w = ''unassigned:legacy-profile'') ''public''"

section \<open>Snapshots\<close>

definition same_snapshot :: "int \<Rightarrow> string \<Rightarrow> user_snapshot \<Rightarrow> bool" where
  "same_snapshot user hash n \<longleftrightarrow> us_provider_user_id n = user \<and> us_content_hash n = hash"

text \<open>\<open>upsert_user_snapshot\<close>: an older capture of the same content changes nothing.\<close>

definition upsert_user_snapshot :: "int \<Rightarrow> string \<Rightarrow> snapshot_values \<Rightarrow> catalog \<Rightarrow> catalog \<times> int" where
  "upsert_user_snapshot user hash v ct = (case find_row (same_snapshot user hash) (ct_snapshots ct) of
       Some n \<Rightarrow> (if sv_captured_at (us_values n) \<le> sv_captured_at v
           then ct\<lparr>ct_snapshots := update_where (same_snapshot user hash) (\<lambda>n. n\<lparr>us_values := v\<rparr>) (ct_snapshots ct)\<rparr> else ct, us_id n)
     | None \<Rightarrow> (ct\<lparr>ct_snapshots := ct_snapshots ct @ [\<lparr>us_id = ct_next_snapshot ct, us_provider_user_id = user, us_content_hash = hash,
           us_values = v, us_facts = None\<rparr>], ct_next_snapshot := ct_next_snapshot ct + 1\<rparr>, ct_next_snapshot ct))"

definition store_profile_facts :: "int \<Rightarrow> profile_facts \<Rightarrow> catalog \<Rightarrow> catalog" where
  "store_profile_facts i f ct = ct\<lparr>ct_snapshots := update_where (\<lambda>n. us_id n = i) (\<lambda>n. n\<lparr>us_facts := Some f\<rparr>) (ct_snapshots ct)\<rparr>"

definition store_rating_records :: "int \<Rightarrow> rating_record list \<Rightarrow> catalog \<Rightarrow> catalog" where
  "store_rating_records i rs ct = ct\<lparr>ct_ratings := filter (\<lambda>r. ur_snapshot_id r \<noteq> i) (ct_ratings ct) @ map (\<lambda>r. r\<lparr>ur_snapshot_id := i\<rparr>) rs\<rparr>"

section \<open>Observations\<close>

text \<open>The fetches of a payload that may be observations of an account, by time of the log.\<close>

definition observing :: "arch \<Rightarrow> int \<Rightarrow> int option \<Rightarrow> int option \<Rightarrow> fetch_log list" where
  "observing a raw log_id user = filter (\<lambda>f. fl_raw_payload_id f = Some raw \<and> success f \<and> (log_id = None \<or> log_id = Some (fl_id f))
     \<and> (fl_provider_user_id f = None \<or> fl_provider_user_id f = user)) (ar_logs a)"

definition never_fetched :: "arch \<Rightarrow> int \<Rightarrow> bool" where
  "never_fetched a raw \<longleftrightarrow> \<not> list_ex (\<lambda>f. fl_raw_payload_id f = Some raw \<and> success f) (ar_logs a)"

definition fetch_key :: "int \<Rightarrow> string" where
  "fetch_key i = ''fetch:'' @ str_int i"

definition raw_key :: "int \<Rightarrow> string" where
  "raw_key i = ''raw:'' @ str_int i"

text \<open>\<open>ON CONFLICT(observation_key)\<close>: the observation follows the same account's newer snapshot.\<close>

definition observe_user :: "user_observation \<Rightarrow> catalog \<Rightarrow> catalog" where
  "observe_user o' ct = (let same = (\<lambda>x. uo_observation_key x = uo_observation_key o') in
     if find_row same (ct_observations ct) \<noteq> None
     then ct\<lparr>ct_observations := update_where (\<lambda>x. same x \<and> uo_snapshot_id x \<noteq> uo_snapshot_id o' \<and> uo_provider_user_id x = uo_provider_user_id o')
       (\<lambda>x. x\<lparr>uo_snapshot_id := uo_snapshot_id o'\<rparr>) (ct_observations ct)\<rparr>
     else ct\<lparr>ct_observations := ct_observations ct @ [o'\<lparr>uo_id := ct_next_observation ct\<rparr>], ct_next_observation := ct_next_observation ct + 1\<rparr>)"

definition profile_observations :: "arch \<Rightarrow> int \<Rightarrow> int \<Rightarrow> int \<Rightarrow> int option \<Rightarrow> user_observation list" where
  "profile_observations a user snapshot raw log_id = (case raw_by_id a raw of
       None \<Rightarrow> []
     | Some w \<Rightarrow> map (\<lambda>f. \<lparr>uo_id = 0, uo_provider_user_id = user, uo_snapshot_id = snapshot, uo_raw_payload_id = raw, uo_fetch_log_id = Some (fl_id f),
             uo_observation_key = fetch_key (fl_id f), uo_captured_at = fl_attempted_at f, uo_endpoint_type = rw_endpoint_type w\<rparr>)
           (observing a raw log_id (Some user))
         @ (if never_fetched a raw \<and> log_id = None
            then [\<lparr>uo_id = 0, uo_provider_user_id = user, uo_snapshot_id = snapshot, uo_raw_payload_id = raw, uo_fetch_log_id = None,
              uo_observation_key = raw_key raw, uo_captured_at = rw_fetched_at w, uo_endpoint_type = rw_endpoint_type w\<rparr>] else []))"

definition record_profile_observations :: "arch \<Rightarrow> int \<Rightarrow> int \<Rightarrow> int \<Rightarrow> int option \<Rightarrow> catalog \<Rightarrow> catalog" where
  "record_profile_observations a user snapshot raw log_id ct = foldl (\<lambda>ct o'. observe_user o' ct) ct (profile_observations a user snapshot raw log_id)"

section \<open>Resources\<close>

definition resource_owner :: "catalog \<Rightarrow> int \<Rightarrow> int option" where
  "resource_owner ct i = map_option rn_provider_user_id (find_row (\<lambda>r. rn_id r = i) (ct_resources ct))"

definition observe_resource :: "resource_observation \<Rightarrow> catalog \<Rightarrow> catalog" where
  "observe_resource o' ct = (let same = (\<lambda>x. ro_observation_key x = ro_observation_key o') in
     if find_row same (ct_resource_observations ct) \<noteq> None
     then ct\<lparr>ct_resource_observations := update_where (\<lambda>x. same x \<and> ro_snapshot_id x \<noteq> ro_snapshot_id o'
         \<and> resource_owner ct (ro_snapshot_id x) = resource_owner ct (ro_snapshot_id o') \<and> resource_owner ct (ro_snapshot_id o') \<noteq> None)
       (\<lambda>x. x\<lparr>ro_snapshot_id := ro_snapshot_id o'\<rparr>) (ct_resource_observations ct)\<rparr>
     else ct\<lparr>ct_resource_observations := ct_resource_observations ct @ [o'\<lparr>ro_id := ct_next_resource_observation ct\<rparr>],
       ct_next_resource_observation := ct_next_resource_observation ct + 1\<rparr>)"

definition record_resource_observations :: "arch \<Rightarrow> int \<Rightarrow> int \<Rightarrow> int option \<Rightarrow> catalog \<Rightarrow> catalog" where
  "record_resource_observations a snapshot raw log_id ct = foldl (\<lambda>ct o'. observe_resource o' ct) ct
     (map (\<lambda>f. \<lparr>ro_id = 0, ro_snapshot_id = snapshot, ro_raw_payload_id = raw, ro_fetch_log_id = Some (fl_id f),
          ro_observation_key = fetch_key (fl_id f), ro_captured_at = fl_attempted_at f\<rparr>) (observing a raw log_id (resource_owner ct snapshot))
      @ (case raw_by_id a raw of
           None \<Rightarrow> []
         | Some w \<Rightarrow> if never_fetched a raw \<and> log_id = None
             then [\<lparr>ro_id = 0, ro_snapshot_id = snapshot, ro_raw_payload_id = raw, ro_fetch_log_id = None,
               ro_observation_key = raw_key raw, ro_captured_at = rw_fetched_at w\<rparr>] else []))"

text \<open>The insert with its conflict clause: the stored content stays, its interpretation is replaced.\<close>

definition upsert_resource :: "resource_snapshot \<Rightarrow> catalog \<Rightarrow> catalog \<times> int" where
  "upsert_resource r ct = (let same = (\<lambda>x. rn_provider_user_id x = rn_provider_user_id r \<and> resource_identity x = resource_identity r) in
     case find_row same (ct_resources ct) of
       Some old \<Rightarrow> (ct\<lparr>ct_resources := update_where same (\<lambda>x. x\<lparr>rn_coverage_status := rn_coverage_status r, rn_coverage_note := rn_coverage_note r,
           rn_parser_version := rn_parser_version r\<rparr>) (ct_resources ct)\<rparr>, rn_id old)
     | None \<Rightarrow> (ct\<lparr>ct_resources := ct_resources ct @ [r\<lparr>rn_id := ct_next_resource ct\<rparr>], ct_next_resource := ct_next_resource ct + 1\<rparr>,
         ct_next_resource ct))"

definition store_resource_snapshot ::
  "arch \<Rightarrow> resource_snapshot \<Rightarrow> history_point list \<Rightarrow> int \<Rightarrow> int option \<Rightarrow> catalog \<Rightarrow> catalog \<times> int" where
  "store_resource_snapshot a r points raw log_id ct =
     (let (ct1, i) = upsert_resource r ct;
          ct2 = ct1\<lparr>ct_history_points := filter (\<lambda>h. fst h \<noteq> i) (ct_history_points ct1) @ map (Pair i) points\<rparr> in
      (record_resource_observations a i raw log_id ct2, i))"

section \<open>The account of a payload\<close>

text \<open>The accounts that carried a name, at most two of them.\<close>

definition aliased :: "catalog \<Rightarrow> string \<Rightarrow> string \<Rightarrow> player list" where
  "aliased ct provider name = take 2 (List.map_filter (\<lambda>al. if al_username_normalized al = name
     then find_row (\<lambda>p. pl_id p = al_provider_user_id al \<and> pl_provider p = provider) (ct_players ct) else None) (ct_aliases ct))"

definition only_alias :: "catalog \<Rightarrow> string \<Rightarrow> string \<Rightarrow> player option" where
  "only_alias ct provider name = (case aliased ct provider name of [p] \<Rightarrow> Some p | _ \<Rightarrow> None)"

definition player_by_id :: "catalog \<Rightarrow> int \<Rightarrow> player option" where
  "player_by_id ct i = find_row (\<lambda>p. pl_id p = i) (ct_players ct)"

definition known_account :: "catalog \<Rightarrow> string \<Rightarrow> string \<Rightarrow> bool \<Rightarrow> player option \<Rightarrow> player option" where
  "known_account ct provider name prefer observed = (case (if prefer then observed else None) of
       Some p \<Rightarrow> Some p
     | None \<Rightarrow> (case player_named ct provider (lower name) of
         Some p \<Rightarrow> Some p
       | None \<Rightarrow> if prefer then only_alias ct provider (lower name) else None))"

definition stats_account :: "catalog \<Rightarrow> string \<Rightarrow> string \<Rightarrow> int \<Rightarrow> bool \<Rightarrow> player option" where
  "stats_account ct provider name raw prefer = known_account ct provider name prefer
     (map_option snd (last_by (\<lambda>(i, p). i) (List.map_filter (\<lambda>o'. if uo_raw_payload_id o' = raw
        then map_option (Pair (uo_id o')) (player_by_id ct (uo_provider_user_id o')) else None) (ct_observations ct))))"

text \<open>\<open>GROUP BY\<close> the account; the one observed last comes first.\<close>

definition by_last_observed :: "(int \<times> int) list \<Rightarrow> int list" where
  "by_last_observed evidence = map snd (sort_key (\<lambda>x. x) (map (\<lambda>u. (- Max (snd ` set (filter (\<lambda>x. fst x = u) evidence)), u))
     (remdups (map fst evidence))))"

definition log_evidence :: "arch \<Rightarrow> int \<Rightarrow> (fetch_log \<Rightarrow> bool) \<Rightarrow> (int \<times> int) list" where
  "log_evidence a raw p = List.map_filter (\<lambda>f. if fl_raw_payload_id f = Some raw \<and> success f \<and> p f
     then map_option (\<lambda>u. (u, fl_attempted_at f)) (fl_provider_user_id f) else None) (ar_logs a)"

definition stats_accounts :: "arch \<Rightarrow> catalog \<Rightarrow> int \<Rightarrow> player list" where
  "stats_accounts a ct raw = List.map_filter (player_by_id ct) (by_last_observed
     (map (\<lambda>o'. (uo_provider_user_id o', uo_captured_at o')) (filter (\<lambda>o'. uo_raw_payload_id o' = raw \<and> uo_endpoint_type o' = ''user_stats'')
        (ct_observations ct))
      @ log_evidence a raw (\<lambda>f. fl_endpoint_type f = ''user_stats'')))"

definition resource_evidence :: "catalog \<Rightarrow> int \<Rightarrow> (int \<times> int \<times> int) list" where
  "resource_evidence ct raw = List.map_filter (\<lambda>o'. if ro_raw_payload_id o' = raw
     then map_option (\<lambda>u. (ro_id o', u, ro_captured_at o')) (resource_owner ct (ro_snapshot_id o')) else None) (ct_resource_observations ct)"

definition resource_account :: "catalog \<Rightarrow> string \<Rightarrow> string \<Rightarrow> int \<Rightarrow> bool \<Rightarrow> int option" where
  "resource_account ct provider name raw prefer =
     (case (if prefer then last_by fst (resource_evidence ct raw) else None) of
        Some (_, u, _) \<Rightarrow> Some u
      | None \<Rightarrow> map_option pl_id (known_account ct provider name prefer None))"

definition resource_accounts :: "arch \<Rightarrow> catalog \<Rightarrow> int \<Rightarrow> int list" where
  "resource_accounts a ct raw = by_last_observed (map snd (resource_evidence ct raw) @ log_evidence a raw (\<lambda>_. True))"

text \<open>\<open>captured_fetch_account\<close>: the account and the time committed with a fetch.\<close>

definition captured_fetch_account :: "arch \<Rightarrow> catalog \<Rightarrow> int \<Rightarrow> int \<Rightarrow> (player option \<times> int) result" where
  "captured_fetch_account a ct raw log_id =
     (let mismatch = ValueError ''Successful fetch evidence does not match this source payload'' in
      case raw_by_id a raw of
        None \<Rightarrow> Inl mismatch
      | Some w \<Rightarrow> (case find_row (\<lambda>f. fl_id f = log_id \<and> fl_raw_payload_id f = Some raw \<and> success f \<and> fl_provider f = rw_provider w
            \<and> fl_endpoint_type f = rw_endpoint_type w) (ar_logs a) of
          None \<Rightarrow> Inl mismatch
        | Some f \<Rightarrow> (case fl_provider_user_id f of
            None \<Rightarrow> Inr (None, fl_attempted_at f)
          | Some u \<Rightarrow> (case find_row (\<lambda>p. pl_id p = u \<and> pl_provider p = rw_provider w) (ct_players ct) of
              None \<Rightarrow> Inl mismatch
            | Some p \<Rightarrow> Inr (Some p, fl_attempted_at f)))))"

text \<open>A fetch that names no account counts for every account that no observation of it contradicts.\<close>

definition uncontested :: "catalog \<Rightarrow> int \<Rightarrow> fetch_log \<Rightarrow> bool" where
  "uncontested ct user f \<longleftrightarrow> \<not> list_ex (\<lambda>o'. uo_fetch_log_id o' = Some (fl_id f) \<and> uo_provider_user_id o' \<noteq> user) (ct_observations ct)
     \<and> \<not> list_ex (\<lambda>o'. ro_fetch_log_id o' = Some (fl_id f) \<and> (case resource_owner ct (ro_snapshot_id o') of None \<Rightarrow> False | Some u \<Rightarrow> u \<noteq> user))
       (ct_resource_observations ct)"

definition occurrences :: "arch \<Rightarrow> catalog \<Rightarrow> int \<Rightarrow> int \<Rightarrow> int list" where
  "occurrences a ct raw user =
     map uo_captured_at (filter (\<lambda>o'. uo_raw_payload_id o' = raw \<and> uo_provider_user_id o' = user) (ct_observations ct))
     @ map ro_captured_at (filter (\<lambda>o'. ro_raw_payload_id o' = raw \<and> resource_owner ct (ro_snapshot_id o') = Some user) (ct_resource_observations ct))
     @ map fl_attempted_at (filter (\<lambda>f. fl_raw_payload_id f = Some raw \<and> success f
         \<and> (fl_provider_user_id f = Some user \<or> fl_provider_user_id f = None \<and> uncontested ct user f)) (ar_logs a))"

definition account_observation_times :: "arch \<Rightarrow> catalog \<Rightarrow> int \<Rightarrow> int \<Rightarrow> (int \<times> int) result" where
  "account_observation_times a ct raw user = (case occurrences a ct raw user of
       [] \<Rightarrow> rbind (require_row (raw_by_id a raw)) (\<lambda>w. Inr (rw_fetched_at w, rw_fetched_at w))
     | t # ts \<Rightarrow> Inr (fold min ts t, fold max ts t))"

section \<open>The public view of a player\<close>

text \<open>\<open>ORDER BY captured_at DESC, fetch_log_id DESC NULLS LAST, id DESC\<close>, read from its end.\<close>

definition log_rank :: "int option \<Rightarrow> int \<times> int" where
  "log_rank l = (case l of None \<Rightarrow> (0, 0) | Some i \<Rightarrow> (1, i))"

definition observation_rank :: "user_observation \<Rightarrow> int \<times> (int \<times> int) \<times> int" where
  "observation_rank o' = (uo_captured_at o', log_rank (uo_fetch_log_id o'), uo_id o')"

definition resource_rank :: "resource_observation \<Rightarrow> int \<times> (int \<times> int) \<times> int" where
  "resource_rank o' = (ro_captured_at o', log_rank (ro_fetch_log_id o'), ro_id o')"

definition is_public :: "arch \<Rightarrow> int \<Rightarrow> bool" where
  "is_public a raw \<longleftrightarrow> (case raw_by_id a raw of None \<Rightarrow> False | Some w \<Rightarrow> rw_owner_scope w = ''public'')"

definition public_observations :: "arch \<Rightarrow> catalog \<Rightarrow> int \<Rightarrow> (user_observation \<times> user_snapshot) list" where
  "public_observations a ct user = List.map_filter (\<lambda>o'. if uo_provider_user_id o' = user \<and> is_public a (uo_raw_payload_id o')
     then map_option (Pair o') (find_row (\<lambda>n. us_id n = uo_snapshot_id o') (ct_snapshots ct)) else None) (ct_observations ct)"

definition newest_snapshot :: "arch \<Rightarrow> catalog \<Rightarrow> int \<Rightarrow> string \<Rightarrow> (user_observation \<times> user_snapshot) option" where
  "newest_snapshot a ct user endpoint = last_by (\<lambda>x. observation_rank (fst x))
     (filter (\<lambda>x. uo_endpoint_type (fst x) = endpoint) (public_observations a ct user))"

definition public_aliases :: "arch \<Rightarrow> catalog \<Rightarrow> int \<Rightarrow> alias_row list" where
  "public_aliases a ct user = sort_key (\<lambda>al. (al_first_seen_at al, al_username_normalized al))
     (filter (\<lambda>al. al_provider_user_id al = user \<and> (case al_raw_payload_id al of None \<Rightarrow> True | Some raw \<Rightarrow> is_public a raw)) (ct_aliases ct))"

text \<open>\<open>SELECT DISTINCT ON(key)\<close>: the newest row of each key, in the order of the keys.\<close>

definition newest_per :: "('a \<Rightarrow> 'k::linorder) \<Rightarrow> ('a \<Rightarrow> 'r::linorder) \<Rightarrow> 'a list \<Rightarrow> 'a list" where
  "newest_per key rank xs = List.map_filter (\<lambda>k. last_by rank (filter (\<lambda>x. key x = k) xs)) (sort (remdups (map key xs)))"

definition observed_resources :: "catalog \<Rightarrow> int \<Rightarrow> string \<Rightarrow> (resource_observation \<times> resource_snapshot) list" where
  "observed_resources ct user scope = List.map_filter (\<lambda>o'. map_option (Pair o') (find_row (\<lambda>r. rn_id r = ro_snapshot_id o'
     \<and> rn_provider_user_id r = user \<and> rn_owner_scope r \<in> {''public'', scope}) (ct_resources ct))) (ct_resource_observations ct)"

definition resource_current :: "catalog \<Rightarrow> int \<Rightarrow> string \<Rightarrow> (resource_observation \<times> resource_snapshot) list" where
  "resource_current ct user scope = newest_per (\<lambda>x. (rn_owner_scope (snd x), rn_resource_key (snd x), rn_parameters_hash (snd x)))
     (\<lambda>x. resource_rank (fst x)) (observed_resources ct user scope)"

definition resource_attempts :: "catalog \<Rightarrow> int \<Rightarrow> string \<Rightarrow> resource_attempt list" where
  "resource_attempts ct user scope = sort_key (\<lambda>t. (at_resource_key t, at_parameters_hash t))
     (filter (\<lambda>t. at_provider_user_id t = user \<and> at_owner_scope t \<in> {''public'', scope}) (ct_attempts ct))"

definition public_ratings :: "arch \<Rightarrow> catalog \<Rightarrow> int \<Rightarrow> (rating_record \<times> user_observation) list" where
  "public_ratings a ct user = newest_per (\<lambda>x. ur_performance (fst x)) (\<lambda>x. observation_rank (snd x))
     (concat (map (\<lambda>r. map (Pair r) (filter (\<lambda>o'. uo_snapshot_id o' = ur_snapshot_id r \<and> uo_provider_user_id o' = user
        \<and> is_public a (uo_raw_payload_id o')) (ct_observations ct))) (ct_ratings ct)))"

record player_view =
  vw_player :: player
  vw_profile :: "(user_observation \<times> user_snapshot) option"
  vw_statistics :: "(user_observation \<times> user_snapshot) option"
  vw_aliases :: "alias_row list"
  vw_resources :: "(resource_observation \<times> resource_snapshot) list"
  vw_attempts :: "resource_attempt list"
  vw_ratings :: "(rating_record \<times> user_observation) list"

definition view_of :: "arch \<Rightarrow> catalog \<Rightarrow> string \<Rightarrow> player \<Rightarrow> player_view" where
  "view_of a ct scope p = (let user = pl_id p in
     \<lparr>vw_player = p, vw_profile = newest_snapshot a ct user ''user_profile'', vw_statistics = newest_snapshot a ct user ''user_stats'',
      vw_aliases = public_aliases a ct user, vw_resources = resource_current ct user scope, vw_attempts = resource_attempts ct user scope,
      vw_ratings = public_ratings a ct user\<rparr>)"

text \<open>An account known only by evidence the caller may not see is not shown at all.\<close>

definition nothing_seen :: "player_view \<Rightarrow> bool" where
  "nothing_seen v \<longleftrightarrow> pl_first_seen_at (vw_player v) = None \<and> pl_updated_at (vw_player v) = None \<and> vw_profile v = None
     \<and> vw_statistics v = None \<and> vw_aliases v = [] \<and> vw_resources v = [] \<and> vw_attempts v = [] \<and> vw_ratings v = []"

definition player_profile :: "arch \<Rightarrow> catalog \<Rightarrow> string \<Rightarrow> string \<Rightarrow> string \<Rightarrow> player_view option" where
  "player_profile a ct provider username scope =
     (let name = lower (strip username) in
      case (case player_named ct provider name of Some p \<Rightarrow> Some p | None \<Rightarrow> only_alias ct provider name) of
        None \<Rightarrow> None
      | Some p \<Rightarrow> let v = view_of a ct scope p in if nothing_seen v then None else Some v)"

definition page_ok :: "int \<Rightarrow> int \<Rightarrow> unit result" where
  "page_ok limit after_id = rguard (1 \<le> limit \<and> limit \<le> 1000 \<and> 0 \<le> after_id)
     (ValueError ''history requires limit 1..1000 and a nonnegative observation cursor'')"

definition profile_history :: "arch \<Rightarrow> catalog \<Rightarrow> int \<Rightarrow> int \<Rightarrow> int \<Rightarrow> (user_observation \<times> user_snapshot) list result" where
  "profile_history a ct user limit after_id = rbind (page_ok limit after_id) (\<lambda>_.
     Inr (take (nat limit) (sort_key (\<lambda>x. uo_id (fst x)) (filter (\<lambda>x. after_id < uo_id (fst x)) (public_observations a ct user)))))"

definition resource_history ::
  "catalog \<Rightarrow> int \<Rightarrow> string option \<Rightarrow> int \<Rightarrow> int \<Rightarrow> string \<Rightarrow> (resource_observation \<times> resource_snapshot) list result" where
  "resource_history ct user key limit after_id scope = rbind (page_ok limit after_id) (\<lambda>_.
     Inr (take (nat limit) (sort_key (\<lambda>x. ro_id (fst x)) (filter (\<lambda>x. after_id < ro_id (fst x)
       \<and> (case key of None \<Rightarrow> True | Some k \<Rightarrow> rn_resource_key (snd x) = k)) (observed_resources ct user scope)))))"

end
