(* ===== verification/Users.thy ===== *)
theory Users
  imports Profiles
begin

text \<open>
  The normalizer of profiles and statistics, normalize/users.py: a stored profile or statistics document becomes an identity,
  a snapshot with its facts and rating records, and observations of the fetches that delivered it. \<open>json.loads\<close> is the field
  of the normalization environment.
\<close>

section \<open>Snapshots of documents\<close>

record snapshot_facts =
  sf_followers :: "int option"
  sf_patron :: "bool option"
  sf_count_all :: "int option"
  sf_count_rated :: "int option"
  sf_count_win :: "int option"
  sf_count_loss :: "int option"
  sf_count_draw :: "int option"
  sf_perfs_or_stats :: json
  sf_content_hash :: string

definition no_counts :: "json \<Rightarrow> string \<Rightarrow> snapshot_facts" where
  "no_counts payload hash = \<lparr>sf_followers = None, sf_patron = None, sf_count_all = None, sf_count_rated = None, sf_count_win = None,
     sf_count_loss = None, sf_count_draw = None, sf_perfs_or_stats = payload, sf_content_hash = hash\<rparr>"

definition native_hash :: "(string \<Rightarrow> string) \<Rightarrow> fields \<Rightarrow> string" where
  "native_hash sha data = canonical_hash sha (JObj [(''kind'', JStr ''profile''), (''native_data'', JObj data)])"

definition int_json :: "int option \<Rightarrow> json" where
  "int_json n = (case n of None \<Rightarrow> JNull | Some i \<Rightarrow> JInt i)"

definition chesscom_profile_snapshot :: "(string \<Rightarrow> string) \<Rightarrow> fields \<Rightarrow> norm_user \<Rightarrow> snapshot_facts result" where
  "chesscom_profile_snapshot sha data user =
     (let payload = JObj [(''kind'', JStr ''profile''), (''username'', JStr (nu_display_username user)), (''status'', nu_account_status_raw user),
        (''title'', nu_title user), (''country'', nu_country user), (''followers'', obj_get data ''followers''), (''created_at'', int_json (nu_created_at user))] in
      rbind (number_or_none (obj_get data ''followers'')) (\<lambda>followers.
      Inr ((no_counts payload (native_hash sha data))\<lparr>sf_followers := followers\<rparr>)))"

definition lichess_profile_snapshot :: "(string \<Rightarrow> string) \<Rightarrow> fields \<Rightarrow> snapshot_facts result" where
  "lichess_profile_snapshot sha data =
     (let kept = List.map_filter (\<lambda>k. map_option (Pair k) (map_of data k)) [''profile'', ''disabled'', ''verified'', ''tosViolation''];
          payload = JObj ((''perfs'', py_or (obj_get data ''perfs'') (JObj [])) # kept) in
      rbind (sub_object (obj_get data ''count'')) (\<lambda>count.
      rbind (number_or_none (obj_get count ''all'')) (\<lambda>all_games.
      rbind (number_or_none (obj_get count ''rated'')) (\<lambda>rated.
      rbind (number_or_none (obj_get count ''win'')) (\<lambda>win.
      rbind (number_or_none (obj_get count ''loss'')) (\<lambda>loss.
      rbind (number_or_none (obj_get count ''draw'')) (\<lambda>draw.
      Inr ((no_counts payload (native_hash sha data))\<lparr>sf_patron := bool_or_none (obj_get data ''patron''), sf_count_all := all_games,
        sf_count_rated := rated, sf_count_win := win, sf_count_loss := loss, sf_count_draw := draw\<rparr>))))))))"

text \<open>\<open>name.rsplit("_", 1)[-1]\<close>.\<close>

definition last_segment :: "string \<Rightarrow> string" where
  "last_segment s = last (split_on (CHR ''_'') s)"

definition stats_records :: "fields \<Rightarrow> fields list" where
  "stats_records stats = List.map_filter (\<lambda>(name, v). case v of
       JObj kvs \<Rightarrow> if has_key kvs ''record'' \<or> last_segment name \<in> {''daily'', ''bullet'', ''blitz'', ''rapid''}
         then Some (coalesce (as_dict (obj_get kvs ''record'')) []) else None
     | _ \<Rightarrow> None) stats"

fun add_counts :: "string \<Rightarrow> fields list \<Rightarrow> int \<Rightarrow> int option" where
  "add_counts field [] acc = Some acc"
| "add_counts field (r # rs) acc = (case strict_int (obj_get r field) of
       Some n \<Rightarrow> if n < 0 then None else add_counts field rs (acc + n)
     | None \<Rightarrow> None)"

definition sum_record_counts :: "fields list \<Rightarrow> string \<Rightarrow> int option" where
  "sum_record_counts records field = (if records = [] then None else add_counts field records 0)"

definition aggregate_chesscom_stats :: "fields \<Rightarrow> snapshot_facts \<Rightarrow> snapshot_facts" where
  "aggregate_chesscom_stats stats f =
     (let records = stats_records stats; wins = sum_record_counts records ''win''; losses = sum_record_counts records ''loss'';
          draws = sum_record_counts records ''draw'' in
      f\<lparr>sf_count_all := (case (wins, losses, draws) of (Some w, Some l, Some d) \<Rightarrow> Some (w + l + d) | _ \<Rightarrow> None),
        sf_count_rated := None, sf_count_win := wins, sf_count_loss := losses, sf_count_draw := draws\<rparr>)"

definition chesscom_stats_snapshot :: "(string \<Rightarrow> string) \<Rightarrow> json \<Rightarrow> norm_user \<Rightarrow> snapshot_facts result" where
  "chesscom_stats_snapshot sha v user = rbind (fields_of v) (\<lambda>stats.
     Inr (aggregate_chesscom_stats stats (no_counts v (canonical_hash sha
       (JObj [(''kind'', JStr ''stats''), (''username'', JStr (nu_display_username user)), (''stats'', v)])))))"

definition user_from_stats_key :: "string \<Rightarrow> norm_user" where
  "user_from_stats_key key = (let parts = split_on (CHR ''/'') key; username = (if 3 \<le> length parts then parts ! 2 else ''unknown'') in
     \<lparr>nu_provider = ''chess.com'', nu_provider_user_id = None, nu_username_normalized = lower username, nu_display_username = username,
      nu_title = JNull, nu_account_status_raw = JNull, nu_created_at = None, nu_last_seen_at = None, nu_country = JNull, nu_is_verified = None\<rparr>)"

section \<open>Facts and ratings\<close>

text \<open>The current name field takes precedence, also when it was cleared.\<close>

definition lichess_real_name :: "fields \<Rightarrow> string option" where
  "lichess_real_name profile = (if has_key profile ''realName'' then as_str (obj_get profile ''realName'')
     else (let names = filter (\<lambda>n. n \<noteq> []) (List.map_filter (\<lambda>k. map_option strip (as_str (obj_get profile k))) [''firstName'', ''lastName'']) in
       if names = [] then None else Some (join '' '' names)))"

definition profile_facts_of :: "fields \<Rightarrow> norm_user \<Rightarrow> profile_facts" where
  "profile_facts_of data user = (let profile = coalesce (as_dict (obj_get data ''profile'')) []; chesscom = (nu_provider user = ''chess.com'') in
     \<lparr>pf_native_data = JObj data, pf_created_at = nu_created_at user, pf_last_seen_at = nu_last_seen_at user,
      pf_real_name = (if chesscom then as_str (obj_get data ''name'') else lichess_real_name profile),
      pf_location = as_str (if chesscom then obj_get data ''location'' else obj_get profile ''location''),
      pf_avatar_url = as_str (obj_get data ''avatar''), pf_profile_url = as_str (obj_get data ''url''),
      pf_is_verified = nu_is_verified user,
      pf_is_streamer = as_bool (if chesscom then obj_get data ''is_streamer'' else obj_get data ''streaming''),
      pf_fide_rating = strict_int (if chesscom then obj_get data ''fide'' else obj_get profile ''fideRating'')\<rparr>)"

definition dictionary :: "json \<Rightarrow> fields" where
  "dictionary v = coalesce (as_dict v) []"

definition numeric :: "json \<Rightarrow> json" where
  "numeric v = (case v of JInt _ \<Rightarrow> v | JFloat _ \<Rightarrow> v | _ \<Rightarrow> JNull)"

definition chesscom_rating :: "string \<Rightarrow> fields \<Rightarrow> rating_record" where
  "chesscom_rating perf kvs =
     (let latest = dictionary (obj_get kvs ''last'');
          best = dictionary (if has_key kvs ''best'' then obj_get kvs ''best'' else obj_get kvs ''highest'');
          lowest = dictionary (obj_get kvs ''lowest''); score = dictionary (obj_get kvs ''record'');
          wins = strict_int (obj_get score ''win''); losses = strict_int (obj_get score ''loss''); draws = strict_int (obj_get score ''draw'') in
      \<lparr>ur_snapshot_id = 0, ur_performance = perf, ur_rating = strict_int (obj_get latest ''rating''),
       ur_best_rating = strict_int (obj_get best ''rating''), ur_best_at = strict_int (obj_get best ''date''),
       ur_lowest_rating = strict_int (obj_get lowest ''rating''), ur_lowest_at = strict_int (obj_get lowest ''date''),
       ur_rating_deviation = numeric (obj_get latest ''rd''), ur_provisional = None,
       ur_games = (case (wins, losses, draws) of (Some w, Some l, Some d) \<Rightarrow> Some (w + l + d) | _ \<Rightarrow> None),
       ur_wins = wins, ur_losses = losses, ur_draws = draws, ur_progress = None, ur_native_data = JObj kvs\<rparr>)"

definition lichess_rating :: "string \<Rightarrow> fields \<Rightarrow> rating_record" where
  "lichess_rating perf kvs = \<lparr>ur_snapshot_id = 0, ur_performance = perf, ur_rating = strict_int (obj_get kvs ''rating''),
     ur_best_rating = None, ur_best_at = None, ur_lowest_rating = None, ur_lowest_at = None,
     ur_rating_deviation = numeric (obj_get kvs ''rd''), ur_provisional = as_bool (obj_get kvs ''prov''),
     ur_games = strict_int (obj_get kvs ''games''), ur_wins = None, ur_losses = None, ur_draws = None,
     ur_progress = strict_int (obj_get kvs ''prog''), ur_native_data = JObj kvs\<rparr>"

definition rating_records :: "fields \<Rightarrow> string \<Rightarrow> rating_record list" where
  "rating_records data provider = (case (if provider = ''lichess'' then obj_get data ''perfs'' else JObj data) of
       JObj perfs \<Rightarrow> List.map_filter (\<lambda>(perf, v). case v of
           JObj kvs \<Rightarrow> if provider \<noteq> ''chess.com'' then Some (lichess_rating perf kvs)
             else if list_ex (has_key kvs) [''last'', ''best'', ''record'', ''highest'', ''lowest''] then Some (chesscom_rating perf kvs) else None
         | _ \<Rightarrow> None) perfs
     | _ \<Rightarrow> [])"

section \<open>Normalizing a payload\<close>

definition account_relative :: "json \<Rightarrow> bool" where
  "account_relative v = (case v of JObj kvs \<Rightarrow> list_ex (has_key kvs) [''following'', ''blocking'', ''followable''] | _ \<Rightarrow> False)"

definition chesscom_statistics :: "raw_row \<Rightarrow> bool" where
  "chesscom_statistics w \<longleftrightarrow> rw_endpoint_type w = ''user_stats'' \<and> rw_provider w = ''chess.com''"

text \<open>The user and the snapshot of a profile or of Chess.com statistics.\<close>

definition interpret_user :: "'v norm_env \<Rightarrow> raw_row \<Rightarrow> json \<Rightarrow> (norm_user \<times> snapshot_facts) result" where
  "interpret_user e w v =
     (if chesscom_statistics w
      then let u = user_from_stats_key (rw_canonical_source_key w) in rbind (chesscom_stats_snapshot (ne_sha e) v u) (\<lambda>f. Inr (u, f))
      else if rw_provider w = ''chess.com''
      then rbind (chesscom_user v) (\<lambda>u. rbind (fields_of v) (\<lambda>data. rbind (chesscom_profile_snapshot (ne_sha e) data u) (\<lambda>f. Inr (u, f))))
      else rbind (lichess_user v) (\<lambda>u. rbind (fields_of v) (\<lambda>data. rbind (lichess_profile_snapshot (ne_sha e) data) (\<lambda>f. Inr (u, f)))))"

definition account_identity :: "norm_user \<Rightarrow> player option \<Rightarrow> int \<Rightarrow> int option \<Rightarrow> identity_facts" where
  "account_identity u account seen raw = \<lparr>if_provider = nu_provider u,
     if_username = (case account of None \<Rightarrow> nu_display_username u | Some p \<Rightarrow> pl_username_normalized p),
     if_provider_user_id = (case account of None \<Rightarrow> nu_provider_user_id u | Some p \<Rightarrow> pl_provider_user_id p),
     if_display_username = Some (case account of None \<Rightarrow> nu_display_username u | Some p \<Rightarrow> pl_display_username p),
     if_account_status = nu_account_status_raw u, if_title = nu_title u, if_now = seen, if_profile_raw_payload_id = raw\<rparr>"

definition snapshot_values_of :: "adapter \<Rightarrow> norm_user \<Rightarrow> snapshot_facts \<Rightarrow> int \<Rightarrow> int \<Rightarrow> snapshot_values result" where
  "snapshot_values_of ad u f seen raw =
     rbind (ad (nu_account_status_raw u)) (\<lambda>status. rbind (ad (nu_title u)) (\<lambda>title. rbind (ad (nu_country u)) (\<lambda>country.
     Inr \<lparr>sv_captured_at = seen, sv_observed_username = nu_display_username u, sv_status = status, sv_title = title, sv_country = country,
       sv_followers = sf_followers f, sv_patron = sf_patron f, sv_count_all = sf_count_all f, sv_count_rated = sf_count_rated f,
       sv_count_win = sf_count_win f, sv_count_loss = sf_count_loss f, sv_count_draw = sf_count_draw f,
       sv_perfs_or_stats = (if sf_perfs_or_stats f = JNull then None else Some (dumps True (sf_perfs_or_stats f))), sv_raw_payload_id = raw\<rparr>)))"

text \<open>The accounts a document is written for: \<open>[None]\<close> for a profile, the bound accounts for statistics.\<close>

definition target_accounts ::
  "arch \<Rightarrow> catalog \<Rightarrow> raw_row \<Rightarrow> norm_user \<Rightarrow> bool \<Rightarrow> int option \<Rightarrow> player option \<Rightarrow> player option list result" where
  "target_accounts a ct w u prefer log_id captured =
     (if rw_endpoint_type w \<noteq> ''user_stats'' then Inr [None]
      else case captured of
        Some p \<Rightarrow> Inr [Some p]
      | None \<Rightarrow>
          if log_id \<noteq> None then Inl (ValueError ''Player statistics acquisition is missing its captured account'')
          else let bound = (if prefer then stats_accounts a ct (rw_id w) else []) in
            Inr (if bound \<noteq> [] then map Some bound else [stats_account ct (nu_provider u) (nu_display_username u) (rw_id w) prefer]))"

definition account_times :: "site \<Rightarrow> raw_row \<Rightarrow> int \<Rightarrow> int option \<Rightarrow> player option \<Rightarrow> (int \<times> int) result" where
  "account_times s w observed_at captured_at account = (case captured_at of
       Some t \<Rightarrow> Inr (t, t)
     | None \<Rightarrow> (case account of
         Some p \<Rightarrow> account_observation_times (si_arch s) (si_catalog s) (rw_id w) (pl_id p)
       | None \<Rightarrow> Inr (rw_fetched_at w, observed_at)))"

definition write_account ::
  "'v norm_env \<Rightarrow> gate \<Rightarrow> raw_row \<Rightarrow> fields \<Rightarrow> norm_user \<Rightarrow> snapshot_facts \<Rightarrow> int option \<Rightarrow> int \<Rightarrow> int option \<Rightarrow> player option \<Rightarrow> site
   \<Rightarrow> (site \<times> int) result" where
  "write_account e g w data u f log_id observed_at captured_at account s =
     (let raw = rw_id w; profile = (rw_endpoint_type w = ''user_profile'') in
      rbind (account_times s w observed_at captured_at account) (\<lambda>(first_at, seen).
      rbind (upsert_provider_user (ne_adapter e) g (account_identity u account seen (if profile then Some raw else None)) s) (\<lambda>(s1, user).
      rbind (snapshot_values_of (ne_adapter e) u f seen raw) (\<lambda>v.
      let (ct, snapshot) = upsert_user_snapshot user (sf_content_hash f) v (si_catalog s1);
          ct1 = store_rating_records snapshot (rating_records data (nu_provider u)) (store_profile_facts snapshot (profile_facts_of data u) ct);
          ct2 = record_profile_observations (si_arch s1) user snapshot raw log_id ct1;
          ct3 = (if profile then record_alias user (nu_display_username u) seen (Some raw) (Some first_at) ct2 else ct2);
          s2 = source_of ''user'' user (rw_provider w) w None (s1\<lparr>si_catalog := ct3\<rparr>) in
      Inr (source_of ''user_snapshot'' snapshot (rw_provider w) w None s2, user)))))"

fun write_accounts ::
  "'v norm_env \<Rightarrow> gate \<Rightarrow> raw_row \<Rightarrow> fields \<Rightarrow> norm_user \<Rightarrow> snapshot_facts \<Rightarrow> int option \<Rightarrow> int \<Rightarrow> int option \<Rightarrow> player option list \<Rightarrow> site
   \<Rightarrow> (site \<times> int list) result" where
  "write_accounts e g w data u f log_id observed_at captured_at [] s = Inr (s, [])"
| "write_accounts e g w data u f log_id observed_at captured_at (account # rest) s =
     rbind (write_account e g w data u f log_id observed_at captured_at account s) (\<lambda>(s1, user).
     rbind (write_accounts e g w data u f log_id observed_at captured_at rest s1) (\<lambda>(s2, users). Inr (s2, user # users)))"

text \<open>The transaction: the provider's gate, the accounts, and the status of the payload.\<close>

definition write_user ::
  "'v norm_env \<Rightarrow> raw_row \<Rightarrow> json \<Rightarrow> norm_user \<Rightarrow> snapshot_facts \<Rightarrow> bool \<Rightarrow> int option \<Rightarrow> site \<Rightarrow> (site \<times> int) result" where
  "write_user e w v u f prefer log_id s =
     rbind (if rw_endpoint_type w = ''user_stats'' then Inr Shared
       else reconciliation_gate Open (si_catalog s) (rw_provider w) [(nu_display_username u, nu_provider_user_id u)]) (\<lambda>g.
     case v of
       JObj data \<Rightarrow>
         rbind (payload_observed_at (si_arch s) (rw_id w)) (\<lambda>observed_at.
         rbind (case log_id of
             None \<Rightarrow> Inr (None, None)
           | Some l \<Rightarrow> rbind (captured_fetch_account (si_arch s) (si_catalog s) (rw_id w) l) (\<lambda>(p, t). Inr (p, Some t))) (\<lambda>(captured, captured_at).
         rbind (target_accounts (si_arch s) (si_catalog s) w u prefer log_id captured) (\<lambda>accounts.
         rbind (write_accounts e g w data u f log_id observed_at captured_at accounts s) (\<lambda>(s1, users).
         let s2 = on_arch (update_raw_payload_status (rw_id w) ''parsed'' (Some USERS_PARSER_VERSION) (Some (now_of s1)) None (now_of s1)) s1;
             s3 = (if rw_provider w = ''lichess'' \<and> rw_endpoint_type w = ''user_profile''
               then on_arch (publish_verified_legacy_profile (rw_id w)) s2 else s2) in
         Inr (s3, hd users)))))
     | _ \<Rightarrow> Inl (ValueError ''user profiles and statistics must be JSON objects''))"

definition normalize_user_payload :: "'v norm_env \<Rightarrow> int \<Rightarrow> bool \<Rightarrow> int option \<Rightarrow> int option act" where
  "normalize_user_payload e raw prefer log_id =
     andthen (read_stored e raw) (\<lambda>(w, body).
     if rw_endpoint_type w \<noteq> ''user_profile'' \<and> \<not> chesscom_statistics w then ret None
     else if rw_endpoint_type w = ''user_profile'' \<and> rw_provider w \<notin> {''chess.com'', ''lichess''}
     then raise (ValueError (''unsupported provider: '' @ rw_provider w))
     else andthen (ask_site (\<lambda>_. ne_loads e body)) (\<lambda>v.
       if rw_provider w = ''lichess'' \<and> account_relative v
       then andthen (tx (\<lambda>s. Inr (on_arch (quarantine_unowned_profile raw) s, ()))) (\<lambda>_.
         raise (ValueError ''account-relative profile relationships require scoped ownership before normalization''))
       else andthen (ask_site (\<lambda>_. interpret_user e w v)) (\<lambda>(u, f).
         andthen (tx (write_user e w v u f prefer log_id)) (\<lambda>user. ret (Some user)))))"

text \<open>The normalizer as ingestion and replay call it.\<close>

definition users_normalizer :: "'v norm_env \<Rightarrow> bool \<Rightarrow> normalizer" where
  "users_normalizer e prefer raw log_id run max_games = andthen (normalize_user_payload e raw prefer log_id) (\<lambda>r.
     ret (case r of None \<Rightarrow> [] | Some i \<Rightarrow> [i]))"

end
