(* ===== verification/Resources.thy ===== *)
theory Resources
  imports Users
begin

text \<open>
  The normalizer of supplementary player documents, normalize/resources.py: what a document covers, the points of a rating
  history with a pointer to the element each came from, and the snapshot filed for every account the payload belongs to.
\<close>

section \<open>Coverage\<close>

definition resource_username :: "string \<Rightarrow> string result" where
  "resource_username key = (let parts = split_on (CHR ''/'') key in
     if length parts < 5 \<or> parts ! 1 \<noteq> ''player'' \<or> parts ! 3 \<noteq> ''resources'' \<or> parts ! 2 = []
     then Inl (ValueError ''player resource has an invalid source identity'') else Inr (unquote (parts ! 2)))"

definition is_list :: "json \<Rightarrow> bool" where
  "is_list v \<longleftrightarrow> as_list v \<noteq> None"

definition plain_coverage :: "json \<Rightarrow> string \<times> string option" where
  "plain_coverage v = (if v = JObj [] \<or> v = JList [] then ''empty'' else ''observed'', None)"

definition lichess_coverage :: "string \<Rightarrow> json \<Rightarrow> bool \<Rightarrow> (string \<times> string option) option" where
  "lichess_coverage key v authenticated =
     (if key \<in> {''rating-history'', ''activity'', ''teams''} \<and> \<not> is_list v
      then Some (''unknown'', Some ''Expected array; full supplied JSON retained for interpretation.'')
      else if key = ''rating-history'' \<and> v = JList [] \<and> \<not> authenticated
      then Some (''unknown'', Some ''Unauthenticated empty response may mean rating history has not been cached.'')
      else if key = ''activity'' then Some (''partial'', Some ''Provider activity window; not complete lifetime activity coverage.'')
      else if key = ''teams'' then Some (''partial'', Some ''Hidden teams are visible only when the authenticated caller also belongs.'')
      else None)"

definition chesscom_coverage :: "string \<Rightarrow> fields \<Rightarrow> (string \<times> string option) option" where
  "chesscom_coverage key data = (let listings = (if key = ''clubs'' then [''clubs''] else [''finished'', ''in_progress'', ''registered'']) in
     if key \<notin> {''clubs'', ''matches'', ''tournaments''} then None
     else if \<not> list_all (\<lambda>k. is_list (obj_get data k)) listings
     then Some (''unknown'', Some ''Missing or malformed listing fields; full supplied JSON retained.'')
     else Some (if \<not> list_ex (\<lambda>k. truthy (obj_get data k)) listings then ''empty'' else ''observed'', None))"

definition coverage :: "string \<Rightarrow> string \<Rightarrow> json \<Rightarrow> bool \<Rightarrow> string \<times> string option" where
  "coverage provider key v authenticated = coalesce
     (if provider = ''lichess'' then lichess_coverage key v authenticated
      else if provider = ''chess.com'' then Option.bind (as_dict v) (chesscom_coverage key) else None) (plain_coverage v)"

section \<open>Rating history\<close>

definition point_pointer :: "nat \<Rightarrow> nat \<Rightarrow> string" where
  "point_pointer i k = ''/'' @ str_nat i @ ''/points/'' @ str_nat k"

definition valid_date :: "int \<Rightarrow> int \<Rightarrow> int \<Rightarrow> bool" where
  "valid_date y m d \<longleftrightarrow> 1 \<le> y \<and> y \<le> 9999 \<and> 1 \<le> m \<and> m \<le> 12 \<and> 1 \<le> d \<and> d \<le> days_in_month y m"

text \<open>Four integers: year, month from zero, day and rating.\<close>

definition point_numbers :: "json \<Rightarrow> (int \<times> int \<times> int \<times> int) option" where
  "point_numbers v = (case v of
       JList [a, b, c, d] \<Rightarrow> (case (strict_int a, strict_int b, strict_int c, strict_int d) of
           (Some y, Some m, Some day, Some r) \<Rightarrow> Some (y, m, day, r) | _ \<Rightarrow> None)
     | _ \<Rightarrow> None)"

definition read_point :: "nat \<Rightarrow> string \<Rightarrow> nat \<Rightarrow> json \<Rightarrow> string + history_point" where
  "read_point i name k v = (case point_numbers v of
       None \<Rightarrow> Inl (point_pointer i k @ '': expected [year, zero-based month, day, rating]'')
     | Some (y, m, d, r) \<Rightarrow>
         if \<not> valid_date y (m + 1) d then Inl (point_pointer i k @ '': invalid calendar date'')
         else Inr \<lparr>hp_perf_index = i, hp_point_index = k, hp_performance = name, hp_rating_date = (y, m + 1, d), hp_rating = r,
           hp_source_pointer = point_pointer i k\<rparr>)"

definition perf_points :: "json \<Rightarrow> (string \<times> json list) option" where
  "perf_points v = (case v of
       JObj kvs \<Rightarrow> (case (obj_get kvs ''name'', obj_get kvs ''points'') of (JStr name, JList ps) \<Rightarrow> Some (name, ps) | _ \<Rightarrow> None)
     | _ \<Rightarrow> None)"

definition read_perf :: "nat \<Rightarrow> json \<Rightarrow> (string + history_point) list" where
  "read_perf i v = (case perf_points v of
       None \<Rightarrow> [Inl (''/'' @ str_nat i @ '': expected named performance and points array'')]
     | Some (name, ps) \<Rightarrow> map (\<lambda>(k, p). read_point i name k p) (enumerate 0 ps))"

fun points_of :: "('a + 'b) list \<Rightarrow> 'b list" where
  "points_of [] = []"
| "points_of (Inl _ # xs) = points_of xs"
| "points_of (Inr x # xs) = x # points_of xs"

fun issues_of :: "('a + 'b) list \<Rightarrow> 'a list" where
  "issues_of [] = []"
| "issues_of (Inl x # xs) = x # issues_of xs"
| "issues_of (Inr _ # xs) = issues_of xs"

text \<open>
  \<open>date(year, month, day)\<close> takes C integers: an argument outside of them raises an \<open>OverflowError\<close>, which the handler of
  \<open>ValueError\<close> lets through, so the whole reading raises.
\<close>

definition c_int :: "int \<Rightarrow> unit result" where
  "c_int n = (if n < - (2 ^ 63) \<or> 2 ^ 63 \<le> n then Inl (OverflowError ''Python int too large to convert to C long'')
     else if 2 ^ 31 \<le> n then Inl (OverflowError ''signed integer is greater than maximum'')
     else if n < - (2 ^ 31) then Inl (OverflowError ''signed integer is less than minimum'') else Inr ())"

definition date_arguments :: "int \<times> int \<times> int \<times> int \<Rightarrow> unit result" where
  "date_arguments p = (case p of (y, m, d, r) \<Rightarrow> rbind (c_int y) (\<lambda>_. rbind (c_int (m + 1)) (\<lambda>_. c_int d)))"

fun first_error :: "unit result list \<Rightarrow> unit result" where
  "first_error [] = Inr ()"
| "first_error (r # rs) = rbind r (\<lambda>_. first_error rs)"

definition history_numbers :: "json list \<Rightarrow> (int \<times> int \<times> int \<times> int) list" where
  "history_numbers perfs = concat (map (\<lambda>v. case perf_points v of None \<Rightarrow> [] | Some (_, ps) \<Rightarrow> List.map_filter point_numbers ps) perfs)"

definition rating_points :: "json \<Rightarrow> (history_point list \<times> string list) result" where
  "rating_points v = (case v of
       JList perfs \<Rightarrow> rbind (first_error (map date_arguments (history_numbers perfs))) (\<lambda>_.
         let rs = concat (map (\<lambda>(i, p). read_perf i p) (enumerate 0 perfs)) in Inr (points_of rs, issues_of rs))
     | _ \<Rightarrow> Inr ([], [''root is not an array'']))"

section \<open>Normalizing a payload\<close>

record resource_reading =
  rd_resource_key :: string
  rd_parameters :: "(string \<times> string) list"
  rd_owner_scope :: string
  rd_username :: string
  rd_data :: json
  rd_status :: string
  rd_note :: "string option"
  rd_points :: "history_point list"

definition with_history :: "resource_reading \<Rightarrow> resource_reading result" where
  "with_history r = (if rd_resource_key r \<noteq> ''rating-history'' then Inr r
     else rbind (rating_points (rd_data r)) (\<lambda>(points, issues).
       Inr (if issues = [] then r\<lparr>rd_points := points\<rparr>
         else r\<lparr>rd_points := points, rd_status := ''partial'',
           rd_note := Some (str_nat (length issues) @ '' uninterpreted rating history element(s): '' @ join ''; '' (take 5 issues))\<rparr>)))"

definition read_resource :: "'v norm_env \<Rightarrow> raw_row \<Rightarrow> string \<Rightarrow> resource_reading result" where
  "read_resource e w body =
     (if rw_endpoint_type w \<noteq> ''user_resource'' then Inl (ValueError ''supplementary player normalizer requires user_resource'')
      else rbind (sub_object (rw_request_params w)) (\<lambda>params. case obj_get params ''resource_key'' of
        JStr key \<Rightarrow>
          rbind (get_resource (rw_provider w) key) (\<lambda>r.
          rbind (sub_object (obj_get params ''parameters'')) (\<lambda>given.
          rbind (resource_parameters r given) (\<lambda>parameters.
          rbind (resource_owner_scope r (rw_owner_scope w)) (\<lambda>scope.
          if coalesce (map_of params ''owner_scope'') (JStr ''public'') \<noteq> JStr scope
          then Inl (ValueError ''resource capture ownership disagrees with its raw payload'')
          else rbind (resource_username (rw_canonical_source_key w)) (\<lambda>username.
            rbind (ne_loads e body) (\<lambda>v.
            if as_dict v = None \<and> as_list v = None then Inl (ValueError ''player resource must contain a JSON object or array'')
            else case coverage (rw_provider w) key v (obj_get params ''authenticated'' = JBool True) of (status, note) \<Rightarrow>
              with_history \<lparr>rd_resource_key = key, rd_parameters = parameters, rd_owner_scope = scope, rd_username = username,
                rd_data = v, rd_status = status, rd_note = note, rd_points = []\<rparr>))))))
      | _ \<Rightarrow> Inl (ValueError ''player resource is missing its registered resource key'')))"

definition params_json :: "(string \<times> string) list \<Rightarrow> json" where
  "params_json vs = JObj (map (\<lambda>(k, v). (k, JStr v)) vs)"

definition snapshot_of :: "(string \<Rightarrow> string) \<Rightarrow> resource_reading \<Rightarrow> int \<Rightarrow> resource_snapshot" where
  "snapshot_of sha r user = \<lparr>rn_id = 0, rn_provider_user_id = user, rn_owner_scope = rd_owner_scope r, rn_resource_key = rd_resource_key r,
     rn_parameters = params_json (rd_parameters r), rn_parameters_hash = canonical_hash sha (params_json (rd_parameters r)),
     rn_content_hash = canonical_hash sha (JObj [(''native_data'', rd_data r), (''coverage_status'', JStr (rd_status r)),
       (''coverage_note'', json_text (rd_note r))]),
     rn_native_data = rd_data r, rn_coverage_status = rd_status r, rn_coverage_note = rd_note r, rn_parser_version = RESOURCES_PARSER_VERSION\<rparr>"

text \<open>The accounts a resource belongs to: of its fetch, of its earlier occurrences, by name, or a new one.\<close>

definition resource_targets ::
  "'v norm_env \<Rightarrow> raw_row \<Rightarrow> resource_reading \<Rightarrow> bool \<Rightarrow> int option \<Rightarrow> int \<Rightarrow> site \<Rightarrow> (site \<times> int list \<times> int option) result" where
  "resource_targets e w r prefer log_id observed_at s = (case log_id of
       Some l \<Rightarrow> rbind (captured_fetch_account (si_arch s) (si_catalog s) (rw_id w) l) (\<lambda>(p, t). case p of
           None \<Rightarrow> Inl (ValueError ''Player resource acquisition is missing its captured account'')
         | Some p \<Rightarrow> Inr (s, [pl_id p], Some t))
     | None \<Rightarrow>
         let bound = (if prefer then resource_accounts (si_arch s) (si_catalog s) (rw_id w) else []) in
         if bound \<noteq> [] then Inr (s, bound, None)
         else (case resource_account (si_catalog s) (rw_provider w) (rd_username r) (rw_id w) prefer of
             Some u \<Rightarrow> Inr (s, [u], None)
           | None \<Rightarrow> rbind (resolve_capture_account (ne_adapter e) Shared (rw_provider w) (rd_username r) observed_at (rd_owner_scope r) s)
               (\<lambda>(s1, u). Inr (s1, [u], None))))"

definition write_resource ::
  "'v norm_env \<Rightarrow> raw_row \<Rightarrow> resource_reading \<Rightarrow> int option \<Rightarrow> int option \<Rightarrow> int \<Rightarrow> site \<Rightarrow> (site \<times> int) result" where
  "write_resource e w r log_id captured_at user s =
     rbind (case captured_at of Some t \<Rightarrow> Inr (t, t) | None \<Rightarrow> account_observation_times (si_arch s) (si_catalog s) (rw_id w) user) (\<lambda>(first_at, last_at).
     let ct = (if rd_owner_scope r = ''public'' then record_alias user (rd_username r) last_at (Some (rw_id w)) (Some first_at) (si_catalog s)
           else si_catalog s);
         (ct1, i) = store_resource_snapshot (si_arch s) (snapshot_of (ne_sha e) r user) (rd_points r) (rw_id w) log_id ct in
     Inr (source_of ''user_resource'' i (rw_provider w) w None (s\<lparr>si_catalog := ct1\<rparr>), i))"

fun write_resources ::
  "'v norm_env \<Rightarrow> raw_row \<Rightarrow> resource_reading \<Rightarrow> int option \<Rightarrow> int option \<Rightarrow> int list \<Rightarrow> site \<Rightarrow> (site \<times> int list) result" where
  "write_resources e w r log_id captured_at [] s = Inr (s, [])"
| "write_resources e w r log_id captured_at (user # users) s =
     rbind (write_resource e w r log_id captured_at user s) (\<lambda>(s1, i).
     rbind (write_resources e w r log_id captured_at users s1) (\<lambda>(s2, is). Inr (s2, i # is)))"

definition file_resource :: "'v norm_env \<Rightarrow> raw_row \<Rightarrow> resource_reading \<Rightarrow> bool \<Rightarrow> int option \<Rightarrow> site \<Rightarrow> (site \<times> int) result" where
  "file_resource e w r prefer log_id s =
     rbind (payload_observed_at (si_arch s) (rw_id w)) (\<lambda>observed_at.
     rbind (resource_targets e w r prefer log_id observed_at s) (\<lambda>(s1, users, captured_at).
     rbind (write_resources e w r log_id captured_at users s1) (\<lambda>(s2, is).
     Inr (on_arch (update_raw_payload_status (rw_id w) ''parsed'' (Some RESOURCES_PARSER_VERSION) (Some (now_of s2)) None (now_of s2)) s2, hd is))))"

definition normalize_resource_payload :: "'v norm_env \<Rightarrow> int \<Rightarrow> bool \<Rightarrow> int option \<Rightarrow> int act" where
  "normalize_resource_payload e raw prefer log_id = andthen (read_stored e raw) (\<lambda>(w, body).
     andthen (ask_site (\<lambda>_. read_resource e w body)) (\<lambda>r. tx (file_resource e w r prefer log_id)))"

definition resources_normalizer :: "'v norm_env \<Rightarrow> bool \<Rightarrow> normalizer" where
  "resources_normalizer e prefer raw log_id run max_games = andthen (normalize_resource_payload e raw prefer log_id) (\<lambda>i. ret [i])"

end
