(* ===== verification/Evidence_Laws.thy ===== *)
theory Evidence_Laws
  imports Evidence
begin

text \<open>
  Invariants of the token loop of \<open>Evidence\<close>: the tokens hold every character of the notation that is not blank
  (\<open>lossless\<close>), the nodes form a tree with the played moves as one path (\<open>tree_ok\<close>), and clock
  observations name nodes of the tree (\<open>clock_ok\<close>). What the theory assumes of the library's
  scanner is that its matches are ordered, disjoint and inside the text (\<open>matches_ok\<close>).
\<close>

named_theorems node_simps \<open>effects of the token steps on the fields of the loop's state\<close>

section \<open>Blank characters\<close>

definition solid :: "string \<Rightarrow> string" where
  "solid s = filter (\<lambda>c. \<not> is_space c) s"

lemma solid_append [simp]: "solid (xs @ ys) = solid xs @ solid ys"
  by (simp add: solid_def)

lemma solid_Nil [simp]: "solid [] = []"
  by (simp add: solid_def)

lemma dropWhile_space_solid: "solid (dropWhile is_space s) = solid s"
  by (induction s) (auto simp: solid_def)

lemma solid_rev: "solid (rev s) = rev (solid s)"
  by (simp add: solid_def rev_filter)

lemma solid_strip [simp]: "solid (strip s) = solid s"
proof -
  have "solid (dropWhile is_space (rev (dropWhile is_space s))) = rev (solid s)"
    by (simp only: dropWhile_space_solid solid_rev)
  then show ?thesis unfolding strip_def by (simp only: solid_rev rev_rev_ident)
qed

lemma strip_Nil_iff: "strip s = [] \<longleftrightarrow> solid s = []"
proof
  assume "solid s = []"
  then have "solid (strip s) = []" by simp
  then have "\<forall>c \<in> set (strip s). is_space c" by (simp add: solid_def filter_empty_conv)
  then show "strip s = []" using strip_edges(1) [of s] by (cases "strip s") auto
next
  assume "strip s = []"
  then show "solid s = []" using solid_strip [of s] by simp
qed

lemma take_slice: "a \<le> b \<Longrightarrow> take b text = take a text @ slice text a b"
  by (simp add: slice_def) (metis le_add_diff_inverse take_add)

section \<open>Tokens\<close>

fun matches_ok :: "nat \<Rightarrow> nat \<Rightarrow> pgn_match list \<Rightarrow> bool" where
  "matches_ok n a [] \<longleftrightarrow> True"
| "matches_ok n a (m # ms) \<longleftrightarrow> a \<le> pm_start m \<and> pm_start m \<le> pm_end m \<and> pm_end m \<le> n \<and> matches_ok n (pm_end m) ms"

definition finditer_ok :: "'v pgn_library \<Rightarrow> bool" where
  "finditer_ok g \<longleftrightarrow> (\<forall>text a. a \<le> length text \<longrightarrow> matches_ok (length text) a (gr_finditer g text a))"

text \<open>A text that consists of the given words in their order, with nothing but blank characters around them.\<close>

fun spells :: "string list \<Rightarrow> string \<Rightarrow> bool" where
  "spells [] s = list_all is_space s"
| "spells (w # ws) s = (\<exists>gap rest. s = gap @ w @ rest \<and> list_all is_space gap \<and> spells ws rest)"

lemma spells_blank: "spells ws s \<Longrightarrow> list_all is_space b \<Longrightarrow> spells ws (s @ b)"
proof (induction ws arbitrary: s)
  case (Cons w ws)
  then obtain gap rest where r: "s = gap @ w @ rest" "list_all is_space gap" "spells ws rest" by auto
  have "s @ b = gap @ w @ (rest @ b)" using r(1) by simp
  then show ?case using r(2) Cons.IH [OF r(3) Cons.prems(2)] by (simp only: spells.simps) blast
qed simp

lemma spells_word: "spells ws s \<Longrightarrow> spells (ws @ [w]) (s @ w)"
proof (induction ws arbitrary: s)
  case (Cons v ws)
  then obtain gap rest where r: "s = gap @ v @ rest" "list_all is_space gap" "spells ws rest" by auto
  have "s @ w = gap @ v @ (rest @ w)" using r(1) by simp
  then show ?case using r(2) Cons.IH [OF r(3)] by (simp only: spells.simps append_Cons) blast
next
  case Nil
  then have "s @ w = s @ w @ [] \<and> list_all is_space s \<and> spells [] []" by simp
  then show ?case unfolding append_Nil spells.simps(2) by blast
qed

lemma solid_space: "list_all is_space s \<Longrightarrow> solid s = []"
  by (simp add: solid_def list_all_iff filter_empty_conv)

lemma solid_empty: "solid s = [] \<Longrightarrow> list_all is_space s"
  by (simp add: solid_def list_all_iff filter_empty_conv)

lemma spells_solid: "spells ws s \<Longrightarrow> solid s = solid (concat ws)"
  by (induction ws arbitrary: s) (auto simp: solid_space)

definition token_ok :: "string \<Rightarrow> nat \<Rightarrow> pgn_token \<Rightarrow> bool" where
  "token_ok text i t \<longleftrightarrow> tk_token_index t = i \<and> tk_start_offset t \<le> tk_end_offset t \<and> tk_end_offset t \<le> length text
     \<and> tk_token_text t = slice text (tk_start_offset t) (tk_end_offset t)
     \<and> tk_interpretation_status t \<in> {''parsed'', ''preserved'', ''invalid''}"

definition tokens_ok :: "string \<Rightarrow> pgn_token list \<Rightarrow> bool" where
  "tokens_ok text ts \<longleftrightarrow> (\<forall>i < length ts. token_ok text i (ts ! i))"

definition lossless :: "string \<Rightarrow> nat \<Rightarrow> pgn_token list \<Rightarrow> bool" where
  "lossless text p ts \<longleftrightarrow> p \<le> length text \<and> tokens_ok text ts
     \<and> spells (map tk_token_text ts) (take p text)"

lemma tokens_ok_snoc: "tokens_ok text (ts @ [t]) \<longleftrightarrow> tokens_ok text ts \<and> token_ok text (length ts) t"
  by (auto simp: tokens_ok_def nth_append less_Suc_eq)

lemma lexical_token_lossless:
  assumes "lossless text a (ps_tokens s)" "a \<le> b" "b \<le> length text" "status \<in> {''parsed'', ''preserved'', ''invalid''}"
  shows "lossless text b (ps_tokens (lexical_token text kind a b status s))"
  using assms take_slice [of a b "text"] spells_word by (auto simp: lossless_def lexical_token_def tokens_ok_snoc token_ok_def)

lemma blank_lossless:
  assumes "lossless text a ts" "a \<le> b" "b \<le> length text" "strip (slice text a b) = []"
  shows "lossless text b ts"
  using assms take_slice [of a b "text"] spells_blank [OF _ solid_empty] by (simp add: lossless_def strip_Nil_iff)

lemma last_status_lossless:
  assumes "lossless text a (ps_tokens s)" "ps_tokens s \<noteq> []" "status \<in> {''parsed'', ''preserved'', ''invalid''}"
  shows "lossless text a (ps_tokens (last_status status s))"
proof -
  obtain ts t where ts: "ps_tokens s = ts @ [t]" using assms(2) by (metis append_butlast_last_id)
  show ?thesis using assms by (auto simp: lossless_def last_status_def ts tokens_ok_snoc token_ok_def)
qed

section \<open>Nodes\<close>

text \<open>What the loop never changes of a node once it is there.\<close>

record skeleton =
  sk_index :: nat
  sk_parent :: "nat option"
  sk_ply :: nat
  sk_main :: bool
  sk_mover :: "string option"
  sk_uci :: "string option"

definition skeleton :: "move_node \<Rightarrow> skeleton" where
  "skeleton n = \<lparr>sk_index = mn_node_index n, sk_parent = mn_parent_index n, sk_ply = mn_ply n, sk_main = mn_is_mainline n,
     sk_mover = mn_mover n, sk_uci = mn_move_uci n\<rparr>"

definition main_line :: "move_node list \<Rightarrow> skeleton list" where
  "main_line nodes = filter sk_main (map skeleton nodes)"

definition root_ok :: "skeleton \<Rightarrow> bool" where
  "root_ok k \<longleftrightarrow> sk_index k = 0 \<and> sk_parent k = None \<and> sk_ply k = 0 \<and> sk_main k \<and> sk_uci k = None"

definition child_ok :: "skeleton list \<Rightarrow> nat \<Rightarrow> skeleton \<Rightarrow> bool" where
  "child_ok ks i k \<longleftrightarrow> sk_index k = i \<and> (\<exists>p < i. sk_parent k = Some p \<and> sk_ply k = sk_ply (ks ! p) + 1)
     \<and> sk_mover k \<in> {Some ''white'', Some ''black''}"

definition path_ok :: "skeleton list \<Rightarrow> bool" where
  "path_ok ks \<longleftrightarrow> (\<forall>i. Suc i < length ks \<longrightarrow> sk_parent (ks ! Suc i) = Some (sk_index (ks ! i)))"

definition tree_ok :: "move_node list \<Rightarrow> bool" where
  "tree_ok nodes \<longleftrightarrow> nodes \<noteq> [] \<and> root_ok (skeleton (hd nodes))
     \<and> (\<forall>i < length nodes. 0 < i \<longrightarrow> child_ok (map skeleton nodes) i (skeleton (nodes ! i)))
     \<and> path_ok (main_line nodes)"

lemma skeleton_sel [simp]:
  "sk_index (skeleton n) = mn_node_index n" "sk_parent (skeleton n) = mn_parent_index n" "sk_ply (skeleton n) = mn_ply n"
  "sk_main (skeleton n) = mn_is_mainline n" "sk_mover (skeleton n) = mn_mover n" "sk_uci (skeleton n) = mn_move_uci n"
  by (simp_all add: skeleton_def)

lemma map_nth_eq: "map f xs = map f ys \<Longrightarrow> i < length xs \<Longrightarrow> f (xs ! i) = f (ys ! i)"
  by (metis length_map nth_map)

lemma tree_ok_cong:
  assumes "map skeleton xs = map skeleton ys"
  shows "tree_ok xs = tree_ok ys"
proof -
  have len: "length xs = length ys" using assms map_eq_imp_length_eq by blast
  have hd: "ys \<noteq> [] \<Longrightarrow> skeleton (hd xs) = skeleton (hd ys)"
    using assms len by (cases xs; cases ys) auto
  have ne: "xs = [] \<longleftrightarrow> ys = []" using len by auto
  show ?thesis
    using assms len hd ne map_nth_eq [OF assms] by (auto simp: tree_ok_def main_line_def)
qed

lemma main_line_snoc: "main_line (nodes @ [n]) = main_line nodes @ (if mn_is_mainline n then [skeleton n] else [])"
  by (simp add: main_line_def)

lemma path_ok_snoc:
  assumes "path_ok ks" "ks \<noteq> []"
  shows "path_ok (ks @ [k]) \<longleftrightarrow> sk_parent k = Some (sk_index (last ks))"
proof -
  obtain n where n: "length ks = Suc n" using assms(2) by (cases ks) auto
  then have "last ks = ks ! n" using assms(2) by (simp add: last_conv_nth)
  then show ?thesis using assms(1) n by (auto simp: path_ok_def nth_append less_Suc_eq)
qed

lemma main_line_root: "tree_ok nodes \<Longrightarrow> main_line nodes \<noteq> [] \<and> hd (main_line nodes) = skeleton (hd nodes)"
  by (cases nodes) (auto simp: tree_ok_def main_line_def root_ok_def)

lemma child_ok_append: "i \<le> length ks \<Longrightarrow> child_ok (ks @ js) i k = child_ok ks i k"
proof -
  assume "i \<le> length ks"
  then have "p < i \<Longrightarrow> (ks @ js) ! p = ks ! p" for p by (simp add: nth_append)
  then show ?thesis unfolding child_ok_def by metis
qed

text \<open>Adding a move below a node of the tree; a played move goes below the last played one.\<close>

lemma tree_ok_snoc:
  assumes t: "tree_ok nodes" and p: "p < length nodes" "mn_parent_index n = Some p" "mn_node_index n = length nodes"
    and ply: "mn_ply n = mn_ply (nodes ! p) + 1" and mover: "mn_mover n \<in> {Some ''white'', Some ''black''}"
    and main: "mn_is_mainline n \<Longrightarrow> sk_index (last (main_line nodes)) = p"
  shows "tree_ok (nodes @ [n])"
proof -
  have "child_ok (map skeleton (nodes @ [n])) i (skeleton ((nodes @ [n]) ! i))" if i: "i < length (nodes @ [n])" "0 < i" for i
  proof (cases "i = length nodes")
    case True
    then show ?thesis using p ply mover by (simp add: child_ok_append) (simp add: child_ok_def)
  next
    case False
    then have l: "i < length nodes" using i by simp
    then have "child_ok (map skeleton nodes) i (skeleton (nodes ! i))" using t i(2) by (simp add: tree_ok_def)
    then show ?thesis using l by (simp add: child_ok_append nth_append)
  qed
  moreover have "path_ok (main_line (nodes @ [n]))"
    using t main path_ok_snoc [of "main_line nodes" "skeleton n"] main_line_root [OF t] p(2)
    by (auto simp: main_line_snoc tree_ok_def)
  moreover have "root_ok (skeleton (hd (nodes @ [n])))" "nodes @ [n] \<noteq> []" using t by (auto simp: tree_ok_def)
  ultimately show ?thesis unfolding tree_ok_def by blast
qed

text \<open>The plies of the played moves count up from the starting position.\<close>

lemma node_index_nth: "tree_ok nodes \<Longrightarrow> i < length nodes \<Longrightarrow> mn_node_index (nodes ! i) = i"
  by (cases "i = 0") (auto simp: tree_ok_def root_ok_def child_ok_def hd_conv_nth)

lemma main_line_nth:
  assumes "i < length (main_line nodes)"
  obtains j where "j < length nodes" "main_line nodes ! i = skeleton (nodes ! j)"
proof -
  have "main_line nodes ! i \<in> set (map skeleton nodes)" using nth_mem [OF assms] by (auto simp: main_line_def)
  then show ?thesis using that by (auto simp: in_set_conv_nth)
qed

lemma main_line_plies:
  assumes t: "tree_ok nodes" and i: "i < length (main_line nodes)"
  shows "sk_ply (main_line nodes ! i) = i"
  using i
proof (induction i)
  case 0
  then show ?case using main_line_root [OF t] t by (auto simp: hd_conv_nth tree_ok_def root_ok_def)
next
  case (Suc i)
  let ?ms = "main_line nodes"
  have par: "sk_parent (?ms ! Suc i) = Some (sk_index (?ms ! i))" using t Suc(2) by (simp add: tree_ok_def path_ok_def)
  obtain j where j: "j < length nodes" "?ms ! Suc i = skeleton (nodes ! j)" using main_line_nth [OF Suc(2)] by blast
  obtain k where k: "k < length nodes" "?ms ! i = skeleton (nodes ! k)" using main_line_nth [of i nodes] Suc(2) by auto
  have "j \<noteq> 0" using par j(2) t by (intro notI) (auto simp: tree_ok_def root_ok_def hd_conv_nth)
  then have "child_ok (map skeleton nodes) j (skeleton (nodes ! j))" using t j by (simp add: tree_ok_def)
  then have "mn_ply (nodes ! j) = mn_ply (nodes ! k) + 1"
    using par node_index_nth [OF t k(1)] k j by (auto simp: child_ok_def)
  then show ?case using Suc j(2) k(2) by simp
qed

section \<open>Clocks\<close>

text \<open>The constraints of the table of clock observations.\<close>

definition clock_ok :: "nat \<Rightarrow> clock_observation \<Rightarrow> bool" where
  "clock_ok n k \<longleftrightarrow> (case ck_node_index k of None \<Rightarrow> True | Some i \<Rightarrow> i < n) \<and> ck_kind k \<in> {''remaining'', ''elapsed''}
     \<and> ck_source k \<in> {''pgn'', ''provider''} \<and> ck_status k \<in> {''parsed'', ''invalid'', ''unmapped''}
     \<and> ck_reference k \<in> {''after_move'', ''elapsed_move'', ''unknown''}
     \<and> (ck_status k = ''parsed'' \<longrightarrow> (\<exists>t. ck_seconds k = Some t \<and> 0 \<le> t))"

lemma clock_ok_mono: "clock_ok n k \<Longrightarrow> n \<le> m \<Longrightarrow> clock_ok m k"
  by (auto simp: clock_ok_def split: option.splits)

lemma parse_clock_nonneg: "parse_clock v = Some (t, r) \<Longrightarrow> 0 \<le> t"
  by (auto simp: parse_clock_def Let_def split: option.splits if_splits)

lemma annotated_clock_ok:
  assumes "k \<in> set (annotated_clock node token i a)" "case node of None \<Rightarrow> True | Some j \<Rightarrow> j < n"
  shows "clock_ok n k"
proof -
  obtain command v raw where a: "a = (command, v, raw)" by (cases a)
  show ?thesis
    using assms parse_clock_nonneg [of v] by (auto simp: a annotated_clock_def clock_ok_def Let_def split: if_splits)
qed

lemma provider_clock_ok:
  assumes "\<And>m. m \<in> set played \<Longrightarrow> mn_node_index m < n"
  shows "clock_ok n (provider_clock played i v)"
  using assms by (auto simp: provider_clock_def clock_ok_def Let_def split: json.splits)

section \<open>The state of the loop\<close>

definition cursor_ok :: "'v pgn_state \<Rightarrow> bool" where
  "cursor_ok s \<longleftrightarrow> tree_ok (ps_nodes s) \<and> ps_current s < length (ps_nodes s) \<and> (\<forall>r \<in> set (ps_rav s). r < length (ps_nodes s))
     \<and> sk_index (last (main_line (ps_nodes s))) = (if ps_rav s = [] then ps_current s else last (ps_rav s))
     \<and> (\<forall>k \<in> set (ps_clocks s). clock_ok (length (ps_nodes s)) k)"

lemma cursor_ok_frame:
  assumes "cursor_ok s" "map skeleton (ps_nodes s') = map skeleton (ps_nodes s)" "ps_current s' = ps_current s"
    "ps_rav s' = ps_rav s" "ps_clocks s' = ps_clocks s"
  shows "cursor_ok s'"
proof -
  have "length (ps_nodes s') = length (ps_nodes s)" using assms(2) map_eq_imp_length_eq by blast
  moreover have "main_line (ps_nodes s') = main_line (ps_nodes s)" using assms(2) by (simp add: main_line_def)
  ultimately show ?thesis using assms tree_ok_cong [OF assms(2)] by (simp add: cursor_ok_def)
qed

lemma change_node_skeleton [node_simps]:
  "(\<And>n. skeleton (f n) = skeleton n) \<Longrightarrow> map skeleton (ps_nodes (change_node i f s)) = map skeleton (ps_nodes s)"
proof -
  assume f: "\<And>n. skeleton (f n) = skeleton n"
  have "map skeleton (xs[i := f (xs ! i)]) = map skeleton xs" for xs
    by (cases "i < length xs") (simp_all add: f map_update list_update_same_conv list_update_beyond)
  then show ?thesis by (simp add: change_node_def)
qed

lemma state_fields [node_simps]:
  "ps_nodes (issue k d s) = ps_nodes s" "ps_current (issue k d s) = ps_current s" "ps_rav (issue k d s) = ps_rav s"
  "ps_clocks (issue k d s) = ps_clocks s" "ps_tokens (issue k d s) = ps_tokens s" "ps_previous_end (issue k d s) = ps_previous_end s"
  "ps_nodes (lexical_token t kd a b st s) = ps_nodes s" "ps_current (lexical_token t kd a b st s) = ps_current s"
  "ps_rav (lexical_token t kd a b st s) = ps_rav s" "ps_clocks (lexical_token t kd a b st s) = ps_clocks s"
  "ps_previous_end (lexical_token t kd a b st s) = ps_previous_end s"
  "ps_nodes (last_status st s) = ps_nodes s" "ps_current (last_status st s) = ps_current s" "ps_rav (last_status st s) = ps_rav s"
  "ps_clocks (last_status st s) = ps_clocks s" "ps_previous_end (last_status st s) = ps_previous_end s"
  "ps_current (change_node i f s) = ps_current s" "ps_rav (change_node i f s) = ps_rav s" "ps_clocks (change_node i f s) = ps_clocks s"
  "ps_tokens (change_node i f s) = ps_tokens s" "ps_previous_end (change_node i f s) = ps_previous_end s"
  by (simp_all add: issue_def lexical_token_def last_status_def change_node_def)

lemma change_node_cursor: "cursor_ok s \<Longrightarrow> (\<And>n. skeleton (f n) = skeleton n) \<Longrightarrow> cursor_ok (change_node i f s)"
  by (rule cursor_ok_frame) (simp_all add: node_simps)

lemma start_variation_cursor:
  assumes s: "cursor_ok s"
  shows "cursor_ok (start_variation index s)"
proof -
  let ?p = "mn_parent_index (ps_nodes s ! ps_current s)"
  have t: "tree_ok (ps_nodes s)" and c: "ps_current s < length (ps_nodes s)" using s by (auto simp: cursor_ok_def)
  have "coalesce ?p 0 < length (ps_nodes s)"
  proof (cases "ps_current s = 0")
    case True
    then have "?p = None" using t c by (auto simp: tree_ok_def root_ok_def hd_conv_nth)
    then show ?thesis using c True by simp
  next
    case False
    then obtain p where "?p = Some p" "p < ps_current s" using t c by (auto simp: tree_ok_def child_ok_def)
    then show ?thesis using c by simp
  qed
  then show ?thesis using s by (auto simp: start_variation_def Let_def cursor_ok_def node_simps)
qed

lemma end_variation_cursor: "cursor_ok s \<Longrightarrow> cursor_ok (end_variation index s)"
  by (auto simp: end_variation_def cursor_ok_def node_simps split: list.splits if_splits)

lemma push_node_cursor:
  assumes s: "cursor_ok s" and n: "mn_node_index n = length (ps_nodes s)" "mn_parent_index n = Some (ps_current s)"
    "mn_ply n = mn_ply (ps_nodes s ! ps_current s) + 1" "mn_is_mainline n = (ps_rav s = [])"
    "mn_mover n \<in> {Some ''white'', Some ''black''}"
  shows "cursor_ok (push_node n s)"
proof -
  have t: "tree_ok (ps_nodes s)" and c: "ps_current s < length (ps_nodes s)"
    and tip: "sk_index (last (main_line (ps_nodes s))) = (if ps_rav s = [] then ps_current s else last (ps_rav s))"
    and cl: "\<forall>k \<in> set (ps_clocks s). clock_ok (length (ps_nodes s)) k"
    using s by (auto simp: cursor_ok_def)
  have "tree_ok (ps_nodes s @ [n])" by (rule tree_ok_snoc [OF t c]) (use n tip in auto)
  moreover have "clock_ok (Suc (length (ps_nodes s))) k" if "k \<in> set (ps_clocks s)" for k
    using cl that clock_ok_mono le_SucI by blast
  ultimately show ?thesis using s n by (auto simp: push_node_def cursor_ok_def main_line_snoc less_SucI)
qed

lemma mover_of_colour: "mover_of c parent = Inr m \<Longrightarrow> m = ''white'' \<or> m = ''black''"
  by (auto simp: mover_of_def mover_from_fen_def mover_for_ply_def Let_def split: option.splits list.splits if_splits)

lemma new_node_fields:
  "mn_node_index (new_node c m mover s) = length (ps_nodes s)" "mn_parent_index (new_node c m mover s) = Some (ps_current s)"
  "mn_ply (new_node c m mover s) = mn_ply (ps_nodes s ! ps_current s) + 1"
  "mn_is_mainline (new_node c m mover s) = (ps_rav s = [])" "mn_mover (new_node c m mover s) = Some mover"
  by (simp_all add: new_node_def move_node_at_def Let_def)

lemma board_facts_fields:
  assumes "board_facts g c mover v n = Inr n'"
  shows "mn_node_index n' = mn_node_index n" "mn_parent_index n' = mn_parent_index n" "mn_ply n' = mn_ply n"
    "mn_is_mainline n' = mn_is_mainline n" "mn_mover n' = mn_mover n"
  using assms by (auto simp: board_facts_def Let_def rbind_eq_Inr)

lemma play_move_cursor:
  assumes s: "cursor_ok s" and r: "play_move g c m index s = Inr s'"
  shows "cursor_ok s'"
proof -
  obtain mover where mover: "mover_of c (ps_nodes s ! ps_current s) = Inr mover"
    using r by (auto simp: play_move_def rbind_eq_Inr)
  have colour: "mover = ''white'' \<or> mover = ''black''" using mover_of_colour [OF mover] .
  let ?k = "invalid_move c m index s"
  have k: "cursor_ok ?k" "ps_nodes ?k = ps_nodes s" "ps_current ?k = ps_current s" "ps_rav ?k = ps_rav s"
    using s by (simp_all add: invalid_move_def cursor_ok_def node_simps)
  consider (board) v n where "board_facts g c mover v (new_node c m mover s) = Inr n" "s' = push_node n s"
    | (plain) "s' = push_node (new_node c m mover s) ?k"
    using r mover by (auto simp: play_move_def rbind_eq_Inr split: if_splits)
  then show ?thesis
  proof cases
    case board
    show ?thesis unfolding board(2)
      by (rule push_node_cursor [OF s]) (use colour in \<open>auto simp: board_facts_fields [OF board(1)] new_node_fields\<close>)
  next
    case plain
    show ?thesis unfolding plain
      by (rule push_node_cursor [OF k(1)]) (use colour in \<open>auto simp: new_node_fields k\<close>)
  qed
qed

lemma clocks_cursor:
  "cursor_ok s \<Longrightarrow> (\<And>k. k \<in> set ks \<Longrightarrow> clock_ok (length (ps_nodes s)) k) \<Longrightarrow> cursor_ok (s\<lparr>ps_clocks := ps_clocks s @ ks\<rparr>)"
  by (auto simp: cursor_ok_def)

lemma length_change_node [node_simps]: "length (ps_nodes (change_node i f s)) = length (ps_nodes s)"
  by (simp add: change_node_def)

lemma comment_observations_cursor:
  assumes s: "cursor_ok s" and node: "case node of None \<Rightarrow> True | Some j \<Rightarrow> j < length (ps_nodes s)"
  shows "cursor_ok (comment_observations node comment index s)"
proof -
  let ?found = "enumerate 0 (find_annotations comment)"
  let ?s = "change_node (coalesce node 0) (\<lambda>n. n\<lparr>mn_annotations := mn_annotations n @ map (\<lambda>(i, a). annotation_json index i a) ?found\<rparr>) s"
  have "cursor_ok ?s" by (rule change_node_cursor [OF s]) (simp add: skeleton_def)
  moreover have "clock_ok (length (ps_nodes ?s)) k" if k: "k \<in> set (concat (map (\<lambda>(i, a). annotated_clock node index i a) ?found))" for k
  proof -
    obtain i a where "k \<in> set (annotated_clock node index i a)" using k by auto
    then show ?thesis using annotated_clock_ok node by (simp add: node_simps)
  qed
  ultimately have "cursor_ok (?s\<lparr>ps_clocks := ps_clocks ?s @ concat (map (\<lambda>(i, a). annotated_clock node index i a) ?found)\<rparr>)"
    by (rule clocks_cursor)
  then show ?thesis by (simp add: comment_observations_def Let_def node_simps)
qed

lemma take_comment_cursor:
  assumes s: "cursor_ok s"
  shows "cursor_ok (take_comment c m index s)"
proof (cases "ps_at_variation_start s")
  case True
  have "cursor_ok (s\<lparr>ps_pending_comments := x\<rparr>)" for x using s by (simp add: cursor_ok_def)
  then show ?thesis using True by (auto simp: take_comment_def Let_def intro!: comment_observations_cursor)
next
  case False
  have "cursor_ok (change_node i (\<lambda>n. n\<lparr>mn_comments := mn_comments n @ [t]\<rparr>) s)" for i t
    by (rule change_node_cursor [OF s]) (simp add: skeleton_def)
  moreover have "ps_current s < length (ps_nodes s)" using s by (simp add: cursor_ok_def)
  ultimately show ?thesis
    using False by (auto simp: take_comment_def Let_def node_simps intro!: comment_observations_cursor)
qed

lemma interpret_token_cursor:
  assumes s: "cursor_ok s" and r: "interpret_token g c m index s = Inr s'"
  shows "cursor_ok s'"
proof -
  have nag: "cursor_ok k" if n: "take_nag c m s = Inr k" for k
  proof -
    obtain v where "k = change_node (ps_current s) (\<lambda>n. n\<lparr>mn_nags := mn_nags n @ [v]\<rparr>) s"
      using n by (auto simp: take_nag_def Let_def split: if_splits option.splits)
    then show ?thesis using change_node_cursor [OF s] by (simp add: skeleton_def)
  qed
  have san: "cursor_ok (change_node i (\<lambda>n. n\<lparr>mn_move_san := Some (coalesce (mn_move_san n) [] @ t)\<rparr>) s)" for i t
    by (rule change_node_cursor [OF s]) (simp add: skeleton_def)
  have plain: "cursor_ok (take_result index s)" "cursor_ok (issue k d (last_status st s))" for k d st
    using s by (simp_all add: take_result_def Let_def cursor_ok_def node_simps)
  show ?thesis
    using r s nag san plain start_variation_cursor [OF s] end_variation_cursor [OF s] take_comment_cursor [OF s]
      play_move_cursor [OF s, of g c m index s']
    by (auto simp: interpret_token_def Let_def split: if_splits)
qed

section \<open>Losing nothing\<close>

lemma push_node_tokens [node_simps]:
  "ps_tokens (push_node n s) = ps_tokens s" "ps_previous_end (push_node n s) = ps_previous_end s"
  by (simp_all add: push_node_def)

lemma interpret_token_lossless:
  assumes l: "lossless text (ps_previous_end s) (ps_tokens s)" and ne: "ps_tokens s \<noteq> []" and r: "interpret_token g c m index s = Inr s'"
  shows "lossless text (ps_previous_end s) (ps_tokens s') \<and> ps_previous_end s' = ps_previous_end s"
proof -
  have marked: "lossless text (ps_previous_end s) (ps_tokens (issue kd d (last_status st s)))"
    if "st \<in> {''parsed'', ''preserved'', ''invalid''}" for kd d st
    using last_status_lossless [OF l ne that] by (simp add: node_simps)
  have comments: "ps_tokens (take_comment c m index s) = ps_tokens s" "ps_previous_end (take_comment c m index s) = ps_previous_end s"
    by (simp_all add: take_comment_def comment_observations_def Let_def node_simps)
  have variations: "ps_tokens (start_variation index s) = ps_tokens s" "ps_previous_end (start_variation index s) = ps_previous_end s"
    "ps_tokens (end_variation index s) = ps_tokens s" "ps_previous_end (end_variation index s) = ps_previous_end s"
    "ps_tokens (take_result index s) = ps_tokens s" "ps_previous_end (take_result index s) = ps_previous_end s"
    by (simp_all add: start_variation_def end_variation_def take_result_def Let_def node_simps split: list.split)
  have nag: "ps_tokens k = ps_tokens s \<and> ps_previous_end k = ps_previous_end s" if "take_nag c m s = Inr k" for k
    using that by (auto simp: take_nag_def Let_def node_simps split: if_splits option.splits)
  have "lossless text (ps_previous_end s) (ps_tokens (invalid_move c m index s)) \<and> ps_previous_end (invalid_move c m index s) = ps_previous_end s"
    using l marked by (simp add: invalid_move_def node_simps)
  then have move: "lossless text (ps_previous_end s) (ps_tokens k) \<and> ps_previous_end k = ps_previous_end s" if "play_move g c m index s = Inr k" for k
    using that l by (auto simp: play_move_def rbind_eq_Inr node_simps split: if_splits)
  show ?thesis
    using r move nag comments variations marked l
    by (auto simp: interpret_token_def Let_def node_simps split: if_splits)
qed

lemma keep_gap_ok:
  assumes l: "lossless (pc_text c) (ps_previous_end s) (ps_tokens s)" and b: "ps_previous_end s \<le> b" "b \<le> length (pc_text c)"
  shows "lossless (pc_text c) b (ps_tokens (keep_gap c b s))"
proof (cases "strip (slice (pc_text c) (ps_previous_end s) b) = []")
  case True
  then show ?thesis using blank_lossless [OF l b] by (simp add: keep_gap_def Let_def)
next
  case False
  let ?s = "issue ''unrecognized_gap'' [(''start'', JInt (int (ps_previous_end s))), (''end'', JInt (int b))] s"
  have "lossless (pc_text c) (ps_previous_end s) (ps_tokens ?s)" using l by (simp add: node_simps)
  from lexical_token_lossless [OF this b, of "''preserved''" "''unknown_gap''"] show ?thesis using False by (simp add: keep_gap_def Let_def)
qed

lemma keep_gap_fields [node_simps]:
  "ps_nodes (keep_gap c b s) = ps_nodes s" "ps_current (keep_gap c b s) = ps_current s" "ps_rav (keep_gap c b s) = ps_rav s"
  "ps_clocks (keep_gap c b s) = ps_clocks s"
  by (simp_all add: keep_gap_def Let_def node_simps)

lemma validate_token_fields:
  assumes "validate_token g c m index s = Inr s'"
  shows "ps_nodes s' = ps_nodes s" "ps_current s' = ps_current s" "ps_rav s' = ps_rav s" "ps_clocks s' = ps_clocks s"
    "ps_tokens s' = ps_tokens s" "ps_previous_end s' = ps_previous_end s"
  using assms by (auto simp: validate_token_def node_simps split: if_splits prod.splits option.splits raised.splits)

lemma token_step_cursor: "cursor_ok s \<Longrightarrow> token_step g c m s = Inr s' \<Longrightarrow> cursor_ok s'"
proof -
  assume s: "cursor_ok s" and r: "token_step g c m s = Inr s'"
  let ?a = "(keep_gap c (pm_start m) s)\<lparr>ps_previous_end := pm_end m\<rparr>"
  let ?b = "lexical_token (pc_text c) (token_kind (pm_group m)) (pm_start m) (pm_end m) (if pc_supported c then ''parsed'' else ''preserved'') ?a"
  obtain k where k: "validate_token g c m (length (ps_tokens ?a)) ?b = Inr k" "interpret_token g c m (length (ps_tokens ?a)) k = Inr s'"
    using r by (auto simp: token_step_def Let_def rbind_eq_Inr)
  have "cursor_ok k" using s by (simp add: cursor_ok_def validate_token_fields [OF k(1)] node_simps)
  then show ?thesis using k(2) by (rule interpret_token_cursor)
qed

lemma token_step_lossless:
  assumes l: "lossless (pc_text c) (ps_previous_end s) (ps_tokens s)"
    and m: "ps_previous_end s \<le> pm_start m" "pm_start m \<le> pm_end m" "pm_end m \<le> length (pc_text c)"
    and r: "token_step g c m s = Inr s'"
  shows "lossless (pc_text c) (ps_previous_end s') (ps_tokens s') \<and> ps_previous_end s' = pm_end m"
proof -
  let ?a = "(keep_gap c (pm_start m) s)\<lparr>ps_previous_end := pm_end m\<rparr>"
  let ?st = "if pc_supported c then ''parsed'' else ''preserved''"
  let ?b = "lexical_token (pc_text c) (token_kind (pm_group m)) (pm_start m) (pm_end m) ?st ?a"
  obtain k where k: "validate_token g c m (length (ps_tokens ?a)) ?b = Inr k" "interpret_token g c m (length (ps_tokens ?a)) k = Inr s'"
    using r by (auto simp: token_step_def Let_def rbind_eq_Inr)
  have "lossless (pc_text c) (pm_start m) (ps_tokens ?a)" using keep_gap_ok [OF l m(1)] m by simp
  then have "lossless (pc_text c) (pm_end m) (ps_tokens ?b)" using m by (intro lexical_token_lossless) auto
  then have l': "lossless (pc_text c) (ps_previous_end k) (ps_tokens k)" and e: "ps_previous_end k = pm_end m"
    by (simp_all add: validate_token_fields [OF k(1)] node_simps)
  have "ps_tokens k \<noteq> []" by (simp add: validate_token_fields [OF k(1)]) (simp add: lexical_token_def)
  then show ?thesis using interpret_token_lossless [OF l' _ k(2)] e by simp
qed

lemma token_steps_cursor: "cursor_ok s \<Longrightarrow> token_steps g c ms s = Inr s' \<Longrightarrow> cursor_ok s'"
  by (induction ms arbitrary: s) (auto simp: rbind_eq_Inr dest: token_step_cursor)

lemma token_steps_lossless:
  assumes "lossless (pc_text c) (ps_previous_end s) (ps_tokens s)" "matches_ok (length (pc_text c)) (ps_previous_end s) ms"
    "token_steps g c ms s = Inr s'"
  shows "lossless (pc_text c) (ps_previous_end s') (ps_tokens s')"
  using assms
proof (induction ms arbitrary: s)
  case (Cons m ms)
  obtain k where k: "token_step g c m s = Inr k" "token_steps g c ms k = Inr s'" using Cons.prems(3) by (auto simp: rbind_eq_Inr)
  have "lossless (pc_text c) (ps_previous_end k) (ps_tokens k) \<and> ps_previous_end k = pm_end m"
    using token_step_lossless [OF Cons.prems(1) _ _ _ k(1)] Cons.prems(2) by auto
  then show ?case using Cons.IH [of k] Cons.prems(2) k(2) by auto
qed simp

section \<open>The whole notation\<close>

lemma start_state_ok:
  "cursor_ok (start_state g c headers variant)" "ps_tokens (start_state g c headers variant) = []"
  "ps_previous_end (start_state g c headers variant) = 0"
proof -
  have r: "root_ok (skeleton ((move_node_at 0 None 0 0 True)\<lparr>mn_fen_after := f\<rparr>))" for f by (simp add: root_ok_def move_node_at_def)
  have "tree_ok [(move_node_at 0 None 0 0 True)\<lparr>mn_fen_after := f\<rparr>]" for f
    using r [of f] by (simp add: tree_ok_def path_ok_def main_line_def)
  then show "cursor_ok (start_state g c headers variant)"
    by (simp add: start_state_def cursor_ok_def Let_def node_simps main_line_def move_node_at_def)
qed (simp_all add: start_state_def Let_def node_simps)

lemma check_start_ok:
  assumes "check_start g c headers s = Inr s'" "cursor_ok s"
  shows "cursor_ok s' \<and> ps_tokens s' = ps_tokens s \<and> ps_previous_end s' = ps_previous_end s"
proof -
  let ?m = "\<lambda>f. change_node 0 (\<lambda>n. n\<lparr>mn_fen_after := f\<rparr>) s"
  have m: "cursor_ok (?m f)" for f by (rule change_node_cursor [OF assms(2)]) (simp add: skeleton_def)
  have "cursor_ok (issue k d ((?m f)\<lparr>ps_validator := v\<rparr>))" for k d f v
    using m [of f] by (simp add: cursor_ok_def node_simps change_node_def)
  then show ?thesis
    using assms m by (auto simp: check_start_def Let_def node_simps split: if_splits prod.splits sum.splits bool.splits raised.splits)
qed

lemma keep_bom_ok:
  assumes "cursor_ok s" "ps_tokens s = []" "ps_previous_end s = 0" "pc_text c \<noteq> []"
  shows "cursor_ok (keep_bom g c s)" "lossless (pc_text c) (ps_previous_end (keep_bom g c s)) (ps_tokens (keep_bom g c s))"
    "ps_previous_end (keep_bom g c s) = (if starts_with [gr_bom g] (pc_text c) then 1 else 0)"
proof -
  have "lossless (pc_text c) 0 (ps_tokens s)" using assms(2) by (simp add: lossless_def tokens_ok_def)
  then show "lossless (pc_text c) (ps_previous_end (keep_bom g c s)) (ps_tokens (keep_bom g c s))"
    using lexical_token_lossless [of "pc_text c" 0 s 1] assms by (simp add: keep_bom_def Suc_leI)
qed (use assms in \<open>simp_all add: keep_bom_def cursor_ok_def node_simps\<close>)

lemma finish_tokens_cursor:
  assumes s: "cursor_ok s"
  shows "cursor_ok (finish_tokens c s)"
proof -
  have k: "cursor_ok (keep_tail c s)" using s by (simp add: keep_tail_def Let_def cursor_ok_def node_simps)
  have i: "cursor_ok (issue kd d k')" if "cursor_ok k'" for kd d and k' :: "'a pgn_state"
    using that by (simp add: cursor_ok_def node_simps)
  have ch: "cursor_ok (change_node 0 (\<lambda>n. n\<lparr>mn_starting_comments := mn_starting_comments n @ x\<rparr>) k')" if "cursor_ok k'" for x and k' :: "'a pgn_state"
    by (rule change_node_cursor [OF that]) (simp add: skeleton_def)
  show ?thesis using k i ch by (simp add: finish_tokens_def Let_def)
qed

lemma finish_tokens_lossless:
  assumes l: "lossless (pc_text c) (ps_previous_end s) (ps_tokens s)"
  shows "lossless (pc_text c) (length (pc_text c)) (ps_tokens (finish_tokens c s))"
proof -
  have p: "ps_previous_end s \<le> length (pc_text c)" using l by (simp add: lossless_def)
  have tail: "slice (pc_text c) (ps_previous_end s) (length (pc_text c)) = drop (ps_previous_end s) (pc_text c)" by (simp add: slice_def)
  have kl: "lossless (pc_text c) (length (pc_text c)) (ps_tokens (keep_tail c s))"
  proof (cases "strip (drop (ps_previous_end s) (pc_text c)) = []")
    case True
    then show ?thesis using blank_lossless [OF l p] tail by (simp add: keep_tail_def Let_def)
  next
    case False
    let ?s = "issue ''unrecognized_tail'' [(''start'', JInt (int (ps_previous_end s)))] s"
    have "lossless (pc_text c) (ps_previous_end s) (ps_tokens ?s)" using l by (simp add: node_simps)
    from lexical_token_lossless [OF this p, of "''preserved''" "''unknown_tail''"] show ?thesis using False by (simp add: keep_tail_def Let_def)
  qed
  then show ?thesis by (simp add: finish_tokens_def Let_def node_simps)
qed

lemma read_notation_ok:
  assumes r: "read_notation g c headers variant ms = Inr s" and ne: "pc_text c \<noteq> []"
  shows "cursor_ok s"
    and "matches_ok (length (pc_text c)) (if starts_with [gr_bom g] (pc_text c) then 1 else 0) ms \<Longrightarrow>
      lossless (pc_text c) (length (pc_text c)) (ps_tokens s)"
proof -
  obtain a b where a: "check_start g c headers (start_state g c headers variant) = Inr a"
    and b: "token_steps g c ms (keep_bom g c a) = Inr b" and s: "s = finish_tokens c b"
    using r by (auto simp: read_notation_def rbind_eq_Inr)
  have a': "cursor_ok a" "ps_tokens a = []" "ps_previous_end a = 0"
    using check_start_ok [OF a start_state_ok(1)] by (simp_all add: start_state_ok)
  note bom = keep_bom_ok [OF a' ne, of g]
  have cb: "cursor_ok b" using token_steps_cursor [OF bom(1) b] .
  show "cursor_ok s" unfolding s using finish_tokens_cursor [OF cb] .
  assume "matches_ok (length (pc_text c)) (if starts_with [gr_bom g] (pc_text c) then 1 else 0) ms"
  then have "lossless (pc_text c) (ps_previous_end b) (ps_tokens b)"
    using token_steps_lossless [OF bom(2) _ b] bom(3) by simp
  then show "lossless (pc_text c) (length (pc_text c)) (ps_tokens s)" unfolding s by (rule finish_tokens_lossless)
qed

section \<open>Observations of the provider\<close>

lemma annotate_played_skeleton: "map skeleton (annotate_played played vs nodes) = map skeleton nodes"
proof (induction played vs nodes rule: annotate_played.induct)
  case (2 played i v vs nodes)
  have "map skeleton (nodes[k := (nodes ! k)\<lparr>mn_annotations := x\<rparr>]) = map skeleton nodes" for k x
    by (cases "k < length nodes") (simp_all add: skeleton_def map_update list_update_same_conv list_update_beyond)
  then show ?case using 2 by (simp add: Let_def)
qed simp

definition evidence_ok :: "game_evidence \<Rightarrow> bool" where
  "evidence_ok e \<longleftrightarrow> tree_ok (ev_nodes e) \<and> (\<forall>k \<in> set (ev_clocks e). clock_ok (length (ev_nodes e)) k)"

lemma provider_observations_ok:
  assumes "evidence_ok e"
  shows "evidence_ok (provider_observations native e)"
proof -
  let ?n = "ev_nodes (provider_observations native e)"
  have sk: "map skeleton ?n = map skeleton (ev_nodes e)"
    by (auto simp: provider_observations_def Let_def annotate_played_skeleton split: json.split)
  then have len: "length ?n = length (ev_nodes e)" using map_eq_imp_length_eq by blast
  have "mn_node_index m < length (ev_nodes e)" if "m \<in> set (ev_nodes e)" for m
    using that assms node_index_nth by (fastforce simp: evidence_ok_def in_set_conv_nth)
  then have "clock_ok (length (ev_nodes e)) (provider_clock (filter (\<lambda>n. 0 < mn_node_index n \<and> mn_is_mainline n) (ev_nodes e)) i v)" for i v
    by (intro provider_clock_ok) auto
  then have "clock_ok (length (ev_nodes e)) k" if "k \<in> set (ev_clocks (provider_observations native e))" for k
    using that assms by (auto simp: provider_observations_def Let_def evidence_ok_def split: json.splits)
  then show ?thesis using assms tree_ok_cong [OF sk] len by (simp add: evidence_ok_def)
qed

lemma provider_observations_tokens: "ev_tokens (provider_observations native e) = ev_tokens e"
  by (simp add: provider_observations_def Let_def)

lemma parse_game_evidence_ok:
  assumes r: "parse_game_evidence g sha game = Inr e"
  shows "evidence_ok e"
proof (cases "notation_text game = []")
  case True
  have "evidence_ok \<lparr>ev_headers = a, ev_header_items = b, ev_source_metadata = c, ev_move_text_origin = d, ev_starting_fen = f,
      ev_variant = h, ev_parse_status = i, ev_parse_issues = j, ev_time_control_rules = k, ev_nodes = [move_node_at 0 None 0 0 True],
      ev_tokens = [], ev_clocks = []\<rparr>" for a b c d f h i j k
    by (simp add: evidence_ok_def tree_ok_def root_ok_def path_ok_def main_line_def move_node_at_def)
  then show ?thesis using r True provider_observations_ok by (simp add: parse_game_evidence_def unavailable_evidence_def Let_def) blast
next
  case False
  obtain c headers variant ms s e0 where "read_notation g c headers variant ms = Inr s" "pc_text c = notation_text game"
    and e: "e = provider_observations (ng_source_data game) e0" "ev_nodes e0 = ps_nodes s" "ev_clocks e0 = ps_clocks s"
    using r False by (auto simp: parse_game_evidence_def Let_def rbind_eq_Inr)
  then have "cursor_ok s" using read_notation_ok(1) False by metis
  then have "evidence_ok e0" using e by (simp add: cursor_ok_def evidence_ok_def)
  then show ?thesis using e provider_observations_ok by simp
qed

lemma parse_game_evidence_lossless:
  assumes g: "finditer_ok g" and r: "parse_game_evidence g sha game = Inr e"
  shows "lossless (notation_text game) (length (notation_text game)) (ev_tokens e)"
proof (cases "notation_text game = []")
  case True
  then show ?thesis
    using r by (auto simp: parse_game_evidence_def unavailable_evidence_def Let_def provider_observations_tokens lossless_def tokens_ok_def)
next
  case False
  let ?t = "notation_text game"
  let ?a = "if starts_with [gr_bom g] ?t then 1 else 0"
  obtain c headers variant s where n: "read_notation g c headers variant (gr_finditer g ?t ?a) = Inr s" "pc_text c = ?t"
    and e: "ev_tokens e = ps_tokens s"
    using r False by (auto simp: parse_game_evidence_def Let_def rbind_eq_Inr provider_observations_tokens)
  have "matches_ok (length ?t) ?a (gr_finditer g ?t ?a)" using g False by (simp add: finditer_ok_def Suc_leI)
  then show ?thesis using read_notation_ok(2) [OF n(1)] n(2) False e by simp
qed

lemma played_ply_count_main:
  assumes "tree_ok (ev_nodes e)"
  shows "length (main_line (ev_nodes e)) = Suc (played_ply_count e)"
proof -
  obtain r ns where ns: "ev_nodes e = r # ns" "root_ok (skeleton r)" using assms by (cases "ev_nodes e") (auto simp: tree_ok_def)
  have pos: "0 < mn_node_index n" if "n \<in> set ns" for n
    using that node_index_nth [OF assms] ns by (fastforce simp: in_set_conv_nth)
  have "length (filter sk_main (map skeleton ns)) = length (filter (\<lambda>n. mn_is_mainline n \<and> 0 < mn_node_index n) ns)"
    by (simp add: filter_map o_def) (metis (mono_tags, lifting) filter_cong pos)
  then show ?thesis using ns by (simp add: main_line_def played_ply_count_def root_ok_def)
qed

end
