(* ===== verification/Revisions.thy ===== *)
theory Revisions
  imports Games Evidence_Laws
begin

text \<open>
  Laws of the stored revisions of a game: a revision hash determines the notation it was made from,
  revisions are never changed, everything filed can be found again under the id it was filed
  with (the interface \<open>filing\<close>), an export gives back the notation up to blank characters, and the current
  revision of a game is the one observed last.
\<close>

section \<open>Appending stores\<close>

text \<open>
  A store whose entries are filed once and then stay: what was filed is found under the id it was given,
  and filing something else does not change it. The client files a list of inputs.
\<close>

fun run_all :: "('x \<Rightarrow> 's \<Rightarrow> ('s \<times> 'i) result) \<Rightarrow> 'x list \<Rightarrow> 's \<Rightarrow> ('s \<times> 'i list) result" where
  "run_all put [] s = Inr (s, [])"
| "run_all put (x # xs) s = rbind (put x s) (\<lambda>(s1, i). rbind (run_all put xs s1) (\<lambda>(s2, is). Inr (s2, i # is)))"

locale filing =
  fixes put :: "'x \<Rightarrow> 's \<Rightarrow> ('s \<times> 'i) result" and found :: "'s \<Rightarrow> 'i \<Rightarrow> 'v option"
    and describes :: "'x \<Rightarrow> 'v \<Rightarrow> bool" and input_ok :: "'x \<Rightarrow> bool" and ok :: "'s \<Rightarrow> bool"
  assumes put_found: "ok s \<Longrightarrow> input_ok x \<Longrightarrow> put x s = Inr (s', i) \<Longrightarrow> \<exists>v. found s' i = Some v \<and> describes x v"
    and put_keeps: "ok s \<Longrightarrow> put x s = Inr (s', j) \<Longrightarrow> found s i = Some v \<Longrightarrow> found s' i = Some v"
    and put_ok: "ok s \<Longrightarrow> input_ok x \<Longrightarrow> put x s = Inr (s', i) \<Longrightarrow> ok s'"
begin

lemma run_all_keeps:
  "ok s \<Longrightarrow> list_all input_ok xs \<Longrightarrow> run_all put xs s = Inr (s', is) \<Longrightarrow> ok s' \<and> (found s i = Some v \<longrightarrow> found s' i = Some v)"
proof (induction xs arbitrary: s "is")
  case (Cons x xs)
  then obtain s1 i1 is1 where "put x s = Inr (s1, i1)" "run_all put xs s1 = Inr (s', is1)" by (auto simp: rbind_eq_Inr)
  then show ?case using Cons put_ok [of s x s1 i1] put_keeps [of s x s1 i1] by simp
qed simp

lemma run_all_found:
  "ok s \<Longrightarrow> list_all input_ok xs \<Longrightarrow> run_all put xs s = Inr (s', is) \<Longrightarrow>
   list_all2 (\<lambda>x i. \<exists>v. found s' i = Some v \<and> describes x v) xs is"
proof (induction xs arbitrary: s "is")
  case (Cons x xs)
  then obtain s1 i1 is1 where p: "put x s = Inr (s1, i1)" and r: "run_all put xs s1 = Inr (s', is1)" and i: "is = i1 # is1"
    by (auto simp: rbind_eq_Inr)
  have x: "input_ok x" "list_all input_ok xs" using Cons.prems by auto
  obtain v where v: "found s1 i1 = Some v" "describes x v" using put_found [OF Cons.prems(1) x(1) p] by blast
  have o1: "ok s1" using put_ok [OF Cons.prems(1) x(1) p] .
  show ?case using v Cons.IH [OF o1 x(2) r] run_all_keeps [OF o1 x(2) r, of i1 v] i by auto
qed simp

end

section \<open>What a revision hash determines\<close>

lemma map_of_filter_hd: "map_of kvs k = (case filter (\<lambda>kv. fst kv = k) kvs of [] \<Rightarrow> None | kv # _ \<Rightarrow> Some (snd kv))"
  by (induction kvs) auto

lemma map_of_sort_by_key: "map_of (sort_key fst kvs) k = map_of kvs (k :: 'a :: linorder)"
  by (simp add: map_of_filter_hd sort_key_stable)

lemma map_of_sort_keys_items: "map_of (sort_keys_items kvs) k = map_option sort_keys (map_of kvs k)"
  by (induction kvs) auto

lemma sort_keys_object:
  assumes "sort_keys (JObj kvs) = sort_keys (JObj kws)"
  shows "map_option sort_keys (map_of kvs k) = map_option sort_keys (map_of kws k)"
proof -
  have "map_of (sort_key fst (sort_keys_items kvs)) k = map_of (sort_key fst (sort_keys_items kws)) k" using assms by simp
  then show ?thesis unfolding map_of_sort_by_key map_of_sort_keys_items .
qed

lemma as_str_sort_keys [simp]: "as_str (sort_keys v) = as_str v"
  by (cases v) (simp_all add: as_str_def)

lemma as_str_obj_get: "as_str (obj_get kvs k) = Option.bind (map_of kvs k) as_str"
  by (cases "map_of kvs k") (simp_all add: obj_get_def as_str_def)

lemma revision_hash_notation:
  assumes sha: "inj sha" and wf: "wf_items (ng_source_data g)" "wf_items (ng_source_data h)"
    and eq: "revision_hash sha g = revision_hash sha h"
  shows "notation_text g = notation_text h"
proof -
  let ?doc = "\<lambda>g. [(''source'', JObj (ng_source_data g)), (''pgn'', json_text (ng_pgn g)), (''game_hash'', JStr (ng_content_hash g))]"
  have w: "wf_json (JObj (?doc x))" if "wf_items (ng_source_data x)" for x using that by (auto simp: json_text_def split: option.split)
  have "dumps False (JObj (?doc g)) = dumps False (JObj (?doc h))"
    using eq sha by (simp add: revision_hash_def canonical_hash_def inj_eq)
  from dumps_inj [OF w [OF wf(1)] w [OF wf(2)] this] have k: "sort_keys (JObj (?doc g)) = sort_keys (JObj (?doc h))" .
  have pgn: "ng_pgn g = ng_pgn h"
    using sort_keys_object [OF k, of "''pgn''"] by (auto simp: json_text_def split: option.splits)
  have "sort_keys (JObj (ng_source_data g)) = sort_keys (JObj (ng_source_data h))"
    using sort_keys_object [OF k, of "''source''"] by simp
  from sort_keys_object [OF this, of "''moves''"] have m: "as_str (obj_get (ng_source_data g) ''moves'') = as_str (obj_get (ng_source_data h) ''moves'')"
    unfolding as_str_obj_get by (cases "map_of (ng_source_data g) ''moves''"; cases "map_of (ng_source_data h) ''moves''")
      (simp_all, metis as_str_sort_keys)
  show ?thesis by (simp add: notation_text_def moves_only_def pgn m)
qed

section \<open>Filing revisions\<close>

interpretation version_tab: keyed_table gv_id .

text \<open>Interpreting a game and storing its evidence, as normalization composes the two.\<close>

record revision_input =
  ri_arch :: arch
  ri_game_id :: int
  ri_game :: norm_game
  ri_raw :: int
  ri_pointer :: string
  ri_fetched_at :: int

definition file_game :: "'v pgn_library \<Rightarrow> (string \<Rightarrow> string) \<Rightarrow> revision_input \<Rightarrow> catalog \<Rightarrow> (catalog \<times> int) result" where
  "file_game lib sha x ct = rbind (parse_game_evidence lib sha (ri_game x)) (\<lambda>e.
     store_game_evidence sha (ri_arch x) (ri_game_id x) (ri_game x) (ri_raw x) (ri_pointer x) (ri_fetched_at x) (Some e) ct)"

definition faithful :: "'v pgn_library \<Rightarrow> (string \<Rightarrow> string) \<Rightarrow> game_version \<Rightarrow> bool" where
  "faithful lib sha v \<longleftrightarrow> (\<exists>g. wf_items (ng_source_data g) \<and> revision_hash sha g = gv_content_hash v
     \<and> parse_game_evidence lib sha g = Inr (gv_evidence v))"

definition revisions_ok :: "'v pgn_library \<Rightarrow> (string \<Rightarrow> string) \<Rightarrow> catalog \<Rightarrow> bool" where
  "revisions_ok lib sha ct \<longleftrightarrow> version_tab.unique_keys (ct_versions ct) \<and> (\<forall>v \<in> set (ct_versions ct). gv_id v < ct_next_version ct)
     \<and> (\<forall>v \<in> set (ct_versions ct). gv_parser_version v = EVIDENCE_VERSION \<longrightarrow> faithful lib sha v)"

lemma version_by_id_lookup: "version_by_id ct i = version_tab.lookup i (ct_versions ct)"
  by (simp add: version_by_id_def version_tab.lookup_def)

lemma set_current_version_frame [simp]:
  "ct_versions (set_current_version a g ct) = ct_versions ct" "ct_version_sources (set_current_version a g ct) = ct_version_sources ct"
  "ct_next_version (set_current_version a g ct) = ct_next_version ct" "map gm_id (ct_games (set_current_version a g ct)) = map gm_id (ct_games ct)"
  by (simp_all add: set_current_version_def Let_def map_update_where)

lemma add_version_source_frame [simp]:
  "ct_versions (add_version_source s ct) = ct_versions ct" "ct_next_version (add_version_source s ct) = ct_next_version ct"
  "ct_games (add_version_source s ct) = ct_games ct"
  by (simp_all add: add_version_source_def)

text \<open>A stored revision is an old one with the same hash or a new one with the given evidence.\<close>

lemma store_game_evidence_cases:
  assumes "store_game_evidence sha a game_id game raw pointer t evidence ct = Inr (ct', i)"
  obtains (old) v where "v \<in> set (ct_versions ct)" "gv_id v = i" "same_revision game_id (revision_hash sha game) v"
      "ct_versions ct' = ct_versions ct" "ct_next_version ct' = ct_next_version ct"
  | (new) e where "evidence = Some e" "i = ct_next_version ct" "ct_next_version ct' = i + 1"
      "ct_versions ct' = ct_versions ct @ [\<lparr>gv_id = i, gv_game_id = game_id, gv_content_hash = revision_hash sha game,
         gv_parser_version = EVIDENCE_VERSION, gv_first_seen_at = t, gv_evidence = e\<rparr>]"
proof (cases "find_row (same_revision game_id (revision_hash sha game)) (ct_versions ct)")
  case (Some v)
  then show ?thesis using assms find_row_Some [OF Some] old by (auto simp: store_game_evidence_def)
next
  case None
  then show ?thesis using assms new
    by (auto simp: store_game_evidence_def add_revision_def split: option.splits)
qed

lemma store_game_evidence_keeps:
  assumes "store_game_evidence sha a game_id game raw pointer t evidence ct = Inr (ct', i)" "version_by_id ct j = Some v"
  shows "version_by_id ct' j = Some v"
  using assms(1)
proof (cases rule: store_game_evidence_cases)
  case new
  then show ?thesis using assms(2) by (simp add: version_by_id_def find_row_append)
qed (use assms(2) in \<open>simp add: version_by_id_def\<close>)

lemma store_game_evidence_found:
  assumes ok: "revisions_ok lib sha ct" and wf: "wf_items (ng_source_data game)" and e: "parse_game_evidence lib sha game = Inr e"
    and s: "store_game_evidence sha a game_id game raw pointer t (Some e) ct = Inr (ct', i)"
  shows "revisions_ok lib sha ct'"
    and "\<exists>v. version_by_id ct' i = Some v \<and> same_revision game_id (revision_hash sha game) v \<and> faithful lib sha v"
proof -
  have "revisions_ok lib sha ct' \<and> (\<exists>v \<in> set (ct_versions ct'). gv_id v = i \<and> same_revision game_id (revision_hash sha game) v)"
    using s
  proof (cases rule: store_game_evidence_cases)
    case (old v)
    then show ?thesis using ok by (auto simp: revisions_ok_def)
  next
    case (new e')
    then have "faithful lib sha (last (ct_versions ct'))" using wf e by (auto simp: faithful_def)
    moreover have "version_tab.unique_keys (ct_versions ct')"
      unfolding new(4) using ok new(2) by (intro version_tab.unique_keys_snoc) (auto simp: revisions_ok_def)
    ultimately show ?thesis using ok new by (auto simp: revisions_ok_def same_revision_def)
  qed
  then obtain v where ok': "revisions_ok lib sha ct'" and v: "v \<in> set (ct_versions ct')" "gv_id v = i"
    "same_revision game_id (revision_hash sha game) v" by blast
  show "revisions_ok lib sha ct'" by (rule ok')
  have "version_by_id ct' i = Some v"
    using version_tab.lookup_unique [OF _ v(1)] ok' v(2) by (simp add: version_by_id_lookup revisions_ok_def)
  then show "\<exists>v. version_by_id ct' i = Some v \<and> same_revision game_id (revision_hash sha game) v \<and> faithful lib sha v"
    using v ok' by (auto simp: revisions_ok_def same_revision_def)
qed

text \<open>The notation a stored revision describes.\<close>

definition describes_game :: "revision_input \<Rightarrow> game_version \<Rightarrow> bool" where
  "describes_game x v \<longleftrightarrow> gv_game_id v = ri_game_id x
     \<and> spells (map tk_token_text (ev_tokens (gv_evidence v))) (notation_text (ri_game x))"

lemma faithful_notation:
  assumes "finditer_ok lib" "inj sha" "wf_items (ng_source_data game)" "faithful lib sha v" "gv_content_hash v = revision_hash sha game"
  shows "spells (map tk_token_text (ev_tokens (gv_evidence v))) (notation_text game)"
proof -
  obtain g where g: "wf_items (ng_source_data g)" "revision_hash sha g = revision_hash sha game" "parse_game_evidence lib sha g = Inr (gv_evidence v)"
    using assms(4,5) by (auto simp: faithful_def)
  have "notation_text g = notation_text game" using revision_hash_notation [OF assms(2) g(1) assms(3) g(2)] .
  then show ?thesis using parse_game_evidence_lossless [OF assms(1) g(3)] by (simp add: lossless_def)
qed

text \<open>The store of revisions provides the interface.\<close>

definition library_of :: "'v pgn_library \<Rightarrow> (string \<Rightarrow> string) \<Rightarrow> bool" where
  "library_of lib sha \<longleftrightarrow> finditer_ok lib \<and> inj sha"

interpretation revisions: filing "file_game lib sha" version_by_id describes_game
    "\<lambda>x. library_of lib sha \<and> wf_items (ng_source_data (ri_game x))" "revisions_ok lib sha" for lib sha
proof unfold_locales
  fix s s' x i
  assume ok: "revisions_ok lib sha s" and x: "library_of lib sha \<and> wf_items (ng_source_data (ri_game x))" and p: "file_game lib sha x s = Inr (s', i)"
  obtain e where e: "parse_game_evidence lib sha (ri_game x) = Inr e"
    and st: "store_game_evidence sha (ri_arch x) (ri_game_id x) (ri_game x) (ri_raw x) (ri_pointer x) (ri_fetched_at x) (Some e) s = Inr (s', i)"
    using p by (auto simp: file_game_def rbind_eq_Inr)
  note stored = store_game_evidence_found [OF ok conjunct2 [OF x] e st]
  show "revisions_ok lib sha s'" by (rule stored(1))
  show "\<exists>v. version_by_id s' i = Some v \<and> describes_game x v"
    using stored(2) faithful_notation [of lib sha "ri_game x"] x by (auto simp: describes_game_def same_revision_def library_of_def)
next
  fix s s' x i j v
  assume "file_game lib sha x s = Inr (s', j)" "version_by_id s i = Some v"
  then show "version_by_id s' i = Some v" by (auto simp: file_game_def rbind_eq_Inr intro: store_game_evidence_keeps)
qed

section \<open>Exports\<close>

lemma solid_newline [simp]: "solid newline = []" "solid '' '' = []"
  by code_simp+

lemma solid_export_tokens: "solid (export_tokens b ts) = solid (concat (map tk_token_text ts))"
  by (induction ts arbitrary: b) (simp_all add: Let_def)

text \<open>
  How an export lays out its tokens: in their order and with their texts unchanged, with blank characters between them, never touching each other (a byte order mark
  apart), with the rest of the line free after a header, an end-of-line comment and an escape, and an escape at the start of its line.
\<close>

definition gap_ok :: "string option \<Rightarrow> string option \<Rightarrow> string \<Rightarrow> bool" where
  "gap_ok prev following gap \<longleftrightarrow> list_all is_space gap \<and> (prev \<notin> {None, Some ''byte_order_mark''} \<longrightarrow> gap \<noteq> [])
     \<and> (prev \<in> {Some ''header'', Some ''comment_eol'', Some ''escape''} \<longrightarrow> (\<exists>rest. gap = newline @ rest))
     \<and> (following = Some ''escape'' \<longrightarrow> (\<exists>lead. gap = lead @ newline))"

fun laid_out :: "string option \<Rightarrow> pgn_token list \<Rightarrow> string \<Rightarrow> bool" where
  "laid_out prev [] s = gap_ok prev None s"
| "laid_out prev (t # ts) s =
     (\<exists>gap rest. s = gap @ tk_token_text t @ rest \<and> gap_ok prev (Some (tk_kind t)) gap \<and> laid_out (Some (tk_kind t)) ts rest)"

definition gap_after :: "string option \<Rightarrow> string" where
  "gap_after prev = (case prev of None \<Rightarrow> [] | Some k \<Rightarrow> if k = ''byte_order_mark'' then []
     else if k \<in> {''header'', ''escape'', ''comment_eol''} then newline else '' '')"

definition gap_before :: "bool \<Rightarrow> string \<Rightarrow> string" where
  "gap_before in_headers k = (if k \<in> {''byte_order_mark'', ''header''} then []
     else (if in_headers then newline else []) @ (if k = ''escape'' then newline else []))"

lemma export_tokens_gaps:
  "export_tokens b (t # ts) = gap_before b (tk_kind t) @ tk_token_text t @ gap_after (Some (tk_kind t))
     @ export_tokens (b \<and> tk_kind t \<in> {''byte_order_mark'', ''header''}) ts"
  by (auto simp: Let_def gap_before_def gap_after_def)

lemma gap_ok_gaps: "gap_ok prev following (gap_after prev @ (case following of None \<Rightarrow> [] | Some k \<Rightarrow> gap_before b k))"
proof -
  have blank: "is_space (CHR 0x0A)" "is_space (CHR '' '')" by code_simp+
  show ?thesis
    by (cases prev; cases following) (auto simp: gap_ok_def gap_after_def gap_before_def newline_def blank)
qed

lemma export_tokens_laid_out: "laid_out prev ts (gap_after prev @ export_tokens b ts)"
proof (induction ts arbitrary: prev b)
  case Nil
  show ?case using gap_ok_gaps [of prev None b] by simp
next
  case (Cons t ts)
  show ?case
    unfolding export_tokens_gaps laid_out.simps
    using gap_ok_gaps [of prev "Some (tk_kind t)" b] Cons.IH by (metis append.assoc option.case(2))
qed

lemma export_of_version:
  assumes v: "version_by_id ct i = Some v" and g: "gv_game_id v \<in> gm_id ` set (ct_games ct)"
    and t: "ev_tokens (gv_evidence v) \<noteq> []" and u: "version_tab.unique_keys (ct_versions ct)"
  obtains s where "laid_out None (ev_tokens (gv_evidence v)) s" "solid (strip s @ newline) = solid (concat (map tk_token_text (ev_tokens (gv_evidence v))))"
    "export_game_version_pgn ct (gv_game_id v) (Some i) True = Inr (strip s @ newline)"
    "export_game_version_pgn ct (gv_game_id v) (Some i) False = (if ev_parse_status (gv_evidence v) = ''complete'' then Inr (strip s @ newline)
       else Inl (ValueError ''Game evidence is not completely interpreted; explicit partial export is required''))"
proof -
  have vi: "v \<in> set (ct_versions ct)" "gv_id v = i" using find_row_Some [of "\<lambda>v. gv_id v = i"] v by (auto simp: version_by_id_def)
  have "\<exists>x. find_row (\<lambda>x. gm_id x = gv_game_id v) (ct_games ct) = Some x" using g
    by (cases "find_row (\<lambda>x. gm_id x = gv_game_id v) (ct_games ct)") (auto simp: find_row_None)
  moreover have "find_row (\<lambda>x. gv_id x = i \<and> gv_game_id x = gv_game_id v) (ct_versions ct) = Some v"
    using vi version_tab.unique_key_eq [OF u] by (cases "find_row (\<lambda>x. gv_id x = i \<and> gv_game_id x = gv_game_id v) (ct_versions ct)")
      (auto simp: find_row_None dest: find_row_Some)
  ultimately have s: "selected_version ct (gv_game_id v) (Some i) = Some v" by (auto simp: selected_version_def)
  have "laid_out None (ev_tokens (gv_evidence v)) (export_tokens True (ev_tokens (gv_evidence v)))"
    using export_tokens_laid_out [of None _ True] by (simp add: gap_after_def)
  then show ?thesis
    by (rule that [of "export_tokens True (ev_tokens (gv_evidence v))"])
       (simp_all add: export_game_version_pgn_def s t solid_export_tokens)
qed

section \<open>The current revision\<close>

lemma last_by_max:
  assumes "last_by k xs = Some x"
  shows "x \<in> set xs" "\<And>y. y \<in> set xs \<Longrightarrow> k y \<le> k x"
proof -
  have x: "xs \<noteq> []" "x = last (sort_key k xs)" using assms by (auto simp: last_by_def split: if_splits)
  then have ne: "sort_key k xs \<noteq> []" by (metis length_0_conv length_sort)
  show "x \<in> set xs" using last_in_set [OF ne] x(2) by simp
  show "k y \<le> k x" if y: "y \<in> set xs" for y
  proof -
    have "sorted (map k (butlast (sort_key k xs)) @ [k x])"
      using sorted_sort_key [of k xs] append_butlast_last_id [OF ne] x(2) by (metis list.simps(8,9) map_append)
    moreover have "y \<in> set (butlast (sort_key k xs)) \<or> y = x"
      using y x(2) append_butlast_last_id [OF ne] by (metis UnE empty_iff empty_set set_ConsD set_append set_sort)
    ultimately show ?thesis by (auto simp: sorted_append)
  qed
qed

lemma ball_update_where: "(\<forall>y \<in> set (update_where p f xs). Q y) \<longleftrightarrow> (\<forall>x \<in> set xs. if p x then Q (f x) else Q x)"
  by (induction xs) auto

lemma last_by_None: "last_by k xs = None \<longleftrightarrow> xs = []"
  by (simp add: last_by_def)

text \<open>What the stored revision of a game depends on.\<close>

lemma version_observations_cong:
  "ct_versions c = ct_versions d \<Longrightarrow> ct_version_sources c = ct_version_sources d \<Longrightarrow> version_observations a c = version_observations a d"
  by (intro ext) (simp only: version_observations_def)

lemma newest_version_cong:
  "ct_versions c = ct_versions d \<Longrightarrow> ct_version_sources c = ct_version_sources d \<Longrightarrow> newest_version a c = newest_version a d"
  using version_observations_cong [of c d a] by (intro ext) (simp only: newest_version_def)

lemma store_game_evidence_current:
  assumes "store_game_evidence sha a game_id game raw pointer t evidence ct = Inr (ct', i)"
  shows "x \<in> set (ct_games ct') \<Longrightarrow> gm_id x = game_id \<Longrightarrow> gm_current_version_id x = newest_version a ct' game_id"
    and "ct_games ct' = update_where (\<lambda>x. gm_id x = game_id)
      (\<lambda>x. x\<lparr>gm_current_version_id := newest_version a ct' game_id,
         gm_ply_count := merged False (case Option.bind (newest_version a ct' game_id) (version_by_id ct') of
              Some v \<Rightarrow> if ev_parse_status (gv_evidence v) = ''complete'' then Some (int (played_ply_count (gv_evidence v))) else None
            | None \<Rightarrow> None) (gm_ply_count x)\<rparr>) (ct_games ct)"
proof -
  obtain c where c: "ct' = set_current_version a game_id c" "ct_games c = ct_games ct"
    using assms by (auto simp: store_game_evidence_def Let_def rbind_eq_Inr add_revision_def split: option.splits)
  have n: "newest_version a ct' = newest_version a c" by (intro newest_version_cong) (simp_all add: c)
  have v: "version_by_id ct' = version_by_id c" by (intro ext) (simp add: c version_by_id_def)
  show g: "ct_games ct' = update_where (\<lambda>x. gm_id x = game_id)
      (\<lambda>x. x\<lparr>gm_current_version_id := newest_version a ct' game_id,
         gm_ply_count := merged False (case Option.bind (newest_version a ct' game_id) (version_by_id ct') of
              Some v \<Rightarrow> if ev_parse_status (gv_evidence v) = ''complete'' then Some (int (played_ply_count (gv_evidence v))) else None
            | None \<Rightarrow> None) (gm_ply_count x)\<rparr>) (ct_games ct)"
    unfolding n v unfolding c by (simp add: set_current_version_def Let_def c(2))
  have "\<forall>y \<in> set (ct_games ct'). gm_id y = game_id \<longrightarrow> gm_current_version_id y = newest_version a ct' game_id"
    unfolding g ball_update_where by simp
  then show "x \<in> set (ct_games ct') \<Longrightarrow> gm_id x = game_id \<Longrightarrow> gm_current_version_id x = newest_version a ct' game_id" by blast
qed

text \<open>The stored revision itself is observed.\<close>

lemma with_logs_not_Nil: "with_logs p logs w \<noteq> []"
  by (simp add: with_logs_def split: list.split)

lemma store_game_evidence_observed:
  assumes store: "store_game_evidence sha a game_id game raw pointer t evidence ct = Inr (ct', i)" and raw: "raw \<in> rw_id ` set (ar_raw a)"
  shows "\<exists>rf. (rf, i) \<in> set (version_observations a ct' game_id)"
proof -
  obtain w where w: "w \<in> set (ar_raw a)" "rw_id w = raw" using raw by auto
  obtain rf where rf: "rf \<in> set (with_logs success (ar_logs a) w)" using with_logs_not_Nil by (metis last_in_set)
  obtain v where v: "v \<in> set (ct_versions ct')" "gv_id v = i" "gv_game_id v = game_id"
    using store
  proof (cases rule: store_game_evidence_cases)
    case (old v)
    then show ?thesis using that [of v] by (simp add: same_revision_def)
  next
    case (new e)
    then show ?thesis using that [of "last (ct_versions ct')"] by simp
  qed
  obtain c where c: "ct' = set_current_version a game_id (add_version_source \<lparr>vs_version_id = i, vs_raw_payload_id = raw,
      vs_json_pointer = pointer, vs_first_seen_at = t\<rparr> c)"
    using store by (auto simp: store_game_evidence_def Let_def rbind_eq_Inr)
  obtain s where s: "s \<in> set (ct_version_sources ct')" "vs_version_id s = i" "vs_raw_payload_id s = raw"
  proof (cases "list_ex (\<lambda>x. vs_version_id x = i \<and> vs_raw_payload_id x = raw \<and> vs_json_pointer x = pointer) (ct_version_sources c)")
    case True
    then show ?thesis using that by (auto simp: c add_version_source_def list_ex_iff)
  next
    case False
    then show ?thesis
      using that [of "\<lparr>vs_version_id = i, vs_raw_payload_id = raw, vs_json_pointer = pointer, vs_first_seen_at = t\<rparr>"]
      by (simp add: c add_version_source_def)
  qed
  have "(rf, i) \<in> (\<lambda>rf. (rf, gv_id v)) ` set (with_logs success (ar_logs a) w)" using rf v(2) by simp
  then show ?thesis unfolding version_observations_def set_concat using v w s
    by (intro exI [of _ rf] UnionI [OF imageI]) fastforce+
qed

lemma filter_update_where_other:
  "(\<And>x. q x \<Longrightarrow> \<not> p x) \<Longrightarrow> (\<And>x. p x \<Longrightarrow> \<not> q (f x)) \<Longrightarrow> filter q (update_where p f xs) = filter q xs"
  by (induction xs) auto

end
