(* ===== verification/Identity_Laws.thy ===== *)
theory Identity_Laws
  imports Identities Revisions
begin

text \<open>
  Laws of player identities: absorbing a placeholder moves every reference to it (games, aliases, snapshots,
  observations, resources, attempts, fetch logs, source records and discovery edges) to the
  surviving account, and an upsert keeps accounts unique, never changes or removes an account
  with a stable id, and leaves no reference without its account.
\<close>

named_theorems identity_simps \<open>fields that the steps of a merge leave alone\<close>

section \<open>References to an account\<close>

definition owned :: "('r \<Rightarrow> int option) \<Rightarrow> 'r list \<Rightarrow> int set" where
  "owned own rows = {u. \<exists>r \<in> set rows. own r = Some u}"

text \<open>What a merge may make of a set of references.\<close>

definition moved :: "int \<Rightarrow> int \<Rightarrow> int set \<Rightarrow> int set \<Rightarrow> bool" where
  "moved survivor replaced U V \<longleftrightarrow> V \<subseteq> insert survivor (U - {replaced})"

definition user_source :: "source_record \<Rightarrow> int option" where
  "user_source s = (if sr_entity_type s = ''user'' then Some (sr_entity_id s) else None)"

definition catalog_refs :: "catalog \<Rightarrow> int set" where
  "catalog_refs ct = owned se_provider_user_id (ct_seats ct) \<union> owned (\<lambda>r. Some (al_provider_user_id r)) (ct_aliases ct)
     \<union> owned (\<lambda>r. Some (us_provider_user_id r)) (ct_snapshots ct) \<union> owned (\<lambda>r. Some (uo_provider_user_id r)) (ct_observations ct)
     \<union> owned (\<lambda>r. Some (rn_provider_user_id r)) (ct_resources ct) \<union> owned (\<lambda>r. Some (at_provider_user_id r)) (ct_attempts ct)"

definition arch_refs :: "arch \<Rightarrow> int set" where
  "arch_refs a = owned fl_provider_user_id (ar_logs a) \<union> owned user_source (ar_sources a)"

definition edge_refs :: "edge_row list \<Rightarrow> int set" where
  "edge_refs es = owned (\<lambda>r. Some (ed_from_user_id r)) es \<union> owned (\<lambda>r. Some (ed_to_user_id r)) es"

definition user_refs :: "site \<Rightarrow> int set" where
  "user_refs s = catalog_refs (si_catalog s) \<union> arch_refs (si_arch s) \<union> edge_refs (db_edges (si_db s))"

lemma moved_Un: "moved x y A B \<Longrightarrow> moved x y C D \<Longrightarrow> moved x y (A \<union> C) (B \<union> D)"
  by (auto simp: moved_def)

lemma owned_Nil [simp]: "owned own [] = {}"
  by (simp add: owned_def)

lemma owned_append [simp]: "owned own (xs @ ys) = owned own xs \<union> owned own ys"
  by (auto simp: owned_def)

lemma owned_Cons: "owned own (x # xs) = (case own x of None \<Rightarrow> {} | Some u \<Rightarrow> {u}) \<union> owned own xs"
  by (auto simp: owned_def split: option.splits)

lemma owned_filter: "owned own (filter p xs) \<subseteq> owned own xs"
  by (auto simp: owned_def)

lemma owned_update_same: "(\<And>r. own (f r) = own r) \<Longrightarrow> owned own (update_where p f xs) = owned own xs"
  by (induction xs) (auto simp: owned_Cons)

text \<open>Redirecting the rows of an owner.\<close>

lemma owned_redirect:
  assumes "\<And>r. own r = Some replaced \<Longrightarrow> p r" "\<And>r. p r \<Longrightarrow> own (f r) = Some survivor" "survivor \<noteq> replaced"
  shows "moved survivor replaced (owned own xs) (owned own (update_where p f xs))"
  using assms by (induction xs) (auto simp: owned_Cons moved_def split: option.splits)

lemma foldl_keeps: "(\<And>s x. f (g s x) = f s) \<Longrightarrow> f (foldl g s xs) = f s"
  by (induction xs arbitrary: s) auto

lemma foldl_inv: "I s \<Longrightarrow> (\<And>s x. I s \<Longrightarrow> I (g s x)) \<Longrightarrow> I (foldl g s xs)"
  by (induction xs arbitrary: s) auto

text \<open>
  Tables whose rows are moved one by one: each step takes the row with its key out of the rows of the
  replaced owner and gives none back.
\<close>

locale stepwise_move =
  fixes rows :: "'s \<Rightarrow> 'r list" and own :: "'r \<Rightarrow> int option" and key :: "'r \<Rightarrow> 'k" and move :: "'r \<Rightarrow> 's \<Rightarrow> 's"
    and survivor replaced :: int
  assumes others: "owned own (rows (move r s)) \<subseteq> insert survivor (owned own (rows s) \<union> owned own [r])"
    and takes: "survivor \<noteq> replaced \<Longrightarrow> x \<in> set (rows (move r s)) \<Longrightarrow> own x = Some replaced \<Longrightarrow>
      key x \<noteq> key r \<and> (\<exists>y \<in> set (rows s). own y = Some replaced \<and> key y = key x)"
begin

lemma fold_takes:
  assumes "survivor \<noteq> replaced" "x \<in> set (rows (foldl (\<lambda>s r. move r s) s rs))" "own x = Some replaced"
  shows "key x \<notin> key ` set rs \<and> (\<exists>y \<in> set (rows s). own y = Some replaced \<and> key y = key x)"
  using assms
proof (induction rs arbitrary: s)
  case (Cons r rs)
  then obtain y where y: "y \<in> set (rows (move r s))" "own y = Some replaced" "key y = key x" "key x \<notin> key ` set rs" by auto
  then show ?case using takes [OF assms(1) y(1,2)] by auto
qed auto

lemma fold_others: "owned own (rows (foldl (\<lambda>s r. move r s) s rs)) \<subseteq> insert survivor (owned own (rows s) \<union> owned own rs)"
proof (induction rs arbitrary: s)
  case (Cons r rs)
  then show ?case using others [of r s] by (fastforce simp: owned_Cons)
qed auto

lemma fold_moved:
  assumes apart: "survivor \<noteq> replaced" and rs: "set rs \<subseteq> set (rows s)"
    and all: "\<And>x. x \<in> set (rows s) \<Longrightarrow> own x = Some replaced \<Longrightarrow> x \<in> set rs"
  shows "moved survivor replaced (owned own (rows s)) (owned own (rows (foldl (\<lambda>s r. move r s) s rs)))"
proof -
  have "replaced \<notin> owned own (rows (foldl (\<lambda>s r. move r s) s rs))"
  proof
    assume "replaced \<in> owned own (rows (foldl (\<lambda>s r. move r s) s rs))"
    then obtain x where x: "x \<in> set (rows (foldl (\<lambda>s r. move r s) s rs))" "own x = Some replaced" by (auto simp: owned_def)
    from fold_takes [OF apart x] all show False by (metis imageI)
  qed
  moreover have "owned own rs \<subseteq> owned own (rows s)" using rs by (auto simp: owned_def)
  ultimately show ?thesis using fold_others [of s rs] by (auto simp: moved_def)
qed

end

section \<open>Source records\<close>

lemma adopt_source_frame [identity_simps]: "ar_logs (adopt_source n a) = ar_logs a" "ar_raw (adopt_source n a) = ar_raw a"
  by (simp_all add: adopt_source_def Let_def)

lemma merge_source_records_frame [identity_simps]:
  "ar_logs (merge_source_records e x y a) = ar_logs a" "ar_raw (merge_source_records e x y a) = ar_raw a"
  by (simp_all add: merge_source_records_def Let_def foldl_keeps [where f = ar_logs] foldl_keeps [where f = ar_raw] identity_simps)

definition entities :: "arch \<Rightarrow> (string \<times> int) set" where
  "entities a = (\<lambda>s. (sr_entity_type s, sr_entity_id s)) ` set (ar_sources a)"

lemma adopt_source_entities: "entities (adopt_source n a) \<subseteq> insert (sr_entity_type n, sr_entity_id n) (entities a)"
  by (auto simp: adopt_source_def Let_def entities_def set_update_where merge_source_def)

lemma merge_source_records_entities:
  "entities (merge_source_records e survivor replaced a) \<subseteq> insert (e, survivor) (entities a) - (if survivor = replaced then {} else {(e, replaced)})"
proof -
  let ?mine = "\<lambda>s. sr_entity_type s = e \<and> sr_entity_id s = replaced"
  let ?fold = "\<lambda>xs. foldl (\<lambda>a s. adopt_source (s\<lparr>sr_entity_id := survivor\<rparr>) a) a xs"
  have "entities (foldl (\<lambda>a s. adopt_source (s\<lparr>sr_entity_id := survivor\<rparr>) a) b xs) \<subseteq> insert (e, survivor) (entities b)"
    if "\<forall>s \<in> set xs. ?mine s" for xs b
    using that
  proof (induction xs arbitrary: b)
    case (Cons s xs)
    then have "entities (adopt_source (s\<lparr>sr_entity_id := survivor\<rparr>) b) \<subseteq> insert (e, survivor) (entities b)"
      using adopt_source_entities [of "s\<lparr>sr_entity_id := survivor\<rparr>" b] by auto
    then show ?case using Cons.IH [of "adopt_source (s\<lparr>sr_entity_id := survivor\<rparr>) b"] Cons.prems by auto
  qed auto
  then have f: "entities (?fold (filter ?mine (ar_sources a))) \<subseteq> insert (e, survivor) (entities a)" by auto
  have "entities (merge_source_records e survivor replaced a) = entities (?fold (filter ?mine (ar_sources a))) - {(e, replaced)}"
    by (auto simp: merge_source_records_def Let_def entities_def)
  then show ?thesis using f by auto
qed

lemma owned_user_source: "owned user_source (ar_sources a) = {u. (''user'', u) \<in> entities a}"
  by (force simp: owned_def user_source_def entities_def split: if_splits)

lemma merge_user_sources:
  assumes "survivor \<noteq> replaced"
  shows "moved survivor replaced (owned user_source (ar_sources a)) (owned user_source (ar_sources (merge_source_records ''user'' survivor replaced a)))"
  using merge_source_records_entities [of "''user''" survivor replaced a] assms by (auto simp: moved_def owned_user_source)

lemma merge_other_sources:
  "e \<noteq> ''user'' \<Longrightarrow> owned user_source (ar_sources (merge_source_records e survivor replaced a)) \<subseteq> owned user_source (ar_sources a)"
  using merge_source_records_entities [of e survivor replaced a] by (auto simp: owned_user_source split: if_splits)

section \<open>Evidence of a player\<close>

lemma seen_between_frame [identity_simps]:
  "ct_aliases (seen_between u f l ct) = ct_aliases ct" "ct_seats (seen_between u f l ct) = ct_seats ct"
  "ct_snapshots (seen_between u f l ct) = ct_snapshots ct" "ct_observations (seen_between u f l ct) = ct_observations ct"
  "ct_resources (seen_between u f l ct) = ct_resources ct" "ct_attempts (seen_between u f l ct) = ct_attempts ct"
  by (simp_all add: seen_between_def)

definition identity_of :: "player \<Rightarrow> int \<times> string \<times> string option \<times> string" where
  "identity_of p = (pl_id p, pl_provider p, pl_provider_user_id p, pl_username_normalized p)"

lemma seen_between_identities [identity_simps]: "map identity_of (ct_players (seen_between u f l ct)) = map identity_of (ct_players ct)"
  by (simp add: seen_between_def map_update_where identity_of_def)

lemma record_alias_frame [identity_simps]:
  "ct_seats (record_alias u n t r f ct) = ct_seats ct" "ct_snapshots (record_alias u n t r f ct) = ct_snapshots ct"
  "ct_observations (record_alias u n t r f ct) = ct_observations ct" "ct_resources (record_alias u n t r f ct) = ct_resources ct"
  "ct_attempts (record_alias u n t r f ct) = ct_attempts ct"
  "map identity_of (ct_players (record_alias u n t r f ct)) = map identity_of (ct_players ct)"
  by (simp_all add: record_alias_def Let_def identity_simps)

lemma record_alias_owned: "owned (\<lambda>r. Some (al_provider_user_id r)) (ct_aliases (record_alias u n t r f ct))
  \<subseteq> insert u (owned (\<lambda>r. Some (al_provider_user_id r)) (ct_aliases ct))"
  by (auto simp: record_alias_def Let_def identity_simps owned_update_same merge_alias_def) (auto simp: owned_def)

lemma merge_aliases_frame [identity_simps]:
  "ct_seats (merge_aliases x y ct) = ct_seats ct" "ct_snapshots (merge_aliases x y ct) = ct_snapshots ct"
  "ct_observations (merge_aliases x y ct) = ct_observations ct" "ct_resources (merge_aliases x y ct) = ct_resources ct"
  "ct_attempts (merge_aliases x y ct) = ct_attempts ct"
  "map identity_of (ct_players (merge_aliases x y ct)) = map identity_of (ct_players ct)"
  by (simp_all add: merge_aliases_def Let_def foldl_keeps [where f = ct_seats] foldl_keeps [where f = ct_snapshots]
      foldl_keeps [where f = ct_observations] foldl_keeps [where f = ct_resources] foldl_keeps [where f = ct_attempts]
      foldl_keeps [where f = "\<lambda>c. map identity_of (ct_players c)"] identity_simps)

lemma merge_aliases_moved:
  assumes "survivor \<noteq> replaced"
  shows "moved survivor replaced (owned (\<lambda>r. Some (al_provider_user_id r)) (ct_aliases ct))
    (owned (\<lambda>r. Some (al_provider_user_id r)) (ct_aliases (merge_aliases survivor replaced ct)))"
proof -
  let ?o = "\<lambda>ct. owned (\<lambda>r. Some (al_provider_user_id r)) (ct_aliases ct)"
  let ?g = "\<lambda>ct a. record_alias survivor (al_display_username a) (al_last_seen_at a) (al_raw_payload_id a) None
    (record_alias survivor (al_display_username a) (al_first_seen_at a) (al_raw_payload_id a) None ct)"
  have "?o (foldl ?g ct xs) \<subseteq> insert survivor (?o ct)" for xs
    by (rule foldl_inv) (use record_alias_owned in blast)+
  then show ?thesis by (auto simp: merge_aliases_def Let_def moved_def owned_def)
qed

lemma merge_attempts_frame [identity_simps]:
  "ct_seats (merge_attempts x y ct) = ct_seats ct" "ct_snapshots (merge_attempts x y ct) = ct_snapshots ct"
  "ct_observations (merge_attempts x y ct) = ct_observations ct" "ct_resources (merge_attempts x y ct) = ct_resources ct"
  "ct_aliases (merge_attempts x y ct) = ct_aliases ct" "ct_players (merge_attempts x y ct) = ct_players ct"
  by (simp_all add: merge_attempts_def Let_def)

lemma upsert_attempt_owned: "owned (\<lambda>r. Some (at_provider_user_id r)) (upsert_attempt n ts) \<subseteq>
  insert (at_provider_user_id n) (owned (\<lambda>r. Some (at_provider_user_id r)) ts)"
  by (auto simp: upsert_attempt_def owned_def update_where_def split: option.splits if_splits)

lemma merge_attempts_moved:
  assumes "survivor \<noteq> replaced"
  shows "moved survivor replaced (owned (\<lambda>r. Some (at_provider_user_id r)) (ct_attempts ct))
    (owned (\<lambda>r. Some (at_provider_user_id r)) (ct_attempts (merge_attempts survivor replaced ct)))"
proof -
  have "owned (\<lambda>r. Some (at_provider_user_id r)) (foldl (\<lambda>ts t. upsert_attempt t ts) ts (map (\<lambda>t. t\<lparr>at_provider_user_id := survivor\<rparr>) xs))
      \<subseteq> insert survivor (owned (\<lambda>r. Some (at_provider_user_id r)) ts)" for ts xs
  proof (induction xs arbitrary: ts)
    case (Cons t xs)
    then show ?case
      using upsert_attempt_owned [of "t\<lparr>at_provider_user_id := survivor\<rparr>" ts] Cons.IH [of "upsert_attempt (t\<lparr>at_provider_user_id := survivor\<rparr>) ts"]
      by auto
  qed auto
  then show ?thesis by (auto simp: merge_attempts_def Let_def moved_def owned_def) blast
qed

text \<open>Resources, snapshots and edges move row by row.\<close>

lemma on_catalog_sel [identity_simps]:
  "si_catalog (on_catalog f s) = f (si_catalog s)" "si_arch (on_catalog f s) = si_arch s" "si_db (on_catalog f s) = si_db s"
  "si_conn (on_catalog f s) = si_conn s"
  by (simp_all add: on_catalog_def)

lemma on_arch_sel [identity_simps]:
  "si_arch (on_arch f s) = f (si_arch s)" "si_catalog (on_arch f s) = si_catalog s" "si_db (on_arch f s) = si_db s"
  "si_conn (on_arch f s) = si_conn s"
  by (simp_all add: on_arch_def)

interpretation resource_move: stepwise_move "\<lambda>s. ct_resources (si_catalog s)" "\<lambda>r. Some (rn_provider_user_id r)" rn_id
    "merge_resource survivor" survivor replaced for survivor replaced
  by unfold_locales (auto simp: merge_resource_def identity_simps owned_def update_where_def split: option.splits if_splits)

interpretation snapshot_move: stepwise_move "\<lambda>s. ct_snapshots (si_catalog s)" "\<lambda>r. Some (us_provider_user_id r)" us_id
    "merge_snapshot survivor" survivor replaced for survivor replaced
  by unfold_locales (auto simp: merge_snapshot_def Let_def identity_simps owned_def update_where_def split: option.splits if_splits)

lemma merge_resource_frame [identity_simps]:
  "ct_seats (si_catalog (merge_resource x r s)) = ct_seats (si_catalog s)" "ct_aliases (si_catalog (merge_resource x r s)) = ct_aliases (si_catalog s)"
  "ct_snapshots (si_catalog (merge_resource x r s)) = ct_snapshots (si_catalog s)"
  "ct_observations (si_catalog (merge_resource x r s)) = ct_observations (si_catalog s)"
  "ct_attempts (si_catalog (merge_resource x r s)) = ct_attempts (si_catalog s)" "ct_players (si_catalog (merge_resource x r s)) = ct_players (si_catalog s)"
  "ar_logs (si_arch (merge_resource x r s)) = ar_logs (si_arch s)" "ar_raw (si_arch (merge_resource x r s)) = ar_raw (si_arch s)"
  "si_db (merge_resource x r s) = si_db s"
  by (simp_all add: merge_resource_def identity_simps split: option.split)

lemma merge_resource_sources:
  "owned user_source (ar_sources (si_arch (merge_resource x r s))) \<subseteq> owned user_source (ar_sources (si_arch s))"
  using merge_other_sources by (auto simp: merge_resource_def identity_simps split: option.split)

lemma merge_snapshot_frame [identity_simps]:
  "ct_seats (si_catalog (merge_snapshot x n s)) = ct_seats (si_catalog s)" "ct_aliases (si_catalog (merge_snapshot x n s)) = ct_aliases (si_catalog s)"
  "ct_resources (si_catalog (merge_snapshot x n s)) = ct_resources (si_catalog s)"
  "ct_attempts (si_catalog (merge_snapshot x n s)) = ct_attempts (si_catalog s)" "ct_players (si_catalog (merge_snapshot x n s)) = ct_players (si_catalog s)"
  "ar_logs (si_arch (merge_snapshot x n s)) = ar_logs (si_arch s)" "ar_raw (si_arch (merge_snapshot x n s)) = ar_raw (si_arch s)"
  "si_db (merge_snapshot x n s) = si_db s"
  by (simp_all add: merge_snapshot_def Let_def identity_simps split: option.split)

lemma merge_snapshot_sources:
  "owned user_source (ar_sources (si_arch (merge_snapshot x n s))) \<subseteq> owned user_source (ar_sources (si_arch s))"
  using merge_other_sources by (auto simp: merge_snapshot_def Let_def identity_simps split: option.split)

lemma merge_snapshot_observations:
  "owned (\<lambda>r. Some (uo_provider_user_id r)) (ct_observations (si_catalog (merge_snapshot x n s)))
   = owned (\<lambda>r. Some (uo_provider_user_id r)) (ct_observations (si_catalog s))"
  by (simp add: merge_snapshot_def Let_def identity_simps owned_update_same split: option.split)

lemma merge_edge_frame [identity_simps]:
  "si_catalog (fst (merge_edge x y e sr)) = si_catalog (fst sr)" "si_arch (fst (merge_edge x y e sr)) = si_arch (fst sr)"
  by (cases sr; simp add: merge_edge_def Let_def split: option.split split del: if_split)+

lemma merge_edge_ends: "ed_from_user_id (merge_edge_pair e m k x) = ed_from_user_id x" "ed_to_user_id (merge_edge_pair e m k x) = ed_to_user_id x"
  "ed_id (merge_edge_pair e m k x) = ed_id x"
  by (simp_all add: merge_edge_pair_def Let_def)

text \<open>An edge is redirected in place or folded into the one that already joins the same accounts.\<close>

lemma merge_edge_cases:
  obtains (redirected) "db_edges (si_db (fst (merge_edge survivor replaced e sr))) = update_where (\<lambda>x. ed_id x = ed_id e)
      (\<lambda>x. x\<lparr>ed_from_user_id := (if ed_from_user_id e = replaced then survivor else ed_from_user_id e),
        ed_to_user_id := (if ed_to_user_id e = replaced then survivor else ed_to_user_id e)\<rparr>) (db_edges (si_db (fst sr)))"
  | (folded) m k where "db_edges (si_db (fst (merge_edge survivor replaced e sr))) = filter (\<lambda>x. ed_id x \<noteq> ed_id e)
      (update_where (\<lambda>x. ed_id x = ed_id m) (merge_edge_pair e m k) (db_edges (si_db (fst sr))))"
proof -
  obtain s runs where sr: "sr = (s, runs)" by (cases sr)
  let ?source = "if ed_from_user_id e = replaced then survivor else ed_from_user_id e"
  let ?target = "if ed_to_user_id e = replaced then survivor else ed_to_user_id e"
  show ?thesis
  proof (cases "find_row (\<lambda>x. ed_provider x = ed_provider e \<and> ed_from_user_id x = ?source \<and> ed_to_user_id x = ?target \<and> ed_id x \<noteq> ed_id e)
      (db_edges (si_db s))")
    case None
    then show ?thesis by (intro redirected) (simp add: sr merge_edge_def Let_def split del: if_split)
  next
    case (Some m)
    then show ?thesis
      by (intro folded [of m "known_games (si_catalog s) (ed_provider e) ?source ?target"])
         (simp add: sr merge_edge_def Let_def split del: if_split)
  qed
qed

interpretation from_move: stepwise_move "\<lambda>sr. db_edges (si_db (fst sr))" "\<lambda>e. Some (ed_from_user_id e)" ed_id
    "merge_edge survivor replaced" survivor replaced for survivor replaced
proof unfold_locales
  fix e sr
  show "owned (\<lambda>e. Some (ed_from_user_id e)) (db_edges (si_db (fst (merge_edge survivor replaced e sr))))
    \<subseteq> insert survivor (owned (\<lambda>e. Some (ed_from_user_id e)) (db_edges (si_db (fst sr))) \<union> owned (\<lambda>e. Some (ed_from_user_id e)) [e])"
    by (cases rule: merge_edge_cases [of survivor replaced e sr])
       (auto simp: owned_def update_where_def merge_edge_ends split: if_splits)
  fix x assume "survivor \<noteq> replaced" "x \<in> set (db_edges (si_db (fst (merge_edge survivor replaced e sr))))" "Some (ed_from_user_id x) = Some replaced"
  then show "ed_id x \<noteq> ed_id e \<and> (\<exists>y \<in> set (db_edges (si_db (fst sr))). Some (ed_from_user_id y) = Some replaced \<and> ed_id y = ed_id x)"
    by (cases rule: merge_edge_cases [of survivor replaced e sr])
       (auto simp: update_where_def merge_edge_ends split: if_splits)
qed

interpretation to_move: stepwise_move "\<lambda>sr. db_edges (si_db (fst sr))" "\<lambda>e. Some (ed_to_user_id e)" ed_id
    "merge_edge survivor replaced" survivor replaced for survivor replaced
proof unfold_locales
  fix e sr
  show "owned (\<lambda>e. Some (ed_to_user_id e)) (db_edges (si_db (fst (merge_edge survivor replaced e sr))))
    \<subseteq> insert survivor (owned (\<lambda>e. Some (ed_to_user_id e)) (db_edges (si_db (fst sr))) \<union> owned (\<lambda>e. Some (ed_to_user_id e)) [e])"
    by (cases rule: merge_edge_cases [of survivor replaced e sr])
       (auto simp: owned_def update_where_def merge_edge_ends split: if_splits)
  fix x assume "survivor \<noteq> replaced" "x \<in> set (db_edges (si_db (fst (merge_edge survivor replaced e sr))))" "Some (ed_to_user_id x) = Some replaced"
  then show "ed_id x \<noteq> ed_id e \<and> (\<exists>y \<in> set (db_edges (si_db (fst sr))). Some (ed_to_user_id y) = Some replaced \<and> ed_id y = ed_id x)"
    by (cases rule: merge_edge_cases [of survivor replaced e sr])
       (auto simp: update_where_def merge_edge_ends split: if_splits)
qed

lemma merge_user_edges_frame [identity_simps]:
  "si_catalog (fst (merge_user_edges x y s)) = si_catalog s" "si_arch (fst (merge_user_edges x y s)) = si_arch s"
  by (simp_all add: merge_user_edges_def foldl_keeps [where f = "\<lambda>sr. si_catalog (fst sr)"] foldl_keeps [where f = "\<lambda>sr. si_arch (fst sr)"]
      identity_simps)

lemma merge_user_edges_moved:
  assumes "survivor \<noteq> replaced"
  shows "moved survivor replaced (edge_refs (db_edges (si_db s))) (edge_refs (db_edges (si_db (fst (merge_user_edges survivor replaced s)))))"
proof -
  let ?es = "sort_key ed_id (filter (\<lambda>e. ed_from_user_id e = replaced \<or> ed_to_user_id e = replaced) (db_edges (si_db s)))"
  have es: "set ?es \<subseteq> set (db_edges (si_db (fst (s, [] :: int list))))" by auto
  show ?thesis
    unfolding edge_refs_def merge_user_edges_def
    using from_move.fold_moved [OF assms es] to_move.fold_moved [OF assms es] by (intro moved_Un) simp_all
qed

lemma update_crawl_run_edges [identity_simps]: "db_edges (update_crawl_run c r st cs fin now d) = db_edges d"
  unfolding update_crawl_run_def using outbox_only_fields(13) [OF update_runs_frame] by simp

lemma recount_runs_frame [identity_simps]:
  "si_catalog (recount_runs rs s) = si_catalog s" "si_arch (recount_runs rs s) = si_arch s" "db_edges (si_db (recount_runs rs s)) = db_edges (si_db s)"
  unfolding recount_runs_def
  by (simp_all add: foldl_keeps [where f = si_catalog] foldl_keeps [where f = si_arch] foldl_keeps [where f = "\<lambda>s. db_edges (si_db s)"]
      identity_simps)

section \<open>Absorbing a placeholder\<close>

definition identities :: "site \<Rightarrow> (int \<times> string \<times> string option \<times> string) list" where
  "identities s = map identity_of (ct_players (si_catalog s))"

lemma foldl_resources_frame [identity_simps]:
  fixes x rs
  defines "f \<equiv> \<lambda>s. foldl (\<lambda>s r. merge_resource x r s) s rs"
  shows "ct_seats (si_catalog (f s)) = ct_seats (si_catalog s)" "ct_aliases (si_catalog (f s)) = ct_aliases (si_catalog s)"
    "ct_snapshots (si_catalog (f s)) = ct_snapshots (si_catalog s)" "ct_observations (si_catalog (f s)) = ct_observations (si_catalog s)"
    "ct_attempts (si_catalog (f s)) = ct_attempts (si_catalog s)" "ct_players (si_catalog (f s)) = ct_players (si_catalog s)"
    "ar_logs (si_arch (f s)) = ar_logs (si_arch s)" "ar_raw (si_arch (f s)) = ar_raw (si_arch s)" "si_db (f s) = si_db s"
  unfolding f_def by (rule foldl_keeps; simp add: identity_simps)+

lemma foldl_snapshots_frame [identity_simps]:
  fixes x ns
  defines "f \<equiv> \<lambda>s. foldl (\<lambda>s n. merge_snapshot x n s) s ns"
  shows "ct_seats (si_catalog (f s)) = ct_seats (si_catalog s)" "ct_aliases (si_catalog (f s)) = ct_aliases (si_catalog s)"
    "ct_resources (si_catalog (f s)) = ct_resources (si_catalog s)" "ct_attempts (si_catalog (f s)) = ct_attempts (si_catalog s)"
    "ct_players (si_catalog (f s)) = ct_players (si_catalog s)" "ar_logs (si_arch (f s)) = ar_logs (si_arch s)"
    "ar_raw (si_arch (f s)) = ar_raw (si_arch s)" "si_db (f s) = si_db s"
    "owned (\<lambda>r. Some (uo_provider_user_id r)) (ct_observations (si_catalog (f s))) = owned (\<lambda>r. Some (uo_provider_user_id r)) (ct_observations (si_catalog s))"
  unfolding f_def by (rule foldl_keeps; simp add: identity_simps merge_snapshot_observations)+

lemma foldl_sources:
  "owned user_source (ar_sources (si_arch (foldl (\<lambda>s r. merge_resource x r s) s rs))) \<subseteq> owned user_source (ar_sources (si_arch s))"
  "owned user_source (ar_sources (si_arch (foldl (\<lambda>s n. merge_snapshot x n s) s ns))) \<subseteq> owned user_source (ar_sources (si_arch s))"
  by (rule foldl_inv; use merge_resource_sources merge_snapshot_sources in blast)+

lemma merge_player_evidence_frame [identity_simps]:
  "ct_seats (si_catalog (merge_player_evidence x y s)) = ct_seats (si_catalog s)"
  "ct_snapshots (si_catalog (merge_player_evidence x y s)) = ct_snapshots (si_catalog s)"
  "identities (merge_player_evidence x y s) = identities s" "ar_raw (si_arch (merge_player_evidence x y s)) = ar_raw (si_arch s)"
  "si_db (merge_player_evidence x y s) = si_db s"
  by (simp_all add: merge_player_evidence_def Let_def identities_def identity_simps)

lemma moved_into: "moved x y A B \<Longrightarrow> C \<subseteq> B \<Longrightarrow> moved x y A C"
  by (auto simp: moved_def)

lemma merge_player_evidence_moved:
  fixes s
  assumes "survivor \<noteq> replaced"
  defines "s' \<equiv> merge_player_evidence survivor replaced s"
  shows "moved survivor replaced (owned (\<lambda>r. Some (al_provider_user_id r)) (ct_aliases (si_catalog s)))
      (owned (\<lambda>r. Some (al_provider_user_id r)) (ct_aliases (si_catalog s')))"
    "moved survivor replaced (owned (\<lambda>r. Some (uo_provider_user_id r)) (ct_observations (si_catalog s)))
      (owned (\<lambda>r. Some (uo_provider_user_id r)) (ct_observations (si_catalog s')))"
    "moved survivor replaced (owned (\<lambda>r. Some (rn_provider_user_id r)) (ct_resources (si_catalog s)))
      (owned (\<lambda>r. Some (rn_provider_user_id r)) (ct_resources (si_catalog s')))"
    "moved survivor replaced (owned (\<lambda>r. Some (at_provider_user_id r)) (ct_attempts (si_catalog s)))
      (owned (\<lambda>r. Some (at_provider_user_id r)) (ct_attempts (si_catalog s')))"
    "moved survivor replaced (owned fl_provider_user_id (ar_logs (si_arch s))) (owned fl_provider_user_id (ar_logs (si_arch s')))"
    "owned user_source (ar_sources (si_arch s')) \<subseteq> owned user_source (ar_sources (si_arch s))"
proof -
  define s4 where "s4 = on_catalog (merge_attempts survivor replaced) (on_catalog (\<lambda>ct. ct\<lparr>ct_observations := update_where
      (\<lambda>o'. uo_provider_user_id o' = replaced) (\<lambda>o'. o'\<lparr>uo_provider_user_id := survivor\<rparr>) (ct_observations ct)\<rparr>)
    (on_catalog (merge_aliases survivor replaced) (on_arch (\<lambda>a. a\<lparr>ar_logs := update_where (\<lambda>f. fl_provider_user_id f = Some replaced)
            (\<lambda>f. f\<lparr>fl_provider_user_id := Some survivor\<rparr>) (ar_logs a)\<rparr>) s)))"
  let ?rs = "filter (\<lambda>r. rn_provider_user_id r = replaced) (ct_resources (si_catalog s4))"
  have s': "s' = foldl (\<lambda>s r. merge_resource survivor r s) s4 ?rs"
    by (simp add: s'_def merge_player_evidence_def s4_def Let_def)
  note frame = s4_def identity_simps
  show "moved survivor replaced (owned (\<lambda>r. Some (al_provider_user_id r)) (ct_aliases (si_catalog s)))
      (owned (\<lambda>r. Some (al_provider_user_id r)) (ct_aliases (si_catalog s')))"
    using merge_aliases_moved [OF assms(1)] by (simp add: s' frame)
  show "moved survivor replaced (owned (\<lambda>r. Some (uo_provider_user_id r)) (ct_observations (si_catalog s)))
      (owned (\<lambda>r. Some (uo_provider_user_id r)) (ct_observations (si_catalog s')))"
    unfolding s' using assms(1) by (simp add: frame) (rule owned_redirect; simp)
  show "moved survivor replaced (owned (\<lambda>r. Some (at_provider_user_id r)) (ct_attempts (si_catalog s)))
      (owned (\<lambda>r. Some (at_provider_user_id r)) (ct_attempts (si_catalog s')))"
    using merge_attempts_moved [OF assms(1), where ct = "(merge_aliases survivor replaced (si_catalog s))
        \<lparr>ct_observations := update_where (\<lambda>o'. uo_provider_user_id o' = replaced) (\<lambda>o'. o'\<lparr>uo_provider_user_id := survivor\<rparr>) (ct_observations (si_catalog s))\<rparr>"]
    by (simp add: s' frame)
  show "moved survivor replaced (owned fl_provider_user_id (ar_logs (si_arch s))) (owned fl_provider_user_id (ar_logs (si_arch s')))"
    unfolding s' using assms(1) by (simp add: frame) (rule owned_redirect; simp)
  have "moved survivor replaced (owned (\<lambda>r. Some (rn_provider_user_id r)) (ct_resources (si_catalog s4)))
      (owned (\<lambda>r. Some (rn_provider_user_id r)) (ct_resources (si_catalog s')))"
    unfolding s' by (rule resource_move.fold_moved [OF assms(1)]) auto
  then show "moved survivor replaced (owned (\<lambda>r. Some (rn_provider_user_id r)) (ct_resources (si_catalog s)))
      (owned (\<lambda>r. Some (rn_provider_user_id r)) (ct_resources (si_catalog s')))"
    by (simp add: frame)
  have "owned user_source (ar_sources (si_arch s')) \<subseteq> owned user_source (ar_sources (si_arch s4))" unfolding s' by (rule foldl_sources)
  then show "owned user_source (ar_sources (si_arch s')) \<subseteq> owned user_source (ar_sources (si_arch s))" by (simp add: frame)
qed

lemma merge_user_placeholder_moved:
  assumes apart: "survivor \<noteq> replaced"
  shows "moved survivor replaced (user_refs s) (user_refs (merge_user_placeholder survivor replaced s))"
    and "map fst (identities (merge_user_placeholder survivor replaced s)) = filter (\<lambda>i. i \<noteq> replaced) (map fst (identities s))"
    and "identities (merge_user_placeholder survivor replaced s) = filter (\<lambda>k. fst k \<noteq> replaced) (identities s)"
    and "ar_raw (si_arch (merge_user_placeholder survivor replaced s)) = ar_raw (si_arch s)"
proof -
  define s1 where "s1 = on_catalog (\<lambda>ct. ct\<lparr>ct_seats := update_where (\<lambda>p. se_provider_user_id p = Some replaced)
            (\<lambda>p. p\<lparr>se_provider_user_id := Some survivor\<rparr>) (ct_seats ct)\<rparr>) s"
  define s2 where "s2 = merge_player_evidence survivor replaced s1"
  define s3 where "s3 = foldl (\<lambda>s n. merge_snapshot survivor n s) s2 (filter (\<lambda>n. us_provider_user_id n = replaced) (ct_snapshots (si_catalog s2)))"
  define s3' where "s3' = on_arch (merge_source_records ''user'' survivor replaced) s3"
  define s4 where "s4 = fst (merge_user_edges survivor replaced s3')"
  define s5 where "s5 = on_catalog (drop_player survivor replaced) s4"
  have s': "merge_user_placeholder survivor replaced s = recount_runs (snd (merge_user_edges survivor replaced s3')) s5"
    by (simp add: merge_user_placeholder_def s1_def s2_def s3_def s3'_def s4_def s5_def Let_def case_prod_beta)
  have drop [identity_simps]: "ct_seats (drop_player x y ct) = ct_seats ct" "ct_aliases (drop_player x y ct) = ct_aliases ct"
    "ct_snapshots (drop_player x y ct) = ct_snapshots ct" "ct_observations (drop_player x y ct) = ct_observations ct"
    "ct_resources (drop_player x y ct) = ct_resources ct" "ct_attempts (drop_player x y ct) = ct_attempts ct" for x y ct
    by (simp_all add: drop_player_def Let_def identity_simps)
  note ev = merge_player_evidence_moved [OF apart, of s1, folded s2_def]
  have cat: "catalog_refs (si_catalog (merge_user_placeholder survivor replaced s)) = catalog_refs (si_catalog s3)"
    by (simp add: s' s5_def s4_def s3'_def catalog_refs_def identity_simps drop)
  have snaps: "moved survivor replaced (owned (\<lambda>r. Some (us_provider_user_id r)) (ct_snapshots (si_catalog s2)))
      (owned (\<lambda>r. Some (us_provider_user_id r)) (ct_snapshots (si_catalog s3)))"
    unfolding s3_def by (rule snapshot_move.fold_moved [OF apart]) auto
  have seats: "moved survivor replaced (owned se_provider_user_id (ct_seats (si_catalog s))) (owned se_provider_user_id (ct_seats (si_catalog s1)))"
    unfolding s1_def on_catalog_sel using apart by simp (rule owned_redirect; simp)
  have "moved survivor replaced (catalog_refs (si_catalog s)) (catalog_refs (si_catalog s3))"
    unfolding catalog_refs_def using ev(1-4) snaps seats
    by (intro moved_Un) (simp_all add: s3_def s2_def s1_def identity_simps)
  moreover have "moved survivor replaced (arch_refs (si_arch s)) (arch_refs (si_arch (merge_user_placeholder survivor replaced s)))"
  proof -
    have "owned user_source (ar_sources (si_arch s3)) \<subseteq> owned user_source (ar_sources (si_arch s))"
      using foldl_sources(2) [of survivor s2] ev(6) unfolding s3_def s1_def on_catalog_sel by blast
    then have "moved survivor replaced (owned user_source (ar_sources (si_arch s))) (owned user_source (ar_sources (si_arch s3')))"
      using merge_user_sources [OF apart, of "si_arch s3"] by (auto simp: s3'_def moved_def on_arch_sel)
    then show ?thesis
      unfolding arch_refs_def using ev(5) by (intro moved_Un) (simp_all add: s' s5_def s4_def s3'_def s3_def s1_def identity_simps)
  qed
  moreover have "moved survivor replaced (edge_refs (db_edges (si_db s)))
      (edge_refs (db_edges (si_db (merge_user_placeholder survivor replaced s))))"
    using merge_user_edges_moved [OF apart, of s3'] by (simp add: s' s5_def s4_def s3'_def s3_def s2_def s1_def identity_simps)
  ultimately show "moved survivor replaced (user_refs s) (user_refs (merge_user_placeholder survivor replaced s))"
    unfolding user_refs_def cat by (intro moved_Un)
  have "identities s4 = identities s" by (simp add: s4_def s3'_def s3_def s2_def s1_def identities_def identity_simps)
     (simp add: identities_def [symmetric] identity_simps, simp add: identities_def identity_simps)
  moreover have "map identity_of (ct_players (drop_player survivor replaced ct)) = filter (\<lambda>k. fst k \<noteq> replaced) (map identity_of (ct_players ct))" for ct
  proof -
    have "map identity_of (filter (\<lambda>p. pl_id p \<noteq> replaced) ps) = filter (\<lambda>k. fst k \<noteq> replaced) (map identity_of ps)" for ps
      by (induction ps) (auto simp: identity_of_def)
    then show ?thesis by (simp add: drop_player_def Let_def identity_simps)
  qed
  ultimately show ids: "identities (merge_user_placeholder survivor replaced s) = filter (\<lambda>k. fst k \<noteq> replaced) (identities s)"
    by (simp add: s' s5_def identities_def identity_simps)
  show "map fst (identities (merge_user_placeholder survivor replaced s)) = filter (\<lambda>i. i \<noteq> replaced) (map fst (identities s))"
    unfolding ids by (simp add: filter_map o_def)
  show "ar_raw (si_arch (merge_user_placeholder survivor replaced s)) = ar_raw (si_arch s)"
    by (simp add: s' s5_def s4_def s3'_def s3_def s2_def s1_def identity_simps)
qed

text \<open>No step of a merge takes an account number.\<close>

lemma next_player_frame [identity_simps]:
  "ct_next_player (seen_between u f l ct) = ct_next_player ct" "ct_next_player (record_alias u n t r g ct) = ct_next_player ct"
  "ct_next_player (merge_attempts x y ct) = ct_next_player ct" "ct_next_player (drop_player x y ct) = ct_next_player ct"
  "ct_next_player (si_catalog (merge_resource x q s)) = ct_next_player (si_catalog s)"
  "ct_next_player (si_catalog (merge_snapshot x m s)) = ct_next_player (si_catalog s)"
  by (simp_all add: seen_between_def record_alias_def merge_attempts_def drop_player_def merge_resource_def merge_snapshot_def Let_def
      on_catalog_def on_arch_def split: option.split)

lemma merge_aliases_next [identity_simps]: "ct_next_player (merge_aliases x y ct) = ct_next_player ct"
  by (simp add: merge_aliases_def Let_def foldl_keeps [where f = ct_next_player] identity_simps)

lemma merge_user_placeholder_next: "ct_next_player (si_catalog (merge_user_placeholder x y s)) = ct_next_player (si_catalog s)"
proof -
  have "ct_next_player (si_catalog (merge_player_evidence x y s)) = ct_next_player (si_catalog s)" for s
    by (simp add: merge_player_evidence_def Let_def identity_simps foldl_keeps [where f = "\<lambda>s. ct_next_player (si_catalog s)"])
  then show ?thesis
    by (simp add: merge_user_placeholder_def Let_def case_prod_beta identity_simps foldl_keeps [where f = "\<lambda>s. ct_next_player (si_catalog s)"])
qed

section \<open>Upserts\<close>

interpretation player_tab: keyed_table pl_id .

abbreviation players :: "site \<Rightarrow> player list" where
  "players s \<equiv> ct_players (si_catalog s)"

definition players_ok :: "site \<Rightarrow> bool" where
  "players_ok s \<longleftrightarrow> player_tab.unique_keys (players s) \<and> list_all (\<lambda>p. pl_id p < ct_next_player (si_catalog s)) (players s)
     \<and> player_keys_unique (players s)"

definition refs_ok :: "site \<Rightarrow> bool" where
  "refs_ok s \<longleftrightarrow> user_refs s \<subseteq> pl_id ` set (players s)"

text \<open>Every account with a stable id keeps it; an account that disappears had none.\<close>

definition accounts_kept :: "player list \<Rightarrow> player list \<Rightarrow> bool" where
  "accounts_kept ps qs \<longleftrightarrow> (\<forall>p \<in> set ps. pl_provider_user_id p \<noteq> None \<longrightarrow>
     (\<exists>q \<in> set qs. pl_id q = pl_id p \<and> pl_provider q = pl_provider p \<and> pl_provider_user_id q = pl_provider_user_id p))"

lemma accounts_kept_refl [simp]: "accounts_kept ps ps"
  by (auto simp: accounts_kept_def)

lemma accounts_kept_trans: "accounts_kept ps qs \<Longrightarrow> accounts_kept qs rs \<Longrightarrow> accounts_kept ps rs"
  unfolding accounts_kept_def by (metis option.distinct(1))

definition keys_unique :: "(int \<times> string \<times> string option \<times> string) list \<Rightarrow> bool" where
  "keys_unique ks \<longleftrightarrow> distinct (map (\<lambda>(i, provider, sid, name). (provider, name)) ks)
     \<and> distinct (List.map_filter (\<lambda>(i, provider, sid, name). map_option (Pair provider) sid) ks)"

lemma player_keys_unique_identities: "player_keys_unique ps \<longleftrightarrow> keys_unique (map identity_of ps)"
proof -
  have "List.map_filter (\<lambda>(i, provider, sid, name). map_option (Pair provider) sid) (map identity_of ps)
    = List.map_filter (\<lambda>p. map_option (Pair (pl_provider p)) (pl_provider_user_id p)) ps"
    by (induction ps) (simp_all add: map_filter_simps identity_of_def split: option.split)
  then show ?thesis by (simp add: player_keys_unique_def keys_unique_def o_def identity_of_def)
qed

lemma set_map_filter: "set (List.map_filter f xs) = {y. \<exists>x \<in> set xs. f x = Some y}"
  by (induction xs) (auto simp: map_filter_simps split: option.splits)

lemma distinct_map_filter_filter: "distinct (List.map_filter f xs) \<Longrightarrow> distinct (List.map_filter f (filter q xs))"
  by (induction xs) (auto simp: map_filter_simps set_map_filter split: option.splits)

lemma keys_unique_filter: "keys_unique ks \<Longrightarrow> keys_unique (filter q ks)"
  by (auto simp: keys_unique_def distinct_map_filter distinct_map_filter_filter)

lemma update_player_ok:
  assumes u: "update_player ad f i s = Inr (s', j)" and ok: "players_ok s" "refs_ok s" and p: "p \<in> set (players s)" "pl_id p = i"
    and same: "pl_provider_user_id p = None \<or> if_provider_user_id f = None \<or> pl_provider_user_id p = if_provider_user_id f"
  shows "players_ok s' \<and> refs_ok s' \<and> j = i \<and> accounts_kept (players s) (players s') \<and> map pl_id (players s') = map pl_id (players s)
    \<and> (\<exists>q \<in> set (players s'). pl_id q = i \<and> pl_provider q = pl_provider p
        \<and> (if_provider_user_id f \<noteq> None \<longrightarrow> pl_provider_user_id q = if_provider_user_id f))"
proof -
  obtain st ti where s': "s' = on_catalog (\<lambda>ct. ct\<lparr>ct_players := update_where (\<lambda>p. pl_id p = i) (updated_player f st ti) (ct_players ct)\<rparr>) s"
    and j: "j = i" and u: "player_keys_unique (update_where (\<lambda>p. pl_id p = i) (updated_player f st ti) (players s))"
    using u by (auto simp: update_player_def rbind_eq_Inr Let_def on_catalog_def split: if_splits)
  let ?g = "updated_player f st ti"
  have ps: "players s' = update_where (\<lambda>p. pl_id p = i) ?g (players s)" by (simp add: s' on_catalog_def)
  have g: "pl_id (?g x) = pl_id x" "pl_provider (?g x) = pl_provider x"
    "pl_provider_user_id (?g x) = merged False (if_provider_user_id f) (pl_provider_user_id x)" for x
    by (simp_all add: updated_player_def Let_def)
  have ids: "map pl_id (players s') = map pl_id (players s)" unfolding ps by (rule map_update_where) (rule g)
  have refs: "user_refs s' = user_refs s" by (simp add: s' user_refs_def catalog_refs_def on_catalog_def)
  have "x = p" if "x \<in> set (players s)" "pl_id x = i" for x
    using player_tab.unique_key_eq [of "players s" x p] ok(1) that p by (simp add: players_ok_def)
  then have stable: "merged False (if_provider_user_id f) (pl_provider_user_id x) = pl_provider_user_id x"
    if "x \<in> set (players s)" "pl_id x = i" "pl_provider_user_id x \<noteq> None" for x
    using same that by (auto simp: merged_def split: option.splits)
  have "accounts_kept (players s) (players s')"
    unfolding accounts_kept_def
  proof (intro ballI impI)
    fix x assume x: "x \<in> set (players s)" "pl_provider_user_id x \<noteq> None"
    show "\<exists>q \<in> set (players s'). pl_id q = pl_id x \<and> pl_provider q = pl_provider x \<and> pl_provider_user_id q = pl_provider_user_id x"
      using x stable [of x] g [of x] unfolding ps set_update_where by (intro bexI [of _ "if pl_id x = i then ?g x else x"]) auto
  qed
  moreover have "players_ok s'"
    using ok(1) u ids by (simp add: players_ok_def ps s' on_catalog_def player_tab.unique_keys_update g list_all_iff set_update_where)
      (auto simp: g)
  moreover have "refs_ok s'" using ok(2) ids refs unfolding refs_ok_def by (metis set_map)
  moreover have "\<exists>q \<in> set (players s'). pl_id q = i \<and> pl_provider q = pl_provider p
        \<and> (if_provider_user_id f \<noteq> None \<longrightarrow> pl_provider_user_id q = if_provider_user_id f)"
    using p g [of p] unfolding ps set_update_where by (intro bexI [of _ "?g p"]) (auto simp: merged_def image_iff split: option.splits)
  ultimately show ?thesis using ids j by blast
qed

lemma merge_user_placeholder_ok:
  assumes ok: "players_ok s" "refs_ok s" and x: "x \<in> set (players s)" and y: "y \<in> set (players s)" "pl_provider_user_id y = None"
    and apart: "pl_id x \<noteq> pl_id y"
  defines "s' \<equiv> merge_user_placeholder (pl_id x) (pl_id y) s"
  shows "players_ok s' \<and> refs_ok s' \<and> accounts_kept (players s) (players s')
    \<and> set (map pl_id (players s')) = set (map pl_id (players s)) - {pl_id y}
    \<and> (\<exists>x' \<in> set (players s'). identity_of x' = identity_of x)"
proof -
  note m = merge_user_placeholder_moved [OF apart, of s, folded s'_def]
  have ids: "map identity_of (players s') = filter (\<lambda>k. fst k \<noteq> pl_id y) (map identity_of (players s))" using m(3) by (simp add: identities_def)
  have fst: "map fst (map identity_of ps) = map pl_id ps" for ps by (simp add: identity_of_def)
  have pl: "map pl_id (players s') = filter (\<lambda>i. i \<noteq> pl_id y) (map pl_id (players s))" using m(2) by (simp only: identities_def fst)
  have kept: "\<exists>q \<in> set (players s'). identity_of q = identity_of p" if p: "p \<in> set (players s)" "pl_id p \<noteq> pl_id y" for p
  proof -
    have "identity_of p \<in> set (map identity_of (players s'))" unfolding ids using p by (simp add: identity_of_def)
    then show ?thesis by auto
  qed
  have "accounts_kept (players s) (players s')"
    unfolding accounts_kept_def
  proof (intro ballI impI)
    fix p assume p: "p \<in> set (players s)" "pl_provider_user_id p \<noteq> None"
    then have "pl_id p \<noteq> pl_id y" using player_tab.unique_key_eq [of "players s" p y] ok(1) y by (auto simp: players_ok_def)
    then show "\<exists>q \<in> set (players s'). pl_id q = pl_id p \<and> pl_provider q = pl_provider p \<and> pl_provider_user_id q = pl_provider_user_id p"
      using kept [OF p(1)] by (auto simp: identity_of_def)
  qed
  moreover have "players_ok s'"
  proof -
    have "distinct (map pl_id (players s'))" unfolding pl using ok(1) by (simp add: players_ok_def player_tab.unique_keys_def)
    moreover have "keys_unique (map identity_of (players s'))" unfolding ids
      using ok(1) by (intro keys_unique_filter) (simp add: players_ok_def player_keys_unique_identities)
    moreover have "pl_id p < ct_next_player (si_catalog s)" if "p \<in> set (players s')" for p
    proof -
      have "pl_id p \<in> set (map pl_id (players s'))" using that by simp
      then show ?thesis unfolding pl using ok(1) by (auto simp: players_ok_def list_all_iff)
    qed
    ultimately show ?thesis
      by (simp add: players_ok_def player_keys_unique_identities player_tab.unique_keys_def list_all_iff s'_def merge_user_placeholder_next)
  qed
  moreover have set: "set (map pl_id (players s')) = set (map pl_id (players s)) - {pl_id y}" unfolding pl by auto
  moreover have "refs_ok s'"
  proof -
    have "user_refs s' \<subseteq> insert (pl_id x) (user_refs s - {pl_id y})" using m(1) by (simp add: moved_def)
    then show ?thesis using ok(2) set x apart unfolding refs_ok_def by auto
  qed
  ultimately show ?thesis using kept [OF x apart] by blast
qed

end
