(* ===== verification/Collection_Laws.thy ===== *)
theory Collection_Laws
  imports Collection "HOL-Library.Multiset"
begin

text \<open>
  What the operations of a collection do to the milliseconds proven complete. \<open>covers co u t\<close> says
  that some complete range of user \<open>u\<close> holds \<open>t\<close>; only \<open>record_source_range\<close> adds points, the history row
  repeats points that are already covered, and nothing removes one.
\<close>

section \<open>Actions\<close>

lemma andthen_Inr: "andthen m f s = (Inr y, s') \<longleftrightarrow> (\<exists>x t. m s = (Inr x, t) \<and> f x t = (Inr y, s'))"
  by (auto simp: andthen_def split: prod.splits sum.splits)

lemma ret_Inr [simp]: "ret x s = (Inr y, s') \<longleftrightarrow> y = x \<and> s' = s"
  by (auto simp: ret_def)

lemma raise_Inr [simp]: "raise e s \<noteq> (Inr y, s')"
  by (simp add: raise_def)

lemma ask_site_Inr [simp]: "ask_site f s = (Inr y, s') \<longleftrightarrow> f s = Inr y \<and> s' = s"
  by (auto simp: ask_site_def)

lemma see_Inr [simp]: "see f s = (Inr y, s') \<longleftrightarrow> y = f s \<and> s' = s"
  by (auto simp: see_def)

lemma upd_coll_Inr [simp]: "upd_coll f s = (Inr y, s') \<longleftrightarrow> s' = s\<lparr>si_coll := f (si_coll s)\<rparr>"
  by (auto simp: upd_coll_def)

lemma tx_Inr: "tx m s = (Inr y, s') \<longleftrightarrow> m s = Inr (s', y)"
  by (auto simp: tx_def split: sum.splits prod.splits)

section \<open>Covered points\<close>

definition covers :: "coll \<Rightarrow> string \<Rightarrow> int \<Rightarrow> bool" where
  "covers co u t \<longleftrightarrow> (\<exists>c \<in> set (covered_spans co u). in_span t c)"

lemma covers_iff:
  "covers co u t \<longleftrightarrow> (\<exists>g \<in> set (co_ranges co). sg_username g = lower u \<and> in_span t (sg_since_ms g, sg_until_ms g))
     \<or> (\<exists>r \<in> set (co_coverage co). history_complete u r \<and> t < the (cv_until_ms r))"
proof -
  have "covers co u t \<longleftrightarrow> (\<exists>c \<in> set (map (\<lambda>g. (sg_since_ms g, sg_until_ms g)) (filter (\<lambda>g. sg_username g = lower u) (co_ranges co))
      @ map (\<lambda>r. (None, the (cv_until_ms r))) (filter (history_complete u) (co_coverage co))). in_span t c)"
    unfolding covers_def covered_spans_def set_filter using in_span_nonempty [of t] by blast
  then show ?thesis by (simp add: bex_Un in_span_def conj_assoc) (simp only: Bex_def)
qed

text \<open>Upserts, row by row.\<close>

lemma record_coverage_rows:
  assumes "r \<in> set (co_coverage (record_coverage new co))"
  shows "r \<in> set (co_coverage co) \<or> cv_unit_key r = cv_unit_key new \<and> cv_until_ms r = cv_until_ms new
     \<and> cv_username r = lower (cv_username new) \<and> cv_provider r = cv_provider new"
  using assms by (auto simp: record_coverage_def Let_def update_where_def split: if_splits)

lemma record_coverage_keeps:
  assumes "r \<in> set (co_coverage co)"
  shows "\<exists>r' \<in> set (co_coverage (record_coverage new co)). r' = r \<or> replaces (new\<lparr>cv_username := lower (cv_username new)\<rparr>) r
     \<and> coverage_key (cv_provider new) (lower (cv_username new)) (cv_unit_key new) r
     \<and> (\<exists>i. r' = new\<lparr>cv_username := lower (cv_username new), cv_raw_payload_id := i\<rparr>)"
  using assms by (auto simp: record_coverage_def Let_def update_where_def)

text \<open>Rows of other units leave the covered points alone.\<close>

lemma other_unit_rows:
  assumes "cv_unit_key new \<noteq> ''history''" "history_complete u r"
  shows "r \<in> set (co_coverage (record_coverage new co)) \<longleftrightarrow> r \<in> set (co_coverage co)"
proof
  have unit: "cv_unit_key r = ''history''" using assms(2) by (simp add: history_complete_def)
  show "r \<in> set (co_coverage co)" if "r \<in> set (co_coverage (record_coverage new co))"
    using record_coverage_rows [OF that] unit assms(1) by auto
  show "r \<in> set (co_coverage (record_coverage new co))" if "r \<in> set (co_coverage co)"
    using record_coverage_keeps [OF that, of new] unit assms(1) by (auto simp: coverage_key_def)
qed

lemma co_ranges_record_coverage [simp]: "co_ranges (record_coverage new co) = co_ranges co"
  by (simp add: record_coverage_def Let_def)

lemma covers_other_unit [simp]: "cv_unit_key new \<noteq> ''history'' \<Longrightarrow> covers (record_coverage new co) u t = covers co u t"
  unfolding covers_iff using other_unit_rows [of new u] by auto

lemma covers_save_checkpoint [simp]: "covers (save_checkpoint job c now co) u t = covers co u t"
  by (simp add: covers_iff save_checkpoint_def)

lemma covers_track_followup [simp]: "covers (track_followup v ref created finished now co) u t = covers co u t"
  by (simp add: covers_iff track_followup_def Let_def)

lemma covers_track_games: "track_games v gs now co = Inr co' \<Longrightarrow> covers co' u t = covers co u t"
proof (induction gs arbitrary: co)
  case (Cons g gs)
  obtain co1 where "track_game v g now co = Inr co1" "track_games v gs now co1 = Inr co'"
    using Cons.prems by (auto simp: rbind_eq_Inr)
  moreover from this have "covers co1 u t = covers co u t"
    by (auto simp: track_game_def split: json.splits list.splits if_splits)
  ultimately show ?case using Cons.IH by simp
qed simp

lemma covers_record_source_range:
  assumes "\<forall>g \<in> set (co_ranges co). sg_username g = lower v \<longrightarrow> sg_raw_payload_id g \<noteq> raw"
  shows "covers (record_source_range v raw since until co) u t \<longleftrightarrow> covers co u t \<or> lower u = lower v \<and> in_span t (since, until)"
proof -
  have "find_row (\<lambda>g. sg_username g = lower v \<and> sg_raw_payload_id g = raw) (co_ranges co) = None"
    using assms by (auto simp: find_row_None)
  then show ?thesis by (auto simp: covers_iff record_source_range_def)
qed

subsection \<open>The history row\<close>

lemma high_water_below: "history_high_water co u = Some h \<Longrightarrow> t < h \<Longrightarrow> covers co u t"
  using high_water_spec [of "sort_key span_order (covered_spans co u)"]
  by (auto simp: history_high_water_def covers_def)

lemma high_water_row_covers:
  assumes "cv_unit_key new = ''history''" "history_complete u r" "r \<in> set (co_coverage co)" "t < the (cv_until_ms r)"
  shows "\<exists>r' \<in> set (co_coverage (record_coverage new co)). history_complete u r' \<and> t < the (cv_until_ms r')"
proof -
  obtain r' where r': "r' \<in> set (co_coverage (record_coverage new co))"
    and how: "r' = r \<or> replaces (new\<lparr>cv_username := lower (cv_username new)\<rparr>) r
     \<and> coverage_key (cv_provider new) (lower (cv_username new)) (cv_unit_key new) r
     \<and> (\<exists>i. r' = new\<lparr>cv_username := lower (cv_username new), cv_raw_payload_id := i\<rparr>)"
    using record_coverage_keeps [OF assms(3), of new] by auto
  have "history_complete u r' \<and> t < the (cv_until_ms r')"
    using how assms by (auto simp: history_complete_def replaces_def coverage_key_def)
  with r' show ?thesis by blast
qed

lemma covers_note_history [simp]: "covers (note_history v raw now co) u t = covers co u t"
proof (cases "history_high_water co v")
  case (Some h)
  define new where "new = (covered_row ''lichess'' v ''history'' ''complete'' now)\<lparr>cv_raw_payload_id := raw, cv_until_ms := Some h\<rparr>"
  have written: "note_history v raw now co = record_coverage new co" using Some by (simp add: note_history_def new_def)
  have row: "cv_unit_key new = ''history''" "cv_until_ms new = Some h" "cv_username new = v"
    by (simp_all add: new_def covered_row_def)
  have "covers co u t" if r: "r \<in> set (co_coverage (record_coverage new co))" "history_complete u r" "t < the (cv_until_ms r)" for r
    using record_coverage_rows [OF r(1)]
  proof
    assume "r \<in> set (co_coverage co)"
    then show ?thesis using r by (auto simp: covers_iff)
  next
    assume "cv_unit_key r = cv_unit_key new \<and> cv_until_ms r = cv_until_ms new \<and> cv_username r = lower (cv_username new) \<and> cv_provider r = cv_provider new"
    then have "lower u = lower v" "t < h" using r row by (auto simp: history_complete_def)
    then show ?thesis using high_water_below [OF Some] by (simp add: covers_iff history_complete_def)
  qed
  then have "covers (record_coverage new co) u t \<Longrightarrow> covers co u t"
    unfolding covers_iff [of "record_coverage new co"] by (auto simp: covers_iff)
  moreover have "covers co u t \<Longrightarrow> covers (record_coverage new co) u t"
    using high_water_row_covers [OF row(1)] unfolding covers_iff by auto
  ultimately show ?thesis using written by auto
qed (simp add: note_history_def)

section \<open>Pages\<close>

lemma unit_keys [simp]: "window_unit a b \<noteq> ''history''" "page_unit a b n \<noteq> ''history''"
  by (simp_all add: window_unit_def page_unit_def)

lemma covered_row_unit [simp]: "cv_unit_key (covered_row p u unit st now) = unit"
  by (simp add: covered_row_def)

lemma covers_note_window [simp]: "covers (note_window v raw since until now co) u t = covers co u t"
  by (simp add: note_window_def)

lemma covers_save_pages [simp]: "covers (save_pages j c now co) u t = covers co u t"
  by (simp add: save_pages_def)

lemma covers_commit_page [simp]: "covers (commit_page j v now w range_done dn c c' co) u t = covers co u t"
  by (simp add: commit_page_def Let_def)

definition fresh_source :: "coll \<Rightarrow> string \<Rightarrow> int \<Rightarrow> bool" where
  "fresh_source co v raw \<longleftrightarrow> (\<forall>g \<in> set (co_ranges co). sg_username g = lower v \<longrightarrow> sg_raw_payload_id g \<noteq> raw)"

lemma keep_range_covers:
  assumes "keep_range v now w c games s = (Inr x, s')" "fresh_source (si_coll s) v (rw_id w)"
  shows "covers (si_coll s') u t \<longleftrightarrow> covers (si_coll s) u t
     \<or> lower u = lower v \<and> in_span t (covered_since (pc_since_ms c) (pc_limit c) games, pc_until_ms c)"
proof -
  obtain co where co: "track_games v (map fst games) now (record_source_range v (rw_id w)
      (covered_since (pc_since_ms c) (pc_limit c) games) (pc_until_ms c) (si_coll s)) = Inr co" and s': "si_coll s' = co"
    using assms(1) by (auto simp: keep_range_def tx_Inr rbind_eq_Inr)
  show ?thesis
    using covers_track_games [OF co] covers_record_source_range [of "si_coll s" v "rw_id w"] assms(2)
    by (simp add: s' fresh_source_def)
qed

lemma absorb_page_Inr:
  assumes "absorb_page j v mode psize max_size now w c games ids s = (Inr r, s')"
  obtains s1 dn c2 where "keep_range v now w c games s = (Inr (), s1)"
    "si_coll s' = commit_page j v now w (int (length games) < pc_limit c) dn c c2 (si_coll s1)" "cr_done r = dn"
    "if mode = ''backfill'' then dn = (int (length games) < pc_limit c)
     else \<exists>ws. missing_windows (si_coll s1) v (pc_requested_since_ms c) (pc_upper_ms c) = Inr ws \<and> dn = (ws = [])"
    "c2 = (let c1 = (if int (length games) < pc_limit c then c
        else c\<lparr>pc_until_ms := snd (last games) + 1, pc_limit := next_limit psize (pc_until_ms c) (pc_limit c) games\<rparr>)
      in if dn then c1\<lparr>pc_done := True\<rparr> else c1)"
    "int (length games) < pc_limit c \<or> next_limit psize (pc_until_ms c) (pc_limit c) games \<le> max_size"
  using assms
  by (auto simp: absorb_page_def Let_def andthen_Inr rbind_eq_Inr over_budget_def collected_def not_less split: if_splits)

lemma absorb_page_covers:
  assumes "absorb_page j v mode psize max_size now w c games ids s = (Inr r, s')" "fresh_source (si_coll s) v (rw_id w)"
  shows "covers (si_coll s') u t \<longleftrightarrow> covers (si_coll s) u t
     \<or> lower u = lower v \<and> in_span t (covered_since (pc_since_ms c) (pc_limit c) games, pc_until_ms c)"
proof -
  obtain s1 dn c2 where s1: "keep_range v now w c games s = (Inr (), s1)"
    and s': "si_coll s' = commit_page j v now w (int (length games) < pc_limit c) dn c c2 (si_coll s1)"
    by (rule absorb_page_Inr [OF assms(1)])
  show ?thesis using keep_range_covers [OF s1 assms(2)] by (simp add: s')
qed

subsection \<open>Honest pages\<close>

text \<open>The provider's contract: the newest \<open>limit\<close> games of the window among the user's games.\<close>

definition honest_page :: "int list \<Rightarrow> int option \<Rightarrow> int \<Rightarrow> int \<Rightarrow> int list \<Rightarrow> bool" where
  "honest_page history since until limit ts \<longleftrightarrow>
     ts = take (nat limit) (List.rev (sort (filter (\<lambda>t. in_span t (since, until)) history)))"

lemma count_list_mset: "count_list xs x = count (mset xs) x"
  by (induction xs) auto

lemma descending_take:
  assumes "sorted (List.rev xs)" "n \<le> length xs" "0 < n" "last (take n xs) < t"
  shows "count_list (take n xs) t = count_list xs t"
proof -
  have "x \<le> last (take n xs)" if x: "x \<in> set (drop n xs)" for x
  proof -
    obtain i where i: "i < length xs - n" "x = xs ! (n + i)" using x by (auto simp: in_set_conv_nth)
    have "xs ! (n + i) \<le> xs ! (n - 1)" using assms(1,3) i by (intro sorted_rev_nth_mono) auto
    moreover have "last (take n xs) = xs ! (n - 1)" using assms(2,3) by (subst last_conv_nth) auto
    ultimately show ?thesis using i(2) by simp
  qed
  then have "t \<notin> set (drop n xs)" using assms(4) by force
  moreover have "count_list xs t = count_list (take n xs) t + count_list (drop n xs) t"
    by (metis append_take_drop_id count_list_append)
  ultimately show ?thesis by (simp add: count_notin)
qed

lemma honest_page_complete:
  assumes "honest_page history since until limit (map snd games)" "0 < limit"
    "in_span t (covered_since since limit games, until)"
  shows "count_list (map snd games) t = count_list history t"
proof -
  define xs where "xs = List.rev (sort (filter (\<lambda>t. in_span t (since, until)) history))"
  have page: "map snd games = take (nat limit) xs" using assms(1) by (simp add: honest_page_def xs_def)
  have len: "length games = min (length xs) (nat limit)" using arg_cong [OF page, of length] by simp
  have all: "count_list xs t = count_list history t" if "in_span t (since, until)"
    using that by (simp add: xs_def count_list_mset)
  show ?thesis
  proof (cases "int (length games) < limit")
    case True
    then have "take (nat limit) xs = xs" using len by simp
    then show ?thesis using page all assms(3) True by (simp add: covered_since_def)
  next
    case False
    then have n: "nat limit \<le> length xs" "0 < nat limit" "games \<noteq> []" using len assms(2) by auto
    have oldest: "snd (last games) = last (take (nat limit) xs)" using n(3) by (simp add: page [symmetric] last_map)
    have t: "last (take (nat limit) xs) < t" "t < until"
      using assms(3) False by (simp_all add: covered_since_def in_span_def oldest [symmetric])
    have "last (take (nat limit) xs) \<in> set xs" using n by (metis in_set_takeD last_in_set list.size(3) length_take min.absorb2 not_less_zero)
    then have "in_span (last (take (nat limit) xs)) (since, until)" by (simp add: xs_def)
    then have "in_span t (since, until)" using t by (auto simp: in_span_def split: option.splits)
    then show ?thesis using all descending_take [of xs "nat limit" t] n t page by (simp add: xs_def)
  qed
qed

section \<open>Missing windows\<close>

lemma in_covered_spans_nonempty: "\<forall>c \<in> set (covered_spans co u). nonempty c"
  unfolding covered_spans_def set_filter by simp

lemma missing_windows_points:
  assumes "missing_windows co u since until = Inr ws"
  shows "(\<exists>w \<in> set ws. in_span t w) \<longleftrightarrow> in_span t (since, until) \<and> \<not> covers co u t"
proof -
  have ws: "set ws = set (minus_spans (filter nonempty [(since, until)]) (covered_spans co u))"
    using assms by (auto simp: missing_windows_def split: if_splits)
  have "(\<exists>s \<in> set (filter nonempty [(since, until)]). in_span t s) \<longleftrightarrow> in_span t (since, until)"
    using in_span_nonempty by auto
  then show ?thesis using minus_spans_points [OF in_covered_spans_nonempty] by (simp add: ws covers_def)
qed

lemma apart_sym: "apart v w \<Longrightarrow> apart w v"
  by (auto simp: apart_def)

lemma apart_irrefl: "nonempty w \<Longrightarrow> \<not> apart w w"
  by (auto simp: apart_def nonempty_def split: option.splits)

lemma spread_pairwise:
  "spread ws \<Longrightarrow> distinct ws \<and> (\<forall>v \<in> set ws. \<forall>w \<in> set ws. v \<noteq> w \<longrightarrow> apart v w)"
proof (induction ws)
  case (Cons w ws)
  have ws: "spread ws" "nonempty w" "\<forall>v \<in> set ws. apart w v" using Cons.prems by (auto simp: spread_def)
  have "w \<notin> set ws" using ws(2,3) apart_irrefl by blast
  then show ?case using Cons.IH [OF ws(1)] ws(3) apart_sym by (simp add: Ball_def)
qed simp

text \<open>Newest first, with a gap below each window.\<close>

definition newer :: "span \<Rightarrow> span \<Rightarrow> bool" where
  "newer v w \<longleftrightarrow> (case fst v of None \<Rightarrow> False | Some l \<Rightarrow> snd w < l)"

lemma missing_windows_newer:
  assumes "missing_windows co u since until = Inr ws"
  shows "(\<forall>w \<in> set ws. nonempty w) \<and> sorted_wrt newer ws"
proof -
  let ?xs = "minus_spans (filter nonempty [(since, until)]) (covered_spans co u)"
  have "spread (filter nonempty [(since, until)])" by (simp add: spread_def)
  then have xs: "spread ?xs" using minus_spans_spread [OF in_covered_spans_nonempty] by blast
  note pairwise = spread_pairwise [OF xs]
  have ws: "ws = List.rev (sort_key snd ?xs)" using assms by (auto simp: missing_windows_def split: if_splits)
  have elems: "set ws = set ?xs" unfolding ws by simp
  have dist: "distinct ws" unfolding ws using pairwise by simp
  have full: "\<forall>w \<in> set ws. nonempty w" using xs unfolding spread_def elems by blast
  have "sorted_wrt (\<lambda>v w. snd w \<le> snd v) ws"
    using sorted_sort_key [of snd ?xs] by (simp add: ws sorted_wrt_rev sorted_map)
  moreover have "newer v w" if "v \<in> set ws" "w \<in> set ws" "v \<noteq> w" "snd w \<le> snd v" for v w
  proof -
    have "apart v w" "nonempty w" using that pairwise full unfolding elems by blast+
    then show ?thesis using that(4) by (auto simp: newer_def apart_def nonempty_def split: option.splits)
  qed
  ultimately have "sorted_wrt newer ws" using dist by (auto simp: sorted_wrt_iff_nth_less distinct_conv_nth)
  then show ?thesis using full by simp
qed

lemma no_missing_window:
  "missing_windows co u since until = Inr [] \<Longrightarrow> in_span t (since, until) \<Longrightarrow> covers co u t"
  using missing_windows_points [of co u since until "[]" t] by simp

lemma first_window_empty:
  assumes "first_window co u since upper = Inr w" "fst w = Some (snd w)" "in_span t (since, upper)"
  shows "covers co u t"
proof -
  obtain ws where ws: "missing_windows co u since upper = Inr ws" "w = (case ws of [] \<Rightarrow> (Some upper, upper) | w # _ \<Rightarrow> w)"
    using assms(1) by (auto simp: first_window_def rbind_eq_Inr)
  have "ws = []"
    using missing_windows_newer [OF ws(1)] ws(2) assms(2) by (cases ws) (auto simp: nonempty_def)
  then show ?thesis using no_missing_window ws(1) assms(3) by simp
qed

lemma first_window_nonempty:
  assumes "first_window co u since upper = Inr w" "fst w \<noteq> Some (snd w)"
  shows "nonempty w"
proof -
  obtain ws where ws: "missing_windows co u since upper = Inr ws" "w = (case ws of [] \<Rightarrow> (Some upper, upper) | w # _ \<Rightarrow> w)"
    using assms(1) by (auto simp: first_window_def rbind_eq_Inr)
  then show ?thesis using missing_windows_newer [OF ws(1)] assms(2) by (cases ws) auto
qed

section \<open>Checkpoints\<close>

lemma checkpoint_save [simp]: "checkpoint (save_checkpoint job c now co) job = Some c"
  by (auto simp: checkpoint_def save_checkpoint_def find_row_append find_row_update_where)

lemma page_cursor_roundtrip [simp]: "page_cursor_of (page_cursor_json c) = Inr c"
  by (cases c) (auto simp: page_cursor_of_def page_cursor_json_def str_field_def int_field_def opt_int_field_def done_key_def
    has_key_def obj_get_def opt_int_def truthy_def rbind_def split: option.splits)

lemma units_roundtrip: "rmap (\<lambda>u. case u of JStr t \<Rightarrow> Inr t | _ \<Rightarrow> Inl (KeyError ''units'')) (map JStr us) = Inr us"
  by (induction us) (auto simp: rbind_def)

lemma month_cursor_roundtrip [simp]: "month_cursor_of (month_cursor_json c) = Inr c"
  using units_roundtrip [of "mc_units c"]
  by (cases c) (auto simp: month_cursor_of_def month_cursor_json_def str_field_def int_field_def done_key_def
    obj_get_def truthy_def rbind_def)

lemma checkpoint_save_pages [simp]: "checkpoint (save_pages j c now co) (j_id j) = Some (page_cursor_json c)"
  by (simp add: save_pages_def)

section \<open>Completion\<close>

text \<open>A collection that ends has a completed checkpoint, and its requested window is covered.\<close>

definition completed :: "job \<Rightarrow> string \<Rightarrow> coll \<Rightarrow> bool" where
  "completed j u co \<longleftrightarrow> (\<exists>cursor c. checkpoint co (j_id j) = Some cursor \<and> page_cursor_of cursor = Inr c \<and> pc_done c
     \<and> (\<forall>t. in_span t (pc_requested_since_ms c, pc_upper_ms c) \<longrightarrow> covers co u t))"

lemma completedI:
  assumes "co = save_pages j c now co'" "pc_done c" "\<And>t. in_span t (pc_requested_since_ms c, pc_upper_ms c) \<Longrightarrow> covers co' u t"
  shows "completed j u co"
  using assms by (auto simp: completed_def)

lemma failure_not_done: "failure p u unit r now n ids s = (Inr f, s') \<Longrightarrow> \<not> cr_done f"
  by (auto simp: failure_def covering_def andthen_Inr)

lemma collected_done [simp]: "cr_done (collected dn n ids m) = dn"
  by (simp add: collected_def)

lemma absorb_page_completed:
  assumes "absorb_page j u mode psize max_size now w c games ids s = (Inr r, s')" "mode \<noteq> ''backfill''" "cr_done r"
  shows "completed j u (si_coll s')"
proof -
  obtain s1 dn c2 where "keep_range u now w c games s = (Inr (), s1)"
    and s': "si_coll s' = commit_page j u now w (int (length games) < pc_limit c) dn c c2 (si_coll s1)" and dn: "cr_done r = dn"
    and miss: "if mode = ''backfill'' then dn = (int (length games) < pc_limit c)
       else \<exists>ws. missing_windows (si_coll s1) u (pc_requested_since_ms c) (pc_upper_ms c) = Inr ws \<and> dn = (ws = [])"
    and c2: "c2 = (let c1 = (if int (length games) < pc_limit c then c
        else c\<lparr>pc_until_ms := snd (last games) + 1, pc_limit := next_limit psize (pc_until_ms c) (pc_limit c) games\<rparr>)
      in if dn then c1\<lparr>pc_done := True\<rparr> else c1)"
    and "int (length games) < pc_limit c \<or> next_limit psize (pc_until_ms c) (pc_limit c) games \<le> max_size"
    by (rule absorb_page_Inr [OF assms(1)])
  have "missing_windows (si_coll s1) u (pc_requested_since_ms c) (pc_upper_ms c) = Inr []" using miss dn assms(2,3) by auto
  then have cov: "covers (si_coll s1) u t" if "in_span t (pc_requested_since_ms c, pc_upper_ms c)" for t
    using that no_missing_window by blast
  have c2': "pc_done c2" "pc_requested_since_ms c2 = pc_requested_since_ms c" "pc_upper_ms c2 = pc_upper_ms c"
    using dn assms(3) by (simp_all add: c2 Let_def)
  obtain co' where co': "si_coll s' = save_pages j c2 now co'" by (simp add: s' commit_page_def Let_def)
  have "covers co' u t = covers (si_coll s1) u t" for t
  proof -
    have "covers (si_coll s') u t = covers (si_coll s1) u t" by (simp add: s')
    then show ?thesis by (simp add: co')
  qed
  then show ?thesis using completedI [OF co' c2'(1)] cov c2' by simp
qed

lemma fetch_page_completed:
  assumes "fetch_page e j provider u mode psize max_size now c s = (Inr r, s')" "mode \<noteq> ''backfill''" "cr_done r"
  shows "completed j u (si_coll s')"
  using assms absorb_page_completed failure_not_done
  by (fastforce simp: fetch_page_def Let_def andthen_Inr split: if_splits prod.splits)

lemma already_covered_completed:
  assumes "already_covered j u now c s = (Inr r, s')" "\<And>t. in_span t (pc_requested_since_ms c, pc_upper_ms c) \<Longrightarrow> covers (si_coll s) u t"
  shows "completed j u (si_coll s')"
  using assms by (intro completedI [where c = "c\<lparr>pc_done := True\<rparr>"]) (auto simp: already_covered_def andthen_Inr)

lemma stopped_Inr [simp]: "stopped e s = (Inr b, s') \<longleftrightarrow> b = ce_stop e (si_polls s) \<and> s' = s\<lparr>si_polls := si_polls s + 1\<rparr>"
  by (auto simp: stopped_def)

lemma move_window_Inr:
  assumes "move_window u mode psize c0 s = (Inr c, s')" "mode \<noteq> ''backfill''"
  shows "s' = s \<and> first_window (si_coll s) u (pc_requested_since_ms c) (pc_upper_ms c) = Inr (pc_since_ms c, pc_until_ms c)"
  using assms by (auto simp: move_window_def andthen_Inr)

lemma page_phase_completed:
  assumes "page_phase e j provider u mode psize max_size now c0 s = (Inr r, s')" "mode \<noteq> ''backfill''" "cr_done r"
  shows "completed j u (si_coll s')"
proof -
  define s0 where "s0 = s\<lparr>si_polls := si_polls s + 1\<rparr>"
  have "\<not> ce_stop e (si_polls s)" using assms(1,3) by (auto simp: page_phase_def andthen_Inr)
  then obtain c s1 where c: "move_window u mode psize c0 s0 = (Inr c, s1)"
    and run: "(if pc_since_ms c = Some (pc_until_ms c) then already_covered j u now c
         else fetch_page e j provider u mode psize max_size now c) s1 = (Inr r, s')"
    using assms(1) by (auto simp: page_phase_def andthen_Inr s0_def)
  show ?thesis
  proof (cases "pc_since_ms c = Some (pc_until_ms c)")
    case True
    have "s1 = s0" "first_window (si_coll s0) u (pc_requested_since_ms c) (pc_upper_ms c) = Inr (pc_since_ms c, pc_until_ms c)"
      using move_window_Inr [OF c assms(2)] by auto
    then show ?thesis using run True first_window_empty already_covered_completed by simp
  next
    case False
    then show ?thesis using run fetch_page_completed assms(2,3) by simp
  qed
qed

subsection \<open>The phases before the pages\<close>

lemma replay_stored_not_done: "replay_stored e j now is p s = (Inr (Inl f), s') \<Longrightarrow> \<not> cr_done f"
proof (induction "is" arbitrary: p s)
  case (Cons i "is")
  then show ?case by (cases p) (auto simp: andthen_Inr Let_def split: if_splits)
qed simp

lemma stored_phase_not_done: "stored_phase e j u b now c s = (Inr (Inl f), s') \<Longrightarrow> \<not> cr_done f"
  by (auto simp: stored_phase_def andthen_Inr Let_def split_sum_ex split: if_splits prod.splits dest: replay_stored_not_done)

lemma followup_step_not_done: "followup_step e j provider u now ref p s = (Inr (Inl f), s') \<Longrightarrow> \<not> cr_done f"
  by (cases p) (auto simp: followup_step_def andthen_Inr Let_def split: if_splits prod.splits dest: failure_not_done)

lemma followup_loop_not_done: "followup_loop e j provider u now refs p s = (Inr (Inl f), s') \<Longrightarrow> \<not> cr_done f"
proof (induction refs arbitrary: p s)
  case (Cons ref refs)
  then show ?case by (auto simp: andthen_Inr split_sum_ex split: if_splits dest: followup_step_not_done)
qed simp

lemma followup_phase_not_done: "followup_phase e j provider u b now c s = (Inr (Inl f), s') \<Longrightarrow> \<not> cr_done f"
  by (auto simp: followup_phase_def andthen_Inr Let_def split_sum_ex split: if_splits prod.splits dest: followup_loop_not_done)

lemma lichess_completed:
  assumes "lichess e j params cursor provider u mode b fp now_ms s = (Inr r, s')" "mode \<noteq> ''backfill''" "cr_done r"
  shows "completed j u (si_coll s')"
  using assms
  by (auto simp: lichess_def Let_def andthen_Inr split_sum_ex
      dest: stored_phase_not_done followup_phase_not_done page_phase_completed)

section \<open>Progress\<close>

text \<open>A page that does not exhaust its window covers part of it, or doubles the limit.\<close>

lemma page_games_Inr:
  assumes "page_games since until limit vs = Inr games"
  shows "int (length games) \<le> limit" "\<forall>g \<in> set games. in_span (snd g) (since, until)" "sorted (List.rev (map snd games))"
proof -
  have map: "rmap (page_game since until) vs = Inr games" and len: "int (length vs) \<le> limit"
    and sort: "map snd games = List.rev (sort (map snd games))"
    using assms by (auto simp: page_games_def rbind_eq_Inr split: if_splits)
  have "length games = length vs \<and> (\<forall>g \<in> set games. in_span (snd g) (since, until))" using map
  proof (induction vs arbitrary: games)
    case (Cons v vs)
    then obtain g gs where "page_game since until v = Inr g" "rmap (page_game since until) vs = Inr gs" "games = g # gs"
      by (auto simp: rbind_eq_Inr)
    moreover from this(1) have "in_span (snd g) (since, until)"
      by (auto simp: page_game_def in_span_def split: json.splits if_splits option.splits)
    ultimately show ?case using Cons.IH by auto
  qed simp
  then show "int (length games) \<le> limit" "\<forall>g \<in> set games. in_span (snd g) (since, until)" using len by auto
  show "sorted (List.rev (map snd games))" by (subst sort) simp
qed

lemma page_progress:
  assumes "page_games since until limit vs = Inr games" "0 < limit" "0 < psize" "nonempty (since, until)"
  shows "nonempty (covered_since since limit games, until) \<or> 2 * limit \<le> next_limit psize until limit games"
proof (cases "int (length games) < limit")
  case False
  then have "games \<noteq> []" using assms(2) by auto
  then have "in_span (snd (last games)) (since, until)" using page_games_Inr(2) [OF assms(1)] by simp
  then show ?thesis using False by (auto simp: in_span_def covered_since_def next_limit_def nonempty_def Let_def)
qed (use assms(4) in \<open>simp add: covered_since_def\<close>)

lemma nonempty_point:
  assumes "nonempty w"
  obtains t where "in_span t w"
proof (cases "fst w")
  case None
  then show thesis using that [of "snd w - 1"] by (simp add: in_span_def)
next
  case (Some l)
  then show thesis using that [of l] assms by (simp add: in_span_def nonempty_def)
qed

lemma oldest_inside:
  assumes "page_games since until limit vs = Inr games" "0 < limit" "\<not> int (length games) < limit"
  shows "in_span (snd (last games)) (since, until)"
proof -
  have "games \<noteq> []" using assms(2,3) by auto
  then show ?thesis using page_games_Inr(2) [OF assms(1)] by simp
qed

lemma covered_since_inside:
  assumes "page_games since until limit vs = Inr games" "0 < limit" "in_span t (covered_since since limit games, until)"
  shows "in_span t (since, until)"
  using assms(3) oldest_inside [OF assms(1,2)]
  by (auto simp: covered_since_def in_span_def split: if_splits option.splits)

lemma stuck_boundary:
  assumes "page_games since until limit vs = Inr games" "0 < limit" "\<not> int (length games) < limit"
    "\<not> nonempty (covered_since since limit games, until)"
  shows "snd (last games) + 1 = until"
  using oldest_inside [OF assms(1-3)] assms(3,4) by (auto simp: covered_since_def nonempty_def in_span_def)

end
