(* ===== verification/Normalization_Laws.thy ===== *)
theory Normalization_Laws
  imports Normalization Identity_Laws Collection_Laws Budget_Laws
begin

text \<open>
  Laws of normalization: writing a game never touches the captured payloads or loses a game or its source, every checkpoint
  names a stored game with a source record of its payload (\<open>items_ok\<close>), and the allowance of a call bounds the games it counts.
\<close>

named_theorems kept_simps \<open>steps that leave the games, their sources, the checkpoints and the payloads alone\<close>

section \<open>What identity merges leave alone\<close>

definition game_sources :: "arch \<Rightarrow> (int \<times> int) set" where
  "game_sources a = set (map (\<lambda>s. (sr_entity_id s, sr_raw_payload_id s)) (filter (\<lambda>s. sr_entity_type s = ''game'') (ar_sources a)))"

definition kept :: "site \<Rightarrow> game_rec list \<times> normalization_item list \<times> (int \<times> int) set \<times> raw_row list" where
  "kept s = (ct_games (si_catalog s), ct_normalization_items (si_catalog s), game_sources (si_arch s), ar_raw (si_arch s))"

definition kept_catalog :: "catalog \<Rightarrow> game_rec list \<times> normalization_item list" where
  "kept_catalog ct = (ct_games ct, ct_normalization_items ct)"

definition kept_arch :: "arch \<Rightarrow> (int \<times> int) set \<times> raw_row list" where
  "kept_arch a = (game_sources a, ar_raw a)"

lemma kept_iff: "kept s = kept t \<longleftrightarrow> kept_catalog (si_catalog s) = kept_catalog (si_catalog t) \<and> kept_arch (si_arch s) = kept_arch (si_arch t)"
  by (auto simp: kept_def kept_catalog_def kept_arch_def)

lemma kept_on_catalog: "kept_catalog (f (si_catalog s)) = kept_catalog (si_catalog s) \<Longrightarrow> kept (on_catalog f s) = kept s"
  by (simp add: kept_iff on_catalog_def)

lemma kept_on_arch: "kept_arch (f (si_arch s)) = kept_arch (si_arch s) \<Longrightarrow> kept (on_arch f s) = kept s"
  by (simp add: kept_iff on_arch_def)

lemma kept_db [kept_simps]: "kept (s\<lparr>si_db := d\<rparr>) = kept s" "kept (s\<lparr>si_conn := c\<rparr>) = kept s" "kept (s\<lparr>si_polls := n\<rparr>) = kept s"
  by (simp_all add: kept_def)

lemma kept_catalog_fields [kept_simps]:
  "kept_catalog (ct\<lparr>ct_players := x0\<rparr>) = kept_catalog ct" "kept_catalog (ct\<lparr>ct_aliases := x1\<rparr>) = kept_catalog ct"
  "kept_catalog (ct\<lparr>ct_snapshots := x2\<rparr>) = kept_catalog ct" "kept_catalog (ct\<lparr>ct_ratings := x3\<rparr>) = kept_catalog ct"
  "kept_catalog (ct\<lparr>ct_observations := x4\<rparr>) = kept_catalog ct" "kept_catalog (ct\<lparr>ct_resources := x5\<rparr>) = kept_catalog ct"
  "kept_catalog (ct\<lparr>ct_resource_observations := x6\<rparr>) = kept_catalog ct" "kept_catalog (ct\<lparr>ct_attempts := x7\<rparr>) = kept_catalog ct"
  "kept_catalog (ct\<lparr>ct_history_points := x8\<rparr>) = kept_catalog ct" "kept_catalog (ct\<lparr>ct_variants := x9\<rparr>) = kept_catalog ct"
  "kept_catalog (ct\<lparr>ct_time_controls := x10\<rparr>) = kept_catalog ct" "kept_catalog (ct\<lparr>ct_seats := x11\<rparr>) = kept_catalog ct"
  "kept_catalog (ct\<lparr>ct_game_ratings := x12\<rparr>) = kept_catalog ct" "kept_catalog (ct\<lparr>ct_versions := x13\<rparr>) = kept_catalog ct"
  "kept_catalog (ct\<lparr>ct_version_sources := x14\<rparr>) = kept_catalog ct" "kept_catalog (ct\<lparr>ct_normalization_runs := x15\<rparr>) = kept_catalog ct"
  "kept_catalog (ct\<lparr>ct_next_player := x16\<rparr>) = kept_catalog ct" "kept_catalog (ct\<lparr>ct_next_version := x17\<rparr>) = kept_catalog ct"
  "kept_catalog (ct\<lparr>ct_next_seat := x18\<rparr>) = kept_catalog ct" "kept_catalog (ct\<lparr>ct_next_variant := x19\<rparr>) = kept_catalog ct"
  "kept_catalog (ct\<lparr>ct_next_time_control := x20\<rparr>) = kept_catalog ct" "kept_catalog (ct\<lparr>ct_next_game := x21\<rparr>) = kept_catalog ct"
  by (simp_all add: kept_catalog_def)

lemma kept_arch_logs [kept_simps]: "kept_arch (a\<lparr>ar_logs := l\<rparr>) = kept_arch a"
  by (simp add: kept_arch_def game_sources_def)

lemma adopt_source_kept: "sr_entity_type n \<noteq> ''game'' \<Longrightarrow> kept_arch (adopt_source n a) = kept_arch a"
  by (auto simp: adopt_source_def Let_def kept_arch_def game_sources_def set_update_where merge_source_def image_iff)

lemma merge_source_records_kept: "e \<noteq> ''game'' \<Longrightarrow> kept_arch (merge_source_records e x y a) = kept_arch a"
proof -
  assume e: "e \<noteq> ''game''"
  let ?g = "\<lambda>a s. adopt_source (s\<lparr>sr_entity_id := x\<rparr>) a"
  have "kept_arch (foldl ?g b xs) = kept_arch b" if "\<forall>s \<in> set xs. sr_entity_type s = e" for b xs
    using that e by (induction xs arbitrary: b) (auto simp: adopt_source_kept)
  then have f: "kept_arch (foldl ?g a (filter (\<lambda>s. sr_entity_type s = e \<and> sr_entity_id s = y) (ar_sources a))) = kept_arch a" by simp
  have "kept_arch (b\<lparr>ar_sources := filter (\<lambda>s. \<not> (sr_entity_type s = e \<and> sr_entity_id s = y)) (ar_sources b)\<rparr>) = kept_arch b" for b
    using e by (auto simp: kept_arch_def game_sources_def intro!: image_cong)
  then show ?thesis using f by (simp add: merge_source_records_def Let_def)
qed

lemma catalog_steps_kept [kept_simps]:
  "kept_catalog (seen_between u f l ct) = kept_catalog ct" "kept_catalog (record_alias u n t r g ct) = kept_catalog ct"
  "kept_catalog (merge_attempts x y ct) = kept_catalog ct" "kept_catalog (drop_player x y ct) = kept_catalog ct"
  by (simp_all add: kept_catalog_def seen_between_def record_alias_def merge_attempts_def drop_player_def Let_def)

lemma merge_aliases_kept [kept_simps]: "kept_catalog (merge_aliases x y ct) = kept_catalog ct"
proof -
  have "kept_catalog (c\<lparr>ct_aliases := as\<rparr>) = kept_catalog c" for c as by (simp add: kept_catalog_def)
  then show ?thesis by (simp add: merge_aliases_def Let_def foldl_keeps [where f = kept_catalog] kept_simps)
qed

lemma merge_resource_kept [kept_simps]: "kept (merge_resource x r s) = kept s"
  by (simp add: merge_resource_def kept_on_catalog kept_on_arch merge_source_records_kept kept_simps split: option.split)

lemma merge_snapshot_kept [kept_simps]: "kept (merge_snapshot x n s) = kept s"
  by (simp add: merge_snapshot_def Let_def kept_on_catalog kept_on_arch merge_source_records_kept kept_simps split: option.split)

lemma merge_player_evidence_kept [kept_simps]: "kept (merge_player_evidence x y s) = kept s"
  by (simp add: merge_player_evidence_def Let_def foldl_keeps [where f = kept] kept_simps kept_on_catalog kept_on_arch)

lemma merge_user_edges_kept [kept_simps]: "kept (fst (merge_user_edges x y s)) = kept s"
  by (simp add: kept_iff identity_simps)

lemma recount_runs_kept [kept_simps]: "kept (recount_runs rs s) = kept s"
  by (simp add: kept_iff identity_simps)

lemma merge_user_placeholder_kept [kept_simps]: "kept (merge_user_placeholder x y s) = kept s"
  by (simp add: merge_user_placeholder_def Let_def case_prod_beta kept_simps kept_on_catalog kept_on_arch merge_source_records_kept
      foldl_keeps [where f = kept])

lemma update_player_kept: "update_player ad f i s = Inr (s', u) \<Longrightarrow> kept s' = kept s"
  by (auto simp: update_player_def rbind_eq_Inr Let_def kept_on_catalog kept_simps split: if_splits)

lemma insert_player_kept: "insert_player p s = Inr (s', u) \<Longrightarrow> kept s' = kept s"
  by (auto simp: insert_player_def Let_def kept_on_catalog kept_simps split: if_splits)

lemma upsert_provider_user_kept:
  assumes "upsert_provider_user ad g f s = Inr (s', u)"
  shows "kept s' = kept s"
  using assms
  by (auto simp: upsert_provider_user_def upsert_provider_user_locked_def absorb_named_def rbind_eq_Inr Let_def kept_simps
      dest!: update_player_kept insert_player_kept split: option.splits if_splits)

section \<open>Writing a game\<close>

text \<open>The games with a source record of a payload.\<close>

definition traced :: "site \<Rightarrow> (int \<times> int) set" where
  "traced s = {(g, raw). g \<in> gm_id ` set (ct_games (si_catalog s)) \<and> (g, raw) \<in> game_sources (si_arch s)}"

definition items_ok :: "site \<Rightarrow> bool" where
  "items_ok s \<longleftrightarrow> (\<forall>i \<in> set (ct_normalization_items (si_catalog s)). (ni_game_id i, ni_raw_payload_id i) \<in> traced s)"

definition advances :: "site \<Rightarrow> site \<Rightarrow> bool" where
  "advances s t \<longleftrightarrow> traced s \<subseteq> traced t \<and> ar_raw (si_arch t) = ar_raw (si_arch s)
     \<and> ct_normalization_items (si_catalog t) = ct_normalization_items (si_catalog s)"

lemma advances_refl [simp]: "advances s s"
  by (simp add: advances_def)

lemma advances_trans: "advances s t \<Longrightarrow> advances t u \<Longrightarrow> advances s u"
  by (auto simp: advances_def)

lemma kept_advances: "kept t = kept s \<Longrightarrow> advances s t"
  by (simp add: kept_def advances_def traced_def)

lemma advances_items_ok: "advances s t \<Longrightarrow> items_ok s \<Longrightarrow> items_ok t"
  by (auto simp: advances_def items_ok_def)

lemma insert_source_record_game_sources:
  "game_sources (fst (insert_source_record entity i p e raw k ptr f now a)) = game_sources a \<union> (if entity = ''game'' then {(i, raw)} else {})"
  "ar_raw (fst (insert_source_record entity i p e raw k ptr f now a)) = ar_raw a"
  by (cases "find_row (\<lambda>s. sr_entity_type s = entity \<and> sr_entity_id s = i \<and> sr_raw_payload_id s = raw) (ar_sources a)";
      force simp: insert_source_record_def game_sources_def dest: find_row_Some)+

lemma source_of_kept: "entity \<noteq> ''game'' \<Longrightarrow> kept (source_of entity i p w ptr s) = kept s"
  by (simp add: source_of_def kept_def on_arch_def insert_source_record_game_sources)

lemma source_of_advances:
  assumes "i \<in> gm_id ` set (ct_games (si_catalog s))"
  shows "advances s (source_of ''game'' i p w ptr s)" "(i, rw_id w) \<in> traced (source_of ''game'' i p w ptr s)"
  using assms by (auto simp: source_of_def advances_def traced_def on_arch_def insert_source_record_game_sources)

lemma seat_steps_kept [kept_simps]:
  "kept_catalog (fst (upsert_game_participant g c f ct)) = kept_catalog ct" "kept_catalog (upsert_rating_at_game r ct) = kept_catalog ct"
  by (simp_all add: upsert_game_participant_def upsert_rating_at_game_def Let_def kept_simps split: option.split)

lemma kept_catalog_update: "kept_catalog ct = kept_catalog (si_catalog s) \<Longrightarrow> kept (s\<lparr>si_catalog := ct\<rparr>) = kept s"
  by (simp add: kept_iff)

lemma normalize_participant_kept:
  assumes "normalize_participant e g i game p w s = Inr s'"
  shows "kept s' = kept s"
proof -
  obtain s1 user where s1: "kept s1 = kept s"
    and s': "s' = (let (ct, seat_id) = upsert_game_participant i (np_color p) \<lparr>sf_provider_user_id = user,
           sf_username_normalized = np_username_normalized p, sf_result_raw = np_result_raw p,
           sf_is_winner = is_winner (np_color p) (ng_outcome game), sf_is_ai = np_is_ai p,
           sf_replace_result_raw = supplied_participant_result game p\<rparr> (si_catalog s1);
         s2 = source_of ''game_participant'' seat_id (ng_provider game) w None (s1\<lparr>si_catalog := ct\<rparr>) in
     on_catalog (upsert_rating_at_game \<lparr>rg_game_id = i, rg_color = np_color p, rg_rating = np_rating p,
       rg_rating_diff = np_rating_diff p, rg_rd = np_rd p\<rparr>) s2)"
    using assms by (auto simp: normalize_participant_def rbind_eq_Inr Let_def case_prod_beta dest!: upsert_provider_user_kept
        split: option.splits list.splits)
  show ?thesis
    unfolding s' using s1 by (simp add: Let_def case_prod_beta kept_on_catalog kept_simps source_of_kept kept_catalog_update)
qed

lemma upsert_game_ids:
  assumes "upsert_game ad f now current ct = Inr (ct', i)"
  shows "gm_id ` set (ct_games ct) \<subseteq> gm_id ` set (ct_games ct')" "i \<in> gm_id ` set (ct_games ct')"
    "ct_normalization_items ct' = ct_normalization_items ct"
proof -
  have m: "gm_id (merge_game f a b g) = gm_id g" for a b g by (simp add: merge_game_def Let_def)
  have n: "gm_id (new_game f a b j t) = j" for a b j t by (simp add: new_game_def)
  have found: "g \<in> set (ct_games ct)" if "find_existing_game ct (gf_provider f) (gf_provider_game_id f) (gf_canonical_url f) (gf_content_hash f) = Some g" for g
    using that by (auto simp: find_existing_game_def split: option.splits dest!: find_row_Some)
  obtain a b where "(ct_games ct' = ct_games ct @ [new_game f a b i (if now \<noteq> 0 then now else current)]
      \<or> (\<exists>g \<in> set (ct_games ct). i = gm_id g \<and> ct_games ct' = update_where (\<lambda>x. gm_id x = gm_id g) (merge_game f a b) (ct_games ct)))
      \<and> ct_normalization_items ct' = ct_normalization_items ct"
  proof -
    obtain a b where ab: "ad (gf_eco f) = Inr a" "ad (gf_opening_name f) = Inr b" "outcome_check (gf_outcome f)"
      using assms by (auto simp: upsert_game_def rbind_eq_Inr split: if_splits)
    show ?thesis
      by (rule that [of a b], cases "find_existing_game ct (gf_provider f) (gf_provider_game_id f) (gf_canonical_url f) (gf_content_hash f)")
         (use assms ab found in \<open>auto simp: upsert_game_def Let_def split: if_splits\<close>)
  qed
  moreover have "gm_id ` set (update_where q (merge_game f a b) gs) = gm_id ` set gs" for q gs
    using map_update_where [of gm_id "merge_game f a b" q gs, OF m] by (metis set_map)
  ultimately show "gm_id ` set (ct_games ct) \<subseteq> gm_id ` set (ct_games ct')" "i \<in> gm_id ` set (ct_games ct')"
    "ct_normalization_items ct' = ct_normalization_items ct" using n by auto
qed

lemma write_facts_advances:
  assumes "write_facts e game w s = Inr (s1, i, b)"
  shows "advances s s1" "i \<in> gm_id ` set (ct_games (si_catalog s1))"
proof -
  obtain c m where cm: "map_variant (ng_provider game) (ng_variant_raw game) = (c, m)" by fastforce
  obtain ct1 v where v: "get_or_create_variant (ng_provider game) (ng_variant_raw game) c m (si_catalog s) = (ct1, v)" by fastforce
  then have k1: "kept_catalog ct1 = kept_catalog (si_catalog s)"
    by (auto simp: get_or_create_variant_def kept_simps split: option.splits)
  obtain ct2 t where t: "get_or_create_time_control (parse_time_control (ng_time_control_raw game) (ng_time_class game)) ct1 = Inr (ct2, t)"
    using assms by (auto simp: write_facts_def cm v rbind_eq_Inr)
  then have k2: "kept_catalog ct2 = kept_catalog (si_catalog s)"
    using k1 by (auto simp: get_or_create_time_control_def kept_simps split: option.splits if_splits)
  then have k: "ct_games ct2 = ct_games (si_catalog s)" "ct_normalization_items ct2 = ct_normalization_items (si_catalog s)"
    by (simp_all add: kept_catalog_def)
  have found: "g \<in> set (ct_games ct2)"
    if "find_existing_game ct2 (ng_provider game) (ng_provider_game_id game) (ng_canonical_url game) (ng_content_hash game) = Some g" for g
    using that by (auto simp: find_existing_game_def split: option.splits dest!: find_row_Some)
  consider (old) g where "g \<in> set (ct_games ct2)" "s1 = s\<lparr>si_catalog := ct2\<rparr>" "i = gm_id g"
    | (written) ct3 where "upsert_game (ne_adapter e) (facts_of game v t) (rw_fetched_at w) (now_of s) ct2 = Inr (ct3, i)" "s1 = s\<lparr>si_catalog := ct3\<rparr>"
    using assms t found by (auto simp: write_facts_def Let_def cm v rbind_eq_Inr split: option.splits if_splits)
  then have "advances s s1 \<and> i \<in> gm_id ` set (ct_games (si_catalog s1))"
  proof cases
    case old
    then show ?thesis using k2 by (auto intro: kept_advances kept_catalog_update)
  next
    case written
    note u = upsert_game_ids [OF written(1)]
    show ?thesis using u k written(2) by (auto simp: advances_def traced_def)
  qed
  then show "advances s s1" "i \<in> gm_id ` set (ct_games (si_catalog s1))" by auto
qed

lemma store_game_evidence_advances:
  assumes "store_game_evidence sha a i game raw ptr t ev (si_catalog s) = Inr (ct, v)"
  shows "advances s (s\<lparr>si_catalog := ct\<rparr>)"
proof -
  have "map gm_id (ct_games ct) = map gm_id (ct_games (si_catalog s))"
    unfolding store_game_evidence_current(2) [OF assms] by (rule map_update_where) simp
  then have "gm_id ` set (ct_games ct) = gm_id ` set (ct_games (si_catalog s))" by (metis set_map)
  moreover have "ct_normalization_items ct = ct_normalization_items (si_catalog s)"
    using assms by (auto simp: store_game_evidence_def Let_def rbind_eq_Inr add_revision_def set_current_version_def add_version_source_def
        split: option.splits if_splits)
  ultimately show ?thesis by (auto simp: advances_def traced_def)
qed

lemma normalize_game_advances:
  assumes "normalize_game e g game og ev s = Inr (s', i)"
  shows "advances s s' \<and> (i, rw_id (og_raw og)) \<in> traced s'"
proof -
  let ?w = "og_raw og"
  obtain s1 b where f: "write_facts e game ?w s = Inr (s1, i, b)" and rest: "rbind (store_game_evidence (ne_sha e)
      (si_arch (source_of ''game'' i (ng_provider game) ?w (Some (og_pointer og)) s1)) i game (rw_id ?w) (og_pointer og) (rw_fetched_at ?w) ev
      (si_catalog (source_of ''game'' i (ng_provider game) ?w (Some (og_pointer og)) s1)))
        (\<lambda>(ct, _). let s3 = (source_of ''game'' i (ng_provider game) ?w (Some (og_pointer og)) s1)\<lparr>si_catalog := ct\<rparr> in
      if b then rbind (normalize_participants e g i game ?w s3) (\<lambda>s4. Inr (s4, i)) else Inr (s3, i)) = Inr (s', i)"
    using assms by (auto simp: normalize_game_def Let_def rbind_eq_Inr split: if_splits)
  define s2 where "s2 = source_of ''game'' i (ng_provider game) ?w (Some (og_pointer og)) s1"
  obtain ct v where st: "store_game_evidence (ne_sha e) (si_arch s2) i game (rw_id ?w) (og_pointer og) (rw_fetched_at ?w) ev (si_catalog s2) = Inr (ct, v)"
    and r: "(if b then rbind (normalize_participants e g i game ?w (s2\<lparr>si_catalog := ct\<rparr>)) (\<lambda>s4. Inr (s4, i)) else Inr (s2\<lparr>si_catalog := ct\<rparr>, i)) = Inr (s', i)"
    using rest by (auto simp: s2_def [symmetric] rbind_eq_Inr Let_def)
  have "kept s' = kept (s2\<lparr>si_catalog := ct\<rparr>)"
    using r by (auto simp: normalize_participants_def rbind_eq_Inr dest!: normalize_participant_kept split: if_splits)
  then have "advances (s2\<lparr>si_catalog := ct\<rparr>) s'" by (rule kept_advances)
  then have s2: "advances s2 s'" using store_game_evidence_advances [OF st] advances_trans by blast
  note facts = write_facts_advances [OF f]
  have "advances s1 s2" "(i, rw_id ?w) \<in> traced s2" unfolding s2_def using source_of_advances [OF facts(2)] by auto
  then show ?thesis using facts(1) s2 advances_trans by (meson advances_def subsetD)
qed

section \<open>Checkpoints\<close>

text \<open>What every step of the loop guarantees, whether it returns or raises.\<close>

definition progresses :: "site \<Rightarrow> site \<Rightarrow> bool" where
  "progresses s t \<longleftrightarrow> traced s \<subseteq> traced t \<and> ar_raw (si_arch t) = ar_raw (si_arch s) \<and> (items_ok s \<longrightarrow> items_ok t)"

lemma progresses_refl [simp]: "progresses s s"
  by (simp add: progresses_def)

lemma progresses_trans: "progresses s t \<Longrightarrow> progresses t u \<Longrightarrow> progresses s u"
  by (auto simp: progresses_def)

lemma advances_progresses: "advances s t \<Longrightarrow> progresses s t"
  using advances_items_ok by (auto simp: progresses_def advances_def)

lemma kept_progresses: "kept t = kept s \<Longrightarrow> progresses s t"
  by (intro advances_progresses kept_advances)

lemma mark_item_progresses:
  assumes "(g, raw) \<in> traced s"
  shows "progresses s (on_catalog (mark_item raw v ptr obs g) s)"
proof -
  have t: "traced (on_catalog (mark_item raw v ptr obs g) s) = traced s"
    by (simp add: traced_def on_catalog_def mark_item_def split: option.split)
  have "(ni_game_id i, ni_raw_payload_id i) \<in> traced s"
    if "items_ok s" "i \<in> set (ct_normalization_items (mark_item raw v ptr obs g (si_catalog s)))" for i
    using that assms
    by (auto simp: mark_item_def items_ok_def update_where_def same_item_def split: option.splits if_splits)
  then show ?thesis using t by (auto simp: progresses_def items_ok_def on_catalog_def)
qed

definition checkpoints_ok :: "int \<Rightarrow> site \<Rightarrow> (string \<times> int) list \<Rightarrow> bool" where
  "checkpoints_ok raw s cs \<longleftrightarrow> (\<forall>(ptr, g) \<in> set cs. (g, raw) \<in> traced s)"

lemma checkpoints_ok_mono: "checkpoints_ok raw s cs \<Longrightarrow> traced s \<subseteq> traced t \<Longrightarrow> checkpoints_ok raw t cs"
  by (fastforce simp: checkpoints_ok_def)

lemma processed_items_ok: "items_ok s \<Longrightarrow> checkpoints_ok raw s (processed_items (si_catalog s) raw v obs)"
  by (auto simp: checkpoints_ok_def processed_items_def items_ok_def)

lemma if_either: "(if b \<and> c then Inr x else y) = Inr z \<Longrightarrow> b \<and> x = z \<or> y = Inr z"
  by (auto split: if_splits)

lemma write_game_progresses:
  assumes w: "write_game e run game og obs req cs reusable prepared s = Inr (s', out)"
    and cs: "checkpoints_ok (rw_id (og_raw og)) s cs" and reuse: "reusable \<Longrightarrow> map_of cs (og_pointer og) \<noteq> None"
  shows "progresses s s' \<and> (case out of None \<Rightarrow> True | Some (g, _) \<Rightarrow> (g, rw_id (og_raw og)) \<in> traced s')"
proof -
  let ?raw = "rw_id (og_raw og)"
  obtain b where b: "bounds_for run (rw_provider (og_raw og)) req s = Inr b"
    using w by (auto simp: write_game_def Let_def rbind_eq_Inr)
  show ?thesis
  proof (cases "outside b game \<or> \<not> already_acquired run game s \<and> allowance b req = Some 0")
    case True
    then show ?thesis using w b by (auto simp: write_game_def Let_def rbind_eq_Inr)
  next
    case False
    then obtain gt s1 acq s2 g where c: "charge_game run game (already_acquired run game s) s = Inr (s1, acq)"
      and g: "(if reusable \<and> \<not> (reusable \<and> (case existing_game game (si_catalog s1) of None \<Rightarrow> False
            | Some x \<Rightarrow> game_source_needs_refresh (si_arch s1) (si_catalog s1) (gm_id x) ?raw))
          then Inr (s1, coalesce (map_of cs (og_pointer og)) 0) else normalize_game e gt game og prepared s1) = Inr (s2, g)"
      and rest: "(case run of
          Some r \<Rightarrow> if acq then Inr (on_catalog (mark_item ?raw GAMES_PARSER_VERSION (og_pointer og) obs g) s2, Some (g, False))
            else rbind (associate_run_game (game_rows (si_catalog (on_catalog (mark_item ?raw GAMES_PARSER_VERSION (og_pointer og) obs g) s2))) r g
               (si_db (on_catalog (mark_item ?raw GAMES_PARSER_VERSION (og_pointer og) obs g) s2)))
              (\<lambda>(d, _). Inr ((on_catalog (mark_item ?raw GAMES_PARSER_VERSION (og_pointer og) obs g) s2)\<lparr>si_db := d\<rparr>, Some (g, True)))
        | None \<Rightarrow> Inr (on_catalog (mark_item ?raw GAMES_PARSER_VERSION (og_pointer og) obs g) s2, Some (g, \<not> acq))) = Inr (s', out)"
      using w b by (auto simp: write_game_def Let_def rbind_eq_Inr)
    let ?s3 = "on_catalog (mark_item ?raw GAMES_PARSER_VERSION (og_pointer og) obs g) s2"
    have k1: "kept s1 = kept s" using c by (auto simp: charge_game_def rbind_eq_Inr kept_simps split: option.splits)
    have t1: "traced s \<subseteq> traced s1" using kept_advances [OF k1] by (simp add: advances_def)
    consider (reused) "reusable" "s2 = s1" "g = coalesce (map_of cs (og_pointer og)) 0" | (written) "normalize_game e gt game og prepared s1 = Inr (s2, g)"
      using if_either [OF g] by auto
    then have s2: "advances s1 s2 \<and> (g, ?raw) \<in> traced s2"
    proof cases
      case reused
      then obtain g' where "map_of cs (og_pointer og) = Some g'" using reuse by auto
      then have "(g', ?raw) \<in> traced s" using cs map_of_SomeD by (fastforce simp: checkpoints_ok_def)
      then show ?thesis using reused t1 \<open>map_of cs (og_pointer og) = Some g'\<close> by auto
    qed (rule normalize_game_advances)
    have p3: "progresses s ?s3"
      using progresses_trans [OF kept_progresses [OF k1] progresses_trans [OF advances_progresses mark_item_progresses]] s2 by blast
    have t3: "(g, ?raw) \<in> traced ?s3" using mark_item_progresses [OF conjunct2 [OF s2]] s2 unfolding progresses_def by blast
    have db: "progresses s (?s3\<lparr>si_db := d\<rparr>)" "(g, ?raw) \<in> traced (?s3\<lparr>si_db := d\<rparr>)" for d
      using progresses_trans [OF p3 kept_progresses] t3 by (auto simp: kept_simps traced_def)
    show ?thesis using rest p3 t3 db by (auto simp: rbind_eq_Inr split: option.splits if_splits)
  qed
qed

text \<open>Actions that progress in every outcome.\<close>

definition safe :: "'a act \<Rightarrow> bool" where
  "safe m \<longleftrightarrow> (\<forall>s. progresses s (snd (m s)))"

lemma safe_simple: "safe (ret x)" "safe (raise err)" "safe (ask_site f)" "safe (see g)"
  by (simp_all add: safe_def ret_def raise_def ask_site_def see_def)

lemma safe_poll_stop: "safe (poll_stop e)"
  by (auto simp: safe_def poll_stop_def kept_simps split: option.split intro!: kept_progresses)

lemma safe_charge_unit: "safe charge_unit"
  by (auto simp: safe_def charge_unit_def tx_def rbind_def kept_simps split: option.split sum.split prod.split intro!: kept_progresses)

lemma write_prepared_progresses:
  assumes w: "write_prepared e run game og obs req cs reusable prepared s = (r, s')"
    and cs: "checkpoints_ok (rw_id (og_raw og)) s cs" and reuse: "reusable \<Longrightarrow> map_of cs (og_pointer og) \<noteq> None"
  shows "progresses s s' \<and> (case r of Inr (Some (g, _)) \<Rightarrow> (g, rw_id (og_raw og)) \<in> traced s' | _ \<Rightarrow> True)"
proof -
  have step: "progresses s s' \<and> (case r of Inr (Some (g, _)) \<Rightarrow> (g, rw_id (og_raw og)) \<in> traced s' | _ \<Rightarrow> True)"
    if "tx (write_game e run game og obs req cs reusable p) s = (r, s')" for p
    using that write_game_progresses [OF _ cs reuse, of e run game obs req reusable p]
    by (fastforce simp: tx_def split: sum.splits prod.splits option.splits)
  show ?thesis
  proof (cases "\<exists>m. write_game e run game og obs req cs reusable prepared s = Inl (EvidencePreparationRequired m)")
    case True
    then show ?thesis using w step by (cases "parse_game_evidence (ne_library e) (ne_sha e) game")
        (auto simp: write_prepared_def andthen_def ask_site_def)
  next
    case False
    then have "write_prepared e run game og obs req cs reusable prepared s = tx (write_game e run game og obs req cs reusable prepared) s"
      by (auto simp: write_prepared_def split: sum.splits pyerr.splits)
    then show ?thesis using w step by simp
  qed
qed

lemma andthen_cases:
  assumes "andthen m f s = (r, s')"
  obtains (left) x where "m s = (Inl x, s')" "r = Inl x" | (both) y t where "m s = (Inr y, t)" "f y t = (r, s')"
  using assms by (auto simp: andthen_def split: prod.splits sum.splits)

definition ends :: "('a result \<Rightarrow> site \<Rightarrow> bool) \<Rightarrow> 'a act \<Rightarrow> site \<Rightarrow> bool" where
  "ends Q m s \<longleftrightarrow> Q (fst (m s)) (snd (m s))"

lemma ends_andthen:
  assumes "safe m" "progresses s0 s" "\<And>x t. progresses s0 t \<Longrightarrow> Q (Inl x) t"
    "\<And>y t. m s = (Inr y, t) \<Longrightarrow> progresses s0 t \<Longrightarrow> ends Q (f y) t"
  shows "ends Q (andthen m f) s"
proof -
  have t: "progresses s0 (snd (m s))" using assms(1,2) progresses_trans by (auto simp: safe_def)
  obtain r t where m: "m s = (r, t)" by fastforce
  then show ?thesis using assms(3,4) t by (cases r) (auto simp: ends_def andthen_def)
qed

definition progress_ok :: "int \<Rightarrow> site \<Rightarrow> site \<Rightarrow> progress result \<Rightarrow> bool" where
  "progress_ok raw s s' r \<longleftrightarrow> progresses s s' \<and> (case r of Inl _ \<Rightarrow> True | Inr pg \<Rightarrow> checkpoints_ok raw s' (pg_checkpoints pg))"

lemma normalize_one_progress:
  assumes r: "normalize_one e run w obs retained (ptr, game) pg s = (r, s')" and cs: "checkpoints_ok (rw_id w) s (pg_checkpoints pg)"
  shows "progress_ok (rw_id w) s s' r"
proof -
  let ?og = "\<lparr>og_raw = w, og_pointer = ptr\<rparr>"
  let ?reusable = "\<lambda>s. map_of (pg_checkpoints pg) ptr \<noteq> None \<and> (run \<noteq> None \<or> cn_job_fence (si_conn s) \<noteq> None)"
  have stop: "progress_ok (rw_id w) s t (Inl x)" if "progresses s t" for t x using that by (simp add: progress_ok_def)
  have kept: "progress_ok (rw_id w) s t (Inr pg)" if "progresses s t" for t
    using that cs checkpoints_ok_mono by (auto simp: progress_ok_def progresses_def)
  have last: "progress_ok (rw_id w) s s'' r'"
    if t: "progresses s t" and l: "andthen (write_prepared e run game ?og obs (pg_requested pg) (pg_checkpoints pg) reusable prepared)
        (\<lambda>outcome. ret (record_progress ptr outcome pg)) t = (r', s'')" and reuse: "reusable \<Longrightarrow> map_of (pg_checkpoints pg) ptr \<noteq> None"
    for t reusable prepared r' s''
    using l
  proof (cases rule: andthen_cases)
    case (left x)
    have "checkpoints_ok (rw_id (og_raw ?og)) t (pg_checkpoints pg)" using checkpoints_ok_mono [OF cs] t by (simp add: progresses_def)
    from write_prepared_progresses [OF left(1) this] reuse left(2) t show ?thesis by (auto intro!: stop progresses_trans [OF t])
  next
    case (both outcome u)
    have c: "checkpoints_ok (rw_id (og_raw ?og)) t (pg_checkpoints pg)" using checkpoints_ok_mono [OF cs] t by (simp add: progresses_def)
    note wp = write_prepared_progresses [OF both(1) c]
    have u: "progresses t u" "s'' = u" "r' = Inr (record_progress ptr outcome pg)" using wp reuse both(2) by (auto simp: ret_def)
    have "checkpoints_ok (rw_id w) u (pg_checkpoints pg)" using c u(1) checkpoints_ok_mono by (auto simp: progresses_def)
    then have "checkpoints_ok (rw_id w) u (pg_checkpoints (record_progress ptr outcome pg))"
      using wp reuse by (auto simp: record_progress_def checkpoints_ok_def split: option.splits)
    then show ?thesis using u progresses_trans [OF t] by (simp add: progress_ok_def)
  qed
  have prep: "safe (if b then ret None else andthen (ask_site (\<lambda>_. parse_game_evidence (ne_library e) (ne_sha e) game)) (\<lambda>ev. ret (Some ev)))" for b
    by (simp add: safe_def andthen_def ask_site_def ret_def split: sum.split)
  have "ends (\<lambda>r t. progress_ok (rw_id w) s t r) (normalize_one e run w obs retained (ptr, game) pg) s"
    unfolding normalize_one_def prod.case
  proof (intro ends_andthen [OF safe_poll_stop progresses_refl] ends_andthen [OF safe_simple(3)] ends_andthen [OF safe_simple(4)] stop)
    fix b acquired t
    assume t: "progresses s t"
    let ?rest = "andthen (see ?reusable) (\<lambda>reusable. andthen charge_unit (\<lambda>_.
       andthen (if reusable \<or> ptr \<in> set retained then ret None
          else andthen (ask_site (\<lambda>_. parse_game_evidence (ne_library e) (ne_sha e) game)) (\<lambda>ev. ret (Some ev))) (\<lambda>prepared.
       andthen (write_prepared e run game ?og obs (pg_requested pg) (pg_checkpoints pg) reusable prepared) (\<lambda>outcome.
       ret (record_progress ptr outcome pg)))))"
    have "ends (\<lambda>r t. progress_ok (rw_id w) s t r) ?rest t"
    proof (intro ends_andthen [OF safe_simple(4) t] ends_andthen [OF safe_charge_unit] ends_andthen [OF prep] stop)
      fix reusable t1 t2 prepared t3
      assume "see ?reusable t = (Inr reusable, t1)" and t3: "progresses s t3"
      then have "reusable \<Longrightarrow> map_of (pg_checkpoints pg) ptr \<noteq> None" by simp
      then show "ends (\<lambda>r t. progress_ok (rw_id w) s t r) (andthen (write_prepared e run game ?og obs (pg_requested pg) (pg_checkpoints pg) reusable prepared)
          (\<lambda>outcome. ret (record_progress ptr outcome pg))) t3"
        using last [OF t3] by (auto simp: ends_def)
    qed
    then show "ends (\<lambda>r t. progress_ok (rw_id w) s t r)
        (if outside b game \<or> allowance b (pg_requested pg) = Some 0 \<and> \<not> acquired then ret pg else ?rest) t"
      using kept [OF t] by (simp add: ends_def ret_def)
  qed
  then show ?thesis using r by (simp add: ends_def)
qed

lemma normalize_each_progress:
  "normalize_each e run w obs retained xs pg s = (r, s') \<Longrightarrow> checkpoints_ok (rw_id w) s (pg_checkpoints pg) \<Longrightarrow> progress_ok (rw_id w) s s' r"
proof (induction xs arbitrary: pg s)
  case Nil
  then show ?case by (auto simp: ret_def progress_ok_def)
next
  case (Cons x xs)
  obtain ptr game where x: "x = (ptr, game)" by (cases x)
  from Cons.prems(1) have "andthen (normalize_one e run w obs retained x pg) (normalize_each e run w obs retained xs) s = (r, s')" by simp
  then show ?case
  proof (cases rule: andthen_cases)
    case left
    then show ?thesis using normalize_one_progress Cons.prems(2) x by auto
  next
    case (both pg1 t)
    then have t: "progress_ok (rw_id w) s t (Inr pg1)" using normalize_one_progress Cons.prems(2) x by auto
    then have "progress_ok (rw_id w) t s' r" using Cons.IH [OF both(2)] by (simp add: progress_ok_def)
    then show ?thesis using t progresses_trans by (auto simp: progress_ok_def)
  qed
qed

section \<open>A payload\<close>

lemma read_stored_kept: "kept (snd (read_stored e i s)) = kept s" "si_arch (snd (read_stored e i s)) = si_arch s" "si_objects (snd (read_stored e i s)) = si_objects s"
  by (auto simp: read_stored_def andthen_def charge_read_def tx_def ask_site_def rbind_def kept_def split: option.splits sum.splits prod.splits)

lemma begin_normalization_effect:
  assumes "begin_normalization raw v s = Inr (t, obs)"
  shows "traced t = traced s" "items_ok s \<Longrightarrow> items_ok t" "obs = observation_id (si_arch s) raw"
    "ar_raw (si_arch t) = ar_raw (si_arch s)
      \<or> ar_raw (si_arch t) = update_where (\<lambda>x. rw_id x = raw) (\<lambda>x. x\<lparr>rw_normalization_status := ''pending''\<rparr>) (ar_raw (si_arch s))"
  using assms
  by (auto simp: begin_normalization_def rbind_eq_Inr Let_def traced_def items_ok_def on_arch_def on_catalog_def game_sources_def
      split: if_splits option.splits)

lemma finish_normalization_effect:
  "finish_normalization raw v obs ps s = (t, fin) \<Longrightarrow> kept t = kept s \<and> si_arch t = si_arch s \<and> si_conn t = si_conn s
    \<and> fin = (observation_id (si_arch s) raw = obs \<and> set ps \<subseteq> set (map fst (processed_items (si_catalog s) raw v obs)))"
  by (auto simp: finish_normalization_def Let_def kept_def on_catalog_def split: if_splits)

text \<open>A certificate of a payload: every game of the current observation has its checkpoint.\<close>

definition certified :: "int \<Rightarrow> string list \<Rightarrow> site \<Rightarrow> bool" where
  "certified raw ps s \<longleftrightarrow> (\<forall>p \<in> set ps. \<exists>g. (p, g) \<in> set (processed_items (si_catalog s) raw GAMES_PARSER_VERSION (observation_id (si_arch s) raw))
     \<and> (g, raw) \<in> traced s)"

lemma certify_effect:
  assumes "certify raw obs ps any s = (r, t)"
  shows "traced t = traced s" "items_ok s \<Longrightarrow> items_ok t" "r = Inr ()"
    "ar_raw (si_arch t) = ar_raw (si_arch s) \<or> (items_ok s \<longrightarrow> certified raw ps t)
       \<and> ar_raw (si_arch t) = ar_raw (update_raw_payload_status raw (if any then ''parsed'' else ''skipped'') (Some GAMES_PARSER_VERSION)
            (Some (now_of s)) None (now_of s) (si_arch s))"
proof -
  obtain u d where f: "finish_normalization raw GAMES_PARSER_VERSION obs ps s = (u, d)" by fastforce
  note e = finish_normalization_effect [OF f]
  have now: "now_of u = now_of s" using e by (simp add: now_of_def)
  let ?up = "update_raw_payload_status raw (if any then ''parsed'' else ''skipped'') (Some GAMES_PARSER_VERSION) (Some (now_of s)) None (now_of s)"
  have t: "t = (if d then on_arch ?up u else u)" "r = Inr ()" using assms f now by (auto simp: certify_def)
  have g: "game_sources (?up a) = game_sources a" "ar_logs (?up a) = ar_logs a" for a by (simp_all add: update_raw_payload_status_def game_sources_def)
  have same: "ct_games (si_catalog t) = ct_games (si_catalog s)" "ct_normalization_items (si_catalog t) = ct_normalization_items (si_catalog s)"
    "game_sources (si_arch t) = game_sources (si_arch s)" "ar_logs (si_arch t) = ar_logs (si_arch s)"
    using e t g by (auto simp: kept_def on_arch_def)
  show tr: "traced t = traced s" using same by (simp add: traced_def)
  show it: "items_ok s \<Longrightarrow> items_ok t" using same tr by (simp add: items_ok_def)
  show "r = Inr ()" by (rule t)
  have obs: "observation_id (si_arch t) raw = observation_id (si_arch s) raw" using same(4) by (simp add: observation_id_def)
  have pi: "processed_items (si_catalog t) raw v o' = processed_items (si_catalog s) raw v o'" for v o' using same(2) by (simp add: processed_items_def)
  show "ar_raw (si_arch t) = ar_raw (si_arch s) \<or> (items_ok s \<longrightarrow> certified raw ps t) \<and> ar_raw (si_arch t) = ar_raw (?up (si_arch s))"
  proof (cases d)
    case True
    have "certified raw ps t" if "items_ok s"
      unfolding certified_def obs pi tr
    proof
      fix p assume "p \<in> set ps"
      then have "p \<in> set (map fst (processed_items (si_catalog s) raw GAMES_PARSER_VERSION (observation_id (si_arch s) raw)))" using e True by auto
      then show "\<exists>g. (p, g) \<in> set (processed_items (si_catalog s) raw GAMES_PARSER_VERSION (observation_id (si_arch s) raw)) \<and> (g, raw) \<in> traced s"
        using processed_items_ok [OF that, of raw] by (fastforce simp: checkpoints_ok_def)
    qed
    then show ?thesis using t True e by (simp add: on_arch_def)
  next
    case False
    then have "t = u" using t(1) by simp
    then show ?thesis using e by simp
  qed
qed

text \<open>
  The whole call: what it keeps in every outcome, and that it certifies a pending payload only when all its games have their
  checkpoints.
\<close>

lemma raw_by_id_update: "(\<And>x. rw_id (f x) = rw_id x) \<Longrightarrow>
  find_row (\<lambda>w. rw_id w = i) (update_where (\<lambda>w. rw_id w = i) f rows) = map_option f (find_row (\<lambda>w. rw_id w = i) rows)"
  by (induction rows) auto

definition pending_at :: "int \<Rightarrow> site \<Rightarrow> bool" where
  "pending_at raw s \<longleftrightarrow> (\<forall>w. raw_by_id (si_arch s) raw = Some w \<longrightarrow> rw_normalization_status w = ''pending'')"

lemma pending_at_same: "ar_raw (si_arch t) = ar_raw (si_arch s) \<Longrightarrow> pending_at raw t = pending_at raw s"
  by (simp add: pending_at_def raw_by_id_def)

lemma pending_at_begin: "begin_normalization raw v s = Inr (t, obs) \<Longrightarrow> pending_at raw s \<Longrightarrow> pending_at raw t"
  by (drule begin_normalization_effect(4)) (auto simp: pending_at_def raw_by_id_def raw_by_id_update)

text \<open>How a call may leave the payload: pending, or certified by a call that returned.\<close>

definition settled :: "int \<Rightarrow> raw_row \<Rightarrow> norm_game list \<Rightarrow> int list result \<Rightarrow> site \<Rightarrow> bool" where
  "settled raw w games r s \<longleftrightarrow> (\<exists>ids. r = Inr ids) \<and> certified raw (map fst (with_pointers (rw_endpoint_type w) games)) s
     \<and> (\<forall>w'. raw_by_id (si_arch s) raw = Some w' \<longrightarrow> rw_normalization_status w' = (if games \<noteq> [] then ''parsed'' else ''skipped'')
          \<and> rw_parser_version w' = Some GAMES_PARSER_VERSION)"

definition sound_from :: "int \<Rightarrow> site \<Rightarrow> site \<Rightarrow> bool" where
  "sound_from raw s t \<longleftrightarrow> traced s \<subseteq> traced t \<and> items_ok t \<and> (pending_at raw s \<longrightarrow> pending_at raw t)"

lemma sound_from_trans: "sound_from raw s t \<Longrightarrow> sound_from raw t u \<Longrightarrow> sound_from raw s u"
  by (auto simp: sound_from_def)

lemma kept_sound: "kept t = kept s \<Longrightarrow> items_ok s \<Longrightarrow> sound_from raw s t"
  by (auto simp: sound_from_def kept_def traced_def items_ok_def pending_at_def raw_by_id_def)

lemma progresses_sound: "progresses s t \<Longrightarrow> items_ok s \<Longrightarrow> sound_from raw s t"
  using pending_at_same [of t s raw] by (auto simp: sound_from_def progresses_def)

lemma certify_outcome:
  assumes c: "andthen (certify raw obs (map fst (with_pointers (rw_endpoint_type w) games)) (games \<noteq> [])) (\<lambda>_. ret ids) s = (r, s')"
    and ok: "items_ok s"
  shows "sound_from raw s s' \<or> traced s \<subseteq> traced s' \<and> items_ok s' \<and> settled raw w games r s'"
proof -
  let ?ps = "map fst (with_pointers (rw_endpoint_type w) games)"
  obtain rc sc where rc: "certify raw obs ?ps (games \<noteq> []) s = (rc, sc)" by fastforce
  note ce = certify_effect [OF rc]
  have r: "r = Inr ids" "s' = sc" using c by (simp_all add: andthen_def rc ce(3) ret_def)
  have base: "traced s \<subseteq> traced s'" "items_ok s'" using ce(1,2) ok r(2) by auto
  from ce(4) show ?thesis
  proof
    assume "ar_raw (si_arch sc) = ar_raw (si_arch s)"
    then show ?thesis using base r(2) pending_at_same [of sc s raw] by (simp add: sound_from_def)
  next
    assume a: "(items_ok s \<longrightarrow> certified raw ?ps sc) \<and> ar_raw (si_arch sc) = ar_raw (update_raw_payload_status raw
      (if games \<noteq> [] then ''parsed'' else ''skipped'') (Some GAMES_PARSER_VERSION) (Some (now_of s)) None (now_of s) (si_arch s))"
    have "rw_normalization_status w' = (if games \<noteq> [] then ''parsed'' else ''skipped'') \<and> rw_parser_version w' = Some GAMES_PARSER_VERSION"
      if "raw_by_id (si_arch sc) raw = Some w'" for w'
      using that a by (auto simp: raw_by_id_def update_raw_payload_status_def raw_by_id_update)
    then show ?thesis using a ok base r by (auto simp: settled_def)
  qed
qed

text \<open>The part of the call after its games are known.\<close>

definition normalize_known :: "'v norm_env \<Rightarrow> int \<Rightarrow> int option \<Rightarrow> int option \<Rightarrow> raw_row \<Rightarrow> norm_game list \<Rightarrow> int list act" where
  "normalize_known e raw run max_games w games = (let items = with_pointers (rw_endpoint_type w) games in
     andthen (tx (begin_normalization raw GAMES_PARSER_VERSION)) (\<lambda>obs.
     andthen (see (\<lambda>s. (processed_items (si_catalog s) raw GAMES_PARSER_VERSION obs, reusable_game_sources (ne_sha e) (si_catalog s) raw items)))
       (\<lambda>(checkpoints, retained).
     andthen (normalize_each e run w obs retained items \<lparr>pg_game_ids = [], pg_requested = max_games, pg_checkpoints = checkpoints\<rparr>) (\<lambda>pg.
     andthen (certify raw obs (map fst items) (games \<noteq> [])) (\<lambda>_. ret (pg_game_ids pg))))))"

lemma normalize_known_outcome:
  assumes n: "normalize_known e raw run max_games w games s = (r, s')" and ok: "items_ok s" and raw: "rw_id w = raw"
  shows "sound_from raw s s' \<or> traced s \<subseteq> traced s' \<and> items_ok s' \<and> settled raw w games r s'"
  using n unfolding normalize_known_def Let_def
proof (cases rule: andthen_cases)
  case (left x)
  then have "s' = s" by (auto simp: tx_def split: sum.splits prod.splits)
  then show ?thesis using kept_sound ok by blast
next
  case (both obs t1)
  let ?items = "with_pointers (rw_endpoint_type w) games"
  from both(1) have b: "begin_normalization raw GAMES_PARSER_VERSION s = Inr (t1, obs)" by (simp add: tx_Inr)
  note be = begin_normalization_effect [OF b]
  have g1: "sound_from raw s t1" using be(1,2) ok pending_at_begin [OF b] by (auto simp: sound_from_def)
  let ?pg = "\<lparr>pg_game_ids = [], pg_requested = max_games, pg_checkpoints = processed_items (si_catalog t1) raw GAMES_PARSER_VERSION obs\<rparr>"
  have ok1: "items_ok t1" using g1 by (simp add: sound_from_def)
  have cs: "checkpoints_ok (rw_id w) t1 (pg_checkpoints ?pg)" using processed_items_ok ok1 raw by simp
  from both(2) have "andthen (normalize_each e run w obs (reusable_game_sources (ne_sha e) (si_catalog t1) raw ?items) ?items ?pg) (\<lambda>pg.
    andthen (certify raw obs (map fst ?items) (games \<noteq> [])) (\<lambda>_. ret (pg_game_ids pg))) t1 = (r, s')"
    by (simp add: andthen_def see_def)
  then show ?thesis
  proof (cases rule: andthen_cases)
    case (left x)
    then have "sound_from raw t1 s'" using normalize_each_progress [OF left(1) cs] progresses_sound ok1 by (auto simp: progress_ok_def)
    then show ?thesis using g1 sound_from_trans by blast
  next
    case (both pg t2)
    have p2: "sound_from raw t1 t2" using normalize_each_progress [OF both(1) cs] progresses_sound ok1 by (auto simp: progress_ok_def)
    have ok2: "items_ok t2" using p2 by (simp add: sound_from_def)
    from certify_outcome [OF both(2) ok2] sound_from_trans [OF g1 p2] show ?thesis by (auto simp: sound_from_def)
  qed
qed

lemma normalize_games_payload_outcome:
  assumes n: "normalize_games_payload e raw run max_games s = (r, s')" and ok: "items_ok s"
  shows "sound_from raw s s' \<or> traced s \<subseteq> traced s' \<and> items_ok s'
    \<and> (\<exists>w body games. load_raw_payload (ne_codec e) (si_objects s) (si_arch s) raw = Inr (w, body)
        \<and> payload_games e w body = Inr (Some games) \<and> settled raw w games r s')"
proof (cases "\<exists>k. max_games = Some k \<and> k < 0")
  case True
  then show ?thesis using n kept_sound [OF refl ok] by (auto simp: normalize_games_payload_def raise_def)
next
  case False
  obtain rr t0 where read: "read_stored e raw s = (rr, t0)" by fastforce
  have k0: "kept t0 = kept s" and a0: "si_arch t0 = si_arch s" "si_objects t0 = si_objects s" using read_stored_kept [of e raw s] read by auto
  note g0 = kept_sound [OF k0 ok, of raw]
  have body: "(case rr of Inl x \<Rightarrow> (Inl x, t0) | Inr (w, body) \<Rightarrow> (case payload_games e w body of Inl x \<Rightarrow> (Inl x, t0) | Inr None \<Rightarrow> (Inr [], t0)
      | Inr (Some games) \<Rightarrow> normalize_known e raw run max_games w games t0)) = (r, s')"
    using n False read unfolding normalize_games_payload_def normalize_known_def Let_def
    by (auto simp: andthen_def [of "read_stored e raw"] andthen_def [of "ask_site _"] ask_site_def ret_def split: option.splits sum.splits prod.splits)
  show ?thesis
  proof (cases "\<exists>w body games. rr = Inr (w, body) \<and> payload_games e w body = Inr (Some games)")
    case True
    then obtain w body games where w: "rr = Inr (w, body)" "payload_games e w body = Inr (Some games)" by blast
    have loaded: "load_raw_payload (ne_codec e) (si_objects s) (si_arch s) raw = Inr (w, body)"
      using read a0 by (auto simp: w read_stored_def andthen_Inr)
    have raw: "rw_id w = raw"
      using loaded by (auto simp: load_raw_payload_def raw_by_id_def rbind_eq_Inr split: option.splits if_splits dest: find_row_Some)
    have ok0: "items_ok t0" using g0 by (simp add: sound_from_def)
    have "normalize_known e raw run max_games w games t0 = (r, s')" using body w by simp
    from normalize_known_outcome [OF this ok0 raw] show ?thesis using g0 w loaded sound_from_trans [OF g0] by (auto simp: sound_from_def)
  next
    case False
    then have "s' = t0" using body by (auto split: sum.splits prod.splits option.splits)
    then show ?thesis using g0 by simp
  qed
qed

section \<open>The allowance of a call\<close>

lemma reserve_known_game:
  assumes "reserve_game c b key now d = Inr (d', new)" "(b, key) \<in> set (db_game_items d)"
  shows "\<not> new"
proof -
  obtain d1 bd policy usage wp where l: "locked_budget b (int_now c now) d = Inr (d1, bd, policy, usage, wp)"
    using assms(1) by (auto simp: reserve_game_def reserve_processing_work_def Let_def rbind_eq_Inr)
  then have "db_game_items d1 = db_game_items d" using locked_budgetE [OF l] budget_frame_fields(10) by metis
  then show ?thesis using assms l by (auto simp: reserve_game_def reserve_processing_work_def Let_def rbind_eq_Inr)
qed

lemma game_bounds_none_left: "game_bounds d run provider (Some 0) = Inr x \<Longrightarrow> gb_remaining x = Some 0"
  by (auto simp: game_bounds_def rbind_eq_Inr Let_def split: option.splits json.splits if_splits)

lemma write_game_counts:
  assumes w: "write_game e run game og obs req cs reusable prepared s = Inr (s', Some (g, True))"
  shows "req \<noteq> Some 0"
proof
  assume req: "req = Some 0"
  obtain b where b: "bounds_for run (rw_provider (og_raw og)) req s = Inr b"
    using w by (auto simp: write_game_def Let_def rbind_eq_Inr)
  then have a: "allowance b req = Some 0"
    using req game_bounds_none_left by (auto simp: bounds_for_def allowance_def rbind_eq_Inr split: option.splits)
  then have acq: "already_acquired run game s" using w b by (auto simp: write_game_def Let_def rbind_eq_Inr split: if_splits)
  obtain s1 acq1 where c: "charge_game run game True s = Inr (s1, acq1)"
    using w b acq by (auto simp: write_game_def Let_def rbind_eq_Inr split: if_splits)
  have "acq1"
  proof (cases run)
    case (Some r)
    then show ?thesis using c by (auto simp: charge_game_def rbind_eq_Inr split: option.splits)
  next
    case None
    then obtain bd where bd: "cn_work_budget_id (si_conn s) = Some bd" "work_budget_has_game (si_db s) bd (unique_game_key game)"
      using acq by (auto simp: already_acquired_def split: option.splits)
    obtain d' new where "reserve_game (si_conn s) bd (unique_game_key game) None (si_db s) = Inr (d', new)" "acq1 = (\<not> new)"
      using c None bd(1) by (auto simp: charge_game_def rbind_eq_Inr)
    then show ?thesis using reserve_known_game bd(2) by (simp add: work_budget_has_game_def)
  qed
  then show False using w b acq c by (auto simp: write_game_def Let_def rbind_eq_Inr split: if_splits option.splits)
qed

text \<open>The allowance left and the games counted make up the allowance of the call.\<close>

definition counted :: "int \<Rightarrow> progress \<Rightarrow> bool" where
  "counted n pg \<longleftrightarrow> (\<exists>q \<ge> 0. pg_requested pg = Some q \<and> q + int (length (pg_game_ids pg)) = n)"

lemma write_prepared_counts:
  assumes "write_prepared e run game og obs req cs reusable prepared s = (Inr (Some (g, True)), s')"
  shows "req \<noteq> Some 0"
proof -
  have "\<exists>p. tx (write_game e run game og obs req cs reusable p) s = (Inr (Some (g, True)), s')"
    using assms by (auto simp: write_prepared_def andthen_Inr split: sum.splits pyerr.splits)
  then obtain p where "write_game e run game og obs req cs reusable p s = Inr (s', Some (g, True))" by (auto simp: tx_Inr)
  then show ?thesis by (rule write_game_counts)
qed

lemma normalize_one_counted:
  assumes r: "normalize_one e run w obs retained (ptr, game) pg s = (Inr pg', s')" and c: "counted n pg"
  shows "counted n pg'"
proof -
  have "pg' = pg \<or> (\<exists>outcome reusable prepared t. pg' = record_progress ptr outcome pg
    \<and> write_prepared e run game \<lparr>og_raw = w, og_pointer = ptr\<rparr> obs (pg_requested pg) (pg_checkpoints pg) reusable prepared t = (Inr outcome, s'))"
    using r by (auto simp: normalize_one_def andthen_Inr split: if_splits)
  then show ?thesis
  proof
    assume "\<exists>outcome reusable prepared t. pg' = record_progress ptr outcome pg
      \<and> write_prepared e run game \<lparr>og_raw = w, og_pointer = ptr\<rparr> obs (pg_requested pg) (pg_checkpoints pg) reusable prepared t = (Inr outcome, s')"
    then obtain outcome reusable prepared t where o: "pg' = record_progress ptr outcome pg"
      "write_prepared e run game \<lparr>og_raw = w, og_pointer = ptr\<rparr> obs (pg_requested pg) (pg_checkpoints pg) reusable prepared t = (Inr outcome, s')"
      by blast
    show ?thesis
    proof (cases "\<exists>g. outcome = Some (g, True)")
      case True
      then have "pg_requested pg \<noteq> Some 0" using o(2) by (auto dest: write_prepared_counts)
      then show ?thesis using c True by (auto simp: counted_def record_progress_def o(1))
    next
      case False
      then show ?thesis using c by (auto simp: counted_def record_progress_def o(1) split: option.splits)
    qed
  qed (use c in simp)
qed

lemma normalize_each_counted:
  "normalize_each e run w obs retained xs pg s = (Inr pg', s') \<Longrightarrow> counted n pg \<Longrightarrow> counted n pg'"
proof (induction xs arbitrary: pg s)
  case (Cons x xs)
  then show ?case by (cases x) (auto simp: andthen_Inr dest: normalize_one_counted)
qed simp

end
