(* ===== verification/Normalization_Properties.thy ===== *)
theory Normalization_Properties
  imports Normalization_Laws Evidence_Properties Archive_Properties
begin

text \<open>
  Properties of game normalization: a payload is certified only when every game of its current observation is stored with a
  source record of the payload, and a call counts no more games than it was allowed.
\<close>

section \<open>A payload with one game\<close>

definition small_game :: json where
  "small_game = JObj [(''id'', JStr ''g''), (''speed'', JStr ''blitz''), (''status'', JStr ''draw''), (''moves'', JStr ''a'')]"

definition sample_norm_env :: "unit norm_env" where
  "sample_norm_env = \<lparr>ne_codec = plain_codec, ne_loads = (\<lambda>_. Inr small_game), ne_library = char_library, ne_adapter = (\<lambda>_. Inr None), ne_stop = None\<rparr>"

definition payload_site :: site where
  "payload_site = \<lparr>si_db = empty_db, si_conn = fresh_conn 7, si_arch = sample_arch\<lparr>ar_raw := [sample_payload\<lparr>rw_body_hash := digest plain_codec []\<rparr>]\<rparr>,
     si_objects = Map.empty, si_errors = [], si_next_error = 1,
     si_coll = \<lparr>co_checkpoints = [], co_coverage = [], co_ranges = [], co_followups = []\<rparr>, si_catalog = empty_catalog, si_polls = 0\<rparr>"

lemma payload_site_run:
  "case normalize_games_payload sample_norm_env 1 None (Some 1) payload_site of
     (Inr ids, s) \<Rightarrow> ids = [1] \<and> map (\<lambda>w. (rw_id w, rw_normalization_status w)) (ar_raw (si_arch s)) = [(1, ''parsed'')] | (Inl _, _) \<Rightarrow> False"
  by code_simp

lemma payload_site_runE:
  obtains s where "normalize_games_payload sample_norm_env 1 None (Some 1) payload_site = (Inr [1], s)"
    "map (\<lambda>w. (rw_id w, rw_normalization_status w)) (ar_raw (si_arch s)) = [(1, ''parsed'')]"
  using payload_site_run by (auto split: prod.splits sum.splits)

section \<open>Properties\<close>

text \<open>
  C15. A pending payload is certified truthfully. Whatever a call of the normalizer meets (a stop request, an
  exhausted budget, a database error, a selection that is full), no stored game and no source of a game is lost and every
  checkpoint still names a stored game with a source record of its payload; the payload stays pending unless the
  call returned and every game of the payload has a checkpoint under the payload's current observation, and then its status
  says whether it held games and its version is that of the installed parser.
\<close>

theorem payload_certified_truthfully:
  assumes "normalize_games_payload e raw run max_games s = (r, s')" "items_ok s" "pending_at raw s"
  shows "traced s \<subseteq> traced s' \<and> items_ok s'
    \<and> (pending_at raw s' \<or> (\<exists>w body games ids. r = Inr ids
        \<and> load_raw_payload (ne_codec e) (si_objects s) (si_arch s) raw = Inr (w, body) \<and> payload_games e w body = Inr (Some games)
        \<and> (\<forall>i < length games. \<exists>g. (pointer_of (rw_endpoint_type w) i, g)
              \<in> set (processed_items (si_catalog s') raw GAMES_PARSER_VERSION (observation_id (si_arch s') raw)) \<and> (g, raw) \<in> traced s')
        \<and> (\<forall>w'. raw_by_id (si_arch s') raw = Some w' \<longrightarrow> rw_normalization_status w' = (if games \<noteq> [] then ''parsed'' else ''skipped'')
             \<and> rw_parser_version w' = Some GAMES_PARSER_VERSION)))"
proof -
  have ps: "map fst (with_pointers t games) = map (pointer_of t) [0..<length games]" for t and games :: "norm_game list"
    by (rule nth_equalityI) (simp_all add: with_pointers_def nth_enumerate_eq case_prod_beta)
  have "pointer_of t i \<in> set (map fst (with_pointers t games))" if "i < length games" for t i and games :: "norm_game list"
    unfolding ps using that by simp
  then show ?thesis
    using normalize_games_payload_outcome [OF assms(1,2)] assms(3) unfolding sound_from_def settled_def certified_def by blast
qed

theorem payload_certified_truthfully_witness:
  "case normalize_games_payload sample_norm_env 1 None (Some 1) payload_site of
     (Inr ids, s) \<Rightarrow> ids = [1] \<and> (\<exists>p g. (p, g) \<in> set (processed_items (si_catalog s) 1 GAMES_PARSER_VERSION (observation_id (si_arch s) 1)) \<and> (g, 1) \<in> traced s)
   | (Inl _, _) \<Rightarrow> False"
proof -
  obtain s where run: "normalize_games_payload sample_norm_env 1 None (Some 1) payload_site = (Inr [1], s)"
    and st: "map (\<lambda>w. (rw_id w, rw_normalization_status w)) (ar_raw (si_arch s)) = [(1, ''parsed'')]" by (rule payload_site_runE)
  have ok: "items_ok payload_site" by (simp add: items_ok_def payload_site_def empty_catalog_def)
  have pend: "pending_at 1 payload_site"
    by (simp add: pending_at_def payload_site_def raw_by_id_def sample_arch_def sample_payload_def)
  note outcome = payload_certified_truthfully [OF run ok pend]
  obtain row where row: "ar_raw (si_arch s) = [row]" "rw_normalization_status row = ''parsed''" "rw_id row = 1" using st by auto
  have raw: "raw_by_id (si_arch s) 1 = Some row" using row by (simp add: raw_by_id_def)
  have "\<not> pending_at 1 s" using raw row(2) by (simp add: pending_at_def)
  then obtain w :: raw_row and games :: "norm_game list" where g: "\<forall>i < length games. \<exists>g. (pointer_of (rw_endpoint_type w) i, g)
        \<in> set (processed_items (si_catalog s) 1 GAMES_PARSER_VERSION (observation_id (si_arch s) 1)) \<and> (g, 1) \<in> traced s"
      "rw_normalization_status row = (if games \<noteq> [] then ''parsed'' else ''skipped'')"
    using outcome raw by blast
  then have "0 < length games" using row(2) by (auto split: if_splits)
  then have "\<exists>p g. (p, g) \<in> set (processed_items (si_catalog s) 1 GAMES_PARSER_VERSION (observation_id (si_arch s) 1)) \<and> (g, 1) \<in> traced s"
    using g(1) by blast
  then show ?thesis by (simp add: run)
qed

text \<open>
  A call that was allowed at most a number of games counts no more than that: the ids it returns are new
  acquisitions (of the run, or of the session's budget), each taken from the allowance.
\<close>

lemma allowance_respected:
  assumes "normalize_games_payload e raw run (Some n) s = (Inr ids, s')"
  shows "int (length ids) \<le> n"
proof -
  have n: "0 \<le> n" using assms by (auto simp: normalize_games_payload_def split: if_splits)
  then have "ids = [] \<or> (\<exists>w obs retained xs cs pg t t'. ids = pg_game_ids pg
      \<and> normalize_each e run w obs retained xs \<lparr>pg_game_ids = [], pg_requested = Some n, pg_checkpoints = cs\<rparr> t = (Inr pg, t'))"
    using assms
    by (auto simp: normalize_games_payload_def andthen_Inr case_prod_beta Let_def split: if_splits option.splits)
  then show ?thesis
  proof
    assume "\<exists>w obs retained xs cs pg t t'. ids = pg_game_ids pg
      \<and> normalize_each e run w obs retained xs \<lparr>pg_game_ids = [], pg_requested = Some n, pg_checkpoints = cs\<rparr> t = (Inr pg, t')"
    then obtain w obs retained xs cs pg t t' where i: "ids = pg_game_ids pg"
      "normalize_each e run w obs retained xs \<lparr>pg_game_ids = [], pg_requested = Some n, pg_checkpoints = cs\<rparr> t = (Inr pg, t')" by blast
    have "counted n pg" using normalize_each_counted [OF i(2)] n by (simp add: counted_def)
    then show ?thesis by (auto simp: counted_def i(1))
  qed (use n in simp)
qed

end
