(* ===== verification/Ingest_Properties.thy ===== *)
theory Ingest_Properties
  imports Resources Normalization_Properties Job_Laws Samples
begin

text \<open>
  What happens to a captured response: it is committed with its evidence before anything is derived from
  it, and nothing that follows (the account it is attributed to, the normalizers, the queue) loses it.
\<close>

section \<open>What leaves the captured bodies alone\<close>

named_theorems bodies_simps \<open>steps that leave the captured bodies alone\<close>

text \<open>What a capture consists of: the objects, and the rows of objects and payloads without the marks that normalization leaves on a payload.\<close>

definition captured_part :: "raw_row \<Rightarrow> raw_row" where
  "captured_part w = w\<lparr>rw_parser_version := None, rw_normalization_status := [], rw_normalized_at := None, rw_error_ref := None, rw_owner_scope := []\<rparr>"

definition arch_bodies :: "arch \<Rightarrow> archive_object list \<times> raw_row list" where
  "arch_bodies a = (ar_objects a, map captured_part (ar_raw a))"

definition bodies :: "site \<Rightarrow> objects \<times> archive_object list \<times> raw_row list" where
  "bodies s = (si_objects s, arch_bodies (si_arch s))"

lemma bodies_fields [bodies_simps]:
  "bodies (s\<lparr>si_db := d\<rparr>) = bodies s" "bodies (s\<lparr>si_conn := c\<rparr>) = bodies s" "bodies (s\<lparr>si_polls := n\<rparr>) = bodies s"
  "bodies (s\<lparr>si_catalog := ct\<rparr>) = bodies s" "bodies (s\<lparr>si_errors := es\<rparr>) = bodies s" "bodies (s\<lparr>si_next_error := k\<rparr>) = bodies s"
  "bodies (on_catalog f s) = bodies s"
  by (simp_all add: bodies_def on_catalog_def)

lemma bodies_on_arch: "arch_bodies (f (si_arch s)) = arch_bodies (si_arch s) \<Longrightarrow> bodies (on_arch f s) = bodies s"
  by (simp add: bodies_def on_arch_def)

lemma arch_bodies_fields [bodies_simps]:
  "arch_bodies (a\<lparr>ar_logs := l\<rparr>) = arch_bodies a" "arch_bodies (a\<lparr>ar_sources := x\<rparr>) = arch_bodies a"
  "arch_bodies (a\<lparr>ar_next_source := y\<rparr>) = arch_bodies a" "arch_bodies (a\<lparr>ar_next_log := z\<rparr>) = arch_bodies a"
  by (simp_all add: arch_bodies_def)

lemma arch_bodies_marks:
  assumes "\<And>w. captured_part (f w) = captured_part w"
  shows "arch_bodies (a\<lparr>ar_raw := update_where p f (ar_raw a)\<rparr>) = arch_bodies a"
proof -
  have "map captured_part (update_where p f ws) = map captured_part ws" for ws
    using assms by (induction ws) auto
  then show ?thesis by (simp add: arch_bodies_def)
qed

lemma arch_steps_bodies [bodies_simps]:
  "arch_bodies (update_raw_payload_status i st v t r now a) = arch_bodies a"
  "arch_bodies (quarantine_unowned_profile i a) = arch_bodies a" "arch_bodies (publish_verified_legacy_profile i a) = arch_bodies a"
  "arch_bodies (adopt_source n a) = arch_bodies a" "arch_bodies (fst (insert_source_record et ei p ep raw k ptr fs now a)) = arch_bodies a"
  "arch_bodies (a\<lparr>ar_raw := update_where p' (\<lambda>x. x\<lparr>rw_normalization_status := st'\<rparr>) (ar_raw a)\<rparr>) = arch_bodies a"
  by (simp_all add: update_raw_payload_status_def quarantine_unowned_profile_def publish_verified_legacy_profile_def move_scope_def arch_bodies_marks
      captured_part_def adopt_source_def insert_source_record_def Let_def bodies_simps split: option.splits)

lemma merge_source_records_bodies [bodies_simps]: "arch_bodies (merge_source_records e x y a) = arch_bodies a"
  by (simp add: merge_source_records_def Let_def bodies_simps foldl_keeps [where f = arch_bodies])

subsection \<open>Identities\<close>

lemma merge_resource_bodies [bodies_simps]: "bodies (merge_resource x r s) = bodies s"
  by (simp add: merge_resource_def bodies_simps bodies_on_arch split: option.split)

lemma merge_snapshot_bodies [bodies_simps]: "bodies (merge_snapshot x n s) = bodies s"
  by (simp add: merge_snapshot_def Let_def bodies_simps bodies_on_arch split: option.split)

lemma merge_player_evidence_bodies [bodies_simps]: "bodies (merge_player_evidence x y s) = bodies s"
  by (simp add: merge_player_evidence_def Let_def foldl_keeps [where f = bodies] bodies_simps bodies_on_arch)

lemma merge_edge_bodies: "bodies (fst (merge_edge x y e sr)) = bodies (fst sr)"
  by (simp add: merge_edge_def Let_def bodies_simps split: prod.split option.split)

lemma merge_user_edges_bodies [bodies_simps]: "bodies (fst (merge_user_edges x y s)) = bodies s"
  by (simp add: merge_user_edges_def foldl_keeps [where f = "\<lambda>sr. bodies (fst sr)"] merge_edge_bodies)

lemma recount_runs_bodies [bodies_simps]: "bodies (recount_runs rs s) = bodies s"
  by (simp add: recount_runs_def foldl_keeps [where f = bodies] bodies_simps)

lemma merge_user_placeholder_bodies [bodies_simps]: "bodies (merge_user_placeholder x y s) = bodies s"
  by (simp add: merge_user_placeholder_def Let_def case_prod_beta bodies_simps bodies_on_arch foldl_keeps [where f = bodies])

lemma player_rows_bodies:
  "update_player ad f i s = Inr (s', u) \<Longrightarrow> bodies s' = bodies s" "insert_player p s = Inr (s', u) \<Longrightarrow> bodies s' = bodies s"
  by (auto simp: update_player_def insert_player_def rbind_eq_Inr Let_def bodies_simps split: if_splits)

lemma upsert_provider_user_bodies: "upsert_provider_user ad g f s = Inr (s', u) \<Longrightarrow> bodies s' = bodies s"
  by (auto simp: upsert_provider_user_def upsert_provider_user_locked_def absorb_named_def rbind_eq_Inr Let_def bodies_simps
      dest!: player_rows_bodies split: option.splits if_splits)

lemma resolve_capture_account_bodies: "resolve_capture_account ad g p n t scope s = Inr (s', u) \<Longrightarrow> bodies s' = bodies s"
  by (auto simp: resolve_capture_account_def rbind_eq_Inr dest!: player_rows_bodies upsert_provider_user_bodies split: option.splits if_splits)

lemma record_resource_attempt_bodies: "record_resource_attempt ad sha cp raw s = Inr (s', u) \<Longrightarrow> bodies s' = bodies s"
  by (auto simp: record_resource_attempt_def rbind_eq_Inr Let_def bodies_simps dest!: resolve_capture_account_bodies split: option.splits list.splits)

lemma account_of_bodies: "account_of (catalog_accounts ad sha) cp raw s = Inr (s', u) \<Longrightarrow> bodies s' = bodies s"
  by (auto simp: account_of_def catalog_accounts_def rbind_eq_Inr Let_def
      dest!: record_resource_attempt_bodies resolve_capture_account_bodies split: option.splits list.splits if_splits)

subsection \<open>Actions\<close>

definition stays :: "'a act \<Rightarrow> bool" where
  "stays m \<longleftrightarrow> (\<forall>s. bodies (snd (m s)) = bodies s)"

lemma staysD: "stays m \<Longrightarrow> bodies (snd (m s)) = bodies s"
  by (simp add: stays_def)

lemma stays_andthen: "stays m \<Longrightarrow> (\<And>x. stays (f x)) \<Longrightarrow> stays (andthen m f)"
  unfolding stays_def andthen_def by (auto split: prod.split sum.split) (metis snd_conv)+

lemma stays_simple: "stays (ret x)" "stays (raise err)" "stays (ask_site f)" "stays (see g)"
  by (simp_all add: stays_def ret_def raise_def ask_site_def see_def)

lemma stays_tx: "(\<And>s s' x. m s = Inr (s', x) \<Longrightarrow> bodies s' = bodies s) \<Longrightarrow> stays (tx m)"
  by (auto simp: stays_def tx_def split: sum.split prod.split)

lemma stays_charges: "stays (charge_read i)" "stays charge_unit" "stays (poll_stop e)"
proof -
  have "stays (tx (\<lambda>s. rbind (reserve_payload_read (si_conn s) b i (si_db s)) (\<lambda>(d, c). Inr (s\<lparr>si_db := d, si_conn := c\<rparr>, ()))))" for b
    by (rule stays_tx) (auto simp: rbind_eq_Inr bodies_simps)
  then show "stays (charge_read i)" by (auto simp: stays_def charge_read_def split: option.split)
  have "stays (tx (\<lambda>s. rbind (reserve_normalization (si_conn s) b None None 1 (si_db s)) (\<lambda>(d, _). Inr (s\<lparr>si_db := d\<rparr>, ()))))" for b
    by (rule stays_tx) (auto simp: rbind_eq_Inr bodies_simps)
  then show "stays charge_unit" by (auto simp: stays_def charge_unit_def split: option.split)
  show "stays (poll_stop e)" by (auto simp: stays_def poll_stop_def bodies_simps split: option.split)
qed

lemma stays_read_stored: "stays (read_stored e i)"
  by (simp add: read_stored_def stays_andthen stays_simple stays_charges)

subsection \<open>The normalizers\<close>

lemma source_of_bodies [bodies_simps]: "bodies (source_of et i p w ptr s) = bodies s"
  by (simp add: source_of_def bodies_on_arch bodies_simps)

lemma normalize_participant_bodies: "normalize_participant e g i game p w s = Inr s' \<Longrightarrow> bodies s' = bodies s"
  by (auto simp: normalize_participant_def rbind_eq_Inr Let_def case_prod_beta bodies_simps dest!: upsert_provider_user_bodies
      split: option.splits list.splits)

lemma write_facts_bodies: "write_facts e game w s = Inr (s', x) \<Longrightarrow> bodies s' = bodies s"
  by (auto simp: write_facts_def rbind_eq_Inr Let_def case_prod_beta bodies_simps split: option.splits if_splits)

lemma normalize_game_bodies: "normalize_game e g game og ev s = Inr (s', i) \<Longrightarrow> bodies s' = bodies s"
  by (auto simp: normalize_game_def normalize_participants_def rbind_eq_Inr Let_def case_prod_beta bodies_simps
      dest!: write_facts_bodies normalize_participant_bodies split: if_splits)

lemma charge_game_bodies: "charge_game run game acq s = Inr (s', x) \<Longrightarrow> bodies s' = bodies s"
  by (auto simp: charge_game_def rbind_eq_Inr bodies_simps split: option.splits)

lemma write_game_bodies:
  assumes "write_game e run game og observed requested cps reusable prepared s = Inr (s', x)"
  shows "bodies s' = bodies s"
proof -
  have marked: "bodies s' = bodies s2"
    if "(case run of
          Some r \<Rightarrow> if acq then Inr (on_catalog f s2, Some (i, False))
            else rbind (associate_run_game (game_rows (si_catalog (on_catalog f s2))) r i (si_db (on_catalog f s2))) (\<lambda>(d, _). Inr ((on_catalog f s2)\<lparr>si_db := d\<rparr>, Some (i, True)))
        | None \<Rightarrow> Inr (on_catalog f s2, Some (i, \<not> acq))) = Inr (s', x)" for acq f s2 i
    using that by (auto simp: rbind_eq_Inr bodies_simps split: option.splits if_splits)
  show ?thesis
    using assms unfolding write_game_def Let_def rbind_eq_Inr
    by (auto simp: rbind_eq_Inr dest!: marked charge_game_bodies normalize_game_bodies split: if_splits)
qed

lemma stays_write_prepared: "stays (write_prepared e run game og observed requested cps reusable prepared)"
proof -
  have w: "stays (tx (write_game e run game og observed requested cps reusable p))" for p
    by (rule stays_tx) (rule write_game_bodies)
  then have "stays (andthen (ask_site (\<lambda>_. parse_game_evidence (ne_library e) (ne_sha e) game)) (\<lambda>ev.
      tx (write_game e run game og observed requested cps reusable (Some ev))))"
    by (intro stays_andthen stays_simple)
  with w show ?thesis by (auto simp: write_prepared_def stays_def split: sum.split pyerr.split)
qed

lemma stays_normalize_each: "stays (normalize_each e run w observed retained xs pg)"
proof (induction xs arbitrary: pg)
  case (Cons x xs)
  have "stays (normalize_one e run w observed retained x pg)"
    unfolding normalize_one_def by (auto split: prod.split intro!: stays_andthen stays_simple stays_charges stays_write_prepared)
  then show ?case using Cons by (simp add: stays_andthen)
qed (simp add: stays_simple)

lemma stays_certify: "stays (certify raw observed pointers b)"
  by (auto simp: stays_def certify_def finish_normalization_def Let_def bodies_simps bodies_on_arch)

lemma begin_normalization_bodies: "begin_normalization raw v s = Inr (s', x) \<Longrightarrow> bodies s' = bodies s"
  by (auto simp: begin_normalization_def rbind_eq_Inr Let_def bodies_on_arch bodies_simps)

lemma stays_games_normalizer: "stays (games_normalizer e raw log_id run mg)"
  unfolding games_normalizer_def normalize_games_payload_def Let_def
  by (auto split: prod.split option.split intro!: stays_andthen stays_simple stays_read_stored stays_tx stays_normalize_each stays_certify
      dest: begin_normalization_bodies)

lemma write_accounts_bodies: "write_accounts e g w data u f l o1 c1 as s = Inr (s', x) \<Longrightarrow> bodies s' = bodies s"
proof (induction as arbitrary: s x)
  case (Cons a as)
  have one: "write_account e g w data u f l o1 c1 a s = Inr (s1, y) \<Longrightarrow> bodies s1 = bodies s" for s1 y
    by (auto simp: write_account_def rbind_eq_Inr Let_def case_prod_beta bodies_simps dest!: upsert_provider_user_bodies)
  show ?case using Cons.prems Cons.IH one by (fastforce simp: rbind_eq_Inr)
qed simp

lemma write_user_bodies:
  assumes "write_user e w v u f prefer l s = Inr (s', x)"
  shows "bodies s' = bodies s"
proof -
  let ?upd = "\<lambda>t. on_arch (update_raw_payload_status (rw_id w) ''parsed'' (Some USERS_PARSER_VERSION) (Some (now_of t)) None (now_of t)) t"
  obtain data where v: "v = JObj data" using assms by (cases v) (simp_all add: write_user_def rbind_eq_Inr)
  obtain g o1 c1 as s1 us where w: "write_accounts e g w data u f l o1 c1 as s = Inr (s1, us)"
    and s': "s' = (if rw_provider w = ''lichess'' \<and> rw_endpoint_type w = ''user_profile'' then on_arch (publish_verified_legacy_profile (rw_id w)) (?upd s1) else ?upd s1)"
    using assms unfolding write_user_def v json.case Let_def rbind_eq_Inr by (auto simp: rbind_eq_Inr simp del: if_split)
  show ?thesis unfolding s' using write_accounts_bodies [OF w] by (simp add: bodies_on_arch bodies_simps)
qed

lemma stays_users_normalizer: "stays (users_normalizer e prefer raw log_id run mg)"
  unfolding users_normalizer_def normalize_user_payload_def
  by (auto split: prod.split intro!: stays_andthen stays_simple stays_read_stored stays_tx dest!: write_user_bodies
      simp: bodies_on_arch bodies_simps)

lemma write_resource_bodies: "write_resource e w r l c1 a s = Inr (s1, y) \<Longrightarrow> bodies s1 = bodies s"
  by (auto simp: write_resource_def rbind_eq_Inr Let_def case_prod_beta bodies_simps)

lemma write_resources_bodies: "write_resources e w r l c1 us s = Inr (s', x) \<Longrightarrow> bodies s' = bodies s"
proof (induction us arbitrary: s x)
  case (Cons a as)
  show ?case using Cons.prems Cons.IH write_resource_bodies by (fastforce simp: rbind_eq_Inr)
qed simp

lemma file_resource_bodies: "file_resource e w r prefer l s = Inr (s', x) \<Longrightarrow> bodies s' = bodies s"
  by (auto simp: file_resource_def resource_targets_def rbind_eq_Inr Let_def bodies_on_arch bodies_simps
      dest!: write_resource_bodies write_resources_bodies resolve_capture_account_bodies split: option.splits if_splits)

lemma stays_resources_normalizer: "stays (resources_normalizer e prefer raw log_id run mg)"
  unfolding resources_normalizer_def normalize_resource_payload_def
  by (auto split: prod.split intro!: stays_andthen stays_simple stays_read_stored stays_tx dest: file_resource_bodies)

section \<open>The transaction keeps the archive\<close>

abbreviation stored :: "site \<Rightarrow> objects \<times> arch" where
  "stored s \<equiv> (si_objects s, si_arch s)"

lemma log_each_frame:
  "log_each as raw user job run found s = (s', l) \<Longrightarrow> si_objects s' = si_objects s \<and> ar_raw (si_arch s') = ar_raw (si_arch s)
     \<and> ar_objects (si_arch s') = ar_objects (si_arch s) \<and> ar_next_raw (si_arch s') = ar_next_raw (si_arch s)
     \<and> ar_next_object (si_arch s') = ar_next_object (si_arch s)"
proof (induction as arbitrary: s found)
  case (Cons a as)
  obtain s1 err where e: "insert_error_for_attempt a s = (s1, err)" by fastforce
  then have "si_objects s1 = si_objects s \<and> si_arch s1 = si_arch s"
    by (auto simp: insert_error_for_attempt_def insert_error_def Let_def split: if_splits)
  with Cons.IH Cons.prems e show ?case
    by (fastforce simp: Let_def insert_fetch_log_def split: prod.splits)
qed simp

lemma log_attempts_frame:
  assumes "log_attempts cp raw user job run s = (s', l)"
  shows "si_objects s' = si_objects s" "ar_raw (si_arch s') = ar_raw (si_arch s)"
    "ar_objects (si_arch s') = ar_objects (si_arch s)" "ar_next_raw (si_arch s') = ar_next_raw (si_arch s)"
    "ar_next_object (si_arch s') = ar_next_object (si_arch s)"
  using assms log_each_frame by (auto simp: log_attempts_def insert_fetch_log_def Let_def split: if_splits)

lemma log_attempts_bodies: "log_attempts cp raw user job run s = (s', l) \<Longrightarrow> bodies s' = bodies s"
  using log_attempts_frame by (simp add: bodies_def arch_bodies_def)

lemma defer_limited_frame: "defer_limited cp s = Inr s' \<Longrightarrow> stored s' = stored s"
  by (auto simp: defer_limited_def rbind_eq_Inr Let_def split: option.splits if_splits)

lemma prepare_response_Inr:
  assumes "prepare_response e r s = (Inr p, s')" "rr_http_status r = 200" "pred_option known_backend (ie_store e)"
  shows "si_arch s' = si_arch s" "si_objects s \<subseteq>\<^sub>m si_objects s'"
    "case p of None \<Rightarrow> rr_body r = None | Some pp \<Rightarrow> \<exists>b. payload_ok (ie_codec e) (si_objects s') r b pp"
proof -
  have "si_arch s' = si_arch s \<and> si_objects s \<subseteq>\<^sub>m si_objects s'
    \<and> (case p of None \<Rightarrow> rr_body r = None | Some pp \<Rightarrow> \<exists>b. payload_ok (ie_codec e) (si_objects s') r b pp)"
  proof (cases "rr_body r = None")
    case True
    then show ?thesis using assms(1) by (simp add: prepare_response_def ret_def)
  next
    case False
    then obtain os pp where prep: "prepare_raw_payload (ie_codec e) False (ie_store e) r None (si_objects s) (si_arch s) = Inr (os, pp)"
      and p: "p = Some pp" "s' = s\<lparr>si_objects := os\<rparr>"
      using assms(1,2) by (auto simp: prepare_response_def tx_def rbind_eq_Inr split: sum.splits prod.splits)
    then show ?thesis using prepare_raw_payload_Inr [OF prep _ assms(3)] by simp
  qed
  then show "si_arch s' = si_arch s" "si_objects s \<subseteq>\<^sub>m si_objects s'"
    "case p of None \<Rightarrow> rr_body r = None | Some pp \<Rightarrow> \<exists>b. payload_ok (ie_codec e) (si_objects s') r b pp" by auto
qed

text \<open>
  A payload that holds a response: readable, of its provider, endpoint and source, with its digest, and its bytes when they are new.
  The owner scope is not part of it: a profile with relationships is quarantined under another scope.
\<close>

definition holds :: "codec \<Rightarrow> objects \<times> arch \<Rightarrow> arch \<Rightarrow> raw_record \<Rightarrow> int \<Rightarrow> bool" where
  "holds cd x before r i \<longleftrightarrow> (\<exists>b w b'. rr_body r = Some b \<and> load_raw_payload cd (fst x) (snd x) i = Inr (w, b')
     \<and> rw_provider w = rr_provider r \<and> rw_endpoint_type w = rr_endpoint_type r \<and> rw_canonical_source_key w = rr_canonical_source_key r
     \<and> rw_body_hash w = digest cd b \<and> digest cd b' = digest cd b \<and> (existing_payload r (digest cd b) before = None \<longrightarrow> b' = b))"

lemma raw_by_id_bodies:
  assumes "arch_bodies a' = arch_bodies a" "raw_by_id a i = Some w"
  shows "\<exists>w'. raw_by_id a' i = Some w' \<and> captured_part w' = captured_part w"
proof -
  have row: "map_option captured_part (find_row (\<lambda>w. rw_id w = i) ws) = find_row (\<lambda>w. rw_id w = i) (map captured_part ws)" for ws
    by (induction ws) (auto simp: captured_part_def)
  have "map_option captured_part (raw_by_id a' i) = map_option captured_part (raw_by_id a i)"
    using assms(1) unfolding raw_by_id_def row arch_bodies_def by simp
  then show ?thesis using assms(2) by auto
qed

lemma holds_bodies:
  assumes "holds cd (stored s) a r i" "bodies t = bodies s"
  shows "holds cd (stored t) a r i"
proof -
  obtain b w b' where h: "rr_body r = Some b" "raw_by_id (si_arch s) i = Some w" "payload_reads cd (si_objects s) (si_arch s) w b'"
    "rw_provider w = rr_provider r" "rw_endpoint_type w = rr_endpoint_type r" "rw_canonical_source_key w = rr_canonical_source_key r"
    "rw_body_hash w = digest cd b" "digest cd b' = digest cd b" "existing_payload r (digest cd b) a = None \<longrightarrow> b' = b"
    using assms(1) by (auto simp: holds_def load_raw_payload_Inr)
  have eq: "si_objects t = si_objects s" "arch_bodies (si_arch t) = arch_bodies (si_arch s)" using assms(2) by (simp_all add: bodies_def)
  obtain w' where w': "raw_by_id (si_arch t) i = Some w'" "captured_part w' = captured_part w" using raw_by_id_bodies [OF eq(2) h(2)] by blast
  have f: "rw_provider w' = rw_provider w" "rw_endpoint_type w' = rw_endpoint_type w" "rw_canonical_source_key w' = rw_canonical_source_key w"
    "rw_body_hash w' = rw_body_hash w" "rw_archive_object_id w' = rw_archive_object_id w" "rw_raw_body w' = rw_raw_body w"
    "rw_body_compression w' = rw_body_compression w" "rw_body_bytes w' = rw_body_bytes w"
    using w'(2) by (cases w; cases w'; simp add: captured_part_def)+
  have "refs_extend (si_arch s) (si_arch t)" using eq(2) by (simp add: refs_extend_def object_row_def arch_bodies_def)
  then have "payload_reads cd (si_objects t) (si_arch t) w b'" using payload_reads_mono [OF h(3)] eq(1) by simp
  then have "payload_reads cd (si_objects t) (si_arch t) w' b'" using payload_reads_bookkeeping f(4-8) by metis
  then show ?thesis using h w'(1) f unfolding holds_def by (auto simp: load_raw_payload_Inr)
qed

lemma store_raw_Inr:
  assumes "store_raw_if_present e r (Some pp) s = Inr (s', Some i)" "codec_ok (ie_codec e)"
    "arch_ok (ie_codec e) (si_objects s) (si_arch s)" "pred_option known_backend (ie_store e)"
    "payload_ok (ie_codec e) (si_objects s) r b pp"
  shows "holds (ie_codec e) (stored s') (si_arch s) r i"
proof -
  obtain os a where st: "store_raw_payload (ie_codec e) True (ie_store e) r None ''pending'' None None (Some pp) (now_of s)
      (si_objects s) (si_arch s) = Inr (os, a, i)" and s': "s' = with_arch os a s"
    using assms(1) by (auto simp: store_raw_if_present_def rbind_eq_Inr split: if_splits)
  obtain b where b: "rr_body r = Some b" "arch_ok (ie_codec e) os a" "keeps (ie_codec e) (stored s) (os, a)"
    "\<exists>w b'. load_raw_payload (ie_codec e) os a i = Inr (w, b') \<and> same_payload r (digest (ie_codec e) b) w
       \<and> (existing_payload r (digest (ie_codec e) b) (si_arch s) = None \<longrightarrow> b' = b)"
  proof (rule store_raw_payload_ok [OF assms(2,3) _ assms(4) _ st])
    show "pred_option known_backend None" by simp
    show "\<exists>b. payload_ok (ie_codec e) (si_objects s) r b p" if "Some pp = Some p" for p using that assms(5) by auto
  qed (use that in auto)
  show ?thesis
    using b(1,4) by (force simp: holds_def s' with_arch_def load_raw_payload_Inr payload_reads_def same_payload_def)
qed

lemma persist_response_holds:
  assumes "persist_response e (catalog_accounts ad sha) cp job run s = (Inr (Some i, log_id), s1)" "codec_ok (ie_codec e)"
    "arch_ok (ie_codec e) (si_objects s) (si_arch s)" "pred_option known_backend (ie_store e)"
    "rr_http_status (cp_record cp) = 200"
  shows "holds (ie_codec e) (stored s1) (si_arch s) (cp_record cp) i"
proof -
  obtain pp s0 where pp: "prepare_response e (cp_record cp) s = (Inr pp, s0)"
    and tr: "persist_transaction e (catalog_accounts ad sha) cp pp job run s0 = Inr (s1, Some i, log_id)"
    using assms(1,5) by (auto simp: persist_response_def andthen_def tx_def ret_def split: prod.splits sum.splits if_splits)
  note prep = prepare_response_Inr [OF pp assms(5,4)]
  obtain u user t v where u: "store_raw_if_present e (cp_record cp) pp s0 = Inr (u, Some i)"
    and t: "account_of (catalog_accounts ad sha) cp (Some i) u = Inr (t, user)"
    and v: "log_attempts cp (Some i) user job run t = (v, log_id)" "defer_limited cp v = Inr s1"
    using tr assms(5) by (auto simp: persist_transaction_def rbind_eq_Inr Let_def case_prod_beta prod_eq_iff)
  obtain q b where q: "pp = Some q" "payload_ok (ie_codec e) (si_objects s0) (cp_record cp) b q"
    using prep(3) u by (auto simp: store_raw_if_present_def split: option.splits if_splits)
  have ok: "arch_ok (ie_codec e) (si_objects s0) (si_arch s0)" using arch_ok_mono [OF assms(3) prep(2)] prep(1) by simp
  have "holds (ie_codec e) (stored u) (si_arch s) (cp_record cp) i"
    using store_raw_Inr [OF u [unfolded q(1)] assms(2) ok assms(4) q(2)] prep(1) by simp
  moreover have "bodies s1 = bodies u"
    using account_of_bodies [OF t] log_attempts_bodies [OF v(1)] defer_limited_frame [OF v(2)] by (simp add: bodies_def)
  ultimately show ?thesis by (rule holds_bodies)
qed

section \<open>After the commit\<close>

definition normalization_queued :: "ingest_env \<Rightarrow> capture \<Rightarrow> int \<Rightarrow> int option \<Rightarrow> int option \<Rightarrow> int option \<Rightarrow> db \<Rightarrow> bool" where
  "normalization_queued e cp i log_id job run d \<longleftrightarrow> (\<exists>j \<in> set (db_jobs d). j_dedup_key j =
     make_dedup_key (cd_sha (ie_codec e)) (Some (rr_provider (cp_record cp))) ''normalize_payload'' (str_int i)
       (Some [(''fetch_log_id'', opt_int log_id), (''parent_job_id'', opt_int job),
          (''parser_version'', JStr (parser_version_of (rr_endpoint_type (cp_record cp))))]) run)"

lemma enqueue_job_present:
  assumes "enqueue_job sha c q d = Inr (d', i, ins)"
  shows "\<exists>j \<in> set (db_jobs d'). j_dedup_key j = spec_dedup sha q"
  using assms
proof (cases rule: enqueue_jobE)
  case (reused j)
  then show ?thesis using first_by_id_Some [OF reused(1)] by (auto simp: same_work_def)
next
  case (fresh d1)
  show ?thesis by (rule insert_job_row [OF fresh(4)]) (simp add: pending_row_def)
qed

lemma make_dedup_key_nonempty [simp]: "make_dedup_key sha provider kind target params run \<noteq> []"
  by (simp add: make_dedup_key_def)

lemma enqueue_normalization_effect:
  assumes "enqueue_normalization e (rr_provider (cp_record cp)) i log_id mg run job (parser_version_of (rr_endpoint_type (cp_record cp))) s
    = (res, s')"
  shows "stored s' = stored s" "res = Inr () \<Longrightarrow> normalization_queued e cp i log_id job run (si_db s')"
  using assms
  by (auto simp: enqueue_normalization_def tx_def rbind_eq_Inr enqueue_payload_normalization_def normalization_queued_def spec_dedup_def
      split: sum.splits prod.splits dest!: enqueue_job_present)

text \<open>The three normalizers of ingestion, each as ingest.py passes it.\<close>

definition normalizers :: "'v norm_env \<Rightarrow> bool \<Rightarrow> normalizer list" where
  "normalizers ne prefer = [games_normalizer ne, users_normalizer ne prefer, resources_normalizer ne prefer]"

lemma normalizers_stay: "nz \<in> set (normalizers ne prefer) \<Longrightarrow> stays (nz i l r m)"
  using stays_games_normalizer stays_users_normalizer stays_resources_normalizer by (auto simp: normalizers_def)

text \<open>
  C26. A captured response survives whatever follows. Once the transaction that stores a successful response of any endpoint (games, a profile, statistics, a
  resource, an archives index) has committed, the payload can be read from the site that \<open>store_and_normalize\<close> leaves, with each of the
  normalizers of games, users and resources and whether it returns or raises: in the normalizer, in the queue, or later; and from the site that
  \<open>store_and_mark_skipped\<close> leaves. A response seen for the first time is read back byte for byte. In a worker that
  defers normalization, returning also means that a job for this payload is in the queue.
\<close>

theorem captured_response_kept:
  assumes "persist_response e (catalog_accounts ad sha) cp job run s = (Inr (Some i, log_id), s1)" "codec_ok (ie_codec e)"
    and "arch_ok (ie_codec e) (si_objects s) (si_arch s)" "pred_option known_backend (ie_store e)"
    and "rr_http_status (cp_record cp) = 200" "nz \<in> set (normalizers ne prefer)"
    and run: "store_and_normalize e (catalog_accounts ad sha) nz cp mg job run s = (res, s')"
    and skipping: "store_and_mark_skipped e (catalog_accounts ad sha) cp job run s = (res2, s2)"
  shows "holds (ie_codec e) (stored s') (si_arch s) (cp_record cp) i
    \<and> (cn_defer_normalization (si_conn s1) \<and> (\<exists>r. res = Inr r) \<longrightarrow> normalization_queued e cp i log_id job run (si_db s'))
    \<and> holds (ie_codec e) (stored s2) (si_arch s) (cp_record cp) i"
proof -
  note held = persist_response_holds [OF assms(1-5)]
  let ?queue = "enqueue_normalization e (rr_provider (cp_record cp)) i log_id mg run job (parser_version_of (rr_endpoint_type (cp_record cp))) s1"
  let ?norm = "run_normalizer nz (rr_endpoint_type (cp_record cp)) i log_id run mg s1"
  have shape: "s' = (if cn_defer_normalization (si_conn s1) then snd ?queue else snd ?norm)"
    "cn_defer_normalization (si_conn s1) \<Longrightarrow> res = Inr r \<Longrightarrow> fst ?queue = Inr ()" for r
    using run assms(1,5)
    by (auto simp: store_and_normalize_def Let_def andthen_def ask_site_def split: prod.splits sum.splits if_splits)
  have "bodies (snd ?norm) = bodies s1" using staysD [OF normalizers_stay [OF assms(6)]] by (simp add: run_normalizer_def)
  moreover have "stored (snd ?queue) = stored s1" using enqueue_normalization_effect(1) [of e cp i log_id mg run job s1] by (simp add: prod_eq_iff)
  ultimately have "bodies s' = bodies s1" using shape(1) by (simp add: bodies_def)
  then have "holds (ie_codec e) (stored s') (si_arch s) (cp_record cp) i" by (rule holds_bodies [OF held])
  moreover have "normalization_queued e cp i log_id job run (si_db s')"
    if "cn_defer_normalization (si_conn s1)" "res = Inr r" for r
    using enqueue_normalization_effect(2) [of e cp i log_id mg run job s1] shape that by (simp add: prod_eq_iff)
  moreover have "holds (ie_codec e) (stored s2) (si_arch s) (cp_record cp) i"
  proof (rule holds_bodies [OF held])
    have "s2 = snd (mark_archives_skipped i s1)"
      using skipping assms(1) by (auto simp: store_and_mark_skipped_def andthen_def ask_site_def mark_archives_skipped_def)
    then show "bodies s2 = bodies s1" by (simp add: mark_archives_skipped_def bodies_def bodies_simps)
  qed
  ultimately show ?thesis by blast
qed

definition page_capture :: capture where
  "page_capture = \<lparr>cp_record = sample_record\<lparr>rr_endpoint_type := ''game''\<rparr>, cp_target_username = None, cp_target_game_id = None,
     cp_archive_unit = None, cp_attempts = []\<rparr>"

definition ingest_site :: site where
  "ingest_site = \<lparr>si_db = one_job_db, si_conn = fresh_conn 7, si_arch = no_arch,
     si_objects = Map.empty, si_errors = [], si_next_error = 1,
     si_coll = \<lparr>co_checkpoints = [], co_coverage = [], co_ranges = [], co_followups = []\<rparr>, si_catalog = empty_catalog, si_polls = 0\<rparr>"

definition plain_env :: ingest_env where
  "plain_env = \<lparr>ie_codec = plain_codec, ie_store = Some disk\<rparr>"

abbreviation plain_accounts :: accounts where
  "plain_accounts \<equiv> catalog_accounts (\<lambda>_. Inr None) id"

lemma sample_persist:
  "case persist_response plain_env plain_accounts page_capture (Some 1) None ingest_site of
     (Inr (Some i, l), s1) \<Rightarrow> i = 1 | _ \<Rightarrow> False"
  by code_simp

lemma sample_normalized:
  "case store_and_normalize plain_env plain_accounts (games_normalizer sample_norm_env) page_capture None (Some 1) None ingest_site of
     (Inr r, s') \<Rightarrow> ir_normalized_ids r = [1] | _ \<Rightarrow> False"
  by code_simp

text \<open>A response whose game is normalized in the same call.\<close>

theorem captured_response_kept_witness:
  "\<exists>r s'. store_and_normalize plain_env plain_accounts (games_normalizer sample_norm_env) page_capture None (Some 1) None ingest_site = (Inr r, s')
    \<and> ir_normalized_ids r = [1] \<and> holds plain_codec (stored s') no_arch (cp_record page_capture) 1"
proof -
  obtain l s1 where persisted: "persist_response plain_env plain_accounts page_capture (Some 1) None ingest_site = (Inr (Some 1, l), s1)"
    using sample_persist by (auto split: prod.splits sum.splits option.splits)
  obtain r s' where run: "store_and_normalize plain_env plain_accounts (games_normalizer sample_norm_env) page_capture None (Some 1) None ingest_site = (Inr r, s')"
      and ids: "ir_normalized_ids r = [1]"
    using sample_normalized by (auto split: prod.splits sum.splits)
  obtain res2 s2 where marks: "store_and_mark_skipped plain_env plain_accounts page_capture (Some 1) None ingest_site = (res2, s2)" by fastforce
  have games: "games_normalizer sample_norm_env \<in> set (normalizers sample_norm_env False)" by (simp add: normalizers_def)
  have "holds (ie_codec plain_env) (stored s') (si_arch ingest_site) (cp_record page_capture) 1"
    using captured_response_kept [OF persisted _ _ _ _ games run marks]
    by (simp add: plain_env_def plain_codec_ok no_arch_ok ingest_site_def disk_known page_capture_def sample_record_def)
  then show ?thesis using run ids by (auto simp: plain_env_def ingest_site_def)
qed

end
