(* ===== verification/Collection_Properties.thy ===== *)
theory Collection_Properties
  imports Collection_Laws Archive_Properties Samples
begin

text \<open>
  Properties of collections. The witnesses run one Lichess collection of the user \<open>alice\<close> on a site with
  an empty archive, with a provider that returns an empty page.
\<close>

definition no_coll :: coll where
  "no_coll = \<lparr>co_checkpoints = [], co_coverage = [], co_ranges = [], co_followups = []\<rparr>"

definition sample_site :: site where
  "sample_site = \<lparr>si_db = one_job_db, si_conn = fresh_conn 7, si_arch = no_arch, si_objects = Map.empty, si_errors = [],
     si_next_error = 1, si_coll = no_coll, si_catalog = empty_catalog, si_polls = 0\<rparr>"

definition empty_page :: "int option \<Rightarrow> int \<Rightarrow> int \<Rightarrow> capture" where
  "empty_page since until limit = \<lparr>cp_record = sample_record\<lparr>rr_endpoint_type := ''user_games_stream'', rr_body := Some [],
       rr_canonical_source_key := page_key ''alice'' since until limit\<rparr>,
     cp_target_username = Some ''alice'', cp_target_game_id = None, cp_archive_unit = None, cp_attempts = []\<rparr>"

definition sample_env :: coll_env where
  "sample_env = \<lparr>ce_ingest = \<lparr>ie_codec = plain_codec, ie_store = None\<rparr>,
     ce_accounts = \<lparr>ac_record_resource_attempt = (\<lambda>_ _ s. Inr (s, 1)), ac_resolve_capture_account = (\<lambda>_ _ _ s. Inr (s, 1))\<rparr>,
     ce_games = (\<lambda>_ _ _ _. ret []), ce_loads = (\<lambda>_. Inl (ValueError ''json'')), ce_stop = (\<lambda>_. False),
     ce_ask_archives = (\<lambda>_ _. raise (RuntimeError ''no archives'')), ce_ask_month = (\<lambda>_ _ _ _. raise (RuntimeError ''no month'')),
     ce_ask_game = (\<lambda>_. raise (RuntimeError ''no game'')), ce_ask_page = (\<lambda>since until limit. ret (empty_page since until limit))\<rparr>"

definition covered_site :: site where
  "covered_site = sample_site\<lparr>si_coll := no_coll\<lparr>co_ranges :=
     [\<lparr>sg_username = ''alice'', sg_raw_payload_id = 1, sg_since_ms = None, sg_until_ms = 10\<rparr>,
      \<lparr>sg_username = ''alice'', sg_raw_payload_id = 2, sg_since_ms = Some 20, sg_until_ms = 30\<rparr>]\<rparr>\<rparr>"

text \<open>
  C27. The missing windows are exact. Whatever ranges and history a user has, the windows still to be
  fetched hold exactly the requested milliseconds that no complete range holds; no window is empty,
  and they come newest first with a gap between any two, so each is a maximal missing interval.
\<close>

theorem missing_windows_exact:
  assumes "missing_windows co u since until = Inr ws"
  shows "(\<forall>t. (\<exists>w \<in> set ws. in_span t w) \<longleftrightarrow> in_span t (since, until) \<and> \<not> covers co u t)
    \<and> (\<forall>w \<in> set ws. nonempty w) \<and> sorted_wrt newer ws"
  using missing_windows_points [OF assms] missing_windows_newer [OF assms] by simp

theorem missing_windows_exact_witness:
  "missing_windows (si_coll covered_site) ''alice'' None 40 = Inr [(Some 30, 40), (Some 10, 20)]
    \<and> (\<forall>t. (\<exists>w \<in> set [(Some 30, 40), (Some 10, 20)]. in_span t w) \<longleftrightarrow> in_span t (None, 40) \<and> \<not> covers (si_coll covered_site) ''alice'' t)"
proof -
  have run: "missing_windows (si_coll covered_site) ''alice'' None 40 = Inr [(Some 30, 40), (Some 10, 20)]" by code_simp
  show ?thesis using missing_windows_exact [OF run] run by simp
qed

text \<open>
  The history mark is exact. The mark is the first millisecond that is not proven complete: every
  earlier one is covered and the mark itself is not. Without a mark there is a time before which
  nothing is covered.
\<close>

lemma history_high_water_exact:
  "case history_high_water co u of
      Some h \<Rightarrow> (\<forall>t < h. covers co u t) \<and> \<not> covers co u h
    | None \<Rightarrow> \<exists>l. \<forall>t < l. \<not> covers co u t"
proof -
  let ?ss = "sort_key span_order (covered_spans co u)"
  have cov: "covers co u t \<longleftrightarrow> (\<exists>s \<in> set ?ss. in_span t s)" for t by (simp add: covers_def)
  have "\<exists>l. \<forall>t < l. \<not> covers co u t" if all: "\<forall>s \<in> set ?ss. fst s \<noteq> None"
  proof -
    define l where "l = Min (insert 0 ((\<lambda>s. the (fst s)) ` set ?ss))"
    have low: "l \<le> the (fst s)" if "s \<in> set ?ss" for s unfolding l_def using that by (intro Min_le) auto
    have "\<not> in_span t s" if "t < l" "s \<in> set ?ss" for t s
      using low [OF that(2)] that(1) all that(2) by (auto simp: in_span_def)
    then have "\<forall>t < l. \<not> covers co u t" unfolding cov by blast
    then show ?thesis by blast
  qed
  then show ?thesis using high_water_spec [of ?ss]
    by (cases "history_high_water co u") (simp_all add: cov history_high_water_def)
qed

text \<open>
  C28. Coverage is truthful. Take a user's games and a page that is honest: the newest games of the
  window, up to the limit. Recording the page adds to the covered milliseconds exactly the range the code
  computes, and every game created in a newly covered millisecond is on the page, with
  its multiplicity: a full page leaves its oldest millisecond out, where games may have been cut off.
\<close>

theorem page_coverage_truthful:
  assumes "absorb_page j u mode psize max_size now w c games ids s = (Inr r, s')"
    and "fresh_source (si_coll s) u (rw_id w)" "0 < pc_limit c"
    and "honest_page history (pc_since_ms c) (pc_until_ms c) (pc_limit c) (map snd games)"
  shows "(\<forall>t. covers (si_coll s') u t \<longleftrightarrow> covers (si_coll s) u t
      \<or> in_span t (covered_since (pc_since_ms c) (pc_limit c) games, pc_until_ms c))
    \<and> (\<forall>t. covers (si_coll s') u t \<and> \<not> covers (si_coll s) u t \<longrightarrow> count_list (map snd games) t = count_list history t)"
  using absorb_page_covers [OF assms(1,2), of u] honest_page_complete [OF assms(4,3)] by auto

definition full_page :: "(pars \<times> int) list" where
  "full_page = map (\<lambda>(i, t). ([(''id'', JStr i), (''createdAt'', JInt t), (''status'', JStr ''mate'')], t)) [(''g3'', 9), (''g2'', 8), (''g1'', 7)]"

definition page_at :: page_cursor where
  "page_at = \<lparr>pc_request_fingerprint = [], pc_since_ms = None, pc_upper_ms = 10, pc_requested_since_ms = None, pc_until_ms = 10,
     pc_limit = 3, pc_followup_after = [], pc_phase = ''pages'', pc_local_after = 0, pc_local_high_water = 0, pc_done = False\<rparr>"

definition page_row :: raw_row where
  "page_row = \<lparr>rw_id = 1, rw_provider = ''lichess'', rw_endpoint_type = ''user_games_stream'', rw_provider_url = [],
     rw_canonical_source_key = page_key ''alice'' None 10 3, rw_request_params = JNull, rw_response_status = 200,
     rw_response_headers = JNull, rw_content_type = [], rw_fetched_at = 100, rw_body_hash = [], rw_body_compression = [],
     rw_raw_body = Some [], rw_body_bytes = 0, rw_parser_version = None, rw_normalization_status = ''pending'',
     rw_normalized_at = None, rw_error_ref = None, rw_archive_object_id = None, rw_owner_scope = ''public''\<rparr>"

lemma full_page_absorbed:
  "case absorb_page sample_job ''alice'' ''full'' 3 100 50 page_row page_at full_page [] sample_site of
     (Inr r, s') \<Rightarrow> \<not> cr_done r \<and> fresh_source (si_coll sample_site) ''alice'' (rw_id page_row) | _ \<Rightarrow> False"
  by code_simp

lemma full_page_honest: "honest_page [7, 9, 7, 8, 5] None 10 3 (map snd full_page)"
  by code_simp

theorem page_coverage_truthful_witness:
  "\<exists>r s'. absorb_page sample_job ''alice'' ''full'' 3 100 50 page_row page_at full_page [] sample_site = (Inr r, s')
    \<and> (\<forall>t. covers (si_coll s') ''alice'' t \<and> \<not> covers (si_coll sample_site) ''alice'' t \<longrightarrow>
         count_list (map snd full_page) t = count_list [7, 9, 7, 8, 5] t)"
proof -
  obtain r s' where run: "absorb_page sample_job ''alice'' ''full'' 3 100 50 page_row page_at full_page [] sample_site = (Inr r, s')"
    and fresh: "fresh_source (si_coll sample_site) ''alice'' (rw_id page_row)"
    using full_page_absorbed by (auto split: prod.splits sum.splits)
  have at: "pc_since_ms page_at = None" "pc_until_ms page_at = 10" "pc_limit page_at = 3" by (simp_all add: page_at_def)
  show ?thesis using page_coverage_truthful [OF run fresh, of "[7, 9, 7, 8, 5]"] full_page_honest run at by auto
qed


lemma sample_collection:
  "case execute_collection sample_env sample_job [(''until_ms'', JInt 9), (''page_size'', JInt 3)] 5 50 sample_site of
     (Inr r, s') \<Rightarrow> cr_done r \<and> cr_message r \<noteq> ''collection already complete'' \<and> length (co_ranges (si_coll s')) = 1 | _ \<Rightarrow> False"
  by code_simp


text \<open>
  C30. Collections make progress. A page of a missing window either proves at least one more millisecond
  complete, or moves the checkpoint to the same window with at least twice the limit, which stays within
  the configured maximum: so ties on one millisecond cannot repeat the same request for ever.
\<close>

theorem collection_progress:
  assumes "absorb_page j u mode psize max_size now w c games ids s = (Inr r, s')"
    and "page_games (pc_since_ms c) (pc_until_ms c) (pc_limit c) vs = Inr games"
    and "fresh_source (si_coll s) u (rw_id w)" "0 < pc_limit c" "0 < psize" "nonempty (pc_since_ms c, pc_until_ms c)"
    and "\<forall>t. in_span t (pc_since_ms c, pc_until_ms c) \<longrightarrow> \<not> covers (si_coll s) u t"
  shows "(\<exists>t. \<not> covers (si_coll s) u t \<and> covers (si_coll s') u t)
    \<or> (\<exists>c'. checkpoint (si_coll s') (j_id j) = Some (page_cursor_json c') \<and> pc_since_ms c' = pc_since_ms c
        \<and> pc_until_ms c' = pc_until_ms c \<and> 2 * pc_limit c \<le> pc_limit c' \<and> pc_limit c' \<le> max_size)"
proof (cases "nonempty (covered_since (pc_since_ms c) (pc_limit c) games, pc_until_ms c)")
  case True
  then obtain t where t: "in_span t (covered_since (pc_since_ms c) (pc_limit c) games, pc_until_ms c)"
    by (rule nonempty_point)
  have "in_span t (pc_since_ms c, pc_until_ms c)"
    using covered_since_inside [OF assms(2,4) t] .
  then show ?thesis using absorb_page_covers [OF assms(1,3), of u t] t assms(7) by blast
next
  case False
  have grown: "2 * pc_limit c \<le> next_limit psize (pc_until_ms c) (pc_limit c) games" and sat: "\<not> int (length games) < pc_limit c"
    using page_progress [OF assms(2,4,5,6)] False assms(6) by (auto simp: covered_since_def)
  have stuck: "snd (last games) + 1 = pc_until_ms c" using stuck_boundary [OF assms(2,4) sat False] .
  obtain s1 dn c2 where "keep_range u now w c games s = (Inr (), s1)"
    and s': "si_coll s' = commit_page j u now w (int (length games) < pc_limit c) dn c c2 (si_coll s1)" and "cr_done r = dn"
    and "if mode = ''backfill'' then dn = (int (length games) < pc_limit c)
       else \<exists>ws. missing_windows (si_coll s1) u (pc_requested_since_ms c) (pc_upper_ms c) = Inr ws \<and> dn = (ws = [])"
    and c2: "c2 = (let c1 = (if int (length games) < pc_limit c then c
        else c\<lparr>pc_until_ms := snd (last games) + 1, pc_limit := next_limit psize (pc_until_ms c) (pc_limit c) games\<rparr>)
      in if dn then c1\<lparr>pc_done := True\<rparr> else c1)"
    and max: "int (length games) < pc_limit c \<or> next_limit psize (pc_until_ms c) (pc_limit c) games \<le> max_size"
    by (rule absorb_page_Inr [OF assms(1)])
  have "checkpoint (si_coll s') (j_id j) = Some (page_cursor_json c2)" by (simp add: s' commit_page_def Let_def)
  moreover have "pc_since_ms c2 = pc_since_ms c" "pc_until_ms c2 = pc_until_ms c" "pc_limit c2 = next_limit psize (pc_until_ms c) (pc_limit c) games"
    using sat stuck by (simp_all add: c2 Let_def)
  ultimately show ?thesis using grown max sat by auto
qed

definition tied_page :: "json list" where
  "tied_page = map (\<lambda>i. JObj [(''id'', JStr i), (''createdAt'', JInt 9), (''status'', JStr ''mate'')]) [''g3'', ''g2'', ''g1'']"

lemma tied_page_absorbed:
  "case page_games None 10 3 tied_page of
     Inr games \<Rightarrow> (case absorb_page sample_job ''alice'' ''full'' 3 100 50 page_row page_at games [] sample_site of
       (Inr r, s') \<Rightarrow> True | _ \<Rightarrow> False) | _ \<Rightarrow> False"
  by code_simp

lemma sample_fresh: "fresh_source (si_coll sample_site) ''alice'' (rw_id page_row)"
  by (simp add: fresh_source_def sample_site_def no_coll_def)

lemma sample_covers: "\<not> covers (si_coll sample_site) u t"
  by (simp add: covers_iff sample_site_def no_coll_def)

theorem collection_progress_witness:
  "\<exists>games r s'. page_games None 10 3 tied_page = Inr games
    \<and> absorb_page sample_job ''alice'' ''full'' 3 100 50 page_row page_at games [] sample_site = (Inr r, s')
    \<and> ((\<exists>t. covers (si_coll s') ''alice'' t) \<or> (\<exists>c'. checkpoint (si_coll s') (j_id sample_job) = Some (page_cursor_json c') \<and> 6 \<le> pc_limit c'))"
proof -
  obtain games r s' where games: "page_games None 10 3 tied_page = Inr games"
    and run: "absorb_page sample_job ''alice'' ''full'' 3 100 50 page_row page_at games [] sample_site = (Inr r, s')"
    using tied_page_absorbed by (auto split: prod.splits sum.splits) (metis obj_sumE surj_pair)
  have at: "pc_since_ms page_at = None" "pc_until_ms page_at = 10" "pc_limit page_at = 3" by (simp_all add: page_at_def)
  have "(\<exists>t. \<not> covers (si_coll sample_site) ''alice'' t \<and> covers (si_coll s') ''alice'' t)
    \<or> (\<exists>c'. checkpoint (si_coll s') (j_id sample_job) = Some (page_cursor_json c') \<and> pc_since_ms c' = pc_since_ms page_at
        \<and> pc_until_ms c' = pc_until_ms page_at \<and> 2 * pc_limit page_at \<le> pc_limit c' \<and> pc_limit c' \<le> 100)"
    by (rule collection_progress [OF run _ sample_fresh]) (use games at sample_covers in \<open>simp_all add: nonempty_def\<close>)
  then show ?thesis using games run at by auto
qed

end
