(* ===== verification/Acquisition_Properties.thy ===== *)
theory Acquisition_Properties
  imports Acquisition Samples
begin

text \<open>
  Properties of bounded acquisition: which games a run may own, and which months a window takes.
\<close>

section \<open>Attribution\<close>

inductive attributed :: "game_row list \<Rightarrow> int \<Rightarrow> db \<Rightarrow> db \<Rightarrow> bool" for games run where
  attribute: "associate_run_game games run game d = Inr (d', added) \<Longrightarrow> attributed games run d d'"

text \<open>The games a run with these parameters may own.\<close>

definition admissible :: "game_row list \<Rightarrow> string \<Rightarrow> pars \<Rightarrow> int \<Rightarrow> bool" where
  "admissible games provider params game \<longleftrightarrow> (\<exists>g. find_row (\<lambda>g. ga_id g = game) games = Some g \<and> ga_provider g = provider
     \<and> (\<forall>a. \<not> is_collection params \<longrightarrow> int_unless_none (obj_get params ''since'') = Inr (Some a) \<longrightarrow> (\<exists>t. ga_ended_at g = Some t \<and> a \<le> t))
     \<and> (\<forall>b. \<not> is_collection params \<longrightarrow> int_unless_none (obj_get params ''until'') = Inr (Some b) \<longrightarrow> (\<exists>t. ga_ended_at g = Some t \<and> t < b)))"

lemma game_bounds_Inr:
  assumes "game_bounds d run provider None = Inr b" "run_row d run = Some r" "r_params_json r = JObj params"
  shows "r_provider r = Some provider" "\<exists>n. configured_limit params = Inr n \<and> gb_remaining b = map_option (\<lambda>n. max 0 (n - game_count_for_run d run)) n"
    "\<not> is_collection params \<Longrightarrow> int_unless_none (obj_get params ''since'') = Inr (gb_since b)"
    "\<not> is_collection params \<Longrightarrow> int_unless_none (obj_get params ''until'') = Inr (gb_until b)"
  using assms by (auto simp: game_bounds_def rbind_eq_Inr Let_def split: if_splits option.splits)

lemma bounds_include_window:
  assumes "bounds_include b ended created"
  shows "gb_since b = Some x \<Longrightarrow> \<exists>t. ended = Some t \<and> x \<le> t" "gb_until b = Some y \<Longrightarrow> \<exists>t. ended = Some t \<and> t < y"
  using assms by (auto simp: bounds_include_def in_window_def split: if_splits option.splits)

lemma associate_run_game_cases:
  assumes "associate_run_game games run game d = Inr (d', added)" "run_row d run = Some r" "r_params_json r = JObj params"
  obtains (known) "\<not> added" "d' = d" "run_has_game d run game"
  | (fresh) provider where added "d' = d\<lparr>db_run_games := db_run_games d @ [(run, game)]\<rparr>" "\<not> run_has_game d run game"
      "r_provider r = Some provider" "admissible games provider params game"
      "\<And>n. configured_limit params = Inr (Some n) \<Longrightarrow> game_count_for_run d run < n"
proof (cases "run_has_game d run game")
  case True
  then show thesis using assms(1) known by (auto simp: associate_run_game_def split: option.splits)
next
  case False
  then obtain g b where g: "find_row (\<lambda>g. ga_id g = game) games = Some g" and b: "game_bounds d run (ga_provider g) None = Inr b"
    and ok: "bounds_include b (ga_ended_at g) (created_at g)" "gb_remaining b \<noteq> Some 0"
    and d': "d' = d\<lparr>db_run_games := db_run_games d @ [(run, game)]\<rparr>" added
    using assms(1) by (auto simp: associate_run_game_def rbind_eq_Inr split: option.splits if_splits)
  note bounds = game_bounds_Inr [OF b assms(2,3)]
  have "admissible games (ga_provider g) params game"
    using g bounds(3,4) bounds_include_window [OF ok(1)] by (auto simp: admissible_def)
  moreover have "game_count_for_run d run < n" if "configured_limit params = Inr (Some n)" for n
    using that bounds(2) ok(2) by (auto simp: max_def split: if_splits)
  ultimately show thesis using fresh d' False bounds(1) by blast
qed

lemma attributed_keeps_runs: "attributed games run d d' \<Longrightarrow> db_runs d' = db_runs d"
  by (auto elim!: attributed.cases simp: associate_run_game_def rbind_eq_Inr split: option.splits if_splits)

lemma count_snoc: "count_where p (xs @ [x]) = count_where p xs + (if p x then 1 else 0)"
  by (simp add: count_where_def)

definition run_state_ok :: "game_row list \<Rightarrow> int \<Rightarrow> string \<Rightarrow> pars \<Rightarrow> int \<Rightarrow> db \<Rightarrow> db \<Rightarrow> bool" where
  "run_state_ok games run provider params n d d' \<longleftrightarrow> game_count_for_run d' run \<le> max n (game_count_for_run d run)
     \<and> (\<forall>g \<in> run_game_ids d' run - run_game_ids d run. admissible games provider params g)
     \<and> run_game_ids d run \<subseteq> run_game_ids d' run \<and> (\<forall>other. other \<noteq> run \<longrightarrow> run_game_ids d' other = run_game_ids d other)"

lemma run_state_ok_step:
  assumes "run_state_ok games run provider params n d0 d" "attributed games run d d'" "run_row d run = Some r"
    "r_params_json r = JObj params" "r_provider r = Some provider" "configured_limit params = Inr (Some n)"
  shows "run_state_ok games run provider params n d0 d'"
proof -
  obtain game added where a: "associate_run_game games run game d = Inr (d', added)" using assms(2) by (auto elim: attributed.cases)
  show ?thesis using a assms(3,4)
  proof (cases rule: associate_run_game_cases)
    case known
    then show ?thesis using assms(1) by simp
  next
    case (fresh p)
    have "game_count_for_run d' run \<le> n" using fresh(2) fresh(6) [OF assms(6)] by (simp add: game_count_for_run_def count_snoc)
    moreover have "run_game_ids d' run = insert game (run_game_ids d run)" "other \<noteq> run \<Longrightarrow> run_game_ids d' other = run_game_ids d other" for other
      using fresh(2) by (auto simp: run_game_ids_def)
    ultimately show ?thesis using assms(1,5) fresh(4,5) by (auto simp: run_state_ok_def)
  qed
qed

text \<open>
  C31. A run never owns more games than it may. Whatever games normalizers attribute to a run, in any
  order and any number of times, the run's count of games does not pass its configured limit, every game it
  gains is of its provider and ended inside its date window, no game is lost, and other runs' games
  do not change. (The limit of a run that already holds more, from an earlier configuration, is its count.)
\<close>

theorem run_games_bounded:
  assumes "(attributed games run)\<^sup>*\<^sup>* d d'" "run_row d run = Some r" "r_params_json r = JObj params"
    and "r_provider r = Some provider" "configured_limit params = Inr (Some n)"
  shows "game_count_for_run d' run \<le> max n (game_count_for_run d run)
    \<and> (\<forall>g \<in> run_game_ids d' run - run_game_ids d run. admissible games provider params g)
    \<and> run_game_ids d run \<subseteq> run_game_ids d' run
    \<and> (\<forall>other. other \<noteq> run \<longrightarrow> run_game_ids d' other = run_game_ids d other)"
proof -
  have "run_row d' run = Some r \<and> run_state_ok games run provider params n d d'" using assms(1)
  proof induction
    case base
    then show ?case using assms(2) by (simp add: run_state_ok_def)
  next
    case (step y z)
    then show ?case using run_state_ok_step [OF _ step.hyps(2) _ assms(3-5)] attributed_keeps_runs [OF step.hyps(2)]
      by (auto simp: run_row_def)
  qed
  then show ?thesis by (simp add: run_state_ok_def)
qed

definition bounded_run :: run where
  "bounded_run = \<lparr>r_id = 1, r_seed_spec = [], r_provider = Some ''lichess'',
     r_params_json = JObj [(''max_games'', JInt 1), (''since'', JInt 5)], r_status = Running, r_counters = None, r_started_at = 0,
     r_updated_at = 0, r_finished_at = None, r_revision = 1, r_workspace_id = ''local'', r_work_budget_id = None\<rparr>"

definition one_game :: "game_row list" where
  "one_game = [\<lparr>ga_id = 7, ga_provider = ''lichess'', ga_ended_at = Some 9, ga_source_metadata = JNull\<rparr>]"

definition bounded_db :: db where
  "bounded_db = empty_db\<lparr>db_runs := [bounded_run]\<rparr>"

theorem run_games_bounded_witness:
  "\<exists>d'. associate_run_game one_game 1 7 bounded_db = Inr (d', True) \<and> game_count_for_run d' 1 \<le> 1
     \<and> (\<forall>other. other \<noteq> 1 \<longrightarrow> run_game_ids d' other = {})"
proof -
  have "case associate_run_game one_game 1 7 bounded_db of Inr (d', added) \<Rightarrow> added | _ \<Rightarrow> False" by code_simp
  then obtain d' where a: "associate_run_game one_game 1 7 bounded_db = Inr (d', True)" by (auto split: sum.splits prod.splits)
  have "(attributed one_game 1)\<^sup>*\<^sup>* bounded_db d'" by (rule r_into_rtranclp, rule attributed.attribute [OF a])
  from run_games_bounded [OF this, of bounded_run "[(''max_games'', JInt 1), (''since'', JInt 5)]" "''lichess''" 1]
  show ?thesis using a
    by (simp add: bounded_db_def run_row_def bounded_run_def empty_db_def configured_limit_def is_collection_def int_unless_none_def
        obj_get_def py_int_def rbind_def run_game_ids_def game_count_for_run_def count_where_def)
qed

section \<open>Months\<close>

lemma next_month_index: "month_index (next_month ym) = month_index ym + 1"
  by (simp add: month_index_def next_month_def)

lemma next_month_range: "1 \<le> snd ym \<Longrightarrow> snd ym \<le> 12 \<Longrightarrow> 1 \<le> snd (next_month ym) \<and> snd (next_month ym) \<le> 12"
  by (auto simp: next_month_def)

lemma month_le_index:
  "1 \<le> snd a \<Longrightarrow> snd a \<le> 12 \<Longrightarrow> 1 \<le> snd b \<Longrightarrow> snd b \<le> 12 \<Longrightarrow> month_le a b \<longleftrightarrow> month_index a \<le> month_index b"
  by (auto simp: month_le_def month_index_def)

lemma month_index_inj:
  assumes "1 \<le> snd a" "snd a \<le> 12" "1 \<le> snd b" "snd b \<le> 12" "month_index a = month_index b"
  shows "a = b"
proof (rule prod_eqI)
  have eq: "12 * fst a + snd a = 12 * fst b + snd b" using assms(5) by (simp add: month_index_def)
  then show "fst a = fst b" using assms(1-4) by linarith
  show "snd a = snd b" using eq assms(1-4) by (cases "fst a < fst b"; cases "fst b < fst a") linarith+
qed

lemma months_upto_spec:
  assumes "1 \<le> snd ym" "snd ym \<le> 12" "1 \<le> snd fin" "snd fin \<le> 12" "month_index fin - month_index ym < int n"
  shows "sorted_wrt (\<lambda>a b. month_index a < month_index b) (months_upto n ym fin)
    \<and> set (months_upto n ym fin) = {a. 1 \<le> snd a \<and> snd a \<le> 12 \<and> month_index ym \<le> month_index a \<and> month_index a \<le> month_index fin}"
  using assms
proof (induction n arbitrary: ym)
  case 0
  then show ?case by auto
next
  case (Suc n)
  show ?case
  proof (cases "month_le ym fin")
    case True
    have le: "month_index ym \<le> month_index fin" using True month_le_index Suc.prems by blast
    have range: "1 \<le> snd (next_month ym)" "snd (next_month ym) \<le> 12" using next_month_range Suc.prems by auto
    have IH: "sorted_wrt (\<lambda>a b. month_index a < month_index b) (months_upto n (next_month ym) fin)
       \<and> set (months_upto n (next_month ym) fin) = {a. 1 \<le> snd a \<and> snd a \<le> 12 \<and> month_index ym + 1 \<le> month_index a \<and> month_index a \<le> month_index fin}"
      using Suc.IH [OF range Suc.prems(3,4)] Suc.prems(5) by (simp add: next_month_index)
    have "a = ym \<or> month_index ym + 1 \<le> month_index a" if "1 \<le> snd a" "snd a \<le> 12" "month_index ym \<le> month_index a" for a
      using month_index_inj [OF that(1,2) Suc.prems(1,2)] that(3) by linarith
    then show ?thesis using IH True le Suc.prems by auto
  next
    case False
    then have "month_index fin < month_index ym" using month_le_index [of ym fin] Suc.prems by auto
    then show ?thesis using False by auto
  qed
qed

text \<open>
  A date window takes exactly its months. The months of a bounded Chess.com acquisition are in
  increasing order without repetition, and a month is among them exactly when some second of the
  requested half-open window lies in it.
\<close>

lemma months_between_exact:
  assumes "months_between since until = Inr ms"
  shows "sorted_wrt (\<lambda>a b. month_index a < month_index b) ms
    \<and> (\<forall>y m. (y, m) \<in> set ms \<longleftrightarrow> 1 \<le> m \<and> m \<le> 12
         \<and> (\<exists>t. since \<le> t \<and> t < until \<and> month_start y m \<le> t \<and> t < month_start (fst (next_month (y, m))) (snd (next_month (y, m)))))"
proof -
  obtain y0 m0 d0 y1 m1 d1 where lt: "since < until"
    and s: "fromtimestamp since = Inr (y0, m0, d0)" and u: "fromtimestamp (until - 1) = Inr (y1, m1, d1)"
    and ms: "ms = months_upto (nat (month_index (y1, m1) - month_index (y0, m0) + 1)) (y0, m0) (y1, m1)"
    using assms by (auto simp: months_between_def rbind_eq_Inr split: if_splits)
  note bs = fromtimestamp_bracket [OF s] and bu = fromtimestamp_bracket [OF u]
  have spec: "sorted_wrt (\<lambda>a b. month_index a < month_index b) ms"
    "set ms = {a. 1 \<le> snd a \<and> snd a \<le> 12 \<and> month_index (y0, m0) \<le> month_index a \<and> month_index a \<le> month_index (y1, m1)}"
    using months_upto_spec [of "(y0, m0)" "(y1, m1)" "nat (month_index (y1, m1) - month_index (y0, m0) + 1)"] bs(3,4) bu(3,4)
    by (auto simp: ms)
  have mono: "month_start (fst a) (snd a) \<le> month_start (fst b) (snd b)"
    if "month_index a \<le> month_index b" "1 \<le> snd a" "snd a \<le> 12" "1 \<le> snd b" "snd b \<le> 12" for a b
    using month_start_mono [of "snd a" "snd b" "fst a" "fst b"] that by (simp add: month_index_def)
  have low: "month_index (y0, m0) \<le> month_index (y, m) \<longleftrightarrow> since < month_start (fst (next_month (y, m))) (snd (next_month (y, m)))"
    if "1 \<le> m" "m \<le> 12" for y m
  proof
    assume "month_index (y0, m0) \<le> month_index (y, m)"
    then show "since < month_start (fst (next_month (y, m))) (snd (next_month (y, m)))"
      using mono [of "next_month (y0, m0)" "next_month (y, m)"] next_month_range [of "(y0, m0)"] next_month_range [of "(y, m)"] bs that
      by (simp add: next_month_index)
  next
    assume *: "since < month_start (fst (next_month (y, m))) (snd (next_month (y, m)))"
    show "month_index (y0, m0) \<le> month_index (y, m)"
      using mono [of "next_month (y, m)" "(y0, m0)"] next_month_range [of "(y, m)"] bs that * by (force simp: next_month_index)
  qed
  have high: "month_index (y, m) \<le> month_index (y1, m1) \<longleftrightarrow> month_start y m < until" if "1 \<le> m" "m \<le> 12" for y m
    using mono [of "(y, m)" "(y1, m1)"] mono [of "next_month (y1, m1)" "(y, m)"] next_month_range [of "(y1, m1)"] bu that
    by (force simp: next_month_index)
  have overlap: "(\<exists>t. since \<le> t \<and> t < until \<and> a \<le> t \<and> t < b) \<longleftrightarrow> a < until \<and> since < b" if "a < b" for a b :: int
    using that lt by (intro iffI exI [of _ "max since a"]) auto
  show ?thesis
    using spec low high overlap month_start_next by auto
qed

end
