(* ===== verification/Discovery.thy ===== *)
theory Discovery
  imports Normalization
begin

text \<open>
  The opponent crawl: storage/discovery.py (opponents of a user, discovery edges) and jobs/discovery.py (the
  bounded frontier). Games, players and participants are read from the catalog of normalized evidence.
\<close>

section \<open>Opponents\<close>

record participant_row =
  gp_game_id :: int
  gp_provider_user_id :: "int option"
  gp_color :: string

record user_row =
  pu_id :: int
  pu_provider :: string
  pu_username_normalized :: string

record corpus =
  cs_games :: "game_row list"
  cs_participants :: "participant_row list"
  cs_users :: "user_row list"

record opponent_edge =
  oe_opponent_user_id :: int
  oe_opponent_username :: string
  oe_via_game_id :: int
  oe_game_count :: int

text \<open>The rows of the join: the opponent's identity and the game.\<close>

definition met_in ::
  "corpus \<Rightarrow> db \<Rightarrow> string \<Rightarrow> int \<Rightarrow> int option \<Rightarrow> int option \<Rightarrow> int option \<Rightarrow> (int \<times> string \<times> int) list" where
  "met_in cs d provider user run since until = concat (map (\<lambda>g.
     if ga_provider g = provider
        \<and> (case run of None \<Rightarrow> True | Some r \<Rightarrow> run_has_game d r (ga_id g))
        \<and> (case (since, ga_ended_at g) of (Some a, Some t) \<Rightarrow> a \<le> t | _ \<Rightarrow> True)
        \<and> (case (until, ga_ended_at g) of (Some b, Some t) \<Rightarrow> t < b | _ \<Rightarrow> True)
     then concat (map (\<lambda>me. if gp_game_id me = ga_id g \<and> gp_provider_user_id me = Some user
       then List.map_filter (\<lambda>op. if gp_game_id op = ga_id g \<and> gp_color op \<noteq> gp_color me \<and> gp_provider_user_id op \<noteq> Some user
           then (case gp_provider_user_id op of
               None \<Rightarrow> None
             | Some u \<Rightarrow> map_option (\<lambda>p. (u, pu_username_normalized p, ga_id g))
                 (find_row (\<lambda>p. pu_id p = u \<and> pu_provider p = provider) (cs_users cs))) else None) (cs_participants cs)
       else []) (cs_participants cs))
     else []) (cs_games cs))"

text \<open>\<open>GROUP BY\<close> the opponent; most games first, then by name.\<close>

definition opponents_of_user ::
  "corpus \<Rightarrow> db \<Rightarrow> string \<Rightarrow> int \<Rightarrow> int option \<Rightarrow> int option \<Rightarrow> int option \<Rightarrow> opponent_edge list" where
  "opponents_of_user cs d provider user run since until =
     (let rows = met_in cs d provider user run since until;
          groups = remdups (map (\<lambda>(u, name, _). (u, name)) rows) in
      sort_key (\<lambda>e. (- oe_game_count e, oe_opponent_username e)) (map (\<lambda>(u, name).
        let gs = map (\<lambda>(_, _, g). g) (filter (\<lambda>(u', name', _). u' = u \<and> name' = name) rows) in
        \<lparr>oe_opponent_user_id = u, oe_opponent_username = name, oe_via_game_id = Min (set gs),
         oe_game_count = int (length (remdups gs))\<rparr>) groups))"

section \<open>Edges\<close>

definition edge_key :: "string \<Rightarrow> int \<Rightarrow> int \<Rightarrow> edge_row \<Rightarrow> bool" where
  "edge_key provider from_user to_user e \<longleftrightarrow> ed_provider e = provider \<and> ed_from_user_id e = from_user \<and> ed_to_user_id e = to_user"

definition record_edge :: "conn \<Rightarrow> int option \<Rightarrow> string \<Rightarrow> int \<Rightarrow> int \<Rightarrow> opponent_edge \<Rightarrow> db \<Rightarrow> db" where
  "record_edge c run provider from_user depth e d =
     (let same = edge_key provider from_user (oe_opponent_user_id e);
          i = (case find_row same (db_edges d) of Some old \<Rightarrow> ed_id old | None \<Rightarrow> db_next_edge d);
          d1 = (if find_row same (db_edges d) \<noteq> None
            then d\<lparr>db_edges := update_where same (\<lambda>old. old\<lparr>
                ed_crawl_run_id := (if ed_crawl_run_id old \<noteq> None then ed_crawl_run_id old else run),
                ed_game_count := max (ed_game_count old) (oe_game_count e), ed_depth := min (ed_depth old) depth,
                ed_via_game_id := Some (coalesce (ed_via_game_id old) (oe_via_game_id e))\<rparr>) (db_edges d)\<rparr>
            else d\<lparr>db_edges := db_edges d @ [\<lparr>ed_id = i, ed_crawl_run_id = run, ed_provider = provider,
                ed_from_user_id = from_user, ed_to_user_id = oe_opponent_user_id e, ed_via_game_id = Some (oe_via_game_id e),
                ed_game_count = oe_game_count e, ed_depth = depth, ed_first_seen_at = int_now c None\<rparr>], db_next_edge := i + 1\<rparr>)
      in case run of
           None \<Rightarrow> d1
         | Some r \<Rightarrow> if (r, i) \<in> set (db_run_edges d1) then d1 else d1\<lparr>db_run_edges := db_run_edges d1 @ [(r, i)]\<rparr>)"

definition record_discovery_edges ::
  "conn \<Rightarrow> int option \<Rightarrow> string \<Rightarrow> int \<Rightarrow> int \<Rightarrow> opponent_edge list \<Rightarrow> db \<Rightarrow> db \<times> nat" where
  "record_discovery_edges c run provider from_user depth edges d =
     (foldl (\<lambda>d e. record_edge c run provider from_user depth e d) d (sort_key oe_opponent_user_id edges), length edges)"

section \<open>The frontier\<close>

record crawl_bounds =
  cb_max_depth :: int
  cb_max_users :: int
  cb_max_games :: int
  cb_max_jobs :: int

definition create_opponent_crawl ::
  "(string \<Rightarrow> string) \<Rightarrow> conn \<Rightarrow> string \<Rightarrow> string \<Rightarrow> int \<Rightarrow> int \<Rightarrow> crawl_bounds \<Rightarrow> db \<Rightarrow> (db \<times> int \<times> int) result" where
  "create_opponent_crawl sha c provider username since until b d =
     (if cb_max_depth b < 0 then Inl (ValueError ''--depth must be >= 0'')
      else if min (cb_max_users b) (min (cb_max_games b) (cb_max_jobs b)) \<le> 0
      then Inl (ValueError ''--max-users, --max-games, and --max-jobs must be > 0'')
      else if until \<le> since then Inl (ValueError ''--since must be earlier than --until'')
      else let seed = lower (strip username) in
        create_crawl_run_with_root_job sha c provider (provider @ ''/'' @ seed @ '' depth='' @ str_int (cb_max_depth b))
          [(''strategy'', JStr ''opponents''), (''seed'', JStr seed), (''since'', JInt since), (''until'', JInt until),
           (''max_depth'', JInt (cb_max_depth b)), (''max_users'', JInt (cb_max_users b)), (''max_games'', JInt (cb_max_games b)),
           (''max_jobs'', JInt (cb_max_jobs b))] ''crawl_opponents'' seed 10 d)"

text \<open>\<open>int(params[k])\<close>.\<close>

definition param_int :: "pars \<Rightarrow> string \<Rightarrow> int result" where
  "param_int params k = (case map_of params k of None \<Rightarrow> Inl (KeyError k) | Some v \<Rightarrow> py_int v)"

definition child_spec :: "int \<Rightarrow> int \<Rightarrow> string \<Rightarrow> pars \<Rightarrow> int \<Rightarrow> string \<Rightarrow> job_spec" where
  "child_spec run parent provider params depth username =
     (spec (Some provider) ''crawl_opponents'' username)\<lparr>q_params := Some params, q_crawl_run_id := Some run,
        q_parent_job_id := Some parent, q_depth := depth, q_priority := 10 + depth\<rparr>"

definition enqueue_child ::
  "(string \<Rightarrow> string) \<Rightarrow> conn \<Rightarrow> int \<Rightarrow> int \<Rightarrow> string \<Rightarrow> pars \<Rightarrow> int \<Rightarrow> string \<Rightarrow> db \<Rightarrow> (db \<times> nat) result" where
  "enqueue_child sha c run parent provider params next_depth username d =
     (case known_crawl_depth d run provider username of
        Some k \<Rightarrow> if k \<le> next_depth then Inr (d, 0)
          else rbind (promote_crawl_depth sha c run provider username next_depth d) (\<lambda>d'. Inr (d', 0))
      | None \<Rightarrow>
          rbind (param_int params ''max_users'') (\<lambda>max_users.
          if max_users \<le> crawl_user_count d run then Inr (d, 0)
          else rbind (param_int params ''max_jobs'') (\<lambda>max_jobs.
            if max_jobs \<le> acquisition_job_count d run then Inr (d, 0)
            else rbind (enqueue_job sha c (child_spec run parent provider params next_depth username) d) (\<lambda>(d', _, inserted).
              Inr (d', if inserted then 1 else 0)))))"

fun enqueue_children ::
  "(string \<Rightarrow> string) \<Rightarrow> conn \<Rightarrow> int \<Rightarrow> int \<Rightarrow> string \<Rightarrow> pars \<Rightarrow> int \<Rightarrow> opponent_edge list \<Rightarrow> db \<Rightarrow> nat \<Rightarrow> (db \<times> nat) result" where
  "enqueue_children sha c run parent provider params next_depth [] d n = Inr (d, n)"
| "enqueue_children sha c run parent provider params next_depth (e # es) d n =
     rbind (enqueue_child sha c run parent provider params next_depth (oe_opponent_username e) d) (\<lambda>(d', k).
     enqueue_children sha c run parent provider params next_depth es d' (n + k))"

definition enqueue_opponent_children ::
  "(string \<Rightarrow> string) \<Rightarrow> conn \<Rightarrow> int \<Rightarrow> int \<Rightarrow> string \<Rightarrow> pars \<Rightarrow> int \<Rightarrow> opponent_edge list \<Rightarrow> db \<Rightarrow> (db \<times> nat) result" where
  "enqueue_opponent_children sha c run parent provider params next_depth edges d =
     rbind (param_int params ''max_depth'') (\<lambda>max_depth.
     if max_depth < next_depth then Inr (d, 0)
     else enqueue_children sha c run parent provider params next_depth edges d 0)"

definition known_at_or_before_current_depth :: "db \<Rightarrow> int \<Rightarrow> string \<Rightarrow> string \<Rightarrow> int \<Rightarrow> bool" where
  "known_at_or_before_current_depth d run provider username depth \<longleftrightarrow>
     (case known_crawl_depth d run provider username of None \<Rightarrow> False | Some k \<Rightarrow> k \<le> depth)"

section \<open>Expansion\<close>

text \<open>The rows of the catalog that the opponents' query joins.\<close>

definition corpus_of :: "catalog \<Rightarrow> corpus" where
  "corpus_of ct = \<lparr>cs_games = game_rows ct,
     cs_participants = map (\<lambda>p. \<lparr>gp_game_id = se_game_id p, gp_provider_user_id = se_provider_user_id p, gp_color = se_color p\<rparr>) (ct_seats ct),
     cs_users = map (\<lambda>u. \<lparr>pu_id = pl_id u, pu_provider = pl_provider u, pu_username_normalized = pl_username_normalized u\<rparr>) (ct_players ct)\<rparr>"

definition ensure_local_user :: "adapter \<Rightarrow> string \<Rightarrow> string \<Rightarrow> int act" where
  "ensure_local_user ad provider username = tx (\<lambda>s.
     upsert_provider_user ad Open ((bare_facts provider username (now_of s))\<lparr>if_display_username := Some username\<rparr>) s)"

text \<open>The transaction that records the frontier's edges and queues its children.\<close>

definition grow_frontier ::
  "(string \<Rightarrow> string) \<Rightarrow> job \<Rightarrow> int \<Rightarrow> string \<Rightarrow> int \<Rightarrow> pars \<Rightarrow> opponent_edge list \<Rightarrow> site \<Rightarrow> (site \<times> string) result" where
  "grow_frontier sha j run provider user child_params edges s =
     (let d = si_db s; next_depth = j_depth j + 1;
          frontier = filter (\<lambda>e. \<not> known_at_or_before_current_depth d run provider (oe_opponent_username e) (j_depth j)) edges;
          (d1, edge_count) = record_discovery_edges (si_conn s) (Some run) provider user next_depth frontier d in
      rbind (enqueue_opponent_children sha (si_conn s) run (j_id j) provider child_params next_depth frontier d1) (\<lambda>(d2, child_count).
      Inr (s\<lparr>si_db := d2\<rparr>, ''edges='' @ str_nat edge_count @ ''; child_jobs='' @ str_nat child_count)))"

definition expand_opponent_frontier :: "(string \<Rightarrow> string) \<Rightarrow> adapter \<Rightarrow> job \<Rightarrow> string act" where
  "expand_opponent_frontier sha ad j = (case j_crawl_run_id j of
       None \<Rightarrow> raise (ValueError ''Opponent expansion requires a persisted crawl run'')
     | Some run \<Rightarrow>
         andthen (ask_site (\<lambda>_. load_params (j_params_json j))) (\<lambda>params.
         andthen (ask_site (\<lambda>_. source_provider j)) (\<lambda>provider.
         andthen (ensure_local_user ad provider (j_target j)) (\<lambda>user.
         let child_params = filter (\<lambda>kv. fst kv \<notin> {''cursor_index'', ''bounded_capture_complete''}) params in
         andthen (ask_site (\<lambda>_. param_int child_params ''max_depth'')) (\<lambda>max_depth.
         if max_depth < j_depth j + 1 then ret (''processed '' @ j_target j @ ''; depth cap reached'')
         else andthen (ask_site (\<lambda>_. int_or_none (obj_get params ''since''))) (\<lambda>since.
           andthen (ask_site (\<lambda>_. int_or_none (obj_get params ''until''))) (\<lambda>until.
           andthen (see (\<lambda>s. opponents_of_user (corpus_of (si_catalog s)) (si_db s) provider user (Some run) since until)) (\<lambda>edges.
           tx (grow_frontier sha j run provider user child_params edges)))))))))"

end
