(* ===== verification/Discovery_Properties.thy ===== *)
theory Discovery_Properties
  imports Discovery Job_Laws Samples
begin

text \<open>
  The opponent crawl stays inside its caps.
\<close>

section \<open>What the counters see\<close>

text \<open>The counters of a run depend on these columns of its jobs.\<close>

definition counted :: "job \<Rightarrow> int option \<times> string \<times> string" where
  "counted j = (j_crawl_run_id j, j_kind j, j_target j)"

definition targets_of :: "int \<Rightarrow> (int option \<times> string \<times> string) list \<Rightarrow> string set" where
  "targets_of run ks = set (map (\<lambda>k. lower (snd (snd k))) (filter (\<lambda>k. fst k = Some run \<and> fst (snd k) = ''crawl_opponents'') ks))"

definition crawl_targets :: "db \<Rightarrow> int \<Rightarrow> string set" where
  "crawl_targets d run = targets_of run (map counted (db_jobs d))"

lemma targets_of_append: "targets_of run (xs @ ys) = targets_of run xs \<union> targets_of run ys"
  by (simp add: targets_of_def)

lemma targets_of_one: "targets_of run [k] = (if fst k = Some run \<and> fst (snd k) = ''crawl_opponents'' then {lower (snd (snd k))} else {})"
  by (simp add: targets_of_def)

lemma crawl_user_count_card: "crawl_user_count d run = int (card (crawl_targets d run))"
  by (simp add: crawl_user_count_def crawl_targets_def targets_of_def filter_map counted_def comp_def length_remdups_card_conv)

lemma acquisition_job_count_map:
  "acquisition_job_count d run = int (length (filter (\<lambda>k. fst k = Some run \<and> \<not> processing_kind (fst (snd k))) (map counted (db_jobs d))))"
  by (simp add: acquisition_job_count_def count_where_def filter_map counted_def comp_def)

lemma finite_crawl_targets [simp]: "finite (crawl_targets d run)"
  by (simp add: crawl_targets_def targets_of_def)

lemma processing_not_crawl: "processing_kind k \<Longrightarrow> k \<noteq> ''crawl_opponents''"
  by (auto simp: processing_kind_def archive_kind_def)

lemma counts_append:
  assumes "map counted (db_jobs d') = map counted (db_jobs d) @ ks" "\<forall>k \<in> set ks. processing_kind (fst (snd k))"
  shows "crawl_targets d' run = crawl_targets d run" "acquisition_job_count d' run = acquisition_job_count d run"
proof -
  have "targets_of run ks = {}" using assms(2) processing_not_crawl by (auto simp: targets_of_def)
  then show "crawl_targets d' run = crawl_targets d run" by (simp only: crawl_targets_def assms(1) targets_of_append Un_empty_right)
  show "acquisition_job_count d' run = acquisition_job_count d run"
    unfolding acquisition_job_count_map assms(1) using assms(2) by (simp add: filter_empty_conv)
qed

section \<open>Promotion\<close>

lemma enqueue_appends:
  assumes "enqueue_job sha c q d = Inr (d', i, ins)"
  shows "map counted (db_jobs d') = map counted (db_jobs d) @ (if ins then [(q_crawl_run_id q, q_kind q, strip (q_target q))] else [])"
proof (cases ins)
  case True
  then have "enqueue_job sha c q d = Inr (d', i, True)" using assms by simp
  then show ?thesis by (rule enqueue_row) (simp add: True counted_def pending_row_def)
next
  case False
  show ?thesis using assms by (cases rule: enqueue_jobE) (simp_all add: False)
qed

lemma expansion_kind: "enqueue_opponent_expansion sha c j depth d = Inr (d', i, ins) \<Longrightarrow>
   \<exists>ks. map counted (db_jobs d') = map counted (db_jobs d) @ ks \<and> (\<forall>k \<in> set ks. processing_kind (fst (snd k)))"
  by (auto simp: enqueue_opponent_expansion_def rbind_eq_Inr Let_def spec_def processing_kind_def split: option.splits if_splits
      dest!: enqueue_appends)

lemma expand_parents_appends:
  "expand_parents sha c depth js d = Inr d' \<Longrightarrow>
   \<exists>ks. map counted (db_jobs d') = map counted (db_jobs d) @ ks \<and> (\<forall>k \<in> set ks. processing_kind (fst (snd k)))"
proof (induction js arbitrary: d)
  case (Cons j js)
  show ?case
  proof (cases "j_state j = Error \<or> j_state j = Skipped")
    case True
    then show ?thesis using Cons by simp
  next
    case False
    then obtain d1 i ins where e: "enqueue_opponent_expansion sha c j (Some depth) d = Inr (d1, i, ins)" "expand_parents sha c depth js d1 = Inr d'"
      using Cons.prems by (auto simp: rbind_eq_Inr)
    obtain ks where ks: "map counted (db_jobs d1) = map counted (db_jobs d) @ ks" "\<forall>k \<in> set ks. processing_kind (fst (snd k))"
      using expansion_kind [OF e(1)] by blast
    obtain ls where ls: "map counted (db_jobs d') = map counted (db_jobs d1) @ ls" "\<forall>k \<in> set ls. processing_kind (fst (snd k))"
      using Cons.IH [OF e(2)] by blast
    show ?thesis by (rule exI [of _ "ks @ ls"]) (use ks ls in auto)
  qed
qed simp

lemma promote_appends:
  assumes "promote_crawl_depth sha c run provider username depth d = Inr d'"
  shows "\<exists>ks. map counted (db_jobs d') = map counted (db_jobs d) @ ks \<and> (\<forall>k \<in> set ks. processing_kind (fst (snd k)))"
proof -
  let ?f = "\<lambda>j. j\<lparr>j_depth := min (j_depth j) depth, j_priority := min (j_priority j) (10 + depth)\<rparr>"
  have "map counted (update_where p ?f js) = map counted js" for p js
    by (induction js) (simp_all add: counted_def)
  then show ?thesis using assms expand_parents_appends by (fastforce simp: promote_crawl_depth_def Let_def touch_jobs_def)
qed

section \<open>Children\<close>

lemma enqueue_child_bounds:
  assumes "enqueue_child sha c run parent provider params depth u d = Inr (d', k)"
    "param_int params ''max_users'' = Inr mu" "param_int params ''max_jobs'' = Inr mj"
  shows "crawl_user_count d' run \<le> max mu (crawl_user_count d run)"
    "acquisition_job_count d' run \<le> max mj (acquisition_job_count d run)"
    "acquisition_job_count d' run = acquisition_job_count d run + int k"
    "\<forall>other. other \<noteq> run \<longrightarrow> crawl_targets d' other = crawl_targets d other"
proof -
  consider (same) "d' = d" "k = 0" | (promoted) "promote_crawl_depth sha c run provider u depth d = Inr d'" "k = 0"
    | (child) i ins where "enqueue_job sha c (child_spec run parent provider params depth u) d = Inr (d', i, ins)"
        "crawl_user_count d run < mu" "acquisition_job_count d run < mj" "k = (if ins then 1 else 0)"
    using assms by (auto simp: enqueue_child_def rbind_eq_Inr split: option.splits if_splits)
  then have "crawl_user_count d' run \<le> max mu (crawl_user_count d run)
    \<and> acquisition_job_count d' run \<le> max mj (acquisition_job_count d run)
    \<and> acquisition_job_count d' run = acquisition_job_count d run + int k
    \<and> (\<forall>other. other \<noteq> run \<longrightarrow> crawl_targets d' other = crawl_targets d other)"
  proof cases
    case promoted
    then show ?thesis using promote_appends [OF promoted(1)] counts_append by (auto simp: crawl_user_count_card)
  next
    case child
    have rows: "map counted (db_jobs d') = map counted (db_jobs d) @ (if ins then [(Some run, ''crawl_opponents'', strip u)] else [])"
      using enqueue_appends [OF child(1)] by (simp add: child_spec_def spec_def)
    have "crawl_targets d' run \<subseteq> insert (lower (strip u)) (crawl_targets d run)" 
      unfolding crawl_targets_def rows targets_of_append by (auto simp: targets_of_one targets_of_def)
    then have "card (crawl_targets d' run) \<le> card (insert (lower (strip u)) (crawl_targets d run))" by (simp add: card_mono)
    then have users: "crawl_user_count d' run \<le> crawl_user_count d run + 1"
      using card_insert_le_m1 [of "Suc (card (crawl_targets d run))" "crawl_targets d run" "lower (strip u)"] by (simp add: crawl_user_count_card)
    have "acquisition_job_count d' run = acquisition_job_count d run + int k"
      using rows child(4) by (simp add: acquisition_job_count_map processing_kind_def archive_kind_def)
    moreover have "crawl_targets d' other = crawl_targets d other" if "other \<noteq> run" for other
      unfolding crawl_targets_def rows targets_of_append using that by (simp add: targets_of_one targets_of_def)
    ultimately show ?thesis using users child(2-4) by auto
  qed simp
  then show "crawl_user_count d' run \<le> max mu (crawl_user_count d run)"
    "acquisition_job_count d' run \<le> max mj (acquisition_job_count d run)"
    "acquisition_job_count d' run = acquisition_job_count d run + int k"
    "\<forall>other. other \<noteq> run \<longrightarrow> crawl_targets d' other = crawl_targets d other" by auto
qed

lemma enqueue_children_bounds:
  assumes "param_int params ''max_users'' = Inr mu" "param_int params ''max_jobs'' = Inr mj"
  shows "enqueue_children sha c run parent provider params depth es d n = Inr (d', m) \<Longrightarrow>
    crawl_user_count d' run \<le> max mu (crawl_user_count d run)
    \<and> acquisition_job_count d' run \<le> max mj (acquisition_job_count d run)
    \<and> acquisition_job_count d' run + int n = acquisition_job_count d run + int m
    \<and> (\<forall>other. other \<noteq> run \<longrightarrow> crawl_targets d' other = crawl_targets d other)"
proof (induction es arbitrary: d n)
  case (Cons e es)
  then obtain d1 k where step: "enqueue_child sha c run parent provider params depth (oe_opponent_username e) d = Inr (d1, k)"
    and rest: "enqueue_children sha c run parent provider params depth es d1 (n + k) = Inr (d', m)" by (auto simp: rbind_eq_Inr)
  note b = enqueue_child_bounds [OF step assms]
  have IH: "crawl_user_count d' run \<le> max mu (crawl_user_count d1 run)"
    "acquisition_job_count d' run \<le> max mj (acquisition_job_count d1 run)"
    "acquisition_job_count d' run + int (n + k) = acquisition_job_count d1 run + int m"
    "\<forall>other. other \<noteq> run \<longrightarrow> crawl_targets d' other = crawl_targets d1 other" using Cons.IH [OF rest] by auto
  show ?case
  proof (intro conjI)
    show "crawl_user_count d' run \<le> max mu (crawl_user_count d run)" using IH(1) b(1) by linarith
    show "acquisition_job_count d' run \<le> max mj (acquisition_job_count d run)" using IH(2) b(2) by linarith
    show "acquisition_job_count d' run + int n = acquisition_job_count d run + int m" using IH(3) b(3) by simp
    show "\<forall>other. other \<noteq> run \<longrightarrow> crawl_targets d' other = crawl_targets d other" using IH(4) b(4) by simp
  qed
qed simp

text \<open>
  C32. A crawl stays inside its caps. Queueing the opponents of a user never takes a run past its maximum of
  users or of acquisition jobs, queues nothing beyond its depth, reports exactly the number of jobs
  it added, and leaves the crawled users of other runs alone.
\<close>

theorem opponent_children_bounded:
  assumes "enqueue_opponent_children sha c run parent provider params next_depth edges d = Inr (d', n)"
    and "param_int params ''max_users'' = Inr max_users" "param_int params ''max_jobs'' = Inr max_jobs"
    and "param_int params ''max_depth'' = Inr max_depth"
  shows "crawl_user_count d' run \<le> max max_users (crawl_user_count d run)
    \<and> acquisition_job_count d' run \<le> max max_jobs (acquisition_job_count d run)
    \<and> acquisition_job_count d' run = acquisition_job_count d run + int n
    \<and> (max_depth < next_depth \<longrightarrow> d' = d \<and> n = 0)
    \<and> (\<forall>other. other \<noteq> run \<longrightarrow> crawl_targets d' other = crawl_targets d other)"
proof (cases "max_depth < next_depth")
  case True
  then have "d' = d" "n = 0" using assms(1,4) by (simp_all add: enqueue_opponent_children_def)
  then show ?thesis by simp
next
  case False
  then have "enqueue_children sha c run parent provider params next_depth edges d 0 = Inr (d', n)"
    using assms(1,4) by (simp add: enqueue_opponent_children_def)
  from enqueue_children_bounds [OF assms(2,3) this] show ?thesis using False by simp
qed

definition crawl_params :: pars where
  "crawl_params = [(''max_depth'', JInt 2), (''max_users'', JInt 2), (''max_jobs'', JInt 5)]"

definition three_opponents :: "opponent_edge list" where
  "three_opponents = map (\<lambda>(i, u). \<lparr>oe_opponent_user_id = i, oe_opponent_username = u, oe_via_game_id = 1, oe_game_count = 1\<rparr>)
     [(1, ''bob''), (2, ''carol''), (3, ''dan'')]"

definition crawl_run_row :: run where
  "crawl_run_row = \<lparr>r_id = 1, r_seed_spec = [], r_provider = Some ''lichess'', r_params_json = JObj crawl_params, r_status = Running,
     r_counters = None, r_started_at = 0, r_updated_at = 0, r_finished_at = None, r_revision = 1, r_workspace_id = ''local'',
     r_work_budget_id = None\<rparr>"

theorem opponent_children_bounded_witness:
  "\<exists>d' n. enqueue_opponent_children sample_sha (fresh_conn 7) 1 1 ''lichess'' crawl_params 1 three_opponents
       (empty_db\<lparr>db_runs := [crawl_run_row]\<rparr>) = Inr (d', n) \<and> n = 2 \<and> crawl_user_count d' 1 \<le> 2"
proof -
  let ?d = "empty_db\<lparr>db_runs := [crawl_run_row]\<rparr>"
  have "case enqueue_opponent_children sample_sha (fresh_conn 7) 1 1 ''lichess'' crawl_params 1 three_opponents ?d of
      Inr (d', n) \<Rightarrow> n = 2 \<and> crawl_user_count ?d 1 = 0 | _ \<Rightarrow> False" by code_simp
  then obtain d' where run: "enqueue_opponent_children sample_sha (fresh_conn 7) 1 1 ''lichess'' crawl_params 1 three_opponents ?d = Inr (d', 2)"
    and zero: "crawl_user_count ?d 1 = 0" by (auto split: sum.splits prod.splits)
  have "param_int crawl_params ''max_users'' = Inr 2" "param_int crawl_params ''max_jobs'' = Inr 5" "param_int crawl_params ''max_depth'' = Inr 2"
    by (simp_all add: crawl_params_def param_int_def py_int_def)
  from opponent_children_bounded [OF run this] show ?thesis using run zero by auto
qed

end
