(* ===== verification/Upgrades.thy ===== *)
theory Upgrades
  imports Acquisition
begin

text \<open>
  Parser upgrades: the progress rows of storage/execution.py and the handler \<open>_reprocess_archive\<close> of
  jobs/runner.py, which replays the stored payloads below a fixed high water mark in bounded batches, with a
  checkpoint after each payload. The replay itself is an argument (\<open>replay_raw_payload\<close> with its normalizers).
\<close>

section \<open>Progress rows\<close>

record upgrade =
  up_id :: string
  up_provider :: string
  up_owner_scope :: string
  up_parser_version :: string
  up_state :: string
  up_high_water_raw_id :: int
  up_last_raw_id :: int
  up_processed :: int
  up_error :: "string option"
  up_job_id :: int
  up_created_at :: int
  up_updated_at :: int

definition in_scope :: "string \<Rightarrow> string \<Rightarrow> raw_row \<Rightarrow> bool" where
  "in_scope provider owner_scope w \<longleftrightarrow> rw_provider w = provider \<and> rw_owner_scope w \<in> {''public'', owner_scope}"

definition high_water :: "arch \<Rightarrow> string \<Rightarrow> string \<Rightarrow> int" where
  "high_water a provider owner_scope = (case map rw_id (filter (in_scope provider owner_scope) (ar_raw a)) of
       [] \<Rightarrow> 0 | i # is \<Rightarrow> fold max is i)"

definition start_upgrade ::
  "string \<Rightarrow> string \<Rightarrow> string \<Rightarrow> int \<Rightarrow> string \<Rightarrow> int \<Rightarrow> arch \<Rightarrow> upgrade list \<Rightarrow> (upgrade list \<times> upgrade) result" where
  "start_upgrade i provider version job owner_scope now a ups =
     (let ups' = (if find_row (\<lambda>u. up_id u = i) ups \<noteq> None then ups
            else ups @ [\<lparr>up_id = i, up_provider = provider, up_owner_scope = owner_scope, up_parser_version = version,
              up_state = ''running'', up_high_water_raw_id = high_water a provider owner_scope, up_last_raw_id = 0, up_processed = 0,
              up_error = None, up_job_id = job, up_created_at = now, up_updated_at = now\<rparr>]) in
      rbind (require_row (find_row (\<lambda>u. up_id u = i) ups')) (\<lambda>u.
      if up_provider u \<noteq> provider \<or> up_owner_scope u \<noteq> owner_scope \<or> up_parser_version u \<noteq> version \<or> up_job_id u \<noteq> job
      then Inl (ValueError ''Upgrade identity already belongs to different inputs or job'') else Inr (ups', u)))"

text \<open>The payloads an upgrade has still to visit, and a batch of them.\<close>

definition upgrade_pending :: "arch \<Rightarrow> upgrade \<Rightarrow> int list" where
  "upgrade_pending a u = sort (map rw_id (filter (\<lambda>w. in_scope (up_provider u) (up_owner_scope u) w
     \<and> up_last_raw_id u < rw_id w \<and> rw_id w \<le> up_high_water_raw_id u) (ar_raw a)))"

definition upgrade_batch :: "arch \<Rightarrow> upgrade \<Rightarrow> nat \<Rightarrow> int list" where
  "upgrade_batch a u batch_size = take batch_size (upgrade_pending a u)"

definition checkpointed :: "int \<Rightarrow> bool \<Rightarrow> int \<Rightarrow> upgrade \<Rightarrow> upgrade" where
  "checkpointed raw dn now u = u\<lparr>up_last_raw_id := max (up_last_raw_id u) raw,
     up_processed := up_processed u + (if up_last_raw_id u < raw then 1 else 0),
     up_state := (if dn then ''done'' else ''running''), up_updated_at := now, up_error := None\<rparr>"

definition checkpoint_upgrade :: "string \<Rightarrow> int \<Rightarrow> bool \<Rightarrow> int \<Rightarrow> upgrade list \<Rightarrow> upgrade list" where
  "checkpoint_upgrade i raw dn now ups = update_where (\<lambda>u. up_id u = i) (checkpointed raw dn now) ups"

definition fail_upgrade :: "string \<Rightarrow> int \<Rightarrow> string \<Rightarrow> string \<Rightarrow> string \<Rightarrow> int \<Rightarrow> upgrade list \<Rightarrow> upgrade list" where
  "fail_upgrade i job provider owner_scope message now ups =
     update_where (\<lambda>u. up_id u = i \<and> up_job_id u = job \<and> up_provider u = provider \<and> up_owner_scope u = owner_scope)
       (\<lambda>u. u\<lparr>up_state := ''error'', up_error := Some message, up_updated_at := now\<rparr>) ups"

section \<open>The handler\<close>

record execution_outcome =
  eo_state :: string
  eo_reason :: string
  eo_transient :: bool
  eo_retry_after :: "rat option"
  eo_status_code :: "int option"

definition outcome :: "string \<Rightarrow> string \<Rightarrow> execution_outcome" where
  "outcome st reason = \<lparr>eo_state = st, eo_reason = reason, eo_transient = False, eo_retry_after = None, eo_status_code = None\<rparr>"

text \<open>\<open>_outcome_from_ingest\<close>.\<close>

definition outcome_from_ingest :: "ingest_result \<Rightarrow> execution_outcome" where
  "outcome_from_ingest r = (let n = ir_status_code r in
     if ok_status n then outcome ''done'' (ir_message r)
     else if n \<in> {404, 410} then outcome ''skipped'' (ir_message r)
     else if n = 429 then \<lparr>eo_state = ''blocked'', eo_reason = ir_message r, eo_transient = True, eo_retry_after = ir_retry_after r,
       eo_status_code = Some n\<rparr>
     else \<lparr>eo_state = ''error'', eo_reason = ir_message r, eo_transient = (n = 0 \<or> 500 \<le> n \<and> n \<le> 599),
       eo_retry_after = ir_retry_after r, eo_status_code = Some n\<rparr>)"

definition cancelled :: "job \<Rightarrow> site \<Rightarrow> bool" where
  "cancelled j s = (case j_crawl_run_id j of
       None \<Rightarrow> False
     | Some r \<Rightarrow> (case get_run (si_db s) r of None \<Rightarrow> False | Some run \<Rightarrow> r_status run = Cancelled))"

text \<open>\<open>self.stop_requested() or self._cancelled(job)\<close>, by the number of polls.\<close>

definition halted :: "(nat \<Rightarrow> bool) \<Rightarrow> job \<Rightarrow> bool act" where
  "halted stop j s = (Inr (stop (si_polls s) \<or> cancelled j s), s\<lparr>si_polls := si_polls s + 1\<rparr>)"

text \<open>The loop over a batch: it stops early with False; an exception leaves the checkpoints written so far.\<close>

fun replay_batch ::
  "(int \<Rightarrow> ingest_result act) \<Rightarrow> (nat \<Rightarrow> bool) \<Rightarrow> job \<Rightarrow> int \<Rightarrow> string \<Rightarrow> int list \<Rightarrow> upgrade list \<Rightarrow> site
   \<Rightarrow> bool result \<times> upgrade list \<times> site" where
  "replay_batch replay stop j now i [] ups s = (Inr True, ups, s)"
| "replay_batch replay stop j now i (raw # raws) ups s = (case halted stop j s of
       (Inl err, s1) \<Rightarrow> (Inl err, ups, s1)
     | (Inr h, s1) \<Rightarrow> if h then (Inr False, ups, s1)
         else (case replay raw s1 of
             (Inl err, s2) \<Rightarrow> (Inl err, ups, s2)
           | (Inr _, s2) \<Rightarrow> replay_batch replay stop j now i raws (checkpoint_upgrade i raw False now ups) s2))"

definition batch_params :: "job \<Rightarrow> (nat \<times> string \<times> string \<times> string \<times> string) result" where
  "batch_params j = rbind (load_params (j_params_json j)) (\<lambda>params.
     rbind (py_int (coalesce (map_of params ''batch_size'') (JInt 25))) (\<lambda>n.
     if \<not> (1 \<le> n \<and> n \<le> 100) then Inl (ValueError ''Upgrade batch_size must be between one and one hundred'')
     else rbind (source_provider j) (\<lambda>provider.
       rbind (installed_parser_target (py_str (coalesce (map_of params ''parser_version'') (JStr ''current'')))) (\<lambda>version.
       Inr (nat n, py_str (coalesce (map_of params ''upgrade_id'') (JStr (j_target j))), provider, version,
         py_str (coalesce (map_of params ''owner_scope'') (JStr ''public''))))))) "

definition finish_batch :: "int \<Rightarrow> string \<Rightarrow> upgrade \<Rightarrow> nat \<Rightarrow> nat \<Rightarrow> bool \<Rightarrow> upgrade list \<Rightarrow> execution_outcome \<times> upgrade list" where
  "finish_batch now i u batch_size visited finished ups =
     (if \<not> finished then (outcome ''pending'' ''Upgrade checkpoint retained'', ups)
      else if visited < batch_size
      then (outcome ''done'' (''Upgrade completed: '' @ i), checkpoint_upgrade i (up_high_water_raw_id u) True now ups)
      else (outcome ''pending'' (''Upgrade checkpointed '' @ str_nat visited @ '' source payloads''), ups))"

definition reprocess_archive ::
  "(int \<Rightarrow> ingest_result act) \<Rightarrow> (nat \<Rightarrow> bool) \<Rightarrow> job \<Rightarrow> int \<Rightarrow> upgrade list \<Rightarrow> site
   \<Rightarrow> execution_outcome result \<times> upgrade list \<times> site" where
  "reprocess_archive replay stop j now ups s =
     (case rbind (batch_params j) (\<lambda>(n, i, provider, version, scope).
         rbind (start_upgrade i provider version (j_id j) scope now (si_arch s) ups) (\<lambda>(ups1, u). Inr (n, i, ups1, u))) of
        Inl err \<Rightarrow> (Inl err, ups, s)
      | Inr (n, i, ups1, u) \<Rightarrow>
          let batch = upgrade_batch (si_arch s) u n in
          (case replay_batch replay stop j now i batch ups1 s of
             (Inl err, ups2, s2) \<Rightarrow> (Inl err, ups2, s2)
           | (Inr finished, ups2, s2) \<Rightarrow>
               (case finish_batch now i u n (length batch) finished ups2 of (out, ups3) \<Rightarrow> (Inr out, ups3, s2))))"

end
