(* ===== verification/Upgrade_Properties.thy ===== *)
theory Upgrade_Properties
  imports Upgrades Archive_Properties Samples
begin

text \<open>
  A parser upgrade visits every payload below its high water mark once, however it is cut into batches.
\<close>

section \<open>Checkpoints\<close>

text \<open>A row whose end is a payload it has still to visit, or has visited.\<close>

definition anchored :: "arch \<Rightarrow> upgrade \<Rightarrow> bool" where
  "anchored a u \<longleftrightarrow> up_last_raw_id u = up_high_water_raw_id u \<or> up_high_water_raw_id u \<in> set (upgrade_pending a u)"

lemma in_upgrade_pending:
  "x \<in> set (upgrade_pending a u) \<Longrightarrow> up_last_raw_id u < x \<and> x \<le> up_high_water_raw_id u"
  by (auto simp: upgrade_pending_def)

lemma upgrade_pending_filter:
  assumes "up_last_raw_id u \<le> l"
  shows "upgrade_pending a (u\<lparr>up_last_raw_id := l\<rparr>) = filter (\<lambda>x. l < x) (upgrade_pending a u)"
proof -
  have "filter (\<lambda>w. in_scope (up_provider u) (up_owner_scope u) w \<and> l < rw_id w \<and> rw_id w \<le> up_high_water_raw_id u) (ar_raw a)
      = filter (\<lambda>w. l < rw_id w) (filter (\<lambda>w. in_scope (up_provider u) (up_owner_scope u) w \<and> up_last_raw_id u < rw_id w
          \<and> rw_id w \<le> up_high_water_raw_id u) (ar_raw a))"
    using assms unfolding filter_filter by (intro filter_cong) auto
  then show ?thesis by (simp add: upgrade_pending_def filter_sort filter_map comp_def)
qed

lemma checkpointed_fields:
  "upgrade_pending a (checkpointed raw dn now u) = upgrade_pending a (u\<lparr>up_last_raw_id := max (up_last_raw_id u) raw\<rparr>)"
  "up_high_water_raw_id (checkpointed raw dn now u) = up_high_water_raw_id u" "up_id (checkpointed raw dn now u) = up_id u"
  "up_last_raw_id (checkpointed raw dn now u) = max (up_last_raw_id u) raw"
  by (simp_all add: checkpointed_def upgrade_pending_def)

lemma pending_step:
  assumes "upgrade_pending a u = x # ys" "distinct (map rw_id (ar_raw a))"
  shows "upgrade_pending a (checkpointed x dn now u) = ys" "up_processed (checkpointed x dn now u) = up_processed u + 1"
    "anchored a u \<Longrightarrow> anchored a (checkpointed x dn now u)"
proof -
  have strict: "\<forall>y \<in> set ys. x < y"
  proof -
    have "sorted (upgrade_pending a u)" "distinct (upgrade_pending a u)"
      using assms(2) by (simp_all add: upgrade_pending_def distinct_map_filter)
    then show ?thesis using assms(1) by (auto simp: order_less_le)
  qed
  have low: "up_last_raw_id u < x" "x \<le> up_high_water_raw_id u" using in_upgrade_pending [of x a u] assms(1) by auto
  have "upgrade_pending a (checkpointed x dn now u) = filter (\<lambda>y. x < y) (x # ys)"
    using upgrade_pending_filter [of u x a] low assms(1) by (simp add: checkpointed_fields max_def)
  then show ys: "upgrade_pending a (checkpointed x dn now u) = ys" using strict by simp
  show "up_processed (checkpointed x dn now u) = up_processed u + 1" using low by (simp add: checkpointed_def)
  show "anchored a (checkpointed x dn now u)" if "anchored a u"
    using that low assms(1) unfolding anchored_def ys by (auto simp: checkpointed_fields(2-4))
qed

section \<open>Batches\<close>

lemma find_checkpoint:
  "find_row (\<lambda>u. up_id u = i) (checkpoint_upgrade i raw dn now ups) = map_option (checkpointed raw dn now) (find_row (\<lambda>u. up_id u = i) ups)"
  unfolding checkpoint_upgrade_def by (induction ups) (auto simp: checkpointed_fields)

text \<open>The payloads replayed one after another, each by one call of the replay that returned, with a poll of the stop signal before each.\<close>

inductive visits :: "(int \<Rightarrow> ingest_result act) \<Rightarrow> int list \<Rightarrow> site \<Rightarrow> site \<Rightarrow> bool" for replay where
  visits_none: "visits replay [] s s"
| visits_next: "replay x (s\<lparr>si_polls := si_polls s + 1\<rparr>) = (Inr r, s1) \<Longrightarrow> visits replay xs s1 s' \<Longrightarrow> visits replay (x # xs) s s'"

inductive_simps visits_simps: "visits replay [] s s'" "visits replay (x # xs) s s'"

definition batch_end :: "bool \<Rightarrow> nat \<Rightarrow> nat \<Rightarrow> site \<Rightarrow> site \<Rightarrow> bool" where
  "batch_end finished k m s1 s' \<longleftrightarrow> (if finished then k = m \<and> s' = s1 else k < m \<and> s' = s1\<lparr>si_polls := si_polls s1 + 1\<rparr>)"

lemma replay_batch_Cons:
  assumes "replay_batch replay stop j now i (x # xs) ups s = (Inr finished, ups', s')"
  obtains (halt) "ups' = ups" "s' = s\<lparr>si_polls := si_polls s + 1\<rparr>" "\<not> finished"
  | (run) r s2 where "replay x (s\<lparr>si_polls := si_polls s + 1\<rparr>) = (Inr r, s2)"
      "replay_batch replay stop j now i xs (checkpoint_upgrade i x False now ups) s2 = (Inr finished, ups', s')"
proof (cases "stop (si_polls s) \<or> cancelled j s")
  case True
  then show thesis using assms halt by (simp add: halted_def)
next
  case False
  obtain res s2 where r: "replay x (s\<lparr>si_polls := si_polls s + 1\<rparr>) = (res, s2)" by fastforce
  show thesis using assms False r run by (cases res) (simp_all add: halted_def)
qed

lemma replay_batch_visits:
  assumes "replay_batch replay stop j now i (take n (upgrade_pending a u)) ups s = (Inr finished, ups', s')"
    "find_row (\<lambda>u. up_id u = i) ups = Some u" "distinct (map rw_id (ar_raw a))" "anchored a u"
  shows "\<exists>u' k s1. find_row (\<lambda>u. up_id u = i) ups' = Some u' \<and> visits replay (take k (upgrade_pending a u)) s s1
    \<and> upgrade_pending a u' = drop k (upgrade_pending a u) \<and> up_processed u' = up_processed u + int k \<and> anchored a u'
    \<and> up_high_water_raw_id u' = up_high_water_raw_id u \<and> batch_end finished k (min n (length (upgrade_pending a u))) s1 s'"
    (is "\<exists>u' k s1. ?visited n u ups s u' k s1")
  using assms
proof (induction n arbitrary: u ups s)
  case 0
  then have "?visited 0 u ups s u 0 s" by (simp add: visits_simps batch_end_def)
  then show ?case by blast
next
  case (Suc n)
  show ?case
  proof (cases "upgrade_pending a u")
    case Nil
    then have "?visited (Suc n) u ups s u 0 s" using Suc.prems by (simp add: visits_simps batch_end_def)
    then show ?thesis by blast
  next
    case (Cons x ys)
    note step = pending_step [OF Cons Suc.prems(3), where dn = False and now = now]
    from Suc.prems(1) have "replay_batch replay stop j now i (x # take n ys) ups s = (Inr finished, ups', s')" by (simp only: Cons take_Suc_Cons)
    then show ?thesis
    proof (cases rule: replay_batch_Cons)
      case halt
      then have "?visited (Suc n) u ups s u 0 s" using Suc.prems Cons by (simp add: visits_simps batch_end_def)
      then show ?thesis by blast
    next
      case (run r s2)
      have "find_row (\<lambda>u. up_id u = i) (checkpoint_upgrade i x False now ups) = Some (checkpointed x False now u)"
        using Suc.prems(2) by (simp add: find_checkpoint)
      from Suc.IH [of "checkpointed x False now u", OF run(2) [folded step(1)] this Suc.prems(3) step(3) [OF Suc.prems(4)]]
      obtain u' k s1 where "find_row (\<lambda>u. up_id u = i) ups' = Some u'" "visits replay (take k ys) s2 s1" "upgrade_pending a u' = drop k ys"
          "up_processed u' = up_processed u + 1 + int k" "anchored a u'" "up_high_water_raw_id u' = up_high_water_raw_id u"
          "batch_end finished k (min n (length ys)) s1 s'"
        using step(1,2) by (auto simp: checkpointed_fields)
      then have "?visited (Suc n) u ups s u' (Suc k) s1" using run(1) Cons by (auto simp: visits_simps batch_end_def)
      then show ?thesis by blast
    qed
  qed
qed

lemma finish_pending:
  assumes "upgrade_pending a u = []" "anchored a u"
  shows "upgrade_pending a (checkpointed (up_high_water_raw_id u) True now u) = []"
    "up_processed (checkpointed (up_high_water_raw_id u) True now u) = up_processed u" "up_state (checkpointed (up_high_water_raw_id u) True now u) = ''done''"
    "anchored a (checkpointed (up_high_water_raw_id u) True now u)"
proof -
  have eq: "up_last_raw_id u = up_high_water_raw_id u" using assms by (simp add: anchored_def)
  have same: "upgrade_pending a (u\<lparr>up_last_raw_id := up_high_water_raw_id u\<rparr>) = upgrade_pending a u" using eq [symmetric] by simp
  then show "upgrade_pending a (checkpointed (up_high_water_raw_id u) True now u) = []"
    using assms(1) eq by (simp add: checkpointed_fields)
  show "up_processed (checkpointed (up_high_water_raw_id u) True now u) = up_processed u"
    "up_state (checkpointed (up_high_water_raw_id u) True now u) = ''done''"
    "anchored a (checkpointed (up_high_water_raw_id u) True now u)" using eq by (simp_all add: checkpointed_def anchored_def)
qed

text \<open>
  C33. Upgrades visit every payload once. A call that returns has replayed exactly the first payloads of what is left below the high water mark, each by exactly one
  call of the replay and in order of their ids; afterwards the row has those and only those behind it, and has counted each of them once. Unless it was interrupted
  it took as many as the batch size allows; it reports completion exactly when fewer than a full batch were left, and then nothing is left.
  The next call starts from a row of the same kind, behind the payloads already replayed.
\<close>

theorem upgrade_visits_once:
  assumes "reprocess_archive replay stop j now ups s = (Inr out, ups', s')"
    and "batch_params j = Inr (n, i, provider, version, scope)"
    and "start_upgrade i provider version (j_id j) scope now (si_arch s) ups = Inr (ups1, u)"
    and "distinct (map rw_id (ar_raw (si_arch s)))" "anchored (si_arch s) u"
  shows "\<exists>u' k s1. find_row (\<lambda>u. up_id u = i) ups' = Some u'
    \<and> visits replay (take k (upgrade_pending (si_arch s) u)) s s1
    \<and> upgrade_pending (si_arch s) u' = drop k (upgrade_pending (si_arch s) u)
    \<and> up_processed u' = up_processed u + int k
    \<and> (if eo_reason out = ''Upgrade checkpoint retained''
        then k < min n (length (upgrade_pending (si_arch s) u)) \<and> eo_state out = ''pending'' \<and> s' = s1\<lparr>si_polls := si_polls s1 + 1\<rparr>
        else k = min n (length (upgrade_pending (si_arch s) u)) \<and> s' = s1
          \<and> eo_state out = (if length (upgrade_pending (si_arch s) u) < n then ''done'' else ''pending''))
    \<and> (eo_state out = ''done'' \<longrightarrow> up_state u' = ''done'' \<and> upgrade_pending (si_arch s) u' = [])
    \<and> anchored (si_arch s) u'"
proof -
  let ?p = "upgrade_pending (si_arch s) u"
  have row: "find_row (\<lambda>u. up_id u = i) ups1 = Some u"
    using assms(3) by (auto simp: start_upgrade_def Let_def rbind_eq_Inr split: if_splits)
  obtain ups2 finished where run: "replay_batch replay stop j now i (take n ?p) ups1 s = (Inr finished, ups2, s')"
    and fin: "finish_batch now i u n (length (take n ?p)) finished ups2 = (out, ups')"
    using assms(1-3) by (auto simp: reprocess_archive_def upgrade_batch_def Let_def split: prod.splits sum.splits)
  obtain u2 k s1 where u2: "find_row (\<lambda>u. up_id u = i) ups2 = Some u2" "upgrade_pending (si_arch s) u2 = drop k ?p"
    "up_processed u2 = up_processed u + int k" "anchored (si_arch s) u2" "up_high_water_raw_id u2 = up_high_water_raw_id u"
    and k: "visits replay (take k ?p) s s1" "batch_end finished k (min n (length ?p)) s1 s'"
    using replay_batch_visits [OF run row assms(4,5)] by blast
  show ?thesis
  proof (cases "finished \<and> length ?p < n")
    case True
    then have out: "eo_state out = ''done''" "eo_reason out \<noteq> ''Upgrade checkpoint retained''"
        "ups' = checkpoint_upgrade i (up_high_water_raw_id u) True now ups2"
      using fin by (auto simp: finish_batch_def outcome_def)
    have empty: "upgrade_pending (si_arch s) u2 = []" using u2(2) True k(2) by (simp add: batch_end_def)
    note f = finish_pending [OF empty u2(4), of now]
    show ?thesis
      using True out u2 f k by (intro exI [of _ "checkpointed (up_high_water_raw_id u) True now u2"] exI [of _ k] exI [of _ s1])
        (simp add: find_checkpoint batch_end_def)
  next
    case False
    then have "eo_state out = ''pending''" "ups' = ups2" "finished \<longleftrightarrow> eo_reason out \<noteq> ''Upgrade checkpoint retained''"
      using fin by (auto simp: finish_batch_def outcome_def split: if_splits)
    then show ?thesis using False u2 k by (intro exI [of _ u2] exI [of _ k] exI [of _ s1]) (auto simp: batch_end_def)
  qed
qed

definition stored_row :: "int \<Rightarrow> raw_row" where
  "stored_row i = \<lparr>rw_id = i, rw_provider = ''lichess'', rw_endpoint_type = ''game'', rw_provider_url = [],
     rw_canonical_source_key = [], rw_request_params = JNull, rw_response_status = 200, rw_response_headers = JNull,
     rw_content_type = [], rw_fetched_at = 100, rw_body_hash = [], rw_body_compression = [], rw_raw_body = Some [], rw_body_bytes = 0,
     rw_parser_version = None, rw_normalization_status = ''pending'', rw_normalized_at = None, rw_error_ref = None,
     rw_archive_object_id = None, rw_owner_scope = ''public''\<rparr>"

definition upgrade_site :: site where
  "upgrade_site = \<lparr>si_db = empty_db, si_conn = fresh_conn 7, si_arch = no_arch\<lparr>ar_raw := [stored_row 1, stored_row 2]\<rparr>,
     si_objects = Map.empty, si_errors = [], si_next_error = 1,
     si_coll = \<lparr>co_checkpoints = [], co_coverage = [], co_ranges = [], co_followups = []\<rparr>, si_catalog = empty_catalog, si_polls = 0\<rparr>"

definition upgrade_job :: job where
  "upgrade_job = sample_job\<lparr>j_kind := ''reprocess_archive'', j_target := ''u1'', j_params_json := JObj [(''batch_size'', JInt 1)]\<rparr>"

definition replayed :: "int \<Rightarrow> ingest_result act" where
  "replayed i = ret \<lparr>ir_provider = ''lichess'', ir_endpoint_type = ''game'', ir_status_code = 200, ir_raw_payload_id = Some i,
     ir_normalized_ids = [], ir_message = [], ir_retry_after = None\<rparr>"

definition manifest :: string where
  "manifest = join ''|'' [ARCHIVES_PARSER_VERSION, GAMES_PARSER_VERSION, RESOURCES_PARSER_VERSION, USERS_PARSER_VERSION]"

lemma sample_params: "batch_params upgrade_job = Inr (1, ''u1'', ''lichess'', manifest, ''public'')"
  by code_simp

lemma sample_start:
  "case start_upgrade ''u1'' ''lichess'' manifest (j_id upgrade_job) ''public'' 5 (si_arch upgrade_site) [] of
     Inr (ups1, u) \<Rightarrow> anchored (si_arch upgrade_site) u \<and> upgrade_pending (si_arch upgrade_site) u = [1, 2] \<and> up_processed u = 0 | _ \<Rightarrow> False"
  by code_simp

lemma sample_upgrade:
  "case reprocess_archive replayed (\<lambda>_. False) upgrade_job 5 [] upgrade_site of
     (Inr out, _) \<Rightarrow> eo_reason out \<noteq> ''Upgrade checkpoint retained'' | _ \<Rightarrow> False"
  by code_simp

theorem upgrade_visits_once_witness:
  "\<exists>out ups' s' u'. reprocess_archive replayed (\<lambda>_. False) upgrade_job 5 [] upgrade_site = (Inr out, ups', s')
     \<and> visits replayed [1] upgrade_site s' \<and> upgrade_pending (si_arch upgrade_site) u' = [2] \<and> up_processed u' = 1 \<and> u' \<in> set ups'"
proof -
  obtain out ups' s' where run: "reprocess_archive replayed (\<lambda>_. False) upgrade_job 5 [] upgrade_site = (Inr out, ups', s')"
      and out: "eo_reason out \<noteq> ''Upgrade checkpoint retained''"
    using sample_upgrade by (auto split: prod.splits sum.splits)
  obtain ups1 u where start: "start_upgrade ''u1'' ''lichess'' manifest (j_id upgrade_job) ''public'' 5 (si_arch upgrade_site) [] = Inr (ups1, u)"
      and u: "anchored (si_arch upgrade_site) u" "upgrade_pending (si_arch upgrade_site) u = [1, 2]" "up_processed u = 0"
    using sample_start by (auto split: prod.splits sum.splits)
  have "distinct (map rw_id (ar_raw (si_arch upgrade_site)))" by (simp add: upgrade_site_def stored_row_def)
  from upgrade_visits_once [OF run sample_params start this u(1)] obtain u' where row: "find_row (\<lambda>u. up_id u = ''u1'') ups' = Some u'"
      "visits replayed [1] upgrade_site s'" "upgrade_pending (si_arch upgrade_site) u' = [2]" "up_processed u' = 1"
    using u out by auto
  have "u' \<in> set ups'" using find_row_Some [OF row(1)] by simp
  with run row show ?thesis by blast
qed

end
