(* ===== verification/Identity_Properties.thy ===== *)
theory Identity_Properties
  imports Identity_Laws Evidence_Properties Samples
begin

text \<open>
  The property of identity upserts, with the account functions ingestion is given as its client: accounts stay unique,
  stable accounts are never merged or changed, and no reference is left without its account.
\<close>

section \<open>Every branch of an upsert\<close>

definition upserted :: "identity_facts \<Rightarrow> site \<Rightarrow> site \<Rightarrow> int \<Rightarrow> bool" where
  "upserted f s s' u \<longleftrightarrow> players_ok s' \<and> refs_ok s' \<and> accounts_kept (players s) (players s')
    \<and> (\<exists>p \<in> set (players s'). pl_id p = u \<and> pl_provider p = if_provider f
        \<and> (pl_provider_user_id p = None \<or> if_provider_user_id f = None \<or> pl_provider_user_id p = if_provider_user_id f))
    \<and> (\<forall>p \<in> set (players s). pl_id p \<notin> pl_id ` set (players s') \<longrightarrow> pl_provider_user_id p = None
        \<and> pl_provider p = if_provider f \<and> pl_username_normalized p = lower (strip (if_username f)))"

lemma update_upserted:
  assumes "update_player ad f (pl_id p) s = Inr (s', u)" "players_ok s" "refs_ok s" "p \<in> set (players s)" "pl_provider p = if_provider f"
    and "pl_provider_user_id p = None \<or> if_provider_user_id f = None \<or> pl_provider_user_id p = if_provider_user_id f"
  shows "upserted f s s' u"
proof -
  note ok = update_player_ok [OF assms(1-4) refl assms(6)]
  have "pl_id ` set (players s') = pl_id ` set (players s)" using ok by (metis set_map)
  then show ?thesis using ok assms(5) unfolding upserted_def by auto
qed

lemma unchanged_upserted:
  assumes "players_ok s" "refs_ok s" "p \<in> set (players s)" "pl_provider p = if_provider f"
    and "pl_provider_user_id p = None \<or> if_provider_user_id f = None \<or> pl_provider_user_id p = if_provider_user_id f"
  shows "upserted f s s (pl_id p)"
  using assms unfolding upserted_def by auto

lemma insert_player_ok:
  assumes i: "insert_player p s = Inr (s', u)" and ok: "players_ok s" "refs_ok s"
  shows "players_ok s' \<and> refs_ok s' \<and> players s' = players s @ [p\<lparr>pl_id := u\<rparr>]"
proof -
  have ps: "players s' = players s @ [p\<lparr>pl_id := u\<rparr>]" "u = ct_next_player (si_catalog s)" "ct_next_player (si_catalog s') = u + 1"
    "player_keys_unique (players s')" "user_refs s' = user_refs s"
    using i by (auto simp: insert_player_def Let_def on_catalog_def user_refs_def catalog_refs_def split: if_splits)
  have "player_tab.unique_keys (players s')" unfolding ps(1) using ok(1) ps(2)
    by (intro player_tab.unique_keys_snoc) (auto simp: players_ok_def list_all_iff)
  then have "players_ok s'" using ok(1) ps by (auto simp: players_ok_def list_all_iff)
  moreover have "refs_ok s'" using ok(2) ps(1,5) by (auto simp: refs_ok_def)
  ultimately show ?thesis using ps(1) by blast
qed

lemma absorb_upserted:
  assumes a: "absorb_named ad f p n s = Inr (s', u)" and ok: "players_ok s" "refs_ok s" and p: "p \<in> set (players s)" "pl_provider p = if_provider f"
      "pl_provider_user_id p = if_provider_user_id f"
    and n: "n \<in> set (players s)" "pl_id n \<noteq> pl_id p" "pl_provider n = if_provider f" "pl_username_normalized n = lower (strip (if_username f))"
  shows "upserted f s s' u"
proof (cases "stale_profile (si_arch s) f (pl_id n)")
  case True
  then show ?thesis using a ok p by (auto simp: absorb_named_def split: if_splits intro: unchanged_upserted)
next
  case False
  let ?s = "merge_user_placeholder (pl_id p) (pl_id n) s"
  have n0: "pl_provider_user_id n = None" and u: "update_player ad f (pl_id p) ?s = Inr (s', u)"
    using a False by (auto simp: absorb_named_def split: if_splits)
  note m = merge_user_placeholder_ok [OF ok p(1) n(1) n0 n(2) [symmetric]]
  obtain p' where p': "p' \<in> set (players ?s)" "pl_id p' = pl_id p" "pl_provider p' = if_provider f" "pl_provider_user_id p' = if_provider_user_id f"
    using m p(2,3) by (auto simp: identity_of_def)
  have u': "update_player ad f (pl_id p') ?s = Inr (s', u)" using u p'(2) by simp
  have up: "upserted f ?s s' u" using update_upserted [OF u' _ _ p'(1,3)] m p'(4) by blast
  have ids: "set (map pl_id (players s')) = set (map pl_id (players s)) - {pl_id n}"
    using update_player_ok [OF u' _ _ p'(1) refl] m p'(4) by metis
  have "pl_provider_user_id x = None \<and> pl_provider x = if_provider f \<and> pl_username_normalized x = lower (strip (if_username f))"
    if x: "x \<in> set (players s)" "pl_id x \<notin> pl_id ` set (players s')" for x
  proof -
    have "pl_id x = pl_id n" using x ids by auto
    then have "x = n" using player_tab.unique_key_eq [of "players s" x n] ok(1) x(1) n(1) by (auto simp: players_ok_def)
    then show ?thesis using n0 n(3,4) by simp
  qed
  then show ?thesis using up m accounts_kept_trans unfolding upserted_def by blast
qed

lemma player_named_Some: "player_named ct provider name = Some p \<Longrightarrow>
  p \<in> set (ct_players ct) \<and> pl_provider p = provider \<and> pl_username_normalized p = name"
  unfolding player_named_def by (drule find_row_Some) simp

lemma player_identified_Some: "player_identified ct provider sid = Some p \<Longrightarrow>
  p \<in> set (ct_players ct) \<and> pl_provider p = provider \<and> pl_provider_user_id p = sid"
  by (cases sid) (auto simp: player_identified_def dest: find_row_Some)

lemma upsert_locked_upserted:
  assumes u: "upsert_provider_user_locked ad f s = Inr (s', u)" and ok: "players_ok s" "refs_ok s"
  shows "upserted f s s' u"
proof -
  let ?named = "player_named (si_catalog s) (if_provider f) (lower (strip (if_username f)))"
  let ?known = "player_identified (si_catalog s) (if_provider f) (if_provider_user_id f)"
  consider (known) p where "?known = Some p" | (named) n where "?known = None" "?named = Some n" | (new) "?known = None" "?named = None"
    by (cases ?known; cases ?named) auto
  then show ?thesis
  proof cases
    case (known p)
    note p = player_identified_Some [OF known]
    show ?thesis
    proof (cases "stale_profile (si_arch s) f (pl_id p) \<or> stale_observation f p")
      case True
      then show ?thesis using u ok p known by (auto simp: upsert_provider_user_locked_def Let_def intro: unchanged_upserted)
    next
      case False
      then consider (other) n where "?named = Some n" "pl_id n \<noteq> pl_id p" "absorb_named ad f p n s = Inr (s', u)"
        | (same) "update_player ad f (pl_id p) s = Inr (s', u)"
        using u known by (auto simp: upsert_provider_user_locked_def Let_def split: option.splits if_splits)
      then show ?thesis
      proof cases
        case other
        then show ?thesis using absorb_upserted [OF other(3) ok] p player_named_Some [OF other(1)] other(2) by auto
      next
        case same
        then show ?thesis using update_upserted [OF same ok] p by auto
      qed
    qed
  next
    case (named n)
    note n = player_named_Some [OF named(2)]
    have c: "pl_provider_user_id n = None \<or> if_provider_user_id f = None \<or> pl_provider_user_id n = if_provider_user_id f"
      using u named by (auto simp: upsert_provider_user_locked_def Let_def split: if_splits)
    then have "(s', u) = (s, pl_id n) \<or> update_player ad f (pl_id n) s = Inr (s', u)"
      using u named by (auto simp: upsert_provider_user_locked_def Let_def split: if_splits)
    then show ?thesis using unchanged_upserted [OF ok _ _ c] update_upserted [OF _ ok _ _ c] n by auto
  next
    case new
    then obtain st ti where "insert_player (new_player f st ti) s = Inr (s', u)"
      using u by (auto simp: upsert_provider_user_locked_def Let_def rbind_eq_Inr)
    note i = insert_player_ok [OF this ok]
    then show ?thesis unfolding upserted_def accounts_kept_def by (auto simp: new_player_def)
  qed
qed

section \<open>Which account an observation resolves to\<close>

text \<open>The account of an observation: the one with its stable id, else the one with its name; and an observation that is older than what is known.\<close>

definition observed_account :: "identity_facts \<Rightarrow> site \<Rightarrow> player option" where
  "observed_account f s = (case player_identified (si_catalog s) (if_provider f) (if_provider_user_id f) of
       Some p \<Rightarrow> Some p | None \<Rightarrow> player_named (si_catalog s) (if_provider f) (lower (strip (if_username f))))"

definition observation_stale :: "identity_facts \<Rightarrow> site \<Rightarrow> bool" where
  "observation_stale f s = (case player_identified (si_catalog s) (if_provider f) (if_provider_user_id f) of
       Some p \<Rightarrow> stale_profile (si_arch s) f (pl_id p) \<or> stale_observation f p
         \<or> (case player_named (si_catalog s) (if_provider f) (lower (strip (if_username f))) of
               None \<Rightarrow> False | Some n \<Rightarrow> pl_id n \<noteq> pl_id p \<and> stale_profile (si_arch s) f (pl_id n))
     | None \<Rightarrow> (case player_named (si_catalog s) (if_provider f) (lower (strip (if_username f))) of
         None \<Rightarrow> False | Some n \<Rightarrow> stale_profile (si_arch s) f (pl_id n)))"

definition carries :: "identity_facts \<Rightarrow> player \<Rightarrow> bool" where
  "carries f p \<longleftrightarrow> pl_provider p = if_provider f \<and> pl_username_normalized p = lower (strip (if_username f))
     \<and> (if_provider_user_id f \<noteq> None \<longrightarrow> pl_provider_user_id p = if_provider_user_id f)"

abbreviation seat_owners :: "site \<Rightarrow> int option list" where
  "seat_owners s \<equiv> map se_provider_user_id (ct_seats (si_catalog s))"

lemma merge_user_placeholder_seats:
  "ct_seats (si_catalog (merge_user_placeholder x y s)) = update_where (\<lambda>p. se_provider_user_id p = Some y) (\<lambda>p. p\<lparr>se_provider_user_id := Some x\<rparr>)
     (ct_seats (si_catalog s))"
  by (simp add: merge_user_placeholder_def Let_def case_prod_beta identity_simps drop_player_def)

text \<open>The other accounts keep their identity, and seats of an account that is gone belong to the returned one.\<close>

definition settles :: "site \<Rightarrow> site \<Rightarrow> int \<Rightarrow> bool" where
  "settles s s' u \<longleftrightarrow> (\<forall>p \<in> set (players s). pl_id p \<noteq> u \<and> pl_id p \<in> pl_id ` set (players s') \<longrightarrow> (\<exists>q \<in> set (players s'). identity_of q = identity_of p))
     \<and> seat_owners s' = map (map_option (\<lambda>i. if i \<in> pl_id ` set (players s') then i else u)) (seat_owners s)"

lemma seat_owner_exists: "refs_ok s \<Longrightarrow> Some i \<in> set (seat_owners s) \<Longrightarrow> i \<in> pl_id ` set (players s)"
proof -
  assume ok: "refs_ok s" and i: "Some i \<in> set (seat_owners s)"
  from i have "i \<in> owned se_provider_user_id (ct_seats (si_catalog s))" by (force simp: owned_def)
  then show ?thesis using ok unfolding refs_ok_def user_refs_def catalog_refs_def by blast
qed

lemma seats_unmoved:
  assumes "refs_ok s" "pl_id ` set (players s) \<subseteq> pl_id ` set (players s')" "seat_owners s' = seat_owners s"
  shows "seat_owners s' = map (map_option (\<lambda>i. if i \<in> pl_id ` set (players s') then i else u)) (seat_owners s)"
proof -
  have "map_option (\<lambda>i. if i \<in> pl_id ` set (players s') then i else u) x = x" if "x \<in> set (seat_owners s)" for x
    using seat_owner_exists [OF assms(1)] assms(2) that by (cases x) auto
  then have "map (map_option (\<lambda>i. if i \<in> pl_id ` set (players s') then i else u)) (seat_owners s) = seat_owners s"
    by (metis (no_types, lifting) map_idI)
  then show ?thesis using assms(3) by simp
qed

lemma settles_refl: "refs_ok s \<Longrightarrow> settles s s u"
  using seats_unmoved [of s s u] by (auto simp: settles_def)

lemma update_player_carries:
  assumes u: "update_player ad f (pl_id p) s = Inr (s', u)" and p: "p \<in> set (players s)" "pl_provider p = if_provider f"
  shows "u = pl_id p" "\<exists>q \<in> set (players s'). pl_id q = u \<and> carries f q" "\<And>q. q \<in> set (players s) \<Longrightarrow> pl_id q \<noteq> u \<Longrightarrow> q \<in> set (players s')"
    "seat_owners s' = seat_owners s" "pl_id ` set (players s') = pl_id ` set (players s)"
proof -
  obtain st ti where s': "s' = on_catalog (\<lambda>ct. ct\<lparr>ct_players := update_where (\<lambda>x. pl_id x = pl_id p) (updated_player f st ti) (ct_players ct)\<rparr>) s"
    and u': "u = pl_id p"
    using u by (auto simp: update_player_def rbind_eq_Inr Let_def on_catalog_def split: if_splits)
  have g: "pl_id (updated_player f st ti x) = pl_id x" for x by (simp add: updated_player_def Let_def)
  have ps: "set (players s') = (\<lambda>x. if pl_id x = pl_id p then updated_player f st ti x else x) ` set (players s)"
    by (simp add: s' on_catalog_def set_update_where)
  show "u = pl_id p" by (rule u')
  have "carries f (updated_player f st ti p)" using p(2) by (auto simp: carries_def updated_player_def Let_def merged_def split: option.splits)
  then show "\<exists>q \<in> set (players s'). pl_id q = u \<and> carries f q" unfolding ps using p(1) g u' by force
  show "\<And>q. q \<in> set (players s) \<Longrightarrow> pl_id q \<noteq> u \<Longrightarrow> q \<in> set (players s')" unfolding ps using u' by force
  show "seat_owners s' = seat_owners s" by (simp add: s' on_catalog_def)
  show "pl_id ` set (players s') = pl_id ` set (players s)" unfolding ps image_image using g by (intro image_cong) auto
qed

lemma update_player_settles:
  assumes "update_player ad f (pl_id p) s = Inr (s', u)" "p \<in> set (players s)" "pl_provider p = if_provider f" "refs_ok s"
  shows "settles s s' u"
  using update_player_carries [OF assms(1-3)] seats_unmoved [OF assms(4), of s' u] unfolding settles_def by blast

lemma absorb_settles:
  assumes ok: "players_ok s" "refs_ok s" and p: "p \<in> set (players s)" "pl_provider p = if_provider f"
    and n: "n \<in> set (players s)" "pl_id n \<noteq> pl_id p" "pl_provider_user_id n = None"
    and u: "update_player ad f (pl_id p) (merge_user_placeholder (pl_id p) (pl_id n) s) = Inr (s', u)"
  shows "u = pl_id p" "\<exists>q \<in> set (players s'). pl_id q = u \<and> carries f q" "settles s s' u"
proof -
  let ?s = "merge_user_placeholder (pl_id p) (pl_id n) s"
  note m = merge_user_placeholder_ok [OF ok p(1) n(1,3) n(2) [symmetric]] and mv = merge_user_placeholder_moved [OF n(2) [symmetric], of s]
  obtain p' where p': "p' \<in> set (players ?s)" "pl_id p' = pl_id p" "pl_provider p' = if_provider f"
    using m p(2) by (auto simp: identity_of_def)
  have u': "update_player ad f (pl_id p') ?s = Inr (s', u)" using u p'(2) by simp
  note c = update_player_carries [OF u' p'(1,3)]
  show up: "u = pl_id p" using c(1) p'(2) by simp
  show "\<exists>q \<in> set (players s'). pl_id q = u \<and> carries f q" by (rule c(2))
  have ids: "pl_id ` set (players s') = pl_id ` set (players s) - {pl_id n}" using c(5) m by simp
  have others: "\<exists>q \<in> set (players s'). identity_of q = identity_of x" if x: "x \<in> set (players s)" "pl_id x \<noteq> u" "pl_id x \<noteq> pl_id n" for x
  proof -
    have "identity_of x \<in> set (identities ?s)" unfolding mv(3) using x by (auto simp: identities_def identity_of_def)
    then obtain q where "q \<in> set (players ?s)" "identity_of q = identity_of x" by (auto simp: identities_def)
    then show ?thesis using c(3) [of q] x(2) by (auto simp: identity_of_def)
  qed
  have "seat_owners ?s = map (\<lambda>o'. if o' = Some (pl_id n) then Some (pl_id p) else o') (seat_owners s)"
    by (simp add: merge_user_placeholder_seats update_where_def)
  also have "\<dots> = map (map_option (\<lambda>i. if i \<in> pl_id ` set (players s') then i else u)) (seat_owners s)"
  proof (rule map_cong [OF refl])
    fix x assume x: "x \<in> set (seat_owners s)"
    show "(if x = Some (pl_id n) then Some (pl_id p) else x) = map_option (\<lambda>i. if i \<in> pl_id ` set (players s') then i else u) x"
    proof (cases x)
      case (Some i)
      then have "i \<in> pl_id ` set (players s)" using seat_owner_exists [OF ok(2)] x by simp
      then show ?thesis unfolding ids up Some by simp
    qed simp
  qed
  finally show "settles s s' u" using others c(4) ids unfolding settles_def by auto
qed

lemma upsert_locked_resolves:
  assumes u: "upsert_provider_user_locked ad f s = Inr (s', u)" and ok: "players_ok s" "refs_ok s"
  shows "(case observed_account f s of Some p \<Rightarrow> u = pl_id p | None \<Rightarrow> u \<notin> pl_id ` set (players s))
    \<and> (if observation_stale f s then s' = s else \<exists>p \<in> set (players s'). pl_id p = u \<and> carries f p) \<and> settles s s' u"
proof -
  let ?named = "player_named (si_catalog s) (if_provider f) (lower (strip (if_username f)))"
  let ?known = "player_identified (si_catalog s) (if_provider f) (if_provider_user_id f)"
  consider (known) p where "?known = Some p" | (named) n where "?known = None" "?named = Some n" | (new) "?known = None" "?named = None"
    by (cases ?known; cases ?named) auto
  then show ?thesis
  proof cases
    case (known p)
    note p = player_identified_Some [OF known]
    have run: "(if stale_profile (si_arch s) f (pl_id p) \<or> stale_observation f p then Inr (s, pl_id p)
        else (case ?named of
            Some n \<Rightarrow> if pl_id n \<noteq> pl_id p then absorb_named ad f p n s else update_player ad f (pl_id p) s
          | None \<Rightarrow> update_player ad f (pl_id p) s)) = Inr (s', u)"
      using u unfolding upsert_provider_user_locked_def Let_def known option.case .
    have old: "observation_stale f s \<longleftrightarrow> stale_profile (si_arch s) f (pl_id p) \<or> stale_observation f p
        \<or> (case ?named of None \<Rightarrow> False | Some n \<Rightarrow> pl_id n \<noteq> pl_id p \<and> stale_profile (si_arch s) f (pl_id n))"
      unfolding observation_stale_def known option.case ..
    consider (stale) "observation_stale f s" "(s', u) = (s, pl_id p)"
      | (other) n where "\<not> observation_stale f s" "?named = Some n" "pl_id n \<noteq> pl_id p" "pl_provider_user_id n = None"
          "update_player ad f (pl_id p) (merge_user_placeholder (pl_id p) (pl_id n) s) = Inr (s', u)"
      | (same) "\<not> observation_stale f s" "update_player ad f (pl_id p) s = Inr (s', u)"
    proof (cases ?named)
      case None
      then show thesis using run that(1,3) unfolding old by (cases "stale_profile (si_arch s) f (pl_id p) \<or> stale_observation f p") auto
    next
      case (Some n)
      then show thesis
        using run that unfolding old absorb_named_def Some option.case
        by (cases "stale_profile (si_arch s) f (pl_id p) \<or> stale_observation f p"; cases "pl_id n \<noteq> pl_id p"; cases "pl_provider_user_id n = None";
            cases "stale_profile (si_arch s) f (pl_id n)") simp_all
    qed
    then show ?thesis
    proof cases
      case stale
      then show ?thesis using settles_refl [OF ok(2)] known by (auto simp: observed_account_def)
    next
      case other
      have a: "u = pl_id p" "\<exists>q \<in> set (players s'). pl_id q = u \<and> carries f q" "settles s s' u"
        using absorb_settles [OF ok _ _ _ other(3,4,5)] p player_named_Some [OF other(2)] by auto
      then show ?thesis using known other(1) by (auto simp: observed_account_def)
    next
      case same
      then show ?thesis using update_player_carries(1,2) [OF same(2)] update_player_settles [OF same(2) _ _ ok(2)] p known
        by (auto simp: observed_account_def)
    qed
  next
    case (named n)
    note n = player_named_Some [OF named(2)]
    consider (stale) "observation_stale f s" "(s', u) = (s, pl_id n)" | (same) "\<not> observation_stale f s" "update_player ad f (pl_id n) s = Inr (s', u)"
      using u named by (auto simp: upsert_provider_user_locked_def observation_stale_def Let_def split: if_splits)
    then show ?thesis
    proof cases
      case stale
      then show ?thesis using settles_refl [OF ok(2)] named by (auto simp: observed_account_def)
    next
      case same
      then show ?thesis using update_player_carries(1,2) [OF same(2)] update_player_settles [OF same(2) _ _ ok(2)] n named
        by (auto simp: observed_account_def)
    qed
  next
    case new
    then obtain st ti where i: "insert_player (new_player f st ti) s = Inr (s', u)"
      using u by (auto simp: upsert_provider_user_locked_def Let_def rbind_eq_Inr)
    have ps: "players s' = players s @ [(new_player f st ti)\<lparr>pl_id := u\<rparr>]" using insert_player_ok [OF i ok] by blast
    have u': "u = ct_next_player (si_catalog s)" "seat_owners s' = seat_owners s"
      using i by (auto simp: insert_player_def Let_def on_catalog_def split: if_splits)
    have "u \<notin> pl_id ` set (players s)" using ok(1) u'(1) by (auto simp: players_ok_def list_all_iff)
    moreover have "carries f ((new_player f st ti)\<lparr>pl_id := u\<rparr>)" by (simp add: carries_def new_player_def)
    moreover have "settles s s' u" using seats_unmoved [OF ok(2), of s' u] ps u'(2) by (auto simp: settles_def)
    moreover have "\<not> observation_stale f s" "observed_account f s = None" using new by (simp_all add: observation_stale_def observed_account_def)
    ultimately show ?thesis using ps by auto
  qed
qed

text \<open>
  C16. An observation of an account keeps the identities sound. It returns the account that has the observed stable id, else the one that has the observed name, else a
  new one; unless the observation is older than what is known, when nothing changes, this account then has the observed provider and name and, when one was
  observed, the stable id. Account numbers, names and stable ids stay unique; every account with a stable id is still there with that id, the returned account is never
  one with a different stable id, and every other account keeps its identity. The only account that may disappear is a placeholder without a
  stable id that held the observed name: it is merged into the returned account, which then has the seats in games that the placeholder had.
  Every game, alias, snapshot, observation, resource, attempt, fetch log, source record and discovery edge that referred to an account refers to one that exists.
\<close>

theorem identity_upsert_sound:
  assumes "upsert_provider_user ad held f s = Inr (s', u)" "players_ok s" "refs_ok s"
  shows "(case observed_account f s of Some p \<Rightarrow> u = pl_id p | None \<Rightarrow> u \<notin> pl_id ` set (players s))
    \<and> (if observation_stale f s then s' = s
       else \<exists>p \<in> set (players s'). pl_id p = u \<and> pl_provider p = if_provider f \<and> pl_username_normalized p = lower (strip (if_username f))
         \<and> (if_provider_user_id f \<noteq> None \<longrightarrow> pl_provider_user_id p = if_provider_user_id f))
    \<and> players_ok s' \<and> refs_ok s' \<and> accounts_kept (players s) (players s')
    \<and> (\<exists>p \<in> set (players s'). pl_id p = u \<and> pl_provider p = if_provider f
        \<and> (pl_provider_user_id p = None \<or> if_provider_user_id f = None \<or> pl_provider_user_id p = if_provider_user_id f))
    \<and> (\<forall>p \<in> set (players s). pl_id p \<noteq> u \<and> pl_id p \<in> pl_id ` set (players s') \<longrightarrow> (\<exists>q \<in> set (players s'). identity_of q = identity_of p))
    \<and> (\<forall>p \<in> set (players s). pl_id p \<notin> pl_id ` set (players s') \<longrightarrow> pl_provider_user_id p = None
        \<and> pl_provider p = if_provider f \<and> pl_username_normalized p = lower (strip (if_username f)))
    \<and> map se_provider_user_id (ct_seats (si_catalog s'))
        = map (map_option (\<lambda>i. if i \<in> pl_id ` set (players s') then i else u)) (map se_provider_user_id (ct_seats (si_catalog s)))"
proof -
  have l: "upsert_provider_user_locked ad f s = Inr (s', u)" using assms(1) by (auto simp: upsert_provider_user_def rbind_eq_Inr)
  note up = upsert_locked_upserted [OF l assms(2,3), unfolded upserted_def] and re = upsert_locked_resolves [OF l assms(2,3), unfolded settles_def carries_def]
  show ?thesis by (intro conjI) (use up re in blast)+
qed

definition ann :: player where
  "ann = \<lparr>pl_id = 1, pl_provider = ''lichess'', pl_provider_user_id = Some ''u1'', pl_username_normalized = ''ann'', pl_display_username = ''Ann'',
     pl_account_status = None, pl_title = None, pl_first_seen_at = Some 3, pl_updated_at = Some 4\<rparr>"

definition anna :: player where
  "anna = ann\<lparr>pl_id := 2, pl_provider_user_id := None, pl_username_normalized := ''anna'', pl_first_seen_at := Some 2\<rparr>"

text \<open>An account and a placeholder that played a game under the name the account now has.\<close>

definition renamed_site :: site where
  "renamed_site = \<lparr>si_db = empty_db, si_conn = fresh_conn 7, si_arch = sample_arch, si_objects = Map.empty, si_errors = [], si_next_error = 1,
     si_coll = \<lparr>co_checkpoints = [], co_coverage = [], co_ranges = [], co_followups = []\<rparr>,
     si_catalog = empty_catalog\<lparr>ct_players := [ann, anna], ct_next_player := 3, ct_seats := [\<lparr>se_id = 1, se_game_id = 1, se_color = ''white'',
       se_provider_user_id = Some 2, se_username_normalized = Some ''anna'', se_result_raw = None, se_is_winner = None, se_is_ai = False\<rparr>]\<rparr>,
     si_polls = 0\<rparr>"

definition renamed_facts :: identity_facts where
  "renamed_facts = \<lparr>if_provider = ''lichess'', if_username = ''Anna'', if_provider_user_id = Some ''u1'', if_display_username = None,
     if_account_status = JNull, if_title = JNull, if_now = 9, if_profile_raw_payload_id = None\<rparr>"

definition text_adapter :: adapter where
  "text_adapter v = (case v of JNull \<Rightarrow> Inr None | JStr s \<Rightarrow> Inr (Some s) | _ \<Rightarrow> Inl (DatabaseError ''cannot adapt''))"

theorem identity_upsert_sound_witness:
  "case upsert_provider_user text_adapter Open renamed_facts renamed_site of
     Inr (s, u) \<Rightarrow> u = 1 \<and> map pl_username_normalized (players s) = [''anna''] \<and> map pl_first_seen_at (players s) = [Some 2]
       \<and> map se_provider_user_id (ct_seats (si_catalog s)) = [Some 1] \<and> players_ok s \<and> refs_ok s
   | Inl _ \<Rightarrow> False"
proof -
  have run: "case upsert_provider_user text_adapter Open renamed_facts renamed_site of
     Inr (s, u) \<Rightarrow> u = 1 \<and> map pl_username_normalized (players s) = [''anna''] \<and> map pl_first_seen_at (players s) = [Some 2]
       \<and> map se_provider_user_id (ct_seats (si_catalog s)) = [Some 1] | Inl _ \<Rightarrow> False" by code_simp
  then obtain s u where e: "upsert_provider_user text_adapter Open renamed_facts renamed_site = Inr (s, u)" by (auto split: sum.splits)
  have "players_ok renamed_site"
    by (simp add: players_ok_def player_tab.unique_keys_def player_keys_unique_identities keys_unique_def renamed_site_def ann_def anna_def
        identity_of_def map_filter_simps)
  moreover have "refs_ok renamed_site"
    by (simp add: refs_ok_def user_refs_def catalog_refs_def arch_refs_def edge_refs_def owned_def renamed_site_def ann_def anna_def
        empty_catalog_def empty_db_def sample_arch_def)
  ultimately show ?thesis using identity_upsert_sound [OF e] run by (simp add: e)
qed

end
