(* ===== verification/Profile_Properties.thy ===== *)
theory Profile_Properties
  imports Resources Normalization_Properties
begin

text \<open>
  Properties of profiles and resources: a profile that carries the relationships of the account that fetched it is never
  shown, and the points read from a rating history are exactly its valid elements.
\<close>

section \<open>Ownership\<close>

lemma raw_by_id_move_scope:
  "raw_by_id (move_scope i p scope a) k = map_option (\<lambda>w. if rw_id w = i \<and> p w then w\<lparr>rw_owner_scope := scope\<rparr> else w) (raw_by_id a k)"
proof -
  have "find_row (\<lambda>w. rw_id w = k) (update_where q (\<lambda>w. w\<lparr>rw_owner_scope := scope\<rparr>) ws)
      = map_option (\<lambda>w. if q w then w\<lparr>rw_owner_scope := scope\<rparr> else w) (find_row (\<lambda>w. rw_id w = k) ws)" for q and ws :: "raw_row list"
    by (induction ws) (auto simp: find_row_def update_where_def)
  then show ?thesis by (simp add: raw_by_id_def move_scope_def)
qed

lemma quarantined_not_public: "\<not> is_public (quarantine_unowned_profile i a) i"
proof -
  have "rw_id w = i" if "raw_by_id a i = Some w" for w
    using that by (auto simp: raw_by_id_def dest: find_row_Some)
  then show ?thesis
    by (auto simp: is_public_def quarantine_unowned_profile_def raw_by_id_move_scope split: option.splits)
qed

lemma read_stored_catalog: "si_catalog (snd (read_stored e i s)) = si_catalog s"
  by (auto simp: read_stored_def andthen_def charge_read_def tx_def ask_site_def rbind_def split: option.splits sum.splits prod.splits)

text \<open>What a view shows rests on public payloads.\<close>

definition shows_payload :: "player_view \<Rightarrow> int \<Rightarrow> bool" where
  "shows_payload v raw \<longleftrightarrow> (\<exists>x. (vw_profile v = Some x \<or> vw_statistics v = Some x) \<and> uo_raw_payload_id (fst x) = raw)
     \<or> (\<exists>x \<in> set (vw_ratings v). uo_raw_payload_id (snd x) = raw) \<or> (\<exists>al \<in> set (vw_aliases v). al_raw_payload_id al = Some raw)"

lemma last_by_in:
  assumes "last_by k xs = Some x"
  shows "x \<in> set xs"
proof -
  have "xs \<noteq> []" "x = last (sort_key k xs)" using assms by (auto simp: last_by_def split: if_splits)
  moreover from this have "sort_key k xs \<noteq> []" by (metis length_0_conv length_sort)
  ultimately show ?thesis using last_in_set [of "sort_key k xs"] by simp
qed

lemma newest_per_subset: "set (newest_per key rank xs) \<subseteq> set xs"
  by (fastforce simp: newest_per_def map_filter_def dest: last_by_in)

lemma public_observations_public: "x \<in> set (public_observations a ct user) \<Longrightarrow> is_public a (uo_raw_payload_id (fst x))"
  by (auto simp: public_observations_def map_filter_def split: if_splits)

lemma view_shows_public:
  assumes "player_profile a ct provider username scope = Some v" "shows_payload v raw"
  shows "is_public a raw"
proof -
  obtain p where v: "v = view_of a ct scope p"
    using assms(1) by (auto simp: player_profile_def Let_def split: option.splits if_splits)
  have "is_public a (uo_raw_payload_id (fst x))" if "vw_profile v = Some x \<or> vw_statistics v = Some x" for x
    using that by (auto simp: v view_of_def Let_def newest_snapshot_def dest!: last_by_in public_observations_public)
  moreover have "is_public a (uo_raw_payload_id (snd x))" if "x \<in> set (vw_ratings v)" for x
    using that newest_per_subset by (fastforce simp: v view_of_def Let_def public_ratings_def)
  moreover have "is_public a r" if "al \<in> set (vw_aliases v)" "al_raw_payload_id al = Some r" for al r
    using that by (auto simp: v view_of_def Let_def public_aliases_def)
  ultimately show ?thesis using assms(2) unfolding shows_payload_def by blast
qed

text \<open>
  C17. A Lichess profile that carries the relationships of the fetching account is never shown. Its normalizer raises,
  keeps the stored bytes and every other payload as they are and changes no player, and afterwards no view of
  any player rests on the payload.
\<close>

theorem relationships_never_shown:
  assumes "read_stored e raw s = (Inr (w, body), s1)" "rw_provider w = ''lichess''" "rw_endpoint_type w = ''user_profile''"
    "ne_loads e body = Inr v" "account_relative v" "normalize_user_payload e raw prefer log_id s = (r, s')"
  shows "isl r \<and> si_catalog s' = si_catalog s \<and> si_objects s' = si_objects s
    \<and> map (\<lambda>x. x\<lparr>rw_owner_scope := []\<rparr>) (ar_raw (si_arch s')) = map (\<lambda>x. x\<lparr>rw_owner_scope := []\<rparr>) (ar_raw (si_arch s))
    \<and> filter (\<lambda>x. rw_id x \<noteq> raw) (ar_raw (si_arch s')) = filter (\<lambda>x. rw_id x \<noteq> raw) (ar_raw (si_arch s))
    \<and> (\<forall>ct provider username scope view. player_profile (si_arch s') ct provider username scope = Some view \<longrightarrow> \<not> shows_payload view raw)"
proof -
  have keep: "si_catalog s1 = si_catalog s" "si_arch s1 = si_arch s" "si_objects s1 = si_objects s"
    using read_stored_kept(2,3) [of e raw s] read_stored_catalog [of e raw s] assms(1) by simp_all
  have s': "s' = on_arch (quarantine_unowned_profile raw) s1" "isl r"
    using assms by (auto simp: normalize_user_payload_def andthen_def ask_site_def tx_def raise_def split: prod.splits)
  have rows: "map (\<lambda>x. x\<lparr>rw_owner_scope := []\<rparr>) (update_where q (\<lambda>x. x\<lparr>rw_owner_scope := t\<rparr>) ws) = map (\<lambda>x. x\<lparr>rw_owner_scope := []\<rparr>) ws"
    for q t and ws :: "raw_row list" by (simp add: update_where_def)
  have others: "filter (\<lambda>x. rw_id x \<noteq> raw) (update_where (\<lambda>x. rw_id x = raw \<and> q x) (\<lambda>x. x\<lparr>rw_owner_scope := t\<rparr>) ws) = filter (\<lambda>x. rw_id x \<noteq> raw) ws"
    for q t and ws :: "raw_row list" by (induction ws) (auto simp: update_where_def)
  have arch: "si_arch s' = quarantine_unowned_profile raw (si_arch s)" by (simp add: s' on_arch_def keep)
  have cat: "si_catalog s' = si_catalog s" "si_objects s' = si_objects s" using keep by (simp_all add: s' on_arch_def)
  have hidden: "\<not> shows_payload view raw" if "player_profile (si_arch s') ct provider username scope = Some view" for ct provider username scope view
    using view_shows_public [OF that] quarantined_not_public [of raw "si_arch s"] arch by auto
  show ?thesis
    using s'(2) cat hidden
    by (auto simp: arch quarantine_unowned_profile_def move_scope_def rows others)
qed

definition relation_env :: "unit norm_env" where
  "relation_env = sample_norm_env\<lparr>ne_loads := (\<lambda>_. Inr (JObj [(''username'', JStr ''ann''), (''following'', JBool False)]))\<rparr>"

definition relation_site :: site where
  "relation_site = payload_site\<lparr>si_arch := sample_arch\<lparr>ar_raw := [sample_payload\<lparr>rw_body_hash := digest plain_codec [],
     rw_provider := ''lichess'', rw_endpoint_type := ''user_profile'', rw_owner_scope := ''public''\<rparr>]\<rparr>\<rparr>"

theorem relationships_never_shown_witness:
  "case normalize_user_payload relation_env 1 False None relation_site of
     (Inl _, s) \<Rightarrow> si_catalog s = si_catalog relation_site \<and> map rw_owner_scope (ar_raw (si_arch s)) = [''unassigned:legacy-profile'']
   | (Inr _, _) \<Rightarrow> False"
proof -
  have "case read_stored relation_env 1 relation_site of
      (Inr (w, body), s) \<Rightarrow> rw_provider w = ''lichess'' \<and> rw_endpoint_type w = ''user_profile'' | (Inl _, _) \<Rightarrow> False" by code_simp
  then obtain w body s1 where read: "read_stored relation_env 1 relation_site = (Inr (w, body), s1)" "rw_provider w = ''lichess''"
      "rw_endpoint_type w = ''user_profile''"
    by (auto split: prod.splits sum.splits)
  have doc: "ne_loads relation_env body = Inr (JObj [(''username'', JStr ''ann''), (''following'', JBool False)])"
    "account_relative (JObj [(''username'', JStr ''ann''), (''following'', JBool False)])"
    by (simp_all add: relation_env_def account_relative_def has_key_def)
  have scope: "map rw_owner_scope (ar_raw (si_arch (snd (normalize_user_payload relation_env 1 False None relation_site)))) = [''unassigned:legacy-profile'']"
    by code_simp
  obtain r s where run: "normalize_user_payload relation_env 1 False None relation_site = (r, s)" by force
  show ?thesis
    using relationships_never_shown [OF read doc run] scope by (cases r) (simp_all add: run)
qed

section \<open>Rating history\<close>

lemma set_points_of: "y \<in> set (points_of xs) \<longleftrightarrow> Inr y \<in> set xs"
  by (induction xs rule: points_of.induct) auto

lemma split_lengths: "length (points_of xs) + length (issues_of xs) = length xs"
  by (induction xs rule: points_of.induct) auto

lemma points_of_append: "points_of (xs @ ys) = points_of xs @ points_of ys"
  by (induction xs rule: points_of.induct) auto

text \<open>An element of a rating history: four integers with a valid date, in a named list of points.\<close>

definition history_element :: "json list \<Rightarrow> nat \<Rightarrow> nat \<Rightarrow> history_point option" where
  "history_element perfs i k = (if i < length perfs then Option.bind (perf_points (perfs ! i)) (\<lambda>(name, ps).
     if k < length ps then Option.bind (point_numbers (ps ! k)) (\<lambda>(y, m, d, r). if valid_date y (m + 1) d
       then Some \<lparr>hp_perf_index = i, hp_point_index = k, hp_performance = name, hp_rating_date = (y, m + 1, d), hp_rating = r,
         hp_source_pointer = point_pointer i k\<rparr> else None) else None) else None)"

lemma read_point_Inr: "read_point i name k v = Inr p \<longleftrightarrow> (\<exists>y m d r. point_numbers v = Some (y, m, d, r) \<and> valid_date y (m + 1) d
    \<and> p = \<lparr>hp_perf_index = i, hp_point_index = k, hp_performance = name, hp_rating_date = (y, m + 1, d), hp_rating = r,
      hp_source_pointer = point_pointer i k\<rparr>)"
  by (auto simp: read_point_def split: option.splits)

lemma mem_enumerated: "x \<in> set (map (\<lambda>(i, v). f i v) (enumerate 0 xs)) \<longleftrightarrow> (\<exists>i < length xs. x = f i (xs ! i))"
  by (auto simp: in_set_enumerate_eq image_iff intro!: bexI [where x = "(i, xs ! i)" for i])

lemma read_perf_Inr: "Inr p \<in> set (read_perf i v) \<longleftrightarrow> (\<exists>name ps k. perf_points v = Some (name, ps) \<and> k < length ps \<and> Inr p = read_point i name k (ps ! k))"
proof (cases "perf_points v")
  case (Some np)
  obtain name ps where np: "np = (name, ps)" by force
  show ?thesis unfolding read_perf_def Some np option.case prod.case mem_enumerated by auto
qed (simp add: read_perf_def)

lemma history_element_eq:
  "history_element perfs i k = Some p \<longleftrightarrow> i < length perfs \<and> (\<exists>name ps. perf_points (perfs ! i) = Some (name, ps) \<and> k < length ps
     \<and> read_point i name k (ps ! k) = Inr p)"
proof (cases "i < length perfs")
  case True
  show ?thesis
  proof (cases "perf_points (perfs ! i)")
    case (Some np)
    obtain name ps where np: "np = (name, ps)" by force
    show ?thesis
      by (cases "point_numbers (ps ! k)") (auto simp: history_element_def read_point_def True Some np split: if_splits)
  qed (simp add: history_element_def)
qed (simp add: history_element_def)

lemma read_history_Inr:
  "Inr p \<in> set (concat (map (\<lambda>(i, v). read_perf i v) (enumerate 0 perfs))) \<longleftrightarrow> (\<exists>i k. history_element perfs i k = Some p)"
proof -
  have "Inr p \<in> set (concat (map (\<lambda>(i, v). read_perf i v) (enumerate 0 perfs)))
      \<longleftrightarrow> (\<exists>rs. rs \<in> set (map (\<lambda>(i, v). read_perf i v) (enumerate 0 perfs)) \<and> Inr p \<in> set rs)" by auto
  also have "\<dots> \<longleftrightarrow> (\<exists>i < length perfs. Inr p \<in> set (read_perf i (perfs ! i)))" unfolding mem_enumerated by blast
  also have "\<dots> \<longleftrightarrow> (\<exists>i k. history_element perfs i k = Some p)"
    unfolding read_perf_Inr history_element_eq by (metis (no_types))
  finally show ?thesis .
qed

lemma points_indexed:
  assumes "\<And>k p. k < length rs \<Longrightarrow> rs ! k = Inr p \<Longrightarrow> g p = n + k"
  shows "distinct (map g (points_of rs)) \<and> (\<forall>p \<in> set (points_of rs). n \<le> g p)"
  using assms
proof (induction rs arbitrary: n)
  case (Cons r rs)
  have "distinct (map g (points_of rs)) \<and> (\<forall>p \<in> set (points_of rs). Suc n \<le> g p)"
  proof (rule Cons.IH)
    fix k p
    assume "k < length rs" "rs ! k = Inr p"
    then show "g p = Suc n + k" using Cons.prems [of "Suc k" p] by simp
  qed
  then show ?case using Cons.prems [of 0] by (cases r) auto
qed simp

lemma read_perf_indices:
  "distinct (map hp_point_index (points_of (read_perf i v)))" "p \<in> set (points_of (read_perf i v)) \<Longrightarrow> hp_perf_index p = i"
proof -
  show "distinct (map hp_point_index (points_of (read_perf i v)))"
  proof (cases "perf_points v")
    case (Some np)
    obtain name ps where np: "np = (name, ps)" by force
    have "hp_point_index p = 0 + k" if "k < length (read_perf i v)" "read_perf i v ! k = Inr p" for k p
      using that by (auto simp: read_perf_def Some np nth_enumerate_eq read_point_Inr)
    then show ?thesis using points_indexed [of "read_perf i v" hp_point_index 0] by blast
  qed (simp add: read_perf_def)
  show "hp_perf_index p = i" if "p \<in> set (points_of (read_perf i v))"
    using that by (auto simp: set_points_of read_perf_Inr dest!: sym [of "Inr p"] simp: read_point_Inr)
qed

lemma history_indices:
  "distinct (map (\<lambda>p. (hp_perf_index p, hp_point_index p)) (points_of (concat (map (\<lambda>(i, v). read_perf i v) (enumerate n perfs)))))
   \<and> (\<forall>p \<in> set (points_of (concat (map (\<lambda>(i, v). read_perf i v) (enumerate n perfs)))). n \<le> hp_perf_index p)"
proof (induction perfs arbitrary: n)
  case (Cons v perfs)
  have "distinct (map (\<lambda>p. (hp_perf_index p, hp_point_index p)) (points_of (read_perf n v)))"
    using read_perf_indices(1) [of n v] by (auto simp: distinct_map inj_on_def)
  moreover have here: "hp_perf_index p = n" if "p \<in> set (points_of (read_perf n v))" for p using read_perf_indices(2) [OF that] .
  moreover have later: "n < hp_perf_index p"
    if "p \<in> set (points_of (concat (map (\<lambda>(i, v). read_perf i v) (enumerate (Suc n) perfs))))" for p
    using Cons.IH [of "Suc n"] that by auto
  ultimately show ?case
    using Cons.IH [of "Suc n"] by (auto simp: points_of_append dest: here later)
qed simp

lemma history_length:
  "length (concat (map (\<lambda>(i, v). read_perf i v) (enumerate n perfs)))
   = sum_list (map (\<lambda>v. case perf_points v of None \<Rightarrow> 1 | Some (_, ps) \<Rightarrow> length ps) perfs)"
  by (induction perfs arbitrary: n) (auto simp: read_perf_def split: option.splits)

lemma first_error_Inr: "first_error rs = Inr () \<longleftrightarrow> (\<forall>r \<in> set rs. r = Inr ())"
  by (induction rs) (auto simp: rbind_def split: sum.splits)

lemma first_error_Inl: "first_error rs = Inl x \<Longrightarrow> Inl x \<in> set rs"
  by (induction rs) (auto simp: rbind_def split: sum.splits)

definition fits_c_int :: "int \<Rightarrow> bool" where
  "fits_c_int n \<longleftrightarrow> - (2 ^ 31) \<le> n \<and> n < 2 ^ 31"

lemma c_int_Inr: "c_int n = Inr () \<longleftrightarrow> fits_c_int n"
  by (simp add: c_int_def fits_c_int_def)

lemma date_arguments_Inr: "date_arguments (y, m, d, r) = Inr () \<longleftrightarrow> fits_c_int y \<and> fits_c_int (m + 1) \<and> fits_c_int d"
  unfolding c_int_Inr [symmetric] by (auto simp: date_arguments_def rbind_def split: sum.splits)

lemma c_int_Inl: "c_int n = Inl x \<Longrightarrow> \<exists>msg. x = OverflowError msg"
  by (auto simp: c_int_def split: if_splits)

lemma date_arguments_Inl: "date_arguments p = Inl x \<Longrightarrow> \<exists>msg. x = OverflowError msg"
  by (auto simp: date_arguments_def rbind_def split: sum.splits prod.splits dest: c_int_Inl)

lemma history_numbers_fit:
  "first_error (map date_arguments (history_numbers perfs)) = Inr ()
   \<longleftrightarrow> (\<forall>(y, m, d, r) \<in> set (history_numbers perfs). fits_c_int y \<and> fits_c_int (m + 1) \<and> fits_c_int d)"
proof -
  have "first_error (map date_arguments (history_numbers perfs)) = Inr () \<longleftrightarrow> (\<forall>p \<in> set (history_numbers perfs). date_arguments p = Inr ())"
    by (simp add: first_error_Inr)
  also have "\<dots> \<longleftrightarrow> (\<forall>y m d r. (y, m, d, r) \<in> set (history_numbers perfs) \<longrightarrow> date_arguments (y, m, d, r) = Inr ())"
    by (metis prod_cases4)
  finally show ?thesis unfolding date_arguments_Inr by blast
qed

text \<open>
  C18. The rating history is read exactly: the points are the elements with four integers and a valid date, each with the pointer to its
  element, no element gives two points, and every performance without a list of points and every other element is
  counted as an issue. The reading raises exactly when a date has a number that is no C integer, and then an
  \<open>OverflowError\<close>: such an element is not counted as an issue.
\<close>

theorem rating_history_exact:
  "(case rating_points (JList perfs) of
     Inr (points, issues) \<Rightarrow>
       set points = {p. \<exists>i k. history_element perfs i k = Some p}
       \<and> distinct (map (\<lambda>p. (hp_perf_index p, hp_point_index p)) points)
       \<and> length points + length issues = sum_list (map (\<lambda>v. case perf_points v of None \<Rightarrow> 1 | Some (_, ps) \<Rightarrow> length ps) perfs)
   | Inl x \<Rightarrow> (\<exists>msg. x = OverflowError msg))
   \<and> isl (rating_points (JList perfs)) = list_ex (\<lambda>(y, m, d, r). \<not> (fits_c_int y \<and> fits_c_int (m + 1) \<and> fits_c_int d)) (history_numbers perfs)"
proof (cases "first_error (map date_arguments (history_numbers perfs))")
  case (Inl x)
  then have "\<exists>msg. x = OverflowError msg" using first_error_Inl [OF Inl] date_arguments_Inl by (metis (no_types) ex_map_conv)
  moreover have "list_ex (\<lambda>(y, m, d, r). \<not> (fits_c_int y \<and> fits_c_int (m + 1) \<and> fits_c_int d)) (history_numbers perfs)"
    using history_numbers_fit [of perfs] Inl by (auto simp: list_ex_iff)
  ultimately show ?thesis by (simp add: rating_points_def Inl)
next
  case (Inr u)
  define rs where "rs = concat (map (\<lambda>(i, v). read_perf i v) (enumerate 0 perfs))"
  have "set (points_of rs) = {p. \<exists>i k. history_element perfs i k = Some p}"
    unfolding set_eq_iff set_points_of rs_def mem_Collect_eq read_history_Inr by blast
  moreover have "\<not> list_ex (\<lambda>(y, m, d, r). \<not> (fits_c_int y \<and> fits_c_int (m + 1) \<and> fits_c_int d)) (history_numbers perfs)"
    using history_numbers_fit [of perfs] Inr by (auto simp: list_ex_iff)
  ultimately show ?thesis
    using history_indices [of 0 perfs] split_lengths [of rs] history_length [of 0 perfs] by (simp add: rating_points_def rs_def Let_def Inr)
qed

end
