(* ===== verification/Runner.thy ===== *)
theory Runner
  imports Discovery Upgrades Claim Resources
begin

text \<open>
  The job runner, jobs/runner.py: the handler of each kind of job, the mapping of exceptions to outcomes, the
  callbacks of the provider session, one attempt with its cleanup, and the loop that claims jobs. The runner's
  state is a \<open>station\<close>: the site, the upgrade rows, the executor lease and the open request reservation. The calls of
  the provider session, the handlers of archive jobs (\<open>handler_for\<close>), an injected game
  fetcher and what the rest of the system does while the runner sleeps are fields of the environment.
\<close>

section \<open>Environment and state\<close>

record 'v runner_env =
  re_ingest :: ingest_env
  re_norm :: "'v norm_env"
  re_canonical :: "json \<Rightarrow> string"
  re_policy :: budget_policy
  re_worker :: "worker_settings option"
  re_min_delay :: "string \<Rightarrow> rat"
  re_fetch_policy :: "string \<Rightarrow> fetch_policy"
  re_stop :: "nat \<Rightarrow> bool"
  re_handler :: "string \<Rightarrow> (job \<Rightarrow> (nat \<Rightarrow> bool) \<Rightarrow> execution_outcome act) option"
  re_game_fetcher :: "(string \<Rightarrow> string \<Rightarrow> pars \<Rightarrow> int option \<Rightarrow> ingest_result act) option"
  re_digest8 :: "string \<Rightarrow> int"
  re_stage :: string
  re_worker_id :: string
  re_token :: "nat \<Rightarrow> string"
  re_wait :: "rat \<Rightarrow> site \<Rightarrow> site"
  re_ask_profile :: "string \<Rightarrow> string \<Rightarrow> conditional_ask"
  re_ask_stats :: "string \<Rightarrow> conditional_ask"
  re_ask_resource :: "string \<Rightarrow> string \<Rightarrow> string \<Rightarrow> pars \<Rightarrow> string \<Rightarrow> conditional_ask"
  re_ask_archives :: "string \<Rightarrow> conditional_ask"
  re_ask_month :: "string \<Rightarrow> int \<Rightarrow> int \<Rightarrow> conditional_ask"
  re_ask_game :: "string \<Rightarrow> capture act"
  re_ask_page :: "string \<Rightarrow> int option \<Rightarrow> int \<Rightarrow> int \<Rightarrow> capture act"
  re_ask_games :: "string \<Rightarrow> json \<Rightarrow> json \<Rightarrow> int \<Rightarrow> capture act"

record station =
  sn_site :: site
  sn_upgrades :: "upgrade list"
  sn_lease :: lease
  sn_reservation :: "int option"

type_synonym 'a step = "station \<Rightarrow> 'a result \<times> station"

definition on_site :: "'a act \<Rightarrow> 'a step" where
  "on_site m st = (case m (sn_site st) of (r, s) \<Rightarrow> (r, st\<lparr>sn_site := s\<rparr>))"

text \<open>\<open>with transaction(conn)\<close> around a change of the tables: the ownership checks come first, and a failure changes nothing.\<close>

definition writing :: "(conn \<Rightarrow> db \<Rightarrow> (db \<times> 'a) result) \<Rightarrow> 'a act" where
  "writing f = tx (\<lambda>s. rbind (atomic (si_conn s) (si_db s) (f (si_conn s))) (\<lambda>(d, x). Inr (s\<lparr>si_db := d\<rparr>, x)))"

definition on_conn :: "(conn \<Rightarrow> conn) \<Rightarrow> site \<Rightarrow> site" where
  "on_conn f s = s\<lparr>si_conn := f (si_conn s)\<rparr>"

text \<open>\<open>lambda: self.stop_requested() or self._cancelled(job)\<close>, with the run's status of the moment the handler starts.\<close>

definition stop_of :: "'v runner_env \<Rightarrow> job \<Rightarrow> site \<Rightarrow> nat \<Rightarrow> bool" where
  "stop_of e j s n \<longleftrightarrow> re_stop e n \<or> cancelled j s"

text \<open>Replays pass the stop flag to the normalizer of games; fetches do not.\<close>

definition games_of :: "'v runner_env \<Rightarrow> (nat \<Rightarrow> bool) option \<Rightarrow> normalizer" where
  "games_of e stop = games_normalizer ((re_norm e)\<lparr>ne_stop := stop\<rparr>)"

definition accounts_of :: "'v runner_env \<Rightarrow> accounts" where
  "accounts_of e = catalog_accounts (ne_adapter (re_norm e)) (ne_sha (re_norm e))"

section \<open>Handlers\<close>

text \<open>An optional number that the queue wrote into the parameters.\<close>

definition queued_int :: "json \<Rightarrow> int option result" where
  "queued_int v = (case v of JNull \<Rightarrow> Inr None | JInt i \<Rightarrow> Inr (Some i) | _ \<Rightarrow> Inl (TypeError ''an integer is required''))"

definition from_ingest :: "ingest_result act \<Rightarrow> execution_outcome act" where
  "from_ingest m = andthen m (\<lambda>r. ret (outcome_from_ingest r))"

definition params_of :: "job \<Rightarrow> pars act" where
  "params_of j = ask_site (\<lambda>_. load_params (j_params_json j))"

definition provider_of :: "job \<Rightarrow> string act" where
  "provider_of j = ask_site (\<lambda>_. source_provider j)"

definition replay :: "'v runner_env \<Rightarrow> (nat \<Rightarrow> bool) \<Rightarrow> int \<Rightarrow> int option \<Rightarrow> int option \<Rightarrow> int option \<Rightarrow> string option \<Rightarrow> ingest_result act" where
  "replay e stop = replay_raw_payload (users_normalizer (re_norm e) True) (resources_normalizer (re_norm e) True) (games_of e (Some stop))"

definition normalize_payload_job :: "'v runner_env \<Rightarrow> job \<Rightarrow> execution_outcome act" where
  "normalize_payload_job e j s = andthen (params_of j) (\<lambda>params.
     andthen (ask_site (\<lambda>_. py_int (coalesce (map_of params ''raw_payload_id'') (JStr (j_target j))))) (\<lambda>raw.
     andthen (ask_site (\<lambda>_. queued_int (obj_get params ''max_games''))) (\<lambda>max_games.
     andthen (ask_site (\<lambda>_. queued_int (obj_get params ''fetch_log_id''))) (\<lambda>log_id.
     let version = (case obj_get params ''parser_version'' of JNull \<Rightarrow> None | v \<Rightarrow> Some (py_str v)) in
     from_ingest (replay e (stop_of e j s) raw (j_crawl_run_id j) max_games log_id version))))) s"

definition expand_opponents :: "'v runner_env \<Rightarrow> job \<Rightarrow> int option \<Rightarrow> execution_outcome act" where
  "expand_opponents e j depth = andthen
     (case j_crawl_run_id j of
        None \<Rightarrow> ret j
      | Some run \<Rightarrow> andthen (provider_of j) (\<lambda>provider.
          see (\<lambda>s. j\<lparr>j_depth := min (coalesce depth (j_depth j))
            (coalesce (known_crawl_depth (si_db s) run provider (j_target j)) (j_depth j))\<rparr>))) (\<lambda>j'.
     andthen (expand_opponent_frontier (ne_sha (re_norm e)) (ne_adapter (re_norm e)) j') (\<lambda>msg.
     ret (outcome ''done'' msg)))"

definition expand_opponents_job :: "'v runner_env \<Rightarrow> job \<Rightarrow> execution_outcome act" where
  "expand_opponents_job e j = andthen (ask_site (\<lambda>_. py_int (JStr (j_target j)))) (\<lambda>i.
     andthen (see (\<lambda>s. get_job (si_db s) i)) (\<lambda>p. case p of
       None \<Rightarrow> raise (ValueError ''Opponent expansion requires its acquisition parent'')
     | Some parent \<Rightarrow>
         if j_kind parent \<noteq> ''crawl_opponents'' \<or> j_crawl_run_id parent \<noteq> j_crawl_run_id j
         then raise (ValueError ''Opponent expansion requires its acquisition parent'')
         else if j_state parent = Error \<or> j_state parent = Skipped
         then ret (outcome ''skipped'' (''Acquisition parent finished '' @ state_name (j_state parent) @ ''; frontier retired''))
         else expand_opponents e parent (Some (j_depth j))))"

definition resource_parameters_of :: "pars \<Rightarrow> pars result" where
  "resource_parameters_of params = (case obj_get params ''parameters'' of
       JNull \<Rightarrow> Inr [] | JObj kvs \<Rightarrow> Inr kvs | _ \<Rightarrow> Inl (TypeError ''resource parameters must be an object''))"

definition user_resource_job :: "'v runner_env \<Rightarrow> job \<Rightarrow> execution_outcome act" where
  "user_resource_job e j = andthen (params_of j) (\<lambda>params. andthen (provider_of j) (\<lambda>provider.
     andthen (ask_site (\<lambda>_. case map_of params ''resource_key'' of None \<Rightarrow> Inl (KeyError ''resource_key'') | Some v \<Rightarrow> Inr (py_str v))) (\<lambda>key.
     andthen (ask_site (\<lambda>_. resource_parameters_of params)) (\<lambda>parameters.
     let scope = py_str (coalesce (map_of params ''owner_scope'') (JStr ''public'')) in
     from_ingest (fetch_user_resource (re_ingest e) (re_canonical e) (accounts_of e) (resources_normalizer (re_norm e) False)
       (re_ask_resource e provider (j_target j) key parameters scope) provider (j_target j) key parameters scope
       (Some (j_id j)) (j_crawl_run_id j))))))"

definition user_profile_job :: "'v runner_env \<Rightarrow> job \<Rightarrow> execution_outcome act" where
  "user_profile_job e j = andthen (provider_of j) (\<lambda>provider.
     from_ingest (fetch_user_profile (re_ingest e) (accounts_of e) (users_normalizer (re_norm e) False) (re_ask_profile e provider (j_target j)) provider (j_target j)
       (Some (j_id j)) (j_crawl_run_id j)))"

definition unsupported_fetch :: "string \<Rightarrow> string \<Rightarrow> string \<Rightarrow> ingest_result" where
  "unsupported_fetch provider endpoint msg = \<lparr>ir_provider = provider, ir_endpoint_type = endpoint, ir_status_code = 400,
     ir_raw_payload_id = None, ir_normalized_ids = [], ir_message = msg, ir_retry_after = None\<rparr>"

definition fetch_stats :: "'v runner_env \<Rightarrow> job \<Rightarrow> ingest_result act" where
  "fetch_stats e j = andthen (provider_of j) (\<lambda>provider.
     if provider = ''chess.com''
     then fetch_chesscom_stats (re_ingest e) (accounts_of e) (users_normalizer (re_norm e) False) (re_ask_stats e (j_target j)) (j_target j) (Some (j_id j)) (j_crawl_run_id j)
     else ret (unsupported_fetch provider ''user_stats'' ''fetch_user_stats is supported only for chess.com''))"

definition fetch_game_by_id :: "'v runner_env \<Rightarrow> job \<Rightarrow> ingest_result act" where
  "fetch_game_by_id e j = andthen (provider_of j) (\<lambda>provider.
     if provider \<noteq> ''lichess''
     then ret (unsupported_fetch provider ''game''
       ''fetch_game_by_id is supported only for lichess; Chess.com games require monthly archives'')
     else fetch_lichess_game (re_ingest e) (accounts_of e) (games_of e None) (re_ask_game e (j_target j)) (j_target j)
       (Some (j_id j)) (j_crawl_run_id j))"

text \<open>The environments of the two collections, for the job's user.\<close>

definition bounded_env_of :: "'v runner_env \<Rightarrow> job \<Rightarrow> bounded_env" where
  "bounded_env_of e j = \<lparr>be_ingest = re_ingest e, be_accounts = accounts_of e, be_games = games_of e None,
     be_ask_month = re_ask_month e (j_target j), be_ask_games = re_ask_games e (j_target j)\<rparr>"

definition coll_env_of :: "'v runner_env \<Rightarrow> job \<Rightarrow> site \<Rightarrow> coll_env" where
  "coll_env_of e j s = \<lparr>ce_ingest = re_ingest e, ce_accounts = accounts_of e, ce_games = games_of e None,
     ce_loads = ne_loads (re_norm e), ce_stop = stop_of e j s, ce_ask_archives = re_ask_archives e (j_target j),
     ce_ask_month = re_ask_month e (j_target j), ce_ask_game = re_ask_game e, ce_ask_page = re_ask_page e (j_target j)\<rparr>"

definition run_collection :: "'v runner_env \<Rightarrow> job \<Rightarrow> pars \<Rightarrow> collection_result act" where
  "run_collection e j params s =
     (if coalesce (map_of params ''collection_mode'') (JStr ''bounded'') = JStr ''bounded''
      then andthen (halted (re_stop e) j) (execute_bounded_acquisition (bounded_env_of e j) j params)
      else execute_collection (coll_env_of e j s) j params (now_of s) (trunc_rat (cn_clock (si_conn s) * 1000))) s"

definition collected_outcome :: "string \<Rightarrow> collection_result \<Rightarrow> execution_outcome" where
  "collected_outcome provider c =
     (if \<not> ok_status (cr_status_code c)
      then outcome_from_ingest \<lparr>ir_provider = provider, ir_endpoint_type = ''collection'', ir_status_code = cr_status_code c,
        ir_raw_payload_id = None, ir_normalized_ids = cr_normalized_ids c, ir_message = cr_message c, ir_retry_after = cr_retry_after c\<rparr>
      else outcome (if cr_done c then ''done'' else ''pending'') (cr_message c))"

text \<open>The games of an injected fetcher are attributed to the run in one transaction.\<close>

fun associate_each :: "game_row list \<Rightarrow> int \<Rightarrow> int list \<Rightarrow> db \<Rightarrow> db result" where
  "associate_each games run [] d = Inr d"
| "associate_each games run (g # gs) d = rbind (associate_run_game games run g d) (\<lambda>(d', _). associate_each games run gs d')"

definition collect_injected :: "(string \<Rightarrow> string \<Rightarrow> pars \<Rightarrow> int option \<Rightarrow> ingest_result act) \<Rightarrow> job \<Rightarrow> pars \<Rightarrow> execution_outcome act" where
  "collect_injected fetch j params = andthen (provider_of j) (\<lambda>provider.
     andthen (ask_site (\<lambda>s. remaining_game_budget (si_conn s) (si_db s) (j_crawl_run_id j) params)) (\<lambda>left_over.
     if left_over = Some 0 then ret (outcome ''done'' ''max-games cap already reached'')
     else andthen (fetch provider (j_target j) params left_over) (\<lambda>r.
       andthen (case j_crawl_run_id j of
           None \<Rightarrow> ret ()
         | Some run \<Rightarrow> (\<lambda>s. writing (\<lambda>_ d. rbind (associate_each (game_rows (si_catalog s)) run (ir_normalized_ids r) d) (\<lambda>d'. Inr (d', ()))) s))
       (\<lambda>_. ret (outcome_from_ingest r)))))"

definition collect_user_games :: "'v runner_env \<Rightarrow> job \<Rightarrow> execution_outcome act" where
  "collect_user_games e j = andthen (params_of j) (\<lambda>params.
     andthen (see (\<lambda>s. processing_failure (si_db s) (j_id j))) (\<lambda>failure. case failure of
       Some msg \<Rightarrow> ret (outcome ''error'' msg)
     | None \<Rightarrow> (case re_game_fetcher e of
         Some fetch \<Rightarrow> collect_injected fetch j params
       | None \<Rightarrow> andthen (run_collection e j params) (\<lambda>c. andthen (provider_of j) (\<lambda>provider. ret (collected_outcome provider c))))))"

definition crawl_opponents :: "'v runner_env \<Rightarrow> job \<Rightarrow> execution_outcome act" where
  "crawl_opponents e j = (if j_crawl_run_id j = None then ret (outcome ''error'' ''crawl_opponents requires a persisted crawl run'')
     else andthen (collect_user_games e j) (\<lambda>out.
       if eo_state out \<noteq> ''done'' then ret out
       else andthen (see (cancelled j)) (\<lambda>c.
         if c then ret (outcome ''pending'' ''Crawl cancelled; acquisition retained'')
         else if re_game_fetcher e \<noteq> None then expand_opponents e j None
         else andthen (writing (\<lambda>c d. enqueue_opponent_expansion (ne_sha (re_norm e)) c j None d)) (\<lambda>_.
           ret (outcome ''done'' (''captured '' @ j_target j @ ''; opponent expansion queued''))))))"

section \<open>Dispatch and failures\<close>

definition reprocess_job :: "'v runner_env \<Rightarrow> job \<Rightarrow> execution_outcome step" where
  "reprocess_job e j st = (let s = sn_site st in
     case reprocess_archive (\<lambda>i. replay e (stop_of e j s) i None None None None) (re_stop e) j (now_of s) (sn_upgrades st) s of
       (r, ups, s') \<Rightarrow> (r, st\<lparr>sn_upgrades := ups, sn_site := s'\<rparr>))"

definition run_kind :: "'v runner_env \<Rightarrow> job \<Rightarrow> execution_outcome step" where
  "run_kind e j st = (let kind = j_kind j in case re_handler e kind of
       Some h \<Rightarrow> on_site (h j (stop_of e j (sn_site st))) st
     | None \<Rightarrow>
         if kind = ''normalize_payload'' then on_site (normalize_payload_job e j) st
         else if kind = ''reprocess_archive'' then reprocess_job e j st
         else if kind = ''expand_opponents'' then on_site (expand_opponents_job e j) st
         else if kind = ''fetch_user_resource'' then on_site (user_resource_job e j) st
         else if kind = ''fetch_user_profile'' then on_site (user_profile_job e j) st
         else if kind = ''fetch_user_stats'' then on_site (from_ingest (fetch_stats e j)) st
         else if kind = ''fetch_user_games'' then on_site (collect_user_games e j) st
         else if kind = ''fetch_game_by_id'' then on_site (from_ingest (fetch_game_by_id e j)) st
         else if kind = ''crawl_opponents'' then on_site (crawl_opponents e j) st
         else (Inr (outcome ''error'' (''unknown job kind: '' @ kind)), st))"

text \<open>The dimension an exception exhausts (\<open>QuotaExceeded\<close> is a \<open>BudgetExceeded\<close>), the reason of a stop, and \<open>str(exc)\<close> of the exceptions
  that reach the last clause.\<close>

fun exhausted_dimension :: "pyerr \<Rightarrow> string option" where
  "exhausted_dimension (BudgetExceeded x _ _ _) = Some x"
| "exhausted_dimension (QuotaExceeded x _ _ _) = Some x"
| "exhausted_dimension (ProviderResponseTooLarge _ _ _ _) = Some ''response_bytes''"
| "exhausted_dimension (ProviderResponseEncodingError _ _ _) = Some ''response_encoding''"
| "exhausted_dimension (ProviderResponseDeadlineExceeded _ _ _ _) = Some ''response_deadline''"
| "exhausted_dimension _ = None"

fun stop_reason :: "pyerr \<Rightarrow> string option" where
  "stop_reason (ProviderRequestStopped m) = Some m"
| "stop_reason (NormalizationStopped m) = Some m"
| "stop_reason _ = None"

fun storage_lost :: "pyerr \<Rightarrow> bool" where
  "storage_lost (DatabaseError _) = True"
| "storage_lost (ExecutorLeaseLost _) = True"
| "storage_lost _ = False"

fun str_exc :: "pyerr \<Rightarrow> string" where
  "str_exc (KeyError m) = py_repr (JStr m)"
| "str_exc (ValueError m) = m" | "str_exc (TypeError m) = m" | "str_exc (OverflowError m) = m"
| "str_exc (AttributeError m) = m" | "str_exc (RuntimeError m) = m" | "str_exc (ValidationError m _) = m"
| "str_exc (DatabaseError m) = m" | "str_exc (NotFound m _) = m" | "str_exc (Conflict m _) = m" | "str_exc (ExecutorLeaseLost m) = m"
| "str_exc (ExecutorBusy m) = m" | "str_exc (PolicyVersionConflict m) = m" | "str_exc (ProviderRequestStopped m) = m"
| "str_exc (OSError m) = m" | "str_exc (EvidencePreparationRequired m) = m" | "str_exc (NormalizationStopped m) = m"
| "str_exc (NetworkError m) = m" | "str_exc (ArchiveJobStopped m) = m"

fun network_failure :: "pyerr \<Rightarrow> bool" where
  "network_failure (NetworkError _) = True"
| "network_failure _ = False"

definition exhaust :: "string \<Rightarrow> unit act" where
  "exhaust x s = (case cn_work_budget_id (si_conn s) of
       None \<Rightarrow> (Inr (), s)
     | Some b \<Rightarrow> writing (\<lambda>c d. Inr (exhaust_budget c b x (Some (now_of s)) d, ())) s)"

text \<open>A failed upgrade keeps the message in its row.\<close>

definition note_failed_upgrade :: "job \<Rightarrow> string \<Rightarrow> unit step" where
  "note_failed_upgrade j msg st = (if j_kind j \<noteq> ''reprocess_archive'' then (Inr (), st)
     else (case rbind (load_params (j_params_json j)) (\<lambda>params. rbind (source_provider j) (\<lambda>provider.
         rbind (begin_write (si_conn (sn_site st)) False (si_db (sn_site st))) (\<lambda>_. Inr (params, provider)))) of
         Inl err \<Rightarrow> (Inl err, st)
       | Inr (params, provider) \<Rightarrow> (Inr (), st\<lparr>sn_upgrades := fail_upgrade
           (py_str (coalesce (map_of params ''upgrade_id'') (JStr (j_target j)))) (j_id j) provider
           (py_str (coalesce (map_of params ''owner_scope'') (JStr ''public''))) msg (now_of (sn_site st)) (sn_upgrades st)\<rparr>)))"

definition job_error :: "job \<Rightarrow> string \<Rightarrow> site \<Rightarrow> error_row" where
  "job_error j msg s = \<lparr>er_id = 0, er_provider = j_provider j, er_url = None, er_endpoint_type = None, er_error_kind = ''other'',
     er_status_code = None, er_message = msg, er_occurred_at = now_of s, er_retry_count = j_attempts j, er_is_dead = False\<rparr>"

definition record_failure :: "job \<Rightarrow> string \<Rightarrow> unit act" where
  "record_failure j msg = tx (\<lambda>s. rbind (begin_write (si_conn s) False (si_db s)) (\<lambda>_. Inr (fst (insert_error (job_error j msg s) s), ())))"

definition failed_outcome :: "job \<Rightarrow> pyerr \<Rightarrow> execution_outcome step" where
  "failed_outcome j err st = (case note_failed_upgrade j (str_exc err) st of
       (Inl err', st1) \<Rightarrow> (Inl err', st1)
     | (Inr _, st1) \<Rightarrow> on_site (andthen (record_failure j (str_exc err)) (\<lambda>_.
         ret ((outcome ''error'' (str_exc err))\<lparr>eo_transient := network_failure err\<rparr>))) st1)"

text \<open>The \<open>except\<close> clauses of \<open>_execute\<close>.\<close>

definition handle_failure :: "job \<Rightarrow> pyerr \<Rightarrow> execution_outcome step" where
  "handle_failure j err = (case exhausted_dimension err of
       Some x \<Rightarrow> on_site (andthen (exhaust x) (\<lambda>_. ret (outcome ''blocked'' (''budget_exhausted: '' @ x @ ''; requested work remains incomplete''))))
     | None \<Rightarrow> (case stop_reason err of
         Some m \<Rightarrow> (\<lambda>st. (Inr (outcome ''pending'' m), st))
       | None \<Rightarrow> if storage_lost err then (\<lambda>st. (Inl err, st)) else failed_outcome j err))"

definition deferring :: "'v runner_env \<Rightarrow> job \<Rightarrow> bool" where
  "deferring e j \<longleftrightarrow> j_kind j \<in> {''fetch_user_games'', ''fetch_game_by_id'', ''crawl_opponents''} \<and> re_game_fetcher e = None"

definition open_budget :: "'v runner_env \<Rightarrow> job \<Rightarrow> unit act" where
  "open_budget e j = andthen (writing (\<lambda>c d. ensure_job_budget c (j_id j) (re_policy e) (Some (trunc_rat (cn_clock c))) d)) (\<lambda>b s.
     (Inr (), on_conn (\<lambda>c. c\<lparr>cn_work_budget_id := Some b\<rparr>) s))"

definition guarded :: "'v runner_env \<Rightarrow> job \<Rightarrow> execution_outcome step" where
  "guarded e j st = (case on_site (open_budget e j) st of
       (Inl err, st1) \<Rightarrow> handle_failure j err st1
     | (Inr _, st1) \<Rightarrow> (case run_kind e j st1 of
           (Inl err, st2) \<Rightarrow> handle_failure j err st2
         | (Inr out, st2) \<Rightarrow> (Inr out, st2)))"

definition with_defer :: "bool \<Rightarrow> station \<Rightarrow> station" where
  "with_defer b st = st\<lparr>sn_site := on_conn (\<lambda>c. c\<lparr>cn_defer_normalization := b\<rparr>) (sn_site st)\<rparr>"

definition execute :: "'v runner_env \<Rightarrow> job \<Rightarrow> execution_outcome step" where
  "execute e j st = (let previous = cn_defer_normalization (si_conn (sn_site st)) in
     case guarded e j (if deferring e j then with_defer True st else st) of (r, st1) \<Rightarrow> (r, with_defer previous st1))"

section \<open>Callbacks of the provider session\<close>

text \<open>One poll of \<open>stop_requested\<close>.\<close>

definition poll :: "'v runner_env \<Rightarrow> station \<Rightarrow> bool \<times> station" where
  "poll e st = (re_stop e (si_polls (sn_site st)), st\<lparr>sn_site := (sn_site st)\<lparr>si_polls := si_polls (sn_site st) + 1\<rparr>\<rparr>)"

definition sleeping :: "'v runner_env \<Rightarrow> rat \<Rightarrow> station \<Rightarrow> station" where
  "sleeping e t st = st\<lparr>sn_site := re_wait e t (sn_site st)\<rparr>"

text \<open>The wait before a request, with a bound on its rounds; None when the rounds are used up.\<close>

fun before_provider_request :: "nat \<Rightarrow> 'v runner_env \<Rightarrow> string \<Rightarrow> station \<Rightarrow> (unit result \<times> station) option" where
  "before_provider_request 0 e provider st = None"
| "before_provider_request (Suc n) e provider st = (case poll e st of (stop, st1) \<Rightarrow>
     if stop then Some (Inl (ProviderRequestStopped ''Provider request stopped before acquisition''), st1)
     else (case begin_write (si_conn (sn_site st1)) False (si_db (sn_site st1)) of
         Inl err \<Rightarrow> Some (Inl err, st1)
       | Inr _ \<Rightarrow>
           let delay = coalesce (provider_ready_at (si_db (sn_site st1)) provider) 0 - cn_clock (si_conn (sn_site st1)) in
           if delay \<le> 0 then Some (Inr (), st1) else before_provider_request n e provider (sleeping e delay st1)))"

definition persist_provider_deadline :: "'v runner_env \<Rightarrow> string \<Rightarrow> rat \<Rightarrow> string \<Rightarrow> unit step" where
  "persist_provider_deadline e provider deadline reason = on_site (writing (\<lambda>c d.
     Inr (defer_provider c provider (max deadline (cn_clock c + re_min_delay e provider)) reason (Some (cn_clock c)) d, ())))"

definition reserve_provider_request :: "int step" where
  "reserve_provider_request st = (let c = si_conn (sn_site st) in case cn_work_budget_id c of
       None \<Rightarrow> (Inl (RuntimeError ''Provider acquisition has no durable work budget''), st)
     | Some b \<Rightarrow>
         if sn_reservation st \<noteq> None then (Inl (RuntimeError ''Previous request reservation is unsettled''), st)
         else (case on_site (andthen (if cn_defer_normalization c then writing (\<lambda>c d. rbind (require_backlog_room c b d) (\<lambda>d'. Inr (d', ()))) else ret ()) (\<lambda>_.
             writing (\<lambda>c d. Budgets.reserve_request c b (Some (trunc_rat (cn_clock c))) d))) st of
           (Inl err, st1) \<Rightarrow> (Inl err, st1)
         | (Inr (i, limit), st1) \<Rightarrow> (Inr limit, st1\<lparr>sn_reservation := Some i,
             sn_site := on_conn (\<lambda>c. c\<lparr>cn_work_payload_read_credits := cn_work_payload_read_credits c + 1\<rparr>) (sn_site st1)\<rparr>)))"

definition finish_provider_request :: "int \<Rightarrow> unit step" where
  "finish_provider_request received st = (case sn_reservation st of
       None \<Rightarrow> (Inl (RuntimeError ''Provider response has no reserved work''), st)
     | Some i \<Rightarrow> (case on_site (writing (\<lambda>c d. rbind (settle_request i received d) (\<lambda>d'. Inr (d', ())))) st of
         (Inl err, st1) \<Rightarrow> (Inl err, st1)
       | (Inr _, st1) \<Rightarrow> (Inr (), st1\<lparr>sn_reservation := None\<rparr>)))"

section \<open>One attempt\<close>

definition require_lease :: "unit step" where
  "require_lease st = (case lease_require (sn_lease st) (si_conn (sn_site st)) ''worker'' (si_db (sn_site st)) of
     (l, r) \<Rightarrow> (r, st\<lparr>sn_lease := l\<rparr>))"

definition step_then :: "'a step \<Rightarrow> ('a \<Rightarrow> 'b step) \<Rightarrow> 'b step" where
  "step_then m f st = (case m st of (Inl err, st1) \<Rightarrow> (Inl err, st1) | (Inr x, st1) \<Rightarrow> f x st1)"

definition job_state_of :: "string \<Rightarrow> job_state result" where
  "job_state_of name = (case find_row (\<lambda>x. state_name x = name) [Pending, In_progress, Done, Error, Skipped, Blocked] of
       Some x \<Rightarrow> Inr x | None \<Rightarrow> Inl (DatabaseError ''discovery_jobs_state_check''))"

definition minimum_delay :: "'v runner_env \<Rightarrow> job \<Rightarrow> execution_outcome \<Rightarrow> rat result" where
  "minimum_delay e j out =
     rbind (if processing_kind (j_kind j) then Inr 0 else rbind (source_provider j) (\<lambda>p. Inr (re_min_delay e p))) (\<lambda>base.
     if eo_status_code out = Some 429
     then rbind (source_provider j) (\<lambda>p. Inr (max base (next_delay (re_fetch_policy e p) 429 (eo_retry_after out)))) else Inr base)"

definition finish_job :: "'v runner_env \<Rightarrow> job \<Rightarrow> execution_outcome \<Rightarrow> job_state act" where
  "finish_job e j out = andthen (ask_site (\<lambda>_. minimum_delay e j out)) (\<lambda>delay.
     andthen (ask_site (\<lambda>_. job_state_of (eo_state out))) (\<lambda>x.
     writing (\<lambda>c d. finish_attempt c (j_id j) x (eo_reason out) (eo_transient out) (eo_retry_after out) delay (re_worker e) (Some (cn_clock c)) d)))"

text \<open>The \<open>finally\<close> clause: the session keeps no budget, no read credit, no reservation and no ownership.\<close>

definition cleanup :: "station \<Rightarrow> station" where
  "cleanup st = (case release_job_ownership (si_conn (sn_site st)) (si_db (sn_site st)) of (d, c) \<Rightarrow>
     st\<lparr>sn_site := (sn_site st)\<lparr>si_db := d, si_conn := c\<lparr>cn_work_budget_id := None, cn_work_payload_read_credits := 0\<rparr>\<rparr>,
        sn_reservation := None\<rparr>)"

definition attempt :: "'v runner_env \<Rightarrow> job \<Rightarrow> job_state step" where
  "attempt e j st = (case step_then require_lease (\<lambda>_. step_then (execute e j) (\<lambda>out. step_then require_lease (\<lambda>_.
       on_site (finish_job e j out)))) st of (r, st1) \<Rightarrow> (r, cleanup st1))"

section \<open>The loop\<close>

record runner_result =
  rr_claimed :: nat
  rr_done :: nat
  rr_skipped :: nat
  rr_blocked :: nat
  rr_errors :: nat
  rr_stale_resumed :: int
  rr_unblocked :: int

definition add_result :: "job_state \<Rightarrow> runner_result \<Rightarrow> runner_result" where
  "add_result x r = r\<lparr>rr_claimed := rr_claimed r + 1, rr_done := rr_done r + (if x = Done then 1 else 0),
     rr_skipped := rr_skipped r + (if x = Skipped then 1 else 0), rr_blocked := rr_blocked r + (if x = Blocked then 1 else 0),
     rr_errors := rr_errors r + (if x = Error then 1 else 0)\<rparr>"

definition with_resume_counts :: "int \<Rightarrow> int \<Rightarrow> runner_result" where
  "with_resume_counts stale unblocked = \<lparr>rr_claimed = 0, rr_done = 0, rr_skipped = 0, rr_blocked = 0, rr_errors = 0,
     rr_stale_resumed = stale, rr_unblocked = unblocked\<rparr>"

record run_args =
  rg_crawl_run_id :: "int option"
  rg_max_jobs :: "nat option"
  rg_resume_stale :: bool
  rg_unblock :: bool
  rg_job_id :: "int option"
  rg_respect_fairness :: bool

definition claim_args_of :: "'v runner_env \<Rightarrow> run_args \<Rightarrow> nat \<Rightarrow> rat \<Rightarrow> claim_args" where
  "claim_args_of e a n now = \<lparr>w_crawl_run_id = rg_crawl_run_id a, w_now = Some now, w_worker_id = Some (re_worker_id e),
     w_job_id = rg_job_id a, w_stage = re_stage e, w_policy = re_policy e, w_respect_fairness = rg_respect_fairness a,
     w_token = re_token e n\<rparr>"

text \<open>The claim, with the run of the claimed job refreshed.\<close>

definition claim_step :: "'v runner_env \<Rightarrow> run_args \<Rightarrow> nat \<Rightarrow> job option step" where
  "claim_step e a n = step_then require_lease (\<lambda>_. on_site (andthen (tx (\<lambda>s.
       rbind (atomic (si_conn s) (si_db s) (claim_next_job (re_digest8 e) (claim_args_of e a n (cn_clock (si_conn s))) (si_conn s))) (\<lambda>(d, c, j).
       Inr (s\<lparr>si_db := d, si_conn := c\<rparr>, j)))) (\<lambda>j.
     case Option.bind j j_crawl_run_id of
       None \<Rightarrow> ret j
     | Some run \<Rightarrow> andthen (writing (\<lambda>c d. Inr (refresh_run_status c run d, ()))) (\<lambda>_. ret j))))"

definition may_claim :: "run_args \<Rightarrow> runner_result \<Rightarrow> bool" where
  "may_claim a r = (case rg_max_jobs a of None \<Rightarrow> True | Some m \<Rightarrow> rr_claimed r < m)"

text \<open>Where an idle loop sleeps until, if it does.\<close>

definition idle_until :: "'v runner_env \<Rightarrow> run_args \<Rightarrow> station \<Rightarrow> rat option" where
  "idle_until e a st = (if re_stage e \<noteq> ''processing'' \<and> rg_job_id a = None
     then next_pacing_deadline (si_db (sn_site st)) (rg_crawl_run_id a) (cn_clock (si_conn (sn_site st))) else None)"

text \<open>The claiming loop with a bound on its rounds; None when the rounds are used up.\<close>

fun run_loop :: "nat \<Rightarrow> 'v runner_env \<Rightarrow> run_args \<Rightarrow> runner_result \<Rightarrow> station \<Rightarrow> (runner_result result \<times> station) option" where
  "run_loop 0 e a r st = None"
| "run_loop (Suc n) e a r st =
     (if \<not> may_claim a r then Some (Inr r, st)
      else case poll e st of (stop, st0) \<Rightarrow>
        if stop then Some (Inr r, st0)
        else (case claim_step e a (rr_claimed r) st0 of
            (Inl err, st1) \<Rightarrow> Some (Inl err, st1)
          | (Inr None, st1) \<Rightarrow> (case idle_until e a st1 of
                Some t \<Rightarrow> run_loop n e a r (sleeping e (max 0 (t - cn_clock (si_conn (sn_site st1)))) st1)
              | None \<Rightarrow> Some (Inr r, st1))
          | (Inr (Some j), st1) \<Rightarrow> (case attempt e j st1 of
                (Inl err, st2) \<Rightarrow> Some (Inl err, st2)
              | (Inr x, st2) \<Rightarrow> run_loop n e a (add_result x r) st2)))"

definition recover :: "'v runner_env \<Rightarrow> run_args \<Rightarrow> (int \<times> int) step" where
  "recover e a st = (on_site (andthen
       (if rg_resume_stale a then tx (\<lambda>s. rbind (resume_stale_in_progress (re_digest8 e) (si_conn s) (rg_crawl_run_id a) 0 (Some (now_of s))
            (Some (sn_lease st)) (si_db s)) (\<lambda>(d, n). Inr (s\<lparr>si_db := d\<rparr>, n))) else ret 0) (\<lambda>stale.
     andthen (if rg_unblock a then writing (\<lambda>c d. unblock_jobs c (rg_crawl_run_id a) (Some (cn_clock c)) d) else ret 0) (\<lambda>unblocked.
     ret (stale, unblocked)))) st)"

definition run_owned :: "nat \<Rightarrow> 'v runner_env \<Rightarrow> run_args \<Rightarrow> station \<Rightarrow> (runner_result result \<times> station) option" where
  "run_owned n e a st = (case recover e a st of
       (Inl err, st1) \<Rightarrow> Some (Inl err, st1)
     | (Inr (stale, unblocked), st1) \<Rightarrow> map_option (\<lambda>(r, st2). case r of
           Inl err \<Rightarrow> (Inl err, st2)
         | Inr res \<Rightarrow> if rg_crawl_run_id a \<noteq> None \<or> stale \<noteq> 0 \<or> unblocked \<noteq> 0
             then on_site (andthen (writing (\<lambda>c d. Inr (refresh_crawl_runs c (rg_crawl_run_id a) d, ()))) (\<lambda>_. ret res)) st2
             else (Inr res, st2)) (run_loop n e a (with_resume_counts stale unblocked) st1))"

end
