(* ===== verification/Runner_Laws.thy ===== *)
theory Runner_Laws
  imports Runner Job_Laws Normalization_Laws
begin

text \<open>
  Laws of the runner: what a write under ownership checks can raise, what the \<open>except\<close> clauses make of an
  exception, what an attempt leaves in the session, and how many rounds the claiming loop needs.
\<close>

section \<open>Steps\<close>

lemma writing_Inr:
  "writing f s = (Inr x, s') \<longleftrightarrow> begin_write (si_conn s) False (si_db s) = Inr ()
     \<and> (\<exists>d. f (si_conn s) (si_db s) = Inr (d, x) \<and> s' = s\<lparr>si_db := d\<rparr>)"
  by (auto simp: writing_def tx_Inr atomic_def rbind_eq_Inr)

lemma writing_Inl:
  "writing f s = (Inl err, s') \<longleftrightarrow> s' = s \<and> (begin_write (si_conn s) False (si_db s) = Inl err
     \<or> begin_write (si_conn s) False (si_db s) = Inr () \<and> f (si_conn s) (si_db s) = Inl err)"
  by (auto simp: writing_def tx_def atomic_def rbind_def split: sum.splits prod.splits)

lemma on_site_eq: "on_site m st = (r, st') \<longleftrightarrow> (\<exists>s. m (sn_site st) = (r, s) \<and> st' = st\<lparr>sn_site := s\<rparr>)"
  by (auto simp: on_site_def split: prod.splits)

lemma step_then_Inr: "step_then m f st = (Inr y, st') \<longleftrightarrow> (\<exists>x t. m st = (Inr x, t) \<and> f x t = (Inr y, st'))"
  by (auto simp: step_then_def split: prod.splits sum.splits)

lemma andthen_Inl:
  "andthen m f s = (Inl err, s') \<longleftrightarrow> m s = (Inl err, s') \<or> (\<exists>x t. m s = (Inr x, t) \<and> f x t = (Inl err, s'))"
  by (auto simp: andthen_def split: prod.splits sum.splits)

lemma ret_Inl [simp]: "ret x s \<noteq> (Inl err, s')"
  by (simp add: ret_def)

lemma begin_write_conn_cong:
  assumes "cn_ownership_purposes c' = cn_ownership_purposes c" "cn_ownership_keys c' = cn_ownership_keys c"
    "cn_job_fence c' = cn_job_fence c" "cn_pid c' = cn_pid c"
  shows "begin_write c' b d = begin_write c b d"
proof -
  have "purposes_owned c' d ps = purposes_owned c d ps" for ps
    by (induction ps) (simp_all add: owns_session_lock_def assms(4) cong: if_cong)
  moreover have "fence_ok c' d = fence_ok c d" unfolding fence_ok_def assms ..
  ultimately show ?thesis unfolding begin_write_def assms by simp
qed

section \<open>Failures\<close>

text \<open>A write that the ownership checks of the session refuse with this error.\<close>

definition refused :: "station \<Rightarrow> pyerr \<Rightarrow> bool" where
  "refused st err \<longleftrightarrow> begin_write (si_conn (sn_site st)) False (si_db (sn_site st)) = Inl err"

lemma handle_exhausted:
  assumes "exhausted_dimension err = Some x" "handle_failure j err st = (r, st')"
  obtains (refused) err' where "r = Inl err'" "refused st err'" "st' = st"
  | (blocked) "r = Inr (outcome ''blocked'' (''budget_exhausted: '' @ x @ ''; requested work remains incomplete''))"
      "si_errors (sn_site st') = si_errors (sn_site st)" "sn_upgrades st' = sn_upgrades st"
      "\<forall>b \<in> set (db_budgets (si_db (sn_site st'))). cn_work_budget_id (si_conn (sn_site st)) = Some (b_id b) \<longrightarrow> b_exhausted_dimension b = Some x"
proof (cases "cn_work_budget_id (si_conn (sn_site st))")
  case None
  then have "r = Inr (outcome ''blocked'' (''budget_exhausted: '' @ x @ ''; requested work remains incomplete''))" "st' = st"
    using assms by (auto simp: handle_failure_def on_site_eq exhaust_def andthen_def ret_def)
  then show thesis using blocked None by simp
next
  case (Some b)
  obtain s where s: "andthen (exhaust x) (\<lambda>_. ret (outcome ''blocked'' (''budget_exhausted: '' @ x @ ''; requested work remains incomplete'')))
      (sn_site st) = (r, s)" "st' = st\<lparr>sn_site := s\<rparr>"
    using assms by (auto simp: handle_failure_def on_site_eq)
  show thesis
  proof (cases r)
    case (Inl err')
    then have "s = sn_site st" "refused st err'"
      using s(1) Some by (auto simp: andthen_Inl exhaust_def writing_Inl refused_def)
    then show thesis using refused Inl s(2) by simp
  next
    case (Inr out)
    then obtain t where "exhaust x (sn_site st) = (Inr (), t)" "s = t"
        "out = outcome ''blocked'' (''budget_exhausted: '' @ x @ ''; requested work remains incomplete'')"
      using s(1) by (auto simp: andthen_Inr)
    then have "s = (sn_site st)\<lparr>si_db := exhaust_budget (si_conn (sn_site st)) b x (Some (now_of (sn_site st))) (si_db (sn_site st))\<rparr>"
      "r = Inr (outcome ''blocked'' (''budget_exhausted: '' @ x @ ''; requested work remains incomplete''))"
      using Some Inr by (auto simp: exhaust_def writing_Inr)
    then show thesis
      using blocked s(2) Some by (simp add: exhaust_budget_def Let_def ball_update_where)
  qed
qed

definition malformed_upgrade :: "job \<Rightarrow> pyerr \<Rightarrow> bool" where
  "malformed_upgrade j err \<longleftrightarrow> j_kind j = ''reprocess_archive''
     \<and> (load_params (j_params_json j) = Inl err \<or> source_provider j = Inl err)"

text \<open>The rows of an upgrade that its failed job marks.\<close>

definition upgrade_failed :: "job \<Rightarrow> string \<Rightarrow> upgrade list \<Rightarrow> bool" where
  "upgrade_failed j msg ups \<longleftrightarrow> (\<forall>params provider. load_params (j_params_json j) = Inr params \<longrightarrow> source_provider j = Inr provider \<longrightarrow>
     (\<forall>u \<in> set ups. up_id u = py_str (coalesce (map_of params ''upgrade_id'') (JStr (j_target j))) \<and> up_job_id u = j_id j
        \<and> up_provider u = provider \<and> up_owner_scope u = py_str (coalesce (map_of params ''owner_scope'') (JStr ''public''))
        \<longrightarrow> up_state u = ''error'' \<and> up_error u = Some msg))"

lemma note_failed_upgrade_cases:
  assumes "note_failed_upgrade j msg st = (r, st')"
  obtains (refused) err where "r = Inl err" "st' = st" "refused st err \<or> malformed_upgrade j err"
  | (noted) "r = Inr ()" "sn_site st' = sn_site st" "j_kind j = ''reprocess_archive'' \<longrightarrow> upgrade_failed j msg (sn_upgrades st')"
proof (cases "j_kind j = ''reprocess_archive''")
  case False
  then show thesis using assms noted by (auto simp: note_failed_upgrade_def)
next
  case True
  show thesis
  proof (cases "rbind (load_params (j_params_json j)) (\<lambda>params. rbind (source_provider j) (\<lambda>provider.
      rbind (begin_write (si_conn (sn_site st)) False (si_db (sn_site st))) (\<lambda>_. Inr (params, provider))))")
    case (Inl err)
    then have "refused st err \<or> malformed_upgrade j err"
      by (auto simp: rbind_def refused_def malformed_upgrade_def True split: sum.splits)
    then show thesis using refused assms Inl True by (auto simp: note_failed_upgrade_def)
  next
    case (Inr pp)
    then obtain params provider where pp: "load_params (j_params_json j) = Inr params" "source_provider j = Inr provider" "pp = (params, provider)"
      by (auto simp: rbind_eq_Inr)
    have st': "st' = st\<lparr>sn_upgrades := fail_upgrade (py_str (coalesce (map_of params ''upgrade_id'') (JStr (j_target j)))) (j_id j) provider
           (py_str (coalesce (map_of params ''owner_scope'') (JStr ''public''))) msg (now_of (sn_site st)) (sn_upgrades st)\<rparr>" "r = Inr ()"
      using assms Inr True pp(3) by (auto simp: note_failed_upgrade_def)
    then have "upgrade_failed j msg (sn_upgrades st')"
      unfolding upgrade_failed_def fail_upgrade_def st' pp(1,2) by (simp add: ball_update_where) blast
    then show thesis using noted st' by simp
  qed
qed

lemma handle_failed:
  assumes "exhausted_dimension err = None" "stop_reason err = None" "\<not> storage_lost err" "handle_failure j err st = (r, st')"
  obtains (refused) err' where "r = Inl err'" "refused st' err' \<or> malformed_upgrade j err'"
  | (failed) "r = Inr ((outcome ''error'' (str_exc err))\<lparr>eo_transient := network_failure err\<rparr>)"
      "si_errors (sn_site st') = si_errors (sn_site st) @ [(job_error j (str_exc err) (sn_site st))\<lparr>er_id := si_next_error (sn_site st)\<rparr>]"
      "si_db (sn_site st') = si_db (sn_site st)" "j_kind j = ''reprocess_archive'' \<longrightarrow> upgrade_failed j (str_exc err) (sn_upgrades st')"
proof -
  obtain r1 st1 where n: "note_failed_upgrade j (str_exc err) st = (r1, st1)" by force
  have h: "failed_outcome j err st = (r, st')" using assms by (simp add: handle_failure_def)
  from n show thesis
  proof (cases rule: note_failed_upgrade_cases)
    case (refused err')
    then show thesis using that(1) n h by (auto simp: failed_outcome_def)
  next
    case noted
    then obtain s where s: "andthen (record_failure j (str_exc err)) (\<lambda>_.
         ret ((outcome ''error'' (str_exc err))\<lparr>eo_transient := network_failure err\<rparr>)) (sn_site st) = (r, s)" "st' = st1\<lparr>sn_site := s\<rparr>"
      using n h by (auto simp: failed_outcome_def on_site_eq)
    show thesis
    proof (cases r)
      case (Inl err')
      then have "refused st' err'"
        using s by (auto simp: andthen_Inl record_failure_def tx_def rbind_def refused_def split: sum.splits)
      then show thesis using that(1) Inl by blast
    next
      case (Inr out)
      then have "s = fst (insert_error (job_error j (str_exc err) (sn_site st)) (sn_site st))"
        "out = (outcome ''error'' (str_exc err))\<lparr>eo_transient := network_failure err\<rparr>"
        using s(1) by (auto simp: andthen_Inr record_failure_def tx_Inr rbind_eq_Inr)
      then show thesis using that(2) Inr s(2) noted by (simp add: insert_error_def)
    qed
  qed
qed

section \<open>Attempts\<close>

lemma cleanup_site:
  "cn_job_fence (si_conn (sn_site (cleanup st))) = None" "cn_ownership_keys (si_conn (sn_site (cleanup st))) = []"
  "cn_work_budget_id (si_conn (sn_site (cleanup st))) = None" "cn_work_payload_read_credits (si_conn (sn_site (cleanup st))) = 0"
  "sn_reservation (cleanup st) = None"
  "cn_defer_normalization (si_conn (sn_site (cleanup st))) = cn_defer_normalization (si_conn (sn_site st))"
  "db_jobs (si_db (sn_site (cleanup st))) = db_jobs (si_db (sn_site st))"
  by (simp_all add: cleanup_def release_job_ownership_def)

lemma cleanup_locks:
  assumes "\<not> cn_closed (si_conn (sn_site st))"
  shows "db_locks (si_db (sn_site (cleanup st)))
    = release_keys (si_conn (sn_site st)) (rev (cn_ownership_keys (si_conn (sn_site st)))) (db_locks (si_db (sn_site st)))"
  using assms by (simp add: cleanup_def release_job_ownership_def)

lemma require_lease_site: "require_lease st = (r, st') \<Longrightarrow> sn_site st' = sn_site st"
  by (auto simp: require_lease_def split: prod.splits)

lemma execute_defer: "execute e j st = (r, st') \<Longrightarrow> cn_defer_normalization (si_conn (sn_site st')) = cn_defer_normalization (si_conn (sn_site st))"
  by (auto simp: execute_def Let_def with_defer_def on_conn_def split: prod.splits)

lemma finish_job_conn:
  assumes "finish_job e j out s = (r, s')"
  shows "si_conn s' = si_conn s"
proof (cases r)
  case (Inl err)
  then show ?thesis using assms by (auto simp: finish_job_def andthen_Inl ask_site_def writing_Inl)
next
  case (Inr x)
  then show ?thesis using assms by (auto simp: finish_job_def andthen_Inr writing_Inr)
qed

lemma job_state_of_name:
  assumes "job_state_of n = Inr z"
  shows "state_name z = n"
proof (cases "find_row (\<lambda>x. state_name x = n) [Pending, In_progress, Done, Error, Skipped, Blocked]")
  case (Some y)
  then have "y = z" using assms unfolding job_state_of_def Some by simp
  then show ?thesis using find_row_Some [OF Some] by simp
qed (use assms in \<open>simp only: job_state_of_def option.case sum.distinct\<close>)

text \<open>A completed attempt ended in a write that the session's ownership allowed, and the row has the reported state.\<close>

lemma finish_job_state:
  assumes "finish_job e j out s = (Inr x, s')"
  shows "fence_ok (si_conn s) (si_db s)" "map_option j_state (get_row (si_db s') (j_id j)) = Some x"
    "eo_transient out \<or> state_name x = eo_state out"
proof -
  obtain delay z d where named: "job_state_of (eo_state out) = Inr z" and fin: "begin_write (si_conn s) False (si_db s) = Inr ()"
      "finish_attempt (si_conn s) (j_id j) z (eo_reason out) (eo_transient out) (eo_retry_after out) delay (re_worker e)
        (Some (cn_clock (si_conn s))) (si_db s) = Inr (d, x)" "s' = s\<lparr>si_db := d\<rparr>"
    using assms by (auto simp: finish_job_def andthen_Inr writing_Inr)
  show "fence_ok (si_conn s) (si_db s)"
    using fin(1) by (auto simp: begin_write_def rbind_eq_Inr split: if_splits)
  obtain row where row: "get_row (si_db s) (j_id j) = Some row"
    using fin(2) by (auto simp: finish_attempt_def Let_def split: option.splits)
  have "map_option j_state (get_row d (j_id j)) = map_option (\<lambda>v. fst v) (map_option verdict (get_row d (j_id j)))"
    by (simp add: option.map_comp comp_def verdict_def)
  then show "map_option j_state (get_row (si_db s') (j_id j)) = Some x"
    using finish_attempt_verdict [OF fin(2) row] fin(3) by (auto split: if_splits)
  show "eo_transient out \<or> state_name x = eo_state out"
    using finish_attempt_verdict(2) [OF fin(2) row] job_state_of_name [OF named] by auto
qed

lemma lease_require_Inr: "lease_require l c p d = (l', Inr x) \<Longrightarrow> l' = l"
  unfolding lease_require_def by (cases "owns_session_lock c p d") (auto split: if_split_asm)

lemma require_lease_Inr:
  assumes "require_lease st = (Inr x, st')"
  shows "st' = st"
proof -
  obtain l r where l: "lease_require (sn_lease st) (si_conn (sn_site st)) ''worker'' (si_db (sn_site st)) = (l, r)" by force
  then have st': "r = Inr x" "st' = st\<lparr>sn_lease := l\<rparr>" using assms by (simp_all add: require_lease_def)
  show ?thesis using lease_require_Inr [OF l [unfolded st'(1)]] st'(2) by simp
qed

lemma attempt_body_flag:
  assumes "step_then require_lease (\<lambda>_. step_then (execute e j) (\<lambda>out. step_then require_lease (\<lambda>_.
      on_site (finish_job e j out)))) st = (r, st')"
  shows "cn_defer_normalization (si_conn (sn_site st')) = cn_defer_normalization (si_conn (sn_site st))"
proof -
  obtain a st1 where l1: "require_lease st = (a, st1)" by force
  obtain b st2 where ex: "execute e j st1 = (b, st2)" by force
  obtain c st3 where l2: "require_lease st2 = (c, st3)" by force
  have flags: "cn_defer_normalization (si_conn (sn_site st2)) = cn_defer_normalization (si_conn (sn_site st1))"
    "sn_site st1 = sn_site st" "sn_site st3 = sn_site st2"
    using execute_defer [OF ex] require_lease_site [OF l1] require_lease_site [OF l2] by simp_all
  show ?thesis
  proof (cases b)
    case (Inr out)
    obtain f s where fin: "finish_job e j out (sn_site st3) = (f, s)" by force
    show ?thesis
      using assms l1 ex l2 flags finish_job_conn [OF fin] Inr fin
      by (cases a; cases c) (auto simp: step_then_def on_site_def)
  qed (use assms l1 ex flags in \<open>cases a; auto simp: step_then_def\<close>)
qed

lemma attempt_body_finished:
  assumes "step_then require_lease (\<lambda>_. step_then (execute e j) (\<lambda>out. step_then require_lease (\<lambda>_.
      on_site (finish_job e j out)))) st = (Inr x, st')"
  shows "\<exists>out st1. execute e j st = (Inr out, st1) \<and> fence_ok (si_conn (sn_site st1)) (si_db (sn_site st1))
      \<and> map_option j_state (get_row (si_db (sn_site st')) (j_id j)) = Some x \<and> (eo_transient out \<or> state_name x = eo_state out)"
proof -
  obtain out st1 where ex: "execute e j st = (Inr out, st1)" and fin: "on_site (finish_job e j out) st1 = (Inr x, st')"
    using assms by (auto simp: step_then_Inr dest!: require_lease_Inr)
  then obtain s where s: "finish_job e j out (sn_site st1) = (Inr x, s)" "sn_site st' = s" by (auto simp: on_site_eq)
  show ?thesis using ex finish_job_state [OF s(1)] s(2) by blast
qed

section \<open>Rounds\<close>

definition consistent :: "runner_result \<Rightarrow> bool" where
  "consistent r \<longleftrightarrow> rr_done r + rr_skipped r + rr_blocked r + rr_errors r \<le> rr_claimed r"

lemma add_result_consistent: "consistent r \<Longrightarrow> consistent (add_result x r)"
  by (cases x) (simp_all add: consistent_def add_result_def)

lemma run_loop_bounds:
  assumes "run_loop n e a r st = Some (Inr res, st')" "consistent r" "case rg_max_jobs a of None \<Rightarrow> True | Some m \<Rightarrow> rr_claimed r \<le> m"
  shows "consistent res \<and> rr_claimed r \<le> rr_claimed res \<and> (case rg_max_jobs a of None \<Rightarrow> True | Some m \<Rightarrow> rr_claimed res \<le> m)
    \<and> rr_stale_resumed res = rr_stale_resumed r \<and> rr_unblocked res = rr_unblocked r"
  using assms
proof (induction n e a r st rule: run_loop.induct)
  case (2 n e a r st)
  obtain stop st0 where p: "poll e st = (stop, st0)" by force
  obtain c st1 where c: "claim_step e a (rr_claimed r) st0 = (c, st1)" by force
  consider "\<not> may_claim a r" | "may_claim a r" "stop" | err where "may_claim a r" "\<not> stop" "c = Inl err" | "may_claim a r" "\<not> stop" "c = Inr None"
    | j where "may_claim a r" "\<not> stop" "c = Inr (Some j)"
    by (cases c; cases "may_claim a r \<and> \<not> stop") (blast, blast, metis option.exhaust, blast)
  then show ?case
  proof cases
    case 4
    then show ?thesis
      using 2 p c by (auto split: option.splits)
  next
    case (5 j)
    obtain x st2 where at: "attempt e j st1 = (x, st2)" by force
    have cl: "rr_claimed (add_result y r) = rr_claimed r + 1" "rr_stale_resumed (add_result y r) = rr_stale_resumed r"
      "rr_unblocked (add_result y r) = rr_unblocked r" for y by (simp_all add: add_result_def)
    from 5 obtain y where y: "x = Inr y" using "2.prems"(1) p c at by (cases x) auto
    have "case rg_max_jobs a of None \<Rightarrow> True | Some m \<Rightarrow> rr_claimed (add_result y r) \<le> m"
      using 5 by (auto simp: may_claim_def cl split: option.splits)
    then show ?thesis
      using "2.IH"(2) [OF _ p [symmetric] _ c [symmetric] 5(3) refl at [symmetric] y] 5 "2.prems" p c at y
        add_result_consistent [of r y] by (auto simp: cl)
  qed (use 2 p c in auto)
qed simp

text \<open>Without idle waits every round but the last claims a job.\<close>

lemma run_loop_ends:
  assumes "rg_max_jobs a = Some m" "re_stage e = ''processing'' \<or> rg_job_id a \<noteq> None" "m - rr_claimed r < n"
  shows "\<exists>x. run_loop n e a r st = Some x"
  using assms(3)
proof (induction n arbitrary: r st)
  case (Suc n)
  have idle: "idle_until e a t = None" for t using assms(2) by (auto simp: idle_until_def)
  obtain stop st0 where p: "poll e st = (stop, st0)" by force
  obtain c st1 where c: "claim_step e a (rr_claimed r) st0 = (c, st1)" by force
  show ?case
  proof (cases "may_claim a r \<and> \<not> stop \<and> (\<exists>j. c = Inr (Some j))")
    case True
    then obtain j where j: "c = Inr (Some j)" by blast
    obtain x st2 where at: "attempt e j st1 = (x, st2)" by force
    have "m - rr_claimed (add_result y r) < n" for y
      using True Suc.prems by (auto simp: may_claim_def assms(1) add_result_def)
    then show ?thesis using Suc.IH True p c j at by (cases x) auto
  next
    case False
    then show ?thesis using p c idle by (cases c) (auto split: option.splits)
  qed
qed simp

end
