(* ===== verification/Runner_Properties.thy ===== *)
theory Runner_Properties
  imports Runner_Laws Normalization_Properties
begin

text \<open>The properties of the job runner, with witnesses on a small station.\<close>

section \<open>A station\<close>

definition offline :: "'a act" where
  "offline = raise (NetworkError ''offline'')"

definition sample_runner :: "unit runner_env" where
  "sample_runner = \<lparr>re_ingest = \<lparr>ie_codec = plain_codec, ie_store = None\<rparr>, re_norm = sample_norm_env,
     re_canonical = (\<lambda>_. ''c''), re_policy = default_policy, re_worker = None, re_min_delay = (\<lambda>_. 1),
     re_fetch_policy = (\<lambda>_. \<lparr>fp_min_delay_s = 1, fp_supports_conditional = True, fp_honor_retry_after = True, fp_fixed_429_backoff_s = None,
       fp_max_retries = 0\<rparr>), re_stop = (\<lambda>_. False), re_handler = (\<lambda>_. None), re_game_fetcher = None, re_digest8 = sample_digest8,
     re_stage = ''processing'', re_worker_id = ''w1'', re_token = (\<lambda>_. ''t''), re_wait = (\<lambda>_ s. s),
     re_ask_profile = (\<lambda>_ _ _ _. offline), re_ask_stats = (\<lambda>_ _ _. offline), re_ask_resource = (\<lambda>_ _ _ _ _ _ _. offline),
     re_ask_archives = (\<lambda>_ _ _. offline), re_ask_month = (\<lambda>_ _ _ _ _. offline), re_ask_game = (\<lambda>_. offline),
     re_ask_page = (\<lambda>_ _ _ _. offline), re_ask_games = (\<lambda>_ _ _ _. offline)\<rparr>"

text \<open>A processing job whose target names no payload, queued in the database of a worker with its lease.\<close>

definition stray_job :: job where
  "stray_job = sample_job\<lparr>j_kind := ''normalize_payload'', j_target := ''x''\<rparr>"

definition sample_station :: station where
  "sample_station = \<lparr>sn_site = payload_site\<lparr>si_db := one_job_db\<lparr>db_jobs := [stray_job],
       db_locks := [\<lparr>l_key = 0x43435241574C1001, l_pid = 7, l_shared = True\<rparr>]\<rparr>\<rparr>,
     sn_upgrades = [], sn_lease = \<lparr>ls_pid = 7, ls_purpose = ''worker'', ls_active = True\<rparr>, sn_reservation = None\<rparr>"

definition one_job :: run_args where
  "one_job = \<lparr>rg_crawl_run_id = None, rg_max_jobs = Some 1, rg_resume_stale = True, rg_unblock = True, rg_job_id = None,
     rg_respect_fairness = False\<rparr>"

text \<open>The station once its worker has claimed the job.\<close>

definition claimed_station :: station where
  "claimed_station = sample_station\<lparr>sn_site := (sn_site sample_station)\<lparr>
     si_db := one_job_db\<lparr>db_jobs := [stray_job\<lparr>j_state := In_progress, j_ownership_token := Some ''t'', j_owner_backend_pid := Some 7\<rparr>],
       db_locks := [\<lparr>l_key = 0x43435241574C1001, l_pid = 7, l_shared = True\<rparr>, \<lparr>l_key = 5, l_pid = 7, l_shared = False\<rparr>]\<rparr>,
     si_conn := (fresh_conn 7)\<lparr>cn_job_fence := Some (1, ''t''), cn_ownership_keys := [5]\<rparr>\<rparr>\<rparr>"

section \<open>Failures\<close>

text \<open>
  C21. What becomes of an exception in a handler. Exhausted budgets and unreadable responses block the job and mark its budget
  with the dimension; a stop returns the job to the queue and changes nothing; any other failure is filed as an error
  row with its message, fails the job's upgrade, and is transient exactly for network failures. An exception leaves the runner only when
  storage or ownership was lost, when the session's ownership refuses the write that would record the failure,
  or when an upgrade job's own parameters are malformed.
\<close>

theorem failures_become_outcomes:
  assumes "on_site (open_budget e j) (if deferring e j then with_defer True st else st) = (Inr (), st1)"
    "run_kind e j st1 = (Inl err, st2)" "execute e j st = (r, st')"
  shows "(case r of
      Inl err' \<Rightarrow> storage_lost err \<and> err' = err \<or> refused st' err' \<or> malformed_upgrade j err'
    | Inr out \<Rightarrow> \<not> storage_lost err \<and> (case exhausted_dimension err of
        Some x \<Rightarrow> eo_state out = ''blocked'' \<and> \<not> eo_transient out \<and> si_errors (sn_site st') = si_errors (sn_site st2)
          \<and> (\<forall>b \<in> set (db_budgets (si_db (sn_site st'))). cn_work_budget_id (si_conn (sn_site st2)) = Some (b_id b) \<longrightarrow> b_exhausted_dimension b = Some x)
      | None \<Rightarrow> (case stop_reason err of
          Some m \<Rightarrow> eo_state out = ''pending'' \<and> eo_reason out = m \<and> si_db (sn_site st') = si_db (sn_site st2)
            \<and> si_errors (sn_site st') = si_errors (sn_site st2) \<and> sn_upgrades st' = sn_upgrades st2
        | None \<Rightarrow> eo_state out = ''error'' \<and> eo_reason out = str_exc err \<and> (eo_transient out \<longleftrightarrow> network_failure err)
            \<and> map er_message (si_errors (sn_site st')) = map er_message (si_errors (sn_site st2)) @ [str_exc err]
            \<and> (j_kind j = ''reprocess_archive'' \<longrightarrow> upgrade_failed j (str_exc err) (sn_upgrades st')))))
    \<and> cn_defer_normalization (si_conn (sn_site st')) = cn_defer_normalization (si_conn (sn_site st))"
proof -
  define prev where "prev = cn_defer_normalization (si_conn (sn_site st))"
  obtain st3 where h: "handle_failure j err st2 = (r, st3)" and st': "st' = with_defer prev st3"
    using assms by (auto simp: execute_def guarded_def Let_def prev_def split: prod.splits)
  have same [simp]: "si_errors (sn_site st') = si_errors (sn_site st3)" "si_db (sn_site st') = si_db (sn_site st3)"
    "sn_upgrades st' = sn_upgrades st3" "refused st' = refused st3"
    by (auto simp: st' with_defer_def on_conn_def refused_def fun_eq_iff intro!: begin_write_conn_cong arg_cong2 [where f = "(=)"])
  have kept_flag: "cn_defer_normalization (si_conn (sn_site st')) = prev" by (simp add: st' with_defer_def on_conn_def)
  consider (full) x where "exhausted_dimension err = Some x" | (stop) m where "exhausted_dimension err = None" "stop_reason err = Some m"
    | (lost) "exhausted_dimension err = None" "stop_reason err = None" "storage_lost err"
    | (other) "exhausted_dimension err = None" "stop_reason err = None" "\<not> storage_lost err"
    by (cases "exhausted_dimension err"; cases "stop_reason err") auto
  then show ?thesis
  proof cases
    case full
    have "\<not> storage_lost err" using full by (cases err) auto
    with full h show ?thesis
      by (cases rule: handle_exhausted [OF full h]) (auto simp: kept_flag prev_def [symmetric] outcome_def)
  next
    case stop
    have "\<not> storage_lost err" using stop by (cases err) auto
    with stop h show ?thesis by (auto simp: handle_failure_def kept_flag prev_def [symmetric] outcome_def)
  next
    case lost
    with h show ?thesis by (auto simp: handle_failure_def kept_flag prev_def [symmetric])
  next
    case other
    show ?thesis
      by (cases rule: handle_failed [OF other h]) (auto simp: other kept_flag prev_def [symmetric] outcome_def job_error_def)
  qed
qed

theorem failures_become_outcomes_witness:
  "case execute sample_runner stray_job claimed_station of
     (Inr out, st) \<Rightarrow> eo_state out = ''error'' \<and> \<not> eo_transient out
       \<and> map er_message (si_errors (sn_site st)) = [''invalid literal for int() with base 10''] | (Inl _, _) \<Rightarrow> False"
proof -
  obtain o1 st1 where op: "on_site (open_budget sample_runner stray_job)
      (if deferring sample_runner stray_job then with_defer True claimed_station else claimed_station) = (o1, st1)" by force
  obtain k st2 where k: "run_kind sample_runner stray_job st1 = (k, st2)" by force
  obtain r st where ex: "execute sample_runner stray_job claimed_station = (r, st)" by force
  have budget: "fst (on_site (open_budget sample_runner stray_job)
      (if deferring sample_runner stray_job then with_defer True claimed_station else claimed_station)) = Inr ()" by code_simp
  have raised: "case run_kind sample_runner stray_job (snd (on_site (open_budget sample_runner stray_job)
      (if deferring sample_runner stray_job then with_defer True claimed_station else claimed_station))) of
      (Inl err, t) \<Rightarrow> err = ValueError ''invalid literal for int() with base 10'' \<and> si_errors (sn_site t) = [] | (Inr _, _) \<Rightarrow> False"
    by code_simp
  have returned: "case fst (execute sample_runner stray_job claimed_station) of Inr _ \<Rightarrow> True | Inl _ \<Rightarrow> False" by code_simp
  have facts: "o1 = Inr ()" "k = Inl (ValueError ''invalid literal for int() with base 10'')" "si_errors (sn_site st2) = []"
    using budget raised op k by (auto split: sum.splits)
  show ?thesis
    using failures_become_outcomes [OF op [unfolded facts(1)] k [unfolded facts(2)] ex] returned facts(3)
    by (simp add: ex split: sum.splits)
qed

section \<open>Attempts\<close>

text \<open>
  C22. However an attempt ends, the session gives up the job: it keeps no fence, no ownership key, no budget, no read credit and no
  reservation, and its deferral flag is as before. An attempt that returns a state ended in a write under a valid
  fence, the job's row has that state, and unless the outcome was transient it is the state the handler decided.
\<close>

theorem attempt_ends_clean:
  assumes "attempt e j st = (r, st')"
  shows "cn_job_fence (si_conn (sn_site st')) = None \<and> cn_ownership_keys (si_conn (sn_site st')) = []
    \<and> cn_work_budget_id (si_conn (sn_site st')) = None \<and> cn_work_payload_read_credits (si_conn (sn_site st')) = 0
    \<and> sn_reservation st' = None
    \<and> cn_defer_normalization (si_conn (sn_site st')) = cn_defer_normalization (si_conn (sn_site st))
    \<and> (case r of Inl _ \<Rightarrow> True | Inr x \<Rightarrow> \<exists>out st1. execute e j st = (Inr out, st1)
        \<and> fence_ok (si_conn (sn_site st1)) (si_db (sn_site st1))
        \<and> map_option j_state (get_row (si_db (sn_site st')) (j_id j)) = Some x
        \<and> (eo_transient out \<or> state_name x = eo_state out))"
proof -
  obtain st2 where run: "step_then require_lease (\<lambda>_. step_then (execute e j) (\<lambda>out. step_then require_lease (\<lambda>_.
      on_site (finish_job e j out)))) st = (r, st2)" and st': "st' = cleanup st2"
    using assms by (auto simp: attempt_def split: prod.splits)
  have flag: "cn_defer_normalization (si_conn (sn_site st2)) = cn_defer_normalization (si_conn (sn_site st))"
    by (rule attempt_body_flag [OF run])
  have finished: "\<exists>out st1. execute e j st = (Inr out, st1) \<and> fence_ok (si_conn (sn_site st1)) (si_db (sn_site st1))
      \<and> map_option j_state (get_row (si_db (sn_site st2)) (j_id j)) = Some x \<and> (eo_transient out \<or> state_name x = eo_state out)"
    if "r = Inr x" for x
    using attempt_body_finished [OF run [unfolded that]] by blast
  show ?thesis
    unfolding st' cleanup_site using flag finished
    by (auto simp: get_row_cong [OF cleanup_site(7)] split: sum.split)
qed

theorem attempt_ends_clean_witness:
  "case attempt sample_runner stray_job claimed_station of
     (Inr x, st) \<Rightarrow> x = Error \<and> map_option j_state (get_row (si_db (sn_site st)) 1) = Some x \<and> cn_job_fence (si_conn (sn_site st)) = None
       \<and> map l_key (db_locks (si_db (sn_site st))) = [0x43435241574C1001] | (Inl _, _) \<Rightarrow> False"
proof -
  obtain r st where at: "attempt sample_runner stray_job claimed_station = (r, st)" by force
  have "case attempt sample_runner stray_job claimed_station of
     (Inr x, st) \<Rightarrow> x = Error \<and> map l_key (db_locks (si_db (sn_site st))) = [0x43435241574C1001] | (Inl _, _) \<Rightarrow> False"
    by code_simp
  moreover have "j_id stray_job = 1" by (simp add: stray_job_def sample_job_def)
  ultimately show ?thesis
    using attempt_ends_clean [OF at] unfolding at by (cases r) auto
qed

section \<open>The loop\<close>

text \<open>
  C34. A run with a limit of jobs that does not wait for pacing (a processing worker, or a worker with one job to take) ends within one
  round more than the limit, and its report counts at most the limit of claimed jobs, of which each is counted under at most one
  final state.
\<close>

theorem run_within_limit:
  assumes "rg_max_jobs a = Some m" "re_stage e = ''processing'' \<or> rg_job_id a \<noteq> None"
  shows "case run_owned (Suc m) e a st of None \<Rightarrow> False
    | Some (Inl _, _) \<Rightarrow> True
    | Some (Inr res, _) \<Rightarrow> rr_claimed res \<le> m \<and> rr_done res + rr_skipped res + rr_blocked res + rr_errors res \<le> rr_claimed res"
proof -
  obtain c st1 where rec: "recover e a st = (c, st1)" by force
  show ?thesis
  proof (cases c)
    case (Inr counts)
    obtain stale unblocked where n: "counts = (stale, unblocked)" by force
    obtain r st2 where loop: "run_loop (Suc m) e a (with_resume_counts stale unblocked) st1 = Some (r, st2)"
      using run_loop_ends [OF assms, of "with_resume_counts stale unblocked" "Suc m" st1] by (force simp: with_resume_counts_def)
    have start: "consistent (with_resume_counts stale unblocked)" "rr_claimed (with_resume_counts stale unblocked) \<le> m"
      by (simp_all add: consistent_def with_resume_counts_def)
    have "rr_claimed res \<le> m \<and> consistent res" if "r = Inr res" for res
      using run_loop_bounds [OF loop [unfolded that]] start assms(1) by auto
    then show ?thesis
      using rec Inr n loop
      by (auto simp: run_owned_def on_site_eq consistent_def andthen_def ret_def writing_def tx_def
          split: sum.splits prod.splits)
  qed (simp add: run_owned_def rec)
qed

theorem run_within_limit_witness:
  "case run_owned 2 sample_runner one_job sample_station of
     Some (Inr res, st) \<Rightarrow> rr_claimed res = 1 \<and> rr_errors res \<le> rr_claimed res
       \<and> map j_state (db_jobs (si_db (sn_site st))) = [Error] | _ \<Rightarrow> False"
proof -
  have "case run_owned 2 sample_runner one_job sample_station of
     Some (Inr res, st) \<Rightarrow> rr_claimed res = 1 \<and> map j_state (db_jobs (si_db (sn_site st))) = [Error] | _ \<Rightarrow> False"
    by code_simp
  then show ?thesis
    using run_within_limit [of one_job 1 sample_runner sample_station]
    by (auto simp: one_job_def sample_runner_def numeral_2_eq_2 split: option.splits prod.splits sum.splits)
qed

end
