(* ===== verification/Policies.thy ===== *)
theory Policies
  imports Providers Jobs
begin

text \<open>
  The versioned settings of providers that operators change while replicas run, storage/operating\_policy.py: an update names the version
  it was based on, the history is append-only, and a change holds the provider back for its new delay.
\<close>

record policy_row =
  po_provider :: string
  po_version :: int
  po_min_delay_s :: rat
  po_max_retries :: int
  po_updated_at :: int

record policies =
  pt_current :: "policy_row list"
  pt_history :: "policy_row list"

definition current_policy :: "string \<Rightarrow> policies \<Rightarrow> policy_row option" where
  "current_policy p pt = find_row (\<lambda>r. po_provider r = p) (pt_current pt)"

definition provider_policy :: "string \<Rightarrow> policies \<Rightarrow> policy_row option result" where
  "provider_policy p pt = rbind (registered_policy p) (\<lambda>_. Inr (current_policy p pt))"

definition effective_provider_settings :: "policies \<Rightarrow> string \<Rightarrow> provider_settings \<Rightarrow> provider_settings result" where
  "effective_provider_settings pt p fallback =
     (if ps_key fallback \<noteq> p then Inl (ValueError ''Provider fallback settings do not match the selected provider'')
      else rbind (provider_policy p pt) (\<lambda>r. case r of
          None \<Rightarrow> Inr fallback
        | Some r \<Rightarrow> make_provider_settings (fallback\<lparr>ps_min_delay_s := po_min_delay_s r, ps_max_retries := po_max_retries r\<rparr>)))"

text \<open>The upsert of the current row and the insert into the history, with the primary keys and checks they can meet.\<close>

definition write_policy :: "policy_row \<Rightarrow> policies \<Rightarrow> policies result" where
  "write_policy r pt =
     (if po_version r \<le> 0 \<or> po_min_delay_s r < 0 \<or> po_max_retries r < 0 then Inl (DatabaseError ''CheckViolation'')
      else if list_ex (\<lambda>h. po_provider h = po_provider r \<and> po_version h = po_version r) (pt_history pt) then Inl (DatabaseError ''UniqueViolation'')
      else Inr (pt\<lparr>pt_current := (if current_policy (po_provider r) pt = None then pt_current pt @ [r]
            else update_where (\<lambda>x. po_provider x = po_provider r) (\<lambda>_. r) (pt_current pt)),
          pt_history := pt_history pt @ [r]\<rparr>))"

definition set_provider_policy ::
  "conn \<Rightarrow> provider_settings \<Rightarrow> int \<Rightarrow> int option \<Rightarrow> db \<Rightarrow> policies \<Rightarrow> (db \<times> policies \<times> policy_row) result" where
  "set_provider_policy c s expected now d pt =
     rbind (registered_policy (ps_key s)) (\<lambda>_.
     if \<not> (0 \<le> expected \<and> expected < 2 ^ 63 - 1) then Inl (ValueError ''Expected policy version must be a nonnegative PostgreSQL bigint'')
     else if 2 ^ 63 \<le> ps_max_retries s then Inl (ValueError ''Provider max_retries must fit a PostgreSQL bigint'')
     else rbind (provider_policy (ps_key s) pt) (\<lambda>current.
       let version = (case current of None \<Rightarrow> 0 | Some r \<Rightarrow> po_version r); t = int_now c now;
           r = \<lparr>po_provider = ps_key s, po_version = version + 1, po_min_delay_s = ps_min_delay_s s, po_max_retries = ps_max_retries s, po_updated_at = t\<rparr> in
       if version \<noteq> expected then Inl (PolicyVersionConflict ''Provider policy changed; inspect its current version before updating'')
       else rbind (write_policy r pt) (\<lambda>pt1.
         let d1 = defer_provider c (ps_key s) (of_int t + ps_min_delay_s s) ''provider request pacing'' (Some (of_int t)) d in
         rbind (require_row (current_policy (ps_key s) pt1)) (\<lambda>x. Inr (d1, pt1, x)))))"

definition provider_policy_history :: "string \<Rightarrow> int \<Rightarrow> int \<Rightarrow> policies \<Rightarrow> policy_row list result" where
  "provider_policy_history p after_version limit pt =
     rbind (registered_policy p) (\<lambda>_.
     if \<not> (0 \<le> after_version \<and> after_version < 2 ^ 63) then Inl (ValueError ''History cursor must be a nonnegative PostgreSQL bigint'')
     else if \<not> (1 \<le> limit \<and> limit \<le> 1000) then Inl (ValueError ''History page limit must be between 1 and 1000'')
     else Inr (take (nat limit) (sort_key po_version (filter (\<lambda>r. po_provider r = p \<and> after_version < po_version r) (pt_history pt)))))"

end
