(* ===== verification/Policy_Properties.thy ===== *)
theory Policy_Properties
  imports Policies Samples
begin

text \<open>What the versioned policies of providers guarantee, over the definitions of \<open>Policies\<close>.\<close>

definition no_policies :: policies where
  "no_policies = \<lparr>pt_current = [], pt_history = []\<rparr>"

definition policy_log :: "string \<Rightarrow> policies \<Rightarrow> policy_row list" where
  "policy_log p pt = filter (\<lambda>r. po_provider r = p) (pt_history pt)"

text \<open>Any operator's successful update, from whatever database.\<close>

inductive policy_step :: "policies \<Rightarrow> policies \<Rightarrow> bool" where
  "set_provider_policy c s expected now d pt = Inr (d', pt', r) \<Longrightarrow> policy_step pt pt'"

definition versioned :: "policies \<Rightarrow> bool" where
  "versioned pt \<longleftrightarrow> (\<forall>p. map po_version (policy_log p pt) = map int [1..<Suc (length (policy_log p pt))]
     \<and> current_policy p pt = (if policy_log p pt = [] then None else Some (last (policy_log p pt))))"

lemma versionedD:
  assumes "versioned pt"
  shows "map po_version (policy_log p pt) = map int [1..<Suc (length (policy_log p pt))]"
    "current_policy p pt = (if policy_log p pt = [] then None else Some (last (policy_log p pt)))"
  using assms unfolding versioned_def by blast+

lemma current_version:
  assumes "versioned pt"
  shows "(case current_policy p pt of None \<Rightarrow> 0 | Some r \<Rightarrow> po_version r) = int (length (policy_log p pt))"
proof (cases "policy_log p pt = []")
  case False
  then have "po_version (last (policy_log p pt)) = last (map int [1..<Suc (length (policy_log p pt))])"
    unfolding versionedD(1) [OF assms, of p, symmetric] by (simp add: last_map)
  also have "\<dots> = int (length (policy_log p pt))" using False by (cases "policy_log p pt") (simp_all add: last_map)
  finally show ?thesis using False by (simp add: versionedD(2) [OF assms])
qed (simp add: versionedD(2) [OF assms])

lemma write_policy_current:
  assumes "write_policy r pt = Inr pt'"
  shows "current_policy q pt' = (if q = po_provider r then Some r else current_policy q pt)"
    "policy_log q pt' = (if q = po_provider r then policy_log q pt @ [r] else policy_log q pt)"
proof -
  have pt': "pt' = pt\<lparr>pt_current := (if current_policy (po_provider r) pt = None then pt_current pt @ [r]
            else update_where (\<lambda>x. po_provider x = po_provider r) (\<lambda>_. r) (pt_current pt)), pt_history := pt_history pt @ [r]\<rparr>"
    using assms by (auto simp: write_policy_def split: if_splits)
  show "policy_log q pt' = (if q = po_provider r then policy_log q pt @ [r] else policy_log q pt)"
    by (auto simp: policy_log_def pt')
  have upd: "find_row (\<lambda>x. po_provider x = q) (update_where (\<lambda>x. po_provider x = po_provider r) (\<lambda>_. r) rows)
      = (if q = po_provider r then map_option (\<lambda>_. r) (find_row (\<lambda>x. po_provider x = q) rows) else find_row (\<lambda>x. po_provider x = q) rows)"
    for rows by (induction rows) auto
  show "current_policy q pt' = (if q = po_provider r then Some r else current_policy q pt)"
    using upd [of "pt_current pt"] by (auto simp: pt' current_policy_def find_row_append split: option.splits)
qed

lemma set_provider_policy_Inr:
  assumes "set_provider_policy c s e now d pt = Inr (d', pt', r)"
  shows "write_policy r pt = Inr pt'" "po_provider r = ps_key s" "po_version r = e + 1" "po_min_delay_s r = ps_min_delay_s s"
    "po_max_retries r = ps_max_retries s" "e = (case current_policy (ps_key s) pt of None \<Rightarrow> 0 | Some x \<Rightarrow> po_version x)"
    "d' = defer_provider c (ps_key s) (of_int (po_updated_at r) + ps_min_delay_s s) ''provider request pacing'' (Some (of_int (po_updated_at r))) d"
proof -
  let ?v = "case current_policy (ps_key s) pt of None \<Rightarrow> 0 | Some x \<Rightarrow> po_version x"
  let ?r = "\<lparr>po_provider = ps_key s, po_version = ?v + 1, po_min_delay_s = ps_min_delay_s s, po_max_retries = ps_max_retries s, po_updated_at = int_now c now\<rparr>"
  have w: "write_policy ?r pt = Inr pt'" and v: "e = ?v" and x: "current_policy (ps_key s) pt' = Some r"
    and d': "d' = defer_provider c (ps_key s) (of_int (int_now c now) + ps_min_delay_s s) ''provider request pacing'' (Some (of_int (int_now c now))) d"
    using assms by (auto simp: set_provider_policy_def provider_policy_def rbind_eq_Inr Let_def split: if_splits)
  have r: "r = ?r" using write_policy_current(1) [OF w, of "ps_key s"] x by simp
  show "write_policy r pt = Inr pt'" "po_provider r = ps_key s" "po_version r = e + 1" "po_min_delay_s r = ps_min_delay_s s"
    "po_max_retries r = ps_max_retries s" "e = ?v"
    "d' = defer_provider c (ps_key s) (of_int (po_updated_at r) + ps_min_delay_s s) ''provider request pacing'' (Some (of_int (po_updated_at r))) d"
    using w v d' by (simp_all add: r)
qed

lemma versioned_step:
  assumes "policy_step pt pt'" "versioned pt"
  shows "versioned pt'"
  using assms(1)
proof cases
  case (1 c s e now d d' r)
  note u = set_provider_policy_Inr [OF 1]
  have v: "po_version r = int (length (policy_log (ps_key s) pt)) + 1" using u(3,6) current_version [OF assms(2)] by simp
  show ?thesis
    unfolding versioned_def write_policy_current [OF u(1)] u(2)
    using versionedD [OF assms(2)] v by (auto simp: upt_Suc_append)
qed

lemma versioned_reachable: "policy_step\<^sup>*\<^sup>* no_policies pt \<Longrightarrow> versioned pt"
proof (induction rule: rtranclp_induct)
  case base
  show ?case by (simp add: versioned_def no_policies_def policy_log_def current_policy_def)
qed (rule versioned_step)

lemma defer_provider_waits: "\<exists>x. cooldown_row (defer_provider c p t reason now d) p = Some x \<and> t \<le> c_not_before x"
proof -
  have "find_row (\<lambda>x. c_provider x = p) (update_where (\<lambda>x. c_provider x = p)
        (\<lambda>x. x\<lparr>c_not_before := max (c_not_before x) t, c_reason := Some reason, c_updated_at := u\<rparr>) rows)
      = map_option (\<lambda>x. x\<lparr>c_not_before := max (c_not_before x) t, c_reason := Some reason, c_updated_at := u\<rparr>) (find_row (\<lambda>x. c_provider x = p) rows)"
    for u rows by (induction rows) auto
  note upd = this [of "float_now c now" "db_cooldowns d"]
  show ?thesis
    by (cases "find_row (\<lambda>x. c_provider x = p) (db_cooldowns d)") (simp_all add: defer_provider_def Let_def cooldown_row_def find_row_append upd)
qed

text \<open>The values a provider's policy may take: a registered provider, versions and retries within their columns and nothing negative.\<close>

definition policy_in_range :: "provider_settings \<Rightarrow> int \<Rightarrow> bool" where
  "policy_in_range s e \<longleftrightarrow> ps_key s \<in> {''chess.com'', ''lichess''} \<and> e < 2 ^ 63 - 1 \<and> 0 \<le> ps_min_delay_s s
     \<and> 0 \<le> ps_max_retries s \<and> ps_max_retries s < 2 ^ 63"

lemma set_provider_policy_in_range:
  assumes "set_provider_policy c s e now d pt = Inr x"
  shows "policy_in_range s e"
  using assms
  by (auto simp: policy_in_range_def set_provider_policy_def registered_policy_def write_policy_def rbind_eq_Inr Let_def split: if_splits)

text \<open>
  C40. Updates of a provider's policy are serialized by their versions. After any sequence of successful updates the history of a provider holds the versions one,
  two and so on without a gap and the current policy is its last entry. A further update succeeds exactly when it names the current version and its values are in
  range (a registered provider, a version below the largest bigint, a delay and a number of retries that are not negative and a number of retries that fits its
  column); it then appends exactly its values under the next version, leaves the other providers alone and holds the provider back for its new delay.
\<close>

theorem policy_updates_serialized:
  assumes "policy_step\<^sup>*\<^sup>* no_policies pt"
  shows "map po_version (policy_log p pt) = map int [1..<Suc (length (policy_log p pt))]
    \<and> current_policy p pt = (if policy_log p pt = [] then None else Some (last (policy_log p pt)))
    \<and> (\<not> isl (set_provider_policy c s e now d pt) \<longleftrightarrow>
         e = int (length (policy_log (ps_key s) pt)) \<and> ps_key s \<in> {''chess.com'', ''lichess''} \<and> e < 2 ^ 63 - 1
         \<and> 0 \<le> ps_min_delay_s s \<and> 0 \<le> ps_max_retries s \<and> ps_max_retries s < 2 ^ 63)
    \<and> (case set_provider_policy c s e now d pt of
         Inr (d', pt', r) \<Rightarrow> policy_log (ps_key s) pt' = policy_log (ps_key s) pt @ [r]
           \<and> po_version r = e + 1 \<and> po_min_delay_s r = ps_min_delay_s s \<and> po_max_retries r = ps_max_retries s
           \<and> (\<forall>q. q \<noteq> ps_key s \<longrightarrow> policy_log q pt' = policy_log q pt \<and> current_policy q pt' = current_policy q pt)
           \<and> (\<exists>x. cooldown_row d' (ps_key s) = Some x \<and> of_int (po_updated_at r) + ps_min_delay_s s \<le> c_not_before x)
       | Inl _ \<Rightarrow> True)"
proof -
  note v = versioned_reachable [OF assms]
  have accepted: "\<exists>x. set_provider_policy c s e now d pt = Inr x"
    if ok: "ps_key s \<in> {''chess.com'', ''lichess''}" "e = int (length (policy_log (ps_key s) pt))" "e < 2 ^ 63 - 1"
      "0 \<le> ps_min_delay_s s" "0 \<le> ps_max_retries s" "ps_max_retries s < 2 ^ 63"
  proof -
    let ?r = "\<lparr>po_provider = ps_key s, po_version = e + 1, po_min_delay_s = ps_min_delay_s s, po_max_retries = ps_max_retries s, po_updated_at = int_now c now\<rparr>"
    have "po_version h \<le> e" if "h \<in> set (pt_history pt)" "po_provider h = ps_key s" for h
    proof -
      have "po_version h \<in> set (map po_version (policy_log (ps_key s) pt))" using that by (auto simp: policy_log_def)
      then show ?thesis unfolding versionedD(1) [OF v] using ok(2) by auto
    qed
    then have "\<not> list_ex (\<lambda>h. po_provider h = po_provider ?r \<and> po_version h = po_version ?r) (pt_history pt)" by (force simp: list_ex_iff)
    then obtain pt1 where w: "write_policy ?r pt = Inr pt1" using ok by (simp add: write_policy_def)
    have "current_policy (ps_key s) pt1 = Some ?r" using write_policy_current(1) [OF w] by simp
    moreover have "registered_policy (ps_key s) = Inr (if ps_key s = ''chess.com'' then chesscom_policy 1 3 else lichess_policy (3 / 2) 3)"
      using ok(1) by (auto simp: registered_policy_def)
    ultimately show ?thesis
      using ok w current_version [OF v, of "ps_key s"] by (simp add: set_provider_policy_def provider_policy_def Let_def)
  qed
  show ?thesis
  proof (cases "set_provider_policy c s e now d pt")
    case (Inl err)
    with accepted versionedD [OF v] show ?thesis by auto
  next
    case (Inr x)
    obtain d' pt' r where x: "x = (d', pt', r)" by (metis prod_cases3)
    note u = set_provider_policy_Inr [OF Inr [unfolded x]]
    show ?thesis
      unfolding Inr x sum.case prod.case
      using versionedD [OF v, of p] u(3-6) current_version [OF v, of "ps_key s"] write_policy_current [OF u(1)] u(2) u(7) defer_provider_waits
        set_provider_policy_in_range [OF Inr, unfolded policy_in_range_def]
      by (intro conjI) simp_all
  qed
qed

definition slower :: provider_settings where
  "slower = \<lparr>ps_key = ''lichess'', ps_min_delay_s = 5, ps_user_agent = ''x'', ps_oauth_token = None, ps_max_retries = 2, ps_include_clocks = True,
     ps_include_evals = True, ps_include_accuracy = True, ps_oauth_owner_scope = ''local''\<rparr>"

theorem policy_updates_serialized_witness:
  "case set_provider_policy (fresh_conn 7) slower 0 (Some 100) empty_db no_policies of
     Inr (d, pt, r) \<Rightarrow> map po_version (policy_log ''lichess'' pt) = [1] \<and> current_policy ''lichess'' pt = Some r
       \<and> isl (set_provider_policy (fresh_conn 7) slower 0 (Some 101) d pt)
   | Inl _ \<Rightarrow> False"
proof -
  have none: "policy_log p no_policies = []" for p by (simp add: policy_log_def no_policies_def)
  have key: "ps_key slower = ''lichess''" "0 \<le> ps_min_delay_s slower" "0 \<le> ps_max_retries slower" "ps_max_retries slower < 2 ^ 63"
    by (simp_all add: slower_def)
  note first = policy_updates_serialized [OF rtranclp.rtrancl_refl, where p = "''lichess''" and c = "fresh_conn 7" and s = slower and e = 0
      and now = "Some 100" and d = empty_db, unfolded none]
  obtain d pt r where one: "set_provider_policy (fresh_conn 7) slower 0 (Some 100) empty_db no_policies = Inr (d, pt, r)"
    using first key by (cases "set_provider_policy (fresh_conn 7) slower 0 (Some 100) empty_db no_policies") auto
  have step: "policy_step\<^sup>*\<^sup>* no_policies pt" using one by (blast intro: policy_step.intros)
  have h: "policy_log ''lichess'' pt = [r]" using first by (simp add: one key)
  show ?thesis
    using policy_updates_serialized [OF step, where p = "''lichess''" and c = "fresh_conn 7" and s = slower and e = 0 and now = "Some 101" and d = d] h
    by (auto simp: one key split: sum.splits)
qed

end
