(* ===== verification/Working_Sets.thy ===== *)
theory Working_Sets
  imports Games Workspaces
begin

text \<open>
  Immutable selections of game versions and the results computed from them, storage/working\_sets.py with the filters of
  api/archive.py. The database's own treatment of JSON is an argument: \<open>jb_store\<close> is what a JSONB column gives back
  for a value and \<open>jb_octets\<close> the length of its text. The triggers that keep a finished selection from
  being written never fire here: no operation writes one.
\<close>

section \<open>Tables\<close>

record working_set =
  wk_id :: int
  wk_workspace_id :: string
  wk_name :: string
  wk_filters :: json
  wk_settings :: json
  wk_input_signature :: string
  wk_member_count :: int
  wk_created_at :: int

record set_member =
  mb_working_set_id :: int
  mb_ordinal :: int
  mb_game_version_id :: int

record set_submission =
  sb_workspace_id :: string
  sb_submission_namespace :: string
  sb_idempotency_key :: string
  sb_request_json :: string
  sb_working_set_id :: int

record analysis_result =
  an_id :: int
  an_workspace_id :: string
  an_input_signature :: string
  an_implementation :: string
  an_implementation_version :: string
  an_settings :: json
  an_result_signature :: string
  an_output :: json
  an_created_at :: int
  an_stored_bytes :: int

record worksets =
  wt_sets :: "working_set list"
  wt_members :: "set_member list"
  wt_submissions :: "set_submission list"
  wt_results :: "analysis_result list"
  wt_next_set :: int
  wt_next_result :: int

record json_columns =
  jb_store :: "json \<Rightarrow> json"
  jb_octets :: "json \<Rightarrow> int"

section \<open>Canonical text\<close>

fun finite_json :: "json \<Rightarrow> bool"
  and finite_list :: "json list \<Rightarrow> bool"
  and finite_items :: "(string \<times> json) list \<Rightarrow> bool" where
  "finite_json (JFloat f) = (case f of Finite _ \<Rightarrow> True | _ \<Rightarrow> False)"
| "finite_json (JList xs) = finite_list xs"
| "finite_json (JObj kvs) = finite_items kvs"
| "finite_json _ = True"
| "finite_list [] = True"
| "finite_list (x # xs) = (finite_json x \<and> finite_list xs)"
| "finite_items [] = True"
| "finite_items ((k, v) # kvs) = (finite_json v \<and> finite_items kvs)"

text \<open>\<open>canonical\<close>; \<open>allow_nan=False\<close> raises.\<close>

definition canonical :: "json \<Rightarrow> string result" where
  "canonical v = (if finite_json v then Inr (dumps True v) else Inl (ValueError ''Out of range float values are not JSON compliant''))"

definition json_digest :: "(string \<Rightarrow> string) \<Rightarrow> json \<Rightarrow> string result" where
  "json_digest sha v = rbind (canonical v) (\<lambda>t. Inr (sha t))"

section \<open>Selections\<close>

record selection_filters =
  fi_provider :: "string option"
  fi_username :: "string option"
  fi_since :: "int option"
  fi_until :: "int option"
  fi_time_class :: "string option"
  fi_variant :: "string option"
  fi_rated :: "bool option"

definition opt_json :: "('a \<Rightarrow> json) \<Rightarrow> 'a option \<Rightarrow> json" where
  "opt_json f v = (case v of None \<Rightarrow> JNull | Some x \<Rightarrow> f x)"

text \<open>\<open>SelectionFilters.model_dump()\<close>.\<close>

definition filters_json :: "selection_filters \<Rightarrow> json" where
  "filters_json f = JObj [(''provider'', opt_json JStr (fi_provider f)), (''username'', opt_json JStr (fi_username f)),
     (''since'', opt_json JInt (fi_since f)), (''until'', opt_json JInt (fi_until f)), (''time_class'', opt_json JStr (fi_time_class f)),
     (''variant'', opt_json JStr (fi_variant f)), (''rated'', opt_json JBool (fi_rated f))]"

text \<open>The accounts that carry or carried the name; those that carry it now come first.\<close>

definition named_accounts :: "catalog \<Rightarrow> string option \<Rightarrow> string \<Rightarrow> (bool \<times> int) list" where
  "named_accounts ct provider name = map (\<lambda>(late, i). (\<not> late, i)) (take 2 (sort_key (\<lambda>x. x)
     (map (\<lambda>p. (pl_username_normalized p \<noteq> name, pl_id p)) (filter (\<lambda>p. Some (pl_provider p) = provider \<and> (pl_username_normalized p = name
        \<or> list_ex (\<lambda>al. al_provider_user_id al = pl_id p \<and> al_username_normalized al = name) (ct_aliases ct))) (ct_players ct)))))"

definition selected_player :: "catalog \<Rightarrow> selection_filters \<Rightarrow> int option result" where
  "selected_player ct f = (case fi_username f of
       None \<Rightarrow> Inr None
     | Some name \<Rightarrow> (case named_accounts ct (fi_provider f) name of
         [] \<Rightarrow> Inr None
       | (current, i) # rest \<Rightarrow> if rest \<noteq> [] \<and> \<not> current
           then Inl (ValidationError ''Historical player alias is ambiguous'' ''ambiguous_player_alias'') else Inr (Some i)))"

definition unless :: "'a option \<Rightarrow> ('a \<Rightarrow> bool) \<Rightarrow> bool" where
  "unless v p = (case v of None \<Rightarrow> True | Some x \<Rightarrow> p x)"

definition selects :: "catalog \<Rightarrow> selection_filters \<Rightarrow> int option \<Rightarrow> game_rec \<Rightarrow> bool" where
  "selects ct f player g \<longleftrightarrow>
     (\<exists>t \<in> set (ct_time_controls ct). tc_id t = gm_time_control_id g \<and> unless (fi_time_class f) (\<lambda>c. ta_time_class (tc_args t) = c))
     \<and> (\<exists>v \<in> set (ct_variants ct). vr_id v = gm_variant_id g \<and> unless (fi_variant f) (\<lambda>n. vr_canonical_name v = n))
     \<and> unless (fi_provider f) (\<lambda>p. gm_provider g = p)
     \<and> unless (fi_since f) (\<lambda>t. case gm_ended_at g of None \<Rightarrow> False | Some e \<Rightarrow> t \<le> e)
     \<and> unless (fi_until f) (\<lambda>t. case gm_ended_at g of None \<Rightarrow> False | Some e \<Rightarrow> e < t)
     \<and> unless (fi_rated f) (\<lambda>r. gm_rated g = r)
     \<and> unless (fi_username f) (\<lambda>name. list_ex (\<lambda>s. se_game_id s = gm_id g
          \<and> (player \<noteq> None \<and> se_provider_user_id s = player \<or> se_provider_user_id s = None \<and> se_username_normalized s = Some name)) (ct_seats ct))"

definition selected_versions :: "catalog \<Rightarrow> selection_filters \<Rightarrow> int option \<Rightarrow> int list" where
  "selected_versions ct f player = List.map_filter gm_current_version_id (sort_key gm_id (filter (selects ct f player) (ct_games ct)))"

section \<open>Creating a selection\<close>

definition ws_by_id :: "int \<Rightarrow> string \<Rightarrow> worksets \<Rightarrow> working_set option" where
  "ws_by_id i ws wt = find_row (\<lambda>w. wk_id w = i \<and> wk_workspace_id w = ws) (wt_sets wt)"

definition get_working_set :: "int \<Rightarrow> string \<Rightarrow> worksets \<Rightarrow> working_set result" where
  "get_working_set i ws wt = (case ws_by_id i ws wt of
       None \<Rightarrow> Inl (NotFound ''Working set not found'' ''working_set_not_found'') | Some w \<Rightarrow> Inr w)"

text \<open>Members of a set beyond an ordinal, in the order of ordinals.\<close>

definition members_after :: "int \<Rightarrow> int \<Rightarrow> worksets \<Rightarrow> set_member list" where
  "members_after i after wt = sort_key mb_ordinal (filter (\<lambda>m. mb_working_set_id m = i \<and> after < mb_ordinal m) (wt_members wt))"

definition member_text :: "set_member \<Rightarrow> string" where
  "member_text m = CHR 0x0A # str_int (mb_ordinal m) @ CHR '':'' # str_int (mb_game_version_id m)"

text \<open>The loop that feeds the members to the hash, a thousand at a time: the text it feeds and the count.\<close>

function hash_members :: "int \<Rightarrow> int \<Rightarrow> worksets \<Rightarrow> string \<times> nat" where
  "hash_members i after wt = (case take 1000 (members_after i after wt) of
       [] \<Rightarrow> ([], 0)
     | rows \<Rightarrow> let (text', n) = hash_members i (mb_ordinal (last rows)) wt in (concat (map member_text rows) @ text', length rows + n))"
  by pat_completeness auto
termination
proof (relation "measure (\<lambda>(i, after, wt). length (members_after i after wt))")
  fix i after :: int and wt :: worksets and x xs
  assume *: "take 1000 (members_after i after wt) = x # xs"
  let ?o = "mb_ordinal (last (x # xs))"
  have l: "last (x # xs) \<in> set (members_after i after wt)" using last_in_set [of "x # xs"] * by (metis in_set_takeD list.distinct(1))
  then have m: "last (x # xs) \<in> set (wt_members wt)" "mb_working_set_id (last (x # xs)) = i" "after < ?o"
    unfolding members_after_def by auto
  have "length (filter (\<lambda>m. mb_working_set_id m = i \<and> ?o < mb_ordinal m) (wt_members wt))
      = length (filter (\<lambda>m. ?o < mb_ordinal m) (filter (\<lambda>m. mb_working_set_id m = i \<and> after < mb_ordinal m) (wt_members wt)))"
    using m(3) by (auto simp: filter_filter intro!: arg_cong [where f = length] filter_cong)
  also have "\<dots> < length (filter (\<lambda>m. mb_working_set_id m = i \<and> after < mb_ordinal m) (wt_members wt))"
    by (rule length_filter_less [of "last (x # xs)"]) (use m in auto)
  finally show "((i, ?o, wt), i, after, wt) \<in> measure (\<lambda>(i, after, wt). length (members_after i after wt))"
    by (simp add: members_after_def)
qed simp

declare hash_members.simps [simp del]

record set_request =
  sq_workspace_id :: string
  sq_name :: string
  sq_filters :: selection_filters
  sq_settings :: json
  sq_idempotency_key :: string
  sq_max_members :: int
  sq_namespace :: string

definition request_json :: "set_request \<Rightarrow> string result" where
  "request_json q = canonical (JObj [(''name'', JStr (sq_name q)), (''filters'', filters_json (sq_filters q)), (''settings'', sq_settings q)])"

definition same_submission :: "set_request \<Rightarrow> set_submission \<Rightarrow> bool" where
  "same_submission q b \<longleftrightarrow> sb_workspace_id b = sq_workspace_id q \<and> sb_submission_namespace b = sq_namespace q
     \<and> sb_idempotency_key b = sq_idempotency_key q"

definition numbered_members :: "int \<Rightarrow> int list \<Rightarrow> set_member list" where
  "numbered_members i vs = map (\<lambda>(k, v). \<lparr>mb_working_set_id = i, mb_ordinal = int k, mb_game_version_id = v\<rparr>) (enumerate 1 vs)"

text \<open>The new set with its members, before its signature and count are written.\<close>

definition pending_set :: "json_columns \<Rightarrow> set_request \<Rightarrow> int \<Rightarrow> int list \<Rightarrow> worksets \<Rightarrow> worksets" where
  "pending_set jb q now vs wt = wt\<lparr>wt_sets := wt_sets wt @ [\<lparr>wk_id = wt_next_set wt, wk_workspace_id = sq_workspace_id q, wk_name = sq_name q,
       wk_filters = jb_store jb (filters_json (sq_filters q)), wk_settings = jb_store jb (sq_settings q), wk_input_signature = ''pending'',
       wk_member_count = 0, wk_created_at = now\<rparr>],
     wt_members := wt_members wt @ numbered_members (wt_next_set wt) vs, wt_next_set := wt_next_set wt + 1\<rparr>"

definition too_large :: "int \<Rightarrow> pyerr" where
  "too_large n = ValidationError (''Selection exceeds the configured limit of '' @ str_int n
     @ '' games; use a smaller selection or an operator-configured limit'') ''working_set_too_large''"

definition seal_set :: "(string \<Rightarrow> string) \<Rightarrow> set_request \<Rightarrow> string \<Rightarrow> int \<Rightarrow> worksets \<Rightarrow> worksets result" where
  "seal_set sha q asked i wt = rbind (canonical (JObj [(''schema'', JInt 1), (''filters'', filters_json (sq_filters q))])) (\<lambda>header.
     case hash_members i 0 wt of (body, n) \<Rightarrow>
       Inr (wt\<lparr>wt_sets := update_where (\<lambda>w. wk_id w = i) (\<lambda>w. w\<lparr>wk_input_signature := sha (header @ body), wk_member_count := int n\<rparr>) (wt_sets wt),
         wt_submissions := wt_submissions wt @ [\<lparr>sb_workspace_id = sq_workspace_id q, sb_submission_namespace = sq_namespace q,
           sb_idempotency_key = sq_idempotency_key q, sb_request_json = asked, sb_working_set_id = i\<rparr>]\<rparr>))"

text \<open>\<open>create_working_set\<close>: the set and whether it is replayed.\<close>

definition create_working_set ::
  "json_columns \<Rightarrow> (string \<Rightarrow> string) \<Rightarrow> set_request \<Rightarrow> int \<Rightarrow> catalog \<Rightarrow> conn \<Rightarrow> db \<Rightarrow> worksets
   \<Rightarrow> (db \<times> conn \<times> worksets \<times> working_set \<times> bool) result" where
  "create_working_set jb sha q now ct c d wt =
     (if sq_max_members q < 1 then Inl (ValidationError ''Working-set member limit must be a positive integer'' ''invalid_working_set_limit'')
      else rbind (submission_context c (sq_workspace_id q) d) (\<lambda>(d1, c1).
        rbind (request_json q) (\<lambda>asked.
        case find_row (same_submission q) (wt_submissions wt) of
          Some b \<Rightarrow>
            if sb_request_json b \<noteq> asked
            then Inl (Conflict ''Idempotency key already identifies a different working set'' ''idempotency_conflict'')
            else rbind (get_working_set (sb_working_set_id b) (sq_workspace_id q) wt) (\<lambda>w. Inr (d1, c1, wt, w, True))
        | None \<Rightarrow>
            rbind (selected_player ct (sq_filters q)) (\<lambda>player.
            rbind (canonical (sq_settings q)) (\<lambda>_.
            let vs = take (nat (sq_max_members q + 1)) (selected_versions ct (sq_filters q) player); i = wt_next_set wt in
            if \<not> distinct vs then Inl (DatabaseError ''UniqueViolation'')
            else if sq_max_members q < int (length vs) then Inl (too_large (sq_max_members q))
            else rbind (seal_set sha q asked i (pending_set jb q now vs wt)) (\<lambda>wt1.
              rbind (get_working_set i (sq_workspace_id q) wt1) (\<lambda>w. Inr (d1, c1, wt1, w, False))))))))"

section \<open>Reading a selection\<close>

record member_page_view =
  mv_items :: "(int \<times> int \<times> int) list"
  mv_next_cursor :: "int option"
  mv_total :: int
  mv_input_signature :: string

definition member_items :: "catalog \<Rightarrow> int \<Rightarrow> int \<Rightarrow> worksets \<Rightarrow> (int \<times> int \<times> int) list" where
  "member_items ct i after wt = List.map_filter (\<lambda>m. map_option (\<lambda>v. (mb_ordinal m, mb_game_version_id m, gv_game_id v))
     (find_row (\<lambda>v. gv_id v = mb_game_version_id m) (ct_versions ct))) (members_after i after wt)"

definition member_page :: "catalog \<Rightarrow> int \<Rightarrow> string \<Rightarrow> int \<Rightarrow> nat \<Rightarrow> worksets \<Rightarrow> member_page_view result" where
  "member_page ct i ws after limit wt = rbind (get_working_set i ws wt) (\<lambda>w.
     let rows = take (limit + 1) (member_items ct i after wt) in
     Inr \<lparr>mv_items = take limit rows, mv_next_cursor = (if limit < length rows then Some (fst (rows ! (limit - 1))) else None),
       mv_total = wk_member_count w, mv_input_signature = wk_input_signature w\<rparr>)"

section \<open>Results\<close>

definition result_signature :: "(string \<Rightarrow> string) \<Rightarrow> working_set \<Rightarrow> string \<Rightarrow> string \<Rightarrow> json \<Rightarrow> string result" where
  "result_signature sha w implementation version settings = json_digest sha (JObj [(''schema'', JInt 1),
     (''inputs'', JStr (wk_input_signature w)), (''implementation'', JStr implementation), (''version'', JStr version),
     (''settings'', JObj [(''working_set'', wk_settings w), (''calculation'', settings)])])"

record result_limits =
  lm_max_analysis_results :: nat
  lm_max_analysis_result_bytes :: int

record calculation =
  ca_implementation :: string
  ca_version :: string
  ca_settings :: json

definition results_of :: "string \<Rightarrow> worksets \<Rightarrow> analysis_result list" where
  "results_of ws wt = filter (\<lambda>r. an_workspace_id r = ws) (wt_results wt)"

definition result_bytes :: "json_columns \<Rightarrow> json \<Rightarrow> json \<Rightarrow> string \<Rightarrow> string \<Rightarrow> string \<Rightarrow> int" where
  "result_bytes jb settings output implementation version ws =
     jb_octets jb settings + jb_octets jb output + int (length implementation) + int (length version) + int (length ws) + 128"

text \<open>\<open>ORDER BY created_at, id LIMIT n\<close>.\<close>

definition oldest_results :: "nat \<Rightarrow> analysis_result list \<Rightarrow> analysis_result list" where
  "oldest_results n rs = take n (sort_key (\<lambda>r. (an_created_at r, an_id r)) rs)"

definition result_quota :: "result_limits \<Rightarrow> string \<Rightarrow> int \<Rightarrow> worksets \<Rightarrow> unit result" where
  "result_quota lm ws incoming wt =
     (let retained = oldest_results (lm_max_analysis_results lm) (results_of ws wt); used = int (length retained);
          bytes = sum_list (map an_stored_bytes retained); most = int (lm_max_analysis_results lm) in
      if most < used + 1 then Inl (QuotaExceeded ''analysis_results'' (max 0 (most - used)) None None)
      else if lm_max_analysis_result_bytes lm < bytes + incoming
      then Inl (QuotaExceeded ''analysis_result_bytes'' (max 0 (lm_max_analysis_result_bytes lm - bytes)) None None) else Inr ())"

definition result_by_signature :: "string \<Rightarrow> string \<Rightarrow> worksets \<Rightarrow> analysis_result option" where
  "result_by_signature ws signature wt = find_row (\<lambda>r. an_workspace_id r = ws \<and> an_result_signature r = signature) (wt_results wt)"

definition save_result ::
  "json_columns \<Rightarrow> (string \<Rightarrow> string) \<Rightarrow> result_limits \<Rightarrow> int \<Rightarrow> string \<Rightarrow> calculation \<Rightarrow> json \<Rightarrow> int \<Rightarrow> worksets
   \<Rightarrow> (worksets \<times> analysis_result \<times> bool) result" where
  "save_result jb sha lm i ws q output now wt =
     rbind (get_working_set i ws wt) (\<lambda>w.
     rbind (result_signature sha w (ca_implementation q) (ca_version q) (ca_settings q)) (\<lambda>signature.
     case result_by_signature ws signature wt of
       Some r \<Rightarrow>
         rbind (canonical (an_output r)) (\<lambda>stored. rbind (canonical output) (\<lambda>given.
         if stored \<noteq> given then Inl (Conflict ''Calculation signature already has a different output'' ''result_conflict'')
         else Inr (wt, r, True)))
     | None \<Rightarrow>
         let settings = JObj [(''working_set'', wk_settings w), (''calculation'', ca_settings q)] in
         rbind (canonical settings) (\<lambda>_. rbind (canonical output) (\<lambda>_.
         let bytes = result_bytes jb settings output (ca_implementation q) (ca_version q) ws;
             r = \<lparr>an_id = wt_next_result wt, an_workspace_id = ws, an_input_signature = wk_input_signature w,
               an_implementation = ca_implementation q, an_implementation_version = ca_version q, an_settings = jb_store jb settings,
               an_result_signature = signature, an_output = jb_store jb output, an_created_at = now, an_stored_bytes = bytes\<rparr> in
         rbind (result_quota lm ws bytes wt) (\<lambda>_.
         Inr (wt\<lparr>wt_results := wt_results wt @ [r], wt_next_result := wt_next_result wt + 1\<rparr>, r, False))))))"

text \<open>\<open>prune_results\<close>: the number of deleted results and their bytes.\<close>

definition prune_results :: "string \<Rightarrow> int \<Rightarrow> int \<Rightarrow> worksets \<Rightarrow> (worksets \<times> nat \<times> int) result" where
  "prune_results ws cutoff limit wt =
     rbind (validate_workspace ws) (\<lambda>_.
     if \<not> (0 \<le> cutoff \<and> cutoff \<le> 253402300799)
     then Inl (ValueError ''Result retention cutoff must be a nonnegative Unix timestamp through year 9999'')
     else if \<not> (1 \<le> limit \<and> limit \<le> 10000) then Inl (ValueError ''Result retention batch size must be between 1 and 10000'')
     else let obsolete = oldest_results (nat limit) (filter (\<lambda>r. an_created_at r < cutoff) (results_of ws wt)); gone = map an_id obsolete in
       Inr (wt\<lparr>wt_results := filter (\<lambda>r. an_id r \<notin> set gone) (wt_results wt)\<rparr>, length obsolete, sum_list (map an_stored_bytes obsolete)))"

definition read_result :: "int \<Rightarrow> string \<Rightarrow> worksets \<Rightarrow> analysis_result result" where
  "read_result i ws wt = (case find_row (\<lambda>r. an_id r = i \<and> an_workspace_id r = ws) (wt_results wt) of
       None \<Rightarrow> Inl (NotFound ''Analysis result not found'' ''result_not_found'') | Some r \<Rightarrow> Inr r)"

definition lookup_result :: "(string \<Rightarrow> string) \<Rightarrow> int \<Rightarrow> string \<Rightarrow> calculation \<Rightarrow> worksets \<Rightarrow> analysis_result result" where
  "lookup_result sha i ws q wt =
     rbind (get_working_set i ws wt) (\<lambda>w.
     rbind (result_signature sha w (ca_implementation q) (ca_version q) (ca_settings q)) (\<lambda>signature.
     case result_by_signature ws signature wt of
       None \<Rightarrow> Inl (NotFound ''Compatible analysis result not found'' ''result_not_found'') | Some r \<Rightarrow> Inr r))"

end
