(* ===== verification/Working_Set_Properties.thy ===== *)
theory Working_Set_Properties
  imports Working_Sets Samples Evidence_Properties "HOL-Library.Multiset"
begin

text \<open>
  What selections and results guarantee, over the definitions of \<open>Working_Sets\<close>: a selection is exact, sealed by its signature and replayed for
  its key, results are found again under the signature of their calculation and stay within the quota.
\<close>

section \<open>Members\<close>

text \<open>The ordinals of each set are distinct, and identifiers are below the next one.\<close>

definition sets_wf :: "worksets \<Rightarrow> bool" where
  "sets_wf wt \<longleftrightarrow> distinct (map (\<lambda>m. (mb_working_set_id m, mb_ordinal m)) (wt_members wt))
     \<and> (\<forall>m \<in> set (wt_members wt). mb_working_set_id m < wt_next_set wt) \<and> (\<forall>w \<in> set (wt_sets wt). wk_id w < wt_next_set wt)
     \<and> distinct (map wk_id (wt_sets wt))"

lemma members_after_sorted:
  assumes "distinct (map (\<lambda>m. (mb_working_set_id m, mb_ordinal m)) (wt_members wt))"
  shows "sorted_wrt (<) (map mb_ordinal (members_after i after wt))"
proof -
  have "distinct (map mb_ordinal (filter (\<lambda>m. mb_working_set_id m = i \<and> after < mb_ordinal m) (wt_members wt)))"
    using assms by (auto simp: distinct_map inj_on_def dest!: distinct_filter)
  then show ?thesis
    by (auto simp: members_after_def strict_sorted_iff distinct_map)
qed

lemma set_members_after: "set (members_after i after wt) = {m \<in> set (wt_members wt). mb_working_set_id m = i \<and> after < mb_ordinal m}"
  by (auto simp: members_after_def)

lemma sorted_same_set:
  fixes xs ys :: "'a list"
  assumes "sorted_wrt (<) (map (f :: 'a \<Rightarrow> int) xs)" "sorted_wrt (<) (map f ys)" "set xs = set ys"
  shows "xs = ys"
proof -
  have "map f xs = map f ys" using assms by (metis (no_types, lifting) image_set strict_sorted_equal)
  moreover have "inj_on f (set xs \<union> set ys)" using assms(1) by (simp add: assms(3) [symmetric] strict_sorted_iff distinct_map)
  ultimately show ?thesis using map_inj_on by blast
qed

lemma members_after_drop:
  assumes d: "distinct (map (\<lambda>m. (mb_working_set_id m, mb_ordinal m)) (wt_members wt))" and n: "0 < n" "take n (members_after i after wt) \<noteq> []"
  shows "members_after i (mb_ordinal (last (take n (members_after i after wt)))) wt = drop n (members_after i after wt)"
proof (rule sorted_same_set [where f = mb_ordinal])
  let ?ms = "members_after i after wt" and ?o = "mb_ordinal (last (take n (members_after i after wt)))"
  have s: "sorted_wrt (\<lambda>x y. mb_ordinal x < mb_ordinal y) (take n ?ms @ drop n ?ms)"
    using members_after_sorted [OF d, of i after] by (simp add: sorted_wrt_map)
  have early: "mb_ordinal x \<le> ?o" if "x \<in> set (take n ?ms)" for x
  proof -
    let ?t = "take n ?ms"
    have "sorted_wrt (\<lambda>x y. mb_ordinal x < mb_ordinal y) ?t" using s by (simp only: sorted_wrt_append)
    then have "sorted_wrt (\<lambda>x y. mb_ordinal x < mb_ordinal y) (butlast ?t @ [last ?t])" using n(2) by simp
    then have "\<forall>y \<in> set (butlast ?t). mb_ordinal y < ?o" by (simp add: sorted_wrt_append)
    moreover have "x \<in> set (butlast ?t) \<or> x = last ?t" using that n(2) by (metis Un_iff append_butlast_last_id empty_iff list.set(1) set_ConsD set_append)
    ultimately show ?thesis by force
  qed
  have late: "?o < mb_ordinal x" if "x \<in> set (drop n ?ms)" for x
    using s that last_in_set [OF n(2)] unfolding sorted_wrt_append by blast
  have "last (take n ?ms) \<in> set ?ms" using in_set_takeD [OF last_in_set [OF n(2)]] .
  then have above: "after < ?o" unfolding set_members_after by blast
  show "sorted_wrt (<) (map mb_ordinal (members_after i ?o wt))" by (rule members_after_sorted [OF d])
  show "sorted_wrt (<) (map mb_ordinal (drop n ?ms))" using s by (simp add: sorted_wrt_append sorted_wrt_map)
  have split: "set ?ms = set (take n ?ms) \<union> set (drop n ?ms)" by (metis append_take_drop_id set_append)
  have "set (members_after i ?o wt) = {m \<in> set ?ms. ?o < mb_ordinal m}" using above by (auto simp: set_members_after)
  also have "\<dots> = set (drop n ?ms)" using early late split by (fastforce simp: not_less)
  finally show "set (members_after i ?o wt) = set (drop n ?ms)" .
qed

text \<open>Feeding the members a thousand at a time feeds all of them, in order.\<close>

lemma hash_members_all:
  assumes "distinct (map (\<lambda>m. (mb_working_set_id m, mb_ordinal m)) (wt_members wt))"
  shows "hash_members i after wt = (concat (map member_text (members_after i after wt)), length (members_after i after wt))"
proof (induction "length (members_after i after wt)" arbitrary: after rule: less_induct)
  case less
  let ?ms = "members_after i after wt"
  show ?case
  proof (cases "take 1000 ?ms")
    case Nil
    then show ?thesis by (simp add: hash_members.simps)
  next
    case (Cons x xs)
    have rest: "members_after i (mb_ordinal (last (take 1000 ?ms))) wt = drop 1000 ?ms"
      by (rule members_after_drop [OF assms]) (simp_all add: Cons)
    have short: "length (members_after i (mb_ordinal (last (take 1000 ?ms))) wt) < length ?ms" unfolding rest using Cons by (cases ?ms) simp_all
    have "hash_members i after wt = (concat (map member_text (take 1000 ?ms)) @ concat (map member_text (drop 1000 ?ms)),
        length (take 1000 ?ms) + length (drop 1000 ?ms))"
      using less [OF short] unfolding rest hash_members.simps [of i after wt] by (simp only: Cons list.case Let_def split_beta fst_conv snd_conv)
    then show ?thesis by (metis (no_types, lifting) append_take_drop_id concat_append length_append map_append)
  qed
qed

section \<open>Selections\<close>

lemma numbered_versions: "map mb_game_version_id (numbered_members i vs) = vs"
  by (simp add: numbered_members_def comp_def split_def)

lemma numbered_ordinals: "map mb_ordinal (numbered_members i vs) = map int [1..<Suc (length vs)]"
proof -
  have "map mb_ordinal (numbered_members i vs) = map int (map fst (enumerate 1 vs))"
    unfolding numbered_members_def map_map by (rule map_cong) auto
  also have "map fst (enumerate 1 vs) = [1..<Suc (length vs)]" unfolding map_fst_enumerate by simp
  finally show ?thesis .
qed

lemma numbered_members_set: "m \<in> set (numbered_members i vs) \<Longrightarrow> mb_working_set_id m = i \<and> 0 < mb_ordinal m"
  by (auto simp: numbered_members_def in_set_enumerate_eq)

definition set_created :: "json_columns \<Rightarrow> (string \<Rightarrow> string) \<Rightarrow> set_request \<Rightarrow> catalog \<Rightarrow> worksets \<Rightarrow> worksets \<Rightarrow> working_set \<Rightarrow> int list \<Rightarrow> bool" where
  "set_created jb sha q ct wt wt' w vs \<longleftrightarrow> (\<exists>player. selected_player ct (sq_filters q) = Inr player \<and> vs = selected_versions ct (sq_filters q) player)
     \<and> int (length vs) \<le> sq_max_members q \<and> map mb_game_version_id (members_after (wk_id w) 0 wt') = vs
     \<and> map mb_ordinal (members_after (wk_id w) 0 wt') = map int [1..<Suc (length vs)] \<and> wk_member_count w = int (length vs)
     \<and> wk_workspace_id w = sq_workspace_id q \<and> wk_id w \<notin> wk_id ` set (wt_sets wt) \<and> wt_sets wt' = wt_sets wt @ [w]
     \<and> (\<forall>i \<in> wk_id ` set (wt_sets wt). members_after i 0 wt' = members_after i 0 wt) \<and> wt_results wt' = wt_results wt
     \<and> (\<exists>header. canonical (JObj [(''schema'', JInt 1), (''filters'', filters_json (sq_filters q))]) = Inr header
          \<and> wk_input_signature w = sha (header @ concat (map member_text (members_after (wk_id w) 0 wt'))))"

lemma pending_members:
  assumes "sets_wf wt"
  shows "members_after (wt_next_set wt) 0 (pending_set jb q now vs wt) = numbered_members (wt_next_set wt) vs"
    "i \<in> wk_id ` set (wt_sets wt) \<Longrightarrow> members_after i 0 (pending_set jb q now vs wt) = members_after i 0 wt"
    "distinct (map (\<lambda>m. (mb_working_set_id m, mb_ordinal m)) (wt_members (pending_set jb q now vs wt)))"
proof -
  let ?n = "numbered_members (wt_next_set wt) vs"
  have ids: "i \<noteq> wt_next_set wt" if "i \<in> wk_id ` set (wt_sets wt)" for i using assms that by (auto simp: sets_wf_def)
  have olds: "mb_working_set_id m \<noteq> wt_next_set wt" if "m \<in> set (wt_members wt)" for m using assms that by (auto simp: sets_wf_def)
  have old: "filter (\<lambda>m. mb_working_set_id m = wt_next_set wt \<and> 0 < mb_ordinal m) (wt_members wt) = []"
    using olds by (auto simp: filter_empty_conv)
  have new: "filter (\<lambda>m. mb_working_set_id m = wt_next_set wt \<and> 0 < mb_ordinal m) ?n = ?n"
    by (rule filter_True) (auto dest: numbered_members_set)
  have sorted: "sorted (map mb_ordinal ?n)" unfolding numbered_ordinals by (simp only: sorted_map) (simp add: sorted_wrt_upt del: upt_Suc)
  show "members_after (wt_next_set wt) 0 (pending_set jb q now vs wt) = ?n"
    using sort_key_id_if_sorted [OF sorted] by (simp add: members_after_def pending_set_def old new)
  show "members_after i 0 (pending_set jb q now vs wt) = members_after i 0 wt" if "i \<in> wk_id ` set (wt_sets wt)"
  proof -
    have "filter (\<lambda>m. mb_working_set_id m = i \<and> 0 < mb_ordinal m) ?n = []" using ids [OF that] by (auto simp: filter_empty_conv dest: numbered_members_set)
    then show ?thesis by (simp add: members_after_def pending_set_def)
  qed
  have "distinct (map mb_ordinal ?n)" unfolding numbered_ordinals by (simp add: distinct_map)
  then have "distinct (map (\<lambda>m. (mb_working_set_id m, mb_ordinal m)) ?n)" by (auto simp: distinct_map inj_on_def)
  then show "distinct (map (\<lambda>m. (mb_working_set_id m, mb_ordinal m)) (wt_members (pending_set jb q now vs wt)))"
    using assms olds by (auto simp: pending_set_def sets_wf_def dest!: numbered_members_set)
qed

lemma create_working_set_new:
  assumes "create_working_set jb sha q now ct c d wt = Inr (d', c', wt', w, False)" "sets_wf wt"
  obtains vs where "set_created jb sha q ct wt wt' w vs" "find_row (same_submission q) (wt_submissions wt) = None"
    "\<exists>asked. request_json q = Inr asked \<and> wt_submissions wt' = wt_submissions wt @ [\<lparr>sb_workspace_id = sq_workspace_id q,
       sb_submission_namespace = sq_namespace q, sb_idempotency_key = sq_idempotency_key q, sb_request_json = asked, sb_working_set_id = wk_id w\<rparr>]"
proof -
  have none: "find_row (same_submission q) (wt_submissions wt) = None"
    using assms(1) by (cases "find_row (same_submission q) (wt_submissions wt)") (auto simp: create_working_set_def rbind_eq_Inr split: if_splits)
  obtain asked player where asked: "request_json q = Inr asked"
    and pl: "selected_player ct (sq_filters q) = Inr player" and pos: "1 \<le> sq_max_members q"
    and len: "int (length (take (nat (sq_max_members q + 1)) (selected_versions ct (sq_filters q) player))) \<le> sq_max_members q"
    and seal: "seal_set sha q asked (wt_next_set wt) (pending_set jb q now
        (take (nat (sq_max_members q + 1)) (selected_versions ct (sq_filters q) player)) wt) = Inr wt'"
    and w: "get_working_set (wt_next_set wt) (sq_workspace_id q) wt' = Inr w"
    using assms(1) by (auto simp: create_working_set_def none rbind_eq_Inr Let_def split: if_splits)
  define vs where "vs = selected_versions ct (sq_filters q) player"
  have vs: "take (nat (sq_max_members q + 1)) (selected_versions ct (sq_filters q) player) = vs" using len pos by (auto simp: vs_def)
  note seal = seal [unfolded vs] and mem = pending_members [OF assms(2), where jb = jb and q = q and now = now and vs = vs]
  let ?i = "wt_next_set wt" and ?p = "pending_set jb q now vs wt"
  obtain header where header: "canonical (JObj [(''schema'', JInt 1), (''filters'', filters_json (sq_filters q))]) = Inr header"
    and wt': "wt' = ?p\<lparr>wt_sets := update_where (\<lambda>w. wk_id w = ?i) (\<lambda>w. w\<lparr>wk_input_signature := sha (header @ concat (map member_text (members_after ?i 0 ?p))),
          wk_member_count := int (length (members_after ?i 0 ?p))\<rparr>) (wt_sets ?p),
        wt_submissions := wt_submissions ?p @ [\<lparr>sb_workspace_id = sq_workspace_id q, sb_submission_namespace = sq_namespace q,
          sb_idempotency_key = sq_idempotency_key q, sb_request_json = asked, sb_working_set_id = ?i\<rparr>]\<rparr>"
    using seal unfolding seal_set_def hash_members_all [OF mem(3)] by (auto simp: rbind_eq_Inr)
  have fresh: "\<forall>w \<in> set (wt_sets wt). wk_id w \<noteq> ?i" using assms(2) by (auto simp: sets_wf_def)
  have same: "members_after i 0 wt' = members_after i 0 ?p" for i by (simp add: wt' members_after_def)
  have keep: "update_where (\<lambda>w. wk_id w = ?i) f (wt_sets wt) = wt_sets wt" for f using fresh by (simp add: update_where_def map_idI)
  define sg n where sg: "sg = sha (header @ concat (map member_text (members_after ?i 0 ?p)))" and n: "n = length (members_after ?i 0 ?p)"
  have n': "n = length vs" by (simp add: n mem(1) numbered_members_def)
  have "wt_sets wt' = wt_sets wt @ [\<lparr>wk_id = ?i, wk_workspace_id = sq_workspace_id q, wk_name = sq_name q,
       wk_filters = jb_store jb (filters_json (sq_filters q)), wk_settings = jb_store jb (sq_settings q), wk_input_signature = sg,
       wk_member_count = int n, wk_created_at = now\<rparr>]"
    unfolding wt' sg [symmetric] n [symmetric] by (simp add: pending_set_def keep)
  then have sets: "wt_sets wt' = wt_sets wt @ [w]" and wid: "wk_id w = ?i" and wws: "wk_workspace_id w = sq_workspace_id q"
    and count: "wk_member_count w = int (length vs)" and sig: "wk_input_signature w = sha (header @ concat (map member_text (members_after ?i 0 ?p)))"
    using w fresh by (auto simp: n' sg get_working_set_def ws_by_id_def find_row_append split: option.splits dest: find_row_Some)
  show ?thesis
  proof (rule that [OF _ none])
    show "set_created jb sha q ct wt wt' w vs"
      unfolding set_created_def same wid mem(1) numbered_versions numbered_ordinals
      using pl len vs sets wws count fresh header sig mem(1,2)
      by (auto simp: vs_def wt' pending_set_def)
    show "\<exists>asked. request_json q = Inr asked \<and> wt_submissions wt' = wt_submissions wt @ [\<lparr>sb_workspace_id = sq_workspace_id q,
       sb_submission_namespace = sq_namespace q, sb_idempotency_key = sq_idempotency_key q, sb_request_json = asked, sb_working_set_id = wk_id w\<rparr>]"
      using asked by (simp add: wt' wid pending_set_def)
  qed
qed

lemma create_working_set_replayed:
  assumes "create_working_set jb sha q now ct c d wt = Inr (d', c', wt', w, True)"
  shows "wt' = wt" "w \<in> set (wt_sets wt)" "wk_workspace_id w = sq_workspace_id q"
proof -
  obtain b where "find_row (same_submission q) (wt_submissions wt) = Some b" "wt' = wt"
    "get_working_set (sb_working_set_id b) (sq_workspace_id q) wt = Inr w"
    using assms by (cases "find_row (same_submission q) (wt_submissions wt)") (auto simp: create_working_set_def rbind_eq_Inr Let_def split: if_splits)
  then show "wt' = wt" "w \<in> set (wt_sets wt)" "wk_workspace_id w = sq_workspace_id q"
    by (auto simp: get_working_set_def ws_by_id_def split: option.splits dest!: find_row_Some)
qed

text \<open>
  C38. A selection is exact, sealed and replayed. A new working set holds exactly the current versions of the games its filters select, numbered from one in the
  order of the games, no more than its limit; its signature is the hash of its filters and all its members; the
  sets, members and results before it stay as they are. Asking again with the same key and the same request, however the
  catalog has changed since, returns the same set and changes nothing.
\<close>

theorem working_set_exact:
  assumes "create_working_set jb sha q now ct c d wt = Inr (d', c', wt', w, replayed)" "sets_wf wt"
  shows "(if replayed then wt' = wt \<and> w \<in> set (wt_sets wt) else (\<exists>vs. set_created jb sha q ct wt wt' w vs))
    \<and> (\<exists>d3 c3. create_working_set jb sha q now2 ct2 c d wt' = Inr (d3, c3, wt', w, True))"
proof (cases replayed)
  case True
  have r: "create_working_set jb sha q now ct c d wt = Inr (d', c', wt', w, True)" using assms(1) True by simp
  obtain b where b: "find_row (same_submission q) (wt_submissions wt) = Some b"
    using r by (cases "find_row (same_submission q) (wt_submissions wt)") (auto simp: create_working_set_def rbind_eq_Inr Let_def split: if_splits)
  have "create_working_set jb sha q now2 ct2 c d wt = Inr (d', c', wt', w, True)" using r by (simp add: create_working_set_def b cong: if_cong)
  then show ?thesis using create_working_set_replayed [OF r] True by auto
next
  case False
  have r: "create_working_set jb sha q now ct c d wt = Inr (d', c', wt', w, False)" using assms(1) False by simp
  obtain vs asked where made: "set_created jb sha q ct wt wt' w vs" and none: "find_row (same_submission q) (wt_submissions wt) = None"
    and asked: "request_json q = Inr asked" "wt_submissions wt' = wt_submissions wt @ [\<lparr>sb_workspace_id = sq_workspace_id q,
       sb_submission_namespace = sq_namespace q, sb_idempotency_key = sq_idempotency_key q, sb_request_json = asked, sb_working_set_id = wk_id w\<rparr>]"
    using create_working_set_new [OF r assms(2)] by metis
  have found: "find_row (same_submission q) (wt_submissions wt') = Some \<lparr>sb_workspace_id = sq_workspace_id q,
       sb_submission_namespace = sq_namespace q, sb_idempotency_key = sq_idempotency_key q, sb_request_json = asked, sb_working_set_id = wk_id w\<rparr>"
    using none by (simp add: asked(2) find_row_append same_submission_def)
  have fresh: "wk_id w \<notin> wk_id ` set (wt_sets wt)" and sets: "wt_sets wt' = wt_sets wt @ [w]" "wk_workspace_id w = sq_workspace_id q"
    using made by (simp_all add: set_created_def)
  have get: "get_working_set (wk_id w) (sq_workspace_id q) wt' = Inr w"
  proof -
    have "find_row (\<lambda>x. wk_id x = wk_id w \<and> wk_workspace_id x = sq_workspace_id q) (wt_sets wt) = None"
      unfolding find_row_None
    proof (intro ballI notI)
      fix x assume "x \<in> set (wt_sets wt)" "wk_id x = wk_id w \<and> wk_workspace_id x = sq_workspace_id q"
      then show False using fresh imageI [of x "set (wt_sets wt)" wk_id] by simp
    qed
    then show ?thesis using sets by (simp add: get_working_set_def ws_by_id_def find_row_append)
  qed
  have "\<not> sq_max_members q < 1" "submission_context c (sq_workspace_id q) d = Inr (d', c')"
    using assms(1) none by (auto simp: create_working_set_def rbind_eq_Inr Let_def split: if_splits)
  then have "create_working_set jb sha q now2 ct2 c d wt' = Inr (d', c', wt', w, True)"
    using asked(1) found get by (simp add: create_working_set_def)
  then show ?thesis using made False by auto
qed

definition no_worksets :: worksets where
  "no_worksets = \<lparr>wt_sets = [], wt_members = [], wt_submissions = [], wt_results = [], wt_next_set = 1, wt_next_result = 1\<rparr>"

definition plain_columns :: json_columns where
  "plain_columns = \<lparr>jb_store = (\<lambda>v. v), jb_octets = (\<lambda>v. int (length (dumps True v)))\<rparr>"

definition every_game :: set_request where
  "every_game = \<lparr>sq_workspace_id = ''local'', sq_name = ''all'', sq_filters = \<lparr>fi_provider = None, fi_username = None, fi_since = None, fi_until = None,
     fi_time_class = None, fi_variant = None, fi_rated = None\<rparr>, sq_settings = JObj [], sq_idempotency_key = ''k'', sq_max_members = 10, sq_namespace = ''api''\<rparr>"

definition two_games :: catalog where
  "two_games = empty_catalog\<lparr>ct_games := map (\<lambda>(i, v). (hd (ct_games one_game_catalog))\<lparr>gm_id := i, gm_current_version_id := Some v,
     gm_time_control_id := 1, gm_variant_id := 1\<rparr>) [(2, 8), (1, 5)],
     ct_time_controls := [\<lparr>tc_id = 1, tc_args = \<lparr>ta_kind = ''realtime'', ta_initial_seconds = None, ta_increment_seconds = None, ta_days = None,
       ta_time_class = ''blitz'', ta_raw_label = []\<rparr>\<rparr>],
     ct_variants := [\<lparr>vr_id = 1, vr_canonical_name = ''standard'', vr_provider = ''lichess'', vr_provider_native_name = ''standard'', vr_mapped = True\<rparr>]\<rparr>"

theorem working_set_exact_witness:
  "case create_working_set plain_columns sample_sha every_game 7 two_games (fresh_conn 7) empty_db no_worksets of
     Inr (d, c, wt, w, replayed) \<Rightarrow> \<not> replayed \<and> map mb_game_version_id (wt_members wt) = [5, 8] \<and> wk_member_count w = 2
       \<and> (\<exists>d3 c3. create_working_set plain_columns sample_sha every_game 9 empty_catalog (fresh_conn 7) empty_db wt = Inr (d3, c3, wt, w, True))
   | Inl _ \<Rightarrow> False"
proof -
  have "case create_working_set plain_columns sample_sha every_game 7 two_games (fresh_conn 7) empty_db no_worksets of
      Inr (d, c, wt, w, replayed) \<Rightarrow> \<not> replayed \<and> map mb_game_version_id (wt_members wt) = [5, 8] \<and> wk_member_count w = 2 | Inl _ \<Rightarrow> False"
    by code_simp
  then obtain d c wt w where run: "create_working_set plain_columns sample_sha every_game 7 two_games (fresh_conn 7) empty_db no_worksets = Inr (d, c, wt, w, False)"
    and m: "map mb_game_version_id (wt_members wt) = [5, 8]" "wk_member_count w = 2"
    by (auto split: sum.splits)
  have "sets_wf no_worksets" by (simp add: sets_wf_def no_worksets_def)
  from working_set_exact [OF run this, of 9 empty_catalog] m show ?thesis by (simp add: run)
qed

section \<open>Results\<close>

text \<open>
  A result is found again. A calculation that was saved is looked up under its working set, implementation, version and settings, by its own workspace;
  saving the same output again returns the stored result and changes nothing, whatever the limits are by then, provided the database gives JSON
  back with the same canonical text; another output for the same calculation is refused and changes nothing.
\<close>

lemma saved_result_found:
  assumes "save_result jb sha lm i ws q output now wt = Inr (wt', r, replayed)"
  shows "lookup_result sha i ws q wt' = Inr r \<and> an_workspace_id r = ws
    \<and> (if replayed then wt' = wt else wt_results wt' = wt_results wt @ [r] \<and> an_output r = jb_store jb output)
    \<and> (canonical (jb_store jb output) = canonical output \<longrightarrow> save_result jb sha lm2 i ws q output now2 wt' = Inr (wt', r, True))
    \<and> (canonical other \<noteq> canonical (an_output r) \<longrightarrow> isl (save_result jb sha lm2 i ws q other now2 wt'))"
proof -
  obtain w signature where w: "get_working_set i ws wt = Inr w"
    and sg: "result_signature sha w (ca_implementation q) (ca_version q) (ca_settings q) = Inr signature"
    using assms by (auto simp: save_result_def rbind_eq_Inr)
  have kept: "get_working_set i ws wt' = Inr w" and found: "result_by_signature ws signature wt' = Some r"
    and new: "if replayed then wt' = wt \<and> canonical (an_output r) = canonical output \<and> isl (canonical output) = False
      else wt_results wt' = wt_results wt @ [r] \<and> an_output r = jb_store jb output \<and> isl (canonical output) = False"
  proof (atomize (full), cases "result_by_signature ws signature wt")
    case None
    then show "get_working_set i ws wt' = Inr w \<and> result_by_signature ws signature wt' = Some r
      \<and> (if replayed then wt' = wt \<and> canonical (an_output r) = canonical output \<and> isl (canonical output) = False
        else wt_results wt' = wt_results wt @ [r] \<and> an_output r = jb_store jb output \<and> isl (canonical output) = False)"
      using assms w sg
      by (auto simp: save_result_def rbind_eq_Inr Let_def get_working_set_def ws_by_id_def result_by_signature_def find_row_append split: option.splits)
  next
    case (Some x)
    then show "get_working_set i ws wt' = Inr w \<and> result_by_signature ws signature wt' = Some r
      \<and> (if replayed then wt' = wt \<and> canonical (an_output r) = canonical output \<and> isl (canonical output) = False
        else wt_results wt' = wt_results wt @ [r] \<and> an_output r = jb_store jb output \<and> isl (canonical output) = False)"
      using assms w sg by (auto simp: save_result_def rbind_eq_Inr split: if_splits)
  qed
  have ws: "an_workspace_id r = ws" using found by (auto simp: result_by_signature_def dest: find_row_Some)
  have look: "lookup_result sha i ws q wt' = Inr r" using kept sg found by (simp add: lookup_result_def)
  have again: "save_result jb sha lm2 i ws q v now2 wt' = rbind (canonical (an_output r)) (\<lambda>stored. rbind (canonical v) (\<lambda>given.
      if stored \<noteq> given then Inl (Conflict ''Calculation signature already has a different output'' ''result_conflict'') else Inr (wt', r, True)))" for v
    using kept sg found by (simp add: save_result_def)
  have same: "save_result jb sha lm2 i ws q output now2 wt' = Inr (wt', r, True)" if "canonical (jb_store jb output) = canonical output"
    using new that unfolding again by (cases "canonical output") (auto split: if_splits)
  have refused: "isl (save_result jb sha lm2 i ws q other now2 wt')" if "canonical other \<noteq> canonical (an_output r)"
    using that unfolding again by (cases "canonical other"; cases "canonical (an_output r)") auto
  show ?thesis using ws look same refused new by (auto split: if_splits)
qed

definition calm_set :: "working_set" where
  "calm_set = \<lparr>wk_id = 1, wk_workspace_id = ''local'', wk_name = ''all'', wk_filters = JObj [], wk_settings = JObj [], wk_input_signature = ''s'',
     wk_member_count = 0, wk_created_at = 0\<rparr>"

definition counting :: calculation where
  "counting = \<lparr>ca_implementation = ''count'', ca_version = ''1'', ca_settings = JObj []\<rparr>"

definition one_result_limits :: result_limits where
  "one_result_limits = \<lparr>lm_max_analysis_results = 1, lm_max_analysis_result_bytes = 1000\<rparr>"

lemma calm_save:
  obtains wt r where "save_result plain_columns sample_sha one_result_limits 1 ''local'' counting (JInt 4) 9 (no_worksets\<lparr>wt_sets := [calm_set]\<rparr>) = Inr (wt, r, False)"
    "an_output r = JInt 4" "length (wt_results wt) = 1"
proof -
  have "case save_result plain_columns sample_sha one_result_limits 1 ''local'' counting (JInt 4) 9 (no_worksets\<lparr>wt_sets := [calm_set]\<rparr>) of
      Inr (wt, r, replayed) \<Rightarrow> \<not> replayed \<and> an_output r = JInt 4 \<and> length (wt_results wt) = 1 | Inl _ \<Rightarrow> False" by code_simp
  then show ?thesis using that by (auto split: sum.splits)
qed

section \<open>The quota of results\<close>

text \<open>The results of every workspace within the limits, with sizes and identifiers as the table assigns them.\<close>

definition results_ok :: "result_limits \<Rightarrow> worksets \<Rightarrow> bool" where
  "results_ok lm wt \<longleftrightarrow> (\<forall>ws. length (results_of ws wt) \<le> lm_max_analysis_results lm
       \<and> sum_list (map an_stored_bytes (results_of ws wt)) \<le> lm_max_analysis_result_bytes lm)
     \<and> (\<forall>r \<in> set (wt_results wt). 0 \<le> an_stored_bytes r \<and> an_id r < wt_next_result wt)
     \<and> distinct (map (\<lambda>r. (an_workspace_id r, an_result_signature r)) (wt_results wt))"

text \<open>Saving and pruning by anyone, and new selections.\<close>

inductive result_step :: "json_columns \<Rightarrow> (string \<Rightarrow> string) \<Rightarrow> result_limits \<Rightarrow> worksets \<Rightarrow> worksets \<Rightarrow> bool" for jb sha lm where
  save: "save_result jb sha lm i ws q output now wt = Inr (wt', r, replayed) \<Longrightarrow> result_step jb sha lm wt wt'"
| prune: "prune_results ws cutoff limit wt = Inr (wt', n, bytes) \<Longrightarrow> result_step jb sha lm wt wt'"
| create: "create_working_set jb sha q now ct c d wt = Inr (d', c', wt', w, replayed) \<Longrightarrow> result_step jb sha lm wt wt'"

lemma result_quota_Inr:
  assumes "result_quota lm ws incoming wt = Inr ()"
  shows "length (results_of ws wt) < lm_max_analysis_results lm"
    "sum_list (map an_stored_bytes (results_of ws wt)) + incoming \<le> lm_max_analysis_result_bytes lm"
proof -
  let ?rs = "results_of ws wt" and ?n = "lm_max_analysis_results lm" and ?k = "\<lambda>r. (an_created_at r, an_id r)"
  have len: "length (oldest_results ?n ?rs) < ?n" and sum: "sum_list (map an_stored_bytes (oldest_results ?n ?rs)) + incoming \<le> lm_max_analysis_result_bytes lm"
    using assms by (auto simp: result_quota_def Let_def split: if_splits)
  then show "length ?rs < ?n" by (auto simp: oldest_results_def)
  then have "oldest_results ?n ?rs = sort_key ?k ?rs" by (simp add: oldest_results_def)
  moreover have "mset (map an_stored_bytes (sort_key ?k ?rs)) = mset (map an_stored_bytes ?rs)" by (simp only: mset_map mset_sort)
  then have "sum_list (map an_stored_bytes (sort_key ?k ?rs)) = sum_list (map an_stored_bytes ?rs)"
    by (simp only: sum_mset_sum_list [symmetric])
  ultimately show "sum_list (map an_stored_bytes ?rs) + incoming \<le> lm_max_analysis_result_bytes lm" using sum by simp
qed

lemma sum_filter_le:
  fixes f :: "'a \<Rightarrow> int"
  assumes "\<forall>x \<in> set xs. 0 \<le> f x"
  shows "sum_list (map f (filter p xs)) \<le> sum_list (map f xs)"
  using assms by (induction xs) auto

lemma results_ok_filter:
  assumes "results_ok lm wt"
  shows "results_ok lm (wt\<lparr>wt_results := filter p (wt_results wt)\<rparr>)"
proof -
  have rs: "results_of ws (wt\<lparr>wt_results := filter p (wt_results wt)\<rparr>) = filter p (results_of ws wt)" for ws
    by (simp add: results_of_def conj_commute)
  have "\<forall>r \<in> set (results_of ws wt). 0 \<le> an_stored_bytes r" for ws using assms by (auto simp: results_ok_def results_of_def)
  note sum = sum_filter_le [OF this, of p]
  show ?thesis
    using assms sum unfolding results_ok_def rs by (force simp: distinct_map_filter intro: order_trans [OF length_filter_le] order_trans [OF sum])
qed

lemma save_result_cases:
  assumes "save_result jb sha lm i ws q output now wt = Inr (wt', r, replayed)"
  obtains "wt' = wt"
  | "wt' = wt\<lparr>wt_results := wt_results wt @ [r], wt_next_result := wt_next_result wt + 1\<rparr>" "result_quota lm ws (an_stored_bytes r) wt = Inr ()"
      "an_workspace_id r = ws" "an_id r = wt_next_result wt" "result_by_signature ws (an_result_signature r) wt = None"
      "(\<And>v. 0 \<le> jb_octets jb v) \<Longrightarrow> 0 \<le> an_stored_bytes r"
proof -
  obtain w signature where w: "get_working_set i ws wt = Inr w"
    and sg: "result_signature sha w (ca_implementation q) (ca_version q) (ca_settings q) = Inr signature"
    using assms by (auto simp: save_result_def rbind_eq_Inr)
  show ?thesis
  proof (cases "result_by_signature ws signature wt")
    case None
    show ?thesis by (rule that(2)) (use assms None in \<open>auto simp: save_result_def w sg rbind_eq_Inr Let_def result_bytes_def\<close>)
  next
    case (Some x)
    then show ?thesis using assms that(1) by (auto simp: save_result_def w sg rbind_eq_Inr split: if_splits)
  qed
qed

lemma create_keeps_results:
  assumes "create_working_set jb sha q now ct c d wt = Inr (d', c', wt', w, replayed)"
  shows "wt_results wt' = wt_results wt" "wt_next_result wt' = wt_next_result wt"
  using assms
  by (cases "find_row (same_submission q) (wt_submissions wt)";
      auto simp: create_working_set_def rbind_eq_Inr Let_def seal_set_def pending_set_def split: if_splits prod.splits)+

lemma result_step_ok:
  assumes "result_step jb sha lm wt wt'" "results_ok lm wt" "\<And>v. 0 \<le> jb_octets jb v"
  shows "results_ok lm wt' \<and> wt_next_result wt \<le> wt_next_result wt'
    \<and> (\<forall>r \<in> set (wt_results wt'). an_id r < wt_next_result wt \<longrightarrow> r \<in> set (wt_results wt))"
  using assms(1)
proof cases
  case (save i ws q v now r replayed)
  from save show ?thesis
  proof (cases rule: save_result_cases)
    case 2
    have bytes: "0 \<le> an_stored_bytes r" using 2(6) assms(3) by blast
    have rs: "results_of x wt' = (if x = ws then results_of x wt @ [r] else results_of x wt)" for x
      using 2(3) by (simp add: results_of_def 2(1))
    have new: "(an_workspace_id x, an_result_signature x) \<noteq> (ws, an_result_signature r)" if "x \<in> set (wt_results wt)" for x
      using 2(5) that by (auto simp: result_by_signature_def find_row_None)
    have fit: "length (results_of x wt') \<le> lm_max_analysis_results lm \<and> sum_list (map an_stored_bytes (results_of x wt')) \<le> lm_max_analysis_result_bytes lm" for x
      using result_quota_Inr [OF 2(2)] assms(2) by (auto simp: rs results_ok_def)
    have "distinct (map (\<lambda>r. (an_workspace_id r, an_result_signature r)) (wt_results wt'))"
      using assms(2) new 2(3) by (fastforce simp: results_ok_def 2(1))
    with fit bytes assms(2) 2(4) show ?thesis by (auto simp: results_ok_def 2(1))
  qed (use assms(2) in simp)
next
  case (prune ws cutoff limit n bytes)
  then obtain p where "wt' = wt\<lparr>wt_results := filter p (wt_results wt)\<rparr>" by (auto simp: prune_results_def rbind_eq_Inr Let_def split: if_splits)
  then show ?thesis using results_ok_filter [OF assms(2)] by simp
next
  case (create q now ct c d d' c' w replayed)
  note k = create_keeps_results [OF this]
  have "results_of ws wt' = results_of ws wt" for ws by (simp add: results_of_def k)
  then show ?thesis using assms(2) by (simp add: results_ok_def k)
qed

text \<open>
  C39. Results stay within the quota. From a table within the limits, over any sequence of saved calculations, pruning and new selections by any workspace, every workspace
  keeps at most its number of results and bytes, a calculation has one result, and a result is never changed: what has an
  identifier given before is as it was. The lengths of JSON texts are read as nonnegative.
\<close>

theorem results_within_quota:
  assumes "(result_step jb sha lm)\<^sup>*\<^sup>* wt wt'" "results_ok lm wt" "\<And>v. 0 \<le> jb_octets jb v"
  shows "length (results_of ws wt') \<le> lm_max_analysis_results lm
    \<and> sum_list (map an_stored_bytes (results_of ws wt')) \<le> lm_max_analysis_result_bytes lm
    \<and> distinct (map (\<lambda>r. (an_workspace_id r, an_result_signature r)) (wt_results wt'))
    \<and> (\<forall>r \<in> set (wt_results wt'). an_id r < wt_next_result wt \<longrightarrow> r \<in> set (wt_results wt))"
proof -
  from assms(1) have "results_ok lm wt' \<and> wt_next_result wt \<le> wt_next_result wt'
      \<and> (\<forall>r \<in> set (wt_results wt'). an_id r < wt_next_result wt \<longrightarrow> r \<in> set (wt_results wt))"
  proof (induction rule: rtranclp_induct)
    case (step y z)
    then show ?case using result_step_ok [OF step(2) _ assms(3)] by fastforce
  qed (use assms(2) in simp)
  then show ?thesis by (simp add: results_ok_def)
qed

theorem results_within_quota_witness:
  "case save_result plain_columns sample_sha one_result_limits 1 ''local'' counting (JInt 4) 9 (no_worksets\<lparr>wt_sets := [calm_set]\<rparr>) of
     Inr (wt, r, replayed) \<Rightarrow> length (wt_results wt) = 1 \<and> length (results_of ''local'' wt) \<le> 1
       \<and> sum_list (map an_stored_bytes (results_of ''local'' wt)) \<le> 1000
   | Inl _ \<Rightarrow> False"
proof -
  let ?wt = "no_worksets\<lparr>wt_sets := [calm_set]\<rparr>"
  obtain wt r where run: "save_result plain_columns sample_sha one_result_limits 1 ''local'' counting (JInt 4) 9 ?wt = Inr (wt, r, False)"
    and one: "length (wt_results wt) = 1" by (rule calm_save)
  have step: "(result_step plain_columns sample_sha one_result_limits)\<^sup>*\<^sup>* ?wt wt" using result_step.save [OF run] by blast
  have ok: "results_ok one_result_limits ?wt" by (simp add: results_ok_def results_of_def no_worksets_def one_result_limits_def)
  have pos: "0 \<le> jb_octets plain_columns v" for v by (simp add: plain_columns_def)
  have lim: "lm_max_analysis_results one_result_limits = 1" "lm_max_analysis_result_bytes one_result_limits = 1000" by (simp_all add: one_result_limits_def)
  from results_within_quota [OF step ok pos, of "''local''"] one show ?thesis by (simp add: run lim)
qed

end
