(* ===== verification/Artifacts.thy ===== *)
theory Artifacts
  imports Working_Sets
begin

text \<open>
  Export artifacts of a workspace, storage/artifacts.py with the constraints and triggers of 0020\_archive\_jobs.sql: durable requests, the
  life of an artifact from its reservation to its expiry, its parts as objects of a private namespace, leases of downloads, and
  retention in bounded batches. A deletion of parts commits part by part, so it returns the state it leaves with its
  result; \<open>fault\<close> is an error of the object store, by the ordinal of the part.
\<close>

section \<open>Tables\<close>

record archive_job =
  aj_job_id :: int
  aj_workspace_id :: string
  aj_operation :: string
  aj_request :: json
  aj_working_set_id :: "int option"

datatype artifact_state = Reserved | Building | Ready | Pruning | Expired

record artifact =
  af_job_id :: int
  af_workspace_id :: string
  af_state :: artifact_state
  af_reserved_bytes :: int
  af_created_at :: int
  af_expires_at :: int
  af_manifest :: "json option"

record artifact_chunk =
  ac_job_id :: int
  ac_ordinal :: int
  ac_archive_object_id :: int

record download_lease =
  dl_lease_id :: string
  dl_job_id :: int
  dl_workspace_id :: string
  dl_expires_at :: rat

record shelf =
  sh_jobs :: "archive_job list"
  sh_artifacts :: "artifact list"
  sh_chunks :: "artifact_chunk list"
  sh_downloads :: "download_lease list"

record artifact_settings =
  as_artifact_max_count :: int
  as_artifact_max_bytes :: int
  as_artifact_ttl_seconds :: int
  as_async_export_max_bytes :: int

definition CHUNK_BYTES :: nat where
  "CHUNK_BYTES = 1024 * 1024"

definition artifact_prefix :: "(string \<Rightarrow> string) \<Rightarrow> string \<Rightarrow> int \<Rightarrow> string result" where
  "artifact_prefix sha ws job = rbind (validate_workspace ws) (\<lambda>_.
     if job < 1 then Inl (ValueError ''Artifact job identity must be positive'')
     else Inr (''artifacts/'' @ sha ws @ ''/'' @ str_int job @ ''/''))"

section \<open>Durable requests\<close>

definition record_archive_job :: "json_columns \<Rightarrow> int \<Rightarrow> string \<Rightarrow> string \<Rightarrow> json \<Rightarrow> db \<Rightarrow> shelf \<Rightarrow> shelf result" where
  "record_archive_job jb job ws operation asked d sh =
     rbind (require_job d job ws) (\<lambda>_. rbind (canonical asked) (\<lambda>_.
     if operation \<notin> {''build_working_set'', ''prepare_export''} \<or> as_dict asked = None then Inl (DatabaseError ''CheckViolation'')
     else if find_row (\<lambda>j. aj_job_id j = job) (sh_jobs sh) \<noteq> None then Inl (DatabaseError ''UniqueViolation'')
     else Inr (sh\<lparr>sh_jobs := sh_jobs sh @ [\<lparr>aj_job_id = job, aj_workspace_id = ws, aj_operation = operation,
       aj_request = jb_store jb asked, aj_working_set_id = None\<rparr>]\<rparr>)))"

definition get_archive_job :: "int \<Rightarrow> string \<Rightarrow> shelf \<Rightarrow> archive_job result" where
  "get_archive_job job ws sh = (case find_row (\<lambda>j. aj_job_id j = job \<and> aj_workspace_id j = ws) (sh_jobs sh) of
       None \<Rightarrow> Inl (NotFound ''Archive job not found'' ''archive_job_not_found'') | Some j \<Rightarrow> Inr j)"

definition execution_request :: "int \<Rightarrow> shelf \<Rightarrow> archive_job result" where
  "execution_request job sh = (case find_row (\<lambda>j. aj_job_id j = job) (sh_jobs sh) of
       None \<Rightarrow> Inl (ValueError ''Internal archive job has no durable request'') | Some j \<Rightarrow> Inr j)"

text \<open>The trigger keeps a finalized selection.\<close>

definition complete_working_set_job :: "int \<Rightarrow> string \<Rightarrow> int \<Rightarrow> shelf \<Rightarrow> shelf result" where
  "complete_working_set_job job ws selection sh = rbind (get_archive_job job ws sh) (\<lambda>_.
     if list_ex (\<lambda>j. aj_job_id j = job \<and> aj_working_set_id j \<noteq> None \<and> aj_working_set_id j \<noteq> Some selection) (sh_jobs sh)
     then Inl (DatabaseError ''RaiseException'')
     else Inr (sh\<lparr>sh_jobs := update_where (\<lambda>j. aj_job_id j = job) (\<lambda>j. j\<lparr>aj_working_set_id := Some selection\<rparr>) (sh_jobs sh)\<rparr>))"

section \<open>The life of an artifact\<close>

definition held :: "string \<Rightarrow> shelf \<Rightarrow> artifact list" where
  "held ws sh = filter (\<lambda>f. af_workspace_id f = ws \<and> af_state f \<noteq> Expired) (sh_artifacts sh)"

definition artifact_quota :: "artifact_settings \<Rightarrow> string \<Rightarrow> shelf \<Rightarrow> unit result" where
  "artifact_quota s ws sh =
     (let used = int (length (held ws sh)); bytes = sum_list (map af_reserved_bytes (held ws sh)) in
      if as_artifact_max_count s < used + 1 then Inl (QuotaExceeded ''artifacts'' (max 0 (as_artifact_max_count s - used)) None None)
      else if as_artifact_max_bytes s < bytes + as_async_export_max_bytes s
      then Inl (QuotaExceeded ''artifact_bytes'' (max 0 (as_artifact_max_bytes s - bytes)) None None) else Inr ())"

definition reserve_artifact :: "int \<Rightarrow> string \<Rightarrow> artifact_settings \<Rightarrow> rat \<Rightarrow> shelf \<Rightarrow> shelf result" where
  "reserve_artifact job ws s now sh = rbind (artifact_quota s ws sh) (\<lambda>_.
     if as_async_export_max_bytes s \<le> 0 then Inl (DatabaseError ''CheckViolation'')
     else if find_row (\<lambda>f. af_job_id f = job) (sh_artifacts sh) \<noteq> None then Inl (DatabaseError ''UniqueViolation'')
     else Inr (sh\<lparr>sh_artifacts := sh_artifacts sh @ [\<lparr>af_job_id = job, af_workspace_id = ws, af_state = Reserved,
       af_reserved_bytes = as_async_export_max_bytes s, af_created_at = trunc_rat now,
       af_expires_at = trunc_rat now + as_artifact_ttl_seconds s, af_manifest = None\<rparr>]\<rparr>))"

definition artifact_record :: "int \<Rightarrow> string \<Rightarrow> shelf \<Rightarrow> artifact result" where
  "artifact_record job ws sh = (case find_row (\<lambda>f. af_job_id f = job \<and> af_workspace_id f = ws) (sh_artifacts sh) of
       None \<Rightarrow> Inl (NotFound ''Export artifact not found'' ''artifact_not_found'') | Some f \<Rightarrow> Inr f)"

record artifact_view =
  ax_state :: artifact_state
  ax_expires_at :: int
  ax_manifest :: "json option"
  ax_download_url :: "string option"

definition artifact_descriptor :: "int \<Rightarrow> string \<Rightarrow> rat \<Rightarrow> shelf \<Rightarrow> artifact_view result" where
  "artifact_descriptor job ws now sh = rbind (artifact_record job ws sh) (\<lambda>f.
     let expired = (af_state f = Expired \<or> of_int (af_expires_at f) \<le> now) in
     Inr \<lparr>ax_state = (if expired then Expired else af_state f), ax_expires_at = af_expires_at f,
       ax_manifest = (if af_state f = Ready then af_manifest f else None),
       ax_download_url = (if af_state f = Ready \<and> \<not> expired then Some (''/v1/archive-jobs/'' @ str_int job @ ''/download'') else None)\<rparr>)"

definition set_artifact :: "int \<Rightarrow> (artifact \<Rightarrow> artifact) \<Rightarrow> shelf \<Rightarrow> shelf" where
  "set_artifact job f sh = sh\<lparr>sh_artifacts := update_where (\<lambda>x. af_job_id x = job) f (sh_artifacts sh)\<rparr>"

definition start_artifact :: "int \<Rightarrow> string \<Rightarrow> rat \<Rightarrow> shelf \<Rightarrow> shelf result" where
  "start_artifact job ws now sh = rbind (artifact_record job ws sh) (\<lambda>f.
     if af_state f = Pruning \<or> af_state f = Expired \<or> of_int (af_expires_at f) \<le> now
     then Inl (Conflict ''Export artifact expired'' ''artifact_expired'')
     else if af_state f = Ready then Inl (Conflict ''Export artifact is already complete'' ''artifact_complete'')
     else Inr (set_artifact job (\<lambda>x. x\<lparr>af_state := Building\<rparr>) sh))"

text \<open>The parts of an artifact with their objects, by ordinal.\<close>

definition parts_of :: "arch \<Rightarrow> int \<Rightarrow> shelf \<Rightarrow> (int \<times> archive_object) list" where
  "parts_of a job sh = sort_key fst (List.map_filter (\<lambda>k. if ac_job_id k = job
     then map_option (Pair (ac_ordinal k)) (object_row a (ac_archive_object_id k)) else None) (sh_chunks sh))"

definition parts_bytes :: "arch \<Rightarrow> int \<Rightarrow> shelf \<Rightarrow> int" where
  "parts_bytes a job sh = sum_list (map (\<lambda>p. int (ao_body_bytes (snd p))) (parts_of a job sh))"

definition add_artifact_chunk ::
  "(string \<Rightarrow> string) \<Rightarrow> int \<Rightarrow> string \<Rightarrow> int \<Rightarrow> prepared \<Rightarrow> rat \<Rightarrow> arch \<times> shelf \<Rightarrow> (arch \<times> shelf) result" where
  "add_artifact_chunk sha job ws ordinal p now s = (case s of (a, sh) \<Rightarrow>
     rbind (artifact_record job ws sh) (\<lambda>f.
     if af_state f \<noteq> Building \<or> of_int (af_expires_at f) \<le> now
     then Inl (Conflict ''Export artifact no longer accepts publication'' ''artifact_unavailable'')
     else rbind (artifact_prefix sha ws job) (\<lambda>prefix.
       if \<not> starts_with prefix (pr_object_key p) \<or> CHUNK_BYTES < pr_body_bytes p
       then Inl (ValueError ''Artifact publication must use its private bounded object namespace'')
       else if af_reserved_bytes f < parts_bytes a job sh + int (pr_body_bytes p)
       then Inl (QuotaExceeded ''artifact_bytes'' (max 0 (af_reserved_bytes f - parts_bytes a job sh)) None None)
       else rbind (register_archive_object p (trunc_rat now) a) (\<lambda>(a1, i).
         if ordinal \<le> 0 then Inl (DatabaseError ''CheckViolation'')
         else if list_ex (\<lambda>k. ac_job_id k = job \<and> ac_ordinal k = ordinal) (sh_chunks sh) then Inl (DatabaseError ''UniqueViolation'')
         else Inr (a1, sh\<lparr>sh_chunks := sh_chunks sh @ [\<lparr>ac_job_id = job, ac_ordinal = ordinal, ac_archive_object_id = i\<rparr>]\<rparr>)))))"

text \<open>\<open>value == n\<close> of a JSON value and an integer, by the value of a number or boolean.\<close>

definition equals_int :: "json \<Rightarrow> int \<Rightarrow> bool" where
  "equals_int v n = (case v of
       JInt i \<Rightarrow> i = n
     | JBool b \<Rightarrow> n = (if b then 1 else 0)
     | JFloat (Finite s) \<Rightarrow> float_value s = of_int n
     | _ \<Rightarrow> False)"

definition manifest_field :: "fields \<Rightarrow> string \<Rightarrow> json result" where
  "manifest_field m k = (case map_of m k of None \<Rightarrow> Inl (KeyError k) | Some v \<Rightarrow> Inr v)"

definition finish_artifact :: "json_columns \<Rightarrow> int \<Rightarrow> string \<Rightarrow> fields \<Rightarrow> rat \<Rightarrow> arch \<Rightarrow> shelf \<Rightarrow> shelf result" where
  "finish_artifact jb job ws m now a sh = rbind (artifact_record job ws sh) (\<lambda>f.
     if af_state f \<noteq> Building \<or> of_int (af_expires_at f) \<le> now
     then Inl (Conflict ''Export artifact is not being built or has expired'' ''artifact_unavailable'')
     else rbind (manifest_field m ''chunk_count'') (\<lambda>count. rbind (manifest_field m ''body_bytes'') (\<lambda>bytes.
       let size' = parts_bytes a job sh in
       if \<not> (equals_int count (int (length (parts_of a job sh))) \<and> equals_int bytes size')
       then Inl (ValueError ''Export manifest does not match its committed object parts'')
       else rbind (canonical (JObj m)) (\<lambda>_.
         Inr (set_artifact job (\<lambda>x. x\<lparr>af_state := Ready, af_manifest := Some (jb_store jb (JObj m)), af_reserved_bytes := max 1 size'\<rparr>) sh)))))"

definition chunk_page :: "arch \<Rightarrow> int \<Rightarrow> int \<Rightarrow> int \<Rightarrow> shelf \<Rightarrow> (int \<times> archive_object) list result" where
  "chunk_page a job after limit sh =
     (if \<not> (1 \<le> limit \<and> limit \<le> 256) then Inl (ValueError ''Artifact chunk page must contain 1 through 256 references'')
      else Inr (take (nat limit) (filter (\<lambda>p. after < fst p) (parts_of a job sh))))"

section \<open>Downloads\<close>

text \<open>\<open>acquire_download\<close>: expired leases of the workspace are removed in a bounded batch first.\<close>

definition acquire_download :: "string \<Rightarrow> int \<Rightarrow> string \<Rightarrow> rat \<Rightarrow> int \<Rightarrow> rat \<Rightarrow> shelf \<Rightarrow> (shelf \<times> artifact) result" where
  "acquire_download lease job ws lifetime slots now sh = rbind (artifact_record job ws sh) (\<lambda>f.
     if af_state f \<noteq> Ready \<or> of_int (af_expires_at f) \<le> now
     then Inl (NotFound ''Export artifact unavailable or expired'' ''artifact_unavailable'')
     else let gone = map dl_lease_id (take 256 (sort_key dl_expires_at (filter (\<lambda>l. dl_workspace_id l = ws \<and> dl_expires_at l \<le> now) (sh_downloads sh))));
              kept = filter (\<lambda>l. dl_lease_id l \<notin> set gone) (sh_downloads sh) in
       if slots \<le> count_where (\<lambda>l. dl_workspace_id l = ws \<and> now < dl_expires_at l) kept then Inl (QuotaExceeded ''artifact_downloads'' 0 None None)
       else Inr (sh\<lparr>sh_downloads := kept @ [\<lparr>dl_lease_id = lease, dl_job_id = job, dl_workspace_id = ws,
         dl_expires_at = min (now + lifetime) (of_int (af_expires_at f))\<rparr>]\<rparr>, f))"

definition release_download :: "string \<Rightarrow> string \<Rightarrow> shelf \<Rightarrow> shelf" where
  "release_download lease ws sh = sh\<lparr>sh_downloads := filter (\<lambda>l. \<not> (dl_lease_id l = lease \<and> dl_workspace_id l = ws)) (sh_downloads sh)\<rparr>"

section \<open>Deletion and retention\<close>

definition authorize_chunk_deletion :: "int \<Rightarrow> string \<Rightarrow> shelf \<Rightarrow> unit result" where
  "authorize_chunk_deletion job ws sh = rbind (get_archive_job job ws sh) (\<lambda>_. rbind (artifact_record job ws sh) (\<lambda>f.
     rguard (af_state f = Building \<or> af_state f = Pruning) (Conflict ''Finalized export parts cannot be deleted'' ''artifact_complete'')))"

definition source_evidence :: "arch \<Rightarrow> int \<Rightarrow> bool" where
  "source_evidence a i \<longleftrightarrow> list_ex (\<lambda>w. rw_archive_object_id w = Some i) (ar_raw a) \<or> list_ex (\<lambda>m. im_archive_object_id m = i) (ar_imports a)"

definition remove_chunk_reference :: "int \<Rightarrow> int \<Rightarrow> shelf \<Rightarrow> shelf" where
  "remove_chunk_reference job ordinal sh = sh\<lparr>sh_chunks := filter (\<lambda>k. \<not> (ac_job_id k = job \<and> ac_ordinal k = ordinal)) (sh_chunks sh)\<rparr>"

text \<open>The object of one part is deleted, then its reference; the references stay until each deletion succeeded.\<close>

definition delete_part ::
  "(string \<Rightarrow> string) \<Rightarrow> (int \<Rightarrow> pyerr option) \<Rightarrow> conn \<Rightarrow> db \<Rightarrow> arch \<Rightarrow> int \<Rightarrow> string \<Rightarrow> int \<times> archive_object \<Rightarrow> objects \<times> shelf
   \<Rightarrow> unit result \<times> objects \<times> shelf" where
  "delete_part sha fault c d a job ws p s = (case s of (os, sh) \<Rightarrow>
     case rbind (atomic c d (\<lambda>_. authorize_chunk_deletion job ws sh)) (\<lambda>_.
         rbind (artifact_prefix sha ws job) (\<lambda>prefix.
         if \<not> starts_with prefix (ao_object_key (snd p)) then Inl (ValueError ''Refusing to delete a source-evidence object'')
         else if source_evidence a (ao_id (snd p)) then Inl (ValueError ''Refusing to delete an artifact referenced by source evidence'')
         else rbind (store_for_reference (ao_backend (snd p)) (ao_location (snd p))) (\<lambda>st.
           case fault (fst p) of Some err \<Rightarrow> Inl err | None \<Rightarrow> delete_object st (ao_object_key (snd p)) os))) of
       Inl err \<Rightarrow> (Inl err, os, sh)
     | Inr os1 \<Rightarrow> (case atomic c d (\<lambda>_. Inr (remove_chunk_reference job (fst p) sh)) of
           Inl err \<Rightarrow> (Inl err, os1, sh)
         | Inr sh1 \<Rightarrow> (Inr (), os1, sh1)))"

fun delete_parts ::
  "(string \<Rightarrow> string) \<Rightarrow> (int \<Rightarrow> pyerr option) \<Rightarrow> conn \<Rightarrow> db \<Rightarrow> arch \<Rightarrow> int \<Rightarrow> string \<Rightarrow> (int \<times> archive_object) list \<Rightarrow> objects \<times> shelf
   \<Rightarrow> unit result \<times> objects \<times> shelf" where
  "delete_parts sha fault c d a job ws [] s = (Inr (), s)"
| "delete_parts sha fault c d a job ws (p # ps) s = (case delete_part sha fault c d a job ws p s of
       (Inl err, s1) \<Rightarrow> (Inl err, s1)
     | (Inr _, s1) \<Rightarrow> delete_parts sha fault c d a job ws ps s1)"

definition delete_artifact_parts ::
  "(string \<Rightarrow> string) \<Rightarrow> (int \<Rightarrow> pyerr option) \<Rightarrow> bool \<Rightarrow> conn \<Rightarrow> db \<Rightarrow> arch \<Rightarrow> int \<Rightarrow> string \<Rightarrow> int \<Rightarrow> objects \<times> shelf
   \<Rightarrow> nat result \<times> objects \<times> shelf" where
  "delete_artifact_parts sha fault in_transaction c d a job ws limit s =
     (if in_transaction then (Inl (ValueError ''Artifact object deletion must happen outside a transaction''), s)
      else case chunk_page a job 0 limit (snd s) of
        Inl err \<Rightarrow> (Inl err, s)
      | Inr rows \<Rightarrow> (case delete_parts sha fault c d a job ws rows s of
          (Inl err, s1) \<Rightarrow> (Inl err, s1)
        | (Inr _, s1) \<Rightarrow> (Inr (length rows), s1)))"

text \<open>\<open>mark_pruning\<close>; \<open>busy\<close> are the rows other sessions have locked, \<open>t0\<close> and \<open>t1\<close> its two readings of the clock.\<close>

definition artifact_prunable :: "int list \<Rightarrow> db \<Rightarrow> shelf \<Rightarrow> string \<Rightarrow> int \<Rightarrow> rat \<Rightarrow> artifact \<Rightarrow> bool" where
  "artifact_prunable busy d sh ws cutoff t1 f \<longleftrightarrow> af_workspace_id f = ws \<and> af_state f \<noteq> Expired \<and> af_expires_at f \<le> cutoff
     \<and> (\<exists>j \<in> set (db_jobs d). j_id j = af_job_id f \<and> j_state j \<noteq> In_progress)
     \<and> \<not> list_ex (\<lambda>l. dl_job_id l = af_job_id f \<and> t1 < dl_expires_at l) (sh_downloads sh) \<and> af_job_id f \<notin> set busy"

definition mark_pruning ::
  "int list \<Rightarrow> db \<Rightarrow> string \<Rightarrow> int \<Rightarrow> int \<Rightarrow> rat \<Rightarrow> rat \<Rightarrow> shelf \<Rightarrow> (shelf \<times> int list) result" where
  "mark_pruning busy d ws cutoff limit t0 t1 sh = rbind (validate_workspace ws) (\<lambda>_.
     if \<not> (0 \<le> cutoff \<and> cutoff \<le> 253402300799) \<or> \<not> (1 \<le> limit \<and> limit \<le> 100)
     then Inl (ValueError ''Artifact retention needs a valid cutoff and 1 through 100 artifacts'')
     else let ids = take (nat limit) (map af_job_id (sort_key (\<lambda>f. (af_expires_at f, af_job_id f))
                (filter (artifact_prunable busy d sh ws (min cutoff (trunc_rat t0)) t1) (sh_artifacts sh)))) in
       Inr (sh\<lparr>sh_artifacts := update_where (\<lambda>f. af_job_id f \<in> set ids) (\<lambda>f. f\<lparr>af_state := Pruning\<rparr>) (sh_artifacts sh)\<rparr>, ids))"

definition expire_if_empty :: "int \<Rightarrow> string \<Rightarrow> shelf \<Rightarrow> (shelf \<times> int) result" where
  "expire_if_empty job ws sh = rbind (artifact_record job ws sh) (\<lambda>f.
     if af_state f \<noteq> Pruning \<or> list_ex (\<lambda>k. ac_job_id k = job) (sh_chunks sh) then Inr (sh, 0)
     else Inr ((set_artifact job (\<lambda>x. x\<lparr>af_state := Expired, af_manifest := None, af_reserved_bytes := 1\<rparr>) sh)
       \<lparr>sh_downloads := filter (\<lambda>l. dl_job_id l \<noteq> job) (sh_downloads sh)\<rparr>, af_reserved_bytes f))"

record pruned =
  pd_expired :: nat
  pd_deleted_chunks :: nat
  pd_released_bytes :: int

text \<open>The loop of \<open>prune_artifacts\<close> over the marked artifacts; an error keeps what was done.\<close>

fun prune_each ::
  "(string \<Rightarrow> string) \<Rightarrow> (int \<Rightarrow> int \<Rightarrow> pyerr option) \<Rightarrow> conn \<Rightarrow> db \<Rightarrow> arch \<Rightarrow> string \<Rightarrow> int list \<Rightarrow> pruned \<Rightarrow> objects \<times> shelf
   \<Rightarrow> pruned result \<times> objects \<times> shelf" where
  "prune_each sha fault c d a ws [] r s = (Inr r, s)"
| "prune_each sha fault c d a ws (job # jobs) r s =
     (case delete_artifact_parts sha (fault job) False c d a job ws 256 s of
        (Inl err, s1) \<Rightarrow> (Inl err, s1)
      | (Inr n, os1, sh1) \<Rightarrow> (case atomic c d (\<lambda>_. expire_if_empty job ws sh1) of
          Inl err \<Rightarrow> (Inl err, os1, sh1)
        | Inr (sh2, freed) \<Rightarrow> prune_each sha fault c d a ws jobs (r\<lparr>pd_expired := pd_expired r + (if 0 < freed then 1 else 0),
            pd_deleted_chunks := pd_deleted_chunks r + n, pd_released_bytes := pd_released_bytes r + freed\<rparr>) (os1, sh2)))"

definition prune_artifacts ::
  "(string \<Rightarrow> string) \<Rightarrow> (int \<Rightarrow> int \<Rightarrow> pyerr option) \<Rightarrow> int list \<Rightarrow> conn \<Rightarrow> db \<Rightarrow> arch \<Rightarrow> string \<Rightarrow> int \<Rightarrow> int \<Rightarrow> rat \<Rightarrow> rat
   \<Rightarrow> objects \<times> shelf \<Rightarrow> pruned result \<times> objects \<times> shelf" where
  "prune_artifacts sha fault busy c d a ws cutoff limit t0 t1 s =
     (case atomic c d (\<lambda>_. mark_pruning busy d ws cutoff limit t0 t1 (snd s)) of
        Inl err \<Rightarrow> (Inl err, s)
      | Inr (sh1, ids) \<Rightarrow> prune_each sha fault c d a ws ids \<lparr>pd_expired = 0, pd_deleted_chunks = 0, pd_released_bytes = 0\<rparr> (fst s, sh1))"

end
