(* ===== verification/Artifact_Laws.thy ===== *)
theory Artifact_Laws
  imports Artifacts Archive_Laws "HOL-Library.Multiset"
begin

text \<open>
  Laws of export artifacts: what the parts of an artifact hold, that no step raises what a workspace has reserved but a reservation within the quota, and
  that deleting parts touches nothing but private objects of the artifact.
\<close>

section \<open>Parts\<close>

definition chunk_bytes :: "arch \<Rightarrow> artifact_chunk \<Rightarrow> int" where
  "chunk_bytes a k = (case object_row a (ac_archive_object_id k) of None \<Rightarrow> 0 | Some o' \<Rightarrow> int (ao_body_bytes o'))"

lemma sum_list_sort: "sum_list (map f (sort_key g xs)) = (sum_list (map f xs) :: int)"
proof -
  have "mset (map f (sort_key g xs)) = mset (map f xs)" by (simp only: mset_map mset_sort)
  then show ?thesis by (simp only: sum_mset_sum_list [symmetric])
qed

lemma parts_bytes_eq: "parts_bytes a job sh = sum_list (map (chunk_bytes a) (filter (\<lambda>k. ac_job_id k = job) (sh_chunks sh)))"
proof -
  have "sum_list (map (\<lambda>p. int (ao_body_bytes (snd p))) (List.map_filter (\<lambda>k. if ac_job_id k = job
     then map_option (Pair (ac_ordinal k)) (object_row a (ac_archive_object_id k)) else None) ks))
     = sum_list (map (chunk_bytes a) (filter (\<lambda>k. ac_job_id k = job) ks))" for ks
    by (induction ks) (auto simp: map_filter_simps chunk_bytes_def split: option.splits)
  then show ?thesis by (simp add: parts_bytes_def parts_of_def sum_list_sort)
qed

lemma chunk_bytes_nonneg [simp]: "0 \<le> chunk_bytes a k"
  by (simp add: chunk_bytes_def split: option.splits)

lemma parts_bytes_nonneg: "0 \<le> parts_bytes a job sh"
  by (auto simp: parts_bytes_eq intro!: sum_list_nonneg)

lemma parts_bytes_chunks [simp]:
  "parts_bytes a job (sh\<lparr>sh_artifacts := x\<rparr>) = parts_bytes a job sh" "parts_bytes a job (sh\<lparr>sh_downloads := y\<rparr>) = parts_bytes a job sh"
  "parts_bytes a job (sh\<lparr>sh_jobs := z\<rparr>) = parts_bytes a job sh"
  by (simp_all add: parts_bytes_eq)

lemma parts_bytes_filter: "parts_bytes a job (sh\<lparr>sh_chunks := filter p (sh_chunks sh)\<rparr>) \<le> parts_bytes a job sh"
proof -
  have "sum_list (map (chunk_bytes a) (filter q (filter p ks))) \<le> sum_list (map (chunk_bytes a) (filter q ks))" for q ks
  proof (induction ks)
    case (Cons k ks)
    then show ?case using chunk_bytes_nonneg [of a k] by (auto simp del: chunk_bytes_nonneg)
  qed simp
  then show ?thesis by (simp add: parts_bytes_eq)
qed

section \<open>The invariant\<close>

text \<open>Every part belongs to an artifact and has its object, and what an artifact holds fits its reservation.\<close>

definition shelf_ok :: "arch \<Rightarrow> shelf \<Rightarrow> bool" where
  "shelf_ok a sh \<longleftrightarrow> distinct (map af_job_id (sh_artifacts sh)) \<and> (\<forall>k \<in> set (sh_chunks sh). ac_job_id k \<in> af_job_id ` set (sh_artifacts sh)
       \<and> object_row a (ac_archive_object_id k) \<noteq> None)
     \<and> (\<forall>f \<in> set (sh_artifacts sh). 1 \<le> af_reserved_bytes f \<and> (af_state f \<noteq> Expired \<longrightarrow> parts_bytes a (af_job_id f) sh \<le> af_reserved_bytes f))"

definition held_bytes :: "string \<Rightarrow> shelf \<Rightarrow> int" where
  "held_bytes ws sh = sum_list (map af_reserved_bytes (held ws sh))"

text \<open>A change of the table of artifacts that raises no reservation.\<close>

definition no_more :: "shelf \<Rightarrow> shelf \<Rightarrow> bool" where
  "no_more sh sh' \<longleftrightarrow> (\<forall>ws. length (held ws sh') \<le> length (held ws sh) \<and> held_bytes ws sh' \<le> held_bytes ws sh)"

lemma no_more_same [simp]: "sh_artifacts sh' = sh_artifacts sh \<Longrightarrow> no_more sh sh'"
  by (simp add: no_more_def held_def held_bytes_def)

definition lowers :: "(artifact \<Rightarrow> artifact) \<Rightarrow> artifact \<Rightarrow> bool" where
  "lowers g f \<longleftrightarrow> af_workspace_id (g f) = af_workspace_id f \<and> af_job_id (g f) = af_job_id f
     \<and> (af_state (g f) \<noteq> Expired \<longrightarrow> af_state f \<noteq> Expired \<and> af_reserved_bytes (g f) \<le> af_reserved_bytes f)"

lemma update_lowers:
  assumes "\<forall>f \<in> set fs. p f \<longrightarrow> lowers g f" "\<forall>f \<in> set fs. 0 \<le> af_reserved_bytes f"
  shows "length (filter (\<lambda>f. af_workspace_id f = ws \<and> af_state f \<noteq> Expired) (update_where p g fs))
      \<le> length (filter (\<lambda>f. af_workspace_id f = ws \<and> af_state f \<noteq> Expired) fs)
    \<and> sum_list (map af_reserved_bytes (filter (\<lambda>f. af_workspace_id f = ws \<and> af_state f \<noteq> Expired) (update_where p g fs)))
      \<le> sum_list (map af_reserved_bytes (filter (\<lambda>f. af_workspace_id f = ws \<and> af_state f \<noteq> Expired) fs))"
  using assms
proof (induction fs)
  case (Cons f fs)
  then show ?case by (cases "p f") (auto simp: lowers_def)
qed simp

lemma update_no_more:
  assumes "shelf_ok a sh" "\<forall>f \<in> set (sh_artifacts sh). p f \<longrightarrow> lowers g f"
  shows "no_more sh (sh\<lparr>sh_artifacts := update_where p g (sh_artifacts sh), sh_downloads := ds\<rparr>)"
    "no_more sh (sh\<lparr>sh_artifacts := update_where p g (sh_artifacts sh)\<rparr>)"
proof -
  have "\<forall>f \<in> set (sh_artifacts sh). 0 \<le> af_reserved_bytes f" using assms(1) by (force simp: shelf_ok_def)
  note u = update_lowers [OF assms(2) this]
  show "no_more sh (sh\<lparr>sh_artifacts := update_where p g (sh_artifacts sh), sh_downloads := ds\<rparr>)"
    "no_more sh (sh\<lparr>sh_artifacts := update_where p g (sh_artifacts sh)\<rparr>)"
    using u by (simp_all add: no_more_def held_def held_bytes_def)
qed

lemma update_shelf_ok:
  assumes "shelf_ok a sh" "\<forall>f \<in> set (sh_artifacts sh). p f \<longrightarrow> af_job_id (g f) = af_job_id f \<and> 1 \<le> af_reserved_bytes (g f)
      \<and> (af_state (g f) \<noteq> Expired \<longrightarrow> parts_bytes a (af_job_id f) sh \<le> af_reserved_bytes (g f))"
  shows "shelf_ok a (sh\<lparr>sh_artifacts := update_where p g (sh_artifacts sh)\<rparr>)"
proof -
  have ids: "map af_job_id (update_where p g (sh_artifacts sh)) = map af_job_id (sh_artifacts sh)"
    using assms(2) by (simp add: update_where_def)
  have "af_job_id ` set (update_where p g (sh_artifacts sh)) = af_job_id ` set (sh_artifacts sh)" using ids by (metis list.set_map)
  moreover have "1 \<le> af_reserved_bytes f \<and> (af_state f \<noteq> Expired \<longrightarrow> parts_bytes a (af_job_id f) sh \<le> af_reserved_bytes f)"
    if "f \<in> set (update_where p g (sh_artifacts sh))" for f
    using that assms by (fastforce simp: update_where_def shelf_ok_def)
  ultimately show ?thesis using assms(1) ids by (simp add: shelf_ok_def)
qed

lemma artifact_record_Inr:
  "artifact_record job ws sh = Inr f \<Longrightarrow> f \<in> set (sh_artifacts sh) \<and> af_job_id f = job \<and> af_workspace_id f = ws"
  by (auto simp: artifact_record_def split: option.splits dest: find_row_Some)

lemma only_record:
  assumes "shelf_ok a sh" "artifact_record job ws sh = Inr f" "x \<in> set (sh_artifacts sh)" "af_job_id x = job"
  shows "x = f"
  using assms artifact_record_Inr [OF assms(2)] unfolding shelf_ok_def by (metis distinct_map inj_onD)

section \<open>Steps\<close>

text \<open>Every operation on artifacts, by any workspace, and the other writes of the archive, which keep its references.\<close>

inductive shelf_step :: "(string \<Rightarrow> string) \<Rightarrow> json_columns \<Rightarrow> artifact_settings \<Rightarrow> arch \<times> shelf \<Rightarrow> arch \<times> shelf \<Rightarrow> bool" for sha jb s where
  request: "record_archive_job jb job ws operation asked d sh = Inr sh' \<Longrightarrow> shelf_step sha jb s (a, sh) (a, sh')"
| select: "complete_working_set_job job ws selection sh = Inr sh' \<Longrightarrow> shelf_step sha jb s (a, sh) (a, sh')"
| reserve: "reserve_artifact job ws s now sh = Inr sh' \<Longrightarrow> shelf_step sha jb s (a, sh) (a, sh')"
| start: "start_artifact job ws now sh = Inr sh' \<Longrightarrow> shelf_step sha jb s (a, sh) (a, sh')"
| chunk: "add_artifact_chunk sha job ws ordinal p now (a, sh) = Inr (a', sh') \<Longrightarrow> shelf_step sha jb s (a, sh) (a', sh')"
| finish: "finish_artifact jb job ws m now a sh = Inr sh' \<Longrightarrow> shelf_step sha jb s (a, sh) (a, sh')"
| acquire: "acquire_download lease job ws lifetime slots now sh = Inr (sh', f) \<Longrightarrow> shelf_step sha jb s (a, sh) (a, sh')"
| release: "shelf_step sha jb s (a, sh) (a, release_download lease ws sh)"
| remove: "delete_artifact_parts sha fault nested c d a job ws limit (os, sh) = (r, os', sh') \<Longrightarrow> shelf_step sha jb s (a, sh) (a, sh')"
| mark: "mark_pruning busy d ws cutoff limit t0 t1 sh = Inr (sh', ids) \<Longrightarrow> shelf_step sha jb s (a, sh) (a, sh')"
| expire: "expire_if_empty job ws sh = Inr (sh', n) \<Longrightarrow> shelf_step sha jb s (a, sh) (a, sh')"
| archive: "refs_extend a a' \<Longrightarrow> arch_wf a' \<Longrightarrow> shelf_step sha jb s (a, sh) (a', sh)"

text \<open>What a deletion of parts does to the tables: it removes references to parts of its artifact.\<close>

lemma delete_part_shelf:
  assumes "delete_part sha fault c d a job ws p (os, sh) = (r, os', sh')"
  shows "\<exists>q. sh' = sh\<lparr>sh_chunks := filter q (sh_chunks sh)\<rparr> \<and> (\<forall>k \<in> set (sh_chunks sh). ac_job_id k \<noteq> job \<longrightarrow> q k)"
proof -
  have "sh' = sh \<or> sh' = remove_chunk_reference job (fst p) sh"
    using assms by (auto simp: delete_part_def atomic_def rbind_eq_Inr split: sum.splits)
  then show ?thesis
  proof
    assume "sh' = sh"
    then show ?thesis by (intro exI [of _ "\<lambda>_. True"]) simp
  next
    assume "sh' = remove_chunk_reference job (fst p) sh"
    then show ?thesis unfolding remove_chunk_reference_def by blast
  qed
qed

lemma delete_parts_shelf:
  assumes "delete_parts sha fault c d a job ws ps (os, sh) = (r, os', sh')"
  shows "\<exists>q. sh' = sh\<lparr>sh_chunks := filter q (sh_chunks sh)\<rparr> \<and> (\<forall>k \<in> set (sh_chunks sh). ac_job_id k \<noteq> job \<longrightarrow> q k)"
  using assms
proof (induction ps arbitrary: os sh)
  case Nil
  then show ?case by (intro exI [of _ "\<lambda>_. True"]) simp
next
  case (Cons p ps)
  obtain r1 os1 sh1 where one: "delete_part sha fault c d a job ws p (os, sh) = (r1, os1, sh1)" by (metis prod_cases3)
  obtain q where q: "sh1 = sh\<lparr>sh_chunks := filter q (sh_chunks sh)\<rparr>" "\<forall>k \<in> set (sh_chunks sh). ac_job_id k \<noteq> job \<longrightarrow> q k"
    using delete_part_shelf [OF one] by blast
  show ?case
  proof (cases r1)
    case (Inl err)
    then show ?thesis using Cons.prems one q by auto
  next
    case (Inr u)
    then have "delete_parts sha fault c d a job ws ps (os1, sh1) = (r, os', sh')" using Cons.prems one by simp
    then obtain q2 where q2: "sh' = sh1\<lparr>sh_chunks := filter q2 (sh_chunks sh1)\<rparr>" "\<forall>k \<in> set (sh_chunks sh1). ac_job_id k \<noteq> job \<longrightarrow> q2 k"
      using Cons.IH by blast
    then show ?thesis using q by (intro exI [of _ "\<lambda>k. q k \<and> q2 k"]) (simp add: conj_commute)
  qed
qed

lemma delete_artifact_parts_shelf:
  assumes "delete_artifact_parts sha fault nested c d a job ws limit (os, sh) = (r, os', sh')"
  shows "\<exists>q. sh' = sh\<lparr>sh_chunks := filter q (sh_chunks sh)\<rparr> \<and> (\<forall>k \<in> set (sh_chunks sh). ac_job_id k \<noteq> job \<longrightarrow> q k)"
proof -
  have "sh' = sh \<or> (\<exists>rows r1. delete_parts sha fault c d a job ws rows (os, sh) = (r1, os', sh'))"
    using assms by (auto simp: delete_artifact_parts_def split: if_splits sum.splits prod.splits)
  then show ?thesis
  proof
    assume "sh' = sh"
    then show ?thesis by (intro exI [of _ "\<lambda>_. True"]) simp
  qed (use delete_parts_shelf in blast)
qed

lemma shelf_ok_filter:
  assumes "shelf_ok a sh"
  shows "shelf_ok a (sh\<lparr>sh_chunks := filter q (sh_chunks sh)\<rparr>)"
  using assms order_trans [OF parts_bytes_filter] by (fastforce simp: shelf_ok_def)

lemma refs_extend_chunk:
  assumes "refs_extend a a'" "object_row a (ac_archive_object_id k) \<noteq> None"
  shows "chunk_bytes a' k = chunk_bytes a k" "object_row a' (ac_archive_object_id k) \<noteq> None"
  using assms by (auto simp: refs_extend_def chunk_bytes_def)

lemma shelf_ok_extend:
  assumes "shelf_ok a sh" "refs_extend a a'"
  shows "shelf_ok a' sh" "parts_bytes a' job sh = parts_bytes a job sh"
proof -
  show bytes: "parts_bytes a' job sh = parts_bytes a job sh" for job
    using assms refs_extend_chunk(1) [OF assms(2)] by (auto simp: parts_bytes_eq shelf_ok_def intro!: arg_cong [where f = sum_list])
  show "shelf_ok a' sh" using assms refs_extend_chunk(2) [OF assms(2)] unfolding shelf_ok_def bytes by blast
qed

text \<open>A reservation that fits the quota.\<close>

definition fits_quota :: "artifact_settings \<Rightarrow> shelf \<Rightarrow> bool" where
  "fits_quota s sh \<longleftrightarrow> (\<forall>ws. int (length (held ws sh)) \<le> as_artifact_max_count s \<and> held_bytes ws sh \<le> as_artifact_max_bytes s)"

lemma fits_no_more: "fits_quota s sh \<Longrightarrow> no_more sh sh' \<Longrightarrow> fits_quota s sh'"
  unfolding fits_quota_def no_more_def by (meson of_nat_mono order_trans)

lemma reserve_artifact_ok:
  assumes "reserve_artifact job ws s now sh = Inr sh'" "shelf_ok a sh" "fits_quota s sh"
  shows "shelf_ok a sh' \<and> fits_quota s sh'"
proof -
  obtain f where f: "sh' = sh\<lparr>sh_artifacts := sh_artifacts sh @ [f]\<rparr>" "af_job_id f = job" "af_workspace_id f = ws" "af_state f = Reserved"
      "af_reserved_bytes f = as_async_export_max_bytes s" "1 \<le> as_async_export_max_bytes s"
    and quota: "artifact_quota s ws sh = Inr ()" and fresh: "\<forall>x \<in> set (sh_artifacts sh). af_job_id x \<noteq> job"
    using assms(1) by (auto simp: reserve_artifact_def rbind_eq_Inr find_row_None split: if_splits)
  have held: "held x sh' = (if x = ws then held x sh @ [f] else held x sh)" for x using f(3,4) by (simp add: held_def f(1))
  have "int (length (held ws sh)) + 1 \<le> as_artifact_max_count s" "held_bytes ws sh + as_async_export_max_bytes s \<le> as_artifact_max_bytes s"
    using quota by (auto simp: artifact_quota_def held_bytes_def Let_def split: if_splits)
  then have "fits_quota s sh'" using assms(3) by (auto simp: fits_quota_def held held_bytes_def f(5))
  moreover have "filter (\<lambda>k. ac_job_id k = job) (sh_chunks sh) = []" using assms(2) fresh by (fastforce simp: shelf_ok_def filter_empty_conv image_iff)
  then have "parts_bytes a job sh = 0" by (simp add: parts_bytes_eq)
  then have "shelf_ok a sh'" using assms(2) f fresh by (auto simp: shelf_ok_def)
  ultimately show ?thesis by simp
qed

lemma add_artifact_chunk_ok:
  assumes "add_artifact_chunk sha job ws ordinal p now (a, sh) = Inr (a', sh')" "arch_wf a" "shelf_ok a sh"
  shows "shelf_ok a' sh' \<and> arch_wf a' \<and> refs_extend a a' \<and> sh_artifacts sh' = sh_artifacts sh"
proof -
  obtain f i where f: "artifact_record job ws sh = Inr f" "parts_bytes a job sh + int (pr_body_bytes p) \<le> af_reserved_bytes f"
    and reg: "register_archive_object p (trunc_rat now) a = Inr (a', i)"
    and sh': "sh' = sh\<lparr>sh_chunks := sh_chunks sh @ [\<lparr>ac_job_id = job, ac_ordinal = ordinal, ac_archive_object_id = i\<rparr>]\<rparr>"
    using assms(1) by (auto simp: add_artifact_chunk_def rbind_eq_Inr split: if_splits)
  obtain e where e: "object_row a' i = Some e" "ao_body_bytes e = pr_body_bytes p" "arch_wf a'" "refs_extend a a'"
    using register_archive_object_Inr [OF reg assms(2)] by metis
  note ext = shelf_ok_extend [OF assms(3) e(4)]
  have bytes: "parts_bytes a' x sh' = parts_bytes a x sh + (if x = job then int (pr_body_bytes p) else 0)" for x
  proof -
    have "parts_bytes a' x sh' = parts_bytes a' x sh + (if x = job then int (pr_body_bytes p) else 0)"
      by (simp add: parts_bytes_eq sh' chunk_bytes_def e(1,2))
    then show ?thesis using ext(2) by simp
  qed
  have "parts_bytes a' (af_job_id x) sh' \<le> af_reserved_bytes x" if "x \<in> set (sh_artifacts sh)" "af_state x \<noteq> Expired" for x
  proof (cases "af_job_id x = job")
    case True
    then show ?thesis using only_record [OF assms(3) f(1) that(1)] f(2) by (simp add: bytes)
  next
    case False
    then show ?thesis using assms(3) that by (simp add: bytes shelf_ok_def)
  qed
  moreover have "job \<in> af_job_id ` set (sh_artifacts sh)" using artifact_record_Inr [OF f(1)] by blast
  ultimately show ?thesis using ext(1) e by (auto simp: shelf_ok_def sh')
qed

lemma set_artifact_ok:
  assumes "shelf_ok a sh" "artifact_record job ws sh = Inr f" "lowers g f" "1 \<le> af_reserved_bytes (g f)"
    "af_state (g f) \<noteq> Expired \<longrightarrow> parts_bytes a job sh \<le> af_reserved_bytes (g f)"
  shows "shelf_ok a (set_artifact job g sh) \<and> no_more sh (set_artifact job g sh)"
proof -
  have only: "x = f" if "x \<in> set (sh_artifacts sh)" "af_job_id x = job" for x using only_record [OF assms(1,2) that] .
  then have low: "\<forall>x \<in> set (sh_artifacts sh). af_job_id x = job \<longrightarrow> lowers g x" using assms(3) by blast
  have keep: "\<forall>x \<in> set (sh_artifacts sh). af_job_id x = job \<longrightarrow> af_job_id (g x) = af_job_id x \<and> 1 \<le> af_reserved_bytes (g x)
      \<and> (af_state (g x) \<noteq> Expired \<longrightarrow> parts_bytes a (af_job_id x) sh \<le> af_reserved_bytes (g x))"
  proof (intro ballI impI)
    fix x assume "x \<in> set (sh_artifacts sh)" "af_job_id x = job"
    then have "x = f" "af_job_id f = job" using only by auto
    then show "af_job_id (g x) = af_job_id x \<and> 1 \<le> af_reserved_bytes (g x)
        \<and> (af_state (g x) \<noteq> Expired \<longrightarrow> parts_bytes a (af_job_id x) sh \<le> af_reserved_bytes (g x))"
      using assms(3-5) by (simp add: lowers_def)
  qed
  show ?thesis
    unfolding set_artifact_def using update_shelf_ok [OF assms(1) keep] update_no_more(2) [OF assms(1) low] by simp
qed

lemma shelf_ok_downloads [simp]: "shelf_ok a (sh\<lparr>sh_downloads := ds\<rparr>) = shelf_ok a sh" "shelf_ok a (sh\<lparr>sh_jobs := js\<rparr>) = shelf_ok a sh"
  by (simp_all add: shelf_ok_def)

lemma no_more_downloads [simp]: "no_more sh (sh'\<lparr>sh_downloads := ds\<rparr>) = no_more sh sh'"
  by (simp add: no_more_def held_def held_bytes_def)

lemma record_reserved: "shelf_ok a sh \<Longrightarrow> artifact_record job ws sh = Inr f \<Longrightarrow>
  1 \<le> af_reserved_bytes f \<and> (af_state f \<noteq> Expired \<longrightarrow> parts_bytes a job sh \<le> af_reserved_bytes f)"
  using artifact_record_Inr [of job ws sh f] by (auto simp: shelf_ok_def)

lemma mark_pruning_ok:
  assumes "mark_pruning busy d ws cutoff limit t0 t1 sh = Inr (sh', ids)" "shelf_ok a sh"
  shows "shelf_ok a sh' \<and> no_more sh sh'"
proof -
  define marked where "marked = filter (artifact_prunable busy d sh ws (min cutoff (trunc_rat t0)) t1) (sh_artifacts sh)"
  have sh': "sh' = sh\<lparr>sh_artifacts := update_where (\<lambda>f. af_job_id f \<in> set ids) (\<lambda>f. f\<lparr>af_state := Pruning\<rparr>) (sh_artifacts sh)\<rparr>"
    and ids: "set ids \<subseteq> af_job_id ` set marked"
    using assms(1) by (auto simp: mark_pruning_def rbind_eq_Inr Let_def marked_def split: if_splits dest: in_set_takeD)
  have alive: "af_state f \<noteq> Expired" if f: "f \<in> set (sh_artifacts sh)" "af_job_id f \<in> set ids" for f
  proof -
    obtain x where x: "x \<in> set (sh_artifacts sh)" "af_job_id x = af_job_id f" "af_state x \<noteq> Expired"
      using ids f(2) by (auto simp: marked_def artifact_prunable_def)
    have "x = f" using assms(2) x(1,2) f(1) unfolding shelf_ok_def by (metis distinct_map inj_onD)
    then show ?thesis using x(3) by simp
  qed
  have low: "\<forall>f \<in> set (sh_artifacts sh). af_job_id f \<in> set ids \<longrightarrow> lowers (\<lambda>f. f\<lparr>af_state := Pruning\<rparr>) f" using alive by (simp add: lowers_def)
  have keep: "\<forall>f \<in> set (sh_artifacts sh). af_job_id f \<in> set ids \<longrightarrow> af_job_id (f\<lparr>af_state := Pruning\<rparr>) = af_job_id f
      \<and> 1 \<le> af_reserved_bytes (f\<lparr>af_state := Pruning\<rparr>) \<and> (af_state (f\<lparr>af_state := Pruning\<rparr>) \<noteq> Expired
        \<longrightarrow> parts_bytes a (af_job_id f) sh \<le> af_reserved_bytes (f\<lparr>af_state := Pruning\<rparr>))"
    using alive assms(2) by (simp add: shelf_ok_def)
  show ?thesis unfolding sh' using update_shelf_ok [OF assms(2) keep] update_no_more(2) [OF assms(2) low] by simp
qed

lemma expire_if_empty_ok:
  assumes "expire_if_empty job ws sh = Inr (sh', n)" "shelf_ok a sh"
  shows "shelf_ok a sh' \<and> no_more sh sh'"
proof -
  obtain f where f: "artifact_record job ws sh = Inr f" using assms(1) by (auto simp: expire_if_empty_def rbind_eq_Inr)
  let ?g = "\<lambda>x. x\<lparr>af_state := Expired, af_manifest := None, af_reserved_bytes := 1\<rparr>"
  have "sh' = sh \<or> (\<exists>ds. sh' = (set_artifact job ?g sh)\<lparr>sh_downloads := ds\<rparr>)"
    using assms(1) by (auto simp: expire_if_empty_def f split: if_splits)
  moreover have "shelf_ok a (set_artifact job ?g sh) \<and> no_more sh (set_artifact job ?g sh)"
    by (rule set_artifact_ok [OF assms(2) f]) (simp_all add: lowers_def)
  ultimately show ?thesis using assms(2) by auto
qed

lemma start_artifact_ok:
  assumes "start_artifact job ws now sh = Inr sh'" "shelf_ok a sh"
  shows "shelf_ok a sh' \<and> no_more sh sh'"
proof -
  obtain f where f: "artifact_record job ws sh = Inr f" "af_state f \<noteq> Expired" "sh' = set_artifact job (\<lambda>x. x\<lparr>af_state := Building\<rparr>) sh"
    using assms(1) by (auto simp: start_artifact_def rbind_eq_Inr split: if_splits)
  show ?thesis
    unfolding f(3) by (rule set_artifact_ok [OF assms(2) f(1)]) (use record_reserved [OF assms(2) f(1)] f(2) in \<open>auto simp: lowers_def\<close>)
qed

lemma finish_artifact_ok:
  assumes "finish_artifact jb job ws m now a sh = Inr sh'" "shelf_ok a sh"
  shows "shelf_ok a sh' \<and> no_more sh sh'"
proof -
  obtain f where f: "artifact_record job ws sh = Inr f" "af_state f = Building"
    "sh' = set_artifact job (\<lambda>x. x\<lparr>af_state := Ready, af_manifest := Some (jb_store jb (JObj m)), af_reserved_bytes := max 1 (parts_bytes a job sh)\<rparr>) sh"
    using assms(1) by (auto simp: finish_artifact_def rbind_eq_Inr Let_def split: if_splits)
  show ?thesis
    unfolding f(3) by (rule set_artifact_ok [OF assms(2) f(1)]) (use record_reserved [OF assms(2) f(1)] f(2) in \<open>auto simp: lowers_def\<close>)
qed

lemma shelf_step_ok:
  assumes "shelf_step sha jb s (a, sh) (a', sh')" "arch_wf a" "shelf_ok a sh" "fits_quota s sh"
  shows "arch_wf a' \<and> shelf_ok a' sh' \<and> fits_quota s sh'"
  using assms(1)
proof cases
  case (reserve job ws now)
  then show ?thesis using reserve_artifact_ok assms by blast
next
  case (chunk job ws ordinal p now)
  then show ?thesis using add_artifact_chunk_ok [OF chunk assms(2,3)] assms(4) fits_no_more no_more_same by blast
next
  case (archive)
  then show ?thesis using shelf_ok_extend(1) [OF assms(3)] assms(4) by blast
next
  case (remove fault nested c d job ws limit os r os')
  then obtain q where "sh' = sh\<lparr>sh_chunks := filter q (sh_chunks sh)\<rparr>" using delete_artifact_parts_shelf by blast
  then show ?thesis using remove(1) shelf_ok_filter [OF assms(3)] assms(2,4) fits_no_more [OF assms(4), of sh'] by simp
next
  case (request job ws operation asked d)
  then have "\<exists>js. sh' = sh\<lparr>sh_jobs := js\<rparr>" by (auto simp: record_archive_job_def rbind_eq_Inr split: if_splits)
  then show ?thesis using request(1) assms(2,3) fits_no_more [OF assms(4), of sh'] by auto
next
  case (select job ws selection)
  then have "\<exists>js. sh' = sh\<lparr>sh_jobs := js\<rparr>" by (auto simp: complete_working_set_job_def rbind_eq_Inr split: if_splits)
  then show ?thesis using select(1) assms(2,3) fits_no_more [OF assms(4), of sh'] by auto
next
  case (acquire lease job ws lifetime slots now f)
  then have "\<exists>ds. sh' = sh\<lparr>sh_downloads := ds\<rparr>" by (auto simp: acquire_download_def rbind_eq_Inr Let_def split: if_splits)
  then show ?thesis using acquire(1) assms(2,3) fits_no_more [OF assms(4), of sh'] by auto
next
  case (release lease ws)
  then have "\<exists>ds. sh' = sh\<lparr>sh_downloads := ds\<rparr>" by (auto simp: release_download_def)
  then show ?thesis using release(1) assms(2,3) fits_no_more [OF assms(4), of sh'] by auto
next
  case (start job ws now)
  then show ?thesis using start_artifact_ok [OF start(2) assms(3)] assms(2) fits_no_more [OF assms(4)] by blast
next
  case (finish job ws m now)
  then show ?thesis using finish_artifact_ok [OF finish(2) assms(3)] assms(2) fits_no_more [OF assms(4)] by blast
next
  case (mark busy d ws cutoff limit t0 t1 ids)
  then show ?thesis using mark_pruning_ok [OF mark(2) assms(3)] assms(2) fits_no_more [OF assms(4)] by blast
next
  case (expire job ws n)
  then show ?thesis using expire_if_empty_ok [OF expire(2) assms(3)] assms(2) fits_no_more [OF assms(4)] by blast
qed

end
