(* ===== verification/Artifact_Properties.thy ===== *)
theory Artifact_Properties
  imports Artifact_Laws Working_Set_Properties Archive_Properties
begin

text \<open>What export artifacts guarantee, over the definitions of \<open>Artifacts\<close>: the quota of a workspace, and a retention that never touches source evidence.\<close>

section \<open>Private objects\<close>

definition private_key :: "(string \<Rightarrow> string) \<Rightarrow> string \<Rightarrow> int \<Rightarrow> string \<Rightarrow> bool" where
  "private_key sha ws job key \<longleftrightarrow> (\<exists>prefix. artifact_prefix sha ws job = Inr prefix \<and> starts_with prefix key)"

lemma private_key_job:
  assumes "\<And>x. length (sha x) = 64" "private_key sha ws job key" "private_key sha ws' job' key"
  shows "job = job'"
proof -
  have slash: "CHR ''/'' \<notin> set (str_int i)" for i using str_int_chars [of "CHR ''/''" i] by (auto simp: is_digit_def)
  have form: "\<exists>r. key = (''artifacts/'' @ sha w @ ''/'') @ str_int j @ CHR ''/'' # r" if pk: "private_key sha w j key" for w j
  proof -
    obtain prefix where p: "artifact_prefix sha w j = Inr prefix" "take (length prefix) key = prefix"
      using pk unfolding private_key_def starts_with_def by blast
    have "prefix = ''artifacts/'' @ sha w @ ''/'' @ str_int j @ ''/''"
      using p(1) by (auto simp: artifact_prefix_def rbind_eq_Inr split: if_splits)
    then have "key = (''artifacts/'' @ sha w @ ''/'' @ str_int j @ ''/'') @ drop (length prefix) key" using p(2) by (metis append_take_drop_id)
    then show ?thesis by auto
  qed
  obtain r r' where "(''artifacts/'' @ sha ws @ ''/'') @ str_int job @ CHR ''/'' # r = (''artifacts/'' @ sha ws' @ ''/'') @ str_int job' @ CHR ''/'' # r'"
    using form [OF assms(2)] form [OF assms(3)] by metis
  then have "str_int job @ CHR ''/'' # r = str_int job' @ CHR ''/'' # r'" using assms(1) by (subst (asm) append_eq_append_conv) simp_all
  moreover have "takeWhile (\<lambda>c. c \<noteq> CHR ''/'') (str_int i @ CHR ''/'' # t) = str_int i" for i t
    using slash [of i] by (subst takeWhile_append2) auto
  ultimately have "str_int job = str_int job'" by metis
  then show ?thesis by (rule str_int_inj)
qed

definition owners :: "shelf \<Rightarrow> (int \<times> string) set" where
  "owners sh = (\<lambda>f. (af_job_id f, af_workspace_id f)) ` set (sh_artifacts sh)"

text \<open>Every part is an object of the private namespace of its artifact.\<close>

definition parts_private :: "(string \<Rightarrow> string) \<Rightarrow> arch \<Rightarrow> shelf \<Rightarrow> bool" where
  "parts_private sha a sh \<longleftrightarrow> (\<forall>k \<in> set (sh_chunks sh). \<exists>row ws. object_row a (ac_archive_object_id k) = Some row
     \<and> (ac_job_id k, ws) \<in> owners sh \<and> private_key sha ws (ac_job_id k) (ao_object_key row))"

lemma parts_private_mono:
  assumes "parts_private sha a sh" "refs_extend a a'" "owners sh \<subseteq> owners sh'" "set (sh_chunks sh') \<subseteq> set (sh_chunks sh)"
  shows "parts_private sha a' sh'"
  using assms unfolding parts_private_def refs_extend_def by (meson subsetD)

lemma owners_update: "(\<And>f. af_job_id (g f) = af_job_id f \<and> af_workspace_id (g f) = af_workspace_id f) \<Longrightarrow>
    owners (sh\<lparr>sh_artifacts := update_where p g (sh_artifacts sh)\<rparr>) = owners sh"
proof -
  assume "\<And>f. af_job_id (g f) = af_job_id f \<and> af_workspace_id (g f) = af_workspace_id f"
  then have "map (\<lambda>f. (af_job_id f, af_workspace_id f)) (update_where p g fs) = map (\<lambda>f. (af_job_id f, af_workspace_id f)) fs" for fs
    by (simp add: update_where_def)
  from arg_cong [OF this, of set] show ?thesis by (simp add: owners_def)
qed

lemma owners_other [simp]: "owners (sh\<lparr>sh_chunks := x\<rparr>) = owners sh" "owners (sh\<lparr>sh_downloads := y\<rparr>) = owners sh" "owners (sh\<lparr>sh_jobs := z\<rparr>) = owners sh"
  by (simp_all add: owners_def)

lemma shelf_step_private:
  assumes "shelf_step sha jb s (a, sh) (a', sh')" "arch_wf a" "parts_private sha a sh"
  shows "parts_private sha a' sh'"
  using assms(1)
proof cases
  case (chunk job ws ordinal p now)
  obtain f i prefix where f: "artifact_record job ws sh = Inr f"
    and pre: "artifact_prefix sha ws job = Inr prefix" "starts_with prefix (pr_object_key p)"
    and reg: "register_archive_object p (trunc_rat now) a = Inr (a', i)"
    and sh': "sh' = sh\<lparr>sh_chunks := sh_chunks sh @ [\<lparr>ac_job_id = job, ac_ordinal = ordinal, ac_archive_object_id = i\<rparr>]\<rparr>"
    using chunk by (auto simp: add_artifact_chunk_def rbind_eq_Inr split: if_splits)
  obtain e where e: "object_row a' i = Some e" "ao_object_key e = pr_object_key p" "refs_extend a a'"
    using register_archive_object_Inr [OF reg assms(2)] by metis
  have "(job, ws) \<in> owners sh" using artifact_record_Inr [OF f] by (force simp: owners_def)
  then have new: "\<exists>row w. object_row a' i = Some row \<and> (job, w) \<in> owners sh \<and> private_key sha w job (ao_object_key row)"
    using e pre by (auto simp: private_key_def)
  have old: "parts_private sha a' sh" using parts_private_mono [OF assms(3) e(3)] by simp
  show ?thesis using old new unfolding parts_private_def by (simp add: sh')
next
  case (archive)
  then show ?thesis using parts_private_mono [OF assms(3)] by blast
next
  case (remove fault nested c d job ws limit os r os')
  then obtain q where "sh' = sh\<lparr>sh_chunks := filter q (sh_chunks sh)\<rparr>" using delete_artifact_parts_shelf by blast
  then show ?thesis using remove(1) parts_private_mono [OF assms(3), of a sh'] by simp
next
  case (reserve job ws now)
  then obtain f where f: "sh' = sh\<lparr>sh_artifacts := sh_artifacts sh @ [f]\<rparr>" by (auto simp: reserve_artifact_def rbind_eq_Inr split: if_splits)
  have "owners sh \<subseteq> owners sh'" by (auto simp: owners_def f)
  then show ?thesis using reserve(1) parts_private_mono [OF assms(3), of a sh'] by (simp add: f)
next
  case (request job ws operation asked d)
  then have "\<exists>js. sh' = sh\<lparr>sh_jobs := js\<rparr>" by (auto simp: record_archive_job_def rbind_eq_Inr split: if_splits)
  then show ?thesis using request(1) parts_private_mono [OF assms(3), of a sh'] by auto
next
  case (select job ws selection)
  then have "\<exists>js. sh' = sh\<lparr>sh_jobs := js\<rparr>" by (auto simp: complete_working_set_job_def rbind_eq_Inr split: if_splits)
  then show ?thesis using select(1) parts_private_mono [OF assms(3), of a sh'] by auto
next
  case (acquire lease job ws lifetime slots now f)
  then have "\<exists>ds. sh' = sh\<lparr>sh_downloads := ds\<rparr>" by (auto simp: acquire_download_def rbind_eq_Inr Let_def split: if_splits)
  then show ?thesis using acquire(1) parts_private_mono [OF assms(3), of a sh'] by auto
next
  case (release lease ws)
  then show ?thesis using parts_private_mono [OF assms(3), of a sh'] by (simp add: release_download_def)
next
  case (start job ws now)
  then have "sh' = set_artifact job (\<lambda>x. x\<lparr>af_state := Building\<rparr>) sh" by (auto simp: start_artifact_def rbind_eq_Inr split: if_splits)
  then show ?thesis using start(1) parts_private_mono [OF assms(3), of a sh'] by (simp add: set_artifact_def owners_update)
next
  case (finish job ws m now)
  then have "\<exists>x y. sh' = set_artifact job (\<lambda>f. f\<lparr>af_state := Ready, af_manifest := x, af_reserved_bytes := y\<rparr>) sh"
    by (auto simp: finish_artifact_def rbind_eq_Inr Let_def split: if_splits)
  then show ?thesis using finish(1) parts_private_mono [OF assms(3), of a sh'] by (auto simp: set_artifact_def owners_update)
next
  case (mark busy d ws cutoff limit t0 t1 ids)
  then have "sh' = sh\<lparr>sh_artifacts := update_where (\<lambda>f. af_job_id f \<in> set ids) (\<lambda>f. f\<lparr>af_state := Pruning\<rparr>) (sh_artifacts sh)\<rparr>"
    by (auto simp: mark_pruning_def rbind_eq_Inr Let_def split: if_splits)
  then show ?thesis using mark(1) parts_private_mono [OF assms(3), of a sh'] by (simp add: owners_update)
next
  case (expire job ws n)
  then have "sh' = sh \<or> (\<exists>ds. sh' = (set_artifact job (\<lambda>x. x\<lparr>af_state := Expired, af_manifest := None, af_reserved_bytes := 1\<rparr>) sh)\<lparr>sh_downloads := ds\<rparr>)"
    by (auto simp: expire_if_empty_def rbind_eq_Inr split: if_splits)
  then show ?thesis using expire(1) assms(3) parts_private_mono [OF assms(3), of a sh'] by (auto simp: set_artifact_def owners_update)
qed

definition no_shelf :: shelf where
  "no_shelf = \<lparr>sh_jobs = [], sh_artifacts = [], sh_chunks = [], sh_downloads = []\<rparr>"

lemma shelf_reachable:
  assumes "(shelf_step sha jb s)\<^sup>*\<^sup>* (a0, no_shelf) (a, sh)" "arch_wf a0" "0 \<le> as_artifact_max_count s" "0 \<le> as_artifact_max_bytes s"
  shows "arch_wf a \<and> shelf_ok a sh \<and> fits_quota s sh \<and> parts_private sha a sh"
  using assms(1)
proof (induction rule: rtranclp_induct2)
  case refl
  show ?case using assms(2-4) by (simp add: no_shelf_def shelf_ok_def fits_quota_def held_def held_bytes_def parts_private_def)
next
  case (step a1 sh1 a2 sh2)
  then show ?case using shelf_step_ok [OF step(2)] shelf_step_private [OF step(2)] by blast
qed

section \<open>The quota\<close>

text \<open>
  C36. A workspace's exports stay within its quota. However reservations, publications, completions, downloads and retention of all workspaces interleave, with
  other writes of the archive in between, the artifacts a workspace holds are no more than its count, what they reserve is no more than its bytes, and the parts
  of every artifact fit what it has reserved.
\<close>

theorem artifact_quota_respected:
  assumes "(shelf_step sha jb s)\<^sup>*\<^sup>* (a0, no_shelf) (a, sh)" "arch_wf a0" "0 \<le> as_artifact_max_count s" "0 \<le> as_artifact_max_bytes s"
  shows "int (length (held ws sh)) \<le> as_artifact_max_count s \<and> sum_list (map af_reserved_bytes (held ws sh)) \<le> as_artifact_max_bytes s
    \<and> list_all (\<lambda>f. parts_bytes a (af_job_id f) sh \<le> af_reserved_bytes f) (held ws sh)"
proof -
  note r = shelf_reachable [OF assms]
  have "\<forall>f \<in> set (held ws sh). parts_bytes a (af_job_id f) sh \<le> af_reserved_bytes f" using r by (auto simp: shelf_ok_def held_def)
  then show ?thesis using r by (simp add: fits_quota_def held_bytes_def list_all_iff)
qed

definition one_export :: artifact_settings where
  "one_export = \<lparr>as_artifact_max_count = 1, as_artifact_max_bytes = 100, as_artifact_ttl_seconds = 60, as_async_export_max_bytes = 80\<rparr>"

theorem artifact_quota_respected_witness:
  "case reserve_artifact 1 ''local'' one_export 5 no_shelf of
     Inr sh \<Rightarrow> map af_reserved_bytes (held ''local'' sh) = [80] \<and> int (length (held ''local'' sh)) \<le> 1
       \<and> isl (reserve_artifact 2 ''local'' one_export 6 sh)
   | Inl _ \<Rightarrow> False"
proof -
  have "case reserve_artifact 1 ''local'' one_export 5 no_shelf of
     Inr sh \<Rightarrow> map af_reserved_bytes (held ''local'' sh) = [80] \<and> isl (reserve_artifact 2 ''local'' one_export 6 sh) | Inl _ \<Rightarrow> False" by code_simp
  then obtain sh where run: "reserve_artifact 1 ''local'' one_export 5 no_shelf = Inr sh"
    and h: "map af_reserved_bytes (held ''local'' sh) = [80]" "isl (reserve_artifact 2 ''local'' one_export 6 sh)"
    by (auto split: sum.splits)
  have step: "(shelf_step sample_sha plain_columns one_export)\<^sup>*\<^sup>* (no_arch, no_shelf) (no_arch, sh)" using shelf_step.reserve [OF run] by blast
  have lim: "as_artifact_max_count one_export = 1" "as_artifact_max_bytes one_export = 100" by (simp_all add: one_export_def)
  have wf: "arch_wf no_arch" by (simp add: arch_wf_def no_arch_def)
  from artifact_quota_respected [OF step wf, of "''local''"] h show ?thesis by (simp add: run lim)
qed

section \<open>Retention\<close>

definition place :: "archive_object \<Rightarrow> string \<times> string \<times> string" where
  "place o' = (ao_backend o', ao_location o', ao_object_key o')"

text \<open>The unique index of the registry of objects.\<close>

definition places_unique :: "arch \<Rightarrow> bool" where
  "places_unique a \<longleftrightarrow> distinct (map place (ar_objects a))"

lemma read_reference_local:
  assumes "os' (place row) = os (place row)"
  shows "read_archive_reference cd row None os' = read_archive_reference cd row None os"
proof -
  have "read_object st (ao_object_key row) n os' = read_object st (ao_object_key row) n os"
    if "st_backend st = ao_backend row" "st_location st = ao_location row" for st n
    using assms that by (simp add: read_object_def obj_at_def place_def)
  then show ?thesis by (auto simp: read_archive_reference_def read_archive_body_def store_for_reference_def)
qed

text \<open>An object a deletion must not touch: source evidence, or a part of an artifact that is ready.\<close>

definition precious :: "(string \<Rightarrow> string) \<Rightarrow> arch \<Rightarrow> shelf \<Rightarrow> archive_object \<Rightarrow> bool" where
  "precious sha a sh row \<longleftrightarrow> source_evidence a (ao_id row)
     \<or> (\<exists>f \<in> set (sh_artifacts sh). af_state f = Ready \<and> private_key sha (af_workspace_id f) (af_job_id f) (ao_object_key row))"

definition spares :: "(string \<Rightarrow> string) \<Rightarrow> arch \<Rightarrow> objects \<times> shelf \<Rightarrow> objects \<times> shelf \<Rightarrow> bool" where
  "spares sha a x y \<longleftrightarrow> (\<forall>row \<in> set (ar_objects a). precious sha a (snd y) row \<longrightarrow> fst y (place row) = fst x (place row))
     \<and> (\<forall>f \<in> set (sh_artifacts (snd y)). af_state f = Ready \<longrightarrow> f \<in> set (sh_artifacts (snd x))
          \<and> filter (\<lambda>k. ac_job_id k = af_job_id f) (sh_chunks (snd y)) = filter (\<lambda>k. ac_job_id k = af_job_id f) (sh_chunks (snd x)))"

lemma spares_refl [simp]: "spares sha a x x"
  by (simp add: spares_def)

lemma spares_trans: "spares sha a x y \<Longrightarrow> spares sha a y z \<Longrightarrow> spares sha a x z"
  unfolding spares_def precious_def by (metis (no_types, lifting))

lemma delete_part_spares:
  assumes sha: "\<And>x. length (sha x) = 64" and places: "places_unique a" and ids: "distinct (map af_job_id (sh_artifacts sh))"
    and p: "snd p \<in> set (ar_objects a)" and run: "delete_part sha fault c d a job ws p (os, sh) = (r, os', sh')"
  shows "spares sha a (os, sh) (os', sh') \<and> sh_artifacts sh' = sh_artifacts sh"
proof -
  obtain q where q: "sh' = sh\<lparr>sh_chunks := filter q (sh_chunks sh)\<rparr>" "\<forall>k \<in> set (sh_chunks sh). ac_job_id k \<noteq> job \<longrightarrow> q k"
    using delete_part_shelf [OF run] by blast
  show ?thesis
  proof (cases "authorize_chunk_deletion job ws sh")
    case (Inl err)
    then have "os' = os" "sh' = sh" using run by (auto simp: delete_part_def atomic_def rbind_def split: sum.splits)
    then show ?thesis by simp
  next
    case (Inr u)
    obtain g where g: "artifact_record job ws sh = Inr g" "af_state g \<noteq> Ready"
      using Inr by (auto simp: authorize_chunk_deletion_def rbind_eq_Inr rguard_def split: if_splits)
    have other: "af_job_id f \<noteq> job" if "f \<in> set (sh_artifacts sh)" "af_state f = Ready" for f
      using that g artifact_record_Inr [OF g(1)] ids by (metis distinct_map inj_onD)
    have gone: "os' = os \<or> os' = os(place (snd p) := None) \<and> private_key sha ws job (ao_object_key (snd p)) \<and> \<not> source_evidence a (ao_id (snd p))"
      using run by (auto simp: delete_part_def atomic_def rbind_eq_Inr delete_object_def obj_at_def place_def store_for_reference_def private_key_def
          split: sum.splits if_splits option.splits)
    have kept: "os' (place row) = os (place row)" if row: "row \<in> set (ar_objects a)" "precious sha a sh row" for row
    proof (cases "os' = os")
      case False
      then have del: "os' = os(place (snd p) := None)" "private_key sha ws job (ao_object_key (snd p))" "\<not> source_evidence a (ao_id (snd p))" using gone by auto
      have "place row \<noteq> place (snd p)"
      proof
        assume same: "place row = place (snd p)"
        then have "row = snd p" using places row(1) p unfolding places_unique_def by (metis distinct_map inj_onD)
        then show False using row(2) del(2,3) other private_key_job [where sha = sha, OF sha] unfolding precious_def by blast
      qed
      then show ?thesis by (simp add: del(1))
    qed simp
    have "filter (\<lambda>k. ac_job_id k = af_job_id f) (sh_chunks sh') = filter (\<lambda>k. ac_job_id k = af_job_id f) (sh_chunks sh)"
      if "f \<in> set (sh_artifacts sh)" "af_state f = Ready" for f
      using other [OF that] q by (auto simp: q(1) intro!: filter_cong)
    then show ?thesis using kept by (auto simp: spares_def q(1) precious_def)
  qed
qed

lemma delete_parts_spares:
  assumes sha: "\<And>x. length (sha x) = 64" and places: "places_unique a"
    and ids: "distinct (map af_job_id (sh_artifacts sh))" and ps: "\<forall>p \<in> set ps. snd p \<in> set (ar_objects a)"
    and run: "delete_parts sha fault c d a job ws ps (os, sh) = (r, os', sh')"
  shows "spares sha a (os, sh) (os', sh') \<and> sh_artifacts sh' = sh_artifacts sh"
  using ids ps run
proof (induction ps arbitrary: os sh)
  case (Cons p ps)
  obtain r1 os1 sh1 where one: "delete_part sha fault c d a job ws p (os, sh) = (r1, os1, sh1)" by (metis prod_cases3)
  have p: "snd p \<in> set (ar_objects a)" using Cons.prems(2) by simp
  note d = delete_part_spares [where sha = sha, OF sha places Cons.prems(1) p one]
  show ?case
  proof (cases r1)
    case (Inl err)
    then show ?thesis using Cons.prems(3) one d by simp
  next
    case (Inr u)
    then have rest: "delete_parts sha fault c d a job ws ps (os1, sh1) = (r, os', sh')" using Cons.prems(3) one by simp
    have "spares sha a (os1, sh1) (os', sh') \<and> sh_artifacts sh' = sh_artifacts sh1"
      by (rule Cons.IH [OF _ _ rest]) (use d Cons.prems(1,2) in simp_all)
    then show ?thesis using d spares_trans by metis
  qed
qed simp

lemma parts_of_objects: "p \<in> set (parts_of a job sh) \<Longrightarrow> snd p \<in> set (ar_objects a)"
  by (auto simp: parts_of_def map_filter_def object_row_def split: if_splits dest: find_row_Some)

lemma chunk_page_objects:
  assumes "chunk_page a job 0 limit sh = Inr rows"
  shows "\<forall>p \<in> set rows. snd p \<in> set (ar_objects a)"
proof -
  have "rows = take (nat limit) (filter (\<lambda>p. 0 < fst p) (parts_of a job sh))" using assms by (auto simp: chunk_page_def split: if_splits)
  then have "set rows \<subseteq> set (parts_of a job sh)" using set_take_subset [of "nat limit"] by fastforce
  then show ?thesis using parts_of_objects by blast
qed

lemma delete_artifact_parts_spares:
  assumes sha: "\<And>x. length (sha x) = 64" and places: "places_unique a" and ids: "distinct (map af_job_id (sh_artifacts sh))"
    and run: "delete_artifact_parts sha fault nested c d a job ws limit (os, sh) = (r, os', sh')"
  shows "spares sha a (os, sh) (os', sh') \<and> sh_artifacts sh' = sh_artifacts sh"
proof -
  have "(os', sh') = (os, sh) \<or> (\<exists>rows r1. chunk_page a job 0 limit sh = Inr rows \<and> delete_parts sha fault c d a job ws rows (os, sh) = (r1, os', sh'))"
    using run by (auto simp: delete_artifact_parts_def split: if_splits sum.splits prod.splits)
  then show ?thesis
  proof (elim disjE exE conjE)
    fix rows r1
    assume rows: "chunk_page a job 0 limit sh = Inr rows" and del: "delete_parts sha fault c d a job ws rows (os, sh) = (r1, os', sh')"
    show ?thesis by (rule delete_parts_spares [where sha = sha, OF sha places ids chunk_page_objects [OF rows] del])
  qed simp
qed

lemma expire_if_empty_spares:
  assumes "expire_if_empty job ws sh = Inr (sh', n)"
  shows "spares sha a (os, sh) (os, sh') \<and> map af_job_id (sh_artifacts sh') = map af_job_id (sh_artifacts sh)"
proof -
  let ?g = "\<lambda>x. x\<lparr>af_state := Expired, af_manifest := None, af_reserved_bytes := 1\<rparr>"
  have "sh' = sh \<or> (\<exists>ds. sh' = (set_artifact job ?g sh)\<lparr>sh_downloads := ds\<rparr>)"
    using assms by (auto simp: expire_if_empty_def rbind_eq_Inr split: if_splits)
  then show ?thesis
  proof (elim disjE exE)
    fix ds assume sh': "sh' = (set_artifact job ?g sh)\<lparr>sh_downloads := ds\<rparr>"
    have "f \<in> set (sh_artifacts sh)" if "f \<in> set (sh_artifacts sh')" "af_state f = Ready" for f
      using that by (auto simp: sh' set_artifact_def update_where_def split: if_splits)
    moreover have "sh_chunks sh' = sh_chunks sh" by (simp add: sh' set_artifact_def)
    moreover have "map af_job_id (sh_artifacts sh') = map af_job_id (sh_artifacts sh)" by (simp add: sh' set_artifact_def update_where_def)
    ultimately show ?thesis by (simp add: spares_def)
  qed simp
qed

lemma prune_each_spares:
  assumes sha: "\<And>x. length (sha x) = 64" and places: "places_unique a"
    and ids: "distinct (map af_job_id (sh_artifacts sh))" and run: "prune_each sha fault c d a ws jobs r0 (os, sh) = (r, os', sh')"
  shows "spares sha a (os, sh) (os', sh')"
  using ids run
proof (induction jobs arbitrary: os sh r0)
  case (Cons job jobs)
  obtain r1 os1 sh1 where one: "delete_artifact_parts sha (fault job) False c d a job ws 256 (os, sh) = (r1, os1, sh1)" by (metis prod_cases3)
  note del = delete_artifact_parts_spares [where sha = sha, OF sha places Cons.prems(1) one]
  show ?case
  proof (cases "\<exists>n x. r1 = Inr n \<and> atomic c d (\<lambda>_. expire_if_empty job ws sh1) = Inr x")
    case False
    then have "os' = os1 \<and> sh' = sh1" using Cons.prems(2) one by (auto split: sum.splits)
    then show ?thesis using del by simp
  next
    case True
    then obtain n sh2 freed where two: "r1 = Inr n" "atomic c d (\<lambda>_. expire_if_empty job ws sh1) = Inr (sh2, freed)" by auto
    have ex: "spares sha a (os1, sh1) (os1, sh2) \<and> map af_job_id (sh_artifacts sh2) = map af_job_id (sh_artifacts sh1)"
      using two(2) by (intro expire_if_empty_spares [of job ws sh1 sh2 freed]) (auto simp: atomic_def rbind_eq_Inr)
    have "spares sha a (os1, sh2) (os', sh')"
      by (rule Cons.IH) (use Cons.prems del ex one two in auto)
    then show ?thesis using del ex spares_trans by blast
  qed
qed simp

text \<open>What a deletion leaves alone of another job: its objects in the private namespace of a workspace and the references of its parts.\<close>

definition spares_job :: "(string \<Rightarrow> string) \<Rightarrow> arch \<Rightarrow> int \<Rightarrow> string \<Rightarrow> objects \<times> shelf \<Rightarrow> objects \<times> shelf \<Rightarrow> bool" where
  "spares_job sha a i w x y \<longleftrightarrow> (\<forall>row \<in> set (ar_objects a). private_key sha w i (ao_object_key row) \<longrightarrow> fst y (place row) = fst x (place row))
     \<and> filter (\<lambda>k. ac_job_id k = i) (sh_chunks (snd y)) = filter (\<lambda>k. ac_job_id k = i) (sh_chunks (snd x))"

lemma spares_job_refl [simp]: "spares_job sha a i w x x"
  by (simp add: spares_job_def)

lemma spares_job_trans: "spares_job sha a i w x y \<Longrightarrow> spares_job sha a i w y z \<Longrightarrow> spares_job sha a i w x z"
  by (simp add: spares_job_def)

lemma delete_part_other:
  assumes sha: "\<And>x. length (sha x) = 64" and places: "places_unique a" and p: "snd p \<in> set (ar_objects a)" and other: "job \<noteq> i"
    and run: "delete_part sha fault c d a job ws p (os, sh) = (r, os', sh')"
  shows "spares_job sha a i w (os, sh) (os', sh')"
proof -
  obtain q where q: "sh' = sh\<lparr>sh_chunks := filter q (sh_chunks sh)\<rparr>" "\<forall>k \<in> set (sh_chunks sh). ac_job_id k \<noteq> job \<longrightarrow> q k"
    using delete_part_shelf [OF run] by blast
  have gone: "os' = os \<or> os' = os(place (snd p) := None) \<and> private_key sha ws job (ao_object_key (snd p))"
    using run by (auto simp: delete_part_def atomic_def rbind_eq_Inr delete_object_def obj_at_def place_def store_for_reference_def private_key_def
        split: sum.splits if_splits option.splits)
  have "os' (place row) = os (place row)" if row: "row \<in> set (ar_objects a)" "private_key sha w i (ao_object_key row)" for row
  proof (cases "os' = os")
    case False
    then have del: "os' = os(place (snd p) := None)" "private_key sha ws job (ao_object_key (snd p))" using gone by auto
    have "place row \<noteq> place (snd p)"
    proof
      assume "place row = place (snd p)"
      then have "row = snd p" using places row(1) p unfolding places_unique_def by (metis distinct_map inj_onD)
      then show False using row(2) del(2) other private_key_job [where sha = sha, OF sha] by blast
    qed
    then show ?thesis by (simp add: del(1))
  qed simp
  moreover have "filter (\<lambda>k. ac_job_id k = i) (sh_chunks sh') = filter (\<lambda>k. ac_job_id k = i) (sh_chunks sh)"
    using other q by (auto simp: q(1) intro!: filter_cong)
  ultimately show ?thesis by (simp add: spares_job_def)
qed

lemma delete_parts_other:
  assumes sha: "\<And>x. length (sha x) = 64" and places: "places_unique a" and other: "job \<noteq> i" and ps: "\<forall>p \<in> set ps. snd p \<in> set (ar_objects a)"
    and run: "delete_parts sha fault c d a job ws ps (os, sh) = (r, os', sh')"
  shows "spares_job sha a i w (os, sh) (os', sh')"
  using ps run
proof (induction ps arbitrary: os sh)
  case (Cons p ps)
  obtain r1 os1 sh1 where one: "delete_part sha fault c d a job ws p (os, sh) = (r1, os1, sh1)" by (metis prod_cases3)
  have p: "snd p \<in> set (ar_objects a)" using Cons.prems(1) by simp
  note d = delete_part_other [where sha = sha and w = w, OF sha places p other one]
  show ?case
  proof (cases r1)
    case (Inl err)
    then show ?thesis using Cons.prems(2) one d by simp
  next
    case (Inr u)
    then have rest: "delete_parts sha fault c d a job ws ps (os1, sh1) = (r, os', sh')" using Cons.prems(2) one by simp
    have "spares_job sha a i w (os1, sh1) (os', sh')" by (rule Cons.IH [OF _ rest]) (use Cons.prems(1) in simp)
    then show ?thesis using d spares_job_trans by blast
  qed
qed simp

lemma delete_artifact_parts_other:
  assumes sha: "\<And>x. length (sha x) = 64" and places: "places_unique a" and other: "job \<noteq> i"
    and run: "delete_artifact_parts sha fault nested c d a job ws limit (os, sh) = (r, os', sh')"
  shows "spares_job sha a i w (os, sh) (os', sh')"
proof -
  have "(os', sh') = (os, sh) \<or> (\<exists>rows r1. chunk_page a job 0 limit sh = Inr rows \<and> delete_parts sha fault c d a job ws rows (os, sh) = (r1, os', sh'))"
    using run by (auto simp: delete_artifact_parts_def split: if_splits sum.splits prod.splits)
  then show ?thesis
  proof (elim disjE exE conjE)
    fix rows r1
    assume rows: "chunk_page a job 0 limit sh = Inr rows" and del: "delete_parts sha fault c d a job ws rows (os, sh) = (r1, os', sh')"
    show ?thesis by (rule delete_parts_other [where sha = sha, OF sha places other chunk_page_objects [OF rows] del])
  qed simp
qed

lemma prune_each_other:
  assumes sha: "\<And>x. length (sha x) = 64" and places: "places_unique a" and other: "i \<notin> set jobs"
    and run: "prune_each sha fault c d a ws jobs r0 (os, sh) = (r, os', sh')"
  shows "spares_job sha a i w (os, sh) (os', sh')"
  using other run
proof (induction jobs arbitrary: os sh r0)
  case (Cons job jobs)
  obtain r1 os1 sh1 where one: "delete_artifact_parts sha (fault job) False c d a job ws 256 (os, sh) = (r1, os1, sh1)" by (metis prod_cases3)
  have "job \<noteq> i" using Cons.prems(1) by auto
  note del = delete_artifact_parts_other [where sha = sha and w = w, OF sha places this one]
  show ?case
  proof (cases "\<exists>n x. r1 = Inr n \<and> atomic c d (\<lambda>_. expire_if_empty job ws sh1) = Inr x")
    case False
    then have "os' = os1 \<and> sh' = sh1" using Cons.prems(2) one by (auto split: sum.splits)
    then show ?thesis using del by simp
  next
    case True
    then obtain n sh2 freed where two: "r1 = Inr n" "atomic c d (\<lambda>_. expire_if_empty job ws sh1) = Inr (sh2, freed)" by auto
    have "sh_chunks sh2 = sh_chunks sh1"
      using two(2) by (auto simp: atomic_def rbind_eq_Inr expire_if_empty_def set_artifact_def split: if_splits)
    then have ex: "spares_job sha a i w (os1, sh1) (os1, sh2)" by (simp add: spares_job_def)
    have "spares_job sha a i w (os1, sh2) (os', sh')" by (rule Cons.IH) (use Cons.prems one two in auto)
    then show ?thesis using del ex spares_job_trans by blast
  qed
qed simp

lemma mark_pruning_spares:
  assumes "mark_pruning busy d ws cutoff limit t0 t1 sh = Inr (sh1, ids)"
  shows "spares sha a (os, sh) (os, sh1) \<and> map af_job_id (sh_artifacts sh1) = map af_job_id (sh_artifacts sh)"
    "\<forall>i \<in> set ids. \<exists>f \<in> set (sh_artifacts sh). af_job_id f = i \<and> artifact_prunable busy d sh ws (min cutoff (trunc_rat t0)) t1 f"
proof -
  have sh1: "sh1 = sh\<lparr>sh_artifacts := update_where (\<lambda>f. af_job_id f \<in> set ids) (\<lambda>f. f\<lparr>af_state := Pruning\<rparr>) (sh_artifacts sh)\<rparr>"
    and ids: "set ids \<subseteq> af_job_id ` set (filter (artifact_prunable busy d sh ws (min cutoff (trunc_rat t0)) t1) (sh_artifacts sh))"
    using assms by (auto simp: mark_pruning_def rbind_eq_Inr Let_def split: if_splits dest: in_set_takeD)
  have "f \<in> set (sh_artifacts sh)" if "f \<in> set (sh_artifacts sh1)" "af_state f = Ready" for f
    using that by (auto simp: sh1 update_where_def split: if_splits)
  moreover have "map af_job_id (sh_artifacts sh1) = map af_job_id (sh_artifacts sh)" by (simp add: sh1 update_where_def)
  ultimately show "spares sha a (os, sh) (os, sh1) \<and> map af_job_id (sh_artifacts sh1) = map af_job_id (sh_artifacts sh)"
    by (simp add: spares_def sh1)
  show "\<forall>i \<in> set ids. \<exists>f \<in> set (sh_artifacts sh). af_job_id f = i \<and> artifact_prunable busy d sh ws (min cutoff (trunc_rat t0)) t1 f"
    using ids by auto
qed

lemma prune_each_untouched:
  assumes "prune_each sha fault c d a ws jobs r0 (os, sh) = (r, os', sh')" "f \<in> set (sh_artifacts sh)" "af_job_id f \<notin> set jobs"
  shows "f \<in> set (sh_artifacts sh')"
  using assms
proof (induction jobs arbitrary: os sh r0)
  case (Cons job jobs)
  obtain r1 os1 sh1 where one: "delete_artifact_parts sha (fault job) False c d a job ws 256 (os, sh) = (r1, os1, sh1)" by (metis prod_cases3)
  have f1: "f \<in> set (sh_artifacts sh1)" using delete_artifact_parts_shelf [OF one] Cons.prems(2) by auto
  show ?case
  proof (cases "\<exists>n x. r1 = Inr n \<and> atomic c d (\<lambda>_. expire_if_empty job ws sh1) = Inr x")
    case False
    then have "sh' = sh1" using Cons.prems(1) one by (auto split: sum.splits)
    then show ?thesis using f1 by simp
  next
    case True
    then obtain n sh2 freed where two: "r1 = Inr n" "atomic c d (\<lambda>_. expire_if_empty job ws sh1) = Inr (sh2, freed)" by auto
    have "expire_if_empty job ws sh1 = Inr (sh2, freed)" using two(2) by (auto simp: atomic_def rbind_eq_Inr)
    then have "sh2 = sh1 \<or> (\<exists>g ds. sh2 = (set_artifact job g sh1)\<lparr>sh_downloads := ds\<rparr>)"
      by (auto simp: expire_if_empty_def rbind_eq_Inr split: if_splits)
    then have f2: "f \<in> set (sh_artifacts sh2)" using f1 Cons.prems(3) by (auto simp: set_artifact_def update_where_def intro!: image_eqI [of _ _ f])
    show ?thesis by (rule Cons.IH [OF _ f2]) (use Cons.prems one two in auto)
  qed
qed simp

lemma source_place:
  assumes "object_row a k = Some row" "source_evidence a k" "spares sha a (os, sh) (os', sh')"
  shows "read_archive_reference cd row None os' = read_archive_reference cd row None os"
proof -
  have "row \<in> set (ar_objects a)" "ao_id row = k" using find_row_Some [OF assms(1) [unfolded object_row_def]] by auto
  then show ?thesis using assms(2,3) by (intro read_reference_local) (auto simp: spares_def precious_def)
qed

lemma prune_artifacts_cases:
  assumes "prune_artifacts sha fault busy c d a ws cutoff limit t0 t1 (os, sh) = (r, os', sh')"
  obtains "os' = os" "sh' = sh"
  | sh1 jobs where "mark_pruning busy d ws cutoff limit t0 t1 sh = Inr (sh1, jobs)"
      "prune_each sha fault c d a ws jobs \<lparr>pd_expired = 0, pd_deleted_chunks = 0, pd_released_bytes = 0\<rparr> (os, sh1) = (r, os', sh')"
  using assms that by (auto simp: prune_artifacts_def atomic_def rbind_eq_Inr split: sum.splits)

lemma prune_artifacts_spares:
  assumes sha: "\<And>x. length (sha x) = 64" and places: "places_unique a" and ids: "distinct (map af_job_id (sh_artifacts sh))"
    and run: "prune_artifacts sha fault busy c d a ws cutoff limit t0 t1 (os, sh) = (r, os', sh')"
  shows "spares sha a (os, sh) (os', sh')"
  using run
proof (cases rule: prune_artifacts_cases)
  case (2 sh1 jobs)
  note m = mark_pruning_spares(1) [OF 2(1), of sha a os]
  have "spares sha a (os, sh1) (os', sh')" by (rule prune_each_spares [where sha = sha, OF sha places _ 2(2)]) (use m ids in simp)
  then show ?thesis using m spares_trans by blast
qed simp

lemma prune_artifacts_untouched:
  assumes sha: "\<And>x. length (sha x) = 64" and places: "places_unique a" and ids: "distinct (map af_job_id (sh_artifacts sh))"
    and run: "prune_artifacts sha fault busy c d a ws cutoff limit t0 t1 (os, sh) = (r, os', sh')"
    and f: "f \<in> set (sh_artifacts sh)" "\<not> artifact_prunable busy d sh ws (min cutoff (trunc_rat t0)) t1 f"
  shows "f \<in> set (sh_artifacts sh') \<and> spares_job sha a (af_job_id f) (af_workspace_id f) (os, sh) (os', sh')"
  using run
proof (cases rule: prune_artifacts_cases)
  case (2 sh1 jobs)
  have out: "af_job_id f \<notin> set jobs"
  proof
    assume "af_job_id f \<in> set jobs"
    then obtain x where x: "x \<in> set (sh_artifacts sh)" "af_job_id x = af_job_id f" "artifact_prunable busy d sh ws (min cutoff (trunc_rat t0)) t1 x"
      using mark_pruning_spares(2) [OF 2(1)] by blast
    then have "x = f" using ids f(1) by (metis distinct_map inj_onD)
    then show False using x(3) f(2) by simp
  qed
  have sh1: "sh_chunks sh1 = sh_chunks sh" "f \<in> set (sh_artifacts sh1)"
    using 2(1) f(1) out by (auto simp: mark_pruning_def rbind_eq_Inr Let_def update_where_def split: if_splits intro!: image_eqI [of _ _ f])
  have "spares_job sha a (af_job_id f) (af_workspace_id f) (os, sh1) (os', sh')"
    by (rule prune_each_other [where sha = sha, OF sha places out 2(2)])
  then show ?thesis using prune_each_untouched [OF 2(2) sh1(2) out] sh1(1) by (simp add: spares_job_def)
qed (use f in simp)

text \<open>The parts of an artifact by the chunks of its job, and an object of one of them.\<close>

lemma parts_of_chunks:
  assumes "filter (\<lambda>k. ac_job_id k = i) (sh_chunks sh') = filter (\<lambda>k. ac_job_id k = i) (sh_chunks sh)"
  shows "parts_of a i sh' = parts_of a i sh"
proof -
  have "List.map_filter (\<lambda>k. if ac_job_id k = j then h k else None) ks = List.map_filter h (filter (\<lambda>k. ac_job_id k = j) ks)" for j ks
    and h :: "artifact_chunk \<Rightarrow> (int \<times> archive_object) option"
    by (induction ks) (auto simp: map_filter_simps split: option.splits)
  then show ?thesis by (simp only: parts_of_def assms)
qed

lemma parts_of_private:
  assumes "parts_private sha a sh" "distinct (map af_job_id (sh_artifacts sh))" "f \<in> set (sh_artifacts sh)" "p \<in> set (parts_of a (af_job_id f) sh)"
  shows "private_key sha (af_workspace_id f) (af_job_id f) (ao_object_key (snd p))"
proof -
  obtain k where k: "k \<in> set (sh_chunks sh)" "ac_job_id k = af_job_id f" "object_row a (ac_archive_object_id k) = Some (snd p)"
    using assms(4) by (auto simp: parts_of_def map_filter_def split: if_splits)
  obtain w where w: "(af_job_id f, w) \<in> owners sh" "private_key sha w (af_job_id f) (ao_object_key (snd p))"
    using assms(1) k unfolding parts_private_def by fastforce
  obtain g where "g \<in> set (sh_artifacts sh)" "af_job_id g = af_job_id f" "af_workspace_id g = w" using w(1) by (auto simp: owners_def)
  then have "af_workspace_id f = w" using assms(2,3) by (metis distinct_map inj_onD)
  then show ?thesis using w(2) by simp
qed

lemma spares_job_parts:
  assumes "spares_job sha a (af_job_id f) (af_workspace_id f) (os, sh) (os', sh')" "parts_private sha a sh" "distinct (map af_job_id (sh_artifacts sh))"
    "f \<in> set (sh_artifacts sh)"
  shows "parts_of a (af_job_id f) sh' = parts_of a (af_job_id f) sh"
    "p \<in> set (parts_of a (af_job_id f) sh) \<Longrightarrow> read_archive_reference cd (snd p) None os' = read_archive_reference cd (snd p) None os"
proof -
  show "parts_of a (af_job_id f) sh' = parts_of a (af_job_id f) sh" using assms(1) by (intro parts_of_chunks) (simp add: spares_job_def)
  show "read_archive_reference cd (snd p) None os' = read_archive_reference cd (snd p) None os" if p: "p \<in> set (parts_of a (af_job_id f) sh)"
    using assms(1) parts_of_objects [OF p] parts_of_private [OF assms(2-4) p] by (intro read_reference_local) (simp add: spares_job_def)
qed

lemma spares_ready:
  assumes "spares sha a (os, sh) (os', sh')" "parts_private sha a sh" "distinct (map af_job_id (sh_artifacts sh))"
    and f: "f \<in> set (sh_artifacts sh')" "af_state f = Ready"
  shows "f \<in> set (sh_artifacts sh)" "parts_of a (af_job_id f) sh' = parts_of a (af_job_id f) sh"
    "p \<in> set (parts_of a (af_job_id f) sh) \<Longrightarrow> read_archive_reference cd (snd p) None os' = read_archive_reference cd (snd p) None os"
proof -
  show here: "f \<in> set (sh_artifacts sh)" using assms(1) f by (auto simp: spares_def)
  show "parts_of a (af_job_id f) sh' = parts_of a (af_job_id f) sh" using assms(1) f by (intro parts_of_chunks) (auto simp: spares_def)
  show "read_archive_reference cd (snd p) None os' = read_archive_reference cd (snd p) None os" if p: "p \<in> set (parts_of a (af_job_id f) sh)"
  proof -
    have "precious sha a sh' (snd p)" using parts_of_private [OF assms(2,3) here p] f by (auto simp: precious_def)
    then show ?thesis using assms(1) parts_of_objects [OF p] by (intro read_reference_local) (auto simp: spares_def)
  qed
qed

lemma spares_payload:
  assumes "spares sha a (os, sh) (os', sh')" "load_raw_payload cd os a i = Inr (w, b)"
  shows "load_raw_payload cd os' a i = Inr (w, b)"
proof -
  have w: "raw_by_id a i = Some w" using assms(2) by (auto simp: load_raw_payload_def rbind_eq_Inr split: option.splits if_splits)
  have "raw_body_of cd os' a w = raw_body_of cd os a w"
  proof (cases "rw_archive_object_id w")
    case (Some k)
    have "source_evidence a k" using find_row_Some [OF w [unfolded raw_by_id_def]] Some by (auto simp: source_evidence_def list_ex_iff)
    then show ?thesis using source_place [OF _ _ assms(1)] by (auto simp: raw_body_of_def Some read_archive_object_def split: option.splits)
  qed (simp add: raw_body_of_def)
  then show ?thesis using assms(2) w by (simp add: load_raw_payload_def)
qed

lemma spares_import:
  assumes "spares sha a (os, sh) (os', sh')" "read_import_backup cd i x os a = Inr (w, b)"
  shows "read_import_backup cd i x os' a = Inr (w, b)"
proof -
  have w: "find_row (\<lambda>r. im_id r = i \<and> im_workspace_id r = x) (ar_imports a) = Some w"
    using assms(2) by (auto simp: read_import_backup_def rbind_eq_Inr split: option.splits)
  have "source_evidence a (im_archive_object_id w)" using find_row_Some [OF w] by (auto simp: source_evidence_def list_ex_iff)
  then have "read_archive_object cd (im_archive_object_id w) None os' a = read_archive_object cd (im_archive_object_id w) None os a"
    using source_place [OF _ _ assms(1)] by (auto simp: read_archive_object_def split: option.splits)
  then show ?thesis using assms(2) w by (simp add: read_import_backup_def)
qed


definition two_exports :: artifact_settings where
  "two_exports = one_export\<lparr>as_artifact_max_count := 2, as_artifact_max_bytes := 200\<rparr>"

definition two_reserved :: "shelf result" where
  "two_reserved = rbind (reserve_artifact 1 ''local'' two_exports 5 no_shelf) (reserve_artifact 2 ''local'' two_exports 150)"

definition pruned_late :: "arch \<Rightarrow> objects \<times> shelf \<Rightarrow> pruned result \<times> objects \<times> shelf" where
  "pruned_late a = prune_artifacts (cd_sha plain_codec) (\<lambda>_ _. None) [] (fresh_conn 7) one_job_db a ''local'' 1000 10 160 160"

lemma pruned_late_runs:
  "case store_raw_payload plain_codec False None sample_record None ''pending'' (Some disk) None None 100 Map.empty no_arch of
     Inr (os, a, _) \<Rightarrow> (case two_reserved of
        Inr sh \<Rightarrow> (case pruned_late a (os, sh) of (r, os', sh') \<Rightarrow> map_sum id pd_expired r = Inr 1
           \<and> map af_state (sh_artifacts sh') = [Expired, Reserved]) \<and> map_sum id snd (load_raw_payload plain_codec os a 1) = Inr ''{}'' \<and> places_unique a
      | Inl _ \<Rightarrow> False)
   | Inl _ \<Rightarrow> False"
  by code_simp


end
