(* ===== verification/Submissions.thy ===== *)
theory Submissions
  imports Artifacts Discovery
begin

text \<open>
  Submitting work, application/services.py with application/validation.py, application/models.py, storage/application.py and
  \<open>submit_archive_job\<close> of application/archive\_jobs.py: requests are checked before storage is opened, and a submission has a permanent
  identity, its idempotency key in its workspace. \<open>json.loads\<close> is an argument.
\<close>

section \<open>Requests\<close>

record import_request =
  ir_provider :: string
  ir_username :: string
  ir_since :: "int option"
  ir_until :: "int option"
  ir_max_games :: int
  ir_collection_mode :: string
  ir_batch_size :: int

record crawl_request =
  cq_provider :: string
  cq_username :: string
  cq_since :: int
  cq_until :: int
  cq_max_games :: int
  cq_max_depth :: int
  cq_max_users :: int
  cq_max_jobs :: int

record app_limits =
  la_max_games :: int
  la_max_depth :: int
  la_max_users :: int
  la_max_jobs :: int
  la_page_size :: int
  la_max_date_span_days :: int

section \<open>Validation\<close>

definition MAX_TIMESTAMP :: int where
  "MAX_TIMESTAMP = 253402300800"

definition validate_provider :: "string \<Rightarrow> string result" where
  "validate_provider p = (if lower (strip p) \<notin> set known_keys then Inl (ValidationError ''Unknown provider'' ''invalid_provider'')
     else Inr (lower (strip p)))"

definition username_char :: "char \<Rightarrow> bool" where
  "username_char c \<longleftrightarrow> is_ascii_alnum c \<or> c = CHR ''_'' \<or> c = CHR ''-''"

definition validate_username :: "string \<Rightarrow> string result" where
  "validate_username u = (if \<not> (1 \<le> length (strip u) \<and> length (strip u) \<le> 100 \<and> list_all username_char (strip u))
     then Inl (ValidationError ''Username must contain 1 to 100 letters, digits, underscores, or hyphens'' ''invalid_username'')
     else Inr (lower (strip u)))"

definition validate_idempotency_key :: "string \<Rightarrow> string result" where
  "validate_idempotency_key k =
     (if \<not> (1 \<le> length k \<and> length k \<le> 128) \<or> list_ex (\<lambda>c. \<not> (33 \<le> (of_char c :: nat) \<and> of_char c \<le> (126 :: nat))) k
      then Inl (ValidationError ''Idempotency key must contain 1 to 128 visible ASCII characters without spaces'' ''invalid_idempotency_key'')
      else Inr k)"

definition validate_integer :: "int \<Rightarrow> string \<Rightarrow> int \<Rightarrow> int option \<Rightarrow> int result" where
  "validate_integer v name minimum maximum =
     (if v < minimum \<or> (case maximum of None \<Rightarrow> False | Some m \<Rightarrow> m < v)
      then Inl (ValidationError (name @ '' must be an integer '' @ (case maximum of Some m \<Rightarrow> str_int minimum @ '' to '' @ str_int m
          | None \<Rightarrow> ''>= '' @ str_int minimum)) (''invalid_'' @ name))
      else Inr v)"

definition validate_optional :: "int option \<Rightarrow> string \<Rightarrow> int \<Rightarrow> int \<Rightarrow> unit result" where
  "validate_optional v name minimum maximum = (case v of
       None \<Rightarrow> Inr () | Some x \<Rightarrow> rbind (validate_integer x name minimum (Some maximum)) (\<lambda>_. Inr ()))"

text \<open>The order of the two ends of a window, and the span of a bounded one.\<close>

definition validate_window :: "string \<Rightarrow> int option \<Rightarrow> int option \<Rightarrow> app_limits \<Rightarrow> unit result" where
  "validate_window mode since until lms = (case (since, until) of
       (Some s, Some u) \<Rightarrow>
         if u \<le> s then Inl (ValidationError ''since must be earlier than the exclusive until timestamp'' ''invalid_date_window'')
         else if mode = ''bounded'' \<and> la_max_date_span_days lms * 86400 < u - s
         then Inl (ValidationError ''Date window exceeds the configured maximum span'' ''invalid_date_window'')
         else Inr ()
     | _ \<Rightarrow> Inr ())"

definition validate_common ::
  "string \<Rightarrow> string \<Rightarrow> string \<Rightarrow> int option \<Rightarrow> int option \<Rightarrow> int \<Rightarrow> app_limits \<Rightarrow> (string \<times> string) result" where
  "validate_common provider username mode since until max_games lms =
     rbind (validate_provider provider) (\<lambda>p. rbind (validate_username username) (\<lambda>u.
     if mode = ''bounded'' \<and> (since = None \<or> until = None)
     then Inl (ValidationError ''Bounded collection requires since and until'' ''invalid_date_window'')
     else rbind (validate_optional since ''since'' 0 (MAX_TIMESTAMP - 1)) (\<lambda>_.
       rbind (validate_optional until ''until'' 1 MAX_TIMESTAMP) (\<lambda>_.
       rbind (validate_window mode since until lms) (\<lambda>_.
       rbind (validate_integer max_games ''max_games'' 1 (Some (la_max_games lms))) (\<lambda>_. Inr (p, u)))))))"

definition validate_import :: "import_request \<Rightarrow> app_limits \<Rightarrow> import_request result" where
  "validate_import q lms =
     rbind (validate_common (ir_provider q) (ir_username q) (ir_collection_mode q) (ir_since q) (ir_until q) (ir_max_games q) lms) (\<lambda>(p, u).
     if ir_collection_mode q \<notin> {''bounded'', ''full'', ''incremental'', ''backfill''}
     then Inl (ValidationError ''Unknown collection mode'' ''invalid_collection_mode'')
     else rbind (validate_integer (ir_batch_size q) ''batch_size'' 1 (Some 12)) (\<lambda>_.
       if la_max_jobs lms < 2 then Inl (ValidationError ''An import requires a profile job and a games job'' ''invalid_max_jobs'')
       else Inr (q\<lparr>ir_provider := p, ir_username := u\<rparr>)))"

definition validate_crawl :: "crawl_request \<Rightarrow> app_limits \<Rightarrow> crawl_request result" where
  "validate_crawl q lms =
     rbind (validate_common (cq_provider q) (cq_username q) ''bounded'' (Some (cq_since q)) (Some (cq_until q)) (cq_max_games q) lms) (\<lambda>(p, u).
     rbind (validate_integer (cq_max_depth q) ''max_depth'' 0 (Some (la_max_depth lms))) (\<lambda>_.
     rbind (validate_integer (cq_max_users q) ''max_users'' 1 (Some (la_max_users lms))) (\<lambda>_.
     rbind (validate_integer (cq_max_jobs q) ''max_jobs'' 1 (Some (la_max_jobs lms))) (\<lambda>_.
     Inr (q\<lparr>cq_provider := p, cq_username := u\<rparr>)))))"

definition validate_player_refresh :: "string \<Rightarrow> string \<Rightarrow> bool \<Rightarrow> (string \<times> string) result" where
  "validate_player_refresh provider username statistics =
     rbind (validate_provider provider) (\<lambda>p. rbind (validate_username username) (\<lambda>u.
     if statistics \<and> p \<noteq> ''chess.com''
     then Inl (ValidationError ''Separate statistics refresh is supported only for chess.com'' ''unsupported_resource'')
     else Inr (p, u)))"

definition validate_game_collection :: "string \<Rightarrow> string \<Rightarrow> (string \<times> string) result" where
  "validate_game_collection provider game =
     rbind (validate_provider provider) (\<lambda>p.
     if p \<noteq> ''lichess'' then Inl (ValidationError ''Direct game collection is supported only for lichess'' ''unsupported_resource'')
     else if \<not> (length game = 8 \<and> list_all is_ascii_alnum game)
     then Inl (ValidationError ''A public Lichess game ID must have eight alphanumeric characters'' ''invalid_game_id'')
     else Inr (p, game))"

definition validate_page :: "int option \<Rightarrow> int option \<Rightarrow> app_limits \<Rightarrow> (int \<times> int) result" where
  "validate_page after limit lms =
     rbind (case after of None \<Rightarrow> Inr 0 | Some a \<Rightarrow> validate_integer a ''cursor'' 0 (Some (2 ^ 63 - 1))) (\<lambda>cursor.
     rbind (case limit of None \<Rightarrow> Inr (min 50 (la_page_size lms)) | Some n \<Rightarrow> validate_integer n ''limit'' 1 (Some (la_page_size lms))) (\<lambda>s.
     Inr (cursor, s)))"

section \<open>Identities\<close>

record submission =
  su_key :: string
  su_workspace_id :: string
  su_operation :: string
  su_request_json :: string
  su_run_id :: int
  su_job_ids :: "int list"
  su_created_at :: int

text \<open>The state submissions write: the database, the identities and the requests of archive jobs.\<close>

record office =
  of_db :: db
  of_submissions :: "submission list"
  of_shelf :: shelf

record receipt =
  rc_run_id :: int
  rc_job_ids :: "int list"
  rc_replayed :: bool

definition get_submission :: "string \<Rightarrow> string \<Rightarrow> office \<Rightarrow> submission option" where
  "get_submission key ws f = find_row (\<lambda>s. su_key s = key \<and> su_workspace_id s = ws) (of_submissions f)"

definition record_submission :: "submission \<Rightarrow> office \<Rightarrow> office result" where
  "record_submission s f =
     (if su_operation s \<notin> {''import'', ''crawl'', ''upgrade'', ''resource'', ''build_working_set'', ''prepare_export''}
      then Inl (DatabaseError ''CheckViolation'')
      else if get_submission (su_key s) (su_workspace_id s) f \<noteq> None then Inl (DatabaseError ''UniqueViolation'')
      else Inr (f\<lparr>of_submissions := of_submissions f @ [s]\<rparr>))"

section \<open>Equality of JSON values\<close>

text \<open>
  Python's \<open>==\<close> of two values that \<open>json.loads\<close> returned: numbers and booleans by value, objects by key. Not-a-number is one object of the
  decoder and so equals itself inside of a container.
\<close>

definition numeric :: "json \<Rightarrow> (rat + pyfloat) option" where
  "numeric v = (case v of
       JBool b \<Rightarrow> Some (Inl (if b then 1 else 0))
     | JInt i \<Rightarrow> Some (Inl (of_int i))
     | JFloat f \<Rightarrow> (case f of Finite s \<Rightarrow> Some (Inl (float_value s)) | _ \<Rightarrow> Some (Inr f))
     | _ \<Rightarrow> None)"

fun json_equal :: "json \<Rightarrow> json \<Rightarrow> bool"
  and list_equal :: "json list \<Rightarrow> json list \<Rightarrow> bool"
  and items_equal :: "(string \<times> json) list \<Rightarrow> (string \<times> json) list \<Rightarrow> bool" where
  "json_equal (JList xs) w = (case w of JList ys \<Rightarrow> list_equal xs ys | _ \<Rightarrow> False)"
| "json_equal (JObj kvs) w = (case w of JObj rest \<Rightarrow> length kvs = length rest \<and> items_equal kvs rest | _ \<Rightarrow> False)"
| "json_equal JNull w = (w = JNull)"
| "json_equal (JStr s) w = (w = JStr s)"
| "json_equal (JBool b) w = (numeric w = numeric (JBool b))"
| "json_equal (JInt i) w = (numeric w = numeric (JInt i))"
| "json_equal (JFloat f) w = (numeric w = numeric (JFloat f))"
| "list_equal [] ys = (ys = [])"
| "list_equal (x # xs) ys = (case ys of [] \<Rightarrow> False | y # rest \<Rightarrow> json_equal x y \<and> list_equal xs rest)"
| "items_equal [] rest = True"
| "items_equal ((k, v) # kvs) rest = ((case map_of rest k of None \<Rightarrow> False | Some w \<Rightarrow> json_equal v w) \<and> items_equal kvs rest)"

definition set_default :: "string \<Rightarrow> json \<Rightarrow> json \<Rightarrow> json result" where
  "set_default k v j = (case j of
       JObj kvs \<Rightarrow> Inr (JObj (if has_key kvs k then kvs else kvs @ [(k, v)]))
     | _ \<Rightarrow> Inl (AttributeError ''setdefault''))"

text \<open>The stored request with the defaults of fields that older imports do not have.\<close>

definition stored_request :: "(string \<Rightarrow> json result) \<Rightarrow> string \<Rightarrow> submission \<Rightarrow> json result" where
  "stored_request loads operation s = rbind (loads (su_request_json s)) (\<lambda>v.
     if operation = ''import''
     then rbind (set_default ''collection_mode'' (JStr ''bounded'') v) (set_default ''batch_size'' (JInt 1)) else Inr v)"

section \<open>Submitting\<close>

text \<open>The first transaction of \<open>_submit\<close>: the policy of the workspace is kept even when the work is refused.\<close>

definition install_policy :: "conn \<Rightarrow> string \<Rightarrow> budget_policy \<Rightarrow> db \<Rightarrow> db result" where
  "install_policy c ws policy d = atomic c d (\<lambda>d0.
     rbind (submission_context c ws d0) (\<lambda>(d1, c1).
     rbind (install_workspace_policy c1 ws policy None False d1) (\<lambda>(d2, _). Inr d2)))"

text \<open>The creation of the work, by its caller: the new state, the run and its first jobs.\<close>

type_synonym creation = "conn \<Rightarrow> office \<Rightarrow> (office \<times> int \<times> int list) result"

definition submit_under_key ::
  "(string \<Rightarrow> json result) \<Rightarrow> conn \<Rightarrow> string \<Rightarrow> string \<Rightarrow> fields \<Rightarrow> creation \<Rightarrow> string \<Rightarrow> budget_policy \<Rightarrow> office \<Rightarrow> (office \<times> receipt) result" where
  "submit_under_key loads c key operation asked create ws policy f = atomic c (of_db f) (\<lambda>d0.
     rbind (submission_context c ws d0) (\<lambda>(d1, c1).
     let canonical_text = dumps True (JObj asked); f1 = f\<lparr>of_db := d1\<rparr> in
     case get_submission key ws f1 of
       Some s \<Rightarrow>
         rbind (stored_request loads operation s) (\<lambda>stored. rbind (loads canonical_text) (\<lambda>given.
         if su_operation s \<noteq> operation \<or> \<not> json_equal stored given
         then Inl (Conflict ''Idempotency key already identifies a different request'' ''idempotency_conflict'')
         else Inr (f1, \<lparr>rc_run_id = su_run_id s, rc_job_ids = su_job_ids s, rc_replayed = True\<rparr>)))
     | None \<Rightarrow>
         rbind (create c1 f1) (\<lambda>(f2, run, jobs).
         rbind (admit_run_budget c1 run ws policy None (of_db f2)) (\<lambda>(d3, _).
         rbind (record_submission \<lparr>su_key = key, su_workspace_id = ws, su_operation = operation, su_request_json = canonical_text,
            su_run_id = run, su_job_ids = jobs, su_created_at = int_now c1 None\<rparr> (f2\<lparr>of_db := d3\<rparr>)) (\<lambda>f4.
         Inr (f4, \<lparr>rc_run_id = run, rc_job_ids = jobs, rc_replayed = False\<rparr>))))))"

text \<open>\<open>_submit\<close>: a refusal of the second transaction keeps what the first wrote.\<close>

definition submit_work ::
  "(string \<Rightarrow> json result) \<Rightarrow> conn \<Rightarrow> string \<Rightarrow> string \<Rightarrow> fields \<Rightarrow> creation \<Rightarrow> string \<Rightarrow> budget_policy \<Rightarrow> office \<Rightarrow> receipt result \<times> office" where
  "submit_work loads c key operation asked create ws policy f = (case install_policy c ws policy (of_db f) of
       Inl err \<Rightarrow> (Inl err, f)
     | Inr d \<Rightarrow> (case submit_under_key loads c key operation asked create ws policy (f\<lparr>of_db := d\<rparr>) of
           Inl err \<Rightarrow> (Inl err, f\<lparr>of_db := d\<rparr>)
         | Inr (f1, r) \<Rightarrow> (Inr r, f1)))"

text \<open>A request that is refused before storage is opened changes nothing.\<close>

definition checked :: "'a result \<Rightarrow> ('a \<Rightarrow> office \<Rightarrow> receipt result \<times> office) \<Rightarrow> office \<Rightarrow> receipt result \<times> office" where
  "checked v k f = (case v of Inl err \<Rightarrow> (Inl err, f) | Inr x \<Rightarrow> k x f)"

definition on_db :: "(db \<times> int \<times> int list) result \<Rightarrow> office \<Rightarrow> (office \<times> int \<times> int list) result" where
  "on_db m f = rbind m (\<lambda>(d, run, jobs). Inr (f\<lparr>of_db := d\<rparr>, run, jobs))"

definition root_work :: "(string \<Rightarrow> string) \<Rightarrow> string \<Rightarrow> string \<Rightarrow> fields \<Rightarrow> string \<Rightarrow> string \<Rightarrow> creation" where
  "root_work sha provider seed params kind target = (\<lambda>c f.
     on_db (rbind (create_crawl_run_with_root_job sha c provider seed params kind target 100 (of_db f)) (\<lambda>(d, run, job). Inr (d, run, [job]))) f)"

definition opt_field :: "int option \<Rightarrow> json" where
  "opt_field v = (case v of None \<Rightarrow> JNull | Some i \<Rightarrow> JInt i)"

definition import_fields :: "import_request \<Rightarrow> fields" where
  "import_fields q = [(''provider'', JStr (ir_provider q)), (''username'', JStr (ir_username q)), (''since'', opt_field (ir_since q)),
     (''until'', opt_field (ir_until q)), (''max_games'', JInt (ir_max_games q)), (''collection_mode'', JStr (ir_collection_mode q)),
     (''batch_size'', JInt (ir_batch_size q))]"

definition import_params :: "import_request \<Rightarrow> fields" where
  "import_params q =
     (let ms = (\<lambda>k v. case v of None \<Rightarrow> [] | Some t \<Rightarrow> [(k, JInt (t * 1000))]) in
      (''strategy'', JStr ''import'') # import_fields q @ [(''limit'', JInt (ir_max_games q))]
      @ (if ir_provider q = ''lichess'' \<and> ir_collection_mode q \<noteq> ''bounded'' then ms ''since_ms'' (ir_since q) @ ms ''until_ms'' (ir_until q) else []))"

definition create_import :: "(string \<Rightarrow> string) \<Rightarrow> import_request \<Rightarrow> creation" where
  "create_import sha q = (\<lambda>c f. let params = import_params q; p = ir_provider q; u = ir_username q in
     on_db (rbind (create_crawl_run c (Some p) (p @ ''/'' @ u @ '' import'') params None (of_db f)) (\<lambda>(d1, run).
       rbind (enqueue_job sha c ((spec (Some p) ''fetch_user_profile'' u)\<lparr>q_params := Some params, q_crawl_run_id := Some run,
          q_priority := 10\<rparr>) d1) (\<lambda>(d2, profile, _).
       rbind (enqueue_job sha c ((spec (Some p) ''fetch_user_games'' u)\<lparr>q_params := Some params, q_crawl_run_id := Some run,
          q_parent_job_id := Some profile, q_priority := 20\<rparr>) d2) (\<lambda>(d3, games, _).
       Inr (d3, run, [profile, games]))))) f)"

definition submit_import ::
  "(string \<Rightarrow> string) \<Rightarrow> (string \<Rightarrow> json result) \<Rightarrow> conn \<Rightarrow> import_request \<Rightarrow> string \<Rightarrow> app_limits \<Rightarrow> string \<Rightarrow> budget_policy \<Rightarrow> office
   \<Rightarrow> receipt result \<times> office" where
  "submit_import sha loads c q key lms ws policy = checked (rbind (validate_import q lms) (\<lambda>q1.
       rbind (validate_idempotency_key key) (\<lambda>k. Inr (q1, k)))) (\<lambda>(q1, k).
     submit_work loads c k ''import'' (import_fields q1) (create_import sha q1) ws policy)"

definition crawl_fields :: "crawl_request \<Rightarrow> fields" where
  "crawl_fields q = [(''provider'', JStr (cq_provider q)), (''username'', JStr (cq_username q)), (''since'', JInt (cq_since q)),
     (''until'', JInt (cq_until q)), (''max_games'', JInt (cq_max_games q)), (''max_depth'', JInt (cq_max_depth q)),
     (''max_users'', JInt (cq_max_users q)), (''max_jobs'', JInt (cq_max_jobs q))]"

definition create_crawl :: "(string \<Rightarrow> string) \<Rightarrow> crawl_request \<Rightarrow> creation" where
  "create_crawl sha q = (\<lambda>c f.
     on_db (rbind (create_opponent_crawl sha c (cq_provider q) (cq_username q) (cq_since q) (cq_until q)
         \<lparr>cb_max_depth = cq_max_depth q, cb_max_users = cq_max_users q, cb_max_games = cq_max_games q, cb_max_jobs = cq_max_jobs q\<rparr> (of_db f))
       (\<lambda>(d, run, root). Inr (d, run, [root]))) f)"

definition submit_crawl ::
  "(string \<Rightarrow> string) \<Rightarrow> (string \<Rightarrow> json result) \<Rightarrow> conn \<Rightarrow> crawl_request \<Rightarrow> string \<Rightarrow> app_limits \<Rightarrow> string \<Rightarrow> budget_policy \<Rightarrow> office
   \<Rightarrow> receipt result \<times> office" where
  "submit_crawl sha loads c q key lms ws policy = checked (rbind (validate_crawl q lms) (\<lambda>q1.
       rbind (validate_idempotency_key key) (\<lambda>k. Inr (q1, k)))) (\<lambda>(q1, k).
     submit_work loads c k ''crawl'' (crawl_fields q1) (create_crawl sha q1) ws policy)"

text \<open>\<open>UpgradeBody\<close> and \<open>ResourceBody\<close> of api/archive.py.\<close>

record upgrade_request =
  ur_provider :: string
  ur_name :: string
  ur_parser_version :: string
  ur_batch_size :: int

record resource_request =
  rq_provider :: string
  rq_username :: string
  rq_resource_key :: string
  rq_parameters :: fields

definition upgrade_params :: "(string \<Rightarrow> string) \<Rightarrow> upgrade_request \<Rightarrow> string \<Rightarrow> string \<Rightarrow> string \<Rightarrow> (string \<times> fields) result" where
  "upgrade_params sha q provider key ws =
     rbind (json_digest sha (JObj [(''workspace'', JStr ws), (''provider'', JStr provider), (''name'', JStr (ur_name q)), (''key'', JStr key)])) (\<lambda>h.
     let i = ''upgrade:'' @ h in
     Inr (i, [(''provider'', JStr provider), (''name'', JStr (ur_name q)), (''parser_version'', JStr (ur_parser_version q)),
       (''batch_size'', JInt (ur_batch_size q)), (''upgrade_id'', JStr i), (''owner_scope'', JStr ws)]))"

definition submit_upgrade ::
  "(string \<Rightarrow> string) \<Rightarrow> (string \<Rightarrow> json result) \<Rightarrow> conn \<Rightarrow> upgrade_request \<Rightarrow> string \<Rightarrow> string \<Rightarrow> budget_policy \<Rightarrow> office
   \<Rightarrow> receipt result \<times> office" where
  "submit_upgrade sha loads c q key ws policy = checked (rbind (validate_provider (ur_provider q)) (\<lambda>p.
       rbind (validate_integer (ur_batch_size q) ''batch_size'' 1 (Some 100)) (\<lambda>_.
       rbind (validate_idempotency_key key) (\<lambda>k. rbind (upgrade_params sha q p k ws) (\<lambda>(i, params). Inr (p, k, i, params)))))) (\<lambda>(p, k, i, params).
     submit_work loads c k ''upgrade'' params (root_work sha p (p @ '' local replay'') params ''reprocess_archive'' i) ws policy)"

text \<open>A \<open>ValueError\<close> of the catalog of resources becomes a refusal of the request.\<close>

definition refused_resource :: "'a result \<Rightarrow> 'a result" where
  "refused_resource m = (case m of Inl (ValueError msg) \<Rightarrow> Inl (ValidationError msg ''invalid_resource'') | _ \<Rightarrow> m)"

definition submit_resource ::
  "(string \<Rightarrow> string) \<Rightarrow> (string \<Rightarrow> json result) \<Rightarrow> conn \<Rightarrow> resource_request \<Rightarrow> string \<Rightarrow> string \<Rightarrow> budget_policy \<Rightarrow> office
   \<Rightarrow> receipt result \<times> office" where
  "submit_resource sha loads c q key ws policy = checked (rbind (validate_provider (rq_provider q)) (\<lambda>p.
       rbind (validate_username (rq_username q)) (\<lambda>u. rbind (validate_idempotency_key key) (\<lambda>k.
       rbind (refused_resource (rbind (get_resource p (rq_resource_key q)) (\<lambda>r. rbind (resource_parameters r (rq_parameters q)) (\<lambda>vs.
          rbind (resource_owner_scope r ws) (\<lambda>scope. Inr (r, vs, scope)))))) (\<lambda>(r, vs, scope). Inr (p, u, k, r, vs, scope)))))) (\<lambda>(p, u, k, r, vs, scope).
     let params = [(''provider'', JStr p), (''username'', JStr u), (''resource_key'', JStr (re_key r)),
           (''parameters'', JObj (map (\<lambda>(n, v). (n, JStr v)) vs)), (''owner_scope'', JStr scope)] in
     submit_work loads c k ''resource'' params (root_work sha p (p @ ''/'' @ u @ '' '' @ re_key r) params ''fetch_user_resource'' u) ws policy)"

definition submit_player_refresh ::
  "(string \<Rightarrow> string) \<Rightarrow> (string \<Rightarrow> json result) \<Rightarrow> conn \<Rightarrow> string \<Rightarrow> string \<Rightarrow> bool \<Rightarrow> string \<Rightarrow> string \<Rightarrow> budget_policy \<Rightarrow> office
   \<Rightarrow> receipt result \<times> office" where
  "submit_player_refresh sha loads c provider username statistics key ws policy =
     checked (rbind (validate_player_refresh provider username statistics) (\<lambda>(p, u).
       rbind (validate_idempotency_key key) (\<lambda>k. Inr (p, u, k)))) (\<lambda>(p, u, k).
     let refresh = (if statistics then ''statistics'' else ''profile''); params = [(''username'', JStr u), (''refresh'', JStr refresh)];
         kind = (if statistics then ''fetch_user_stats'' else ''fetch_user_profile'') in
     submit_work loads c k ''resource'' ((''provider'', JStr p) # params)
       (root_work sha p (p @ ''/'' @ u @ '' '' @ refresh @ '' refresh'') params kind u) ws policy)"

definition submit_game_collection ::
  "(string \<Rightarrow> string) \<Rightarrow> (string \<Rightarrow> json result) \<Rightarrow> conn \<Rightarrow> string \<Rightarrow> string \<Rightarrow> string \<Rightarrow> string \<Rightarrow> budget_policy \<Rightarrow> office
   \<Rightarrow> receipt result \<times> office" where
  "submit_game_collection sha loads c provider game key ws policy =
     checked (rbind (validate_game_collection provider game) (\<lambda>(p, g). rbind (validate_idempotency_key key) (\<lambda>k. Inr (p, g, k)))) (\<lambda>(p, g, k).
     let params = [(''provider'', JStr p), (''game_id'', JStr g), (''collection'', JStr ''single_game'')] in
     submit_work loads c k ''resource'' params (root_work sha p (p @ ''/'' @ g @ '' game'') params ''fetch_game_by_id'' g) ws policy)"

section \<open>Archive jobs\<close>

text \<open>The length of \<open>json.dumps(v)\<close> with its default separators, which put a space after every comma and colon.\<close>

fun spaces :: "json \<Rightarrow> nat"
  and list_spaces :: "json list \<Rightarrow> nat"
  and item_spaces :: "(string \<times> json) list \<Rightarrow> nat" where
  "spaces (JList xs) = length xs - 1 + list_spaces xs"
| "spaces (JObj kvs) = length kvs - 1 + item_spaces kvs"
| "spaces _ = 0"
| "list_spaces [] = 0"
| "list_spaces (x # xs) = spaces x + list_spaces xs"
| "item_spaces [] = 0"
| "item_spaces ((k, v) # kvs) = 1 + spaces v + item_spaces kvs"

definition spaced_length :: "json \<Rightarrow> nat result" where
  "spaced_length v = rbind (canonical v) (\<lambda>_. Inr (length (render True v) + spaces v))"

definition create_archive_job :: "json_columns \<Rightarrow> (string \<Rightarrow> string) \<Rightarrow> string \<Rightarrow> fields \<Rightarrow> string \<Rightarrow> artifact_settings \<Rightarrow> creation" where
  "create_archive_job jb sha operation asked ws settings = (\<lambda>c f.
     rbind (create_crawl_run c None operation [(''strategy'', JStr operation), (''contract_version'', JInt 1)] None (of_db f)) (\<lambda>(d1, run).
     rbind (enqueue_job sha c ((spec None operation operation)\<lparr>q_params := Some [(''contract_version'', JInt 1)], q_crawl_run_id := Some run\<rparr>) d1) (\<lambda>(d2, job, _).
     rbind (record_archive_job jb job ws operation (JObj asked) d2 (of_shelf f)) (\<lambda>sh1.
     rbind (if operation = ''prepare_export'' then reserve_artifact job ws settings (cn_clock c) sh1 else Inr sh1) (\<lambda>sh2.
     Inr (f\<lparr>of_db := d2, of_shelf := sh2\<rparr>, run, [job]))))))"

definition submit_archive_job ::
  "json_columns \<Rightarrow> (string \<Rightarrow> string) \<Rightarrow> (string \<Rightarrow> json result) \<Rightarrow> conn \<Rightarrow> string \<Rightarrow> fields \<Rightarrow> string \<Rightarrow> string \<Rightarrow> artifact_settings \<Rightarrow> budget_policy \<Rightarrow> office
   \<Rightarrow> receipt result \<times> office" where
  "submit_archive_job jb sha loads c operation asked ws key settings policy =
     checked (if operation \<notin> {''build_working_set'', ''prepare_export''}
        then Inl (ValidationError ''Unknown archive operation'' ''invalid_archive_operation'')
        else rbind (spaced_length (JObj asked)) (\<lambda>n.
          if 131072 < n then Inl (ValidationError ''Archive request exceeds 128 KiB'' ''invalid_archive_request'')
          else rbind (case obj_get asked ''provider'' of
               JNull \<Rightarrow> Inr () | JStr p \<Rightarrow> rbind (validate_provider p) (\<lambda>_. Inr ())
             | _ \<Rightarrow> Inl (ValidationError ''Unknown provider'' ''invalid_provider'')) (\<lambda>_.
          validate_idempotency_key key))) (\<lambda>k.
     submit_work loads c k operation asked (create_archive_job jb sha operation asked ws settings) ws policy)"

end
