(* ===== verification/Submission_Properties.thy ===== *)
theory Submission_Properties
  imports Submissions Budget_Laws Working_Set_Properties
begin

text \<open>What a submission guarantees, over the definitions of \<open>Submissions\<close>: its identity is permanent, and nothing is created twice.\<close>

section \<open>Equality of JSON values\<close>

fun well_keyed :: "json \<Rightarrow> bool"
  and well_keyed_list :: "json list \<Rightarrow> bool"
  and well_keyed_items :: "(string \<times> json) list \<Rightarrow> bool" where
  "well_keyed (JList xs) = well_keyed_list xs"
| "well_keyed (JObj kvs) = (distinct (map fst kvs) \<and> well_keyed_items kvs)"
| "well_keyed _ = True"
| "well_keyed_list [] = True"
| "well_keyed_list (x # xs) = (well_keyed x \<and> well_keyed_list xs)"
| "well_keyed_items [] = True"
| "well_keyed_items ((k, v) # kvs) = (well_keyed v \<and> well_keyed_items kvs)"

lemma json_equal_refl_all:
  "well_keyed v \<Longrightarrow> json_equal v v"
  "well_keyed_list xs \<Longrightarrow> list_equal xs xs"
  "well_keyed_items kvs \<Longrightarrow> (\<And>k v. (k, v) \<in> set kvs \<Longrightarrow> map_of rest k = Some v) \<Longrightarrow> items_equal kvs rest"
proof (induction v and xs and kvs arbitrary: and and rest rule: well_keyed_well_keyed_list_well_keyed_items.induct)
  case (2 kvs)
  then show ?case by (auto intro: map_of_is_SomeI)
next
  case (7 k v kvs)
  have "map_of rest k = Some v" "items_equal kvs rest" using 7 by simp_all
  then show ?case using 7(1,3) by simp
qed auto

lemma json_equal_refl: "well_keyed v \<Longrightarrow> json_equal v v"
  by (rule json_equal_refl_all(1))

lemma well_keyed_items_iff: "well_keyed_items kvs \<longleftrightarrow> (\<forall>(k, v) \<in> set kvs. well_keyed v)"
  by (induction kvs) auto

lemma well_keyed_sort_keys_all:
  "well_keyed v \<Longrightarrow> well_keyed (sort_keys v)"
  "well_keyed_list xs \<Longrightarrow> well_keyed_list (sort_keys_list xs)"
  "well_keyed_items kvs \<Longrightarrow> well_keyed_items (sort_keys_items kvs)"
proof (induction v and xs and kvs rule: well_keyed_well_keyed_list_well_keyed_items.induct)
  case (2 kvs)
  then have "distinct (map fst (sort_keys_items kvs))" by (simp add: sort_keys_items_keys)
  then have "distinct (map fst (sort_key fst (sort_keys_items kvs)))" by (simp add: distinct_map)
  with 2 show ?case by (simp add: well_keyed_items_iff)
qed auto

lemma sort_keys_has_key: "sort_keys (JObj kvs) = JObj ws \<Longrightarrow> has_key ws k = has_key kvs k"
proof -
  assume "sort_keys (JObj kvs) = JObj ws"
  then have "set ws = set (sort_keys_items kvs)" by auto
  then have "fst ` set ws = set (map fst kvs)" by (metis set_map sort_keys_items_keys)
  then show ?thesis by (auto simp: has_key_def map_of_eq_None_iff)
qed

section \<open>Calls\<close>

text \<open>Every way to submit work under a key, with the request it is compared by.\<close>

inductive submission_call ::
  "(string \<Rightarrow> json result) \<Rightarrow> string \<Rightarrow> string \<Rightarrow> conn \<Rightarrow> budget_policy \<Rightarrow> string \<Rightarrow> fields \<Rightarrow> (office \<Rightarrow> receipt result \<times> office) \<Rightarrow> bool"
  for loads :: "string \<Rightarrow> json result" and key ws :: string where
  import: "validate_import q lms = Inr q1 \<Longrightarrow>
     submission_call loads key ws c policy ''import'' (import_fields q1) (submit_import sha loads c q key lms ws policy)"
| crawl: "validate_crawl q lms = Inr q1 \<Longrightarrow>
     submission_call loads key ws c policy ''crawl'' (crawl_fields q1) (submit_crawl sha loads c q key lms ws policy)"
| archive: "wf_json (JObj asked) \<Longrightarrow> well_keyed (JObj asked) \<Longrightarrow> operation \<in> {''build_working_set'', ''prepare_export''} \<Longrightarrow>
     submission_call loads key ws c policy operation asked (submit_archive_job jb sha loads c operation asked ws key settings policy)"
| upgrade: "validate_provider (ur_provider q) = Inr p \<Longrightarrow> upgrade_params sha q p key ws = Inr (i, params) \<Longrightarrow>
     submission_call loads key ws c policy ''upgrade'' params (submit_upgrade sha loads c q key ws policy)"
| refresh: "validate_player_refresh provider username statistics = Inr (p, u) \<Longrightarrow>
     submission_call loads key ws c policy ''resource''
       [(''provider'', JStr p), (''username'', JStr u), (''refresh'', JStr (if statistics then ''statistics'' else ''profile''))]
       (submit_player_refresh sha loads c provider username statistics key ws policy)"
| game: "validate_game_collection provider g = Inr (p, g') \<Longrightarrow>
     submission_call loads key ws c policy ''resource'' [(''provider'', JStr p), (''game_id'', JStr g'), (''collection'', JStr ''single_game'')]
       (submit_game_collection sha loads c provider g key ws policy)"
| resource: "validate_provider (rq_provider q) = Inr p \<Longrightarrow> validate_username (rq_username q) = Inr u \<Longrightarrow>
     get_resource p (rq_resource_key q) = Inr r \<Longrightarrow> resource_parameters r (rq_parameters q) = Inr vs \<Longrightarrow> resource_owner_scope r ws = Inr scope \<Longrightarrow>
     submission_call loads key ws c policy ''resource'' [(''provider'', JStr p), (''username'', JStr u), (''resource_key'', JStr (re_key r)),
           (''parameters'', JObj (map (\<lambda>(n, v). (n, JStr v)) vs)), (''owner_scope'', JStr scope)]
       (submit_resource sha loads c q key ws policy)"

definition keeps_identities :: "creation \<Rightarrow> bool" where
  "keeps_identities create \<longleftrightarrow> (\<forall>c f f' run jobs. create c f = Inr (f', run, jobs) \<longrightarrow> of_submissions f' = of_submissions f)"

lemma on_db_identities: "on_db m f = Inr (f', run, jobs) \<Longrightarrow> of_submissions f' = of_submissions f"
  by (auto simp: on_db_def rbind_eq_Inr)

lemma creations_keep_identities [simp]:
  "keeps_identities (create_import sha q)" "keeps_identities (create_crawl sha q')" "keeps_identities (root_work sha p seed params kind target)"
  "keeps_identities (create_archive_job jb sha operation asked ws settings)"
  by (auto simp: keeps_identities_def create_import_def create_crawl_def root_work_def create_archive_job_def Let_def rbind_eq_Inr
      dest!: on_db_identities split: if_splits)

definition fair_request :: "string \<Rightarrow> fields \<Rightarrow> bool" where
  "fair_request operation asked \<longleftrightarrow> wf_json (JObj asked) \<and> well_keyed (JObj asked)
     \<and> (operation = ''import'' \<longrightarrow> has_key asked ''collection_mode'' \<and> has_key asked ''batch_size'')"

lemma resource_parameters_short: "resource_parameters r values = Inr vs \<Longrightarrow> length vs \<le> 1"
  by (auto simp: resource_parameters_def split: option.splits if_splits json.splits)

text \<open>A call checks its request and its key and then submits under the key.\<close>

lemma validate_key_Inr: "validate_idempotency_key key = Inr k \<Longrightarrow> k = key"
  by (auto simp: validate_idempotency_key_def split: if_splits)

lemma checked_key: "(\<And>k. v = Inr k \<Longrightarrow> k = key) \<Longrightarrow> checked v g = g key \<or> (\<exists>e. checked v g = Pair (Inl e))"
  by (cases v) (auto simp: checked_def fun_eq_iff)

lemma submission_call_submits:
  assumes "submission_call loads key ws c policy operation asked call"
  obtains create where "keeps_identities create" "fair_request operation asked"
    "call = submit_work loads c key operation asked create ws policy \<or> (\<exists>e. call = Pair (Inl e))"
  using assms
proof cases
  case (resource q p u r vs scope sha)
  have "distinct (map fst vs)" using resource_parameters_short [OF resource(7)] by (cases vs) auto
  then have "distinct (map fst (map (\<lambda>(n, v). (n, JStr v)) vs))" by (simp add: comp_def case_prod_beta)
  moreover have "wf_items (map (\<lambda>(n, v). (n, JStr v)) vs)" "well_keyed_items (map (\<lambda>(n, v). (n, JStr v)) vs)"
    by (auto simp: wf_items_iff well_keyed_items_iff)
  ultimately have "fair_request operation asked" by (simp add: resource fair_request_def)
  moreover have "call = submit_work loads c key operation asked (root_work sha p (p @ ''/'' @ u @ '' '' @ re_key r) asked ''fetch_user_resource'' u) ws policy
      \<or> (\<exists>e. call = Pair (Inl e))"
    using resource by (cases "validate_idempotency_key key")
      (auto simp: submit_resource_def checked_def refused_resource_def Let_def fun_eq_iff dest: validate_key_Inr)
  ultimately show ?thesis using that [OF creations_keep_identities(3)] by blast
next
  case (import q lms q1 sha)
  have "call = submit_work loads c key operation asked (create_import sha q1) ws policy \<or> (\<exists>e. call = Pair (Inl e))"
    using import by (cases "validate_idempotency_key key") (auto simp: submit_import_def checked_def fun_eq_iff dest: validate_key_Inr)
  moreover have "fair_request operation asked"
    by (simp add: import fair_request_def import_fields_def has_key_def opt_field_def split: option.splits)
  ultimately show ?thesis using that [OF creations_keep_identities(1)] by blast
next
  case (crawl q lms q1 sha)
  have "call = submit_work loads c key operation asked (create_crawl sha q1) ws policy \<or> (\<exists>e. call = Pair (Inl e))"
    using crawl by (cases "validate_idempotency_key key") (auto simp: submit_crawl_def checked_def fun_eq_iff dest: validate_key_Inr)
  moreover have "fair_request operation asked" by (simp add: crawl fair_request_def crawl_fields_def)
  ultimately show ?thesis using that [OF creations_keep_identities(2)] by blast
next
  case (archive jb sha settings)
  have "call = submit_work loads c key operation asked (create_archive_job jb sha operation asked ws settings) ws policy \<or> (\<exists>e. call = Pair (Inl e))"
    unfolding archive(1) submit_archive_job_def by (rule checked_key) (auto simp: rbind_eq_Inr dest: validate_key_Inr split: if_splits)
  moreover have "fair_request operation asked" using archive by (auto simp: fair_request_def)
  ultimately show ?thesis using that [OF creations_keep_identities(4)] by blast
next
  case (upgrade q p sha i)
  have "call = submit_work loads c key operation asked (root_work sha p (p @ '' local replay'') asked ''reprocess_archive'' i) ws policy
      \<or> (\<exists>e. call = Pair (Inl e))"
    using upgrade by (cases "validate_idempotency_key key"; cases "validate_integer (ur_batch_size q) ''batch_size'' 1 (Some 100)")
      (auto simp: submit_upgrade_def checked_def fun_eq_iff dest: validate_key_Inr)
  moreover have "fair_request operation asked"
    using upgrade by (auto simp: fair_request_def upgrade_params_def rbind_eq_Inr Let_def)
  ultimately show ?thesis using that [OF creations_keep_identities(3)] by blast
next
  case (refresh provider username statistics p u sha)
  have "\<exists>kind seed params. call = submit_work loads c key operation asked (root_work sha p seed params kind u) ws policy \<or> (\<exists>e. call = Pair (Inl e))"
    using refresh by (cases "validate_idempotency_key key")
      (auto simp: submit_player_refresh_def checked_def Let_def fun_eq_iff dest!: validate_key_Inr)
  moreover have "fair_request operation asked" by (simp add: refresh fair_request_def)
  ultimately show ?thesis using that [OF creations_keep_identities(3)] by blast
next
  case (game provider g p g' sha)
  have "\<exists>seed. call = submit_work loads c key operation asked (root_work sha p seed asked ''fetch_game_by_id'' g') ws policy \<or> (\<exists>e. call = Pair (Inl e))"
    using game by (cases "validate_idempotency_key key")
      (auto simp: submit_game_collection_def checked_def Let_def fun_eq_iff dest!: validate_key_Inr)
  moreover have "fair_request operation asked" by (simp add: game fair_request_def)
  ultimately show ?thesis using that [OF creations_keep_identities(3)] by blast
qed

section \<open>Effects\<close>

text \<open>Nothing but the policy of a workspace is written.\<close>

definition only_policy :: "db \<Rightarrow> db \<Rightarrow> bool" where
  "only_policy d d' \<longleftrightarrow> (clear_policies d')\<lparr>db_workspaces := []\<rparr> = (clear_policies d)\<lparr>db_workspaces := []\<rparr>"

definition untouched :: "office \<Rightarrow> office \<Rightarrow> bool" where
  "untouched f f' \<longleftrightarrow> of_submissions f' = of_submissions f \<and> of_shelf f' = of_shelf f \<and> only_policy (of_db f) (of_db f')"

lemma untouched_refl [simp]: "untouched f f"
  by (simp add: untouched_def only_policy_def)

lemma submission_context_policy: "submission_context c ws d = Inr (d', c') \<Longrightarrow> only_policy d d'"
  by (auto simp: submission_context_def rbind_eq_Inr only_policy_def clear_policies_def)

lemma only_policy_trans: "only_policy d1 d2 \<Longrightarrow> only_policy d2 d3 \<Longrightarrow> only_policy d1 d3"
  by (simp add: only_policy_def)

lemma install_policy_only: "install_policy c ws policy d = Inr d' \<Longrightarrow> only_policy d d'"
proof -
  assume "install_policy c ws policy d = Inr d'"
  then obtain d1 c1 p where "submission_context c ws d = Inr (d1, c1)" "workspace_policy_for ws policy (int_now c1 None) True False d1 = Inr (d', p)"
    by (auto simp: install_policy_def install_workspace_policy_def dest!: atomic_Inr(1) simp: rbind_eq_Inr)
  moreover from this(2) have "only_policy d1 d'" by (simp add: only_policy_def workspace_policy_for_frame)
  ultimately show ?thesis using submission_context_policy only_policy_trans by blast
qed

definition loads_back :: "(string \<Rightarrow> json result) \<Rightarrow> bool" where
  "loads_back loads \<longleftrightarrow> (\<forall>v. wf_json v \<longrightarrow> loads (dumps True v) = Inr (sort_keys v))"

lemma stored_request_back:
  assumes "loads_back loads" "fair_request operation asked" "su_request_json s = dumps True (JObj asked)"
  shows "stored_request loads operation s = Inr (sort_keys (JObj asked))"
proof -
  have "has_key (sort_key fst (sort_keys_items asked)) k = has_key asked k" for k by (rule sort_keys_has_key) simp
  moreover have "loads (su_request_json s) = Inr (sort_keys (JObj asked))" using assms by (simp add: loads_back_def fair_request_def)
  ultimately show ?thesis using assms(2) by (auto simp: stored_request_def set_default_def fair_request_def)
qed

definition identity_of :: "string \<Rightarrow> string \<Rightarrow> string \<Rightarrow> fields \<Rightarrow> receipt \<Rightarrow> submission \<Rightarrow> bool" where
  "identity_of key ws operation asked r s \<longleftrightarrow> su_key s = key \<and> su_workspace_id s = ws \<and> su_operation s = operation
     \<and> su_request_json s = dumps True (JObj asked) \<and> su_run_id s = rc_run_id r \<and> su_job_ids s = rc_job_ids r"

definition admitted :: "string \<Rightarrow> int \<Rightarrow> db \<Rightarrow> bool" where
  "admitted ws run d \<longleftrightarrow> (\<exists>x. run_row d run = Some x \<and> r_workspace_id x = ws \<and> r_work_budget_id x \<noteq> None)"

lemma admit_run_budget_admits:
  assumes "admit_run_budget c run ws policy now d = Inr (d', b)"
  shows "admitted ws run d'"
proof -
  obtain x where x: "run_row d run = Some x" "r_workspace_id x = ws"
    using assms by (auto simp: admit_run_budget_def Let_def rbind_eq_Inr require_row_def split: if_splits option.splits)
  show ?thesis
  proof (cases "r_work_budget_id x")
    case (Some i)
    then show ?thesis using assms x by (auto simp: admit_run_budget_def Let_def rbind_eq_Inr require_row_def admitted_def)
  next
    case None
    then obtain d1 wp d2 u i where p: "workspace_policy_for ws policy (int_now c now) True False d = Inr (d1, wp)" "period_for ws (int_now c now) d1 = Inr (d2, u)"
      and d': "db_runs d' = update_where (\<lambda>r. r_id r = run) (\<lambda>r. r\<lparr>r_work_budget_id := Some i\<rparr>) (db_runs d2)"
      using assms x by (auto simp: admit_run_budget_def Let_def rbind_eq_Inr require_row_def touch_jobs_def split: if_splits)
    have "db_runs d1 = db_runs d" using workspace_policy_for_frame [OF p(1)] by (cases d; cases d1) (simp add: clear_policies_def)
    moreover obtain ps where "d2 = d1\<lparr>db_periods := db_periods d1 @ ps\<rparr>" using p(2) by (rule period_forE)
    ultimately have "db_runs d2 = db_runs d" by simp
    then show ?thesis using x by (simp add: admitted_def run_row_def d' find_row_update_where)
  qed
qed

lemma submit_under_key_effects:
  assumes loads: "loads_back loads" and keep: "keeps_identities create" and fair: "fair_request operation asked"
    and run: "submit_under_key loads c key operation asked create ws policy f = Inr (f', r)"
  shows "if rc_replayed r then untouched f f' \<and> (\<exists>s. get_submission key ws f = Some s \<and> su_operation s = operation
           \<and> r = \<lparr>rc_run_id = su_run_id s, rc_job_ids = su_job_ids s, rc_replayed = True\<rparr>
           \<and> (\<exists>v. stored_request loads operation s = Inr v \<and> json_equal v (sort_keys (JObj asked))))
    else get_submission key ws f = None \<and> admitted ws (rc_run_id r) (of_db f')
      \<and> (\<exists>s. of_submissions f' = of_submissions f @ [s] \<and> identity_of key ws operation asked r s)"
proof -
  obtain d1 c1 where ctx: "submission_context c ws (of_db f) = Inr (d1, c1)"
    and run1: "(case get_submission key ws (f\<lparr>of_db := d1\<rparr>) of
       Some s \<Rightarrow> rbind (stored_request loads operation s) (\<lambda>stored. rbind (loads (dumps True (JObj asked))) (\<lambda>given.
         if su_operation s \<noteq> operation \<or> \<not> json_equal stored given
         then Inl (Conflict ''Idempotency key already identifies a different request'' ''idempotency_conflict'')
         else Inr (f\<lparr>of_db := d1\<rparr>, \<lparr>rc_run_id = su_run_id s, rc_job_ids = su_job_ids s, rc_replayed = True\<rparr>)))
     | None \<Rightarrow> rbind (create c1 (f\<lparr>of_db := d1\<rparr>)) (\<lambda>(f2, run, jobs).
         rbind (admit_run_budget c1 run ws policy None (of_db f2)) (\<lambda>(d3, _).
         rbind (record_submission \<lparr>su_key = key, su_workspace_id = ws, su_operation = operation, su_request_json = dumps True (JObj asked),
            su_run_id = run, su_job_ids = jobs, su_created_at = int_now c1 None\<rparr> (f2\<lparr>of_db := d3\<rparr>)) (\<lambda>f4.
         Inr (f4, \<lparr>rc_run_id = run, rc_job_ids = jobs, rc_replayed = False\<rparr>))))) = Inr (f', r)"
    using atomic_Inr(1) [OF run [unfolded submit_under_key_def]] by (auto simp: rbind_eq_Inr Let_def)
  have same: "get_submission key ws (f\<lparr>of_db := d1\<rparr>) = get_submission key ws f" by (simp add: get_submission_def)
  have given: "loads (dumps True (JObj asked)) = Inr (sort_keys (JObj asked))" using loads fair by (simp add: loads_back_def fair_request_def)
  show ?thesis
  proof (cases "get_submission key ws f")
    case None
    then obtain f2 run jobs d3 b where cr: "create c1 (f\<lparr>of_db := d1\<rparr>) = Inr (f2, run, jobs)" and ad: "admit_run_budget c1 run ws policy None (of_db f2) = Inr (d3, b)"
      and rec: "record_submission \<lparr>su_key = key, su_workspace_id = ws, su_operation = operation, su_request_json = dumps True (JObj asked),
            su_run_id = run, su_job_ids = jobs, su_created_at = int_now c1 None\<rparr> (f2\<lparr>of_db := d3\<rparr>) = Inr f'"
      and r: "r = \<lparr>rc_run_id = run, rc_job_ids = jobs, rc_replayed = False\<rparr>"
      using run1 same by (auto simp: rbind_eq_Inr)
    have "of_submissions f2 = of_submissions f" using keep cr by (fastforce simp: keeps_identities_def)
    moreover have "admitted ws run d3" by (rule admit_run_budget_admits [OF ad])
    ultimately show ?thesis using rec None r by (auto simp: record_submission_def identity_of_def split: if_splits)
  next
    case (Some s)
    then obtain v where "stored_request loads operation s = Inr v" "json_equal v (sort_keys (JObj asked))" "su_operation s = operation"
      "f' = f\<lparr>of_db := d1\<rparr>" "r = \<lparr>rc_run_id = su_run_id s, rc_job_ids = su_job_ids s, rc_replayed = True\<rparr>"
      using run1 same by (auto simp: rbind_eq_Inr given split: if_splits)
    then show ?thesis using Some submission_context_policy [OF ctx] by (auto simp: untouched_def)
  qed
qed

text \<open>Submissions by anyone, and all other work of the system, which never writes an identity.\<close>

inductive office_step :: "(string \<Rightarrow> json result) \<Rightarrow> office \<Rightarrow> office \<Rightarrow> bool" for loads where
  submitted: "submission_call loads key ws c policy operation asked call \<Longrightarrow> call f = (x, f') \<Longrightarrow> office_step loads f f'"
| other: "of_submissions f' = of_submissions f \<Longrightarrow> office_step loads f f'"

lemma submit_work_effects:
  assumes loads: "loads_back loads" and keep: "keeps_identities create" and fair: "fair_request operation asked"
    and run: "submit_work loads c key operation asked create ws policy f = (x, f')"
  shows "case x of
      Inl _ \<Rightarrow> untouched f f'
    | Inr r \<Rightarrow> if rc_replayed r then untouched f f' \<and> (\<exists>s. get_submission key ws f = Some s \<and> su_operation s = operation
           \<and> r = \<lparr>rc_run_id = su_run_id s, rc_job_ids = su_job_ids s, rc_replayed = True\<rparr>
           \<and> (\<exists>v. stored_request loads operation s = Inr v \<and> json_equal v (sort_keys (JObj asked))))
      else get_submission key ws f = None \<and> admitted ws (rc_run_id r) (of_db f')
        \<and> (\<exists>s. of_submissions f' = of_submissions f @ [s] \<and> identity_of key ws operation asked r s)"
proof (cases "install_policy c ws policy (of_db f)")
  case (Inl e)
  then show ?thesis using run by (auto simp: submit_work_def)
next
  case (Inr d)
  have p: "untouched f (f\<lparr>of_db := d\<rparr>)" using install_policy_only [OF Inr] by (simp add: untouched_def)
  have g: "get_submission key ws (f\<lparr>of_db := d\<rparr>) = get_submission key ws f" by (simp add: get_submission_def)
  show ?thesis
  proof (cases "submit_under_key loads c key operation asked create ws policy (f\<lparr>of_db := d\<rparr>)")
    case (Inl e)
    then show ?thesis using run Inr p by (auto simp: submit_work_def)
  next
    case (Inr y)
    then obtain r where r: "submit_under_key loads c key operation asked create ws policy (f\<lparr>of_db := d\<rparr>) = Inr (f', r)" "x = Inr r"
      using run \<open>install_policy c ws policy (of_db f) = Inr d\<close> by (cases y) (auto simp: submit_work_def)
    have "untouched (f\<lparr>of_db := d\<rparr>) f' \<Longrightarrow> untouched f f'" using p only_policy_trans by (fastforce simp: untouched_def)
    then show ?thesis using submit_under_key_effects [OF loads keep fair r(1)] r(2) by (auto simp: g)
  qed
qed

lemma office_step_keeps:
  assumes "loads_back loads" "office_step loads f f'" "get_submission key ws f = Some s"
  shows "get_submission key ws f' = Some s"
  using assms(2)
proof cases
  case (submitted key' ws' c policy operation asked call x)
  obtain create where create: "keeps_identities create" "fair_request operation asked"
    and call: "call = submit_work loads c key' operation asked create ws' policy \<or> (\<exists>e. call = Pair (Inl e))"
    by (rule submission_call_submits [OF submitted(1)])
  have "f' = f \<or> submit_work loads c key' operation asked create ws' policy f = (x, f')" using call submitted(2) by auto
  then have "\<exists>xs. of_submissions f' = of_submissions f @ xs"
    using submit_work_effects [OF assms(1) create] by (fastforce simp: untouched_def split: sum.splits if_splits)
  then show ?thesis using assms(3) by (auto simp: get_submission_def find_row_append)
qed (use assms(3) in \<open>simp add: get_submission_def\<close>)

lemma begin_write_policy:
  assumes "only_policy d d'"
  shows "begin_write c n d' = begin_write c n d"
proof -
  have f: "db_locks d' = db_locks d" "db_jobs d' = db_jobs d" using assms by (cases d; cases d'; simp add: only_policy_def clear_policies_def)+
  have "purposes_owned c d' ps = purposes_owned c d ps" for ps by (induction ps) (simp_all add: owns_session_lock_def f cong: if_cong)
  moreover have "fence_ok c d' = fence_ok c d" unfolding fence_ok_def f ..
  ultimately show ?thesis by (simp add: begin_write_def f)
qed

lemma submit_again:
  assumes loads: "loads_back loads" and fair: "fair_request operation asked"
    and stored: "get_submission key ws f = Some s" "identity_of key ws operation asked r s" and policy: "install_policy c ws policy (of_db f) = Inr d"
  shows "submit_work loads c key operation asked create ws policy f = (Inr (r\<lparr>rc_replayed := True\<rparr>), f\<lparr>of_db := d\<rparr>)"
proof -
  obtain d1 c1 p where ctx: "submission_context c ws (of_db f) = Inr (d1, c1)" and pol: "workspace_policy_for ws policy (int_now c1 None) True False d1 = Inr (d, p)"
    using atomic_Inr(1) [OF policy [unfolded install_policy_def]] by (auto simp: install_workspace_policy_def rbind_eq_Inr)
  have "db_workspaces d = db_workspaces d1" using workspace_policy_for_frame [OF pol] by (cases d; cases d1) (simp add: clear_policies_def)
  then have again: "submission_context c ws d = Inr (d, c1)" using ctx by (auto simp: submission_context_def rbind_eq_Inr split: if_splits)
  have "begin_write c False (of_db f) = Inr ()" using policy by (auto simp: install_policy_def atomic_def rbind_eq_Inr)
  then have bw: "begin_write c False d = Inr ()" using begin_write_policy [OF install_policy_only [OF policy]] by simp
  have g: "get_submission key ws (f\<lparr>of_db := d\<rparr>) = Some s" using stored(1) by (simp add: get_submission_def)
  have "stored_request loads operation s = Inr (sort_keys (JObj asked))"
    using stored(2) by (intro stored_request_back [OF loads fair]) (simp add: identity_of_def)
  moreover have "loads (dumps True (JObj asked)) = Inr (sort_keys (JObj asked))" using loads fair by (simp add: loads_back_def fair_request_def)
  moreover have "json_equal (sort_keys (JObj asked)) (sort_keys (JObj asked))"
    using fair by (intro json_equal_refl well_keyed_sort_keys_all(1)) (simp add: fair_request_def)
  ultimately have "submit_under_key loads c key operation asked create ws policy (f\<lparr>of_db := d\<rparr>)
      = Inr (f\<lparr>of_db := d\<rparr>, \<lparr>rc_run_id = su_run_id s, rc_job_ids = su_job_ids s, rc_replayed = True\<rparr>)"
    using stored(2) by (simp add: submit_under_key_def atomic_def bw again g identity_of_def Let_def del: sort_keys.simps json_equal.simps)
  then show ?thesis using stored(2) by (simp add: submit_work_def policy identity_of_def)
qed

text \<open>
  C2. The identity of a submission is permanent. Work that was created under a key is never created again: whatever happens in between, a later submission with
  the key in the workspace, by any of the operations, writes nothing but the workspace's policy, and is either refused or answered with the
  run and the jobs of the first, which it is only when it asks for the same; asking for the same is answered as soon as the policy can be installed. A submission that is
  refused creates nothing, and the created run belongs to the workspace and has its budget. \<open>json.loads\<close> is read as the inverse of \<open>json.dumps\<close>.
\<close>

theorem submission_identity_permanent:
  assumes loads: "loads_back loads"
    and first: "submission_call loads key ws c policy operation asked call" "call f = (Inr r, f1)" "\<not> rc_replayed r"
    and later: "(office_step loads)\<^sup>*\<^sup>* f1 f2"
    and again: "submission_call loads key ws c2 policy2 operation2 asked2 call2" "call2 f2 = (x, f3)"
  shows "get_submission key ws f = None \<and> admitted ws (rc_run_id r) (of_db f1) \<and> untouched f2 f3
    \<and> (case x of Inl _ \<Rightarrow> True
       | Inr r2 \<Rightarrow> r2 = r\<lparr>rc_replayed := True\<rparr> \<and> operation2 = operation \<and> json_equal (sort_keys (JObj asked)) (sort_keys (JObj asked2)))
    \<and> (case install_policy c2 ws policy2 (of_db f2) of Inl _ \<Rightarrow> True
       | Inr d \<Rightarrow> submit_work loads c2 key operation asked create ws policy2 f2 = (Inr (r\<lparr>rc_replayed := True\<rparr>), f2\<lparr>of_db := d\<rparr>))"
proof -
  obtain create1 where c1: "keeps_identities create1" "fair_request operation asked"
    and "call = submit_work loads c key operation asked create1 ws policy \<or> (\<exists>e. call = Pair (Inl e))"
    by (rule submission_call_submits [OF first(1)])
  then have run: "submit_work loads c key operation asked create1 ws policy f = (Inr r, f1)" using first(2) by auto
  obtain s where fresh: "get_submission key ws f = None" "admitted ws (rc_run_id r) (of_db f1)"
      and s: "of_submissions f1 = of_submissions f @ [s]" "identity_of key ws operation asked r s"
    using submit_work_effects [OF loads c1 run] first(3) by auto
  have "get_submission key ws f1 = Some s" using fresh(1) s by (simp add: get_submission_def find_row_append identity_of_def)
  from later this have stored: "get_submission key ws f2 = Some s" by (induction rule: rtranclp_induct) (use office_step_keeps [OF loads] in blast)+
  obtain create2 where c2: "keeps_identities create2" "fair_request operation2 asked2"
    and call2: "call2 = submit_work loads c2 key operation2 asked2 create2 ws policy2 \<or> (\<exists>e. call2 = Pair (Inl e))"
    by (rule submission_call_submits [OF again(1)])
  consider e where "x = Inl e" "f3 = f2" | "submit_work loads c2 key operation2 asked2 create2 ws policy2 f2 = (x, f3)"
    using call2 again(2) by auto
  then have "untouched f2 f3 \<and> (case x of Inl _ \<Rightarrow> True
       | Inr r2 \<Rightarrow> r2 = r\<lparr>rc_replayed := True\<rparr> \<and> operation2 = operation \<and> json_equal (sort_keys (JObj asked)) (sort_keys (JObj asked2)))"
  proof cases
    case 2
    note e = submit_work_effects [OF loads c2 2]
    show ?thesis
    proof (cases x)
      case (Inr r2)
      then have "rc_replayed r2" using e stored by (auto split: if_splits)
      moreover have "stored_request loads operation s = Inr (sort_keys (JObj asked))"
        using s(2) by (intro stored_request_back [OF loads c1(2)]) (simp add: identity_of_def)
      ultimately show ?thesis using e stored Inr s(2) by (auto simp: identity_of_def simp del: sort_keys.simps json_equal.simps)
    qed (use e in simp)
  qed simp
  moreover have "case install_policy c2 ws policy2 (of_db f2) of Inl _ \<Rightarrow> True
       | Inr d \<Rightarrow> submit_work loads c2 key operation asked create ws policy2 f2 = (Inr (r\<lparr>rc_replayed := True\<rparr>), f2\<lparr>of_db := d\<rparr>)"
    using submit_again [OF loads c1(2) stored s(2)] by (auto split: sum.splits)
  ultimately show ?thesis using fresh by blast
qed

definition inverse_loads :: "string \<Rightarrow> json result" where
  "inverse_loads t = (if \<exists>v. wf_json v \<and> dumps True v = t then Inr (sort_keys (SOME v. wf_json v \<and> dumps True v = t)) else Inl (ValueError ''JSONDecodeError''))"

lemma inverse_loads_back: "loads_back inverse_loads"
  unfolding loads_back_def
proof (intro allI impI)
  fix v assume v: "wf_json v"
  let ?w = "SOME w. wf_json w \<and> dumps True w = dumps True v"
  have "wf_json ?w \<and> dumps True ?w = dumps True v" by (rule someI [of _ v]) (simp add: v)
  then have "sort_keys ?w = sort_keys v" using v dumps_inj by blast
  then show "inverse_loads (dumps True v) = Inr (sort_keys v)" using v by (auto simp: inverse_loads_def)
qed

definition empty_office :: office where
  "empty_office = \<lparr>of_db = empty_db, of_submissions = [], of_shelf = \<lparr>sh_jobs = [], sh_artifacts = [], sh_chunks = [], sh_downloads = []\<rparr>\<rparr>"

definition collect_game :: "(string \<Rightarrow> json result) \<Rightarrow> conn \<Rightarrow> office \<Rightarrow> receipt result \<times> office" where
  "collect_game loads c = submit_game_collection sample_sha loads c ''lichess'' ''abcdefgh'' ''key-1'' ''local'' default_policy"

lemma collect_game_runs: "case collect_game loads (fresh_conn 7) empty_office of (Inr r, f) \<Rightarrow> rc_job_ids r = [1] \<and> \<not> rc_replayed r | _ \<Rightarrow> False"
  by code_simp

theorem submission_identity_permanent_witness:
  "case collect_game inverse_loads (fresh_conn 7) empty_office of
     (Inr r, f) \<Rightarrow> rc_job_ids r = [1] \<and> admitted ''local'' (rc_run_id r) (of_db f)
       \<and> (case submit_player_refresh sample_sha inverse_loads (fresh_conn 8) ''lichess'' ''ann'' False ''key-1'' ''local'' default_policy f of
            (y, f') \<Rightarrow> isl y \<and> untouched f f')
   | _ \<Rightarrow> False"
proof -
  obtain r f where run: "collect_game inverse_loads (fresh_conn 7) empty_office = (Inr r, f)" and r: "rc_job_ids r = [1]" "\<not> rc_replayed r"
    using collect_game_runs [of inverse_loads] by (auto split: prod.splits sum.splits)
  have g: "validate_game_collection ''lichess'' ''abcdefgh'' = Inr (''lichess'', ''abcdefgh'')" by code_simp
  have u: "validate_player_refresh ''lichess'' ''ann'' False = Inr (''lichess'', ''ann'')" by code_simp
  let ?asked = "[(''provider'', JStr ''lichess''), (''game_id'', JStr ''abcdefgh''), (''collection'', JStr ''single_game'')]"
  have other: "\<not> json_equal (sort_keys (JObj ?asked)) (sort_keys (JObj [(''provider'', JStr ''lichess''), (''username'', JStr ''ann''),
      (''refresh'', JStr (if False then ''statistics'' else ''profile''))]))" by code_simp
  obtain y f' where again: "submit_player_refresh sample_sha inverse_loads (fresh_conn 8) ''lichess'' ''ann'' False ''key-1'' ''local'' default_policy f = (y, f')"
    by (metis prod.exhaust)
  show ?thesis
    using submission_identity_permanent [OF inverse_loads_back submission_call.game [OF g] run [unfolded collect_game_def] r(2) rtranclp.rtrancl_refl
        submission_call.refresh [OF u] again, of undefined] r(1) other
    by (cases y) (auto simp: run again simp del: sort_keys.simps json_equal.simps)
qed

end
