(* ===== verification/Downloads.thy ===== *)
theory Downloads
  imports Artifacts
begin

text \<open>
  Downloads of finished exports: the manifest of storage/artifacts.py, whose signature and bounds are checked before anything is
  sent, and the iterator of api/artifact\_downloads.py, which reads one part at a time while leases, timers and other sessions act. A call of the
  iterator sees the database when it asks for its part and once more after the last one, so each of these is an argument of the call.
\<close>

section \<open>Manifests\<close>

definition manifest_int :: "fields \<Rightarrow> string \<Rightarrow> int" where
  "manifest_int m k = (case obj_get m k of JInt i \<Rightarrow> i | _ \<Rightarrow> 0)"

definition export_kinds :: "string list" where
  "export_kinds = [''games'', ''users'', ''graph'']"

text \<open>The contract of a manifest; the membership test raises on a kind that cannot be hashed.\<close>

definition contract_ok :: "fields \<Rightarrow> bool result" where
  "contract_ok m =
     (if \<not> equals_int (obj_get m ''contract_version'') 1 \<or> obj_get m ''renderer_version'' \<noteq> JStr ''archive-export-v1'' then Inr False
      else case obj_get m ''kind'' of
          JList _ \<Rightarrow> Inl (TypeError ''unhashable type'')
        | JObj _ \<Rightarrow> Inl (TypeError ''unhashable type'')
        | JStr k \<Rightarrow> Inr (k \<in> set export_kinds \<and> obj_get m ''selection_time'' = JStr ''processing'')
        | _ \<Rightarrow> Inr False)"

definition bounded_count :: "fields \<Rightarrow> string \<Rightarrow> int \<Rightarrow> bool" where
  "bounded_count m k maximum = (case obj_get m k of JInt i \<Rightarrow> 0 \<le> i \<and> i \<le> maximum | _ \<Rightarrow> False)"

definition content_digest :: "string \<Rightarrow> bool" where
  "content_digest s \<longleftrightarrow> starts_with ''sha256:'' s \<and> length s = 71 \<and> list_all is_hex (drop 7 s)"

definition export_extension :: "string \<Rightarrow> string" where
  "export_extension kind = (if kind = ''graph'' then ''csv'' else ''jsonl'')"

definition export_media_type :: "string \<Rightarrow> string" where
  "export_media_type kind = (if kind = ''graph'' then ''text/csv'' else ''application/x-ndjson'')"

definition validate_artifact_manifest :: "(string \<Rightarrow> string) \<Rightarrow> artifact \<Rightarrow> fields result" where
  "validate_artifact_manifest sha f = (case af_manifest f of
       Some (JObj m) \<Rightarrow>
         rbind (json_digest sha (JObj (filter (\<lambda>(k, _). k \<noteq> ''artifact_signature'') m))) (\<lambda>signature.
         if obj_get m ''artifact_signature'' \<noteq> JStr signature then Inl (ValueError ''Export artifact manifest checksum mismatch'')
         else rbind (contract_ok m) (\<lambda>fine.
           if \<not> fine then Inl (ValueError ''Unsupported export artifact contract'')
           else if \<not> (bounded_count m ''rows'' 10000000 \<and> bounded_count m ''body_bytes'' (4 * 1024 ^ 3) \<and> bounded_count m ''chunk_count'' 4096)
           then Inl (ValueError ''Export artifact bounds are invalid'')
           else if af_reserved_bytes f < manifest_int m ''body_bytes'' then Inl (ValueError ''Export artifact exceeds its retained size'')
           else if manifest_int m ''chunk_count'' \<noteq> (manifest_int m ''body_bytes'' + int CHUNK_BYTES - 1) div int CHUNK_BYTES
             \<or> \<not> content_digest (py_str (obj_get m ''content_hash''))
           then Inl (ValueError ''Export artifact chunk or checksum metadata is invalid'')
           else let kind = py_str (obj_get m ''kind'') in
             if obj_get m ''filename'' \<noteq> JStr (kind @ ''.'' @ export_extension kind) \<or> obj_get m ''media_type'' \<noteq> JStr (export_media_type kind)
             then Inl (ValueError ''Export artifact download metadata is invalid'')
             else Inr m))
     | _ \<Rightarrow> Inl (ValueError ''Export artifact has no valid manifest''))"

section \<open>The iterator\<close>

text \<open>\<open>dn_hashed\<close> are the bytes fed to the hash, \<open>dn_on_close\<close> whether the callback is still to be called and \<open>dn_released\<close> how often it was.\<close>

record download =
  dn_job_id :: int
  dn_workspace_id :: string
  dn_manifest :: fields
  dn_deadline :: rat
  dn_closed :: bool
  dn_expired :: bool
  dn_complete :: bool
  dn_ordinal :: int
  dn_body_bytes :: int
  dn_hashed :: string
  dn_first :: "string option"
  dn_attempt :: "string option"
  dn_on_close :: bool
  dn_released :: nat

definition new_download :: "(string \<Rightarrow> string) \<Rightarrow> int \<Rightarrow> string \<Rightarrow> artifact \<Rightarrow> rat \<Rightarrow> download result" where
  "new_download sha job ws f deadline = rbind (validate_artifact_manifest sha f) (\<lambda>m.
     Inr \<lparr>dn_job_id = job, dn_workspace_id = ws, dn_manifest = m, dn_deadline = deadline, dn_closed = False, dn_expired = False,
       dn_complete = False, dn_ordinal = 0, dn_body_bytes = 0, dn_hashed = [], dn_first = None, dn_attempt = None, dn_on_close = True, dn_released = 0\<rparr>)"

definition close_download :: "download \<Rightarrow> download" where
  "close_download d = d\<lparr>dn_closed := True, dn_first := None, dn_on_close := False,
     dn_released := dn_released d + (if dn_on_close d then 1 else 0)\<rparr>"

text \<open>\<open>_expire\<close>, by the timer.\<close>

definition expire_download :: "download \<Rightarrow> download" where
  "expire_download d = close_download (if dn_closed d then d else d\<lparr>dn_expired := True\<rparr>)"

text \<open>\<open>TimeoutError\<close> is an \<open>OSError\<close>.\<close>

definition check_lifetime :: "rat \<Rightarrow> download \<Rightarrow> unit result \<times> download" where
  "check_lifetime now d = (if dn_expired d \<or> dn_deadline d \<le> now
     then (Inl (OSError ''Artifact download lifetime expired''), close_download (d\<lparr>dn_expired := True\<rparr>)) else (Inr (), d))"

text \<open>What a call sees: the tables for its part and after the last one (or the failure of the connection), the objects, and the clock before and after reading.\<close>

record sight =
  si_page :: "(arch \<times> shelf) result"
  si_rest :: "(arch \<times> shelf) result"
  si_objects :: objects
  si_start :: rat
  si_end :: rat

definition one_part :: "(arch \<times> shelf) result \<Rightarrow> download \<Rightarrow> (int \<times> archive_object) list result" where
  "one_part seen d = rbind seen (\<lambda>(a, sh). chunk_page a (dn_job_id d) (dn_ordinal d) 1 sh)"

definition finish_download :: "(string \<Rightarrow> string) \<Rightarrow> download \<Rightarrow> unit result \<times> download" where
  "finish_download sha d =
     (if dn_ordinal d \<noteq> manifest_int (dn_manifest d) ''chunk_count'' \<or> dn_body_bytes d \<noteq> manifest_int (dn_manifest d) ''body_bytes''
        \<or> JStr (''sha256:'' @ sha (dn_hashed d)) \<noteq> obj_get (dn_manifest d) ''content_hash''
      then (Inl (ValueError ''Artifact content checksum or size mismatch''), d) else (Inr (), d\<lparr>dn_complete := True\<rparr>))"

definition attempt_name :: "string \<Rightarrow> bool" where
  "attempt_name s \<longleftrightarrow> starts_with ''attempt-'' s \<and> (case drop 8 s of [] \<Rightarrow> False | c # cs \<Rightarrow> is_digit c \<and> c \<noteq> CHR ''0'' \<and> list_all is_digit cs)"

text \<open>The checks on a part before its object is read: the attempt whose namespace it is in.\<close>

definition check_part :: "(string \<Rightarrow> string) \<Rightarrow> download \<Rightarrow> int \<times> archive_object \<Rightarrow> string result" where
  "check_part sha d p = (case p of (ordinal, row) \<Rightarrow>
     let expected = min (int CHUNK_BYTES) (manifest_int (dn_manifest d) ''body_bytes'' - dn_body_bytes d) in
     if ordinal \<noteq> dn_ordinal d + 1 \<or> manifest_int (dn_manifest d) ''chunk_count'' < ordinal \<or> int (ao_body_bytes row) \<noteq> expected
        \<or> expected \<le> 0 \<or> \<not> (1 \<le> ao_stored_bytes row \<and> ao_stored_bytes row \<le> CHUNK_BYTES + 65536)
     then Inl (ValueError ''Artifact chunk order or bounds are invalid'')
     else rbind (artifact_prefix sha (dn_workspace_id d) (dn_job_id d)) (\<lambda>prefix.
       let key = ao_object_key row; rest = (if starts_with prefix key then drop (length prefix) key else key);
           namespace = takeWhile (\<lambda>c. c \<noteq> CHR ''/'') rest; tail = drop 1 (dropWhile (\<lambda>c. c \<noteq> CHR ''/'') rest) in
       if \<not> starts_with prefix key \<or> \<not> attempt_name namespace then Inl (ValueError ''Artifact object is outside its private namespace'')
       else rbind (object_key (ao_stored_hash row)) (\<lambda>k.
         if tail \<noteq> k \<or> (case dn_attempt d of None \<Rightarrow> False | Some x \<Rightarrow> namespace \<noteq> x)
         then Inl (ValueError ''Artifact object is outside its private namespace'') else Inr namespace)))"

text \<open>The state after a part was read; after the last one no other may follow.\<close>

definition count_part :: "(string \<Rightarrow> string) \<Rightarrow> sight \<Rightarrow> int \<Rightarrow> string \<Rightarrow> download \<Rightarrow> unit result \<times> download" where
  "count_part sha si ordinal body d =
     (let d1 = d\<lparr>dn_ordinal := ordinal, dn_body_bytes := dn_body_bytes d + int (length body), dn_hashed := dn_hashed d @ body\<rparr> in
      if ordinal \<noteq> manifest_int (dn_manifest d) ''chunk_count'' then (Inr (), d1)
      else case one_part (si_rest si) d1 of
          Inl err \<Rightarrow> (Inl err, d1)
        | Inr rows \<Rightarrow> if rows \<noteq> [] then (Inl (ValueError ''Artifact has unlisted chunks''), d1) else finish_download sha d1)"

definition read_next :: "(string \<Rightarrow> string) \<Rightarrow> codec \<Rightarrow> sight \<Rightarrow> download \<Rightarrow> string option result \<times> download" where
  "read_next sha cd si d =
     (if dn_complete d then (Inr None, d)
      else case one_part (si_page si) d of
          Inl err \<Rightarrow> (Inl err, d)
        | Inr [] \<Rightarrow> (case finish_download sha d of (Inl err, d1) \<Rightarrow> (Inl err, d1) | (Inr _, d1) \<Rightarrow> (Inr None, d1))
        | Inr (p # _) \<Rightarrow> (case check_part sha d p of
            Inl err \<Rightarrow> (Inl err, d)
          | Inr namespace \<Rightarrow> let d1 = d\<lparr>dn_attempt := Some namespace\<rparr> in
              (case read_archive_reference cd (snd p) None (si_objects si) of
                 Inl err \<Rightarrow> (Inl err, d1)
               | Inr body \<Rightarrow> (case check_lifetime (si_end si) d1 of
                   (Inl err, d2) \<Rightarrow> (Inl err, d2)
                 | (Inr _, d2) \<Rightarrow> (case count_part sha si (fst p) body d2 of
                     (Inl err, d3) \<Rightarrow> (Inl err, d3)
                   | (Inr _, d3) \<Rightarrow> (Inr (Some body), d3))))))"

definition prime :: "(string \<Rightarrow> string) \<Rightarrow> codec \<Rightarrow> sight \<Rightarrow> download \<Rightarrow> unit result \<times> download" where
  "prime sha cd si d = (case check_lifetime (si_start si) d of
       (Inl err, d1) \<Rightarrow> (Inl err, d1)
     | (Inr _, d1) \<Rightarrow> (case read_next sha cd si d1 of
           (Inl err, d2) \<Rightarrow> (Inl err, close_download d2)
         | (Inr body, d2) \<Rightarrow> (Inr (), d2\<lparr>dn_first := body\<rparr>)))"

text \<open>\<open>__next__\<close>: \<open>None\<close> is the end of the iteration.\<close>

definition next_part :: "(string \<Rightarrow> string) \<Rightarrow> codec \<Rightarrow> sight \<Rightarrow> download \<Rightarrow> string option result \<times> download" where
  "next_part sha cd si d = (case check_lifetime (si_start si) d of
       (Inl err, d1) \<Rightarrow> (Inl err, d1)
     | (Inr _, d1) \<Rightarrow>
         if dn_closed d1 then (Inr None, d1)
         else case dn_first d1 of
             Some body \<Rightarrow> (Inr (Some body), d1\<lparr>dn_first := None\<rparr>)
           | None \<Rightarrow> (case read_next sha cd si d1 of
               (Inl err, d2) \<Rightarrow> (Inl err, close_download d2)
             | (Inr None, d2) \<Rightarrow> (Inr None, close_download d2)
             | (Inr (Some body), d2) \<Rightarrow> (Inr (Some body), d2)))"

end
