(* ===== verification/Download_Properties.thy ===== *)
theory Download_Properties
  imports Downloads Archive_Properties
begin

text \<open>What a download guarantees, over the definitions of \<open>Downloads\<close>.\<close>

section \<open>Calls\<close>

text \<open>The download and the parts it has sent, over the calls of the server and the timer; the first part is fetched ahead before any is sent.\<close>

inductive dl_step :: "(string \<Rightarrow> string) \<Rightarrow> codec \<Rightarrow> download \<times> string list \<Rightarrow> download \<times> string list \<Rightarrow> bool" for sha cd where
  primed: "dn_first d = None \<Longrightarrow> (dn_closed d \<longrightarrow> dn_expired d) \<Longrightarrow> prime sha cd si d = (r, d') \<Longrightarrow> dl_step sha cd (d, out) (d', out)"
| sent: "next_part sha cd si d = (Inr (Some b), d') \<Longrightarrow> dl_step sha cd (d, out) (d', out @ [b])"
| stopped: "next_part sha cd si d = (r, d') \<Longrightarrow> isl r \<or> r = Inr None \<Longrightarrow> dl_step sha cd (d, out) (d', out)"
| expired: "dl_step sha cd (d, out) (expire_download d, out)"
| closed: "dl_step sha cd (d, out) (close_download d, out)"

definition lease_ok :: "download \<Rightarrow> bool" where
  "lease_ok d \<longleftrightarrow> (if dn_closed d then \<not> dn_on_close d \<and> dn_released d = 1 \<and> dn_first d = None else dn_on_close d \<and> dn_released d = 0)"

definition first_bytes :: "download \<Rightarrow> string" where
  "first_bytes d = coalesce (dn_first d) []"

definition waiting :: "download \<Rightarrow> nat" where
  "waiting d = (if dn_first d = None then 0 else 1)"

text \<open>The content is as the manifest says.\<close>

definition whole :: "(string \<Rightarrow> string) \<Rightarrow> download \<Rightarrow> bool" where
  "whole sha d \<longleftrightarrow> int (length (dn_hashed d)) = manifest_int (dn_manifest d) ''body_bytes'' \<and> dn_ordinal d = manifest_int (dn_manifest d) ''chunk_count''
     \<and> obj_get (dn_manifest d) ''content_hash'' = JStr (''sha256:'' @ sha (dn_hashed d))"

definition read_ok :: "(string \<Rightarrow> string) \<Rightarrow> download \<Rightarrow> bool" where
  "read_ok sha d \<longleftrightarrow> dn_body_bytes d = int (length (dn_hashed d)) \<and> dn_body_bytes d \<le> manifest_int (dn_manifest d) ''body_bytes''
     \<and> (dn_complete d \<longrightarrow> whole sha d)"

definition sends_ok :: "download \<Rightarrow> string list \<Rightarrow> bool" where
  "sends_ok d out \<longleftrightarrow> (\<exists>r. dn_hashed d = concat out @ r) \<and> list_all (\<lambda>b. b \<noteq> [] \<and> length b \<le> CHUNK_BYTES) out
     \<and> (\<not> dn_closed d \<longrightarrow> dn_hashed d = concat out @ first_bytes d \<and> dn_ordinal d = int (length out + waiting d)
          \<and> pred_option (\<lambda>b. b \<noteq> [] \<and> length b \<le> CHUNK_BYTES) (dn_first d))"

lemma close_lease [simp]: "lease_ok d \<Longrightarrow> lease_ok (close_download d)" "dn_closed (close_download d)"
  by (auto simp: lease_ok_def close_download_def split: if_splits)

lemma close_fields [simp]:
  "dn_hashed (close_download d) = dn_hashed d" "dn_manifest (close_download d) = dn_manifest d" "dn_body_bytes (close_download d) = dn_body_bytes d"
  "dn_ordinal (close_download d) = dn_ordinal d" "dn_complete (close_download d) = dn_complete d" "dn_expired (close_download d) = dn_expired d"
  by (simp_all add: close_download_def)

lemma close_read [simp]: "read_ok sha (close_download d) = read_ok sha d"
  by (simp add: read_ok_def whole_def)

lemma read_reference_length: "read_archive_reference cd row s os = Inr b \<Longrightarrow> length b = ao_body_bytes row"
  by (auto simp: read_archive_reference_def read_archive_body_def rbind_eq_Inr Let_def split: if_splits option.splits)

text \<open>How one reading changes the download.\<close>

definition grows :: "download \<Rightarrow> download \<Rightarrow> string \<Rightarrow> bool" where
  "grows d d' b \<longleftrightarrow> dn_hashed d' = dn_hashed d @ b \<and> dn_manifest d' = dn_manifest d"

lemma grows_same [simp]: "Ex (grows d d)" "grows d d []"
  by (auto simp: grows_def intro: exI [of _ "[]"])

definition idle :: "download \<Rightarrow> download \<Rightarrow> bool" where
  "idle d d' \<longleftrightarrow> dn_closed d' = dn_closed d \<and> dn_on_close d' = dn_on_close d \<and> dn_released d' = dn_released d \<and> dn_first d' = dn_first d"

lemma idle_lease: "idle d d' \<Longrightarrow> lease_ok d \<Longrightarrow> lease_ok d'"
  by (simp add: idle_def lease_ok_def)

lemma finish_download_cases:
  assumes "finish_download sha d = (r, d')" "read_ok sha d"
  shows "idle d d' \<and> grows d d' [] \<and> read_ok sha d' \<and> dn_ordinal d' = dn_ordinal d \<and> (\<not> isl r \<longrightarrow> dn_complete d')"
  using assms by (auto simp: finish_download_def idle_def grows_def read_ok_def whole_def split: if_splits)

lemma count_part_cases:
  assumes "count_part sha si ordinal b d = (r, d')" "read_ok sha d" "\<not> dn_complete d"
    "dn_body_bytes d + int (length b) \<le> manifest_int (dn_manifest d) ''body_bytes''"
  shows "idle d d' \<and> grows d d' b \<and> read_ok sha d' \<and> dn_ordinal d' = ordinal"
proof -
  let ?d1 = "d\<lparr>dn_ordinal := ordinal, dn_body_bytes := dn_body_bytes d + int (length b), dn_hashed := dn_hashed d @ b\<rparr>"
  have r1: "read_ok sha ?d1" using assms by (simp add: read_ok_def)
  have "d' = ?d1 \<or> finish_download sha ?d1 = (r, d')"
    using assms(1) by (auto simp: count_part_def Let_def split: if_splits sum.splits)
  then show ?thesis
  proof
    assume "finish_download sha ?d1 = (r, d')"
    from finish_download_cases [OF this r1] show ?thesis by (simp add: idle_def grows_def)
  qed (use r1 in \<open>simp add: idle_def grows_def\<close>)
qed

lemma check_part_Inr:
  assumes "check_part sha d p = Inr namespace"
  shows "fst p = dn_ordinal d + 1" "0 < ao_body_bytes (snd p)" "ao_body_bytes (snd p) \<le> CHUNK_BYTES"
    "dn_body_bytes d + int (ao_body_bytes (snd p)) \<le> manifest_int (dn_manifest d) ''body_bytes''"
  using assms by (auto simp: check_part_def Let_def split: prod.splits if_splits)

lemma read_next_cases:
  assumes run: "read_next sha cd si d = (r, d')" and ok: "read_ok sha d" "lease_ok d"
  shows "lease_ok d' \<and> read_ok sha d' \<and> (case r of
      Inl _ \<Rightarrow> \<exists>b. grows d d' b
    | Inr None \<Rightarrow> idle d d' \<and> grows d d' [] \<and> dn_complete d' \<and> dn_ordinal d' = dn_ordinal d
    | Inr (Some b) \<Rightarrow> idle d d' \<and> grows d d' b \<and> b \<noteq> [] \<and> length b \<le> CHUNK_BYTES \<and> dn_ordinal d' = dn_ordinal d + 1)"
proof (cases "dn_complete d")
  case True
  then show ?thesis using run ok by (auto simp: read_next_def idle_def grows_def)
next
  case False
  show ?thesis
  proof (cases "one_part (si_page si) d")
    case (Inl e)
    then show ?thesis using run ok False by (auto simp: read_next_def)
  next
    case (Inr rows)
    show ?thesis
    proof (cases rows)
      case Nil
      obtain x d1 where fin: "finish_download sha d = (x, d1)" by force
      from finish_download_cases [OF fin ok(1)] show ?thesis
        using run ok False Inr Nil fin idle_lease by (auto simp: read_next_def split: sum.splits)
    next
      case (Cons p ps)
      show ?thesis
      proof (cases "check_part sha d p")
        case (Inl e)
        then show ?thesis using run ok False Inr Cons by (auto simp: read_next_def)
      next
        case part: (Inr namespace)
        let ?d1 = "d\<lparr>dn_attempt := Some namespace\<rparr>"
        have d1: "read_ok sha ?d1" "lease_ok ?d1" "idle d ?d1" "grows d ?d1 []" using ok by (auto simp: read_ok_def whole_def lease_ok_def idle_def grows_def)
        show ?thesis
        proof (cases "read_archive_reference cd (snd p) None (si_objects si)")
          case (Inl e)
          then show ?thesis using run d1 False Inr Cons part by (auto simp: read_next_def Let_def)
        next
          case body: (Inr b)
          note c = check_part_Inr [OF part] and l = read_reference_length [OF body]
          show ?thesis
          proof (cases "dn_expired d \<or> dn_deadline d \<le> si_end si")
            case True
            then have "d' = close_download (?d1\<lparr>dn_expired := True\<rparr>)" "isl r"
              using run False Inr Cons part body by (auto simp: read_next_def Let_def check_lifetime_def)
            moreover have "lease_ok (?d1\<lparr>dn_expired := True\<rparr>)" using ok(2) by (simp add: lease_ok_def)
            moreover from calculation(1) have "grows d d' []" by (simp add: grows_def)
            moreover from calculation(1) ok(1) have "read_ok sha d'" by (simp add: read_ok_def whole_def)
            ultimately show ?thesis by (auto simp: isl_def)
          next
            case alive: False
            obtain x d3 where cp: "count_part sha si (fst p) b ?d1 = (x, d3)" by force
            have "idle ?d1 d3 \<and> grows ?d1 d3 b \<and> read_ok sha d3 \<and> dn_ordinal d3 = fst p"
              by (rule count_part_cases [OF cp d1(1)]) (use False c(4) l in simp_all)
            moreover have "d' = d3" "r = (case x of Inl e \<Rightarrow> Inl e | Inr _ \<Rightarrow> Inr (Some b))"
              using run False Inr Cons part body alive cp by (auto simp: read_next_def Let_def check_lifetime_def split: sum.splits)
            moreover have "b \<noteq> []" "length b \<le> CHUNK_BYTES" using c(2,3) l by auto
            ultimately show ?thesis using c(1) idle_lease [OF _ d1(2)] by (auto simp: idle_def grows_def split: sum.splits)
          qed
        qed
      qed
    qed
  qed
qed

section \<open>Every call\<close>

definition dl_ok :: "(string \<Rightarrow> string) \<Rightarrow> download \<Rightarrow> string list \<Rightarrow> bool" where
  "dl_ok sha d out \<longleftrightarrow> lease_ok d \<and> read_ok sha d \<and> sends_ok d out"

lemma sends_closed:
  assumes "sends_ok d out" "dn_hashed d' = dn_hashed d @ b" "dn_closed d'"
  shows "sends_ok d' out"
  using assms by (auto simp: sends_ok_def)

lemma dl_ok_close [simp]: "dl_ok sha d out \<Longrightarrow> dl_ok sha (close_download d) out"
  using sends_closed [of d out "close_download d" "[]"] by (simp add: dl_ok_def)

lemma dl_ok_expired [simp]: "dl_ok sha (d\<lparr>dn_expired := x\<rparr>) out = dl_ok sha d out"
  by (simp add: dl_ok_def lease_ok_def read_ok_def whole_def sends_ok_def first_bytes_def waiting_def)

lemma check_lifetime_cases:
  assumes "check_lifetime now d = (r, d')" "dl_ok sha d out"
  shows "dl_ok sha d' out \<and> dn_manifest d' = dn_manifest d \<and> (if isl r then dn_closed d' else d' = d \<and> \<not> dn_expired d)"
  using assms by (auto simp: check_lifetime_def split: if_splits)

lemma next_part_ok:
  assumes run: "next_part sha cd si d = (r, d')" and ok: "dl_ok sha d out"
  shows "dn_manifest d' = dn_manifest d \<and> (case r of
      Inl _ \<Rightarrow> dl_ok sha d' out \<and> dn_closed d'
    | Inr None \<Rightarrow> dl_ok sha d' out \<and> dn_closed d' \<and> (\<not> dn_closed d \<longrightarrow> whole sha d \<and> dn_hashed d = concat out \<and> dn_ordinal d = int (length out))
    | Inr (Some b) \<Rightarrow> dl_ok sha d' (out @ [b]) \<and> \<not> dn_closed d)"
proof -
  obtain x d1 where life: "check_lifetime (si_start si) d = (x, d1)" by force
  note cl = check_lifetime_cases [OF life ok]
  show ?thesis
  proof (cases x)
    case (Inl e)
    then show ?thesis using run life cl by (auto simp: next_part_def)
  next
    case (Inr u)
    then have d1: "d1 = d" using cl by simp
    show ?thesis
    proof (cases "dn_closed d")
      case True
      then show ?thesis using run life Inr d1 ok by (auto simp: next_part_def)
    next
      case open': False
      show ?thesis
      proof (cases "dn_first d")
        case (Some b)
        then have "r = Inr (Some b)" "d' = d\<lparr>dn_first := None\<rparr>" using run life Inr d1 open' by (auto simp: next_part_def)
        then show ?thesis using ok open' Some
          by (auto simp: dl_ok_def lease_ok_def read_ok_def whole_def sends_ok_def first_bytes_def waiting_def)
      next
        case None
        obtain y d2 where rn: "read_next sha cd si d = (y, d2)" by force
        have "read_ok sha d" "lease_ok d" and so: "sends_ok d out" using ok by (simp_all add: dl_ok_def)
        note rc = read_next_cases [OF rn this(1,2)]
        show ?thesis
        proof (cases y)
          case (Inl e)
          then obtain b where "grows d d2 b" using rc by auto
          then have "sends_ok (close_download d2) out" "dn_manifest d2 = dn_manifest d" using sends_closed [OF so] by (auto simp: grows_def)
          then show ?thesis using run life \<open>x = Inr u\<close> d1 open' None rn Inl rc by (auto simp: next_part_def dl_ok_def)
        next
          case out: (Inr z)
          show ?thesis
          proof (cases z)
            case none: None
            have g: "idle d d2" "grows d d2 []" "dn_complete d2" "dn_ordinal d2 = dn_ordinal d" using rc out none by auto
            then have "sends_ok (close_download d2) out" using sends_closed [OF so, of "close_download d2" "[]"] by (simp add: grows_def)
            moreover have "whole sha d" using rc g by (simp add: read_ok_def whole_def grows_def)
            moreover have "dn_hashed d = concat out \<and> dn_ordinal d = int (length out)"
              using so open' None by (simp add: sends_ok_def first_bytes_def waiting_def)
            ultimately show ?thesis using run life \<open>x = Inr u\<close> d1 open' None rn out none rc g by (auto simp: next_part_def dl_ok_def grows_def)
          next
            case some: (Some b)
            have g: "idle d d2" "grows d d2 b" "b \<noteq> []" "length b \<le> CHUNK_BYTES" "dn_ordinal d2 = dn_ordinal d + 1" using rc out some by auto
            have "sends_ok d2 (out @ [b])" using so g open' None by (auto simp: sends_ok_def first_bytes_def waiting_def grows_def idle_def)
            then show ?thesis using run life \<open>x = Inr u\<close> d1 open' None rn out some rc g by (auto simp: next_part_def dl_ok_def grows_def)
          qed
        qed
      qed
    qed
  qed
qed

lemma prime_ok:
  assumes run: "prime sha cd si d = (r, d')" and ok: "dl_ok sha d out" and first: "dn_first d = None" "dn_closed d \<longrightarrow> dn_expired d"
  shows "dl_ok sha d' out \<and> dn_manifest d' = dn_manifest d"
proof -
  obtain x d1 where life: "check_lifetime (si_start si) d = (x, d1)" by force
  note cl = check_lifetime_cases [OF life ok]
  show ?thesis
  proof (cases x)
    case (Inl e)
    then show ?thesis using run life cl by (auto simp: prime_def)
  next
    case (Inr u)
    then have d1: "d1 = d" and open': "\<not> dn_closed d" using cl first by auto
    obtain y d2 where rn: "read_next sha cd si d = (y, d2)" by force
    have "read_ok sha d" "lease_ok d" and so: "sends_ok d out" using ok by (simp_all add: dl_ok_def)
    note rc = read_next_cases [OF rn this(1,2)]
    show ?thesis
    proof (cases y)
      case (Inl e)
      then obtain b where "grows d d2 b" using rc by auto
      then have "sends_ok (close_download d2) out" "dn_manifest d2 = dn_manifest d" using sends_closed [OF so] by (auto simp: grows_def)
      then show ?thesis using run life Inr d1 rn Inl rc by (auto simp: prime_def dl_ok_def)
    next
      case out: (Inr z)
      then have d': "d' = d2\<lparr>dn_first := z\<rparr>" using run life Inr d1 rn by (auto simp: prime_def)
      have g: "idle d d2" "grows d d2 (coalesce z [])" "dn_ordinal d2 = dn_ordinal d + (if z = None then 0 else 1)" "pred_option (\<lambda>b. b \<noteq> [] \<and> length b \<le> CHUNK_BYTES) z"
        using rc out by (auto split: option.splits)
      have "sends_ok d' out" using so g open' first(1) d' by (cases z) (auto simp: sends_ok_def first_bytes_def waiting_def grows_def idle_def)
      moreover have "lease_ok d'" using rc g(1) open' d' by (simp add: lease_ok_def idle_def)
      moreover have "read_ok sha d'" using rc d' by (simp add: read_ok_def whole_def)
      ultimately show ?thesis using g(2) d' by (simp add: dl_ok_def grows_def)
    qed
  qed
qed

lemma dl_step_ok:
  assumes "dl_step sha cd (d, out) (d', out')" "dl_ok sha d out"
  shows "dl_ok sha d' out' \<and> dn_manifest d' = dn_manifest d"
  using assms(1)
proof cases
  case (primed si r)
  then show ?thesis using prime_ok [OF _ assms(2)] by auto
next
  case (sent si b)
  then show ?thesis using next_part_ok [OF sent(2) assms(2)] by auto
next
  case (stopped si r)
  then show ?thesis using next_part_ok [OF stopped(2) assms(2)] by (auto simp: isl_def)
next
  case expired
  then show ?thesis using assms(2) by (auto simp: expire_download_def)
next
  case closed
  then show ?thesis using assms(2) by auto
qed

lemma new_download_ok:
  assumes "new_download sha job ws f deadline = Inr d"
  shows "dl_ok sha d [] \<and> af_manifest f = Some (JObj (dn_manifest d))"
proof -
  obtain m where m: "validate_artifact_manifest sha f = Inr m" and d: "d = \<lparr>dn_job_id = job, dn_workspace_id = ws, dn_manifest = m, dn_deadline = deadline, dn_closed = False,
      dn_expired = False, dn_complete = False, dn_ordinal = 0, dn_body_bytes = 0, dn_hashed = [], dn_first = None, dn_attempt = None, dn_on_close = True, dn_released = 0\<rparr>"
    using assms by (auto simp: new_download_def rbind_eq_Inr)
  have "af_manifest f = Some (JObj m)" "bounded_count m ''body_bytes'' (4 * 1024 ^ 3)"
    using m by (auto simp: validate_artifact_manifest_def rbind_eq_Inr Let_def split: option.splits json.splits if_splits)
  moreover from this(2) have "0 \<le> manifest_int m ''body_bytes''" by (auto simp: bounded_count_def manifest_int_def split: json.splits)
  ultimately show ?thesis by (simp add: d dl_ok_def lease_ok_def read_ok_def sends_ok_def first_bytes_def waiting_def)
qed

text \<open>An export without rows, and its download.\<close>

lemma json_digest_constant: "finite_json v \<Longrightarrow> json_digest (\<lambda>_. s) v = Inr s"
  by (simp add: json_digest_def canonical_def)

definition zeros :: string where
  "zeros = replicate 64 CHR ''0''"

definition empty_manifest :: fields where
  "empty_manifest = [(''contract_version'', JInt 1), (''renderer_version'', JStr ''archive-export-v1''), (''kind'', JStr ''users''), (''provider'', JNull),
      (''rows'', JInt 0), (''body_bytes'', JInt 0), (''content_hash'', JStr (''sha256:'' @ zeros)),
      (''snapshot_started_at'', JInt 5), (''selection_time'', JStr ''processing''), (''chunk_count'', JInt 0),
      (''filename'', JStr ''users.jsonl''), (''media_type'', JStr ''application/x-ndjson''), (''artifact_signature'', JStr zeros)]"

definition empty_export :: artifact where
  "empty_export = \<lparr>af_job_id = 1, af_workspace_id = ''local'', af_state = Ready, af_reserved_bytes = 1, af_created_at = 5, af_expires_at = 90,
     af_manifest = Some (JObj empty_manifest)\<rparr>"

definition empty_download :: download where
  "empty_download = \<lparr>dn_job_id = 1, dn_workspace_id = ''local'', dn_manifest = empty_manifest, dn_deadline = 50, dn_closed = False, dn_expired = False,
     dn_complete = False, dn_ordinal = 0, dn_body_bytes = 0, dn_hashed = [], dn_first = None, dn_attempt = None, dn_on_close = True, dn_released = 0\<rparr>"

definition no_parts :: sight where
  "no_parts = \<lparr>si_page = Inr (no_arch, \<lparr>sh_jobs = [], sh_artifacts = [empty_export], sh_chunks = [], sh_downloads = []\<rparr>),
     si_rest = Inl (DatabaseError ''connection lost''), si_objects = Map.empty, si_start = 6, si_end = 7\<rparr>"

lemma empty_download_opened: "new_download (\<lambda>_. zeros) 1 ''local'' empty_export 50 = Inr empty_download"
proof -
  have "finite_json (JObj (filter (\<lambda>(k, _). k \<noteq> ''artifact_signature'') empty_manifest))" by code_simp
  moreover have "obj_get empty_manifest ''artifact_signature'' = JStr zeros" by code_simp
  moreover have "contract_ok empty_manifest = Inr True" by code_simp
  moreover have "bounded_count empty_manifest ''rows'' 10000000 \<and> bounded_count empty_manifest ''body_bytes'' (4 * 1024 ^ 3) \<and> bounded_count empty_manifest ''chunk_count'' 4096"
    by code_simp
  moreover have "manifest_int empty_manifest ''body_bytes'' = 0" "manifest_int empty_manifest ''chunk_count'' = 0" by code_simp+
  moreover have "content_digest (py_str (obj_get empty_manifest ''content_hash''))" by code_simp
  moreover have "py_str (obj_get empty_manifest ''kind'') = ''users''" "obj_get empty_manifest ''filename'' = JStr ''users.jsonl''"
      "obj_get empty_manifest ''media_type'' = JStr ''application/x-ndjson''" "export_extension ''users'' = ''jsonl''" "export_media_type ''users'' = ''application/x-ndjson''"
    by code_simp+
  ultimately show ?thesis
    by (simp add: new_download_def validate_artifact_manifest_def empty_export_def empty_download_def json_digest_constant Let_def CHUNK_BYTES_def)
qed

lemma empty_download_primed: "prime (\<lambda>_. zeros) plain_codec no_parts empty_download = (Inr (), empty_download\<lparr>dn_complete := True\<rparr>)"
  by code_simp

text \<open>
  C37. A download sends what was published or fails. However the server's calls, the timer and other sessions interleave, every part that is sent is nonempty and bounded and
  together they never exceed the size in the manifest; when the iteration ends by itself, the parts sent are as many as the manifest lists and their bytes have its size and its digest. A call that raises
  has closed the download, a closed one sends nothing any more, and the lease is released exactly once, when the download closes.
\<close>

theorem download_faithful:
  assumes "new_download sha job ws f deadline = Inr d0" "(dl_step sha cd)\<^sup>*\<^sup>* (d0, []) (d, out)"
  shows "\<exists>m. af_manifest f = Some (JObj m) \<and> dn_released d = (if dn_closed d then 1 else 0) \<and> list_all (\<lambda>b. b \<noteq> [] \<and> length b \<le> CHUNK_BYTES) out
    \<and> int (length (concat out)) \<le> manifest_int m ''body_bytes''
    \<and> (case next_part sha cd si d of
         (Inl _, d') \<Rightarrow> dn_closed d' \<and> dn_released d' = 1
       | (Inr (Some b), d') \<Rightarrow> \<not> dn_closed d
       | (Inr None, d') \<Rightarrow> dn_closed d' \<and> dn_released d' = 1 \<and> (dn_closed d
           \<or> int (length out) = manifest_int m ''chunk_count'' \<and> int (length (concat out)) = manifest_int m ''body_bytes''
             \<and> obj_get m ''content_hash'' = JStr (''sha256:'' @ sha (concat out))))"
proof -
  note new = new_download_ok [OF assms(1)]
  have "dl_ok sha d out \<and> dn_manifest d = dn_manifest d0"
    using assms(2) by (induction rule: rtranclp_induct2) (use new dl_step_ok in \<open>auto simp: \<close>)
  then have ok: "dl_ok sha d out" and m: "dn_manifest d = dn_manifest d0" by auto
  obtain r d' where run: "next_part sha cd si d = (r, d')" by force
  have "case r of Inl _ \<Rightarrow> dn_closed d' \<and> dn_released d' = 1
       | Inr (Some b) \<Rightarrow> \<not> dn_closed d
       | Inr None \<Rightarrow> dn_closed d' \<and> dn_released d' = 1 \<and> (dn_closed d
           \<or> int (length out) = manifest_int (dn_manifest d) ''chunk_count'' \<and> int (length (concat out)) = manifest_int (dn_manifest d) ''body_bytes''
             \<and> obj_get (dn_manifest d) ''content_hash'' = JStr (''sha256:'' @ sha (concat out)))"
    using next_part_ok [OF run ok] by (auto simp: dl_ok_def lease_ok_def whole_def split: sum.splits option.splits)
  moreover have "dn_released d = (if dn_closed d then 1 else 0)" using ok by (simp add: dl_ok_def lease_ok_def)
  moreover have "list_all (\<lambda>b. b \<noteq> [] \<and> length b \<le> CHUNK_BYTES) out" "int (length (concat out)) \<le> manifest_int (dn_manifest d) ''body_bytes''"
    using ok by (auto simp: dl_ok_def sends_ok_def read_ok_def)
  ultimately show ?thesis using new by (auto simp: run m split: sum.splits option.splits)
qed

theorem download_faithful_witness:
  "\<exists>m. af_manifest empty_export = Some (JObj m)
     \<and> (case next_part (\<lambda>_. zeros) plain_codec no_parts (empty_download\<lparr>dn_complete := True\<rparr>) of
          (Inr None, d') \<Rightarrow> dn_released d' = 1 \<and> obj_get m ''content_hash'' = JStr (''sha256:'' @ zeros) | _ \<Rightarrow> False)"
proof -
  have "dl_step (\<lambda>_. zeros) plain_codec (empty_download, []) (empty_download\<lparr>dn_complete := True\<rparr>, [])"
    by (rule dl_step.primed [OF _ _ empty_download_primed]) (simp_all add: empty_download_def)
  then have "(dl_step (\<lambda>_. zeros) plain_codec)\<^sup>*\<^sup>* (empty_download, []) (empty_download\<lparr>dn_complete := True\<rparr>, [])" by (rule r_into_rtranclp)
  from download_faithful [OF empty_download_opened this, of no_parts] show ?thesis
    by (auto simp: next_part_def check_lifetime_def read_next_def empty_download_def no_parts_def close_download_def)
qed

end
