(* ===== verification/Exports.thy ===== *)
theory Exports
  imports Downloads Providers Upgrades
begin

text \<open>
  The content of an export: the three streams of storage/queries.py and storage/api\_views.py over the catalog and the database, and
  application/archive\_exports.py, which renders them as lines of JSON or as CSV within the limits of rows, bytes and time.

  The internal jobs of the archive, jobs/internal.py: building a working set, and preparing an export, which clears the parts an earlier
  attempt left, renders one snapshot, publishes it part by part and finishes the artifact. The handlers commit in several transactions, so a task returns
  its result with the bench it leaves. The stop flag is read by the number of the poll and the clock by the number of the reading.
\<close>

section \<open>Streams\<close>

text \<open>\<open>NULLS FIRST\<close>.\<close>

definition nulls_first :: "'a option \<Rightarrow> 'a list" where
  "nulls_first v = (case v of None \<Rightarrow> [] | Some x \<Rightarrow> [x])"

definition opt_text :: "string option \<Rightarrow> json" where
  "opt_text v = (case v of None \<Rightarrow> JNull | Some s \<Rightarrow> JStr s)"

definition opt_number :: "int option \<Rightarrow> json" where
  "opt_number v = (case v of None \<Rightarrow> JNull | Some i \<Rightarrow> JInt i)"

definition int_flag :: "bool \<Rightarrow> json" where
  "int_flag b = JInt (if b then 1 else 0)"

definition of_provider :: "string option \<Rightarrow> string \<Rightarrow> bool" where
  "of_provider p q \<longleftrightarrow> p = None \<or> p = Some q"

definition seat_name :: "catalog \<Rightarrow> int \<Rightarrow> string \<Rightarrow> json" where
  "seat_name ct g color = opt_text (Option.bind (find_row (\<lambda>s. se_game_id s = g \<and> se_color s = color) (ct_seats ct)) se_username_normalized)"

definition game_fields :: "catalog \<Rightarrow> game_rec \<Rightarrow> fields option" where
  "game_fields ct g = (case (find_row (\<lambda>v. vr_id v = gm_variant_id g) (ct_variants ct), find_row (\<lambda>t. tc_id t = gm_time_control_id g) (ct_time_controls ct)) of
       (Some v, Some t) \<Rightarrow> Some
         [(''provider'', JStr (gm_provider g)), (''provider_game_id'', opt_text (gm_provider_game_id g)), (''canonical_url'', opt_text (gm_canonical_url g)),
          (''outcome'', opt_text (gm_outcome g)), (''is_live'', int_flag (gm_is_live g)), (''status_raw'', opt_text (gm_status_raw g)), (''rated'', int_flag (gm_rated g)),
          (''created_at'', opt_number (gm_created_at g)), (''ended_at'', opt_number (gm_ended_at g)), (''variant'', JStr (vr_canonical_name v)),
          (''variant_raw'', JStr (vr_provider_native_name v)), (''time_class'', JStr (ta_time_class (tc_args t))), (''time_control'', JStr (ta_raw_label (tc_args t))),
          (''white_username'', seat_name ct (gm_id g) ''white''), (''black_username'', seat_name ct (gm_id g) ''black'')]
     | _ \<Rightarrow> None)"

definition iter_games :: "string option \<Rightarrow> catalog \<Rightarrow> fields list" where
  "iter_games provider ct = List.map_filter (game_fields ct)
     (sort_key (\<lambda>g. (gm_provider g, nulls_first (gm_ended_at g), nulls_first (gm_provider_game_id g), gm_id g))
       (filter (\<lambda>g. of_provider provider (gm_provider g)) (ct_games ct)))"

definition user_fields :: "player \<Rightarrow> fields" where
  "user_fields p = [(''provider'', JStr (pl_provider p)), (''provider_user_id'', opt_text (pl_provider_user_id p)),
     (''username_normalized'', JStr (pl_username_normalized p)), (''display_username'', JStr (pl_display_username p)),
     (''account_status'', opt_text (pl_account_status p)), (''title'', opt_text (pl_title p)),
     (''first_seen_at'', opt_number (pl_first_seen_at p)), (''updated_at'', opt_number (pl_updated_at p))]"

definition iter_users :: "string option \<Rightarrow> catalog \<Rightarrow> fields list" where
  "iter_users provider ct = map user_fields (sort_key (\<lambda>p. (pl_provider p, pl_username_normalized p))
     (filter (\<lambda>p. of_provider provider (pl_provider p) \<and> (pl_first_seen_at p \<noteq> None \<or> pl_updated_at p \<noteq> None)) (ct_players ct)))"

subsection \<open>The graph of a workspace\<close>

text \<open>The games of a run in which both accounts sat at different sides.\<close>

definition shared_games :: "catalog \<Rightarrow> db \<Rightarrow> int \<Rightarrow> edge_row \<Rightarrow> int list" where
  "shared_games ct d run e = remdups (map gm_id (filter (\<lambda>g. gm_provider g = ed_provider e \<and> (run, gm_id g) \<in> set (db_run_games d)
     \<and> list_ex (\<lambda>f. se_game_id f = gm_id g \<and> se_provider_user_id f = Some (ed_from_user_id e)
          \<and> list_ex (\<lambda>t. se_game_id t = gm_id g \<and> se_provider_user_id t = Some (ed_to_user_id e) \<and> se_color t \<noteq> se_color f) (ct_seats ct)) (ct_seats ct))
     (ct_games ct)))"

definition traversal_depth :: "db \<Rightarrow> int \<Rightarrow> string \<Rightarrow> string \<Rightarrow> int option" where
  "traversal_depth d run ws username =
     (case map j_depth (filter (\<lambda>j. j_crawl_run_id j = Some run \<and> j_workspace_id j = ws \<and> j_kind j = ''crawl_opponents'' \<and> lower (j_target j) = username) (db_jobs d)) of
        [] \<Rightarrow> None | x # xs \<Rightarrow> Some (fold min xs x + 1))"

definition account :: "catalog \<Rightarrow> string \<Rightarrow> int \<Rightarrow> player option" where
  "account ct provider i = find_row (\<lambda>p. pl_id p = i \<and> pl_provider p = provider) (ct_players ct)"

definition graph_fields :: "catalog \<Rightarrow> db \<Rightarrow> string \<Rightarrow> int \<times> edge_row \<Rightarrow> fields option" where
  "graph_fields ct d ws x = (case x of (run, e) \<Rightarrow>
     (case (account ct (ed_provider e) (ed_from_user_id e), account ct (ed_provider e) (ed_to_user_id e)) of
        (Some fu, Some tu) \<Rightarrow> let gs = shared_games ct d run e in Some
          [(''provider'', JStr (ed_provider e)), (''crawl_run_id'', JInt run), (''from_username'', JStr (pl_username_normalized fu)),
           (''to_username'', JStr (pl_username_normalized tu)), (''from_user_id'', JInt (ed_from_user_id e)), (''to_user_id'', JInt (ed_to_user_id e)),
           (''via_game_id'', opt_number (case gs of [] \<Rightarrow> None | g # rest \<Rightarrow> Some (fold min rest g))), (''game_count'', JInt (int (length gs))),
           (''depth'', opt_number (traversal_depth d run ws (pl_username_normalized fu))), (''edge_kind'', JStr ''opponent'')]
      | _ \<Rightarrow> None))"

definition owned_edges :: "db \<Rightarrow> string \<Rightarrow> string option \<Rightarrow> (int \<times> edge_row) list" where
  "owned_edges d ws provider = sort_key (\<lambda>(run, e). (ed_provider e, run, ed_id e))
     (filter (\<lambda>(run, e). of_provider provider (ed_provider e))
       (List.map_filter (\<lambda>(run, i). if list_ex (\<lambda>r. r_id r = run \<and> r_workspace_id r = ws) (db_runs d)
          then map_option (Pair run) (find_row (\<lambda>e. ed_id e = i) (db_edges d)) else None) (db_run_edges d)))"

definition iter_owned_graph :: "string \<Rightarrow> string option \<Rightarrow> catalog \<Rightarrow> db \<Rightarrow> fields list" where
  "iter_owned_graph ws provider ct d = List.map_filter (graph_fields ct d ws) (owned_edges d ws provider)"

section \<open>Lines\<close>

definition utf8 :: "string \<Rightarrow> string" where
  "utf8 s = concat (map (\<lambda>c. map char_of (utf8_bytes c)) s)"

definition json_line :: "fields \<Rightarrow> string" where
  "json_line row = dumps True (JObj row) @ [CHR 0x0A]"

definition GRAPH_FIELDS :: "string list" where
  "GRAPH_FIELDS = [''provider'', ''crawl_run_id'', ''from_username'', ''to_username'', ''from_user_id'', ''to_user_id'', ''via_game_id'', ''game_count'', ''depth'', ''edge_kind'']"

text \<open>A field of the \<open>excel\<close> dialect: quoted when it has a comma, a quote or an end of line.\<close>

definition csv_quote :: "string \<Rightarrow> string" where
  "csv_quote s = (if list_ex (\<lambda>c. c = CHR '','' \<or> c = quote_char \<or> c = CHR 0x0D \<or> c = CHR 0x0A) s
     then [quote_char] @ concat (map (\<lambda>c. if c = quote_char then [quote_char, quote_char] else [c]) s) @ [quote_char] else s)"

definition csv_value :: "json \<Rightarrow> string" where
  "csv_value v = (case v of JNull \<Rightarrow> [] | _ \<Rightarrow> py_str v)"

definition csv_row :: "string list \<Rightarrow> string" where
  "csv_row vs = join '','' (map csv_quote vs) @ [CHR 0x0D, CHR 0x0A]"

definition formula_start :: "string \<Rightarrow> bool" where
  "formula_start s = (case s of [] \<Rightarrow> False
     | c # _ \<Rightarrow> c = CHR ''='' \<or> c = CHR ''+'' \<or> c = CHR ''-'' \<or> c = CHR ''@'' \<or> c = CHR 0x09 \<or> c = CHR 0x0D)"

text \<open>User names must not become formulas of a spreadsheet.\<close>

definition safe_value :: "string \<Rightarrow> json \<Rightarrow> json" where
  "safe_value k v = (case v of
       JStr s \<Rightarrow> if (k = ''from_username'' \<or> k = ''to_username'') \<and> formula_start s then JStr (CHR 0x27 # s) else v
     | _ \<Rightarrow> v)"

text \<open>\<open>DictWriter.writerow\<close>: fields by name, a missing one empty.\<close>

definition graph_line :: "fields \<Rightarrow> string" where
  "graph_line row = csv_row (map (\<lambda>k. case map_of row k of None \<Rightarrow> [] | Some v \<Rightarrow> csv_value (safe_value k v)) GRAPH_FIELDS)"

section \<open>Writing within the limits\<close>

record render_limits =
  rl_max_rows :: int
  rl_max_bytes :: int
  rl_workspace_slots :: nat

record spool =
  sp_rows :: int
  sp_bytes :: int
  sp_content :: string
  sp_pending :: int
  sp_writes :: nat

record snapshot =
  ss_rows :: int
  ss_body_bytes :: int
  ss_content_hash :: string
  ss_started_at :: int

definition empty_spool :: spool where
  "empty_spool = \<lparr>sp_rows = 0, sp_bytes = 0, sp_content = [], sp_pending = 0, sp_writes = 0\<rparr>"

definition check_export_bounds :: "render_limits \<Rightarrow> int \<Rightarrow> int \<Rightarrow> rat \<Rightarrow> rat \<Rightarrow> unit result" where
  "check_export_bounds l rows bytes deadline now =
     rguard (\<not> (rl_max_rows l < rows \<or> rl_max_bytes l < bytes \<or> deadline \<le> now))
       (ValidationError ''The export exceeds the operator's row, byte or preparation-time limit; narrow the provider filter'' ''export_limit_exceeded'')"

text \<open>What writing asks of the world, by the number of the write: the interruption flag and the clock; and the callback's allowance of rows.\<close>

record writer =
  wr_limits :: render_limits
  wr_deadline :: rat
  wr_interrupted :: "nat \<Rightarrow> bool"
  wr_now :: "nat \<Rightarrow> rat"
  wr_allowance :: int
  wr_budget :: "int option"

text \<open>The callback \<open>rows\<close> of jobs/internal.py.\<close>

definition admit_row :: "writer \<Rightarrow> spool \<Rightarrow> spool result" where
  "admit_row w sp =
     (if wr_interrupted w (sp_writes sp) then Inl (ArchiveJobStopped ''Archive processing stopped; durable request retained'')
      else if wr_allowance w < sp_pending sp + 1 then Inl (BudgetExceeded ''normalization_units'' 0 None (wr_budget w))
      else Inr (sp\<lparr>sp_pending := sp_pending sp + 1\<rparr>))"

definition write_line :: "writer \<Rightarrow> bool \<Rightarrow> string \<Rightarrow> spool \<Rightarrow> unit result \<times> spool" where
  "write_line w is_row line sp = (case (if is_row then admit_row w sp else Inr sp) of
       Inl err \<Rightarrow> (Inl err, sp)
     | Inr sp1 \<Rightarrow>
         let sp2 = sp1\<lparr>sp_rows := sp_rows sp1 + (if is_row then 1 else 0), sp_bytes := sp_bytes sp1 + int (length (utf8 line)), sp_writes := sp_writes sp1 + 1\<rparr> in
         (case check_export_bounds (wr_limits w) (sp_rows sp2) (sp_bytes sp2) (wr_deadline w) (wr_now w (sp_writes sp1)) of
            Inl err \<Rightarrow> (Inl err, sp2)
          | Inr _ \<Rightarrow> (Inr (), sp2\<lparr>sp_content := sp_content sp2 @ utf8 line\<rparr>)))"

fun write_lines :: "writer \<Rightarrow> (bool \<times> string) list \<Rightarrow> spool \<Rightarrow> unit result \<times> spool" where
  "write_lines w [] sp = (Inr (), sp)"
| "write_lines w ((is_row, line) # rest) sp = (case write_line w is_row line sp of
       (Inl err, sp1) \<Rightarrow> (Inl err, sp1)
     | (Inr _, sp1) \<Rightarrow> write_lines w rest sp1)"

text \<open>The lines of an export; the graph begins with the names of its fields.\<close>

definition export_lines :: "string \<Rightarrow> string option \<Rightarrow> string \<Rightarrow> catalog \<Rightarrow> db \<Rightarrow> (bool \<times> string) list" where
  "export_lines kind provider ws ct d =
     (if kind = ''games'' then map (\<lambda>r. (True, json_line r)) (iter_games provider ct)
      else if kind = ''users'' then map (\<lambda>r. (True, json_line r)) (iter_users provider ct)
      else (False, csv_row GRAPH_FIELDS) # map (\<lambda>r. (True, graph_line r)) (iter_owned_graph ws provider ct d))"

text \<open>\<open>admit_export_snapshot\<close>: one of the workspace's slots is free.\<close>

definition admit_export_snapshot :: "(string \<Rightarrow> int) \<Rightarrow> conn \<Rightarrow> string \<Rightarrow> nat \<Rightarrow> db \<Rightarrow> bool" where
  "admit_export_snapshot digest8 c ws slots d \<longleftrightarrow>
     list_ex (\<lambda>slot. acquire_lock_key False (cn_pid c) (lock_key digest8 ''export-preparation'' (ws @ '':'' @ str_int (int slot))) (db_locks d) \<noteq> None) [0..<slots]"

text \<open>\<open>write_export_snapshot\<close>; \<open>in_transaction\<close> is the state of the connection, \<open>started\<close> and \<open>opened\<close> the clocks at its beginning.\<close>

definition write_export_snapshot ::
  "(string \<Rightarrow> int) \<Rightarrow> (string \<Rightarrow> string) \<Rightarrow> conn \<Rightarrow> bool \<Rightarrow> writer \<Rightarrow> string \<Rightarrow> string option \<Rightarrow> string \<Rightarrow> int \<Rightarrow> rat \<Rightarrow> catalog \<Rightarrow> db
   \<Rightarrow> snapshot result \<times> spool" where
  "write_export_snapshot digest8 sha c in_transaction w kind provider ws started opened ct d =
     (if in_transaction then (Inl (ValueError ''Export snapshot requires an idle owned session''), empty_spool)
      else if \<not> admit_export_snapshot digest8 c ws (rl_workspace_slots (wr_limits w)) d then (Inl (QuotaExceeded ''export_preparations'' 0 None None), empty_spool)
      else case check_export_bounds (wr_limits w) 0 0 (wr_deadline w) opened of
          Inl err \<Rightarrow> (Inl err, empty_spool)
        | Inr _ \<Rightarrow> (case write_lines w (export_lines kind provider ws ct d) empty_spool of
            (Inl err, sp) \<Rightarrow> (Inl err, sp)
          | (Inr _, sp) \<Rightarrow> (Inr \<lparr>ss_rows = sp_rows sp, ss_body_bytes = sp_bytes sp, ss_content_hash = ''sha256:'' @ sha (sp_content sp), ss_started_at = started\<rparr>, sp)))"

section \<open>Tasks\<close>

record bench =
  be_db :: db
  be_arch :: arch
  be_objects :: objects
  be_shelf :: shelf
  be_worksets :: worksets
  be_catalog :: catalog
  be_polls :: nat
  be_ticks :: nat

type_synonym 'a task = "bench \<Rightarrow> 'a result \<times> bench"

definition task_then :: "'a task \<Rightarrow> ('a \<Rightarrow> 'b task) \<Rightarrow> 'b task" where
  "task_then m k b = (case m b of (Inl err, b1) \<Rightarrow> (Inl err, b1) | (Inr x, b1) \<Rightarrow> k x b1)"

definition task_of :: "(bench \<Rightarrow> 'a result) \<Rightarrow> 'a task" where
  "task_of f b = (f b, b)"

text \<open>One transaction; it keeps nothing when it raises.\<close>

definition in_write :: "conn \<Rightarrow> (bench \<Rightarrow> (bench \<times> 'a) result) \<Rightarrow> 'a task" where
  "in_write c body b = (case atomic c (be_db b) (\<lambda>_. body b) of Inl err \<Rightarrow> (Inl err, b) | Inr (b1, x) \<Rightarrow> (Inr x, b1))"

text \<open>\<open>ArchiveJobSettings\<close> and the world of a handler.\<close>

record workshop =
  wp_codec :: codec
  wp_columns :: json_columns
  wp_digest8 :: "string \<Rightarrow> int"
  wp_max_members :: int
  wp_max_rows :: int
  wp_max_bytes :: int
  wp_prepare_seconds :: int
  wp_slots :: nat
  wp_store :: "store result"
  wp_stopped :: "nat \<Rightarrow> bool"
  wp_interrupted :: "nat \<Rightarrow> bool"
  wp_clock :: "nat \<Rightarrow> rat"
  wp_monotonic :: "nat \<Rightarrow> rat"
  wp_fault :: "nat \<Rightarrow> int \<Rightarrow> pyerr option"

abbreviation wp_sha :: "workshop \<Rightarrow> string \<Rightarrow> string" where
  "wp_sha e \<equiv> cd_sha (wp_codec e)"

definition stop_message :: string where
  "stop_message = ''Archive processing stopped; durable request retained''"

definition check_stop :: "workshop \<Rightarrow> unit task" where
  "check_stop e b = (rguard (\<not> wp_stopped e (be_polls b)) (ArchiveJobStopped stop_message), b\<lparr>be_polls := Suc (be_polls b)\<rparr>)"

definition read_clock :: "workshop \<Rightarrow> rat task" where
  "read_clock e b = (Inr (wp_clock e (be_ticks b)), b\<lparr>be_ticks := Suc (be_ticks b)\<rparr>)"

definition archive_request :: "job \<Rightarrow> bench \<Rightarrow> archive_job result" where
  "archive_request j b =
     (if j_provider j \<noteq> None then Inl (ValueError ''Internal archive processing requires a providerless durable job'')
      else rbind (execution_request (j_id j) (be_shelf b)) (\<lambda>r.
        if aj_operation r \<noteq> j_kind j then Inl (ValueError ''Archive job contract does not match its durable request'') else Inr r))"

text \<open>What is left of the budget of the session, or the configured maximum.\<close>

definition allowance_or :: "conn \<Rightarrow> int \<Rightarrow> int task" where
  "allowance_or c maximum = (case cn_work_budget_id c of
       None \<Rightarrow> task_of (\<lambda>_. Inr maximum)
     | Some bid \<Rightarrow> in_write c (\<lambda>b. rbind (normalization_allowance c bid (be_db b)) (\<lambda>(d, n). Inr (b\<lparr>be_db := d\<rparr>, n))))"

definition charge_units :: "conn \<Rightarrow> int \<Rightarrow> db \<Rightarrow> db result" where
  "charge_units c units d = (case cn_work_budget_id c of
       None \<Rightarrow> Inr d
     | Some bid \<Rightarrow> if units = 0 then Inr d else rbind (reserve_normalization c bid None None units d) (\<lambda>(d1, _). Inr d1))"

definition charge_export :: "conn \<Rightarrow> int \<Rightarrow> unit task" where
  "charge_export c units = (if cn_work_budget_id c = None \<or> units = 0 then task_of (\<lambda>_. Inr ())
     else in_write c (\<lambda>b. rbind (charge_units c units (be_db b)) (\<lambda>d. Inr (b\<lparr>be_db := d\<rparr>, ()))))"

definition finished :: "string \<Rightarrow> execution_outcome" where
  "finished reason = outcome ''done'' reason"

section \<open>Building a working set\<close>

definition text_filter :: "fields \<Rightarrow> string \<Rightarrow> string option result" where
  "text_filter m k = (case obj_get m k of JNull \<Rightarrow> Inr None | JStr s \<Rightarrow> Inr (Some s) | _ \<Rightarrow> Inl (TypeError k))"

definition int_filter :: "fields \<Rightarrow> string \<Rightarrow> int option result" where
  "int_filter m k = (case obj_get m k of JNull \<Rightarrow> Inr None | JInt i \<Rightarrow> Inr (Some i) | _ \<Rightarrow> Inl (TypeError k))"

text \<open>The filters of a stored request; admission stores only values of these types.\<close>

definition stored_filters :: "json \<Rightarrow> selection_filters result" where
  "stored_filters v = (case v of
       JObj m \<Rightarrow> rbind (text_filter m ''provider'') (\<lambda>p. rbind (text_filter m ''username'') (\<lambda>u. rbind (int_filter m ''since'') (\<lambda>s.
         rbind (int_filter m ''until'') (\<lambda>t. rbind (text_filter m ''time_class'') (\<lambda>tc. rbind (text_filter m ''variant'') (\<lambda>va.
         rbind (case obj_get m ''rated'' of JNull \<Rightarrow> Inr None | JBool r \<Rightarrow> Inr (Some r) | _ \<Rightarrow> Inl (TypeError ''rated'')) (\<lambda>r.
         Inr \<lparr>fi_provider = p, fi_username = u, fi_since = s, fi_until = t, fi_time_class = tc, fi_variant = va, fi_rated = r\<rparr>)))))))
     | _ \<Rightarrow> Inl (TypeError ''filters''))"

definition stored_set_request :: "archive_job \<Rightarrow> int \<Rightarrow> set_request result" where
  "stored_set_request r limit = (case aj_request r of
       JObj m \<Rightarrow> rbind (manifest_field m ''name'') (\<lambda>name. rbind (manifest_field m ''filters'') (\<lambda>fs. rbind (manifest_field m ''settings'') (\<lambda>settings.
         rbind (stored_filters fs) (\<lambda>f.
         Inr \<lparr>sq_workspace_id = aj_workspace_id r, sq_name = py_str name, sq_filters = f, sq_settings = settings, sq_idempotency_key = str_int (aj_job_id r),
           sq_max_members = limit, sq_namespace = ''archive-job''\<rparr>))))
     | _ \<Rightarrow> Inl (TypeError ''request''))"

definition over_allowance :: "workshop \<Rightarrow> conn \<Rightarrow> int \<Rightarrow> pyerr \<Rightarrow> pyerr" where
  "over_allowance e c allowance err = (case err of
       ValidationError msg code \<Rightarrow> if code = ''working_set_too_large'' \<and> allowance < wp_max_members e
         then BudgetExceeded ''normalization_units'' allowance None (cn_work_budget_id c) else err
     | _ \<Rightarrow> err)"

text \<open>The transaction that selects, charges the budget and closes the request.\<close>

definition select_games :: "workshop \<Rightarrow> conn \<Rightarrow> archive_job \<Rightarrow> int \<Rightarrow> rat \<Rightarrow> bench \<Rightarrow> (bench \<times> unit) result" where
  "select_games e c r allowance now b =
     rbind (stored_set_request r (max 1 (min (wp_max_members e) allowance))) (\<lambda>q.
     case create_working_set (wp_columns e) (wp_sha e) q (trunc_rat now) (be_catalog b) c (be_db b) (be_worksets b) of
       Inl err \<Rightarrow> Inl (over_allowance e c allowance err)
     | Inr (d1, c1, wt1, w, _) \<Rightarrow>
         rbind (rguard (\<not> wp_stopped e (be_polls b)) (ArchiveJobStopped stop_message)) (\<lambda>_.
         rbind (charge_units c1 (wk_member_count w) d1) (\<lambda>d2.
         rbind (complete_working_set_job (aj_job_id r) (aj_workspace_id r) (wk_id w) (be_shelf b)) (\<lambda>sh1.
         Inr (b\<lparr>be_db := d2, be_worksets := wt1, be_shelf := sh1, be_polls := Suc (be_polls b)\<rparr>, ())))))"

definition build_working_set :: "workshop \<Rightarrow> conn \<Rightarrow> job \<Rightarrow> execution_outcome task" where
  "build_working_set e c j = task_then (task_of (archive_request j)) (\<lambda>r.
     if aj_working_set_id r \<noteq> None then task_of (\<lambda>_. Inr (finished ''Immutable working set already finalized''))
     else task_then (check_stop e) (\<lambda>_. task_then (allowance_or c (wp_max_members e)) (\<lambda>allowance. task_then (read_clock e) (\<lambda>now.
       task_then (in_write c (select_games e c r allowance now)) (\<lambda>_. task_of (\<lambda>_. Inr (finished ''Immutable working set finalized'')))))))"

section \<open>Preparing an export\<close>

subsection \<open>Clearing an earlier attempt\<close>

definition parts_left :: "int \<Rightarrow> bench \<Rightarrow> nat" where
  "parts_left job b = length (filter (\<lambda>k. ac_job_id k = job) (sh_chunks (be_shelf b)))"

lemma delete_part_removes:
  assumes "delete_part sha fault c d a job ws p (os, sh) = (Inr u, os', sh')"
  shows "sh' = remove_chunk_reference job (fst p) sh"
  using assms by (auto simp: delete_part_def atomic_def rbind_eq_Inr split: sum.splits)

lemma delete_parts_removes:
  assumes "delete_parts sha fault c d a job ws ps (os, sh) = (Inr u, os', sh')"
  shows "sh_chunks sh' = filter (\<lambda>k. ac_job_id k \<noteq> job \<or> ac_ordinal k \<notin> fst ` set ps) (sh_chunks sh) \<and> sh_artifacts sh' = sh_artifacts sh
    \<and> sh_jobs sh' = sh_jobs sh \<and> sh_downloads sh' = sh_downloads sh"
  using assms
proof (induction ps arbitrary: os sh)
  case (Cons p ps)
  then obtain v os1 sh1 where one: "delete_part sha fault c d a job ws p (os, sh) = (Inr v, os1, sh1)"
    and rest: "delete_parts sha fault c d a job ws ps (os1, sh1) = (Inr u, os', sh')"
    by (auto split: prod.splits sum.splits)
  from Cons.IH [OF rest] delete_part_removes [OF one] show ?case
    by (auto simp: remove_chunk_reference_def intro!: filter_cong)
qed simp

lemma delete_artifact_parts_shrinks:
  assumes "delete_artifact_parts sha fault False c d a job ws 256 (os, sh) = (Inr n, os', sh')" "n \<noteq> 0"
  shows "length (filter (\<lambda>k. ac_job_id k = job) (sh_chunks sh')) < length (filter (\<lambda>k. ac_job_id k = job) (sh_chunks sh))"
proof -
  let ?rows = "take 256 (filter (\<lambda>p. 0 < fst p) (parts_of a job sh))"
  obtain u where del: "delete_parts sha fault c d a job ws ?rows (os, sh) = (Inr u, os', sh')" and n: "n = length ?rows"
    using assms(1) by (auto simp: delete_artifact_parts_def chunk_page_def split: prod.splits sum.splits)
  then obtain p where p: "p \<in> set ?rows" using assms(2) by (metis length_0_conv list.set_intros(1) neq_Nil_conv)
  then obtain k where k: "k \<in> set (sh_chunks sh)" "ac_job_id k = job" "ac_ordinal k = fst p"
    by (auto simp: parts_of_def map_filter_def dest!: in_set_takeD split: if_splits)
  have "filter (\<lambda>k. ac_job_id k = job) (sh_chunks sh')
      = filter (\<lambda>k. ac_ordinal k \<notin> fst ` set ?rows) (filter (\<lambda>k. ac_job_id k = job) (sh_chunks sh))"
    using delete_parts_removes [OF del] by (auto intro!: filter_cong)
  also have "length \<dots> < length (filter (\<lambda>k. ac_job_id k = job) (sh_chunks sh))"
    by (rule length_filter_less [of k]) (use k p in auto)
  finally show ?thesis .
qed

text \<open>Batches of parts are deleted until none is left; every batch that deletes anything leaves fewer.\<close>

function clear_parts :: "workshop \<Rightarrow> conn \<Rightarrow> int \<Rightarrow> string \<Rightarrow> nat \<Rightarrow> bench \<Rightarrow> unit result \<times> bench" where
  "clear_parts e c job ws n b = (case delete_artifact_parts (wp_sha e) (wp_fault e n) False c (be_db b) (be_arch b) job ws 256 (be_objects b, be_shelf b) of
       (Inl err, os, sh) \<Rightarrow> (Inl err, b\<lparr>be_objects := os, be_shelf := sh\<rparr>)
     | (Inr k, os, sh) \<Rightarrow> let b1 = b\<lparr>be_objects := os, be_shelf := sh\<rparr> in
         if k = 0 then (Inr (), b1)
         else case check_stop e b1 of
             (Inl err, b2) \<Rightarrow> (Inl err, b2)
           | (Inr _, b2) \<Rightarrow> clear_parts e c job ws (Suc n) b2)"
  by pat_completeness auto
termination
  by (relation "measure (\<lambda>(e, c, job, ws, n, b). parts_left job b)")
     (auto simp: parts_left_def check_stop_def intro: delete_artifact_parts_shrinks [OF sym])

declare clear_parts.simps [simp del]

subsection \<open>Publishing\<close>

text \<open>\<open>read(CHUNK_BYTES)\<close> until the end.\<close>

function chunks_of :: "nat \<Rightarrow> string \<Rightarrow> string list" where
  "chunks_of n s = (if s = [] \<or> n = 0 then [] else take n s # chunks_of n (drop n s))"
  by pat_completeness auto
termination
  by (relation "measure (\<lambda>(n, s). length s)") auto

declare chunks_of.simps [simp del]

definition attempt_prefix :: "workshop \<Rightarrow> int \<Rightarrow> string \<Rightarrow> int \<Rightarrow> string result" where
  "attempt_prefix e job ws generation = rbind (artifact_prefix (wp_sha e) ws job) (\<lambda>prefix.
     Inr (prefix @ ''attempt-'' @ str_int generation @ ''/''))"

fun upload :: "workshop \<Rightarrow> conn \<Rightarrow> int \<Rightarrow> string \<Rightarrow> int \<Rightarrow> store \<Rightarrow> int \<Rightarrow> string list \<Rightarrow> bench \<Rightarrow> int result \<times> bench" where
  "upload e c job ws generation st n [] b = (Inr n, b)"
| "upload e c job ws generation st n (body # rest) b = (case check_stop e b of
       (Inl err, b1) \<Rightarrow> (Inl err, b1)
     | (Inr _, b1) \<Rightarrow> (case rbind (attempt_prefix e job ws generation) (\<lambda>prefix. prepare_archive_object (wp_codec e) body st prefix (be_objects b1)) of
         Inl err \<Rightarrow> (Inl err, b1)
       | Inr (os, p) \<Rightarrow> let b2 = b1\<lparr>be_objects := os, be_ticks := Suc (be_ticks b1)\<rparr> in
           (case atomic c (be_db b2) (\<lambda>_. add_artifact_chunk (wp_sha e) job ws (n + 1) p (wp_clock e (be_ticks b1)) (be_arch b2, be_shelf b2)) of
              Inl err \<Rightarrow> (Inl err, b2)
            | Inr (a, sh) \<Rightarrow> upload e c job ws generation st (n + 1) rest (b2\<lparr>be_arch := a, be_shelf := sh\<rparr>))))"

definition unsigned_manifest :: "string \<Rightarrow> json \<Rightarrow> snapshot \<Rightarrow> int \<Rightarrow> fields" where
  "unsigned_manifest kind provider ss count =
     [(''contract_version'', JInt 1), (''renderer_version'', JStr ''archive-export-v1''), (''kind'', JStr kind), (''provider'', provider),
      (''rows'', JInt (ss_rows ss)), (''body_bytes'', JInt (ss_body_bytes ss)), (''content_hash'', JStr (ss_content_hash ss)),
      (''snapshot_started_at'', JInt (ss_started_at ss)), (''selection_time'', JStr ''processing''), (''chunk_count'', JInt count),
      (''filename'', JStr (kind @ ''.'' @ export_extension kind)), (''media_type'', JStr (export_media_type kind))]"

definition signed_manifest :: "(string \<Rightarrow> string) \<Rightarrow> fields \<Rightarrow> fields result" where
  "signed_manifest sha m = rbind (json_digest sha (JObj m)) (\<lambda>h. Inr (m @ [(''artifact_signature'', JStr h)]))"

subsection \<open>The handler\<close>

text \<open>The request of an export: its kind and its filter by provider.\<close>

definition export_request :: "archive_job \<Rightarrow> (string \<times> string option) result" where
  "export_request r = (case aj_request r of
       JObj m \<Rightarrow> rbind (manifest_field m ''kind'') (\<lambda>kind. rbind (text_filter m ''provider'') (\<lambda>provider. Inr (py_str kind, provider)))
     | _ \<Rightarrow> Inl (TypeError ''request''))"

definition export_writer :: "workshop \<Rightarrow> conn \<Rightarrow> int \<Rightarrow> writer" where
  "export_writer e c allowance = \<lparr>wr_limits = \<lparr>rl_max_rows = wp_max_rows e, rl_max_bytes = wp_max_bytes e, rl_workspace_slots = wp_slots e\<rparr>,
     wr_deadline = wp_monotonic e 0 + of_int (wp_prepare_seconds e), wr_interrupted = wp_interrupted e, wr_now = (\<lambda>n. wp_monotonic e (n + 2)),
     wr_allowance = allowance, wr_budget = cn_work_budget_id c\<rparr>"

fun storage_failure :: "pyerr \<Rightarrow> bool" where
  "storage_failure (DatabaseError _) = True"
| "storage_failure (ExecutorLeaseLost _) = True"
| "storage_failure _ = False"

text \<open>The snapshot; the rows it has read are charged when it succeeds and when it fails, unless storage itself failed.\<close>

definition take_snapshot :: "workshop \<Rightarrow> conn \<Rightarrow> string \<Rightarrow> string option \<Rightarrow> string \<Rightarrow> int \<Rightarrow> rat \<Rightarrow> (snapshot \<times> string) task" where
  "take_snapshot e c kind provider ws allowance now b =
     (case write_export_snapshot (wp_digest8 e) (wp_sha e) c False (export_writer e c allowance) kind provider ws (trunc_rat now) (wp_monotonic e 1)
         (be_catalog b) (be_db b) of
        (Inl err, sp) \<Rightarrow> if storage_failure err then (Inl err, b)
          else task_then (charge_export c (sp_pending sp)) (\<lambda>_. task_of (\<lambda>_. Inl err)) b
      | (Inr ss, sp) \<Rightarrow>
          task_then (charge_export c (sp_pending sp)) (\<lambda>_. task_of (\<lambda>_. Inr (ss, sp_content sp))) b)"

definition publish_export :: "workshop \<Rightarrow> conn \<Rightarrow> job \<Rightarrow> string \<Rightarrow> string \<Rightarrow> string option \<Rightarrow> snapshot \<Rightarrow> string \<Rightarrow> unit task" where
  "publish_export e c j ws kind provider ss content =
     task_then (task_of (\<lambda>_. wp_store e)) (\<lambda>st.
     task_then (upload e c (j_id j) ws (j_ownership_generation j) st 0 (chunks_of CHUNK_BYTES content)) (\<lambda>count.
     task_then (check_stop e) (\<lambda>_.
     task_then (task_of (\<lambda>_. signed_manifest (wp_sha e) (unsigned_manifest kind (opt_text provider) ss count))) (\<lambda>m.
     task_then (read_clock e) (\<lambda>now.
     in_write c (\<lambda>b. rbind (finish_artifact (wp_columns e) (j_id j) ws m now (be_arch b) (be_shelf b)) (\<lambda>sh. Inr (b\<lparr>be_shelf := sh\<rparr>, ()))))))))"

definition prepare_export :: "workshop \<Rightarrow> conn \<Rightarrow> job \<Rightarrow> execution_outcome task" where
  "prepare_export e c j = task_then (task_of (archive_request j)) (\<lambda>r. let ws = aj_workspace_id r in
     task_then (task_of (\<lambda>b. artifact_record (j_id j) ws (be_shelf b))) (\<lambda>f.
     if af_state f = Ready then task_of (\<lambda>_. Inr (finished ''Immutable export already finalized''))
     else task_then (check_stop e) (\<lambda>_. task_then (read_clock e) (\<lambda>t0.
       task_then (in_write c (\<lambda>b. rbind (start_artifact (j_id j) ws t0 (be_shelf b)) (\<lambda>sh. Inr (b\<lparr>be_shelf := sh\<rparr>, ())))) (\<lambda>_.
       task_then (clear_parts e c (j_id j) ws 0) (\<lambda>_.
       task_then (task_of (\<lambda>_. export_request r)) (\<lambda>(kind, provider).
       task_then (allowance_or c (wp_max_rows e)) (\<lambda>allowance. task_then (read_clock e) (\<lambda>t1.
       task_then (take_snapshot e c kind provider ws allowance t1) (\<lambda>(ss, content).
       task_then (publish_export e c j ws kind provider ss content) (\<lambda>_.
       task_of (\<lambda>_. Inr (finished ''Immutable export finalized'')))))))))))))"

section \<open>Outcomes\<close>

text \<open>\<open>_execute\<close>: a stop leaves the job pending, storage failures, exhausted budgets and refusals are raised, anything else is an
  error of the job; \<open>exc_name\<close> is the name of the class of an exception.\<close>

definition archive_outcome :: "(pyerr \<Rightarrow> string) \<Rightarrow> pyerr \<Rightarrow> execution_outcome result" where
  "archive_outcome exc_name err = (case err of
       ArchiveJobStopped msg \<Rightarrow> Inr (outcome ''pending'' msg)
     | QuotaExceeded dimension _ _ _ \<Rightarrow> if dimension = ''export_preparations''
         then Inr ((outcome ''error'' ''Export preparation capacity is temporarily occupied'')\<lparr>eo_transient := True\<rparr>) else Inl err
     | DatabaseError _ \<Rightarrow> Inl err
     | ExecutorLeaseLost _ \<Rightarrow> Inl err
     | BudgetExceeded _ _ _ _ \<Rightarrow> Inl err
     | ValidationError _ _ \<Rightarrow> Inl err
     | NotFound _ _ \<Rightarrow> Inl err
     | Conflict _ _ \<Rightarrow> Inl err
     | _ \<Rightarrow> Inr ((outcome ''error'' (''archive_processing_error: '' @ exc_name err))\<lparr>eo_transient := (case err of OSError _ \<Rightarrow> True | _ \<Rightarrow> False)\<rparr>))"

definition execute_archive :: "(pyerr \<Rightarrow> string) \<Rightarrow> execution_outcome task \<Rightarrow> execution_outcome task" where
  "execute_archive exc_name handler b = (case handler b of
       (Inl err, b1) \<Rightarrow> (archive_outcome exc_name err, b1)
     | (Inr x, b1) \<Rightarrow> (Inr x, b1))"

definition archive_handler :: "(pyerr \<Rightarrow> string) \<Rightarrow> workshop \<Rightarrow> conn \<Rightarrow> string \<Rightarrow> (job \<Rightarrow> execution_outcome task) option" where
  "archive_handler exc_name e c kind =
     (if kind = ''build_working_set'' then Some (\<lambda>j. execute_archive exc_name (build_working_set e c j))
      else if kind = ''prepare_export'' then Some (\<lambda>j. execute_archive exc_name (prepare_export e c j)) else None)"

end
