(* ===== verification/Export_Properties.thy ===== *)
theory Export_Properties
  imports Exports Artifact_Laws Budget_Laws Working_Set_Properties Download_Properties
begin

text \<open>
  What a finished export guarantees: what publishing a snapshot puts on the shelf, that a manifest signed by the handler passes the checks of a download, that a
  download of parts as they were published delivers all of them, and so that a finished export downloads as the rows that were rendered.
\<close>

section \<open>Parts of a content\<close>

lemma chunks_of_concat: "0 < n \<Longrightarrow> concat (chunks_of n s) = s"
proof (induction "length s" arbitrary: s rule: less_induct)
  case less
  then show ?case by (subst chunks_of.simps) (auto simp: less(1) [of "drop n s"])
qed

lemma chunks_of_length: "0 < n \<Longrightarrow> length (chunks_of n s) = (length s + n - 1) div n"
proof (induction "length s" arbitrary: s rule: less_induct)
  case less
  show ?case
  proof (cases "s = []")
    case False
    then have "length (chunks_of n s) = Suc ((length (drop n s) + n - 1) div n)"
      using less by (subst chunks_of.simps) auto
    moreover have "Suc ((length s - n + n - 1) div n) = (length s + n - 1) div n"
    proof (cases "length s \<le> n")
      case True
      obtain k where k: "length s = Suc k" using False by (cases s) simp_all
      then have "(length s + n - 1) div n = (k + n) div n" by simp
      also have "\<dots> = Suc (k div n)" using less(2) by simp
      finally show ?thesis using True k less(2) by simp
    next
      case f: False
      then have "length s + n - 1 = (length s - n + n - 1) + n" using less(2) by simp
      then show ?thesis using less(2) by (metis div_add_self2 Suc_eq_plus1 less_not_refl)
    qed
    ultimately show ?thesis by simp
  qed (use less(2) in \<open>simp add: chunks_of.simps\<close>)
qed

lemma chunks_of_part:
  assumes "chunks_of n s = pre @ body # rest"
  shows "body \<noteq> [] \<and> length body = min n (length s - length (concat pre))"
  using assms
proof (induction pre arbitrary: s)
  case Nil
  then show ?case by (subst (asm) chunks_of.simps) (auto split: if_splits)
next
  case (Cons x pre)
  have "chunks_of n s = (if s = [] \<or> n = 0 then [] else take n s # chunks_of n (drop n s))" by (rule chunks_of.simps)
  then have x: "x = take n s" "chunks_of n (drop n s) = pre @ body # rest" using Cons.prems by (auto split: if_splits)
  from Cons.IH [OF x(2)] show ?case by (auto simp: x(1))
qed

section \<open>Published parts\<close>

definition good_part :: "codec \<Rightarrow> string \<Rightarrow> objects \<Rightarrow> archive_object \<Rightarrow> string \<Rightarrow> bool" where
  "good_part cd prefix os row body \<longleftrightarrow> (\<exists>k. object_key (ao_stored_hash row) = Inr k \<and> ao_object_key row = prefix @ k)
     \<and> ao_body_bytes row = length body \<and> ao_stored_bytes row = length (cd_gzip cd 0 body) \<and> read_archive_reference cd row None os = Inr body"

definition shelved :: "codec \<Rightarrow> string \<Rightarrow> objects \<Rightarrow> arch \<Rightarrow> int \<Rightarrow> shelf \<Rightarrow> string list \<Rightarrow> bool" where
  "shelved cd prefix os a job sh bodies \<longleftrightarrow> map fst (parts_of a job sh) = map int [1..<Suc (length bodies)]
     \<and> list_all2 (good_part cd prefix os) (map snd (parts_of a job sh)) bodies"

lemma good_part_mono: "good_part cd prefix os row body \<Longrightarrow> os \<subseteq>\<^sub>m os' \<Longrightarrow> good_part cd prefix os' row body"
  unfolding good_part_def using read_archive_reference_mono by blast

definition rows_exist :: "arch \<Rightarrow> shelf \<Rightarrow> bool" where
  "rows_exist a sh \<longleftrightarrow> (\<forall>k \<in> set (sh_chunks sh). object_row a (ac_archive_object_id k) \<noteq> None)"

lemma parts_of_extend:
  assumes "refs_extend a a'" "rows_exist a sh"
  shows "parts_of a' job sh = parts_of a job sh"
proof -
  have "List.map_filter (\<lambda>k. if ac_job_id k = job then map_option (Pair (ac_ordinal k)) (object_row a' (ac_archive_object_id k)) else None) ks
      = List.map_filter (\<lambda>k. if ac_job_id k = job then map_option (Pair (ac_ordinal k)) (object_row a (ac_archive_object_id k)) else None) ks"
    if "set ks \<subseteq> set (sh_chunks sh)" for ks
    using that
  proof (induction ks)
    case (Cons k ks)
    obtain row where "object_row a (ac_archive_object_id k) = Some row" using Cons.prems assms(2) by (auto simp: rows_exist_def)
    moreover from this have "object_row a' (ac_archive_object_id k) = Some row" using assms(1) by (simp add: refs_extend_def)
    ultimately show ?case using Cons by (simp add: map_filter_simps)
  qed (simp add: map_filter_simps)
  then show ?thesis by (simp add: parts_of_def)
qed

lemma sort_key_snoc: "(\<And>x. x \<in> set xs \<Longrightarrow> f x \<le> f y) \<Longrightarrow> sort_key f (xs @ [y]) = sort_key f xs @ [y]"
proof -
  assume le: "\<And>x. x \<in> set xs \<Longrightarrow> f x \<le> f y"
  have i: "insort_key f x (zs @ [y]) = insort_key f x zs @ [y]" if "f x \<le> f y" for x zs using that by (induction zs) auto
  have "foldr (insort_key f) xs [y] = foldr (insort_key f) xs [] @ [y]" using le by (induction xs) (simp_all add: i)
  then show ?thesis by (simp add: sort_key_def)
qed

lemma parts_of_chunk:
  assumes "rows_exist a sh" "refs_extend a a'" "object_row a' i = Some row" "\<And>p. p \<in> set (parts_of a job sh) \<Longrightarrow> fst p \<le> n"
  shows "parts_of a' job (sh\<lparr>sh_chunks := sh_chunks sh @ [\<lparr>ac_job_id = job, ac_ordinal = n, ac_archive_object_id = i\<rparr>]\<rparr>) = parts_of a job sh @ [(n, row)]"
proof -
  let ?f = "\<lambda>k. if ac_job_id k = job then map_option (Pair (ac_ordinal k)) (object_row a' (ac_archive_object_id k)) else None"
  have old: "parts_of a' job sh = parts_of a job sh" by (rule parts_of_extend [OF assms(2,1)])
  have le: "fst x \<le> n" if "x \<in> set (List.map_filter ?f (sh_chunks sh))" for x
  proof -
    have "x \<in> set (parts_of a' job sh)" using that by (simp add: parts_of_def)
    then show ?thesis using assms(4) old by simp
  qed
  have "List.map_filter ?f (sh_chunks sh @ [\<lparr>ac_job_id = job, ac_ordinal = n, ac_archive_object_id = i\<rparr>]) = List.map_filter ?f (sh_chunks sh) @ [(n, row)]"
    by (simp add: map_filter_def assms(3))
  then have "parts_of a' job (sh\<lparr>sh_chunks := sh_chunks sh @ [\<lparr>ac_job_id = job, ac_ordinal = n, ac_archive_object_id = i\<rparr>]\<rparr>) = parts_of a' job sh @ [(n, row)]"
    using sort_key_snoc [of "List.map_filter ?f (sh_chunks sh)" fst "(n, row)"] le by (simp add: parts_of_def)
  then show ?thesis using old by simp
qed

lemma prepared_key:
  "prepare_archive_object cd body s pre os = Inr (os', p) \<Longrightarrow> \<exists>k. object_key (pr_stored_hash p) = Inr k \<and> pr_object_key p = pre @ k"
  by (auto simp: prepare_archive_object_def Let_def rbind_eq_Inr split: if_splits)

text \<open>Publishing one more part.\<close>

lemma add_chunk_shelved:
  assumes codec: "codec_ok cd" and wf: "arch_wf a" and rows: "rows_exist a sh" and kb: "known_backend st"
    and old: "shelved cd prefix os a job sh done'" and prep: "prepare_archive_object cd body st prefix os = Inr (os', p)"
    and add: "add_artifact_chunk sha job ws (int (length done') + 1) p now (a, sh) = Inr (a', sh')"
  shows "shelved cd prefix os' a' job sh' (done' @ [body]) \<and> arch_wf a' \<and> rows_exist a' sh' \<and> sh_artifacts sh' = sh_artifacts sh"
proof -
  obtain i where reg: "register_archive_object p (trunc_rat now) a = Inr (a', i)"
    and sh': "sh' = sh\<lparr>sh_chunks := sh_chunks sh @ [\<lparr>ac_job_id = job, ac_ordinal = int (length done') + 1, ac_archive_object_id = i\<rparr>]\<rparr>"
    using add by (auto simp: add_artifact_chunk_def rbind_eq_Inr split: if_splits)
  note pp = prepare_archive_object_Inr [OF prep]
  obtain row where row: "object_row a' i = Some row" "ao_object_key row = pr_object_key p" "ao_stored_hash row = pr_stored_hash p"
      "ao_body_bytes row = pr_body_bytes p" "ao_stored_bytes row = pr_stored_bytes p" and ext: "arch_wf a'" "refs_extend a a'"
    using register_archive_object_Inr [OF reg wf] by metis
  have "published cd os' p body" using kb pp by (auto simp: published_def)
  then have "read_archive_reference cd row None os' = Inr body"
    using registered_object_reads [OF codec _ reg wf] row(1) by (simp add: read_archive_object_def)
  then have good: "good_part cd prefix os' row body" using prepared_key [OF prep] row pp by (auto simp: good_part_def)
  have le: "fst x \<le> int (length done') + 1" if "x \<in> set (parts_of a job sh)" for x
  proof -
    have "fst x \<in> set (map int [1..<Suc (length done')])" using that old by (metis shelved_def image_eqI list.set_map)
    then show ?thesis by auto
  qed
  have parts: "parts_of a' job sh' = parts_of a job sh @ [(int (length done') + 1, row)]"
    unfolding sh' by (rule parts_of_chunk [OF rows ext(2) row(1) le])
  have "list_all2 (good_part cd prefix os') (map snd (parts_of a job sh)) done'"
    using old good_part_mono [OF _ pp(1)] by (auto simp: shelved_def elim!: list_all2_mono)
  then have "shelved cd prefix os' a' job sh' (done' @ [body])"
    using old good by (auto simp: shelved_def parts intro: list_all2_appendI)
  moreover have "rows_exist a' sh'" using rows row(1) ext(2) by (fastforce simp: rows_exist_def sh' refs_extend_def)
  ultimately show ?thesis using ext(1) by (simp add: sh')
qed

lemma upload_shelves:
  assumes run: "upload e c job ws generation st (int (length done')) bodies b = (Inr n, b')"
    and codec: "codec_ok (wp_codec e)" and wf: "arch_wf (be_arch b)" and rows: "rows_exist (be_arch b) (be_shelf b)" and kb: "known_backend st"
    and pre: "attempt_prefix e job ws generation = Inr prefix"
    and old: "shelved (wp_codec e) prefix (be_objects b) (be_arch b) job (be_shelf b) done'"
  shows "n = int (length (done' @ bodies)) \<and> shelved (wp_codec e) prefix (be_objects b') (be_arch b') job (be_shelf b') (done' @ bodies)
    \<and> sh_artifacts (be_shelf b') = sh_artifacts (be_shelf b)"
  using run wf rows old
proof (induction bodies arbitrary: done' b)
  case (Cons body rest)
  define b1 where "b1 = b\<lparr>be_polls := Suc (be_polls b)\<rparr>"
  obtain os p a sh where prep: "prepare_archive_object (wp_codec e) body st prefix (be_objects b) = Inr (os, p)"
    and add: "add_artifact_chunk (wp_sha e) job ws (int (length done') + 1) p (wp_clock e (be_ticks b)) (be_arch b, be_shelf b) = Inr (a, sh)"
    and more: "upload e c job ws generation st (int (length done') + 1) rest
      (b\<lparr>be_polls := Suc (be_polls b), be_objects := os, be_ticks := Suc (be_ticks b), be_arch := a, be_shelf := sh\<rparr>) = (Inr n, b')"
    using Cons.prems(1) by (auto simp: check_stop_def pre Let_def atomic_def rbind_eq_Inr split: sum.splits prod.splits)
  note new = add_chunk_shelved [OF codec Cons.prems(2,3) kb Cons.prems(4) prep add]
  have more': "upload e c job ws generation st (int (length (done' @ [body]))) rest
      (b\<lparr>be_polls := Suc (be_polls b), be_objects := os, be_ticks := Suc (be_ticks b), be_arch := a, be_shelf := sh\<rparr>) = (Inr n, b')"
    using more by (simp add: add.commute)
  show ?case using Cons.IH [OF more'] new by simp
qed simp


section \<open>Reading published parts\<close>

lemma str_nat_first: "0 < n \<Longrightarrow> hd (str_nat n) \<noteq> CHR ''0''"
proof (induction n rule: str_nat.induct)
  case (1 n)
  show ?case
  proof (cases "n < 10")
    case True
    moreover have "digit_val (CHR ''0'') = 0" by code_simp
    ultimately show ?thesis using 1(2) digit_char_props(2) [of n] by (auto simp: str_nat.simps [of n])
  next
    case False
    then have "hd (str_nat n) = hd (str_nat (n div 10))" by (subst str_nat.simps) simp
    then show ?thesis using 1(1) [OF False] False by simp
  qed
qed

lemma attempt_name_generation: "1 \<le> g \<Longrightarrow> attempt_name (''attempt-'' @ str_int g)"
proof -
  assume "1 \<le> g"
  moreover obtain c cs where cs: "str_nat (nat g) = c # cs" by (cases "str_nat (nat g)") auto
  moreover from this have "is_digit c" "list_all is_digit cs" using str_nat_digits [of _ "nat g"] by (auto simp: list_all_iff)
  ultimately show ?thesis using str_nat_first [of "nat g"] by (simp add: attempt_name_def str_int_def starts_with_def)
qed

lemma attempt_name_slash: "1 \<le> g \<Longrightarrow> CHR ''/'' \<notin> set (''attempt-'' @ str_int g)"
  using str_nat_digits [of "CHR ''/''" "nat g"] by (auto simp: str_int_def is_digit_def)

lemma numbered_rest:
  assumes "map fst ps = map int [1..<Suc n]"
  shows "filter (\<lambda>p. int k < fst p) ps = drop k ps"
proof -
  have len: "length ps = n" using arg_cong [OF assms, of length] by simp
  have nth: "fst (ps ! i) = int i + 1" if "i < length ps" for i
    using arg_cong [OF assms, of "\<lambda>l. l ! i"] that len by (simp del: upt_Suc)
  have "\<not> int k < fst p" if "p \<in> set (take k ps)" for p using that nth by (auto simp: in_set_conv_nth)
  then have "filter (\<lambda>p. int k < fst p) (take k ps) = []" by (simp add: filter_empty_conv)
  moreover have "int k < fst p" if "p \<in> set (drop k ps)" for p using that nth by (auto simp: in_set_conv_nth)
  then have "filter (\<lambda>p. int k < fst p) (drop k ps) = drop k ps" by (simp add: filter_id_conv)
  ultimately show ?thesis by (metis append.left_neutral append_take_drop_id filter_append)
qed

text \<open>What a call of the download sees while the artifact stays as it was finished and the deadline has not passed.\<close>

definition steady :: "bench \<Rightarrow> int \<Rightarrow> rat \<Rightarrow> sight \<Rightarrow> bool" where
  "steady b job deadline si \<longleftrightarrow> si_start si < deadline \<and> si_end si < deadline \<and> be_objects b \<subseteq>\<^sub>m si_objects si
     \<and> (\<exists>a sh. si_page si = Inr (a, sh) \<and> parts_of a job sh = parts_of (be_arch b) job (be_shelf b))
     \<and> (\<exists>a sh. si_rest si = Inr (a, sh) \<and> parts_of a job sh = parts_of (be_arch b) job (be_shelf b))"

definition on_track :: "(string \<Rightarrow> string) \<Rightarrow> string list \<Rightarrow> string \<Rightarrow> nat \<Rightarrow> download \<Rightarrow> bool" where
  "on_track sha bodies att n d \<longleftrightarrow> n \<le> length bodies \<and> dn_ordinal d = int n \<and> dn_hashed d = concat (take n bodies)
     \<and> dn_body_bytes d = int (length (concat (take n bodies))) \<and> dn_attempt d \<in> {None, Some att} \<and> \<not> dn_closed d \<and> \<not> dn_expired d
     \<and> (dn_complete d \<longrightarrow> n = length bodies)
     \<and> manifest_int (dn_manifest d) ''chunk_count'' = int (length bodies) \<and> manifest_int (dn_manifest d) ''body_bytes'' = int (length (concat bodies))
     \<and> obj_get (dn_manifest d) ''content_hash'' = JStr (''sha256:'' @ sha (concat bodies))"

lemma check_part_good:
  assumes good: "good_part cd prefix os row body" and pre: "artifact_prefix sha (dn_workspace_id d) (dn_job_id d) = Inr base"
    and prefix: "prefix = base @ ''attempt-'' @ str_int g @ ''/''" and g: "1 \<le> g"
    and att: "dn_attempt d \<in> {None, Some (''attempt-'' @ str_int g)}"
    and nums: "n = dn_ordinal d + 1" "n \<le> manifest_int (dn_manifest d) ''chunk_count''"
    and len: "int (length body) = min (int CHUNK_BYTES) (manifest_int (dn_manifest d) ''body_bytes'' - dn_body_bytes d)" "body \<noteq> []"
    and gz: "1 \<le> length (cd_gzip cd 0 body)" "length (cd_gzip cd 0 body) \<le> CHUNK_BYTES + 65536"
  shows "check_part sha d (n, row) = Inr (''attempt-'' @ str_int g)"
proof -
  obtain k where k: "object_key (ao_stored_hash row) = Inr k" "ao_object_key row = prefix @ k"
    and b: "ao_body_bytes row = length body" "ao_stored_bytes row = length (cd_gzip cd 0 body)"
    using good by (auto simp: good_part_def)
  define name where "name = ''attempt-'' @ str_int g"
  have key: "ao_object_key row = base @ name @ CHR ''/'' # k" by (simp add: k(2) prefix name_def)
  have slash: "CHR ''/'' \<notin> set name" using attempt_name_slash [OF g] by (simp add: name_def)
  have tw: "takeWhile (\<lambda>c. c \<noteq> CHR ''/'') (name @ CHR ''/'' # k) = name" "dropWhile (\<lambda>c. c \<noteq> CHR ''/'') (name @ CHR ''/'' # k) = CHR ''/'' # k"
    using slash by (auto simp: takeWhile_append dropWhile_append)
  have pos: "0 < min (int CHUNK_BYTES) (manifest_int (dn_manifest d) ''body_bytes'' - dn_body_bytes d)" using len by (cases body) auto
  have att': "dn_attempt d = None \<or> dn_attempt d = Some name" and an: "attempt_name name" using att attempt_name_generation [OF g] by (auto simp: name_def)
  then show ?thesis
    unfolding name_def [symmetric] using k(1) b nums len(1) gz pos
    by (auto simp: check_part_def Let_def pre key starts_with_def tw split: option.split)
qed


text \<open>The parts of a content are on the shelf under one attempt; compressed parts are at most a little longer than the parts.\<close>

definition parts_ready :: "codec \<Rightarrow> bench \<Rightarrow> int \<Rightarrow> string \<Rightarrow> int \<Rightarrow> string \<Rightarrow> bool" where
  "parts_ready cd b job ws g content \<longleftrightarrow> 1 \<le> g \<and> (\<exists>base. artifact_prefix (cd_sha cd) ws job = Inr base
     \<and> shelved cd (base @ ''attempt-'' @ str_int g @ ''/'') (be_objects b) (be_arch b) job (be_shelf b) (chunks_of CHUNK_BYTES content))"

definition gzip_bounded :: "codec \<Rightarrow> bool" where
  "gzip_bounded cd \<longleftrightarrow> (\<forall>s. s \<noteq> [] \<and> length s \<le> CHUNK_BYTES \<longrightarrow> 1 \<le> length (cd_gzip cd 0 s) \<and> length (cd_gzip cd 0 s) \<le> CHUNK_BYTES + 65536)"

definition same_place :: "download \<Rightarrow> download \<Rightarrow> bool" where
  "same_place d d' \<longleftrightarrow> dn_job_id d' = dn_job_id d \<and> dn_workspace_id d' = dn_workspace_id d \<and> dn_deadline d' = dn_deadline d \<and> dn_first d' = dn_first d
     \<and> dn_manifest d' = dn_manifest d"

lemma CHUNK_BYTES_pos [simp]: "0 < CHUNK_BYTES"
  by (simp add: CHUNK_BYTES_def)

lemma finish_on_track:
  assumes "on_track sha bodies att (length bodies) d"
  shows "finish_download sha d = (Inr (), d\<lparr>dn_complete := True\<rparr>)" "on_track sha bodies att (length bodies) (d\<lparr>dn_complete := True\<rparr>)"
  using assms by (auto simp: on_track_def finish_download_def)

lemma one_part_steady:
  assumes "\<exists>a sh. seen = Inr (a, sh) \<and> parts_of a (dn_job_id d) sh = ps" "map fst ps = map int [1..<Suc n]" "dn_ordinal d = int k"
  shows "one_part seen d = Inr (take 1 (drop k ps))"
  using assms numbered_rest [OF assms(2), of k] by (auto simp: one_part_def chunk_page_def)

lemma read_next_on_track:
  assumes ready: "parts_ready cd b (dn_job_id d) (dn_workspace_id d) g content" and gz: "gzip_bounded cd" and st: "steady b (dn_job_id d) (dn_deadline d) si"
    and tr: "on_track (cd_sha cd) (chunks_of CHUNK_BYTES content) (''attempt-'' @ str_int g) n d" and n: "n < length (chunks_of CHUNK_BYTES content)"
  shows "\<exists>d'. read_next (cd_sha cd) cd si d = (Inr (Some (chunks_of CHUNK_BYTES content ! n)), d')
    \<and> on_track (cd_sha cd) (chunks_of CHUNK_BYTES content) (''attempt-'' @ str_int g) (Suc n) d' \<and> same_place d d'"
proof -
  define bodies where "bodies = chunks_of CHUNK_BYTES content"
  define att where "att = ''attempt-'' @ str_int g"
  define ps where "ps = parts_of (be_arch b) (dn_job_id d) (be_shelf b)"
  define body where "body = bodies ! n"
  note tr = tr [folded bodies_def att_def] and n = n [folded bodies_def]
  obtain base where g: "1 \<le> g" and base: "artifact_prefix (cd_sha cd) (dn_workspace_id d) (dn_job_id d) = Inr base"
    and fsts: "map fst ps = map int [1..<Suc (length bodies)]"
    and good: "list_all2 (good_part cd (base @ ''attempt-'' @ str_int g @ ''/'') (be_objects b)) (map snd ps) bodies"
    using ready by (auto simp: parts_ready_def shelved_def bodies_def ps_def simp del: upt_Suc)
  have len: "length ps = length bodies" using arg_cong [OF fsts, of length] by (simp del: upt_Suc)
  obtain row where row: "ps ! n = (int n + 1, row)"
    using arg_cong [OF fsts, of "\<lambda>l. l ! n"] n len by (cases "ps ! n") (auto simp del: upt_Suc)
  have gp: "good_part cd (base @ ''attempt-'' @ str_int g @ ''/'') (be_objects b) row body"
    using list_all2_nthD2 [OF good n] row n len by (simp add: body_def)
  have parts: "bodies = take n bodies @ body # drop (Suc n) bodies" using id_take_nth_drop [OF n] by (simp add: body_def)
  have bl: "body \<noteq> [] \<and> length body = min CHUNK_BYTES (length content - length (concat (take n bodies)))"
    by (rule chunks_of_part) (use parts in \<open>simp add: bodies_def [symmetric]\<close>)
  have cont: "concat bodies = content" by (simp add: bodies_def chunks_of_concat)
  have pos: "dn_ordinal d = int n" "dn_body_bytes d = int (length (concat (take n bodies)))" and open': "\<not> dn_closed d" "\<not> dn_expired d" "\<not> dn_complete d"
    and dm: "manifest_int (dn_manifest d) ''chunk_count'' = int (length bodies)" "manifest_int (dn_manifest d) ''body_bytes'' = int (length content)"
    using tr n cont by (auto simp: on_track_def)
  have le: "length (concat (take n bodies)) \<le> length content" using arg_cong [OF parts, of "\<lambda>l. length (concat l)"] cont by simp
  have cp: "check_part (cd_sha cd) d (int n + 1, row) = Inr att"
    unfolding att_def
    by (rule check_part_good [OF gp base refl g])
       (use tr pos dm n bl le gz in \<open>auto simp: on_track_def att_def gzip_bounded_def\<close>)
  have pg: "one_part (si_page si) d = Inr (take 1 (drop n ps))"
    by (rule one_part_steady [OF _ fsts pos(1)]) (use st in \<open>simp add: steady_def ps_def\<close>)
  have first: "take 1 (drop n ps) = [(int n + 1, row)]" using n len row by (simp add: take_Suc Cons_nth_drop_Suc [symmetric])
  have rd: "read_archive_reference cd row None (si_objects si) = Inr body"
    using good_part_mono [OF gp] st by (simp add: steady_def good_part_def)
  define d1 where "d1 = d\<lparr>dn_attempt := Some att, dn_ordinal := int n + 1, dn_body_bytes := dn_body_bytes d + int (length body), dn_hashed := dn_hashed d @ body\<rparr>"
  have tr1: "on_track (cd_sha cd) bodies att (Suc n) d1" using tr n open' by (auto simp: on_track_def d1_def take_Suc_conv_app_nth body_def)
  have life: "si_end si < dn_deadline d" using st by (simp add: steady_def)
  have "\<exists>d'. read_next (cd_sha cd) cd si d = (Inr (Some body), d') \<and> on_track (cd_sha cd) bodies att (Suc n) d' \<and> same_place d d'"
  proof (cases "Suc n = length bodies")
    case True
    have "one_part (si_rest si) d1 = Inr (take 1 (drop (Suc n) ps))"
      by (rule one_part_steady [OF _ fsts]) (use st in \<open>simp_all add: steady_def ps_def d1_def\<close>)
    then have none: "one_part (si_rest si) d1 = Inr []" using True len by simp
    have "read_next (cd_sha cd) cd si d = (Inr (Some body), d1\<lparr>dn_complete := True\<rparr>)"
      using pg first cp rd open' life finish_on_track(1) [of "cd_sha cd" bodies att d1] tr1 none True dm
      by (simp add: read_next_def check_lifetime_def count_part_def Let_def d1_def)
    then show ?thesis using finish_on_track(2) [of "cd_sha cd" bodies att d1] tr1 True
      by (auto simp: same_place_def d1_def)
  next
    case False
    then have "read_next (cd_sha cd) cd si d = (Inr (Some body), d1)"
      using pg first cp rd open' life dm by (simp add: read_next_def check_lifetime_def count_part_def Let_def d1_def)
    then show ?thesis using tr1 by (auto simp: same_place_def d1_def)
  qed
  then show ?thesis by (simp only: bodies_def att_def body_def)
qed

lemma read_next_at_end:
  assumes ready: "parts_ready cd b (dn_job_id d) (dn_workspace_id d) g content" and st: "steady b (dn_job_id d) (dn_deadline d) si"
    and tr: "on_track (cd_sha cd) (chunks_of CHUNK_BYTES content) att (length (chunks_of CHUNK_BYTES content)) d"
  shows "read_next (cd_sha cd) cd si d = (Inr None, d\<lparr>dn_complete := True\<rparr>)"
proof (cases "dn_complete d")
  case True
  then show ?thesis by (cases d) (simp add: read_next_def)
next
  case False
  define ps where "ps = parts_of (be_arch b) (dn_job_id d) (be_shelf b)"
  have fsts: "map fst ps = map int [1..<Suc (length (chunks_of CHUNK_BYTES content))]"
    using ready by (auto simp: parts_ready_def shelved_def ps_def simp del: upt_Suc)
  have "one_part (si_page si) d = Inr (take 1 (drop (length (chunks_of CHUNK_BYTES content)) ps))"
    by (rule one_part_steady [OF _ fsts]) (use st tr in \<open>simp_all add: steady_def ps_def on_track_def\<close>)
  moreover have "length ps = length (chunks_of CHUNK_BYTES content)" using arg_cong [OF fsts, of length] by (simp del: upt_Suc)
  ultimately show ?thesis using False finish_on_track(1) [OF tr] by (simp add: read_next_def)
qed

section \<open>Draining a download\<close>

text \<open>The server asks for parts until the iterator ends or raises; \<open>None\<close> when it has stopped asking before.\<close>

fun drain :: "(string \<Rightarrow> string) \<Rightarrow> codec \<Rightarrow> sight list \<Rightarrow> download \<Rightarrow> string list \<times> unit result option" where
  "drain sha cd [] d = ([], None)"
| "drain sha cd (si # sis) d = (case next_part sha cd si d of
       (Inl err, d') \<Rightarrow> ([], Some (Inl err))
     | (Inr None, d') \<Rightarrow> ([], Some (Inr ()))
     | (Inr (Some body), d') \<Rightarrow> (case drain sha cd sis d' of (bodies, r) \<Rightarrow> (body # bodies, r)))"

lemma drain_on_track:
  assumes "parts_ready cd b (dn_job_id d) (dn_workspace_id d) g content" "gzip_bounded cd" "list_all (steady b (dn_job_id d) (dn_deadline d)) sis"
    "on_track (cd_sha cd) (chunks_of CHUNK_BYTES content) (''attempt-'' @ str_int g) n d" "dn_first d = None"
    "length (chunks_of CHUNK_BYTES content) - n < length sis"
  shows "drain (cd_sha cd) cd sis d = (drop n (chunks_of CHUNK_BYTES content), Some (Inr ()))"
  using assms
proof (induction sis arbitrary: n d)
  case (Cons si sis)
  let ?bodies = "chunks_of CHUNK_BYTES content"
  note tr = Cons.prems(4) and st = Cons.prems(3)
  have life: "check_lifetime (si_start si) d = (Inr (), d)" "\<not> dn_closed d" using tr st by (auto simp: check_lifetime_def on_track_def steady_def)
  show ?case
  proof (cases "n < length ?bodies")
    case True
    obtain d' where rd: "read_next (cd_sha cd) cd si d = (Inr (Some (?bodies ! n)), d')"
        "on_track (cd_sha cd) ?bodies (''attempt-'' @ str_int g) (Suc n) d'" "same_place d d'"
      using read_next_on_track [OF Cons.prems(1,2) _ tr True, of si] st by auto
    have "drain (cd_sha cd) cd sis d' = (drop (Suc n) ?bodies, Some (Inr ()))"
      by (rule Cons.IH) (use Cons.prems rd True in \<open>auto simp: same_place_def\<close>)
    then show ?thesis using rd(1) life Cons.prems(5) True by (simp add: next_part_def Cons_nth_drop_Suc)
  next
    case False
    then have "n = length ?bodies" using tr by (simp add: on_track_def)
    then show ?thesis using read_next_at_end [OF Cons.prems(1)] tr st life Cons.prems(5) by (simp add: next_part_def)
  qed
qed simp

text \<open>A download fetches its first part ahead.\<close>

lemma primed_drain:
  assumes ready: "parts_ready cd b (dn_job_id d) (dn_workspace_id d) g content" and gz: "gzip_bounded cd"
    and st: "list_all (steady b (dn_job_id d) (dn_deadline d)) (si # sis)"
    and tr: "on_track (cd_sha cd) (chunks_of CHUNK_BYTES content) (''attempt-'' @ str_int g) 0 d"
    and len: "length (chunks_of CHUNK_BYTES content) < length sis"
  shows "\<exists>d'. prime (cd_sha cd) cd si d = (Inr (), d') \<and> drain (cd_sha cd) cd sis d' = (chunks_of CHUNK_BYTES content, Some (Inr ()))"
proof -
  let ?bodies = "chunks_of CHUNK_BYTES content"
  have life: "check_lifetime (si_start si) d = (Inr (), d)" using tr st by (auto simp: check_lifetime_def on_track_def steady_def)
  obtain s1 rest where sis: "sis = s1 # rest" using len by (cases sis) auto
  show ?thesis
  proof (cases "?bodies = []")
    case True
    have rd: "read_next (cd_sha cd) cd si d = (Inr None, d\<lparr>dn_complete := True\<rparr>)"
      using read_next_at_end [OF ready] st tr True by simp
    have "drain (cd_sha cd) cd sis (d\<lparr>dn_complete := True, dn_first := None\<rparr>) = (drop 0 ?bodies, Some (Inr ()))"
      by (rule drain_on_track [OF _ gz]) (use ready st tr len True in \<open>auto simp: on_track_def\<close>)
    then show ?thesis using rd life by (auto simp: prime_def)
  next
    case False
    obtain d' where rd: "read_next (cd_sha cd) cd si d = (Inr (Some (?bodies ! 0)), d')"
        "on_track (cd_sha cd) ?bodies (''attempt-'' @ str_int g) 1 d'" "same_place d d'"
      using read_next_on_track [OF ready gz _ tr, of si] st False by auto
    define d1 where "d1 = d'\<lparr>dn_first := Some (?bodies ! 0)\<rparr>"
    have s1: "check_lifetime (si_start s1) d1 = (Inr (), d1)" "\<not> dn_closed d1"
      using rd st sis by (auto simp: check_lifetime_def on_track_def steady_def d1_def same_place_def)
    have "drain (cd_sha cd) cd rest (d1\<lparr>dn_first := None\<rparr>) = (drop 1 ?bodies, Some (Inr ()))"
      by (rule drain_on_track [OF _ gz]) (use ready st rd len sis False in \<open>auto simp: on_track_def d1_def same_place_def\<close>)
    then have "drain (cd_sha cd) cd sis d1 = (?bodies ! 0 # drop 1 ?bodies, Some (Inr ()))"
      using s1 by (simp add: sis next_part_def) (simp add: d1_def)
    moreover have "?bodies ! 0 # drop 1 ?bodies = ?bodies" using False by (cases ?bodies) auto
    ultimately show ?thesis using rd life by (auto simp: prime_def d1_def)
  qed
qed

section \<open>Manifests\<close>

fun flat :: "json \<Rightarrow> bool" where
  "flat (JList _) = False"
| "flat (JObj _) = False"
| "flat (JFloat _) = False"
| "flat _ = True"

text \<open>A JSONB column gives back an object of integers, texts, booleans and nulls with the same fields, in an order of its own.\<close>

definition keeps_flat :: "json_columns \<Rightarrow> bool" where
  "keeps_flat jb \<longleftrightarrow> (\<forall>m. distinct (map fst m) \<longrightarrow> list_all (\<lambda>(_, v). flat v) m \<longrightarrow> (\<exists>m'. jb_store jb (JObj m) = JObj m' \<and> mset m' = mset m))"

lemma sort_key_perm:
  assumes "mset xs = mset ys" "distinct (map f xs)"
  shows "sort_key f xs = sort_key f ys"
proof -
  have "mset (map f xs) = mset (map f ys)" using assms(1) by simp
  then have "distinct (map f ys)" using assms(2) mset_eq_imp_distinct_iff by blast
  moreover have "set xs = set ys" using assms(1) mset_eq_setD by blast
  ultimately show ?thesis
    using assms by (intro map_sorted_distinct_set_unique [of f]) (auto simp: distinct_map)
qed

lemma map_of_perm:
  assumes "mset m' = mset m" "distinct (map fst m)"
  shows "map_of m' = map_of m"
proof -
  have "mset (map fst m') = mset (map fst m)" using assms(1) by simp
  then have "distinct (map fst m')" using assms(2) mset_eq_imp_distinct_iff by blast
  moreover have "set m' = set m" using assms(1) mset_eq_setD by blast
  ultimately show ?thesis using assms(2) map_of_inject_set by blast
qed

lemma sort_keys_items_map: "sort_keys_items kvs = map (\<lambda>(k, v). (k, sort_keys v)) kvs"
  by (induction kvs) auto

lemma finite_items_flat: "list_all (\<lambda>(_, v). flat v) kvs \<Longrightarrow> finite_items kvs"
  by (induction kvs) (auto elim: flat.elims)

lemma json_digest_perm:
  assumes "mset m' = mset m" "distinct (map fst m)" "list_all (\<lambda>(_, v). flat v) m"
  shows "json_digest sha (JObj m') = json_digest sha (JObj m)"
proof -
  have "list_all (\<lambda>(_, v). flat v) m'" using assms(1,3) mset_eq_setD [OF assms(1)] by (simp add: list_all_iff)
  moreover have "mset (sort_keys_items m') = mset (sort_keys_items m)" using assms(1) by (simp add: sort_keys_items_map)
  moreover have "map fst (sort_keys_items m') = map fst m'" by (rule sort_keys_items_keys)
  moreover have "mset (map fst m') = mset (map fst m)" using assms(1) by simp
  then have "distinct (map fst m')" using assms(2) mset_eq_imp_distinct_iff by blast
  ultimately have "sort_key fst (sort_keys_items m') = sort_key fst (sort_keys_items m)"
    using sort_key_perm [of "sort_keys_items m'" "sort_keys_items m" fst] by simp
  then show ?thesis using finite_items_flat assms(3) \<open>list_all (\<lambda>(_, v). flat v) m'\<close> by (simp add: json_digest_def canonical_def dumps_def)
qed

definition signed_ok :: "string \<Rightarrow> int \<Rightarrow> snapshot \<Rightarrow> bool" where
  "signed_ok kind parts ss \<longleftrightarrow> kind \<in> set export_kinds \<and> 0 \<le> ss_rows ss \<and> ss_rows ss \<le> 10000000 \<and> 0 \<le> ss_body_bytes ss \<and> ss_body_bytes ss \<le> 4 * 1024 ^ 3
     \<and> parts = (ss_body_bytes ss + int CHUNK_BYTES - 1) div int CHUNK_BYTES \<and> content_digest (ss_content_hash ss)"

lemma signed_manifest_valid:
  assumes keep: "keeps_flat jb" and m: "signed_manifest sha (unsigned_manifest kind (opt_text provider) ss parts) = Inr m"
    and ok: "signed_ok kind parts ss" and f: "af_manifest f = Some (jb_store jb (JObj m))" "ss_body_bytes ss \<le> af_reserved_bytes f"
  shows "\<exists>m'. validate_artifact_manifest sha f = Inr m' \<and> manifest_int m' ''chunk_count'' = parts \<and> manifest_int m' ''body_bytes'' = ss_body_bytes ss
    \<and> obj_get m' ''content_hash'' = JStr (ss_content_hash ss)"
proof -
  define m0 where "m0 = unsigned_manifest kind (opt_text provider) ss parts"
  obtain h where h: "json_digest sha (JObj m0) = Inr h" "m = m0 @ [(''artifact_signature'', JStr h)]"
    using m by (auto simp: signed_manifest_def rbind_eq_Inr m0_def)
  have keys: "distinct (map fst m)" by (simp add: h(2) m0_def unsigned_manifest_def)
  have fl: "list_all (\<lambda>(_, v). flat v) m" by (simp add: h(2) m0_def unsigned_manifest_def opt_text_def split: option.split)
  obtain m' where m': "jb_store jb (JObj m) = JObj m'" "mset m' = mset m" using keep keys fl by (auto simp: keeps_flat_def)
  have get: "obj_get m' k = obj_get m k" for k by (simp add: obj_get_def map_of_perm [OF m'(2) keys])
  have "mset (filter (\<lambda>(k, _). k \<noteq> ''artifact_signature'') m') = mset (filter (\<lambda>(k, _). k \<noteq> ''artifact_signature'') m)" using m'(2) by simp
  moreover have m0: "filter (\<lambda>(k, _). k \<noteq> ''artifact_signature'') m = m0" by (simp add: h(2) m0_def unsigned_manifest_def)
  ultimately have same: "mset (filter (\<lambda>(k, _). k \<noteq> ''artifact_signature'') m') = mset m0" by metis
  have "distinct (map fst m0)" "list_all (\<lambda>(_, v). flat v) m0" using keys fl h(2) by simp_all
  from json_digest_perm [OF same this] h(1) have sg: "json_digest sha (JObj (filter (\<lambda>(k, _). k \<noteq> ''artifact_signature'') m')) = Inr h" by metis
  have vals: "obj_get m' ''artifact_signature'' = JStr h" "obj_get m' ''contract_version'' = JInt 1" "obj_get m' ''renderer_version'' = JStr ''archive-export-v1''"
      "obj_get m' ''kind'' = JStr kind" "obj_get m' ''rows'' = JInt (ss_rows ss)" "obj_get m' ''body_bytes'' = JInt (ss_body_bytes ss)"
      "obj_get m' ''content_hash'' = JStr (ss_content_hash ss)" "obj_get m' ''selection_time'' = JStr ''processing''" "obj_get m' ''chunk_count'' = JInt parts"
      "obj_get m' ''filename'' = JStr (kind @ ''.'' @ export_extension kind)" "obj_get m' ''media_type'' = JStr (export_media_type kind)"
    unfolding get by (simp_all add: h(2) m0_def unsigned_manifest_def obj_get_def)
  have "0 \<le> parts" "parts \<le> 4096" using ok by (auto simp: signed_ok_def CHUNK_BYTES_def)
  then have "validate_artifact_manifest sha f = Inr m'"
    using ok f sg by (simp add: validate_artifact_manifest_def m'(1) vals contract_ok_def equals_int_def bounded_count_def manifest_int_def signed_ok_def py_str_def Let_def)
  then show ?thesis by (simp add: vals manifest_int_def)
qed


section \<open>The handler\<close>

lemma task_rules [simp]:
  "task_then m k b = (Inr y, b') \<longleftrightarrow> (\<exists>x b1. m b = (Inr x, b1) \<and> k x b1 = (Inr y, b'))"
  "task_of f b = (Inr x, b') \<longleftrightarrow> f b = Inr x \<and> b' = b"
  "check_stop e b = (Inr u, b') \<longleftrightarrow> \<not> wp_stopped e (be_polls b) \<and> b' = b\<lparr>be_polls := Suc (be_polls b)\<rparr>"
  "read_clock e b = (Inr t, b') \<longleftrightarrow> t = wp_clock e (be_ticks b) \<and> b' = b\<lparr>be_ticks := Suc (be_ticks b)\<rparr>"
  by (auto simp: task_then_def task_of_def check_stop_def read_clock_def rguard_def split: prod.splits sum.splits)

lemma in_write_Inr: "in_write c f b = (Inr x, b') \<Longrightarrow> f b = Inr (b', x)"
  by (auto simp: in_write_def dest: atomic_Inr(1) split: sum.splits)

text \<open>The parts of the bench that charging a budget leaves alone.\<close>

definition same_rows :: "bench \<Rightarrow> bench \<Rightarrow> bool" where
  "same_rows b b' \<longleftrightarrow> be_arch b' = be_arch b \<and> be_objects b' = be_objects b \<and> be_shelf b' = be_shelf b \<and> be_catalog b' = be_catalog b
     \<and> (\<forall>kind provider ws ct. export_lines kind provider ws ct (be_db b') = export_lines kind provider ws ct (be_db b))"

lemma export_lines_frame:
  assumes "db_jobs d' = db_jobs d" "db_runs d' = db_runs d" "db_edges d' = db_edges d" "db_run_edges d' = db_run_edges d" "db_run_games d' = db_run_games d"
  shows "export_lines kind provider ws ct d' = export_lines kind provider ws ct d"
proof -
  have "shared_games ct d' = shared_games ct d" "traversal_depth d' = traversal_depth d"
    by (intro ext; simp add: shared_games_def traversal_depth_def assms)+
  then have "graph_fields ct d' ws = graph_fields ct d ws" unfolding graph_fields_def by (simp only:)
  then show ?thesis by (simp only: export_lines_def iter_owned_graph_def owned_edges_def assms)
qed

lemma allowance_or_rows: "allowance_or c maximum b = (Inr n, b') \<Longrightarrow> same_rows b b'"
proof (cases "cn_work_budget_id c")
  case (Some bid)
  assume "allowance_or c maximum b = (Inr n, b')"
  then obtain d where d: "normalization_allowance c bid (be_db b) = Inr (d, n)" "b' = b\<lparr>be_db := d\<rparr>"
    using Some by (auto simp: allowance_or_def rbind_eq_Inr dest!: in_write_Inr)
  then obtain x policy usage wp where "locked_budget bid (int_now c None) (be_db b) = Inr (d, x, policy, usage, wp)"
    by (auto simp: normalization_allowance_def rbind_eq_Inr)
  then have "budget_frame d = budget_frame (be_db b)" by (rule locked_budgetE)
  note fr = budget_frame_fields [OF this]
  show ?thesis using export_lines_frame [of d "be_db b"] fr d(2) by (simp add: same_rows_def)
qed (simp add: allowance_or_def same_rows_def)

lemma charge_export_rows: "charge_export c n b = (Inr u, b') \<Longrightarrow> be_arch b' = be_arch b \<and> be_objects b' = be_objects b \<and> be_shelf b' = be_shelf b \<and> be_catalog b' = be_catalog b"
  by (auto simp: charge_export_def rbind_eq_Inr dest!: in_write_Inr split: if_splits)

section \<open>Rendering\<close>

definition export_content :: "string \<Rightarrow> string option \<Rightarrow> string \<Rightarrow> catalog \<Rightarrow> db \<Rightarrow> string" where
  "export_content kind provider ws ct d = concat (map (\<lambda>(_, line). utf8 line) (export_lines kind provider ws ct d))"

definition within_limits :: "render_limits \<Rightarrow> spool \<Rightarrow> bool" where
  "within_limits l sp \<longleftrightarrow> 0 \<le> sp_rows sp \<and> sp_rows sp \<le> rl_max_rows l \<and> sp_bytes sp = int (length (sp_content sp)) \<and> sp_bytes sp \<le> rl_max_bytes l"

lemma check_export_bounds_Inr:
  "check_export_bounds l rows bytes deadline now = Inr u \<longleftrightarrow> rows \<le> rl_max_rows l \<and> bytes \<le> rl_max_bytes l \<and> now < deadline"
  by (auto simp: check_export_bounds_def rguard_def)

lemma write_lines_Inr:
  assumes "write_lines w ls sp = (Inr u, sp')" "within_limits (wr_limits w) sp"
  shows "within_limits (wr_limits w) sp' \<and> sp_content sp' = sp_content sp @ concat (map (\<lambda>(_, line). utf8 line) ls)"
  using assms
proof (induction ls arbitrary: sp)
  case (Cons x ls)
  obtain is_row line where x: "x = (is_row, line)" by force
  obtain v sp1 where one: "write_line w is_row line sp = (Inr v, sp1)" and rest: "write_lines w ls sp1 = (Inr u, sp')"
    using Cons.prems(1) x by (auto split: prod.splits sum.splits)
  obtain sp0 where sp0: "(if is_row then admit_row w sp else Inr sp) = Inr sp0" using one by (auto simp: write_line_def split: sum.splits)
  then have keep: "sp_rows sp0 = sp_rows sp" "sp_bytes sp0 = sp_bytes sp" "sp_content sp0 = sp_content sp"
    by (auto simp: admit_row_def split: if_splits)
  define sp2 where "sp2 = sp0\<lparr>sp_rows := sp_rows sp0 + (if is_row then 1 else 0), sp_bytes := sp_bytes sp0 + int (length (utf8 line)), sp_writes := sp_writes sp0 + 1\<rparr>"
  obtain y where "check_export_bounds (wr_limits w) (sp_rows sp2) (sp_bytes sp2) (wr_deadline w) (wr_now w (sp_writes sp0)) = Inr y"
    and sp1: "sp1 = sp2\<lparr>sp_content := sp_content sp2 @ utf8 line\<rparr>"
    using one unfolding write_line_def sp0 by (auto simp: Let_def sp2_def split: sum.splits)
  then have "within_limits (wr_limits w) sp1 \<and> sp_content sp1 = sp_content sp @ utf8 line"
    using keep Cons.prems(2) by (auto simp: within_limits_def check_export_bounds_Inr sp1 sp2_def)
  then show ?case using Cons.IH [OF rest] x by simp
qed simp

lemma take_snapshot_Inr:
  assumes "take_snapshot e c kind provider ws allowance now b = (Inr (ss, content), b')"
  shows "content = export_content kind provider ws (be_catalog b) (be_db b) \<and> ss_body_bytes ss = int (length content)
    \<and> ss_content_hash ss = ''sha256:'' @ wp_sha e content \<and> 0 \<le> ss_rows ss \<and> ss_rows ss \<le> wp_max_rows e \<and> ss_body_bytes ss \<le> wp_max_bytes e
    \<and> be_arch b' = be_arch b \<and> be_objects b' = be_objects b \<and> be_shelf b' = be_shelf b"
proof -
  let ?w = "export_writer e c allowance"
  obtain sp where snap: "write_export_snapshot (wp_digest8 e) (wp_sha e) c False ?w kind provider ws (trunc_rat now) (wp_monotonic e 1) (be_catalog b) (be_db b) = (Inr ss, sp)"
      "charge_export c (sp_pending sp) b = (Inr (), b')" "content = sp_content sp"
    using assms by (auto simp: take_snapshot_def split: prod.splits sum.splits if_splits)
  obtain u where first: "check_export_bounds (wr_limits ?w) 0 0 (wr_deadline ?w) (wp_monotonic e 1) = Inr u"
    and ls: "write_lines ?w (export_lines kind provider ws (be_catalog b) (be_db b)) empty_spool = (Inr (), sp)"
    and ss: "ss = \<lparr>ss_rows = sp_rows sp, ss_body_bytes = sp_bytes sp, ss_content_hash = ''sha256:'' @ wp_sha e (sp_content sp), ss_started_at = trunc_rat now\<rparr>"
    using snap(1) by (auto simp: write_export_snapshot_def split: prod.splits sum.splits if_splits)
  have "within_limits (wr_limits ?w) empty_spool" using first by (simp add: check_export_bounds_Inr within_limits_def empty_spool_def)
  note out = write_lines_Inr [OF ls this]
  then have "sp_content sp = export_content kind provider ws (be_catalog b) (be_db b)" by (simp add: export_content_def empty_spool_def)
  moreover have "0 \<le> sp_rows sp" "sp_rows sp \<le> wp_max_rows e" "sp_bytes sp = int (length (sp_content sp))" "sp_bytes sp \<le> wp_max_bytes e"
    using conjunct1 [OF out] by (simp_all add: within_limits_def export_writer_def)
  ultimately show ?thesis using charge_export_rows [OF snap(2)] snap(3) ss by simp
qed


section \<open>Publishing\<close>

definition no_parts_left :: "int \<Rightarrow> bench \<Rightarrow> bool" where
  "no_parts_left job b \<longleftrightarrow> filter (\<lambda>p. 0 < fst p) (parts_of (be_arch b) job (be_shelf b)) = []"

lemma clear_parts_Inr:
  assumes "clear_parts e c job ws n b = (Inr u, b')"
  shows "no_parts_left job b' \<and> set (sh_chunks (be_shelf b')) \<subseteq> set (sh_chunks (be_shelf b)) \<and> sh_artifacts (be_shelf b') = sh_artifacts (be_shelf b)
    \<and> be_arch b' = be_arch b \<and> be_catalog b' = be_catalog b \<and> be_db b' = be_db b"
  using assms
proof (induction e c job ws n b rule: clear_parts.induct)
  case (1 e c job ws n b)
  let ?rows = "take 256 (filter (\<lambda>p. 0 < fst p) (parts_of (be_arch b) job (be_shelf b)))"
  obtain k os sh where del: "delete_artifact_parts (wp_sha e) (wp_fault e n) False c (be_db b) (be_arch b) job ws 256 (be_objects b, be_shelf b) = (Inr k, os, sh)"
    using 1(2) by (subst (asm) clear_parts.simps) (auto split: prod.splits sum.splits)
  then obtain v where dp: "delete_parts (wp_sha e) (wp_fault e n) c (be_db b) (be_arch b) job ws ?rows (be_objects b, be_shelf b) = (Inr v, os, sh)" and k: "k = length ?rows"
    by (auto simp: delete_artifact_parts_def chunk_page_def split: prod.splits sum.splits)
  note rm = delete_parts_removes [OF dp]
  show ?case
  proof (cases "k = 0")
    case True
    then have "b' = b\<lparr>be_objects := os, be_shelf := sh\<rparr>" using 1(2) del by (subst (asm) clear_parts.simps) simp
    moreover have none: "filter (\<lambda>p. 0 < fst p) (parts_of (be_arch b) job (be_shelf b)) = []"
      using k True by (metis length_0_conv take_eq_Nil zero_neq_numeral)
    moreover have "sh_chunks sh = sh_chunks (be_shelf b)" using rm unfolding none by simp
    ultimately show ?thesis using rm by (simp add: no_parts_left_def parts_of_def)
  next
    case False
    define b1 where "b1 = b\<lparr>be_objects := os, be_shelf := sh\<rparr>"
    have go: "\<not> wp_stopped e (be_polls b)" and more: "clear_parts e c job ws (Suc n) (b1\<lparr>be_polls := Suc (be_polls b)\<rparr>) = (Inr u, b')"
      using 1(2) del False by (subst (asm) clear_parts.simps; auto simp: check_stop_def rguard_def b1_def Let_def split: prod.splits sum.splits if_splits)+
    have "check_stop e b1 = (Inr (), b1\<lparr>be_polls := Suc (be_polls b)\<rparr>)" using go by (simp add: b1_def)
    from 1(1) [OF del [symmetric] refl refl b1_def False this [symmetric] refl more] rm show ?thesis by (auto simp: b1_def)
  qed
qed

lemma find_row_update_other:
  "(\<And>r. p (f r) = p r) \<Longrightarrow> find_row p (update_where q f rows) = map_option (\<lambda>r. if q r then f r else r) (find_row p rows)"
  by (induction rows) auto

lemma finish_artifact_Inr:
  assumes "finish_artifact jb job ws m now a sh = Inr sh'"
  shows "\<exists>f. artifact_record job ws sh' = Inr f \<and> af_state f = Ready \<and> af_manifest f = Some (jb_store jb (JObj m)) \<and> parts_bytes a job sh \<le> af_reserved_bytes f
    \<and> sh_chunks sh' = sh_chunks sh \<and> (\<exists>v. map_of m ''body_bytes'' = Some v \<and> equals_int v (parts_bytes a job sh))"
proof -
  obtain f where f: "artifact_record job ws sh = Inr f"
    and sh': "sh' = set_artifact job (\<lambda>x. x\<lparr>af_state := Ready, af_manifest := Some (jb_store jb (JObj m)), af_reserved_bytes := max 1 (parts_bytes a job sh)\<rparr>) sh"
    and v: "\<exists>v. map_of m ''body_bytes'' = Some v \<and> equals_int v (parts_bytes a job sh)"
    using assms by (auto simp: finish_artifact_def rbind_eq_Inr Let_def manifest_field_def split: if_splits option.splits)
  have "af_job_id f = job" using artifact_record_Inr [OF f] by simp
  then show ?thesis using f v
    by (auto simp: sh' artifact_record_def set_artifact_def find_row_update_other split: option.splits)
qed

lemma publish_export_Inr:
  assumes run: "publish_export e c j ws kind provider ss content b = (Inr u, b')" and codec: "codec_ok (wp_codec e)" and wf: "arch_wf (be_arch b)"
    and rows: "rows_exist (be_arch b) (be_shelf b)" and kb: "\<And>st. wp_store e = Inr st \<Longrightarrow> known_backend st"
    and pre: "artifact_prefix (wp_sha e) ws (j_id j) = Inr base" and gen: "1 \<le> j_ownership_generation j"
    and clear: "parts_of (be_arch b) (j_id j) (be_shelf b) = []"
  shows "parts_ready (wp_codec e) b' (j_id j) ws (j_ownership_generation j) content
    \<and> (\<exists>m f. signed_manifest (wp_sha e) (unsigned_manifest kind (opt_text provider) ss (int (length (chunks_of CHUNK_BYTES content)))) = Inr m
         \<and> artifact_record (j_id j) ws (be_shelf b') = Inr f \<and> af_state f = Ready \<and> af_manifest f = Some (jb_store (wp_columns e) (JObj m))
         \<and> ss_body_bytes ss \<le> af_reserved_bytes f)"
proof -
  let ?bodies = "chunks_of CHUNK_BYTES content" and ?g = "j_ownership_generation j"
  obtain st n b1 b2 m now b3 where st: "wp_store e = Inr st" and up: "upload e c (j_id j) ws ?g st 0 ?bodies b = (Inr n, b1)"
    and b2: "b2 = b1\<lparr>be_polls := Suc (be_polls b1)\<rparr>" and m: "signed_manifest (wp_sha e) (unsigned_manifest kind (opt_text provider) ss n) = Inr m"
    and b3: "b3 = b2\<lparr>be_ticks := Suc (be_ticks b2)\<rparr>"
    and fin: "in_write c (\<lambda>b. rbind (finish_artifact (wp_columns e) (j_id j) ws m now (be_arch b) (be_shelf b)) (\<lambda>sh. Inr (b\<lparr>be_shelf := sh\<rparr>, ()))) b3 = (Inr u, b')"
    using run by (auto simp: publish_export_def)
  define prefix where "prefix = base @ ''attempt-'' @ str_int ?g @ ''/''"
  have ap: "attempt_prefix e (j_id j) ws ?g = Inr prefix" by (simp add: attempt_prefix_def pre prefix_def)
  have "shelved (wp_codec e) prefix (be_objects b) (be_arch b) (j_id j) (be_shelf b) []" by (simp add: shelved_def clear)
  from upload_shelves [of e c "j_id j" ws ?g st "[]", OF _ codec wf rows kb [OF st] ap this] up
  have n: "n = int (length ?bodies)" and sv: "shelved (wp_codec e) prefix (be_objects b1) (be_arch b1) (j_id j) (be_shelf b1) ?bodies" by auto
  obtain sh where sh: "finish_artifact (wp_columns e) (j_id j) ws m now (be_arch b1) (be_shelf b1) = Inr sh" and b': "b' = b3\<lparr>be_shelf := sh\<rparr>"
    using in_write_Inr [OF fin] b2 b3 by (auto simp: rbind_eq_Inr)
  obtain f v where f: "artifact_record (j_id j) ws sh = Inr f" "af_state f = Ready" "af_manifest f = Some (jb_store (wp_columns e) (JObj m))"
      "parts_bytes (be_arch b1) (j_id j) (be_shelf b1) \<le> af_reserved_bytes f" "sh_chunks sh = sh_chunks (be_shelf b1)"
      "map_of m ''body_bytes'' = Some v" "equals_int v (parts_bytes (be_arch b1) (j_id j) (be_shelf b1))"
    using finish_artifact_Inr [OF sh] by blast
  have "map_of m ''body_bytes'' = Some (JInt (ss_body_bytes ss))"
    using m by (auto simp: signed_manifest_def rbind_eq_Inr unsigned_manifest_def)
  then have "ss_body_bytes ss \<le> af_reserved_bytes f" using f by (simp add: equals_int_def)
  moreover have "shelved (wp_codec e) prefix (be_objects b') (be_arch b') (j_id j) (be_shelf b') ?bodies"
    using sv f(5) by (simp add: b' b3 b2 shelved_def parts_of_def)
  ultimately show ?thesis using f m gen pre by (auto simp: n parts_ready_def prefix_def b')
qed


section \<open>Round trip\<close>

text \<open>What is assumed of the world: the codec and the JSONB columns as documented, stores of the known kinds, and the operator's limits within those of a manifest.\<close>

definition export_world :: "workshop \<Rightarrow> bool" where
  "export_world e \<longleftrightarrow> codec_ok (wp_codec e) \<and> gzip_bounded (wp_codec e) \<and> keeps_flat (wp_columns e) \<and> (case wp_store e of Inl _ \<Rightarrow> True | Inr st \<Rightarrow> known_backend st)
     \<and> wp_max_rows e \<le> 10000000 \<and> wp_max_bytes e \<le> 4 * 1024 ^ 3"

lemma chunk_total:
  "int (length (chunks_of CHUNK_BYTES content)) = (int (length content) + int CHUNK_BYTES - 1) div int CHUNK_BYTES"
proof -
  have "int (length content) + int CHUNK_BYTES - 1 = int (length content + CHUNK_BYTES - 1)" using CHUNK_BYTES_pos by (simp add: of_nat_diff Suc_leI)
  then show ?thesis by (simp only: chunks_of_length [OF CHUNK_BYTES_pos] zdiv_int)
qed

lemma new_download_on_track:
  assumes "keeps_flat jb" "signed_manifest sha (unsigned_manifest kind (opt_text provider) ss (int (length (chunks_of CHUNK_BYTES content)))) = Inr m"
    "signed_ok kind (int (length (chunks_of CHUNK_BYTES content))) ss" "af_manifest f = Some (jb_store jb (JObj m))" "ss_body_bytes ss \<le> af_reserved_bytes f"
    "ss_body_bytes ss = int (length content)" "ss_content_hash ss = ''sha256:'' @ sha content"
  shows "\<exists>d. new_download sha job ws f deadline = Inr d \<and> on_track sha (chunks_of CHUNK_BYTES content) att 0 d
    \<and> dn_job_id d = job \<and> dn_workspace_id d = ws \<and> dn_deadline d = deadline"
proof -
  obtain m' where "validate_artifact_manifest sha f = Inr m'" "manifest_int m' ''chunk_count'' = int (length (chunks_of CHUNK_BYTES content))"
      "manifest_int m' ''body_bytes'' = ss_body_bytes ss" "obj_get m' ''content_hash'' = JStr (ss_content_hash ss)"
    using signed_manifest_valid [OF assms(1-5)] by blast
  then show ?thesis using assms(6,7) by (simp add: new_download_def on_track_def chunks_of_concat)
qed

section \<open>A small export\<close>

text \<open>The graph of an empty workspace: one part with the names of the fields.\<close>

lemma chunks_of_small: "s \<noteq> [] \<Longrightarrow> length s \<le> n \<Longrightarrow> chunks_of n s = [s]"
  by (cases s) (simp_all add: chunks_of.simps [of n] chunks_of.simps [of n "[]"])

definition quiet_workshop :: workshop where
  "quiet_workshop = \<lparr>wp_codec = plain_codec, wp_columns = plain_columns, wp_digest8 = sample_digest8, wp_max_members = 10, wp_max_rows = 10, wp_max_bytes = 1000,
     wp_prepare_seconds = 30, wp_slots = 1, wp_store = Inr disk, wp_stopped = (\<lambda>_. False), wp_interrupted = (\<lambda>_. False), wp_clock = (\<lambda>_. 10),
     wp_monotonic = (\<lambda>_. 0), wp_fault = (\<lambda>_ _. None)\<rparr>"

definition graph_job :: job where
  "graph_job = sample_job\<lparr>j_provider := None, j_kind := ''prepare_export'', j_ownership_generation := 1\<rparr>"

definition graph_request :: archive_job where
  "graph_request = \<lparr>aj_job_id = 1, aj_workspace_id = ''local'', aj_operation = ''prepare_export'', aj_request = JObj [(''kind'', JStr ''graph'')], aj_working_set_id = None\<rparr>"

definition graph_bench :: bench where
  "graph_bench = \<lparr>be_db = empty_db, be_arch = no_arch, be_objects = Map.empty, be_shelf = \<lparr>sh_jobs = [graph_request],
     sh_artifacts = [\<lparr>af_job_id = 1, af_workspace_id = ''local'', af_state = Reserved, af_reserved_bytes = 1000, af_created_at = 5, af_expires_at = 90, af_manifest = None\<rparr>],
     sh_chunks = [], sh_downloads = []\<rparr>, be_worksets = no_worksets, be_catalog = empty_catalog, be_polls = 0, be_ticks = 0\<rparr>"

definition graph_header :: string where
  "graph_header = csv_row GRAPH_FIELDS"



definition building_shelf :: shelf where
  "building_shelf = set_artifact 1 (\<lambda>x. x\<lparr>af_state := Building\<rparr>) (be_shelf graph_bench)"

definition header_prefix :: string where
  "header_prefix = ''artifacts/'' @ replicate 64 CHR ''0'' @ ''/1/attempt-1/''"

definition header_object :: prepared where
  "header_object = \<lparr>pr_backend = ''local'', pr_location = ''/data'', pr_object_key = header_prefix @ ''sha256/00/'' @ replicate 64 CHR ''0'' @ ''.gz'',
     pr_body_hash = ''sha256:'' @ replicate 64 CHR ''0'', pr_stored_hash = ''sha256:'' @ replicate 64 CHR ''0'', pr_body_bytes = 112, pr_stored_bytes = 112\<rparr>"

definition graph_snapshot :: snapshot where
  "graph_snapshot = \<lparr>ss_rows = 0, ss_body_bytes = 112, ss_content_hash = ''sha256:'' @ replicate 64 CHR ''0'', ss_started_at = 10\<rparr>"

lemma fresh_atomic: "atomic (fresh_conn n) d f = f d"
  by (simp add: atomic_def begin_write_def fresh_conn_def fence_ok_def)

lemma header_length: "length graph_header = 112"
  by code_simp

lemma header_prepared:
  obtains os where "prepare_archive_object plain_codec graph_header disk header_prefix Map.empty = Inr (os, header_object)"
proof -
  have "case prepare_archive_object plain_codec graph_header disk header_prefix Map.empty of Inr (os, p) \<Rightarrow> p = header_object | _ \<Rightarrow> False" by code_simp
  then show ?thesis using that by (auto split: sum.splits prod.splits)
qed

lemma header_registered:
  obtains a where "register_archive_object header_object (trunc_rat 10) no_arch = Inr (a, 1)"
proof -
  have "case register_archive_object header_object (trunc_rat 10) no_arch of Inr (a, i) \<Rightarrow> i = 1 | _ \<Rightarrow> False" by code_simp
  then show ?thesis using that by (auto split: sum.splits prod.splits)
qed

lemma header_kept:
  assumes "be_db b = empty_db" "be_arch b = no_arch" "be_shelf b = building_shelf" "be_objects b = Map.empty"
  shows "\<exists>b'. upload quiet_workshop (fresh_conn 7) 1 ''local'' 1 disk 0 [graph_header] b = (Inr 1, b') \<and> sh_artifacts (be_shelf b') = sh_artifacts building_shelf \<and> be_db b' = empty_db"
proof -
  obtain os where os: "prepare_archive_object plain_codec graph_header disk header_prefix Map.empty = Inr (os, header_object)" by (rule header_prepared)
  have pre: "attempt_prefix quiet_workshop 1 ''local'' 1 = Inr header_prefix" by code_simp
  obtain base where base: "artifact_prefix (wp_sha quiet_workshop) ''local'' 1 = Inr base" "starts_with base (pr_object_key header_object)"
    by (rule that [of "''artifacts/'' @ replicate 64 CHR ''0'' @ ''/1/''"]) code_simp+
  have sh: "artifact_record 1 ''local'' building_shelf = Inr (hd (sh_artifacts building_shelf))" "af_state (hd (sh_artifacts building_shelf)) = Building"
      "af_expires_at (hd (sh_artifacts building_shelf)) = 90" "af_reserved_bytes (hd (sh_artifacts building_shelf)) = 1000" "sh_chunks building_shelf = []"
      "parts_bytes no_arch 1 building_shelf = 0"
    by code_simp+
  have w: "wp_codec quiet_workshop = plain_codec" "wp_clock quiet_workshop n = 10" "\<not> wp_stopped quiet_workshop n" for n by (simp_all add: quiet_workshop_def)
  obtain a where "register_archive_object header_object (trunc_rat 10) no_arch = Inr (a, 1)" by (rule header_registered)
  then have chunk: "add_artifact_chunk (wp_sha quiet_workshop) 1 ''local'' 1 header_object 10 (no_arch, building_shelf)
      = Inr (a, building_shelf\<lparr>sh_chunks := [\<lparr>ac_job_id = 1, ac_ordinal = 1, ac_archive_object_id = 1\<rparr>]\<rparr>)"
    using base sh by (simp add: add_artifact_chunk_def header_object_def [THEN arg_cong, of pr_body_bytes] CHUNK_BYTES_def)
  show ?thesis
    using os pre chunk w by (simp add: assms check_stop_def rguard_def Let_def fresh_atomic)
qed

lemma graph_published:
  assumes "be_db b = empty_db" "be_arch b = no_arch" "be_shelf b = building_shelf" "be_objects b = Map.empty"
  shows "\<exists>b'. publish_export quiet_workshop (fresh_conn 7) graph_job ''local'' ''graph'' None graph_snapshot graph_header b = (Inr (), b')"
proof -
  let ?m0 = "unsigned_manifest ''graph'' JNull graph_snapshot 1"
  define m where "m = ?m0 @ [(''artifact_signature'', JStr (replicate 64 CHR ''0''))]"
  obtain b1 where up: "upload quiet_workshop (fresh_conn 7) 1 ''local'' 1 disk 0 [graph_header] b = (Inr 1, b1)"
      and b1: "sh_artifacts (be_shelf b1) = sh_artifacts building_shelf" "be_db b1 = empty_db"
    using header_kept [OF assms] by blast
  have parts: "chunks_of CHUNK_BYTES graph_header = [graph_header]"
    by (rule chunks_of_small) (use header_length in \<open>auto simp: CHUNK_BYTES_def\<close>)
  have w: "wp_codec quiet_workshop = plain_codec" "wp_store quiet_workshop = Inr disk" "wp_clock quiet_workshop n = 10" "\<not> wp_stopped quiet_workshop n"
     "wp_columns quiet_workshop = plain_columns" for n by (simp_all add: quiet_workshop_def)
  have pre: "attempt_prefix quiet_workshop 1 ''local'' 1 = Inr header_prefix" by code_simp
  have "shelved plain_codec header_prefix (be_objects b) (be_arch b) 1 (be_shelf b) []" 
  proof -
    have "parts_of no_arch 1 building_shelf = []" by code_simp
    then show ?thesis by (simp add: shelved_def assms)
  qed
  moreover have "arch_wf no_arch" "rows_exist no_arch building_shelf" "known_backend disk" by (code_simp | simp add: rows_exist_def building_shelf_def set_artifact_def graph_bench_def known_backend_def disk_def)+
  ultimately have sv: "shelved plain_codec header_prefix (be_objects b1) (be_arch b1) 1 (be_shelf b1) [graph_header]"
    using upload_shelves [of quiet_workshop "fresh_conn 7" 1 "''local''" 1 disk "[]" "[graph_header]" b 1 b1 header_prefix] up pre assms plain_codec_ok
    by (simp add: w)
  then have n: "length (parts_of (be_arch b1) 1 (be_shelf b1)) = 1" "parts_bytes (be_arch b1) 1 (be_shelf b1) = 112"
    by (auto simp: shelved_def parts_bytes_def good_part_def header_length list_all2_Cons2)
  have rec: "artifact_record 1 ''local'' (be_shelf b1) = Inr (hd (sh_artifacts building_shelf))" 
    using b1(1) by (simp add: artifact_record_def) code_simp
  have fs: "af_state (hd (sh_artifacts building_shelf)) = Building" "af_expires_at (hd (sh_artifacts building_shelf)) = 90" by code_simp+
  have fin: "finite_json (JObj ?m0)" "finite_json (JObj m)" unfolding m_def by code_simp+
  have sg: "signed_manifest (wp_sha quiet_workshop) ?m0 = Inr m"
    using fin(1) by (simp add: signed_manifest_def m_def w plain_codec_def json_digest_constant)
  have "map_of m ''chunk_count'' = Some (JInt 1)" "map_of m ''body_bytes'' = Some (JInt 112)" unfolding m_def by code_simp+
  then have fn: "\<exists>sh. finish_artifact plain_columns 1 ''local'' m 10 (be_arch b1) (be_shelf b1) = Inr sh"
    using rec fs n fin(2) by (simp add: finish_artifact_def manifest_field_def equals_int_def canonical_def)
  have j: "j_id graph_job = 1" "j_ownership_generation graph_job = 1" by (simp_all add: graph_job_def sample_job_def)
  show ?thesis
    using up sg fn b1(2)
    by (auto simp: publish_export_def parts w j opt_text_def in_write_def fresh_atomic)
qed

lemma graph_exported:
  obtains b' where "prepare_export quiet_workshop (fresh_conn 7) graph_job graph_bench = (Inr (finished ''Immutable export finalized''), b')"
proof -
  have req: "archive_request graph_job graph_bench = Inr graph_request" "export_request graph_request = Inr (''graph'', None)" "aj_workspace_id graph_request = ''local''"
      "artifact_record 1 ''local'' (be_shelf graph_bench) = Inr (hd (sh_artifacts (be_shelf graph_bench)))" "af_state (hd (sh_artifacts (be_shelf graph_bench))) \<noteq> Ready"
    by code_simp+
  have st: "start_artifact 1 ''local'' 10 (be_shelf graph_bench) = Inr building_shelf" by code_simp
  have w: "wp_clock quiet_workshop n = 10" "\<not> wp_stopped quiet_workshop n" "wp_max_rows quiet_workshop = 10" for n by (simp_all add: quiet_workshop_def)
  have j: "j_id graph_job = 1" by (simp add: graph_job_def sample_job_def)
  define b1 where "b1 = graph_bench\<lparr>be_polls := 1, be_ticks := 1, be_shelf := building_shelf\<rparr>"
  have "parts_of no_arch 1 building_shelf = []" by code_simp
  then have cl: "clear_parts quiet_workshop (fresh_conn 7) 1 ''local'' 0 b1 = (Inr (), b1)"
    by (subst clear_parts.simps) (simp add: b1_def graph_bench_def delete_artifact_parts_def chunk_page_def)
  have nb: "cn_work_budget_id (fresh_conn 7) = None" by (simp add: fresh_conn_def)
  define b2 where "b2 = b1\<lparr>be_ticks := Suc 1\<rparr>"
  have "case write_export_snapshot (wp_digest8 quiet_workshop) (wp_sha quiet_workshop) (fresh_conn 7) False (export_writer quiet_workshop (fresh_conn 7) 10) ''graph'' None ''local''
      (trunc_rat 10) (wp_monotonic quiet_workshop 1) empty_catalog empty_db of (Inr ss, sp) \<Rightarrow> ss = graph_snapshot \<and> sp_content sp = graph_header | _ \<Rightarrow> False"
    by code_simp
  then have sn: "take_snapshot quiet_workshop (fresh_conn 7) ''graph'' None ''local'' 10 10 b2 = (Inr (graph_snapshot, graph_header), b2)"
    by (auto simp: take_snapshot_def b2_def b1_def graph_bench_def charge_export_def nb split: sum.splits prod.splits)
  obtain b' where "publish_export quiet_workshop (fresh_conn 7) graph_job ''local'' ''graph'' None graph_snapshot graph_header b2 = (Inr (), b')"
    using graph_published [of b2] by (auto simp: b2_def b1_def graph_bench_def)
  then have "prepare_export quiet_workshop (fresh_conn 7) graph_job graph_bench = (Inr (finished ''Immutable export finalized''), b')"
    using req st cl sn
    by (simp add: prepare_export_def w j in_write_def fresh_atomic allowance_or_def nb b2_def b1_def Let_def) (simp add: graph_bench_def)
  then show ?thesis by (rule that)
qed

definition look :: "bench \<Rightarrow> sight" where
  "look b = \<lparr>si_page = Inr (be_arch b, be_shelf b), si_rest = Inr (be_arch b, be_shelf b), si_objects = be_objects b, si_start = 11, si_end = 12\<rparr>"

section \<open>The property\<close>

text \<open>
  C14. A finished export downloads as what was rendered. When the handler of an export ends, having cleared what an earlier attempt left, the artifact of the job is ready, its manifest
  passes the checks of a download, and a server that asks until the iterator ends, within the deadline and while the artifact stays, receives parts that together are exactly the rendered
  lines of the snapshot: nothing is lost, repeated or reordered by the parts, the compression, the tables or the manifest.
\<close>

theorem finished_export_downloads:
  assumes run: "prepare_export e c j b = (Inr (finished ''Immutable export finalized''), b')"
    and asked: "archive_request j b = Inr r" "export_request r = Inr (kind, provider)" "kind \<in> set export_kinds"
    and place: "artifact_prefix (wp_sha e) (aj_workspace_id r) (j_id j) = Inr base" "1 \<le> j_ownership_generation j"
    and world: "export_world e" and tables: "arch_wf (be_arch b)" "shelf_ok (be_arch b) (be_shelf b)" "\<forall>k \<in> set (sh_chunks (be_shelf b)). 0 < ac_ordinal k"
    and seen: "list_all (steady b' (j_id j) deadline) (si # sis)"
      "length (chunks_of CHUNK_BYTES (export_content kind provider (aj_workspace_id r) (be_catalog b) (be_db b))) < length sis"
  shows "\<exists>f d0 d1 parts. artifact_record (j_id j) (aj_workspace_id r) (be_shelf b') = Inr f \<and> af_state f = Ready
    \<and> new_download (wp_sha e) (j_id j) (aj_workspace_id r) f deadline = Inr d0 \<and> prime (wp_sha e) (wp_codec e) si d0 = (Inr (), d1)
    \<and> drain (wp_sha e) (wp_codec e) sis d1 = (parts, Some (Inr ()))
    \<and> concat parts = export_content kind provider (aj_workspace_id r) (be_catalog b) (be_db b)"
proof -
  let ?ws = "aj_workspace_id r" and ?job = "j_id j"
  obtain b1 sh b2 allowance b3 b4 ss content b5 where start: "start_artifact ?job ?ws (wp_clock e (be_ticks b)) (be_shelf b) = Inr sh"
    and b1: "b1 = b\<lparr>be_polls := Suc (be_polls b), be_ticks := Suc (be_ticks b), be_shelf := sh\<rparr>"
    and clear: "clear_parts e c ?job ?ws 0 b1 = (Inr (), b2)" and allow: "allowance_or c (wp_max_rows e) b2 = (Inr allowance, b3)"
    and b4: "b4 = b3\<lparr>be_ticks := Suc (be_ticks b3)\<rparr>"
    and snap: "take_snapshot e c kind provider ?ws allowance (wp_clock e (be_ticks b3)) b4 = (Inr (ss, content), b5)"
    and pub: "publish_export e c j ?ws kind provider ss content b5 = (Inr (), b')"
    using run asked(1,2) by (auto simp: prepare_export_def Let_def rbind_eq_Inr finished_def outcome_def split: if_splits prod.splits dest!: in_write_Inr)
  have sh: "sh_chunks sh = sh_chunks (be_shelf b)" using start by (auto simp: start_artifact_def rbind_eq_Inr set_artifact_def split: if_splits)
  note cl = clear_parts_Inr [OF clear] and al = allowance_or_rows [OF allow] and sn = take_snapshot_Inr [OF snap]
  have db: "export_content kind provider ?ws (be_catalog b4) (be_db b4) = export_content kind provider ?ws (be_catalog b) (be_db b)"
    using cl al by (simp add: export_content_def same_rows_def b1 b4)
  have same: "be_arch b5 = be_arch b" "be_shelf b5 = be_shelf b2" using cl al sn by (simp_all add: same_rows_def b1 b4)
  have sub: "set (sh_chunks (be_shelf b5)) \<subseteq> set (sh_chunks (be_shelf b))" using cl same sh by (simp add: b1)
  have "0 < fst p" if "p \<in> set (parts_of (be_arch b) ?job (be_shelf b5))" for p
    using that tables(3) sub by (auto simp: parts_of_def map_filter_def split: if_splits)
  then have "filter (\<lambda>p. 0 < fst p) (parts_of (be_arch b) ?job (be_shelf b5)) = parts_of (be_arch b) ?job (be_shelf b5)" by (rule filter_True [OF ballI])
  moreover have "be_arch b2 = be_arch b" using cl by (simp add: b1)
  ultimately have none: "parts_of (be_arch b5) ?job (be_shelf b5) = []" using conjunct1 [OF cl] unfolding same no_parts_left_def by simp
  have rows: "rows_exist (be_arch b5) (be_shelf b5)" using tables(2) sub same by (auto simp: rows_exist_def shelf_ok_def)
  obtain m f where ready: "parts_ready (wp_codec e) b' ?job ?ws (j_ownership_generation j) content"
    and m: "signed_manifest (wp_sha e) (unsigned_manifest kind (opt_text provider) ss (int (length (chunks_of CHUNK_BYTES content)))) = Inr m"
    and f: "artifact_record ?job ?ws (be_shelf b') = Inr f" "af_state f = Ready" "af_manifest f = Some (jb_store (wp_columns e) (JObj m))" "ss_body_bytes ss \<le> af_reserved_bytes f"
    using publish_export_Inr [OF pub _ _ rows _ place none] world tables(1) same by (auto simp: export_world_def split: sum.splits)
  have "content_digest (''sha256:'' @ wp_sha e content)" using world by (simp add: content_digest_def starts_with_def export_world_def codec_ok_def)
  moreover have lim: "ss_body_bytes ss = int (length content)" "ss_content_hash ss = ''sha256:'' @ wp_sha e content" "0 \<le> ss_rows ss" "ss_rows ss \<le> wp_max_rows e" "ss_body_bytes ss \<le> wp_max_bytes e"
    using sn by blast+
  moreover have "wp_max_rows e \<le> 10000000" "wp_max_bytes e \<le> 4 * 1024 ^ 3" using world unfolding export_world_def by blast+
  ultimately have ok: "signed_ok kind (int (length (chunks_of CHUNK_BYTES content))) ss"
    using asked(3) unfolding signed_ok_def chunk_total by (intro conjI; simp)
  have c: "content = export_content kind provider ?ws (be_catalog b) (be_db b)" using sn db by simp
  have kf: "keeps_flat (wp_columns e)" and gz: "gzip_bounded (wp_codec e)" using world unfolding export_world_def by blast+
  obtain d0 where d0: "new_download (wp_sha e) ?job ?ws f deadline = Inr d0" "on_track (wp_sha e) (chunks_of CHUNK_BYTES content) (''attempt-'' @ str_int (j_ownership_generation j)) 0 d0"
      "dn_job_id d0 = ?job" "dn_workspace_id d0 = ?ws" "dn_deadline d0 = deadline"
    using new_download_on_track [OF kf m ok f(3,4) lim(1,2)] by blast
  have "parts_ready (wp_codec e) b' (dn_job_id d0) (dn_workspace_id d0) (j_ownership_generation j) content"
    "list_all (steady b' (dn_job_id d0) (dn_deadline d0)) (si # sis)" "length (chunks_of CHUNK_BYTES content) < length sis"
    using ready seen by (simp_all only: d0(3-5) c)
  from primed_drain [OF this(1) gz this(2) d0(2) this(3)]
  obtain d1 where "prime (wp_sha e) (wp_codec e) si d0 = (Inr (), d1)" "drain (wp_sha e) (wp_codec e) sis d1 = (chunks_of CHUNK_BYTES content, Some (Inr ()))"
    by blast
  moreover have "concat (chunks_of CHUNK_BYTES content) = export_content kind provider ?ws (be_catalog b) (be_db b)" by (simp only: chunks_of_concat [OF CHUNK_BYTES_pos] c)
  ultimately show ?thesis using f(1,2) d0(1) by blast
qed

theorem finished_export_downloads_witness:
  "\<exists>b' f d0 d1 parts. prepare_export quiet_workshop (fresh_conn 7) graph_job graph_bench = (Inr (finished ''Immutable export finalized''), b')
     \<and> new_download (wp_sha quiet_workshop) 1 ''local'' f 60 = Inr d0 \<and> prime (wp_sha quiet_workshop) plain_codec (look b') d0 = (Inr (), d1)
     \<and> drain (wp_sha quiet_workshop) plain_codec [look b', look b'] d1 = (parts, Some (Inr ())) \<and> concat parts = csv_row GRAPH_FIELDS"
proof -
  obtain b' where run: "prepare_export quiet_workshop (fresh_conn 7) graph_job graph_bench = (Inr (finished ''Immutable export finalized''), b')" by (rule graph_exported)
  have asked: "archive_request graph_job graph_bench = Inr graph_request" "export_request graph_request = Inr (''graph'', None)" "''graph'' \<in> set export_kinds"
    by code_simp+
  have ws: "aj_workspace_id graph_request = ''local''" "j_id graph_job = 1" "wp_codec quiet_workshop = plain_codec" by (simp_all add: graph_request_def graph_job_def sample_job_def quiet_workshop_def)
  have place: "artifact_prefix (wp_sha quiet_workshop) (aj_workspace_id graph_request) (j_id graph_job) = Inr (''artifacts/'' @ replicate 64 CHR ''0'' @ ''/1/'')"
    "1 \<le> j_ownership_generation graph_job" by code_simp+
  have world: "export_world quiet_workshop"
    using plain_codec_ok by (auto simp: export_world_def quiet_workshop_def gzip_bounded_def plain_codec_def keeps_flat_def plain_columns_def known_backend_def disk_def Suc_le_eq)
  have tables: "arch_wf (be_arch graph_bench)" "shelf_ok (be_arch graph_bench) (be_shelf graph_bench)" "\<forall>k \<in> set (sh_chunks (be_shelf graph_bench)). 0 < ac_ordinal k"
    by (simp_all add: graph_bench_def arch_wf_def no_arch_def shelf_ok_def parts_bytes_def parts_of_def map_filter_def)
  have text': "export_content ''graph'' None (aj_workspace_id graph_request) (be_catalog graph_bench) (be_db graph_bench) = graph_header" by code_simp
  have "chunks_of CHUNK_BYTES graph_header = [graph_header]"
    by (rule chunks_of_small) (use header_length in \<open>auto simp: CHUNK_BYTES_def\<close>)
  then have seen: "list_all (steady b' (j_id graph_job) 60) (look b' # [look b', look b'])"
    "length (chunks_of CHUNK_BYTES (export_content ''graph'' None (aj_workspace_id graph_request) (be_catalog graph_bench) (be_db graph_bench))) < length [look b', look b']"
    by (simp_all add: steady_def look_def text')
  from finished_export_downloads [OF run asked place world tables seen] show ?thesis
    using run unfolding ws text' [unfolded ws graph_header_def] by blast
qed

end
